(* ===== verification/Go_Prelude.thy ===== *)
theory Go_Prelude
  imports Main "HOL-Library.Word"
begin

text \<open>
  The part of the Go language and of its standard library that the components share:
  machine integers as words, a fault type that tells a returned \<^verbatim>\<open>error\<close> from a
  run-time panic, slices with their capacity, and the big-endian accessors of
  \<^verbatim>\<open>encoding/binary\<close>. The lemmas here are the automation of the codec theories:
  the collection \<open>go_simps\<close> evaluates slice expressions whose bounds are in range.
\<close>

unbundle bit_operations_syntax

named_theorems go_simps \<open>evaluation of slice expressions and of monadic glue\<close>

section \<open>Machine integers and results\<close>

type_synonym u8 = "8 word"
type_synonym u16 = "16 word"
type_synonym u32 = "32 word"
type_synonym u64 = "64 word"
type_synonym bytes = "u8 list"

text \<open>
  \<open>Err m\<close> is a non-nil \<^verbatim>\<open>error\<close> value returned by the function, with its message;
  \<open>Panic\<close> is a run-time panic (an index or slice bound out of range, a division by zero).
\<close>

datatype fault = Err string | Panic

type_synonym 'a res = "fault + 'a"

definition bind_res :: "'a res \<Rightarrow> ('a \<Rightarrow> 'b res) \<Rightarrow> 'b res" where
  "bind_res m f = (case m of Inl e \<Rightarrow> Inl e | Inr x \<Rightarrow> f x)"

definition check :: "bool \<Rightarrow> string \<Rightarrow> unit res" where
  "check b msg = (if b then Inr () else Inl (Err msg))"

lemma bind_res_simps [simp]:
  "bind_res (Inl e) f = Inl e"
  "bind_res (Inr x) f = f x"
  by (simp_all add: bind_res_def)

lemma bind_res_cong [fundef_cong]:
  "m = m' \<Longrightarrow> (\<And>x. m' = Inr x \<Longrightarrow> f x = g x) \<Longrightarrow> bind_res m f = bind_res m' g"
  by (cases m') (simp_all add: bind_res_def)

lemma bind_res_assoc:
  "bind_res (bind_res m f) g = bind_res m (\<lambda>x. bind_res (f x) g)"
  by (cases m) simp_all

lemma bind_res_eq_Inr_iff:
  "bind_res m f = Inr y \<longleftrightarrow> (\<exists>x. m = Inr x \<and> f x = Inr y)"
  by (cases m) simp_all

lemma bind_res_eq_Inl_iff:
  "bind_res m f = Inl e \<longleftrightarrow> m = Inl e \<or> (\<exists>x. m = Inr x \<and> f x = Inl e)"
  by (cases m) simp_all

lemma check_simps [simp]:
  "check True msg = Inr ()"
  "check False msg = Inl (Err msg)"
  by (simp_all add: check_def)

lemma check_eq_Inr_iff [simp]: "check b msg = Inr u \<longleftrightarrow> b"
  by (simp add: check_def)

lemma check_eq_Inl_iff: "check b msg = Inl e \<longleftrightarrow> \<not> b \<and> e = Err msg"
  by (auto simp: check_def)

lemma check_not_Panic [simp]: "check b msg \<noteq> Inl Panic"
  by (simp add: check_def)

text \<open>A function that returns without a run-time panic, with a value or with an error.\<close>

definition no_panic :: "'a res \<Rightarrow> bool" where
  "no_panic r \<longleftrightarrow> r \<noteq> Inl Panic"

lemma no_panic_simps [simp]:
  "no_panic (Inr x)"
  "no_panic (Inl (Err msg))"
  "\<not> no_panic (Inl Panic)"
  "no_panic (check b msg)"
  by (simp_all add: no_panic_def)

lemma no_panic_bind:
  "no_panic m \<Longrightarrow> (\<And>x. m = Inr x \<Longrightarrow> no_panic (f x)) \<Longrightarrow> no_panic (bind_res m f)"
  by (cases m) (auto simp: no_panic_def)

section \<open>Big-endian words\<close>

text \<open>\<^verbatim>\<open>binary.BigEndian.PutUint\<^emph>\<open>n\<close>\<close> as the list of the \<open>n\<close> bytes written.\<close>

fun be_bytes :: "nat \<Rightarrow> 'a::len word \<Rightarrow> bytes" where
  "be_bytes 0 w = []"
| "be_bytes (Suc n) w = be_bytes n (drop_bit 8 w) @ [ucast w]"

text \<open>\<^verbatim>\<open>binary.BigEndian.Uint\<^emph>\<open>n\<close>\<close> on exactly the bytes it reads.\<close>

definition of_be :: "bytes \<Rightarrow> 'a::len word" where
  "of_be bs = foldl (\<lambda>acc b. push_bit 8 acc OR ucast b) 0 bs"

lemma of_be_Nil [simp]: "of_be [] = 0"
  by (simp add: of_be_def)

lemma of_be_snoc: "of_be (bs @ [b]) = push_bit 8 (of_be bs) OR ucast b"
  by (simp add: of_be_def)

lemma length_be_bytes [simp]: "length (be_bytes n w) = n"
  by (induction n arbitrary: w) simp_all

lemma be_bytes_numeral:
  "be_bytes (numeral k) w = be_bytes (pred_numeral k) (drop_bit 8 w) @ [ucast w]"
  by (simp add: numeral_eq_Suc)

lemma take_bit_step:
  fixes w :: "'a::len word"
  shows "push_bit 8 (take_bit (8 * n) (drop_bit 8 w)) OR ucast (ucast w :: u8) = take_bit (8 * Suc n) w"
  by (rule bit_word_eqI) (auto simp: bit_simps)

lemma of_be_be_bytes: "of_be (be_bytes n w) = take_bit (8 * n) w"
  for w :: "'a::len word"
  by (induction n arbitrary: w) (simp_all add: of_be_snoc take_bit_step)

lemma of_be_be_bytes_id [simp]:
  "LENGTH('a::len) \<le> 8 * n \<Longrightarrow> of_be (be_bytes n w) = (w :: 'a word)"
  by (simp add: of_be_be_bytes take_bit_word_eq_self)

lemma bit_u8_less: "bit (b :: u8) i \<Longrightarrow> i < 8"
  by (drule bit_imp_le_length) simp

lemma drop_bit_snoc:
  fixes w :: "'a::len word"
  assumes "8 * Suc n \<le> LENGTH('a)" and "take_bit (8 * n) w = w"
  shows "drop_bit 8 (push_bit 8 w OR ucast (b :: u8)) = w"
proof (rule bit_word_eqI)
  fix i assume i: "i < LENGTH('a)"
  have big: "\<not> bit w i" if "\<not> i < 8 * n"
    using that assms(2) bit_take_bit_iff [of "8 * n" w i] by simp
  have small: "\<not> bit b (8 + i)"
    using bit_u8_less [of b "8 + i"] by auto
  show "bit (drop_bit 8 (push_bit 8 w OR ucast b)) i = bit w i"
    using i assms(1) big small by (cases "i < 8 * n") (auto simp: bit_simps)
qed

lemma ucast_snoc: "ucast (push_bit 8 w OR ucast (b :: u8) :: 'a::len word) = b"
  if "8 \<le> LENGTH('a)"
  using that by (intro bit_word_eqI) (auto simp: bit_simps)

lemma take_bit_of_be:
  "8 * length bs \<le> LENGTH('a) \<Longrightarrow> take_bit (8 * length bs) (of_be bs :: 'a::len word) = of_be bs"
proof (induction bs rule: rev_induct)
  case Nil
  show ?case by simp
next
  case (snoc b bs)
  then have IH: "take_bit (8 * length bs) (of_be bs :: 'a word) = of_be bs" by simp
  have hi: "\<not> bit (of_be bs :: 'a word) i" if "8 * length bs \<le> i" for i
    using that IH bit_take_bit_iff [of "8 * length bs" "of_be bs :: 'a word" i] by simp
  show ?case
    by (rule bit_word_eqI)
      (use hi [of "_ - 8"] in \<open>force simp: of_be_snoc bit_simps dest: bit_u8_less\<close>)
qed

lemma be_bytes_of_be:
  "8 * length bs \<le> LENGTH('a) \<Longrightarrow> be_bytes (length bs) (of_be bs :: 'a::len word) = bs"
proof (induction bs rule: rev_induct)
  case Nil
  show ?case by simp
next
  case (snoc b bs)
  then have fits: "8 * Suc (length bs) \<le> LENGTH('a)" by simp
  then have "drop_bit 8 (of_be (bs @ [b]) :: 'a word) = of_be bs"
    unfolding of_be_snoc by (intro drop_bit_snoc [of "length bs"] take_bit_of_be) simp_all
  moreover have "(ucast (of_be (bs @ [b]) :: 'a word) :: u8) = b"
    using fits unfolding of_be_snoc by (intro ucast_snoc) simp
  ultimately show ?case using snoc.IH fits by simp
qed


text \<open>
  The bytes of a word by their significance. On a literal layout the codec proofs read
  and write words through these equations only, so that no bit-level reasoning remains.
\<close>

definition byte_of :: "nat \<Rightarrow> 'a::len word \<Rightarrow> u8" where
  "byte_of i w = ucast (drop_bit (8 * i) w)"

lemma be_bytes_byte_of: "be_bytes n w = map (\<lambda>i. byte_of i w) (rev [0..<n])"
proof (induction n arbitrary: w)
  case 0
  show ?case by simp
next
  case (Suc n)
  have "rev [0..<Suc n] = map Suc (rev [0..<n]) @ [0]"
    by (simp add: rev_map [symmetric] map_Suc_upt upt_conv_Cons del: upt_Suc)
  then show ?case
    by (simp add: Suc.IH byte_of_def drop_bit_drop_bit comp_def add.commute)
qed

lemma upt_small:
  "[0..<2] = [0, 1 :: nat]"
  "[0..<3] = [0, 1, 2 :: nat]"
  "[0..<4] = [0, 1, 2, 3 :: nat]"
  "[0..<8] = [0, 1, 2, 3, 4, 5, 6, 7 :: nat]"
  by (simp_all add: upt_rec)

lemma be_bytes_16: "be_bytes 2 w = [byte_of (Suc 0) w, byte_of 0 w]"
  by (simp add: be_bytes_byte_of upt_small)

lemma be_bytes_24: "be_bytes 3 w = [byte_of 2 w, byte_of (Suc 0) w, byte_of 0 w]"
  by (simp add: be_bytes_byte_of upt_small)

lemma be_bytes_32: "be_bytes 4 w = [byte_of 3 w, byte_of 2 w, byte_of (Suc 0) w, byte_of 0 w]"
  by (simp add: be_bytes_byte_of upt_small)

lemma be_bytes_64:
  "be_bytes 8 w = [byte_of 7 w, byte_of 6 w, byte_of 5 w, byte_of 4 w,
                   byte_of 3 w, byte_of 2 w, byte_of (Suc 0) w, byte_of 0 w]"
  by (simp add: be_bytes_byte_of upt_small)

lemma of_be_16: "of_be [byte_of (Suc 0) w, byte_of 0 w] = (w :: u16)"
  using of_be_be_bytes_id [of 2 w] by (simp add: be_bytes_16)

lemma of_be_32: "of_be [byte_of 3 w, byte_of 2 w, byte_of (Suc 0) w, byte_of 0 w] = (w :: u32)"
  using of_be_be_bytes_id [of 4 w] by (simp add: be_bytes_32)

lemma of_be_64:
  "of_be [byte_of 7 w, byte_of 6 w, byte_of 5 w, byte_of 4 w,
          byte_of 3 w, byte_of 2 w, byte_of (Suc 0) w, byte_of 0 w] = (w :: u64)"
  using of_be_be_bytes_id [of 8 w] by (simp add: be_bytes_64)

lemmas be_simps = be_bytes_16 be_bytes_32 be_bytes_64 of_be_16 of_be_32 of_be_64

lemma unat_of_nat_16 [simp]: "n < 65536 \<Longrightarrow> unat (of_nat n :: u16) = n"
  by (simp add: unat_of_nat take_bit_nat_eq_self)

lemma unat_of_nat_8 [simp]: "n < 256 \<Longrightarrow> unat (of_nat n :: u8) = n"
  by (simp add: unat_of_nat take_bit_nat_eq_self)

lemma unat_of_nat_32 [simp]: "n < 4294967296 \<Longrightarrow> unat (of_nat n :: u32) = n"
  by (simp add: unat_of_nat take_bit_nat_eq_self)

lemma unat_numeral_add_of_nat [simp]:
  "numeral k + n < 256 \<Longrightarrow> unat (numeral k + of_nat n :: u8) = numeral k + n"
  "numeral k + n < 65536 \<Longrightarrow> unat (numeral k + of_nat n :: u16) = numeral k + n"
  "numeral k + n < 4294967296 \<Longrightarrow> unat (numeral k + of_nat n :: u32) = numeral k + n"
  using unat_of_nat_8 [of "numeral k + n"] unat_of_nat_16 [of "numeral k + n"]
    unat_of_nat_32 [of "numeral k + n"] by simp_all

lemma unat_u8_less [simp]: "unat (w :: u8) < 256"
  using unsigned_less [of w] by simp

lemma unat_u16_less [simp]: "unat (w :: u16) < 65536"
  using unsigned_less [of w] by simp

lemma take_bit_id: "unat w < 2 ^ n \<Longrightarrow> take_bit n w = w" for w :: "'a::len word"
  by (simp add: word_unat_eq_iff unsigned_take_bit_eq take_bit_nat_eq_self)

lemma drop_bit_eq_zero: "unat w < 2 ^ n \<Longrightarrow> drop_bit n w = 0" for w :: "'a::len word"
  by (simp add: take_bit_id flip: take_bit_eq_self_iff_drop_bit_eq_0)

lemma and_mask_id: "unat w < 2 ^ n \<Longrightarrow> w AND mask n = w" for w :: "'a::len word"
  by (simp add: take_bit_id flip: take_bit_eq_mask)

text \<open>A sum that passes the width once.\<close>

lemma mod_wrap_once: "m \<le> n \<Longrightarrow> n < 2 * m \<Longrightarrow> n mod m = n - m" for n :: nat
  by (simp add: le_mod_geq)

section \<open>Lists at literal offsets\<close>

lemma drop_Cons_numeral_add: "drop (numeral k + n) (x # xs) = drop (pred_numeral k + n) xs"
  by (simp add: numeral_eq_Suc)

lemma take_Cons_numeral_add: "take (numeral k + n) (x # xs) = x # take (pred_numeral k + n) xs"
  by (simp add: numeral_eq_Suc)

lemmas bytes_eval =
  nth_Cons_numeral drop_Cons_numeral take_Cons_numeral
  drop_Cons_numeral_add take_Cons_numeral_add be_simps

section \<open>Slices\<close>

text \<open>
  A slice is a window on a backing array: the elements up to its length, and the elements
  between its length and its capacity, which the slice expression \<^verbatim>\<open>s[a:b]\<close> can reach
  (Go bounds the upper index of a slice expression by the capacity, an index expression
  and \<^verbatim>\<open>s[a:]\<close> by the length). Nil and empty slices are not told apart, since the
  modelled code only ranges over, appends to and takes the length of slices.
\<close>

datatype slice = Slice (sdata: bytes) (sspare: bytes)

definition slen :: "slice \<Rightarrow> nat" where
  "slen s = length (sdata s)"

definition sl_at :: "slice \<Rightarrow> nat \<Rightarrow> u8 res" where
  "sl_at s i = (if i < slen s then Inr (sdata s ! i) else Inl Panic)"

definition sl_from :: "slice \<Rightarrow> nat \<Rightarrow> slice res" where
  "sl_from s a = (if a \<le> slen s then Inr (Slice (drop a (sdata s)) (sspare s)) else Inl Panic)"

definition sl_range :: "slice \<Rightarrow> nat \<Rightarrow> nat \<Rightarrow> slice res" where
  "sl_range s a b =
     (if a \<le> b \<and> b \<le> slen s + length (sspare s)
      then Inr (Slice (take (b - a) (drop a (sdata s @ sspare s))) (drop b (sdata s @ sspare s)))
      else Inl Panic)"

text \<open>\<^verbatim>\<open>binary.BigEndian.Uint16(s)\<close> and its kin index the last byte they read.\<close>

definition sl_be :: "nat \<Rightarrow> slice \<Rightarrow> 'a::len word res" where
  "sl_be n s = (if n \<le> slen s then Inr (of_be (take n (sdata s))) else Inl Panic)"

text \<open>\<^verbatim>\<open>binary.BigEndian.Uint16(s[a:a+2])\<close> and the wider reads.\<close>

definition sl_u16 :: "slice \<Rightarrow> nat \<Rightarrow> u16 res" where
  "sl_u16 s a = bind_res (sl_range s a (a + 2)) (sl_be 2)"

definition sl_u32 :: "slice \<Rightarrow> nat \<Rightarrow> u32 res" where
  "sl_u32 s a = bind_res (sl_range s a (a + 4)) (sl_be 4)"

definition sl_u64 :: "slice \<Rightarrow> nat \<Rightarrow> u64 res" where
  "sl_u64 s a = bind_res (sl_range s a (a + 8)) (sl_be 8)"

lemma slen_Slice [simp]: "slen (Slice d sp) = length d"
  by (simp add: slen_def)

lemma sl_at_ok [go_simps]: "i < length d \<Longrightarrow> sl_at (Slice d sp) i = Inr (d ! i)"
  by (simp add: sl_at_def)

lemma sl_from_ok [go_simps]: "a \<le> length d \<Longrightarrow> sl_from (Slice d sp) a = Inr (Slice (drop a d) sp)"
  by (simp add: sl_from_def)

lemma sl_range_ok [go_simps]:
  "a \<le> b \<Longrightarrow> b \<le> length d \<Longrightarrow>
   sl_range (Slice d sp) a b = Inr (Slice (take (b - a) (drop a d)) (drop b d @ sp))"
  by (simp add: sl_range_def)

lemma sl_be_ok [go_simps]: "n \<le> length d \<Longrightarrow> sl_be n (Slice d sp) = Inr (of_be (take n d))"
  by (simp add: sl_be_def)

lemma sl_u16_ok [go_simps]:
  "a + 2 \<le> length d \<Longrightarrow> sl_u16 (Slice d sp) a = Inr (of_be (take 2 (drop a d)))"
  by (simp add: sl_u16_def go_simps)

lemma sl_u32_ok [go_simps]:
  "a + 4 \<le> length d \<Longrightarrow> sl_u32 (Slice d sp) a = Inr (of_be (take 4 (drop a d)))"
  by (simp add: sl_u32_def go_simps)

lemma sl_u64_ok [go_simps]:
  "a + 8 \<le> length d \<Longrightarrow> sl_u64 (Slice d sp) a = Inr (of_be (take 8 (drop a d)))"
  by (simp add: sl_u64_def go_simps)

text \<open>The same reads never panic where the length admits them.\<close>

named_theorems np_intros \<open>reads that cannot panic\<close>

lemma sl_at_np [np_intros]: "i < slen s \<Longrightarrow> no_panic (sl_at s i)"
  by (simp add: sl_at_def)

lemma sl_from_np [np_intros]: "a \<le> slen s \<Longrightarrow> no_panic (sl_from s a)"
  by (simp add: sl_from_def)

lemma sl_range_np [np_intros]: "a \<le> b \<Longrightarrow> b \<le> slen s \<Longrightarrow> no_panic (sl_range s a b)"
  by (simp add: sl_range_def)

lemma sl_u16_np [np_intros]: "a + 2 \<le> slen s \<Longrightarrow> no_panic (sl_u16 s a)"
  by (cases s) (simp add: go_simps)

lemma sl_u32_np [np_intros]: "a + 4 \<le> slen s \<Longrightarrow> no_panic (sl_u32 s a)"
  by (cases s) (simp add: go_simps)

lemma sl_u64_np [np_intros]: "a + 8 \<le> slen s \<Longrightarrow> no_panic (sl_u64 s a)"
  by (cases s) (simp add: go_simps)

text \<open>What the reads return, for the termination and length arguments of the loops.\<close>

lemma sl_from_InrD: "sl_from s a = Inr t \<Longrightarrow> a \<le> slen s \<and> t = Slice (drop a (sdata s)) (sspare s)"
  by (auto simp: sl_from_def split: if_splits)

lemma slen_sl_from: "sl_from s a = Inr t \<Longrightarrow> slen t = slen s - a"
  by (auto simp: slen_def dest: sl_from_InrD)

lemma slen_sl_range: "sl_range s a b = Inr t \<Longrightarrow> slen t = b - a"
  by (auto simp: sl_range_def slen_def split: if_splits)

end
