(* ===== verification/Go_Codec.thy ===== *)
theory Go_Codec
  imports Go_Prelude
begin

text \<open>
  The interfaces between the layers of the wire codecs: what the codec of a payload or of
  an information element promises to the message codec (\<open>binary_codec\<close>,
  \<open>safe_binary_codec\<close>), and what a decoder of one element of a sequence promises to the
  loop that runs it (\<open>framed_loop\<close>). Every codec of the development interprets them.
\<close>

section \<open>The contract of a binary codec\<close>

text \<open>
  \<open>fresh\<close> is the zero value that \<^verbatim>\<open>new(T)\<close> gives, \<open>wf\<close> the values that survive the
  wire. A decoder reads a window of a larger buffer, so its law holds whatever follows
  the window in the backing array.
\<close>

locale binary_codec =
  fixes fresh :: "'p"
    and marshal :: "'p \<Rightarrow> bytes res"
    and unmarshal :: "'p \<Rightarrow> slice \<Rightarrow> 'p res"
    and wf :: "'p \<Rightarrow> bool"
  assumes marshal_total: "wf p \<Longrightarrow> \<exists>d. marshal p = Inr d"
    and unmarshal_marshal: "wf p \<Longrightarrow> marshal p = Inr d \<Longrightarrow> unmarshal fresh (Slice d sp) = Inr p"
begin

lemma roundtrip: "wf p \<Longrightarrow> \<exists>d. marshal p = Inr d \<and> (\<forall>sp. unmarshal fresh (Slice d sp) = Inr p)"
  using marshal_total unmarshal_marshal by blast

lemma marshal_inj: "wf p \<Longrightarrow> wf q \<Longrightarrow> marshal p = marshal q \<Longrightarrow> p = q"
  using marshal_total unmarshal_marshal by (metis Inr_inject)

end

text \<open>A codec whose decoder never panics, on any window of any buffer.\<close>

locale safe_binary_codec = binary_codec +
  assumes unmarshal_safe: "no_panic (unmarshal p s)"
begin

lemma not_Panic [simp]: "unmarshal p s \<noteq> Inl Panic"
  using unmarshal_safe [of p s] by (simp add: no_panic_def)

lemma unmarshal_cases:
  obtains (ok) q where "unmarshal p s = Inr q" | (err) msg where "unmarshal p s = Inl (Err msg)"
proof (cases "unmarshal p s")
  case (Inl e)
  then show ?thesis using unmarshal_safe [of p s] err by (cases e) auto
next
  case (Inr q)
  then show ?thesis by (rule ok)
qed

end

section \<open>Sequences of framed elements\<close>

text \<open>
  The encoders of sequences write each element with a mark that says whether another one
  follows; the decoders peel one element after the other off the window.
\<close>

fun enc_list :: "(bool \<Rightarrow> 'a \<Rightarrow> bytes) \<Rightarrow> 'a list \<Rightarrow> bytes" where
  "enc_list enc [] = []"
| "enc_list enc (x # xs) = enc (xs \<noteq> []) x @ enc_list enc xs"

lemma enc_list_const: "enc_list (\<lambda>_. f) xs = concat (map f xs)"
  by (induction xs) simp_all

lemma foldl_snoc: "foldl (\<lambda>acc a. acc @ [a]) s xs = s @ xs"
  by (induction xs arbitrary: s) simp_all

locale framed_loop =
  fixes step :: "slice \<Rightarrow> ('x \<times> slice) res"
    and upd :: "'s \<Rightarrow> 'x \<Rightarrow> 's"
    and loop :: "'s \<Rightarrow> slice \<Rightarrow> 's res"
    and enc :: "bool \<Rightarrow> 'x \<Rightarrow> bytes"
    and ok :: "'x \<Rightarrow> bool"
  assumes loop_unfold:
      "loop s raw = (if slen raw > 0
         then bind_res (step raw) (\<lambda>(x, raw'). loop (upd s x) raw') else Inr s)"
    and step_shrinks: "step raw = Inr (x, raw') \<Longrightarrow> slen raw' < slen raw"
    and step_enc: "ok x \<Longrightarrow> step (Slice (enc another x @ r) sp) = Inr (x, Slice r sp)"
    and enc_ne: "ok x \<Longrightarrow> enc another x \<noteq> []"
begin

lemma loop_nil [simp]: "loop s (Slice [] sp) = Inr s"
  by (subst loop_unfold) simp

lemma loop_cons:
  "ok x \<Longrightarrow> loop s (Slice (enc another x @ r) sp) = loop (upd s x) (Slice r sp)"
  by (subst loop_unfold) (simp add: enc_ne step_enc)

lemma loop_enc_list:
  "\<forall>x\<in>set xs. ok x \<Longrightarrow> loop s (Slice (enc_list enc xs) sp) = Inr (foldl upd s xs)"
  by (induction xs arbitrary: s) (simp_all add: loop_cons)

lemma loop_no_panic:
  assumes "\<And>raw. slen raw > 0 \<Longrightarrow> no_panic (step raw)"
  shows "no_panic (loop s raw)"
proof (induction "slen raw" arbitrary: s raw rule: less_induct)
  case less
  show ?case
    using less.hyps step_shrinks assms
    by (subst loop_unfold) (auto intro!: no_panic_bind)
qed

end

end
