(* ===== verification/IKE_Types.thy ===== *)
theory IKE_Types
  imports Go_Codec
begin

text \<open>
  The constants of \<^verbatim>\<open>src/n3iwf/ike/message/types.go\<close> that the codec and the
  message builders use.
\<close>

section \<open>Constants\<close>

definition NoNext :: u8 where [simp]: "NoNext = 0"
definition TypeSA :: u8 where [simp]: "TypeSA = 33"
definition TypeKE :: u8 where [simp]: "TypeKE = 34"
definition TypeIDi :: u8 where [simp]: "TypeIDi = 35"
definition TypeIDr :: u8 where [simp]: "TypeIDr = 36"
definition TypeCERT :: u8 where [simp]: "TypeCERT = 37"
definition TypeCERTreq :: u8 where [simp]: "TypeCERTreq = 38"
definition TypeAUTH :: u8 where [simp]: "TypeAUTH = 39"
definition TypeNiNr :: u8 where [simp]: "TypeNiNr = 40"
definition TypeN :: u8 where [simp]: "TypeN = 41"
definition TypeD :: u8 where [simp]: "TypeD = 42"
definition TypeV :: u8 where [simp]: "TypeV = 43"
definition TypeTSi :: u8 where [simp]: "TypeTSi = 44"
definition TypeTSr :: u8 where [simp]: "TypeTSr = 45"
definition TypeSK :: u8 where [simp]: "TypeSK = 46"
definition TypeCP :: u8 where [simp]: "TypeCP = 47"
definition TypeEAP :: u8 where [simp]: "TypeEAP = 48"

definition EAPTypeIdentity :: u8 where [simp]: "EAPTypeIdentity = 1"
definition EAPTypeNotification :: u8 where [simp]: "EAPTypeNotification = 2"
definition EAPTypeNak :: u8 where [simp]: "EAPTypeNak = 3"
definition EAPTypeExpanded :: u8 where [simp]: "EAPTypeExpanded = 254"

definition EAPCodeRequest :: u8 where [simp]: "EAPCodeRequest = 1"
definition EAPCodeResponse :: u8 where [simp]: "EAPCodeResponse = 2"
definition EAPCodeSuccess :: u8 where [simp]: "EAPCodeSuccess = 3"
definition EAPCodeFailure :: u8 where [simp]: "EAPCodeFailure = 4"

definition TypeEncryptionAlgorithm :: u8 where [simp]: "TypeEncryptionAlgorithm = 1"
definition TypePseudorandomFunction :: u8 where [simp]: "TypePseudorandomFunction = 2"
definition TypeIntegrityAlgorithm :: u8 where [simp]: "TypeIntegrityAlgorithm = 3"
definition TypeDiffieHellmanGroup :: u8 where [simp]: "TypeDiffieHellmanGroup = 4"
definition TypeExtendedSequenceNumbers :: u8 where [simp]: "TypeExtendedSequenceNumbers = 5"

definition AttributeFormatUseTLV :: u8 where [simp]: "AttributeFormatUseTLV = 0"
definition AttributeFormatUseTV :: u8 where [simp]: "AttributeFormatUseTV = 1"

definition TS_IPV4_ADDR_RANGE :: u8 where [simp]: "TS_IPV4_ADDR_RANGE = 7"
definition TS_IPV6_ADDR_RANGE :: u8 where [simp]: "TS_IPV6_ADDR_RANGE = 8"

definition TypeNone :: u8 where [simp]: "TypeNone = 0"
definition VendorID3GPP :: u32 where [simp]: "VendorID3GPP = 10415"
definition VendorTypeEAP5G :: u32 where [simp]: "VendorTypeEAP5G = 3"
definition EAP5GType5GStart :: u8 where [simp]: "EAP5GType5GStart = 1"
definition EAP5GType5GNAS :: u8 where [simp]: "EAP5GType5GNAS = 2"
definition EAP5GSpareValue :: u8 where [simp]: "EAP5GSpareValue = 0"

definition Vendor3GPPNotifyType5G_QOS_INFO :: u16 where
  [simp]: "Vendor3GPPNotifyType5G_QOS_INFO = 55501"
definition Vendor3GPPNotifyTypeNAS_IP4_ADDRESS :: u16 where
  [simp]: "Vendor3GPPNotifyTypeNAS_IP4_ADDRESS = 55502"
definition Vendor3GPPNotifyTypeUP_IP4_ADDRESS :: u16 where
  [simp]: "Vendor3GPPNotifyTypeUP_IP4_ADDRESS = 55504"
definition Vendor3GPPNotifyTypeNAS_TCP_PORT :: u16 where
  [simp]: "Vendor3GPPNotifyTypeNAS_TCP_PORT = 55506"
definition NotifyType5G_QOS_INFOBitDCSICheck :: u8 where
  [simp]: "NotifyType5G_QOS_INFOBitDCSICheck = 2"

end
