(* ===== verification/IKE_Payload.thy ===== *)
theory IKE_Payload
  imports IKE_Types
begin

text \<open>
  The payload types of \<^verbatim>\<open>src/n3iwf/ike/message/message.go\<close> that carry no list of
  structures: key exchange, identifications, certificates, authentication, nonce,
  notification, delete, vendor id and encrypted payloads. Each has its struct as a record,
  the zero value of \<^verbatim>\<open>new(T)\<close>, \<^verbatim>\<open>marshal\<close>, \<^verbatim>\<open>unmarshal\<close> (which updates its
  receiver), the values that survive the wire, and an interpretation of the codec contract.
\<close>

section \<open>Fixed header and opaque data\<close>

subsection \<open>Key exchange\<close>

record KeyExchange =
  ke_DiffieHellmanGroup :: u16
  ke_KeyExchangeData :: bytes

definition KeyExchange_new :: KeyExchange where
  "KeyExchange_new = \<lparr>ke_DiffieHellmanGroup = 0, ke_KeyExchangeData = []\<rparr>"

definition KeyExchange_marshal :: "KeyExchange \<Rightarrow> bytes res" where
  "KeyExchange_marshal p = Inr (be_bytes 2 (ke_DiffieHellmanGroup p) @ [0, 0] @ ke_KeyExchangeData p)"

definition KeyExchange_unmarshal :: "KeyExchange \<Rightarrow> slice \<Rightarrow> KeyExchange res" where
  "KeyExchange_unmarshal p rawData =
     (if slen rawData > 0 then
        bind_res (check (\<not> slen rawData \<le> 4) ''KeyExchange: No sufficient bytes to decode next key exchange data'') (\<lambda>_.
        bind_res (sl_u16 rawData 0) (\<lambda>v.
        bind_res (sl_from rawData 4) (\<lambda>d.
        Inr (p\<lparr>ke_DiffieHellmanGroup := v, ke_KeyExchangeData := ke_KeyExchangeData p @ sdata d\<rparr>))))
      else Inr p)"

definition KeyExchange_wf :: "KeyExchange \<Rightarrow> bool" where
  "KeyExchange_wf p \<longleftrightarrow> ke_KeyExchangeData p \<noteq> []"

interpretation ke: safe_binary_codec KeyExchange_new KeyExchange_marshal KeyExchange_unmarshal KeyExchange_wf
proof unfold_locales
  show "\<exists>d. KeyExchange_marshal p = Inr d" for p
    by (simp add: KeyExchange_marshal_def)
  show "KeyExchange_wf p \<Longrightarrow> KeyExchange_marshal p = Inr d \<Longrightarrow>
      KeyExchange_unmarshal KeyExchange_new (Slice d sp) = Inr p" for p d sp
    by (cases p) (auto simp: KeyExchange_marshal_def KeyExchange_unmarshal_def KeyExchange_new_def
      KeyExchange_wf_def go_simps bytes_eval Suc_le_eq)
  show "no_panic (KeyExchange_unmarshal p s)" for p s
    unfolding KeyExchange_unmarshal_def by (auto intro!: no_panic_bind np_intros)
qed

subsection \<open>Identification of the initiator\<close>

record IdentificationInitiator =
  idi_IDType :: u8
  idi_IDData :: bytes

definition IdentificationInitiator_new :: IdentificationInitiator where
  "IdentificationInitiator_new = \<lparr>idi_IDType = 0, idi_IDData = []\<rparr>"

definition IdentificationInitiator_marshal :: "IdentificationInitiator \<Rightarrow> bytes res" where
  "IdentificationInitiator_marshal p = Inr ([idi_IDType p, 0, 0, 0] @ idi_IDData p)"

definition IdentificationInitiator_unmarshal :: "IdentificationInitiator \<Rightarrow> slice \<Rightarrow> IdentificationInitiator res" where
  "IdentificationInitiator_unmarshal p rawData =
     (if slen rawData > 0 then
        bind_res (check (\<not> slen rawData \<le> 4) ''Identification: No sufficient bytes to decode next identification'') (\<lambda>_.
        bind_res (sl_at rawData 0) (\<lambda>v.
        bind_res (sl_from rawData 4) (\<lambda>d.
        Inr (p\<lparr>idi_IDType := v, idi_IDData := idi_IDData p @ sdata d\<rparr>))))
      else Inr p)"

definition IdentificationInitiator_wf :: "IdentificationInitiator \<Rightarrow> bool" where
  "IdentificationInitiator_wf p \<longleftrightarrow> idi_IDData p \<noteq> []"

interpretation idi: safe_binary_codec IdentificationInitiator_new IdentificationInitiator_marshal IdentificationInitiator_unmarshal IdentificationInitiator_wf
proof unfold_locales
  show "\<exists>d. IdentificationInitiator_marshal p = Inr d" for p
    by (simp add: IdentificationInitiator_marshal_def)
  show "IdentificationInitiator_wf p \<Longrightarrow> IdentificationInitiator_marshal p = Inr d \<Longrightarrow>
      IdentificationInitiator_unmarshal IdentificationInitiator_new (Slice d sp) = Inr p" for p d sp
    by (cases p) (auto simp: IdentificationInitiator_marshal_def IdentificationInitiator_unmarshal_def IdentificationInitiator_new_def
      IdentificationInitiator_wf_def go_simps bytes_eval Suc_le_eq)
  show "no_panic (IdentificationInitiator_unmarshal p s)" for p s
    unfolding IdentificationInitiator_unmarshal_def by (auto intro!: no_panic_bind np_intros)
qed

subsection \<open>Identification of the responder\<close>

record IdentificationResponder =
  idr_IDType :: u8
  idr_IDData :: bytes

definition IdentificationResponder_new :: IdentificationResponder where
  "IdentificationResponder_new = \<lparr>idr_IDType = 0, idr_IDData = []\<rparr>"

definition IdentificationResponder_marshal :: "IdentificationResponder \<Rightarrow> bytes res" where
  "IdentificationResponder_marshal p = Inr ([idr_IDType p, 0, 0, 0] @ idr_IDData p)"

definition IdentificationResponder_unmarshal :: "IdentificationResponder \<Rightarrow> slice \<Rightarrow> IdentificationResponder res" where
  "IdentificationResponder_unmarshal p rawData =
     (if slen rawData > 0 then
        bind_res (check (\<not> slen rawData \<le> 4) ''Identification: No sufficient bytes to decode next identification'') (\<lambda>_.
        bind_res (sl_at rawData 0) (\<lambda>v.
        bind_res (sl_from rawData 4) (\<lambda>d.
        Inr (p\<lparr>idr_IDType := v, idr_IDData := idr_IDData p @ sdata d\<rparr>))))
      else Inr p)"

definition IdentificationResponder_wf :: "IdentificationResponder \<Rightarrow> bool" where
  "IdentificationResponder_wf p \<longleftrightarrow> idr_IDData p \<noteq> []"

interpretation idr: safe_binary_codec IdentificationResponder_new IdentificationResponder_marshal IdentificationResponder_unmarshal IdentificationResponder_wf
proof unfold_locales
  show "\<exists>d. IdentificationResponder_marshal p = Inr d" for p
    by (simp add: IdentificationResponder_marshal_def)
  show "IdentificationResponder_wf p \<Longrightarrow> IdentificationResponder_marshal p = Inr d \<Longrightarrow>
      IdentificationResponder_unmarshal IdentificationResponder_new (Slice d sp) = Inr p" for p d sp
    by (cases p) (auto simp: IdentificationResponder_marshal_def IdentificationResponder_unmarshal_def IdentificationResponder_new_def
      IdentificationResponder_wf_def go_simps bytes_eval Suc_le_eq)
  show "no_panic (IdentificationResponder_unmarshal p s)" for p s
    unfolding IdentificationResponder_unmarshal_def by (auto intro!: no_panic_bind np_intros)
qed

subsection \<open>Certificate\<close>

record Certificate =
  cert_CertificateEncoding :: u8
  cert_CertificateData :: bytes

definition Certificate_new :: Certificate where
  "Certificate_new = \<lparr>cert_CertificateEncoding = 0, cert_CertificateData = []\<rparr>"

definition Certificate_marshal :: "Certificate \<Rightarrow> bytes res" where
  "Certificate_marshal p = Inr ([cert_CertificateEncoding p] @ cert_CertificateData p)"

definition Certificate_unmarshal :: "Certificate \<Rightarrow> slice \<Rightarrow> Certificate res" where
  "Certificate_unmarshal p rawData =
     (if slen rawData > 0 then
        bind_res (check (\<not> slen rawData \<le> 1) ''Certificate: No sufficient bytes to decode next certificate'') (\<lambda>_.
        bind_res (sl_at rawData 0) (\<lambda>v.
        bind_res (sl_from rawData 1) (\<lambda>d.
        Inr (p\<lparr>cert_CertificateEncoding := v, cert_CertificateData := cert_CertificateData p @ sdata d\<rparr>))))
      else Inr p)"

definition Certificate_wf :: "Certificate \<Rightarrow> bool" where
  "Certificate_wf p \<longleftrightarrow> cert_CertificateData p \<noteq> []"

interpretation cert: safe_binary_codec Certificate_new Certificate_marshal Certificate_unmarshal Certificate_wf
proof unfold_locales
  show "\<exists>d. Certificate_marshal p = Inr d" for p
    by (simp add: Certificate_marshal_def)
  show "Certificate_wf p \<Longrightarrow> Certificate_marshal p = Inr d \<Longrightarrow>
      Certificate_unmarshal Certificate_new (Slice d sp) = Inr p" for p d sp
    by (cases p) (auto simp: Certificate_marshal_def Certificate_unmarshal_def Certificate_new_def
      Certificate_wf_def go_simps bytes_eval Suc_le_eq)
  show "no_panic (Certificate_unmarshal p s)" for p s
    unfolding Certificate_unmarshal_def by (auto intro!: no_panic_bind np_intros)
qed

subsection \<open>Certificate request\<close>

record CertificateRequest =
  creq_CertificateEncoding :: u8
  creq_CertificationAuthority :: bytes

definition CertificateRequest_new :: CertificateRequest where
  "CertificateRequest_new = \<lparr>creq_CertificateEncoding = 0, creq_CertificationAuthority = []\<rparr>"

definition CertificateRequest_marshal :: "CertificateRequest \<Rightarrow> bytes res" where
  "CertificateRequest_marshal p = Inr ([creq_CertificateEncoding p] @ creq_CertificationAuthority p)"

definition CertificateRequest_unmarshal :: "CertificateRequest \<Rightarrow> slice \<Rightarrow> CertificateRequest res" where
  "CertificateRequest_unmarshal p rawData =
     (if slen rawData > 0 then
        bind_res (check (\<not> slen rawData \<le> 1) ''CertificateRequest: No sufficient bytes to decode next certificate request'') (\<lambda>_.
        bind_res (sl_at rawData 0) (\<lambda>v.
        bind_res (sl_from rawData 1) (\<lambda>d.
        Inr (p\<lparr>creq_CertificateEncoding := v, creq_CertificationAuthority := creq_CertificationAuthority p @ sdata d\<rparr>))))
      else Inr p)"

definition CertificateRequest_wf :: "CertificateRequest \<Rightarrow> bool" where
  "CertificateRequest_wf p \<longleftrightarrow> creq_CertificationAuthority p \<noteq> []"

interpretation creq: safe_binary_codec CertificateRequest_new CertificateRequest_marshal CertificateRequest_unmarshal CertificateRequest_wf
proof unfold_locales
  show "\<exists>d. CertificateRequest_marshal p = Inr d" for p
    by (simp add: CertificateRequest_marshal_def)
  show "CertificateRequest_wf p \<Longrightarrow> CertificateRequest_marshal p = Inr d \<Longrightarrow>
      CertificateRequest_unmarshal CertificateRequest_new (Slice d sp) = Inr p" for p d sp
    by (cases p) (auto simp: CertificateRequest_marshal_def CertificateRequest_unmarshal_def CertificateRequest_new_def
      CertificateRequest_wf_def go_simps bytes_eval Suc_le_eq)
  show "no_panic (CertificateRequest_unmarshal p s)" for p s
    unfolding CertificateRequest_unmarshal_def by (auto intro!: no_panic_bind np_intros)
qed

subsection \<open>Authentication\<close>

record Authentication =
  auth_AuthenticationMethod :: u8
  auth_AuthenticationData :: bytes

definition Authentication_new :: Authentication where
  "Authentication_new = \<lparr>auth_AuthenticationMethod = 0, auth_AuthenticationData = []\<rparr>"

definition Authentication_marshal :: "Authentication \<Rightarrow> bytes res" where
  "Authentication_marshal p = Inr ([auth_AuthenticationMethod p, 0, 0, 0] @ auth_AuthenticationData p)"

definition Authentication_unmarshal :: "Authentication \<Rightarrow> slice \<Rightarrow> Authentication res" where
  "Authentication_unmarshal p rawData =
     (if slen rawData > 0 then
        bind_res (check (\<not> slen rawData \<le> 4) ''Authentication: No sufficient bytes to decode next authentication'') (\<lambda>_.
        bind_res (sl_at rawData 0) (\<lambda>v.
        bind_res (sl_from rawData 4) (\<lambda>d.
        Inr (p\<lparr>auth_AuthenticationMethod := v, auth_AuthenticationData := auth_AuthenticationData p @ sdata d\<rparr>))))
      else Inr p)"

definition Authentication_wf :: "Authentication \<Rightarrow> bool" where
  "Authentication_wf p \<longleftrightarrow> auth_AuthenticationData p \<noteq> []"

interpretation auth: safe_binary_codec Authentication_new Authentication_marshal Authentication_unmarshal Authentication_wf
proof unfold_locales
  show "\<exists>d. Authentication_marshal p = Inr d" for p
    by (simp add: Authentication_marshal_def)
  show "Authentication_wf p \<Longrightarrow> Authentication_marshal p = Inr d \<Longrightarrow>
      Authentication_unmarshal Authentication_new (Slice d sp) = Inr p" for p d sp
    by (cases p) (auto simp: Authentication_marshal_def Authentication_unmarshal_def Authentication_new_def
      Authentication_wf_def go_simps bytes_eval Suc_le_eq)
  show "no_panic (Authentication_unmarshal p s)" for p s
    unfolding Authentication_unmarshal_def by (auto intro!: no_panic_bind np_intros)
qed

section \<open>Opaque data only\<close>

subsection \<open>Nonce\<close>

record Nonce =
  nonce_NonceData :: bytes

definition Nonce_new :: Nonce where
  "Nonce_new = \<lparr>nonce_NonceData = []\<rparr>"

definition Nonce_marshal :: "Nonce \<Rightarrow> bytes res" where
  "Nonce_marshal p = Inr (nonce_NonceData p)"

definition Nonce_unmarshal :: "Nonce \<Rightarrow> slice \<Rightarrow> Nonce res" where
  "Nonce_unmarshal p rawData =
     (if slen rawData > 0 then Inr (p\<lparr>nonce_NonceData := nonce_NonceData p @ sdata rawData\<rparr>) else Inr p)"

interpretation nonce: safe_binary_codec Nonce_new Nonce_marshal Nonce_unmarshal "\<lambda>_. True"
proof unfold_locales
  show "\<exists>d. Nonce_marshal p = Inr d" for p
    by (simp add: Nonce_marshal_def)
  show "Nonce_marshal p = Inr d \<Longrightarrow> Nonce_unmarshal Nonce_new (Slice d sp) = Inr p" for p d sp
    by (cases p) (auto simp: Nonce_marshal_def Nonce_unmarshal_def Nonce_new_def)
  show "no_panic (Nonce_unmarshal p s)" for p s
    by (simp add: Nonce_unmarshal_def)
qed

subsection \<open>Vendor id\<close>

record VendorID =
  vid_VendorIDData :: bytes

definition VendorID_new :: VendorID where
  "VendorID_new = \<lparr>vid_VendorIDData = []\<rparr>"

definition VendorID_marshal :: "VendorID \<Rightarrow> bytes res" where
  "VendorID_marshal p = Inr (vid_VendorIDData p)"

definition VendorID_unmarshal :: "VendorID \<Rightarrow> slice \<Rightarrow> VendorID res" where
  "VendorID_unmarshal p rawData =
     (if slen rawData > 0 then Inr (p\<lparr>vid_VendorIDData := vid_VendorIDData p @ sdata rawData\<rparr>) else Inr p)"

interpretation vid: safe_binary_codec VendorID_new VendorID_marshal VendorID_unmarshal "\<lambda>_. True"
proof unfold_locales
  show "\<exists>d. VendorID_marshal p = Inr d" for p
    by (simp add: VendorID_marshal_def)
  show "VendorID_marshal p = Inr d \<Longrightarrow> VendorID_unmarshal VendorID_new (Slice d sp) = Inr p" for p d sp
    by (cases p) (auto simp: VendorID_marshal_def VendorID_unmarshal_def VendorID_new_def)
  show "no_panic (VendorID_unmarshal p s)" for p s
    by (simp add: VendorID_unmarshal_def)
qed

subsection \<open>Encrypted payload\<close>

text \<open>
  The next-payload field is written and read by the message codec (it is part of the
  generic header), so the payload's own decoder keeps the receiver's.
\<close>

record Encrypted =
  sk_NextPayload :: u8
  sk_EncryptedData :: bytes

definition Encrypted_new :: Encrypted where
  "Encrypted_new = \<lparr>sk_NextPayload = 0, sk_EncryptedData = []\<rparr>"

definition Encrypted_marshal :: "Encrypted \<Rightarrow> bytes res" where
  "Encrypted_marshal p = Inr (sk_EncryptedData p)"

definition Encrypted_unmarshal :: "Encrypted \<Rightarrow> slice \<Rightarrow> Encrypted res" where
  "Encrypted_unmarshal p rawData = Inr (p\<lparr>sk_EncryptedData := sk_EncryptedData p @ sdata rawData\<rparr>)"

lemma Encrypted_roundtrip:
  "Encrypted_unmarshal (Encrypted_new\<lparr>sk_NextPayload := sk_NextPayload p\<rparr>)
     (Slice (sk_EncryptedData p) sp) = Inr p"
  by (cases p) (simp add: Encrypted_unmarshal_def Encrypted_new_def)

interpretation sk: safe_binary_codec Encrypted_new Encrypted_marshal Encrypted_unmarshal
  "\<lambda>p. sk_NextPayload p = NoNext"
proof unfold_locales
  show "\<exists>d. Encrypted_marshal p = Inr d" for p
    by (simp add: Encrypted_marshal_def)
  show "sk_NextPayload p = NoNext \<Longrightarrow> Encrypted_marshal p = Inr d \<Longrightarrow>
      Encrypted_unmarshal Encrypted_new (Slice d sp) = Inr p" for p d sp
    by (cases p) (auto simp: Encrypted_marshal_def Encrypted_unmarshal_def Encrypted_new_def)
  show "no_panic (Encrypted_unmarshal p s)" for p s
    by (simp add: Encrypted_unmarshal_def)
qed

section \<open>Notification and delete\<close>

subsection \<open>Notification\<close>

text \<open>
  \<^verbatim>\<open>4+spiSize\<close> is computed in \<^verbatim>\<open>uint8\<close>: for an SPI size of 252 and more it wraps, the
  bounds check passes and the slice expression \<^verbatim>\<open>rawData[4:4+spiSize]\<close> panics.
\<close>

record Notification =
  n_ProtocolID :: u8
  n_NotifyMessageType :: u16
  n_SPI :: bytes
  n_NotificationData :: bytes

definition Notification_new :: Notification where
  "Notification_new =
     \<lparr>n_ProtocolID = 0, n_NotifyMessageType = 0, n_SPI = [], n_NotificationData = []\<rparr>"

definition Notification_marshal :: "Notification \<Rightarrow> bytes res" where
  "Notification_marshal p =
     Inr ([n_ProtocolID p, of_nat (length (n_SPI p))] @ be_bytes 2 (n_NotifyMessageType p)
          @ n_SPI p @ n_NotificationData p)"

definition Notification_unmarshal :: "Notification \<Rightarrow> slice \<Rightarrow> Notification res" where
  "Notification_unmarshal p rawData =
     (if slen rawData > 0 then
        bind_res (check (\<not> slen rawData < 4)
          ''Notification: No sufficient bytes to decode next notification'') (\<lambda>_.
        bind_res (sl_at rawData 1) (\<lambda>spiSize.
        bind_res (check (\<not> slen rawData < unat (4 + spiSize))
          ''Notification: No sufficient bytes to get SPI according to the length specified in header'') (\<lambda>_.
        bind_res (sl_at rawData 0) (\<lambda>protocolID.
        bind_res (sl_u16 rawData 2) (\<lambda>notifyMessageType.
        bind_res (sl_range rawData 4 (unat (4 + spiSize))) (\<lambda>spi.
        bind_res (sl_from rawData (unat (4 + spiSize))) (\<lambda>d.
        Inr (p\<lparr>n_ProtocolID := protocolID, n_NotifyMessageType := notifyMessageType,
               n_SPI := n_SPI p @ sdata spi,
               n_NotificationData := n_NotificationData p @ sdata d\<rparr>))))))))
      else Inr p)"

definition Notification_wf :: "Notification \<Rightarrow> bool" where
  "Notification_wf p \<longleftrightarrow> length (n_SPI p) < 252"

interpretation notif: binary_codec Notification_new Notification_marshal Notification_unmarshal
  Notification_wf
proof unfold_locales
  show "\<exists>d. Notification_marshal p = Inr d" for p
    by (simp add: Notification_marshal_def)
  show "Notification_wf p \<Longrightarrow> Notification_marshal p = Inr d \<Longrightarrow>
      Notification_unmarshal Notification_new (Slice d sp) = Inr p" for p d sp
    by (cases p) (auto simp: Notification_marshal_def Notification_unmarshal_def
      Notification_new_def Notification_wf_def go_simps bytes_eval)
qed

text \<open>A panic needs an SPI size of 252 and more; below it the decoder is safe.\<close>

lemma Notification_unmarshal_np:
  assumes "4 \<le> slen s \<Longrightarrow> unat (sdata s ! 1) < 252"
  shows "no_panic (Notification_unmarshal p s)"
proof -
  have fits: "4 \<le> unat (4 + b)" if "unat (b :: u8) < 252" for b
    using unat_numeral_add_of_nat(1) [of "Num.Bit0 (Num.Bit0 Num.One)" "unat b"] that by simp
  show ?thesis
    using assms unfolding Notification_unmarshal_def
    by (cases s) (auto intro!: no_panic_bind np_intros fits simp: go_simps not_less)
qed

lemma Notification_unmarshal_Panic:
  assumes "4 \<le> slen s" and "252 \<le> unat (sdata s ! 1)"
  shows "Notification_unmarshal p s = Inl Panic"
proof (cases s)
  case (Slice d sp)
  let ?b = "d ! 1"
  have b: "252 \<le> unat ?b" "unat ?b < 256"
    using assms by (simp_all add: Slice)
  have "unat (4 + ?b) = (4 + unat ?b) mod 256"
    by (simp add: unat_word_ariths)
  also have "\<dots> = 4 + unat ?b - 256"
    using b by (intro mod_wrap_once) linarith+
  finally have wraps: "unat (4 + ?b) < 4" using b by linarith
  with assms(1) have "\<not> length d < unat (4 + ?b)" by (simp add: Slice)
  moreover have "sl_range (Slice d sp) 4 (unat (4 + ?b)) = Inl Panic"
    using wraps by (simp add: sl_range_def)
  ultimately show ?thesis
    using assms(1) by (auto simp: Notification_unmarshal_def Slice go_simps)
qed

subsection \<open>Delete\<close>

record Delete =
  d_ProtocolID :: u8
  d_SPISize :: u8
  d_NumberOfSPI :: u16
  d_SPIs :: bytes

definition Delete_new :: Delete where
  "Delete_new = \<lparr>d_ProtocolID = 0, d_SPISize = 0, d_NumberOfSPI = 0, d_SPIs = []\<rparr>"

definition Delete_marshal :: "Delete \<Rightarrow> bytes res" where
  "Delete_marshal p =
     bind_res (check (length (d_SPIs p) = unat (d_SPISize p) * unat (d_NumberOfSPI p))
       ''Total bytes of all SPIs not correct'') (\<lambda>_.
     Inr ([d_ProtocolID p, d_SPISize p] @ be_bytes 2 (d_NumberOfSPI p) @ d_SPIs p))"

definition Delete_unmarshal :: "Delete \<Rightarrow> slice \<Rightarrow> Delete res" where
  "Delete_unmarshal p rawData =
     (if slen rawData > 0 then
        bind_res (check (\<not> slen rawData \<le> 4)
          ''Delete: No sufficient bytes to decode next delete'') (\<lambda>_.
        bind_res (sl_at rawData 1) (\<lambda>spiSize.
        bind_res (sl_u16 rawData 2) (\<lambda>numberOfSPI.
        bind_res (check (\<not> slen rawData < 4 + unat spiSize * unat numberOfSPI)
          ''Delete: No Sufficient bytes to get SPIs according to the length specified in header'') (\<lambda>_.
        bind_res (sl_at rawData 0) (\<lambda>protocolID.
        bind_res (sl_from rawData 4) (\<lambda>d.
        Inr (p\<lparr>d_ProtocolID := protocolID, d_SPISize := spiSize, d_NumberOfSPI := numberOfSPI,
               d_SPIs := d_SPIs p @ sdata d\<rparr>)))))))
      else Inr p)"

definition Delete_wf :: "Delete \<Rightarrow> bool" where
  "Delete_wf p \<longleftrightarrow> d_SPIs p \<noteq> [] \<and> length (d_SPIs p) = unat (d_SPISize p) * unat (d_NumberOfSPI p)"

interpretation del: safe_binary_codec Delete_new Delete_marshal Delete_unmarshal Delete_wf
proof unfold_locales
  show "Delete_wf p \<Longrightarrow> \<exists>d. Delete_marshal p = Inr d" for p
    by (simp add: Delete_marshal_def Delete_wf_def)
  show "Delete_wf p \<Longrightarrow> Delete_marshal p = Inr d \<Longrightarrow>
      Delete_unmarshal Delete_new (Slice d sp) = Inr p" for p d sp
    by (cases p) (auto simp: Delete_marshal_def Delete_unmarshal_def Delete_new_def Delete_wf_def
      go_simps bytes_eval check_def simp flip: length_greater_0_conv)
  show "no_panic (Delete_unmarshal p s)" for p s
    unfolding Delete_unmarshal_def by (auto intro!: no_panic_bind np_intros)
qed

end
