(* ===== verification/IKE_Selector.thy ===== *)
theory IKE_Selector
  imports IKE_Types
begin

text \<open>
  The payloads of \<^verbatim>\<open>src/n3iwf/ike/message/message.go\<close> that carry a list of small
  structures: traffic selectors (a count and that many selectors) and configuration
  attributes (attributes up to the end of the payload).
\<close>

section \<open>Traffic selectors\<close>

record IndividualTrafficSelector =
  ts_TSType :: u8
  ts_IPProtocolID :: u8
  ts_StartPort :: u16
  ts_EndPort :: u16
  ts_StartAddress :: bytes
  ts_EndAddress :: bytes

definition selector_bytes :: "IndividualTrafficSelector \<Rightarrow> bytes" where
  "selector_bytes t =
     [ts_TSType t, ts_IPProtocolID t]
     @ be_bytes 2 (of_nat (8 + length (ts_StartAddress t) + length (ts_EndAddress t)) :: u16)
     @ be_bytes 2 (ts_StartPort t) @ be_bytes 2 (ts_EndPort t)
     @ ts_StartAddress t @ ts_EndAddress t"

definition selector_marshal :: "IndividualTrafficSelector \<Rightarrow> bytes res" where
  "selector_marshal t =
     (if ts_TSType t = TS_IPV4_ADDR_RANGE then
        bind_res (check (length (ts_StartAddress t) = 4)
          ''TrafficSelector: Start IPv4 address length is not correct'') (\<lambda>_.
        bind_res (check (length (ts_EndAddress t) = 4)
          ''TrafficSelector: End IPv4 address length is not correct'') (\<lambda>_.
        Inr (selector_bytes t)))
      else if ts_TSType t = TS_IPV6_ADDR_RANGE then
        bind_res (check (length (ts_StartAddress t) = 16)
          ''TrafficSelector: Start IPv6 address length is not correct'') (\<lambda>_.
        bind_res (check (length (ts_EndAddress t) = 16)
          ''TrafficSelector: End IPv6 address length is not correct'') (\<lambda>_.
        Inr (selector_bytes t)))
      else Inl (Err ''TrafficSelector: Unsupported traffic selector type''))"

fun selectors_marshal :: "IndividualTrafficSelector list \<Rightarrow> bytes res" where
  "selectors_marshal [] = Inr []"
| "selectors_marshal (t # ts) =
     bind_res (selector_marshal t) (\<lambda>d. bind_res (selectors_marshal ts) (\<lambda>ds. Inr (d @ ds)))"

definition TrafficSelectors_marshal :: "IndividualTrafficSelector list \<Rightarrow> bytes res" where
  "TrafficSelectors_marshal ts =
     (if length ts > 0 then
        bind_res (selectors_marshal ts) (\<lambda>ds. Inr ([of_nat (length ts), 0, 0, 0] @ ds))
      else Inl (Err ''TrafficSelector: Contains no traffic selector for marshalling message''))"

definition selector_read :: "nat \<Rightarrow> string \<Rightarrow> slice \<Rightarrow> (IndividualTrafficSelector \<times> slice) res" where
  "selector_read alen badLength rawData =
     bind_res (sl_u16 rawData 2) (\<lambda>selectorLength.
     bind_res (check (unat selectorLength = 8 + 2 * alen) badLength) (\<lambda>_.
     bind_res (check (\<not> slen rawData < unat selectorLength)
       ''TrafficSelector: No sufficient bytes to decode next individual traffic selector'') (\<lambda>_.
     bind_res (sl_at rawData 0) (\<lambda>tsType.
     bind_res (sl_at rawData 1) (\<lambda>ipProtocolID.
     bind_res (sl_u16 rawData 4) (\<lambda>startPort.
     bind_res (sl_u16 rawData 6) (\<lambda>endPort.
     bind_res (sl_range rawData 8 (8 + alen)) (\<lambda>startAddress.
     bind_res (sl_range rawData (8 + alen) (8 + 2 * alen)) (\<lambda>endAddress.
     bind_res (sl_from rawData (8 + 2 * alen)) (\<lambda>rest.
     Inr (\<lparr>ts_TSType = tsType, ts_IPProtocolID = ipProtocolID, ts_StartPort = startPort,
           ts_EndPort = endPort, ts_StartAddress = sdata startAddress,
           ts_EndAddress = sdata endAddress\<rparr>, rest)))))))))))"

definition selector_step :: "slice \<Rightarrow> (IndividualTrafficSelector \<times> slice) res" where
  "selector_step rawData =
     bind_res (check (\<not> slen rawData < 4)
       ''TrafficSelector: No sufficient bytes to decode next individual traffic selector length in header'') (\<lambda>_.
     bind_res (sl_at rawData 0) (\<lambda>trafficSelectorType.
     if trafficSelectorType = TS_IPV4_ADDR_RANGE then
       selector_read 4 ''TrafficSelector: A TS_IPV4_ADDR_RANGE type traffic selector should has length 16 bytes'' rawData
     else if trafficSelectorType = TS_IPV6_ADDR_RANGE then
       selector_read 16 ''TrafficSelector: A TS_IPV6_ADDR_RANGE type traffic selector should has length 40 bytes'' rawData
     else Inl (Err ''TrafficSelector: Unsupported traffic selector type'')))"

fun selectors_loop ::
    "nat \<Rightarrow> IndividualTrafficSelector list \<Rightarrow> slice \<Rightarrow> IndividualTrafficSelector list res" where
  "selectors_loop 0 ts rawData = Inr ts"
| "selectors_loop (Suc n) ts rawData =
     bind_res (selector_step rawData) (\<lambda>(t, rest). selectors_loop n (ts @ [t]) rest)"

definition TrafficSelectors_unmarshal ::
    "IndividualTrafficSelector list \<Rightarrow> slice \<Rightarrow> IndividualTrafficSelector list res" where
  "TrafficSelectors_unmarshal ts rawData =
     (if slen rawData > 0 then
        bind_res (check (\<not> slen rawData < 4)
          ''TrafficSelector: No sufficient bytes to get number of traffic selector in header'') (\<lambda>_.
        bind_res (sl_at rawData 0) (\<lambda>numberOfSPI.
        bind_res (sl_from rawData 4) (\<lambda>rest. selectors_loop (unat numberOfSPI) ts rest)))
      else Inr ts)"

text \<open>
  The initiator's and the responder's selectors are two structs with the same body; the
  methods of both are the same code.
\<close>

record TrafficSelectorInitiator =
  tsi_TrafficSelectors :: "IndividualTrafficSelector list"

record TrafficSelectorResponder =
  tsr_TrafficSelectors :: "IndividualTrafficSelector list"

definition TrafficSelectorInitiator_new :: TrafficSelectorInitiator where
  "TrafficSelectorInitiator_new = \<lparr>tsi_TrafficSelectors = []\<rparr>"

definition TrafficSelectorResponder_new :: TrafficSelectorResponder where
  "TrafficSelectorResponder_new = \<lparr>tsr_TrafficSelectors = []\<rparr>"

definition TrafficSelectorInitiator_marshal :: "TrafficSelectorInitiator \<Rightarrow> bytes res" where
  "TrafficSelectorInitiator_marshal p = TrafficSelectors_marshal (tsi_TrafficSelectors p)"

definition TrafficSelectorResponder_marshal :: "TrafficSelectorResponder \<Rightarrow> bytes res" where
  "TrafficSelectorResponder_marshal p = TrafficSelectors_marshal (tsr_TrafficSelectors p)"

definition TrafficSelectorInitiator_unmarshal ::
    "TrafficSelectorInitiator \<Rightarrow> slice \<Rightarrow> TrafficSelectorInitiator res" where
  "TrafficSelectorInitiator_unmarshal p rawData =
     bind_res (TrafficSelectors_unmarshal (tsi_TrafficSelectors p) rawData) (\<lambda>ts.
     Inr (p\<lparr>tsi_TrafficSelectors := ts\<rparr>))"

definition TrafficSelectorResponder_unmarshal ::
    "TrafficSelectorResponder \<Rightarrow> slice \<Rightarrow> TrafficSelectorResponder res" where
  "TrafficSelectorResponder_unmarshal p rawData =
     bind_res (TrafficSelectors_unmarshal (tsr_TrafficSelectors p) rawData) (\<lambda>ts.
     Inr (p\<lparr>tsr_TrafficSelectors := ts\<rparr>))"

definition selector_wf :: "IndividualTrafficSelector \<Rightarrow> bool" where
  "selector_wf t \<longleftrightarrow>
     (ts_TSType t = TS_IPV4_ADDR_RANGE \<and> length (ts_StartAddress t) = 4 \<and> length (ts_EndAddress t) = 4) \<or>
     (ts_TSType t = TS_IPV6_ADDR_RANGE \<and> length (ts_StartAddress t) = 16 \<and> length (ts_EndAddress t) = 16)"

definition selectors_wf :: "IndividualTrafficSelector list \<Rightarrow> bool" where
  "selectors_wf ts \<longleftrightarrow> ts \<noteq> [] \<and> length ts < 256 \<and> (\<forall>t\<in>set ts. selector_wf t)"

lemma selector_marshal_ok: "selector_wf t \<Longrightarrow> selector_marshal t = Inr (selector_bytes t)"
  by (auto simp: selector_marshal_def selector_wf_def)

lemma selector_step_bytes:
  "selector_wf t \<Longrightarrow> selector_step (Slice (selector_bytes t @ r) sp) = Inr (t, Slice r sp)"
  by (cases t) (auto simp: selector_wf_def selector_step_def selector_read_def selector_bytes_def
      go_simps bytes_eval)

lemma selectors_marshal_ok:
  "\<forall>t\<in>set ts. selector_wf t \<Longrightarrow> selectors_marshal ts = Inr (concat (map selector_bytes ts))"
  by (induction ts) (simp_all add: selector_marshal_ok)

lemma selectors_loop_bytes:
  "\<forall>t\<in>set ts. selector_wf t \<Longrightarrow>
   selectors_loop (length ts) acc (Slice (concat (map selector_bytes ts) @ r) sp) = Inr (acc @ ts)"
  by (induction ts arbitrary: acc) (simp_all add: selector_step_bytes)

lemma TrafficSelectors_roundtrip:
  assumes "selectors_wf ts" and "TrafficSelectors_marshal ts = Inr d"
  shows "TrafficSelectors_unmarshal [] (Slice d sp) = Inr ts"
proof -
  from assms have d: "d = [of_nat (length ts), 0, 0, 0] @ concat (map selector_bytes ts)"
    by (simp add: selectors_wf_def TrafficSelectors_marshal_def selectors_marshal_ok)
  from assms(1) have "selectors_loop (length ts) [] (Slice (concat (map selector_bytes ts)) sp) = Inr ts"
    using selectors_loop_bytes [of ts "[]" "[]" sp] by (simp add: selectors_wf_def)
  then show ?thesis
    using assms(1) by (simp add: d TrafficSelectors_unmarshal_def selectors_wf_def go_simps bytes_eval)
qed

lemma selector_read_np: "4 \<le> slen s \<Longrightarrow> no_panic (selector_read alen msg s)"
  unfolding selector_read_def by (auto intro!: no_panic_bind np_intros)

lemma selector_step_np: "no_panic (selector_step s)"
  unfolding selector_step_def by (auto intro!: no_panic_bind np_intros selector_read_np)

lemma selectors_loop_np: "no_panic (selectors_loop n ts s)"
  by (induction n arbitrary: ts s) (auto intro!: no_panic_bind selector_step_np)

lemma TrafficSelectors_unmarshal_np: "no_panic (TrafficSelectors_unmarshal ts s)"
  unfolding TrafficSelectors_unmarshal_def
  by (auto intro!: no_panic_bind np_intros selectors_loop_np)

lemma TrafficSelectors_marshal_total: "selectors_wf ts \<Longrightarrow> \<exists>d. TrafficSelectors_marshal ts = Inr d"
  by (simp add: selectors_wf_def TrafficSelectors_marshal_def selectors_marshal_ok)

interpretation tsi: safe_binary_codec TrafficSelectorInitiator_new TrafficSelectorInitiator_marshal
  TrafficSelectorInitiator_unmarshal "\<lambda>p. selectors_wf (tsi_TrafficSelectors p)"
  by unfold_locales
    (auto simp: TrafficSelectorInitiator_new_def TrafficSelectorInitiator_marshal_def
      TrafficSelectorInitiator_unmarshal_def TrafficSelectors_marshal_total
      TrafficSelectors_roundtrip intro!: no_panic_bind TrafficSelectors_unmarshal_np)

interpretation tsr: safe_binary_codec TrafficSelectorResponder_new TrafficSelectorResponder_marshal
  TrafficSelectorResponder_unmarshal "\<lambda>p. selectors_wf (tsr_TrafficSelectors p)"
  by unfold_locales
    (auto simp: TrafficSelectorResponder_new_def TrafficSelectorResponder_marshal_def
      TrafficSelectorResponder_unmarshal_def TrafficSelectors_marshal_total
      TrafficSelectors_roundtrip intro!: no_panic_bind TrafficSelectors_unmarshal_np)

section \<open>Configuration\<close>

record IndividualConfigurationAttribute =
  ca_Type :: u16
  ca_Value :: bytes

record Configuration =
  cp_ConfigurationType :: u8
  cp_ConfigurationAttribute :: "IndividualConfigurationAttribute list"

definition Configuration_new :: Configuration where
  "Configuration_new = \<lparr>cp_ConfigurationType = 0, cp_ConfigurationAttribute = []\<rparr>"

definition attribute_bytes :: "IndividualConfigurationAttribute \<Rightarrow> bytes" where
  "attribute_bytes a =
     be_bytes 2 (ca_Type a AND 0x7fff) @ be_bytes 2 (of_nat (length (ca_Value a)) :: u16) @ ca_Value a"

definition Configuration_marshal :: "Configuration \<Rightarrow> bytes res" where
  "Configuration_marshal p =
     Inr ([cp_ConfigurationType p, 0, 0, 0]
          @ concat (map attribute_bytes (cp_ConfigurationAttribute p)))"

text \<open>\<^verbatim>\<open>4+length\<close> is computed in \<^verbatim>\<open>uint16\<close> and wraps for a length of 65532 and more.\<close>

definition attribute_step :: "slice \<Rightarrow> (IndividualConfigurationAttribute \<times> slice) res" where
  "attribute_step raw =
     bind_res (check (\<not> slen raw < 4)
       ''ConfigurationAttribute: No sufficient bytes to decode next configuration attribute'') (\<lambda>_.
     bind_res (sl_u16 raw 2) (\<lambda>len.
     bind_res (check (\<not> slen raw < unat (4 + len))
       ''ConfigurationAttribute: TLV attribute length error'') (\<lambda>_.
     bind_res (sl_u16 raw 0) (\<lambda>typ.
     bind_res (sl_from raw 4) (\<lambda>raw1.
     bind_res (sl_range raw1 0 (unat len)) (\<lambda>v.
     bind_res (sl_from raw1 (unat len)) (\<lambda>raw2.
     Inr (\<lparr>ca_Type = typ, ca_Value = sdata v\<rparr>, raw2))))))))"

lemma attribute_step_shrinks: "attribute_step raw = Inr (a, raw') \<Longrightarrow> slen raw' < slen raw"
  by (auto simp: attribute_step_def bind_res_eq_Inr_iff slen_def not_less
      dest!: sl_from_InrD)

function attributes_loop ::
    "IndividualConfigurationAttribute list \<Rightarrow> slice \<Rightarrow> IndividualConfigurationAttribute list res" where
  "attributes_loop acc raw =
     (if slen raw > 0 then
        bind_res (attribute_step raw) (\<lambda>(a, raw'). attributes_loop (acc @ [a]) raw')
      else Inr acc)"
  by pat_completeness auto
termination
  by (relation "measure (\<lambda>(acc, raw). slen raw)") (auto dest: attribute_step_shrinks)

declare attributes_loop.simps [simp del]

definition Configuration_unmarshal :: "Configuration \<Rightarrow> slice \<Rightarrow> Configuration res" where
  "Configuration_unmarshal p rawData =
     (if slen rawData > 0 then
        bind_res (check (\<not> slen rawData \<le> 4)
          ''Configuration: No sufficient bytes to decode next configuration'') (\<lambda>_.
        bind_res (sl_at rawData 0) (\<lambda>typ.
        bind_res (sl_from rawData 4) (\<lambda>raw.
        bind_res (attributes_loop (cp_ConfigurationAttribute p) raw) (\<lambda>attrs.
        Inr (p\<lparr>cp_ConfigurationType := typ, cp_ConfigurationAttribute := attrs\<rparr>)))))
      else Inr p)"

definition attribute_wf :: "IndividualConfigurationAttribute \<Rightarrow> bool" where
  "attribute_wf a \<longleftrightarrow> ca_Type a < 0x8000 \<and> length (ca_Value a) < 65532"

definition Configuration_wf :: "Configuration \<Rightarrow> bool" where
  "Configuration_wf p \<longleftrightarrow>
     cp_ConfigurationAttribute p \<noteq> [] \<and> (\<forall>a\<in>set (cp_ConfigurationAttribute p). attribute_wf a)"

lemma and_7fff: "w AND 0x7fff = w" if "w < 0x8000" for w :: u16
  using that and_mask_id [of w 15] by (simp add: mask_eq_exp_minus_1 word_less_nat_alt)

lemma attribute_step_bytes:
  "attribute_wf a \<Longrightarrow> attribute_step (Slice (attribute_bytes a @ r) sp) = Inr (a, Slice r sp)"
  by (cases a) (auto simp: attribute_wf_def attribute_step_def attribute_bytes_def and_7fff
      go_simps bytes_eval)

interpretation cpl: framed_loop attribute_step "\<lambda>acc a. acc @ [a]" attributes_loop
  "\<lambda>_. attribute_bytes" attribute_wf
  by unfold_locales
    (simp_all add: attributes_loop.simps attribute_step_shrinks attribute_step_bytes,
      simp add: attribute_bytes_def be_simps)

interpretation cp: binary_codec Configuration_new Configuration_marshal Configuration_unmarshal
  Configuration_wf
proof unfold_locales
  show "\<exists>d. Configuration_marshal p = Inr d" for p
    by (simp add: Configuration_marshal_def)
  fix p d sp
  assume wf: "Configuration_wf p" and "Configuration_marshal p = Inr d"
  then have d: "d = [cp_ConfigurationType p, 0, 0, 0]
      @ concat (map attribute_bytes (cp_ConfigurationAttribute p))"
    by (simp add: Configuration_marshal_def)
  have "attributes_loop [] (Slice (concat (map attribute_bytes (cp_ConfigurationAttribute p))) sp)
      = Inr (cp_ConfigurationAttribute p)"
    using wf cpl.loop_enc_list [of "cp_ConfigurationAttribute p" "[]" sp]
    by (simp add: Configuration_wf_def foldl_snoc enc_list_const)
  moreover have "concat (map attribute_bytes (cp_ConfigurationAttribute p)) \<noteq> []"
    using wf by (cases "cp_ConfigurationAttribute p")
      (auto simp: Configuration_wf_def attribute_bytes_def be_simps)
  ultimately show "Configuration_unmarshal Configuration_new (Slice d sp) = Inr p"
    by (simp add: d Configuration_unmarshal_def Configuration_new_def go_simps bytes_eval)
qed

end
