(* ===== verification/IKE_EAP.thy ===== *)
theory IKE_EAP
  imports IKE_Types
begin

text \<open>
  The EAP payload of \<^verbatim>\<open>src/n3iwf/ike/message/message.go\<close> and the EAP types it can carry
  (identity, notification, nak, expanded), one constructor per Go struct that implements
  \<^verbatim>\<open>EAPTypeFormat\<close>.
\<close>

datatype EAPTypeFormat =
    EAPIdentity (IdentityData: bytes)
  | EAPNotification (NotificationData: bytes)
  | EAPNak (NakData: bytes)
  | EAPExpanded (VendorID: u32) (VendorType: u32) (VendorData: bytes)

definition typed_data :: "u8 \<Rightarrow> string \<Rightarrow> bytes \<Rightarrow> bytes res" where
  "typed_data typ msg d = bind_res (check (length d \<noteq> 0) msg) (\<lambda>_. Inr (typ # d))"

fun EAPType_marshal :: "EAPTypeFormat \<Rightarrow> bytes res" where
  "EAPType_marshal (EAPIdentity d) = typed_data EAPTypeIdentity ''EAPIdentity: EAP identity is empty'' d"
| "EAPType_marshal (EAPNotification d) =
     typed_data EAPTypeNotification ''EAPNotification: EAP notification is empty'' d"
| "EAPType_marshal (EAPNak d) = typed_data EAPTypeNak ''EAPNak: EAP nak is empty'' d"
| "EAPType_marshal (EAPExpanded vendorID vendorType vendorData) =
     (let vendorID' = vendorID AND 0x00ffffff;
          typeAndVendorID = push_bit 24 (ucast EAPTypeExpanded) OR vendorID'
      in Inr (be_bytes 4 typeAndVendorID @ be_bytes 4 vendorType @ vendorData))"

text \<open>\<^verbatim>\<open>new(EAP...)\<close> for the type byte read, if the type is supported.\<close>

definition EAPType_new :: "u8 \<Rightarrow> EAPTypeFormat option" where
  "EAPType_new eapType =
     (if eapType = EAPTypeIdentity then Some (EAPIdentity [])
      else if eapType = EAPTypeNotification then Some (EAPNotification [])
      else if eapType = EAPTypeNak then Some (EAPNak [])
      else if eapType = EAPTypeExpanded then Some (EAPExpanded 0 0 [])
      else None)"

definition tail_data :: "bytes \<Rightarrow> slice \<Rightarrow> bytes res" where
  "tail_data old rawData =
     (if slen rawData > 1 then bind_res (sl_from rawData 1) (\<lambda>d. Inr (old @ sdata d)) else Inr old)"

fun EAPType_unmarshal :: "EAPTypeFormat \<Rightarrow> slice \<Rightarrow> EAPTypeFormat res" where
  "EAPType_unmarshal (EAPIdentity old) rawData =
     bind_res (tail_data old rawData) (\<lambda>d. Inr (EAPIdentity d))"
| "EAPType_unmarshal (EAPNotification old) rawData =
     bind_res (tail_data old rawData) (\<lambda>d. Inr (EAPNotification d))"
| "EAPType_unmarshal (EAPNak old) rawData =
     bind_res (tail_data old rawData) (\<lambda>d. Inr (EAPNak d))"
| "EAPType_unmarshal (EAPExpanded vid vtype old) rawData =
     (if slen rawData > 0 then
        bind_res (check (\<not> slen rawData < 8)
          ''EAPExpanded: No sufficient bytes to decode the EAP expanded type'') (\<lambda>_.
        bind_res (sl_u32 rawData 0) (\<lambda>typeAndVendorID.
        bind_res (sl_u32 rawData 4) (\<lambda>vendorType.
        if slen rawData > 8 then
          bind_res (sl_from rawData 8) (\<lambda>d.
          Inr (EAPExpanded (typeAndVendorID AND 0x00ffffff) vendorType (old @ sdata d)))
        else Inr (EAPExpanded (typeAndVendorID AND 0x00ffffff) vendorType old))))
      else Inr (EAPExpanded vid vtype old))"

record EAP =
  eap_Code :: u8
  eap_Identifier :: u8
  eap_EAPTypeData :: "EAPTypeFormat list"

definition EAP_new :: EAP where
  "EAP_new = \<lparr>eap_Code = 0, eap_Identifier = 0, eap_EAPTypeData = []\<rparr>"

text \<open>Only the first element of \<^verbatim>\<open>EAPTypeData\<close> goes on the wire.\<close>

definition EAP_marshal :: "EAP \<Rightarrow> bytes res" where
  "EAP_marshal p =
     bind_res (case eap_EAPTypeData p of [] \<Rightarrow> Inr [] | t # _ \<Rightarrow> EAPType_marshal t) (\<lambda>typeData.
     Inr ([eap_Code p, eap_Identifier p] @ be_bytes 2 (of_nat (4 + length typeData) :: u16) @ typeData))"

definition EAP_unmarshal :: "EAP \<Rightarrow> slice \<Rightarrow> EAP res" where
  "EAP_unmarshal p rawData =
     (if slen rawData > 0 then
        bind_res (check (\<not> slen rawData < 4)
          ''EAP: No sufficient bytes to decode next EAP payload'') (\<lambda>_.
        bind_res (sl_u16 rawData 2) (\<lambda>eapPayloadLength.
        bind_res (check (\<not> unat eapPayloadLength < 4)
          ''EAP: Payload length specified in the header is too small for EAP'') (\<lambda>_.
        bind_res (check (slen rawData = unat eapPayloadLength)
          ''EAP: Received payload length not matches the length specified in header'') (\<lambda>_.
        bind_res (sl_at rawData 0) (\<lambda>code.
        bind_res (sl_at rawData 1) (\<lambda>identifier.
        if unat eapPayloadLength = 4 then Inr (p\<lparr>eap_Code := code, eap_Identifier := identifier\<rparr>)
        else
          bind_res (sl_at rawData 4) (\<lambda>eapType.
          case EAPType_new eapType of
            None \<Rightarrow> Inl (Err ''EAP: Not supported EAP type'')
          | Some t \<Rightarrow>
              bind_res (sl_from rawData 4) (\<lambda>d.
              bind_res (EAPType_unmarshal t d) (\<lambda>t'.
              Inr (p\<lparr>eap_Code := code, eap_Identifier := identifier,
                     eap_EAPTypeData := eap_EAPTypeData p @ [t']\<rparr>))))))))))
      else Inr p)"

fun EAPType_wf :: "EAPTypeFormat \<Rightarrow> bool" where
  "EAPType_wf (EAPIdentity d) \<longleftrightarrow> d \<noteq> [] \<and> length d < 65531"
| "EAPType_wf (EAPNotification d) \<longleftrightarrow> d \<noteq> [] \<and> length d < 65531"
| "EAPType_wf (EAPNak d) \<longleftrightarrow> d \<noteq> [] \<and> length d < 65531"
| "EAPType_wf (EAPExpanded vid vtype d) \<longleftrightarrow> unat vid < 2 ^ 24 \<and> length d < 65524"

definition EAP_wf :: "EAP \<Rightarrow> bool" where
  "EAP_wf p \<longleftrightarrow> length (eap_EAPTypeData p) \<le> 1 \<and> (\<forall>t\<in>set (eap_EAPTypeData p). EAPType_wf t)"

lemma expanded_type_byte: "byte_of 3 (0xfe000000 OR v) = 254" if "unat v < 2 ^ 24" for v :: u32
proof -
  have "drop_bit 24 v = 0"
    using that by (simp add: drop_bit_eq_zero)
  then show ?thesis by (simp add: byte_of_def drop_bit_or)
qed

lemma expanded_vendor_id: "(0xfe000000 OR v) AND 0xffffff = v" if "unat v < 2 ^ 24" for v :: u32
  using that and_mask_id [of v 24] by (simp add: mask_eq_exp_minus_1 bit.conj_disj_distrib2)

lemma and_ffffff: "v AND 0xffffff = v" if "unat v < 2 ^ 24" for v :: u32
  using that and_mask_id [of v 24] by (simp add: mask_eq_exp_minus_1)

text \<open>
  What a marshalled EAP type looks like to the decoder: its first byte selects the
  constructor, and the constructor's decoder gives the value back.
\<close>

lemma EAPType_roundtrip:
  assumes "EAPType_wf t"
  obtains d where "EAPType_marshal t = Inr d" "d \<noteq> []" "length d < 65532"
    "\<And>sp. case_option False (\<lambda>t0. EAPType_unmarshal t0 (Slice d sp) = Inr t) (EAPType_new (d ! 0))"
proof (cases t)
  case (EAPExpanded vid vtype vd)
  let ?w = "0xfe000000 OR vid"
  let ?d = "be_bytes 4 ?w @ be_bytes 4 vtype @ vd"
  have "EAPType_marshal t = Inr ?d"
    using assms by (simp add: EAPExpanded and_ffffff Let_def)
  moreover have "EAPType_new (?d ! 0) = Some (EAPExpanded 0 0 [])"
    using assms by (simp add: EAPExpanded be_bytes_32 EAPType_new_def expanded_type_byte)
  moreover have "EAPType_unmarshal (EAPExpanded 0 0 []) (Slice ?d sp) = Inr t" for sp
    using assms by (simp add: EAPExpanded bytes_eval go_simps expanded_vendor_id)
  ultimately show ?thesis
    using assms by (intro that [of ?d]) (simp_all add: EAPExpanded be_bytes_32)
qed (use assms that in \<open>auto simp: typed_data_def tail_data_def EAPType_new_def go_simps\<close>)

lemma EAPType_unmarshal_np: "no_panic (EAPType_unmarshal t s)"
  by (cases t) (auto simp: tail_data_def intro!: no_panic_bind np_intros)

interpretation eap: safe_binary_codec EAP_new EAP_marshal EAP_unmarshal EAP_wf
proof unfold_locales
  have total: "\<exists>d. EAPType_marshal t = Inr d" if "EAPType_wf t" for t
    using that by (cases t) (auto simp: typed_data_def Let_def)
  show "EAP_wf p \<Longrightarrow> \<exists>d. EAP_marshal p = Inr d" for p
    using total by (cases "eap_EAPTypeData p") (force simp: EAP_marshal_def EAP_wf_def)+
  show "no_panic (EAP_unmarshal p s)" for p s
    unfolding EAP_unmarshal_def
    by (auto intro!: no_panic_bind np_intros EAPType_unmarshal_np split: option.splits)
  show "EAP_unmarshal EAP_new (Slice d sp) = Inr p" if "EAP_wf p" "EAP_marshal p = Inr d" for p d sp
  proof (cases "eap_EAPTypeData p")
    case Nil
    with that show ?thesis
      by (auto simp: EAP_marshal_def EAP_unmarshal_def EAP_new_def go_simps bytes_eval)
  next
    case (Cons t ts)
    with that(1) have t: "eap_EAPTypeData p = [t]" "EAPType_wf t"
      by (auto simp: EAP_wf_def)
    obtain e where e: "EAPType_marshal t = Inr e" "e \<noteq> []" "length e < 65532"
      "\<And>sp. case_option False (\<lambda>t0. EAPType_unmarshal t0 (Slice e sp) = Inr t) (EAPType_new (e ! 0))"
      using EAPType_roundtrip [OF t(2)] by blast
    then obtain t0 where "EAPType_new (e ! 0) = Some t0"
      by (cases "EAPType_new (e ! 0)") auto
    with e that(2) show ?thesis
      by (auto simp: t(1) EAP_marshal_def EAP_unmarshal_def EAP_new_def go_simps bytes_eval)
  qed
qed

end
