(* ===== verification/IKE_SA.thy ===== *)
theory IKE_SA
  imports IKE_Types
begin

text \<open>
  The security-association payload of \<^verbatim>\<open>src/n3iwf/ike/message/message.go\<close>: a list of
  proposals, each a list of transforms sorted into five groups by their type. Both levels
  are instances of the loop contract of \<open>IKE_Types\<close>.
\<close>

section \<open>Data\<close>

record Transform =
  tr_TransformType :: u8
  tr_TransformID :: u16
  tr_AttributePresent :: bool
  tr_AttributeFormat :: u8
  tr_AttributeType :: u16
  tr_AttributeValue :: u16
  tr_VariableLengthAttributeValue :: bytes

record Proposal =
  pr_ProposalNumber :: u8
  pr_ProtocolID :: u8
  pr_SPI :: bytes
  pr_EncryptionAlgorithm :: "Transform list"
  pr_PseudorandomFunction :: "Transform list"
  pr_IntegrityAlgorithm :: "Transform list"
  pr_DiffieHellmanGroup :: "Transform list"
  pr_ExtendedSequenceNumbers :: "Transform list"

record SecurityAssociation =
  sa_Proposals :: "Proposal list"

definition Transform_new :: Transform where
  "Transform_new = \<lparr>tr_TransformType = 0, tr_TransformID = 0, tr_AttributePresent = False,
     tr_AttributeFormat = 0, tr_AttributeType = 0, tr_AttributeValue = 0,
     tr_VariableLengthAttributeValue = []\<rparr>"

definition Proposal_new :: Proposal where
  "Proposal_new = \<lparr>pr_ProposalNumber = 0, pr_ProtocolID = 0, pr_SPI = [],
     pr_EncryptionAlgorithm = [], pr_PseudorandomFunction = [], pr_IntegrityAlgorithm = [],
     pr_DiffieHellmanGroup = [], pr_ExtendedSequenceNumbers = []\<rparr>"

definition SecurityAssociation_new :: SecurityAssociation where
  "SecurityAssociation_new = \<lparr>sa_Proposals = []\<rparr>"

section \<open>Encoding\<close>

definition attribute_marshal :: "Transform \<Rightarrow> bytes res" where
  "attribute_marshal t =
     (if tr_AttributePresent t then
        let formatAndType = push_bit 15 (ucast (tr_AttributeFormat t) AND 1) OR tr_AttributeType t in
        if tr_AttributeFormat t = 0 then
          bind_res (check (length (tr_VariableLengthAttributeValue t) \<noteq> 0)
            ''Attribute of one transform not specified'') (\<lambda>_.
          Inr (be_bytes 2 formatAndType
               @ be_bytes 2 (of_nat (length (tr_VariableLengthAttributeValue t)) :: u16)
               @ tr_VariableLengthAttributeValue t))
        else Inr (be_bytes 2 formatAndType @ be_bytes 2 (tr_AttributeValue t))
      else Inr [])"

definition transform_bytes :: "bool \<Rightarrow> Transform \<Rightarrow> bytes \<Rightarrow> bytes" where
  "transform_bytes another t attributeData =
     [if another then 3 else 0, 0] @ be_bytes 2 (of_nat (8 + length attributeData) :: u16)
     @ [tr_TransformType t, 0] @ be_bytes 2 (tr_TransformID t) @ attributeData"

fun transforms_marshal :: "Transform list \<Rightarrow> bytes res" where
  "transforms_marshal [] = Inr []"
| "transforms_marshal (t # ts) =
     bind_res (attribute_marshal t) (\<lambda>a.
     bind_res (transforms_marshal ts) (\<lambda>ds. Inr (transform_bytes (ts \<noteq> []) t a @ ds)))"

definition transformList :: "Proposal \<Rightarrow> Transform list" where
  "transformList p =
     pr_EncryptionAlgorithm p @ pr_PseudorandomFunction p @ pr_IntegrityAlgorithm p
     @ pr_DiffieHellmanGroup p @ pr_ExtendedSequenceNumbers p"

definition proposal_bytes :: "bool \<Rightarrow> Proposal \<Rightarrow> bytes \<Rightarrow> bytes" where
  "proposal_bytes another p transformData =
     [if another then 2 else 0, 0]
     @ be_bytes 2 (of_nat (8 + length (pr_SPI p) + length transformData) :: u16)
     @ [pr_ProposalNumber p, pr_ProtocolID p, of_nat (length (pr_SPI p)),
        of_nat (length (transformList p))]
     @ pr_SPI p @ transformData"

fun proposals_marshal :: "Proposal list \<Rightarrow> bytes res" where
  "proposals_marshal [] = Inr []"
| "proposals_marshal (p # ps) =
     bind_res (check (length (transformList p) \<noteq> 0) ''One proposal has no any transform'') (\<lambda>_.
     bind_res (transforms_marshal (transformList p)) (\<lambda>td.
     bind_res (proposals_marshal ps) (\<lambda>ds. Inr (proposal_bytes (ps \<noteq> []) p td @ ds))))"

definition SecurityAssociation_marshal :: "SecurityAssociation \<Rightarrow> bytes res" where
  "SecurityAssociation_marshal sa = proposals_marshal (sa_Proposals sa)"

section \<open>Decoding\<close>

text \<open>
  The attribute of a transform. The slice expressions are bounded by the capacity of the
  window, so an attribute shorter than four bytes is completed from the bytes behind the
  transform. The variable-length value is copied into a nil slice, that is nowhere; the
  evaluation of its bounds is kept.
\<close>

definition attribute_unmarshal :: "slice \<Rightarrow> u16 \<Rightarrow> Transform \<Rightarrow> Transform res" where
  "attribute_unmarshal td transformLength t =
     bind_res (sl_at td 8) (\<lambda>b8.
     bind_res (sl_u16 td 8) (\<lambda>w8.
     let t = t\<lparr>tr_AttributePresent := True,
               tr_AttributeFormat := drop_bit 7 (b8 AND 0x80),
               tr_AttributeType := w8 AND 0x7f\<rparr> in
     if tr_AttributeFormat t = 0 then
       bind_res (sl_u16 td 10) (\<lambda>attributeLength.
       bind_res (check (12 + attributeLength = transformLength)
         ''Illegal attribute length %d not satisfies the transform length %d'') (\<lambda>_.
       bind_res (sl_range td 12 (unat (12 + attributeLength))) (\<lambda>_. Inr t)))
     else
       bind_res (sl_u16 td 10) (\<lambda>v. Inr (t\<lparr>tr_AttributeValue := v\<rparr>))))"

definition transform_step :: "slice \<Rightarrow> (Transform \<times> slice) res" where
  "transform_step td =
     bind_res (check (\<not> slen td < 8) ''Transform: No sufficient bytes to decode next transform'') (\<lambda>_.
     bind_res (sl_u16 td 2) (\<lambda>transformLength.
     bind_res (check (\<not> unat transformLength < 8)
       ''Transform: Illegal payload length %d < header length 8'') (\<lambda>_.
     bind_res (check (\<not> slen td < unat transformLength)
       ''Transform: The length of received message not matchs the length specified in header'') (\<lambda>_.
     bind_res (sl_at td 4) (\<lambda>typ.
     bind_res (sl_u16 td 6) (\<lambda>ident.
     bind_res
       (let t = Transform_new\<lparr>tr_TransformType := typ, tr_TransformID := ident\<rparr> in
        if unat transformLength > 8 then attribute_unmarshal td transformLength t else Inr t) (\<lambda>t.
     bind_res (sl_from td (unat transformLength)) (\<lambda>rest. Inr (t, rest)))))))))"

text \<open>The switch over the transform type: a transform of another type is dropped.\<close>

definition add_transform :: "Proposal \<Rightarrow> Transform \<Rightarrow> Proposal" where
  "add_transform p t =
     (if tr_TransformType t = TypeEncryptionAlgorithm
      then p\<lparr>pr_EncryptionAlgorithm := pr_EncryptionAlgorithm p @ [t]\<rparr>
      else if tr_TransformType t = TypePseudorandomFunction
      then p\<lparr>pr_PseudorandomFunction := pr_PseudorandomFunction p @ [t]\<rparr>
      else if tr_TransformType t = TypeIntegrityAlgorithm
      then p\<lparr>pr_IntegrityAlgorithm := pr_IntegrityAlgorithm p @ [t]\<rparr>
      else if tr_TransformType t = TypeDiffieHellmanGroup
      then p\<lparr>pr_DiffieHellmanGroup := pr_DiffieHellmanGroup p @ [t]\<rparr>
      else if tr_TransformType t = TypeExtendedSequenceNumbers
      then p\<lparr>pr_ExtendedSequenceNumbers := pr_ExtendedSequenceNumbers p @ [t]\<rparr>
      else p)"

lemma transform_step_shrinks: "transform_step td = Inr (t, rest) \<Longrightarrow> slen rest < slen td"
  by (auto simp: transform_step_def bind_res_eq_Inr_iff slen_def Let_def dest!: sl_from_InrD)

function transforms_loop :: "Proposal \<Rightarrow> slice \<Rightarrow> Proposal res" where
  "transforms_loop p td =
     (if slen td > 0 then
        bind_res (transform_step td) (\<lambda>(t, rest). transforms_loop (add_transform p t) rest)
      else Inr p)"
  by pat_completeness auto
termination
  by (relation "measure (\<lambda>(p, td). slen td)") (auto dest: transform_step_shrinks)

declare transforms_loop.simps [simp del]

text \<open>\<^verbatim>\<open>8+spiSize\<close> is computed in \<^verbatim>\<open>uint8\<close> and wraps for an SPI size of 248 and more.\<close>

definition spi_unmarshal :: "slice \<Rightarrow> u8 \<Rightarrow> bytes res" where
  "spi_unmarshal rawData spiSize =
     (if unat spiSize > 0 then
        bind_res (check (\<not> slen rawData < unat (8 + spiSize))
          ''Proposal: No sufficient bytes for unmarshalling SPI of proposal'') (\<lambda>_.
        bind_res (sl_range rawData 8 (unat (8 + spiSize))) (\<lambda>s. Inr (sdata s)))
      else Inr [])"

definition proposal_step :: "slice \<Rightarrow> (Proposal \<times> slice) res" where
  "proposal_step rawData =
     bind_res (check (\<not> slen rawData < 8)
       ''Proposal: No sufficient bytes to decode next proposal'') (\<lambda>_.
     bind_res (sl_u16 rawData 2) (\<lambda>proposalLength.
     bind_res (check (\<not> unat proposalLength < 8)
       ''Proposal: Illegal payload length %d < header length 8'') (\<lambda>_.
     bind_res (check (\<not> slen rawData < unat proposalLength)
       ''Proposal: The length of received message not matchs the length specified in header'') (\<lambda>_.
     bind_res (sl_at rawData 4) (\<lambda>number.
     bind_res (sl_at rawData 5) (\<lambda>protocol.
     bind_res (sl_at rawData 6) (\<lambda>spiSize.
     bind_res (spi_unmarshal rawData spiSize) (\<lambda>spi.
     bind_res (sl_range rawData (unat (8 + spiSize)) (unat proposalLength)) (\<lambda>transformData.
     bind_res (transforms_loop
         (Proposal_new\<lparr>pr_ProposalNumber := number, pr_ProtocolID := protocol, pr_SPI := spi\<rparr>)
         transformData) (\<lambda>p.
     bind_res (sl_from rawData (unat proposalLength)) (\<lambda>rest. Inr (p, rest))))))))))))"

lemma proposal_step_shrinks: "proposal_step raw = Inr (p, rest) \<Longrightarrow> slen rest < slen raw"
  by (auto simp: proposal_step_def bind_res_eq_Inr_iff slen_def dest!: sl_from_InrD)

function proposals_loop :: "Proposal list \<Rightarrow> slice \<Rightarrow> Proposal list res" where
  "proposals_loop ps raw =
     (if slen raw > 0 then
        bind_res (proposal_step raw) (\<lambda>(p, rest). proposals_loop (ps @ [p]) rest)
      else Inr ps)"
  by pat_completeness auto
termination
  by (relation "measure (\<lambda>(ps, raw). slen raw)") (auto dest: proposal_step_shrinks)

declare proposals_loop.simps [simp del]

definition SecurityAssociation_unmarshal ::
    "SecurityAssociation \<Rightarrow> slice \<Rightarrow> SecurityAssociation res" where
  "SecurityAssociation_unmarshal sa rawData =
     bind_res (proposals_loop (sa_Proposals sa) rawData) (\<lambda>ps. Inr (sa\<lparr>sa_Proposals := ps\<rparr>))"

section \<open>Round trip\<close>

text \<open>
  The transforms that survive the wire: without an attribute, or with a fixed-length
  attribute whose type is below 128 (the decoder masks the type with \<^verbatim>\<open>0x7f\<close> and loses
  variable-length values).
\<close>

definition transform_wf :: "Transform \<Rightarrow> bool" where
  "transform_wf t \<longleftrightarrow>
     tr_VariableLengthAttributeValue t = [] \<and>
     (if tr_AttributePresent t
      then tr_AttributeFormat t = AttributeFormatUseTV \<and> unat (tr_AttributeType t) < 128
      else tr_AttributeFormat t = 0 \<and> tr_AttributeType t = 0 \<and> tr_AttributeValue t = 0)"

definition attribute_of :: "Transform \<Rightarrow> bytes" where
  "attribute_of t =
     (if tr_AttributePresent t
      then be_bytes 2 (0x8000 OR tr_AttributeType t) @ be_bytes 2 (tr_AttributeValue t) else [])"

definition enc_transform :: "bool \<Rightarrow> Transform \<Rightarrow> bytes" where
  "enc_transform another t = transform_bytes another t (attribute_of t)"

lemma format_bit: "drop_bit 7 (byte_of (Suc 0) (0x8000 OR w)) AND 1 = 1" for w :: u16
proof -
  have "byte_of (Suc 0) (0x8000 OR w) AND 0x80 = 0x80"
    by (rule bit_word_eqI) (auto simp: byte_of_def drop_bit_or unsigned_or_eq bit.conj_disj_distrib2 bit_simps)
  then have "drop_bit 7 (byte_of (Suc 0) (0x8000 OR w) AND 0x80) = 1" by simp
  then show ?thesis by simp
qed

lemma type_bits: "(0x8000 OR w) AND 0x7f = w" if "unat w < 128" for w :: u16
  using that and_mask_id [of w 7] by (simp add: mask_eq_exp_minus_1 bit.conj_disj_distrib2)

lemma attribute_marshal_ok: "transform_wf t \<Longrightarrow> attribute_marshal t = Inr (attribute_of t)"
  by (auto simp: transform_wf_def attribute_marshal_def attribute_of_def split: if_splits)

lemma transforms_marshal_ok:
  "\<forall>t\<in>set ts. transform_wf t \<Longrightarrow> transforms_marshal ts = Inr (enc_list enc_transform ts)"
  by (induction ts) (simp_all add: attribute_marshal_ok enc_transform_def)

lemma transform_step_enc:
  "transform_wf t \<Longrightarrow> transform_step (Slice (enc_transform another t @ r) sp) = Inr (t, Slice r sp)"
  by (cases t) (auto simp: transform_wf_def enc_transform_def transform_bytes_def attribute_of_def
      transform_step_def attribute_unmarshal_def Transform_new_def Let_def go_simps bytes_eval
      format_bit type_bits split: if_splits)

interpretation trl: framed_loop transform_step add_transform transforms_loop enc_transform transform_wf
  by unfold_locales
    (simp_all add: transforms_loop.simps transform_step_shrinks transform_step_enc,
      simp add: enc_transform_def transform_bytes_def)

definition all_typed :: "u8 \<Rightarrow> Transform list \<Rightarrow> bool" where
  "all_typed typ ts \<longleftrightarrow> (\<forall>t\<in>set ts. tr_TransformType t = typ)"

text \<open>The groups of a proposal, filled in the order the encoder writes them.\<close>

lemma foldl_add_transform:
  "all_typed 1 ts \<Longrightarrow> foldl add_transform p ts = p\<lparr>pr_EncryptionAlgorithm := pr_EncryptionAlgorithm p @ ts\<rparr>"
  "all_typed 2 ts \<Longrightarrow> foldl add_transform p ts = p\<lparr>pr_PseudorandomFunction := pr_PseudorandomFunction p @ ts\<rparr>"
  "all_typed 3 ts \<Longrightarrow> foldl add_transform p ts = p\<lparr>pr_IntegrityAlgorithm := pr_IntegrityAlgorithm p @ ts\<rparr>"
  "all_typed 4 ts \<Longrightarrow> foldl add_transform p ts = p\<lparr>pr_DiffieHellmanGroup := pr_DiffieHellmanGroup p @ ts\<rparr>"
  "all_typed 5 ts \<Longrightarrow>
     foldl add_transform p ts = p\<lparr>pr_ExtendedSequenceNumbers := pr_ExtendedSequenceNumbers p @ ts\<rparr>"
  by (induction ts arbitrary: p; simp add: all_typed_def add_transform_def)+

definition proposal_typed :: "Proposal \<Rightarrow> bool" where
  "proposal_typed p \<longleftrightarrow>
     all_typed TypeEncryptionAlgorithm (pr_EncryptionAlgorithm p) \<and>
     all_typed TypePseudorandomFunction (pr_PseudorandomFunction p) \<and>
     all_typed TypeIntegrityAlgorithm (pr_IntegrityAlgorithm p) \<and>
     all_typed TypeDiffieHellmanGroup (pr_DiffieHellmanGroup p) \<and>
     all_typed TypeExtendedSequenceNumbers (pr_ExtendedSequenceNumbers p)"

definition proposal_wf :: "Proposal \<Rightarrow> bool" where
  "proposal_wf p \<longleftrightarrow>
     transformList p \<noteq> [] \<and> proposal_typed p \<and> (\<forall>t\<in>set (transformList p). transform_wf t) \<and>
     length (pr_SPI p) < 248 \<and>
     8 + length (pr_SPI p) + length (enc_list enc_transform (transformList p)) < 65536"

definition SecurityAssociation_wf :: "SecurityAssociation \<Rightarrow> bool" where
  "SecurityAssociation_wf sa \<longleftrightarrow> (\<forall>p\<in>set (sa_Proposals sa). proposal_wf p)"

definition enc_proposal :: "bool \<Rightarrow> Proposal \<Rightarrow> bytes" where
  "enc_proposal another p = proposal_bytes another p (enc_list enc_transform (transformList p))"

lemma foldl_transformList:
  "proposal_typed p \<Longrightarrow>
   foldl add_transform
     (Proposal_new\<lparr>pr_ProposalNumber := pr_ProposalNumber p, pr_ProtocolID := pr_ProtocolID p,
        pr_SPI := pr_SPI p\<rparr>) (transformList p) = p"
  by (cases p) (simp add: proposal_typed_def transformList_def foldl_add_transform Proposal_new_def)

lemma proposals_marshal_ok:
  "\<forall>p\<in>set ps. proposal_wf p \<Longrightarrow> proposals_marshal ps = Inr (enc_list enc_proposal ps)"
  by (induction ps) (simp_all add: proposal_wf_def transforms_marshal_ok enc_proposal_def)

lemma spi_unmarshal_ok:
  assumes "length spi < 248" and "length h = 8"
  shows "spi_unmarshal (Slice (h @ spi @ r) sp) (of_nat (length spi)) = Inr spi"
  using assms by (simp add: spi_unmarshal_def go_simps)

lemma proposal_step_enc:
  assumes "proposal_wf p"
  shows "proposal_step (Slice (enc_proposal another p @ r) sp) = Inr (p, Slice r sp)"
proof -
  let ?ts = "enc_list enc_transform (transformList p)"
  let ?p0 = "Proposal_new\<lparr>pr_ProposalNumber := pr_ProposalNumber p,
    pr_ProtocolID := pr_ProtocolID p, pr_SPI := pr_SPI p\<rparr>"
  define n where "n = 8 + (length (pr_SPI p) + length ?ts)"
  define h where "h = [if another then 2 else 0, 0] @ be_bytes 2 (of_nat n :: u16)
    @ [pr_ProposalNumber p, pr_ProtocolID p, of_nat (length (pr_SPI p)), of_nat (length (transformList p))]"
  let ?raw = "Slice (h @ pr_SPI p @ ?ts @ r) sp"
  have enc: "enc_proposal another p = h @ pr_SPI p @ ?ts"
    by (simp add: enc_proposal_def proposal_bytes_def h_def n_def add.assoc)
  have "n < 65536"
    using assms by (simp add: proposal_wf_def n_def)
  then have unat_n: "unat (of_nat n :: u16) = n" by (rule unat_of_nat_16)
  have len: "length h = 8" "n \<le> length (h @ pr_SPI p @ ?ts @ r)" "8 \<le> n"
    using assms by (simp_all add: proposal_wf_def h_def n_def be_bytes_16)
  have header: "sl_u16 ?raw 2 = Inr (of_nat n)" "sl_at ?raw 4 = Inr (pr_ProposalNumber p)"
    "sl_at ?raw 5 = Inr (pr_ProtocolID p)" "sl_at ?raw 6 = Inr (of_nat (length (pr_SPI p)))"
    by (simp_all add: h_def go_simps bytes_eval)
  have spi: "spi_unmarshal ?raw (of_nat (length (pr_SPI p))) = Inr (pr_SPI p)"
    using assms len by (intro spi_unmarshal_ok) (simp_all add: proposal_wf_def)
  have window: "sl_range ?raw (unat (8 + of_nat (length (pr_SPI p)) :: u8)) n = Inr (Slice ?ts (r @ sp))"
    using assms len by (simp add: proposal_wf_def sl_range_ok n_def)
  have loop: "transforms_loop ?p0 (Slice ?ts (r @ sp)) = Inr p"
    using assms trl.loop_enc_list [of "transformList p" ?p0 "r @ sp"]
    by (simp add: proposal_wf_def foldl_transformList)
  have rest: "sl_from ?raw n = Inr (Slice r sp)"
    using len by (simp add: sl_from_ok n_def)
  show ?thesis
    using len by (simp add: enc proposal_step_def header unat_n spi window loop rest)
qed

interpretation prl: framed_loop proposal_step "\<lambda>ps p. ps @ [p]" proposals_loop enc_proposal proposal_wf
  by unfold_locales
    (simp_all add: proposals_loop.simps proposal_step_shrinks proposal_step_enc,
      simp add: enc_proposal_def proposal_bytes_def)

interpretation sa: binary_codec SecurityAssociation_new SecurityAssociation_marshal
  SecurityAssociation_unmarshal SecurityAssociation_wf
proof unfold_locales
  show "SecurityAssociation_wf p \<Longrightarrow> \<exists>d. SecurityAssociation_marshal p = Inr d" for p
    by (simp add: SecurityAssociation_wf_def SecurityAssociation_marshal_def proposals_marshal_ok)
  show "SecurityAssociation_wf p \<Longrightarrow> SecurityAssociation_marshal p = Inr d \<Longrightarrow>
      SecurityAssociation_unmarshal SecurityAssociation_new (Slice d sp) = Inr p" for p d sp
    using prl.loop_enc_list [of "sa_Proposals p" "[]" sp]
    by (auto simp: SecurityAssociation_wf_def SecurityAssociation_marshal_def proposals_marshal_ok
        SecurityAssociation_unmarshal_def SecurityAssociation_new_def foldl_snoc)
qed

end
