(* ===== verification/IKE_Message.thy ===== *)
theory IKE_Message
  imports IKE_Payload IKE_Selector IKE_EAP IKE_SA
begin

text \<open>
  The IKE message of \<^verbatim>\<open>src/n3iwf/ike/message/message.go\<close>: the header, the chain of
  payloads (each one's generic header names the type of the next), \<^verbatim>\<open>Encode\<close>,
  \<^verbatim>\<open>EncodePayload\<close>, \<^verbatim>\<open>Decode\<close> and \<^verbatim>\<open>DecodePayload\<close>. The dispatch over the payload
  interface \<^verbatim>\<open>IKEPayloadType\<close> is a datatype with one constructor per implementing struct.
\<close>

section \<open>Payloads\<close>

datatype IKEPayload =
    PSA SecurityAssociation
  | PKE KeyExchange
  | PIDi IdentificationInitiator
  | PIDr IdentificationResponder
  | PCERT Certificate
  | PCERTreq CertificateRequest
  | PAUTH Authentication
  | PNiNr Nonce
  | PN Notification
  | PD Delete
  | PV VendorID
  | PTSi TrafficSelectorInitiator
  | PTSr TrafficSelectorResponder
  | PSK Encrypted
  | PCP Configuration
  | PEAP EAP

fun payload_Type :: "IKEPayload \<Rightarrow> u8" where
  "payload_Type (PSA _) = TypeSA"
| "payload_Type (PKE _) = TypeKE"
| "payload_Type (PIDi _) = TypeIDi"
| "payload_Type (PIDr _) = TypeIDr"
| "payload_Type (PCERT _) = TypeCERT"
| "payload_Type (PCERTreq _) = TypeCERTreq"
| "payload_Type (PAUTH _) = TypeAUTH"
| "payload_Type (PNiNr _) = TypeNiNr"
| "payload_Type (PN _) = TypeN"
| "payload_Type (PD _) = TypeD"
| "payload_Type (PV _) = TypeV"
| "payload_Type (PTSi _) = TypeTSi"
| "payload_Type (PTSr _) = TypeTSr"
| "payload_Type (PSK _) = TypeSK"
| "payload_Type (PCP _) = TypeCP"
| "payload_Type (PEAP _) = TypeEAP"

fun payload_marshal :: "IKEPayload \<Rightarrow> bytes res" where
  "payload_marshal (PSA p) = SecurityAssociation_marshal p"
| "payload_marshal (PKE p) = KeyExchange_marshal p"
| "payload_marshal (PIDi p) = IdentificationInitiator_marshal p"
| "payload_marshal (PIDr p) = IdentificationResponder_marshal p"
| "payload_marshal (PCERT p) = Certificate_marshal p"
| "payload_marshal (PCERTreq p) = CertificateRequest_marshal p"
| "payload_marshal (PAUTH p) = Authentication_marshal p"
| "payload_marshal (PNiNr p) = Nonce_marshal p"
| "payload_marshal (PN p) = Notification_marshal p"
| "payload_marshal (PD p) = Delete_marshal p"
| "payload_marshal (PV p) = VendorID_marshal p"
| "payload_marshal (PTSi p) = TrafficSelectorInitiator_marshal p"
| "payload_marshal (PTSr p) = TrafficSelectorResponder_marshal p"
| "payload_marshal (PSK p) = Encrypted_marshal p"
| "payload_marshal (PCP p) = Configuration_marshal p"
| "payload_marshal (PEAP p) = EAP_marshal p"

definition lift_payload :: "('p \<Rightarrow> IKEPayload) \<Rightarrow> 'p res \<Rightarrow> IKEPayload res" where
  "lift_payload C r = bind_res r (\<lambda>p. Inr (C p))"

fun payload_unmarshal :: "IKEPayload \<Rightarrow> slice \<Rightarrow> IKEPayload res" where
  "payload_unmarshal (PSA p) raw = lift_payload PSA (SecurityAssociation_unmarshal p raw)"
| "payload_unmarshal (PKE p) raw = lift_payload PKE (KeyExchange_unmarshal p raw)"
| "payload_unmarshal (PIDi p) raw = lift_payload PIDi (IdentificationInitiator_unmarshal p raw)"
| "payload_unmarshal (PIDr p) raw = lift_payload PIDr (IdentificationResponder_unmarshal p raw)"
| "payload_unmarshal (PCERT p) raw = lift_payload PCERT (Certificate_unmarshal p raw)"
| "payload_unmarshal (PCERTreq p) raw = lift_payload PCERTreq (CertificateRequest_unmarshal p raw)"
| "payload_unmarshal (PAUTH p) raw = lift_payload PAUTH (Authentication_unmarshal p raw)"
| "payload_unmarshal (PNiNr p) raw = lift_payload PNiNr (Nonce_unmarshal p raw)"
| "payload_unmarshal (PN p) raw = lift_payload PN (Notification_unmarshal p raw)"
| "payload_unmarshal (PD p) raw = lift_payload PD (Delete_unmarshal p raw)"
| "payload_unmarshal (PV p) raw = lift_payload PV (VendorID_unmarshal p raw)"
| "payload_unmarshal (PTSi p) raw = lift_payload PTSi (TrafficSelectorInitiator_unmarshal p raw)"
| "payload_unmarshal (PTSr p) raw = lift_payload PTSr (TrafficSelectorResponder_unmarshal p raw)"
| "payload_unmarshal (PSK p) raw = lift_payload PSK (Encrypted_unmarshal p raw)"
| "payload_unmarshal (PCP p) raw = lift_payload PCP (Configuration_unmarshal p raw)"
| "payload_unmarshal (PEAP p) raw = lift_payload PEAP (EAP_unmarshal p raw)"

text \<open>The switch of \<^verbatim>\<open>DecodePayload\<close>; the encrypted payload takes the next type with it.\<close>

definition payload_new :: "u8 \<Rightarrow> u8 \<Rightarrow> IKEPayload option" where
  "payload_new nextPayload raw0 =
     (if nextPayload = TypeSA then Some (PSA SecurityAssociation_new)
      else if nextPayload = TypeKE then Some (PKE KeyExchange_new)
      else if nextPayload = TypeIDi then Some (PIDi IdentificationInitiator_new)
      else if nextPayload = TypeIDr then Some (PIDr IdentificationResponder_new)
      else if nextPayload = TypeCERT then Some (PCERT Certificate_new)
      else if nextPayload = TypeCERTreq then Some (PCERTreq CertificateRequest_new)
      else if nextPayload = TypeAUTH then Some (PAUTH Authentication_new)
      else if nextPayload = TypeNiNr then Some (PNiNr Nonce_new)
      else if nextPayload = TypeN then Some (PN Notification_new)
      else if nextPayload = TypeD then Some (PD Delete_new)
      else if nextPayload = TypeV then Some (PV VendorID_new)
      else if nextPayload = TypeTSi then Some (PTSi TrafficSelectorInitiator_new)
      else if nextPayload = TypeTSr then Some (PTSr TrafficSelectorResponder_new)
      else if nextPayload = TypeSK then Some (PSK (Encrypted_new\<lparr>sk_NextPayload := raw0\<rparr>))
      else if nextPayload = TypeCP then Some (PCP Configuration_new)
      else if nextPayload = TypeEAP then Some (PEAP EAP_new)
      else None)"

section \<open>Messages\<close>

record IKEMessage =
  InitiatorSPI :: u64
  ResponderSPI :: u64
  Version :: u8
  ExchangeType :: u8
  Flags :: u8
  MessageID :: u32
  IKEPayloads :: "IKEPayload list"

definition next_payload_of :: "IKEPayload \<Rightarrow> IKEPayload list \<Rightarrow> u8" where
  "next_payload_of p rest =
     (case rest of
        q # _ \<Rightarrow> payload_Type q
      | [] \<Rightarrow> (case p of PSK e \<Rightarrow> sk_NextPayload e | _ \<Rightarrow> NoNext))"

definition payload_frame :: "u8 \<Rightarrow> bytes \<Rightarrow> bytes" where
  "payload_frame next d = [next, 0] @ be_bytes 2 (of_nat (4 + length d) :: u16) @ d"

fun EncodePayload :: "IKEPayload list \<Rightarrow> bytes res" where
  "EncodePayload [] = Inr []"
| "EncodePayload (p # ps) =
     bind_res (payload_marshal p) (\<lambda>d.
     bind_res (EncodePayload ps) (\<lambda>ds. Inr (payload_frame (next_payload_of p ps) d @ ds)))"

definition Encode :: "IKEMessage option \<Rightarrow> bytes res" where
  "Encode ikeMessage =
     (case ikeMessage of
        None \<Rightarrow> Inl (Err ''[IKE] Encode(): Input IKE message is nil'')
      | Some m \<Rightarrow>
          bind_res (EncodePayload (IKEPayloads m)) (\<lambda>payloadData.
          Inr (be_bytes 8 (InitiatorSPI m) @ be_bytes 8 (ResponderSPI m)
               @ [case IKEPayloads m of p # _ \<Rightarrow> payload_Type p | [] \<Rightarrow> NoNext,
                  Version m, ExchangeType m, Flags m]
               @ be_bytes 4 (MessageID m)
               @ be_bytes 4 (of_nat (28 + length payloadData) :: u32)
               @ payloadData)))"

text \<open>
  One turn of the loop of \<^verbatim>\<open>DecodePayload\<close>: the payload it appends (none when an unknown
  payload without the critical bit is skipped), the type of the next one and what is left.
\<close>

definition payload_step :: "u8 \<Rightarrow> slice \<Rightarrow> (IKEPayload list \<times> u8 \<times> slice) res" where
  "payload_step nextPayload rawData =
     bind_res (check (\<not> slen rawData < 4)
       ''DecodePayload(): No sufficient bytes to decode next payload'') (\<lambda>_.
     bind_res (sl_u16 rawData 2) (\<lambda>payloadLength.
     bind_res (check (\<not> unat payloadLength < 4)
       ''DecodePayload(): Illegal payload length %d < header length 4'') (\<lambda>_.
     bind_res (check (\<not> slen rawData < unat payloadLength)
       ''DecodePayload(): The length of received message not matchs the length specified in header'') (\<lambda>_.
     bind_res (sl_at rawData 1) (\<lambda>raw1.
     bind_res (sl_at rawData 0) (\<lambda>raw0.
     case payload_new nextPayload raw0 of
       None \<Rightarrow>
         if drop_bit 7 (raw1 AND 0x80) = 0 then
           bind_res (sl_from rawData (unat payloadLength)) (\<lambda>rest. Inr ([], raw0, rest))
         else Inl (Err ''Unknown payload type: %d'')
     | Some payload \<Rightarrow>
         bind_res (sl_range rawData 4 (unat payloadLength)) (\<lambda>window.
         bind_res (payload_unmarshal payload window) (\<lambda>payload'.
         bind_res (sl_from rawData (unat payloadLength)) (\<lambda>rest.
         Inr ([payload'], raw0, rest)))))))))) "

lemma payload_step_shrinks:
  "payload_step next raw = Inr (ps, next', rest) \<Longrightarrow> slen rest < slen raw"
  by (auto simp: payload_step_def bind_res_eq_Inr_iff slen_def split: option.splits if_splits
      dest!: sl_from_InrD)

function DecodePayload_loop :: "IKEPayload list \<Rightarrow> u8 \<Rightarrow> slice \<Rightarrow> IKEPayload list res" where
  "DecodePayload_loop acc nextPayload rawData =
     (if slen rawData > 0 then
        bind_res (payload_step nextPayload rawData) (\<lambda>(ps, next', rest).
        DecodePayload_loop (acc @ ps) next' rest)
      else Inr acc)"
  by pat_completeness auto
termination
  by (relation "measure (\<lambda>(acc, next, raw). slen raw)") (auto dest: payload_step_shrinks)

declare DecodePayload_loop.simps [simp del]

definition DecodePayload :: "u8 \<Rightarrow> slice \<Rightarrow> IKEPayload list res" where
  "DecodePayload nextPayload rawData = DecodePayload_loop [] nextPayload rawData"

definition Decode :: "slice \<Rightarrow> IKEMessage res" where
  "Decode rawData =
     bind_res (check (\<not> slen rawData < 28) ''[IKE] Decode(): Received broken IKE header'') (\<lambda>_.
     bind_res (sl_u32 rawData 24) (\<lambda>ikeMessageLength.
     bind_res (check (\<not> unat ikeMessageLength < 28)
       ''[IKE] Decode(): Illegal IKE message length %d < header length 20'') (\<lambda>_.
     bind_res (check (slen rawData = unat ikeMessageLength)
       ''[IKE] Decode(): The length of received message not matchs the length specified in header'') (\<lambda>_.
     bind_res (sl_at rawData 16) (\<lambda>nextPayload.
     bind_res (sl_u64 rawData 0) (\<lambda>initiatorSPI.
     bind_res (sl_u64 rawData 8) (\<lambda>responderSPI.
     bind_res (sl_at rawData 17) (\<lambda>version.
     bind_res (sl_at rawData 18) (\<lambda>exchangeType.
     bind_res (sl_at rawData 19) (\<lambda>flags.
     bind_res (sl_u32 rawData 20) (\<lambda>messageID.
     bind_res (sl_from rawData 28) (\<lambda>rest.
     bind_res (DecodePayload nextPayload rest) (\<lambda>ikePayload.
     Inr \<lparr>InitiatorSPI = initiatorSPI, ResponderSPI = responderSPI, Version = version,
          ExchangeType = exchangeType, Flags = flags, MessageID = messageID,
          IKEPayloads = ikePayload\<rparr>)))))))))))))"

section \<open>Well-formed messages\<close>

fun payload_wf :: "IKEPayload \<Rightarrow> bool" where
  "payload_wf (PSA p) = SecurityAssociation_wf p"
| "payload_wf (PKE p) = KeyExchange_wf p"
| "payload_wf (PIDi p) = IdentificationInitiator_wf p"
| "payload_wf (PIDr p) = IdentificationResponder_wf p"
| "payload_wf (PCERT p) = Certificate_wf p"
| "payload_wf (PCERTreq p) = CertificateRequest_wf p"
| "payload_wf (PAUTH p) = Authentication_wf p"
| "payload_wf (PNiNr p) = True"
| "payload_wf (PN p) = Notification_wf p"
| "payload_wf (PD p) = Delete_wf p"
| "payload_wf (PV p) = True"
| "payload_wf (PTSi p) = selectors_wf (tsi_TrafficSelectors p)"
| "payload_wf (PTSr p) = selectors_wf (tsr_TrafficSelectors p)"
| "payload_wf (PSK p) = True"
| "payload_wf (PCP p) = Configuration_wf p"
| "payload_wf (PEAP p) = EAP_wf p"

definition payload_fits :: "IKEPayload \<Rightarrow> bool" where
  "payload_fits p \<longleftrightarrow> (case payload_marshal p of Inr d \<Rightarrow> 4 + length d < 65536 | Inl _ \<Rightarrow> False)"

text \<open>
  An encrypted payload that is not the last one is written with the type of its
  successor, so its own field has to agree with it.
\<close>

fun sk_chain :: "IKEPayload list \<Rightarrow> bool" where
  "sk_chain [] = True"
| "sk_chain (PSK e # ps) = ((case ps of [] \<Rightarrow> True | q # _ \<Rightarrow> sk_NextPayload e = payload_Type q) \<and> sk_chain ps)"
| "sk_chain (_ # ps) = sk_chain ps"

definition payloads_wf :: "IKEPayload list \<Rightarrow> bool" where
  "payloads_wf ps \<longleftrightarrow> (\<forall>p\<in>set ps. payload_wf p \<and> payload_fits p) \<and> sk_chain ps"

definition message_wf :: "IKEMessage \<Rightarrow> bool" where
  "message_wf m \<longleftrightarrow> payloads_wf (IKEPayloads m) \<and>
     (case EncodePayload (IKEPayloads m) of Inr d \<Rightarrow> 28 + length d < 2 ^ 32 | Inl _ \<Rightarrow> False)"

section \<open>Round trip\<close>

lemmas payload_codecs =
  sa.unmarshal_marshal ke.unmarshal_marshal idi.unmarshal_marshal idr.unmarshal_marshal
  cert.unmarshal_marshal creq.unmarshal_marshal auth.unmarshal_marshal nonce.unmarshal_marshal
  notif.unmarshal_marshal del.unmarshal_marshal vid.unmarshal_marshal tsi.unmarshal_marshal
  tsr.unmarshal_marshal cp.unmarshal_marshal eap.unmarshal_marshal

definition carries :: "u8 \<Rightarrow> IKEPayload \<Rightarrow> bool" where
  "carries next p \<longleftrightarrow> (case p of PSK e \<Rightarrow> sk_NextPayload e = next | _ \<Rightarrow> True)"

lemma payload_roundtrip:
  assumes "payload_wf p" and "payload_marshal p = Inr d" and "carries raw0 p"
  shows "\<exists>p0. payload_new (payload_Type p) raw0 = Some p0 \<and> payload_unmarshal p0 (Slice d sp) = Inr p"
proof (cases p)
  case (PSK e)
  then show ?thesis
    using assms Encrypted_roundtrip [of e sp]
    by (simp add: payload_new_def lift_payload_def carries_def Encrypted_marshal_def)
qed (use assms in \<open>simp_all add: payload_new_def lift_payload_def payload_codecs\<close>)

lemma payload_step_frame:
  assumes "payload_wf p" and "payload_marshal p = Inr d" and "4 + length d < 65536"
    and "carries next p"
  shows "payload_step (payload_Type p) (Slice (payload_frame next d @ r) sp) = Inr ([p], next, Slice r sp)"
proof -
  obtain p0 where p0: "payload_new (payload_Type p) next = Some p0"
    "payload_unmarshal p0 (Slice d (r @ sp)) = Inr p"
    using payload_roundtrip [OF assms(1,2,4)] by blast
  have n: "unat (of_nat (4 + length d) :: u16) = 4 + length d"
    by (rule unat_of_nat_16) (rule assms(3))
  show ?thesis
    using assms(3) by (simp add: payload_step_def payload_frame_def go_simps bytes_eval p0 n
        del: of_nat_add of_nat_numeral)
qed

lemma sk_chain_carries: "sk_chain (p # ps) \<Longrightarrow> carries (next_payload_of p ps) p \<and> sk_chain ps"
  by (cases p) (auto simp: carries_def next_payload_of_def split: list.splits)

lemma next_payload_of_Cons [simp]: "next_payload_of p (q # qs) = payload_Type q"
  by (simp add: next_payload_of_def)

lemma DecodePayload_loop_Nil [simp]: "DecodePayload_loop acc next (Slice [] sp) = Inr acc"
  by (simp add: DecodePayload_loop.simps)

lemma DecodePayload_loop_EncodePayload:
  assumes "payloads_wf ps" and "EncodePayload ps = Inr d"
    and "case ps of [] \<Rightarrow> True | p # _ \<Rightarrow> np = payload_Type p"
  shows "DecodePayload_loop acc np (Slice d sp) = Inr (acc @ ps)"
  using assms
proof (induction ps arbitrary: acc np d)
  case Nil
  then show ?case by simp
next
  case (Cons p ps)
  from Cons.prems(2) obtain e ds where e: "payload_marshal p = Inr e" "EncodePayload ps = Inr ds"
    and d: "d = payload_frame (next_payload_of p ps) e @ ds"
    by (auto simp: bind_res_eq_Inr_iff)
  have wf: "payload_wf p" "4 + length e < 65536" "payloads_wf ps" "carries (next_payload_of p ps) p"
    using Cons.prems(1) e sk_chain_carries by (auto simp: payloads_wf_def payload_fits_def)
  have "DecodePayload_loop acc (payload_Type p) (Slice d sp)
      = DecodePayload_loop (acc @ [p]) (next_payload_of p ps) (Slice ds sp)"
    using wf e by (subst DecodePayload_loop.simps) (simp add: d payload_step_frame, simp add: payload_frame_def)
  also have "\<dots> = Inr ((acc @ [p]) @ ps)"
    using wf e by (intro Cons.IH) (auto split: list.splits)
  finally show ?case using Cons.prems(3) by simp
qed

lemma payload_marshal_total: "payload_wf p \<Longrightarrow> \<exists>d. payload_marshal p = Inr d"
  using sa.marshal_total ke.marshal_total idi.marshal_total idr.marshal_total
    cert.marshal_total creq.marshal_total auth.marshal_total nonce.marshal_total
    notif.marshal_total del.marshal_total vid.marshal_total tsi.marshal_total
    tsr.marshal_total cp.marshal_total eap.marshal_total
  by (cases p) (simp_all add: Encrypted_marshal_def)

lemma EncodePayload_total: "\<forall>p\<in>set ps. payload_wf p \<Longrightarrow> \<exists>d. EncodePayload ps = Inr d"
  by (induction ps) (fastforce dest: payload_marshal_total)+

text \<open>
  C6. For every well-formed message, \<^verbatim>\<open>Encode\<close> succeeds, and \<^verbatim>\<open>Decode\<close> gives the same
  message back from the encoded bytes, whatever follows them in the receive buffer.
\<close>

theorem Decode_Encode:
  assumes "message_wf m"
  shows "\<exists>d. Encode (Some m) = Inr d \<and> (\<forall>sp. Decode (Slice d sp) = Inr m)"
proof -
  obtain d where d: "EncodePayload (IKEPayloads m) = Inr d"
    using assms EncodePayload_total [of "IKEPayloads m"] by (auto simp: message_wf_def payloads_wf_def)
  let ?n = "of_nat (28 + length d) :: u32"
  let ?t = "case IKEPayloads m of p # _ \<Rightarrow> payload_Type p | [] \<Rightarrow> NoNext"
  have n: "unat ?n = 28 + length d"
    using assms d by (intro unat_of_nat_32) (simp add: message_wf_def)
  have payloads: "DecodePayload ?t (Slice d sp) = Inr (IKEPayloads m)" for sp
    using assms d unfolding DecodePayload_def
    by (subst DecodePayload_loop_EncodePayload [where ps = "IKEPayloads m"])
      (auto simp: message_wf_def split: list.splits)
  show ?thesis
    by (simp add: Encode_def d Decode_def go_simps bytes_eval n payloads
        del: of_nat_add of_nat_numeral)
qed

definition sample_message :: IKEMessage where
  "sample_message =
     \<lparr>InitiatorSPI = 0x1122334455667788, ResponderSPI = 0, Version = 0x20, ExchangeType = 34,
      Flags = 8, MessageID = 0,
      IKEPayloads =
        [PSA \<lparr>sa_Proposals = [Proposal_new\<lparr>pr_ProposalNumber := 1, pr_ProtocolID := 1,
           pr_EncryptionAlgorithm := [\<lparr>tr_TransformType = 1, tr_TransformID = 12,
             tr_AttributePresent = True, tr_AttributeFormat = 1, tr_AttributeType = 14,
             tr_AttributeValue = 256, tr_VariableLengthAttributeValue = []\<rparr>],
           pr_DiffieHellmanGroup := [Transform_new\<lparr>tr_TransformType := 4, tr_TransformID := 14\<rparr>]\<rparr>]\<rparr>,
         PKE \<lparr>ke_DiffieHellmanGroup = 14, ke_KeyExchangeData = [1, 2, 3]\<rparr>,
         PNiNr \<lparr>nonce_NonceData = [4, 5, 6, 7]\<rparr>,
         PSK \<lparr>sk_NextPayload = 35, sk_EncryptedData = [9, 9]\<rparr>]\<rparr>"

lemma sample_message_wf: "message_wf sample_message"
proof -
  let ?p = "Proposal_new\<lparr>pr_ProposalNumber := 1, pr_ProtocolID := 1,
    pr_EncryptionAlgorithm := [\<lparr>tr_TransformType = 1, tr_TransformID = 12,
      tr_AttributePresent = True, tr_AttributeFormat = 1, tr_AttributeType = 14,
      tr_AttributeValue = 256, tr_VariableLengthAttributeValue = []\<rparr>],
    pr_DiffieHellmanGroup := [Transform_new\<lparr>tr_TransformType := 4, tr_TransformID := 14\<rparr>]\<rparr>"
  have p: "proposal_wf ?p"
    by (simp add: proposal_wf_def proposal_typed_def all_typed_def transformList_def transform_wf_def
        Transform_new_def Proposal_new_def enc_transform_def transform_bytes_def attribute_of_def)
  then have sa: "SecurityAssociation_marshal \<lparr>sa_Proposals = [?p]\<rparr> = Inr (enc_proposal False ?p)"
    using proposals_marshal_ok [of "[?p]"]
    by (simp add: SecurityAssociation_marshal_def del: proposals_marshal.simps)
  have len: "length (enc_proposal False ?p) = 28"
    by (simp add: enc_proposal_def proposal_bytes_def transformList_def Transform_new_def
        Proposal_new_def enc_transform_def transform_bytes_def attribute_of_def)
  show ?thesis
    using p by (simp add: message_wf_def sample_message_def payloads_wf_def payload_fits_def sa len
        SecurityAssociation_wf_def KeyExchange_wf_def KeyExchange_marshal_def Nonce_marshal_def
        Encrypted_marshal_def payload_frame_def)
qed

theorem Decode_Encode_witness:
  "\<exists>d. Encode (Some sample_message) = Inr d \<and> (\<forall>sp. Decode (Slice d sp) = Inr sample_message)"
  using sample_message_wf by (rule Decode_Encode)

end
