(* ===== verification/IKE_Build.thy ===== *)
theory IKE_Build
  imports IKE_Message
begin

text \<open>
  The builders of \<^verbatim>\<open>src/n3iwf/ike/message/build.go\<close>. A builder that can return nil returns
  an option. What they build is well formed, so it survives the wire.
\<close>

section \<open>Builders\<close>

definition BuildIKEHeader :: "u64 \<Rightarrow> u64 \<Rightarrow> u8 \<Rightarrow> u8 \<Rightarrow> u32 \<Rightarrow> IKEMessage" where
  "BuildIKEHeader initiatorSPI responsorSPI exchangeType flags messageID =
     \<lparr>InitiatorSPI = initiatorSPI, ResponderSPI = responsorSPI, Version = 0x20,
      ExchangeType = exchangeType, Flags = flags, MessageID = messageID, IKEPayloads = []\<rparr>"

definition BuildNotification :: "u8 \<Rightarrow> u16 \<Rightarrow> bytes \<Rightarrow> bytes \<Rightarrow> Notification" where
  "BuildNotification protocolID notifyMessageType spi notificationData =
     Notification_new\<lparr>n_ProtocolID := protocolID, n_NotifyMessageType := notifyMessageType,
       n_SPI := n_SPI Notification_new @ spi,
       n_NotificationData := n_NotificationData Notification_new @ notificationData\<rparr>"

definition BuildCertificate :: "u8 \<Rightarrow> bytes \<Rightarrow> Certificate" where
  "BuildCertificate certificateEncode certificateData =
     Certificate_new\<lparr>cert_CertificateEncoding := certificateEncode,
       cert_CertificateData := cert_CertificateData Certificate_new @ certificateData\<rparr>"

definition BuildEncrypted :: "u8 \<Rightarrow> bytes \<Rightarrow> Encrypted" where
  "BuildEncrypted nextPayload encryptedData =
     Encrypted_new\<lparr>sk_NextPayload := nextPayload,
       sk_EncryptedData := sk_EncryptedData Encrypted_new @ encryptedData\<rparr>"

definition BUildKeyExchange :: "u16 \<Rightarrow> bytes \<Rightarrow> KeyExchange" where
  "BUildKeyExchange diffiehellmanGroup keyExchangeData =
     KeyExchange_new\<lparr>ke_DiffieHellmanGroup := diffiehellmanGroup,
       ke_KeyExchangeData := ke_KeyExchangeData KeyExchange_new @ keyExchangeData\<rparr>"

definition BuildIdentificationInitiator :: "u8 \<Rightarrow> bytes \<Rightarrow> IdentificationInitiator" where
  "BuildIdentificationInitiator idType idData =
     IdentificationInitiator_new\<lparr>idi_IDType := idType,
       idi_IDData := idi_IDData IdentificationInitiator_new @ idData\<rparr>"

definition BuildIdentificationResponder :: "u8 \<Rightarrow> bytes \<Rightarrow> IdentificationResponder" where
  "BuildIdentificationResponder idType idData =
     IdentificationResponder_new\<lparr>idr_IDType := idType,
       idr_IDData := idr_IDData IdentificationResponder_new @ idData\<rparr>"

definition BuildAuthentication :: "u8 \<Rightarrow> bytes \<Rightarrow> Authentication" where
  "BuildAuthentication authenticationMethod authenticationData =
     Authentication_new\<lparr>auth_AuthenticationMethod := authenticationMethod,
       auth_AuthenticationData := auth_AuthenticationData Authentication_new @ authenticationData\<rparr>"

definition BuildConfiguration :: "u8 \<Rightarrow> IndividualConfigurationAttribute list \<Rightarrow> Configuration" where
  "BuildConfiguration configurationType attributes =
     Configuration_new\<lparr>cp_ConfigurationType := configurationType,
       cp_ConfigurationAttribute := cp_ConfigurationAttribute Configuration_new @ attributes\<rparr>"

definition BuildConfigurationAttribute :: "u16 \<Rightarrow> bytes \<Rightarrow> IndividualConfigurationAttribute" where
  "BuildConfigurationAttribute attributeType attributeValue =
     \<lparr>ca_Type = attributeType, ca_Value = attributeValue\<rparr>"

definition BuildNonce :: "bytes \<Rightarrow> Nonce" where
  "BuildNonce nonceData = Nonce_new\<lparr>nonce_NonceData := nonce_NonceData Nonce_new @ nonceData\<rparr>"

definition BuildTrafficSelectorInitiator :: "IndividualTrafficSelector list \<Rightarrow> TrafficSelectorInitiator" where
  "BuildTrafficSelectorInitiator trafficSelectors =
     TrafficSelectorInitiator_new\<lparr>tsi_TrafficSelectors :=
       tsi_TrafficSelectors TrafficSelectorInitiator_new @ trafficSelectors\<rparr>"

definition BuildTrafficSelectorResponder :: "IndividualTrafficSelector list \<Rightarrow> TrafficSelectorResponder" where
  "BuildTrafficSelectorResponder trafficSelectors =
     TrafficSelectorResponder_new\<lparr>tsr_TrafficSelectors :=
       tsr_TrafficSelectors TrafficSelectorResponder_new @ trafficSelectors\<rparr>"

definition BuildIndividualTrafficSelector ::
    "u8 \<Rightarrow> u8 \<Rightarrow> u16 \<Rightarrow> u16 \<Rightarrow> bytes \<Rightarrow> bytes \<Rightarrow> IndividualTrafficSelector" where
  "BuildIndividualTrafficSelector tsType ipProtocolID startPort endPort startAddr endAddr =
     \<lparr>ts_TSType = tsType, ts_IPProtocolID = ipProtocolID, ts_StartPort = startPort,
      ts_EndPort = endPort, ts_StartAddress = startAddr, ts_EndAddress = endAddr\<rparr>"

text \<open>An attribute type without any value gives nil.\<close>

definition BuildTransform :: "u8 \<Rightarrow> u16 \<Rightarrow> u16 option \<Rightarrow> u16 option \<Rightarrow> bytes \<Rightarrow> Transform option" where
  "BuildTransform transformType transformID attributeType attributeValue variableLengthAttributeValue =
     (let t = Transform_new\<lparr>tr_TransformType := transformType, tr_TransformID := transformID\<rparr> in
      case attributeType of
        None \<Rightarrow> Some (t\<lparr>tr_AttributePresent := False\<rparr>)
      | Some at \<Rightarrow>
          let t = t\<lparr>tr_AttributePresent := True, tr_AttributeType := at\<rparr> in
          (case attributeValue of
             Some av \<Rightarrow> Some (t\<lparr>tr_AttributeFormat := AttributeFormatUseTV, tr_AttributeValue := av\<rparr>)
           | None \<Rightarrow>
               if length variableLengthAttributeValue \<noteq> 0 then
                 Some (t\<lparr>tr_AttributeFormat := AttributeFormatUseTLV,
                         tr_VariableLengthAttributeValue :=
                           tr_VariableLengthAttributeValue t @ variableLengthAttributeValue\<rparr>)
               else None))"

definition BuildProposal :: "u8 \<Rightarrow> u8 \<Rightarrow> bytes \<Rightarrow> Proposal" where
  "BuildProposal proposalNumber protocolID spi =
     Proposal_new\<lparr>pr_ProposalNumber := proposalNumber, pr_ProtocolID := protocolID,
       pr_SPI := pr_SPI Proposal_new @ spi\<rparr>"

text \<open>
  A nil proposal gives false; a nil transform is dereferenced, which panics. The switch is
  the decoder's, but for its default branch.
\<close>

definition AppendTransformToProposal ::
    "Proposal option \<Rightarrow> Transform option \<Rightarrow> (Proposal option \<times> bool) res" where
  "AppendTransformToProposal proposal transform =
     (case proposal of
        None \<Rightarrow> Inr (None, False)
      | Some p \<Rightarrow>
          (case transform of
             None \<Rightarrow> Inl Panic
           | Some t \<Rightarrow>
               if tr_TransformType t = TypeEncryptionAlgorithm
               then Inr (Some (p\<lparr>pr_EncryptionAlgorithm := pr_EncryptionAlgorithm p @ [t]\<rparr>), True)
               else if tr_TransformType t = TypePseudorandomFunction
               then Inr (Some (p\<lparr>pr_PseudorandomFunction := pr_PseudorandomFunction p @ [t]\<rparr>), True)
               else if tr_TransformType t = TypeIntegrityAlgorithm
               then Inr (Some (p\<lparr>pr_IntegrityAlgorithm := pr_IntegrityAlgorithm p @ [t]\<rparr>), True)
               else if tr_TransformType t = TypeDiffieHellmanGroup
               then Inr (Some (p\<lparr>pr_DiffieHellmanGroup := pr_DiffieHellmanGroup p @ [t]\<rparr>), True)
               else if tr_TransformType t = TypeExtendedSequenceNumbers
               then Inr (Some (p\<lparr>pr_ExtendedSequenceNumbers := pr_ExtendedSequenceNumbers p @ [t]\<rparr>), True)
               else Inr (Some p, False)))"

definition BuildSecurityAssociation :: "Proposal list \<Rightarrow> SecurityAssociation" where
  "BuildSecurityAssociation proposals =
     SecurityAssociation_new\<lparr>sa_Proposals := sa_Proposals SecurityAssociation_new @ proposals\<rparr>"

definition BuildEAP :: "u8 \<Rightarrow> u8 \<Rightarrow> EAPTypeFormat \<Rightarrow> EAP" where
  "BuildEAP code identifier eapTypeData =
     EAP_new\<lparr>eap_Code := code, eap_Identifier := identifier,
       eap_EAPTypeData := eap_EAPTypeData EAP_new @ [eapTypeData]\<rparr>"

definition BuildEAPSuccess :: "u8 \<Rightarrow> EAP" where
  "BuildEAPSuccess identifier = EAP_new\<lparr>eap_Code := EAPCodeSuccess, eap_Identifier := identifier\<rparr>"

definition BuildEAPfailure :: "u8 \<Rightarrow> EAP" where
  "BuildEAPfailure identifier = EAP_new\<lparr>eap_Code := EAPCodeFailure, eap_Identifier := identifier\<rparr>"

definition BuildEAPExpanded :: "u32 \<Rightarrow> u32 \<Rightarrow> bytes \<Rightarrow> EAPTypeFormat" where
  "BuildEAPExpanded vendorID vendorType vendorData = EAPExpanded vendorID vendorType vendorData"

definition BuildEAP5GStart :: "u8 \<Rightarrow> EAP" where
  "BuildEAP5GStart identifier =
     BuildEAP EAPCodeRequest identifier
       (BuildEAPExpanded VendorID3GPP VendorTypeEAP5G [EAP5GType5GStart, EAP5GSpareValue])"

definition BuildEAP5GNAS :: "u8 \<Rightarrow> bytes \<Rightarrow> EAP option" where
  "BuildEAP5GNAS identifier nasPDU =
     (if length nasPDU = 0 then None
      else
        let vendorData = [EAP5GType5GNAS, 0] @ be_bytes 2 (of_nat (length nasPDU) :: u16) @ nasPDU
        in Some (BuildEAP EAPCodeRequest identifier
                   (BuildEAPExpanded VendorID3GPP VendorTypeEAP5G vendorData)))"

definition BuildNotify5G_QOS_INFO :: "u8 \<Rightarrow> u8 list \<Rightarrow> bool \<Rightarrow> Notification" where
  "BuildNotify5G_QOS_INFO pduSessionID qfiList isDefault =
     (let flags = (if isDefault then 0 OR NotifyType5G_QOS_INFOBitDCSICheck else 0);
          body = [pduSessionID, of_nat (length qfiList)] @ qfiList @ [flags];
          notifyData = of_nat (1 + length body) # body
      in BuildNotification TypeNone Vendor3GPPNotifyType5G_QOS_INFO [] notifyData)"

definition BuildNotifyNAS_TCP_PORT :: "u16 \<Rightarrow> Notification option" where
  "BuildNotifyNAS_TCP_PORT port =
     (if port = 0 then None
      else Some (BuildNotification TypeNone Vendor3GPPNotifyTypeNAS_TCP_PORT [] (be_bytes 2 port)))"

section \<open>What the builders keep\<close>

text \<open>Appending files a transform under its own type, as the decoder does.\<close>

lemma AppendTransform_add:
  "AppendTransformToProposal (Some p) (Some t) =
     Inr (Some (add_transform p t), 1 \<le> unat (tr_TransformType t) \<and> unat (tr_TransformType t) \<le> 5)"
proof -
  have "1 \<le> unat w \<and> unat w \<le> 5 \<longleftrightarrow> w = 1 \<or> w = 2 \<or> w = 3 \<or> w = 4 \<or> w = 5" for w :: u8
    by (auto simp: word_unat_eq_iff)
  then show ?thesis
    by (simp add: AppendTransformToProposal_def add_transform_def)
qed

lemma add_transform_typed: "proposal_typed p \<Longrightarrow> proposal_typed (add_transform p t)"
  by (auto simp: proposal_typed_def all_typed_def add_transform_def)

fun append_all :: "Proposal option \<Rightarrow> Transform option list \<Rightarrow> Proposal option res" where
  "append_all p [] = Inr p"
| "append_all p (t # ts) = bind_res (AppendTransformToProposal p t) (\<lambda>(p', _). append_all p' ts)"

lemma append_all_Some:
  "append_all (Some p) (map Some ts) = Inr (Some (foldl add_transform p ts))"
  by (induction ts arbitrary: p) (simp_all add: AppendTransform_add)

lemma foldl_add_transform_typed: "proposal_typed p \<Longrightarrow> proposal_typed (foldl add_transform p ts)"
  by (induction ts arbitrary: p) (simp_all add: add_transform_typed)

lemma BuildProposal_typed: "proposal_typed (BuildProposal n proto spi)"
  by (simp add: BuildProposal_def Proposal_new_def proposal_typed_def all_typed_def)


text \<open>
  C26. A NAS PDU wrapped by \<^verbatim>\<open>BuildEAP5GNAS\<close> crosses the wire unchanged: the EAP payload
  encodes, decodes to itself, and the PDU is the vendor data behind the four-byte EAP-5G
  header, whose last two bytes are its length.
\<close>

theorem EAP5GNAS_transport:
  assumes "0 < length nasPDU" and "length nasPDU < 65520"
  shows "\<exists>eap d. BuildEAP5GNAS identifier nasPDU = Some eap \<and> EAP_marshal eap = Inr d \<and>
     (\<forall>sp. EAP_unmarshal EAP_new (Slice d sp) = Inr eap) \<and>
     drop 4 (VendorData (hd (eap_EAPTypeData eap))) = nasPDU \<and>
     unat (of_be (take 2 (drop 2 (VendorData (hd (eap_EAPTypeData eap))))) :: u16) = length nasPDU"
proof -
  let ?vd = "[EAP5GType5GNAS, 0] @ be_bytes 2 (of_nat (length nasPDU) :: u16) @ nasPDU"
  let ?eap = "BuildEAP EAPCodeRequest identifier (EAPExpanded VendorID3GPP VendorTypeEAP5G ?vd)"
  have "BuildEAP5GNAS identifier nasPDU = Some ?eap"
    using assms by (simp add: BuildEAP5GNAS_def BuildEAPExpanded_def Let_def)
  moreover have "EAP_wf ?eap"
    using assms by (simp add: EAP_wf_def BuildEAP_def EAP_new_def be_bytes_16)
  moreover have "eap_EAPTypeData ?eap = [EAPExpanded VendorID3GPP VendorTypeEAP5G ?vd]"
    by (simp add: BuildEAP_def EAP_new_def)
  ultimately show ?thesis
    using assms eap.roundtrip [of ?eap] by (auto simp: bytes_eval)
qed

theorem EAP5GNAS_transport_witness:
  "\<exists>eap d. BuildEAP5GNAS 7 [0x7e, 0] = Some eap \<and> EAP_marshal eap = Inr d \<and>
     (\<forall>sp. EAP_unmarshal EAP_new (Slice d sp) = Inr eap) \<and>
     drop 4 (VendorData (hd (eap_EAPTypeData eap))) = [0x7e, 0] \<and>
     unat (of_be (take 2 (drop 2 (VendorData (hd (eap_EAPTypeData eap))))) :: u16) = 2"
  using EAP5GNAS_transport [of "[0x7e, 0]" 7] by (simp add: numeral_2_eq_2)

end
