(* ===== verification/IKE_Safety.thy ===== *)
theory IKE_Safety
  imports IKE_Message "HOL-Library.Sublist"
begin

text \<open>
  How the codec behaves on bytes that no encoder wrote: which datagrams are rejected,
  which are skipped, and which ones make the decoder panic. The N3IWF calls the decoder
  from a goroutine per datagram (\<^verbatim>\<open>src/n3iwf/ike/dispatcher.go\<close>) without a recover, so a
  panic ends the process.
\<close>

section \<open>The dispatcher\<close>

datatype dispatched = Ignored | Handle_SA_INIT IKEMessage | Handle_AUTH IKEMessage
  | Handle_CREATE_CHILD_SA IKEMessage | Unimplemented u8 | Decode_failed string

text \<open>The loop that looks for the four zero bytes of the non-ESP marker.\<close>

fun zero_marker :: "nat \<Rightarrow> slice \<Rightarrow> bool res" where
  "zero_marker 0 msg = Inr True"
| "zero_marker (Suc n) msg =
     bind_res (sl_at msg (3 - n)) (\<lambda>b. if b \<noteq> 0 then Inr False else zero_marker n msg)"

definition dispatch_message :: "slice \<Rightarrow> dispatched res" where
  "dispatch_message msg =
     (case Decode msg of
        Inl Panic \<Rightarrow> Inl Panic
      | Inl (Err e) \<Rightarrow> Inr (Decode_failed e)
      | Inr m \<Rightarrow>
          Inr (if ExchangeType m = 34 then Handle_SA_INIT m
               else if ExchangeType m = 35 then Handle_AUTH m
               else if ExchangeType m = 36 then Handle_CREATE_CHILD_SA m
               else Unimplemented (ExchangeType m)))"

definition Dispatch :: "nat \<Rightarrow> slice \<Rightarrow> dispatched res" where
  "Dispatch localPort msg =
     (if localPort = 4500 then
        bind_res (zero_marker 4 msg) (\<lambda>marked.
        if \<not> marked then Inr Ignored
        else bind_res (sl_from msg 4) dispatch_message)
      else dispatch_message msg)"

section \<open>Where panics come from\<close>

definition risky :: "IKEPayload \<Rightarrow> bool" where
  "risky p \<longleftrightarrow> payload_Type p \<in> {TypeSA, TypeN, TypeCP}"

lemma lift_payload_np: "no_panic r \<Longrightarrow> no_panic (lift_payload C r)"
  by (simp add: lift_payload_def no_panic_bind)

lemmas safe_payloads =
  ke.unmarshal_safe idi.unmarshal_safe idr.unmarshal_safe cert.unmarshal_safe creq.unmarshal_safe
  auth.unmarshal_safe nonce.unmarshal_safe del.unmarshal_safe vid.unmarshal_safe
  tsi.unmarshal_safe tsr.unmarshal_safe sk.unmarshal_safe eap.unmarshal_safe

lemma payload_unmarshal_np: "\<not> risky p \<Longrightarrow> no_panic (payload_unmarshal p s)"
  by (cases p) (simp_all add: risky_def lift_payload_np safe_payloads)

lemma sublist_take_drop: "sublist (take n (drop m xs)) xs"
  by (meson sublist_drop sublist_take sublist_order.order_trans)

lemma payload_step_Panic:
  assumes "payload_step np raw = Inl Panic"
  shows "\<exists>p w. payload_unmarshal p w = Inl Panic \<and> risky p \<and> sublist (sdata w) (sdata raw)"
proof -
  obtain d sp where raw: "raw = Slice d sp" by (cases raw)
  from assms have len: "4 \<le> length d"
    by (auto simp: payload_step_def raw check_def split: if_splits)
  then have ne: "d \<noteq> []" by auto
  define n where "n = unat (of_be (take 2 (drop 2 d)) :: u16)"
  from assms len have n: "4 \<le> n" "n \<le> length d"
    by (auto simp: payload_step_def raw check_def go_simps n_def split: if_splits)
  have "\<exists>p. payload_unmarshal p (Slice (take (n - 4) (drop 4 d)) (drop n d @ sp)) = Inl Panic"
    using assms len ne n
    by (auto simp: payload_step_def raw go_simps bind_res_eq_Inl_iff check_eq_Inl_iff
        simp flip: n_def split: option.splits if_splits)
  then show ?thesis
    using payload_unmarshal_np sublist_take_drop [of "n - 4" 4 d]
    by (force simp: raw no_panic_def)
qed

lemma payload_step_rest:
  "payload_step np raw = Inr (ps, np', rest) \<Longrightarrow> sublist (sdata rest) (sdata raw)"
  by (auto simp: payload_step_def bind_res_eq_Inr_iff split: option.splits if_splits
      dest!: sl_from_InrD)

lemma DecodePayload_loop_Panic:
  "DecodePayload_loop acc np raw = Inl Panic \<Longrightarrow>
   \<exists>p w. payload_unmarshal p w = Inl Panic \<and> risky p \<and> sublist (sdata w) (sdata raw)"
proof (induction acc np raw rule: DecodePayload_loop.induct)
  case (1 acc np raw)
  then have pos: "slen raw > 0"
    by (auto simp: DecodePayload_loop.simps [of acc np raw] split: if_splits)
  with "1.prems" consider "payload_step np raw = Inl Panic"
    | ps np' rest where "payload_step np raw = Inr (ps, np', rest)"
        "DecodePayload_loop (acc @ ps) np' rest = Inl Panic"
    by (auto simp: DecodePayload_loop.simps [of acc np raw] bind_res_eq_Inl_iff)
  then show ?case
  proof cases
    case 1
    then show ?thesis by (rule payload_step_Panic)
  next
    case 2
    then obtain p w where "payload_unmarshal p w = Inl Panic" "risky p" "sublist (sdata w) (sdata rest)"
      using "1.IH" [OF pos, of "(ps, np', rest)" ps "(np', rest)" np' rest] by auto
    then show ?thesis
      using payload_step_rest [OF 2(1)] sublist_order.order_trans by blast
  qed
qed

text \<open>The header of a complete message, evaluated.\<close>

definition header_length :: "bytes \<Rightarrow> u32" where
  "header_length d = of_be (take 4 (drop 24 d))"

lemma Decode_header:
  assumes "28 \<le> length d"
  shows "Decode (Slice d sp) =
    bind_res (check (\<not> unat (header_length d) < 28)
      ''[IKE] Decode(): Illegal IKE message length %d < header length 20'') (\<lambda>_.
    bind_res (check (length d = unat (header_length d))
      ''[IKE] Decode(): The length of received message not matchs the length specified in header'') (\<lambda>_.
    bind_res (DecodePayload (d ! 16) (Slice (drop 28 d) sp)) (\<lambda>ps.
    Inr \<lparr>InitiatorSPI = of_be (take 8 d), ResponderSPI = of_be (take 8 (drop 8 d)),
         Version = d ! 17, ExchangeType = d ! 18, Flags = d ! 19,
         MessageID = of_be (take 4 (drop 20 d)), IKEPayloads = ps\<rparr>)))"
proof -
  have "sl_u32 (Slice d sp) 24 = Inr (header_length d)"
    using assms by (simp add: sl_u32_ok header_length_def)
  then show ?thesis
    using assms by (simp add: Decode_def go_simps)
qed

lemma Decode_short: "length d < 28 \<Longrightarrow> Decode (Slice d sp) = Inl (Err ''[IKE] Decode(): Received broken IKE header'')"
  by (simp add: Decode_def)


text \<open>
  A notification payload makes the decoder panic exactly when it has its four header
  bytes and announces an SPI of 252 bytes and more.
\<close>

theorem Notification_panic_iff:
  "Notification_unmarshal p s = Inl Panic \<longleftrightarrow> 4 \<le> slen s \<and> 252 \<le> unat (sdata s ! 1)"
  using Notification_unmarshal_Panic [of s p] Notification_unmarshal_np [of s p]
  by (fastforce simp: no_panic_def not_less)

text \<open>
  C23. A datagram with any IKE header and one notification payload whose SPI size is 252 or
  more makes \<^verbatim>\<open>Decode\<close> panic, although its lengths are consistent.
\<close>

theorem Decode_notification_panic:
  assumes "252 \<le> unat spiSize" and "length r < 65528"
  shows "Decode (Slice (be_bytes 8 ispi @ be_bytes 8 rspi @ [TypeN, ver, exch, flags]
      @ be_bytes 4 mid @ be_bytes 4 (of_nat (36 + length r) :: u32)
      @ [0, 0] @ be_bytes 2 (of_nat (8 + length r) :: u16)
      @ [proto, spiSize] @ be_bytes 2 (typ :: u16) @ r) sp) = Inl Panic"
proof -
  let ?n = "of_nat (36 + length r) :: u32"
  let ?m = "of_nat (8 + length r) :: u16"
  let ?w = "[proto, spiSize] @ be_bytes 2 typ @ r"
  have n: "unat ?n = 36 + length r" "unat ?m = 8 + length r"
    using assms by (intro unat_of_nat_32 unat_of_nat_16; simp)+
  have "Notification_unmarshal Notification_new (Slice ?w sp') = Inl Panic" for sp'
    using assms by (intro Notification_unmarshal_Panic) (simp_all add: be_bytes_16)
  then have "payload_unmarshal (PN Notification_new) (Slice ?w sp') = Inl Panic" for sp'
    by (simp add: lift_payload_def)
  then have "DecodePayload TypeN (Slice ([0, 0] @ be_bytes 2 ?m @ ?w) sp) = Inl Panic"
    using n by (subst DecodePayload_def, subst DecodePayload_loop.simps)
      (simp add: payload_step_def payload_new_def go_simps bytes_eval
        del: of_nat_add of_nat_numeral payload_unmarshal.simps)
  then show ?thesis
    using n by (simp add: Decode_def go_simps bytes_eval del: of_nat_add of_nat_numeral)
qed

theorem Decode_notification_panic_witness:
  "252 \<le> unat (252 :: u8) \<and> Decode (Slice (be_bytes 8 1 @ be_bytes 8 2 @ [TypeN, 0x20, 34, 8]
      @ be_bytes 4 0 @ be_bytes 4 (of_nat (36 + length ([] :: bytes)) :: u32)
      @ [0, 0] @ be_bytes 2 (of_nat (8 + length ([] :: bytes)) :: u16)
      @ [0, 252] @ be_bytes 2 (0 :: u16) @ []) []) = Inl Panic"
  using Decode_notification_panic [of 252 "[]"] by simp


section \<open>What is rejected and what is skipped\<close>

text \<open>
  C24. A message is accepted only if its header is complete and the length it announces is
  the length received.
\<close>

theorem Decode_length:
  assumes "Decode raw = Inr m"
  shows "28 \<le> slen raw \<and> slen raw = unat (of_be (take 4 (drop 24 (sdata raw))) :: u32)"
proof -
  obtain d sp where raw: "raw = Slice d sp" by (cases raw)
  from assms have len: "28 \<le> length d"
    using Decode_short [of d sp] by (force simp: raw)
  with assms show ?thesis
    by (auto simp: raw Decode_header [OF len] bind_res_eq_Inr_iff simp flip: header_length_def)
qed

theorem Decode_length_witness:
  "\<exists>m. Decode (Slice [0,0,0,0, 0,0,0,1, 0,0,0,0, 0,0,0,2, 0, 0x20, 34, 8, 0,0,0,0, 0,0,0,28] []) = Inr m \<and>
     28 \<le> slen (Slice [0,0,0,0, 0,0,0,1, 0,0,0,0, 0,0,0,2, 0, 0x20, 34, 8, 0,0,0,0, 0,0,0,28] [])"
proof -
  let ?raw = "Slice ([0,0,0,0, 0,0,0,1, 0,0,0,0, 0,0,0,2, 0, 0x20, 34, 8, 0,0,0,0, 0,0,0,28] :: bytes) []"
  have "\<exists>m. Decode ?raw = Inr m"
    by (simp add: Decode_def DecodePayload_def go_simps bytes_eval of_be_def)
  then show ?thesis using Decode_length [of ?raw] by blast
qed

text \<open>
  A payload of an unknown type is skipped when its critical bit is clear (the chain
  continues at the next payload as if it were not there) and rejects the message when it
  is set.
\<close>

theorem unknown_payload:
  assumes "payload_new typ np = None" and "4 + length d < 65536"
  shows "DecodePayload typ (Slice ([np, crit] @ be_bytes 2 (of_nat (4 + length d) :: u16) @ d @ r) sp) =
    (if crit AND 0x80 = 0 then DecodePayload np (Slice r sp) else Inl (Err ''Unknown payload type: %d''))"
proof -
  let ?n = "of_nat (4 + length d) :: u16"
  have n: "unat ?n = 4 + length d"
    by (rule unat_of_nat_16) (rule assms(2))
  have crit: "drop_bit 7 (crit AND 0x80) = 0 \<longleftrightarrow> crit AND 0x80 = 0"
    using and_exp_eq_0_iff_not_bit [of crit 7]
    by (simp add: bit_iff_odd_drop_bit and_one_eq odd_iff_mod_2_eq_one)
  have "payload_step typ (Slice ([np, crit] @ be_bytes 2 ?n @ d @ r) sp) =
    (if crit AND 0x80 = 0 then Inr ([], np, Slice r sp) else Inl (Err ''Unknown payload type: %d''))"
    using assms n unfolding crit [symmetric]
    by (simp add: payload_step_def go_simps bytes_eval del: of_nat_add of_nat_numeral)
  then show ?thesis
    unfolding DecodePayload_def
    by (subst DecodePayload_loop.simps) simp
qed

theorem unknown_payload_witness:
  "DecodePayload 0 (Slice ([0, 0] @ be_bytes 2 (of_nat (4 + length [1 :: u8]) :: u16) @ [1] @ []) []) =
     DecodePayload 0 (Slice [] [])"
  using unknown_payload [of 0 0 "[1]" 0 "[]" "[]"] by (simp add: payload_new_def)

section \<open>Where encoder and decoder disagree\<close>

text \<open>
  A transform with a variable-length attribute does not survive: the decoder accepts
  what the encoder wrote, consumes it, and returns the transform with an empty value.
\<close>

theorem tlv_attribute_lost:
  assumes "tr_AttributePresent t" and "tr_AttributeFormat t = AttributeFormatUseTLV"
    and "tr_VariableLengthAttributeValue t \<noteq> []"
    and "length (tr_VariableLengthAttributeValue t) < 65524"
    and "unat (tr_AttributeType t) < 128" and "tr_AttributeValue t = 0"
  shows "\<exists>a. attribute_marshal t = Inr a \<and>
    transform_step (Slice (transform_bytes another t a @ r) sp) =
      Inr (t\<lparr>tr_VariableLengthAttributeValue := []\<rparr>, Slice r sp)"
proof -
  let ?v = "tr_VariableLengthAttributeValue t"
  let ?a = "be_bytes 2 (tr_AttributeType t) @ be_bytes 2 (of_nat (length ?v) :: u16) @ ?v"
  have type: "drop_bit 7 (byte_of (Suc 0) (tr_AttributeType t) AND 0x80) = 0"
    "tr_AttributeType t AND 0x7f = tr_AttributeType t"
    using assms(5) and_mask_id [of "tr_AttributeType t" 7] drop_bit_eq_zero [of "tr_AttributeType t" 8]
    by (simp_all add: mask_eq_exp_minus_1 byte_of_def)
  have n: "unat (of_nat (12 + length ?v) :: u16) = 12 + length ?v"
    using assms(4) by (intro unat_of_nat_16) simp
  have len: "12 + of_nat k = (of_nat (12 + k) :: u16)" "8 + length ?a = 12 + length ?v" for k
    by simp_all
  have "attribute_marshal t = Inr ?a"
    using assms by (simp add: attribute_marshal_def)
  moreover have "transform_step (Slice (transform_bytes another t ?a @ r) sp) =
      Inr (t\<lparr>tr_VariableLengthAttributeValue := []\<rparr>, Slice r sp)"
    unfolding transform_bytes_def len(2)
    using assms(1,2,6) type n
    by (cases t) (simp add: transform_step_def attribute_unmarshal_def Transform_new_def Let_def
        go_simps bytes_eval len(1) del: of_nat_add of_nat_numeral)
  ultimately show ?thesis by blast
qed

theorem tlv_attribute_lost_witness:
  "\<exists>a. attribute_marshal (Transform_new\<lparr>tr_TransformType := 1, tr_AttributePresent := True,
        tr_AttributeType := 14, tr_VariableLengthAttributeValue := [1, 0]\<rparr>) = Inr a \<and>
     transform_step (Slice (transform_bytes False (Transform_new\<lparr>tr_TransformType := 1,
        tr_AttributePresent := True, tr_AttributeType := 14,
        tr_VariableLengthAttributeValue := [1, 0]\<rparr>) a @ []) []) =
      Inr (Transform_new\<lparr>tr_TransformType := 1, tr_AttributePresent := True,
        tr_AttributeType := 14, tr_VariableLengthAttributeValue := []\<rparr>, Slice [] [])"
  using tlv_attribute_lost [of "Transform_new\<lparr>tr_TransformType := 1, tr_AttributePresent := True,
        tr_AttributeType := 14, tr_VariableLengthAttributeValue := [1, 0]\<rparr>" False "[]" "[]"]
  by (simp add: Transform_new_def)

text \<open>
  A delete payload without SPIs (the form that deletes the IKE SA itself) can be
  encoded, to its four header bytes, but the decoder rejects it.
\<close>

theorem delete_ike_sa_rejected:
  assumes "d_SPIs p = []" and "d_NumberOfSPI p = 0"
  shows "\<exists>d. Delete_marshal p = Inr d \<and> length d = 4 \<and>
    Delete_unmarshal q (Slice d sp) = Inl (Err ''Delete: No sufficient bytes to decode next delete'')"
  using assms by (simp add: Delete_marshal_def Delete_unmarshal_def be_bytes_16)

theorem delete_ike_sa_rejected_witness:
  "\<exists>d. Delete_marshal (Delete_new\<lparr>d_ProtocolID := 1\<rparr>) = Inr d \<and> length d = 4 \<and>
    Delete_unmarshal Delete_new (Slice d []) =
      Inl (Err ''Delete: No sufficient bytes to decode next delete'')"
  using delete_ike_sa_rejected [of "Delete_new\<lparr>d_ProtocolID := 1\<rparr>" Delete_new "[]"]
  by (simp add: Delete_new_def)

text \<open>
  On the NAT-traversal port a datagram of fewer than four bytes, all zero, makes the
  dispatcher panic before anything is decoded.
\<close>

theorem Dispatch_short_datagram:
  assumes "n < 4"
  shows "Dispatch 4500 (Slice (replicate n 0) sp) = Inl Panic"
proof -
  have "n = 0 \<or> n = 1 \<or> n = 2 \<or> n = 3" using assms by auto
  then show ?thesis
    by (auto simp: Dispatch_def numeral_eq_Suc sl_at_def nth_append)
qed

theorem Dispatch_short_datagram_witness: "Dispatch 4500 (Slice (replicate 1 0) []) = Inl Panic"
  by (rule Dispatch_short_datagram) simp

end
