(* ===== verification/PFCP_Reader.thy ===== *)
theory PFCP_Reader
  imports Go_Codec
begin

text \<open>
  What the information elements of \<^verbatim>\<open>lib/pfcp/pfcpType\<close> share. Every
  \<^verbatim>\<open>UnmarshalBinary\<close> there keeps \<^verbatim>\<open>length := uint16(len(data))\<close> and a 16-bit
  index \<^verbatim>\<open>idx\<close>, and repeats one pattern: compare \<^verbatim>\<open>length\<close> with
  \<^verbatim>\<open>idx+n\<close>, read \<open>n\<close> bytes at \<^verbatim>\<open>idx\<close>, advance. A \<open>cursor\<close> is that pair of
  variables and the readers are that pattern, with the additions at 16 bits, so that they
  wrap as the code's do. The rest is \<^verbatim>\<open>util.go\<close>, \<^verbatim>\<open>math/bits\<close> and the part of
  \<^verbatim>\<open>net.IP\<close> the elements use.
\<close>

section \<open>The cursor\<close>

datatype cursor = Cursor (cdata: slice) (cidx: u16)

definition inadequate :: string where
  "inadequate = ''Inadequate TLV length''"

definition clen :: "cursor \<Rightarrow> u16" where
  "clen c = of_nat (slen (cdata c))"

definition start :: "slice \<Rightarrow> cursor" where
  "start data = Cursor data 0"

definition advance :: "u16 \<Rightarrow> cursor \<Rightarrow> cursor" where
  "advance n c = Cursor (cdata c) (cidx c + n)"

definition need :: "u16 \<Rightarrow> cursor \<Rightarrow> unit res" where
  "need n c = check (\<not> clen c < cidx c + n) inadequate"

definition at_end :: "cursor \<Rightarrow> unit res" where
  "at_end c = check (clen c = cidx c) inadequate"

definition rd_u8 :: "cursor \<Rightarrow> (u8 \<times> cursor) res" where
  "rd_u8 c = bind_res (need 1 c) (\<lambda>_.
     bind_res (sl_at (cdata c) (unat (cidx c))) (\<lambda>b. Inr (b, advance 1 c)))"

text \<open>\<^verbatim>\<open>binary.BigEndian.Uint\<^emph>\<open>8n\<close>(data[idx:])\<close> after the check for \<open>n\<close> bytes.\<close>

definition rd_be :: "nat \<Rightarrow> cursor \<Rightarrow> ('a::len word \<times> cursor) res" where
  "rd_be n c = bind_res (need (of_nat n) c) (\<lambda>_.
     bind_res (sl_from (cdata c) (unat (cidx c))) (\<lambda>s.
     bind_res (sl_be n s) (\<lambda>w. Inr (w, advance (of_nat n) c))))"

text \<open>\<^verbatim>\<open>data[idx : idx+n]\<close> after the check for \<open>n\<close> bytes.\<close>

definition rd_bytes :: "u16 \<Rightarrow> cursor \<Rightarrow> (bytes \<times> cursor) res" where
  "rd_bytes n c = bind_res (need n c) (\<lambda>_.
     bind_res (sl_range (cdata c) (unat (cidx c)) (unat (cidx c + n))) (\<lambda>s.
     Inr (sdata s, advance n c)))"

text \<open>\<^verbatim>\<open>data[idx:]\<close>, then \<^verbatim>\<open>idx + uint16(len(..))\<close>.\<close>

definition rd_rest :: "cursor \<Rightarrow> (bytes \<times> cursor) res" where
  "rd_rest c = bind_res (sl_from (cdata c) (unat (cidx c))) (\<lambda>s.
     Inr (sdata s, advance (of_nat (slen s)) c))"

text \<open>An optional field: the reader runs when its flag is set.\<close>

definition opt :: "bool \<Rightarrow> 'a res \<Rightarrow> 'a \<Rightarrow> 'a res" where
  "opt b m x = (if b then m else Inr x)"

lemma opt_simps [simp]: "opt True m x = m" "opt False m x = Inr x"
  by (simp_all add: opt_def)

section \<open>Running the readers on a known layout\<close>

text \<open>
  \<open>at_split pre r sp\<close> is the cursor that has read \<open>pre\<close> and has \<open>r\<close> left. On such cursors
  the readers compute by rewriting, which is how the round trips are proved.
\<close>

definition at_split :: "bytes \<Rightarrow> bytes \<Rightarrow> bytes \<Rightarrow> cursor" where
  "at_split pre r sp = Cursor (Slice (pre @ r) sp) (of_nat (length pre))"

named_theorems rd_simps \<open>readers on a known layout\<close>

lemma start_at_split [rd_simps]: "start (Slice d sp) = at_split [] d sp"
  by (simp add: start_def at_split_def)

lemma of_nat_u16_less_iff:
  "m < 65536 \<Longrightarrow> n < 65536 \<Longrightarrow> (of_nat m < (of_nat n :: u16)) = (m < n)"
  by (simp add: word_less_nat_alt)

lemma of_nat_u16_eq_iff:
  "m < 65536 \<Longrightarrow> n < 65536 \<Longrightarrow> (of_nat m = (of_nat n :: u16)) = (m = n)"
  by (metis unat_of_nat_16)

lemma need_at_split:
  "length pre + n \<le> length pre + length r \<Longrightarrow> length pre + length r < 65536 \<Longrightarrow>
   need (of_nat n) (at_split pre r sp) = Inr ()"
  using of_nat_u16_less_iff [of "length pre + length r" "length pre + n"]
  by (simp add: need_def at_split_def clen_def)

lemma advance_at_split:
  "advance (of_nat (length a)) (at_split pre (a @ r) sp) = at_split (pre @ a) r sp"
  by (simp add: advance_def at_split_def)

lemma cdata_at_split [simp]: "cdata (at_split pre r sp) = Slice (pre @ r) sp"
  by (simp add: at_split_def)

lemma cidx_at_split: "length pre < 65536 \<Longrightarrow> unat (cidx (at_split pre r sp)) = length pre"
  by (simp add: at_split_def)

lemma rd_u8_at_split [rd_simps]:
  "Suc (length pre + length r) < 65536 \<Longrightarrow>
   rd_u8 (at_split pre (b # r) sp) = Inr (b, at_split (pre @ [b]) r sp)"
  using need_at_split [of pre 1 "b # r" sp] advance_at_split [of "[b]" pre r sp]
  by (simp add: rd_u8_def cidx_at_split go_simps)

lemma rd_be_list:
  assumes "length a = n" "length pre + n + length r < 65536"
  shows "rd_be n (at_split pre (a @ r) sp) = Inr (of_be a, at_split (pre @ a) r sp)"
  using assms need_at_split [of pre n "a @ r" sp] advance_at_split [of a pre r sp]
  by (simp add: rd_be_def cidx_at_split go_simps)

lemma rd_be_at_split [rd_simps]:
  "length pre + n + length r < 65536 \<Longrightarrow>
   rd_be n (at_split pre (be_bytes n w @ r) sp) = Inr (of_be (be_bytes n w), at_split (pre @ be_bytes n w) r sp)"
  by (rule rd_be_list) simp_all

lemma rd_be_at_split_last [rd_simps]:
  "length pre + n < 65536 \<Longrightarrow>
   rd_be n (at_split pre (be_bytes n w) sp) = Inr (of_be (be_bytes n w), at_split (pre @ be_bytes n w) [] sp)"
  using rd_be_list [of "be_bytes n w" n pre "[]" sp] by simp

lemma rd_bytes_at_split:
  assumes "length a = unat n" "length pre + length a + length r < 65536"
  shows "rd_bytes n (at_split pre (a @ r) sp) = Inr (a, at_split (pre @ a) r sp)"
proof -
  have n: "n = of_nat (length a)" using assms(1) by simp
  have "unat (cidx (at_split pre (a @ r) sp) + n) = length pre + length a"
    unfolding n at_split_def using assms(2) unat_of_nat_16 [of "length pre + length a"] by simp
  then show ?thesis
    using assms(2) need_at_split [of pre "length a" "a @ r" sp] advance_at_split [of a pre r sp]
    by (simp add: rd_bytes_def cidx_at_split go_simps n)
qed

lemma rd_bytes_at_split_last:
  "length a = unat n \<Longrightarrow> length pre + length a < 65536 \<Longrightarrow>
   rd_bytes n (at_split pre a sp) = Inr (a, at_split (pre @ a) [] sp)"
  using rd_bytes_at_split [of a n pre "[]" sp] by simp

lemmas rd_bytes_simps [rd_simps] = rd_bytes_at_split rd_bytes_at_split_last

lemma rd_rest_at_split [rd_simps]:
  "length pre < 65536 \<Longrightarrow> rd_rest (at_split pre r sp) = Inr (r, at_split (pre @ r) [] sp)"
  using advance_at_split [of r pre "[]" sp] by (simp add: rd_rest_def cidx_at_split go_simps)

lemma at_end_at_split [rd_simps]: "at_end (at_split pre [] sp) = Inr ()"
  by (simp add: at_end_def at_split_def clen_def)

section \<open>Readers do not panic while the index stays at 16 bits\<close>

definition pos :: "cursor \<Rightarrow> nat" where
  "pos c = unat (cidx c)"

named_theorems rd_np \<open>no reader panics\<close>

lemma pos_start [simp]: "pos (start data) = 0"
  by (simp add: pos_def start_def)

lemma clen_le: "unat (clen c) \<le> slen (cdata c)"
  by (simp add: clen_def unat_of_nat take_bit_nat_less_eq_self)

lemma need_InrD:
  assumes "need n c = Inr u" "unat (cidx c) + unat n < 65536"
  shows "unat (cidx c) + unat n \<le> slen (cdata c)"
proof -
  have "unat (cidx c + n) = unat (cidx c) + unat n"
    using assms(2) by (subst unat_add_lem [THEN iffD1]) simp_all
  moreover have "cidx c + n \<le> clen c"
    using assms(1) by (auto simp: need_def)
  ultimately show ?thesis
    using clen_le [of c] by (simp add: word_le_nat_alt)
qed

lemma advance_pos: "pos (advance n c) \<le> pos c + unat n"
  using mod_less_eq_dividend [of "unat (cidx c) + unat n" 65536]
  by (simp add: pos_def advance_def unat_word_ariths)

lemma need_advance:
  assumes "need n c = Inr u" "pos c + unat n < 65536"
  shows "pos (advance n c) \<le> pos c + unat n" "pos (advance n c) \<le> slen (cdata c)"
  using need_InrD [OF assms(1)] assms(2) advance_pos [of n c]
  by (simp_all add: pos_def advance_def)

lemma cdata_advance [simp]: "cdata (advance n c) = cdata c"
  by (simp add: advance_def)

lemma no_panic_check_bind:
  "(b \<Longrightarrow> no_panic (f ())) \<Longrightarrow> no_panic (bind_res (check b msg) f)"
  by (cases b) simp_all

lemma no_panic_need: "no_panic (need n c)" "no_panic (at_end c)"
  by (simp_all add: need_def at_end_def)

lemma rd_u8_np [rd_np]:
  assumes "Suc (pos c) < 65536"
    and "\<And>b c'. pos c' \<le> Suc (pos c) \<Longrightarrow> cdata c' = cdata c \<Longrightarrow>
      pos c' \<le> slen (cdata c) \<Longrightarrow> no_panic (f (b, c'))"
  shows "no_panic (bind_res (rd_u8 c) f)"
  unfolding rd_u8_def bind_res_assoc
  using assms need_InrD [of 1 c] need_advance [of 1 c]
  by (auto simp: pos_def intro!: no_panic_bind no_panic_need np_intros)

lemma rd_be_np [rd_np]:
  assumes "pos c + n < 65536"
    and "\<And>w c'. pos c' \<le> pos c + n \<Longrightarrow> cdata c' = cdata c \<Longrightarrow>
      pos c' \<le> slen (cdata c) \<Longrightarrow> no_panic (f (w, c'))"
  shows "no_panic (bind_res (rd_be n c) f)"
proof -
  have n: "unat (of_nat n :: u16) = n" using assms(1) by simp
  have "no_panic (sl_be n s)" if "sl_from (cdata c) (unat (cidx c)) = Inr s"
      "need (of_nat n) c = Inr u" for s u
    using that need_InrD [of "of_nat n" c u] slen_sl_from [OF that(1)] assms(1) n
    by (simp add: sl_be_def pos_def)
  then show ?thesis
    unfolding rd_be_def bind_res_assoc
    using assms need_InrD [of "of_nat n" c] need_advance [of "of_nat n" c] n
    by (auto simp: pos_def intro!: no_panic_bind no_panic_need np_intros)
qed

lemma rd_bytes_np [rd_np]:
  assumes "pos c + unat n < 65536"
    and "\<And>a c'. pos c' \<le> pos c + unat n \<Longrightarrow> cdata c' = cdata c \<Longrightarrow>
      pos c' \<le> slen (cdata c) \<Longrightarrow> no_panic (f (a, c'))"
  shows "no_panic (bind_res (rd_bytes n c) f)"
proof -
  have "unat (cidx c + n) = unat (cidx c) + unat n"
    using assms(1) by (subst unat_add_lem [THEN iffD1]) (simp_all add: pos_def)
  then show ?thesis
    unfolding rd_bytes_def bind_res_assoc
    using assms need_InrD [of n c] need_advance [of n c]
    by (auto simp: pos_def intro!: no_panic_bind no_panic_need np_intros)
qed

text \<open>Where the 16-bit sum wraps, the length check passes and the slice expression panics.\<close>

lemma rd_bytes_wrap:
  assumes "65536 \<le> pos c + unat n" "pos c \<le> slen (cdata c)" "slen (cdata c) < 65536"
  shows "rd_bytes n c = Inl Panic"
proof -
  have "unat (cidx c + n) = pos c + unat n - 65536"
    using assms(1) mod_wrap_once [of 65536 "pos c + unat n"] unat_u16_less [of n] unat_u16_less [of "cidx c"]
    by (simp add: unat_word_ariths pos_def del: unat_u16_less)
  then have sum: "unat (cidx c + n) < pos c"
    using assms(1) unat_u16_less [of n] by linarith
  then have "need n c = Inr ()"
    using assms(2,3) by (simp add: need_def clen_def word_less_nat_alt)
  then show ?thesis using sum by (simp add: rd_bytes_def sl_range_def pos_def)
qed

lemma rd_rest_np [rd_np]:
  "pos c \<le> slen (cdata c) \<Longrightarrow> (\<And>a c'. no_panic (f (a, c'))) \<Longrightarrow> no_panic (bind_res (rd_rest c) f)"
  unfolding rd_rest_def bind_res_assoc pos_def
  by (auto intro!: no_panic_bind np_intros)

lemma at_end_np [rd_np]: "(\<And>u. no_panic (f u)) \<Longrightarrow> no_panic (bind_res (at_end c) f)"
  by (auto intro!: no_panic_bind no_panic_need)

section \<open>Flags, masks and widths\<close>

definition btou :: "bool \<Rightarrow> u8" where
  "btou b = (if b then 1 else 0)"

definition utob :: "u8 \<Rightarrow> bool" where
  "utob u \<longleftrightarrow> u \<noteq> 0"

lemma bit_btou [simp]: "bit (btou b) n \<longleftrightarrow> n = 0 \<and> b"
  by (auto simp: btou_def bit_simps)

lemma bit_btou_double [simp]: "bit (btou b * 2) n \<longleftrightarrow> n = Suc 0 \<and> b"
  using bit_push_bit_iff [of 1 "btou b" n] by (auto simp: bit_simps)

lemma utob_and_exp: "n < 8 \<Longrightarrow> utob (u AND 2 ^ n) \<longleftrightarrow> bit u n"
  by (simp add: utob_def and_exp_eq_0_iff_not_bit)

text \<open>\<^verbatim>\<open>BitMask1\<close> to \<^verbatim>\<open>BitMask8\<close>.\<close>

lemma utob_and_mask [simp]:
  "utob (u AND 1) \<longleftrightarrow> bit u 0" "utob (u AND 2) \<longleftrightarrow> bit u (Suc 0)"
  "utob (u AND 4) \<longleftrightarrow> bit u 2" "utob (u AND 8) \<longleftrightarrow> bit u 3"
  "utob (u AND 16) \<longleftrightarrow> bit u 4" "utob (u AND 32) \<longleftrightarrow> bit u 5"
  "utob (u AND 64) \<longleftrightarrow> bit u 6" "utob (u AND 128) \<longleftrightarrow> bit u 7"
  using utob_and_exp [of 0 u] utob_and_exp [of 1 u] utob_and_exp [of 2 u] utob_and_exp [of 3 u]
    utob_and_exp [of 4 u] utob_and_exp [of 5 u] utob_and_exp [of 6 u] utob_and_exp [of 7 u]
  by simp_all

text \<open>\<^verbatim>\<open>bits.Len8\<close>, \<^verbatim>\<open>bits.Len16\<close>, \<^verbatim>\<open>bits.Len64\<close>: the number of bits of the numeral.\<close>

fun nat_len :: "nat \<Rightarrow> nat" where
  "nat_len n = (if n = 0 then 0 else Suc (nat_len (n div 2)))"

definition bits_Len :: "'a::len word \<Rightarrow> nat" where
  "bits_Len w = nat_len (unat w)"

declare nat_len.simps [simp del]

lemma nat_len_le_iff: "nat_len n \<le> k \<longleftrightarrow> n < 2 ^ k"
proof (induction k arbitrary: n)
  case 0
  show ?case by (simp add: nat_len.simps [of n])
next
  case (Suc k)
  have "nat_len n \<le> Suc k \<longleftrightarrow> n = 0 \<or> nat_len (n div 2) \<le> k"
    by (simp add: nat_len.simps [of n])
  also have "\<dots> \<longleftrightarrow> n < 2 ^ Suc k"
    by (auto simp: Suc.IH div_less_iff_less_mult mult.commute)
  finally show ?case .
qed

lemma bits_Len_le_iff: "bits_Len w \<le> k \<longleftrightarrow> unat w < 2 ^ k"
  by (simp add: bits_Len_def nat_len_le_iff)

lemma bits_Len_gt_iff: "k < bits_Len w \<longleftrightarrow> \<not> unat w < 2 ^ k"
  by (simp add: not_le flip: bits_Len_le_iff)

lemmas bits_Len_iff = bits_Len_le_iff bits_Len_gt_iff

text \<open>Two fields of known widths in one octet.\<close>

lemma push_or_fields:
  fixes hi lo :: u8
  assumes "unat lo < 2 ^ n" "unat hi < 2 ^ m" "n + m \<le> 8"
  shows "drop_bit n (push_bit n hi OR lo) AND mask m = hi"
    and "(push_bit n hi OR lo) AND mask n = lo"
proof -
  have hi: "i < m" if "bit hi i" for i
    using assms(2) that by (metis bit_take_bit_iff take_bit_id)
  have lo: "i < n" if "bit lo i" for i
    using assms(1) that by (metis bit_take_bit_iff take_bit_id)
  show "drop_bit n (push_bit n hi OR lo) AND mask m = hi"
    by (rule bit_word_eqI) (use hi lo assms(3) in \<open>fastforce simp: bit_simps\<close>)
  show "(push_bit n hi OR lo) AND mask n = lo"
    by (rule bit_word_eqI) (use lo in \<open>auto simp: bit_simps not_less\<close>)
qed

section \<open>Little-endian octets and IP addresses\<close>

definition le_bytes :: "nat \<Rightarrow> 'a::len word \<Rightarrow> bytes" where
  "le_bytes n w = rev (be_bytes n w)"

lemma length_le_bytes [simp]: "length (le_bytes n w) = n"
  by (simp add: le_bytes_def)

definition rd_le :: "nat \<Rightarrow> cursor \<Rightarrow> ('a::len word \<times> cursor) res" where
  "rd_le n c = bind_res (need (of_nat n) c) (\<lambda>_.
     bind_res (sl_from (cdata c) (unat (cidx c))) (\<lambda>s.
     if n \<le> slen s then Inr (of_be (rev (take n (sdata s))), advance (of_nat n) c)
     else Inl Panic))"

lemma rd_le_at_split [rd_simps]:
  "length pre + n + length r < 65536 \<Longrightarrow>
   rd_le n (at_split pre (le_bytes n w @ r) sp)
     = Inr (of_be (be_bytes n w), at_split (pre @ le_bytes n w) r sp)"
  using need_at_split [of pre n "le_bytes n w @ r" sp] advance_at_split [of "le_bytes n w" pre r sp]
  by (simp add: rd_le_def cidx_at_split go_simps le_bytes_def)

lemma rd_le_at_split_last [rd_simps]:
  "length pre + n < 65536 \<Longrightarrow>
   rd_le n (at_split pre (le_bytes n w) sp)
     = Inr (of_be (be_bytes n w), at_split (pre @ le_bytes n w) [] sp)"
  using rd_le_at_split [of pre n "[]" w sp] by simp

lemma rd_le_np [rd_np]:
  assumes "pos c + n < 65536"
    and "\<And>w c'. pos c' \<le> pos c + n \<Longrightarrow> cdata c' = cdata c \<Longrightarrow>
      pos c' \<le> slen (cdata c) \<Longrightarrow> no_panic (f (w, c'))"
  shows "no_panic (bind_res (rd_le n c) f)"
proof -
  have n: "unat (of_nat n :: u16) = n" using assms(1) by simp
  have "n \<le> slen s" if "sl_from (cdata c) (unat (cidx c)) = Inr s" "need (of_nat n) c = Inr u" for s u
    using that need_InrD [of "of_nat n" c u] slen_sl_from [OF that(1)] assms(1) n
    by (simp add: pos_def)
  then show ?thesis
    unfolding rd_le_def bind_res_assoc
    using assms need_InrD [of "of_nat n" c] need_advance [of "of_nat n" c] n
    by (auto simp: pos_def intro!: no_panic_bind no_panic_need np_intros)
qed

text \<open>
  A \<^verbatim>\<open>net.IP\<close> is a byte slice; nil and every length but 4 and 16 are not addresses.
  \<^verbatim>\<open>IsUnspecified\<close> compares with \<^verbatim>\<open>0.0.0.0\<close> (in either form) and \<^verbatim>\<open>::\<close>, so that it is
  false of a nil address.
\<close>

type_synonym ip = bytes

definition v4InV6Prefix :: bytes where
  "v4InV6Prefix = [0, 0, 0, 0, 0, 0, 0, 0, 0, 0, 255, 255]"

definition To4 :: "ip \<Rightarrow> ip" where
  "To4 a = (if length a = 4 then a
            else if length a = 16 \<and> take 12 a = v4InV6Prefix then drop 12 a else [])"

definition To16 :: "ip \<Rightarrow> ip" where
  "To16 a = (if length a = 4 then v4InV6Prefix @ a else if length a = 16 then a else [])"

definition IsUnspecified :: "ip \<Rightarrow> bool" where
  "IsUnspecified a \<longleftrightarrow> a = [0, 0, 0, 0] \<or> a = v4InV6Prefix @ [0, 0, 0, 0]
     \<or> a = [0, 0, 0, 0, 0, 0, 0, 0, 0, 0, 0, 0, 0, 0, 0, 0]"

lemma To4_4 [simp]: "length a = 4 \<Longrightarrow> To4 a = a"
  by (simp add: To4_def)

lemma To16_16 [simp]: "length a = 16 \<Longrightarrow> To16 a = a"
  by (simp add: To16_def)

lemma To4_length: "To4 a = [] \<or> length (To4 a) = 4"
  by (auto simp: To4_def)

lemma IsUnspecified_Nil [simp]: "\<not> IsUnspecified []"
  by (simp add: IsUnspecified_def v4InV6Prefix_def)

lemma opt_np:
  assumes "b \<Longrightarrow> no_panic (bind_res m f)" "\<not> b \<Longrightarrow> no_panic (f x)"
  shows "no_panic (bind_res (opt b m x) f)"
  using assms by (cases b) simp_all

lemmas rd_np_intros = rd_np no_panic_check_bind opt_np

end
