(* ===== verification/PFCP_Scalar.thy ===== *)
theory PFCP_Scalar
  imports PFCP_Reader
begin

text \<open>
  The information elements of \<^verbatim>\<open>lib/pfcp/pfcpType\<close> that hold one number: an octet, a field
  of an octet, two octets or four. Each record is the Go struct (a field carries the name of
  its struct, since several structs use the same field name); \<open>_new\<close> is its zero value,
  \<open>_marshal\<close> and \<open>_unmarshal\<close> are its \<^verbatim>\<open>MarshalBinary\<close> and \<^verbatim>\<open>UnmarshalBinary\<close>.
  Each interprets the contract of a codec that never panics.
\<close>

section \<open>One octet\<close>

record BARID =
  BARID_BarIdValue :: u8

definition BARID_new :: BARID where
  "BARID_new = \<lparr>BARID_BarIdValue = 0\<rparr>"

definition BARID_marshal :: "BARID \<Rightarrow> bytes res" where
  "BARID_marshal v = Inr [BARID_BarIdValue v]"

definition BARID_unmarshal :: "BARID \<Rightarrow> slice \<Rightarrow> BARID res" where
  "BARID_unmarshal v data =
     bind_res (rd_u8 (start data)) (\<lambda>(b, c).
     bind_res (at_end c) (\<lambda>_. Inr (v\<lparr>BARID_BarIdValue := b\<rparr>)))"

interpretation barid: safe_binary_codec BARID_new BARID_marshal BARID_unmarshal "\<lambda>_. True"
  by unfold_locales (auto simp: BARID_new_def BARID_marshal_def BARID_unmarshal_def rd_simps
    intro!: rd_np_intros)

record CPFunctionFeatures =
  CPFunctionFeatures_SupportedFeatures :: u8

definition CPFunctionFeatures_new :: CPFunctionFeatures where
  "CPFunctionFeatures_new = \<lparr>CPFunctionFeatures_SupportedFeatures = 0\<rparr>"

definition CPFunctionFeatures_marshal :: "CPFunctionFeatures \<Rightarrow> bytes res" where
  "CPFunctionFeatures_marshal v = Inr [CPFunctionFeatures_SupportedFeatures v]"

definition CPFunctionFeatures_unmarshal :: "CPFunctionFeatures \<Rightarrow> slice \<Rightarrow> CPFunctionFeatures res" where
  "CPFunctionFeatures_unmarshal v data =
     bind_res (rd_u8 (start data)) (\<lambda>(b, c).
     bind_res (at_end c) (\<lambda>_. Inr (v\<lparr>CPFunctionFeatures_SupportedFeatures := b\<rparr>)))"

interpretation cpfunctionfeatures: safe_binary_codec CPFunctionFeatures_new CPFunctionFeatures_marshal CPFunctionFeatures_unmarshal "\<lambda>_. True"
  by unfold_locales (auto simp: CPFunctionFeatures_new_def CPFunctionFeatures_marshal_def CPFunctionFeatures_unmarshal_def rd_simps
    intro!: rd_np_intros)

record Cause =
  Cause_CauseValue :: u8

definition Cause_new :: Cause where
  "Cause_new = \<lparr>Cause_CauseValue = 0\<rparr>"

definition Cause_marshal :: "Cause \<Rightarrow> bytes res" where
  "Cause_marshal v = Inr [Cause_CauseValue v]"

definition Cause_unmarshal :: "Cause \<Rightarrow> slice \<Rightarrow> Cause res" where
  "Cause_unmarshal v data =
     bind_res (rd_u8 (start data)) (\<lambda>(b, c).
     bind_res (at_end c) (\<lambda>_. Inr (v\<lparr>Cause_CauseValue := b\<rparr>)))"

interpretation cause: safe_binary_codec Cause_new Cause_marshal Cause_unmarshal "\<lambda>_. True"
  by unfold_locales (auto simp: Cause_new_def Cause_marshal_def Cause_unmarshal_def rd_simps
    intro!: rd_np_intros)

record DownlinkDataNotificationDelay =
  DownlinkDataNotificationDelay_DelayValue :: u8

definition DownlinkDataNotificationDelay_new :: DownlinkDataNotificationDelay where
  "DownlinkDataNotificationDelay_new = \<lparr>DownlinkDataNotificationDelay_DelayValue = 0\<rparr>"

definition DownlinkDataNotificationDelay_marshal :: "DownlinkDataNotificationDelay \<Rightarrow> bytes res" where
  "DownlinkDataNotificationDelay_marshal v = Inr [DownlinkDataNotificationDelay_DelayValue v]"

definition DownlinkDataNotificationDelay_unmarshal :: "DownlinkDataNotificationDelay \<Rightarrow> slice \<Rightarrow> DownlinkDataNotificationDelay res" where
  "DownlinkDataNotificationDelay_unmarshal v data =
     bind_res (rd_u8 (start data)) (\<lambda>(b, c).
     bind_res (at_end c) (\<lambda>_. Inr (v\<lparr>DownlinkDataNotificationDelay_DelayValue := b\<rparr>)))"

interpretation downlinkdatanotificationdelay: safe_binary_codec DownlinkDataNotificationDelay_new DownlinkDataNotificationDelay_marshal DownlinkDataNotificationDelay_unmarshal "\<lambda>_. True"
  by unfold_locales (auto simp: DownlinkDataNotificationDelay_new_def DownlinkDataNotificationDelay_marshal_def DownlinkDataNotificationDelay_unmarshal_def rd_simps
    intro!: rd_np_intros)

record OuterHeaderRemoval =
  OuterHeaderRemoval_OuterHeaderRemovalDescription :: u8

definition OuterHeaderRemoval_new :: OuterHeaderRemoval where
  "OuterHeaderRemoval_new = \<lparr>OuterHeaderRemoval_OuterHeaderRemovalDescription = 0\<rparr>"

definition OuterHeaderRemoval_marshal :: "OuterHeaderRemoval \<Rightarrow> bytes res" where
  "OuterHeaderRemoval_marshal v = Inr [OuterHeaderRemoval_OuterHeaderRemovalDescription v]"

definition OuterHeaderRemoval_unmarshal :: "OuterHeaderRemoval \<Rightarrow> slice \<Rightarrow> OuterHeaderRemoval res" where
  "OuterHeaderRemoval_unmarshal v data =
     bind_res (rd_u8 (start data)) (\<lambda>(b, c).
     bind_res (at_end c) (\<lambda>_. Inr (v\<lparr>OuterHeaderRemoval_OuterHeaderRemovalDescription := b\<rparr>)))"

interpretation outerheaderremoval: safe_binary_codec OuterHeaderRemoval_new OuterHeaderRemoval_marshal OuterHeaderRemoval_unmarshal "\<lambda>_. True"
  by unfold_locales (auto simp: OuterHeaderRemoval_new_def OuterHeaderRemoval_marshal_def OuterHeaderRemoval_unmarshal_def rd_simps
    intro!: rd_np_intros)

record SuggestedBufferingPacketsCount =
  SuggestedBufferingPacketsCount_PacketCountValue :: u8

definition SuggestedBufferingPacketsCount_new :: SuggestedBufferingPacketsCount where
  "SuggestedBufferingPacketsCount_new = \<lparr>SuggestedBufferingPacketsCount_PacketCountValue = 0\<rparr>"

definition SuggestedBufferingPacketsCount_marshal :: "SuggestedBufferingPacketsCount \<Rightarrow> bytes res" where
  "SuggestedBufferingPacketsCount_marshal v = Inr [SuggestedBufferingPacketsCount_PacketCountValue v]"

definition SuggestedBufferingPacketsCount_unmarshal :: "SuggestedBufferingPacketsCount \<Rightarrow> slice \<Rightarrow> SuggestedBufferingPacketsCount res" where
  "SuggestedBufferingPacketsCount_unmarshal v data =
     bind_res (rd_u8 (start data)) (\<lambda>(b, c).
     bind_res (at_end c) (\<lambda>_. Inr (v\<lparr>SuggestedBufferingPacketsCount_PacketCountValue := b\<rparr>)))"

interpretation suggestedbufferingpacketscount: safe_binary_codec SuggestedBufferingPacketsCount_new SuggestedBufferingPacketsCount_marshal SuggestedBufferingPacketsCount_unmarshal "\<lambda>_. True"
  by unfold_locales (auto simp: SuggestedBufferingPacketsCount_new_def SuggestedBufferingPacketsCount_marshal_def SuggestedBufferingPacketsCount_unmarshal_def rd_simps
    intro!: rd_np_intros)

record TrafficEndpointID =
  TrafficEndpointID_TrafficEndpointIdValue :: u8

definition TrafficEndpointID_new :: TrafficEndpointID where
  "TrafficEndpointID_new = \<lparr>TrafficEndpointID_TrafficEndpointIdValue = 0\<rparr>"

definition TrafficEndpointID_marshal :: "TrafficEndpointID \<Rightarrow> bytes res" where
  "TrafficEndpointID_marshal v = Inr [TrafficEndpointID_TrafficEndpointIdValue v]"

definition TrafficEndpointID_unmarshal :: "TrafficEndpointID \<Rightarrow> slice \<Rightarrow> TrafficEndpointID res" where
  "TrafficEndpointID_unmarshal v data =
     bind_res (rd_u8 (start data)) (\<lambda>(b, c).
     bind_res (at_end c) (\<lambda>_. Inr (v\<lparr>TrafficEndpointID_TrafficEndpointIdValue := b\<rparr>)))"

interpretation trafficendpointid: safe_binary_codec TrafficEndpointID_new TrafficEndpointID_marshal TrafficEndpointID_unmarshal "\<lambda>_. True"
  by unfold_locales (auto simp: TrafficEndpointID_new_def TrafficEndpointID_marshal_def TrafficEndpointID_unmarshal_def rd_simps
    intro!: rd_np_intros)

section \<open>A field of an octet\<close>

record DestinationInterface =
  DestinationInterface_InterfaceValue :: u8

definition DestinationInterface_new :: DestinationInterface where
  "DestinationInterface_new = \<lparr>DestinationInterface_InterfaceValue = 0\<rparr>"

definition DestinationInterface_marshal :: "DestinationInterface \<Rightarrow> bytes res" where
  "DestinationInterface_marshal v =
     bind_res (check (\<not> bits_Len (DestinationInterface_InterfaceValue v) > 4) ''Interface data shall not be greater than 4 bits binary integer'') (\<lambda>_.
     Inr [DestinationInterface_InterfaceValue v])"

definition DestinationInterface_unmarshal :: "DestinationInterface \<Rightarrow> slice \<Rightarrow> DestinationInterface res" where
  "DestinationInterface_unmarshal v data =
     bind_res (rd_u8 (start data)) (\<lambda>(b, c).
     bind_res (at_end c) (\<lambda>_. Inr (v\<lparr>DestinationInterface_InterfaceValue := b AND mask 4\<rparr>)))"

interpretation destinationinterface: safe_binary_codec DestinationInterface_new DestinationInterface_marshal DestinationInterface_unmarshal 
  "\<lambda>v. bits_Len (DestinationInterface_InterfaceValue v) \<le> 4"
  by unfold_locales (auto simp: DestinationInterface_new_def DestinationInterface_marshal_def DestinationInterface_unmarshal_def rd_simps bits_Len_iff and_mask_id [simplified]
    intro!: rd_np_intros)

record SourceInterface =
  SourceInterface_InterfaceValue :: u8

definition SourceInterface_new :: SourceInterface where
  "SourceInterface_new = \<lparr>SourceInterface_InterfaceValue = 0\<rparr>"

definition SourceInterface_marshal :: "SourceInterface \<Rightarrow> bytes res" where
  "SourceInterface_marshal v =
     bind_res (check (\<not> bits_Len (SourceInterface_InterfaceValue v) > 4) ''Interface data shall not be greater than 4 bits binary integer'') (\<lambda>_.
     Inr [SourceInterface_InterfaceValue v])"

definition SourceInterface_unmarshal :: "SourceInterface \<Rightarrow> slice \<Rightarrow> SourceInterface res" where
  "SourceInterface_unmarshal v data =
     bind_res (rd_u8 (start data)) (\<lambda>(b, c).
     bind_res (at_end c) (\<lambda>_. Inr (v\<lparr>SourceInterface_InterfaceValue := b AND mask 4\<rparr>)))"

interpretation sourceinterface: safe_binary_codec SourceInterface_new SourceInterface_marshal SourceInterface_unmarshal 
  "\<lambda>v. bits_Len (SourceInterface_InterfaceValue v) \<le> 4"
  by unfold_locales (auto simp: SourceInterface_new_def SourceInterface_marshal_def SourceInterface_unmarshal_def rd_simps bits_Len_iff and_mask_id [simplified]
    intro!: rd_np_intros)

record PDNType =
  PDNType_PdnType :: u8

definition PDNType_new :: PDNType where
  "PDNType_new = \<lparr>PDNType_PdnType = 0\<rparr>"

definition PDNType_marshal :: "PDNType \<Rightarrow> bytes res" where
  "PDNType_marshal v =
     bind_res (check (\<not> bits_Len (PDNType_PdnType v) > 3) ''PDN type shall not be greater than 3 bits binary integer'') (\<lambda>_.
     Inr [PDNType_PdnType v])"

definition PDNType_unmarshal :: "PDNType \<Rightarrow> slice \<Rightarrow> PDNType res" where
  "PDNType_unmarshal v data =
     bind_res (rd_u8 (start data)) (\<lambda>(b, c).
     bind_res (at_end c) (\<lambda>_. Inr (v\<lparr>PDNType_PdnType := b AND mask 3\<rparr>)))"

interpretation pdntype: safe_binary_codec PDNType_new PDNType_marshal PDNType_unmarshal 
  "\<lambda>v. bits_Len (PDNType_PdnType v) \<le> 3"
  by unfold_locales (auto simp: PDNType_new_def PDNType_marshal_def PDNType_unmarshal_def rd_simps bits_Len_iff and_mask_id [simplified]
    intro!: rd_np_intros)

section \<open>Two fields of an octet\<close>

record DLBufferingDuration =
  DLBufferingDuration_TimerUnit :: u8
  DLBufferingDuration_TimerValue :: u8

definition DLBufferingDuration_new :: DLBufferingDuration where
  "DLBufferingDuration_new = \<lparr>DLBufferingDuration_TimerUnit = 0, DLBufferingDuration_TimerValue = 0\<rparr>"

definition DLBufferingDuration_marshal :: "DLBufferingDuration \<Rightarrow> bytes res" where
  "DLBufferingDuration_marshal v =
     bind_res (check (\<not> bits_Len (DLBufferingDuration_TimerUnit v) > 3) ''Timer unit shall not be greater than 3 bits binary integer'') (\<lambda>_.
     bind_res (check (\<not> bits_Len (DLBufferingDuration_TimerValue v) > 5) ''Timer data shall not be greater than 5 bits binary integer'') (\<lambda>_.
     Inr [push_bit 5 (DLBufferingDuration_TimerUnit v) OR DLBufferingDuration_TimerValue v]))"

definition DLBufferingDuration_unmarshal :: "DLBufferingDuration \<Rightarrow> slice \<Rightarrow> DLBufferingDuration res" where
  "DLBufferingDuration_unmarshal v data =
     bind_res (rd_u8 (start data)) (\<lambda>(b, c).
     bind_res (at_end c) (\<lambda>_.
     Inr (v\<lparr>DLBufferingDuration_TimerUnit := drop_bit 5 b AND mask 3, DLBufferingDuration_TimerValue := b AND mask 5\<rparr>)))"

interpretation dlbufferingduration: safe_binary_codec DLBufferingDuration_new DLBufferingDuration_marshal DLBufferingDuration_unmarshal 
  "\<lambda>v. bits_Len (DLBufferingDuration_TimerUnit v) \<le> 3 \<and> bits_Len (DLBufferingDuration_TimerValue v) \<le> 5"
  by unfold_locales (auto simp: DLBufferingDuration_new_def DLBufferingDuration_marshal_def DLBufferingDuration_unmarshal_def rd_simps bits_Len_iff
    push_or_fields [of _ 5 _ 3, simplified]
    intro!: rd_np_intros)

record GateStatus =
  GateStatus_UlGate :: u8
  GateStatus_DlGate :: u8

definition GateStatus_new :: GateStatus where
  "GateStatus_new = \<lparr>GateStatus_UlGate = 0, GateStatus_DlGate = 0\<rparr>"

definition GateStatus_marshal :: "GateStatus \<Rightarrow> bytes res" where
  "GateStatus_marshal v =
     bind_res (check (\<not> bits_Len (GateStatus_UlGate v) > 2) ''UL gate shall not be greater than 2 bits binary integer'') (\<lambda>_.
     bind_res (check (\<not> bits_Len (GateStatus_DlGate v) > 2) ''DL gate shall not be greater than 2 bits binary integer'') (\<lambda>_.
     Inr [push_bit 2 (GateStatus_UlGate v) OR GateStatus_DlGate v]))"

definition GateStatus_unmarshal :: "GateStatus \<Rightarrow> slice \<Rightarrow> GateStatus res" where
  "GateStatus_unmarshal v data =
     bind_res (rd_u8 (start data)) (\<lambda>(b, c).
     bind_res (at_end c) (\<lambda>_.
     Inr (v\<lparr>GateStatus_UlGate := drop_bit 2 b AND mask 2, GateStatus_DlGate := b AND mask 2\<rparr>)))"

interpretation gatestatus: safe_binary_codec GateStatus_new GateStatus_marshal GateStatus_unmarshal 
  "\<lambda>v. bits_Len (GateStatus_UlGate v) \<le> 2 \<and> bits_Len (GateStatus_DlGate v) \<le> 2"
  by unfold_locales (auto simp: GateStatus_new_def GateStatus_marshal_def GateStatus_unmarshal_def rd_simps bits_Len_iff
    push_or_fields [of _ 2 _ 2, simplified]
    intro!: rd_np_intros)

section \<open>Two octets\<close>

record OffendingIE =
  OffendingIE_TypeOfOffendingIe :: u16

definition OffendingIE_new :: OffendingIE where
  "OffendingIE_new = \<lparr>OffendingIE_TypeOfOffendingIe = 0\<rparr>"

definition OffendingIE_marshal :: "OffendingIE \<Rightarrow> bytes res" where
  "OffendingIE_marshal v = Inr (be_bytes 2 (OffendingIE_TypeOfOffendingIe v))"

definition OffendingIE_unmarshal :: "OffendingIE \<Rightarrow> slice \<Rightarrow> OffendingIE res" where
  "OffendingIE_unmarshal v data =
     bind_res (rd_be 2 (start data)) (\<lambda>(w, c).
     bind_res (at_end c) (\<lambda>_. Inr (v\<lparr>OffendingIE_TypeOfOffendingIe := w\<rparr>)))"

interpretation offendingie: safe_binary_codec OffendingIE_new OffendingIE_marshal OffendingIE_unmarshal "\<lambda>_. True"
  by unfold_locales (auto simp: OffendingIE_new_def OffendingIE_marshal_def OffendingIE_unmarshal_def rd_simps
    intro!: rd_np_intros)

record PacketDetectionRuleID =
  PacketDetectionRuleID_RuleId :: u16

definition PacketDetectionRuleID_new :: PacketDetectionRuleID where
  "PacketDetectionRuleID_new = \<lparr>PacketDetectionRuleID_RuleId = 0\<rparr>"

definition PacketDetectionRuleID_marshal :: "PacketDetectionRuleID \<Rightarrow> bytes res" where
  "PacketDetectionRuleID_marshal v = Inr (be_bytes 2 (PacketDetectionRuleID_RuleId v))"

definition PacketDetectionRuleID_unmarshal :: "PacketDetectionRuleID \<Rightarrow> slice \<Rightarrow> PacketDetectionRuleID res" where
  "PacketDetectionRuleID_unmarshal v data =
     bind_res (rd_be 2 (start data)) (\<lambda>(w, c).
     bind_res (at_end c) (\<lambda>_. Inr (v\<lparr>PacketDetectionRuleID_RuleId := w\<rparr>)))"

interpretation packetdetectionruleid: safe_binary_codec PacketDetectionRuleID_new PacketDetectionRuleID_marshal PacketDetectionRuleID_unmarshal "\<lambda>_. True"
  by unfold_locales (auto simp: PacketDetectionRuleID_new_def PacketDetectionRuleID_marshal_def PacketDetectionRuleID_unmarshal_def rd_simps
    intro!: rd_np_intros)

record UPFunctionFeatures =
  UPFunctionFeatures_SupportedFeatures :: u16

definition UPFunctionFeatures_new :: UPFunctionFeatures where
  "UPFunctionFeatures_new = \<lparr>UPFunctionFeatures_SupportedFeatures = 0\<rparr>"

definition UPFunctionFeatures_marshal :: "UPFunctionFeatures \<Rightarrow> bytes res" where
  "UPFunctionFeatures_marshal v = Inr (le_bytes 2 (UPFunctionFeatures_SupportedFeatures v))"

definition UPFunctionFeatures_unmarshal :: "UPFunctionFeatures \<Rightarrow> slice \<Rightarrow> UPFunctionFeatures res" where
  "UPFunctionFeatures_unmarshal v data =
     bind_res (rd_le 2 (start data)) (\<lambda>(w, c).
     bind_res (at_end c) (\<lambda>_. Inr (v\<lparr>UPFunctionFeatures_SupportedFeatures := w\<rparr>)))"

interpretation upfunctionfeatures: safe_binary_codec UPFunctionFeatures_new UPFunctionFeatures_marshal UPFunctionFeatures_unmarshal "\<lambda>_. True"
  by unfold_locales (auto simp: UPFunctionFeatures_new_def UPFunctionFeatures_marshal_def UPFunctionFeatures_unmarshal_def rd_simps
    intro!: rd_np_intros)

record TransportLevelMarking =
  TransportLevelMarking_TosTrafficClass :: bytes

definition TransportLevelMarking_new :: TransportLevelMarking where
  "TransportLevelMarking_new = \<lparr>TransportLevelMarking_TosTrafficClass = []\<rparr>"

definition TransportLevelMarking_marshal :: "TransportLevelMarking \<Rightarrow> bytes res" where
  "TransportLevelMarking_marshal v =
     bind_res (check (\<not> length (TransportLevelMarking_TosTrafficClass v) \<noteq> 2) ''ToS/Traffic class shall be exactly two bytes'') (\<lambda>_.
     Inr (TransportLevelMarking_TosTrafficClass v))"

definition TransportLevelMarking_unmarshal :: "TransportLevelMarking \<Rightarrow> slice \<Rightarrow> TransportLevelMarking res" where
  "TransportLevelMarking_unmarshal v data =
     bind_res (rd_bytes 2 (start data)) (\<lambda>(a, c).
     bind_res (at_end c) (\<lambda>_. Inr (v\<lparr>TransportLevelMarking_TosTrafficClass := a\<rparr>)))"

interpretation transportlevelmarking: safe_binary_codec TransportLevelMarking_new TransportLevelMarking_marshal TransportLevelMarking_unmarshal 
  "\<lambda>v. length (TransportLevelMarking_TosTrafficClass v) = 2"
  by unfold_locales (auto simp: TransportLevelMarking_new_def TransportLevelMarking_marshal_def TransportLevelMarking_unmarshal_def rd_simps
    intro!: rd_np_intros)

section \<open>Four octets\<close>

record FARID =
  FARID_FarIdValue :: u32

definition FARID_new :: FARID where
  "FARID_new = \<lparr>FARID_FarIdValue = 0\<rparr>"

definition FARID_marshal :: "FARID \<Rightarrow> bytes res" where
  "FARID_marshal v = Inr (be_bytes 4 (FARID_FarIdValue v))"

definition FARID_unmarshal :: "FARID \<Rightarrow> slice \<Rightarrow> FARID res" where
  "FARID_unmarshal v data =
     bind_res (rd_be 4 (start data)) (\<lambda>(w, c).
     bind_res (at_end c) (\<lambda>_. Inr (v\<lparr>FARID_FarIdValue := w\<rparr>)))"

interpretation farid: safe_binary_codec FARID_new FARID_marshal FARID_unmarshal "\<lambda>_. True"
  by unfold_locales (auto simp: FARID_new_def FARID_marshal_def FARID_unmarshal_def rd_simps
    intro!: rd_np_intros)

record URRID =
  URRID_UrrIdValue :: u32

definition URRID_new :: URRID where
  "URRID_new = \<lparr>URRID_UrrIdValue = 0\<rparr>"

definition URRID_marshal :: "URRID \<Rightarrow> bytes res" where
  "URRID_marshal v = Inr (be_bytes 4 (URRID_UrrIdValue v))"

definition URRID_unmarshal :: "URRID \<Rightarrow> slice \<Rightarrow> URRID res" where
  "URRID_unmarshal v data =
     bind_res (rd_be 4 (start data)) (\<lambda>(w, c).
     bind_res (at_end c) (\<lambda>_. Inr (v\<lparr>URRID_UrrIdValue := w\<rparr>)))"

interpretation urrid: safe_binary_codec URRID_new URRID_marshal URRID_unmarshal "\<lambda>_. True"
  by unfold_locales (auto simp: URRID_new_def URRID_marshal_def URRID_unmarshal_def rd_simps
    intro!: rd_np_intros)

record LinkedURRID =
  LinkedURRID_LinkedUrrIdValue :: u32

definition LinkedURRID_new :: LinkedURRID where
  "LinkedURRID_new = \<lparr>LinkedURRID_LinkedUrrIdValue = 0\<rparr>"

definition LinkedURRID_marshal :: "LinkedURRID \<Rightarrow> bytes res" where
  "LinkedURRID_marshal v = Inr (be_bytes 4 (LinkedURRID_LinkedUrrIdValue v))"

definition LinkedURRID_unmarshal :: "LinkedURRID \<Rightarrow> slice \<Rightarrow> LinkedURRID res" where
  "LinkedURRID_unmarshal v data =
     bind_res (rd_be 4 (start data)) (\<lambda>(w, c).
     bind_res (at_end c) (\<lambda>_. Inr (v\<lparr>LinkedURRID_LinkedUrrIdValue := w\<rparr>)))"

interpretation linkedurrid: safe_binary_codec LinkedURRID_new LinkedURRID_marshal LinkedURRID_unmarshal "\<lambda>_. True"
  by unfold_locales (auto simp: LinkedURRID_new_def LinkedURRID_marshal_def LinkedURRID_unmarshal_def rd_simps
    intro!: rd_np_intros)

record MeasurementPeriod =
  MeasurementPeriod_MeasurementPeriod :: u32

definition MeasurementPeriod_new :: MeasurementPeriod where
  "MeasurementPeriod_new = \<lparr>MeasurementPeriod_MeasurementPeriod = 0\<rparr>"

definition MeasurementPeriod_marshal :: "MeasurementPeriod \<Rightarrow> bytes res" where
  "MeasurementPeriod_marshal v = Inr (be_bytes 4 (MeasurementPeriod_MeasurementPeriod v))"

definition MeasurementPeriod_unmarshal :: "MeasurementPeriod \<Rightarrow> slice \<Rightarrow> MeasurementPeriod res" where
  "MeasurementPeriod_unmarshal v data =
     bind_res (rd_be 4 (start data)) (\<lambda>(w, c).
     bind_res (at_end c) (\<lambda>_. Inr (v\<lparr>MeasurementPeriod_MeasurementPeriod := w\<rparr>)))"

interpretation measurementperiod: safe_binary_codec MeasurementPeriod_new MeasurementPeriod_marshal MeasurementPeriod_unmarshal "\<lambda>_. True"
  by unfold_locales (auto simp: MeasurementPeriod_new_def MeasurementPeriod_marshal_def MeasurementPeriod_unmarshal_def rd_simps
    intro!: rd_np_intros)

record DurationMeasurement =
  DurationMeasurement_DurationValue :: u32

definition DurationMeasurement_new :: DurationMeasurement where
  "DurationMeasurement_new = \<lparr>DurationMeasurement_DurationValue = 0\<rparr>"

definition DurationMeasurement_marshal :: "DurationMeasurement \<Rightarrow> bytes res" where
  "DurationMeasurement_marshal v = Inr (be_bytes 4 (DurationMeasurement_DurationValue v))"

definition DurationMeasurement_unmarshal :: "DurationMeasurement \<Rightarrow> slice \<Rightarrow> DurationMeasurement res" where
  "DurationMeasurement_unmarshal v data =
     bind_res (rd_be 4 (start data)) (\<lambda>(w, c).
     bind_res (at_end c) (\<lambda>_. Inr (v\<lparr>DurationMeasurement_DurationValue := w\<rparr>)))"

interpretation durationmeasurement: safe_binary_codec DurationMeasurement_new DurationMeasurement_marshal DurationMeasurement_unmarshal "\<lambda>_. True"
  by unfold_locales (auto simp: DurationMeasurement_new_def DurationMeasurement_marshal_def DurationMeasurement_unmarshal_def rd_simps
    intro!: rd_np_intros)

record EthernetInactivityTimer =
  EthernetInactivityTimer_EthernetInactivityTimer :: u32

definition EthernetInactivityTimer_new :: EthernetInactivityTimer where
  "EthernetInactivityTimer_new = \<lparr>EthernetInactivityTimer_EthernetInactivityTimer = 0\<rparr>"

definition EthernetInactivityTimer_marshal :: "EthernetInactivityTimer \<Rightarrow> bytes res" where
  "EthernetInactivityTimer_marshal v = Inr (be_bytes 4 (EthernetInactivityTimer_EthernetInactivityTimer v))"

definition EthernetInactivityTimer_unmarshal :: "EthernetInactivityTimer \<Rightarrow> slice \<Rightarrow> EthernetInactivityTimer res" where
  "EthernetInactivityTimer_unmarshal v data =
     bind_res (rd_be 4 (start data)) (\<lambda>(w, c).
     bind_res (at_end c) (\<lambda>_. Inr (v\<lparr>EthernetInactivityTimer_EthernetInactivityTimer := w\<rparr>)))"

interpretation ethernetinactivitytimer: safe_binary_codec EthernetInactivityTimer_new EthernetInactivityTimer_marshal EthernetInactivityTimer_unmarshal "\<lambda>_. True"
  by unfold_locales (auto simp: EthernetInactivityTimer_new_def EthernetInactivityTimer_marshal_def EthernetInactivityTimer_unmarshal_def rd_simps
    intro!: rd_np_intros)

record EventID =
  EventID_EventId :: u32

definition EventID_new :: EventID where
  "EventID_new = \<lparr>EventID_EventId = 0\<rparr>"

definition EventID_marshal :: "EventID \<Rightarrow> bytes res" where
  "EventID_marshal v = Inr (be_bytes 4 (EventID_EventId v))"

definition EventID_unmarshal :: "EventID \<Rightarrow> slice \<Rightarrow> EventID res" where
  "EventID_unmarshal v data =
     bind_res (rd_be 4 (start data)) (\<lambda>(w, c).
     bind_res (at_end c) (\<lambda>_. Inr (v\<lparr>EventID_EventId := w\<rparr>)))"

interpretation eventid: safe_binary_codec EventID_new EventID_marshal EventID_unmarshal "\<lambda>_. True"
  by unfold_locales (auto simp: EventID_new_def EventID_marshal_def EventID_unmarshal_def rd_simps
    intro!: rd_np_intros)

record EventThreshold =
  EventThreshold_EventThreshold :: u32

definition EventThreshold_new :: EventThreshold where
  "EventThreshold_new = \<lparr>EventThreshold_EventThreshold = 0\<rparr>"

definition EventThreshold_marshal :: "EventThreshold \<Rightarrow> bytes res" where
  "EventThreshold_marshal v = Inr (be_bytes 4 (EventThreshold_EventThreshold v))"

definition EventThreshold_unmarshal :: "EventThreshold \<Rightarrow> slice \<Rightarrow> EventThreshold res" where
  "EventThreshold_unmarshal v data =
     bind_res (rd_be 4 (start data)) (\<lambda>(w, c).
     bind_res (at_end c) (\<lambda>_. Inr (v\<lparr>EventThreshold_EventThreshold := w\<rparr>)))"

interpretation eventthreshold: safe_binary_codec EventThreshold_new EventThreshold_marshal EventThreshold_unmarshal "\<lambda>_. True"
  by unfold_locales (auto simp: EventThreshold_new_def EventThreshold_marshal_def EventThreshold_unmarshal_def rd_simps
    intro!: rd_np_intros)

record InactivityDetectionTime =
  InactivityDetectionTime_InactivityDetectionTime :: u32

definition InactivityDetectionTime_new :: InactivityDetectionTime where
  "InactivityDetectionTime_new = \<lparr>InactivityDetectionTime_InactivityDetectionTime = 0\<rparr>"

definition InactivityDetectionTime_marshal :: "InactivityDetectionTime \<Rightarrow> bytes res" where
  "InactivityDetectionTime_marshal v = Inr (be_bytes 4 (InactivityDetectionTime_InactivityDetectionTime v))"

definition InactivityDetectionTime_unmarshal :: "InactivityDetectionTime \<Rightarrow> slice \<Rightarrow> InactivityDetectionTime res" where
  "InactivityDetectionTime_unmarshal v data =
     bind_res (rd_be 4 (start data)) (\<lambda>(w, c).
     bind_res (at_end c) (\<lambda>_. Inr (v\<lparr>InactivityDetectionTime_InactivityDetectionTime := w\<rparr>)))"

interpretation inactivitydetectiontime: safe_binary_codec InactivityDetectionTime_new InactivityDetectionTime_marshal InactivityDetectionTime_unmarshal "\<lambda>_. True"
  by unfold_locales (auto simp: InactivityDetectionTime_new_def InactivityDetectionTime_marshal_def InactivityDetectionTime_unmarshal_def rd_simps
    intro!: rd_np_intros)

record Precedence =
  Precedence_PrecedenceValue :: u32

definition Precedence_new :: Precedence where
  "Precedence_new = \<lparr>Precedence_PrecedenceValue = 0\<rparr>"

definition Precedence_marshal :: "Precedence \<Rightarrow> bytes res" where
  "Precedence_marshal v = Inr (be_bytes 4 (Precedence_PrecedenceValue v))"

definition Precedence_unmarshal :: "Precedence \<Rightarrow> slice \<Rightarrow> Precedence res" where
  "Precedence_unmarshal v data =
     bind_res (rd_be 4 (start data)) (\<lambda>(w, c).
     bind_res (at_end c) (\<lambda>_. Inr (v\<lparr>Precedence_PrecedenceValue := w\<rparr>)))"

interpretation precedence: safe_binary_codec Precedence_new Precedence_marshal Precedence_unmarshal "\<lambda>_. True"
  by unfold_locales (auto simp: Precedence_new_def Precedence_marshal_def Precedence_unmarshal_def rd_simps
    intro!: rd_np_intros)

record QERCorrelationID =
  QERCorrelationID_QerCorrelationIdValue :: u32

definition QERCorrelationID_new :: QERCorrelationID where
  "QERCorrelationID_new = \<lparr>QERCorrelationID_QerCorrelationIdValue = 0\<rparr>"

definition QERCorrelationID_marshal :: "QERCorrelationID \<Rightarrow> bytes res" where
  "QERCorrelationID_marshal v = Inr (be_bytes 4 (QERCorrelationID_QerCorrelationIdValue v))"

definition QERCorrelationID_unmarshal :: "QERCorrelationID \<Rightarrow> slice \<Rightarrow> QERCorrelationID res" where
  "QERCorrelationID_unmarshal v data =
     bind_res (rd_be 4 (start data)) (\<lambda>(w, c).
     bind_res (at_end c) (\<lambda>_. Inr (v\<lparr>QERCorrelationID_QerCorrelationIdValue := w\<rparr>)))"

interpretation qercorrelationid: safe_binary_codec QERCorrelationID_new QERCorrelationID_marshal QERCorrelationID_unmarshal "\<lambda>_. True"
  by unfold_locales (auto simp: QERCorrelationID_new_def QERCorrelationID_marshal_def QERCorrelationID_unmarshal_def rd_simps
    intro!: rd_np_intros)

record QuotaHoldingTime =
  QuotaHoldingTime_QuotaHoldingTimeValue :: u32

definition QuotaHoldingTime_new :: QuotaHoldingTime where
  "QuotaHoldingTime_new = \<lparr>QuotaHoldingTime_QuotaHoldingTimeValue = 0\<rparr>"

definition QuotaHoldingTime_marshal :: "QuotaHoldingTime \<Rightarrow> bytes res" where
  "QuotaHoldingTime_marshal v = Inr (be_bytes 4 (QuotaHoldingTime_QuotaHoldingTimeValue v))"

definition QuotaHoldingTime_unmarshal :: "QuotaHoldingTime \<Rightarrow> slice \<Rightarrow> QuotaHoldingTime res" where
  "QuotaHoldingTime_unmarshal v data =
     bind_res (rd_be 4 (start data)) (\<lambda>(w, c).
     bind_res (at_end c) (\<lambda>_. Inr (v\<lparr>QuotaHoldingTime_QuotaHoldingTimeValue := w\<rparr>)))"

interpretation quotaholdingtime: safe_binary_codec QuotaHoldingTime_new QuotaHoldingTime_marshal QuotaHoldingTime_unmarshal "\<lambda>_. True"
  by unfold_locales (auto simp: QuotaHoldingTime_new_def QuotaHoldingTime_marshal_def QuotaHoldingTime_unmarshal_def rd_simps
    intro!: rd_np_intros)

record SubsequentTimeThreshold =
  SubsequentTimeThreshold_SubsequentTimeThreshold :: u32

definition SubsequentTimeThreshold_new :: SubsequentTimeThreshold where
  "SubsequentTimeThreshold_new = \<lparr>SubsequentTimeThreshold_SubsequentTimeThreshold = 0\<rparr>"

definition SubsequentTimeThreshold_marshal :: "SubsequentTimeThreshold \<Rightarrow> bytes res" where
  "SubsequentTimeThreshold_marshal v = Inr (be_bytes 4 (SubsequentTimeThreshold_SubsequentTimeThreshold v))"

definition SubsequentTimeThreshold_unmarshal :: "SubsequentTimeThreshold \<Rightarrow> slice \<Rightarrow> SubsequentTimeThreshold res" where
  "SubsequentTimeThreshold_unmarshal v data =
     bind_res (rd_be 4 (start data)) (\<lambda>(w, c).
     bind_res (at_end c) (\<lambda>_. Inr (v\<lparr>SubsequentTimeThreshold_SubsequentTimeThreshold := w\<rparr>)))"

interpretation subsequenttimethreshold: safe_binary_codec SubsequentTimeThreshold_new SubsequentTimeThreshold_marshal SubsequentTimeThreshold_unmarshal "\<lambda>_. True"
  by unfold_locales (auto simp: SubsequentTimeThreshold_new_def SubsequentTimeThreshold_marshal_def SubsequentTimeThreshold_unmarshal_def rd_simps
    intro!: rd_np_intros)

record TimeQuota =
  TimeQuota_TimeQuotaValue :: u32

definition TimeQuota_new :: TimeQuota where
  "TimeQuota_new = \<lparr>TimeQuota_TimeQuotaValue = 0\<rparr>"

definition TimeQuota_marshal :: "TimeQuota \<Rightarrow> bytes res" where
  "TimeQuota_marshal v = Inr (be_bytes 4 (TimeQuota_TimeQuotaValue v))"

definition TimeQuota_unmarshal :: "TimeQuota \<Rightarrow> slice \<Rightarrow> TimeQuota res" where
  "TimeQuota_unmarshal v data =
     bind_res (rd_be 4 (start data)) (\<lambda>(w, c).
     bind_res (at_end c) (\<lambda>_. Inr (v\<lparr>TimeQuota_TimeQuotaValue := w\<rparr>)))"

interpretation timequota: safe_binary_codec TimeQuota_new TimeQuota_marshal TimeQuota_unmarshal "\<lambda>_. True"
  by unfold_locales (auto simp: TimeQuota_new_def TimeQuota_marshal_def TimeQuota_unmarshal_def rd_simps
    intro!: rd_np_intros)

record TimeThreshold =
  TimeThreshold_TimeThreshold :: u32

definition TimeThreshold_new :: TimeThreshold where
  "TimeThreshold_new = \<lparr>TimeThreshold_TimeThreshold = 0\<rparr>"

definition TimeThreshold_marshal :: "TimeThreshold \<Rightarrow> bytes res" where
  "TimeThreshold_marshal v = Inr (be_bytes 4 (TimeThreshold_TimeThreshold v))"

definition TimeThreshold_unmarshal :: "TimeThreshold \<Rightarrow> slice \<Rightarrow> TimeThreshold res" where
  "TimeThreshold_unmarshal v data =
     bind_res (rd_be 4 (start data)) (\<lambda>(w, c).
     bind_res (at_end c) (\<lambda>_. Inr (v\<lparr>TimeThreshold_TimeThreshold := w\<rparr>)))"

interpretation timethreshold: safe_binary_codec TimeThreshold_new TimeThreshold_marshal TimeThreshold_unmarshal "\<lambda>_. True"
  by unfold_locales (auto simp: TimeThreshold_new_def TimeThreshold_marshal_def TimeThreshold_unmarshal_def rd_simps
    intro!: rd_np_intros)

record URSEQN =
  URSEQN_UrseqnValue :: u32

definition URSEQN_new :: URSEQN where
  "URSEQN_new = \<lparr>URSEQN_UrseqnValue = 0\<rparr>"

definition URSEQN_marshal :: "URSEQN \<Rightarrow> bytes res" where
  "URSEQN_marshal v = Inr (be_bytes 4 (URSEQN_UrseqnValue v))"

definition URSEQN_unmarshal :: "URSEQN \<Rightarrow> slice \<Rightarrow> URSEQN res" where
  "URSEQN_unmarshal v data =
     bind_res (rd_be 4 (start data)) (\<lambda>(w, c).
     bind_res (at_end c) (\<lambda>_. Inr (v\<lparr>URSEQN_UrseqnValue := w\<rparr>)))"

interpretation urseqn: safe_binary_codec URSEQN_new URSEQN_marshal URSEQN_unmarshal "\<lambda>_. True"
  by unfold_locales (auto simp: URSEQN_new_def URSEQN_marshal_def URSEQN_unmarshal_def rd_simps
    intro!: rd_np_intros)

end
