(* ===== verification/PFCP_Flags.thy ===== *)
theory PFCP_Flags
  imports PFCP_Reader
begin

text \<open>
  The information elements of \<^verbatim>\<open>lib/pfcp/pfcpType\<close> that are sets of flags in one or two
  octets. Each flag is a \<^verbatim>\<open>bool\<close> field; \<^verbatim>\<open>MarshalBinary\<close> shifts \<^verbatim>\<open>btou\<close> of it to its
  bit and \<^verbatim>\<open>UnmarshalBinary\<close> tests the bit with its \<^verbatim>\<open>BitMask\<close>.
\<close>

record ApplyAction =
  ApplyAction_Dupl :: bool
  ApplyAction_Nocp :: bool
  ApplyAction_Buff :: bool
  ApplyAction_Forw :: bool
  ApplyAction_Drop :: bool

definition ApplyAction_new :: ApplyAction where
  "ApplyAction_new = \<lparr>ApplyAction_Dupl = False,
     ApplyAction_Nocp = False,
     ApplyAction_Buff = False,
     ApplyAction_Forw = False,
     ApplyAction_Drop = False\<rparr>"

definition ApplyAction_marshal :: "ApplyAction \<Rightarrow> bytes res" where
  "ApplyAction_marshal v =
     Inr [push_bit 4 (btou (ApplyAction_Dupl v)) OR
      push_bit 3 (btou (ApplyAction_Nocp v)) OR
      push_bit 2 (btou (ApplyAction_Buff v)) OR
      push_bit 1 (btou (ApplyAction_Forw v)) OR
      btou (ApplyAction_Drop v)]"

definition ApplyAction_unmarshal :: "ApplyAction \<Rightarrow> slice \<Rightarrow> ApplyAction res" where
  "ApplyAction_unmarshal v data =
     bind_res (rd_u8 (start data)) (\<lambda>(b, c).
     bind_res (at_end c) (\<lambda>_.
     Inr (v\<lparr>ApplyAction_Dupl := utob (b AND 16),
       ApplyAction_Nocp := utob (b AND 8),
       ApplyAction_Buff := utob (b AND 4),
       ApplyAction_Forw := utob (b AND 2),
       ApplyAction_Drop := utob (b AND 1)\<rparr>)))"

interpretation applyaction: safe_binary_codec ApplyAction_new ApplyAction_marshal ApplyAction_unmarshal "\<lambda>_. True"
  by unfold_locales (auto simp: ApplyAction_new_def ApplyAction_marshal_def ApplyAction_unmarshal_def rd_simps bit_simps
    Let_def intro!: rd_np_intros)

record MeasurementInformation =
  MeasurementInformation_Radi :: bool
  MeasurementInformation_Inam :: bool
  MeasurementInformation_Mbqe :: bool

definition MeasurementInformation_new :: MeasurementInformation where
  "MeasurementInformation_new = \<lparr>MeasurementInformation_Radi = False,
     MeasurementInformation_Inam = False,
     MeasurementInformation_Mbqe = False\<rparr>"

definition MeasurementInformation_marshal :: "MeasurementInformation \<Rightarrow> bytes res" where
  "MeasurementInformation_marshal v =
     Inr [push_bit 2 (btou (MeasurementInformation_Radi v)) OR
      push_bit 1 (btou (MeasurementInformation_Inam v)) OR
      btou (MeasurementInformation_Mbqe v)]"

definition MeasurementInformation_unmarshal :: "MeasurementInformation \<Rightarrow> slice \<Rightarrow> MeasurementInformation res" where
  "MeasurementInformation_unmarshal v data =
     bind_res (rd_u8 (start data)) (\<lambda>(b, c).
     bind_res (at_end c) (\<lambda>_.
     Inr (v\<lparr>MeasurementInformation_Radi := utob (b AND 4),
       MeasurementInformation_Inam := utob (b AND 2),
       MeasurementInformation_Mbqe := utob (b AND 1)\<rparr>)))"

interpretation measurementinformation: safe_binary_codec MeasurementInformation_new MeasurementInformation_marshal MeasurementInformation_unmarshal "\<lambda>_. True"
  by unfold_locales (auto simp: MeasurementInformation_new_def MeasurementInformation_marshal_def MeasurementInformation_unmarshal_def rd_simps bit_simps
    Let_def intro!: rd_np_intros)

record NodeReportType =
  NodeReportType_Upfr :: bool

definition NodeReportType_new :: NodeReportType where
  "NodeReportType_new = \<lparr>NodeReportType_Upfr = False\<rparr>"

definition NodeReportType_marshal :: "NodeReportType \<Rightarrow> bytes res" where
  "NodeReportType_marshal v =
     Inr [btou (NodeReportType_Upfr v)]"

definition NodeReportType_unmarshal :: "NodeReportType \<Rightarrow> slice \<Rightarrow> NodeReportType res" where
  "NodeReportType_unmarshal v data =
     bind_res (rd_u8 (start data)) (\<lambda>(b, c).
     bind_res (at_end c) (\<lambda>_.
     Inr (v\<lparr>NodeReportType_Upfr := utob (b AND 1)\<rparr>)))"

interpretation nodereporttype: safe_binary_codec NodeReportType_new NodeReportType_marshal NodeReportType_unmarshal "\<lambda>_. True"
  by unfold_locales (auto simp: NodeReportType_new_def NodeReportType_marshal_def NodeReportType_unmarshal_def rd_simps bit_simps
    Let_def intro!: rd_np_intros)

record PFCPSMReqFlags =
  PFCPSMReqFlags_Qaurr :: bool
  PFCPSMReqFlags_Sndem :: bool
  PFCPSMReqFlags_Drobu :: bool

definition PFCPSMReqFlags_new :: PFCPSMReqFlags where
  "PFCPSMReqFlags_new = \<lparr>PFCPSMReqFlags_Qaurr = False,
     PFCPSMReqFlags_Sndem = False,
     PFCPSMReqFlags_Drobu = False\<rparr>"

definition PFCPSMReqFlags_marshal :: "PFCPSMReqFlags \<Rightarrow> bytes res" where
  "PFCPSMReqFlags_marshal v =
     Inr [push_bit 2 (btou (PFCPSMReqFlags_Qaurr v)) OR
      push_bit 1 (btou (PFCPSMReqFlags_Sndem v)) OR
      btou (PFCPSMReqFlags_Drobu v)]"

definition PFCPSMReqFlags_unmarshal :: "PFCPSMReqFlags \<Rightarrow> slice \<Rightarrow> PFCPSMReqFlags res" where
  "PFCPSMReqFlags_unmarshal v data =
     bind_res (rd_u8 (start data)) (\<lambda>(b, c).
     bind_res (at_end c) (\<lambda>_.
     Inr (v\<lparr>PFCPSMReqFlags_Qaurr := utob (b AND 4),
       PFCPSMReqFlags_Sndem := utob (b AND 2),
       PFCPSMReqFlags_Drobu := utob (b AND 1)\<rparr>)))"

interpretation pfcpsmreqflags: safe_binary_codec PFCPSMReqFlags_new PFCPSMReqFlags_marshal PFCPSMReqFlags_unmarshal "\<lambda>_. True"
  by unfold_locales (auto simp: PFCPSMReqFlags_new_def PFCPSMReqFlags_marshal_def PFCPSMReqFlags_unmarshal_def rd_simps bit_simps
    Let_def intro!: rd_np_intros)

record PFCPSRRspFlags =
  PFCPSRRspFlags_Drobu :: bool

definition PFCPSRRspFlags_new :: PFCPSRRspFlags where
  "PFCPSRRspFlags_new = \<lparr>PFCPSRRspFlags_Drobu = False\<rparr>"

definition PFCPSRRspFlags_marshal :: "PFCPSRRspFlags \<Rightarrow> bytes res" where
  "PFCPSRRspFlags_marshal v =
     Inr [btou (PFCPSRRspFlags_Drobu v)]"

definition PFCPSRRspFlags_unmarshal :: "PFCPSRRspFlags \<Rightarrow> slice \<Rightarrow> PFCPSRRspFlags res" where
  "PFCPSRRspFlags_unmarshal v data =
     bind_res (rd_u8 (start data)) (\<lambda>(b, c).
     bind_res (at_end c) (\<lambda>_.
     Inr (v\<lparr>PFCPSRRspFlags_Drobu := utob (b AND 1)\<rparr>)))"

interpretation pfcpsrrspflags: safe_binary_codec PFCPSRRspFlags_new PFCPSRRspFlags_marshal PFCPSRRspFlags_unmarshal "\<lambda>_. True"
  by unfold_locales (auto simp: PFCPSRRspFlags_new_def PFCPSRRspFlags_marshal_def PFCPSRRspFlags_unmarshal_def rd_simps bit_simps
    Let_def intro!: rd_np_intros)

record ReportType =
  ReportType_Upir :: bool
  ReportType_Erir :: bool
  ReportType_Usar :: bool
  ReportType_Dldr :: bool

definition ReportType_new :: ReportType where
  "ReportType_new = \<lparr>ReportType_Upir = False,
     ReportType_Erir = False,
     ReportType_Usar = False,
     ReportType_Dldr = False\<rparr>"

definition ReportType_marshal :: "ReportType \<Rightarrow> bytes res" where
  "ReportType_marshal v =
     Inr [push_bit 3 (btou (ReportType_Upir v)) OR
      push_bit 2 (btou (ReportType_Erir v)) OR
      push_bit 1 (btou (ReportType_Usar v)) OR
      btou (ReportType_Dldr v)]"

definition ReportType_unmarshal :: "ReportType \<Rightarrow> slice \<Rightarrow> ReportType res" where
  "ReportType_unmarshal v data =
     bind_res (rd_u8 (start data)) (\<lambda>(b, c).
     bind_res (at_end c) (\<lambda>_.
     Inr (v\<lparr>ReportType_Upir := utob (b AND 8),
       ReportType_Erir := utob (b AND 4),
       ReportType_Usar := utob (b AND 2),
       ReportType_Dldr := utob (b AND 1)\<rparr>)))"

interpretation reporttype: safe_binary_codec ReportType_new ReportType_marshal ReportType_unmarshal "\<lambda>_. True"
  by unfold_locales (auto simp: ReportType_new_def ReportType_marshal_def ReportType_unmarshal_def rd_simps bit_simps
    Let_def intro!: rd_np_intros)

record MeasurementMethod =
  MeasurementMethod_Event :: bool
  MeasurementMethod_Volum :: bool
  MeasurementMethod_Durat :: bool

definition MeasurementMethod_new :: MeasurementMethod where
  "MeasurementMethod_new = \<lparr>MeasurementMethod_Event = False,
     MeasurementMethod_Volum = False,
     MeasurementMethod_Durat = False\<rparr>"

definition MeasurementMethod_none :: "MeasurementMethod \<Rightarrow> bool" where
  "MeasurementMethod_none v \<longleftrightarrow> \<not> MeasurementMethod_Event v \<and> \<not> MeasurementMethod_Volum v
     \<and> \<not> MeasurementMethod_Durat v"

definition MeasurementMethod_marshal :: "MeasurementMethod \<Rightarrow> bytes res" where
  "MeasurementMethod_marshal v =
     bind_res (check (\<not> MeasurementMethod_none v)
       ''At least one of EVENT, VOLUM and DURAT shall be set'') (\<lambda>_.
     Inr [push_bit 2 (btou (MeasurementMethod_Event v)) OR
      push_bit 1 (btou (MeasurementMethod_Volum v)) OR
      btou (MeasurementMethod_Durat v)])"

definition MeasurementMethod_unmarshal :: "MeasurementMethod \<Rightarrow> slice \<Rightarrow> MeasurementMethod res" where
  "MeasurementMethod_unmarshal v data =
     bind_res (rd_u8 (start data)) (\<lambda>(b, c).
     let v = v\<lparr>MeasurementMethod_Event := utob (b AND 4),
       MeasurementMethod_Volum := utob (b AND 2),
       MeasurementMethod_Durat := utob (b AND 1)\<rparr> in
     bind_res (check (\<not> MeasurementMethod_none v) ''None of EVENT, VOLUM and DURAT is set'') (\<lambda>_.
     bind_res (at_end c) (\<lambda>_. Inr v)))"

interpretation measurementmethod: safe_binary_codec MeasurementMethod_new MeasurementMethod_marshal MeasurementMethod_unmarshal 
  "\<lambda>v. \<not> MeasurementMethod_none v"
  by unfold_locales (auto simp: MeasurementMethod_new_def MeasurementMethod_marshal_def MeasurementMethod_unmarshal_def MeasurementMethod_none_def rd_simps bit_simps
    Let_def intro!: rd_np_intros)

record ReportingTriggers =
  ReportingTriggers_Liusa :: bool
  ReportingTriggers_Droth :: bool
  ReportingTriggers_Stopt :: bool
  ReportingTriggers_Start :: bool
  ReportingTriggers_Quhti :: bool
  ReportingTriggers_Timth :: bool
  ReportingTriggers_Volth :: bool
  ReportingTriggers_Perio :: bool
  ReportingTriggers_Evequ :: bool
  ReportingTriggers_Eveth :: bool
  ReportingTriggers_Macar :: bool
  ReportingTriggers_Envcl :: bool
  ReportingTriggers_Timqu :: bool
  ReportingTriggers_Volqu :: bool

definition ReportingTriggers_new :: ReportingTriggers where
  "ReportingTriggers_new = \<lparr>ReportingTriggers_Liusa = False,
     ReportingTriggers_Droth = False,
     ReportingTriggers_Stopt = False,
     ReportingTriggers_Start = False,
     ReportingTriggers_Quhti = False,
     ReportingTriggers_Timth = False,
     ReportingTriggers_Volth = False,
     ReportingTriggers_Perio = False,
     ReportingTriggers_Evequ = False,
     ReportingTriggers_Eveth = False,
     ReportingTriggers_Macar = False,
     ReportingTriggers_Envcl = False,
     ReportingTriggers_Timqu = False,
     ReportingTriggers_Volqu = False\<rparr>"

definition ReportingTriggers_marshal :: "ReportingTriggers \<Rightarrow> bytes res" where
  "ReportingTriggers_marshal v =
     Inr [push_bit 7 (btou (ReportingTriggers_Liusa v)) OR
      push_bit 6 (btou (ReportingTriggers_Droth v)) OR
      push_bit 5 (btou (ReportingTriggers_Stopt v)) OR
      push_bit 4 (btou (ReportingTriggers_Start v)) OR
      push_bit 3 (btou (ReportingTriggers_Quhti v)) OR
      push_bit 2 (btou (ReportingTriggers_Timth v)) OR
      push_bit 1 (btou (ReportingTriggers_Volth v)) OR
      btou (ReportingTriggers_Perio v),
      push_bit 5 (btou (ReportingTriggers_Evequ v)) OR
      push_bit 4 (btou (ReportingTriggers_Eveth v)) OR
      push_bit 3 (btou (ReportingTriggers_Macar v)) OR
      push_bit 2 (btou (ReportingTriggers_Envcl v)) OR
      push_bit 1 (btou (ReportingTriggers_Timqu v)) OR
      btou (ReportingTriggers_Volqu v)]"

definition ReportingTriggers_unmarshal :: "ReportingTriggers \<Rightarrow> slice \<Rightarrow> ReportingTriggers res" where
  "ReportingTriggers_unmarshal v data =
     bind_res (rd_u8 (start data)) (\<lambda>(b, c).
     let v = v\<lparr>ReportingTriggers_Liusa := utob (b AND 128),
       ReportingTriggers_Droth := utob (b AND 64),
       ReportingTriggers_Stopt := utob (b AND 32),
       ReportingTriggers_Start := utob (b AND 16),
       ReportingTriggers_Quhti := utob (b AND 8),
       ReportingTriggers_Timth := utob (b AND 4),
       ReportingTriggers_Volth := utob (b AND 2),
       ReportingTriggers_Perio := utob (b AND 1)\<rparr> in
     bind_res (rd_u8 c) (\<lambda>(b, c).
     bind_res (at_end c) (\<lambda>_.
     Inr (v\<lparr>ReportingTriggers_Evequ := utob (b AND 32),
       ReportingTriggers_Eveth := utob (b AND 16),
       ReportingTriggers_Macar := utob (b AND 8),
       ReportingTriggers_Envcl := utob (b AND 4),
       ReportingTriggers_Timqu := utob (b AND 2),
       ReportingTriggers_Volqu := utob (b AND 1)\<rparr>))))"

interpretation reportingtriggers: safe_binary_codec ReportingTriggers_new ReportingTriggers_marshal ReportingTriggers_unmarshal "\<lambda>_. True"
  by unfold_locales (auto simp: ReportingTriggers_new_def ReportingTriggers_marshal_def ReportingTriggers_unmarshal_def rd_simps bit_simps
    Let_def intro!: rd_np_intros)

end
