(* ===== verification/PFCP_Volume.thy ===== *)
theory PFCP_Volume
  imports PFCP_Reader
begin

text \<open>
  The information elements of \<^verbatim>\<open>lib/pfcp/pfcpType\<close> that carry counters: packet counts,
  paging information, 40-bit rates, and the four volume elements, in which flags say which of
  the 64-bit volumes follow. A volume whose flag is not set is not sent, so a round trip keeps
  the values in which it is zero.
\<close>

section \<open>DLBufferingSuggestedPacketCount\<close>

record DLBufferingSuggestedPacketCount =
  DLBufferingSuggestedPacketCount_PacketCountValue :: u16

definition DLBufferingSuggestedPacketCount_new :: DLBufferingSuggestedPacketCount where
  "DLBufferingSuggestedPacketCount_new = \<lparr>DLBufferingSuggestedPacketCount_PacketCountValue = 0\<rparr>"

definition DLBufferingSuggestedPacketCount_marshal :: "DLBufferingSuggestedPacketCount \<Rightarrow> bytes res" where
  "DLBufferingSuggestedPacketCount_marshal v =
     (let n = DLBufferingSuggestedPacketCount_PacketCountValue v in
      Inr (if bits_Len n > 8 then be_bytes 2 n else [ucast n]))"

text \<open>The second branch reads two octets after a check for one; a length of one never reaches it.\<close>

definition DLBufferingSuggestedPacketCount_unmarshal ::
    "DLBufferingSuggestedPacketCount \<Rightarrow> slice \<Rightarrow> DLBufferingSuggestedPacketCount res" where
  "DLBufferingSuggestedPacketCount_unmarshal v data =
     (let c = start data in
      bind_res (need 1 c) (\<lambda>_.
      bind_res (if clen c = 1
        then bind_res (sl_at data 0) (\<lambda>b.
          Inr (v\<lparr>DLBufferingSuggestedPacketCount_PacketCountValue := ucast b\<rparr>, advance 1 c))
        else bind_res (sl_be 2 data) (\<lambda>n.
          Inr (v\<lparr>DLBufferingSuggestedPacketCount_PacketCountValue := n\<rparr>, advance 2 c))) (\<lambda>(v, c).
      bind_res (at_end c) (\<lambda>_. Inr v))))"

lemma clen_start: "clen (start data) = of_nat (slen data)"
  by (simp add: clen_def start_def)

lemma byte_roundtrip: "unat n < 256 \<Longrightarrow> ucast (ucast n :: u8) = (n :: u16)"
  using take_bit_id [of n 8] by (simp add: word_unat_eq_iff unsigned_ucast_eq)

interpretation dlbspc: safe_binary_codec DLBufferingSuggestedPacketCount_new
  DLBufferingSuggestedPacketCount_marshal DLBufferingSuggestedPacketCount_unmarshal "\<lambda>_. True"
proof unfold_locales
  fix v d sp
  assume "DLBufferingSuggestedPacketCount_marshal v = Inr d"
  then show "DLBufferingSuggestedPacketCount_unmarshal DLBufferingSuggestedPacketCount_new (Slice d sp) = Inr v"
    by (auto simp: DLBufferingSuggestedPacketCount_new_def DLBufferingSuggestedPacketCount_marshal_def
        DLBufferingSuggestedPacketCount_unmarshal_def Let_def need_def at_end_def clen_def start_def
        advance_def go_simps bits_Len_iff byte_roundtrip split: if_splits)
next
  fix v data
  have "2 \<le> slen data" if "need 1 (start data) = Inr u" "clen (start data) \<noteq> 1" for u
    using that need_InrD [of 1 "start data" u]
    by (cases "slen data = 1") (auto simp: clen_start start_def, auto simp: clen_def)
  then show "no_panic (DLBufferingSuggestedPacketCount_unmarshal v data)"
    unfolding DLBufferingSuggestedPacketCount_unmarshal_def Let_def
    using need_InrD [of 1 "start data"]
    by (auto simp: sl_be_def start_def intro!: no_panic_bind no_panic_need np_intros)
qed (simp add: DLBufferingSuggestedPacketCount_marshal_def Let_def)

section \<open>DownlinkDataServiceInformation\<close>

record DownlinkDataServiceInformation =
  DDSI_Qfii :: bool
  DDSI_Ppi :: bool
  DDSI_PagingPolicyIndicationValue :: u8
  DDSI_Qfi :: u8

definition DownlinkDataServiceInformation_new :: DownlinkDataServiceInformation where
  "DownlinkDataServiceInformation_new = \<lparr>DDSI_Qfii = False, DDSI_Ppi = False,
     DDSI_PagingPolicyIndicationValue = 0, DDSI_Qfi = 0\<rparr>"

definition DownlinkDataServiceInformation_marshal :: "DownlinkDataServiceInformation \<Rightarrow> bytes res" where
  "DownlinkDataServiceInformation_marshal v =
     (let data = [push_bit 1 (btou (DDSI_Qfii v)) OR btou (DDSI_Ppi v)] in
      bind_res (opt (DDSI_Ppi v)
        (bind_res (check (\<not> bits_Len (DDSI_PagingPolicyIndicationValue v) > 6)
           ''Paging policy information data shall not be greater than 6 bits binary integer'') (\<lambda>_.
         Inr (data @ [DDSI_PagingPolicyIndicationValue v]))) data) (\<lambda>data.
      opt (DDSI_Qfii v)
        (bind_res (check (\<not> bits_Len (DDSI_Qfi v) > 6)
           ''QFI shall not be greater than 6 bits binary integer'') (\<lambda>_.
         Inr (data @ [DDSI_Qfi v]))) data))"

definition DownlinkDataServiceInformation_unmarshal ::
    "DownlinkDataServiceInformation \<Rightarrow> slice \<Rightarrow> DownlinkDataServiceInformation res" where
  "DownlinkDataServiceInformation_unmarshal v data =
     bind_res (rd_u8 (start data)) (\<lambda>(b, c).
     let v = v\<lparr>DDSI_Qfii := utob (b AND 2), DDSI_Ppi := utob (b AND 1)\<rparr> in
     bind_res (opt (DDSI_Ppi v) (bind_res (rd_u8 c) (\<lambda>(b, c).
       Inr (v\<lparr>DDSI_PagingPolicyIndicationValue := b AND mask 6\<rparr>, c))) (v, c)) (\<lambda>(v, c).
     bind_res (opt (DDSI_Qfii v) (bind_res (rd_u8 c) (\<lambda>(b, c).
       Inr (v\<lparr>DDSI_Qfi := b AND mask 6\<rparr>, c))) (v, c)) (\<lambda>(v, c).
     bind_res (at_end c) (\<lambda>_. Inr v))))"

definition DownlinkDataServiceInformation_wf :: "DownlinkDataServiceInformation \<Rightarrow> bool" where
  "DownlinkDataServiceInformation_wf v \<longleftrightarrow>
     (if DDSI_Ppi v then bits_Len (DDSI_PagingPolicyIndicationValue v) \<le> 6
      else DDSI_PagingPolicyIndicationValue v = 0)
     \<and> (if DDSI_Qfii v then bits_Len (DDSI_Qfi v) \<le> 6 else DDSI_Qfi v = 0)"

interpretation ddsi: safe_binary_codec DownlinkDataServiceInformation_new
  DownlinkDataServiceInformation_marshal DownlinkDataServiceInformation_unmarshal
  DownlinkDataServiceInformation_wf
proof unfold_locales
  fix v d sp
  show "DownlinkDataServiceInformation_wf v \<Longrightarrow> \<exists>d. DownlinkDataServiceInformation_marshal v = Inr d"
    by (cases "DDSI_Ppi v"; cases "DDSI_Qfii v")
      (auto simp: DownlinkDataServiceInformation_marshal_def DownlinkDataServiceInformation_wf_def
        Let_def bits_Len_iff)
  show "DownlinkDataServiceInformation_wf v \<Longrightarrow> DownlinkDataServiceInformation_marshal v = Inr d \<Longrightarrow>
    DownlinkDataServiceInformation_unmarshal DownlinkDataServiceInformation_new (Slice d sp) = Inr v"
    by (cases "DDSI_Ppi v"; cases "DDSI_Qfii v")
      (auto simp: DownlinkDataServiceInformation_marshal_def DownlinkDataServiceInformation_wf_def
        DownlinkDataServiceInformation_unmarshal_def DownlinkDataServiceInformation_new_def
        Let_def bits_Len_iff rd_simps bit_simps and_mask_id [of _ 6, simplified])
next
  fix v data
  show "no_panic (DownlinkDataServiceInformation_unmarshal v data)"
    unfolding DownlinkDataServiceInformation_unmarshal_def Let_def
    by (auto simp: bind_res_assoc intro!: rd_np_intros)
qed

section \<open>DroppedDLTrafficThreshold\<close>

record DroppedDLTrafficThreshold =
  DDTT_Dlby :: bool
  DDTT_Dlpa :: bool
  DDTT_DownlinkPackets :: u64
  DDTT_NumberOfBytesOfDownlinkData :: u64

definition DroppedDLTrafficThreshold_new :: DroppedDLTrafficThreshold where
  "DroppedDLTrafficThreshold_new = \<lparr>DDTT_Dlby = False, DDTT_Dlpa = False,
     DDTT_DownlinkPackets = 0, DDTT_NumberOfBytesOfDownlinkData = 0\<rparr>"

definition DroppedDLTrafficThreshold_marshal :: "DroppedDLTrafficThreshold \<Rightarrow> bytes res" where
  "DroppedDLTrafficThreshold_marshal v = Inr (
     [push_bit 1 (btou (DDTT_Dlby v)) OR btou (DDTT_Dlpa v)] @
     (if DDTT_Dlpa v then be_bytes 8 (DDTT_DownlinkPackets v) else []) @
     (if DDTT_Dlby v then be_bytes 8 (DDTT_NumberOfBytesOfDownlinkData v) else []))"

definition DroppedDLTrafficThreshold_unmarshal ::
    "DroppedDLTrafficThreshold \<Rightarrow> slice \<Rightarrow> DroppedDLTrafficThreshold res" where
  "DroppedDLTrafficThreshold_unmarshal v data =
     bind_res (rd_u8 (start data)) (\<lambda>(b, c).
     let v = v\<lparr>DDTT_Dlby := utob (b AND 2), DDTT_Dlpa := utob (b AND 1)\<rparr> in
     bind_res (opt (DDTT_Dlpa v)
       (bind_res (rd_be 8 c) (\<lambda>(w, c). Inr (v\<lparr>DDTT_DownlinkPackets := w\<rparr>, c))) (v, c)) (\<lambda>(v, c).
     bind_res (opt (DDTT_Dlby v)
       (bind_res (rd_be 8 c) (\<lambda>(w, c). Inr (v\<lparr>DDTT_NumberOfBytesOfDownlinkData := w\<rparr>, c))) (v, c)) (\<lambda>(v, c).
     bind_res (at_end c) (\<lambda>_. Inr v))))"

definition DroppedDLTrafficThreshold_wf :: "DroppedDLTrafficThreshold \<Rightarrow> bool" where
  "DroppedDLTrafficThreshold_wf v \<longleftrightarrow> (\<not> DDTT_Dlpa v \<longrightarrow> DDTT_DownlinkPackets v = 0)
     \<and> (\<not> DDTT_Dlby v \<longrightarrow> DDTT_NumberOfBytesOfDownlinkData v = 0)"

interpretation ddtt: safe_binary_codec DroppedDLTrafficThreshold_new DroppedDLTrafficThreshold_marshal
  DroppedDLTrafficThreshold_unmarshal DroppedDLTrafficThreshold_wf
proof unfold_locales
  fix v d sp
  show "DroppedDLTrafficThreshold_wf v \<Longrightarrow> DroppedDLTrafficThreshold_marshal v = Inr d \<Longrightarrow>
    DroppedDLTrafficThreshold_unmarshal DroppedDLTrafficThreshold_new (Slice d sp) = Inr v"
    by (cases "DDTT_Dlpa v"; cases "DDTT_Dlby v")
      (auto simp: DroppedDLTrafficThreshold_new_def DroppedDLTrafficThreshold_marshal_def
        DroppedDLTrafficThreshold_unmarshal_def DroppedDLTrafficThreshold_wf_def Let_def rd_simps bit_simps)
next
  fix v data
  show "no_panic (DroppedDLTrafficThreshold_unmarshal v data)"
    unfolding DroppedDLTrafficThreshold_unmarshal_def Let_def
    by (auto simp: bind_res_assoc intro!: rd_np_intros)
qed (simp add: DroppedDLTrafficThreshold_marshal_def)

section \<open>Forty-bit numbers\<close>

lemma of_be_low5: "of_be (0 # 0 # 0 # drop 3 (be_bytes 8 w)) = w" if "unat w < 1099511627776" for w :: u64
proof -
  have "drop_bit 40 w = 0" using that drop_bit_eq_zero [of w 40] by simp
  then have "drop_bit (16 + 40) w = 0" "drop_bit (8 + 40) w = 0" "drop_bit (0 + 40) w = 0"
    unfolding drop_bit_drop_bit [symmetric] by simp_all
  then have "be_bytes 8 w = 0 # 0 # 0 # drop 3 (be_bytes 8 w)"
    by (simp add: be_bytes_64 byte_of_def)
  then show ?thesis using of_be_be_bytes_id [of 8 w] by simp
qed

section \<open>MBR\<close>

text \<open>Two rates of 40 bits, each the low five octets of a 64-bit number.\<close>

record MBR =
  MBR_UlMbr :: u64
  MBR_DlMbr :: u64

definition MBR_new :: MBR where
  "MBR_new = \<lparr>MBR_UlMbr = 0, MBR_DlMbr = 0\<rparr>"

definition MBR_marshal :: "MBR \<Rightarrow> bytes res" where
  "MBR_marshal v =
     bind_res (check (\<not> bits_Len (MBR_UlMbr v) > 40)
       ''UL GBR shall not be greater than 40 bits binary integer'') (\<lambda>_.
     bind_res (check (\<not> bits_Len (MBR_DlMbr v) > 40)
       ''DL GBR shall not be greater than 40 bits binary integer'') (\<lambda>_.
     Inr (drop 3 (be_bytes 8 (MBR_UlMbr v)) @ drop 3 (be_bytes 8 (MBR_DlMbr v)))))"

definition MBR_unmarshal :: "MBR \<Rightarrow> slice \<Rightarrow> MBR res" where
  "MBR_unmarshal v data =
     bind_res (rd_bytes 5 (start data)) (\<lambda>(a, c).
     let v = v\<lparr>MBR_UlMbr := of_be ([0, 0, 0] @ a)\<rparr> in
     bind_res (rd_bytes 5 c) (\<lambda>(a, c).
     let v = v\<lparr>MBR_DlMbr := of_be ([0, 0, 0] @ a)\<rparr> in
     bind_res (at_end c) (\<lambda>_. Inr v)))"

definition MBR_wf :: "MBR \<Rightarrow> bool" where
  "MBR_wf v \<longleftrightarrow> bits_Len (MBR_UlMbr v) \<le> 40 \<and> bits_Len (MBR_DlMbr v) \<le> 40"

interpretation mbr: safe_binary_codec MBR_new MBR_marshal MBR_unmarshal MBR_wf
proof unfold_locales
  fix v d sp
  assume "MBR_wf v" "MBR_marshal v = Inr d"
  then show "MBR_unmarshal MBR_new (Slice d sp) = Inr v"
    by (auto simp: MBR_new_def MBR_marshal_def MBR_unmarshal_def MBR_wf_def Let_def rd_simps
        bits_Len_iff of_be_low5)
next
  fix v data
  show "no_panic (MBR_unmarshal v data)"
    unfolding MBR_unmarshal_def Let_def by (auto intro!: rd_np_intros)
qed (auto simp: MBR_marshal_def MBR_wf_def bits_Len_iff)

section \<open>GBR\<close>

text \<open>Two rates of 40 bits, each the low five octets of a 64-bit number.\<close>

record GBR =
  GBR_UlGbr :: u64
  GBR_DlGbr :: u64

definition GBR_new :: GBR where
  "GBR_new = \<lparr>GBR_UlGbr = 0, GBR_DlGbr = 0\<rparr>"

definition GBR_marshal :: "GBR \<Rightarrow> bytes res" where
  "GBR_marshal v =
     bind_res (check (\<not> bits_Len (GBR_UlGbr v) > 40)
       ''UL GBR shall not be greater than 40 bits binary integer'') (\<lambda>_.
     bind_res (check (\<not> bits_Len (GBR_DlGbr v) > 40)
       ''DL GBR shall not be greater than 40 bits binary integer'') (\<lambda>_.
     Inr (drop 3 (be_bytes 8 (GBR_UlGbr v)) @ drop 3 (be_bytes 8 (GBR_DlGbr v)))))"

definition GBR_unmarshal :: "GBR \<Rightarrow> slice \<Rightarrow> GBR res" where
  "GBR_unmarshal v data =
     bind_res (rd_bytes 5 (start data)) (\<lambda>(a, c).
     let v = v\<lparr>GBR_UlGbr := of_be ([0, 0, 0] @ a)\<rparr> in
     bind_res (rd_bytes 5 c) (\<lambda>(a, c).
     let v = v\<lparr>GBR_DlGbr := of_be ([0, 0, 0] @ a)\<rparr> in
     bind_res (at_end c) (\<lambda>_. Inr v)))"

definition GBR_wf :: "GBR \<Rightarrow> bool" where
  "GBR_wf v \<longleftrightarrow> bits_Len (GBR_UlGbr v) \<le> 40 \<and> bits_Len (GBR_DlGbr v) \<le> 40"

interpretation gbr: safe_binary_codec GBR_new GBR_marshal GBR_unmarshal GBR_wf
proof unfold_locales
  fix v d sp
  assume "GBR_wf v" "GBR_marshal v = Inr d"
  then show "GBR_unmarshal GBR_new (Slice d sp) = Inr v"
    by (auto simp: GBR_new_def GBR_marshal_def GBR_unmarshal_def GBR_wf_def Let_def rd_simps
        bits_Len_iff of_be_low5)
next
  fix v data
  show "no_panic (GBR_unmarshal v data)"
    unfolding GBR_unmarshal_def Let_def by (auto intro!: rd_np_intros)
qed (auto simp: GBR_marshal_def GBR_wf_def bits_Len_iff)

section \<open>VolumeThreshold\<close>

record VolumeThreshold =
  VolumeThreshold_Dlvol :: bool
  VolumeThreshold_Ulvol :: bool
  VolumeThreshold_Tovol :: bool
  VolumeThreshold_TotalVolume :: u64
  VolumeThreshold_UplinkVolume :: u64
  VolumeThreshold_DownlinkVolume :: u64

definition VolumeThreshold_new :: VolumeThreshold where
  "VolumeThreshold_new = \<lparr>VolumeThreshold_Dlvol = False, VolumeThreshold_Ulvol = False, VolumeThreshold_Tovol = False,
     VolumeThreshold_TotalVolume = 0, VolumeThreshold_UplinkVolume = 0, VolumeThreshold_DownlinkVolume = 0\<rparr>"

definition VolumeThreshold_marshal :: "VolumeThreshold \<Rightarrow> bytes res" where
  "VolumeThreshold_marshal v = Inr (
     [push_bit 2 (btou (VolumeThreshold_Dlvol v)) OR push_bit 1 (btou (VolumeThreshold_Ulvol v)) OR btou (VolumeThreshold_Tovol v)] @
     (if VolumeThreshold_Tovol v then be_bytes 8 (VolumeThreshold_TotalVolume v) else []) @
     (if VolumeThreshold_Ulvol v then be_bytes 8 (VolumeThreshold_UplinkVolume v) else []) @
     (if VolumeThreshold_Dlvol v then be_bytes 8 (VolumeThreshold_DownlinkVolume v) else []))"

definition VolumeThreshold_unmarshal :: "VolumeThreshold \<Rightarrow> slice \<Rightarrow> VolumeThreshold res" where
  "VolumeThreshold_unmarshal v data =
     bind_res (rd_u8 (start data)) (\<lambda>(b, c).
     let v = v\<lparr>VolumeThreshold_Dlvol := utob (b AND 4), VolumeThreshold_Ulvol := utob (b AND 2),
               VolumeThreshold_Tovol := utob (b AND 1)\<rparr> in
     bind_res (opt (VolumeThreshold_Tovol v)
       (bind_res (rd_be 8 c) (\<lambda>(w, c). Inr (v\<lparr>VolumeThreshold_TotalVolume := w\<rparr>, c))) (v, c)) (\<lambda>(v, c).
     bind_res (opt (VolumeThreshold_Ulvol v)
       (bind_res (rd_be 8 c) (\<lambda>(w, c). Inr (v\<lparr>VolumeThreshold_UplinkVolume := w\<rparr>, c))) (v, c)) (\<lambda>(v, c).
     bind_res (opt (VolumeThreshold_Dlvol v)
       (bind_res (rd_be 8 c) (\<lambda>(w, c). Inr (v\<lparr>VolumeThreshold_DownlinkVolume := w\<rparr>, c))) (v, c)) (\<lambda>(v, c).
     bind_res (at_end c) (\<lambda>_. Inr v)))))"

definition VolumeThreshold_wf :: "VolumeThreshold \<Rightarrow> bool" where
  "VolumeThreshold_wf v \<longleftrightarrow> (\<not> VolumeThreshold_Tovol v \<longrightarrow> VolumeThreshold_TotalVolume v = 0)
     \<and> (\<not> VolumeThreshold_Ulvol v \<longrightarrow> VolumeThreshold_UplinkVolume v = 0) \<and> (\<not> VolumeThreshold_Dlvol v \<longrightarrow> VolumeThreshold_DownlinkVolume v = 0)"

interpretation volth: safe_binary_codec VolumeThreshold_new VolumeThreshold_marshal VolumeThreshold_unmarshal VolumeThreshold_wf
proof unfold_locales
  fix v d sp
  show "VolumeThreshold_wf v \<Longrightarrow> VolumeThreshold_marshal v = Inr d \<Longrightarrow> VolumeThreshold_unmarshal VolumeThreshold_new (Slice d sp) = Inr v"
    by (cases "VolumeThreshold_Tovol v"; cases "VolumeThreshold_Ulvol v"; cases "VolumeThreshold_Dlvol v")
      (auto simp: VolumeThreshold_new_def VolumeThreshold_marshal_def VolumeThreshold_unmarshal_def VolumeThreshold_wf_def Let_def rd_simps bit_simps)
next
  fix v data
  show "no_panic (VolumeThreshold_unmarshal v data)"
    unfolding VolumeThreshold_unmarshal_def Let_def by (auto simp: bind_res_assoc intro!: rd_np_intros)
qed (simp add: VolumeThreshold_marshal_def)

section \<open>VolumeQuota\<close>

record VolumeQuota =
  VolumeQuota_Dlvol :: bool
  VolumeQuota_Ulvol :: bool
  VolumeQuota_Tovol :: bool
  VolumeQuota_TotalVolume :: u64
  VolumeQuota_UplinkVolume :: u64
  VolumeQuota_DownlinkVolume :: u64

definition VolumeQuota_new :: VolumeQuota where
  "VolumeQuota_new = \<lparr>VolumeQuota_Dlvol = False, VolumeQuota_Ulvol = False, VolumeQuota_Tovol = False,
     VolumeQuota_TotalVolume = 0, VolumeQuota_UplinkVolume = 0, VolumeQuota_DownlinkVolume = 0\<rparr>"

definition VolumeQuota_marshal :: "VolumeQuota \<Rightarrow> bytes res" where
  "VolumeQuota_marshal v = Inr (
     [push_bit 2 (btou (VolumeQuota_Dlvol v)) OR push_bit 1 (btou (VolumeQuota_Ulvol v)) OR btou (VolumeQuota_Tovol v)] @
     (if VolumeQuota_Tovol v then be_bytes 8 (VolumeQuota_TotalVolume v) else []) @
     (if VolumeQuota_Ulvol v then be_bytes 8 (VolumeQuota_UplinkVolume v) else []) @
     (if VolumeQuota_Dlvol v then be_bytes 8 (VolumeQuota_DownlinkVolume v) else []))"

definition VolumeQuota_unmarshal :: "VolumeQuota \<Rightarrow> slice \<Rightarrow> VolumeQuota res" where
  "VolumeQuota_unmarshal v data =
     bind_res (rd_u8 (start data)) (\<lambda>(b, c).
     let v = v\<lparr>VolumeQuota_Dlvol := utob (b AND 4), VolumeQuota_Ulvol := utob (b AND 2),
               VolumeQuota_Tovol := utob (b AND 1)\<rparr> in
     bind_res (opt (VolumeQuota_Tovol v)
       (bind_res (rd_be 8 c) (\<lambda>(w, c). Inr (v\<lparr>VolumeQuota_TotalVolume := w\<rparr>, c))) (v, c)) (\<lambda>(v, c).
     bind_res (opt (VolumeQuota_Ulvol v)
       (bind_res (rd_be 8 c) (\<lambda>(w, c). Inr (v\<lparr>VolumeQuota_UplinkVolume := w\<rparr>, c))) (v, c)) (\<lambda>(v, c).
     bind_res (opt (VolumeQuota_Dlvol v)
       (bind_res (rd_be 8 c) (\<lambda>(w, c). Inr (v\<lparr>VolumeQuota_DownlinkVolume := w\<rparr>, c))) (v, c)) (\<lambda>(v, c).
     bind_res (at_end c) (\<lambda>_. Inr v)))))"

definition VolumeQuota_wf :: "VolumeQuota \<Rightarrow> bool" where
  "VolumeQuota_wf v \<longleftrightarrow> (\<not> VolumeQuota_Tovol v \<longrightarrow> VolumeQuota_TotalVolume v = 0)
     \<and> (\<not> VolumeQuota_Ulvol v \<longrightarrow> VolumeQuota_UplinkVolume v = 0) \<and> (\<not> VolumeQuota_Dlvol v \<longrightarrow> VolumeQuota_DownlinkVolume v = 0)"

interpretation volqu: safe_binary_codec VolumeQuota_new VolumeQuota_marshal VolumeQuota_unmarshal VolumeQuota_wf
proof unfold_locales
  fix v d sp
  show "VolumeQuota_wf v \<Longrightarrow> VolumeQuota_marshal v = Inr d \<Longrightarrow> VolumeQuota_unmarshal VolumeQuota_new (Slice d sp) = Inr v"
    by (cases "VolumeQuota_Tovol v"; cases "VolumeQuota_Ulvol v"; cases "VolumeQuota_Dlvol v")
      (auto simp: VolumeQuota_new_def VolumeQuota_marshal_def VolumeQuota_unmarshal_def VolumeQuota_wf_def Let_def rd_simps bit_simps)
next
  fix v data
  show "no_panic (VolumeQuota_unmarshal v data)"
    unfolding VolumeQuota_unmarshal_def Let_def by (auto simp: bind_res_assoc intro!: rd_np_intros)
qed (simp add: VolumeQuota_marshal_def)

section \<open>VolumeMeasurement\<close>

record VolumeMeasurement =
  VolumeMeasurement_Dlvol :: bool
  VolumeMeasurement_Ulvol :: bool
  VolumeMeasurement_Tovol :: bool
  VolumeMeasurement_TotalVolume :: u64
  VolumeMeasurement_UplinkVolume :: u64
  VolumeMeasurement_DownlinkVolume :: u64

definition VolumeMeasurement_new :: VolumeMeasurement where
  "VolumeMeasurement_new = \<lparr>VolumeMeasurement_Dlvol = False, VolumeMeasurement_Ulvol = False, VolumeMeasurement_Tovol = False,
     VolumeMeasurement_TotalVolume = 0, VolumeMeasurement_UplinkVolume = 0, VolumeMeasurement_DownlinkVolume = 0\<rparr>"

definition VolumeMeasurement_marshal :: "VolumeMeasurement \<Rightarrow> bytes res" where
  "VolumeMeasurement_marshal v = Inr (
     [push_bit 2 (btou (VolumeMeasurement_Dlvol v)) OR push_bit 1 (btou (VolumeMeasurement_Ulvol v)) OR btou (VolumeMeasurement_Tovol v)] @
     (if VolumeMeasurement_Tovol v then be_bytes 8 (VolumeMeasurement_TotalVolume v) else []) @
     (if VolumeMeasurement_Ulvol v then be_bytes 8 (VolumeMeasurement_UplinkVolume v) else []) @
     (if VolumeMeasurement_Dlvol v then be_bytes 8 (VolumeMeasurement_DownlinkVolume v) else []))"

definition VolumeMeasurement_unmarshal :: "VolumeMeasurement \<Rightarrow> slice \<Rightarrow> VolumeMeasurement res" where
  "VolumeMeasurement_unmarshal v data =
     bind_res (rd_u8 (start data)) (\<lambda>(b, c).
     let v = v\<lparr>VolumeMeasurement_Dlvol := utob (b AND 4), VolumeMeasurement_Ulvol := utob (b AND 2),
               VolumeMeasurement_Tovol := utob (b AND 1)\<rparr> in
     bind_res (opt (VolumeMeasurement_Tovol v)
       (bind_res (rd_be 8 c) (\<lambda>(w, c). Inr (v\<lparr>VolumeMeasurement_TotalVolume := w\<rparr>, c))) (v, c)) (\<lambda>(v, c).
     bind_res (opt (VolumeMeasurement_Ulvol v)
       (bind_res (rd_be 8 c) (\<lambda>(w, c). Inr (v\<lparr>VolumeMeasurement_UplinkVolume := w\<rparr>, c))) (v, c)) (\<lambda>(v, c).
     bind_res (opt (VolumeMeasurement_Dlvol v)
       (bind_res (rd_be 8 c) (\<lambda>(w, c). Inr (v\<lparr>VolumeMeasurement_DownlinkVolume := w\<rparr>, c))) (v, c)) (\<lambda>(v, c).
     bind_res (at_end c) (\<lambda>_. Inr v)))))"

definition VolumeMeasurement_wf :: "VolumeMeasurement \<Rightarrow> bool" where
  "VolumeMeasurement_wf v \<longleftrightarrow> (\<not> VolumeMeasurement_Tovol v \<longrightarrow> VolumeMeasurement_TotalVolume v = 0)
     \<and> (\<not> VolumeMeasurement_Ulvol v \<longrightarrow> VolumeMeasurement_UplinkVolume v = 0) \<and> (\<not> VolumeMeasurement_Dlvol v \<longrightarrow> VolumeMeasurement_DownlinkVolume v = 0)"

interpretation volme: safe_binary_codec VolumeMeasurement_new VolumeMeasurement_marshal VolumeMeasurement_unmarshal VolumeMeasurement_wf
proof unfold_locales
  fix v d sp
  show "VolumeMeasurement_wf v \<Longrightarrow> VolumeMeasurement_marshal v = Inr d \<Longrightarrow> VolumeMeasurement_unmarshal VolumeMeasurement_new (Slice d sp) = Inr v"
    by (cases "VolumeMeasurement_Tovol v"; cases "VolumeMeasurement_Ulvol v"; cases "VolumeMeasurement_Dlvol v")
      (auto simp: VolumeMeasurement_new_def VolumeMeasurement_marshal_def VolumeMeasurement_unmarshal_def VolumeMeasurement_wf_def Let_def rd_simps bit_simps)
next
  fix v data
  show "no_panic (VolumeMeasurement_unmarshal v data)"
    unfolding VolumeMeasurement_unmarshal_def Let_def by (auto simp: bind_res_assoc intro!: rd_np_intros)
qed (simp add: VolumeMeasurement_marshal_def)

section \<open>SubsequentVolumeThreshold\<close>

record SubsequentVolumeThreshold =
  SubsequentVolumeThreshold_Dlvol :: bool
  SubsequentVolumeThreshold_Ulvol :: bool
  SubsequentVolumeThreshold_Tovol :: bool
  SubsequentVolumeThreshold_TotalVolume :: u64
  SubsequentVolumeThreshold_UplinkVolume :: u64
  SubsequentVolumeThreshold_DownlinkVolume :: u64

definition SubsequentVolumeThreshold_new :: SubsequentVolumeThreshold where
  "SubsequentVolumeThreshold_new = \<lparr>SubsequentVolumeThreshold_Dlvol = False, SubsequentVolumeThreshold_Ulvol = False, SubsequentVolumeThreshold_Tovol = False,
     SubsequentVolumeThreshold_TotalVolume = 0, SubsequentVolumeThreshold_UplinkVolume = 0, SubsequentVolumeThreshold_DownlinkVolume = 0\<rparr>"

definition SubsequentVolumeThreshold_marshal :: "SubsequentVolumeThreshold \<Rightarrow> bytes res" where
  "SubsequentVolumeThreshold_marshal v = Inr (
     [push_bit 2 (btou (SubsequentVolumeThreshold_Dlvol v)) OR push_bit 1 (btou (SubsequentVolumeThreshold_Ulvol v)) OR btou (SubsequentVolumeThreshold_Tovol v)] @
     (if SubsequentVolumeThreshold_Tovol v then be_bytes 8 (SubsequentVolumeThreshold_TotalVolume v) else []) @
     (if SubsequentVolumeThreshold_Ulvol v then be_bytes 8 (SubsequentVolumeThreshold_UplinkVolume v) else []) @
     (if SubsequentVolumeThreshold_Dlvol v then be_bytes 8 (SubsequentVolumeThreshold_DownlinkVolume v) else []))"

definition SubsequentVolumeThreshold_unmarshal :: "SubsequentVolumeThreshold \<Rightarrow> slice \<Rightarrow> SubsequentVolumeThreshold res" where
  "SubsequentVolumeThreshold_unmarshal v data =
     bind_res (rd_u8 (start data)) (\<lambda>(b, c).
     let v = v\<lparr>SubsequentVolumeThreshold_Dlvol := utob (b AND 4), SubsequentVolumeThreshold_Ulvol := utob (b AND 2),
               SubsequentVolumeThreshold_Tovol := utob (b AND 1)\<rparr> in
     bind_res (opt (SubsequentVolumeThreshold_Tovol v)
       (bind_res (rd_be 8 c) (\<lambda>(w, c). Inr (v\<lparr>SubsequentVolumeThreshold_TotalVolume := w\<rparr>, c))) (v, c)) (\<lambda>(v, c).
     bind_res (opt (SubsequentVolumeThreshold_Ulvol v)
       (bind_res (rd_be 8 c) (\<lambda>(w, c). Inr (v\<lparr>SubsequentVolumeThreshold_UplinkVolume := w\<rparr>, c))) (v, c)) (\<lambda>(v, c).
     bind_res (opt (SubsequentVolumeThreshold_Dlvol v)
       (bind_res (rd_be 8 c) (\<lambda>(w, c). Inr (v\<lparr>SubsequentVolumeThreshold_DownlinkVolume := w\<rparr>, c))) (v, c)) (\<lambda>(v, c).
     bind_res (at_end c) (\<lambda>_. Inr v)))))"

definition SubsequentVolumeThreshold_wf :: "SubsequentVolumeThreshold \<Rightarrow> bool" where
  "SubsequentVolumeThreshold_wf v \<longleftrightarrow> (\<not> SubsequentVolumeThreshold_Tovol v \<longrightarrow> SubsequentVolumeThreshold_TotalVolume v = 0)
     \<and> (\<not> SubsequentVolumeThreshold_Ulvol v \<longrightarrow> SubsequentVolumeThreshold_UplinkVolume v = 0) \<and> (\<not> SubsequentVolumeThreshold_Dlvol v \<longrightarrow> SubsequentVolumeThreshold_DownlinkVolume v = 0)"

interpretation svolth: safe_binary_codec SubsequentVolumeThreshold_new SubsequentVolumeThreshold_marshal SubsequentVolumeThreshold_unmarshal SubsequentVolumeThreshold_wf
proof unfold_locales
  fix v d sp
  show "SubsequentVolumeThreshold_wf v \<Longrightarrow> SubsequentVolumeThreshold_marshal v = Inr d \<Longrightarrow> SubsequentVolumeThreshold_unmarshal SubsequentVolumeThreshold_new (Slice d sp) = Inr v"
    by (cases "SubsequentVolumeThreshold_Tovol v"; cases "SubsequentVolumeThreshold_Ulvol v"; cases "SubsequentVolumeThreshold_Dlvol v")
      (auto simp: SubsequentVolumeThreshold_new_def SubsequentVolumeThreshold_marshal_def SubsequentVolumeThreshold_unmarshal_def SubsequentVolumeThreshold_wf_def Let_def rd_simps bit_simps)
next
  fix v data
  show "no_panic (SubsequentVolumeThreshold_unmarshal v data)"
    unfolding SubsequentVolumeThreshold_unmarshal_def Let_def by (auto simp: bind_res_assoc intro!: rd_np_intros)
qed (simp add: SubsequentVolumeThreshold_marshal_def)

end
