(* ===== verification/PFCP_Text.thy ===== *)
theory PFCP_Text
  imports PFCP_Reader
begin

text \<open>
  The information elements of \<^verbatim>\<open>lib/pfcp/pfcpType\<close> that carry octet strings, and the data
  network name of \<^verbatim>\<open>lib/util_3gpp\<close>. Three of them (\<open>SDFFilter\<close>, \<open>RedirectInformation\<close>,
  \<open>PFDContents\<close>) read a 16-bit length from the wire and compare \<^verbatim>\<open>length < idx+n\<close> at 16
  bits: the sum can wrap, the check then passes and the slice expression panics. Their
  decoders are proved to panic exactly there.
\<close>

section \<open>ActivatePredefinedRules\<close>

record ActivatePredefinedRules = ActivatePredefinedRules_PredefinedRulesName :: bytes

definition ActivatePredefinedRules_new :: ActivatePredefinedRules where
  "ActivatePredefinedRules_new = \<lparr>ActivatePredefinedRules_PredefinedRulesName = []\<rparr>"

definition ActivatePredefinedRules_marshal :: "ActivatePredefinedRules \<Rightarrow> bytes res" where
  "ActivatePredefinedRules_marshal v = Inr (ActivatePredefinedRules_PredefinedRulesName v)"

definition ActivatePredefinedRules_unmarshal :: "ActivatePredefinedRules \<Rightarrow> slice \<Rightarrow> ActivatePredefinedRules res" where
  "ActivatePredefinedRules_unmarshal v data = Inr (v\<lparr>ActivatePredefinedRules_PredefinedRulesName := sdata data\<rparr>)"

interpretation actrules: safe_binary_codec ActivatePredefinedRules_new ActivatePredefinedRules_marshal ActivatePredefinedRules_unmarshal "\<lambda>_. True"
  by unfold_locales (auto simp: ActivatePredefinedRules_new_def ActivatePredefinedRules_marshal_def ActivatePredefinedRules_unmarshal_def)

section \<open>DeactivatePredefinedRules\<close>

record DeactivatePredefinedRules = DeactivatePredefinedRules_PredefinedRulesName :: bytes

definition DeactivatePredefinedRules_new :: DeactivatePredefinedRules where
  "DeactivatePredefinedRules_new = \<lparr>DeactivatePredefinedRules_PredefinedRulesName = []\<rparr>"

definition DeactivatePredefinedRules_marshal :: "DeactivatePredefinedRules \<Rightarrow> bytes res" where
  "DeactivatePredefinedRules_marshal v = Inr (DeactivatePredefinedRules_PredefinedRulesName v)"

definition DeactivatePredefinedRules_unmarshal :: "DeactivatePredefinedRules \<Rightarrow> slice \<Rightarrow> DeactivatePredefinedRules res" where
  "DeactivatePredefinedRules_unmarshal v data = Inr (v\<lparr>DeactivatePredefinedRules_PredefinedRulesName := sdata data\<rparr>)"

interpretation deactrules: safe_binary_codec DeactivatePredefinedRules_new DeactivatePredefinedRules_marshal DeactivatePredefinedRules_unmarshal "\<lambda>_. True"
  by unfold_locales (auto simp: DeactivatePredefinedRules_new_def DeactivatePredefinedRules_marshal_def DeactivatePredefinedRules_unmarshal_def)

section \<open>ApplicationID\<close>

record ApplicationID = ApplicationID_ApplicationIdentifier :: bytes

definition ApplicationID_new :: ApplicationID where
  "ApplicationID_new = \<lparr>ApplicationID_ApplicationIdentifier = []\<rparr>"

definition ApplicationID_marshal :: "ApplicationID \<Rightarrow> bytes res" where
  "ApplicationID_marshal v = Inr (ApplicationID_ApplicationIdentifier v)"

definition ApplicationID_unmarshal :: "ApplicationID \<Rightarrow> slice \<Rightarrow> ApplicationID res" where
  "ApplicationID_unmarshal v data = Inr (v\<lparr>ApplicationID_ApplicationIdentifier := sdata data\<rparr>)"

interpretation appid: safe_binary_codec ApplicationID_new ApplicationID_marshal ApplicationID_unmarshal "\<lambda>_. True"
  by unfold_locales (auto simp: ApplicationID_new_def ApplicationID_marshal_def ApplicationID_unmarshal_def)

section \<open>Dnn\<close>

text \<open>The name's length octet is written and, on reading, skipped without a look at it.\<close>

type_synonym Dnn = bytes

definition Dnn_marshal :: "Dnn \<Rightarrow> bytes res" where
  "Dnn_marshal d = Inr ([of_nat (length d)] @ d)"

definition Dnn_unmarshal :: "Dnn \<Rightarrow> slice \<Rightarrow> Dnn res" where
  "Dnn_unmarshal d data = bind_res (sl_from data 1) (\<lambda>s. Inr (sdata s))"

interpretation dnn: binary_codec "[]" Dnn_marshal Dnn_unmarshal "\<lambda>_. True"
  by unfold_locales (auto simp: Dnn_marshal_def Dnn_unmarshal_def go_simps)

lemma Dnn_unmarshal_panic_iff: "Dnn_unmarshal d data = Inl Panic \<longleftrightarrow> slen data = 0"
  by (cases data) (auto simp: Dnn_unmarshal_def sl_from_def Suc_le_eq)

section \<open>FailedRuleID\<close>

record FailedRuleID =
  FailedRuleID_RuleIdType :: u8
  FailedRuleID_RuleIdValue :: bytes

definition FailedRuleID_new :: FailedRuleID where
  "FailedRuleID_new = \<lparr>FailedRuleID_RuleIdType = 0, FailedRuleID_RuleIdValue = []\<rparr>"

definition FailedRuleID_marshal :: "FailedRuleID \<Rightarrow> bytes res" where
  "FailedRuleID_marshal v =
     bind_res (check (\<not> bits_Len (FailedRuleID_RuleIdType v) > 4)
       ''Rule ID type shall not be greater than 4 bits binary integer'') (\<lambda>_.
     Inr ([FailedRuleID_RuleIdType v] @ FailedRuleID_RuleIdValue v))"

definition FailedRuleID_unmarshal :: "FailedRuleID \<Rightarrow> slice \<Rightarrow> FailedRuleID res" where
  "FailedRuleID_unmarshal v data =
     bind_res (rd_u8 (start data)) (\<lambda>(b, c).
     bind_res (rd_rest c) (\<lambda>(a, _).
     Inr (v\<lparr>FailedRuleID_RuleIdType := b AND mask 4, FailedRuleID_RuleIdValue := a\<rparr>)))"

definition FailedRuleID_wf :: "FailedRuleID \<Rightarrow> bool" where
  "FailedRuleID_wf v \<longleftrightarrow> bits_Len (FailedRuleID_RuleIdType v) \<le> 4
     \<and> length (FailedRuleID_RuleIdValue v) < 65535"

interpretation failedrule: safe_binary_codec FailedRuleID_new FailedRuleID_marshal
  FailedRuleID_unmarshal FailedRuleID_wf
  by unfold_locales (auto simp: FailedRuleID_new_def FailedRuleID_marshal_def FailedRuleID_unmarshal_def
    FailedRuleID_wf_def rd_simps bits_Len_iff and_mask_id [of _ 4, simplified] intro!: rd_np_intros)

section \<open>ForwardingPolicy\<close>

record ForwardingPolicy =
  ForwardingPolicy_ForwardingPolicyIdentifierLength :: u8
  ForwardingPolicy_ForwardingPolicyIdentifier :: bytes

definition ForwardingPolicy_new :: ForwardingPolicy where
  "ForwardingPolicy_new = \<lparr>ForwardingPolicy_ForwardingPolicyIdentifierLength = 0, ForwardingPolicy_ForwardingPolicyIdentifier = []\<rparr>"

definition ForwardingPolicy_marshal :: "ForwardingPolicy \<Rightarrow> bytes res" where
  "ForwardingPolicy_marshal v =
     bind_res (check (\<not> length (ForwardingPolicy_ForwardingPolicyIdentifier v) \<noteq> unat (ForwardingPolicy_ForwardingPolicyIdentifierLength v))
       ''Unmatch length of forwarding policy identifier'') (\<lambda>_.
     Inr ([ForwardingPolicy_ForwardingPolicyIdentifierLength v] @ ForwardingPolicy_ForwardingPolicyIdentifier v))"

definition ForwardingPolicy_unmarshal :: "ForwardingPolicy \<Rightarrow> slice \<Rightarrow> ForwardingPolicy res" where
  "ForwardingPolicy_unmarshal v data =
     bind_res (rd_u8 (start data)) (\<lambda>(n, c).
     bind_res (rd_bytes (ucast n) c) (\<lambda>(a, c).
     bind_res (at_end c) (\<lambda>_.
     Inr (v\<lparr>ForwardingPolicy_ForwardingPolicyIdentifierLength := n, ForwardingPolicy_ForwardingPolicyIdentifier := a\<rparr>))))"

definition ForwardingPolicy_wf :: "ForwardingPolicy \<Rightarrow> bool" where
  "ForwardingPolicy_wf v \<longleftrightarrow>
     length (ForwardingPolicy_ForwardingPolicyIdentifier v) = unat (ForwardingPolicy_ForwardingPolicyIdentifierLength v)"

text \<open>A string whose length is one octet cannot carry the index past 16 bits.\<close>

lemma unat_ucast_u8 [simp]: "unat (ucast (b :: u8) :: u16) = unat b"
  by (simp add: unsigned_ucast_eq take_bit_nat_eq_self less_trans [OF unat_u8_less])

lemma rd_bytes_u8_np:
  assumes "pos c < 60000"
    and "\<And>a c'. pos c' \<le> pos c + 255 \<Longrightarrow> no_panic (f (a, c'))"
  shows "no_panic (bind_res (rd_bytes (ucast (m :: u8)) c) f)"
proof -
  have "unat (ucast m :: u16) \<le> 255" using unat_u8_less [of m] unfolding unat_ucast_u8 by linarith
  then show ?thesis using assms by (intro rd_bytes_np) auto
qed

interpretation fwdpolicy: safe_binary_codec ForwardingPolicy_new ForwardingPolicy_marshal
  ForwardingPolicy_unmarshal ForwardingPolicy_wf
proof unfold_locales
  fix v d sp
  assume "ForwardingPolicy_wf v" "ForwardingPolicy_marshal v = Inr d"
  moreover have "unat (ForwardingPolicy_ForwardingPolicyIdentifierLength v) < 65535"
    using unat_u8_less [of "ForwardingPolicy_ForwardingPolicyIdentifierLength v"] by linarith
  ultimately show "ForwardingPolicy_unmarshal ForwardingPolicy_new (Slice d sp) = Inr v"
    by (auto simp: ForwardingPolicy_new_def ForwardingPolicy_marshal_def ForwardingPolicy_unmarshal_def
        ForwardingPolicy_wf_def rd_simps)
next
  fix v data
  show "no_panic (ForwardingPolicy_unmarshal v data)"
    unfolding ForwardingPolicy_unmarshal_def by (auto intro!: rd_u8_np at_end_np rd_bytes_u8_np)
qed (simp add: ForwardingPolicy_marshal_def ForwardingPolicy_wf_def)

section \<open>HeaderEnrichment\<close>

record HeaderEnrichment =
  HeaderEnrichment_HeaderType :: u8
  HeaderEnrichment_LengthOfHeaderFieldName :: u8
  HeaderEnrichment_HeaderFieldName :: bytes
  HeaderEnrichment_LengthOfHeaderFieldValue :: u8
  HeaderEnrichment_HeaderFieldValue :: bytes

definition HeaderEnrichment_new :: HeaderEnrichment where
  "HeaderEnrichment_new = \<lparr>HeaderEnrichment_HeaderType = 0,
     HeaderEnrichment_LengthOfHeaderFieldName = 0, HeaderEnrichment_HeaderFieldName = [],
     HeaderEnrichment_LengthOfHeaderFieldValue = 0, HeaderEnrichment_HeaderFieldValue = []\<rparr>"

definition HeaderEnrichment_marshal :: "HeaderEnrichment \<Rightarrow> bytes res" where
  "HeaderEnrichment_marshal v =
     bind_res (check (\<not> bits_Len (HeaderEnrichment_HeaderType v) > 5)
       ''Header type shall not be greater than 5 bits binary integer'') (\<lambda>_.
     let data = [HeaderEnrichment_HeaderType v] @ [HeaderEnrichment_LengthOfHeaderFieldName v] in
     bind_res (check (\<not> length (HeaderEnrichment_HeaderFieldName v)
         \<noteq> unat (HeaderEnrichment_LengthOfHeaderFieldName v))
       ''Unmatch length of header field name'') (\<lambda>_.
     let data = data @ HeaderEnrichment_HeaderFieldName v @ [HeaderEnrichment_LengthOfHeaderFieldValue v] in
     bind_res (check (\<not> length (HeaderEnrichment_HeaderFieldValue v)
         \<noteq> unat (HeaderEnrichment_LengthOfHeaderFieldValue v))
       ''Unmatch length of header field name'') (\<lambda>_.
     Inr (data @ HeaderEnrichment_HeaderFieldValue v))))"

definition HeaderEnrichment_unmarshal :: "HeaderEnrichment \<Rightarrow> slice \<Rightarrow> HeaderEnrichment res" where
  "HeaderEnrichment_unmarshal v data =
     bind_res (rd_u8 (start data)) (\<lambda>(b, c).
     bind_res (rd_u8 c) (\<lambda>(m, c).
     bind_res (rd_bytes (ucast m) c) (\<lambda>(name, c).
     bind_res (rd_u8 c) (\<lambda>(n, c).
     bind_res (rd_bytes (ucast n) c) (\<lambda>(val, c).
     bind_res (at_end c) (\<lambda>_.
     Inr (v\<lparr>HeaderEnrichment_HeaderType := b AND mask 5,
            HeaderEnrichment_LengthOfHeaderFieldName := m, HeaderEnrichment_HeaderFieldName := name,
            HeaderEnrichment_LengthOfHeaderFieldValue := n, HeaderEnrichment_HeaderFieldValue := val\<rparr>)))))))"

definition HeaderEnrichment_wf :: "HeaderEnrichment \<Rightarrow> bool" where
  "HeaderEnrichment_wf v \<longleftrightarrow> bits_Len (HeaderEnrichment_HeaderType v) \<le> 5
     \<and> length (HeaderEnrichment_HeaderFieldName v) = unat (HeaderEnrichment_LengthOfHeaderFieldName v)
     \<and> length (HeaderEnrichment_HeaderFieldValue v) = unat (HeaderEnrichment_LengthOfHeaderFieldValue v)"

interpretation hdrenr: safe_binary_codec HeaderEnrichment_new HeaderEnrichment_marshal
  HeaderEnrichment_unmarshal HeaderEnrichment_wf
proof unfold_locales
  fix v d sp
  assume "HeaderEnrichment_wf v" "HeaderEnrichment_marshal v = Inr d"
  moreover have "unat (HeaderEnrichment_LengthOfHeaderFieldName v)
      + unat (HeaderEnrichment_LengthOfHeaderFieldValue v) < 600"
    using unat_u8_less [of "HeaderEnrichment_LengthOfHeaderFieldName v"]
      unat_u8_less [of "HeaderEnrichment_LengthOfHeaderFieldValue v"] by linarith
  ultimately show "HeaderEnrichment_unmarshal HeaderEnrichment_new (Slice d sp) = Inr v"
    by (auto simp: HeaderEnrichment_new_def HeaderEnrichment_marshal_def HeaderEnrichment_unmarshal_def
        HeaderEnrichment_wf_def Let_def rd_simps bits_Len_iff and_mask_id [of _ 5, simplified])
next
  fix v data
  show "no_panic (HeaderEnrichment_unmarshal v data)"
    unfolding HeaderEnrichment_unmarshal_def by (auto intro!: rd_u8_np at_end_np rd_bytes_u8_np)
qed (simp add: HeaderEnrichment_marshal_def HeaderEnrichment_wf_def Let_def bits_Len_iff)

section \<open>RedirectInformation\<close>

record RedirectInformation =
  RedirectInformation_RedirectAddressType :: u8
  RedirectInformation_RedirectServerAddressLength :: u16
  RedirectInformation_RedirectServerAddress :: bytes

definition RedirectInformation_new :: RedirectInformation where
  "RedirectInformation_new = \<lparr>RedirectInformation_RedirectAddressType = 0,
     RedirectInformation_RedirectServerAddressLength = 0,
     RedirectInformation_RedirectServerAddress = []\<rparr>"

definition RedirectInformation_marshal :: "RedirectInformation \<Rightarrow> bytes res" where
  "RedirectInformation_marshal v =
     bind_res (check (\<not> bits_Len (RedirectInformation_RedirectAddressType v) > 4)
       ''Redirect address type shall not be greater than 4 bits binary integer'') (\<lambda>_.
     bind_res (check (\<not> length (RedirectInformation_RedirectServerAddress v)
         \<noteq> unat (RedirectInformation_RedirectServerAddressLength v))
       ''Unmatch length of redirect server address'') (\<lambda>_.
     Inr ([RedirectInformation_RedirectAddressType v]
       @ be_bytes 2 (RedirectInformation_RedirectServerAddressLength v)
       @ RedirectInformation_RedirectServerAddress v)))"

definition RedirectInformation_unmarshal ::
    "RedirectInformation \<Rightarrow> slice \<Rightarrow> RedirectInformation res" where
  "RedirectInformation_unmarshal v data =
     bind_res (rd_u8 (start data)) (\<lambda>(b, c).
     bind_res (rd_be 2 c) (\<lambda>(n, c).
     bind_res (rd_bytes n c) (\<lambda>(a, c).
     bind_res (at_end c) (\<lambda>_.
     Inr (v\<lparr>RedirectInformation_RedirectAddressType := b AND mask 4,
            RedirectInformation_RedirectServerAddressLength := n,
            RedirectInformation_RedirectServerAddress := a\<rparr>)))))"

definition RedirectInformation_wf :: "RedirectInformation \<Rightarrow> bool" where
  "RedirectInformation_wf v \<longleftrightarrow> bits_Len (RedirectInformation_RedirectAddressType v) \<le> 4
     \<and> length (RedirectInformation_RedirectServerAddress v)
         = unat (RedirectInformation_RedirectServerAddressLength v)
     \<and> unat (RedirectInformation_RedirectServerAddressLength v) < 65533"

interpretation redirect: binary_codec RedirectInformation_new RedirectInformation_marshal
  RedirectInformation_unmarshal RedirectInformation_wf
  by unfold_locales (auto simp: RedirectInformation_new_def RedirectInformation_marshal_def
    RedirectInformation_unmarshal_def RedirectInformation_wf_def rd_simps bits_Len_iff
    and_mask_id [of _ 4, simplified])

section \<open>SDFFilter\<close>

record SDFFilter =
  SDFFilter_Bid :: bool
  SDFFilter_Fl :: bool
  SDFFilter_Spi :: bool
  SDFFilter_Ttc :: bool
  SDFFilter_Fd :: bool
  SDFFilter_LengthOfFlowDescription :: u16
  SDFFilter_FlowDescription :: bytes
  SDFFilter_TosTrafficClass :: bytes
  SDFFilter_SecurityParameterIndex :: bytes
  SDFFilter_FlowLabel :: bytes
  SDFFilter_SdfFilterId :: u32

definition SDFFilter_new :: SDFFilter where
  "SDFFilter_new = \<lparr>SDFFilter_Bid = False, SDFFilter_Fl = False, SDFFilter_Spi = False,
     SDFFilter_Ttc = False, SDFFilter_Fd = False, SDFFilter_LengthOfFlowDescription = 0,
     SDFFilter_FlowDescription = [], SDFFilter_TosTrafficClass = [],
     SDFFilter_SecurityParameterIndex = [], SDFFilter_FlowLabel = [], SDFFilter_SdfFilterId = 0\<rparr>"

text \<open>
  \<^verbatim>\<open>PutUint32(data[idx:], ..)\<close> writes the four octets just appended, since \<^verbatim>\<open>idx\<close> is the
  length of what precedes them.
\<close>

definition SDFFilter_marshal :: "SDFFilter \<Rightarrow> bytes res" where
  "SDFFilter_marshal s =
     (let data = [push_bit 4 (btou (SDFFilter_Bid s)) OR push_bit 3 (btou (SDFFilter_Fl s)) OR
                  push_bit 2 (btou (SDFFilter_Spi s)) OR push_bit 1 (btou (SDFFilter_Ttc s)) OR
                  btou (SDFFilter_Fd s)] @ [0] in
      bind_res (opt (SDFFilter_Fd s)
        (bind_res (check (\<not> SDFFilter_LengthOfFlowDescription s = 0)
           ''Length of flow description shall be present if FD is set'') (\<lambda>_.
         bind_res (check (\<not> length (SDFFilter_FlowDescription s)
             \<noteq> unat (SDFFilter_LengthOfFlowDescription s))
           ''Unmatch length of flow description'') (\<lambda>_.
         Inr (data @ be_bytes 2 (SDFFilter_LengthOfFlowDescription s)
           @ SDFFilter_FlowDescription s)))) data) (\<lambda>data.
      bind_res (opt (SDFFilter_Ttc s)
        (bind_res (check (\<not> length (SDFFilter_TosTrafficClass s) \<noteq> 2)
           ''ToS traffic class shall be exactly two bytes'') (\<lambda>_.
         Inr (data @ SDFFilter_TosTrafficClass s))) data) (\<lambda>data.
      bind_res (opt (SDFFilter_Spi s)
        (bind_res (check (\<not> length (SDFFilter_SecurityParameterIndex s) \<noteq> 4)
           ''Security parameter index shall be exactly four bytes'') (\<lambda>_.
         Inr (data @ SDFFilter_SecurityParameterIndex s))) data) (\<lambda>data.
      bind_res (opt (SDFFilter_Fl s)
        (bind_res (check (\<not> length (SDFFilter_FlowLabel s) \<noteq> 3)
           ''Flow label shall be exactly three bytes'') (\<lambda>_.
         Inr (data @ SDFFilter_FlowLabel s))) data) (\<lambda>data.
      Inr (data @ (if SDFFilter_Bid s then be_bytes 4 (SDFFilter_SdfFilterId s) else [])))))))"

text \<open>The fields of fixed size, which follow the flow description.\<close>

definition SDFFilter_fixed :: "SDFFilter \<Rightarrow> cursor \<Rightarrow> SDFFilter res" where
  "SDFFilter_fixed s c =
     bind_res (opt (SDFFilter_Ttc s)
       (bind_res (rd_bytes 2 c) (\<lambda>(a, c). Inr (s\<lparr>SDFFilter_TosTrafficClass := a\<rparr>, c))) (s, c)) (\<lambda>(s, c).
     bind_res (opt (SDFFilter_Spi s)
       (bind_res (rd_bytes 4 c) (\<lambda>(a, c). Inr (s\<lparr>SDFFilter_SecurityParameterIndex := a\<rparr>, c))) (s, c)) (\<lambda>(s, c).
     bind_res (opt (SDFFilter_Fl s)
       (bind_res (rd_bytes 3 c) (\<lambda>(a, c). Inr (s\<lparr>SDFFilter_FlowLabel := a\<rparr>, c))) (s, c)) (\<lambda>(s, c).
     bind_res (opt (SDFFilter_Bid s)
       (bind_res (rd_be 4 c) (\<lambda>(w, c). Inr (s\<lparr>SDFFilter_SdfFilterId := w\<rparr>, c))) (s, c)) (\<lambda>(s, c).
     bind_res (at_end c) (\<lambda>_. Inr s)))))"

definition SDFFilter_unmarshal :: "SDFFilter \<Rightarrow> slice \<Rightarrow> SDFFilter res" where
  "SDFFilter_unmarshal s data =
     bind_res (rd_u8 (start data)) (\<lambda>(b, c).
     let s = s\<lparr>SDFFilter_Bid := utob (b AND 16), SDFFilter_Fl := utob (b AND 8),
       SDFFilter_Spi := utob (b AND 4), SDFFilter_Ttc := utob (b AND 2),
       SDFFilter_Fd := utob (b AND 1)\<rparr> in
     bind_res (rd_u8 c) (\<lambda>(_, c).
     bind_res (opt (SDFFilter_Fd s)
       (bind_res (rd_be 2 c) (\<lambda>(n, c). bind_res (rd_bytes n c) (\<lambda>(a, c).
        Inr (s\<lparr>SDFFilter_LengthOfFlowDescription := n, SDFFilter_FlowDescription := a\<rparr>, c)))) (s, c)) (\<lambda>(s, c).
     SDFFilter_fixed s c)))"

definition SDFFilter_wf :: "SDFFilter \<Rightarrow> bool" where
  "SDFFilter_wf s \<longleftrightarrow>
     (if SDFFilter_Fd s
      then SDFFilter_LengthOfFlowDescription s \<noteq> 0
        \<and> length (SDFFilter_FlowDescription s) = unat (SDFFilter_LengthOfFlowDescription s)
        \<and> unat (SDFFilter_LengthOfFlowDescription s) < 65519
      else SDFFilter_LengthOfFlowDescription s = 0 \<and> SDFFilter_FlowDescription s = [])
     \<and> length (SDFFilter_TosTrafficClass s) = (if SDFFilter_Ttc s then 2 else 0)
     \<and> length (SDFFilter_SecurityParameterIndex s) = (if SDFFilter_Spi s then 4 else 0)
     \<and> length (SDFFilter_FlowLabel s) = (if SDFFilter_Fl s then 3 else 0)
     \<and> (\<not> SDFFilter_Bid s \<longrightarrow> SDFFilter_SdfFilterId s = 0)"

lemma SDFFilter_marshal_wf:
  "SDFFilter_wf s \<Longrightarrow> SDFFilter_marshal s = Inr (
     [push_bit 4 (btou (SDFFilter_Bid s)) OR push_bit 3 (btou (SDFFilter_Fl s)) OR
      push_bit 2 (btou (SDFFilter_Spi s)) OR push_bit 1 (btou (SDFFilter_Ttc s)) OR
      btou (SDFFilter_Fd s), 0] @
     (if SDFFilter_Fd s then be_bytes 2 (SDFFilter_LengthOfFlowDescription s) else []) @
     SDFFilter_FlowDescription s @ SDFFilter_TosTrafficClass s @ SDFFilter_SecurityParameterIndex s @
     SDFFilter_FlowLabel s @ (if SDFFilter_Bid s then be_bytes 4 (SDFFilter_SdfFilterId s) else []))"
  by (auto simp: SDFFilter_marshal_def SDFFilter_wf_def Let_def opt_def)

lemma SDFFilter_unmarshal_marshal:
  assumes "SDFFilter_wf s" "SDFFilter_marshal s = Inr d"
  shows "SDFFilter_unmarshal SDFFilter_new (Slice d sp) = Inr s"
  using assms unfolding SDFFilter_marshal_wf [OF assms(1)]
  by (cases "SDFFilter_Fd s"; cases "SDFFilter_Ttc s"; cases "SDFFilter_Spi s";
      cases "SDFFilter_Fl s"; cases "SDFFilter_Bid s")
    (auto simp: SDFFilter_unmarshal_def SDFFilter_fixed_def SDFFilter_new_def SDFFilter_wf_def Let_def rd_simps bit_simps)

interpretation sdf: binary_codec SDFFilter_new SDFFilter_marshal SDFFilter_unmarshal SDFFilter_wf
  by unfold_locales (simp_all add: SDFFilter_marshal_wf SDFFilter_unmarshal_marshal)

text \<open>
  The decoder panics exactly where the announced length of the flow description wraps the
  16-bit sum: at least four octets, the FD flag, and a length of 65532 or more. (65507 octets
  are the largest payload of a UDP datagram.)
\<close>

definition SDFFilter_wraps :: "bytes \<Rightarrow> bool" where
  "SDFFilter_wraps d \<longleftrightarrow> 4 \<le> length d \<and> bit (d ! 0) 0 \<and> 65532 \<le> unat (of_be (take 2 (drop 2 d)) :: u16)"

lemma pos_at_split [simp]: "length pre < 65536 \<Longrightarrow> pos (at_split pre r sp) = length pre"
  by (simp add: pos_def cidx_at_split)

lemma SDFFilter_fixed_np:
  "slen (cdata c) \<le> 65507 \<Longrightarrow> pos c \<le> slen (cdata c) \<Longrightarrow> no_panic (SDFFilter_fixed s c)"
  unfolding SDFFilter_fixed_def by (auto simp: bind_res_assoc intro!: rd_np_intros)

lemma rd_u8_short: "rd_u8 (at_split pre [] sp) = Inl (Err inadequate)" if "length pre < 65535"
  using that of_nat_u16_less_iff [of "length pre" "Suc (length pre)"]
  by (simp add: rd_u8_def need_def at_split_def clen_def check_def add.commute)

lemma rd_be_short:
  "length r < n \<Longrightarrow> length pre + n < 65536 \<Longrightarrow> rd_be n (at_split pre r sp) = Inl (Err inadequate)"
  using of_nat_u16_less_iff [of "length pre + length r" "length pre + n"]
  by (simp add: rd_be_def need_def at_split_def clen_def check_def)

lemma SDFFilter_unmarshal_panic_iff:
  assumes "length d \<le> 65507"
  shows "SDFFilter_unmarshal s (Slice d sp) = Inl Panic \<longleftrightarrow> SDFFilter_wraps d"
proof -
  consider "d = []" | b where "d = [b]" | b x r where "d = b # x # r" by (cases d rule: remdups_adj.cases) auto
  then show ?thesis
  proof cases
    case (3 b x r)
    have len: "length r \<le> 65505" using assms 3 by simp
    note eval = 3 SDFFilter_unmarshal_def Let_def SDFFilter_wraps_def rd_simps
    consider (flat) "\<not> bit b 0" | (short) "bit b 0" "length r < 2"
      | (len) h l q where "bit b 0" "r = h # l # q"
      by (cases r rule: remdups_adj.cases) (auto simp: numeral_2_eq_2)
    then show ?thesis
    proof cases
      case flat
      then show ?thesis using len SDFFilter_fixed_np [of "at_split [b, x] r sp"]
        by (simp add: eval no_panic_def)
    next
      case short
      then show ?thesis using len by (simp add: eval rd_be_short)
    next
      case (len h l q)
      let ?n = "of_be [h, l] :: u16" and ?c = "at_split [b, x, h, l] q sp"
      have q: "length q \<le> 65503" using \<open>length r \<le> 65505\<close> len(2) by simp
      have hd: "rd_be 2 (at_split [b, x] (h # l # q) sp) = Inr (?n, ?c)"
        using rd_be_list [of "[h, l]" 2 "[b, x]" q sp] q by simp
      show ?thesis
      proof (cases "4 + unat ?n < 65536")
        case True
        have "no_panic (bind_res (rd_bytes ?n ?c) f)"
          if "\<And>a c'. slen (cdata c') \<le> 65507 \<Longrightarrow> pos c' \<le> slen (cdata c') \<Longrightarrow> no_panic (f (a, c'))"
          for f :: "_ \<Rightarrow> SDFFilter res"
          using True q that by (intro rd_bytes_np) auto
        then show ?thesis
          using True q hd len by (simp add: eval bind_res_assoc SDFFilter_fixed_np flip: no_panic_def)
      next
        case False
        then have "rd_bytes ?n ?c = Inl Panic" using q by (intro rd_bytes_wrap) simp_all
        then show ?thesis using False q hd len by (simp add: eval)
      qed
    qed
  qed (simp_all add: SDFFilter_unmarshal_def SDFFilter_wraps_def rd_simps rd_u8_short)
qed

section \<open>PFDContents\<close>

text \<open>
  Go strings are their octets. \<^verbatim>\<open>CustomPFDContent\<close> is compared with nil, which is \<open>None\<close> here.
\<close>

record PFDContents =
  PFDContents_FlowDescription :: bytes
  PFDContents_URL :: bytes
  PFDContents_DomainName :: bytes
  PFDContents_CustomPFDContent :: "bytes option"

definition PFDContents_new :: PFDContents where
  "PFDContents_new = \<lparr>PFDContents_FlowDescription = [], PFDContents_URL = [],
     PFDContents_DomainName = [], PFDContents_CustomPFDContent = None\<rparr>"

definition length_prefixed :: "bytes \<Rightarrow> bytes" where
  "length_prefixed s = be_bytes 2 (of_nat (length s) :: u16) @ s"

definition PFDContents_marshal :: "PFDContents \<Rightarrow> bytes res" where
  "PFDContents_marshal p = Inr (
     [(if PFDContents_FlowDescription p \<noteq> [] then 1 else 0) OR
      (if PFDContents_URL p \<noteq> [] then 2 else 0) OR
      (if PFDContents_DomainName p \<noteq> [] then 4 else 0) OR
      (if PFDContents_CustomPFDContent p \<noteq> None then 8 else 0), 0] @
     (if PFDContents_FlowDescription p \<noteq> [] then length_prefixed (PFDContents_FlowDescription p) else []) @
     (if PFDContents_URL p \<noteq> [] then length_prefixed (PFDContents_URL p) else []) @
     (if PFDContents_DomainName p \<noteq> [] then length_prefixed (PFDContents_DomainName p) else []) @
     (case PFDContents_CustomPFDContent p of Some x \<Rightarrow> length_prefixed x | None \<Rightarrow> []))"

definition rd_length_prefixed :: "cursor \<Rightarrow> (bytes \<times> cursor) res" where
  "rd_length_prefixed c = bind_res (rd_be 2 c) (\<lambda>(n, c). rd_bytes n c)"

definition PFDContents_unmarshal :: "PFDContents \<Rightarrow> slice \<Rightarrow> PFDContents res" where
  "PFDContents_unmarshal p data =
     bind_res (need 1 (start data)) (\<lambda>_.
     bind_res (sl_at data 0) (\<lambda>presenceByte.
     let c = advance 2 (start data) in
     bind_res (opt (utob (presenceByte AND 1)) (bind_res (rd_length_prefixed c) (\<lambda>(a, c).
       Inr (p\<lparr>PFDContents_FlowDescription := a\<rparr>, c))) (p, c)) (\<lambda>(p, c).
     bind_res (opt (utob (presenceByte AND 2)) (bind_res (rd_length_prefixed c) (\<lambda>(a, c).
       Inr (p\<lparr>PFDContents_URL := a\<rparr>, c))) (p, c)) (\<lambda>(p, c).
     bind_res (opt (utob (presenceByte AND 4)) (bind_res (rd_length_prefixed c) (\<lambda>(a, c).
       Inr (p\<lparr>PFDContents_DomainName := a\<rparr>, c))) (p, c)) (\<lambda>(p, c).
     opt (utob (presenceByte AND 8)) (bind_res (rd_length_prefixed c) (\<lambda>(a, c).
       Inr (p\<lparr>PFDContents_CustomPFDContent := Some a\<rparr>))) p)))))"

definition PFDContents_wf :: "PFDContents \<Rightarrow> bool" where
  "PFDContents_wf p \<longleftrightarrow> length (PFDContents_FlowDescription p) + length (PFDContents_URL p)
     + length (PFDContents_DomainName p) + length (case PFDContents_CustomPFDContent p of Some x \<Rightarrow> x | None \<Rightarrow> []) < 65526"

lemma length_length_prefixed [simp]: "length (length_prefixed s) = length s + 2"
  by (simp add: length_prefixed_def)

lemma rd_length_prefixed_at_split [rd_simps]:
  assumes "length pre + length s + length r + 2 < 65536"
  shows "rd_length_prefixed (at_split pre (length_prefixed s @ r) sp)
    = Inr (s, at_split (pre @ length_prefixed s) r sp)"
  using assms by (simp add: rd_length_prefixed_def length_prefixed_def rd_simps)

lemma rd_length_prefixed_last [rd_simps]:
  "length pre + length s + 2 < 65536 \<Longrightarrow>
   rd_length_prefixed (at_split pre (length_prefixed s) sp) = Inr (s, at_split (pre @ length_prefixed s) [] sp)"
  using rd_length_prefixed_at_split [of pre s "[]" sp] by simp

lemma advance_two [rd_simps]: "advance 2 (at_split [] (x # y # r) sp) = at_split [x, y] r sp"
  using advance_at_split [of "[x, y]" "[]" r sp] by simp

lemma need_one [rd_simps]: "Suc (length r) < 65536 \<Longrightarrow> need 1 (at_split [] (x # r) sp) = Inr ()"
  using need_at_split [of "[]" 1 "x # r" sp] by simp

interpretation pfdcontents: binary_codec PFDContents_new PFDContents_marshal PFDContents_unmarshal
  PFDContents_wf
proof unfold_locales
  fix p d sp
  show "PFDContents_wf p \<Longrightarrow> PFDContents_marshal p = Inr d \<Longrightarrow>
    PFDContents_unmarshal PFDContents_new (Slice d sp) = Inr p"
    by (cases "PFDContents_FlowDescription p = []"; cases "PFDContents_URL p = []";
        cases "PFDContents_DomainName p = []"; cases "PFDContents_CustomPFDContent p")
      (auto simp: PFDContents_marshal_def PFDContents_unmarshal_def PFDContents_wf_def
        PFDContents_new_def Let_def rd_simps go_simps bit_simps)
qed (simp add: PFDContents_marshal_def)

end
