(* ===== verification/PFCP_Address.thy ===== *)
theory PFCP_Address
  imports PFCP_Text
begin

text \<open>
  The information elements of \<^verbatim>\<open>lib/pfcp/pfcpType\<close> that carry node identities, tunnel
  endpoints and IP addresses. Their \<^verbatim>\<open>MarshalBinary\<close> guards an address with
  \<^verbatim>\<open>IsUnspecified\<close> and appends \<^verbatim>\<open>To4()\<close> or \<^verbatim>\<open>To16()\<close>: a nil address passes the guard and
  appends nothing. Round trips therefore ask for addresses of the right length
  (\<open>ip4_ok\<close>, \<open>ip6_ok\<close>); what happens to the others is proved too.
\<close>

section \<open>Address fields\<close>

definition msg_v4 :: string where "msg_v4 = ''IPv4 address shall be present if V4 is set''"
definition msg_v6 :: string where "msg_v6 = ''IPv6 address shall be present if V6 is set''"

definition addr4 :: "bool \<Rightarrow> ip \<Rightarrow> string \<Rightarrow> bytes \<Rightarrow> bytes res" where
  "addr4 v4 a msg data =
     opt v4 (bind_res (check (\<not> IsUnspecified a) msg) (\<lambda>_. Inr (data @ To4 a))) data"

definition addr6 :: "bool \<Rightarrow> ip \<Rightarrow> string \<Rightarrow> bytes \<Rightarrow> bytes res" where
  "addr6 v6 a msg data =
     opt v6 (bind_res (check (\<not> IsUnspecified a) msg) (\<lambda>_. Inr (data @ To16 a))) data"

definition ip4_ok :: "bool \<Rightarrow> ip \<Rightarrow> bool" where
  "ip4_ok v4 a \<longleftrightarrow> (if v4 then length a = 4 \<and> \<not> IsUnspecified a else a = [])"

definition ip6_ok :: "bool \<Rightarrow> ip \<Rightarrow> bool" where
  "ip6_ok v6 a \<longleftrightarrow> (if v6 then length a = 16 \<and> \<not> IsUnspecified a else a = [])"

lemma addr4_ok [simp]: "ip4_ok v4 a \<Longrightarrow> addr4 v4 a msg data = Inr (data @ a)"
  by (auto simp: addr4_def ip4_ok_def opt_def)

lemma addr6_ok [simp]: "ip6_ok v6 a \<Longrightarrow> addr6 v6 a msg data = Inr (data @ a)"
  by (auto simp: addr6_def ip6_ok_def opt_def)

lemma ip_ok_simps:
  "ip4_ok True a \<longleftrightarrow> length a = 4 \<and> \<not> IsUnspecified a" "ip4_ok False a \<longleftrightarrow> a = []"
  "ip6_ok True a \<longleftrightarrow> length a = 16 \<and> \<not> IsUnspecified a" "ip6_ok False a \<longleftrightarrow> a = []"
  by (simp_all add: ip4_ok_def ip6_ok_def)

text \<open>The four- and sixteen-octet reads of the decoders (\<^verbatim>\<open>net.IPv4len\<close>, \<^verbatim>\<open>net.IPv6len\<close>).\<close>

section \<open>NodeID\<close>

record NodeID =
  NodeID_NodeIdType :: u8
  NodeID_NodeIdValue :: bytes

definition NodeID_new :: NodeID where
  "NodeID_new = \<lparr>NodeID_NodeIdType = 0, NodeID_NodeIdValue = []\<rparr>"

definition NodeID_marshal :: "NodeID \<Rightarrow> bytes res" where
  "NodeID_marshal n =
     bind_res (check (\<not> bits_Len (NodeID_NodeIdType n) > 4)
       ''Node ID type shall not be greater than 4 bits binary integer'') (\<lambda>_.
     bind_res (check (\<not> (NodeID_NodeIdType n = 0 \<and> length (NodeID_NodeIdValue n) \<noteq> 4))
       ''Length of node ID data shall be 4 Octet if node ID is an IPv4 address'') (\<lambda>_.
     bind_res (check (\<not> (NodeID_NodeIdType n = 1 \<and> length (NodeID_NodeIdValue n) \<noteq> 16))
       ''Length of node ID data shall be 16 Octet if node ID is an IPv6 address'') (\<lambda>_.
     Inr ([NodeID_NodeIdType n] @ NodeID_NodeIdValue n))))"

definition NodeID_unmarshal :: "NodeID \<Rightarrow> slice \<Rightarrow> NodeID res" where
  "NodeID_unmarshal n data =
     bind_res (rd_u8 (start data)) (\<lambda>(b, c).
     let n = n\<lparr>NodeID_NodeIdType := b AND mask 4\<rparr> in
     bind_res (if NodeID_NodeIdType n = 0 then rd_bytes 4 c
               else if NodeID_NodeIdType n = 1 then rd_bytes 16 c else rd_rest c) (\<lambda>(a, c).
     bind_res (at_end c) (\<lambda>_. Inr (n\<lparr>NodeID_NodeIdValue := a\<rparr>))))"

definition NodeID_wf :: "NodeID \<Rightarrow> bool" where
  "NodeID_wf n \<longleftrightarrow> bits_Len (NodeID_NodeIdType n) \<le> 4 \<and> length (NodeID_NodeIdValue n) < 65535
     \<and> (NodeID_NodeIdType n = 0 \<longrightarrow> length (NodeID_NodeIdValue n) = 4)
     \<and> (NodeID_NodeIdType n = 1 \<longrightarrow> length (NodeID_NodeIdValue n) = 16)"

interpretation nodeid: safe_binary_codec NodeID_new NodeID_marshal NodeID_unmarshal NodeID_wf
proof unfold_locales
  fix n d sp
  show "NodeID_wf n \<Longrightarrow> NodeID_marshal n = Inr d \<Longrightarrow> NodeID_unmarshal NodeID_new (Slice d sp) = Inr n"
    by (cases "NodeID_NodeIdType n = 0"; cases "NodeID_NodeIdType n = 1")
      (auto simp: NodeID_new_def NodeID_marshal_def NodeID_unmarshal_def NodeID_wf_def Let_def
        rd_simps bits_Len_iff and_mask_id [of _ 4, simplified])
next
  fix n data
  show "no_panic (NodeID_unmarshal n data)"
    unfolding NodeID_unmarshal_def Let_def by (auto intro!: rd_np_intros)
qed (auto simp: NodeID_marshal_def NodeID_wf_def bits_Len_iff)

section \<open>FSEID\<close>

record FSEID =
  FSEID_V4 :: bool
  FSEID_V6 :: bool
  FSEID_Seid :: u64
  FSEID_Ipv4Address :: ip
  FSEID_Ipv6Address :: ip

definition FSEID_new :: FSEID where
  "FSEID_new = \<lparr>FSEID_V4 = False, FSEID_V6 = False, FSEID_Seid = 0,
     FSEID_Ipv4Address = [], FSEID_Ipv6Address = []\<rparr>"

definition FSEID_marshal :: "FSEID \<Rightarrow> bytes res" where
  "FSEID_marshal f =
     (let data = [push_bit 1 (btou (FSEID_V4 f)) OR btou (FSEID_V6 f)] @ be_bytes 8 (FSEID_Seid f) in
      bind_res (addr4 (FSEID_V4 f) (FSEID_Ipv4Address f) msg_v4 data) (\<lambda>data.
      bind_res (addr6 (FSEID_V6 f) (FSEID_Ipv6Address f) msg_v6 data) (\<lambda>data.
      bind_res (check (\<not> (\<not> FSEID_V4 f \<and> \<not> FSEID_V6 f))
        ''At least one of V4 and V6 flags shall be set'') (\<lambda>_. Inr data))))"

definition FSEID_unmarshal :: "FSEID \<Rightarrow> slice \<Rightarrow> FSEID res" where
  "FSEID_unmarshal f data =
     bind_res (rd_u8 (start data)) (\<lambda>(b, c).
     let f = f\<lparr>FSEID_V4 := utob (b AND 2), FSEID_V6 := utob (b AND 1)\<rparr> in
     bind_res (rd_be 8 c) (\<lambda>(w, c).
     let f = f\<lparr>FSEID_Seid := w\<rparr> in
     bind_res (opt (FSEID_V4 f)
       (bind_res (rd_bytes 4 c) (\<lambda>(a, c). Inr (f\<lparr>FSEID_Ipv4Address := a\<rparr>, c))) (f, c)) (\<lambda>(f, c).
     bind_res (opt (FSEID_V6 f)
       (bind_res (rd_bytes 16 c) (\<lambda>(a, c). Inr (f\<lparr>FSEID_Ipv6Address := a\<rparr>, c))) (f, c)) (\<lambda>(f, c).
     bind_res (check (\<not> (\<not> FSEID_V4 f \<and> \<not> FSEID_V6 f)) ''None of V4 and V6 flags is set'') (\<lambda>_.
     bind_res (at_end c) (\<lambda>_. Inr f))))))"

definition FSEID_wf :: "FSEID \<Rightarrow> bool" where
  "FSEID_wf f \<longleftrightarrow> (FSEID_V4 f \<or> FSEID_V6 f)
     \<and> ip4_ok (FSEID_V4 f) (FSEID_Ipv4Address f) \<and> ip6_ok (FSEID_V6 f) (FSEID_Ipv6Address f)"

interpretation fseid: safe_binary_codec FSEID_new FSEID_marshal FSEID_unmarshal FSEID_wf
proof unfold_locales
  fix f d sp
  show "FSEID_wf f \<Longrightarrow> FSEID_marshal f = Inr d \<Longrightarrow> FSEID_unmarshal FSEID_new (Slice d sp) = Inr f"
    by (cases "FSEID_V4 f"; cases "FSEID_V6 f")
      (auto simp: FSEID_new_def FSEID_marshal_def FSEID_unmarshal_def FSEID_wf_def Let_def
        rd_simps bit_simps ip_ok_simps addr4_def addr6_def)
next
  fix f data
  show "no_panic (FSEID_unmarshal f data)"
    unfolding FSEID_unmarshal_def Let_def by (auto simp: bind_res_assoc intro!: rd_np_intros)
qed (auto simp: FSEID_marshal_def FSEID_wf_def Let_def)

text \<open>
  An address in the sixteen-octet form that \<^verbatim>\<open>net.ParseIP\<close> gives is sent in four octets, so
  the peer reads the element with its addresses in their wire form.
\<close>

definition FSEID_wire :: "FSEID \<Rightarrow> FSEID" where
  "FSEID_wire f = f\<lparr>FSEID_Ipv4Address := (if FSEID_V4 f then To4 (FSEID_Ipv4Address f) else []),
     FSEID_Ipv6Address := (if FSEID_V6 f then To16 (FSEID_Ipv6Address f) else [])\<rparr>"

lemma IsUnspecified_4: "length a = 4 \<Longrightarrow> IsUnspecified a \<longleftrightarrow> a = [0, 0, 0, 0]"
  by (auto simp: IsUnspecified_def v4InV6Prefix_def)

lemma IsUnspecified_To4:
  assumes "To4 a \<noteq> []" "IsUnspecified (To4 a)"
  shows "IsUnspecified a"
proof -
  have "To4 a = [0, 0, 0, 0]"
    using assms To4_length [of a] IsUnspecified_4 [of "To4 a"] by auto
  then have "a = [0, 0, 0, 0] \<or> take 12 a = v4InV6Prefix \<and> drop 12 a = [0, 0, 0, 0]"
    by (auto simp: To4_def split: if_splits)
  then show ?thesis
    unfolding IsUnspecified_def by (metis append_take_drop_id)
qed

lemma IsUnspecified_To16: "IsUnspecified (To16 a) \<Longrightarrow> IsUnspecified a"
  by (auto simp: To16_def IsUnspecified_def v4InV6Prefix_def numeral_eq_Suc split: if_splits)

lemma To16_length: "To16 a = [] \<or> length (To16 a) = 16"
  by (auto simp: To16_def v4InV6Prefix_def)

lemma FSEID_marshal_wire:
  assumes "FSEID_marshal f = Inr d"
    and "FSEID_V4 f \<Longrightarrow> To4 (FSEID_Ipv4Address f) \<noteq> []"
    and "FSEID_V6 f \<Longrightarrow> To16 (FSEID_Ipv6Address f) \<noteq> []"
  shows "FSEID_wf (FSEID_wire f)" and "FSEID_marshal (FSEID_wire f) = Inr d"
proof -
  show wf: "FSEID_wf (FSEID_wire f)"
    using assms To4_length [of "FSEID_Ipv4Address f"] To16_length [of "FSEID_Ipv6Address f"]
      IsUnspecified_To4 [of "FSEID_Ipv4Address f"] IsUnspecified_To16 [of "FSEID_Ipv6Address f"]
    by (auto simp: FSEID_wf_def FSEID_wire_def FSEID_marshal_def Let_def addr4_def addr6_def
        ip_ok_simps opt_def bind_res_eq_Inr_iff split: if_splits)
  then have "ip4_ok (FSEID_V4 f) (FSEID_Ipv4Address (FSEID_wire f))"
    "ip6_ok (FSEID_V6 f) (FSEID_Ipv6Address (FSEID_wire f))"
    by (simp_all add: FSEID_wf_def FSEID_wire_def)
  then show "FSEID_marshal (FSEID_wire f) = Inr d"
    using assms(1) by (auto simp: FSEID_wire_def FSEID_marshal_def Let_def addr4_def addr6_def
        ip_ok_simps opt_def bind_res_eq_Inr_iff split: if_splits)
qed

section \<open>FTEID\<close>

record FTEID =
  FTEID_Chid :: bool
  FTEID_Ch :: bool
  FTEID_V6 :: bool
  FTEID_V4 :: bool
  FTEID_Teid :: u32
  FTEID_Ipv4Address :: ip
  FTEID_Ipv6Address :: ip
  FTEID_ChooseId :: u8

definition FTEID_new :: FTEID where
  "FTEID_new = \<lparr>FTEID_Chid = False, FTEID_Ch = False, FTEID_V6 = False, FTEID_V4 = False,
     FTEID_Teid = 0, FTEID_Ipv4Address = [], FTEID_Ipv6Address = [], FTEID_ChooseId = 0\<rparr>"

definition FTEID_marshal :: "FTEID \<Rightarrow> bytes res" where
  "FTEID_marshal f =
     (let data = [push_bit 3 (btou (FTEID_Chid f)) OR push_bit 2 (btou (FTEID_Ch f)) OR
                  push_bit 1 (btou (FTEID_V6 f)) OR btou (FTEID_V4 f)] in
      if \<not> FTEID_Ch f then
        bind_res (addr4 (FTEID_V4 f) (FTEID_Ipv4Address f) msg_v4 (data @ be_bytes 4 (FTEID_Teid f))) (\<lambda>data.
        bind_res (addr6 (FTEID_V6 f) (FTEID_Ipv6Address f) msg_v6 data) (\<lambda>data.
        bind_res (check (\<not> (\<not> FTEID_V4 f \<and> \<not> FTEID_V6 f))
          ''At least one of V4 and V6 flags shall be set'') (\<lambda>_. Inr data)))
      else Inr (if FTEID_Chid f then data @ [FTEID_ChooseId f] else data))"

definition FTEID_unmarshal :: "FTEID \<Rightarrow> slice \<Rightarrow> FTEID res" where
  "FTEID_unmarshal f data =
     bind_res (rd_u8 (start data)) (\<lambda>(b, c).
     let f = f\<lparr>FTEID_Chid := utob (b AND 8), FTEID_Ch := utob (b AND 4),
       FTEID_V6 := utob (b AND 2), FTEID_V4 := utob (b AND 1)\<rparr> in
     bind_res (if \<not> FTEID_Ch f then
         bind_res (rd_be 4 c) (\<lambda>(w, c).
         let f = f\<lparr>FTEID_Teid := w\<rparr> in
         bind_res (opt (FTEID_V4 f)
           (bind_res (rd_bytes 4 c) (\<lambda>(a, c). Inr (f\<lparr>FTEID_Ipv4Address := a\<rparr>, c))) (f, c)) (\<lambda>(f, c).
         bind_res (opt (FTEID_V6 f)
           (bind_res (rd_bytes 16 c) (\<lambda>(a, c). Inr (f\<lparr>FTEID_Ipv6Address := a\<rparr>, c))) (f, c)) (\<lambda>(f, c).
         bind_res (check (\<not> (\<not> FTEID_V4 f \<and> \<not> FTEID_V6 f)) ''None of V4 and V6 flags is set'') (\<lambda>_.
         Inr (f, c)))))
       else opt (FTEID_Chid f)
         (bind_res (rd_u8 c) (\<lambda>(b, c). Inr (f\<lparr>FTEID_ChooseId := b\<rparr>, c))) (f, c)) (\<lambda>(f, c).
     bind_res (at_end c) (\<lambda>_. Inr f)))"

definition FTEID_wf :: "FTEID \<Rightarrow> bool" where
  "FTEID_wf f \<longleftrightarrow>
     (if FTEID_Ch f
      then FTEID_Teid f = 0 \<and> FTEID_Ipv4Address f = [] \<and> FTEID_Ipv6Address f = []
        \<and> (\<not> FTEID_Chid f \<longrightarrow> FTEID_ChooseId f = 0)
      else (FTEID_V4 f \<or> FTEID_V6 f) \<and> ip4_ok (FTEID_V4 f) (FTEID_Ipv4Address f)
        \<and> ip6_ok (FTEID_V6 f) (FTEID_Ipv6Address f) \<and> FTEID_ChooseId f = 0)"

interpretation fteid: safe_binary_codec FTEID_new FTEID_marshal FTEID_unmarshal FTEID_wf
proof unfold_locales
  fix f d sp
  show "FTEID_wf f \<Longrightarrow> FTEID_marshal f = Inr d \<Longrightarrow> FTEID_unmarshal FTEID_new (Slice d sp) = Inr f"
    by (cases "FTEID_Ch f"; cases "FTEID_V4 f"; cases "FTEID_V6 f"; cases "FTEID_Chid f")
      (auto simp: FTEID_new_def FTEID_marshal_def FTEID_unmarshal_def FTEID_wf_def Let_def
        rd_simps bit_simps ip_ok_simps addr4_def addr6_def)
next
  fix f data
  show "no_panic (FTEID_unmarshal f data)"
    unfolding FTEID_unmarshal_def Let_def
    by (auto simp: bind_res_assoc intro!: rd_np_intros)
qed (auto simp: FTEID_marshal_def FTEID_wf_def Let_def)

section \<open>UEIPAddress\<close>

record UEIPAddress =
  UEIPAddress_Ipv6d :: bool
  UEIPAddress_Sd :: bool
  UEIPAddress_V4 :: bool
  UEIPAddress_V6 :: bool
  UEIPAddress_Ipv4Address :: ip
  UEIPAddress_Ipv6Address :: ip
  UEIPAddress_Ipv6PrefixDelegationBits :: u8

definition UEIPAddress_new :: UEIPAddress where
  "UEIPAddress_new = \<lparr>UEIPAddress_Ipv6d = False, UEIPAddress_Sd = False, UEIPAddress_V4 = False,
     UEIPAddress_V6 = False, UEIPAddress_Ipv4Address = [], UEIPAddress_Ipv6Address = [],
     UEIPAddress_Ipv6PrefixDelegationBits = 0\<rparr>"

definition UEIPAddress_marshal :: "UEIPAddress \<Rightarrow> bytes res" where
  "UEIPAddress_marshal u =
     (let data = [push_bit 3 (btou (UEIPAddress_Ipv6d u)) OR push_bit 2 (btou (UEIPAddress_Sd u)) OR
                  push_bit 1 (btou (UEIPAddress_V4 u)) OR btou (UEIPAddress_V6 u)] in
      bind_res (addr4 (UEIPAddress_V4 u) (UEIPAddress_Ipv4Address u) msg_v4 data) (\<lambda>data.
      bind_res (addr6 (UEIPAddress_V6 u) (UEIPAddress_Ipv6Address u) msg_v6 data) (\<lambda>data.
      Inr (if UEIPAddress_V6 u \<and> UEIPAddress_Ipv6d u
           then data @ [UEIPAddress_Ipv6PrefixDelegationBits u] else data))))"

definition UEIPAddress_unmarshal :: "UEIPAddress \<Rightarrow> slice \<Rightarrow> UEIPAddress res" where
  "UEIPAddress_unmarshal u data =
     bind_res (rd_u8 (start data)) (\<lambda>(b, c).
     let u = u\<lparr>UEIPAddress_Ipv6d := utob (b AND 8), UEIPAddress_Sd := utob (b AND 4),
       UEIPAddress_V4 := utob (b AND 2), UEIPAddress_V6 := utob (b AND 1)\<rparr> in
     bind_res (opt (UEIPAddress_V4 u)
       (bind_res (rd_bytes 4 c) (\<lambda>(a, c). Inr (u\<lparr>UEIPAddress_Ipv4Address := a\<rparr>, c))) (u, c)) (\<lambda>(u, c).
     bind_res (opt (UEIPAddress_V6 u)
       (bind_res (rd_bytes 16 c) (\<lambda>(a, c). Inr (u\<lparr>UEIPAddress_Ipv6Address := a\<rparr>, c))) (u, c)) (\<lambda>(u, c).
     bind_res (opt (UEIPAddress_V6 u \<and> UEIPAddress_Ipv6d u)
       (bind_res (rd_u8 c) (\<lambda>(b, c).
        Inr (u\<lparr>UEIPAddress_Ipv6PrefixDelegationBits := b\<rparr>, c))) (u, c)) (\<lambda>(u, c).
     bind_res (at_end c) (\<lambda>_. Inr u)))))"

definition UEIPAddress_wf :: "UEIPAddress \<Rightarrow> bool" where
  "UEIPAddress_wf u \<longleftrightarrow> ip4_ok (UEIPAddress_V4 u) (UEIPAddress_Ipv4Address u)
     \<and> ip6_ok (UEIPAddress_V6 u) (UEIPAddress_Ipv6Address u)
     \<and> (\<not> (UEIPAddress_V6 u \<and> UEIPAddress_Ipv6d u) \<longrightarrow> UEIPAddress_Ipv6PrefixDelegationBits u = 0)"

interpretation ueip: safe_binary_codec UEIPAddress_new UEIPAddress_marshal UEIPAddress_unmarshal
  UEIPAddress_wf
proof unfold_locales
  fix u d sp
  show "UEIPAddress_wf u \<Longrightarrow> UEIPAddress_marshal u = Inr d \<Longrightarrow>
    UEIPAddress_unmarshal UEIPAddress_new (Slice d sp) = Inr u"
    by (cases "UEIPAddress_V4 u"; cases "UEIPAddress_V6 u"; cases "UEIPAddress_Ipv6d u")
      (auto simp: UEIPAddress_new_def UEIPAddress_marshal_def UEIPAddress_unmarshal_def
        UEIPAddress_wf_def Let_def rd_simps bit_simps ip_ok_simps addr4_def addr6_def)
next
  fix u data
  show "no_panic (UEIPAddress_unmarshal u data)"
    unfolding UEIPAddress_unmarshal_def Let_def by (auto simp: bind_res_assoc intro!: rd_np_intros)
qed (auto simp: UEIPAddress_marshal_def UEIPAddress_wf_def Let_def)

end
