(* ===== verification/PFCP_Tunnel.thy ===== *)
theory PFCP_Tunnel
  imports PFCP_Address
begin

text \<open>
  The remaining address elements of \<^verbatim>\<open>lib/pfcp/pfcpType\<close>: the peer of a GTP-U path, the
  outer header an UPF puts on a packet, and the IP resources of an UPF.
\<close>

section \<open>RemoteGTPUPeer\<close>

record RemoteGTPUPeer =
  RemoteGTPUPeer_V4 :: bool
  RemoteGTPUPeer_V6 :: bool
  RemoteGTPUPeer_Ipv4Address :: ip
  RemoteGTPUPeer_Ipv6Address :: ip

definition RemoteGTPUPeer_new :: RemoteGTPUPeer where
  "RemoteGTPUPeer_new = \<lparr>RemoteGTPUPeer_V4 = False, RemoteGTPUPeer_V6 = False,
     RemoteGTPUPeer_Ipv4Address = [], RemoteGTPUPeer_Ipv6Address = []\<rparr>"

definition RemoteGTPUPeer_marshal :: "RemoteGTPUPeer \<Rightarrow> bytes res" where
  "RemoteGTPUPeer_marshal r =
     (let data = [push_bit 1 (btou (RemoteGTPUPeer_V4 r)) OR btou (RemoteGTPUPeer_V6 r)] in
      bind_res (addr4 (RemoteGTPUPeer_V4 r) (RemoteGTPUPeer_Ipv4Address r) msg_v4 data) (\<lambda>data.
      bind_res (addr6 (RemoteGTPUPeer_V6 r) (RemoteGTPUPeer_Ipv6Address r) msg_v6 data) (\<lambda>data.
      bind_res (check (\<not> (RemoteGTPUPeer_V4 r \<and> RemoteGTPUPeer_V6 r
          \<or> \<not> RemoteGTPUPeer_V4 r \<and> \<not> RemoteGTPUPeer_V6 r))
        ''Either V4 and V6 shall be set'') (\<lambda>_. Inr data))))"

definition RemoteGTPUPeer_unmarshal :: "RemoteGTPUPeer \<Rightarrow> slice \<Rightarrow> RemoteGTPUPeer res" where
  "RemoteGTPUPeer_unmarshal r data =
     bind_res (rd_u8 (start data)) (\<lambda>(b, c).
     let r = r\<lparr>RemoteGTPUPeer_V4 := utob (b AND 2), RemoteGTPUPeer_V6 := utob (b AND 1)\<rparr> in
     bind_res (opt (RemoteGTPUPeer_V4 r)
       (bind_res (rd_bytes 4 c) (\<lambda>(a, c). Inr (r\<lparr>RemoteGTPUPeer_Ipv4Address := a\<rparr>, c))) (r, c)) (\<lambda>(r, c).
     bind_res (opt (RemoteGTPUPeer_V6 r)
       (bind_res (rd_bytes 16 c) (\<lambda>(a, c). Inr (r\<lparr>RemoteGTPUPeer_Ipv6Address := a\<rparr>, c))) (r, c)) (\<lambda>(r, c).
     bind_res (check (\<not> (RemoteGTPUPeer_V4 r \<and> RemoteGTPUPeer_V6 r
         \<or> \<not> RemoteGTPUPeer_V4 r \<and> \<not> RemoteGTPUPeer_V6 r))
       ''Both or none of V4 and V6 is set'') (\<lambda>_.
     bind_res (at_end c) (\<lambda>_. Inr r)))))"

definition RemoteGTPUPeer_wf :: "RemoteGTPUPeer \<Rightarrow> bool" where
  "RemoteGTPUPeer_wf r \<longleftrightarrow> RemoteGTPUPeer_V4 r \<noteq> RemoteGTPUPeer_V6 r
     \<and> ip4_ok (RemoteGTPUPeer_V4 r) (RemoteGTPUPeer_Ipv4Address r)
     \<and> ip6_ok (RemoteGTPUPeer_V6 r) (RemoteGTPUPeer_Ipv6Address r)"

interpretation gtpupeer: safe_binary_codec RemoteGTPUPeer_new RemoteGTPUPeer_marshal
  RemoteGTPUPeer_unmarshal RemoteGTPUPeer_wf
proof unfold_locales
  fix r d sp
  show "RemoteGTPUPeer_wf r \<Longrightarrow> RemoteGTPUPeer_marshal r = Inr d \<Longrightarrow>
    RemoteGTPUPeer_unmarshal RemoteGTPUPeer_new (Slice d sp) = Inr r"
    by (cases "RemoteGTPUPeer_V4 r"; cases "RemoteGTPUPeer_V6 r")
      (auto simp: RemoteGTPUPeer_new_def RemoteGTPUPeer_marshal_def RemoteGTPUPeer_unmarshal_def
        RemoteGTPUPeer_wf_def Let_def rd_simps bit_simps ip_ok_simps addr4_def addr6_def)
next
  fix r data
  show "no_panic (RemoteGTPUPeer_unmarshal r data)"
    unfolding RemoteGTPUPeer_unmarshal_def Let_def by (auto simp: bind_res_assoc intro!: rd_np_intros)
qed (auto simp: RemoteGTPUPeer_marshal_def RemoteGTPUPeer_wf_def Let_def)

section \<open>OuterHeaderCreation\<close>

record OuterHeaderCreation =
  OHC_OuterHeaderCreationDescription :: u16
  OHC_Teid :: u32
  OHC_Ipv4Address :: ip
  OHC_Ipv6Address :: ip
  OHC_PortNumber :: u16

definition OuterHeaderCreation_new :: OuterHeaderCreation where
  "OuterHeaderCreation_new = \<lparr>OHC_OuterHeaderCreationDescription = 0, OHC_Teid = 0,
     OHC_Ipv4Address = [], OHC_Ipv6Address = [], OHC_PortNumber = 0\<rparr>"

text \<open>The local variables \<^verbatim>\<open>GtpU\<close>, \<^verbatim>\<open>Udp\<close>, \<^verbatim>\<open>Ipv4\<close>, \<^verbatim>\<open>Ipv6\<close> of both methods.\<close>

definition octet5 :: "u16 \<Rightarrow> u8" where
  "octet5 d = ucast (d AND mask 8)"

definition ohc_GtpU :: "u16 \<Rightarrow> bool" where
  "ohc_GtpU d \<longleftrightarrow> utob (octet5 d AND 1) \<or> utob (octet5 d AND 2)"

definition ohc_Udp :: "u16 \<Rightarrow> bool" where
  "ohc_Udp d \<longleftrightarrow> utob (octet5 d AND 4) \<or> utob (octet5 d AND 8)"

definition ohc_Ipv4 :: "u16 \<Rightarrow> bool" where
  "ohc_Ipv4 d \<longleftrightarrow> utob (octet5 d AND 1) \<or> utob (octet5 d AND 4)"

definition ohc_Ipv6 :: "u16 \<Rightarrow> bool" where
  "ohc_Ipv6 d \<longleftrightarrow> utob (octet5 d AND 2) \<or> utob (octet5 d AND 8)"

text \<open>\<^verbatim>\<open>PutUint(data[idx:], ..)\<close>: it panics when the octets do not lie in the slice.\<close>

definition put_at :: "bytes \<Rightarrow> nat \<Rightarrow> bytes \<Rightarrow> bytes res" where
  "put_at data idx bs = (if idx + length bs \<le> length data
     then Inr (take idx data @ bs @ drop (idx + length bs) data) else Inl Panic)"

definition OuterHeaderCreation_marshal :: "OuterHeaderCreation \<Rightarrow> bytes res" where
  "OuterHeaderCreation_marshal h =
     (let d = OHC_OuterHeaderCreationDescription h in
      bind_res (check (\<not> (\<not> ohc_GtpU d \<and> \<not> ohc_Udp d))
        ''At least one bit of outer header description field shall be set'') (\<lambda>_.
      let data = le_bytes 2 d; idx = 2 in
      bind_res (opt (ohc_GtpU d)
        (bind_res (put_at (data @ replicate 4 0) idx (be_bytes 4 (OHC_Teid h))) (\<lambda>data.
         Inr (data, idx + 4))) (data, idx)) (\<lambda>(data, idx).
      bind_res (addr4 (ohc_Ipv4 d) (OHC_Ipv4Address h) ''IPv4 address shall be present'' data) (\<lambda>data.
      let idx = (if ohc_Ipv4 d then idx + 4 else idx) in
      bind_res (addr6 (ohc_Ipv6 d) (OHC_Ipv6Address h) ''IPv6 address shall be present'' data) (\<lambda>data.
      let idx = (if ohc_Ipv6 d then idx + 16 else idx) in
      opt (ohc_Udp d) (put_at (data @ replicate 2 0) idx (be_bytes 2 (OHC_PortNumber h))) data)))))"

definition OuterHeaderCreation_unmarshal ::
    "OuterHeaderCreation \<Rightarrow> slice \<Rightarrow> OuterHeaderCreation res" where
  "OuterHeaderCreation_unmarshal h data =
     bind_res (rd_le 2 (start data)) (\<lambda>(d, c).
     let h = h\<lparr>OHC_OuterHeaderCreationDescription := d\<rparr> in
     bind_res (check (\<not> (\<not> ohc_GtpU d \<and> \<not> ohc_Udp d))
       ''None of outer header description field is set'') (\<lambda>_.
     bind_res (opt (ohc_GtpU d)
       (bind_res (rd_be 4 c) (\<lambda>(w, c). Inr (h\<lparr>OHC_Teid := w\<rparr>, c))) (h, c)) (\<lambda>(h, c).
     bind_res (opt (ohc_Ipv4 d)
       (bind_res (rd_bytes 4 c) (\<lambda>(a, c). Inr (h\<lparr>OHC_Ipv4Address := a\<rparr>, c))) (h, c)) (\<lambda>(h, c).
     bind_res (opt (ohc_Ipv6 d)
       (bind_res (rd_bytes 16 c) (\<lambda>(a, c). Inr (h\<lparr>OHC_Ipv6Address := a\<rparr>, c))) (h, c)) (\<lambda>(h, c).
     bind_res (opt (ohc_Udp d)
       (bind_res (rd_be 2 c) (\<lambda>(w, c). Inr (h\<lparr>OHC_PortNumber := w\<rparr>, c))) (h, c)) (\<lambda>(h, c).
     bind_res (at_end c) (\<lambda>_. Inr h)))))))"

definition OuterHeaderCreation_wf :: "OuterHeaderCreation \<Rightarrow> bool" where
  "OuterHeaderCreation_wf h \<longleftrightarrow>
     (let d = OHC_OuterHeaderCreationDescription h in
      (ohc_GtpU d \<or> ohc_Udp d) \<and> ip4_ok (ohc_Ipv4 d) (OHC_Ipv4Address h)
      \<and> ip6_ok (ohc_Ipv6 d) (OHC_Ipv6Address h)
      \<and> (\<not> ohc_GtpU d \<longrightarrow> OHC_Teid h = 0) \<and> (\<not> ohc_Udp d \<longrightarrow> OHC_PortNumber h = 0))"

lemma put_at_end [simp]:
  "length bs = n \<Longrightarrow> k = length data \<Longrightarrow> put_at (data @ replicate n 0) k bs = Inr (data @ bs)"
  by (simp add: put_at_def)

lemma OuterHeaderCreation_marshal_wf:
  assumes "OuterHeaderCreation_wf h"
  shows "OuterHeaderCreation_marshal h =
    (let d = OHC_OuterHeaderCreationDescription h in
     Inr (le_bytes 2 d @ (if ohc_GtpU d then be_bytes 4 (OHC_Teid h) else []) @
       OHC_Ipv4Address h @ OHC_Ipv6Address h @
       (if ohc_Udp d then be_bytes 2 (OHC_PortNumber h) else [])))"
  using assms
  by (cases "ohc_Ipv4 (OHC_OuterHeaderCreationDescription h)";
      cases "ohc_Ipv6 (OHC_OuterHeaderCreationDescription h)")
    (auto simp: OuterHeaderCreation_marshal_def OuterHeaderCreation_wf_def Let_def ip_ok_simps
      addr4_def addr6_def opt_def simp flip: append_assoc)

interpretation ohc: safe_binary_codec OuterHeaderCreation_new OuterHeaderCreation_marshal
  OuterHeaderCreation_unmarshal OuterHeaderCreation_wf
proof unfold_locales
  fix h d sp
  assume wf: "OuterHeaderCreation_wf h" and d: "OuterHeaderCreation_marshal h = Inr d"
  show "OuterHeaderCreation_unmarshal OuterHeaderCreation_new (Slice d sp) = Inr h"
    using wf d unfolding OuterHeaderCreation_marshal_wf [OF wf]
    by (cases "ohc_Ipv4 (OHC_OuterHeaderCreationDescription h)";
        cases "ohc_Ipv6 (OHC_OuterHeaderCreationDescription h)";
        cases "ohc_GtpU (OHC_OuterHeaderCreationDescription h)";
        cases "ohc_Udp (OHC_OuterHeaderCreationDescription h)")
      (auto simp: OuterHeaderCreation_unmarshal_def OuterHeaderCreation_wf_def
        OuterHeaderCreation_new_def Let_def rd_simps ip_ok_simps)
next
  fix h data
  show "no_panic (OuterHeaderCreation_unmarshal h data)"
    unfolding OuterHeaderCreation_unmarshal_def Let_def
    by (auto simp: bind_res_assoc intro!: rd_np_intros)
qed (simp add: OuterHeaderCreation_marshal_wf Let_def)

text \<open>
  The index counts the address even when \<^verbatim>\<open>To4()\<close> is nil: with a UDP/IPv4 description and no
  address the port is written past the end of the slice.
\<close>

lemma OuterHeaderCreation_marshal_nil_panics:
  assumes "OHC_OuterHeaderCreationDescription h = 4" "To4 (OHC_Ipv4Address h) = []"
    "\<not> IsUnspecified (OHC_Ipv4Address h)"
  shows "OuterHeaderCreation_marshal h = Inl Panic"
  using assms by (simp add: OuterHeaderCreation_marshal_def ohc_GtpU_def ohc_Udp_def ohc_Ipv4_def
      ohc_Ipv6_def octet5_def addr4_def addr6_def put_at_def Let_def bit_simps)

section \<open>UserPlaneIPResourceInformation\<close>

record UserPlaneIPResourceInformation =
  UPIP_Assosi :: bool
  UPIP_Assoni :: bool
  UPIP_Teidri :: u8
  UPIP_V6 :: bool
  UPIP_V4 :: bool
  UPIP_TeidRange :: u8
  UPIP_Ipv4Address :: ip
  UPIP_Ipv6Address :: ip
  UPIP_NetworkInstance :: Dnn
  UPIP_SourceInterface :: u8

definition UserPlaneIPResourceInformation_new :: UserPlaneIPResourceInformation where
  "UserPlaneIPResourceInformation_new = \<lparr>UPIP_Assosi = False, UPIP_Assoni = False, UPIP_Teidri = 0,
     UPIP_V6 = False, UPIP_V4 = False, UPIP_TeidRange = 0, UPIP_Ipv4Address = [],
     UPIP_Ipv6Address = [], UPIP_NetworkInstance = [], UPIP_SourceInterface = 0\<rparr>"

definition UPIP_octet5 :: "UserPlaneIPResourceInformation \<Rightarrow> u8" where
  "UPIP_octet5 u = push_bit 6 (btou (UPIP_Assosi u)) OR push_bit 5 (btou (UPIP_Assoni u)) OR
     push_bit 2 (UPIP_Teidri u) OR push_bit 1 (btou (UPIP_V6 u)) OR btou (UPIP_V4 u)"

definition UserPlaneIPResourceInformation_marshal :: "UserPlaneIPResourceInformation \<Rightarrow> bytes res" where
  "UserPlaneIPResourceInformation_marshal u =
     bind_res (check (\<not> bits_Len (UPIP_Teidri u) > 3)
       ''TEIDRI shall not be greater than 3 bits binary integer'') (\<lambda>_.
     let data = [UPIP_octet5 u];
         data = (if UPIP_Teidri u \<noteq> 0 then data @ [UPIP_TeidRange u] else data) in
     bind_res (addr4 (UPIP_V4 u) (UPIP_Ipv4Address u) msg_v4 data) (\<lambda>data.
     bind_res (addr6 (UPIP_V6 u) (UPIP_Ipv6Address u) msg_v6 data) (\<lambda>data.
     bind_res (check (\<not> (\<not> UPIP_V4 u \<and> \<not> UPIP_V6 u))
       ''At least one of V4 and V6 flags shall be set'') (\<lambda>_.
     bind_res (opt (UPIP_Assoni u)
       (bind_res (Dnn_marshal (UPIP_NetworkInstance u)) (\<lambda>b. Inr (data @ b))) data) (\<lambda>data.
     opt (UPIP_Assosi u)
       (bind_res (check (\<not> bits_Len (UPIP_SourceInterface u) > 4)
          ''Source interface shall not be greater than 4 bits binary integer'') (\<lambda>_.
        Inr (data @ [UPIP_SourceInterface u]))) data)))))"

text \<open>
  The source interface is the last octet, taken off before the network instance is read from
  what is left; the check before the network instance still compares with the old length.
\<close>

definition UserPlaneIPResourceInformation_tail ::
    "UserPlaneIPResourceInformation \<Rightarrow> cursor \<Rightarrow> UserPlaneIPResourceInformation res" where
  "UserPlaneIPResourceInformation_tail u c =
     bind_res (opt (UPIP_Assosi u)
       (bind_res (need 1 c) (\<lambda>_.
        bind_res (sl_at (cdata c) (unat (clen c - 1))) (\<lambda>b.
        bind_res (sl_range (cdata c) 0 (unat (clen c - 1))) (\<lambda>data.
        Inr (u\<lparr>UPIP_SourceInterface := b AND mask 4\<rparr>, data))))) (u, cdata c)) (\<lambda>(u, data).
     opt (UPIP_Assoni u)
       (bind_res (need 1 c) (\<lambda>_.
        bind_res (sl_from data (unat (cidx c))) (\<lambda>s.
        bind_res (Dnn_unmarshal (UPIP_NetworkInstance u) s) (\<lambda>d.
        Inr (u\<lparr>UPIP_NetworkInstance := d\<rparr>))))) u)"

definition UserPlaneIPResourceInformation_unmarshal ::
    "UserPlaneIPResourceInformation \<Rightarrow> slice \<Rightarrow> UserPlaneIPResourceInformation res" where
  "UserPlaneIPResourceInformation_unmarshal u data =
     bind_res (rd_u8 (start data)) (\<lambda>(b, c).
     let u = u\<lparr>UPIP_Assosi := utob (b AND 64), UPIP_Assoni := utob (b AND 32),
       UPIP_Teidri := drop_bit 2 b AND mask 3, UPIP_V6 := utob (b AND 2), UPIP_V4 := utob (b AND 1)\<rparr> in
     bind_res (opt (UPIP_Teidri u \<noteq> 0)
       (bind_res (rd_u8 c) (\<lambda>(b, c). Inr (u\<lparr>UPIP_TeidRange := b\<rparr>, c))) (u, c)) (\<lambda>(u, c).
     bind_res (opt (UPIP_V4 u)
       (bind_res (rd_bytes 4 c) (\<lambda>(a, c). Inr (u\<lparr>UPIP_Ipv4Address := a\<rparr>, c))) (u, c)) (\<lambda>(u, c).
     bind_res (opt (UPIP_V6 u)
       (bind_res (rd_bytes 16 c) (\<lambda>(a, c). Inr (u\<lparr>UPIP_Ipv6Address := a\<rparr>, c))) (u, c)) (\<lambda>(u, c).
     bind_res (check (\<not> (\<not> UPIP_V4 u \<and> \<not> UPIP_V6 u)) ''None of V4 and V6 flags is set'') (\<lambda>_.
     UserPlaneIPResourceInformation_tail u c)))))"

definition UserPlaneIPResourceInformation_wf :: "UserPlaneIPResourceInformation \<Rightarrow> bool" where
  "UserPlaneIPResourceInformation_wf u \<longleftrightarrow> bits_Len (UPIP_Teidri u) \<le> 3
     \<and> (UPIP_Teidri u = 0 \<longrightarrow> UPIP_TeidRange u = 0) \<and> (UPIP_V4 u \<or> UPIP_V6 u)
     \<and> ip4_ok (UPIP_V4 u) (UPIP_Ipv4Address u) \<and> ip6_ok (UPIP_V6 u) (UPIP_Ipv6Address u)
     \<and> length (UPIP_NetworkInstance u) < 65000 \<and> (\<not> UPIP_Assoni u \<longrightarrow> UPIP_NetworkInstance u = [])
     \<and> (if UPIP_Assosi u then bits_Len (UPIP_SourceInterface u) \<le> 4 else UPIP_SourceInterface u = 0)"

text \<open>The first octet keeps its five fields apart.\<close>

lemma UPIP_octet5_fields:
  assumes "unat (UPIP_Teidri u) < 8"
  shows "bit (UPIP_octet5 u) 6 = UPIP_Assosi u" "bit (UPIP_octet5 u) 5 = UPIP_Assoni u"
    "drop_bit 2 (UPIP_octet5 u) AND mask 3 = UPIP_Teidri u"
    "bit (UPIP_octet5 u) (Suc 0) = UPIP_V6 u" "bit (UPIP_octet5 u) 0 = UPIP_V4 u"
proof -
  have t: "i < 3" if "bit (UPIP_Teidri u) i" for i
    using assms that take_bit_id [of "UPIP_Teidri u" 3] bit_take_bit_iff [of 3 "UPIP_Teidri u" i] by simp
  show "bit (UPIP_octet5 u) 6 = UPIP_Assosi u" "bit (UPIP_octet5 u) 5 = UPIP_Assoni u"
    "bit (UPIP_octet5 u) (Suc 0) = UPIP_V6 u" "bit (UPIP_octet5 u) 0 = UPIP_V4 u"
    using t [of 4] t [of 3] by (auto simp: UPIP_octet5_def bit_simps)
  show "drop_bit 2 (UPIP_octet5 u) AND mask 3 = UPIP_Teidri u"
    by (rule bit_word_eqI) (auto simp: UPIP_octet5_def bit_simps dest: t)
qed

lemma need_one_at_split:
  "r \<noteq> [] \<Longrightarrow> length pre + length r < 65536 \<Longrightarrow> need 1 (at_split pre r sp) = Inr ()"
  using need_at_split [of pre 1 r sp] by (cases r) simp_all

lemma clen_at_split_snoc:
  "length pre + length r < 65535 \<Longrightarrow>
   unat (clen (at_split pre (r @ [x]) sp) - 1) = length pre + length r"
  using unat_of_nat_16 [of "length pre + length r"] by (simp add: clen_def at_split_def)

lemma UPIP_tail:
  assumes "length pre + length ni < 65500" and "UPIP_Assosi v \<Longrightarrow> unat si < 16"
  shows "UserPlaneIPResourceInformation_tail v (at_split pre
     ((if UPIP_Assoni v then of_nat (length ni) # ni else []) @ (if UPIP_Assosi v then [si] else [])) sp)
   = Inr (v\<lparr>UPIP_SourceInterface := (if UPIP_Assosi v then si else UPIP_SourceInterface v),
       UPIP_NetworkInstance := (if UPIP_Assoni v then ni else UPIP_NetworkInstance v)\<rparr>)"
proof -
  note eval = UserPlaneIPResourceInformation_tail_def need_one_at_split cidx_at_split go_simps
    Dnn_unmarshal_def and_mask_id [of _ 4, simplified] nth_append
  have "unat (clen (at_split pre [si] sp) - 1) = length pre"
    using assms(1) clen_at_split_snoc [of pre "[]" si sp] by simp
  moreover have "unat (clen (at_split pre (of_nat (length ni) # ni @ [si]) sp) - 1) = length pre + Suc (length ni)"
    using assms(1) clen_at_split_snoc [of pre "of_nat (length ni) # ni" si sp] by simp
  ultimately show ?thesis
    using assms by (cases "UPIP_Assosi v"; cases "UPIP_Assoni v") (simp_all add: eval)
qed

text \<open>What \<^verbatim>\<open>MarshalBinary\<close> writes for a well-formed value.\<close>

lemma UPIP_marshal_wf:
  assumes "UserPlaneIPResourceInformation_wf u"
  shows "UserPlaneIPResourceInformation_marshal u = Inr (
     [UPIP_octet5 u] @ (if UPIP_Teidri u \<noteq> 0 then [UPIP_TeidRange u] else []) @
     UPIP_Ipv4Address u @ UPIP_Ipv6Address u @
     (if UPIP_Assoni u then of_nat (length (UPIP_NetworkInstance u)) # UPIP_NetworkInstance u else []) @
     (if UPIP_Assosi u then [UPIP_SourceInterface u] else []))"
  using assms
  by (auto simp: UserPlaneIPResourceInformation_marshal_def UserPlaneIPResourceInformation_wf_def
      Let_def bits_Len_iff Dnn_marshal_def opt_def)

interpretation upip: binary_codec UserPlaneIPResourceInformation_new
  UserPlaneIPResourceInformation_marshal UserPlaneIPResourceInformation_unmarshal
  UserPlaneIPResourceInformation_wf
proof unfold_locales
  fix u d sp
  assume wf: "UserPlaneIPResourceInformation_wf u"
    and d: "UserPlaneIPResourceInformation_marshal u = Inr d"
  have fields: "bit (UPIP_octet5 u) 6 = UPIP_Assosi u" "bit (UPIP_octet5 u) 5 = UPIP_Assoni u"
    "drop_bit 2 (UPIP_octet5 u) AND mask 3 = UPIP_Teidri u"
    "bit (UPIP_octet5 u) (Suc 0) = UPIP_V6 u" "bit (UPIP_octet5 u) 0 = UPIP_V4 u"
    using wf by (intro UPIP_octet5_fields; simp add: UserPlaneIPResourceInformation_wf_def bits_Len_iff)+
  define tail where "tail =
     (if UPIP_Assoni u then of_nat (length (UPIP_NetworkInstance u)) # UPIP_NetworkInstance u else []) @
     (if UPIP_Assosi u then [UPIP_SourceInterface u] else [])"
  have read: "UserPlaneIPResourceInformation_tail v (at_split pre tail sp) =
      Inr (v\<lparr>UPIP_SourceInterface := (if UPIP_Assosi u then UPIP_SourceInterface u else UPIP_SourceInterface v),
        UPIP_NetworkInstance := (if UPIP_Assoni u then UPIP_NetworkInstance u else UPIP_NetworkInstance v)\<rparr>)"
    if "length pre < 100" "UPIP_Assosi v = UPIP_Assosi u" "UPIP_Assoni v = UPIP_Assoni u" for v pre
    unfolding tail_def using that wf UPIP_tail [of pre "UPIP_NetworkInstance u" v "UPIP_SourceInterface u" sp]
    by (simp add: UserPlaneIPResourceInformation_wf_def bits_Len_iff split: if_splits)
  have len: "length tail < 65100"
    using wf by (auto simp: tail_def UserPlaneIPResourceInformation_wf_def)
  have d: "d = [UPIP_octet5 u] @ (if UPIP_Teidri u \<noteq> 0 then [UPIP_TeidRange u] else []) @
      UPIP_Ipv4Address u @ UPIP_Ipv6Address u @ tail"
    using d unfolding UPIP_marshal_wf [OF wf] tail_def by simp
  note eval = UserPlaneIPResourceInformation_unmarshal_def UserPlaneIPResourceInformation_new_def
    UserPlaneIPResourceInformation_wf_def Let_def rd_simps ip_ok_simps
  show "UserPlaneIPResourceInformation_unmarshal UserPlaneIPResourceInformation_new (Slice d sp) = Inr u"
    using wf len unfolding d
    by (cases "UPIP_V4 u"; cases "UPIP_V6 u"; cases "UPIP_Teidri u = 0")
      (auto simp: eval fields read split: if_splits intro!: UserPlaneIPResourceInformation.equality)
qed (simp add: UPIP_marshal_wf)

text \<open>
  When both associations are announced and one octet is left, the source interface takes it
  and the network instance is read from nothing.
\<close>

lemma UPIP_unmarshal_panics:
  assumes "length a = 4"
  shows "UserPlaneIPResourceInformation_unmarshal u (Slice ([0x61] @ a @ [x]) sp) = Inl Panic"
proof -
  have "unat (clen (at_split (0x61 # a) [x] sp) - 1) = 5"
    using assms clen_at_split_snoc [of "0x61 # a" "[]" x sp] by simp
  moreover have "(24 :: u8) AND mask 3 = 0"
    by (simp add: mask_eq_exp_minus_1)
  ultimately show ?thesis
    using assms
    by (simp add: UserPlaneIPResourceInformation_unmarshal_def UserPlaneIPResourceInformation_tail_def
        Let_def rd_simps bit_simps need_one_at_split cidx_at_split go_simps nth_append
        Dnn_unmarshal_def sl_from_def)
qed

end
