(* ===== verification/PFCP_Time.thy ===== *)
theory PFCP_Time
  imports PFCP_Reader Complex_Main
begin

text \<open>
  The information elements of \<^verbatim>\<open>lib/pfcp/pfcpType\<close> that hold a point in time. The wire format
  is the number of seconds since 1900 in 32 bits; \<^verbatim>\<open>MarshalBinary\<close> goes through
  \<^verbatim>\<open>Duration.Seconds()\<close>, a \<^verbatim>\<open>float64\<close>, and the conversion to \<^verbatim>\<open>uint32\<close>. A \<^verbatim>\<open>time.Time\<close> is
  its distance from \<^verbatim>\<open>BASE_DATE_NTP_ERA0\<close> in nanoseconds.
\<close>

section \<open>The part of package \<^verbatim>\<open>time\<close> and of \<^verbatim>\<open>float64\<close> in use\<close>

type_synonym time = int

definition Second :: int where "Second = 1000000000"

text \<open>\<^verbatim>\<open>t.Sub(BASE_DATE_NTP_ERA0)\<close> saturates at the range of \<^verbatim>\<open>int64\<close>.\<close>

definition Sub_base :: "time \<Rightarrow> int" where
  "Sub_base t = max (- (2 ^ 63)) (min (2 ^ 63 - 1) t)"

text \<open>
  Rounding to 53 significant bits, to nearest and ties to even. Only non-negative numbers of
  moderate size occur, so that neither overflow nor subnormal numbers arise.
\<close>

definition round_even :: "rat \<Rightarrow> int" where
  "round_even q = (let n = \<lfloor>q\<rfloor>; r = q - of_int n in
     if r < 1 / 2 then n else if r > 1 / 2 then n + 1 else if even n then n else n + 1)"

definition f64_round :: "rat \<Rightarrow> rat" where
  "f64_round q = (if q \<le> 0 then 0 else if q < 1
     then of_int (round_even (q * 2 ^ (52 + nat_len (nat \<lfloor>1 / q\<rfloor>)))) / 2 ^ (52 + nat_len (nat \<lfloor>1 / q\<rfloor>))
     else if nat_len (nat \<lfloor>q\<rfloor>) \<le> 53
     then of_int (round_even (q * 2 ^ (53 - nat_len (nat \<lfloor>q\<rfloor>)))) / 2 ^ (53 - nat_len (nat \<lfloor>q\<rfloor>))
     else of_int (round_even (q / 2 ^ (nat_len (nat \<lfloor>q\<rfloor>) - 53))) * 2 ^ (nat_len (nat \<lfloor>q\<rfloor>) - 53))"

text \<open>\<^verbatim>\<open>d.Seconds()\<close> for a duration that is not negative.\<close>

definition Seconds :: "int \<Rightarrow> rat" where
  "Seconds d = f64_round (of_int (d div Second) + f64_round (of_int (d mod Second) / of_int Second))"

text \<open>
  \<^verbatim>\<open>uint32(f)\<close> drops the fraction. Outside the range of \<^verbatim>\<open>uint32\<close> (before 1900, from
  2036-02-07 on) the language leaves the result open; here it is that of amd64, where the
  conversion goes through \<^verbatim>\<open>int64\<close> and keeps the low 32 bits.
\<close>

definition time_u32 :: "time \<Rightarrow> u32" where
  "time_u32 t = (let d = Sub_base t in
     if 0 \<le> d then of_int \<lfloor>Seconds d\<rfloor> else - of_int \<lfloor>Seconds (- d)\<rfloor>)"

text \<open>\<^verbatim>\<open>BASE_DATE_NTP_ERA0.Add(time.Duration(n) * time.Second)\<close>; the product fits \<^verbatim>\<open>int64\<close>.\<close>

definition Add_seconds :: "u32 \<Rightarrow> time" where
  "Add_seconds n = uint n * Second"

definition whole_second :: "time \<Rightarrow> bool" where
  "whole_second t \<longleftrightarrow> 0 \<le> t \<and> t mod Second = 0 \<and> t div Second < 2 ^ 32"

lemma round_even_of_int [simp]: "round_even (of_int n) = n"
  by (simp add: round_even_def)

lemma f64_round_nat: "f64_round (of_nat n) = of_nat n" if "n < 2 ^ 53"
proof (cases "n = 0")
  case False
  have "nat_len n \<le> 53" using that by (simp add: nat_len_le_iff)
  moreover have "round_even (of_nat n * 2 ^ k) = int n * 2 ^ k" for k
    using round_even_of_int [of "int n * 2 ^ k"] by simp
  ultimately show ?thesis using False by (simp add: f64_round_def)
qed (simp add: f64_round_def)

lemma Seconds_whole: "whole_second t \<Longrightarrow> Seconds t = of_int (t div Second)"
proof -
  assume t: "whole_second t"
  then obtain n where n: "t div Second = int n" "n < 2 ^ 32"
    by (metis nonneg_int_cases pos_imp_zdiv_nonneg_iff whole_second_def Second_def
        of_nat_less_numeral_power_cancel_iff zero_less_numeral)
  then show ?thesis
    using t f64_round_nat [of n] by (simp add: Seconds_def whole_second_def f64_round_def [of 0])
qed

lemma time_u32_whole: "whole_second t \<Longrightarrow> Add_seconds (time_u32 t) = t"
proof -
  assume t: "whole_second t"
  have "t div Second * Second = t"
    using t div_mult_mod_eq [of t Second] by (simp add: whole_second_def)
  moreover have "Sub_base t = t" "0 \<le> t div Second"
    using t by (auto simp: Sub_base_def whole_second_def Second_def)
  ultimately show ?thesis
    using t Seconds_whole [OF t]
    by (simp add: Add_seconds_def time_u32_def Let_def whole_second_def uint_word_of_int_eq take_bit_int_eq_self)
qed

section \<open>The elements\<close>

text \<open>The zero \<^verbatim>\<open>time.Time\<close> is 1 January of the year 1: 59926608000 seconds before 1900.\<close>

definition time_zero :: time where
  "time_zero = - 59926608000 * Second"

record EndTime = EndTime_EndTime :: time

definition EndTime_new :: EndTime where
  "EndTime_new = \<lparr>EndTime_EndTime = time_zero\<rparr>"

definition EndTime_marshal :: "EndTime \<Rightarrow> bytes res" where
  "EndTime_marshal v = Inr (be_bytes 4 (time_u32 (EndTime_EndTime v)))"

definition EndTime_unmarshal :: "EndTime \<Rightarrow> slice \<Rightarrow> EndTime res" where
  "EndTime_unmarshal v data =
     bind_res (rd_be 4 (start data)) (\<lambda>(duration, c).
     bind_res (at_end c) (\<lambda>_. Inr (v\<lparr>EndTime_EndTime := Add_seconds duration\<rparr>)))"

interpretation endtime: safe_binary_codec EndTime_new EndTime_marshal EndTime_unmarshal
  "\<lambda>v. whole_second (EndTime_EndTime v)"
  by unfold_locales (auto simp: EndTime_new_def EndTime_marshal_def EndTime_unmarshal_def rd_simps time_u32_whole
    intro!: rd_np_intros)

record StartTime = StartTime_StartTime :: time

definition StartTime_new :: StartTime where
  "StartTime_new = \<lparr>StartTime_StartTime = time_zero\<rparr>"

definition StartTime_marshal :: "StartTime \<Rightarrow> bytes res" where
  "StartTime_marshal v = Inr (be_bytes 4 (time_u32 (StartTime_StartTime v)))"

definition StartTime_unmarshal :: "StartTime \<Rightarrow> slice \<Rightarrow> StartTime res" where
  "StartTime_unmarshal v data =
     bind_res (rd_be 4 (start data)) (\<lambda>(duration, c).
     bind_res (at_end c) (\<lambda>_. Inr (v\<lparr>StartTime_StartTime := Add_seconds duration\<rparr>)))"

interpretation starttime: safe_binary_codec StartTime_new StartTime_marshal StartTime_unmarshal
  "\<lambda>v. whole_second (StartTime_StartTime v)"
  by unfold_locales (auto simp: StartTime_new_def StartTime_marshal_def StartTime_unmarshal_def rd_simps time_u32_whole
    intro!: rd_np_intros)

record MonitoringTime = MonitoringTime_MonitoringTime :: time

definition MonitoringTime_new :: MonitoringTime where
  "MonitoringTime_new = \<lparr>MonitoringTime_MonitoringTime = time_zero\<rparr>"

definition MonitoringTime_marshal :: "MonitoringTime \<Rightarrow> bytes res" where
  "MonitoringTime_marshal v = Inr (be_bytes 4 (time_u32 (MonitoringTime_MonitoringTime v)))"

definition MonitoringTime_unmarshal :: "MonitoringTime \<Rightarrow> slice \<Rightarrow> MonitoringTime res" where
  "MonitoringTime_unmarshal v data =
     bind_res (rd_be 4 (start data)) (\<lambda>(duration, c).
     bind_res (at_end c) (\<lambda>_. Inr (v\<lparr>MonitoringTime_MonitoringTime := Add_seconds duration\<rparr>)))"

interpretation montime: safe_binary_codec MonitoringTime_new MonitoringTime_marshal MonitoringTime_unmarshal
  "\<lambda>v. whole_second (MonitoringTime_MonitoringTime v)"
  by unfold_locales (auto simp: MonitoringTime_new_def MonitoringTime_marshal_def MonitoringTime_unmarshal_def rd_simps time_u32_whole
    intro!: rd_np_intros)

record RecoveryTimeStamp = RecoveryTimeStamp_RecoveryTimeStamp :: time

definition RecoveryTimeStamp_new :: RecoveryTimeStamp where
  "RecoveryTimeStamp_new = \<lparr>RecoveryTimeStamp_RecoveryTimeStamp = time_zero\<rparr>"

definition RecoveryTimeStamp_marshal :: "RecoveryTimeStamp \<Rightarrow> bytes res" where
  "RecoveryTimeStamp_marshal v = Inr (be_bytes 4 (time_u32 (RecoveryTimeStamp_RecoveryTimeStamp v)))"

definition RecoveryTimeStamp_unmarshal :: "RecoveryTimeStamp \<Rightarrow> slice \<Rightarrow> RecoveryTimeStamp res" where
  "RecoveryTimeStamp_unmarshal v data =
     bind_res (rd_be 4 (start data)) (\<lambda>(duration, c).
     bind_res (at_end c) (\<lambda>_. Inr (v\<lparr>RecoveryTimeStamp_RecoveryTimeStamp := Add_seconds duration\<rparr>)))"

interpretation recovery: safe_binary_codec RecoveryTimeStamp_new RecoveryTimeStamp_marshal RecoveryTimeStamp_unmarshal
  "\<lambda>v. whole_second (RecoveryTimeStamp_RecoveryTimeStamp v)"
  by unfold_locales (auto simp: RecoveryTimeStamp_new_def RecoveryTimeStamp_marshal_def RecoveryTimeStamp_unmarshal_def rd_simps time_u32_whole
    intro!: rd_np_intros)

record TimeOfFirstPacket = TimeOfFirstPacket_TimeOfFirstPacket :: time

definition TimeOfFirstPacket_new :: TimeOfFirstPacket where
  "TimeOfFirstPacket_new = \<lparr>TimeOfFirstPacket_TimeOfFirstPacket = time_zero\<rparr>"

definition TimeOfFirstPacket_marshal :: "TimeOfFirstPacket \<Rightarrow> bytes res" where
  "TimeOfFirstPacket_marshal v = Inr (be_bytes 4 (time_u32 (TimeOfFirstPacket_TimeOfFirstPacket v)))"

definition TimeOfFirstPacket_unmarshal :: "TimeOfFirstPacket \<Rightarrow> slice \<Rightarrow> TimeOfFirstPacket res" where
  "TimeOfFirstPacket_unmarshal v data =
     bind_res (rd_be 4 (start data)) (\<lambda>(duration, c).
     bind_res (at_end c) (\<lambda>_. Inr (v\<lparr>TimeOfFirstPacket_TimeOfFirstPacket := Add_seconds duration\<rparr>)))"

interpretation firstpkt: safe_binary_codec TimeOfFirstPacket_new TimeOfFirstPacket_marshal TimeOfFirstPacket_unmarshal
  "\<lambda>v. whole_second (TimeOfFirstPacket_TimeOfFirstPacket v)"
  by unfold_locales (auto simp: TimeOfFirstPacket_new_def TimeOfFirstPacket_marshal_def TimeOfFirstPacket_unmarshal_def rd_simps time_u32_whole
    intro!: rd_np_intros)

record TimeOfLastPacket = TimeOfLastPacket_TimeOfLastPacket :: time

definition TimeOfLastPacket_new :: TimeOfLastPacket where
  "TimeOfLastPacket_new = \<lparr>TimeOfLastPacket_TimeOfLastPacket = time_zero\<rparr>"

definition TimeOfLastPacket_marshal :: "TimeOfLastPacket \<Rightarrow> bytes res" where
  "TimeOfLastPacket_marshal v = Inr (be_bytes 4 (time_u32 (TimeOfLastPacket_TimeOfLastPacket v)))"

definition TimeOfLastPacket_unmarshal :: "TimeOfLastPacket \<Rightarrow> slice \<Rightarrow> TimeOfLastPacket res" where
  "TimeOfLastPacket_unmarshal v data =
     bind_res (rd_be 4 (start data)) (\<lambda>(duration, c).
     bind_res (at_end c) (\<lambda>_. Inr (v\<lparr>TimeOfLastPacket_TimeOfLastPacket := Add_seconds duration\<rparr>)))"

interpretation lastpkt: safe_binary_codec TimeOfLastPacket_new TimeOfLastPacket_marshal TimeOfLastPacket_unmarshal
  "\<lambda>v. whole_second (TimeOfLastPacket_TimeOfLastPacket v)"
  by unfold_locales (auto simp: TimeOfLastPacket_new_def TimeOfLastPacket_marshal_def TimeOfLastPacket_unmarshal_def rd_simps time_u32_whole
    intro!: rd_np_intros)

end
