(* ===== verification/TLV.thy ===== *)
theory TLV
  imports Go_Codec
begin

text \<open>
  The reflective TLV codec of \<^verbatim>\<open>lib/tlv\<close> (\<^verbatim>\<open>encode.go\<close>, \<^verbatim>\<open>decode.go\<close>, \<^verbatim>\<open>fragment.go\<close>,
  \<^verbatim>\<open>util.go\<close>). It walks a Go value by reflection, so the model makes types and values
  explicit: \<open>gtype\<close> is what \<^verbatim>\<open>reflect.Type\<close> tells the code, \<open>gval\<close> the value. A type that
  implements \<^verbatim>\<open>encoding.BinaryMarshaler\<close> and \<^verbatim>\<open>BinaryUnmarshaler\<close> on its pointer is \<open>TBin\<close> of
  its zero value; its methods come in a dictionary \<open>bin_ops\<close>, as the interface table gives
  them to the code.
\<close>

section \<open>Types and values\<close>

text \<open>The \<^verbatim>\<open>tlv\<close> tag of a struct field after \<^verbatim>\<open>strconv.Atoi\<close>.\<close>

datatype tlv_tag = No_Tag | Bad_Tag string | Tag nat

text \<open>
  \<open>TInt k s\<close> is a fixed-width integer of \<open>k\<close> octets (signed when \<open>s\<close>), \<open>TWord\<close> is
  \<^verbatim>\<open>int\<close> or \<^verbatim>\<open>uint\<close>, \<open>TBytes\<close> a slice of \<^verbatim>\<open>uint8\<close>, \<open>TOther\<close> a type of any other kind
  that is not a reference.
\<close>

datatype 'l gtype =
    TInt nat bool
  | TWord bool
  | TString
  | TBytes
  | TBin 'l
  | TPtr "'l gtype"
  | TSlice "'l gtype"
  | TStruct "(string \<times> tlv_tag \<times> 'l gtype) list"
  | TOther string

datatype 'l gval =
    VInt int
  | VString bytes
  | VBytes "bytes option"
  | VBin 'l
  | VPtr "'l gval option"
  | VSlice "'l gval list option"
  | VStruct "'l gval list"
  | VOther

text \<open>
  The dictionary of a \<^verbatim>\<open>BinaryMarshaler\<close>. \<open>bfields\<close> lists the names of the struct's fields
  with \<^verbatim>\<open>hasValue\<close>: none of them carries a \<^verbatim>\<open>tlv\<close> tag, which matters where the code meets
  the struct itself instead of a pointer to it.
\<close>

record 'l bin_ops =
  bmarshal :: "'l \<Rightarrow> bytes res"
  bunmarshal :: "'l \<Rightarrow> slice \<Rightarrow> 'l res"
  bfields :: "'l \<Rightarrow> (string \<times> bool) list"

text \<open>\<^verbatim>\<open>reflect.New\<close>: the zero value of a type.\<close>

primrec zero_val :: "'l gtype \<Rightarrow> 'l gval" where
  "zero_val (TInt k s) = VInt 0"
| "zero_val (TWord s) = VInt 0"
| "zero_val TString = VString []"
| "zero_val TBytes = VBytes None"
| "zero_val (TBin z) = VBin z"
| "zero_val (TPtr t) = VPtr None"
| "zero_val (TSlice t) = VSlice None"
| "zero_val (TStruct fs) = VStruct (map (\<lambda>(_, _, v). v) (map (map_prod id (map_prod id zero_val)) fs))"
| "zero_val (TOther k) = VOther"

fun hasValue :: "'l gval \<Rightarrow> bool" where
  "hasValue (VPtr None) = False"
| "hasValue (VSlice None) = False"
| "hasValue (VBytes None) = False"
| "hasValue v = True"

fun isNumber :: "'l gtype \<Rightarrow> bool" where
  "isNumber (TInt k s) = True"
| "isNumber t = False"

text \<open>The element kinds both directions accept in a slice, and those passed by address.\<close>

fun is_struct :: "'l gtype \<Rightarrow> bool" where
  "is_struct (TStruct fs) = True"
| "is_struct (TBin z) = True"
| "is_struct t = False"

fun is_ptr :: "'l gtype \<Rightarrow> bool" where
  "is_ptr (TPtr t) = True"
| "is_ptr t = False"

definition slice_elem :: "'l gtype \<Rightarrow> bool" where
  "slice_elem t \<longleftrightarrow> is_ptr t \<or> is_struct t \<or> isNumber t"

section \<open>Encoding\<close>

definition tl_header :: "nat \<Rightarrow> nat \<Rightarrow> bytes" where
  "tl_header tag n = be_bytes 2 (of_nat tag :: u16) @ be_bytes 2 (of_nat n :: u16)"

definition makeTLV :: "nat \<Rightarrow> bytes \<Rightarrow> bytes" where
  "makeTLV tag val = (if tag \<noteq> 0 then tl_header tag (length val) else []) @ val"

definition need_tag :: "string \<Rightarrow> fault" where
  "need_tag n = Err (''field '' @ n @ '' need tag `tlv`'')"

definition not_supported :: fault where
  "not_supported = Err ''is not support TLV encode''"

text \<open>
  \<^verbatim>\<open>buildTLV(tag, v)\<close>, where \<open>ptr\<close> tells that the interface holds a pointer to the value;
  \<^verbatim>\<open>reflect.Indirect\<close> follows that one pointer. A nil pointer reaches the code only as an
  element of a slice and is dereferenced there.
\<close>

fun buildTLV :: "'l bin_ops \<Rightarrow> bool \<Rightarrow> nat \<Rightarrow> 'l gtype \<Rightarrow> 'l gval \<Rightarrow> bytes res"
and build_fields :: "'l bin_ops \<Rightarrow> (string \<times> tlv_tag \<times> 'l gtype) list \<Rightarrow> 'l gval list \<Rightarrow> bytes res"
and build_elems :: "'l bin_ops \<Rightarrow> nat \<Rightarrow> 'l gtype \<Rightarrow> 'l gval list \<Rightarrow> bytes res" where
  "buildTLV ops ptr tag t (VBin l) =
     (case t of TBin z \<Rightarrow>
        if ptr then bind_res (bmarshal ops l) (\<lambda>b. Inr (makeTLV tag b))
        else (case filter snd (bfields ops l) of
               [] \<Rightarrow> Inr (makeTLV tag [])
             | (n, _) # _ \<Rightarrow> Inl (need_tag n))
      | _ \<Rightarrow> Inl not_supported)"
| "buildTLV ops ptr tag t (VPtr (Some v)) =
     (case t of TPtr t' \<Rightarrow> if ptr then Inl not_supported else buildTLV ops True tag t' v
      | _ \<Rightarrow> Inl not_supported)"
| "buildTLV ops ptr tag t (VPtr None) = (if ptr then Inl not_supported else Inl Panic)"
| "buildTLV ops ptr tag t (VInt i) =
     (case t of TInt k s \<Rightarrow> Inr (tl_header tag k @ be_bytes k (of_int i :: u64))
      | _ \<Rightarrow> Inl not_supported)"
| "buildTLV ops ptr tag t (VString s) =
     (if ptr then Inl Panic else Inr (tl_header tag (length s) @ s))"
| "buildTLV ops ptr tag t (VStruct vs) =
     (case t of TStruct fs \<Rightarrow> bind_res (build_fields ops fs vs) (\<lambda>b. Inr (makeTLV tag b))
      | _ \<Rightarrow> Inl not_supported)"
| "buildTLV ops ptr tag t (VBytes b) =
     (let b = (case b of None \<Rightarrow> [] | Some b \<Rightarrow> b) in Inr (tl_header tag (length b) @ b))"
| "buildTLV ops ptr tag t (VSlice None) =
     (case t of TSlice t' \<Rightarrow> if slice_elem t' then Inr [] else Inl not_supported
      | _ \<Rightarrow> Inl not_supported)"
| "buildTLV ops ptr tag t (VSlice (Some vs)) =
     (case t of TSlice t' \<Rightarrow> if slice_elem t' then build_elems ops tag t' vs else Inl not_supported
      | _ \<Rightarrow> Inl not_supported)"
| "buildTLV ops ptr tag t VOther = Inl not_supported"
| "build_fields ops [] vs = Inr []"
| "build_fields ops (f # fs) [] = Inr []"
| "build_fields ops ((n, tg, t) # fs) (v # vs) =
     (if \<not> hasValue v then build_fields ops fs vs
      else case tg of
             No_Tag \<Rightarrow> Inl (need_tag n)
           | Bad_Tag x \<Rightarrow> Inl (Err ''strconv.Atoi: parsing: invalid syntax'')
           | Tag k \<Rightarrow> bind_res (buildTLV ops False k t v) (\<lambda>b.
               bind_res (build_fields ops fs vs) (\<lambda>r. Inr (b @ r))))"
| "build_elems ops tag t [] = Inr []"
| "build_elems ops tag t (v # vs) =
     bind_res (buildTLV ops (is_struct t) tag t v) (\<lambda>b.
     bind_res (build_elems ops tag t vs) (\<lambda>r. Inr (b @ r)))"

text \<open>\<^verbatim>\<open>Marshal\<close> takes a struct or a pointer.\<close>

definition Marshal :: "'l bin_ops \<Rightarrow> 'l gtype \<Rightarrow> 'l gval \<Rightarrow> bytes res" where
  "Marshal ops t v = (if is_struct t \<or> is_ptr t then buildTLV ops False 0 t v
     else Inl (Err ''tlv need struct value to encode''))"

section \<open>Fragments\<close>

type_synonym fragments = "nat \<Rightarrow> bytes list"

definition fragments_Add :: "fragments \<Rightarrow> nat \<Rightarrow> bytes \<Rightarrow> fragments" where
  "fragments_Add f tag buf = f(tag := f tag @ [buf])"

text \<open>
  \<^verbatim>\<open>binary.Read(buffer, .., &x)\<close> of a \<^verbatim>\<open>uint16\<close> whose error is only printed: with fewer than
  two octets left the variable keeps its old value and the buffer is drained.
\<close>

definition read_u16 :: "u16 \<Rightarrow> bytes \<Rightarrow> u16 \<times> bytes" where
  "read_u16 old buf = (if 2 \<le> length buf then (of_be (take 2 buf), drop 2 buf) else (old, []))"

text \<open>
  \<^verbatim>\<open>buffer.Read(value)\<close> of a fresh \<^verbatim>\<open>make([]byte, length)\<close>: a short read is not an error and
  leaves zeros behind; an empty buffer is \<^verbatim>\<open>io.EOF\<close> unless nothing is asked for.
\<close>

definition read_value :: "nat \<Rightarrow> bytes \<Rightarrow> (bytes \<times> bytes) res" where
  "read_value n buf = (if buf = [] \<and> n \<noteq> 0 then Inl (Err ''EOF'')
     else Inr (take n buf @ replicate (n - length buf) 0, drop n buf))"

function parse_loop :: "u16 \<Rightarrow> u16 \<Rightarrow> fragments \<Rightarrow> bytes \<Rightarrow> fragments res" where
  "parse_loop tag len f buf =
     (let (tag, buf1) = read_u16 tag buf; (len, buf2) = read_u16 len buf1 in
      bind_res (read_value (unat len) buf2) (\<lambda>(val, buf3).
      let f = fragments_Add f (unat tag) val in
      if length buf3 = 0 then Inr f else parse_loop tag len f buf3))"
  by pat_completeness auto
termination
  by (relation "measure (\<lambda>(_, _, _, buf). length buf)")
    (auto simp: read_u16_def read_value_def Let_def split: if_splits)

declare parse_loop.simps [simp del]

definition parseTLV :: "bytes \<Rightarrow> fragments res" where
  "parseTLV b = parse_loop 0 0 (\<lambda>_. []) b"

section \<open>Decoding\<close>

fun fold_res :: "('a \<Rightarrow> 'b \<Rightarrow> 'a res) \<Rightarrow> 'a \<Rightarrow> 'b list \<Rightarrow> 'a res" where
  "fold_res f a [] = Inr a"
| "fold_res f a (x # xs) = bind_res (f a x) (\<lambda>a. fold_res f a xs)"

lemma fold_res_cong [fundef_cong]:
  "xs = ys \<Longrightarrow> a = b \<Longrightarrow> (\<And>x a. x \<in> set ys \<Longrightarrow> f a x = g a x) \<Longrightarrow> fold_res f a xs = fold_res g b ys"
proof (induction ys arbitrary: xs a b)
  case (Cons y ys)
  then show ?case by (auto intro: bind_res_cong)
qed simp

definition signed_of :: "nat \<Rightarrow> u64 \<Rightarrow> int" where
  "signed_of k w = signed_take_bit (8 * k - 1) (uint w)"

text \<open>
  \<^verbatim>\<open>decodeValue(b, &x)\<close> returns the new value of \<open>x\<close>, which has type \<open>t\<close>. A pointer that is
  nil is set to a new zero value first; a slice grows by one element per fragment; a struct is
  cut into fragments and each field decodes all the fragments of its tag, one after the other
  into the same place.
\<close>

fun decodeValue :: "'l bin_ops \<Rightarrow> 'l gtype \<Rightarrow> 'l gval \<Rightarrow> slice \<Rightarrow> 'l gval res"
and decode_fields :: "'l bin_ops \<Rightarrow> (string \<times> tlv_tag \<times> 'l gtype) list \<Rightarrow> 'l gval list \<Rightarrow>
    fragments \<Rightarrow> 'l gval list res" where
  "decodeValue ops (TBin z) v b =
     (case v of VBin l \<Rightarrow> bind_res (bunmarshal ops l b) (\<lambda>l. Inr (VBin l)) | _ \<Rightarrow> Inl Panic)"
| "decodeValue ops (TInt k s) v b =
     bind_res (sl_be k b) (\<lambda>w. Inr (VInt (if s then signed_of k w else uint w)))"
| "decodeValue ops (TWord s) v b =
     bind_res (sl_be 8 b) (\<lambda>w. Inr (VInt (if s then signed_of 8 w else uint w)))"
| "decodeValue ops TString v b = Inr (VString (sdata b))"
| "decodeValue ops TBytes v b = Inr (VBytes (Some (sdata b)))"
| "decodeValue ops (TPtr t) v b =
     bind_res (decodeValue ops t (case v of VPtr (Some x) \<Rightarrow> x | _ \<Rightarrow> zero_val t) b)
       (\<lambda>x. Inr (VPtr (Some x)))"
| "decodeValue ops (TSlice t) v b =
     (let xs = (case v of VSlice (Some xs) \<Rightarrow> xs | _ \<Rightarrow> []) in
      if slice_elem t
      then bind_res (decodeValue ops t (zero_val t) b) (\<lambda>x. Inr (VSlice (Some (xs @ [x]))))
      else Inl (Err ''is not support decode''))"
| "decodeValue ops (TStruct fs) v b =
     bind_res (parseTLV (sdata b)) (\<lambda>f.
     bind_res (decode_fields ops fs (case v of VStruct vs \<Rightarrow> vs | _ \<Rightarrow> []) f) (\<lambda>vs.
     Inr (VStruct vs)))"
| "decodeValue ops (TOther k) v b = Inr v"
| "decode_fields ops ((n, tg, t) # fs) (v # vs) f =
     (case tg of
        No_Tag \<Rightarrow> Inl (need_tag n)
      | Bad_Tag x \<Rightarrow> Inl (Err ''invalid tlv tag, need to be decimal number'')
      | Tag k \<Rightarrow> bind_res (fold_res (\<lambda>v buf. decodeValue ops t v (Slice buf [])) v (f k)) (\<lambda>v.
          bind_res (decode_fields ops fs vs f) (\<lambda>vs. Inr (v # vs))))"
| "decode_fields ops [] vs f = Inr vs"
| "decode_fields ops (x # fs) [] f = Inr []"

definition Unmarshal :: "'l bin_ops \<Rightarrow> slice \<Rightarrow> 'l gtype \<Rightarrow> 'l gval \<Rightarrow> 'l gval res" where
  "Unmarshal ops b t v = decodeValue ops t v b"

end
