(* ===== verification/TLV_Roundtrip.thy ===== *)
theory TLV_Roundtrip
  imports TLV
begin

text \<open>
  The round trip of the reflective codec. \<open>wf_val\<close> says which values survive: every present
  field has a tag no other field of its struct uses, a slice is nil or has elements, a group
  fits the 16-bit length. The locale \<open>tlv_leaves\<close> is what the codec asks of the types that
  marshal themselves.
\<close>

section \<open>Cutting a sequence of elements into fragments\<close>

definition tlv_ok :: "nat \<times> bytes \<Rightarrow> bool" where
  "tlv_ok p \<longleftrightarrow> 0 < fst p \<and> fst p < 65536 \<and> length (snd p) < 65536"

definition tlv_seq :: "(nat \<times> bytes) list \<Rightarrow> bytes" where
  "tlv_seq ps = concat (map (\<lambda>(k, x). makeTLV k x) ps)"

definition frag_of :: "(nat \<times> bytes) list \<Rightarrow> fragments" where
  "frag_of ps k = map snd (filter (\<lambda>p. fst p = k) ps)"

lemma tlv_seq_simps [simp]:
  "tlv_seq [] = []" "tlv_seq (p # ps) = makeTLV (fst p) (snd p) @ tlv_seq ps"
  "tlv_seq (ps @ qs) = tlv_seq ps @ tlv_seq qs"
  by (auto simp: tlv_seq_def split_beta)

lemma frag_of_simps [simp]:
  "frag_of [] k = []" "frag_of (ps @ qs) k = frag_of ps k @ frag_of qs k"
  "frag_of (map (Pair j) xs) k = (if j = k then xs else [])"
  by (auto simp: frag_of_def filter_map comp_def)

lemma makeTLV_ne [simp]: "0 < k \<Longrightarrow> makeTLV k x \<noteq> []"
  by (simp add: makeTLV_def tl_header_def be_bytes_16)

lemma tlv_seq_ne: "\<forall>p\<in>set ps. tlv_ok p \<Longrightarrow> tlv_seq ps = [] \<longleftrightarrow> ps = []"
  by (cases ps) (auto simp: tlv_ok_def)

lemma parse_loop_step:
  assumes "tlv_ok (k, x)"
  shows "parse_loop tg ln f (makeTLV k x @ r) =
    (if r = [] then Inr (fragments_Add f k x)
     else parse_loop (of_nat k) (of_nat (length x)) (fragments_Add f k x) r)"
  using assms
  by (subst parse_loop.simps)
    (auto simp: tlv_ok_def makeTLV_def tl_header_def read_u16_def read_value_def)

lemma parse_loop_seq:
  "\<forall>p\<in>set ps. tlv_ok p \<Longrightarrow> ps \<noteq> [] \<Longrightarrow>
   parse_loop tg ln f (tlv_seq ps) = Inr (\<lambda>k. f k @ frag_of ps k)"
proof (induction ps arbitrary: tg ln f)
  case (Cons p ps)
  have add: "fragments_Add f (fst p) (snd p) = (\<lambda>k. f k @ frag_of [p] k)"
    by (auto simp: fragments_Add_def frag_of_def)
  have seq: "frag_of (p # ps) k = frag_of [p] k @ frag_of ps k" for k
    by (simp add: frag_of_def)
  show ?case
    using Cons parse_loop_step [of "fst p" "snd p" tg ln f "tlv_seq ps"] tlv_seq_ne [of ps]
    by (cases "ps = []") (simp_all add: add seq)
qed simp

text \<open>An empty buffer yields one empty fragment under the tag 0, which no field uses.\<close>

lemma parseTLV_Nil: "parseTLV [] = Inr ((\<lambda>_. [])(0 := [[]]))"
  by (simp add: parseTLV_def parse_loop.simps read_u16_def read_value_def fragments_Add_def)

lemma parseTLV_seq:
  assumes "\<forall>p\<in>set ps. tlv_ok p"
  shows "\<exists>f. parseTLV (tlv_seq ps) = Inr f \<and> (\<forall>k>0. f k = frag_of ps k)"
proof (cases "ps = []")
  case True
  then show ?thesis by (simp add: parseTLV_Nil)
next
  case False
  then show ?thesis using parse_loop_seq [OF assms, of 0 0 "\<lambda>_. []"] by (simp add: parseTLV_def)
qed

section \<open>Values that survive the wire\<close>

definition int_range :: "nat \<Rightarrow> bool \<Rightarrow> int \<Rightarrow> bool" where
  "int_range k s i \<longleftrightarrow> (if s then - (2 ^ (8 * k - 1)) \<le> i \<and> i < 2 ^ (8 * k - 1) else 0 \<le> i \<and> i < 2 ^ (8 * k))"

fun present_tags :: "(string \<times> tlv_tag \<times> 'l gtype) list \<Rightarrow> 'l gval list \<Rightarrow> tlv_tag list" where
  "present_tags ((n, tg, t) # fs) (v # vs) =
     (if hasValue v then tg # present_tags fs vs else present_tags fs vs)"
| "present_tags fs vs = []"

definition all_tags :: "(string \<times> tlv_tag \<times> 'l gtype) list \<Rightarrow> tlv_tag list" where
  "all_tags fs = map (\<lambda>(n, tg, t). tg) fs"

lemma all_tags_simps [simp]: "all_tags [] = []" "all_tags ((n, tg, t) # fs) = tg # all_tags fs"
  by (simp_all add: all_tags_def)

definition good_tag :: "tlv_tag \<Rightarrow> bool" where
  "good_tag tg = (case tg of Tag k \<Rightarrow> 0 < k \<and> k < 65536 | _ \<Rightarrow> False)"

fun not_slice :: "'l gtype \<Rightarrow> bool" where
  "not_slice (TSlice t) = False"
| "not_slice t = True"

fun wf_val :: "'l bin_ops \<Rightarrow> ('l \<Rightarrow> 'l \<Rightarrow> bool) \<Rightarrow> bool \<Rightarrow> 'l gtype \<Rightarrow> 'l gval \<Rightarrow> bool"
and wf_fields :: "'l bin_ops \<Rightarrow> ('l \<Rightarrow> 'l \<Rightarrow> bool) \<Rightarrow> (string \<times> tlv_tag \<times> 'l gtype) list \<Rightarrow> 'l gval list \<Rightarrow> bool"
and wf_elems :: "'l bin_ops \<Rightarrow> ('l \<Rightarrow> 'l \<Rightarrow> bool) \<Rightarrow> 'l gtype \<Rightarrow> 'l gval list \<Rightarrow> bool" where
  "wf_val ops ok ptr t (VBin l) = (case t of TBin z \<Rightarrow> ptr \<and> ok z l | _ \<Rightarrow> False)"
| "wf_val ops ok ptr t (VPtr (Some v)) =
     (case t of TPtr t' \<Rightarrow> \<not> ptr \<and> not_slice t' \<and> wf_val ops ok True t' v | _ \<Rightarrow> False)"
| "wf_val ops ok ptr t (VPtr None) = False"
| "wf_val ops ok ptr t (VInt i) =
     (case t of TInt k s \<Rightarrow> 0 < k \<and> k \<le> 8 \<and> int_range k s i | _ \<Rightarrow> False)"
| "wf_val ops ok ptr t (VString s) = (case t of TString \<Rightarrow> \<not> ptr \<and> length s < 65536 | _ \<Rightarrow> False)"
| "wf_val ops ok ptr t (VStruct vs) =
     (case t of TStruct fs \<Rightarrow> wf_fields ops ok fs vs
        \<and> (case build_fields ops fs vs of Inr b \<Rightarrow> length b < 65536 | Inl _ \<Rightarrow> True)
      | _ \<Rightarrow> False)"
| "wf_val ops ok ptr t (VBytes b) =
     (case t of TBytes \<Rightarrow> (case b of Some b \<Rightarrow> length b < 65536 | None \<Rightarrow> False) | _ \<Rightarrow> False)"
| "wf_val ops ok ptr t (VSlice None) = False"
| "wf_val ops ok ptr t (VSlice (Some vs)) =
     (case t of TSlice t' \<Rightarrow> slice_elem t' \<and> vs \<noteq> [] \<and> wf_elems ops ok t' vs | _ \<Rightarrow> False)"
| "wf_val ops ok ptr t VOther = False"
| "wf_fields ops ok [] vs = (vs = [])"
| "wf_fields ops ok (f # fs) [] = False"
| "wf_fields ops ok ((n, tg, t) # fs) (v # vs) =
     (good_tag tg
      \<and> (if hasValue v then wf_val ops ok False t v \<and> tg \<notin> set (all_tags fs)
         else v = zero_val t \<and> tg \<notin> set (present_tags fs vs))
      \<and> wf_fields ops ok fs vs)"
| "wf_elems ops ok t [] = True"
| "wf_elems ops ok t (v # vs) = (wf_val ops ok (is_struct t) t v \<and> wf_elems ops ok t vs)"

section \<open>The leaves\<close>

locale tlv_leaves =
  fixes ops :: "'l bin_ops" and leaf_ok :: "'l \<Rightarrow> 'l \<Rightarrow> bool"
  assumes leaf_marshal: "leaf_ok z l \<Longrightarrow> \<exists>d. bmarshal ops l = Inr d \<and> length d < 65536"
    and leaf_unmarshal:
      "leaf_ok z l \<Longrightarrow> bmarshal ops l = Inr d \<Longrightarrow> bunmarshal ops z (Slice d []) = Inr l"

section \<open>Helper facts of the induction\<close>

lemma zero_struct: "zero_val (TStruct fs) = VStruct (map (\<lambda>(n, tg, t). zero_val t) fs)"
  by (simp add: comp_def split_beta)

lemma signed_roundtrip:
  assumes "0 < k" "k \<le> 8" "int_range k s i"
  shows "(if s then signed_of k (take_bit (8 * k) (of_int i :: u64))
          else uint (take_bit (8 * k) (of_int i :: u64))) = i"
proof -
  have u: "uint (take_bit (8 * k) (of_int i :: u64)) = take_bit (8 * k) i"
    using assms(2) by (simp add: unsigned_take_bit_eq uint_word_of_int_eq)
  show ?thesis
  proof (cases s)
    case True
    have "signed_take_bit (8 * k - 1) (take_bit (8 * k) i) = signed_take_bit (8 * k - 1) i"
      using assms(1) by (auto simp: signed_take_bit_take_bit)
    then show ?thesis
      using assms True u by (simp add: signed_of_def int_range_def signed_take_bit_int_eq_self)
  next
    case False
    then show ?thesis using assms(3) u by (simp add: int_range_def take_bit_int_eq_self)
  qed
qed

lemma makeTLV_pos: "0 < tag \<Longrightarrow> makeTLV tag x = tl_header tag (length x) @ x"
  by (simp add: makeTLV_def)

text \<open>A slice decoded from its fragments grows by one element each.\<close>

lemma decode_slice:
  assumes "list_all2 (\<lambda>x v. decodeValue ops t (zero_val t) (Slice x []) = Inr v) xs vs"
    and "slice_elem t"
  shows "fold_res (\<lambda>v buf. decodeValue ops (TSlice t) v (Slice buf [])) (VSlice (Some acc)) xs
    = Inr (VSlice (Some (acc @ vs)))"
  using assms(1) by (induction arbitrary: acc rule: list_all2_induct) (simp_all add: assms(2))

lemma decode_slice_nil:
  assumes "list_all2 (\<lambda>x v. decodeValue ops t (zero_val t) (Slice x []) = Inr v) xs vs"
    and "slice_elem t" "vs \<noteq> []"
  shows "fold_res (\<lambda>v buf. decodeValue ops (TSlice t) v (Slice buf [])) (VSlice None) xs
    = Inr (VSlice (Some vs))"
  using assms decode_slice [of ops t "tl xs" "tl vs" "[hd vs]"]
  by (cases xs; cases vs) simp_all

text \<open>Only the fragments of its own tags matter to a struct.\<close>

lemma decode_fields_cong:
  assumes "\<forall>k. Tag k \<in> set (all_tags fs) \<longrightarrow> f k = g k"
  shows "decode_fields ops fs vs f = decode_fields ops fs vs g"
  using assms
proof (induction fs arbitrary: vs)
  case (Cons x fs)
  obtain n tg t where x: "x = (n, tg, t)" by (cases x)
  show ?case
    using Cons x by (cases vs; cases tg) (auto simp: all_tags_def)
qed simp

section \<open>The round trip\<close>

text \<open>
  What a value is on the wire: one or more octet strings under its tag, from which the decoder
  rebuilds it. Only a slice has more than one.
\<close>

definition carried :: "'l bin_ops \<Rightarrow> 'l gtype \<Rightarrow> 'l gval \<Rightarrow> bytes list \<Rightarrow> bool" where
  "carried ops t v xs \<longleftrightarrow> xs \<noteq> [] \<and> (\<forall>x\<in>set xs. length x < 65536)
     \<and> (not_slice t \<longrightarrow> length xs = 1)
     \<and> fold_res (\<lambda>v buf. decodeValue ops t v (Slice buf [])) (zero_val t) xs = Inr v"

lemma carried_single:
  "length x < 65536 \<Longrightarrow> decodeValue ops t (zero_val t) (Slice x []) = Inr v \<Longrightarrow> carried ops t v [x]"
  by (simp add: carried_def)

lemma carried_singleD:
  "carried ops t v xs \<Longrightarrow> not_slice t \<Longrightarrow>
   \<exists>x. xs = [x] \<and> length x < 65536 \<and> decodeValue ops t (zero_val t) (Slice x []) = Inr v"
  by (cases xs) (auto simp: carried_def bind_res_eq_Inr_iff)

lemma not_slice_elem: "slice_elem t \<Longrightarrow> not_slice t"
  by (cases t) (simp_all add: slice_elem_def)

definition seq_of :: "nat \<Rightarrow> bytes list \<Rightarrow> bytes" where
  "seq_of tag xs = tlv_seq (map (Pair tag) xs)"

lemma seq_of_simps [simp]:
  "seq_of tag [] = []" "seq_of tag (x # xs) = makeTLV tag x @ seq_of tag xs"
  by (simp_all add: seq_of_def)

text \<open>One lemma per kind of value; the mutual induction below puts them together.\<close>

lemma build_bin:
  assumes "tlv_leaves ops ok" "ok z l"
  shows "\<exists>xs. carried ops (TBin z) (VBin l) xs \<and> buildTLV ops True tag (TBin z) (VBin l) = Inr (seq_of tag xs)"
proof -
  obtain d where "bmarshal ops l = Inr d" "length d < 65536"
    using tlv_leaves.leaf_marshal [OF assms] by blast
  then show ?thesis
    using tlv_leaves.leaf_unmarshal [OF assms] by (intro exI [of _ "[d]"]) (simp add: carried_single)
qed

lemma carried_ptr:
  assumes "carried ops t v xs" "not_slice t"
  shows "carried ops (TPtr t) (VPtr (Some v)) xs"
  using carried_singleD [OF assms] by (auto intro!: carried_single)

lemma carried_int:
  assumes "0 < k" "k \<le> 8" "int_range k s i"
  shows "carried ops (TInt k s) (VInt i) [be_bytes k (of_int i :: u64)]"
  using assms signed_roundtrip [OF assms] by (auto intro!: carried_single simp: go_simps of_be_be_bytes split: if_splits)

lemma decode_struct:
  assumes ps: "\<forall>p\<in>set ps. tlv_ok p"
    and tags: "\<forall>tg\<in>set (all_tags fs). good_tag tg"
    and dec: "decode_fields ops fs (map (\<lambda>(n, tg, t). zero_val t) fs) (frag_of ps) = Inr vs"
  shows "decodeValue ops (TStruct fs) (zero_val (TStruct fs)) (Slice (tlv_seq ps) sp) = Inr (VStruct vs)"
proof -
  obtain f where f: "parseTLV (tlv_seq ps) = Inr f" "\<forall>k>0. f k = frag_of ps k"
    using parseTLV_seq [OF ps] by blast
  have "decode_fields ops fs ws f = decode_fields ops fs ws (frag_of ps)" for ws
    using f(2) tags by (intro decode_fields_cong) (auto simp: good_tag_def)
  then show ?thesis using f(1) dec by (simp add: zero_struct del: zero_val.simps)
qed

lemma wf_fields_tags: "wf_fields ops ok fs vs \<Longrightarrow> \<forall>tg\<in>set (all_tags fs). good_tag tg"
proof (induction fs arbitrary: vs)
  case (Cons x fs)
  then show ?case by (cases x; cases vs) auto
qed simp

lemma present_all: "set (present_tags fs vs) \<subseteq> set (all_tags fs)"
  by (induction fs vs rule: present_tags.induct) (auto simp: all_tags_def)

text \<open>A present field puts its strings in front of those of the later fields.\<close>

lemma decode_fields_present:
  assumes "carried ops t v xs" "Tag k \<notin> set (all_tags fs)"
    and "\<forall>p\<in>set ps. Tag (fst p) \<in> set (present_tags fs vs)"
    and "decode_fields ops fs zs (frag_of ps) = Inr vs"
  shows "decode_fields ops ((n, Tag k, t) # fs) (zero_val t # zs) (frag_of (map (Pair k) xs @ ps)) = Inr (v # vs)"
proof -
  have "frag_of ps k = []"
    using assms(2,3) present_all [of fs vs] by (auto simp: frag_of_def filter_empty_conv)
  moreover have "decode_fields ops fs zs (frag_of (map (Pair k) xs @ ps)) = decode_fields ops fs zs (frag_of ps)"
    using assms(2) by (intro decode_fields_cong) auto
  ultimately show ?thesis using assms(1,4) by (simp add: carried_def)
qed

lemma decode_fields_absent:
  assumes "Tag k \<notin> set (present_tags fs vs)"
    and "\<forall>p\<in>set ps. Tag (fst p) \<in> set (present_tags fs vs)"
    and "decode_fields ops fs zs (frag_of ps) = Inr vs"
  shows "decode_fields ops ((n, Tag k, t) # fs) (zero_val t # zs) (frag_of ps) = Inr (zero_val t # vs)"
proof -
  have "frag_of ps k = []" using assms(1,2) by (auto simp: frag_of_def filter_empty_conv)
  then show ?thesis using assms(3) by simp
qed

lemma build_carried:
  "tlv_leaves ops ok \<Longrightarrow> wf_val ops ok ptr t v \<Longrightarrow> 0 < tag \<Longrightarrow> tag < 65536 \<Longrightarrow>
     \<exists>xs. carried ops t v xs \<and> buildTLV ops ptr tag t v = Inr (seq_of tag xs)"
  "tlv_leaves ops ok \<Longrightarrow> wf_fields ops ok fs vs \<Longrightarrow>
     \<exists>ps. (\<forall>p\<in>set ps. tlv_ok p \<and> Tag (fst p) \<in> set (present_tags fs vs))
       \<and> build_fields ops fs vs = Inr (tlv_seq ps)
       \<and> decode_fields ops fs (map (\<lambda>(n, tg, t). zero_val t) fs) (frag_of ps) = Inr vs"
  "tlv_leaves ops ok \<Longrightarrow> wf_elems ops ok t vs \<Longrightarrow> slice_elem t \<Longrightarrow> 0 < tag \<Longrightarrow> tag < 65536 \<Longrightarrow>
     \<exists>xs. (\<forall>x\<in>set xs. length x < 65536) \<and> build_elems ops tag t vs = Inr (seq_of tag xs)
       \<and> list_all2 (\<lambda>x v. decodeValue ops t (zero_val t) (Slice x []) = Inr v) xs vs"
proof (induction ops ok ptr t v and ops ok fs vs and ops ok t vs
    arbitrary: tag and and tag rule: wf_val_wf_fields_wf_elems.induct)
  case (1 ops ok ptr t l)
  then show ?case using build_bin [of ops ok _ l tag]
    by (auto split: gtype.splits simp del: buildTLV.simps)
next
  case (2 ops ok ptr t v)
  then obtain t' where t: "t = TPtr t'" "\<not> ptr" "not_slice t'" "wf_val ops ok True t' v"
    by (auto split: gtype.splits)
  then obtain xs where "carried ops t' v xs" "buildTLV ops True tag t' v = Inr (seq_of tag xs)"
    using 2 by blast
  then show ?case using t carried_ptr [of ops t' v xs] by auto
next
  case (4 ops ok ptr t i)
  then show ?case
    by (auto split: gtype.splits intro!: exI [of _ "[_]"] carried_int simp: makeTLV_pos)
next
  case (5 ops ok ptr t s)
  then show ?case
    by (auto split: gtype.splits intro!: exI [of _ "[s]"] carried_single simp: makeTLV_pos)
next
  case (6 ops ok ptr t vs)
  then obtain fs where t: "t = TStruct fs" and wf: "wf_fields ops ok fs vs"
    by (auto split: gtype.splits)
  obtain ps where ps: "\<forall>p\<in>set ps. tlv_ok p" "build_fields ops fs vs = Inr (tlv_seq ps)"
    "decode_fields ops fs (map (\<lambda>(n, tg, t). zero_val t) fs) (frag_of ps) = Inr vs"
    using 6 t wf by fastforce
  then have "length (tlv_seq ps) < 65536" using 6(3) t by simp
  then show ?case
    using ps t decode_struct [OF ps(1) wf_fields_tags [OF wf] ps(3), of "[]"]
    by (intro exI [of _ "[tlv_seq ps]"]) (simp add: carried_single del: zero_val.simps)
next
  case (7 ops ok ptr t b)
  then show ?case
    by (cases b) (auto split: gtype.splits intro!: exI [of _ "[_]"] carried_single simp: makeTLV_pos Let_def)
next
  case (9 ops ok ptr t vs)
  then obtain t' where t: "t = TSlice t'" "slice_elem t'" "vs \<noteq> []" "wf_elems ops ok t' vs"
    by (auto split: gtype.splits)
  obtain xs where "\<forall>x\<in>set xs. length x < 65536" "build_elems ops tag t' vs = Inr (seq_of tag xs)"
    "list_all2 (\<lambda>x v. decodeValue ops t' (zero_val t') (Slice x []) = Inr v) xs vs"
    using 9(1) [OF t(1)] 9(2,4,5) t by blast
  then show ?case
    using t decode_slice_nil [of ops t' xs vs]
    by (intro exI [of _ xs]) (auto simp: carried_def simp del: decodeValue.simps)
next
  case (13 ops ok n tg t fs v vs)
  then obtain k where k: "tg = Tag k" "0 < k" "k < 65536"
    by (auto simp: good_tag_def split: tlv_tag.splits)
  obtain ps where ps: "\<forall>p\<in>set ps. tlv_ok p \<and> Tag (fst p) \<in> set (present_tags fs vs)"
    "build_fields ops fs vs = Inr (tlv_seq ps)"
    "decode_fields ops fs (map (\<lambda>(n, tg, t). zero_val t) fs) (frag_of ps) = Inr vs"
    using 13 by auto
  show ?case
  proof (cases "hasValue v")
    case True
    then obtain xs where xs: "carried ops t v xs" "buildTLV ops False k t v = Inr (seq_of k xs)"
      using 13 k by auto
    have "decode_fields ops ((n, Tag k, t) # fs) (zero_val t # map (\<lambda>(n, tg, t). zero_val t) fs)
        (frag_of (map (Pair k) xs @ ps)) = Inr (v # vs)"
      using 13(4) True k ps by (intro decode_fields_present [OF xs(1) _ _ ps(3)]) auto
    then show ?thesis
      using True k ps xs
      by (intro exI [of _ "map (Pair k) xs @ ps"])
        (auto simp: seq_of_def tlv_ok_def carried_def simp del: decode_fields.simps frag_of_simps)
  next
    case False
    then show ?thesis
      using 13(4) k ps decode_fields_absent [OF _ _ ps(3), of k n t]
      by (intro exI [of _ ps]) auto
  qed
next
  case (15 ops ok t v vs)
  then have wf: "wf_val ops ok (is_struct t) t v" "wf_elems ops ok t vs" by simp_all
  then obtain xs where xs: "\<forall>x\<in>set xs. length x < 65536" "build_elems ops tag t vs = Inr (seq_of tag xs)"
    "list_all2 (\<lambda>x v. decodeValue ops t (zero_val t) (Slice x []) = Inr v) xs vs"
    using 15(2) [OF 15(3) _ 15(5-7)] by blast
  obtain ys where "carried ops t v ys" "buildTLV ops (is_struct t) tag t v = Inr (seq_of tag ys)"
    using 15(1) [OF 15(3) wf(1) 15(6,7)] by blast
  then obtain y where "length y < 65536" "buildTLV ops (is_struct t) tag t v = Inr (seq_of tag [y])"
    "decodeValue ops t (zero_val t) (Slice y []) = Inr v"
    using carried_singleD [of ops t v ys] not_slice_elem [OF 15(5)] by blast
  then show ?case using xs by (intro exI [of _ "y # xs"]) simp
qed (auto intro!: exI [of _ "[]"])

text \<open>The round trip of a whole struct, as \<^verbatim>\<open>Marshal\<close> and \<^verbatim>\<open>Unmarshal\<close> run it.\<close>

context tlv_leaves
begin

lemma Marshal_total:
  "wf_fields ops leaf_ok fs vs \<Longrightarrow> \<exists>d. Marshal ops (TStruct fs) (VStruct vs) = Inr d"
  using build_carried(2) [OF tlv_leaves_axioms, of fs vs] by (auto simp: Marshal_def)

lemma Unmarshal_Marshal:
  assumes wf: "wf_fields ops leaf_ok fs vs" and d: "Marshal ops (TStruct fs) (VStruct vs) = Inr d"
  shows "Unmarshal ops (Slice d sp) (TStruct fs) (zero_val (TStruct fs)) = Inr (VStruct vs)"
proof -
  obtain ps where ps: "\<forall>p\<in>set ps. tlv_ok p" "build_fields ops fs vs = Inr (tlv_seq ps)"
    "decode_fields ops fs (map (\<lambda>(n, tg, t). zero_val t) fs) (frag_of ps) = Inr vs"
    using build_carried(2) [OF tlv_leaves_axioms wf] by blast
  then have "d = tlv_seq ps" using d by (simp add: Marshal_def makeTLV_def)
  then show ?thesis
    using decode_struct [OF ps(1) wf_fields_tags [OF wf] ps(3)]
    by (simp add: Unmarshal_def del: decodeValue.simps zero_val.simps)
qed

end

end
