(* ===== verification/PFCP_IE.thy ===== *)
theory PFCP_IE
  imports PFCP_Scalar PFCP_Flags PFCP_Volume PFCP_Tunnel PFCP_Time TLV_Roundtrip
begin

text \<open>
  The information elements put together as the leaves of the TLV codec. A value of type
  \<open>ie\<close> is a Go value behind \<^verbatim>\<open>encoding.BinaryMarshaler\<close>; the functions below are the method
  tables of \<^verbatim>\<open>MarshalBinary\<close> and \<^verbatim>\<open>UnmarshalBinary\<close>, the zero values, and the fields the
  reflective code sees when it meets the struct itself. The elements come in groups, one per
  theory of elements.
\<close>

definition map_res :: "('a \<Rightarrow> 'b) \<Rightarrow> 'a res \<Rightarrow> 'b res" where
  "map_res f r = bind_res r (\<lambda>x. Inr (f x))"

lemma map_res_simps [simp]: "map_res f (Inr x) = Inr (f x)" "map_res f (Inl e) = Inl e"
  by (simp_all add: map_res_def)

lemma map_res_Panic_iff [simp]: "map_res f r = Inl Panic \<longleftrightarrow> r = Inl Panic"
  by (cases r) simp_all

section \<open>PFCP Scalar\<close>

datatype scalar_ie =
    IE_BARID BARID
  | IE_CPFunctionFeatures CPFunctionFeatures
  | IE_Cause Cause
  | IE_DownlinkDataNotificationDelay DownlinkDataNotificationDelay
  | IE_OuterHeaderRemoval OuterHeaderRemoval
  | IE_SuggestedBufferingPacketsCount SuggestedBufferingPacketsCount
  | IE_TrafficEndpointID TrafficEndpointID
  | IE_DestinationInterface DestinationInterface
  | IE_SourceInterface SourceInterface
  | IE_PDNType PDNType
  | IE_DLBufferingDuration DLBufferingDuration
  | IE_GateStatus GateStatus
  | IE_OffendingIE OffendingIE
  | IE_PacketDetectionRuleID PacketDetectionRuleID
  | IE_UPFunctionFeatures UPFunctionFeatures
  | IE_TransportLevelMarking TransportLevelMarking
  | IE_FARID FARID
  | IE_URRID URRID
  | IE_LinkedURRID LinkedURRID
  | IE_MeasurementPeriod MeasurementPeriod
  | IE_DurationMeasurement DurationMeasurement
  | IE_EthernetInactivityTimer EthernetInactivityTimer
  | IE_EventID EventID
  | IE_EventThreshold EventThreshold
  | IE_InactivityDetectionTime InactivityDetectionTime
  | IE_Precedence Precedence
  | IE_QERCorrelationID QERCorrelationID
  | IE_QuotaHoldingTime QuotaHoldingTime
  | IE_SubsequentTimeThreshold SubsequentTimeThreshold
  | IE_TimeQuota TimeQuota
  | IE_TimeThreshold TimeThreshold
  | IE_URSEQN URSEQN

primrec scalar_marshal :: "scalar_ie \<Rightarrow> bytes res" where
  "scalar_marshal (IE_BARID v) = BARID_marshal v"
| "scalar_marshal (IE_CPFunctionFeatures v) = CPFunctionFeatures_marshal v"
| "scalar_marshal (IE_Cause v) = Cause_marshal v"
| "scalar_marshal (IE_DownlinkDataNotificationDelay v) = DownlinkDataNotificationDelay_marshal v"
| "scalar_marshal (IE_OuterHeaderRemoval v) = OuterHeaderRemoval_marshal v"
| "scalar_marshal (IE_SuggestedBufferingPacketsCount v) = SuggestedBufferingPacketsCount_marshal v"
| "scalar_marshal (IE_TrafficEndpointID v) = TrafficEndpointID_marshal v"
| "scalar_marshal (IE_DestinationInterface v) = DestinationInterface_marshal v"
| "scalar_marshal (IE_SourceInterface v) = SourceInterface_marshal v"
| "scalar_marshal (IE_PDNType v) = PDNType_marshal v"
| "scalar_marshal (IE_DLBufferingDuration v) = DLBufferingDuration_marshal v"
| "scalar_marshal (IE_GateStatus v) = GateStatus_marshal v"
| "scalar_marshal (IE_OffendingIE v) = OffendingIE_marshal v"
| "scalar_marshal (IE_PacketDetectionRuleID v) = PacketDetectionRuleID_marshal v"
| "scalar_marshal (IE_UPFunctionFeatures v) = UPFunctionFeatures_marshal v"
| "scalar_marshal (IE_TransportLevelMarking v) = TransportLevelMarking_marshal v"
| "scalar_marshal (IE_FARID v) = FARID_marshal v"
| "scalar_marshal (IE_URRID v) = URRID_marshal v"
| "scalar_marshal (IE_LinkedURRID v) = LinkedURRID_marshal v"
| "scalar_marshal (IE_MeasurementPeriod v) = MeasurementPeriod_marshal v"
| "scalar_marshal (IE_DurationMeasurement v) = DurationMeasurement_marshal v"
| "scalar_marshal (IE_EthernetInactivityTimer v) = EthernetInactivityTimer_marshal v"
| "scalar_marshal (IE_EventID v) = EventID_marshal v"
| "scalar_marshal (IE_EventThreshold v) = EventThreshold_marshal v"
| "scalar_marshal (IE_InactivityDetectionTime v) = InactivityDetectionTime_marshal v"
| "scalar_marshal (IE_Precedence v) = Precedence_marshal v"
| "scalar_marshal (IE_QERCorrelationID v) = QERCorrelationID_marshal v"
| "scalar_marshal (IE_QuotaHoldingTime v) = QuotaHoldingTime_marshal v"
| "scalar_marshal (IE_SubsequentTimeThreshold v) = SubsequentTimeThreshold_marshal v"
| "scalar_marshal (IE_TimeQuota v) = TimeQuota_marshal v"
| "scalar_marshal (IE_TimeThreshold v) = TimeThreshold_marshal v"
| "scalar_marshal (IE_URSEQN v) = URSEQN_marshal v"

primrec scalar_unmarshal :: "scalar_ie \<Rightarrow> slice \<Rightarrow> scalar_ie res" where
  "scalar_unmarshal (IE_BARID v) s = map_res IE_BARID (BARID_unmarshal v s)"
| "scalar_unmarshal (IE_CPFunctionFeatures v) s = map_res IE_CPFunctionFeatures (CPFunctionFeatures_unmarshal v s)"
| "scalar_unmarshal (IE_Cause v) s = map_res IE_Cause (Cause_unmarshal v s)"
| "scalar_unmarshal (IE_DownlinkDataNotificationDelay v) s = map_res IE_DownlinkDataNotificationDelay (DownlinkDataNotificationDelay_unmarshal v s)"
| "scalar_unmarshal (IE_OuterHeaderRemoval v) s = map_res IE_OuterHeaderRemoval (OuterHeaderRemoval_unmarshal v s)"
| "scalar_unmarshal (IE_SuggestedBufferingPacketsCount v) s = map_res IE_SuggestedBufferingPacketsCount (SuggestedBufferingPacketsCount_unmarshal v s)"
| "scalar_unmarshal (IE_TrafficEndpointID v) s = map_res IE_TrafficEndpointID (TrafficEndpointID_unmarshal v s)"
| "scalar_unmarshal (IE_DestinationInterface v) s = map_res IE_DestinationInterface (DestinationInterface_unmarshal v s)"
| "scalar_unmarshal (IE_SourceInterface v) s = map_res IE_SourceInterface (SourceInterface_unmarshal v s)"
| "scalar_unmarshal (IE_PDNType v) s = map_res IE_PDNType (PDNType_unmarshal v s)"
| "scalar_unmarshal (IE_DLBufferingDuration v) s = map_res IE_DLBufferingDuration (DLBufferingDuration_unmarshal v s)"
| "scalar_unmarshal (IE_GateStatus v) s = map_res IE_GateStatus (GateStatus_unmarshal v s)"
| "scalar_unmarshal (IE_OffendingIE v) s = map_res IE_OffendingIE (OffendingIE_unmarshal v s)"
| "scalar_unmarshal (IE_PacketDetectionRuleID v) s = map_res IE_PacketDetectionRuleID (PacketDetectionRuleID_unmarshal v s)"
| "scalar_unmarshal (IE_UPFunctionFeatures v) s = map_res IE_UPFunctionFeatures (UPFunctionFeatures_unmarshal v s)"
| "scalar_unmarshal (IE_TransportLevelMarking v) s = map_res IE_TransportLevelMarking (TransportLevelMarking_unmarshal v s)"
| "scalar_unmarshal (IE_FARID v) s = map_res IE_FARID (FARID_unmarshal v s)"
| "scalar_unmarshal (IE_URRID v) s = map_res IE_URRID (URRID_unmarshal v s)"
| "scalar_unmarshal (IE_LinkedURRID v) s = map_res IE_LinkedURRID (LinkedURRID_unmarshal v s)"
| "scalar_unmarshal (IE_MeasurementPeriod v) s = map_res IE_MeasurementPeriod (MeasurementPeriod_unmarshal v s)"
| "scalar_unmarshal (IE_DurationMeasurement v) s = map_res IE_DurationMeasurement (DurationMeasurement_unmarshal v s)"
| "scalar_unmarshal (IE_EthernetInactivityTimer v) s = map_res IE_EthernetInactivityTimer (EthernetInactivityTimer_unmarshal v s)"
| "scalar_unmarshal (IE_EventID v) s = map_res IE_EventID (EventID_unmarshal v s)"
| "scalar_unmarshal (IE_EventThreshold v) s = map_res IE_EventThreshold (EventThreshold_unmarshal v s)"
| "scalar_unmarshal (IE_InactivityDetectionTime v) s = map_res IE_InactivityDetectionTime (InactivityDetectionTime_unmarshal v s)"
| "scalar_unmarshal (IE_Precedence v) s = map_res IE_Precedence (Precedence_unmarshal v s)"
| "scalar_unmarshal (IE_QERCorrelationID v) s = map_res IE_QERCorrelationID (QERCorrelationID_unmarshal v s)"
| "scalar_unmarshal (IE_QuotaHoldingTime v) s = map_res IE_QuotaHoldingTime (QuotaHoldingTime_unmarshal v s)"
| "scalar_unmarshal (IE_SubsequentTimeThreshold v) s = map_res IE_SubsequentTimeThreshold (SubsequentTimeThreshold_unmarshal v s)"
| "scalar_unmarshal (IE_TimeQuota v) s = map_res IE_TimeQuota (TimeQuota_unmarshal v s)"
| "scalar_unmarshal (IE_TimeThreshold v) s = map_res IE_TimeThreshold (TimeThreshold_unmarshal v s)"
| "scalar_unmarshal (IE_URSEQN v) s = map_res IE_URSEQN (URSEQN_unmarshal v s)"

primrec scalar_zero :: "scalar_ie \<Rightarrow> scalar_ie" where
  "scalar_zero (IE_BARID v) = IE_BARID BARID_new"
| "scalar_zero (IE_CPFunctionFeatures v) = IE_CPFunctionFeatures CPFunctionFeatures_new"
| "scalar_zero (IE_Cause v) = IE_Cause Cause_new"
| "scalar_zero (IE_DownlinkDataNotificationDelay v) = IE_DownlinkDataNotificationDelay DownlinkDataNotificationDelay_new"
| "scalar_zero (IE_OuterHeaderRemoval v) = IE_OuterHeaderRemoval OuterHeaderRemoval_new"
| "scalar_zero (IE_SuggestedBufferingPacketsCount v) = IE_SuggestedBufferingPacketsCount SuggestedBufferingPacketsCount_new"
| "scalar_zero (IE_TrafficEndpointID v) = IE_TrafficEndpointID TrafficEndpointID_new"
| "scalar_zero (IE_DestinationInterface v) = IE_DestinationInterface DestinationInterface_new"
| "scalar_zero (IE_SourceInterface v) = IE_SourceInterface SourceInterface_new"
| "scalar_zero (IE_PDNType v) = IE_PDNType PDNType_new"
| "scalar_zero (IE_DLBufferingDuration v) = IE_DLBufferingDuration DLBufferingDuration_new"
| "scalar_zero (IE_GateStatus v) = IE_GateStatus GateStatus_new"
| "scalar_zero (IE_OffendingIE v) = IE_OffendingIE OffendingIE_new"
| "scalar_zero (IE_PacketDetectionRuleID v) = IE_PacketDetectionRuleID PacketDetectionRuleID_new"
| "scalar_zero (IE_UPFunctionFeatures v) = IE_UPFunctionFeatures UPFunctionFeatures_new"
| "scalar_zero (IE_TransportLevelMarking v) = IE_TransportLevelMarking TransportLevelMarking_new"
| "scalar_zero (IE_FARID v) = IE_FARID FARID_new"
| "scalar_zero (IE_URRID v) = IE_URRID URRID_new"
| "scalar_zero (IE_LinkedURRID v) = IE_LinkedURRID LinkedURRID_new"
| "scalar_zero (IE_MeasurementPeriod v) = IE_MeasurementPeriod MeasurementPeriod_new"
| "scalar_zero (IE_DurationMeasurement v) = IE_DurationMeasurement DurationMeasurement_new"
| "scalar_zero (IE_EthernetInactivityTimer v) = IE_EthernetInactivityTimer EthernetInactivityTimer_new"
| "scalar_zero (IE_EventID v) = IE_EventID EventID_new"
| "scalar_zero (IE_EventThreshold v) = IE_EventThreshold EventThreshold_new"
| "scalar_zero (IE_InactivityDetectionTime v) = IE_InactivityDetectionTime InactivityDetectionTime_new"
| "scalar_zero (IE_Precedence v) = IE_Precedence Precedence_new"
| "scalar_zero (IE_QERCorrelationID v) = IE_QERCorrelationID QERCorrelationID_new"
| "scalar_zero (IE_QuotaHoldingTime v) = IE_QuotaHoldingTime QuotaHoldingTime_new"
| "scalar_zero (IE_SubsequentTimeThreshold v) = IE_SubsequentTimeThreshold SubsequentTimeThreshold_new"
| "scalar_zero (IE_TimeQuota v) = IE_TimeQuota TimeQuota_new"
| "scalar_zero (IE_TimeThreshold v) = IE_TimeThreshold TimeThreshold_new"
| "scalar_zero (IE_URSEQN v) = IE_URSEQN URSEQN_new"

primrec scalar_wf :: "scalar_ie \<Rightarrow> bool" where
  "scalar_wf (IE_BARID v) = True"
| "scalar_wf (IE_CPFunctionFeatures v) = True"
| "scalar_wf (IE_Cause v) = True"
| "scalar_wf (IE_DownlinkDataNotificationDelay v) = True"
| "scalar_wf (IE_OuterHeaderRemoval v) = True"
| "scalar_wf (IE_SuggestedBufferingPacketsCount v) = True"
| "scalar_wf (IE_TrafficEndpointID v) = True"
| "scalar_wf (IE_DestinationInterface v) = (bits_Len (DestinationInterface_InterfaceValue v) \<le> 4)"
| "scalar_wf (IE_SourceInterface v) = (bits_Len (SourceInterface_InterfaceValue v) \<le> 4)"
| "scalar_wf (IE_PDNType v) = (bits_Len (PDNType_PdnType v) \<le> 3)"
| "scalar_wf (IE_DLBufferingDuration v) = (bits_Len (DLBufferingDuration_TimerUnit v) \<le> 3 \<and> bits_Len (DLBufferingDuration_TimerValue v) \<le> 5)"
| "scalar_wf (IE_GateStatus v) = (bits_Len (GateStatus_UlGate v) \<le> 2 \<and> bits_Len (GateStatus_DlGate v) \<le> 2)"
| "scalar_wf (IE_OffendingIE v) = True"
| "scalar_wf (IE_PacketDetectionRuleID v) = True"
| "scalar_wf (IE_UPFunctionFeatures v) = True"
| "scalar_wf (IE_TransportLevelMarking v) = (length (TransportLevelMarking_TosTrafficClass v) = 2)"
| "scalar_wf (IE_FARID v) = True"
| "scalar_wf (IE_URRID v) = True"
| "scalar_wf (IE_LinkedURRID v) = True"
| "scalar_wf (IE_MeasurementPeriod v) = True"
| "scalar_wf (IE_DurationMeasurement v) = True"
| "scalar_wf (IE_EthernetInactivityTimer v) = True"
| "scalar_wf (IE_EventID v) = True"
| "scalar_wf (IE_EventThreshold v) = True"
| "scalar_wf (IE_InactivityDetectionTime v) = True"
| "scalar_wf (IE_Precedence v) = True"
| "scalar_wf (IE_QERCorrelationID v) = True"
| "scalar_wf (IE_QuotaHoldingTime v) = True"
| "scalar_wf (IE_SubsequentTimeThreshold v) = True"
| "scalar_wf (IE_TimeQuota v) = True"
| "scalar_wf (IE_TimeThreshold v) = True"
| "scalar_wf (IE_URSEQN v) = True"

primrec scalar_fields :: "scalar_ie \<Rightarrow> (string \<times> bool) list" where
  "scalar_fields (IE_BARID v) = [(''BarIdValue'', True)]"
| "scalar_fields (IE_CPFunctionFeatures v) = [(''SupportedFeatures'', True)]"
| "scalar_fields (IE_Cause v) = [(''CauseValue'', True)]"
| "scalar_fields (IE_DownlinkDataNotificationDelay v) = [(''DelayValue'', True)]"
| "scalar_fields (IE_OuterHeaderRemoval v) = [(''OuterHeaderRemovalDescription'', True)]"
| "scalar_fields (IE_SuggestedBufferingPacketsCount v) = [(''PacketCountValue'', True)]"
| "scalar_fields (IE_TrafficEndpointID v) = [(''TrafficEndpointIdValue'', True)]"
| "scalar_fields (IE_DestinationInterface v) = [(''InterfaceValue'', True)]"
| "scalar_fields (IE_SourceInterface v) = [(''InterfaceValue'', True)]"
| "scalar_fields (IE_PDNType v) = [(''PdnType'', True)]"
| "scalar_fields (IE_DLBufferingDuration v) = [(''TimerUnit'', True), (''TimerValue'', True)]"
| "scalar_fields (IE_GateStatus v) = [(''UlGate'', True), (''DlGate'', True)]"
| "scalar_fields (IE_OffendingIE v) = [(''TypeOfOffendingIe'', True)]"
| "scalar_fields (IE_PacketDetectionRuleID v) = [(''RuleId'', True)]"
| "scalar_fields (IE_UPFunctionFeatures v) = [(''SupportedFeatures'', True)]"
| "scalar_fields (IE_TransportLevelMarking v) = [(''TosTrafficClass'', TransportLevelMarking_TosTrafficClass v \<noteq> [])]"
| "scalar_fields (IE_FARID v) = [(''FarIdValue'', True)]"
| "scalar_fields (IE_URRID v) = [(''UrrIdValue'', True)]"
| "scalar_fields (IE_LinkedURRID v) = [(''LinkedUrrIdValue'', True)]"
| "scalar_fields (IE_MeasurementPeriod v) = [(''MeasurementPeriod'', True)]"
| "scalar_fields (IE_DurationMeasurement v) = [(''DurationValue'', True)]"
| "scalar_fields (IE_EthernetInactivityTimer v) = [(''EthernetInactivityTimer'', True)]"
| "scalar_fields (IE_EventID v) = [(''EventId'', True)]"
| "scalar_fields (IE_EventThreshold v) = [(''EventThreshold'', True)]"
| "scalar_fields (IE_InactivityDetectionTime v) = [(''InactivityDetectionTime'', True)]"
| "scalar_fields (IE_Precedence v) = [(''PrecedenceValue'', True)]"
| "scalar_fields (IE_QERCorrelationID v) = [(''QerCorrelationIdValue'', True)]"
| "scalar_fields (IE_QuotaHoldingTime v) = [(''QuotaHoldingTimeValue'', True)]"
| "scalar_fields (IE_SubsequentTimeThreshold v) = [(''SubsequentTimeThreshold'', True)]"
| "scalar_fields (IE_TimeQuota v) = [(''TimeQuotaValue'', True)]"
| "scalar_fields (IE_TimeThreshold v) = [(''TimeThreshold'', True)]"
| "scalar_fields (IE_URSEQN v) = [(''UrseqnValue'', True)]"

lemma scalar_marshal_total: "scalar_wf l \<Longrightarrow> \<exists>d. scalar_marshal l = Inr d"
  using barid.marshal_total cpfunctionfeatures.marshal_total cause.marshal_total downlinkdatanotificationdelay.marshal_total outerheaderremoval.marshal_total suggestedbufferingpacketscount.marshal_total trafficendpointid.marshal_total destinationinterface.marshal_total sourceinterface.marshal_total pdntype.marshal_total dlbufferingduration.marshal_total gatestatus.marshal_total offendingie.marshal_total packetdetectionruleid.marshal_total upfunctionfeatures.marshal_total transportlevelmarking.marshal_total farid.marshal_total urrid.marshal_total linkedurrid.marshal_total measurementperiod.marshal_total durationmeasurement.marshal_total ethernetinactivitytimer.marshal_total eventid.marshal_total eventthreshold.marshal_total inactivitydetectiontime.marshal_total precedence.marshal_total qercorrelationid.marshal_total quotaholdingtime.marshal_total subsequenttimethreshold.marshal_total timequota.marshal_total timethreshold.marshal_total urseqn.marshal_total
  by (cases l) simp_all

lemma scalar_unmarshal_marshal:
  "scalar_wf l \<Longrightarrow> scalar_marshal l = Inr d \<Longrightarrow> scalar_unmarshal (scalar_zero l) (Slice d sp) = Inr l"
  by (cases l) (simp_all add: barid.unmarshal_marshal cpfunctionfeatures.unmarshal_marshal cause.unmarshal_marshal downlinkdatanotificationdelay.unmarshal_marshal outerheaderremoval.unmarshal_marshal suggestedbufferingpacketscount.unmarshal_marshal trafficendpointid.unmarshal_marshal destinationinterface.unmarshal_marshal sourceinterface.unmarshal_marshal pdntype.unmarshal_marshal dlbufferingduration.unmarshal_marshal gatestatus.unmarshal_marshal offendingie.unmarshal_marshal packetdetectionruleid.unmarshal_marshal upfunctionfeatures.unmarshal_marshal transportlevelmarking.unmarshal_marshal farid.unmarshal_marshal urrid.unmarshal_marshal linkedurrid.unmarshal_marshal measurementperiod.unmarshal_marshal durationmeasurement.unmarshal_marshal ethernetinactivitytimer.unmarshal_marshal eventid.unmarshal_marshal eventthreshold.unmarshal_marshal inactivitydetectiontime.unmarshal_marshal precedence.unmarshal_marshal qercorrelationid.unmarshal_marshal quotaholdingtime.unmarshal_marshal subsequenttimethreshold.unmarshal_marshal timequota.unmarshal_marshal timethreshold.unmarshal_marshal urseqn.unmarshal_marshal)

section \<open>PFCP Flags\<close>

datatype flags_ie =
    IE_ApplyAction ApplyAction
  | IE_MeasurementInformation MeasurementInformation
  | IE_NodeReportType NodeReportType
  | IE_PFCPSMReqFlags PFCPSMReqFlags
  | IE_PFCPSRRspFlags PFCPSRRspFlags
  | IE_ReportType ReportType
  | IE_MeasurementMethod MeasurementMethod
  | IE_ReportingTriggers ReportingTriggers

primrec flags_marshal :: "flags_ie \<Rightarrow> bytes res" where
  "flags_marshal (IE_ApplyAction v) = ApplyAction_marshal v"
| "flags_marshal (IE_MeasurementInformation v) = MeasurementInformation_marshal v"
| "flags_marshal (IE_NodeReportType v) = NodeReportType_marshal v"
| "flags_marshal (IE_PFCPSMReqFlags v) = PFCPSMReqFlags_marshal v"
| "flags_marshal (IE_PFCPSRRspFlags v) = PFCPSRRspFlags_marshal v"
| "flags_marshal (IE_ReportType v) = ReportType_marshal v"
| "flags_marshal (IE_MeasurementMethod v) = MeasurementMethod_marshal v"
| "flags_marshal (IE_ReportingTriggers v) = ReportingTriggers_marshal v"

primrec flags_unmarshal :: "flags_ie \<Rightarrow> slice \<Rightarrow> flags_ie res" where
  "flags_unmarshal (IE_ApplyAction v) s = map_res IE_ApplyAction (ApplyAction_unmarshal v s)"
| "flags_unmarshal (IE_MeasurementInformation v) s = map_res IE_MeasurementInformation (MeasurementInformation_unmarshal v s)"
| "flags_unmarshal (IE_NodeReportType v) s = map_res IE_NodeReportType (NodeReportType_unmarshal v s)"
| "flags_unmarshal (IE_PFCPSMReqFlags v) s = map_res IE_PFCPSMReqFlags (PFCPSMReqFlags_unmarshal v s)"
| "flags_unmarshal (IE_PFCPSRRspFlags v) s = map_res IE_PFCPSRRspFlags (PFCPSRRspFlags_unmarshal v s)"
| "flags_unmarshal (IE_ReportType v) s = map_res IE_ReportType (ReportType_unmarshal v s)"
| "flags_unmarshal (IE_MeasurementMethod v) s = map_res IE_MeasurementMethod (MeasurementMethod_unmarshal v s)"
| "flags_unmarshal (IE_ReportingTriggers v) s = map_res IE_ReportingTriggers (ReportingTriggers_unmarshal v s)"

primrec flags_zero :: "flags_ie \<Rightarrow> flags_ie" where
  "flags_zero (IE_ApplyAction v) = IE_ApplyAction ApplyAction_new"
| "flags_zero (IE_MeasurementInformation v) = IE_MeasurementInformation MeasurementInformation_new"
| "flags_zero (IE_NodeReportType v) = IE_NodeReportType NodeReportType_new"
| "flags_zero (IE_PFCPSMReqFlags v) = IE_PFCPSMReqFlags PFCPSMReqFlags_new"
| "flags_zero (IE_PFCPSRRspFlags v) = IE_PFCPSRRspFlags PFCPSRRspFlags_new"
| "flags_zero (IE_ReportType v) = IE_ReportType ReportType_new"
| "flags_zero (IE_MeasurementMethod v) = IE_MeasurementMethod MeasurementMethod_new"
| "flags_zero (IE_ReportingTriggers v) = IE_ReportingTriggers ReportingTriggers_new"

primrec flags_wf :: "flags_ie \<Rightarrow> bool" where
  "flags_wf (IE_ApplyAction v) = True"
| "flags_wf (IE_MeasurementInformation v) = True"
| "flags_wf (IE_NodeReportType v) = True"
| "flags_wf (IE_PFCPSMReqFlags v) = True"
| "flags_wf (IE_PFCPSRRspFlags v) = True"
| "flags_wf (IE_ReportType v) = True"
| "flags_wf (IE_MeasurementMethod v) = (\<not> MeasurementMethod_none v)"
| "flags_wf (IE_ReportingTriggers v) = True"

primrec flags_fields :: "flags_ie \<Rightarrow> (string \<times> bool) list" where
  "flags_fields (IE_ApplyAction v) = [(''Dupl'', True), (''Nocp'', True), (''Buff'', True), (''Forw'', True), (''Drop'', True)]"
| "flags_fields (IE_MeasurementInformation v) = [(''Radi'', True), (''Inam'', True), (''Mbqe'', True)]"
| "flags_fields (IE_NodeReportType v) = [(''Upfr'', True)]"
| "flags_fields (IE_PFCPSMReqFlags v) = [(''Qaurr'', True), (''Sndem'', True), (''Drobu'', True)]"
| "flags_fields (IE_PFCPSRRspFlags v) = [(''Drobu'', True)]"
| "flags_fields (IE_ReportType v) = [(''Upir'', True), (''Erir'', True), (''Usar'', True), (''Dldr'', True)]"
| "flags_fields (IE_MeasurementMethod v) = [(''Event'', True), (''Volum'', True), (''Durat'', True)]"
| "flags_fields (IE_ReportingTriggers v) = [(''Liusa'', True), (''Droth'', True), (''Stopt'', True), (''Start'', True), (''Quhti'', True), (''Timth'', True), (''Volth'', True), (''Perio'', True), (''Evequ'', True), (''Eveth'', True), (''Macar'', True), (''Envcl'', True), (''Timqu'', True), (''Volqu'', True)]"

lemma flags_marshal_total: "flags_wf l \<Longrightarrow> \<exists>d. flags_marshal l = Inr d"
  using applyaction.marshal_total measurementinformation.marshal_total nodereporttype.marshal_total pfcpsmreqflags.marshal_total pfcpsrrspflags.marshal_total reporttype.marshal_total measurementmethod.marshal_total reportingtriggers.marshal_total
  by (cases l) simp_all

lemma flags_unmarshal_marshal:
  "flags_wf l \<Longrightarrow> flags_marshal l = Inr d \<Longrightarrow> flags_unmarshal (flags_zero l) (Slice d sp) = Inr l"
  by (cases l) (simp_all add: applyaction.unmarshal_marshal measurementinformation.unmarshal_marshal nodereporttype.unmarshal_marshal pfcpsmreqflags.unmarshal_marshal pfcpsrrspflags.unmarshal_marshal reporttype.unmarshal_marshal measurementmethod.unmarshal_marshal reportingtriggers.unmarshal_marshal)

section \<open>PFCP Volume\<close>

datatype volume_ie =
    IE_DLBufferingSuggestedPacketCount DLBufferingSuggestedPacketCount
  | IE_DownlinkDataServiceInformation DownlinkDataServiceInformation
  | IE_DroppedDLTrafficThreshold DroppedDLTrafficThreshold
  | IE_MBR MBR
  | IE_GBR GBR
  | IE_VolumeThreshold VolumeThreshold
  | IE_VolumeQuota VolumeQuota
  | IE_VolumeMeasurement VolumeMeasurement
  | IE_SubsequentVolumeThreshold SubsequentVolumeThreshold

primrec volume_marshal :: "volume_ie \<Rightarrow> bytes res" where
  "volume_marshal (IE_DLBufferingSuggestedPacketCount v) = DLBufferingSuggestedPacketCount_marshal v"
| "volume_marshal (IE_DownlinkDataServiceInformation v) = DownlinkDataServiceInformation_marshal v"
| "volume_marshal (IE_DroppedDLTrafficThreshold v) = DroppedDLTrafficThreshold_marshal v"
| "volume_marshal (IE_MBR v) = MBR_marshal v"
| "volume_marshal (IE_GBR v) = GBR_marshal v"
| "volume_marshal (IE_VolumeThreshold v) = VolumeThreshold_marshal v"
| "volume_marshal (IE_VolumeQuota v) = VolumeQuota_marshal v"
| "volume_marshal (IE_VolumeMeasurement v) = VolumeMeasurement_marshal v"
| "volume_marshal (IE_SubsequentVolumeThreshold v) = SubsequentVolumeThreshold_marshal v"

primrec volume_unmarshal :: "volume_ie \<Rightarrow> slice \<Rightarrow> volume_ie res" where
  "volume_unmarshal (IE_DLBufferingSuggestedPacketCount v) s = map_res IE_DLBufferingSuggestedPacketCount (DLBufferingSuggestedPacketCount_unmarshal v s)"
| "volume_unmarshal (IE_DownlinkDataServiceInformation v) s = map_res IE_DownlinkDataServiceInformation (DownlinkDataServiceInformation_unmarshal v s)"
| "volume_unmarshal (IE_DroppedDLTrafficThreshold v) s = map_res IE_DroppedDLTrafficThreshold (DroppedDLTrafficThreshold_unmarshal v s)"
| "volume_unmarshal (IE_MBR v) s = map_res IE_MBR (MBR_unmarshal v s)"
| "volume_unmarshal (IE_GBR v) s = map_res IE_GBR (GBR_unmarshal v s)"
| "volume_unmarshal (IE_VolumeThreshold v) s = map_res IE_VolumeThreshold (VolumeThreshold_unmarshal v s)"
| "volume_unmarshal (IE_VolumeQuota v) s = map_res IE_VolumeQuota (VolumeQuota_unmarshal v s)"
| "volume_unmarshal (IE_VolumeMeasurement v) s = map_res IE_VolumeMeasurement (VolumeMeasurement_unmarshal v s)"
| "volume_unmarshal (IE_SubsequentVolumeThreshold v) s = map_res IE_SubsequentVolumeThreshold (SubsequentVolumeThreshold_unmarshal v s)"

primrec volume_zero :: "volume_ie \<Rightarrow> volume_ie" where
  "volume_zero (IE_DLBufferingSuggestedPacketCount v) = IE_DLBufferingSuggestedPacketCount DLBufferingSuggestedPacketCount_new"
| "volume_zero (IE_DownlinkDataServiceInformation v) = IE_DownlinkDataServiceInformation DownlinkDataServiceInformation_new"
| "volume_zero (IE_DroppedDLTrafficThreshold v) = IE_DroppedDLTrafficThreshold DroppedDLTrafficThreshold_new"
| "volume_zero (IE_MBR v) = IE_MBR MBR_new"
| "volume_zero (IE_GBR v) = IE_GBR GBR_new"
| "volume_zero (IE_VolumeThreshold v) = IE_VolumeThreshold VolumeThreshold_new"
| "volume_zero (IE_VolumeQuota v) = IE_VolumeQuota VolumeQuota_new"
| "volume_zero (IE_VolumeMeasurement v) = IE_VolumeMeasurement VolumeMeasurement_new"
| "volume_zero (IE_SubsequentVolumeThreshold v) = IE_SubsequentVolumeThreshold SubsequentVolumeThreshold_new"

primrec volume_wf :: "volume_ie \<Rightarrow> bool" where
  "volume_wf (IE_DLBufferingSuggestedPacketCount v) = True"
| "volume_wf (IE_DownlinkDataServiceInformation v) = DownlinkDataServiceInformation_wf v"
| "volume_wf (IE_DroppedDLTrafficThreshold v) = DroppedDLTrafficThreshold_wf v"
| "volume_wf (IE_MBR v) = MBR_wf v"
| "volume_wf (IE_GBR v) = GBR_wf v"
| "volume_wf (IE_VolumeThreshold v) = VolumeThreshold_wf v"
| "volume_wf (IE_VolumeQuota v) = VolumeQuota_wf v"
| "volume_wf (IE_VolumeMeasurement v) = VolumeMeasurement_wf v"
| "volume_wf (IE_SubsequentVolumeThreshold v) = SubsequentVolumeThreshold_wf v"

primrec volume_fields :: "volume_ie \<Rightarrow> (string \<times> bool) list" where
  "volume_fields (IE_DLBufferingSuggestedPacketCount v) = [(''PacketCountValue'', True)]"
| "volume_fields (IE_DownlinkDataServiceInformation v) = [(''Qfii'', True), (''Ppi'', True), (''PagingPolicyIndicationValue'', True), (''Qfi'', True)]"
| "volume_fields (IE_DroppedDLTrafficThreshold v) = [(''Dlby'', True), (''Dlpa'', True), (''DownlinkPackets'', True), (''NumberOfBytesOfDownlinkData'', True)]"
| "volume_fields (IE_MBR v) = [(''UlMbr'', True), (''DlMbr'', True)]"
| "volume_fields (IE_GBR v) = [(''UlGbr'', True), (''DlGbr'', True)]"
| "volume_fields (IE_VolumeThreshold v) = [(''Dlvol'', True), (''Ulvol'', True), (''Tovol'', True), (''TotalVolume'', True), (''UplinkVolume'', True), (''DownlinkVolume'', True)]"
| "volume_fields (IE_VolumeQuota v) = [(''Dlvol'', True), (''Ulvol'', True), (''Tovol'', True), (''TotalVolume'', True), (''UplinkVolume'', True), (''DownlinkVolume'', True)]"
| "volume_fields (IE_VolumeMeasurement v) = [(''Dlvol'', True), (''Ulvol'', True), (''Tovol'', True), (''TotalVolume'', True), (''UplinkVolume'', True), (''DownlinkVolume'', True)]"
| "volume_fields (IE_SubsequentVolumeThreshold v) = [(''Dlvol'', True), (''Ulvol'', True), (''Tovol'', True), (''TotalVolume'', True), (''UplinkVolume'', True), (''DownlinkVolume'', True)]"

lemma volume_marshal_total: "volume_wf l \<Longrightarrow> \<exists>d. volume_marshal l = Inr d"
  using dlbspc.marshal_total ddsi.marshal_total ddtt.marshal_total mbr.marshal_total gbr.marshal_total volth.marshal_total volqu.marshal_total volme.marshal_total svolth.marshal_total
  by (cases l) simp_all

lemma volume_unmarshal_marshal:
  "volume_wf l \<Longrightarrow> volume_marshal l = Inr d \<Longrightarrow> volume_unmarshal (volume_zero l) (Slice d sp) = Inr l"
  by (cases l) (simp_all add: dlbspc.unmarshal_marshal ddsi.unmarshal_marshal ddtt.unmarshal_marshal mbr.unmarshal_marshal gbr.unmarshal_marshal volth.unmarshal_marshal volqu.unmarshal_marshal volme.unmarshal_marshal svolth.unmarshal_marshal)

section \<open>PFCP Text\<close>

datatype text_ie =
    IE_ActivatePredefinedRules ActivatePredefinedRules
  | IE_DeactivatePredefinedRules DeactivatePredefinedRules
  | IE_ApplicationID ApplicationID
  | IE_Dnn Dnn
  | IE_FailedRuleID FailedRuleID
  | IE_ForwardingPolicy ForwardingPolicy
  | IE_HeaderEnrichment HeaderEnrichment
  | IE_RedirectInformation RedirectInformation
  | IE_SDFFilter SDFFilter
  | IE_PFDContents PFDContents

primrec text_marshal :: "text_ie \<Rightarrow> bytes res" where
  "text_marshal (IE_ActivatePredefinedRules v) = ActivatePredefinedRules_marshal v"
| "text_marshal (IE_DeactivatePredefinedRules v) = DeactivatePredefinedRules_marshal v"
| "text_marshal (IE_ApplicationID v) = ApplicationID_marshal v"
| "text_marshal (IE_Dnn v) = Dnn_marshal v"
| "text_marshal (IE_FailedRuleID v) = FailedRuleID_marshal v"
| "text_marshal (IE_ForwardingPolicy v) = ForwardingPolicy_marshal v"
| "text_marshal (IE_HeaderEnrichment v) = HeaderEnrichment_marshal v"
| "text_marshal (IE_RedirectInformation v) = RedirectInformation_marshal v"
| "text_marshal (IE_SDFFilter v) = SDFFilter_marshal v"
| "text_marshal (IE_PFDContents v) = PFDContents_marshal v"

primrec text_unmarshal :: "text_ie \<Rightarrow> slice \<Rightarrow> text_ie res" where
  "text_unmarshal (IE_ActivatePredefinedRules v) s = map_res IE_ActivatePredefinedRules (ActivatePredefinedRules_unmarshal v s)"
| "text_unmarshal (IE_DeactivatePredefinedRules v) s = map_res IE_DeactivatePredefinedRules (DeactivatePredefinedRules_unmarshal v s)"
| "text_unmarshal (IE_ApplicationID v) s = map_res IE_ApplicationID (ApplicationID_unmarshal v s)"
| "text_unmarshal (IE_Dnn v) s = map_res IE_Dnn (Dnn_unmarshal v s)"
| "text_unmarshal (IE_FailedRuleID v) s = map_res IE_FailedRuleID (FailedRuleID_unmarshal v s)"
| "text_unmarshal (IE_ForwardingPolicy v) s = map_res IE_ForwardingPolicy (ForwardingPolicy_unmarshal v s)"
| "text_unmarshal (IE_HeaderEnrichment v) s = map_res IE_HeaderEnrichment (HeaderEnrichment_unmarshal v s)"
| "text_unmarshal (IE_RedirectInformation v) s = map_res IE_RedirectInformation (RedirectInformation_unmarshal v s)"
| "text_unmarshal (IE_SDFFilter v) s = map_res IE_SDFFilter (SDFFilter_unmarshal v s)"
| "text_unmarshal (IE_PFDContents v) s = map_res IE_PFDContents (PFDContents_unmarshal v s)"

primrec text_zero :: "text_ie \<Rightarrow> text_ie" where
  "text_zero (IE_ActivatePredefinedRules v) = IE_ActivatePredefinedRules ActivatePredefinedRules_new"
| "text_zero (IE_DeactivatePredefinedRules v) = IE_DeactivatePredefinedRules DeactivatePredefinedRules_new"
| "text_zero (IE_ApplicationID v) = IE_ApplicationID ApplicationID_new"
| "text_zero (IE_Dnn v) = IE_Dnn []"
| "text_zero (IE_FailedRuleID v) = IE_FailedRuleID FailedRuleID_new"
| "text_zero (IE_ForwardingPolicy v) = IE_ForwardingPolicy ForwardingPolicy_new"
| "text_zero (IE_HeaderEnrichment v) = IE_HeaderEnrichment HeaderEnrichment_new"
| "text_zero (IE_RedirectInformation v) = IE_RedirectInformation RedirectInformation_new"
| "text_zero (IE_SDFFilter v) = IE_SDFFilter SDFFilter_new"
| "text_zero (IE_PFDContents v) = IE_PFDContents PFDContents_new"

primrec text_wf :: "text_ie \<Rightarrow> bool" where
  "text_wf (IE_ActivatePredefinedRules v) = True"
| "text_wf (IE_DeactivatePredefinedRules v) = True"
| "text_wf (IE_ApplicationID v) = True"
| "text_wf (IE_Dnn v) = True"
| "text_wf (IE_FailedRuleID v) = FailedRuleID_wf v"
| "text_wf (IE_ForwardingPolicy v) = ForwardingPolicy_wf v"
| "text_wf (IE_HeaderEnrichment v) = HeaderEnrichment_wf v"
| "text_wf (IE_RedirectInformation v) = RedirectInformation_wf v"
| "text_wf (IE_SDFFilter v) = SDFFilter_wf v"
| "text_wf (IE_PFDContents v) = PFDContents_wf v"

primrec text_fields :: "text_ie \<Rightarrow> (string \<times> bool) list" where
  "text_fields (IE_ActivatePredefinedRules v) = [(''PredefinedRulesName'', ActivatePredefinedRules_PredefinedRulesName v \<noteq> [])]"
| "text_fields (IE_DeactivatePredefinedRules v) = [(''PredefinedRulesName'', DeactivatePredefinedRules_PredefinedRulesName v \<noteq> [])]"
| "text_fields (IE_ApplicationID v) = [(''ApplicationIdentifier'', ApplicationID_ApplicationIdentifier v \<noteq> [])]"
| "text_fields (IE_Dnn v) = []"
| "text_fields (IE_FailedRuleID v) = [(''RuleIdType'', True), (''RuleIdValue'',   FailedRuleID_RuleIdValue v \<noteq> [])]"
| "text_fields (IE_ForwardingPolicy v) = [(''ForwardingPolicyIdentifierLength'', True), (''ForwardingPolicyIdentifier'',   ForwardingPolicy_ForwardingPolicyIdentifier v \<noteq> [])]"
| "text_fields (IE_HeaderEnrichment v) = [(''HeaderType'', True), (''LengthOfHeaderFieldName'', True), (''HeaderFieldName'',   HeaderEnrichment_HeaderFieldName v \<noteq> []), (''LengthOfHeaderFieldValue'', True), (''HeaderFieldValue'',   HeaderEnrichment_HeaderFieldValue v \<noteq> [])]"
| "text_fields (IE_RedirectInformation v) = [(''RedirectAddressType'', True), (''RedirectServerAddressLength'', True), (''RedirectServerAddress'',   RedirectInformation_RedirectServerAddress v \<noteq> [])]"
| "text_fields (IE_SDFFilter v) = [(''Bid'', True), (''Fl'', True), (''Spi'', True), (''Ttc'', True), (''Fd'', True), (''LengthOfFlowDescription'', True), (''FlowDescription'',   SDFFilter_FlowDescription v \<noteq> []), (''TosTrafficClass'',   SDFFilter_TosTrafficClass v \<noteq> []), (''SecurityParameterIndex'',   SDFFilter_SecurityParameterIndex v \<noteq> []), (''FlowLabel'',   SDFFilter_FlowLabel v \<noteq> []), (''SdfFilterId'', True)]"
| "text_fields (IE_PFDContents v) = [(''FlowDescription'', PFDContents_FlowDescription v \<noteq> []), (''URL'',   PFDContents_URL v \<noteq> []), (''DomainName'',   PFDContents_DomainName v \<noteq> []), (''CustomPFDContent'',   PFDContents_CustomPFDContent v \<noteq> None)]"

lemma text_marshal_total: "text_wf l \<Longrightarrow> \<exists>d. text_marshal l = Inr d"
  using actrules.marshal_total deactrules.marshal_total appid.marshal_total dnn.marshal_total failedrule.marshal_total fwdpolicy.marshal_total hdrenr.marshal_total redirect.marshal_total sdf.marshal_total pfdcontents.marshal_total
  by (cases l) simp_all

lemma text_unmarshal_marshal:
  "text_wf l \<Longrightarrow> text_marshal l = Inr d \<Longrightarrow> text_unmarshal (text_zero l) (Slice d sp) = Inr l"
  by (cases l) (simp_all add: actrules.unmarshal_marshal deactrules.unmarshal_marshal appid.unmarshal_marshal dnn.unmarshal_marshal failedrule.unmarshal_marshal fwdpolicy.unmarshal_marshal hdrenr.unmarshal_marshal redirect.unmarshal_marshal sdf.unmarshal_marshal pfdcontents.unmarshal_marshal)

section \<open>PFCP Address\<close>

datatype address_ie =
    IE_NodeID NodeID
  | IE_FSEID FSEID
  | IE_FTEID FTEID
  | IE_UEIPAddress UEIPAddress

primrec address_marshal :: "address_ie \<Rightarrow> bytes res" where
  "address_marshal (IE_NodeID v) = NodeID_marshal v"
| "address_marshal (IE_FSEID v) = FSEID_marshal v"
| "address_marshal (IE_FTEID v) = FTEID_marshal v"
| "address_marshal (IE_UEIPAddress v) = UEIPAddress_marshal v"

primrec address_unmarshal :: "address_ie \<Rightarrow> slice \<Rightarrow> address_ie res" where
  "address_unmarshal (IE_NodeID v) s = map_res IE_NodeID (NodeID_unmarshal v s)"
| "address_unmarshal (IE_FSEID v) s = map_res IE_FSEID (FSEID_unmarshal v s)"
| "address_unmarshal (IE_FTEID v) s = map_res IE_FTEID (FTEID_unmarshal v s)"
| "address_unmarshal (IE_UEIPAddress v) s = map_res IE_UEIPAddress (UEIPAddress_unmarshal v s)"

primrec address_zero :: "address_ie \<Rightarrow> address_ie" where
  "address_zero (IE_NodeID v) = IE_NodeID NodeID_new"
| "address_zero (IE_FSEID v) = IE_FSEID FSEID_new"
| "address_zero (IE_FTEID v) = IE_FTEID FTEID_new"
| "address_zero (IE_UEIPAddress v) = IE_UEIPAddress UEIPAddress_new"

primrec address_wf :: "address_ie \<Rightarrow> bool" where
  "address_wf (IE_NodeID v) = NodeID_wf v"
| "address_wf (IE_FSEID v) = FSEID_wf v"
| "address_wf (IE_FTEID v) = FTEID_wf v"
| "address_wf (IE_UEIPAddress v) = UEIPAddress_wf v"

primrec address_fields :: "address_ie \<Rightarrow> (string \<times> bool) list" where
  "address_fields (IE_NodeID v) = [(''NodeIdType'', True), (''NodeIdValue'',   NodeID_NodeIdValue v \<noteq> [])]"
| "address_fields (IE_FSEID v) = [(''V4'', True), (''V6'', True), (''Seid'', True), (''Ipv4Address'',   FSEID_Ipv4Address v \<noteq> []), (''Ipv6Address'',   FSEID_Ipv6Address v \<noteq> [])]"
| "address_fields (IE_FTEID v) = [(''Chid'', True), (''Ch'', True), (''V6'', True), (''V4'', True), (''Teid'', True), (''Ipv4Address'',   FTEID_Ipv4Address v \<noteq> []), (''Ipv6Address'',   FTEID_Ipv6Address v \<noteq> []), (''ChooseId'', True)]"
| "address_fields (IE_UEIPAddress v) = [(''Ipv6d'', True), (''Sd'', True), (''V4'', True), (''V6'', True), (''Ipv4Address'',   UEIPAddress_Ipv4Address v \<noteq> []), (''Ipv6Address'',   UEIPAddress_Ipv6Address v \<noteq> []), (''Ipv6PrefixDelegationBits'', True)]"

lemma address_marshal_total: "address_wf l \<Longrightarrow> \<exists>d. address_marshal l = Inr d"
  using nodeid.marshal_total fseid.marshal_total fteid.marshal_total ueip.marshal_total
  by (cases l) simp_all

lemma address_unmarshal_marshal:
  "address_wf l \<Longrightarrow> address_marshal l = Inr d \<Longrightarrow> address_unmarshal (address_zero l) (Slice d sp) = Inr l"
  by (cases l) (simp_all add: nodeid.unmarshal_marshal fseid.unmarshal_marshal fteid.unmarshal_marshal ueip.unmarshal_marshal)

section \<open>PFCP Tunnel\<close>

datatype tunnel_ie =
    IE_RemoteGTPUPeer RemoteGTPUPeer
  | IE_OuterHeaderCreation OuterHeaderCreation
  | IE_UserPlaneIPResourceInformation UserPlaneIPResourceInformation

primrec tunnel_marshal :: "tunnel_ie \<Rightarrow> bytes res" where
  "tunnel_marshal (IE_RemoteGTPUPeer v) = RemoteGTPUPeer_marshal v"
| "tunnel_marshal (IE_OuterHeaderCreation v) = OuterHeaderCreation_marshal v"
| "tunnel_marshal (IE_UserPlaneIPResourceInformation v) = UserPlaneIPResourceInformation_marshal v"

primrec tunnel_unmarshal :: "tunnel_ie \<Rightarrow> slice \<Rightarrow> tunnel_ie res" where
  "tunnel_unmarshal (IE_RemoteGTPUPeer v) s = map_res IE_RemoteGTPUPeer (RemoteGTPUPeer_unmarshal v s)"
| "tunnel_unmarshal (IE_OuterHeaderCreation v) s = map_res IE_OuterHeaderCreation (OuterHeaderCreation_unmarshal v s)"
| "tunnel_unmarshal (IE_UserPlaneIPResourceInformation v) s = map_res IE_UserPlaneIPResourceInformation (UserPlaneIPResourceInformation_unmarshal v s)"

primrec tunnel_zero :: "tunnel_ie \<Rightarrow> tunnel_ie" where
  "tunnel_zero (IE_RemoteGTPUPeer v) = IE_RemoteGTPUPeer RemoteGTPUPeer_new"
| "tunnel_zero (IE_OuterHeaderCreation v) = IE_OuterHeaderCreation OuterHeaderCreation_new"
| "tunnel_zero (IE_UserPlaneIPResourceInformation v) = IE_UserPlaneIPResourceInformation UserPlaneIPResourceInformation_new"

primrec tunnel_wf :: "tunnel_ie \<Rightarrow> bool" where
  "tunnel_wf (IE_RemoteGTPUPeer v) = RemoteGTPUPeer_wf v"
| "tunnel_wf (IE_OuterHeaderCreation v) = OuterHeaderCreation_wf v"
| "tunnel_wf (IE_UserPlaneIPResourceInformation v) = UserPlaneIPResourceInformation_wf v"

primrec tunnel_fields :: "tunnel_ie \<Rightarrow> (string \<times> bool) list" where
  "tunnel_fields (IE_RemoteGTPUPeer v) = [(''V4'', True), (''V6'', True), (''Ipv4Address'',   RemoteGTPUPeer_Ipv4Address v \<noteq> []), (''Ipv6Address'',   RemoteGTPUPeer_Ipv6Address v \<noteq> [])]"
| "tunnel_fields (IE_OuterHeaderCreation v) = [(''OuterHeaderCreationDescription'', True), (''Teid'', True), (''Ipv4Address'',   OHC_Ipv4Address v \<noteq> []), (''Ipv6Address'',   OHC_Ipv6Address v \<noteq> []), (''PortNumber'', True)]"
| "tunnel_fields (IE_UserPlaneIPResourceInformation v) = [(''Assosi'', True), (''Assoni'', True), (''Teidri'', True), (''V6'', True), (''V4'', True), (''TeidRange'', True), (''Ipv4Address'',   UPIP_Ipv4Address v \<noteq> []), (''Ipv6Address'',   UPIP_Ipv6Address v \<noteq> []), (''NetworkInstance'',   UPIP_NetworkInstance v \<noteq> []), (''SourceInterface'', True)]"

lemma tunnel_marshal_total: "tunnel_wf l \<Longrightarrow> \<exists>d. tunnel_marshal l = Inr d"
  using gtpupeer.marshal_total ohc.marshal_total upip.marshal_total
  by (cases l) simp_all

lemma tunnel_unmarshal_marshal:
  "tunnel_wf l \<Longrightarrow> tunnel_marshal l = Inr d \<Longrightarrow> tunnel_unmarshal (tunnel_zero l) (Slice d sp) = Inr l"
  by (cases l) (simp_all add: gtpupeer.unmarshal_marshal ohc.unmarshal_marshal upip.unmarshal_marshal)

section \<open>PFCP Time\<close>

datatype time_ie =
    IE_EndTime EndTime
  | IE_StartTime StartTime
  | IE_MonitoringTime MonitoringTime
  | IE_RecoveryTimeStamp RecoveryTimeStamp
  | IE_TimeOfFirstPacket TimeOfFirstPacket
  | IE_TimeOfLastPacket TimeOfLastPacket

primrec time_marshal :: "time_ie \<Rightarrow> bytes res" where
  "time_marshal (IE_EndTime v) = EndTime_marshal v"
| "time_marshal (IE_StartTime v) = StartTime_marshal v"
| "time_marshal (IE_MonitoringTime v) = MonitoringTime_marshal v"
| "time_marshal (IE_RecoveryTimeStamp v) = RecoveryTimeStamp_marshal v"
| "time_marshal (IE_TimeOfFirstPacket v) = TimeOfFirstPacket_marshal v"
| "time_marshal (IE_TimeOfLastPacket v) = TimeOfLastPacket_marshal v"

primrec time_unmarshal :: "time_ie \<Rightarrow> slice \<Rightarrow> time_ie res" where
  "time_unmarshal (IE_EndTime v) s = map_res IE_EndTime (EndTime_unmarshal v s)"
| "time_unmarshal (IE_StartTime v) s = map_res IE_StartTime (StartTime_unmarshal v s)"
| "time_unmarshal (IE_MonitoringTime v) s = map_res IE_MonitoringTime (MonitoringTime_unmarshal v s)"
| "time_unmarshal (IE_RecoveryTimeStamp v) s = map_res IE_RecoveryTimeStamp (RecoveryTimeStamp_unmarshal v s)"
| "time_unmarshal (IE_TimeOfFirstPacket v) s = map_res IE_TimeOfFirstPacket (TimeOfFirstPacket_unmarshal v s)"
| "time_unmarshal (IE_TimeOfLastPacket v) s = map_res IE_TimeOfLastPacket (TimeOfLastPacket_unmarshal v s)"

primrec time_zero :: "time_ie \<Rightarrow> time_ie" where
  "time_zero (IE_EndTime v) = IE_EndTime EndTime_new"
| "time_zero (IE_StartTime v) = IE_StartTime StartTime_new"
| "time_zero (IE_MonitoringTime v) = IE_MonitoringTime MonitoringTime_new"
| "time_zero (IE_RecoveryTimeStamp v) = IE_RecoveryTimeStamp RecoveryTimeStamp_new"
| "time_zero (IE_TimeOfFirstPacket v) = IE_TimeOfFirstPacket TimeOfFirstPacket_new"
| "time_zero (IE_TimeOfLastPacket v) = IE_TimeOfLastPacket TimeOfLastPacket_new"

primrec time_wf :: "time_ie \<Rightarrow> bool" where
  "time_wf (IE_EndTime v) = (whole_second (EndTime_EndTime v))"
| "time_wf (IE_StartTime v) = (whole_second (StartTime_StartTime v))"
| "time_wf (IE_MonitoringTime v) = (whole_second (MonitoringTime_MonitoringTime v))"
| "time_wf (IE_RecoveryTimeStamp v) = (whole_second (RecoveryTimeStamp_RecoveryTimeStamp v))"
| "time_wf (IE_TimeOfFirstPacket v) = (whole_second (TimeOfFirstPacket_TimeOfFirstPacket v))"
| "time_wf (IE_TimeOfLastPacket v) = (whole_second (TimeOfLastPacket_TimeOfLastPacket v))"

primrec time_fields :: "time_ie \<Rightarrow> (string \<times> bool) list" where
  "time_fields (IE_EndTime v) = [(''EndTime'', True)]"
| "time_fields (IE_StartTime v) = [(''StartTime'', True)]"
| "time_fields (IE_MonitoringTime v) = [(''MonitoringTime'', True)]"
| "time_fields (IE_RecoveryTimeStamp v) = [(''RecoveryTimeStamp'', True)]"
| "time_fields (IE_TimeOfFirstPacket v) = [(''TimeOfFirstPacket'', True)]"
| "time_fields (IE_TimeOfLastPacket v) = [(''TimeOfLastPacket'', True)]"

lemma time_marshal_total: "time_wf l \<Longrightarrow> \<exists>d. time_marshal l = Inr d"
  using endtime.marshal_total starttime.marshal_total montime.marshal_total recovery.marshal_total firstpkt.marshal_total lastpkt.marshal_total
  by (cases l) simp_all

lemma time_unmarshal_marshal:
  "time_wf l \<Longrightarrow> time_marshal l = Inr d \<Longrightarrow> time_unmarshal (time_zero l) (Slice d sp) = Inr l"
  by (cases l) (simp_all add: endtime.unmarshal_marshal starttime.unmarshal_marshal montime.unmarshal_marshal recovery.unmarshal_marshal firstpkt.unmarshal_marshal lastpkt.unmarshal_marshal)

section \<open>All elements\<close>

datatype ie =
    Scalar scalar_ie
  | Flags flags_ie
  | Volume volume_ie
  | Text text_ie
  | Address address_ie
  | Tunnel tunnel_ie
  | Time time_ie

primrec ie_marshal :: "ie \<Rightarrow> bytes res" where
  "ie_marshal (Scalar x) = scalar_marshal x"
| "ie_marshal (Flags x) = flags_marshal x"
| "ie_marshal (Volume x) = volume_marshal x"
| "ie_marshal (Text x) = text_marshal x"
| "ie_marshal (Address x) = address_marshal x"
| "ie_marshal (Tunnel x) = tunnel_marshal x"
| "ie_marshal (Time x) = time_marshal x"

primrec ie_zero :: "ie \<Rightarrow> ie" where
  "ie_zero (Scalar x) = Scalar (scalar_zero x)"
| "ie_zero (Flags x) = Flags (flags_zero x)"
| "ie_zero (Volume x) = Volume (volume_zero x)"
| "ie_zero (Text x) = Text (text_zero x)"
| "ie_zero (Address x) = Address (address_zero x)"
| "ie_zero (Tunnel x) = Tunnel (tunnel_zero x)"
| "ie_zero (Time x) = Time (time_zero x)"

primrec ie_wf :: "ie \<Rightarrow> bool" where
  "ie_wf (Scalar x) = scalar_wf x"
| "ie_wf (Flags x) = flags_wf x"
| "ie_wf (Volume x) = volume_wf x"
| "ie_wf (Text x) = text_wf x"
| "ie_wf (Address x) = address_wf x"
| "ie_wf (Tunnel x) = tunnel_wf x"
| "ie_wf (Time x) = time_wf x"

primrec ie_fields :: "ie \<Rightarrow> (string \<times> bool) list" where
  "ie_fields (Scalar x) = scalar_fields x"
| "ie_fields (Flags x) = flags_fields x"
| "ie_fields (Volume x) = volume_fields x"
| "ie_fields (Text x) = text_fields x"
| "ie_fields (Address x) = address_fields x"
| "ie_fields (Tunnel x) = tunnel_fields x"
| "ie_fields (Time x) = time_fields x"

primrec ie_unmarshal :: "ie \<Rightarrow> slice \<Rightarrow> ie res" where
  "ie_unmarshal (Scalar x) s = map_res Scalar (scalar_unmarshal x s)"
| "ie_unmarshal (Flags x) s = map_res Flags (flags_unmarshal x s)"
| "ie_unmarshal (Volume x) s = map_res Volume (volume_unmarshal x s)"
| "ie_unmarshal (Text x) s = map_res Text (text_unmarshal x s)"
| "ie_unmarshal (Address x) s = map_res Address (address_unmarshal x s)"
| "ie_unmarshal (Tunnel x) s = map_res Tunnel (tunnel_unmarshal x s)"
| "ie_unmarshal (Time x) s = map_res Time (time_unmarshal x s)"

definition ie_ops :: "ie bin_ops" where
  "ie_ops = \<lparr>bmarshal = ie_marshal, bunmarshal = ie_unmarshal, bfields = ie_fields\<rparr>"

text \<open>
  An element that survives the wire: well-formed, and short enough for the 16-bit length of a
  TLV; \<open>z\<close> is the zero value of its type.
\<close>

definition ie_ok :: "ie \<Rightarrow> ie \<Rightarrow> bool" where
  "ie_ok z l \<longleftrightarrow> z = ie_zero l \<and> ie_wf l
     \<and> (case ie_marshal l of Inr d \<Rightarrow> length d < 65536 | Inl _ \<Rightarrow> False)"

lemma ie_marshal_total: "ie_wf l \<Longrightarrow> \<exists>d. ie_marshal l = Inr d"
  by (cases l) (simp_all add: scalar_marshal_total flags_marshal_total volume_marshal_total text_marshal_total address_marshal_total tunnel_marshal_total time_marshal_total)

lemma ie_unmarshal_marshal:
  "ie_wf l \<Longrightarrow> ie_marshal l = Inr d \<Longrightarrow> ie_unmarshal (ie_zero l) (Slice d sp) = Inr l"
  by (cases l) (simp_all add: scalar_unmarshal_marshal flags_unmarshal_marshal volume_unmarshal_marshal text_unmarshal_marshal address_unmarshal_marshal tunnel_unmarshal_marshal time_unmarshal_marshal)

interpretation pfcp: tlv_leaves ie_ops ie_ok
  by unfold_locales (auto simp: ie_ok_def ie_ops_def ie_unmarshal_marshal split: sum.splits)

end
