(* ===== verification/PFCP_Types.thy ===== *)
theory PFCP_Types
  imports PFCP_IE
begin

text \<open>
  The message bodies of \<^verbatim>\<open>lib/pfcp/message.go\<close> as the TLV codec sees them: each struct is its
  list of fields with their tags and types. The elements that \<^verbatim>\<open>lib/pfcp/pfcpType\<close> only
  declares, as a struct of one untagged byte slice and without methods, carry the suffix
  \<open>_raw\<close>.
\<close>

abbreviation fld :: "string \<Rightarrow> nat \<Rightarrow> ie gtype \<Rightarrow> string \<times> tlv_tag \<times> ie gtype" where
  "fld n k t \<equiv> (n, Tag k, t)"

section \<open>Elements without a codec\<close>

definition AdditionalUsageReportsInformation_raw :: "ie gtype" where
  "AdditionalUsageReportsInformation_raw = TStruct [(''AdditionalUsageReportsInformationdata'', No_Tag, TBytes)]"

definition AggregatedURRID_raw :: "ie gtype" where
  "AggregatedURRID_raw = TStruct [(''AggregatedURRIDdata'', No_Tag, TBytes)]"

definition ApplicationInstanceID_raw :: "ie gtype" where
  "ApplicationInstanceID_raw = TStruct [(''ApplicationInstanceIDdata'', No_Tag, TBytes)]"

definition CTAG_raw :: "ie gtype" where
  "CTAG_raw = TStruct [(''CTAGdata'', No_Tag, TBytes)]"

definition DLFlowLevelMarking_raw :: "ie gtype" where
  "DLFlowLevelMarking_raw = TStruct [(''DLFlowLevelMarkingdata'', No_Tag, TBytes)]"

definition DuplicatingParameters_raw :: "ie gtype" where
  "DuplicatingParameters_raw = TStruct [(''DuplicatingParametersdata'', No_Tag, TBytes)]"

definition EthernetFilterID_raw :: "ie gtype" where
  "EthernetFilterID_raw = TStruct [(''EthernetFilterIDdata'', No_Tag, TBytes)]"

definition EthernetFilterProperties_raw :: "ie gtype" where
  "EthernetFilterProperties_raw = TStruct [(''EthernetFilterPropertiesdata'', No_Tag, TBytes)]"

definition EthernetPDUSessionInformation_raw :: "ie gtype" where
  "EthernetPDUSessionInformation_raw = TStruct [(''EthernetPDUSessionInformationdata'', No_Tag, TBytes)]"

definition Ethertype_raw :: "ie gtype" where
  "Ethertype_raw = TStruct [(''Ethertypedata'', No_Tag, TBytes)]"

definition FQCSID_raw :: "ie gtype" where
  "FQCSID_raw = TStruct [(''FQCSIDdata'', No_Tag, TBytes)]"

definition FlowInformation_raw :: "ie gtype" where
  "FlowInformation_raw = TStruct [(''FlowInformationdata'', No_Tag, TBytes)]"

definition FramedIPv6Route_raw :: "ie gtype" where
  "FramedIPv6Route_raw = TStruct [(''FramedIPv6Routedata'', No_Tag, TBytes)]"

definition FramedRoute_raw :: "ie gtype" where
  "FramedRoute_raw = TStruct [(''FramedRoutedata'', No_Tag, TBytes)]"

definition FramedRouting_raw :: "ie gtype" where
  "FramedRouting_raw = TStruct [(''FramedRoutingdata'', No_Tag, TBytes)]"

definition GracefulReleasePeriod_raw :: "ie gtype" where
  "GracefulReleasePeriod_raw = TStruct [(''GracefulReleasePerioddata'', No_Tag, TBytes)]"

definition MACAddress_raw :: "ie gtype" where
  "MACAddress_raw = TStruct [(''MACAddressdata'', No_Tag, TBytes)]"

definition MACAddressesDetected_raw :: "ie gtype" where
  "MACAddressesDetected_raw = TStruct [(''MACAddressesDetecteddata'', No_Tag, TBytes)]"

definition MACAddressesRemoved_raw :: "ie gtype" where
  "MACAddressesRemoved_raw = TStruct [(''MACAddressesRemoveddata'', No_Tag, TBytes)]"

definition Metric_raw :: "ie gtype" where
  "Metric_raw = TStruct [(''Metricdata'', No_Tag, TBytes)]"

definition Multiplier_raw :: "ie gtype" where
  "Multiplier_raw = TStruct [(''Multiplierdata'', No_Tag, TBytes)]"

definition OCIFlags_raw :: "ie gtype" where
  "OCIFlags_raw = TStruct [(''OCIFlagsdata'', No_Tag, TBytes)]"

definition PacketRate_raw :: "ie gtype" where
  "PacketRate_raw = TStruct [(''PacketRatedata'', No_Tag, TBytes)]"

definition Proxying_raw :: "ie gtype" where
  "Proxying_raw = TStruct [(''Proxyingdata'', No_Tag, TBytes)]"

definition QERID_raw :: "ie gtype" where
  "QERID_raw = TStruct [(''QERIDdata'', No_Tag, TBytes)]"

definition QFI_raw :: "ie gtype" where
  "QFI_raw = TStruct [(''QFIdata'', No_Tag, TBytes)]"

definition QueryURRReference_raw :: "ie gtype" where
  "QueryURRReference_raw = TStruct [(''QueryURRReferencedata'', No_Tag, TBytes)]"

definition RQI_raw :: "ie gtype" where
  "RQI_raw = TStruct [(''RQIdata'', No_Tag, TBytes)]"

definition RemoveQER_raw :: "ie gtype" where
  "RemoveQER_raw = TStruct [(''RemoveQERdata'', No_Tag, TBytes)]"

definition STAG_raw :: "ie gtype" where
  "STAG_raw = TStruct [(''STAGdata'', No_Tag, TBytes)]"

definition SequenceNumber_raw :: "ie gtype" where
  "SequenceNumber_raw = TStruct [(''SequenceNumberdata'', No_Tag, TBytes)]"

definition SubsequentTimeQuota_raw :: "ie gtype" where
  "SubsequentTimeQuota_raw = TStruct [(''SubsequentTimeQuotadata'', No_Tag, TBytes)]"

definition SubsequentVolumeQuota_raw :: "ie gtype" where
  "SubsequentVolumeQuota_raw = TStruct [(''SubsequentVolumeQuotadata'', No_Tag, TBytes)]"

definition TimeQuotaMechanism_raw :: "ie gtype" where
  "TimeQuotaMechanism_raw = TStruct [(''TimeQuotaMechanismdata'', No_Tag, TBytes)]"

definition Timer_raw :: "ie gtype" where
  "Timer_raw = TStruct [(''Timerdata'', No_Tag, TBytes)]"

definition TraceInformation_raw :: "ie gtype" where
  "TraceInformation_raw = TStruct [(''TraceInformationdata'', No_Tag, TBytes)]"

definition UpdateBARPFCPSessionReportResponse_raw :: "ie gtype" where
  "UpdateBARPFCPSessionReportResponse_raw = TStruct [(''UpdateBARPFCPSessionReportResponsedata'', No_Tag, TBytes)]"

definition UpdateDuplicatingParameters_raw :: "ie gtype" where
  "UpdateDuplicatingParameters_raw = TStruct [(''UpdateDuplicatingParametersdata'', No_Tag, TBytes)]"

definition UsageInformation_raw :: "ie gtype" where
  "UsageInformation_raw = TStruct [(''UsageInformationdata'', No_Tag, TBytes)]"

definition UsageReportTrigger_raw :: "ie gtype" where
  "UsageReportTrigger_raw = TStruct [(''UsageReportTriggerdata'', No_Tag, TBytes)]"

definition UserID_raw :: "ie gtype" where
  "UserID_raw = TStruct [(''UserIDdata'', No_Tag, TBytes)]"

definition UserPlaneInactivityTimer_raw :: "ie gtype" where
  "UserPlaneInactivityTimer_raw = TStruct [(''UserPlaneInactivityTimerdata'', No_Tag, TBytes)]"

definition UserPlanePathFailureReport_raw :: "ie gtype" where
  "UserPlanePathFailureReport_raw = TStruct [(''UserPlanePathFailureReportdata'', No_Tag, TBytes)]"

section \<open>Groups and message bodies\<close>

definition HeartbeatRequest :: "ie gtype" where
  "HeartbeatRequest = TStruct [fld ''RecoveryTimeStamp'' 96 (TPtr (TBin (Time (IE_RecoveryTimeStamp RecoveryTimeStamp_new))))]"

definition HeartbeatResponse :: "ie gtype" where
  "HeartbeatResponse = TStruct [fld ''RecoveryTimeStamp'' 96 (TPtr (TBin (Time (IE_RecoveryTimeStamp RecoveryTimeStamp_new))))]"

definition PFD :: "ie gtype" where
  "PFD = TStruct [fld ''PFDContents'' 61 (TSlice (TBin (Text (IE_PFDContents PFDContents_new))))]"

definition ApplicationIDsPFDs :: "ie gtype" where
  "ApplicationIDsPFDs = TStruct [fld ''ApplicationID'' 24 (TBin (Text (IE_ApplicationID ApplicationID_new))),
     fld ''PFD'' 59 (TPtr (PFD))]"

definition PFCPPFDManagementRequest :: "ie gtype" where
  "PFCPPFDManagementRequest = TStruct [fld ''ApplicationIDsPFDs'' 58 (TSlice (ApplicationIDsPFDs))]"

definition PFCPPFDManagementResponse :: "ie gtype" where
  "PFCPPFDManagementResponse = TStruct [fld ''Cause'' 19 (TPtr (TBin (Scalar (IE_Cause Cause_new)))),
     fld ''OffendingIE'' 40 (TPtr (TBin (Scalar (IE_OffendingIE OffendingIE_new))))]"

definition PFCPAssociationSetupRequest :: "ie gtype" where
  "PFCPAssociationSetupRequest = TStruct [fld ''NodeID'' 60 (TPtr (TBin (Address (IE_NodeID NodeID_new)))),
     fld ''RecoveryTimeStamp'' 96 (TPtr (TBin (Time (IE_RecoveryTimeStamp RecoveryTimeStamp_new)))),
     fld ''UPFunctionFeatures'' 43 (TPtr (TBin (Scalar (IE_UPFunctionFeatures UPFunctionFeatures_new)))),
     fld ''CPFunctionFeatures'' 89 (TPtr (TBin (Scalar (IE_CPFunctionFeatures CPFunctionFeatures_new)))),
     fld ''UserPlaneIPResourceInformation'' 116 (TPtr (TBin (Tunnel (IE_UserPlaneIPResourceInformation UserPlaneIPResourceInformation_new))))]"

definition PFCPAssociationSetupResponse :: "ie gtype" where
  "PFCPAssociationSetupResponse = TStruct [fld ''NodeID'' 60 (TPtr (TBin (Address (IE_NodeID NodeID_new)))),
     fld ''Cause'' 19 (TPtr (TBin (Scalar (IE_Cause Cause_new)))),
     fld ''RecoveryTimeStamp'' 96 (TPtr (TBin (Time (IE_RecoveryTimeStamp RecoveryTimeStamp_new)))),
     fld ''UPFunctionFeatures'' 43 (TPtr (TBin (Scalar (IE_UPFunctionFeatures UPFunctionFeatures_new)))),
     fld ''CPFunctionFeatures'' 89 (TPtr (TBin (Scalar (IE_CPFunctionFeatures CPFunctionFeatures_new)))),
     fld ''UserPlaneIPResourceInformation'' 116 (TPtr (TBin (Tunnel (IE_UserPlaneIPResourceInformation UserPlaneIPResourceInformation_new))))]"

definition PFCPAssociationReleaseRequest :: "ie gtype" where
  "PFCPAssociationReleaseRequest = TStruct [fld ''NodeID'' 60 (TPtr (TBin (Address (IE_NodeID NodeID_new))))]"

definition PFCPAssociationUpdateRequest :: "ie gtype" where
  "PFCPAssociationUpdateRequest = TStruct [fld ''NodeID'' 60 (TPtr (TBin (Address (IE_NodeID NodeID_new)))),
     fld ''UPFunctionFeatures'' 43 (TPtr (TBin (Scalar (IE_UPFunctionFeatures UPFunctionFeatures_new)))),
     fld ''CPFunctionFeatures'' 89 (TPtr (TBin (Scalar (IE_CPFunctionFeatures CPFunctionFeatures_new)))),
     fld ''PFCPAssociationReleaseRequest'' 111 (TPtr (PFCPAssociationReleaseRequest)),
     fld ''GracefulReleasePeriod'' 112 (TPtr (GracefulReleasePeriod_raw)),
     fld ''UserPlaneIPResourceInformation'' 116 (TPtr (TBin (Tunnel (IE_UserPlaneIPResourceInformation UserPlaneIPResourceInformation_new))))]"

definition PFCPAssociationUpdateResponse :: "ie gtype" where
  "PFCPAssociationUpdateResponse = TStruct [fld ''NodeID'' 60 (TPtr (TBin (Address (IE_NodeID NodeID_new)))),
     fld ''Cause'' 19 (TPtr (TBin (Scalar (IE_Cause Cause_new)))),
     fld ''UPFunctionFeatures'' 43 (TPtr (TBin (Scalar (IE_UPFunctionFeatures UPFunctionFeatures_new)))),
     fld ''CPFunctionFeatures'' 89 (TPtr (TBin (Scalar (IE_CPFunctionFeatures CPFunctionFeatures_new))))]"

definition PFCPAssociationReleaseResponse :: "ie gtype" where
  "PFCPAssociationReleaseResponse = TStruct [fld ''NodeID'' 60 (TPtr (TBin (Address (IE_NodeID NodeID_new)))),
     fld ''Cause'' 19 (TPtr (TBin (Scalar (IE_Cause Cause_new))))]"

definition PFCPNodeReportRequest :: "ie gtype" where
  "PFCPNodeReportRequest = TStruct [fld ''NodeID'' 60 (TPtr (TBin (Address (IE_NodeID NodeID_new)))),
     fld ''NodeReportType'' 101 (TPtr (TBin (Flags (IE_NodeReportType NodeReportType_new)))),
     fld ''UserPlanePathFailureReport'' 102 (TPtr (UserPlanePathFailureReport_raw))]"

definition UserPlanePathFailure :: "ie gtype" where
  "UserPlanePathFailure = TStruct [fld ''RemoteGTPUPeer'' 103 (TPtr (TBin (Tunnel (IE_RemoteGTPUPeer RemoteGTPUPeer_new))))]"

definition PFCPNodeReportResponse :: "ie gtype" where
  "PFCPNodeReportResponse = TStruct [fld ''NodeID'' 60 (TPtr (TBin (Address (IE_NodeID NodeID_new)))),
     fld ''Cause'' 19 (TPtr (TBin (Scalar (IE_Cause Cause_new)))),
     fld ''OffendingIE'' 40 (TPtr (TBin (Scalar (IE_OffendingIE OffendingIE_new))))]"

definition PFCPSessionSetDeletionRequest :: "ie gtype" where
  "PFCPSessionSetDeletionRequest = TStruct [fld ''NodeID'' 60 (TPtr (TBin (Address (IE_NodeID NodeID_new)))),
     fld ''SGWCFQCSID'' 65 (TPtr (FQCSID_raw)),
     fld ''PGWCFQCSID'' 65 (TPtr (FQCSID_raw)),
     fld ''SGWUFQCSID'' 65 (TPtr (FQCSID_raw)),
     fld ''PGWUFQCSID'' 65 (TPtr (FQCSID_raw)),
     fld ''TWANFQCSID'' 65 (TPtr (FQCSID_raw)),
     fld ''EPDGFQCSID'' 65 (TPtr (FQCSID_raw)),
     fld ''MMEFQCSID'' 65 (TPtr (FQCSID_raw))]"

definition PFCPSessionSetDeletionResponse :: "ie gtype" where
  "PFCPSessionSetDeletionResponse = TStruct [fld ''NodeID'' 60 (TPtr (TBin (Address (IE_NodeID NodeID_new)))),
     fld ''Cause'' 19 (TPtr (TBin (Scalar (IE_Cause Cause_new)))),
     fld ''OffendingIE'' 40 (TPtr (TBin (Scalar (IE_OffendingIE OffendingIE_new))))]"

definition EthernetPacketFilter :: "ie gtype" where
  "EthernetPacketFilter = TStruct [fld ''EthernetFilterID'' 138 (TPtr (EthernetFilterID_raw)),
     fld ''EthernetFilterProperties'' 139 (TPtr (EthernetFilterProperties_raw)),
     fld ''MACAddress'' 133 (TPtr (MACAddress_raw)),
     fld ''Ethertype'' 136 (TPtr (Ethertype_raw)),
     fld ''CTAG'' 134 (TPtr (CTAG_raw)),
     fld ''STAG'' 135 (TPtr (STAG_raw)),
     fld ''SDFFilter'' 23 (TPtr (TBin (Text (IE_SDFFilter SDFFilter_new))))]"

definition PDI :: "ie gtype" where
  "PDI = TStruct [fld ''SourceInterface'' 20 (TPtr (TBin (Scalar (IE_SourceInterface SourceInterface_new)))),
     fld ''LocalFTEID'' 21 (TPtr (TBin (Address (IE_FTEID FTEID_new)))),
     fld ''NetworkInstance'' 22 (TPtr (TBin (Text (IE_Dnn [])))),
     fld ''UEIPAddress'' 93 (TPtr (TBin (Address (IE_UEIPAddress UEIPAddress_new)))),
     fld ''TrafficEndpointID'' 131 (TPtr (TBin (Scalar (IE_TrafficEndpointID TrafficEndpointID_new)))),
     fld ''SDFFilter'' 23 (TPtr (TBin (Text (IE_SDFFilter SDFFilter_new)))),
     fld ''ApplicationID'' 24 (TPtr (TBin (Text (IE_ApplicationID ApplicationID_new)))),
     fld ''EthernetPDUSessionInformation'' 142 (TPtr (EthernetPDUSessionInformation_raw)),
     fld ''EthernetPacketFilter'' 132 (TPtr (EthernetPacketFilter)),
     fld ''QFI'' 124 (TPtr (QFI_raw)),
     fld ''FramedRoute'' 153 (TPtr (FramedRoute_raw)),
     fld ''FramedRouting'' 154 (TPtr (FramedRouting_raw)),
     fld ''FramedIPv6Route'' 155 (TPtr (FramedIPv6Route_raw))]"

definition CreatePDR :: "ie gtype" where
  "CreatePDR = TStruct [fld ''PDRID'' 56 (TPtr (TBin (Scalar (IE_PacketDetectionRuleID PacketDetectionRuleID_new)))),
     fld ''Precedence'' 29 (TPtr (TBin (Scalar (IE_Precedence Precedence_new)))),
     fld ''PDI'' 2 (TPtr (PDI)),
     fld ''OuterHeaderRemoval'' 95 (TPtr (TBin (Scalar (IE_OuterHeaderRemoval OuterHeaderRemoval_new)))),
     fld ''FARID'' 108 (TPtr (TBin (Scalar (IE_FARID FARID_new)))),
     fld ''URRID'' 81 (TPtr (TBin (Scalar (IE_URRID URRID_new)))),
     fld ''QERID'' 109 (TPtr (QERID_raw)),
     fld ''ActivatePredefinedRules'' 106 (TPtr (TBin (Text (IE_ActivatePredefinedRules ActivatePredefinedRules_new))))]"

definition ForwardingParametersIEInFAR :: "ie gtype" where
  "ForwardingParametersIEInFAR = TStruct [fld ''DestinationInterface'' 42 (TPtr (TBin (Scalar (IE_DestinationInterface DestinationInterface_new)))),
     fld ''NetworkInstance'' 22 (TPtr (TBin (Text (IE_Dnn [])))),
     fld ''RedirectInformation'' 38 (TPtr (TBin (Text (IE_RedirectInformation RedirectInformation_new)))),
     fld ''OuterHeaderCreation'' 84 (TPtr (TBin (Tunnel (IE_OuterHeaderCreation OuterHeaderCreation_new)))),
     fld ''TransportLevelMarking'' 30 (TPtr (TBin (Scalar (IE_TransportLevelMarking TransportLevelMarking_new)))),
     fld ''ForwardingPolicy'' 41 (TPtr (TBin (Text (IE_ForwardingPolicy ForwardingPolicy_new)))),
     fld ''HeaderEnrichment'' 98 (TPtr (TBin (Text (IE_HeaderEnrichment HeaderEnrichment_new)))),
     fld ''LinkedTrafficEndpointID'' 131 (TPtr (TBin (Scalar (IE_TrafficEndpointID TrafficEndpointID_new)))),
     fld ''Proxying'' 137 (TPtr (Proxying_raw))]"

definition CreateFAR :: "ie gtype" where
  "CreateFAR = TStruct [fld ''FARID'' 108 (TPtr (TBin (Scalar (IE_FARID FARID_new)))),
     fld ''ApplyAction'' 44 (TPtr (TBin (Flags (IE_ApplyAction ApplyAction_new)))),
     fld ''ForwardingParameters'' 4 (TPtr (ForwardingParametersIEInFAR)),
     fld ''DuplicatingParameters'' 5 (TPtr (DuplicatingParameters_raw)),
     fld ''BARID'' 88 (TPtr (TBin (Scalar (IE_BARID BARID_new))))]"

definition EventInformation :: "ie gtype" where
  "EventInformation = TStruct [fld ''EventID'' 150 (TPtr (TBin (Scalar (IE_EventID EventID_new)))),
     fld ''EventThreshold'' 151 (TPtr (TBin (Scalar (IE_EventThreshold EventThreshold_new))))]"

definition AggregatedURRs :: "ie gtype" where
  "AggregatedURRs = TStruct [fld ''AggregatedURRID'' 120 (TPtr (AggregatedURRID_raw)),
     fld ''Multiplier'' 119 (TPtr (Multiplier_raw))]"

definition AdditionalMonitoringTime :: "ie gtype" where
  "AdditionalMonitoringTime = TStruct [fld ''MonitoringTime'' 33 (TPtr (TBin (Time (IE_MonitoringTime MonitoringTime_new)))),
     fld ''SubsequentVolumeThreshold'' 34 (TPtr (TBin (Volume (IE_SubsequentVolumeThreshold SubsequentVolumeThreshold_new)))),
     fld ''SubsequentTimeThreshold'' 35 (TPtr (TBin (Scalar (IE_SubsequentTimeThreshold SubsequentTimeThreshold_new)))),
     fld ''SubsequentVolumeQuota'' 121 (TPtr (SubsequentVolumeQuota_raw)),
     fld ''SubsequentTimeQuota'' 122 (TPtr (SubsequentTimeQuota_raw))]"

definition CreateURR :: "ie gtype" where
  "CreateURR = TStruct [fld ''URRID'' 81 (TPtr (TBin (Scalar (IE_URRID URRID_new)))),
     fld ''MeasurementMethod'' 62 (TPtr (TBin (Flags (IE_MeasurementMethod MeasurementMethod_new)))),
     fld ''ReportingTriggers'' 37 (TPtr (TBin (Flags (IE_ReportingTriggers ReportingTriggers_new)))),
     fld ''MeasurementPeriod'' 64 (TPtr (TBin (Scalar (IE_MeasurementPeriod MeasurementPeriod_new)))),
     fld ''VolumeThreshold'' 31 (TPtr (TBin (Volume (IE_VolumeThreshold VolumeThreshold_new)))),
     fld ''VolumeQuota'' 73 (TPtr (TBin (Volume (IE_VolumeQuota VolumeQuota_new)))),
     fld ''TimeThreshold'' 32 (TPtr (TBin (Scalar (IE_TimeThreshold TimeThreshold_new)))),
     fld ''TimeQuota'' 74 (TPtr (TBin (Scalar (IE_TimeQuota TimeQuota_new)))),
     fld ''QuotaHoldingTime'' 71 (TPtr (TBin (Scalar (IE_QuotaHoldingTime QuotaHoldingTime_new)))),
     fld ''DroppedDLTrafficThreshold'' 72 (TPtr (TBin (Volume (IE_DroppedDLTrafficThreshold DroppedDLTrafficThreshold_new)))),
     fld ''MonitoringTime'' 33 (TPtr (TBin (Time (IE_MonitoringTime MonitoringTime_new)))),
     fld ''EventInformation'' 148 (TPtr (EventInformation)),
     fld ''SubsequentVolumeThreshold'' 34 (TPtr (TBin (Volume (IE_SubsequentVolumeThreshold SubsequentVolumeThreshold_new)))),
     fld ''SubsequentTimeThreshold'' 35 (TPtr (TBin (Scalar (IE_SubsequentTimeThreshold SubsequentTimeThreshold_new)))),
     fld ''SubsequentVolumeQuota'' 121 (TPtr (SubsequentVolumeQuota_raw)),
     fld ''SubsequentTimeQuota'' 122 (TPtr (SubsequentTimeQuota_raw)),
     fld ''InactivityDetectionTime'' 36 (TPtr (TBin (Scalar (IE_InactivityDetectionTime InactivityDetectionTime_new)))),
     fld ''LinkedURRID'' 82 (TPtr (TBin (Scalar (IE_LinkedURRID LinkedURRID_new)))),
     fld ''MeasurementInformation'' 100 (TPtr (TBin (Flags (IE_MeasurementInformation MeasurementInformation_new)))),
     fld ''TimeQuotaMechanism'' 115 (TPtr (TimeQuotaMechanism_raw)),
     fld ''AggregatedURRs'' 118 (TPtr (AggregatedURRs)),
     fld ''FARIDForQuotaAction'' 108 (TPtr (TBin (Scalar (IE_FARID FARID_new)))),
     fld ''EthernetInactivityTimer'' 146 (TPtr (TBin (Scalar (IE_EthernetInactivityTimer EthernetInactivityTimer_new)))),
     fld ''AdditionalMonitoringTime'' 147 (TPtr (AdditionalMonitoringTime))]"

definition CreateQER :: "ie gtype" where
  "CreateQER = TStruct [fld ''QERID'' 109 (TPtr (QERID_raw)),
     fld ''QERCorrelationID'' 28 (TPtr (TBin (Scalar (IE_QERCorrelationID QERCorrelationID_new)))),
     fld ''GateStatus'' 25 (TPtr (TBin (Scalar (IE_GateStatus GateStatus_new)))),
     fld ''MaximumBitrate'' 26 (TPtr (TBin (Volume (IE_MBR MBR_new)))),
     fld ''GuaranteedBitrate'' 27 (TPtr (TBin (Volume (IE_GBR GBR_new)))),
     fld ''PacketRate'' 94 (TPtr (PacketRate_raw)),
     fld ''DLFlowLevelMarking'' 97 (TPtr (DLFlowLevelMarking_raw)),
     fld ''QoSFlowIdentifier'' 124 (TPtr (QFI_raw)),
     fld ''ReflectiveQoS'' 123 (TPtr (RQI_raw))]"

definition CreateBAR :: "ie gtype" where
  "CreateBAR = TStruct [fld ''BARID'' 88 (TPtr (TBin (Scalar (IE_BARID BARID_new)))),
     fld ''DownlinkDataNotificationDelay'' 46 (TPtr (TBin (Scalar (IE_DownlinkDataNotificationDelay DownlinkDataNotificationDelay_new)))),
     fld ''SuggestedBufferingPacketsCount'' 140 (TPtr (TBin (Scalar (IE_SuggestedBufferingPacketsCount SuggestedBufferingPacketsCount_new))))]"

definition CreateTrafficEndpoint :: "ie gtype" where
  "CreateTrafficEndpoint = TStruct [fld ''TrafficEndpointID'' 131 (TPtr (TBin (Scalar (IE_TrafficEndpointID TrafficEndpointID_new)))),
     fld ''LocalFTEID'' 21 (TPtr (TBin (Address (IE_FTEID FTEID_new)))),
     fld ''NetworkInstance'' 22 (TPtr (TBin (Text (IE_Dnn [])))),
     fld ''UEIPAddress'' 93 (TPtr (TBin (Address (IE_UEIPAddress UEIPAddress_new)))),
     fld ''EthernetPDUSessionInformation'' 142 (TPtr (EthernetPDUSessionInformation_raw)),
     fld ''FramedRoute'' 153 (TPtr (FramedRoute_raw)),
     fld ''FramedRouting'' 154 (TPtr (FramedRouting_raw)),
     fld ''FramedIPv6Route'' 155 (TPtr (FramedIPv6Route_raw))]"

definition PFCPSessionEstablishmentRequest :: "ie gtype" where
  "PFCPSessionEstablishmentRequest = TStruct [fld ''NodeID'' 60 (TPtr (TBin (Address (IE_NodeID NodeID_new)))),
     fld ''CPFSEID'' 57 (TPtr (TBin (Address (IE_FSEID FSEID_new)))),
     fld ''CreatePDR'' 1 (TSlice (TPtr (CreatePDR))),
     fld ''CreateFAR'' 3 (TSlice (TPtr (CreateFAR))),
     fld ''CreateURR'' 6 (TSlice (TPtr (CreateURR))),
     fld ''CreateQER'' 7 (TSlice (TPtr (CreateQER))),
     fld ''CreateBAR'' 85 (TSlice (TPtr (CreateBAR))),
     fld ''CreateTrafficEndpoint'' 127 (TPtr (CreateTrafficEndpoint)),
     fld ''PDNType'' 113 (TPtr (TBin (Scalar (IE_PDNType PDNType_new)))),
     fld ''SGWCFQCSID'' 65 (TPtr (FQCSID_raw)),
     fld ''MMEFQCSID'' 65 (TPtr (FQCSID_raw)),
     fld ''PGWCFQCSID'' 65 (TPtr (FQCSID_raw)),
     fld ''EPDGFQCSID'' 65 (TPtr (FQCSID_raw)),
     fld ''TWANFQCSID'' 65 (TPtr (FQCSID_raw)),
     fld ''UserPlaneInactivityTimer'' 117 (TPtr (UserPlaneInactivityTimer_raw)),
     fld ''UserID'' 141 (TPtr (UserID_raw)),
     fld ''TraceInformation'' 152 (TPtr (TraceInformation_raw))]"

definition DuplicatingParametersIEInFAR :: "ie gtype" where
  "DuplicatingParametersIEInFAR = TStruct [fld ''DestinationInterface'' 42 (TPtr (TBin (Scalar (IE_DestinationInterface DestinationInterface_new)))),
     fld ''OuterHeaderCreation'' 84 (TPtr (TBin (Tunnel (IE_OuterHeaderCreation OuterHeaderCreation_new)))),
     fld ''TransportLevelMarking'' 30 (TPtr (TBin (Scalar (IE_TransportLevelMarking TransportLevelMarking_new)))),
     fld ''ForwardingPolicy'' 41 (TPtr (TBin (Text (IE_ForwardingPolicy ForwardingPolicy_new))))]"

definition CreatedPDR :: "ie gtype" where
  "CreatedPDR = TStruct [fld ''PDRID'' 56 (TPtr (TBin (Scalar (IE_PacketDetectionRuleID PacketDetectionRuleID_new)))),
     fld ''LocalFTEID'' 21 (TPtr (TBin (Address (IE_FTEID FTEID_new))))]"

definition LoadControlInformation :: "ie gtype" where
  "LoadControlInformation = TStruct [fld ''LoadControlSequenceNumber'' 52 (TPtr (SequenceNumber_raw)),
     fld ''LoadMetric'' 53 (TPtr (Metric_raw))]"

definition OverloadControlInformation :: "ie gtype" where
  "OverloadControlInformation = TStruct [fld ''OverloadControlSequenceNumber'' 52 (TPtr (SequenceNumber_raw)),
     fld ''OverloadReductionMetric'' 53 (TPtr (Metric_raw)),
     fld ''PeriodOfValidity'' 55 (TPtr (Timer_raw)),
     fld ''OverloadControlInformationFlags'' 110 (TPtr (OCIFlags_raw))]"

definition CreatedTrafficEndpoint :: "ie gtype" where
  "CreatedTrafficEndpoint = TStruct [fld ''TrafficEndpointID'' 131 (TPtr (TBin (Scalar (IE_TrafficEndpointID TrafficEndpointID_new)))),
     fld ''LocalFTEID'' 21 (TPtr (TBin (Address (IE_FTEID FTEID_new))))]"

definition PFCPSessionEstablishmentResponse :: "ie gtype" where
  "PFCPSessionEstablishmentResponse = TStruct [fld ''NodeID'' 60 (TPtr (TBin (Address (IE_NodeID NodeID_new)))),
     fld ''Cause'' 19 (TPtr (TBin (Scalar (IE_Cause Cause_new)))),
     fld ''OffendingIE'' 40 (TPtr (TBin (Scalar (IE_OffendingIE OffendingIE_new)))),
     fld ''UPFSEID'' 57 (TPtr (TBin (Address (IE_FSEID FSEID_new)))),
     fld ''CreatedPDR'' 8 (TPtr (CreatedPDR)),
     fld ''LoadControlInformation'' 51 (TPtr (LoadControlInformation)),
     fld ''OverloadControlInformation'' 54 (TPtr (OverloadControlInformation)),
     fld ''SGWUFQCSID'' 65 (TPtr (FQCSID_raw)),
     fld ''PGWUFQCSID'' 65 (TPtr (FQCSID_raw)),
     fld ''FailedRuleID'' 114 (TPtr (TBin (Text (IE_FailedRuleID FailedRuleID_new)))),
     fld ''CreatedTrafficEndpoint'' 128 (TPtr (CreatedTrafficEndpoint))]"

definition RemovePDR :: "ie gtype" where
  "RemovePDR = TStruct [fld ''PDRID'' 56 (TPtr (TBin (Scalar (IE_PacketDetectionRuleID PacketDetectionRuleID_new))))]"

definition RemoveFAR :: "ie gtype" where
  "RemoveFAR = TStruct [fld ''FARID'' 108 (TPtr (TBin (Scalar (IE_FARID FARID_new))))]"

definition RemoveURR :: "ie gtype" where
  "RemoveURR = TStruct [fld ''URRID'' 81 (TPtr (TBin (Scalar (IE_URRID URRID_new))))]"

definition RemoveBAR :: "ie gtype" where
  "RemoveBAR = TStruct [fld ''BARID'' 88 (TPtr (TBin (Scalar (IE_BARID BARID_new))))]"

definition RemoveTrafficEndpoint :: "ie gtype" where
  "RemoveTrafficEndpoint = TStruct [fld ''TrafficEndpointID'' 131 (TPtr (TBin (Scalar (IE_TrafficEndpointID TrafficEndpointID_new))))]"

definition UpdatePDR :: "ie gtype" where
  "UpdatePDR = TStruct [fld ''PDRID'' 56 (TPtr (TBin (Scalar (IE_PacketDetectionRuleID PacketDetectionRuleID_new)))),
     fld ''OuterHeaderRemoval'' 95 (TPtr (TBin (Scalar (IE_OuterHeaderRemoval OuterHeaderRemoval_new)))),
     fld ''Precedence'' 29 (TPtr (TBin (Scalar (IE_Precedence Precedence_new)))),
     fld ''PDI'' 2 (TPtr (PDI)),
     fld ''FARID'' 108 (TPtr (TBin (Scalar (IE_FARID FARID_new)))),
     fld ''URRID'' 81 (TPtr (TBin (Scalar (IE_URRID URRID_new)))),
     fld ''QERID'' 109 (TPtr (QERID_raw)),
     fld ''ActivatePredefinedRules'' 106 (TPtr (TBin (Text (IE_ActivatePredefinedRules ActivatePredefinedRules_new)))),
     fld ''DeactivatePredefinedRules'' 107 (TPtr (TBin (Text (IE_DeactivatePredefinedRules DeactivatePredefinedRules_new))))]"

definition UpdateForwardingParametersIEInFAR :: "ie gtype" where
  "UpdateForwardingParametersIEInFAR = TStruct [fld ''DestinationInterface'' 42 (TPtr (TBin (Scalar (IE_DestinationInterface DestinationInterface_new)))),
     fld ''NetworkInstance'' 22 (TPtr (TBin (Text (IE_Dnn [])))),
     fld ''RedirectInformation'' 38 (TPtr (TBin (Text (IE_RedirectInformation RedirectInformation_new)))),
     fld ''OuterHeaderCreation'' 84 (TPtr (TBin (Tunnel (IE_OuterHeaderCreation OuterHeaderCreation_new)))),
     fld ''TransportLevelMarking'' 30 (TPtr (TBin (Scalar (IE_TransportLevelMarking TransportLevelMarking_new)))),
     fld ''ForwardingPolicy'' 41 (TPtr (TBin (Text (IE_ForwardingPolicy ForwardingPolicy_new)))),
     fld ''HeaderEnrichment'' 98 (TPtr (TBin (Text (IE_HeaderEnrichment HeaderEnrichment_new)))),
     fld ''PFCPSMReqFlags'' 49 (TPtr (TBin (Flags (IE_PFCPSMReqFlags PFCPSMReqFlags_new)))),
     fld ''LinkedTrafficEndpointID'' 131 (TPtr (TBin (Scalar (IE_TrafficEndpointID TrafficEndpointID_new))))]"

definition UpdateFAR :: "ie gtype" where
  "UpdateFAR = TStruct [fld ''FARID'' 108 (TPtr (TBin (Scalar (IE_FARID FARID_new)))),
     fld ''ApplyAction'' 44 (TPtr (TBin (Flags (IE_ApplyAction ApplyAction_new)))),
     fld ''UpdateForwardingParameters'' 11 (TPtr (UpdateForwardingParametersIEInFAR)),
     fld ''UpdateDuplicatingParameters'' 105 (TPtr (UpdateDuplicatingParameters_raw)),
     fld ''BARID'' 88 (TPtr (TBin (Scalar (IE_BARID BARID_new))))]"

definition UpdateURR :: "ie gtype" where
  "UpdateURR = TStruct [fld ''URRID'' 81 (TPtr (TBin (Scalar (IE_URRID URRID_new)))),
     fld ''MeasurementMethod'' 62 (TPtr (TBin (Flags (IE_MeasurementMethod MeasurementMethod_new)))),
     fld ''ReportingTriggers'' 37 (TPtr (TBin (Flags (IE_ReportingTriggers ReportingTriggers_new)))),
     fld ''MeasurementPeriod'' 64 (TPtr (TBin (Scalar (IE_MeasurementPeriod MeasurementPeriod_new)))),
     fld ''VolumeThreshold'' 31 (TPtr (TBin (Volume (IE_VolumeThreshold VolumeThreshold_new)))),
     fld ''VolumeQuota'' 73 (TPtr (TBin (Volume (IE_VolumeQuota VolumeQuota_new)))),
     fld ''TimeThreshold'' 32 (TPtr (TBin (Scalar (IE_TimeThreshold TimeThreshold_new)))),
     fld ''TimeQuota'' 74 (TPtr (TBin (Scalar (IE_TimeQuota TimeQuota_new)))),
     fld ''QuotaHoldingTime'' 71 (TPtr (TBin (Scalar (IE_QuotaHoldingTime QuotaHoldingTime_new)))),
     fld ''DroppedDLTrafficThreshold'' 72 (TPtr (TBin (Volume (IE_DroppedDLTrafficThreshold DroppedDLTrafficThreshold_new)))),
     fld ''MonitoringTime'' 33 (TPtr (TBin (Time (IE_MonitoringTime MonitoringTime_new)))),
     fld ''EventInformation'' 148 (TPtr (EventInformation)),
     fld ''SubsequentVolumeThreshold'' 34 (TPtr (TBin (Volume (IE_SubsequentVolumeThreshold SubsequentVolumeThreshold_new)))),
     fld ''SubsequentTimeThreshold'' 35 (TPtr (TBin (Scalar (IE_SubsequentTimeThreshold SubsequentTimeThreshold_new)))),
     fld ''SubsequentVolumeQuota'' 121 (TPtr (SubsequentVolumeQuota_raw)),
     fld ''SubsequentTimeQuota'' 122 (TPtr (SubsequentTimeQuota_raw)),
     fld ''InactivityDetectionTime'' 36 (TPtr (TBin (Scalar (IE_InactivityDetectionTime InactivityDetectionTime_new)))),
     fld ''LinkedURRID'' 82 (TPtr (TBin (Scalar (IE_LinkedURRID LinkedURRID_new)))),
     fld ''MeasurementInformation'' 100 (TPtr (TBin (Flags (IE_MeasurementInformation MeasurementInformation_new)))),
     fld ''TimeQuotaMechanism'' 115 (TPtr (TimeQuotaMechanism_raw)),
     fld ''AggregatedURRs'' 118 (TPtr (AggregatedURRs)),
     fld ''FARIDForQuotaAction'' 108 (TPtr (TBin (Scalar (IE_FARID FARID_new)))),
     fld ''EthernetInactivityTimer'' 146 (TPtr (TBin (Scalar (IE_EthernetInactivityTimer EthernetInactivityTimer_new)))),
     fld ''AdditionalMonitoringTime'' 147 (TPtr (AdditionalMonitoringTime))]"

definition UpdateQER :: "ie gtype" where
  "UpdateQER = TStruct [fld ''QERID'' 109 (TPtr (QERID_raw)),
     fld ''QERCorrelationID'' 28 (TPtr (TBin (Scalar (IE_QERCorrelationID QERCorrelationID_new)))),
     fld ''GateStatus'' 25 (TPtr (TBin (Scalar (IE_GateStatus GateStatus_new)))),
     fld ''MaximumBitrate'' 26 (TPtr (TBin (Volume (IE_MBR MBR_new)))),
     fld ''GuaranteedBitrate'' 27 (TPtr (TBin (Volume (IE_GBR GBR_new)))),
     fld ''PacketRate'' 94 (TPtr (PacketRate_raw)),
     fld ''DLFlowLevelMarking'' 97 (TPtr (DLFlowLevelMarking_raw)),
     fld ''QoSFlowIdentifier'' 124 (TPtr (QFI_raw)),
     fld ''ReflectiveQoS'' 123 (TPtr (RQI_raw))]"

definition UpdateBARPFCPSessionModificationRequest :: "ie gtype" where
  "UpdateBARPFCPSessionModificationRequest = TStruct [fld ''BARID'' 88 (TPtr (TBin (Scalar (IE_BARID BARID_new)))),
     fld ''DownlinkDataNotificationDelay'' 46 (TPtr (TBin (Scalar (IE_DownlinkDataNotificationDelay DownlinkDataNotificationDelay_new)))),
     fld ''SuggestedBufferingPacketsCount'' 140 (TPtr (TBin (Scalar (IE_SuggestedBufferingPacketsCount SuggestedBufferingPacketsCount_new))))]"

definition UpdateTrafficEndpoint :: "ie gtype" where
  "UpdateTrafficEndpoint = TStruct [fld ''TrafficEndpointID'' 131 (TPtr (TBin (Scalar (IE_TrafficEndpointID TrafficEndpointID_new)))),
     fld ''LocalFTEID'' 21 (TPtr (TBin (Address (IE_FTEID FTEID_new)))),
     fld ''NetworkInstance'' 22 (TPtr (TBin (Text (IE_Dnn [])))),
     fld ''UEIPAddress'' 93 (TPtr (TBin (Address (IE_UEIPAddress UEIPAddress_new)))),
     fld ''FramedRoute'' 153 (TPtr (FramedRoute_raw)),
     fld ''FramedRouting'' 154 (TPtr (FramedRouting_raw)),
     fld ''FramedIPv6Route'' 155 (TPtr (FramedIPv6Route_raw))]"

definition QueryURR :: "ie gtype" where
  "QueryURR = TStruct [fld ''URRID'' 81 (TPtr (TBin (Scalar (IE_URRID URRID_new))))]"

definition PFCPSessionModificationRequest :: "ie gtype" where
  "PFCPSessionModificationRequest = TStruct [fld ''CPFSEID'' 57 (TPtr (TBin (Address (IE_FSEID FSEID_new)))),
     fld ''RemovePDR'' 15 (TSlice (TPtr (RemovePDR))),
     fld ''RemoveFAR'' 16 (TSlice (TPtr (RemoveFAR))),
     fld ''RemoveURR'' 17 (TSlice (TPtr (RemoveURR))),
     fld ''RemoveQER'' 18 (TSlice (TPtr (RemoveQER_raw))),
     fld ''RemoveBAR'' 87 (TSlice (TPtr (RemoveBAR))),
     fld ''RemoveTrafficEndpoint'' 130 (TPtr (RemoveTrafficEndpoint)),
     fld ''CreatePDR'' 1 (TSlice (TPtr (CreatePDR))),
     fld ''CreateFAR'' 3 (TSlice (TPtr (CreateFAR))),
     fld ''CreateURR'' 6 (TSlice (TPtr (CreateURR))),
     fld ''CreateQER'' 7 (TSlice (TPtr (CreateQER))),
     fld ''CreateBAR'' 85 (TSlice (TPtr (CreateBAR))),
     fld ''CreateTrafficEndpoint'' 127 (TPtr (CreateTrafficEndpoint)),
     fld ''UpdatePDR'' 9 (TSlice (TPtr (UpdatePDR))),
     fld ''UpdateFAR'' 10 (TSlice (TPtr (UpdateFAR))),
     fld ''UpdateURR'' 13 (TSlice (TPtr (UpdateURR))),
     fld ''UpdateQER'' 14 (TSlice (TPtr (UpdateQER))),
     fld ''UpdateBAR'' 86 (TPtr (UpdateBARPFCPSessionModificationRequest)),
     fld ''UpdateTrafficEndpoint'' 129 (TPtr (UpdateTrafficEndpoint)),
     fld ''PFCPSMReqFlags'' 49 (TPtr (TBin (Flags (IE_PFCPSMReqFlags PFCPSMReqFlags_new)))),
     fld ''QueryURR'' 77 (TPtr (QueryURR)),
     fld ''PGWCFQCSID'' 65 (TPtr (FQCSID_raw)),
     fld ''SGWCFQCSID'' 65 (TPtr (FQCSID_raw)),
     fld ''MMEFQCSID'' 65 (TPtr (FQCSID_raw)),
     fld ''EPDGFQCSID'' 65 (TPtr (FQCSID_raw)),
     fld ''TWANFQCSID'' 65 (TPtr (FQCSID_raw)),
     fld ''UserPlaneInactivityTimer'' 117 (TPtr (UserPlaneInactivityTimer_raw)),
     fld ''QueryURRReference'' 125 (TPtr (QueryURRReference_raw)),
     fld ''TraceInformation'' 152 (TPtr (TraceInformation_raw))]"

definition UpdateDuplicatingParametersIEInFAR :: "ie gtype" where
  "UpdateDuplicatingParametersIEInFAR = TStruct [fld ''DestinationInterface'' 42 (TPtr (TBin (Scalar (IE_DestinationInterface DestinationInterface_new)))),
     fld ''OuterHeaderCreation'' 84 (TPtr (TBin (Tunnel (IE_OuterHeaderCreation OuterHeaderCreation_new)))),
     fld ''TransportLevelMarking'' 30 (TPtr (TBin (Scalar (IE_TransportLevelMarking TransportLevelMarking_new)))),
     fld ''ForwardingPolicy'' 41 (TPtr (TBin (Text (IE_ForwardingPolicy ForwardingPolicy_new))))]"

definition RemoveQERIEPFCPSessionModificationRequest :: "ie gtype" where
  "RemoveQERIEPFCPSessionModificationRequest = TStruct [fld ''QERID'' 109 (TPtr (QERID_raw))]"

definition EthernetTrafficInformation :: "ie gtype" where
  "EthernetTrafficInformation = TStruct [fld ''MACAddressesDetected'' 144 (TPtr (MACAddressesDetected_raw)),
     fld ''MACAddressesRemoved'' 145 (TPtr (MACAddressesRemoved_raw))]"

definition UsageReportPFCPSessionModificationResponse :: "ie gtype" where
  "UsageReportPFCPSessionModificationResponse = TStruct [fld ''URRID'' 81 (TPtr (TBin (Scalar (IE_URRID URRID_new)))),
     fld ''URSEQN'' 104 (TPtr (TBin (Scalar (IE_URSEQN URSEQN_new)))),
     fld ''UsageReportTrigger'' 63 (TPtr (UsageReportTrigger_raw)),
     fld ''StartTime'' 75 (TPtr (TBin (Time (IE_StartTime StartTime_new)))),
     fld ''EndTime'' 76 (TPtr (TBin (Time (IE_EndTime EndTime_new)))),
     fld ''VolumeMeasurement'' 66 (TPtr (TBin (Volume (IE_VolumeMeasurement VolumeMeasurement_new)))),
     fld ''DurationMeasurement'' 67 (TPtr (TBin (Scalar (IE_DurationMeasurement DurationMeasurement_new)))),
     fld ''TimeOfFirstPacket'' 69 (TPtr (TBin (Time (IE_TimeOfFirstPacket TimeOfFirstPacket_new)))),
     fld ''TimeOfLastPacket'' 70 (TPtr (TBin (Time (IE_TimeOfLastPacket TimeOfLastPacket_new)))),
     fld ''UsageInformation'' 90 (TPtr (UsageInformation_raw)),
     fld ''QueryURRReference'' 125 (TPtr (QueryURRReference_raw)),
     fld ''EthernetTrafficInformation'' 143 (TPtr (EthernetTrafficInformation))]"

definition PFCPSessionModificationResponse :: "ie gtype" where
  "PFCPSessionModificationResponse = TStruct [fld ''Cause'' 19 (TPtr (TBin (Scalar (IE_Cause Cause_new)))),
     fld ''OffendingIE'' 40 (TPtr (TBin (Scalar (IE_OffendingIE OffendingIE_new)))),
     fld ''CreatedPDR'' 8 (TPtr (CreatedPDR)),
     fld ''LoadControlInformation'' 51 (TPtr (LoadControlInformation)),
     fld ''OverloadControlInformation'' 54 (TPtr (OverloadControlInformation)),
     fld ''UsageReport'' 78 (TPtr (UsageReportPFCPSessionModificationResponse)),
     fld ''FailedRuleID'' 114 (TPtr (TBin (Text (IE_FailedRuleID FailedRuleID_new)))),
     fld ''AdditionalUsageReportsInformation'' 126 (TPtr (AdditionalUsageReportsInformation_raw)),
     fld ''CreatedUpdatedTrafficEndpoint'' 128 (TPtr (CreatedTrafficEndpoint))]"

definition PFCPSessionDeletionRequest :: "ie gtype" where
  "PFCPSessionDeletionRequest = TStruct []"

definition UsageReportPFCPSessionDeletionResponse :: "ie gtype" where
  "UsageReportPFCPSessionDeletionResponse = TStruct [fld ''URRID'' 81 (TPtr (TBin (Scalar (IE_URRID URRID_new)))),
     fld ''URSEQN'' 104 (TPtr (TBin (Scalar (IE_URSEQN URSEQN_new)))),
     fld ''UsageReportTrigger'' 63 (TPtr (UsageReportTrigger_raw)),
     fld ''StartTime'' 75 (TPtr (TBin (Time (IE_StartTime StartTime_new)))),
     fld ''EndTime'' 76 (TPtr (TBin (Time (IE_EndTime EndTime_new)))),
     fld ''VolumeMeasurement'' 66 (TPtr (TBin (Volume (IE_VolumeMeasurement VolumeMeasurement_new)))),
     fld ''DurationMeasurement'' 67 (TPtr (TBin (Scalar (IE_DurationMeasurement DurationMeasurement_new)))),
     fld ''TimeOfFirstPacket'' 69 (TPtr (TBin (Time (IE_TimeOfFirstPacket TimeOfFirstPacket_new)))),
     fld ''TimeOfLastPacket'' 70 (TPtr (TBin (Time (IE_TimeOfLastPacket TimeOfLastPacket_new)))),
     fld ''UsageInformation'' 90 (TPtr (UsageInformation_raw)),
     fld ''EthernetTrafficInformation'' 143 (TPtr (EthernetTrafficInformation))]"

definition PFCPSessionDeletionResponse :: "ie gtype" where
  "PFCPSessionDeletionResponse = TStruct [fld ''Cause'' 19 (TPtr (TBin (Scalar (IE_Cause Cause_new)))),
     fld ''OffendingIE'' 40 (TPtr (TBin (Scalar (IE_OffendingIE OffendingIE_new)))),
     fld ''LoadControlInformation'' 51 (TPtr (LoadControlInformation)),
     fld ''OverloadControlInformation'' 54 (TPtr (OverloadControlInformation)),
     fld ''UsageReport'' 79 (TPtr (UsageReportPFCPSessionDeletionResponse))]"

definition DownlinkDataReport :: "ie gtype" where
  "DownlinkDataReport = TStruct [fld ''PDRID'' 56 (TPtr (TBin (Scalar (IE_PacketDetectionRuleID PacketDetectionRuleID_new)))),
     fld ''DownlinkDataServiceInformation'' 45 (TPtr (TBin (Volume (IE_DownlinkDataServiceInformation DownlinkDataServiceInformation_new))))]"

definition ApplicationDetectionInformation :: "ie gtype" where
  "ApplicationDetectionInformation = TStruct [fld ''ApplicationID'' 24 (TPtr (TBin (Text (IE_ApplicationID ApplicationID_new)))),
     fld ''ApplicationInstanceID'' 91 (TPtr (ApplicationInstanceID_raw)),
     fld ''FlowInformation'' 92 (TPtr (FlowInformation_raw))]"

definition EventReporting :: "ie gtype" where
  "EventReporting = TStruct [fld ''EventID'' 150 (TPtr (TBin (Scalar (IE_EventID EventID_new))))]"

definition UsageReportPFCPSessionReportRequest :: "ie gtype" where
  "UsageReportPFCPSessionReportRequest = TStruct [fld ''URRID'' 81 (TPtr (TBin (Scalar (IE_URRID URRID_new)))),
     fld ''URSEQN'' 104 (TPtr (TBin (Scalar (IE_URSEQN URSEQN_new)))),
     fld ''UsageReportTrigger'' 63 (TPtr (UsageReportTrigger_raw)),
     fld ''StartTime'' 75 (TPtr (TBin (Time (IE_StartTime StartTime_new)))),
     fld ''EndTime'' 76 (TPtr (TBin (Time (IE_EndTime EndTime_new)))),
     fld ''VolumeMeasurement'' 66 (TPtr (TBin (Volume (IE_VolumeMeasurement VolumeMeasurement_new)))),
     fld ''DurationMeasurement'' 67 (TPtr (TBin (Scalar (IE_DurationMeasurement DurationMeasurement_new)))),
     fld ''ApplicationDetectionInformation'' 68 (TPtr (ApplicationDetectionInformation)),
     fld ''UEIPAddress'' 93 (TPtr (TBin (Address (IE_UEIPAddress UEIPAddress_new)))),
     fld ''NetworkInstance'' 22 (TPtr (TBin (Text (IE_Dnn [])))),
     fld ''TimeOfFirstPacket'' 69 (TPtr (TBin (Time (IE_TimeOfFirstPacket TimeOfFirstPacket_new)))),
     fld ''TimeOfLastPacket'' 70 (TPtr (TBin (Time (IE_TimeOfLastPacket TimeOfLastPacket_new)))),
     fld ''UsageInformation'' 90 (TPtr (UsageInformation_raw)),
     fld ''QueryURRReference'' 125 (TPtr (QueryURRReference_raw)),
     fld ''EventReporting'' 149 (TPtr (EventReporting)),
     fld ''EthernetTrafficInformation'' 143 (TPtr (EthernetTrafficInformation))]"

definition ErrorIndicationReport :: "ie gtype" where
  "ErrorIndicationReport = TStruct [fld ''RemoteFTEID'' 21 (TPtr (TBin (Address (IE_FTEID FTEID_new))))]"

definition PFCPSessionReportRequest :: "ie gtype" where
  "PFCPSessionReportRequest = TStruct [fld ''ReportType'' 39 (TPtr (TBin (Flags (IE_ReportType ReportType_new)))),
     fld ''DownlinkDataReport'' 83 (TPtr (DownlinkDataReport)),
     fld ''UsageReport'' 80 (TPtr (UsageReportPFCPSessionReportRequest)),
     fld ''ErrorIndicationReport'' 99 (TPtr (ErrorIndicationReport)),
     fld ''LoadControlInformation'' 51 (TPtr (LoadControlInformation)),
     fld ''OverloadControlInformation'' 54 (TPtr (OverloadControlInformation)),
     fld ''AdditionalUsageReportsInformation'' 126 (TPtr (AdditionalUsageReportsInformation_raw))]"

definition PFCPSessionReportResponse :: "ie gtype" where
  "PFCPSessionReportResponse = TStruct [fld ''Cause'' 19 (TPtr (TBin (Scalar (IE_Cause Cause_new)))),
     fld ''OffendingIE'' 40 (TPtr (TBin (Scalar (IE_OffendingIE OffendingIE_new)))),
     fld ''UpdateBAR'' 12 (TPtr (UpdateBARPFCPSessionReportResponse_raw)),
     fld ''SxSRRspFlags'' 50 (TPtr (TBin (Flags (IE_PFCPSRRspFlags PFCPSRRspFlags_new))))]"

definition UpdateBARIEInPFCPSessionReportResponse :: "ie gtype" where
  "UpdateBARIEInPFCPSessionReportResponse = TStruct [fld ''BARID'' 88 (TPtr (TBin (Scalar (IE_BARID BARID_new)))),
     fld ''DownlinkDataNotificationDelay'' 46 (TPtr (TBin (Scalar (IE_DownlinkDataNotificationDelay DownlinkDataNotificationDelay_new)))),
     fld ''DLBufferingDuration'' 47 (TPtr (TBin (Scalar (IE_DLBufferingDuration DLBufferingDuration_new)))),
     fld ''DLBufferingSuggestedPacketCount'' 48 (TPtr (TBin (Volume (IE_DLBufferingSuggestedPacketCount DLBufferingSuggestedPacketCount_new)))),
     fld ''SuggestedBufferingPacketsCount'' 140 (TPtr (TBin (Scalar (IE_SuggestedBufferingPacketsCount SuggestedBufferingPacketsCount_new))))]"

end
