(* ===== verification/PFCP_Header.thy ===== *)
theory PFCP_Header
  imports PFCP_Reader
begin

text \<open>
  The PFCP message types (\<^verbatim>\<open>lib/pfcp/message_type.go\<close>) and the message header
  (\<^verbatim>\<open>lib/pfcp/header.go\<close>).
\<close>

section \<open>Message types\<close>

definition PFCP_HEARTBEAT_REQUEST :: u8 where [simp]: "PFCP_HEARTBEAT_REQUEST = 1"
definition PFCP_HEARTBEAT_RESPONSE :: u8 where [simp]: "PFCP_HEARTBEAT_RESPONSE = 2"
definition PFCP_PFD_MANAGEMENT_REQUEST :: u8 where [simp]: "PFCP_PFD_MANAGEMENT_REQUEST = 3"
definition PFCP_PFD_MANAGEMENT_RESPONSE :: u8 where [simp]: "PFCP_PFD_MANAGEMENT_RESPONSE = 4"
definition PFCP_ASSOCIATION_SETUP_REQUEST :: u8 where [simp]: "PFCP_ASSOCIATION_SETUP_REQUEST = 5"
definition PFCP_ASSOCIATION_SETUP_RESPONSE :: u8 where [simp]: "PFCP_ASSOCIATION_SETUP_RESPONSE = 6"
definition PFCP_ASSOCIATION_UPDATE_REQUEST :: u8 where [simp]: "PFCP_ASSOCIATION_UPDATE_REQUEST = 7"
definition PFCP_ASSOCIATION_UPDATE_RESPONSE :: u8 where [simp]: "PFCP_ASSOCIATION_UPDATE_RESPONSE = 8"
definition PFCP_ASSOCIATION_RELEASE_REQUEST :: u8 where [simp]: "PFCP_ASSOCIATION_RELEASE_REQUEST = 9"
definition PFCP_ASSOCIATION_RELEASE_RESPONSE :: u8 where [simp]: "PFCP_ASSOCIATION_RELEASE_RESPONSE = 10"
definition PFCP_VERSION_NOT_SUPPORTED_RESPONSE :: u8 where [simp]: "PFCP_VERSION_NOT_SUPPORTED_RESPONSE = 11"
definition PFCP_NODE_REPORT_REQUEST :: u8 where [simp]: "PFCP_NODE_REPORT_REQUEST = 12"
definition PFCP_NODE_REPORT_RESPONSE :: u8 where [simp]: "PFCP_NODE_REPORT_RESPONSE = 13"
definition PFCP_SESSION_SET_DELETION_REQUEST :: u8 where [simp]: "PFCP_SESSION_SET_DELETION_REQUEST = 14"
definition PFCP_SESSION_SET_DELETION_RESPONSE :: u8 where [simp]: "PFCP_SESSION_SET_DELETION_RESPONSE = 15"
definition PFCP_SESSION_ESTABLISHMENT_REQUEST :: u8 where [simp]: "PFCP_SESSION_ESTABLISHMENT_REQUEST = 50"
definition PFCP_SESSION_ESTABLISHMENT_RESPONSE :: u8 where [simp]: "PFCP_SESSION_ESTABLISHMENT_RESPONSE = 51"
definition PFCP_SESSION_MODIFICATION_REQUEST :: u8 where [simp]: "PFCP_SESSION_MODIFICATION_REQUEST = 52"
definition PFCP_SESSION_MODIFICATION_RESPONSE :: u8 where [simp]: "PFCP_SESSION_MODIFICATION_RESPONSE = 53"
definition PFCP_SESSION_DELETION_REQUEST :: u8 where [simp]: "PFCP_SESSION_DELETION_REQUEST = 54"
definition PFCP_SESSION_DELETION_RESPONSE :: u8 where [simp]: "PFCP_SESSION_DELETION_RESPONSE = 55"
definition PFCP_SESSION_REPORT_REQUEST :: u8 where [simp]: "PFCP_SESSION_REPORT_REQUEST = 56"
definition PFCP_SESSION_REPORT_RESPONSE :: u8 where [simp]: "PFCP_SESSION_REPORT_RESPONSE = 57"

definition is_request_type :: "u8 \<Rightarrow> bool" where
  "is_request_type t \<longleftrightarrow> t \<in> {PFCP_HEARTBEAT_REQUEST,
     PFCP_PFD_MANAGEMENT_REQUEST,
     PFCP_ASSOCIATION_SETUP_REQUEST,
     PFCP_ASSOCIATION_UPDATE_REQUEST,
     PFCP_ASSOCIATION_RELEASE_REQUEST,
     PFCP_NODE_REPORT_REQUEST,
     PFCP_SESSION_SET_DELETION_REQUEST,
     PFCP_SESSION_ESTABLISHMENT_REQUEST,
     PFCP_SESSION_MODIFICATION_REQUEST,
     PFCP_SESSION_DELETION_REQUEST,
     PFCP_SESSION_REPORT_REQUEST}"

definition is_response_type :: "u8 \<Rightarrow> bool" where
  "is_response_type t \<longleftrightarrow> t \<in> {PFCP_HEARTBEAT_RESPONSE,
     PFCP_PFD_MANAGEMENT_RESPONSE,
     PFCP_ASSOCIATION_SETUP_RESPONSE,
     PFCP_ASSOCIATION_UPDATE_RESPONSE,
     PFCP_ASSOCIATION_RELEASE_RESPONSE,
     PFCP_NODE_REPORT_RESPONSE,
     PFCP_SESSION_SET_DELETION_RESPONSE,
     PFCP_SESSION_ESTABLISHMENT_RESPONSE,
     PFCP_SESSION_MODIFICATION_RESPONSE,
     PFCP_SESSION_DELETION_RESPONSE,
     PFCP_SESSION_REPORT_RESPONSE}"

section \<open>Header\<close>

record Header =
  Version :: u8
  MP :: u8
  S :: u8
  MessageType :: u8
  MessageLength :: u16
  SEID :: u64
  SequenceNumber :: u32
  MessagePriority :: u8

definition Header_new :: Header where
  "Header_new = \<lparr>Version = 0, MP = 0, S = 0, MessageType = 0, MessageLength = 0, SEID = 0,
     SequenceNumber = 0, MessagePriority = 0\<rparr>"

text \<open>A sequence number of more than 24 bits is only logged; its high octet is shifted out.\<close>

definition Header_MarshalBinary :: "Header \<Rightarrow> bytes" where
  "Header_MarshalBinary h =
     (let tmpbuf = push_bit 5 (Version h) OR push_bit 1 (MP h AND 1) OR (S h AND 1);
          spareAndMP = (if MP h AND 1 \<noteq> 0 then push_bit 4 (MessagePriority h) else 0);
          snAndSpare = push_bit 8 (SequenceNumber h) OR ucast spareAndMP in
      [tmpbuf] @ [MessageType h] @ be_bytes 2 (MessageLength h)
      @ (if S h AND 1 \<noteq> 0 then be_bytes 8 (SEID h) else []) @ be_bytes 4 snAndSpare)"

text \<open>
  \<^verbatim>\<open>binary.Read\<close> from the reader when its error is only logged: with too few octets left the
  field keeps its value and the reader is drained.
\<close>

definition read_be :: "nat \<Rightarrow> 'a::len word \<Rightarrow> bytes \<Rightarrow> 'a word \<times> bytes" where
  "read_be n old buf = (if n \<le> length buf then (of_be (take n buf), drop n buf) else (old, []))"

definition Header_UnmarshalBinary :: "Header \<Rightarrow> bytes \<Rightarrow> Header res" where
  "Header_UnmarshalBinary h data =
     bind_res (check (data \<noteq> []) []) (\<lambda>_.
     let (tmpBuf, r) = read_be 1 (0 :: u8) data;
         h = h\<lparr>Version := drop_bit 5 tmpBuf, MP := drop_bit 1 (tmpBuf AND 2), S := tmpBuf AND 1\<rparr>;
         (mt, r) = read_be 1 (MessageType h) r;
         (ml, r) = read_be 2 (MessageLength h) r;
         h = h\<lparr>MessageType := mt, MessageLength := ml\<rparr>;
         (sd, r) = (if S h AND 1 \<noteq> 0 then read_be 8 (SEID h) r else (SEID h, r));
         (snAndSpare, r) = read_be 4 (0 :: u32) r;
         h = h\<lparr>SEID := sd, SequenceNumber := drop_bit 8 snAndSpare\<rparr> in
     Inr (if MP h AND 1 \<noteq> 0
          then h\<lparr>MessagePriority := drop_bit 4 (ucast (snAndSpare AND 0xFF))\<rparr> else h))"

definition Header_Len :: "Header \<Rightarrow> nat" where
  "Header_Len h = (if unat (MessageType h) < 50 then 8 else 16)"

section \<open>The header survives the wire\<close>

definition Header_wf :: "Header \<Rightarrow> bool" where
  "Header_wf h \<longleftrightarrow> unat (Version h) < 8 \<and> MP h \<in> {0, 1} \<and> S h \<in> {0, 1}
     \<and> unat (SequenceNumber h) < 2 ^ 24 \<and> unat (MessagePriority h) < 16
     \<and> (S h = 0 \<longrightarrow> SEID h = 0) \<and> (MP h = 0 \<longrightarrow> MessagePriority h = 0)"

lemma read_be_append [simp]:
  "length a = n \<Longrightarrow> read_be n old (a @ r) = (of_be a, r)"
  "length a = n \<Longrightarrow> read_be n old a = (of_be a, [])"
  by (simp_all add: read_be_def)

lemma read_be_one [simp]: "read_be 1 old (b # r) = (b, r)" "read_be (Suc 0) old (b # r) = (b, r)"
  by (simp_all add: read_be_def of_be_def)

lemma Header_octet:
  assumes "unat v < 8" "m \<in> {0, 1}" "s \<in> {0, 1 :: u8}"
  shows "drop_bit 5 (push_bit 5 v OR push_bit 1 (m AND 1) OR (s AND 1)) = v"
    and "drop_bit 1 ((push_bit 5 v OR push_bit 1 (m AND 1) OR (s AND 1)) AND 2) = m"
    and "(push_bit 5 v OR push_bit 1 (m AND 1) OR (s AND 1)) AND 1 = s"
proof -
  have v: "i < 3" if "bit v i" for i
    using assms(1) that take_bit_id [of v 3] bit_take_bit_iff [of 3 v i] by simp
  show "drop_bit 5 (push_bit 5 v OR push_bit 1 (m AND 1) OR (s AND 1)) = v"
    using assms(2,3) by (intro bit_word_eqI) (auto simp: bit_simps dest: v)
  show "drop_bit 1 ((push_bit 5 v OR push_bit 1 (m AND 1) OR (s AND 1)) AND 2) = m"
    using assms(2,3) by (intro bit_word_eqI) (auto simp: bit_simps)
  show "(push_bit 5 v OR push_bit 1 (m AND 1) OR (s AND 1)) AND 1 = s"
    using assms(2,3) by (intro bit_word_eqI) (auto simp: bit_simps)
qed

lemma Header_tail:
  fixes sn :: u32 and p :: u8
  assumes "unat sn < 2 ^ 24" "unat p < 16"
  shows "drop_bit 8 (push_bit 8 sn OR ucast (push_bit 4 p)) = sn"
    and "drop_bit 8 (push_bit 8 sn) = sn"
    and "drop_bit 4 (ucast ((push_bit 8 sn OR ucast (push_bit 4 p)) AND 0xFF)) = p"
proof -
  have p: "i < 4" if "bit p i" for i
    using assms(2) that take_bit_id [of p 4] bit_take_bit_iff [of 4 p i] by simp
  have sn: "i < 24" if "bit sn i" for i
    using assms(1) that take_bit_id [of sn 24] bit_take_bit_iff [of 24 sn i] by simp
  have FF: "(0xFF :: u32) = mask 8" by (simp add: mask_eq_exp_minus_1)
  show "drop_bit 8 (push_bit 8 sn OR ucast (push_bit 4 p)) = sn" "drop_bit 8 (push_bit 8 sn) = sn"
    by (rule bit_word_eqI; auto simp: bit_simps dest: sn p)+
  show "drop_bit 4 (ucast ((push_bit 8 sn OR ucast (push_bit 4 p)) AND 0xFF)) = p"
    unfolding FF by (rule bit_word_eqI) (auto simp: bit_simps dest: p)
qed

lemma Header_roundtrip:
  assumes "Header_wf h"
  shows "Header_UnmarshalBinary Header_new (Header_MarshalBinary h @ r) = Inr h"
  using assms Header_octet [of "Version h" "MP h" "S h"] Header_tail [of "SequenceNumber h" "MessagePriority h"]
  by (cases "S h = 0"; cases "MP h = 0"; cases h)
    (auto simp: Header_MarshalBinary_def Header_UnmarshalBinary_def Header_wf_def Header_new_def Let_def)

end
