(* ===== verification/PFCP_Message.thy ===== *)
theory PFCP_Message
  imports PFCP_Types PFCP_Header
begin

text \<open>
  PFCP messages: \<^verbatim>\<open>Message.Marshal\<close> (\<^verbatim>\<open>lib/pfcp/encode.go\<close>), \<^verbatim>\<open>Message.Unmarshal\<close>
  (\<^verbatim>\<open>decode.go\<close>), \<^verbatim>\<open>IsRequest\<close> and \<^verbatim>\<open>IsResponse\<close> (\<^verbatim>\<open>message.go\<close>). A body is the dynamic type
  and value the \<^verbatim>\<open>interface{}\<close> holds.
\<close>

section \<open>Messages\<close>

text \<open>The switch of \<^verbatim>\<open>Message.Unmarshal\<close>.\<close>

definition body_type :: "u8 \<Rightarrow> ie gtype option" where
  "body_type t =
     (if t = PFCP_HEARTBEAT_REQUEST then Some HeartbeatRequest
      else if t = PFCP_HEARTBEAT_RESPONSE then Some HeartbeatResponse
      else if t = PFCP_PFD_MANAGEMENT_REQUEST then Some PFCPPFDManagementRequest
      else if t = PFCP_PFD_MANAGEMENT_RESPONSE then Some PFCPPFDManagementResponse
      else if t = PFCP_ASSOCIATION_SETUP_REQUEST then Some PFCPAssociationSetupRequest
      else if t = PFCP_ASSOCIATION_SETUP_RESPONSE then Some PFCPAssociationSetupResponse
      else if t = PFCP_ASSOCIATION_UPDATE_REQUEST then Some PFCPAssociationUpdateRequest
      else if t = PFCP_ASSOCIATION_UPDATE_RESPONSE then Some PFCPAssociationUpdateResponse
      else if t = PFCP_ASSOCIATION_RELEASE_REQUEST then Some PFCPAssociationReleaseRequest
      else if t = PFCP_ASSOCIATION_RELEASE_RESPONSE then Some PFCPAssociationReleaseResponse
      else if t = PFCP_NODE_REPORT_REQUEST then Some PFCPNodeReportRequest
      else if t = PFCP_NODE_REPORT_RESPONSE then Some PFCPNodeReportResponse
      else if t = PFCP_SESSION_SET_DELETION_REQUEST then Some PFCPSessionSetDeletionRequest
      else if t = PFCP_SESSION_SET_DELETION_RESPONSE then Some PFCPSessionSetDeletionResponse
      else if t = PFCP_SESSION_ESTABLISHMENT_REQUEST then Some PFCPSessionEstablishmentRequest
      else if t = PFCP_SESSION_ESTABLISHMENT_RESPONSE then Some PFCPSessionEstablishmentResponse
      else if t = PFCP_SESSION_MODIFICATION_REQUEST then Some PFCPSessionModificationRequest
      else if t = PFCP_SESSION_MODIFICATION_RESPONSE then Some PFCPSessionModificationResponse
      else if t = PFCP_SESSION_DELETION_REQUEST then Some PFCPSessionDeletionRequest
      else if t = PFCP_SESSION_DELETION_RESPONSE then Some PFCPSessionDeletionResponse
      else if t = PFCP_SESSION_REPORT_REQUEST then Some PFCPSessionReportRequest
      else if t = PFCP_SESSION_REPORT_RESPONSE then Some PFCPSessionReportResponse
      else None)"

record Message =
  Hdr :: Header
  Body :: "(ie gtype \<times> ie gval) option"

definition IsRequest :: "Message \<Rightarrow> bool" where
  "IsRequest m = is_request_type (MessageType (Hdr m))"

definition IsResponse :: "Message \<Rightarrow> bool" where
  "IsResponse m = is_response_type (MessageType (Hdr m))"

text \<open>\<^verbatim>\<open>reflect.TypeOf(nil)\<close> is nil, so that a message without a body panics.\<close>

definition Message_Marshal :: "Message \<Rightarrow> (Message \<times> bytes) res" where
  "Message_Marshal m =
     (case Body m of None \<Rightarrow> Inl Panic
      | Some (t, v) \<Rightarrow>
        bind_res (Marshal ie_ops t v) (\<lambda>bodyBytes.
        let n = (if S (Hdr m) AND 1 \<noteq> 0 then 12 else 4) + of_nat (length bodyBytes);
            h = (Hdr m)\<lparr>MessageLength := n\<rparr> in
        Inr (m\<lparr>Hdr := h\<rparr>, Header_MarshalBinary h @ bodyBytes)))"

definition Message_Unmarshal :: "Message \<Rightarrow> slice \<Rightarrow> Message res" where
  "Message_Unmarshal m data =
     bind_res (Header_UnmarshalBinary (Hdr m) (sdata data)) (\<lambda>h.
     bind_res (check (\<not> int (unat (MessageLength h)) \<noteq> int (slen data) - 4) ''Incorrect Message Length'') (\<lambda>_.
     case body_type (MessageType h) of
       None \<Rightarrow> Inl (Err ''pfcp: unmarshal msg type not supported'')
     | Some t \<Rightarrow>
         bind_res (sl_from data (Header_Len h)) (\<lambda>b.
         bind_res (Unmarshal ie_ops b t (zero_val t)) (\<lambda>v.
         Inr (m\<lparr>Hdr := h, Body := Some (t, v)\<rparr>)))))"

definition Message_new :: Message where
  "Message_new = \<lparr>Hdr = Header_new, Body = None\<rparr>"

section \<open>The round trip of a message\<close>

text \<open>
  A message the peer can read: the header is in range, its type has a body and the body is of
  that type, the S flag is set exactly for the session messages (the decoder skips a header
  whose length depends on the type alone), and the length fits 16 bits.
\<close>

fun body_wf :: "u8 \<Rightarrow> ie gtype \<Rightarrow> ie gval \<Rightarrow> bool" where
  "body_wf mt (TStruct fs) (VStruct vs) \<longleftrightarrow> body_type mt = Some (TStruct fs)
     \<and> wf_fields ie_ops ie_ok fs vs
     \<and> (case build_fields ie_ops fs vs of Inr b \<Rightarrow> length b + 12 < 65536 | Inl _ \<Rightarrow> True)"
| "body_wf mt t v \<longleftrightarrow> False"

fun_cases body_wfE: "body_wf mt t v"

definition Message_wf :: "Message \<Rightarrow> bool" where
  "Message_wf m \<longleftrightarrow> Header_wf (Hdr m) \<and> (S (Hdr m) = 1 \<longleftrightarrow> 50 \<le> unat (MessageType (Hdr m)))
     \<and> (case Body m of Some (t, v) \<Rightarrow> body_wf (MessageType (Hdr m)) t v | None \<Rightarrow> False)"

lemma length_Header_MarshalBinary:
  "S h \<in> {0, 1} \<Longrightarrow> length (Header_MarshalBinary h) = (if S h = 1 then 16 else 8)"
  by (auto simp: Header_MarshalBinary_def Let_def)

lemma Message_roundtrip:
  assumes "Message_wf m"
  shows "\<exists>m' d. Message_Marshal m = Inr (m', d) \<and> m' = m\<lparr>Hdr := (Hdr m)\<lparr>MessageLength := of_nat (length d - 4)\<rparr>\<rparr>
    \<and> Message_Unmarshal Message_new (Slice d sp) = Inr m'"
proof -
  obtain fs vs where b: "Body m = Some (TStruct fs, VStruct vs)"
    "body_type (MessageType (Hdr m)) = Some (TStruct fs)" and wf: "wf_fields ie_ops ie_ok fs vs"
    using assms by (auto simp: Message_wf_def split: option.splits elim!: body_wfE)
  obtain body where body: "Marshal ie_ops (TStruct fs) (VStruct vs) = Inr body"
    using pfcp.Marshal_total [OF wf] by blast
  have dec: "Unmarshal ie_ops (Slice body sp) (TStruct fs) (zero_val (TStruct fs)) = Inr (VStruct vs)"
    using pfcp.Unmarshal_Marshal [OF wf body] by blast
  have "build_fields ie_ops fs vs = Inr body"
    using body by (auto simp: Marshal_def makeTLV_def bind_res_eq_Inr_iff)
  then have len: "length body + 12 < 65536" using assms b by (simp add: Message_wf_def)
  define n :: nat where "n = (if S (Hdr m) = 1 then 12 else 4) + length body"
  define h where "h = (Hdr m)\<lparr>MessageLength := of_nat n\<rparr>"
  have S: "S (Hdr m) \<in> {0, 1}" "S h = S (Hdr m)" and h: "Header_wf h"
    and long: "S (Hdr m) = 1 \<longleftrightarrow> 50 \<le> unat (MessageType (Hdr m))"
    using assms by (auto simp: Message_wf_def Header_wf_def h_def)
  have hl: "length (Header_MarshalBinary h) = Header_Len h" "Header_Len h + length body = n + 4"
    using S long length_Header_MarshalBinary [of h] by (auto simp: Header_Len_def h_def n_def)
  have "n < 65536" using len by (simp add: n_def)
  then have ml: "uint (MessageLength h) = int n" "MessageType h = MessageType (Hdr m)"
    by (simp_all add: h_def uint_nat del: of_nat_unat)
  have "Message_Marshal m = Inr (m\<lparr>Hdr := h\<rparr>, Header_MarshalBinary h @ body)"
    using b body S by (auto simp: Message_Marshal_def Let_def h_def n_def)
  moreover have "Message_Unmarshal Message_new (Slice (Header_MarshalBinary h @ body) sp) = Inr (m\<lparr>Hdr := h\<rparr>)"
    using Header_roundtrip [OF h, of body] hl ml dec b
    by (cases m) (simp add: Message_Unmarshal_def Message_new_def go_simps del: zero_val.simps)
  ultimately show ?thesis using hl by (simp add: h_def)
qed

end
