(* ===== verification/PFCP_Safety.thy ===== *)
theory PFCP_Safety
  imports PFCP_Message
begin

text \<open>
  The properties of the PFCP library that a peer relies on: every element and every message
  round-trips, the decoders of the elements panic only where their code does, and what the
  message decoder makes of truncated, mislabelled and unsupported input.
\<close>

section \<open>Helper facts\<close>

text \<open>The elements whose decoders can panic.\<close>

primrec text_fragile :: "text_ie \<Rightarrow> bool" where
  "text_fragile (IE_ActivatePredefinedRules v) = False"
| "text_fragile (IE_DeactivatePredefinedRules v) = False"
| "text_fragile (IE_ApplicationID v) = False"
| "text_fragile (IE_Dnn v) = True"
| "text_fragile (IE_FailedRuleID v) = False"
| "text_fragile (IE_ForwardingPolicy v) = False"
| "text_fragile (IE_HeaderEnrichment v) = False"
| "text_fragile (IE_RedirectInformation v) = True"
| "text_fragile (IE_SDFFilter v) = True"
| "text_fragile (IE_PFDContents v) = True"

primrec tunnel_fragile :: "tunnel_ie \<Rightarrow> bool" where
  "tunnel_fragile (IE_RemoteGTPUPeer v) = False"
| "tunnel_fragile (IE_OuterHeaderCreation v) = False"
| "tunnel_fragile (IE_UserPlaneIPResourceInformation v) = True"

definition ie_fragile :: "ie \<Rightarrow> bool" where
  "ie_fragile l = (case l of Text x \<Rightarrow> text_fragile x | Tunnel x \<Rightarrow> tunnel_fragile x | _ \<Rightarrow> False)"

lemma scalar_safe: "scalar_unmarshal x s \<noteq> Inl Panic"
  by (cases x) simp_all

lemma flags_safe: "flags_unmarshal x s \<noteq> Inl Panic"
  by (cases x) simp_all

lemma volume_safe: "volume_unmarshal x s \<noteq> Inl Panic"
  by (cases x) simp_all

lemma text_safe: "\<not> text_fragile x \<Longrightarrow> text_unmarshal x s \<noteq> Inl Panic"
  by (cases x) simp_all

lemma address_safe: "address_unmarshal x s \<noteq> Inl Panic"
  by (cases x) simp_all

lemma tunnel_safe: "\<not> tunnel_fragile x \<Longrightarrow> tunnel_unmarshal x s \<noteq> Inl Panic"
  by (cases x) simp_all

lemma time_safe: "time_unmarshal x s \<noteq> Inl Panic"
  by (cases x) simp_all

section \<open>A session establishment request\<close>

text \<open>
  The message of the witnesses: node, session endpoint, one PDR with its PDI and one FAR. The
  fields are in the order of the struct; \<open>nil\<close> is an absent pointer, \<open>nils\<close> an absent slice.
\<close>

abbreviation nil :: "ie gval" where "nil \<equiv> VPtr None"
abbreviation nils :: "ie gval" where "nils \<equiv> VSlice None"
abbreviation ptr :: "ie \<Rightarrow> ie gval" where "ptr l \<equiv> VPtr (Some (VBin l))"

definition sample_node :: ie where
  "sample_node = Address (IE_NodeID \<lparr>NodeID_NodeIdType = 0, NodeID_NodeIdValue = [10, 0, 0, 1]\<rparr>)"

definition sample_fseid :: FSEID where
  "sample_fseid = \<lparr>FSEID_V4 = True, FSEID_V6 = False, FSEID_Seid = 1,
     FSEID_Ipv4Address = [10, 0, 0, 1], FSEID_Ipv6Address = []\<rparr>"

definition sample_pdi :: "ie gval" where
  "sample_pdi = VStruct
     [ptr (Scalar (IE_SourceInterface \<lparr>SourceInterface_InterfaceValue = 0\<rparr>)),
      nil, ptr (Text (IE_Dnn [105])), nil, nil, nil, nil, nil, nil, nil, nil, nil, nil]"

definition sample_pdr :: "ie gval" where
  "sample_pdr = VStruct
     [ptr (Scalar (IE_PacketDetectionRuleID \<lparr>PacketDetectionRuleID_RuleId = 1\<rparr>)),
      ptr (Scalar (IE_Precedence \<lparr>Precedence_PrecedenceValue = 32\<rparr>)),
      VPtr (Some sample_pdi), nil,
      ptr (Scalar (IE_FARID \<lparr>FARID_FarIdValue = 1\<rparr>)), nil, nil, nil]"

definition sample_far :: "ie gval" where
  "sample_far = VStruct
     [ptr (Scalar (IE_FARID \<lparr>FARID_FarIdValue = 1\<rparr>)),
      ptr (Flags (IE_ApplyAction \<lparr>ApplyAction_Dupl = False, ApplyAction_Nocp = False,
        ApplyAction_Buff = False, ApplyAction_Forw = True, ApplyAction_Drop = False\<rparr>)),
      nil, nil, nil]"

definition sample_body :: "ie gval list" where
  "sample_body = [ptr sample_node, ptr (Address (IE_FSEID sample_fseid)),
     VSlice (Some [VPtr (Some sample_pdr)]), VSlice (Some [VPtr (Some sample_far)]),
     nils, nils, nils, nil, nil, nil, nil, nil, nil, nil, nil, nil, nil]"

definition sample_msg :: Message where
  "sample_msg = \<lparr>Hdr = \<lparr>Version = 1, MP = 0, S = 1, MessageType = 50, MessageLength = 0, SEID = 0,
      SequenceNumber = 7, MessagePriority = 0\<rparr>,
    Body = Some (PFCPSessionEstablishmentRequest, VStruct sample_body)\<rparr>"

lemmas sample_defs = sample_node_def sample_fseid_def sample_pdi_def sample_pdr_def sample_far_def
  sample_body_def sample_msg_def

lemmas sample_types = PFCPSessionEstablishmentRequest_def CreatePDR_def PDI_def CreateFAR_def
  CreateURR_def CreateQER_def CreateBAR_def

lemmas sample_ie_defs = ie_ok_def ie_ops_def NodeID_wf_def NodeID_marshal_def FSEID_wf_def FSEID_marshal_def
  SourceInterface_marshal_def Dnn_marshal_def PacketDetectionRuleID_marshal_def Precedence_marshal_def
  FARID_marshal_def ApplyAction_marshal_def NodeID_new_def FSEID_new_def SourceInterface_new_def
  PacketDetectionRuleID_new_def Precedence_new_def FARID_new_def ApplyAction_new_def
  ip4_ok_def ip6_ok_def addr4_def addr6_def IsUnspecified_def v4InV6Prefix_def
  bits_Len_iff Let_def slice_elem_def good_tag_def makeTLV_def tl_header_def

lemma sample_pdi_wf: "wf_val ie_ops ie_ok True PDI sample_pdi"
  by (simp add: sample_defs PDI_def sample_ie_defs)

lemma sample_pdr_wf: "wf_val ie_ops ie_ok True CreatePDR sample_pdr"
  by (simp add: sample_defs CreatePDR_def PDI_def sample_ie_defs)

lemma sample_far_wf: "wf_val ie_ops ie_ok True CreateFAR sample_far"
  by (simp add: sample_defs CreateFAR_def sample_ie_defs)

lemma sample_msg_wf: "Message_wf sample_msg"
  by (simp add: Message_wf_def Header_wf_def body_type_def sample_defs sample_types sample_ie_defs)

section \<open>Round trips\<close>

text \<open>
  C1: a well-formed PFCP message survives \<^verbatim>\<open>Message.Marshal\<close> and \<^verbatim>\<open>Message.Unmarshal\<close>, whatever
  follows it in the receive buffer: encoding succeeds, sets the message length to the length of
  the datagram less four, and decoding the datagram gives the message back.
\<close>

theorem Message_Unmarshal_Marshal:
  assumes "Message_wf m"
  shows "\<exists>m' d. Message_Marshal m = Inr (m', d)
    \<and> m' = m\<lparr>Hdr := (Hdr m)\<lparr>MessageLength := of_nat (length d - 4)\<rparr>\<rparr>
    \<and> (\<forall>sp. Message_Unmarshal Message_new (Slice d sp) = Inr m')"
  using Message_roundtrip [OF assms] by (metis Inr_inject prod.inject)

theorem Message_Unmarshal_Marshal_witness:
  "Message_wf sample_msg \<and> (\<exists>m' d. Message_Marshal sample_msg = Inr (m', d)
    \<and> m' = sample_msg\<lparr>Hdr := (Hdr sample_msg)\<lparr>MessageLength := of_nat (length d - 4)\<rparr>\<rparr>
    \<and> (\<forall>sp. Message_Unmarshal Message_new (Slice d sp) = Inr m'))"
  using Message_Unmarshal_Marshal [OF sample_msg_wf] sample_msg_wf by blast

text \<open>
  C11: every information element of the library with a codec survives the wire: a well-formed
  value marshals, and its octets unmarshal into the zero value of its type as that value.
\<close>

theorem ie_roundtrip:
  assumes "ie_wf l"
  shows "\<exists>d. ie_marshal l = Inr d \<and> (\<forall>sp. ie_unmarshal (ie_zero l) (Slice d sp) = Inr l)"
  using ie_marshal_total [OF assms] ie_unmarshal_marshal [OF assms] by blast

theorem ie_roundtrip_witness:
  "\<exists>d. ie_marshal (Address (IE_FSEID sample_fseid)) = Inr d
    \<and> (\<forall>sp. ie_unmarshal (ie_zero (Address (IE_FSEID sample_fseid))) (Slice d sp)
          = Inr (Address (IE_FSEID sample_fseid)))"
  by (rule ie_roundtrip)
    (simp add: sample_fseid_def FSEID_wf_def ip4_ok_def ip6_ok_def IsUnspecified_def v4InV6Prefix_def)

text \<open>
  C10: the reflective TLV codec round-trips every struct built from PFCP elements: when each
  present field is well-formed and its tag is not shared, what \<^verbatim>\<open>tlv.Marshal\<close> writes,
  \<^verbatim>\<open>tlv.Unmarshal\<close> reads back into a new struct.
\<close>

theorem tlv_roundtrip:
  assumes "wf_fields ie_ops ie_ok fs vs"
  shows "\<exists>d. Marshal ie_ops (TStruct fs) (VStruct vs) = Inr d
    \<and> (\<forall>sp. Unmarshal ie_ops (Slice d sp) (TStruct fs) (zero_val (TStruct fs)) = Inr (VStruct vs))"
  using pfcp.Marshal_total [OF assms] pfcp.Unmarshal_Marshal [OF assms] by blast

definition bar_fields :: "(string \<times> tlv_tag \<times> ie gtype) list" where
  "bar_fields = [fld ''BARID'' 88 (TPtr (TBin (Scalar (IE_BARID BARID_new))))]"

theorem tlv_roundtrip_witness:
  "RemoveBAR = TStruct bar_fields \<and>
   (\<exists>d. Marshal ie_ops (TStruct bar_fields) (VStruct [ptr (Scalar (IE_BARID \<lparr>BARID_BarIdValue = 5\<rparr>))]) = Inr d
    \<and> (\<forall>sp. Unmarshal ie_ops (Slice d sp) (TStruct bar_fields) (zero_val (TStruct bar_fields))
          = Inr (VStruct [ptr (Scalar (IE_BARID \<lparr>BARID_BarIdValue = 5\<rparr>))])))"
  using tlv_roundtrip [of bar_fields "[ptr (Scalar (IE_BARID \<lparr>BARID_BarIdValue = 5\<rparr>))]"]
  by (simp add: RemoveBAR_def bar_fields_def BARID_new_def BARID_marshal_def sample_ie_defs
      del: zero_val.simps)

text \<open>
  An F-SEID whose addresses are in either of Go's forms reaches the peer with its addresses
  in wire form (four octets for IPv4, sixteen for IPv6), and with its other fields unchanged.
\<close>

theorem FSEID_wire_roundtrip:
  assumes "FSEID_marshal f = Inr d"
    and "FSEID_V4 f \<Longrightarrow> To4 (FSEID_Ipv4Address f) \<noteq> []"
    and "FSEID_V6 f \<Longrightarrow> To16 (FSEID_Ipv6Address f) \<noteq> []"
  shows "FSEID_unmarshal FSEID_new (Slice d sp) = Inr (FSEID_wire f)"
  using FSEID_marshal_wire [OF assms] by (intro fseid.unmarshal_marshal)

definition sample_fseid16 :: FSEID where
  "sample_fseid16 = sample_fseid\<lparr>FSEID_Ipv4Address := v4InV6Prefix @ [10, 0, 0, 1]\<rparr>"

theorem FSEID_wire_roundtrip_witness:
  "FSEID_unmarshal FSEID_new (Slice (2 # be_bytes 8 (1 :: u64) @ [10, 0, 0, 1]) []) = Inr (FSEID_wire sample_fseid16)"
  by (rule FSEID_wire_roundtrip)
    (simp_all add: sample_fseid16_def sample_fseid_def FSEID_marshal_def Let_def addr4_def addr6_def
      To4_def IsUnspecified_def v4InV6Prefix_def btou_def)

section \<open>Decoders and malformed input\<close>

lemma parseTLV_single:
  assumes "tlv_ok (k, x)"
  shows "parseTLV (makeTLV k x) = Inr (\<lambda>j. if j = k then [x] else [])"
  using parse_loop_seq [of "[(k, x)]" 0 0 "\<lambda>_. []"] assms
  by (auto simp: parseTLV_def frag_of_def fun_eq_iff)

text \<open>
  C27: the decoder of every element, the five of \<open>ie_fragile\<close> excepted, returns a value or an
  error on every input; no octets from the network make it panic.
\<close>

theorem ie_decode_safe:
  assumes "\<not> ie_fragile l"
  shows "ie_unmarshal l s \<noteq> Inl Panic"
  using assms by (cases l) (simp_all add: ie_fragile_def scalar_safe flags_safe volume_safe text_safe
      address_safe tunnel_safe time_safe)

theorem ie_decode_safe_witness:
  "ie_unmarshal (Address (IE_FTEID FTEID_new)) (Slice [4] []) \<noteq> Inl Panic"
  by (rule ie_decode_safe) (simp add: ie_fragile_def)

text \<open>
  The decoder of an SDF filter panics on exactly the elements that announce a flow
  description of 65532 octets or more, where \<^verbatim>\<open>idx+LengthOfFlowDescription\<close> wraps at 16 bits.
\<close>

theorem SDFFilter_panic_iff:
  assumes "length d \<le> 65507"
  shows "ie_unmarshal (Text (IE_SDFFilter s)) (Slice d sp) = Inl Panic \<longleftrightarrow> SDFFilter_wraps d"
  using SDFFilter_unmarshal_panic_iff [OF assms] by simp

theorem SDFFilter_panic_iff_witness:
  "ie_unmarshal (Text (IE_SDFFilter SDFFilter_new)) (Slice [1, 0, 255, 255] []) = Inl Panic"
  using SDFFilter_panic_iff [of "[1, 0, 255, 255]" SDFFilter_new "[]"]
  by (simp add: SDFFilter_wraps_def of_be_def bytes_eval)

text \<open>
  A user plane IP resource information that announces both a source interface and a network
  instance but has one octet left for them makes the decoder panic.
\<close>

theorem UPIP_panics:
  assumes "length a = 4"
  shows "ie_unmarshal (Tunnel (IE_UserPlaneIPResourceInformation u)) (Slice ([0x61] @ a @ [x]) sp) = Inl Panic"
  using UPIP_unmarshal_panics [OF assms] by simp

theorem UPIP_panics_witness:
  "ie_unmarshal (Tunnel (IE_UserPlaneIPResourceInformation UserPlaneIPResourceInformation_new))
     (Slice ([0x61] @ [10, 0, 0, 1] @ [0]) []) = Inl Panic"
  by (rule UPIP_panics) simp

text \<open>
  Encoding an outer header creation for UDP over IPv4 panics when its address is missing,
  since the nil address passes the \<^verbatim>\<open>IsUnspecified\<close> guard but is counted in the index.
\<close>

theorem OuterHeaderCreation_nil_panics:
  assumes "OHC_OuterHeaderCreationDescription h = 4" "OHC_Ipv4Address h = []"
  shows "ie_marshal (Tunnel (IE_OuterHeaderCreation h)) = Inl Panic"
  using OuterHeaderCreation_marshal_nil_panics [OF assms(1)] assms(2) by (simp add: To4_def)

theorem OuterHeaderCreation_nil_panics_witness:
  "ie_marshal (Tunnel (IE_OuterHeaderCreation
     (OuterHeaderCreation_new\<lparr>OHC_OuterHeaderCreationDescription := 4, OHC_PortNumber := 2152\<rparr>))) = Inl Panic"
  by (rule OuterHeaderCreation_nil_panics) (simp_all add: OuterHeaderCreation_new_def)

text \<open>
  A TLV whose value is cut short is not an error: \<^verbatim>\<open>parseTLV\<close> hands out the octets that are
  there followed by zeros up to the announced length.
\<close>

theorem parseTLV_truncated:
  assumes "k < 65536" "n < 65536" "x \<noteq> []" "length x < n"
  shows "\<exists>f. parseTLV (tl_header k n @ x) = Inr f \<and> f k = [x @ replicate (n - length x) 0]"
  using assms
  by (simp add: parseTLV_def parse_loop.simps tl_header_def read_u16_def read_value_def fragments_Add_def)

theorem parseTLV_truncated_witness:
  "\<exists>f. parseTLV (tl_header 108 4 @ [7]) = Inr f \<and> f 108 = [[7] @ replicate (4 - length [7 :: u8]) 0]"
  by (rule parseTLV_truncated) simp_all

text \<open>
  The decoder skips a header whose length depends on the message type alone. A datagram
  with a consistent length field that is shorter than that (a session message without SEID, or
  fewer than eight octets) makes \<^verbatim>\<open>Message.Unmarshal\<close> panic.
\<close>

theorem Message_short_panics:
  assumes "Header_UnmarshalBinary (Hdr m) d = Inr h" "body_type (MessageType h) \<noteq> None"
    and "unat (MessageLength h) + 4 = length d" "length d < Header_Len h"
  shows "Message_Unmarshal m (Slice d sp) = Inl Panic"
proof -
  have "int (unat (MessageLength h)) = int (length d) - 4" using assms(3) by linarith
  then show ?thesis
    using assms(1,2,4) by (auto simp: Message_Unmarshal_def sl_from_def)
qed

theorem Message_short_panics_witness:
  "Message_Unmarshal Message_new (Slice [0x20, 1, 0, 0] []) = Inl Panic"
  by (rule Message_short_panics [where h = "Header_new\<lparr>Version := 1, MessageType := 1\<rparr>"])
    (simp_all add: Message_new_def Header_UnmarshalBinary_def Header_new_def read_be_def Let_def
      of_be_def body_type_def Header_Len_def bytes_eval)

text \<open>
  A session establishment request whose PDI carries a network instance of length zero
  makes \<^verbatim>\<open>Message.Unmarshal\<close> panic: the decoder of the name reslices the empty value from 1.
\<close>

theorem empty_network_instance_panics:
  assumes "Header_wf h" "S h = 1" "MessageType h = PFCP_SESSION_ESTABLISHMENT_REQUEST" "MessageLength h = 24"
  shows "Message_Unmarshal Message_new
    (Slice (Header_MarshalBinary h @ makeTLV 1 (makeTLV 2 (makeTLV 22 []))) sp) = Inl Panic"
proof -
  let ?b = "makeTLV 1 (makeTLV 2 (makeTLV 22 []))"
  have len: "length ?b = 12" "length (Header_MarshalBinary h) = 16" "Header_Len h = 16"
    using assms length_Header_MarshalBinary [of h]
    by (auto simp: makeTLV_def tl_header_def Header_Len_def Header_wf_def)
  have "decodeValue ie_ops PDI (zero_val PDI) (Slice (makeTLV 22 []) []) = Inl Panic"
    by (simp add: PDI_def parseTLV_single tlv_ok_def ie_ops_def Dnn_unmarshal_def sl_from_def)
  then have "decodeValue ie_ops CreatePDR (zero_val CreatePDR) (Slice (makeTLV 2 (makeTLV 22 [])) []) = Inl Panic"
    by (simp add: CreatePDR_def parseTLV_single tlv_ok_def makeTLV_def [of 22] tl_header_def del: decodeValue.simps(1))
  then have "Unmarshal ie_ops (Slice ?b sp) PFCPSessionEstablishmentRequest
      (zero_val PFCPSessionEstablishmentRequest) = Inl Panic"
    by (simp add: Unmarshal_def PFCPSessionEstablishmentRequest_def parseTLV_single tlv_ok_def
        makeTLV_def [of 22] makeTLV_def [of 2] tl_header_def slice_elem_def)
  then show ?thesis
    using Header_roundtrip [OF assms(1), of ?b] len assms(3,4)
    by (simp add: Message_Unmarshal_def Message_new_def body_type_def go_simps del: zero_val.simps)
qed

theorem empty_network_instance_panics_witness:
  "Message_Unmarshal Message_new
    (Slice (Header_MarshalBinary ((Hdr sample_msg)\<lparr>MessageLength := 24\<rparr>)
      @ makeTLV 1 (makeTLV 2 (makeTLV 22 []))) []) = Inl Panic"
  by (rule empty_network_instance_panics) (simp_all add: sample_msg_def Header_wf_def)

text \<open>
  A Create QER that carries a QER ID, which the protocol requires, is never decoded: the
  type of the QER ID is a struct with an untagged field, and the codec rejects it.
\<close>

theorem CreateQER_with_id_rejected:
  assumes "parseTLV (sdata b) = Inr f" "f 109 \<noteq> []"
  shows "decodeValue ie_ops CreateQER (zero_val CreateQER) b \<noteq> Inr v"
proof (cases "f 109")
  case (Cons x xs)
  have "decodeValue ie_ops (TPtr QERID_raw) (VPtr None) (Slice x []) \<noteq> Inr w" for w
    by (cases "parseTLV x") (simp_all add: QERID_raw_def)
  then obtain e where "decodeValue ie_ops (TPtr QERID_raw) (VPtr None) (Slice x []) = Inl e"
    by (cases "decodeValue ie_ops (TPtr QERID_raw) (VPtr None) (Slice x [])") auto
  then show ?thesis
    using assms Cons by (simp add: CreateQER_def del: decodeValue.simps(6))
qed (use assms in simp)

theorem CreateQER_with_id_rejected_witness:
  "\<forall>v. decodeValue ie_ops CreateQER (zero_val CreateQER) (Slice (makeTLV 109 [0, 0, 0, 1]) []) \<noteq> Inr v"
  by (intro allI CreateQER_with_id_rejected [where f = "\<lambda>j. if j = 109 then [[0, 0, 0, 1]] else []"])
    (simp_all add: parseTLV_single tlv_ok_def)

text \<open>
  A PFD management request with a named application cannot be encoded: the application
  identifier is held by value, so that the codec sees its struct and not its marshaler.
\<close>

theorem PFDManagement_not_encoded:
  assumes "ApplicationID_ApplicationIdentifier a \<noteq> []"
  shows "Marshal ie_ops PFCPPFDManagementRequest
      (VStruct [VSlice (Some (VStruct [VBin (Text (IE_ApplicationID a)), p] # rest))])
    = Inl (need_tag ''ApplicationIdentifier'')"
  using assms
  by (simp add: Marshal_def PFCPPFDManagementRequest_def ApplicationIDsPFDs_def slice_elem_def ie_ops_def)

theorem PFDManagement_not_encoded_witness:
  "Marshal ie_ops PFCPPFDManagementRequest
      (VStruct [VSlice (Some [VStruct [VBin (Text (IE_ApplicationID \<lparr>ApplicationID_ApplicationIdentifier = [97]\<rparr>)), nil]])])
    = Inl (need_tag ''ApplicationIdentifier'')"
  by (rule PFDManagement_not_encoded) simp

text \<open>
  The message types with a body are the requests and the responses, no type is both, and
  the response to a request is the next type.
\<close>

theorem request_response_types:
  "(body_type (MessageType (Hdr m)) \<noteq> None \<longleftrightarrow> IsRequest m \<or> IsResponse m)
   \<and> \<not> (IsRequest m \<and> IsResponse m)
   \<and> IsRequest m = IsResponse (m\<lparr>Hdr := (Hdr m)\<lparr>MessageType := MessageType (Hdr m) + 1\<rparr>\<rparr>)"
proof -
  have "is_request_type t = is_response_type (t + 1)" for t
    by (simp add: is_request_type_def is_response_type_def eq_diff_eq [symmetric])
  then show ?thesis
    by (auto simp: IsRequest_def IsResponse_def body_type_def is_request_type_def is_response_type_def)
qed

end
