(* ===== verification/Go_State.thy ===== *)
theory Go_State
  imports Go_Prelude
begin

text \<open>
  Stateful Go code: a function that reads and writes a heap is a function from the heap to its
  outcome and the heap it leaves, also when it returns an error or panics. An object allocated with
  \<^verbatim>\<open>new\<close> or \<^verbatim>\<open>&T{}\<close> is appended to the list of the objects of its type; a pointer is its index, and
  \<^verbatim>\<open>nil\<close> is \<open>None\<close>.
\<close>

type_synonym ('s, 'a) go = "'s \<Rightarrow> 'a res \<times> 's"

named_theorems st_simps \<open>evaluation of stateful code\<close>

definition ret :: "'a \<Rightarrow> ('s, 'a) go" where
  "ret x = (\<lambda>s. (Inr x, s))"

definition fail :: "fault \<Rightarrow> ('s, 'a) go" where
  "fail e = (\<lambda>s. (Inl e, s))"

definition bind :: "('s, 'a) go \<Rightarrow> ('a \<Rightarrow> ('s, 'b) go) \<Rightarrow> ('s, 'b) go" where
  "bind m f = (\<lambda>s. case m s of (Inl e, s') \<Rightarrow> (Inl e, s') | (Inr x, s') \<Rightarrow> f x s')"

text \<open>
  \<^verbatim>\<open>if x, err := m(); err != nil { h } else { f }\<close>: an error is handled, a panic is not.
\<close>

definition handle :: "('s, 'a) go \<Rightarrow> (string \<Rightarrow> ('s, 'b) go) \<Rightarrow> ('a \<Rightarrow> ('s, 'b) go) \<Rightarrow> ('s, 'b) go" where
  "handle m h f = (\<lambda>s. case m s of
     (Inl (Err e), s') \<Rightarrow> h e s'
   | (Inl Panic, s') \<Rightarrow> (Inl Panic, s')
   | (Inr x, s') \<Rightarrow> f x s')"

definition gets :: "('s \<Rightarrow> 'a) \<Rightarrow> ('s, 'a) go" where
  "gets f = (\<lambda>s. (Inr (f s), s))"

definition modify :: "('s \<Rightarrow> 's) \<Rightarrow> ('s, unit) go" where
  "modify f = (\<lambda>s. (Inr (), f s))"

definition lift_res :: "('s \<Rightarrow> 'a res) \<Rightarrow> ('s, 'a) go" where
  "lift_res f = (\<lambda>s. (f s, s))"

definition require :: "bool \<Rightarrow> string \<Rightarrow> ('s, unit) go" where
  "require b msg = (\<lambda>s. (check b msg, s))"

text \<open>The object behind a pointer; \<^verbatim>\<open>nil\<close> panics.\<close>

definition deref :: "'o list \<Rightarrow> nat option \<Rightarrow> 'o res" where
  "deref objs p = (case p of None \<Rightarrow> Inl Panic | Some i \<Rightarrow> if i < length objs then Inr (objs ! i) else Inl Panic)"

lemma st_eval [simp, st_simps]:
  "ret x s = (Inr x, s)"
  "fail e s = (Inl e, s)"
  "gets f s = (Inr (f s), s)"
  "modify g s = (Inr (), g s)"
  "lift_res k s = (k s, s)"
  "require True msg s = (Inr (), s)"
  "require False msg s = (Inl (Err msg), s)"
  by (simp_all add: ret_def fail_def gets_def modify_def lift_res_def require_def)

lemma bind_eval [simp, st_simps]:
  "m s = (Inl e, s') \<Longrightarrow> bind m f s = (Inl e, s')"
  "m s = (Inr x, s') \<Longrightarrow> bind m f s = f x s'"
  by (simp_all add: bind_def)

lemma handle_eval [simp, st_simps]:
  "m s = (Inl (Err e), s') \<Longrightarrow> handle m h f s = h e s'"
  "m s = (Inl Panic, s') \<Longrightarrow> handle m h f s = (Inl Panic, s')"
  "m s = (Inr x, s') \<Longrightarrow> handle m h f s = f x s'"
  by (simp_all add: handle_def)

lemma deref_eval [simp, st_simps]:
  "deref objs None = Inl Panic"
  "i < length objs \<Longrightarrow> deref objs (Some i) = Inr (objs ! i)"
  by (simp_all add: deref_def)

lemma bind_cong [fundef_cong]:
  "m = m' \<Longrightarrow> (\<And>x s. f x s = g x s) \<Longrightarrow> bind m f = bind m' g"
  by (simp add: bind_def fun_eq_iff split: prod.split sum.split)

lemma bind_inr_iff:
  "bind m f s = (Inr y, s'') \<longleftrightarrow> (\<exists>x s'. m s = (Inr x, s') \<and> f x s' = (Inr y, s''))"
  by (auto simp: bind_def split: prod.splits sum.splits)

end
