(* ===== verification/PFCP_Server.thy ===== *)
theory PFCP_Server
  imports PFCP_Message Go_State
begin

text \<open>
  Reliable delivery of PFCP messages (\<^verbatim>\<open>lib/pfcp/transaction.go\<close>, \<^verbatim>\<open>event.go\<close> and \<^verbatim>\<open>pfcpUdp/udp.go\<close>). A message
  is sent by a transaction, which a goroutine of its own sends up to three times; one reader goroutine
  receives datagrams and hands events to the transactions through unbuffered channels. The operations on
  the tables are stateful functions; the goroutines are a step relation, in which a send on an
  unbuffered channel waits for its receiver. Addresses are their strings.
\<close>

section \<open>Transactions\<close>

datatype TransactionType = SendingRequest | SendingResponse
datatype EventType = ReceiveResendRequest | ReceiveValidResponse

definition NumOfResend :: nat where "NumOfResend = 3"
definition PFCP_MAX_UDP_LEN :: nat where "PFCP_MAX_UDP_LEN = 2048"

record Transaction =
  SendMsg :: bytes
  Tx_SequenceNumber :: u32
  Tx_MessageType :: u8
  TxType :: TransactionType
  Tx_DestAddr :: string
  ConsumerAddr :: string

text \<open>A transaction of a message that is neither a request nor a response keeps the zero values.\<close>

definition NewTransaction :: "string \<Rightarrow> Message \<Rightarrow> bytes \<Rightarrow> string \<Rightarrow> Transaction" where
  "NewTransaction localAddr pfcpMSG binaryMSG DestAddr =
     (let tx = \<lparr>SendMsg = binaryMSG, Tx_SequenceNumber = SequenceNumber (Hdr pfcpMSG), Tx_MessageType = MessageType (Hdr pfcpMSG),
        TxType = SendingRequest, Tx_DestAddr = DestAddr, ConsumerAddr = ''''\<rparr> in
      if IsRequest pfcpMSG then tx\<lparr>TxType := SendingRequest, ConsumerAddr := localAddr\<rparr>
      else if IsResponse pfcpMSG then tx\<lparr>TxType := SendingResponse, ConsumerAddr := DestAddr\<rparr>
      else tx)"

section \<open>The tables\<close>

text \<open>
  \<open>LocalAddr\<close> is \<^verbatim>\<open>Conn.LocalAddr().String()\<close>, and \<open>transactions\<close> the heap of the transactions that
  the tables point into; \<open>NewPfcpServer\<close> is the server once \<^verbatim>\<open>Listen\<close> has opened its connection.
\<close>

record PfcpServer =
  LocalAddr :: string
  ConsumerTable :: "string \<rightharpoonup> (u32 \<rightharpoonup> nat)"
  transactions :: "Transaction list"

definition NewPfcpServer :: "string \<Rightarrow> PfcpServer" where
  "NewPfcpServer addr = \<lparr>LocalAddr = addr, ConsumerTable = Map.empty, transactions = []\<rparr>"

definition the_tx :: "nat \<Rightarrow> ('a PfcpServer_scheme, Transaction) go" where
  "the_tx i = lift_res (\<lambda>s. deref (transactions s) (Some i))"

text \<open>\<^verbatim>\<open>txTable[seq]\<close>, where a table that is missing is a nil map.\<close>

definition lookup_tx :: "'a PfcpServer_scheme \<Rightarrow> string \<Rightarrow> u32 \<Rightarrow> nat option" where
  "lookup_tx s addr q = (case ConsumerTable s addr of None \<Rightarrow> None | Some t \<Rightarrow> t q)"

definition PutTransaction :: "nat \<Rightarrow> ('a PfcpServer_scheme, unit) go" where
  "PutTransaction i =
     bind (the_tx i) (\<lambda>tx.
     bind (modify (\<lambda>s. if ConsumerTable s (ConsumerAddr tx) = None
                       then s\<lparr>ConsumerTable := (ConsumerTable s)(ConsumerAddr tx \<mapsto> Map.empty)\<rparr> else s)) (\<lambda>_.
     bind (gets (\<lambda>s. the (ConsumerTable s (ConsumerAddr tx)))) (\<lambda>txTable.
     if txTable (Tx_SequenceNumber tx) = None
     then modify (\<lambda>s. s\<lparr>ConsumerTable := (ConsumerTable s)(ConsumerAddr tx \<mapsto> txTable(Tx_SequenceNumber tx \<mapsto> i))\<rparr>)
     else fail (Err ''Insert tx error: duplicate sequence number''))))"

text \<open>
  When the transaction is not in its table, the messages of the else branch read a field of \<^verbatim>\<open>txTmp\<close>,
  which is nil there.
\<close>

definition RemoveTransaction :: "nat \<Rightarrow> ('a PfcpServer_scheme, unit) go" where
  "RemoveTransaction i =
     bind (the_tx i) (\<lambda>tx.
     bind (gets (\<lambda>s. lookup_tx s (ConsumerAddr tx) (Tx_SequenceNumber tx))) (\<lambda>txTmp.
     case txTmp of
       None \<Rightarrow> fail Panic
     | Some j \<Rightarrow>
         bind (the_tx j) (\<lambda>tx'.
         modify (\<lambda>s. s\<lparr>ConsumerTable := (ConsumerTable s)(ConsumerAddr tx :=
           map_option (\<lambda>t. t(Tx_SequenceNumber tx' := None)) (ConsumerTable s (ConsumerAddr tx)))\<rparr>))))"

definition FindTransaction :: "Message \<Rightarrow> string \<Rightarrow> 'a PfcpServer_scheme \<Rightarrow> nat option res" where
  "FindTransaction msg consumerAddr s =
     (let seqNum = SequenceNumber (Hdr msg) in
      if IsResponse msg then
        (case ConsumerTable s consumerAddr of
           None \<Rightarrow> Inl (Err ''FindTransaction Error: txTable not found'')
         | Some txTable \<Rightarrow>
             (case txTable seqNum of
                None \<Rightarrow> Inl (Err ''FindTransaction Error: sequence number not found'')
              | Some i \<Rightarrow> Inr (Some i)))
      else if IsRequest msg then Inr (lookup_tx s consumerAddr seqNum)
      else Inr None)"

text \<open>
  \<^verbatim>\<open>ReadFrom\<close> on the datagram that the connection returns: the message, the event that it sends to a
  transaction before it returns, and the error it returns.
\<close>

record read_result =
  rd_msg :: Message
  rd_event :: "(nat \<times> EventType) option"
  rd_err :: "string option"

definition ReadFrom :: "bytes \<Rightarrow> string \<Rightarrow> 'a PfcpServer_scheme \<Rightarrow> read_result res" where
  "ReadFrom datagram addr s =
     (let n = min (length datagram) PFCP_MAX_UDP_LEN in
      case Message_Unmarshal Message_new (Slice (take n datagram) (replicate (PFCP_MAX_UDP_LEN - n) 0)) of
        Inl e \<Rightarrow> Inl e
      | Inr msg \<Rightarrow>
          if IsRequest msg then
            (case FindTransaction msg addr s of
               Inl e \<Rightarrow> Inl e
             | Inr (Some i) \<Rightarrow> Inr \<lparr>rd_msg = msg, rd_event = Some (i, ReceiveResendRequest), rd_err = Some ''Receive resend PFCP request''\<rparr>
             | Inr None \<Rightarrow> Inr \<lparr>rd_msg = msg, rd_event = None, rd_err = None\<rparr>)
          else if IsResponse msg then
            (case FindTransaction msg (LocalAddr s) s of
               Inl e \<Rightarrow> Inl e
             | Inr None \<Rightarrow> Inl Panic
             | Inr (Some i) \<Rightarrow> Inr \<lparr>rd_msg = msg, rd_event = Some (i, ReceiveValidResponse), rd_err = None\<rparr>)
          else Inr \<lparr>rd_msg = msg, rd_event = None, rd_err = None\<rparr>)"

text \<open>
  \<^verbatim>\<open>WriteTo\<close> up to the start of the goroutine: the number of the new transaction. A transaction that is
  not put into the table is garbage.
\<close>

definition WriteTo :: "Message \<Rightarrow> string \<Rightarrow> ('a PfcpServer_scheme, nat) go" where
  "WriteTo msg addr = (\<lambda>s.
     case Message_Marshal msg of
       Inl e \<Rightarrow> (Inl e, s)
     | Inr (msg', buf) \<Rightarrow>
         let i = length (transactions s); s1 = s\<lparr>transactions := transactions s @ [NewTransaction (LocalAddr s) msg' buf addr]\<rparr> in
         case PutTransaction i s1 of
           (Inl e, s2) \<Rightarrow> (Inl e, s)
         | (Inr _, s2) \<Rightarrow> (Inr i, s2))"

section \<open>The tables as a map\<close>

text \<open>The table of tables stands for one map from consumer and sequence number to a transaction.\<close>

definition tx_map :: "'a PfcpServer_scheme \<Rightarrow> string \<times> u32 \<rightharpoonup> nat" where
  "tx_map s = (\<lambda>(addr, q). lookup_tx s addr q)"

definition tx_key :: "'a PfcpServer_scheme \<Rightarrow> nat \<Rightarrow> string \<times> u32" where
  "tx_key s i = (ConsumerAddr (transactions s ! i), Tx_SequenceNumber (transactions s ! i))"

lemma the_tx_eval [simp]: "i < length (transactions s) \<Longrightarrow> the_tx i s = (Inr (transactions s ! i), s)"
  by (simp add: the_tx_def)

lemma PutTransaction_run:
  assumes "i < length (transactions s)"
  shows "PutTransaction i s =
    (let (a, q) = tx_key s i; t = (case ConsumerTable s a of None \<Rightarrow> Map.empty | Some t \<Rightarrow> t) in
     if t q = None then (Inr (), s\<lparr>ConsumerTable := (ConsumerTable s)(a \<mapsto> t(q \<mapsto> i))\<rparr>)
     else (Inl (Err ''Insert tx error: duplicate sequence number''), s))"
  using assms by (cases "ConsumerTable s (ConsumerAddr (transactions s ! i))") (auto simp: PutTransaction_def tx_key_def)

lemma tx_map_upd:
  "t = (case ConsumerTable s a of None \<Rightarrow> Map.empty | Some t \<Rightarrow> t) \<Longrightarrow>
    tx_map (s\<lparr>ConsumerTable := (ConsumerTable s)(a \<mapsto> t(q := v))\<rparr>) = (tx_map s)((a, q) := v)"
  by (auto simp: tx_map_def lookup_tx_def fun_eq_iff split: option.splits)

text \<open>Insertion into the tables is insertion into the map, unless the key is taken.\<close>

lemma PutTransaction_spec:
  assumes "i < length (transactions s)"
  shows "if tx_map s (tx_key s i) = None
    then \<exists>t. PutTransaction i s = (Inr (), s\<lparr>ConsumerTable := t\<rparr>) \<and> tx_map (s\<lparr>ConsumerTable := t\<rparr>) = (tx_map s)(tx_key s i \<mapsto> i)
    else \<exists>e. PutTransaction i s = (Inl (Err e), s)"
proof -
  obtain a q where k: "tx_key s i = (a, q)" by (cases "tx_key s i")
  let ?t = "case ConsumerTable s a of None \<Rightarrow> Map.empty | Some t \<Rightarrow> t"
  have "tx_map s (a, q) = ?t q" by (simp add: tx_map_def lookup_tx_def split: option.split)
  then show ?thesis
    using PutTransaction_run [OF assms] tx_map_upd [OF refl, of s a q "Some i"] by (auto simp: k)
qed

lemma RemoveTransaction_spec:
  assumes "i < length (transactions s)" "tx_map s (tx_key s i) = Some i"
  shows "\<exists>t. RemoveTransaction i s = (Inr (), s\<lparr>ConsumerTable := t\<rparr>) \<and> tx_map (s\<lparr>ConsumerTable := t\<rparr>) = (tx_map s)(tx_key s i := None)"
proof -
  obtain a q where k: "tx_key s i = (a, q)" by (cases "tx_key s i")
  then have aq: "ConsumerAddr (transactions s ! i) = a" "Tx_SequenceNumber (transactions s ! i) = q" by (simp_all add: tx_key_def)
  obtain t where t: "ConsumerTable s a = Some t" "t q = Some i"
    using assms(2) by (auto simp: k tx_map_def lookup_tx_def split: option.splits)
  then have "RemoveTransaction i s = (Inr (), s\<lparr>ConsumerTable := (ConsumerTable s)(a \<mapsto> t(q := None))\<rparr>)"
    using assms(1) aq by (simp add: RemoveTransaction_def lookup_tx_def)
  then show ?thesis using tx_map_upd [of t s a q None] t(1) k by auto
qed

lemma RemoveTransaction_missing:
  assumes "i < length (transactions s)" "tx_map s (tx_key s i) = None"
  shows "fst (RemoveTransaction i s) = Inl Panic"
  using assms by (simp add: RemoveTransaction_def tx_map_def tx_key_def)

text \<open>
  C34. The table of tables implements a map from consumer address and sequence number to transactions:
  \<^verbatim>\<open>PutTransaction\<close> inserts a key that is free and otherwise returns an error and changes nothing,
  \<^verbatim>\<open>RemoveTransaction\<close> deletes the key of a transaction in the table, and a lookup for a response is the
  lookup of the map.
\<close>

theorem tables_implement_map:
  assumes "i < length (transactions s)"
  shows "(tx_map s (tx_key s i) = None \<longrightarrow>
      (\<exists>s'. PutTransaction i s = (Inr (), s') \<and> tx_map s' = (tx_map s)(tx_key s i \<mapsto> i) \<and> transactions s' = transactions s)) \<and>
    (tx_map s (tx_key s i) \<noteq> None \<longrightarrow> (\<exists>e. PutTransaction i s = (Inl (Err e), s))) \<and>
    (tx_map s (tx_key s i) = Some i \<longrightarrow>
      (\<exists>s'. RemoveTransaction i s = (Inr (), s') \<and> tx_map s' = (tx_map s)(tx_key s i := None) \<and> transactions s' = transactions s)) \<and>
    (IsResponse msg \<longrightarrow> (\<forall>j. FindTransaction msg addr s = Inr (Some j) \<longleftrightarrow> tx_map s (addr, SequenceNumber (Hdr msg)) = Some j))"
  using PutTransaction_spec [OF assms] RemoveTransaction_spec [OF assms]
  by (auto simp: FindTransaction_def tx_map_def lookup_tx_def Let_def split: option.splits if_splits)

definition demo_tx :: "u32 \<Rightarrow> Transaction" where
  "demo_tx q = \<lparr>SendMsg = [], Tx_SequenceNumber = q, Tx_MessageType = 1, TxType = SendingRequest, Tx_DestAddr = ''upf'', ConsumerAddr = ''smf''\<rparr>"

theorem tables_implement_map_witness:
  "\<exists>s'. PutTransaction 0 ((NewPfcpServer ''smf'')\<lparr>transactions := [demo_tx 7]\<rparr>) = (Inr (), s') \<and> tx_map s' (''smf'', 7) = Some 0"
proof -
  let ?s = "(NewPfcpServer ''smf'')\<lparr>transactions := [demo_tx 7]\<rparr>"
  have "0 < length (transactions ?s)" "tx_map ?s = Map.empty" "tx_key ?s 0 = (''smf'', 7)"
    by (auto simp: tx_map_def lookup_tx_def NewPfcpServer_def tx_key_def demo_tx_def)
  then show ?thesis using tables_implement_map [of 0 ?s Message_new "''''"] by auto
qed

section \<open>The goroutines\<close>

text \<open>
  Where the goroutine of a transaction stands: before the \<open>k\<close>-th send, in the \<^verbatim>\<open>select\<close> after it, after
  \<^verbatim>\<open>Start\<close> has returned, and after \<^verbatim>\<open>StartTxLifeCycle\<close>.
\<close>

datatype tx_phase = Sending nat | Waiting nat | Removing | Finished

text \<open>The next round of the loop of \<^verbatim>\<open>Start\<close>.\<close>

definition next_round :: "nat \<Rightarrow> tx_phase" where
  "next_round k = (if Suc k < NumOfResend then Sending (Suc k) else Removing)"

fun on_event :: "TransactionType \<Rightarrow> EventType \<Rightarrow> nat \<Rightarrow> tx_phase" where
  "on_event SendingRequest ReceiveValidResponse k = Removing"
| "on_event SendingRequest ReceiveResendRequest k = next_round k"
| "on_event SendingResponse e k = next_round k"

fun on_timeout :: "TransactionType \<Rightarrow> nat \<Rightarrow> tx_phase" where
  "on_timeout SendingRequest k = next_round k"
| "on_timeout SendingResponse k = Removing"

text \<open>\<open>reader\<close> is the event that the reader is sending to a transaction; \<open>sends\<close> counts the datagrams sent.\<close>

record pfcp_system = PfcpServer +
  phases :: "tx_phase list"
  sends :: "nat list"
  reader :: "(nat \<times> EventType) option"

definition set_phase :: "nat \<Rightarrow> tx_phase \<Rightarrow> pfcp_system \<Rightarrow> pfcp_system" where
  "set_phase i p s = s\<lparr>phases := (phases s)[i := p]\<rparr>"

text \<open>The steps of the goroutines; \<open>internal\<close> are those that no call of \<^verbatim>\<open>WriteTo\<close> is part of.\<close>

inductive internal :: "pfcp_system \<Rightarrow> pfcp_system \<Rightarrow> bool" where
  send: "i < length (phases s) \<Longrightarrow> phases s ! i = Sending k \<Longrightarrow>
    internal s (set_phase i (Waiting k) (s\<lparr>sends := (sends s)[i := Suc (sends s ! i)]\<rparr>))"
| send_error: "i < length (phases s) \<Longrightarrow> phases s ! i = Sending k \<Longrightarrow> internal s (set_phase i Removing s)"
| timeout: "i < length (phases s) \<Longrightarrow> phases s ! i = Waiting k \<Longrightarrow>
    internal s (set_phase i (on_timeout (TxType (transactions s ! i)) k) s)"
| receive: "reader s = None \<Longrightarrow> ReadFrom datagram addr s = Inr r \<Longrightarrow> rd_event r = Some ev \<Longrightarrow>
    internal s (s\<lparr>reader := Some ev\<rparr>)"
| deliver: "reader s = Some (i, e) \<Longrightarrow> i < length (phases s) \<Longrightarrow> phases s ! i = Waiting k \<Longrightarrow>
    internal s (set_phase i (on_event (TxType (transactions s ! i)) e k) (s\<lparr>reader := None\<rparr>))"
| remove: "i < length (phases s) \<Longrightarrow> phases s ! i = Removing \<Longrightarrow> RemoveTransaction i s = (r, s') \<Longrightarrow>
    internal s (set_phase i Finished s')"

inductive step :: "pfcp_system \<Rightarrow> pfcp_system \<Rightarrow> bool" where
  written: "WriteTo msg addr s = (Inr i, s') \<Longrightarrow>
    step s (s'\<lparr>phases := phases s' @ [Sending 0], sends := sends s' @ [0]\<rparr>)"
| run: "internal s s' \<Longrightarrow> step s s'"

inductive reachable :: "pfcp_system \<Rightarrow> bool" where
  begins: "reachable \<lparr>LocalAddr = addr, ConsumerTable = Map.empty, transactions = [], phases = [], sends = [], reader = None\<rparr>"
| continues: "reachable s \<Longrightarrow> step s s' \<Longrightarrow> reachable s'"

inductive_cases internalE: "internal s s'"
inductive_cases stepE: "step s s'"

section \<open>Invariant\<close>

fun phase_ok :: "tx_phase \<Rightarrow> nat \<Rightarrow> bool" where
  "phase_ok (Sending k) n \<longleftrightarrow> k < NumOfResend \<and> n = k"
| "phase_ok (Waiting k) n \<longleftrightarrow> k < NumOfResend \<and> n = Suc k"
| "phase_ok Removing n \<longleftrightarrow> n \<le> NumOfResend"
| "phase_ok Finished n \<longleftrightarrow> n \<le> NumOfResend"

definition server_inv :: "pfcp_system \<Rightarrow> bool" where
  "server_inv s \<longleftrightarrow> length (phases s) = length (transactions s) \<and> length (sends s) = length (transactions s) \<and>
     (\<forall>i < length (phases s). phase_ok (phases s ! i) (sends s ! i)) \<and>
     (\<forall>k i. tx_map s k = Some i \<longleftrightarrow> i < length (phases s) \<and> phases s ! i \<noteq> Finished \<and> k = tx_key s i)"

lemma inv_tx_map:
  "server_inv s \<Longrightarrow> tx_map s x = Some j \<longleftrightarrow> j < length (phases s) \<and> phases s ! j \<noteq> Finished \<and> x = tx_key s j"
  unfolding server_inv_def by blast

lemma phase_ok_next: "phase_ok (Waiting k) n \<Longrightarrow> phase_ok (next_round k) n"
  by (auto simp: next_round_def NumOfResend_def)

lemma phase_ok_event: "phase_ok (Waiting k) n \<Longrightarrow> phase_ok (on_event t e k) n"
  by (cases t; cases e) (use phase_ok_next in \<open>auto simp: NumOfResend_def\<close>)

lemma phase_ok_timeout: "phase_ok (Waiting k) n \<Longrightarrow> phase_ok (on_timeout t k) n"
  by (cases t) (use phase_ok_next in \<open>auto simp: NumOfResend_def\<close>)

lemma not_finished: "on_event t e k \<noteq> Finished" "on_timeout t k \<noteq> Finished" "next_round k \<noteq> Finished"
  by (cases t; cases e; simp add: next_round_def)+

lemma tx_map_cong: "ConsumerTable s' = ConsumerTable s \<Longrightarrow> tx_map s' = tx_map s"
  by (simp add: tx_map_def lookup_tx_def)

text \<open>A phase change that does not end the goroutine keeps the invariant.\<close>

lemma inv_set_phase:
  assumes inv: "server_inv s" and i: "i < length (phases s)" "phases s ! i \<noteq> Finished" and p: "p \<noteq> Finished" "phase_ok p n"
  shows "server_inv (set_phase i p (s\<lparr>sends := (sends s)[i := n], reader := x\<rparr>))"
proof -
  have m: "tx_map (set_phase i p (s\<lparr>sends := (sends s)[i := n], reader := x\<rparr>)) = tx_map s"
    "tx_key (set_phase i p (s\<lparr>sends := (sends s)[i := n], reader := x\<rparr>)) = tx_key s"
    by (simp_all add: set_phase_def tx_map_def lookup_tx_def tx_key_def fun_eq_iff)
  show ?thesis using inv i p unfolding server_inv_def m
    by (auto simp: set_phase_def nth_list_update)
qed

lemma inv_phase:
  assumes "server_inv s" "i < length (phases s)" "phases s ! i \<noteq> Finished" "p \<noteq> Finished" "phase_ok p (sends s ! i)"
  shows "server_inv (set_phase i p (s\<lparr>reader := x\<rparr>))"
  using inv_set_phase [OF assms, of x] by simp

lemma inv_reader: "server_inv (s\<lparr>reader := x\<rparr>) = server_inv s"
  by (simp add: server_inv_def tx_map_def lookup_tx_def tx_key_def)

lemma inv_remove:
  assumes inv: "server_inv s" and i: "i < length (phases s)" "phases s ! i = Removing"
  shows "\<exists>s'. RemoveTransaction i s = (Inr (), s') \<and> server_inv (set_phase i Finished s')"
proof -
  have len: "i < length (transactions s)" and m: "tx_map s (tx_key s i) = Some i"
    using inv i inv_tx_map [OF inv, of "tx_key s i" i] by (simp_all add: server_inv_def)
  obtain t where t: "RemoveTransaction i s = (Inr (), s\<lparr>ConsumerTable := t\<rparr>)"
    "tx_map (s\<lparr>ConsumerTable := t\<rparr>) = (tx_map s)(tx_key s i := None)"
    using RemoveTransaction_spec [OF len m] by blast
  let ?s = "set_phase i Finished (s\<lparr>ConsumerTable := t\<rparr>)"
  have k: "tx_key ?s = tx_key s" by (simp add: set_phase_def tx_key_def fun_eq_iff)
  have m': "tx_map ?s = (tx_map s)(tx_key s i := None)"
    using t(2) tx_map_cong [of ?s "s\<lparr>ConsumerTable := t\<rparr>"] by (simp add: set_phase_def)
  have "tx_map ?s x = Some j \<longleftrightarrow> j < length (phases ?s) \<and> phases ?s ! j \<noteq> Finished \<and> x = tx_key ?s j" for x j
  proof -
    have a: "tx_map s x = Some j \<longleftrightarrow> j < length (phases s) \<and> phases s ! j \<noteq> Finished \<and> x = tx_key s j" for x j
      by (rule inv_tx_map [OF inv])
    show ?thesis
    proof (cases "j = i")
      case True
      then show ?thesis unfolding m' k using a [of x i] i by (auto simp: set_phase_def)
    next
      case False
      then have "tx_key s j \<noteq> tx_key s i" if "j < length (phases s)" "phases s ! j \<noteq> Finished"
        using a [of "tx_key s i" j] a [of "tx_key s i" i] that i by auto
      then show ?thesis unfolding m' k using a [of x j] False by (auto simp: set_phase_def)
    qed
  qed
  moreover have "\<forall>j < length (phases ?s). phase_ok (phases ?s ! j) (sends ?s ! j)"
    using inv i by (auto simp: server_inv_def set_phase_def nth_list_update)
  ultimately have "server_inv ?s" using inv by (simp add: server_inv_def set_phase_def)
  with t(1) show ?thesis by blast
qed

lemma inv_internal:
  assumes "internal s s'" "server_inv s"
  shows "server_inv s'"
  using assms
proof (induction rule: internal.induct)
  case (send i s k)
  then have "phase_ok (Waiting k) (Suc (sends s ! i))" by (auto simp: server_inv_def)
  then show ?case using inv_set_phase [OF send.prems send.hyps(1) _ _ , of "Waiting k" "Suc (sends s ! i)" "reader s"] send.hyps(2) by simp
next
  case (send_error i s k)
  then have "phase_ok Removing (sends s ! i)" by (auto simp: server_inv_def NumOfResend_def)
  then show ?case using inv_phase [OF send_error.prems send_error.hyps(1), of Removing "reader s"] send_error.hyps(2) by simp
next
  case (timeout i s k)
  then have "phase_ok (Waiting k) (sends s ! i)" by (auto simp: server_inv_def)
  then show ?case
    using inv_phase [OF timeout.prems timeout.hyps(1), of _ "reader s"] timeout.hyps(2) phase_ok_timeout not_finished(2) by simp
next
  case (receive s datagram addr r ev)
  then show ?case by (simp add: inv_reader)
next
  case (deliver s i e k)
  then have "phase_ok (Waiting k) (sends s ! i)" by (auto simp: server_inv_def)
  then show ?case
    using inv_phase [OF deliver.prems deliver.hyps(2), of _ None] deliver.hyps(3) phase_ok_event not_finished(1) by simp
next
  case (remove i s r s')
  then show ?case using inv_remove by fastforce
qed

lemma WriteTo_ok:
  assumes "WriteTo msg addr s = (Inr i, s')"
  obtains tx t where "i = length (transactions s)" "s' = s\<lparr>transactions := transactions s @ [tx], ConsumerTable := t\<rparr>"
    "tx_map s (tx_key s' i) = None" "tx_map s' = (tx_map s)(tx_key s' i \<mapsto> i)"
proof -
  obtain msg' buf where mb: "Message_Marshal msg = Inr (msg', buf)"
    using assms by (auto simp: WriteTo_def split: sum.splits)
  let ?tx = "NewTransaction (LocalAddr s) msg' buf addr" and ?i = "length (transactions s)"
  let ?s = "s\<lparr>transactions := transactions s @ [?tx]\<rparr>"
  have r: "PutTransaction ?i ?s = (Inr (), s')" "i = ?i"
    using assms by (auto simp: WriteTo_def mb Let_def split: prod.splits sum.splits)
  have m: "tx_map ?s = tx_map s" by (rule tx_map_cong) simp
  have free: "tx_map ?s (tx_key ?s ?i) = None"
    using PutTransaction_spec [of ?i ?s] r by (auto split: if_splits)
  then obtain t where t: "s' = ?s\<lparr>ConsumerTable := t\<rparr>" "tx_map s' = (tx_map ?s)(tx_key ?s ?i \<mapsto> ?i)"
    using PutTransaction_spec [of ?i ?s] r by auto
  have k: "tx_key s' ?i = tx_key ?s ?i" using t(1) by (simp add: tx_key_def)
  show ?thesis using that [of t ?tx] t r(2) m free k by simp
qed

lemma inv_write:
  assumes inv: "server_inv s" and w: "WriteTo msg addr s = (Inr i, s')"
  shows "server_inv (s'\<lparr>phases := phases s' @ [Sending 0], sends := sends s' @ [0]\<rparr>)"
proof -
  obtain tx t where t: "i = length (transactions s)" "s' = s\<lparr>transactions := transactions s @ [tx], ConsumerTable := t\<rparr>"
    "tx_map s (tx_key s' i) = None" "tx_map s' = (tx_map s)(tx_key s' i \<mapsto> i)" by (rule WriteTo_ok [OF w])
  let ?s = "s'\<lparr>phases := phases s' @ [Sending 0], sends := sends s' @ [0]\<rparr>"
  have len: "length (phases s) = i" "length (sends s) = i" using inv t(1) by (simp_all add: server_inv_def)
  have m: "tx_map ?s = (tx_map s)(tx_key s' i \<mapsto> i)" using t(4) tx_map_cong [of ?s s'] by simp
  have k: "tx_key ?s = tx_key s'" by (simp add: tx_key_def fun_eq_iff)
  have old: "tx_key s' j = tx_key s j" if "j < i" for j using that t(1,2) by (simp add: tx_key_def nth_append)
  have a: "tx_map s x = Some j \<longleftrightarrow> j < i \<and> phases s ! j \<noteq> Finished \<and> x = tx_key s j" for x j
    using inv_tx_map [OF inv] len by simp
  have "tx_map ?s x = Some j \<longleftrightarrow> j < length (phases ?s) \<and> phases ?s ! j \<noteq> Finished \<and> x = tx_key ?s j" for x j
  proof (cases "j < i")
    case True
    then have "tx_key s j \<noteq> tx_key s' i" if "phases s ! j \<noteq> Finished" using a [of "tx_key s j" j] t(3) that by auto
    then show ?thesis unfolding m k using True a [of x j] old [OF True] t(2) len by (auto simp: nth_append)
  next
    case False
    then show ?thesis unfolding m k using a [of x j] t(2) len by (auto simp: nth_append less_Suc_eq)
  qed
  moreover have "\<forall>j < length (phases ?s). phase_ok (phases ?s ! j) (sends ?s ! j)"
    using inv t(2) len by (auto simp: server_inv_def nth_append less_Suc_eq NumOfResend_def)
  ultimately show ?thesis using t(1,2) len by (simp add: server_inv_def)
qed

lemma reachable_inv: "reachable s \<Longrightarrow> server_inv s"
proof (induction rule: reachable.induct)
  case (begins addr)
  then show ?case by (auto simp: server_inv_def tx_map_def lookup_tx_def)
next
  case (continues s s')
  from continues.hyps(2) show ?case
    by (cases rule: step.cases) (use continues.IH inv_write inv_internal in blast)+
qed

section \<open>Retransmission\<close>


text \<open>
  C38. A message is sent at most three times, whatever events, timeouts and errors occur.
\<close>

theorem at_most_three_sends:
  assumes "reachable s" "i < length (sends s)"
  shows "sends s ! i \<le> 3"
proof -
  have "phase_ok (phases s ! i) (sends s ! i)" using reachable_inv [OF assms(1)] assms(2) by (simp add: server_inv_def)
  then show ?thesis by (cases "phases s ! i") (auto simp: NumOfResend_def)
qed

text \<open>The work that is left: two for every step of a transaction, one for a reader that is free.\<close>

fun rank :: "tx_phase \<Rightarrow> nat" where
  "rank (Sending k) = 2 * (NumOfResend - k) + 1"
| "rank (Waiting k) = 2 * (NumOfResend - k)"
| "rank Removing = 1"
| "rank Finished = 0"

definition work :: "pfcp_system \<Rightarrow> nat" where
  "work s = 2 * sum_list (map rank (phases s)) + (if reader s = None then 1 else 0)"

lemma sum_list_less:
  "i < length xs \<Longrightarrow> f y < f (xs ! i) \<Longrightarrow> sum_list (map f (xs[i := y])) < (sum_list (map f xs) :: nat)"
proof (induction xs arbitrary: i)
  case (Cons x xs)
  then show ?case by (cases i) auto
qed simp

lemma rank_less:
  "k < NumOfResend \<Longrightarrow> rank (next_round k) < rank (Waiting k)"
  "k < NumOfResend \<Longrightarrow> rank (on_event t e k) < rank (Waiting k)"
  "k < NumOfResend \<Longrightarrow> rank (on_timeout t k) < rank (Waiting k)"
proof -
  show n: "k < NumOfResend \<Longrightarrow> rank (next_round k) < rank (Waiting k)" by (auto simp: next_round_def NumOfResend_def)
  then show "k < NumOfResend \<Longrightarrow> rank (on_event t e k) < rank (Waiting k)" by (cases t; cases e) auto
  show "k < NumOfResend \<Longrightarrow> rank (on_timeout t k) < rank (Waiting k)" using n by (cases t) auto
qed

lemma internal_work:
  assumes "internal s s'" "server_inv s"
  shows "work s' < work s"
  using assms
proof (induction rule: internal.induct)
  case (send i s k)
  then have "sum_list (map rank ((phases s)[i := Waiting k])) < sum_list (map rank (phases s))" by (intro sum_list_less) simp_all
  then show ?case by (simp add: work_def set_phase_def)
next
  case (send_error i s k)
  then have "k < NumOfResend" by (auto simp: server_inv_def)
  with send_error have "sum_list (map rank ((phases s)[i := Removing])) < sum_list (map rank (phases s))" by (intro sum_list_less) simp_all
  then show ?case by (simp add: work_def set_phase_def)
next
  case (timeout i s k)
  then have "phase_ok (Waiting k) (sends s ! i)" by (metis server_inv_def)
  then have "sum_list (map rank ((phases s)[i := on_timeout (TxType (transactions s ! i)) k])) < sum_list (map rank (phases s))"
    using timeout.hyps rank_less(3) by (intro sum_list_less) simp_all
  then show ?case by (simp add: work_def set_phase_def)
next
  case (receive s datagram addr r ev)
  then show ?case by (simp add: work_def)
next
  case (deliver s i e k)
  then have "phase_ok (Waiting k) (sends s ! i)" by (metis server_inv_def)
  then have "sum_list (map rank ((phases s)[i := on_event (TxType (transactions s ! i)) e k])) < sum_list (map rank (phases s))"
    using deliver.hyps rank_less(2) by (intro sum_list_less) simp_all
  then show ?case using deliver.hyps(1) by (simp add: work_def set_phase_def)
next
  case (remove i s r s')
  obtain t where t: "s' = s\<lparr>ConsumerTable := t\<rparr>"
  proof -
    have len: "i < length (transactions s)" "tx_map s (tx_key s i) = Some i"
      using remove.prems remove.hyps(1,2) inv_tx_map [OF remove.prems, of "tx_key s i" i] by (simp_all add: server_inv_def)
    then show ?thesis using RemoveTransaction_spec [OF len] remove.hyps(3) that by auto
  qed
  have "sum_list (map rank ((phases s)[i := Finished])) < sum_list (map rank (phases s))"
    using remove.hyps by (intro sum_list_less) simp_all
  then show ?case using t by (simp add: work_def set_phase_def)
qed

lemma internal_steps:
  "(internal ^^ n) s s' \<Longrightarrow> server_inv s \<Longrightarrow> server_inv s' \<and> n + work s' \<le> work s"
proof (induction n arbitrary: s')
  case (Suc n)
  then obtain t where t: "(internal ^^ n) s t" "internal t s'" by (auto simp: relcompp_apply)
  with Suc have "server_inv t" "n + work t \<le> work s" by blast+
  then show ?case using t(2) inv_internal internal_work by fastforce
qed simp

lemma rank_le: "rank p \<le> 7"
  by (cases p) (simp_all add: NumOfResend_def)

lemma work_bound: "work s \<le> 14 * length (phases s) + 1"
proof -
  have "sum_list (map rank ps) \<le> 7 * length ps" for ps
  proof (induction ps)
    case (Cons p ps)
    then show ?case using rank_le [of p] by simp
  qed simp
  from this [of "phases s"] show ?thesis by (simp add: work_def)
qed

lemma not_stuck:
  assumes "i < length (phases s)" "phases s ! i \<noteq> Finished"
  shows "\<exists>s'. internal s s'"
proof (cases "phases s ! i")
  case Removing
  then show ?thesis using internal.remove [OF assms(1), of "fst (RemoveTransaction i s)" "snd (RemoveTransaction i s)"] by auto
qed (use assms internal.send internal.timeout in blast)+


section \<open>A reader that waits for ever\<close>

definition lost_receiver :: "pfcp_system \<Rightarrow> nat \<Rightarrow> EventType \<Rightarrow> bool" where
  "lost_receiver s i e \<longleftrightarrow> server_inv s \<and> reader s = Some (i, e) \<and> i < length (phases s) \<and> phases s ! i \<in> {Removing, Finished}"

lemma lost_receiver_internal:
  assumes "internal s s'" "lost_receiver s i e"
  shows "lost_receiver s' i e"
proof -
  have inv: "server_inv s'" using assms inv_internal by (simp add: lost_receiver_def)
  from assms(1) show ?thesis
  proof (cases rule: internal.cases)
    case (remove j r t)
    have len: "j < length (transactions s)" "tx_map s (tx_key s j) = Some j"
      using assms(2) remove(2,3) inv_tx_map [of s "tx_key s j" j] by (simp_all add: server_inv_def lost_receiver_def)
    obtain u where "t = s\<lparr>ConsumerTable := u\<rparr>" using RemoveTransaction_spec [OF len] remove(4) by auto
    with assms(2) inv remove(1) show ?thesis by (cases "j = i") (auto simp: lost_receiver_def set_phase_def)
  qed (use assms(2) inv in \<open>auto simp: lost_receiver_def set_phase_def nth_list_update\<close>)
qed

lemma lost_receiver_step:
  assumes "step s s'" "lost_receiver s i e"
  shows "lost_receiver s' i e"
  using assms(1)
proof (cases rule: step.cases)
  case (written msg addr j t)
  obtain tx u where "t = s\<lparr>transactions := transactions s @ [tx], ConsumerTable := u\<rparr>" by (rule WriteTo_ok [OF written(2)])
  then show ?thesis using assms(2) inv_write [OF _ written(2)] written(1) by (auto simp: lost_receiver_def nth_append)
next
  case run
  then show ?thesis using lost_receiver_internal [OF _ assms(2)] by blast
qed

lemma lost_receiver_steps: "step\<^sup>*\<^sup>* s s' \<Longrightarrow> lost_receiver s i e \<Longrightarrow> lost_receiver s' i e"
  by (induction rule: rtranclp_induct) (use lost_receiver_step in blast)+

text \<open>A heartbeat request, and the datagram of a response to it.\<close>

definition heartbeat :: Message where
  "heartbeat = \<lparr>Hdr = Header_new\<lparr>Version := 1, MessageType := 1, SequenceNumber := 7\<rparr>, Body = Some (HeartbeatRequest, VStruct [VPtr None])\<rparr>"

lemma heartbeat_sent:
  "Message_Marshal heartbeat = Inr (heartbeat\<lparr>Hdr := (Hdr heartbeat)\<lparr>MessageLength := 4\<rparr>\<rparr>, [32, 1, 0, 4, 0, 0, 7, 0])"
  by code_simp

lemma heartbeat_answered:
  "Message_Unmarshal Message_new (Slice [32, 2, 0, 4, 0, 0, 7, 0] sp) = Inr \<lparr>Hdr = Header_new\<lparr>Version := 1, MessageType := 2,
     MessageLength := 4, SequenceNumber := 7\<rparr>, Body = Some (HeartbeatResponse, VStruct [VPtr None])\<rparr>"
  by code_simp

definition heartbeat_run :: "tx_phase list \<Rightarrow> nat \<Rightarrow> (nat \<times> EventType) option \<Rightarrow> pfcp_system" where
  "heartbeat_run ps n r = \<lparr>LocalAddr = ''smf'', ConsumerTable = [''smf'' \<mapsto> [7 \<mapsto> 0]],
     transactions = [\<lparr>SendMsg = [32, 1, 0, 4, 0, 0, 7, 0], Tx_SequenceNumber = 7, Tx_MessageType = 1, TxType = SendingRequest,
       Tx_DestAddr = ''upf'', ConsumerAddr = ''smf''\<rparr>], phases = ps, sends = [n], reader = r\<rparr>"

lemma heartbeat_write:
  "step \<lparr>LocalAddr = ''smf'', ConsumerTable = Map.empty, transactions = [], phases = [], sends = [], reader = None\<rparr>
     (heartbeat_run [Sending 0] 0 None)"
proof -
  let ?s = "\<lparr>LocalAddr = ''smf'', ConsumerTable = Map.empty, transactions = [], phases = [], sends = [], reader = None\<rparr> :: pfcp_system"
  have "IsRequest (heartbeat\<lparr>Hdr := (Hdr heartbeat)\<lparr>MessageLength := 4\<rparr>\<rparr>)"
    by (simp add: IsRequest_def heartbeat_def is_request_type_def)
  then have tx: "NewTransaction ''smf'' (heartbeat\<lparr>Hdr := (Hdr heartbeat)\<lparr>MessageLength := 4\<rparr>\<rparr>) [32, 1, 0, 4, 0, 0, 7, 0] ''upf'' =
      transactions (heartbeat_run [] 0 None) ! 0"
    by (simp add: NewTransaction_def Let_def heartbeat_def heartbeat_run_def)
  have "WriteTo heartbeat ''upf'' ?s = (Inr 0, (heartbeat_run [] 0 None)\<lparr>sends := []\<rparr>)"
    using PutTransaction_run [of 0 "?s\<lparr>transactions := [transactions (heartbeat_run [] 0 None) ! 0]\<rparr>"]
    by (simp add: WriteTo_def heartbeat_sent Let_def tx tx_key_def) (simp add: heartbeat_run_def)
  from step.written [OF this] show ?thesis by (simp add: heartbeat_run_def)
qed

lemma heartbeat_read:
  "ReadFrom [32, 2, 0, 4, 0, 0, 7, 0] ''upf'' (heartbeat_run ps n r) = Inr \<lparr>rd_msg = \<lparr>Hdr = Header_new\<lparr>Version := 1, MessageType := 2,
     MessageLength := 4, SequenceNumber := 7\<rparr>, Body = Some (HeartbeatResponse, VStruct [VPtr None])\<rparr>,
     rd_event = Some (0, ReceiveValidResponse), rd_err = None\<rparr>"
  by (simp add: ReadFrom_def PFCP_MAX_UDP_LEN_def Let_def heartbeat_answered IsRequest_def IsResponse_def is_request_type_def
      is_response_type_def FindTransaction_def heartbeat_run_def Header_new_def)

lemma heartbeat_sending: "reachable (heartbeat_run [Sending 0] 0 None)"
  by (rule continues [OF begins heartbeat_write])

lemma heartbeat_waiting: "reachable (heartbeat_run [Waiting 0] 1 None)"
proof -
  have "internal (heartbeat_run [Sending 0] 0 None) (heartbeat_run [Waiting 0] 1 None)"
    using internal.send [of 0 "heartbeat_run [Sending 0] 0 None" 0] by (simp add: heartbeat_run_def set_phase_def)
  then show ?thesis by (rule continues [OF heartbeat_sending step.run])
qed

text \<open>The response is received twice before the goroutine of the request has removed its transaction.\<close>

lemma heartbeat_receive:
  "reachable (heartbeat_run ps n None) \<Longrightarrow> reachable (heartbeat_run ps n (Some (0, ReceiveValidResponse)))"
proof -
  have "internal (heartbeat_run ps n None) ((heartbeat_run ps n None)\<lparr>reader := Some (0, ReceiveValidResponse)\<rparr>)"
    by (rule internal.receive [OF _ heartbeat_read]) (simp_all add: heartbeat_run_def)
  moreover assume "reachable (heartbeat_run ps n None)"
  ultimately show ?thesis using continues step.run by (simp add: heartbeat_run_def)
qed

lemma heartbeat_removing: "reachable (heartbeat_run [Removing] 1 None)"
proof -
  have "internal (heartbeat_run [Waiting 0] 1 (Some (0, ReceiveValidResponse))) (heartbeat_run [Removing] 1 None)"
    using internal.deliver [of "heartbeat_run [Waiting 0] 1 (Some (0, ReceiveValidResponse))" 0 ReceiveValidResponse 0]
    by (simp add: heartbeat_run_def set_phase_def)
  then show ?thesis by (rule continues [OF heartbeat_receive [OF heartbeat_waiting] step.run])
qed

text \<open>
  C35. The reader of the server can wait for ever: \<^verbatim>\<open>ReadFrom\<close> sends on the unbuffered channel of the
  transaction it has found, and when the goroutine of that transaction has already left its \<^verbatim>\<open>select\<close> (a
  response that is duplicated on the network is enough) nothing will ever receive. From then on no step of
  any goroutine, and no further message, lets the server read another datagram.
\<close>

theorem reader_deadlock:
  "\<exists>s i e. reachable s \<and> reader s = Some (i, e) \<and> (\<forall>s'. step\<^sup>*\<^sup>* s s' \<longrightarrow> reader s' = Some (i, e))"
proof -
  let ?s = "heartbeat_run [Removing] 1 (Some (0, ReceiveValidResponse))"
  have r: "reachable ?s" by (rule heartbeat_receive [OF heartbeat_removing])
  then have l: "lost_receiver ?s 0 ReceiveValidResponse"
    by (simp add: lost_receiver_def reachable_inv) (simp add: heartbeat_run_def)
  have "reader s' = Some (0, ReceiveValidResponse)" if "step\<^sup>*\<^sup>* ?s s'" for s'
    using lost_receiver_steps [OF that l] by (simp add: lost_receiver_def)
  then show ?thesis using r l by (auto simp: lost_receiver_def)
qed

theorem reader_deadlock_witness:
  "\<exists>s i e. reachable s \<and> reader s = Some (i, e) \<and> \<not> (\<exists>s'. step\<^sup>*\<^sup>* s s' \<and> reader s' = None)"
  using reader_deadlock by fastforce


theorem at_most_three_sends_witness: "sends (heartbeat_run [Waiting 0] 1 None) ! 0 \<le> 3"
  by (rule at_most_three_sends [OF heartbeat_waiting]) (simp add: heartbeat_run_def)


end
