(* ===== verification/ID_Generator.thy ===== *)
theory ID_Generator
  imports Go_Prelude
begin

text \<open>
  The identifier pool of \<^verbatim>\<open>lib/idgenerator/id_generator.go\<close>, from which every network function
  draws its identifiers. An \<^verbatim>\<open>int64\<close> is an \<open>int\<close> with the wrap-around of each operation written
  out; the loop of \<^verbatim>\<open>Allocate\<close> is a \<open>partial_function (option)\<close>, so that a loop that never ends is
  the value \<open>None\<close>, and its totality on well-formed pools is proved. The locale \<open>id_pool\<close> states
  what a client relies on: an allocated identifier is in range and not in use, an error is returned
  only by a full pool, and a freed identifier can be allocated again. The mutex makes each operation
  one step.
\<close>

section \<open>The generator\<close>

text \<open>Two's complement wrap-around of \<^verbatim>\<open>int64\<close>, and the truncated remainder of Go.\<close>

definition wrap64 :: "int \<Rightarrow> int" where
  "wrap64 x = (x + 2 ^ 63) mod 2 ^ 64 - 2 ^ 63"

definition rem64 :: "int \<Rightarrow> int \<Rightarrow> int res" where
  "rem64 a b = (if b = 0 then Inl Panic else Inr (sgn a * (\<bar>a\<bar> mod \<bar>b\<bar>)))"

record IDGenerator =
  minValue :: int
  maxValue :: int
  valueRange :: int
  offset :: int
  usedMap :: "int \<rightharpoonup> bool"

definition init :: "IDGenerator \<Rightarrow> int \<Rightarrow> int \<Rightarrow> IDGenerator" where
  "init g lo hi = g\<lparr>minValue := lo, maxValue := hi, valueRange := wrap64 (wrap64 (hi - lo) + 1),
                   offset := 0, usedMap := Map.empty\<rparr>"

definition NewGenerator :: "int \<Rightarrow> int \<Rightarrow> IDGenerator" where
  "NewGenerator lo hi =
     init \<lparr>minValue = 0, maxValue = 0, valueRange = 0, offset = 0, usedMap = Map.empty\<rparr> lo hi"

definition updateOffset :: "IDGenerator \<Rightarrow> IDGenerator res" where
  "updateOffset g = bind_res (rem64 (wrap64 (offset g + 1)) (valueRange g)) (\<lambda>r. Inr (g\<lparr>offset := r\<rparr>))"

text \<open>
  The loop of \<^verbatim>\<open>Allocate\<close>: \<open>Inr (g, True)\<close> leaves it by \<^verbatim>\<open>break\<close>, \<open>Inr (g, False)\<close> by the
  return of the error.
\<close>

partial_function (option) find_free :: "int \<Rightarrow> IDGenerator \<Rightarrow> (IDGenerator \<times> bool) res option" where
  "find_free offsetBegin g =
     (case usedMap g (offset g) of
        None \<Rightarrow> Some (Inr (g, True))
      | Some _ \<Rightarrow>
          (case updateOffset g of
             Inl e \<Rightarrow> Some (Inl e)
           | Inr g' \<Rightarrow> if offset g' = offsetBegin then Some (Inr (g', False)) else find_free offsetBegin g'))"

text \<open>
  \<^verbatim>\<open>Allocate\<close> returns the pool beside its result: the error is an outcome of the call, and the
  offset that the search has moved stays moved.
\<close>

definition Allocate :: "IDGenerator \<Rightarrow> (IDGenerator \<times> int option) res option" where
  "Allocate g =
     (case find_free (offset g) g of
        None \<Rightarrow> None
      | Some (Inl e) \<Rightarrow> Some (Inl e)
      | Some (Inr (g', False)) \<Rightarrow> Some (Inr (g', None))
      | Some (Inr (g', True)) \<Rightarrow>
          let g'' = g'\<lparr>usedMap := (usedMap g')(offset g' \<mapsto> True)\<rparr> in
          Some (bind_res (updateOffset g'')
            (\<lambda>h. Inr (h, Some (wrap64 (offset g'' + minValue g''))))))"

definition FreeID :: "IDGenerator \<Rightarrow> int \<Rightarrow> IDGenerator" where
  "FreeID g ident = g\<lparr>usedMap := (usedMap g)(wrap64 (ident - minValue g) := None)\<rparr>"

section \<open>Arithmetic of the offset\<close>

definition i64 :: "int \<Rightarrow> bool" where
  "i64 x \<longleftrightarrow> - (2 ^ 63) \<le> x \<and> x < 2 ^ 63"

lemma wrap64_id [simp]: "i64 x \<Longrightarrow> wrap64 x = x"
  by (simp add: wrap64_def i64_def)

lemma i64_wrap64 [simp]: "i64 (wrap64 x)"
  by (simp add: wrap64_def i64_def)

lemma wrap64_eq_mod: "wrap64 x mod 2 ^ 64 = x mod 2 ^ 64"
  using mod_diff_left_eq [of "x + 2 ^ 63" "2 ^ 64" "2 ^ 63"] by (simp only: wrap64_def) simp

lemma wrap64_cong: "x mod 2 ^ 64 = y mod 2 ^ 64 \<Longrightarrow> wrap64 x = wrap64 y"
  using mod_add_cong [of x "2 ^ 64" y "2 ^ 63" "2 ^ 63"] by (simp only: wrap64_def)

text \<open>The number of values of the interval, as an unbounded integer.\<close>

definition pool_size :: "IDGenerator \<Rightarrow> int" where
  "pool_size g = maxValue g - minValue g + 1"

text \<open>
  A pool as \<^verbatim>\<open>NewGenerator\<close> and the operations keep it. An interval of \<open>2 ^ 63\<close> values is allowed:
  its \<open>valueRange\<close> overflows to \<open>- 2 ^ 63\<close>, and the remainder is still the intended one.
\<close>

definition pool_wf :: "IDGenerator \<Rightarrow> bool" where
  "pool_wf g \<longleftrightarrow> i64 (minValue g) \<and> i64 (maxValue g) \<and> 0 < pool_size g \<and> pool_size g \<le> 2 ^ 63
     \<and> valueRange g = wrap64 (pool_size g) \<and> 0 \<le> offset g \<and> offset g < pool_size g
     \<and> dom (usedMap g) \<subseteq> {0..<pool_size g}"

lemma wrap64_diff_Suc: "wrap64 (wrap64 x + 1) = wrap64 (x + 1)"
  by (rule wrap64_cong, rule mod_add_cong [OF wrap64_eq_mod refl])

lemma NewGenerator_wf:
  assumes "i64 lo" "i64 hi" "lo \<le> hi" "hi - lo < 2 ^ 63"
  shows "pool_wf (NewGenerator lo hi)"
  using assms by (simp add: pool_wf_def NewGenerator_def init_def pool_size_def wrap64_diff_Suc)

lemma rem64_step:
  assumes "0 \<le> x" "x < n" "n \<le> 2 ^ 63"
  shows "rem64 (wrap64 (x + 1)) (wrap64 n) = Inr ((x + 1) mod n)"
proof (cases "n = 2 ^ 63")
  case True
  have big: "wrap64 9223372036854775808 = - 9223372036854775808" by (simp add: wrap64_def)
  show ?thesis
  proof (cases "x + 1 = 2 ^ 63")
    case a: True
    then show ?thesis unfolding True a by (simp add: wrap64_def rem64_def)
  next
    case False
    then have "i64 (x + 1)" "x + 1 < n" using assms True by (auto simp: i64_def)
    then show ?thesis using assms(1) True big by (simp add: rem64_def)
  qed
next
  case False
  then have "i64 (x + 1)" "i64 n" using assms by (auto simp: i64_def)
  then show ?thesis using assms by (simp add: rem64_def)
qed

lemma updateOffset_wf:
  "pool_wf g \<Longrightarrow> updateOffset g = Inr (g\<lparr>offset := (offset g + 1) mod pool_size g\<rparr>)"
  by (simp add: updateOffset_def pool_wf_def rem64_step)

section \<open>The search\<close>

text \<open>The key that is \<open>j\<close> steps after the offset, in the cyclic order of the search.\<close>

definition cyc :: "IDGenerator \<Rightarrow> nat \<Rightarrow> int" where
  "cyc g j = (offset g + int j) mod pool_size g"

lemma cyc_0 [simp]: "pool_wf g \<Longrightarrow> cyc g 0 = offset g"
  by (simp add: cyc_def pool_wf_def)

lemma pool_size_updates [simp]:
  "pool_size (g\<lparr>offset := x\<rparr>) = pool_size g"
  "pool_size (g\<lparr>usedMap := u\<rparr>) = pool_size g"
  by (simp_all add: pool_size_def)

lemma pool_wf_offset [simp]:
  "pool_wf g \<Longrightarrow> pool_wf (g\<lparr>offset := x mod pool_size g\<rparr>)"
  by (simp add: pool_wf_def)

lemma cyc_step: "cyc (g\<lparr>offset := (offset g + 1) mod pool_size g\<rparr>) j = cyc g (Suc j)"
  by (simp add: cyc_def mod_add_left_eq add.assoc)

lemma cyc_1: "cyc g (Suc 0) = (offset g + 1) mod pool_size g"
  by (simp add: cyc_def)

lemma cyc_inj:
  assumes "pool_wf g" "cyc g i = cyc g j" "int i < pool_size g" "int j < pool_size g"
  shows "i = j"
proof -
  have "(offset g + int i) mod pool_size g = (offset g + int j) mod pool_size g"
    using assms(2) by (simp add: cyc_def)
  then have "int i mod pool_size g = int j mod pool_size g"
    by (metis add_diff_cancel_left' mod_diff_left_eq)
  then show ?thesis using assms by simp
qed

lemma cyc_surj:
  assumes "pool_wf g" "0 \<le> x" "x < pool_size g"
  shows "\<exists>j. int j < pool_size g \<and> cyc g j = x"
proof (intro exI conjI)
  let ?j = "nat ((x - offset g) mod pool_size g)"
  have n: "0 < pool_size g" using assms by (simp add: pool_wf_def)
  then show "int ?j < pool_size g" by simp
  have "int ?j = (x - offset g) mod pool_size g" using n by simp
  then show "cyc g ?j = x" using assms by (simp add: cyc_def mod_add_right_eq)
qed

lemma find_free_found:
  assumes "pool_wf g" "\<And>j. j < k \<Longrightarrow> usedMap g (cyc g j) \<noteq> None" "usedMap g (cyc g k) = None"
    and "\<And>j. 0 < j \<Longrightarrow> j \<le> k \<Longrightarrow> cyc g j \<noteq> b"
  shows "find_free b g = Some (Inr (g\<lparr>offset := cyc g k\<rparr>, True))"
  using assms
proof (induction k arbitrary: g)
  case 0
  then show ?case by (simp add: find_free.simps [of b g])
next
  case (Suc k)
  let ?g = "g\<lparr>offset := (offset g + 1) mod pool_size g\<rparr>"
  obtain v where v: "usedMap g (offset g) = Some v" using Suc.prems(2) [of 0] Suc.prems(1) by auto
  have ne: "offset ?g \<noteq> b" using Suc.prems(4) [of "Suc 0"] by (simp add: cyc_1)
  have "find_free b ?g = Some (Inr (?g\<lparr>offset := cyc ?g k\<rparr>, True))"
    by (rule Suc.IH) (use Suc.prems in \<open>auto simp: cyc_step\<close>)
  then show ?case
    using v ne Suc.prems(1) by (simp add: find_free.simps [of b g] updateOffset_wf cyc_step)
qed

lemma find_free_full:
  assumes "pool_wf g" "\<And>j. j \<le> k \<Longrightarrow> usedMap g (cyc g j) \<noteq> None" "cyc g (Suc k) = b"
    and "\<And>j. 0 < j \<Longrightarrow> j \<le> k \<Longrightarrow> cyc g j \<noteq> b"
  shows "find_free b g = Some (Inr (g\<lparr>offset := b\<rparr>, False))"
  using assms
proof (induction k arbitrary: g)
  case 0
  then have "usedMap g (offset g) \<noteq> None" by (metis cyc_0 le_refl)
  then show ?case using 0 by (auto simp: find_free.simps [of b g] updateOffset_wf cyc_1)
next
  case (Suc k)
  let ?g = "g\<lparr>offset := (offset g + 1) mod pool_size g\<rparr>"
  obtain v where v: "usedMap g (offset g) = Some v" using Suc.prems(2) [of 0] Suc.prems(1) by auto
  have ne: "offset ?g \<noteq> b" using Suc.prems(4) [of "Suc 0"] by (simp add: cyc_1)
  have "find_free b ?g = Some (Inr (?g\<lparr>offset := b\<rparr>, False))"
    by (rule Suc.IH) (use Suc.prems in \<open>auto simp: cyc_step\<close>)
  then show ?case
    using v ne Suc.prems(1) by (simp add: find_free.simps [of b g] updateOffset_wf)
qed

section \<open>The identifiers in use\<close>

definition allocated :: "IDGenerator \<Rightarrow> int set" where
  "allocated g = (\<lambda>k. k + minValue g) ` dom (usedMap g)"

lemma mem_allocated: "x \<in> allocated g \<longleftrightarrow> usedMap g (x - minValue g) \<noteq> None"
  by (force simp: allocated_def dom_def image_iff)

lemma allocated_range: "pool_wf g \<Longrightarrow> allocated g \<subseteq> {minValue g..maxValue g}"
  by (auto simp: allocated_def pool_wf_def pool_size_def subset_iff)

lemma full_iff:
  assumes "pool_wf g"
  shows "allocated g = {minValue g..maxValue g} \<longleftrightarrow> (\<forall>j. usedMap g (cyc g j) \<noteq> None)" (is "?L \<longleftrightarrow> ?R")
proof
  assume L: ?L
  show ?R
  proof
    fix j
    have "0 \<le> cyc g j" "cyc g j < pool_size g" using assms by (simp_all add: cyc_def pool_wf_def)
    then have "cyc g j + minValue g \<in> allocated g" unfolding L by (simp add: pool_size_def)
    then show "usedMap g (cyc g j) \<noteq> None" by (simp add: mem_allocated)
  qed
next
  assume R: ?R
  have "x \<in> allocated g" if "minValue g \<le> x" "x \<le> maxValue g" for x
    using R cyc_surj [OF assms, of "x - minValue g"] that
    by (simp add: mem_allocated pool_size_def) (metis option.exhaust)
  then show ?L using allocated_range [OF assms] by auto
qed

lemma Allocate_full:
  assumes wf: "pool_wf g" and full: "allocated g = {minValue g..maxValue g}"
  shows "Allocate g = Some (Inr (g, None))"
proof -
  have n: "0 < pool_size g" using wf by (simp add: pool_wf_def)
  define k where "k = nat (pool_size g) - 1"
  have k: "int (Suc k) = pool_size g" using n by (simp add: k_def)
  have "cyc g (Suc k) = offset g" using wf k by (simp add: cyc_def pool_wf_def del: of_nat_Suc)
  moreover have "cyc g j \<noteq> offset g" if "0 < j" "j \<le> k" for j
    using cyc_inj [OF wf, of j 0] that k wf n by auto
  ultimately have "find_free (offset g) g = Some (Inr (g\<lparr>offset := offset g\<rparr>, False))"
    using full [unfolded full_iff [OF wf]] by (intro find_free_full [where k = k, OF wf]) auto
  then show ?thesis by (simp add: Allocate_def)
qed

lemma Allocate_at:
  assumes wf: "pool_wf g" and k: "usedMap g (cyc g k) = None" "\<And>j. j < k \<Longrightarrow> usedMap g (cyc g j) \<noteq> None"
    and n: "int k < pool_size g"
  shows "Allocate g = Some (Inr (g\<lparr>offset := (cyc g k + 1) mod pool_size g,
                               usedMap := (usedMap g)(cyc g k \<mapsto> True)\<rparr>,
                               Some (cyc g k + minValue g)))"
proof -
  have c: "0 \<le> cyc g k" "cyc g k < pool_size g" using wf by (simp_all add: cyc_def pool_wf_def)
  have ne: "cyc g j \<noteq> offset g" if "0 < j" "j \<le> k" for j
    using cyc_inj [OF wf, of j 0] that n wf by auto
  have f: "find_free (offset g) g = Some (Inr (g\<lparr>offset := cyc g k\<rparr>, True))"
    using ne k by (intro find_free_found [OF wf]) auto
  let ?h = "g\<lparr>offset := cyc g k, usedMap := (usedMap g)(cyc g k \<mapsto> True)\<rparr>"
  have "pool_wf ?h" using wf c by (auto simp: pool_wf_def pool_size_def)
  then have u: "updateOffset ?h = Inr (g\<lparr>offset := (cyc g k + 1) mod pool_size g,
                               usedMap := (usedMap g)(cyc g k \<mapsto> True)\<rparr>)"
    by (simp add: updateOffset_wf pool_size_def)
  have "i64 (cyc g k + minValue g)"
    using wf c by (auto simp: pool_wf_def i64_def pool_size_def)
  then show ?thesis by (simp add: Allocate_def f u)
qed

lemma first_free:
  assumes wf: "pool_wf g" and free: "allocated g \<noteq> {minValue g..maxValue g}"
  obtains k where "int k < pool_size g" "usedMap g (cyc g k) = None"
    "\<And>j. j < k \<Longrightarrow> usedMap g (cyc g j) \<noteq> None"
proof -
  let ?P = "\<lambda>j. usedMap g (cyc g j) = None"
  obtain i where i: "?P i" using free full_iff [OF wf] by auto
  have "0 \<le> cyc g i" "cyc g i < pool_size g" using wf by (simp_all add: cyc_def pool_wf_def)
  then obtain j where j: "int j < pool_size g" "?P j" using cyc_surj [OF wf] i by metis
  show ?thesis
  proof (rule that [of "LEAST j. ?P j"])
    show "?P (LEAST j. ?P j)" using i by (rule LeastI)
    show "int (LEAST j. ?P j) < pool_size g" using j Least_le [of ?P j] by simp
    show "usedMap g (cyc g j) \<noteq> None" if "j < (LEAST j. ?P j)" for j
      using that by (rule not_less_Least)
  qed
qed

lemma Allocate_free:
  assumes wf: "pool_wf g" and free: "allocated g \<noteq> {minValue g..maxValue g}"
  shows "\<exists>k g'. int k < pool_size g \<and> Allocate g = Some (Inr (g', Some (cyc g k + minValue g)))
    \<and> cyc g k + minValue g \<in> {minValue g..maxValue g} - allocated g
    \<and> (\<forall>j<k. cyc g j + minValue g \<in> allocated g)
    \<and> allocated g' = insert (cyc g k + minValue g) (allocated g)
    \<and> minValue g' = minValue g \<and> maxValue g' = maxValue g \<and> pool_wf g'"
proof -
  obtain k where k: "int k < pool_size g" "usedMap g (cyc g k) = None"
    "\<And>j. j < k \<Longrightarrow> usedMap g (cyc g j) \<noteq> None" using first_free [OF assms] by blast
  have c: "0 \<le> cyc g k" "cyc g k < pool_size g" using wf by (simp_all add: cyc_def pool_wf_def)
  let ?g = "g\<lparr>offset := (cyc g k + 1) mod pool_size g, usedMap := (usedMap g)(cyc g k \<mapsto> True)\<rparr>"
  have "pool_wf ?g" using wf c by (auto simp: pool_wf_def)
  moreover have "allocated ?g = insert (cyc g k + minValue g) (allocated g)" by (simp add: allocated_def)
  ultimately show ?thesis
    using Allocate_at [OF wf k(2,3,1)] k c by (intro exI [of _ k] exI [of _ ?g]) (simp add: mem_allocated pool_size_def)
qed

lemma FreeID_laws:
  assumes wf: "pool_wf g" and x: "i64 x"
  shows "pool_wf (FreeID g x)" "allocated (FreeID g x) = allocated g - {x}"
    "minValue (FreeID g x) = minValue g" "maxValue (FreeID g x) = maxValue g"
proof -
  show "pool_wf (FreeID g x)" using wf by (auto simp: pool_wf_def FreeID_def pool_size_def)
  show m: "minValue (FreeID g x) = minValue g" and "maxValue (FreeID g x) = maxValue g"
    by (simp_all add: FreeID_def)
  have key: "wrap64 (x - minValue g) = y - minValue g \<longleftrightarrow> x = y" if "y \<in> allocated g" for y
  proof
    assume a: "wrap64 (x - minValue g) = y - minValue g"
    have y: "minValue g \<le> y" "y \<le> maxValue g" using that allocated_range [OF wf] by auto
    have "(x - minValue g) mod 2 ^ 64 = (y - minValue g) mod 2 ^ 64"
      using wrap64_eq_mod [of "x - minValue g"] by (simp only: a)
    then have "(x + 2 ^ 63) mod 2 ^ 64 = (y + 2 ^ 63) mod 2 ^ 64"
      using mod_add_cong [of "x - minValue g" "2 ^ 64" "y - minValue g" "minValue g + 2 ^ 63" "minValue g + 2 ^ 63"]
      by (simp add: algebra_simps)
    then show "x = y" using x y wf by (simp add: i64_def pool_wf_def)
  next
    assume a: "x = y"
    have "i64 (y - minValue g)"
      using that allocated_range [OF wf] wf by (auto simp: i64_def pool_wf_def pool_size_def)
    then show "wrap64 (x - minValue g) = y - minValue g" using a by simp
  qed
  show "allocated (FreeID g x) = allocated g - {x}"
  proof (rule set_eqI)
    fix y
    show "y \<in> allocated (FreeID g x) \<longleftrightarrow> y \<in> allocated g - {x}"
      using key [of y] by (auto simp: mem_allocated m) (auto simp: FreeID_def split: if_splits)
  qed
qed

section \<open>The contract of a pool\<close>

text \<open>
  What the network functions rely on. \<open>legal\<close> are the arguments that \<open>free\<close> may get (an
  \<^verbatim>\<open>int64\<close>), \<open>None\<close> as a result of \<open>alloc\<close> is the error of a full pool.
\<close>

datatype pool_op = Alloc | Free int

locale id_pool =
  fixes alloc :: "'s \<Rightarrow> ('s \<times> int option) res option"
    and free :: "'s \<Rightarrow> int \<Rightarrow> 's"
    and used :: "'s \<Rightarrow> int set"
    and bounds :: "'s \<Rightarrow> int set"
    and legal :: "int \<Rightarrow> bool"
    and ok :: "'s \<Rightarrow> bool"
  assumes alloc_full: "ok s \<Longrightarrow> used s = bounds s \<Longrightarrow> alloc s = Some (Inr (s, None))"
    and alloc_fresh: "ok s \<Longrightarrow> used s \<noteq> bounds s \<Longrightarrow>
      \<exists>s' x. alloc s = Some (Inr (s', Some x)) \<and> x \<in> bounds s - used s \<and> used s' = insert x (used s)
        \<and> bounds s' = bounds s \<and> ok s'"
    and free_ok: "ok s \<Longrightarrow> legal x \<Longrightarrow> ok (free s x)"
    and free_used: "ok s \<Longrightarrow> legal x \<Longrightarrow> used (free s x) = used s - {x}"
    and free_bounds: "ok s \<Longrightarrow> legal x \<Longrightarrow> bounds (free s x) = bounds s"
    and used_bounds: "ok s \<Longrightarrow> used s \<subseteq> bounds s"
    and bounds_legal: "ok s \<Longrightarrow> x \<in> bounds s \<Longrightarrow> legal x"
begin

lemma free_then_alloc:
  assumes "ok s" "used s = bounds s" "x \<in> bounds s"
  shows "\<exists>s'. alloc (free s x) = Some (Inr (s', Some x)) \<and> used s' = bounds s"
proof -
  note l = bounds_legal [OF assms(1,3)]
  have "used (free s x) = bounds s - {x}" using assms l by (simp add: free_used)
  moreover have "bounds s - {x} \<noteq> bounds s" using assms(3) by blast
  ultimately show ?thesis
    using alloc_fresh [OF free_ok [OF assms(1) l]] free_bounds [OF assms(1) l] assms(3) by auto
qed

end

text \<open>
  A client's history: the identifiers it holds, in the order it got them. An \<open>Alloc\<close> that fails
  leaves them as they are.
\<close>

fun run_ops :: "('s \<Rightarrow> ('s \<times> int option) res option) \<Rightarrow> ('s \<Rightarrow> int \<Rightarrow> 's) \<Rightarrow> pool_op list \<Rightarrow> 's \<Rightarrow> int list \<Rightarrow>
    ('s \<times> int list) res option" where
  "run_ops alloc free [] s held = Some (Inr (s, held))"
| "run_ops alloc free (Alloc # ops) s held =
     (case alloc s of None \<Rightarrow> None
      | Some (Inl e) \<Rightarrow> Some (Inl e)
      | Some (Inr (s', None)) \<Rightarrow> run_ops alloc free ops s' held
      | Some (Inr (s', Some x)) \<Rightarrow> run_ops alloc free ops s' (held @ [x]))"
| "run_ops alloc free (Free x # ops) s held =
     run_ops alloc free ops (free s x) (removeAll x held)"

fun legal_op :: "(int \<Rightarrow> bool) \<Rightarrow> pool_op \<Rightarrow> bool" where
  "legal_op legal Alloc \<longleftrightarrow> True"
| "legal_op legal (Free x) \<longleftrightarrow> legal x"

context id_pool
begin

lemma run_ops_distinct:
  assumes "ok s" "distinct held" "set held = used s" "list_all (legal_op legal) ops"
  shows "\<exists>s' held'. run_ops alloc free ops s held = Some (Inr (s', held')) \<and> ok s' \<and> distinct held'
    \<and> set held' = used s' \<and> bounds s' = bounds s"
  using assms
proof (induction ops arbitrary: s held)
  case Nil
  then show ?case by simp
next
  case (Cons a ops)
  show ?case
  proof (cases a)
    case Alloc
    show ?thesis
    proof (cases "used s = bounds s")
      case True
      then show ?thesis using Cons Alloc by (simp add: alloc_full)
    next
      case False
      obtain s' x where s': "alloc s = Some (Inr (s', Some x))" "x \<in> bounds s - used s"
        "used s' = insert x (used s)" "bounds s' = bounds s" "ok s'"
        using alloc_fresh [OF Cons.prems(1) False] by blast
      with Cons.prems Cons.IH [of s' "held @ [x]"] show ?thesis using Alloc by simp
    qed
  next
    case (Free x)
    then have "legal x" using Cons.prems by simp
    then show ?thesis
      using Free Cons.prems Cons.IH [of "free s x" "removeAll x held"]
      by (simp add: free_ok free_used free_bounds distinct_removeAll)
  qed
qed

end

definition id_bounds :: "IDGenerator \<Rightarrow> int set" where
  "id_bounds g = {minValue g..maxValue g}"

interpretation idgen: id_pool Allocate FreeID allocated id_bounds i64 pool_wf
proof
  fix s x
  assume wf: "pool_wf s"
  show "allocated s = id_bounds s \<Longrightarrow> Allocate s = Some (Inr (s, None))"
    using wf by (simp add: Allocate_full id_bounds_def)
  show "\<exists>s' x. Allocate s = Some (Inr (s', Some x)) \<and> x \<in> id_bounds s - allocated s
      \<and> allocated s' = insert x (allocated s) \<and> id_bounds s' = id_bounds s \<and> pool_wf s'"
    if "allocated s \<noteq> id_bounds s"
    using Allocate_free [OF wf that [unfolded id_bounds_def]] by (force simp: id_bounds_def)
  show "pool_wf (FreeID s x)" "allocated (FreeID s x) = allocated s - {x}"
    "id_bounds (FreeID s x) = id_bounds s" if "i64 x"
    using FreeID_laws [OF wf that] by (simp_all add: id_bounds_def)
  show "allocated s \<subseteq> id_bounds s" using allocated_range [OF wf] by (simp add: id_bounds_def)
  show "x \<in> id_bounds s \<Longrightarrow> i64 x" using wf by (auto simp: id_bounds_def i64_def pool_wf_def)
qed

section \<open>Properties\<close>

text \<open>
  C8. \<^verbatim>\<open>Allocate\<close> on a well-formed pool always returns. If every value of the interval is in use it
  returns the error and leaves the pool as it was; otherwise it returns the first value, in cyclic
  order from the offset, that is in the interval and not in use, and marks exactly that value.
\<close>

theorem Allocate_spec:
  assumes "pool_wf g"
  shows "if allocated g = {minValue g..maxValue g} then Allocate g = Some (Inr (g, None))
    else \<exists>k g'. int k < pool_size g \<and> Allocate g = Some (Inr (g', Some (cyc g k + minValue g)))
      \<and> cyc g k + minValue g \<in> {minValue g..maxValue g} - allocated g
      \<and> (\<forall>j<k. cyc g j + minValue g \<in> allocated g)
      \<and> allocated g' = insert (cyc g k + minValue g) (allocated g)
      \<and> minValue g' = minValue g \<and> maxValue g' = maxValue g \<and> pool_wf g'"
  using assms Allocate_full Allocate_free by simp

text \<open>
  The pool of RAN UE NGAP identifiers of the N3IWF spans \<open>2 ^ 63\<close> values, so that its
  \<open>valueRange\<close> overflows; it allocates from 0 all the same.
\<close>

lemma ran_ue_pool_wf: "pool_wf (NewGenerator 0 (2 ^ 63 - 1))"
  by (rule NewGenerator_wf) (simp_all add: i64_def)

lemma NewGenerator_allocated [simp]: "allocated (NewGenerator lo hi) = {}"
  by (simp add: allocated_def NewGenerator_def init_def)

lemma NewGenerator_sel [simp]:
  "minValue (NewGenerator lo hi) = lo" "maxValue (NewGenerator lo hi) = hi"
  "offset (NewGenerator lo hi) = 0" "usedMap (NewGenerator lo hi) = Map.empty"
  by (simp_all add: NewGenerator_def init_def)

theorem Allocate_spec_witness:
  "valueRange (NewGenerator 0 (2 ^ 63 - 1)) = - (2 ^ 63)
   \<and> (\<exists>g'. Allocate (NewGenerator 0 (2 ^ 63 - 1)) = Some (Inr (g', Some 0)) \<and> pool_wf g')"
proof
  show "valueRange (NewGenerator 0 (2 ^ 63 - 1)) = - (2 ^ 63)"
    by (simp add: NewGenerator_def init_def wrap64_def)
  show "\<exists>g'. Allocate (NewGenerator 0 (2 ^ 63 - 1)) = Some (Inr (g', Some 0)) \<and> pool_wf g'"
    using Allocate_spec [OF ran_ue_pool_wf] cyc_0 [OF ran_ue_pool_wf]
    by (auto split: if_splits) (metis NewGenerator_sel(3) bot_nat_0.not_eq_extremum)
qed

text \<open>
  C14. Whatever sequence of allocations and releases a client makes on a new pool, every call returns
  without a panic, and the identifiers the client holds are pairwise different, lie in the interval
  and are exactly those the pool records as used.
\<close>

theorem generator_history_distinct:
  assumes "i64 lo" "i64 hi" "lo \<le> hi" "hi - lo < 2 ^ 63" "list_all (legal_op i64) ops"
  shows "\<exists>g held. run_ops Allocate FreeID ops (NewGenerator lo hi) [] = Some (Inr (g, held))
    \<and> distinct held \<and> set held = allocated g \<and> set held \<subseteq> {lo..hi}"
proof -
  obtain g held where "run_ops Allocate FreeID ops (NewGenerator lo hi) [] = Some (Inr (g, held))"
    "pool_wf g" "distinct held" "set held = allocated g" "id_bounds g = id_bounds (NewGenerator lo hi)"
    using idgen.run_ops_distinct [OF NewGenerator_wf [OF assms(1-4)], of "[]" ops] assms(5) by auto
  moreover from this have "set held \<subseteq> {lo..hi}"
    by (metis NewGenerator_sel(1,2) id_bounds_def idgen.used_bounds)
  ultimately show ?thesis by blast
qed

theorem generator_history_distinct_witness:
  "\<exists>g held. run_ops Allocate FreeID [Alloc, Alloc, Free 1, Alloc, Free 2, Alloc] (NewGenerator 1 255) []
      = Some (Inr (g, held)) \<and> distinct held \<and> set held \<subseteq> {1..255}"
  using generator_history_distinct [of 1 255 "[Alloc, Alloc, Free 1, Alloc, Free 2, Alloc]"]
  by (force simp: i64_def)



text \<open>
  An interval that does not fit makes \<open>valueRange\<close> 0 when it has \<open>2 ^ 64\<close> values: the first call then
  divides by zero.
\<close>

lemma full_int64_range_panics:
  "Allocate (NewGenerator (- (2 ^ 63)) (2 ^ 63 - 1)) = Some (Inl Panic)"
  by (simp add: Allocate_def find_free.simps NewGenerator_def init_def updateOffset_def rem64_def wrap64_def)

end
