(* ===== verification/SMF_UPF.thy ===== *)
theory SMF_UPF
  imports Go_State ID_Generator PFCP_Scalar PFCP_Flags PFCP_Tunnel
begin

text \<open>
  The SMF's view of a UPF: the rules it installs (\<^verbatim>\<open>src/smf/context/pfcp_rules.go\<close>) and the pools
  of rules and identifiers (\<^verbatim>\<open>src/smf/context/upf.go\<close>). Rules are shared by pointer between the
  pools, the data paths and the PFCP sessions, so that they live in a heap. The package variable
  \<^verbatim>\<open>upfPool\<close> is a \<^verbatim>\<open>sync.Map\<close>, whose \<^verbatim>\<open>Range\<close> visits the entries in an unspecified order: the
  functions that range over it get the entries as a list.
\<close>

section \<open>Rules\<close>

datatype RuleState = RULE_INITIAL | RULE_CREATE | RULE_UPDATE | RULE_REMOVE

text \<open>
  A \<^verbatim>\<open>net.IP\<close> that shares its backing array with other holders: the array, the offset of its first
  octet and its length; \<open>IP_nil\<close> is a nil slice.
\<close>

datatype ip_ref = IP_nil | IP_ref nat nat nat

record UEIP =
  UEIP_V4 :: bool
  UEIP_Ipv4Address :: ip_ref

record PDI =
  PDI_SourceInterface :: SourceInterface
  PDI_LocalFTeid :: "FTEID option"
  PDI_NetworkInstance :: Dnn
  PDI_UEIPAddress :: "UEIP option"
  PDI_SDFFilter :: "SDFFilter option"
  PDI_ApplicationID :: string

record PDR =
  PDRID :: u16
  Precedence :: u32
  PDR_PDI :: PDI
  PDR_OuterHeaderRemoval :: "OuterHeaderRemoval option"
  PDR_FAR :: "nat option"
  PDR_URR :: "nat option"
  PDR_QER :: "nat option"
  PDR_State :: RuleState

record ForwardingParameters =
  FP_DestinationInterface :: DestinationInterface
  FP_NetworkInstance :: Dnn
  FP_OuterHeaderCreation :: "OuterHeaderCreation option"
  FP_ForwardingPolicyID :: string

record FAR =
  FARID :: u32
  FAR_ApplyAction :: ApplyAction
  FAR_ForwardingParameters :: "ForwardingParameters option"
  FAR_BAR :: "nat option"
  FAR_State :: RuleState

record BAR =
  BARID :: u8
  BAR_DownlinkDataNotificationDelay :: DownlinkDataNotificationDelay
  BAR_SuggestedBufferingPacketsCount :: SuggestedBufferingPacketsCount
  BAR_State :: RuleState

definition PDI_new :: PDI where
  "PDI_new = \<lparr>PDI_SourceInterface = SourceInterface_new, PDI_LocalFTeid = None, PDI_NetworkInstance = [],
     PDI_UEIPAddress = None, PDI_SDFFilter = None, PDI_ApplicationID = []\<rparr>"

definition PDR_new :: PDR where
  "PDR_new = \<lparr>PDRID = 0, Precedence = 0, PDR_PDI = PDI_new, PDR_OuterHeaderRemoval = None, PDR_FAR = None,
     PDR_URR = None, PDR_QER = None, PDR_State = RULE_INITIAL\<rparr>"

definition FAR_new :: FAR where
  "FAR_new = \<lparr>FARID = 0, FAR_ApplyAction = ApplyAction_new, FAR_ForwardingParameters = None,
     FAR_BAR = None, FAR_State = RULE_INITIAL\<rparr>"

definition BAR_new :: BAR where
  "BAR_new = \<lparr>BARID = 0, BAR_DownlinkDataNotificationDelay = DownlinkDataNotificationDelay_new,
     BAR_SuggestedBufferingPacketsCount = SuggestedBufferingPacketsCount_new, BAR_State = RULE_INITIAL\<rparr>"

section \<open>The UPF\<close>

datatype UPFStatus = NotAssociated | AssociatedSettingUp | AssociatedSetUpSuccess

record UPF =
  UPF_uuid :: string
  UPF_NodeID :: NodeID
  UPIPInfo :: UserPlaneIPResourceInformation
  UPF_Status :: UPFStatus
  pdrPool :: "u16 \<rightharpoonup> nat"
  farPool :: "u32 \<rightharpoonup> nat"
  barPool :: "u8 \<rightharpoonup> nat"
  pdrIDGenerator :: IDGenerator
  farIDGenerator :: IDGenerator
  barIDGenerator :: IDGenerator
  urrIDGenerator :: IDGenerator
  qerIDGenerator :: IDGenerator
  teidGenerator :: IDGenerator

record smf_heap =
  pdrs :: "PDR list"
  fars :: "FAR list"
  bars :: "BAR list"
  upfs :: "UPF list"
  upfPool :: "string \<rightharpoonup> nat"

text \<open>
  \<^verbatim>\<open>NewUPF\<close>; \<open>uid\<close> is the string of the UUID that \<^verbatim>\<open>uuid.New\<close> returns.
\<close>

definition UPF_init :: "string \<Rightarrow> NodeID \<Rightarrow> UPF" where
  "UPF_init uid nodeID =
     \<lparr>UPF_uuid = uid, UPF_NodeID = nodeID, UPIPInfo = UserPlaneIPResourceInformation_new,
      UPF_Status = NotAssociated, pdrPool = Map.empty, farPool = Map.empty, barPool = Map.empty,
      pdrIDGenerator = NewGenerator 1 (2 ^ 16 - 1), farIDGenerator = NewGenerator 1 (2 ^ 32 - 1),
      barIDGenerator = NewGenerator 1 (2 ^ 8 - 1), urrIDGenerator = NewGenerator 1 (2 ^ 32 - 1),
      qerIDGenerator = NewGenerator 1 (2 ^ 32 - 1), teidGenerator = NewGenerator 1 (2 ^ 32 - 1)\<rparr>"

definition NewUPF :: "string \<Rightarrow> NodeID \<Rightarrow> ('a smf_heap_scheme, nat) go" where
  "NewUPF uid nodeID = (\<lambda>s.
     (Inr (length (upfs s)),
      s\<lparr>upfs := upfs s @ [UPF_init uid nodeID], upfPool := (upfPool s)(uid \<mapsto> length (upfs s))\<rparr>))"

text \<open>The UPF behind a pointer, and an assignment to one of its fields.\<close>

definition get_UPF :: "nat \<Rightarrow> ('a smf_heap_scheme, UPF) go" where
  "get_UPF u = lift_res (\<lambda>s. deref (upfs s) (Some u))"

definition put_UPF :: "nat \<Rightarrow> UPF \<Rightarrow> ('a smf_heap_scheme, unit) go" where
  "put_UPF u x = modify (\<lambda>s. s\<lparr>upfs := (upfs s)[u := x]\<rparr>)"

text \<open>
  A call of \<^verbatim>\<open>Allocate\<close> on a generator field; a call that does not return cannot be followed by
  anything, which the model gives as a panic (it cannot happen on a well-formed pool).
\<close>

definition alloc_from :: "(UPF \<Rightarrow> IDGenerator) \<Rightarrow> (IDGenerator \<Rightarrow> UPF \<Rightarrow> UPF) \<Rightarrow> nat \<Rightarrow> ('a smf_heap_scheme, int) go" where
  "alloc_from sel upd u =
     bind (get_UPF u) (\<lambda>x.
     case Allocate (sel x) of
       None \<Rightarrow> fail Panic
     | Some (Inl e) \<Rightarrow> fail e
     | Some (Inr (g, None)) \<Rightarrow> bind (put_UPF u (upd g x)) (\<lambda>_. fail (Err ''No available value range to allocate id''))
     | Some (Inr (g, Some i)) \<Rightarrow> bind (put_UPF u (upd g x)) (\<lambda>_. ret i))"

definition associated :: "nat \<Rightarrow> string \<Rightarrow> ('a smf_heap_scheme, unit) go" where
  "associated u msg = bind (get_UPF u) (\<lambda>x. require (UPF_Status x = AssociatedSetUpSuccess) msg)"

definition GenerateTEID :: "nat \<Rightarrow> ('a smf_heap_scheme, u32) go" where
  "GenerateTEID u =
     bind (associated u ''this upf not associate with smf'') (\<lambda>_.
     bind (alloc_from teidGenerator (\<lambda>g. teidGenerator_update (\<lambda>_. g)) u) (\<lambda>i. ret (word_of_int i)))"

definition pdrID :: "nat \<Rightarrow> ('a smf_heap_scheme, u16) go" where
  "pdrID u =
     bind (associated u ''this upf not associate with smf'') (\<lambda>_.
     bind (alloc_from farIDGenerator (\<lambda>g. farIDGenerator_update (\<lambda>_. g)) u) (\<lambda>i. ret (word_of_int i)))"

definition farID :: "nat \<Rightarrow> ('a smf_heap_scheme, u32) go" where
  "farID u =
     bind (associated u ''this upf not associate with smf'') (\<lambda>_.
     bind (alloc_from farIDGenerator (\<lambda>g. farIDGenerator_update (\<lambda>_. g)) u) (\<lambda>i. ret (word_of_int i)))"

definition barID :: "nat \<Rightarrow> ('a smf_heap_scheme, u8) go" where
  "barID u =
     bind (associated u ''this upf not associate with smf'') (\<lambda>_.
     bind (alloc_from farIDGenerator (\<lambda>g. farIDGenerator_update (\<lambda>_. g)) u) (\<lambda>i. ret (word_of_int i)))"

text \<open>\<^verbatim>\<open>upf.pdrPool.Store(pdr.PDRID, pdr)\<close> and its like, with the new object put on the heap.\<close>

definition AddFAR :: "nat \<Rightarrow> ('a smf_heap_scheme, nat) go" where
  "AddFAR u =
     bind (associated u ''this upf do not associate with smf'') (\<lambda>_.
     bind (farID u) (\<lambda>i.
     bind (gets (\<lambda>s. length (fars s))) (\<lambda>p.
     bind (modify (\<lambda>s. s\<lparr>fars := fars s @ [FAR_new\<lparr>FARID := i\<rparr>]\<rparr>)) (\<lambda>_.
     bind (get_UPF u) (\<lambda>x.
     bind (put_UPF u (x\<lparr>farPool := (farPool x)(i \<mapsto> p)\<rparr>)) (\<lambda>_.
     ret p))))))"

definition AddPDR :: "nat \<Rightarrow> ('a smf_heap_scheme, nat) go" where
  "AddPDR u =
     bind (associated u ''this upf do not associate with smf'') (\<lambda>_.
     bind (pdrID u) (\<lambda>i.
     bind (gets (\<lambda>s. length (pdrs s))) (\<lambda>p.
     bind (modify (\<lambda>s. s\<lparr>pdrs := pdrs s @ [PDR_new\<lparr>PDRID := i\<rparr>]\<rparr>)) (\<lambda>_.
     bind (get_UPF u) (\<lambda>x.
     bind (put_UPF u (x\<lparr>pdrPool := (pdrPool x)(i \<mapsto> p)\<rparr>)) (\<lambda>_.
     bind (AddFAR u) (\<lambda>f.
     bind (modify (\<lambda>s. s\<lparr>pdrs := (pdrs s)[p := (pdrs s ! p)\<lparr>PDR_FAR := Some f\<rparr>]\<rparr>)) (\<lambda>_.
     ret p))))))))"

text \<open>\<^verbatim>\<open>AddBAR\<close> ignores the error of \<^verbatim>\<open>barID\<close> and returns a BAR with identifier 0, in no pool.\<close>

definition AddBAR :: "nat \<Rightarrow> ('a smf_heap_scheme, nat) go" where
  "AddBAR u =
     bind (associated u ''this upf do not associate with smf'') (\<lambda>_.
     bind (gets (\<lambda>s. length (bars s))) (\<lambda>p.
     bind (modify (\<lambda>s. s\<lparr>bars := bars s @ [BAR_new]\<rparr>)) (\<lambda>_.
     handle (barID u) (\<lambda>_. ret p) (\<lambda>i.
     bind (modify (\<lambda>s. s\<lparr>bars := (bars s)[p := BAR_new\<lparr>BARID := i\<rparr>]\<rparr>)) (\<lambda>_.
     bind (get_UPF u) (\<lambda>x.
     bind (put_UPF u (x\<lparr>barPool := (barPool x)(i \<mapsto> p)\<rparr>)) (\<lambda>_.
     ret p)))))))"

definition RemovePDR :: "nat \<Rightarrow> nat option \<Rightarrow> ('a smf_heap_scheme, unit) go" where
  "RemovePDR u p =
     bind (associated u ''this upf not associate with smf'') (\<lambda>_.
     bind (lift_res (\<lambda>s. deref (pdrs s) p)) (\<lambda>pdr.
     bind (get_UPF u) (\<lambda>x.
     put_UPF u (x\<lparr>pdrIDGenerator := FreeID (pdrIDGenerator x) (uint (PDRID pdr)),
                  pdrPool := (pdrPool x)(PDRID pdr := None)\<rparr>))))"

definition RemoveFAR :: "nat \<Rightarrow> nat option \<Rightarrow> ('a smf_heap_scheme, unit) go" where
  "RemoveFAR u p =
     bind (associated u ''this upf not associate with smf'') (\<lambda>_.
     bind (lift_res (\<lambda>s. deref (fars s) p)) (\<lambda>far.
     bind (get_UPF u) (\<lambda>x.
     put_UPF u (x\<lparr>farIDGenerator := FreeID (farIDGenerator x) (uint (FARID far)),
                  farPool := (farPool x)(FARID far := None)\<rparr>))))"

definition RemoveBAR :: "nat \<Rightarrow> nat option \<Rightarrow> ('a smf_heap_scheme, unit) go" where
  "RemoveBAR u p =
     bind (associated u ''this upf not associate with smf'') (\<lambda>_.
     bind (lift_res (\<lambda>s. deref (bars s) p)) (\<lambda>bar.
     bind (get_UPF u) (\<lambda>x.
     put_UPF u (x\<lparr>barIDGenerator := FreeID (barIDGenerator x) (uint (BARID bar)),
                  barPool := (barPool x)(BARID bar := None)\<rparr>))))"

section \<open>The pool of UPFs\<close>

text \<open>
  The three functions that range over \<^verbatim>\<open>upfPool\<close>. \<open>es\<close> are the entries in the order of \<^verbatim>\<open>Range\<close>;
  \<open>acc\<close> is the variable \<^verbatim>\<open>upf\<close> of the enclosing function, which the callback assigns.
\<close>

fun retrieve_range :: "UPF list \<Rightarrow> NodeID \<Rightarrow> (string \<times> nat) list \<Rightarrow> nat option \<Rightarrow> nat option" where
  "retrieve_range us nodeID [] acc = acc"
| "retrieve_range us nodeID ((k, u) # es) acc =
     (if UPF_NodeID (us ! u) = nodeID then Some u else retrieve_range us nodeID es (Some u))"

definition RetrieveUPFNodeByNodeID :: "UPF list \<Rightarrow> (string \<times> nat) list \<Rightarrow> NodeID \<Rightarrow> nat option" where
  "RetrieveUPFNodeByNodeID us es nodeID = retrieve_range us nodeID es None"

fun RemoveUPFNodeByNodeId :: "UPF list \<Rightarrow> (string \<times> nat) list \<Rightarrow> NodeID \<Rightarrow> (string \<rightharpoonup> nat) \<Rightarrow> (string \<rightharpoonup> nat)" where
  "RemoveUPFNodeByNodeId us [] nodeID pool = pool"
| "RemoveUPFNodeByNodeId us ((k, u) # es) nodeID pool =
     (if UPF_NodeID (us ! u) = nodeID then pool(k := None) else RemoveUPFNodeByNodeId us es nodeID pool)"

fun select_range :: "UPF list \<Rightarrow> bytes \<Rightarrow> (string \<times> nat) list \<Rightarrow> nat option \<Rightarrow> nat option" where
  "select_range us dnn [] acc = acc"
| "select_range us dnn ((k, u) # es) acc =
     (if UPIP_Assoni (UPIPInfo (us ! u)) \<and> UPIP_NetworkInstance (UPIPInfo (us ! u)) = dnn then Some u
      else select_range us dnn es None)"

definition SelectUPFByDnn :: "UPF list \<Rightarrow> (string \<times> nat) list \<Rightarrow> bytes \<Rightarrow> nat option" where
  "SelectUPFByDnn us es dnn = select_range us dnn es None"

section \<open>Association handling\<close>

text \<open>
  The handlers of \<^verbatim>\<open>src/smf/pfcp/handler/handler.go\<close> for associations, on the fields of the
  decoded message that they read. The result is the response they send, if any.
\<close>

definition CauseRequestAccepted :: u8 where "CauseRequestAccepted = 1"
definition CauseNoEstablishedPfcpAssociation :: u8 where "CauseNoEstablishedPfcpAssociation = 72"

definition HandlePfcpAssociationSetupRequest ::
  "(string \<times> nat) list \<Rightarrow> NodeID option \<Rightarrow> UserPlaneIPResourceInformation option \<Rightarrow>
   ('a smf_heap_scheme, (NodeID \<times> u8) option) go" where
  "HandlePfcpAssociationSetupRequest es nodeID upip =
     (case nodeID of
        None \<Rightarrow> ret None
      | Some n \<Rightarrow>
          bind (gets (\<lambda>s. RetrieveUPFNodeByNodeID (upfs s) es n)) (\<lambda>upf.
          case upf of
            None \<Rightarrow> ret None
          | Some u \<Rightarrow>
              (case upip of
                 None \<Rightarrow> fail Panic
               | Some info \<Rightarrow>
                   bind (get_UPF u) (\<lambda>x.
                   bind (put_UPF u (x\<lparr>UPIPInfo := info\<rparr>)) (\<lambda>_.
                   ret (Some (n, CauseRequestAccepted)))))))"

definition HandlePfcpAssociationSetupResponse ::
  "(string \<times> nat) list \<Rightarrow> NodeID option \<Rightarrow> u8 option \<Rightarrow> UserPlaneIPResourceInformation option \<Rightarrow>
   ('a smf_heap_scheme, unit) go" where
  "HandlePfcpAssociationSetupResponse es nodeID cause upip =
     (case cause of
        None \<Rightarrow> fail Panic
      | Some c \<Rightarrow>
          if c = CauseRequestAccepted then
            (case nodeID of
               None \<Rightarrow> ret ()
             | Some n \<Rightarrow>
                 bind (gets (\<lambda>s. RetrieveUPFNodeByNodeID (upfs s) es n)) (\<lambda>upf.
                 case upf of
                   None \<Rightarrow> fail Panic
                 | Some u \<Rightarrow>
                     bind (get_UPF u) (\<lambda>x.
                     bind (put_UPF u (x\<lparr>UPF_Status := AssociatedSetUpSuccess\<rparr>)) (\<lambda>_.
                     case upip of
                       None \<Rightarrow> ret ()
                     | Some info \<Rightarrow>
                         bind (get_UPF u) (\<lambda>x. put_UPF u (x\<lparr>UPIPInfo := info\<rparr>))))))
          else ret ())"

definition HandlePfcpAssociationReleaseRequest ::
  "(string \<times> nat) list \<Rightarrow> NodeID option \<Rightarrow> ('a smf_heap_scheme, NodeID \<times> u8) go" where
  "HandlePfcpAssociationReleaseRequest es nodeID =
     (case nodeID of
        None \<Rightarrow> fail Panic
      | Some n \<Rightarrow>
          bind (gets (\<lambda>s. RetrieveUPFNodeByNodeID (upfs s) es n)) (\<lambda>upf.
          if upf \<noteq> None then
            bind (modify (\<lambda>s. s\<lparr>upfPool := RemoveUPFNodeByNodeId (upfs s) es n (upfPool s)\<rparr>)) (\<lambda>_.
            ret (n, CauseRequestAccepted))
          else ret (n, CauseNoEstablishedPfcpAssociation)))"

definition HandlePfcpAssociationReleaseResponse ::
  "(string \<times> nat) list \<Rightarrow> NodeID option \<Rightarrow> u8 option \<Rightarrow> ('a smf_heap_scheme, unit) go" where
  "HandlePfcpAssociationReleaseResponse es nodeID cause =
     (case cause of
        None \<Rightarrow> fail Panic
      | Some c \<Rightarrow>
          if c = CauseRequestAccepted then
            (case nodeID of
               None \<Rightarrow> fail Panic
             | Some n \<Rightarrow> modify (\<lambda>s. s\<lparr>upfPool := RemoveUPFNodeByNodeId (upfs s) es n (upfPool s)\<rparr>))
          else ret ())"

text \<open>An enumeration of the pool, as \<^verbatim>\<open>Range\<close> visits it.\<close>

definition enumerates :: "(string \<times> nat) list \<Rightarrow> (string \<rightharpoonup> nat) \<Rightarrow> bool" where
  "enumerates es pool \<longleftrightarrow> distinct (map fst es) \<and> map_of es = pool"

lemma retrieve_match:
  "\<exists>(k, u) \<in> set es. UPF_NodeID (us ! u) = n \<Longrightarrow>
   \<exists>u. retrieve_range us n es acc = Some u \<and> u \<in> snd ` set es \<and> UPF_NodeID (us ! u) = n"
  by (induction us n es acc rule: retrieve_range.induct) auto

lemma retrieve_no_match:
  "\<forall>(k, u) \<in> set es. UPF_NodeID (us ! u) \<noteq> n \<Longrightarrow>
   retrieve_range us n es acc = (if es = [] then acc else Some (snd (last es)))"
  by (induction us n es acc rule: retrieve_range.induct) auto

lemma select_range_correct:
  "case select_range us dnn es None of
     None \<Rightarrow> \<forall>(k, u) \<in> set es. \<not> (UPIP_Assoni (UPIPInfo (us ! u)) \<and> UPIP_NetworkInstance (UPIPInfo (us ! u)) = dnn)
   | Some u \<Rightarrow> u \<in> snd ` set es \<and> UPIP_Assoni (UPIPInfo (us ! u)) \<and> UPIP_NetworkInstance (UPIPInfo (us ! u)) = dnn"
  by (induction es) (force split: option.splits if_splits)+

lemma remove_match:
  "distinct (map fst es) \<Longrightarrow> map_of es = pool \<Longrightarrow> \<exists>(k, u) \<in> set es. UPF_NodeID (us ! u) = n \<Longrightarrow>
   \<exists>k u. pool k = Some u \<and> UPF_NodeID (us ! u) = n \<and> RemoveUPFNodeByNodeId us es n pool0 = pool0(k := None)"
proof (induction us es n pool0 arbitrary: pool rule: RemoveUPFNodeByNodeId.induct)
  case (2 us k u es n pool0)
  show ?case
  proof (cases "UPF_NodeID (us ! u) = n")
    case True
    then show ?thesis using 2 by auto
  next
    case False
    have ex: "\<exists>(k, u) \<in> set es. UPF_NodeID (us ! u) = n" using 2 False by auto
    have d: "distinct (map fst es)" using 2 by simp
    from "2.IH" [OF False d refl ex] obtain k' u' where "map_of es k' = Some u'" "UPF_NodeID (us ! u') = n"
      "RemoveUPFNodeByNodeId us es n pool0 = pool0(k' := None)" by blast
    moreover from this have "k' \<noteq> k" using "2.prems"(1)
      by (metis distinct.simps(2) domI dom_map_of_conv_image_fst fst_conv list.set_map list.simps(9))
    ultimately show ?thesis using 2 False by (intro exI [of _ k'] exI [of _ u']) auto
  qed
qed auto

section \<open>Identifiers of forwarding rules\<close>

text \<open>
  What the SMF keeps of a UPF: its generator of FAR identifiers is well formed, and every FAR of the
  pool has an identifier that the generator records as used and that the FAR carries.
\<close>

definition far_inv :: "'a smf_heap_scheme \<Rightarrow> nat \<Rightarrow> bool" where
  "far_inv s u \<longleftrightarrow> u < length (upfs s) \<and>
     (let x = upfs s ! u; g = farIDGenerator x in
      pool_wf g \<and> minValue g = 1 \<and> maxValue g = 2 ^ 32 - 1 \<and>
      (\<forall>i p. farPool x i = Some p \<longrightarrow> uint i \<in> allocated g \<and> p < length (fars s) \<and> FARID (fars s ! p) = i))"

abbreviation far_gen :: "'a smf_heap_scheme \<Rightarrow> nat \<Rightarrow> IDGenerator" where
  "far_gen s u \<equiv> farIDGenerator (upfs s ! u)"

abbreviation alloc_far :: "nat \<Rightarrow> ('a smf_heap_scheme, int) go" where
  "alloc_far \<equiv> alloc_from farIDGenerator (\<lambda>g. farIDGenerator_update (\<lambda>_. g))"

lemma get_UPF_eval [simp]: "u < length (upfs s) \<Longrightarrow> get_UPF u s = (Inr (upfs s ! u), s)"
  by (simp add: get_UPF_def)

lemma put_UPF_eval [simp]: "put_UPF u x s = (Inr (), s\<lparr>upfs := (upfs s)[u := x]\<rparr>)"
  by (simp add: put_UPF_def)

lemma associated_eval [simp]:
  "u < length (upfs s) \<Longrightarrow> associated u msg s =
     (if UPF_Status (upfs s ! u) = AssociatedSetUpSuccess then Inr () else Inl (Err msg), s)"
  by (simp add: associated_def require_def check_def)

lemma far_inv_bound: "far_inv s u \<Longrightarrow> u < length (upfs s)"
  by (simp add: far_inv_def)

lemma alloc_far_cases:
  assumes "far_inv s u"
  shows "(allocated (far_gen s u) = {1..2 ^ 32 - 1} \<and>
          alloc_far u s = (Inl (Err ''No available value range to allocate id''), s)) \<or>
    (\<exists>i g. alloc_far u s = (Inr i, s\<lparr>upfs := (upfs s)[u := (upfs s ! u)\<lparr>farIDGenerator := g\<rparr>]\<rparr>) \<and>
       1 \<le> i \<and> i < 2 ^ 32 \<and> i \<notin> allocated (far_gen s u) \<and> allocated g = insert i (allocated (far_gen s u)) \<and>
       pool_wf g \<and> minValue g = 1 \<and> maxValue g = 2 ^ 32 - 1)"
proof (cases "allocated (far_gen s u) = {1..2 ^ 32 - 1}")
  case True
  have "pool_wf (far_gen s u)" "minValue (far_gen s u) = 1" "maxValue (far_gen s u) = 2 ^ 32 - 1"
    using assms by (simp_all add: far_inv_def Let_def)
  then have "Allocate (far_gen s u) = Some (Inr (far_gen s u, None))"
    using True by (simp add: Allocate_full)
  then show ?thesis using True far_inv_bound [OF assms] by (simp add: alloc_from_def)
next
  case False
  have w: "pool_wf (far_gen s u)" "minValue (far_gen s u) = 1" "maxValue (far_gen s u) = 2 ^ 32 - 1"
    using assms by (simp_all add: far_inv_def Let_def)
  then have "allocated (far_gen s u) \<noteq> {minValue (far_gen s u)..maxValue (far_gen s u)}" using False by simp
  from Allocate_free [OF w(1) this] obtain i g where
    "Allocate (far_gen s u) = Some (Inr (g, Some i))" "i \<in> {1..2 ^ 32 - 1} - allocated (far_gen s u)"
    "allocated g = insert i (allocated (far_gen s u))" "minValue g = 1" "maxValue g = 2 ^ 32 - 1" "pool_wf g"
    unfolding w by blast
  then show ?thesis
    using far_inv_bound [OF assms] by (intro disjI2 exI [of _ i] exI [of _ g]) (simp add: alloc_from_def)
qed

lemma uint_of_range: "0 \<le> i \<Longrightarrow> i < 2 ^ 32 \<Longrightarrow> uint (word_of_int i :: u32) = i"
  by (simp add: uint_word_of_int_eq take_bit_int_eq_self)

lemma AddFAR_fresh_aux:
  assumes "far_inv s u" "UPF_Status (upfs s ! u) = AssociatedSetUpSuccess"
  shows "AddFAR u s = (Inl (Err ''No available value range to allocate id''), s) \<and>
      allocated (far_gen s u) = {1..2 ^ 32 - 1} \<or>
    (\<exists>s' p. AddFAR u s = (Inr p, s') \<and> far_inv s' u \<and>
       fars s' = fars s @ [fars s' ! p] \<and> p = length (fars s) \<and>
       farPool (upfs s ! u) (FARID (fars s' ! p)) = None \<and>
       farPool (upfs s' ! u) = (farPool (upfs s ! u))(FARID (fars s' ! p) \<mapsto> p))"
proof -
  note u = far_inv_bound [OF assms(1)]
  let ?x = "upfs s ! u"
  consider (full) "allocated (far_gen s u) = {1..2 ^ 32 - 1}"
      "alloc_far u s = (Inl (Err ''No available value range to allocate id''), s)"
    | (new) i g where "alloc_far u s = (Inr i, s\<lparr>upfs := (upfs s)[u := ?x\<lparr>farIDGenerator := g\<rparr>]\<rparr>)"
       "1 \<le> i" "i < 2 ^ 32" "i \<notin> allocated (far_gen s u)" "allocated g = insert i (allocated (far_gen s u))"
       "pool_wf g" "minValue g = 1" "maxValue g = 2 ^ 32 - 1"
    using alloc_far_cases [OF assms(1)] by blast
  then show ?thesis
  proof cases
    case full
    then show ?thesis using u assms(2) by (simp add: AddFAR_def farID_def)
  next
    case new
    let ?i = "word_of_int i :: u32"
    let ?s = "s\<lparr>fars := fars s @ [FAR_new\<lparr>FARID := ?i\<rparr>],
      upfs := (upfs s)[u := ?x\<lparr>farIDGenerator := g, farPool := (farPool ?x)(?i \<mapsto> length (fars s))\<rparr>]\<rparr>"
    have run: "AddFAR u s = (Inr (length (fars s)), ?s)"
      using new(1) u assms(2) by (simp add: AddFAR_def farID_def)
    have i: "uint ?i = i" using new by (simp add: uint_of_range)
    have old: "uint j \<in> allocated (far_gen s u) \<and> p < length (fars s) \<and> FARID (fars s ! p) = j"
      if "farPool ?x j = Some p" for j p
      using assms(1) that by (simp add: far_inv_def Let_def)
    have none: "farPool ?x ?i = None" using old [of ?i] new(4) i by (cases "farPool ?x ?i") auto
    have "far_inv ?s u"
      using new u old i by (auto simp: far_inv_def Let_def nth_append dest: old)
    then show ?thesis
      using run none u by (intro disjI2 exI [of _ ?s] exI [of _ "length (fars s)"]) simp
  qed
qed

text \<open>
  On an associated UPF, \<^verbatim>\<open>AddFAR\<close> either returns the error of an exhausted identifier space and
  leaves the state as it was, or returns a new FAR whose identifier no FAR of the pool had: every
  entry of the pool is kept, the new one is found under its own identifier, and the invariant holds
  again.
\<close>

theorem AddFAR_fresh:
  assumes "far_inv s u" "UPF_Status (upfs s ! u) = AssociatedSetUpSuccess"
  shows "AddFAR u s = (Inl (Err ''No available value range to allocate id''), s) \<and>
      allocated (far_gen s u) = {1..2 ^ 32 - 1} \<or>
    (\<exists>s' p. AddFAR u s = (Inr p, s') \<and> far_inv s' u \<and>
       fars s' = fars s @ [fars s' ! p] \<and> p = length (fars s) \<and>
       farPool (upfs s ! u) (FARID (fars s' ! p)) = None \<and>
       farPool (upfs s' ! u) = (farPool (upfs s ! u))(FARID (fars s' ! p) \<mapsto> p))"
  using AddFAR_fresh_aux [OF assms] .

text \<open>A heap with one UPF, just associated.\<close>

definition one_upf :: "NodeID \<Rightarrow> smf_heap" where
  "one_upf n = \<lparr>pdrs = [], fars = [], bars = [],
     upfs = [(UPF_init ''u'' n)\<lparr>UPF_Status := AssociatedSetUpSuccess\<rparr>], upfPool = [''u'' \<mapsto> 0]\<rparr>"

lemma NewGenerator_32: "pool_wf (NewGenerator 1 (2 ^ 32 - 1))"
  by (rule NewGenerator_wf) (simp_all add: i64_def)

lemma one_upf_inv: "far_inv (one_upf n) 0"
  using NewGenerator_32 by (simp add: far_inv_def one_upf_def UPF_init_def Let_def)

theorem AddFAR_fresh_witness:
  "\<forall>n. \<exists>s' p. AddFAR 0 (one_upf n) = (Inr p, s') \<and> far_inv s' 0 \<and> p = 0
     \<and> farPool (upfs s' ! 0) (FARID (fars s' ! p)) = Some p"
proof
  fix n
  have "UPF_Status (upfs (one_upf n) ! 0) = AssociatedSetUpSuccess" "fars (one_upf n) = []"
    "allocated (far_gen (one_upf n) 0) \<noteq> {1..2 ^ 32 - 1}"
    by (simp_all add: one_upf_def UPF_init_def)
  then show "\<exists>s' p. AddFAR 0 (one_upf n) = (Inr p, s') \<and> far_inv s' 0 \<and> p = 0
      \<and> farPool (upfs s' ! 0) (FARID (fars s' ! p)) = Some p"
    using AddFAR_fresh [OF one_upf_inv, of n] by auto
qed

section \<open>Histories of rule operations\<close>

datatype rule_op = Add_PDR | Add_FAR | Add_BAR | Remove_PDR nat | Remove_FAR nat | Remove_BAR nat

fun rule_step :: "nat \<Rightarrow> rule_op \<Rightarrow> 'a smf_heap_scheme \<Rightarrow> 'a smf_heap_scheme" where
  "rule_step u Add_PDR s = snd (AddPDR u s)"
| "rule_step u Add_FAR s = snd (AddFAR u s)"
| "rule_step u Add_BAR s = snd (AddBAR u s)"
| "rule_step u (Remove_PDR p) s = snd (RemovePDR u (Some p) s)"
| "rule_step u (Remove_FAR p) s = snd (RemoveFAR u (Some p) s)"
| "rule_step u (Remove_BAR p) s = snd (RemoveBAR u (Some p) s)"

text \<open>The invariant depends only on the FAR generator, the FAR pool and the FARs.\<close>

lemma far_inv_cong:
  assumes "far_inv s u" "length (upfs s') = length (upfs s)" "fars s' = fars s"
    "farIDGenerator (upfs s' ! u) = farIDGenerator (upfs s ! u)"
    "farPool (upfs s' ! u) = farPool (upfs s ! u)"
  shows "far_inv s' u"
  using assms by (simp add: far_inv_def Let_def)

lemma far_inv_alloc:
  assumes "far_inv s u" "allocated g = insert i (allocated (far_gen s u))"
    "pool_wf g" "minValue g = 1" "maxValue g = 2 ^ 32 - 1"
  shows "far_inv (s\<lparr>upfs := (upfs s)[u := (upfs s ! u)\<lparr>farIDGenerator := g\<rparr>]\<rparr>) u"
  using assms by (auto simp: far_inv_def Let_def)

lemma alloc_far_run:
  assumes "far_inv s u"
  obtains (err) "alloc_far u s = (Inl (Err ''No available value range to allocate id''), s)"
  | (ok) i g where "alloc_far u s = (Inr i, s\<lparr>upfs := (upfs s)[u := (upfs s ! u)\<lparr>farIDGenerator := g\<rparr>]\<rparr>)"
      "far_inv (s\<lparr>upfs := (upfs s)[u := (upfs s ! u)\<lparr>farIDGenerator := g\<rparr>]\<rparr>) u"
      "allocated g = insert i (allocated (far_gen s u))" "i \<notin> allocated (far_gen s u)" "1 \<le> i" "i < 2 ^ 32"
  using alloc_far_cases [OF assms] far_inv_alloc [OF assms] by (metis (no_types, lifting))

lemma AddFAR_inv: "far_inv s u \<Longrightarrow> far_inv (snd (AddFAR u s)) u"
proof (cases "UPF_Status (upfs s ! u) = AssociatedSetUpSuccess")
  case True
  assume inv: "far_inv s u"
  show ?thesis using AddFAR_fresh_aux [OF inv True] inv by auto
next
  case False
  assume inv: "far_inv s u"
  then show ?thesis using False far_inv_bound [OF inv] by (simp add: AddFAR_def)
qed

lemma AddPDR_inv: 
  assumes inv: "far_inv s u"
  shows "far_inv (snd (AddPDR u s)) u"
proof (cases "UPF_Status (upfs s ! u) = AssociatedSetUpSuccess")
  case True
  note u = far_inv_bound [OF inv]
  from inv show ?thesis
  proof (cases rule: alloc_far_run)
    case err
    then show ?thesis using True u inv by (simp add: AddPDR_def pdrID_def)
  next
    case (ok i g)
    let ?i = "word_of_int i :: u16"
    let ?x = "(upfs s ! u)\<lparr>farIDGenerator := g, pdrPool := (pdrPool (upfs s ! u))(?i \<mapsto> length (pdrs s))\<rparr>"
    let ?s = "s\<lparr>pdrs := pdrs s @ [PDR_new\<lparr>PDRID := ?i\<rparr>], upfs := (upfs s)[u := ?x]\<rparr>"
    have s: "far_inv ?s u" using u by (rule_tac far_inv_cong [OF ok(2)]) simp_all
    obtain r s' where r: "AddFAR u ?s = (r, s')" by fastforce
    have s': "far_inv s' u" using AddFAR_inv [OF s] r by simp
    show ?thesis
    proof (cases r)
      case (Inl e)
      then show ?thesis using ok(1) r s' True u by (simp add: AddPDR_def pdrID_def)
    next
      case (Inr f)
      then show ?thesis using ok(1) r s' True u
        by (simp add: AddPDR_def pdrID_def) (rule far_inv_cong [OF s'], simp_all)
    qed
  qed
next
  case False
  then show ?thesis using inv far_inv_bound [OF inv] by (simp add: AddPDR_def)
qed

lemma AddBAR_inv:
  assumes inv: "far_inv s u"
  shows "far_inv (snd (AddBAR u s)) u"
proof (cases "UPF_Status (upfs s ! u) = AssociatedSetUpSuccess")
  case True
  let ?s = "s\<lparr>bars := bars s @ [BAR_new]\<rparr>"
  have s: "far_inv ?s u" by (rule far_inv_cong [OF inv]) simp_all
  note u = far_inv_bound [OF inv]
  from s show ?thesis
  proof (cases rule: alloc_far_run)
    case err
    then show ?thesis using True u s by (simp add: AddBAR_def barID_def)
  next
    case (ok i g)
    then show ?thesis using True u
      by (simp add: AddBAR_def barID_def) (rule far_inv_cong [OF ok(2)], simp_all)
  qed
next
  case False
  then show ?thesis using inv far_inv_bound [OF inv] by (simp add: AddBAR_def)
qed

lemma Remove_inv:
  assumes inv: "far_inv s u"
  shows "far_inv (snd (RemovePDR u p s)) u" "far_inv (snd (RemoveBAR u q s)) u"
  using inv far_inv_bound [OF inv]
  by (auto simp: RemovePDR_def RemoveBAR_def bind_def split: sum.splits intro: far_inv_cong [OF inv])

lemma uint_u32_i64: "i64 (uint (w :: u32))"
proof -
  have "0 \<le> uint w" "uint w < 4294967296" using uint_lt2p [of w] by simp_all
  then have "- (2 ^ 63) \<le> uint w" by (rule_tac order_trans [of _ 0]) simp_all
  with \<open>uint w < 4294967296\<close> show ?thesis by (simp add: i64_def)
qed

lemma RemoveFAR_inv:
  assumes inv: "far_inv s u"
  shows "far_inv (snd (RemoveFAR u p s)) u"
proof (cases "UPF_Status (upfs s ! u) = AssociatedSetUpSuccess")
  case True
  note u = far_inv_bound [OF inv]
  have wf: "pool_wf (far_gen s u)" using inv by (simp add: far_inv_def Let_def)
  show ?thesis
  proof (cases "deref (fars s) p")
    case (Inl e)
    then show ?thesis using True u inv by (simp add: RemoveFAR_def)
  next
    case (Inr far)
    then have "snd (RemoveFAR u p s) = s\<lparr>upfs := (upfs s)[u := (upfs s ! u)
      \<lparr>farIDGenerator := FreeID (far_gen s u) (uint (FARID far)), farPool := (farPool (upfs s ! u))(FARID far := None)\<rparr>]\<rparr>"
      using True u by (simp add: RemoveFAR_def)
    moreover have "uint i = uint (FARID far) \<longleftrightarrow> i = FARID far" for i by (metis word_uint_eq_iff)
    ultimately show ?thesis using inv u FreeID_laws [OF wf uint_u32_i64 [of "FARID far"]]
      by (auto simp: far_inv_def Let_def split: if_splits)
  qed
next
  case False
  then show ?thesis using inv far_inv_bound [OF inv] by (simp add: RemoveFAR_def)
qed

lemma rule_step_inv: "far_inv s u \<Longrightarrow> far_inv (rule_step u op s) u"
  by (cases op) (simp_all add: AddPDR_inv AddFAR_inv AddBAR_inv Remove_inv RemoveFAR_inv)

text \<open>
  C13. The invariant of the FAR identifiers holds after every sequence of additions and removals of
  rules on a UPF that has just been associated, whatever the order and whatever calls fail.
\<close>

theorem rule_history_invariant:
  assumes "far_inv s u"
  shows "far_inv (fold (rule_step u) ops s) u"
  using assms by (induction ops arbitrary: s) (simp_all add: rule_step_inv)

theorem rule_history_invariant_witness:
  "\<forall>n. far_inv (fold (rule_step 0) [Add_PDR, Add_FAR, Remove_FAR 0, Add_PDR, Remove_PDR 0, Add_BAR] (one_upf n)) 0"
  using rule_history_invariant [OF one_upf_inv] by blast

section \<open>Identifiers of packet detection rules\<close>

text \<open>
  The FAR generator of a UPF after \<open>m\<close> allocations and no release.
\<close>

definition far_gen_at :: "nat \<Rightarrow> IDGenerator" where
  "far_gen_at m = \<lparr>minValue = 1, maxValue = 2 ^ 32 - 1, valueRange = 2 ^ 32 - 1, offset = int m,
     usedMap = (\<lambda>k. if 0 \<le> k \<and> k < int m then Some True else None)\<rparr>"

lemma far_gen_at_wf: "int m < 2 ^ 32 - 1 \<Longrightarrow> pool_wf (far_gen_at m)"
  by (auto simp: pool_wf_def far_gen_at_def pool_size_def i64_def split: if_splits)

lemma Allocate_far_gen_at:
  assumes "int m < 2 ^ 32 - 2"
  shows "Allocate (far_gen_at m) = Some (Inr (far_gen_at (Suc m), Some (int m + 1)))"
proof -
  have wf: "pool_wf (far_gen_at m)" using assms by (simp add: far_gen_at_wf)
  have "Allocate (far_gen_at m) = Some (Inr ((far_gen_at m)\<lparr>offset := (cyc (far_gen_at m) 0 + 1) mod pool_size (far_gen_at m),
        usedMap := (usedMap (far_gen_at m))(cyc (far_gen_at m) 0 \<mapsto> True)\<rparr>, Some (cyc (far_gen_at m) 0 + minValue (far_gen_at m))))"
    by (rule Allocate_at [OF wf]) (simp_all add: wf, simp_all add: far_gen_at_def pool_size_def)
  moreover have "(int m + 1) mod 4294967295 = int m + 1" using assms by simp
  ultimately show ?thesis
    using wf by (simp add: far_gen_at_def pool_size_def fun_eq_iff)
qed

lemma far_gen_at_0: "NewGenerator 1 (2 ^ 32 - 1) = far_gen_at 0"
  by (auto simp: NewGenerator_def init_def far_gen_at_def wrap64_def fun_eq_iff)

text \<open>An associated UPF on which \<open>n\<close> PDRs have been added and nothing removed.\<close>

definition pdrs_added :: "nat \<Rightarrow> 'a smf_heap_scheme \<Rightarrow> nat \<Rightarrow> bool" where
  "pdrs_added n s u \<longleftrightarrow> u < length (upfs s) \<and> UPF_Status (upfs s ! u) = AssociatedSetUpSuccess \<and>
     far_gen s u = far_gen_at (2 * n) \<and> length (pdrs s) = n \<and>
     (\<forall>k < n. PDRID (pdrs s ! k) = of_nat (2 * k + 1))"

lemma alloc_far_at:
  "u < length (upfs s) \<Longrightarrow> far_gen s u = far_gen_at m \<Longrightarrow> int m < 2 ^ 32 - 2 \<Longrightarrow>
   alloc_far u s = (Inr (int m + 1), s\<lparr>upfs := (upfs s)[u := (upfs s ! u)\<lparr>farIDGenerator := far_gen_at (Suc m)\<rparr>]\<rparr>)"
  by (simp add: alloc_from_def Allocate_far_gen_at)

lemma AddPDR_added:
  assumes "pdrs_added n s u" "int n < 2 ^ 31 - 2"
  shows "\<exists>s'. AddPDR u s = (Inr n, s') \<and> pdrs_added (Suc n) s' u \<and>
    pdrPool (upfs s' ! u) = (pdrPool (upfs s ! u))(of_nat (2 * n + 1) \<mapsto> n)"
proof -
  have u: "u < length (upfs s)" "UPF_Status (upfs s ! u) = AssociatedSetUpSuccess"
      "far_gen s u = far_gen_at (2 * n)" "length (pdrs s) = n"
    and ids: "\<forall>k < n. PDRID (pdrs s ! k) = of_nat (2 * k + 1)"
    using assms(1) by (simp_all add: pdrs_added_def)
  define i :: u16 where "i = of_nat (2 * n + 1)"
  have i: "2 * word_of_nat n + 1 = i" by (simp add: i_def)
  let ?x = "(upfs s ! u)\<lparr>farIDGenerator := far_gen_at (Suc (2 * n)), pdrPool := (pdrPool (upfs s ! u))(i \<mapsto> n)\<rparr>"
  let ?s = "s\<lparr>pdrs := pdrs s @ [PDR_new\<lparr>PDRID := i\<rparr>], upfs := (upfs s)[u := ?x]\<rparr>"
  have a: "AddFAR u ?s = (Inr (length (fars s)), ?s\<lparr>fars := fars s @ [FAR_new\<lparr>FARID := of_nat (2 * n + 2)\<rparr>],
     upfs := (upfs s)[u := ?x\<lparr>farIDGenerator := far_gen_at (2 * Suc n), farPool := (farPool ?x)(of_nat (2 * n + 2) \<mapsto> length (fars s))\<rparr>]\<rparr>)"
    using u assms(2) by (simp add: AddFAR_def farID_def alloc_far_at [where m = "Suc (2 * n)"] add.commute)
  have "AddPDR u s = (Inr n, (snd (AddFAR u ?s))\<lparr>pdrs := pdrs s @ [PDR_new\<lparr>PDRID := i, PDR_FAR := Some (length (fars s))\<rparr>]\<rparr>)"
    using u assms(2) a by (simp add: AddPDR_def pdrID_def alloc_far_at [where m = "2 * n"] i nth_append list_update_append)
  then show ?thesis using u ids a by (auto simp: pdrs_added_def nth_append less_Suc_eq i [symmetric] add.commute)
qed

primrec add_pdrs :: "nat \<Rightarrow> nat \<Rightarrow> 'a smf_heap_scheme \<Rightarrow> 'a smf_heap_scheme" where
  "add_pdrs u 0 s = s"
| "add_pdrs u (Suc n) s = snd (AddPDR u (add_pdrs u n s))"

lemma add_pdrs_added:
  "pdrs_added 0 s u \<Longrightarrow> int n < 2 ^ 31 - 1 \<Longrightarrow> pdrs_added n (add_pdrs u n s) u"
proof (induction n)
  case (Suc n)
  then show ?case using AddPDR_added [of n "add_pdrs u n s" u] by auto
qed simp

text \<open>
  PDR identifiers are truncated FAR identifiers, and are reused while in use: on a UPF that has
  just been associated, 32769 calls of \<^verbatim>\<open>AddPDR\<close> without any removal all succeed; the first and the
  last PDR both get identifier 1, and the pool keeps only the last one under it.
\<close>

theorem pdr_identifier_collision:
  assumes "u < length (upfs s)" "UPF_Status (upfs s ! u) = AssociatedSetUpSuccess" "pdrs s = []"
    "far_gen s u = NewGenerator 1 (2 ^ 32 - 1)"
  shows "\<exists>s'. AddPDR u (add_pdrs u 32768 s) = (Inr 32768, s') \<and> PDRID (pdrs s' ! 0) = 1 \<and>
    PDRID (pdrs s' ! 32768) = 1 \<and> pdrPool (upfs s' ! u) 1 = Some 32768"
proof -
  have "pdrs_added 0 s u" using assms unfolding far_gen_at_0 by (simp add: pdrs_added_def)
  then have "pdrs_added 32768 (add_pdrs u 32768 s) u" by (rule add_pdrs_added) simp
  from AddPDR_added [OF this] obtain s' where s': "AddPDR u (add_pdrs u 32768 s) = (Inr 32768, s')"
    "pdrs_added (Suc 32768) s' u"
    "pdrPool (upfs s' ! u) = (pdrPool (upfs (add_pdrs u 32768 s) ! u))(of_nat (2 * 32768 + 1) \<mapsto> 32768)" by auto
  have one: "of_nat (2 * 32768 + 1) = (1 :: u16)" by simp
  have "PDRID (pdrs s' ! k) = of_nat (2 * k + 1)" if "k < Suc 32768" for k
    using s'(2) that unfolding pdrs_added_def by blast
  from this [of 0] this [of 32768] show ?thesis
    using s'(1,3) unfolding one by (intro exI [of _ s']) simp
qed

theorem pdr_identifier_collision_witness:
  "\<forall>n. \<exists>s'. AddPDR 0 (add_pdrs 0 32768 (one_upf n)) = (Inr 32768, s') \<and> PDRID (pdrs s' ! 0) = PDRID (pdrs s' ! 32768)"
proof
  fix n
  show "\<exists>s'. AddPDR 0 (add_pdrs 0 32768 (one_upf n)) = (Inr 32768, s') \<and> PDRID (pdrs s' ! 0) = PDRID (pdrs s' ! 32768)"
    using pdr_identifier_collision [of 0 "one_upf n"] by (force simp: one_upf_def UPF_init_def)
qed

section \<open>Whom an association response concerns\<close>

lemma retrieve_target:
  assumes "es \<noteq> []"
  shows "\<exists>u \<in> snd ` set es. RetrieveUPFNodeByNodeID us es n = Some u \<and>
    ((\<exists>(k, v) \<in> set es. UPF_NodeID (us ! v) = n) \<longrightarrow> UPF_NodeID (us ! u) = n) \<and>
    ((\<forall>(k, v) \<in> set es. UPF_NodeID (us ! v) \<noteq> n) \<longrightarrow> u = snd (last es))"
proof (cases "\<exists>(k, v) \<in> set es. UPF_NodeID (us ! v) = n")
  case True
  from retrieve_match [OF this, of None] obtain u where u: "retrieve_range us n es None = Some u"
    "u \<in> snd ` set es" "UPF_NodeID (us ! u) = n" by blast
  then show ?thesis using True by (intro bexI [OF _ u(2)]) (auto simp: RetrieveUPFNodeByNodeID_def)
next
  case False
  then have "\<forall>(k, v) \<in> set es. UPF_NodeID (us ! v) \<noteq> n" by auto
  from retrieve_no_match [OF this, of None] False show ?thesis
    using assms by (auto simp: RetrieveUPFNodeByNodeID_def)
qed

text \<open>
  An accepted association response marks one UPF of the pool as associated and gives it the
  announced user-plane resources. That UPF is the one with the node identity of the response when the
  pool has one; otherwise it is whatever UPF \<^verbatim>\<open>Range\<close> visited last, although no UPF of the pool
  has that identity: the lookup of an unknown node does not return nil.
\<close>

theorem association_response_target:
  assumes "es \<noteq> []" "\<forall>u \<in> snd ` set es. u < length (upfs s)"
  shows "\<exists>u \<in> snd ` set es.
    HandlePfcpAssociationSetupResponse es (Some n) (Some CauseRequestAccepted) (Some info) s =
      (Inr (), s\<lparr>upfs := (upfs s)[u := (upfs s ! u)\<lparr>UPF_Status := AssociatedSetUpSuccess, UPIPInfo := info\<rparr>]\<rparr>) \<and>
    ((\<exists>(k, v) \<in> set es. UPF_NodeID (upfs s ! v) = n) \<longrightarrow> UPF_NodeID (upfs s ! u) = n) \<and>
    ((\<forall>(k, v) \<in> set es. UPF_NodeID (upfs s ! v) \<noteq> n) \<longrightarrow> u = snd (last es))"
proof -
  obtain u where u: "u \<in> snd ` set es" "RetrieveUPFNodeByNodeID (upfs s) es n = Some u"
    "(\<exists>(k, v) \<in> set es. UPF_NodeID (upfs s ! v) = n) \<longrightarrow> UPF_NodeID (upfs s ! u) = n"
    "(\<forall>(k, v) \<in> set es. UPF_NodeID (upfs s ! v) \<noteq> n) \<longrightarrow> u = snd (last es)"
    using retrieve_target [OF assms(1)] by blast
  moreover have "u < length (upfs s)" using assms(2) u(1) by blast
  ultimately show ?thesis
    by (intro bexI [OF _ u(1)]) (simp add: HandlePfcpAssociationSetupResponse_def)
qed

text \<open>
  The witness is a pool with one UPF, with node identity 10.0.0.1, and a response of 10.0.0.2.
\<close>

definition node4 :: "u8 \<Rightarrow> NodeID" where
  "node4 b = \<lparr>NodeID_NodeIdType = 0, NodeID_NodeIdValue = [10, 0, 0, b]\<rparr>"

theorem association_response_target_witness:
  "\<forall>info. snd (HandlePfcpAssociationSetupResponse [(''u'', 0)] (Some (node4 2)) (Some CauseRequestAccepted) (Some info)
       (one_upf (node4 1))) =
     (one_upf (node4 1))\<lparr>upfs := [(upfs (one_upf (node4 1)) ! 0)\<lparr>UPF_Status := AssociatedSetUpSuccess, UPIPInfo := info\<rparr>]\<rparr>"
proof
  fix info
  show "snd (HandlePfcpAssociationSetupResponse [(''u'', 0)] (Some (node4 2)) (Some CauseRequestAccepted) (Some info)
       (one_upf (node4 1))) =
     (one_upf (node4 1))\<lparr>upfs := [(upfs (one_upf (node4 1)) ! 0)\<lparr>UPF_Status := AssociatedSetUpSuccess, UPIPInfo := info\<rparr>]\<rparr>"
    using association_response_target [of "[(''u'', 0)]" "one_upf (node4 1)" "node4 2" info]
    by (auto simp: one_upf_def)
qed

text \<open>The release handler, in contrast, removes an entry only if its node identity is the requested one.\<close>

lemma release_request_known:
  assumes "enumerates es (upfPool s)" "\<exists>(k, u) \<in> set es. UPF_NodeID (upfs s ! u) = n"
  shows "\<exists>k u. upfPool s k = Some u \<and> UPF_NodeID (upfs s ! u) = n \<and>
    HandlePfcpAssociationReleaseRequest es (Some n) s =
      (Inr (n, CauseRequestAccepted), s\<lparr>upfPool := (upfPool s)(k := None)\<rparr>)"
proof -
  have es: "es \<noteq> []" using assms(2) by auto
  obtain k u where "upfPool s k = Some u" "UPF_NodeID (upfs s ! u) = n"
    "RemoveUPFNodeByNodeId (upfs s) es n (upfPool s) = (upfPool s)(k := None)"
    using remove_match [of es "upfPool s"] assms unfolding enumerates_def by metis
  moreover obtain v where "RetrieveUPFNodeByNodeID (upfs s) es n = Some v" using retrieve_target [OF es] by blast
  ultimately show ?thesis
    by (intro exI [of _ k] exI [of _ u]) (simp add: HandlePfcpAssociationReleaseRequest_def)
qed

end
