(* ===== verification/SMF_Topology.thy ===== *)
theory SMF_Topology
  imports SMF_UPF
begin

text \<open>
  The user-plane topology of the SMF (\<^verbatim>\<open>src/smf/context/user_plane_information.go\<close>): the graph of
  access nodes and UPFs, the depth-first search \<^verbatim>\<open>getPathBetween\<close> and the cached default paths per
  DNN. Nodes are heap objects; a \<^verbatim>\<open>map[string]*UPNode\<close> that the code ranges over is the list of its
  entries in the order of the iteration. \<^verbatim>\<open>reflect.DeepEqual\<close> of two nodes is the parameter \<open>deq\<close>:
  it is reflexive, and since it compares the UUIDs of the nodes' UPFs it tells nodes with different
  UPFs apart. The search recurses on fuel, which bounds the depth of the recursion; as many units as
  there are nodes are enough.
\<close>

section \<open>Nodes\<close>

datatype UPNodeType = UPNODE_UPF | UPNODE_AN | UPNode_other string

record UPNode =
  UPNode_Type :: UPNodeType
  UPNode_NodeID :: NodeID
  UPNode_ANIP :: ip
  UPNode_Dnn :: string
  Links :: "nat list"
  UPNode_UPF :: "nat option"

record UserPlaneInformation =
  UPNodes :: "(string \<times> nat) list"
  UPFs :: "(string \<times> nat) list"
  AccessNetwork :: "(string \<times> nat) list"
  UPFIPToName :: "string \<rightharpoonup> string"
  UPFsID :: "string \<rightharpoonup> string"
  UPFsIPtoID :: "string \<rightharpoonup> string"
  DefaultUserPlanePath :: "bytes \<rightharpoonup> nat list"

record topo_heap = smf_heap +
  upnodes :: "UPNode list"
  upi :: UserPlaneInformation

section \<open>The search\<close>

text \<open>
  \<open>getPathBetween\<close> returns the set of visited nodes and the path, if there is one; \<open>path_from_links\<close>
  is its loop over \<^verbatim>\<open>cur.Links\<close>. \<open>None\<close> means that the fuel has run out.
\<close>

fun getPathBetween :: "nat \<Rightarrow> (nat \<Rightarrow> nat \<Rightarrow> bool) \<Rightarrow> UPNode list \<Rightarrow> nat \<Rightarrow> nat \<Rightarrow> nat set \<Rightarrow> (nat set \<times> nat list option) option"
  and path_from_links :: "nat \<Rightarrow> (nat \<Rightarrow> nat \<Rightarrow> bool) \<Rightarrow> UPNode list \<Rightarrow> nat \<Rightarrow> nat list \<Rightarrow> nat \<Rightarrow> nat set \<Rightarrow> (nat set \<times> nat list option) option"
where
  "getPathBetween 0 deq ns cur dest visited = None"
| "getPathBetween (Suc k) deq ns cur dest visited =
     (if deq cur dest then Some (insert cur visited, Some [cur])
      else path_from_links k deq ns cur (Links (ns ! cur)) dest (insert cur visited))"
| "path_from_links k deq ns cur [] dest visited = Some (visited, None)"
| "path_from_links k deq ns cur (l # ls) dest visited =
     (if l \<notin> visited then
        case getPathBetween k deq ns l dest visited of
          None \<Rightarrow> None
        | Some (visited', Some path_tail) \<Rightarrow> Some (visited', Some (cur # path_tail))
        | Some (visited', None) \<Rightarrow> path_from_links k deq ns cur ls dest visited'
      else path_from_links k deq ns cur ls dest visited)"

section \<open>Default paths\<close>

fun find_node :: "(nat \<Rightarrow> bool) \<Rightarrow> (string \<times> nat) list \<Rightarrow> nat option" where
  "find_node P [] = None"
| "find_node P ((name, p) # es) = (if P p then Some p else find_node P es)"

text \<open>
  The test of the loop over \<^verbatim>\<open>upi.UPFs\<close>: a nil network instance is \<open>[]\<close> here.
\<close>

definition serves_dnn :: "'a topo_heap_scheme \<Rightarrow> bytes \<Rightarrow> nat \<Rightarrow> bool" where
  "serves_dnn s dnn p \<longleftrightarrow>
     (case UPNode_UPF (upnodes s ! p) of
        None \<Rightarrow> False
      | Some u \<Rightarrow> UPIP_NetworkInstance (UPIPInfo (upfs s ! u)) \<noteq> [] \<and> UPIP_NetworkInstance (UPIPInfo (upfs s ! u)) = dnn)"

text \<open>
  \<^verbatim>\<open>GenerateDefaultPath\<close> reads \<^verbatim>\<open>path[0]\<close> before it looks at \<^verbatim>\<open>pathExist\<close>: without a path this is
  an index out of range.
\<close>

definition GenerateDefaultPath :: "(nat \<Rightarrow> nat \<Rightarrow> bool) \<Rightarrow> bytes \<Rightarrow> ('a topo_heap_scheme, bool) go" where
  "GenerateDefaultPath deq dnn =
     bind (gets (\<lambda>s. find_node (\<lambda>p. UPNode_Type (upnodes s ! p) = UPNODE_AN) (AccessNetwork (upi s)))) (\<lambda>source.
     case source of
       None \<Rightarrow> ret False
     | Some src \<Rightarrow>
         bind (gets (\<lambda>s. find_node (serves_dnn s dnn) (UPFs (upi s)))) (\<lambda>destination.
         case destination of
           None \<Rightarrow> ret False
         | Some dst \<Rightarrow>
             bind (gets (\<lambda>s. (upnodes s, getPathBetween (length (upnodes s)) deq (upnodes s) src dst {}))) (\<lambda>(ns, r).
             case r of
               Some (_, Some (p # ps)) \<Rightarrow>
                 bind (modify (\<lambda>s. s\<lparr>upi := (upi s)\<lparr>DefaultUserPlanePath := (DefaultUserPlanePath (upi s))
                   (dnn \<mapsto> (if UPNode_Type (ns ! p) = UPNODE_AN then ps else p # ps))\<rparr>\<rparr>)) (\<lambda>_.
                 ret True)
             | _ \<Rightarrow> fail Panic)))"

definition GetDefaultUserPlanePathByDNN :: "(nat \<Rightarrow> nat \<Rightarrow> bool) \<Rightarrow> bytes \<Rightarrow> ('a topo_heap_scheme, nat list option) go" where
  "GetDefaultUserPlanePathByDNN deq dnn =
     bind (gets (\<lambda>s. DefaultUserPlanePath (upi s) dnn)) (\<lambda>path.
     case path of
       Some p \<Rightarrow> ret (Some p)
     | None \<Rightarrow>
         bind (GenerateDefaultPath deq dnn) (\<lambda>pathExist.
         if pathExist then gets (\<lambda>s. DefaultUserPlanePath (upi s) dnn) else ret None))"

definition ExistDefaultPath :: "'a topo_heap_scheme \<Rightarrow> bytes \<Rightarrow> bool" where
  "ExistDefaultPath s dnn \<longleftrightarrow> DefaultUserPlanePath (upi s) dnn \<noteq> None"

section \<open>Correctness of the search\<close>

definition linked :: "UPNode list \<Rightarrow> (nat \<times> nat) set" where
  "linked ns = {(a, b). a < length ns \<and> b \<in> set (Links (ns ! a))}"

definition links_wf :: "UPNode list \<Rightarrow> bool" where
  "links_wf ns \<longleftrightarrow> (\<forall>x \<in> set ns. \<forall>l \<in> set (Links x). l < length ns)"

text \<open>A path of the graph from \<open>a\<close> to \<open>b\<close>.\<close>

fun graph_path :: "UPNode list \<Rightarrow> nat \<Rightarrow> nat list \<Rightarrow> nat \<Rightarrow> bool" where
  "graph_path ns a [] b \<longleftrightarrow> False"
| "graph_path ns a [x] b \<longleftrightarrow> x = a \<and> a = b"
| "graph_path ns a (x # y # ps) b \<longleftrightarrow> x = a \<and> (a, y) \<in> linked ns \<and> graph_path ns y (y # ps) b"

lemma linked_bound: "links_wf ns \<Longrightarrow> (a, b) \<in> linked ns \<Longrightarrow> b < length ns"
  by (auto simp: links_wf_def linked_def)

lemma graph_path_hd: "graph_path ns a p b \<Longrightarrow> \<exists>ps. p = a # ps"
  by (induction ns a p b rule: graph_path.induct) auto

lemma search_grows:
  "getPathBetween k deq ns cur dest V = Some (V', r) \<Longrightarrow> insert cur V \<subseteq> V'"
  "path_from_links k deq ns cur ls dest V = Some (V', r) \<Longrightarrow> V \<subseteq> V'"
  by (induction k deq ns cur dest V and k deq ns cur ls dest V arbitrary: V' r and V' r
      rule: getPathBetween_path_from_links.induct)
    (fastforce split: if_splits option.splits)+

text \<open>A path found is simple, avoids the nodes visited before, and follows the links.\<close>

lemma search_sound:
  "getPathBetween k deq ns cur dest V = Some (V', Some p) \<Longrightarrow> cur < length ns \<Longrightarrow> cur \<notin> V \<Longrightarrow>
     links_wf ns \<Longrightarrow> \<forall>x. deq x dest \<longleftrightarrow> x = dest \<Longrightarrow>
     graph_path ns cur p dest \<and> distinct p \<and> set p \<inter> V = {}"
  "path_from_links k deq ns cur ls dest V = Some (V', Some p) \<Longrightarrow> cur < length ns \<Longrightarrow> cur \<in> V \<Longrightarrow>
     set ls \<subseteq> set (Links (ns ! cur)) \<Longrightarrow> links_wf ns \<Longrightarrow> \<forall>x. deq x dest \<longleftrightarrow> x = dest \<Longrightarrow>
     \<exists>ps. p = cur # ps \<and> graph_path ns cur p dest \<and> distinct p \<and> set ps \<inter> V = {}"
proof (induction k deq ns cur dest V and k deq ns cur ls dest V arbitrary: V' p and V' p
    rule: getPathBetween_path_from_links.induct)
  case (2 k deq ns cur dest V)
  show ?case
  proof (cases "deq cur dest")
    case True
    then show ?thesis using 2 by auto
  next
    case False
    then show ?thesis using 2 by fastforce
  qed
next
  case (4 k deq ns cur l ls dest V)
  show ?case
  proof (cases "l \<in> V")
    case True
    then show ?thesis using 4 by auto
  next
    case False
    have l: "(cur, l) \<in> linked ns" "l < length ns"
      using 4 by (auto simp: linked_def links_wf_def)
    show ?thesis
    proof (cases "getPathBetween k deq ns l dest V")
      case None
      then show ?thesis using 4 False by simp
    next
      case (Some a)
      obtain V1 r where a: "a = (V1, r)" by fastforce
      show ?thesis
      proof (cases r)
        case None
        have "V \<subseteq> V1" using search_grows(1) Some a by blast
        then show ?thesis using 4 False Some a None by fastforce
      next
        case r: (Some t)
        have p: "p = cur # t" using 4 False Some a r by simp
        have t: "graph_path ns l t dest \<and> distinct t \<and> set t \<inter> V = {}"
          using 4 False Some a r l by simp
        then obtain ts where "t = l # ts" using graph_path_hd by blast
        then show ?thesis using p t l "4.prems"(3) by auto
      qed
    qed
  qed
qed simp_all

text \<open>
  A search that fails leaves behind a set of visited nodes that its new nodes cannot leave, and that
  does not contain the destination.
\<close>

definition closed_from :: "UPNode list \<Rightarrow> nat set \<Rightarrow> nat set \<Rightarrow> bool" where
  "closed_from ns V V' \<longleftrightarrow> (\<forall>a \<in> V' - V. \<forall>b. (a, b) \<in> linked ns \<longrightarrow> b \<in> V')"

lemma closed_from_trans:
  "closed_from ns V V1 \<Longrightarrow> closed_from ns V1 V2 \<Longrightarrow> V1 \<subseteq> V2 \<Longrightarrow> closed_from ns V V2"
  by (auto simp: closed_from_def)

lemma closed_from_insert:
  assumes "closed_from ns (insert c V) V'" "set (Links (ns ! c)) \<subseteq> V'"
  shows "closed_from ns V V'"
  unfolding closed_from_def
proof (intro ballI allI impI)
  fix a b
  assume a: "a \<in> V' - V" "(a, b) \<in> linked ns"
  show "b \<in> V'"
  proof (cases "a = c")
    case True
    then show ?thesis using a assms(2) by (auto simp: linked_def)
  next
    case False
    then have "a \<in> V' - insert c V" using a by blast
    then show ?thesis using a(2) assms(1) unfolding closed_from_def by blast
  qed
qed

lemma path_from_links_fails:
  assumes "path_from_links k deq ns cur (l # ls) dest V = Some (V', None)" "l \<notin> V"
  shows "\<exists>V1. getPathBetween k deq ns l dest V = Some (V1, None) \<and>
    path_from_links k deq ns cur ls dest V1 = Some (V', None)"
proof (cases "getPathBetween k deq ns l dest V")
  case (Some a)
  obtain V1 r where "a = (V1, r)" by (cases a)
  then show ?thesis using Some assms by (cases r) simp_all
qed (use assms in simp)

lemma search_complete:
  "getPathBetween k deq ns cur dest V = Some (V', None) \<Longrightarrow> dest \<notin> V \<Longrightarrow> \<forall>x. deq x dest \<longleftrightarrow> x = dest \<Longrightarrow>
     dest \<notin> V' \<and> closed_from ns V V'"
  "path_from_links k deq ns cur ls dest V = Some (V', None) \<Longrightarrow> dest \<notin> V \<Longrightarrow> \<forall>x. deq x dest \<longleftrightarrow> x = dest \<Longrightarrow>
     dest \<notin> V' \<and> closed_from ns V V' \<and> set ls \<subseteq> V'"
proof (induction k deq ns cur dest V and k deq ns cur ls dest V arbitrary: V' and V'
    rule: getPathBetween_path_from_links.induct)
  case (2 k deq ns cur dest V)
  have "\<not> deq cur dest" using "2.prems"(1) by auto
  then have r: "path_from_links k deq ns cur (Links (ns ! cur)) dest (insert cur V) = Some (V', None)"
    and d: "dest \<notin> insert cur V" using "2.prems" by auto
  have "dest \<notin> V' \<and> closed_from ns (insert cur V) V' \<and> set (Links (ns ! cur)) \<subseteq> V'"
    using "2.IH" [OF \<open>\<not> deq cur dest\<close> r d "2.prems"(3)] .
  moreover from this have "closed_from ns V V'" using closed_from_insert [of ns cur V V'] by blast
  ultimately show ?case by simp
next
  case (4 k deq ns cur l ls dest V)
  show ?case
  proof (cases "l \<in> V")
    case True
    then have "path_from_links k deq ns cur ls dest V = Some (V', None)" using "4.prems"(1) by simp
    from "4.IH"(3) [OF _ this "4.prems"(2,3)] search_grows(2) [OF this] True show ?thesis by auto
  next
    case False
    obtain V1 where V1: "getPathBetween k deq ns l dest V = Some (V1, None)"
      "path_from_links k deq ns cur ls dest V1 = Some (V', None)"
      using path_from_links_fails [OF "4.prems"(1) False] by blast
    have 1: "dest \<notin> V1" "closed_from ns V V1" using "4.IH"(1) [OF False V1(1) "4.prems"(2,3)] by simp_all
    have 2: "dest \<notin> V'" "closed_from ns V1 V'" "set ls \<subseteq> V'"
      using "4.IH"(2) [OF False V1(1) refl refl V1(2) 1(1) "4.prems"(3)] by simp_all
    have "V1 \<subseteq> V'" "l \<in> V1" using search_grows(2) [OF V1(2)] search_grows(1) [OF V1(1)] by simp_all
    moreover have "closed_from ns V V'" using closed_from_trans [OF 1(2) 2(2)] calculation(1) .
    ultimately show ?thesis using 2 by auto
  qed
qed (simp_all add: closed_from_def)

text \<open>The fuel: every nested call visits a node that was not visited before.\<close>

lemma search_terminates:
  "cur \<notin> V \<Longrightarrow> cur < length ns \<Longrightarrow> links_wf ns \<Longrightarrow> card ({..<length ns} - V) \<le> k \<Longrightarrow>
     getPathBetween k deq ns cur dest V \<noteq> None"
  "set ls \<subseteq> {..<length ns} \<Longrightarrow> links_wf ns \<Longrightarrow> card ({..<length ns} - V) \<le> k \<Longrightarrow>
     path_from_links k deq ns cur ls dest V \<noteq> None"
proof (induction k deq ns cur dest V and k deq ns cur ls dest V rule: getPathBetween_path_from_links.induct)
  case (1 deq ns cur dest V)
  then show ?case by auto
next
  case (2 k deq ns cur dest V)
  have "card ({..<length ns} - insert cur V) < card ({..<length ns} - V)"
    using "2.prems" by (intro psubset_card_mono) auto
  moreover have "set (Links (ns ! cur)) \<subseteq> {..<length ns}" using "2.prems" by (auto simp: links_wf_def)
  ultimately show ?case using "2.IH" "2.prems" by auto
next
  case (4 k deq ns cur l ls dest V)
  show ?case
  proof (cases "l \<in> V")
    case True
    then show ?thesis using 4 by simp
  next
    case False
    obtain V1 r where V1: "getPathBetween k deq ns l dest V = Some (V1, r)"
      using "4.IH"(1) [OF False] 4 False by auto
    have "V \<subseteq> V1" using search_grows(1) [OF V1] by blast
    then have "card ({..<length ns} - V1) \<le> k"
      using "4.prems"(3) by (meson Diff_mono card_mono finite_Diff finite_lessThan le_trans subset_refl)
    then show ?thesis using 4 False V1 by (cases r) auto
  qed
qed simp

lemma closed_reaches:
  "(a, b) \<in> (linked ns)\<^sup>* \<Longrightarrow> a \<in> V \<Longrightarrow> closed_from ns {} V \<Longrightarrow> b \<in> V"
  by (induction rule: rtrancl_induct) (auto simp: closed_from_def)

lemma graph_path_reaches: "graph_path ns a p b \<Longrightarrow> (a, b) \<in> (linked ns)\<^sup>*"
  by (induction ns a p b rule: graph_path.induct) (auto intro: converse_rtrancl_into_rtrancl)

lemma search_correct:
  assumes "links_wf ns" "src < length ns" "\<forall>x. deq x dest \<longleftrightarrow> x = dest"
  shows "(src, dest) \<in> (linked ns)\<^sup>* \<Longrightarrow> \<exists>V p. getPathBetween (length ns) deq ns src dest {} = Some (V, Some p)
           \<and> graph_path ns src p dest \<and> distinct p"
    and "(src, dest) \<notin> (linked ns)\<^sup>* \<Longrightarrow> \<exists>V. getPathBetween (length ns) deq ns src dest {} = Some (V, None)"
proof -
  obtain V r where g: "getPathBetween (length ns) deq ns src dest {} = Some (V, r)"
    using search_terminates(1) [of src "{}" ns "length ns" deq dest] assms by auto
  have snd: "graph_path ns src p dest \<and> distinct p" if "r = Some p" for p
    using search_sound(1) [of "length ns" deq ns src dest "{}" V p] g that assms by auto
  have none: "(src, dest) \<notin> (linked ns)\<^sup>*" if "r = None"
    using search_complete(1) [of "length ns" deq ns src dest "{}" V] g that assms
      search_grows(1) [OF g] closed_reaches [of src dest ns V] by auto
  show "(src, dest) \<in> (linked ns)\<^sup>* \<Longrightarrow> \<exists>V p. getPathBetween (length ns) deq ns src dest {} = Some (V, Some p)
           \<and> graph_path ns src p dest \<and> distinct p"
    using g snd none by (cases r) auto
  show "(src, dest) \<notin> (linked ns)\<^sup>* \<Longrightarrow> \<exists>V. getPathBetween (length ns) deq ns src dest {} = Some (V, None)"
    using g snd graph_path_reaches by (cases r) auto
qed

section \<open>Properties\<close>

text \<open>
  What is used of \<^verbatim>\<open>reflect.DeepEqual\<close>: a node equals itself, and equal nodes have UPFs with the same
  UUID. \<open>topo_wf\<close>: the pointers are valid and no two nodes have UPFs with one UUID, since each UPF node
  gets its own \<^verbatim>\<open>NewUPF\<close>.
\<close>

definition node_uuid :: "'a topo_heap_scheme \<Rightarrow> nat \<Rightarrow> string option" where
  "node_uuid s p = map_option (\<lambda>u. UPF_uuid (upfs s ! u)) (UPNode_UPF (upnodes s ! p))"

definition deep_equal_laws :: "(nat \<Rightarrow> nat \<Rightarrow> bool) \<Rightarrow> 'a topo_heap_scheme \<Rightarrow> bool" where
  "deep_equal_laws deq s \<longleftrightarrow> (\<forall>a. deq a a) \<and>
     (\<forall>a b. deq a b \<and> b < length (upnodes s) \<longrightarrow> a < length (upnodes s) \<and> node_uuid s a = node_uuid s b)"

definition topo_wf :: "'a topo_heap_scheme \<Rightarrow> bool" where
  "topo_wf s \<longleftrightarrow> links_wf (upnodes s) \<and>
     (\<forall>(k, p) \<in> set (UPFs (upi s)) \<union> set (AccessNetwork (upi s)). p < length (upnodes s)) \<and>
     (\<forall>a b. a < length (upnodes s) \<and> b < length (upnodes s) \<and> node_uuid s a = node_uuid s b \<and> node_uuid s b \<noteq> None \<longrightarrow> a = b)"

lemma find_node_Some: "find_node P es = Some p \<Longrightarrow> P p \<and> p \<in> snd ` set es"
  by (induction P es rule: find_node.induct) (auto split: if_splits)

lemma deq_exact:
  assumes "topo_wf s" "deep_equal_laws deq s" "dst < length (upnodes s)" "node_uuid s dst \<noteq> None"
  shows "\<forall>x. deq x dst \<longleftrightarrow> x = dst"
proof (intro allI iffI)
  fix x
  assume "deq x dst"
  then have "x < length (upnodes s)" "node_uuid s x = node_uuid s dst"
    using assms(2,3) unfolding deep_equal_laws_def by blast+
  then show "x = dst" using assms unfolding topo_wf_def by blast
qed (use assms(2) in \<open>simp add: deep_equal_laws_def\<close>)

text \<open>
  C7. The depth-first search terminates and is exact: it returns a path if and only if the destination
  is reachable over the links, and a path it returns goes from the source to the destination over
  links and visits no node twice.
\<close>

theorem path_search_exact:
  assumes "links_wf ns" "src < length ns" "\<forall>x. deq x dest \<longleftrightarrow> x = dest"
  shows "\<exists>V r. getPathBetween (length ns) deq ns src dest {} = Some (V, r) \<and>
    (r \<noteq> None \<longleftrightarrow> (src, dest) \<in> (linked ns)\<^sup>*) \<and>
    (\<forall>p. r = Some p \<longrightarrow> graph_path ns src p dest \<and> distinct p)"
proof (cases "(src, dest) \<in> (linked ns)\<^sup>*")
  case True
  from search_correct(1) [of ns src deq dest, OF assms True] obtain V p where
    "getPathBetween (length ns) deq ns src dest {} = Some (V, Some p)" "graph_path ns src p dest" "distinct p"
    by blast
  then show ?thesis using True by simp
next
  case False
  from search_correct(2) [of ns src deq dest, OF assms False] show ?thesis using False by auto
qed

definition demo_nodes :: "UPNode list" where
  "demo_nodes = (let n = (\<lambda>t ls u. \<lparr>UPNode_Type = t, UPNode_NodeID = NodeID_new, UPNode_ANIP = [], UPNode_Dnn = [],
       Links = ls, UPNode_UPF = u\<rparr>) in
     [n UPNODE_AN [1, 2] None, n UPNODE_UPF [0, 2] (Some 0), n UPNODE_UPF [1, 0, 3] (Some 1), n UPNODE_UPF [2] (Some 2)])"

theorem path_search_exact_witness:
  "\<exists>V r. getPathBetween (length demo_nodes) (=) demo_nodes 0 3 {} = Some (V, r) \<and>
    (r \<noteq> None \<longleftrightarrow> (0, 3) \<in> (linked demo_nodes)\<^sup>*) \<and>
    (\<forall>p. r = Some p \<longrightarrow> graph_path demo_nodes 0 p 3 \<and> distinct p)"
  by (rule path_search_exact) (simp_all add: demo_nodes_def links_wf_def)

text \<open>The path of the example runs over all four nodes.\<close>

lemma demo_path:
  "map_option snd (getPathBetween (length demo_nodes) (=) demo_nodes 0 3 {}) = Some (Some [0, 1, 2, 3])"
  by (simp add: demo_nodes_def numeral_eq_Suc)

text \<open>
  C16. \<^verbatim>\<open>GetDefaultUserPlanePathByDNN\<close> for a DNN without a cached path, when an access node and a UPF
  that serves the DNN are configured. If the UPF is reachable, the result is the tail of a simple path
  of the topology from the access node to that UPF, and later calls return the same path without a
  search. If it is not reachable, the call panics, although the code has an error return for it.
\<close>

theorem default_path_correct:
  assumes "topo_wf s" "deep_equal_laws deq s" "DefaultUserPlanePath (upi s) dnn = None"
    and "find_node (\<lambda>p. UPNode_Type (upnodes s ! p) = UPNODE_AN) (AccessNetwork (upi s)) = Some src"
    and "find_node (serves_dnn s dnn) (UPFs (upi s)) = Some dst"
  shows "if (src, dst) \<in> (linked (upnodes s))\<^sup>*
    then \<exists>ps s'. GetDefaultUserPlanePathByDNN deq dnn s = (Inr (Some ps), s') \<and>
      graph_path (upnodes s) src (src # ps) dst \<and> distinct (src # ps) \<and>
      GetDefaultUserPlanePathByDNN deq dnn s' = (Inr (Some ps), s')
    else GetDefaultUserPlanePathByDNN deq dnn s = (Inl Panic, s)"
proof -
  have an: "UPNode_Type (upnodes s ! src) = UPNODE_AN" "src < length (upnodes s)"
    using find_node_Some [OF assms(4)] assms(1) by (auto simp: topo_wf_def)
  have "serves_dnn s dnn dst" "dst < length (upnodes s)"
    using find_node_Some [OF assms(5)] assms(1) by (auto simp: topo_wf_def)
  then have deq: "\<forall>x. deq x dst \<longleftrightarrow> x = dst"
    using deq_exact [OF assms(1,2)] by (auto simp: serves_dnn_def node_uuid_def split: option.splits)
  have wf: "links_wf (upnodes s)" using assms(1) by (simp add: topo_wf_def)
  show ?thesis
  proof (cases "(src, dst) \<in> (linked (upnodes s))\<^sup>*")
    case True
    obtain V p where p: "getPathBetween (length (upnodes s)) deq (upnodes s) src dst {} = Some (V, Some p)"
      "graph_path (upnodes s) src p dst" "distinct p"
      using search_correct(1) [of _ _ deq dst, OF wf an(2) deq True] by blast
    moreover obtain ps where "p = src # ps" using graph_path_hd [OF p(2)] by blast
    ultimately show ?thesis
      using assms True an by (simp add: GetDefaultUserPlanePathByDNN_def GenerateDefaultPath_def)
  next
    case False
    obtain V where "getPathBetween (length (upnodes s)) deq (upnodes s) src dst {} = Some (V, None)"
      using search_correct(2) [of _ _ deq dst, OF wf an(2) deq False] by blast
    then show ?thesis using assms False by (simp add: GetDefaultUserPlanePathByDNN_def GenerateDefaultPath_def)
  qed
qed

text \<open>An access node and one UPF that serves the DNN, with no link between them.\<close>

definition demo_topo :: topo_heap where
  "demo_topo = \<lparr>pdrs = [], fars = [], bars = [],
     upfs = [(UPF_init ''u'' NodeID_new)\<lparr>UPIPInfo := UserPlaneIPResourceInformation_new\<lparr>UPIP_NetworkInstance := [1]\<rparr>\<rparr>],
     upfPool = [''u'' \<mapsto> 0],
     upnodes = [\<lparr>UPNode_Type = UPNODE_AN, UPNode_NodeID = NodeID_new, UPNode_ANIP = [], UPNode_Dnn = [], Links = [], UPNode_UPF = None\<rparr>,
       \<lparr>UPNode_Type = UPNODE_UPF, UPNode_NodeID = NodeID_new, UPNode_ANIP = [], UPNode_Dnn = [], Links = [], UPNode_UPF = Some 0\<rparr>],
     upi = \<lparr>UPNodes = [(''an'', 0), (''upf'', 1)], UPFs = [(''upf'', 1)], AccessNetwork = [(''an'', 0)],
       UPFIPToName = Map.empty, UPFsID = Map.empty, UPFsIPtoID = Map.empty, DefaultUserPlanePath = Map.empty\<rparr>\<rparr>"

theorem default_path_correct_witness:
  "GetDefaultUserPlanePathByDNN (=) [1] demo_topo = (Inl Panic, demo_topo)"
proof -
  have "linked (upnodes demo_topo) = {}"
    by (auto simp: linked_def demo_topo_def nth_Cons split: nat.splits)
  moreover have "topo_wf demo_topo" "deep_equal_laws (=) demo_topo"
    by (auto simp: topo_wf_def deep_equal_laws_def links_wf_def demo_topo_def node_uuid_def less_Suc_eq)
  ultimately show ?thesis
    using default_path_correct [of demo_topo "(=)" "[1]" 0 1] by (simp add: demo_topo_def serves_dnn_def)
qed

end
