(* ===== verification/SMF_DataPath.thy ===== *)
theory SMF_DataPath
  imports SMF_Topology
begin

text \<open>
  Data paths of the SMF: the doubly linked list of nodes with their GTP tunnels
  (\<^verbatim>\<open>src/smf/context/datapath.go\<close>), their construction from a path of the topology
  (\<^verbatim>\<open>GenerateDataPath\<close> of \<^verbatim>\<open>user_plane_information.go\<close>), and the part of the session context that
  they use (\<^verbatim>\<open>sm_context.go\<close>, \<^verbatim>\<open>smf_context.go\<close>). A loop \<^verbatim>\<open>for cur := first; cur != nil; cur =
  cur.Next()\<close> reads \<^verbatim>\<open>Next\<close> after the body has run; it recurses on fuel, and \<open>None\<close> means that the fuel
  has run out. The key of a PFCP session is the string of the address that the node identity resolves
  to; for an FQDN it depends on the DNS, so that it is the parameter \<open>key\<close>.
\<close>

section \<open>State\<close>

record GTPTunnel =
  SrcEndPoint :: "nat option"
  DestEndPoint :: "nat option"
  TEID :: u32
  Tunnel_PDR :: "nat option"

record DataPathNode =
  Node_UPF :: "nat option"
  UpLinkTunnel :: "nat option"
  DownLinkTunnel :: "nat option"
  IsBranchingPoint :: bool

record Destination =
  DestinationIP :: string
  DestinationPort :: string
  Url :: string

record DataPath =
  Activated :: bool
  IsDefaultPath :: bool
  DP_Destination :: Destination
  HasBranchingPoint :: bool
  FirstDPNode :: "nat option"

record PFCPSessionContext =
  Session_PDRs :: "u16 \<rightharpoonup> nat"
  Session_NodeID :: NodeID
  LocalSEID :: u64
  RemoteSEID :: u64

text \<open>The fields of \<^verbatim>\<open>SMContext\<close> that data paths read and write.\<close>

record SMContext =
  PDUAddress :: ip_ref
  SM_Dnn :: bytes
  AN_IPAddress :: "ip option"
  AN_TEID :: u32
  PFCPContext :: "string \<rightharpoonup> PFCPSessionContext"

record dp_heap = topo_heap +
  tunnels :: "GTPTunnel list"
  dpnodes :: "DataPathNode list"
  datapaths :: "DataPath list"
  smcontexts :: "SMContext list"
  ip_arrays :: "bytes list"
  UEAddressTemp :: ip_ref
  LocalSEIDCount :: u64
  seidSMContextMap :: "u64 \<rightharpoonup> nat"

definition GTPTunnel_new :: GTPTunnel where
  "GTPTunnel_new = \<lparr>SrcEndPoint = None, DestEndPoint = None, TEID = 0, Tunnel_PDR = None\<rparr>"

text \<open>Dereferenced pointers and assignments through them.\<close>

definition the_tunnel :: "nat option \<Rightarrow> ('a dp_heap_scheme, GTPTunnel) go" where
  "the_tunnel t = lift_res (\<lambda>s. deref (tunnels s) t)"

definition the_node :: "nat option \<Rightarrow> ('a dp_heap_scheme, DataPathNode) go" where
  "the_node n = lift_res (\<lambda>s. deref (dpnodes s) n)"

definition upd_tunnel :: "nat option \<Rightarrow> (GTPTunnel \<Rightarrow> GTPTunnel) \<Rightarrow> ('a dp_heap_scheme, unit) go" where
  "upd_tunnel t f = bind (the_tunnel t) (\<lambda>x. modify (\<lambda>s. s\<lparr>tunnels := (tunnels s)[the t := f x]\<rparr>))"

definition upd_pdr :: "nat option \<Rightarrow> (PDR \<Rightarrow> PDR) \<Rightarrow> ('a dp_heap_scheme, unit) go" where
  "upd_pdr p f = bind (lift_res (\<lambda>s. deref (pdrs s) p)) (\<lambda>x. modify (\<lambda>s. s\<lparr>pdrs := (pdrs s)[the p := f x]\<rparr>))"

definition upd_far :: "nat option \<Rightarrow> (FAR \<Rightarrow> FAR) \<Rightarrow> ('a dp_heap_scheme, unit) go" where
  "upd_far p f = bind (lift_res (\<lambda>s. deref (fars s) p)) (\<lambda>x. modify (\<lambda>s. s\<lparr>fars := (fars s)[the p := f x]\<rparr>))"

definition node_upf :: "DataPathNode \<Rightarrow> ('a dp_heap_scheme, nat) go" where
  "node_upf x = (case Node_UPF x of None \<Rightarrow> fail Panic | Some u \<Rightarrow> ret u)"

section \<open>The list of nodes\<close>

text \<open>\<^verbatim>\<open>NewDataPathNode\<close>, with its two empty tunnels.\<close>

definition NewDataPathNode :: "('a dp_heap_scheme, nat) go" where
  "NewDataPathNode = (\<lambda>s.
     (Inr (length (dpnodes s)),
      s\<lparr>dpnodes := dpnodes s @ [\<lparr>Node_UPF = None, UpLinkTunnel = Some (length (tunnels s)),
           DownLinkTunnel = Some (Suc (length (tunnels s))), IsBranchingPoint = False\<rparr>],
        tunnels := tunnels s @ [GTPTunnel_new, GTPTunnel_new]\<rparr>))"

definition NewDataPath :: DataPath where
  "NewDataPath = \<lparr>Activated = False, IsDefaultPath = False,
     DP_Destination = \<lparr>DestinationIP = [], DestinationPort = [], Url = []\<rparr>,
     HasBranchingPoint = False, FirstDPNode = None\<rparr>"

definition AddNext :: "nat \<Rightarrow> nat option \<Rightarrow> ('a dp_heap_scheme, unit) go" where
  "AddNext n nx = bind (the_node (Some n)) (\<lambda>x. upd_tunnel (DownLinkTunnel x) (SrcEndPoint_update (\<lambda>_. nx)))"

definition AddPrev :: "nat \<Rightarrow> nat option \<Rightarrow> ('a dp_heap_scheme, unit) go" where
  "AddPrev n pv = bind (the_node (Some n)) (\<lambda>x. upd_tunnel (UpLinkTunnel x) (SrcEndPoint_update (\<lambda>_. pv)))"

definition Next :: "nat \<Rightarrow> ('a dp_heap_scheme, nat option) go" where
  "Next n = bind (the_node (Some n)) (\<lambda>x.
     if DownLinkTunnel x = None then ret None
     else bind (the_tunnel (DownLinkTunnel x)) (\<lambda>t. ret (SrcEndPoint t)))"

definition Prev :: "nat \<Rightarrow> ('a dp_heap_scheme, nat option) go" where
  "Prev n = bind (the_node (Some n)) (\<lambda>x.
     if UpLinkTunnel x = None then ret None
     else bind (the_tunnel (UpLinkTunnel x)) (\<lambda>t. ret (SrcEndPoint t)))"

definition IsANUPF :: "nat \<Rightarrow> ('a dp_heap_scheme, bool) go" where
  "IsANUPF n = bind (Prev n) (\<lambda>p. ret (p = None))"

definition IsAnchorUPF :: "nat \<Rightarrow> ('a dp_heap_scheme, bool) go" where
  "IsAnchorUPF n = bind (Next n) (\<lambda>p. ret (p = None))"

text \<open>The loop over the nodes of a path.\<close>

fun for_nodes :: "nat \<Rightarrow> (nat \<Rightarrow> ('a dp_heap_scheme, unit) go) \<Rightarrow> nat option \<Rightarrow> 'a dp_heap_scheme \<Rightarrow>
    (unit res \<times> 'a dp_heap_scheme) option" where
  "for_nodes k body None s = Some (Inr (), s)"
| "for_nodes 0 body (Some n) s = None"
| "for_nodes (Suc k) body (Some n) s =
     (case bind (body n) (\<lambda>_. Next n) s of
        (Inl e, s') \<Rightarrow> Some (Inl e, s')
      | (Inr nx, s') \<Rightarrow> for_nodes k body nx s')"

text \<open>\<^verbatim>\<open>GenerateDataPath\<close>: the loop over \<^verbatim>\<open>upPath\<close>, then the path itself.\<close>

fun gen_nodes :: "nat list \<Rightarrow> nat option \<Rightarrow> nat option \<Rightarrow> ('a dp_heap_scheme, nat option) go" where
  "gen_nodes [] root prv = ret root"
| "gen_nodes (p # ps) root prv =
     bind NewDataPathNode (\<lambda>cur.
     bind (lift_res (\<lambda>s. deref (upnodes s) (Some p))) (\<lambda>upNode.
     bind (modify (\<lambda>s. s\<lparr>dpnodes := (dpnodes s)[cur := (dpnodes s ! cur)\<lparr>Node_UPF := UPNode_UPF upNode\<rparr>]\<rparr>)) (\<lambda>_.
     bind (if prv = None then AddPrev cur None else ret ()) (\<lambda>_.
     bind (if ps = [] then AddNext cur None else ret ()) (\<lambda>_.
     bind (case prv of
             None \<Rightarrow> ret ()
           | Some q \<Rightarrow> bind (AddNext q (Some cur)) (\<lambda>_. AddPrev cur (Some q))) (\<lambda>_.
     gen_nodes ps (if prv = None then Some cur else root) (Some cur)))))))"

definition GenerateDataPath :: "nat list \<Rightarrow> ('a dp_heap_scheme, nat option) go" where
  "GenerateDataPath upPath =
     (if length upPath < 1 then ret None
      else bind (gen_nodes upPath None None) (\<lambda>root.
           (\<lambda>s. (Inr (Some (length (datapaths s))),
                 s\<lparr>datapaths := datapaths s @ [NewDataPath\<lparr>FirstDPNode := root\<rparr>]\<rparr>))))"

section \<open>Addresses and sessions\<close>

text \<open>
  \<^verbatim>\<open>AllocUEIP\<close> increments the last octet of the array behind \<^verbatim>\<open>UEAddressTemp\<close> and returns that very
  slice: no copy is made.
\<close>

definition AllocUEIP :: "('a dp_heap_scheme, ip_ref) go" where
  "AllocUEIP =
     bind (gets UEAddressTemp) (\<lambda>r.
     case r of
       IP_nil \<Rightarrow> fail Panic
     | IP_ref a off len \<Rightarrow>
         if 3 < len then
           bind (modify (\<lambda>s. s\<lparr>ip_arrays := (ip_arrays s)[a := (ip_arrays s ! a)[off + 3 := ip_arrays s ! a ! (off + 3) + 1]]\<rparr>)) (\<lambda>_.
           ret r)
         else fail Panic)"

text \<open>The octets a slice shows, and \<^verbatim>\<open>IP.To4\<close> on a slice, which is a sub-slice of it.\<close>

definition ip_bytes :: "'a dp_heap_scheme \<Rightarrow> ip_ref \<Rightarrow> bytes" where
  "ip_bytes s r = (case r of IP_nil \<Rightarrow> [] | IP_ref a off len \<Rightarrow> take len (drop off (ip_arrays s ! a)))"

definition To4_ref :: "'a dp_heap_scheme \<Rightarrow> ip_ref \<Rightarrow> ip_ref" where
  "To4_ref s r =
     (case r of
        IP_nil \<Rightarrow> IP_nil
      | IP_ref a off len \<Rightarrow>
          if len = 4 then r
          else if len = 16 \<and> take 12 (ip_bytes s r) = v4InV6Prefix then IP_ref a (off + 12) 4
          else IP_nil)"

definition AllocateLocalSEID :: "('a dp_heap_scheme, u64) go" where
  "AllocateLocalSEID = (\<lambda>s. (Inr (LocalSEIDCount s + 1), s\<lparr>LocalSEIDCount := LocalSEIDCount s + 1\<rparr>))"

definition upd_sm :: "nat \<Rightarrow> (SMContext \<Rightarrow> SMContext) \<Rightarrow> ('a dp_heap_scheme, unit) go" where
  "upd_sm c f = modify (\<lambda>s. s\<lparr>smcontexts := (smcontexts s)[c := f (smcontexts s ! c)]\<rparr>)"

definition new_session :: "NodeID \<Rightarrow> u64 \<Rightarrow> PFCPSessionContext" where
  "new_session n seid = \<lparr>Session_PDRs = Map.empty, Session_NodeID = n, LocalSEID = seid, RemoteSEID = 0\<rparr>"

definition alloc_session :: "(NodeID \<Rightarrow> string) \<Rightarrow> nat \<Rightarrow> NodeID \<Rightarrow> ('a dp_heap_scheme, unit) go" where
  "alloc_session key c n =
     bind (gets (\<lambda>s. PFCPContext (smcontexts s ! c) (key n))) (\<lambda>old.
     if old = None then
       bind AllocateLocalSEID (\<lambda>seid.
       bind (upd_sm c (\<lambda>x. x\<lparr>PFCPContext := (PFCPContext x)(key n \<mapsto> new_session n seid)\<rparr>)) (\<lambda>_.
       modify (\<lambda>s. s\<lparr>seidSMContextMap := (seidSMContextMap s)(seid \<mapsto> c)\<rparr>)))
     else ret ())"

definition AllocateLocalSEIDForDataPath :: "nat \<Rightarrow> (NodeID \<Rightarrow> string) \<Rightarrow> nat \<Rightarrow> DataPath \<Rightarrow> 'a dp_heap_scheme \<Rightarrow>
    (unit res \<times> 'a dp_heap_scheme) option" where
  "AllocateLocalSEIDForDataPath k key c dp =
     for_nodes k (\<lambda>n. bind (the_node (Some n)) (\<lambda>x.
       bind (node_upf x) (\<lambda>u. bind (get_UPF u) (\<lambda>upf. alloc_session key c (UPF_NodeID upf))))) (FirstDPNode dp)"

fun AllocateLocalSEIDForUPPath :: "(NodeID \<Rightarrow> string) \<Rightarrow> nat \<Rightarrow> nat list \<Rightarrow> ('a dp_heap_scheme, unit) go" where
  "AllocateLocalSEIDForUPPath key c [] = ret ()"
| "AllocateLocalSEIDForUPPath key c (p # ps) =
     bind (lift_res (\<lambda>s. deref (upnodes s) (Some p))) (\<lambda>x.
     bind (alloc_session key c (UPNode_NodeID x)) (\<lambda>_.
     AllocateLocalSEIDForUPPath key c ps))"

text \<open>
  Both functions on the session's PDRs look the session up without a check: a missing session is a
  nil pointer, and so is the PDR of a failed \<^verbatim>\<open>AddPDR\<close>.
\<close>

definition PutPDRtoPFCPSession :: "(NodeID \<Rightarrow> string) \<Rightarrow> nat \<Rightarrow> NodeID \<Rightarrow> nat option \<Rightarrow> ('a dp_heap_scheme, unit) go" where
  "PutPDRtoPFCPSession key c n p =
     bind (gets (\<lambda>s. PFCPContext (smcontexts s ! c) (key n))) (\<lambda>sess.
     case sess of
       None \<Rightarrow> fail Panic
     | Some x \<Rightarrow>
         bind (lift_res (\<lambda>s. deref (pdrs s) p)) (\<lambda>pdr.
         upd_sm c (\<lambda>y. y\<lparr>PFCPContext := (PFCPContext y)(key n \<mapsto>
           x\<lparr>Session_PDRs := (Session_PDRs x)(PDRID pdr \<mapsto> the p)\<rparr>)\<rparr>)))"

definition RemovePDRfromPFCPSession :: "(NodeID \<Rightarrow> string) \<Rightarrow> nat \<Rightarrow> NodeID \<Rightarrow> nat option \<Rightarrow> ('a dp_heap_scheme, unit) go" where
  "RemovePDRfromPFCPSession key c n p =
     bind (gets (\<lambda>s. PFCPContext (smcontexts s ! c) (key n))) (\<lambda>sess.
     case sess of
       None \<Rightarrow> fail Panic
     | Some x \<Rightarrow>
         bind (lift_res (\<lambda>s. deref (pdrs s) p)) (\<lambda>pdr.
         upd_sm c (\<lambda>y. y\<lparr>PFCPContext := (PFCPContext y)(key n \<mapsto>
           x\<lparr>Session_PDRs := (Session_PDRs x)(PDRID pdr := None)\<rparr>)\<rparr>)))"

section \<open>Activation\<close>

text \<open>
  \<^verbatim>\<open>ActivateUpLinkTunnel\<close> logs a failed \<^verbatim>\<open>AddPDR\<close> and goes on with a nil PDR;
  \<^verbatim>\<open>ActivateDownLinkTunnel\<close> returns the error. Log messages are left out.
\<close>

definition ActivateUpLinkTunnel :: "(NodeID \<Rightarrow> string) \<Rightarrow> nat \<Rightarrow> nat \<Rightarrow> ('a dp_heap_scheme, unit) go" where
  "ActivateUpLinkTunnel key c n =
     bind (the_node (Some n)) (\<lambda>x.
     bind (Prev n) (\<lambda>p.
     bind (upd_tunnel (UpLinkTunnel x) (\<lambda>t. t\<lparr>SrcEndPoint := p, DestEndPoint := Some n\<rparr>)) (\<lambda>_.
     bind (node_upf x) (\<lambda>u.
     bind (handle (AddPDR u) (\<lambda>_. ret None) (\<lambda>q. ret (Some q))) (\<lambda>pdr.
     bind (upd_tunnel (UpLinkTunnel x) (Tunnel_PDR_update (\<lambda>_. pdr))) (\<lambda>_.
     bind (get_UPF u) (\<lambda>upf.
     bind (PutPDRtoPFCPSession key c (UPF_NodeID upf) pdr) (\<lambda>_.
     bind (GenerateTEID u) (\<lambda>teid.
     upd_tunnel (UpLinkTunnel x) (TEID_update (\<lambda>_. teid)))))))))))"

definition ActivateDownLinkTunnel :: "(NodeID \<Rightarrow> string) \<Rightarrow> nat \<Rightarrow> nat \<Rightarrow> ('a dp_heap_scheme, unit) go" where
  "ActivateDownLinkTunnel key c n =
     bind (the_node (Some n)) (\<lambda>x.
     bind (Next n) (\<lambda>p.
     bind (upd_tunnel (DownLinkTunnel x) (\<lambda>t. t\<lparr>SrcEndPoint := p, DestEndPoint := Some n\<rparr>)) (\<lambda>_.
     bind (node_upf x) (\<lambda>u.
     bind (handle (AddPDR u) (\<lambda>e. fail (Err (''AddPDR failed: '' @ e))) ret) (\<lambda>pdr.
     bind (upd_tunnel (DownLinkTunnel x) (Tunnel_PDR_update (\<lambda>_. Some pdr))) (\<lambda>_.
     bind (get_UPF u) (\<lambda>upf.
     bind (PutPDRtoPFCPSession key c (UPF_NodeID upf) (Some pdr)) (\<lambda>_.
     bind (GenerateTEID u) (\<lambda>teid.
     upd_tunnel (DownLinkTunnel x) (TEID_update (\<lambda>_. teid)))))))))))"

definition activate_node :: "(NodeID \<Rightarrow> string) \<Rightarrow> nat \<Rightarrow> nat \<Rightarrow> ('a dp_heap_scheme, unit) go" where
  "activate_node key c n =
     bind (handle (ActivateUpLinkTunnel key c n) (\<lambda>_. ret ()) ret) (\<lambda>_.
     handle (ActivateDownLinkTunnel key c n) (\<lambda>_. ret ()) ret)"

definition forward_action :: ApplyAction where
  "forward_action = ApplyAction_new\<lparr>ApplyAction_Forw := True\<rparr>"

definition iface_access :: u8 where "iface_access = 0"
definition iface_core :: u8 where "iface_core = 1"
definition iface_n6 :: u8 where "iface_n6 = 2"

definition local_fteid :: "UPF \<Rightarrow> u32 \<Rightarrow> FTEID" where
  "local_fteid upf teid = FTEID_new\<lparr>FTEID_V4 := True, FTEID_Ipv4Address := UPIP_Ipv4Address (UPIPInfo upf), FTEID_Teid := teid\<rparr>"

definition gtp_header :: "ip \<Rightarrow> u32 \<Rightarrow> OuterHeaderCreation" where
  "gtp_header a teid = OuterHeaderCreation_new\<lparr>OHC_OuterHeaderCreationDescription := 1, OHC_Ipv4Address := a, OHC_Teid := teid\<rparr>"

definition ue_ip :: "'a dp_heap_scheme \<Rightarrow> nat \<Rightarrow> UEIP" where
  "ue_ip s c = \<lparr>UEIP_V4 = True, UEIP_Ipv4Address = To4_ref s (PDUAddress (smcontexts s ! c))\<rparr>"

definition source_if :: "u8 \<Rightarrow> PDI" where
  "source_if i = PDI_new\<lparr>PDI_SourceInterface := \<lparr>SourceInterface_InterfaceValue = i\<rparr>\<rparr>"

definition dest_if :: "u8 \<Rightarrow> ForwardingParameters" where
  "dest_if i = \<lparr>FP_DestinationInterface = \<lparr>DestinationInterface_InterfaceValue = i\<rparr>, FP_NetworkInstance = [],
     FP_OuterHeaderCreation = None, FP_ForwardingPolicyID = []\<rparr>"

definition gtpu_removal :: OuterHeaderRemoval where
  "gtpu_removal = \<lparr>OuterHeaderRemoval_OuterHeaderRemovalDescription = 0\<rparr>"

text \<open>The UPF at the end of a tunnel, \<^verbatim>\<open>tunnel.DestEndPoint.UPF\<close>.\<close>

definition end_upf :: "nat option \<Rightarrow> ('a dp_heap_scheme, UPF) go" where
  "end_upf n = bind (the_node n) (\<lambda>d. bind (node_upf d) get_UPF)"

definition setup_uplink :: "nat \<Rightarrow> nat \<Rightarrow> ('a dp_heap_scheme, unit) go" where
  "setup_uplink c n =
     bind (the_node (Some n)) (\<lambda>x.
     if UpLinkTunnel x = None then ret ()
     else
       bind (the_tunnel (UpLinkTunnel x)) (\<lambda>ul.
       bind (end_upf (DestEndPoint ul)) (\<lambda>upf.
       bind (gets (\<lambda>s. ue_ip s c)) (\<lambda>ip.
       bind (upd_pdr (Tunnel_PDR ul) (\<lambda>p. p\<lparr>Precedence := 32,
          PDR_PDI := (source_if iface_access)\<lparr>PDI_LocalFTeid := Some (local_fteid upf (TEID ul)), PDI_UEIPAddress := Some ip\<rparr>,
          PDR_OuterHeaderRemoval := Some gtpu_removal\<rparr>)) (\<lambda>_.
       bind (lift_res (\<lambda>s. deref (pdrs s) (Tunnel_PDR ul))) (\<lambda>p.
       bind (gets (\<lambda>s. SM_Dnn (smcontexts s ! c))) (\<lambda>dnn.
       bind (IsAnchorUPF n) (\<lambda>anchor.
       bind (upd_far (PDR_FAR p) (\<lambda>f. f\<lparr>FAR_ApplyAction := forward_action,
          FAR_ForwardingParameters := Some ((dest_if (if anchor then iface_n6 else iface_core))\<lparr>FP_NetworkInstance := dnn\<rparr>)\<rparr>)) (\<lambda>_.
       bind (Next n) (\<lambda>nx.
       case nx of
         None \<Rightarrow> ret ()
       | Some m \<Rightarrow>
           bind (the_node (Some m)) (\<lambda>y.
           bind (the_tunnel (UpLinkTunnel y)) (\<lambda>nul.
           bind (end_upf (DestEndPoint nul)) (\<lambda>nupf.
           upd_far (PDR_FAR p) (\<lambda>f. f\<lparr>FAR_ForwardingParameters :=
             map_option (FP_OuterHeaderCreation_update (\<lambda>_.
               Some (gtp_header (UPIP_Ipv4Address (UPIPInfo nupf)) (TEID nul)))) (FAR_ForwardingParameters f)\<rparr>))))))))))))))"

text \<open>The downlink to the access network: it is written to the FAR of the first node of the path.\<close>

definition setup_access :: "nat \<Rightarrow> nat option \<Rightarrow> ('a dp_heap_scheme, unit) go" where
  "setup_access c first =
     bind (gets (\<lambda>s. smcontexts s ! c)) (\<lambda>sm.
     case AN_IPAddress sm of
       None \<Rightarrow> ret ()
     | Some anIP \<Rightarrow>
         bind (the_node first) (\<lambda>x.
         bind (the_tunnel (DownLinkTunnel x)) (\<lambda>dl.
         bind (lift_res (\<lambda>s. deref (pdrs s) (Tunnel_PDR dl))) (\<lambda>p.
         upd_far (PDR_FAR p) (\<lambda>f. f\<lparr>FAR_ForwardingParameters :=
           Some ((dest_if iface_access)\<lparr>FP_NetworkInstance := SM_Dnn sm,
             FP_OuterHeaderCreation := Some (gtp_header (To4 anIP) (AN_TEID sm))\<rparr>)\<rparr>)))))"

definition setup_downlink :: "nat \<Rightarrow> nat option \<Rightarrow> nat \<Rightarrow> ('a dp_heap_scheme, unit) go" where
  "setup_downlink c first n =
     bind (the_node (Some n)) (\<lambda>x.
     if DownLinkTunnel x = None then ret ()
     else
       bind (the_tunnel (DownLinkTunnel x)) (\<lambda>dl.
       bind (end_upf (DestEndPoint dl)) (\<lambda>upf.
       bind (gets (\<lambda>s. ue_ip s c)) (\<lambda>ip.
       bind (IsAnchorUPF n) (\<lambda>anchor.
       bind (upd_pdr (Tunnel_PDR dl) (\<lambda>p. p\<lparr>Precedence := 32,
          PDR_PDI := (source_if iface_core)\<lparr>PDI_LocalFTeid := Some (local_fteid upf (TEID dl)),
            PDI_UEIPAddress := (if anchor then Some ip else None)\<rparr>,
          PDR_OuterHeaderRemoval := (if anchor then PDR_OuterHeaderRemoval p else Some gtpu_removal)\<rparr>)) (\<lambda>_.
       bind (lift_res (\<lambda>s. deref (pdrs s) (Tunnel_PDR dl))) (\<lambda>p.
       bind (Prev n) (\<lambda>pv.
       bind (case pv of
               Some m \<Rightarrow>
                 bind (the_node (Some m)) (\<lambda>y.
                 bind (the_tunnel (DownLinkTunnel y)) (\<lambda>pdl.
                 bind (end_upf (Some m)) (\<lambda>pupf.
                 upd_far (PDR_FAR p) (\<lambda>f. f\<lparr>FAR_ApplyAction := forward_action,
                   FAR_ForwardingParameters := Some ((dest_if iface_access)\<lparr>FP_OuterHeaderCreation :=
                     Some (gtp_header (UPIP_Ipv4Address (UPIPInfo pupf)) (TEID pdl))\<rparr>)\<rparr>))))
             | None \<Rightarrow> setup_access c first) (\<lambda>_.
       bind (gets (\<lambda>s. SM_Dnn (smcontexts s ! c))) (\<lambda>dnn.
       if SrcEndPoint dl = None
       then upd_pdr (Tunnel_PDR dl) (\<lambda>p. p\<lparr>PDR_PDI := (source_if iface_core)\<lparr>PDI_NetworkInstance := dnn,
              PDI_UEIPAddress := Some ip\<rparr>\<rparr>)
       else ret ()))))))))))"

text \<open>\<^verbatim>\<open>ActivateTunnelAndPDR\<close>: a loop that activates the tunnels, then one that fills in the rules.\<close>

definition ActivateTunnelAndPDR :: "nat \<Rightarrow> (NodeID \<Rightarrow> string) \<Rightarrow> nat \<Rightarrow> nat \<Rightarrow> 'a dp_heap_scheme \<Rightarrow>
    (unit res \<times> 'a dp_heap_scheme) option" where
  "ActivateTunnelAndPDR k key c d s =
     (let first = FirstDPNode (datapaths s ! d) in
      case for_nodes k (activate_node key c) first s of
        Some (Inr _, s') \<Rightarrow>
          (case for_nodes k (\<lambda>n. bind (setup_uplink c n) (\<lambda>_. setup_downlink c first n)) first s' of
             Some (Inr _, s'') \<Rightarrow> Some (Inr (), s''\<lparr>datapaths := (datapaths s'')[d := (datapaths s'' ! d)\<lparr>Activated := True\<rparr>]\<rparr>)
           | r \<Rightarrow> r)
      | r \<Rightarrow> r)"

section \<open>Deactivation\<close>

text \<open>
  \<open>release_rules\<close> is the common body of \<^verbatim>\<open>DeactivateUpLinkTunnel\<close> and \<^verbatim>\<open>DeactivateDownLinkTunnel\<close>:
  errors of the removals are only logged.
\<close>

definition logged :: "('s, unit) go \<Rightarrow> ('s, unit) go" where
  "logged m = handle m (\<lambda>_. ret ()) ret"

definition release_rules :: "(NodeID \<Rightarrow> string) \<Rightarrow> nat \<Rightarrow> nat option \<Rightarrow> nat option \<Rightarrow> ('a dp_heap_scheme, unit) go" where
  "release_rules key c upf pdr =
     bind (lift_res (\<lambda>s. deref (pdrs s) pdr)) (\<lambda>p.
     bind (lift_res (\<lambda>s. deref (fars s) (PDR_FAR p))) (\<lambda>f.
     bind (case upf of None \<Rightarrow> fail Panic | Some u \<Rightarrow> ret u) (\<lambda>u.
     bind (get_UPF u) (\<lambda>x.
     bind (RemovePDRfromPFCPSession key c (UPF_NodeID x) pdr) (\<lambda>_.
     bind (logged (RemovePDR u pdr)) (\<lambda>_.
     bind (logged (RemoveFAR u (PDR_FAR p))) (\<lambda>_.
     if FAR_BAR f \<noteq> None then logged (RemoveBAR u (FAR_BAR f)) else ret ())))))))"

definition new_tunnel :: "('a dp_heap_scheme, nat option) go" where
  "new_tunnel = (\<lambda>s. (Inr (Some (length (tunnels s))), s\<lparr>tunnels := tunnels s @ [GTPTunnel_new]\<rparr>))"

definition DeactivateUpLinkTunnel :: "(NodeID \<Rightarrow> string) \<Rightarrow> nat \<Rightarrow> nat \<Rightarrow> ('a dp_heap_scheme, unit) go" where
  "DeactivateUpLinkTunnel key c n =
     bind (the_node (Some n)) (\<lambda>x.
     bind (the_tunnel (UpLinkTunnel x)) (\<lambda>t.
     bind (release_rules key c (Node_UPF x) (Tunnel_PDR t)) (\<lambda>_.
     bind new_tunnel (\<lambda>t'.
     modify (\<lambda>s. s\<lparr>dpnodes := (dpnodes s)[n := (dpnodes s ! n)\<lparr>UpLinkTunnel := t'\<rparr>]\<rparr>)))))"

definition DeactivateDownLinkTunnel :: "(NodeID \<Rightarrow> string) \<Rightarrow> nat \<Rightarrow> nat \<Rightarrow> ('a dp_heap_scheme, unit) go" where
  "DeactivateDownLinkTunnel key c n =
     bind (the_node (Some n)) (\<lambda>x.
     bind (the_tunnel (DownLinkTunnel x)) (\<lambda>t.
     bind (release_rules key c (Node_UPF x) (Tunnel_PDR t)) (\<lambda>_.
     bind new_tunnel (\<lambda>t'.
     modify (\<lambda>s. s\<lparr>dpnodes := (dpnodes s)[n := (dpnodes s ! n)\<lparr>DownLinkTunnel := t'\<rparr>]\<rparr>)))))"

definition DeactivateTunnelAndPDR :: "nat \<Rightarrow> (NodeID \<Rightarrow> string) \<Rightarrow> nat \<Rightarrow> nat \<Rightarrow> 'a dp_heap_scheme \<Rightarrow>
    (unit res \<times> 'a dp_heap_scheme) option" where
  "DeactivateTunnelAndPDR k key c d s =
     (case for_nodes k (\<lambda>n. bind (DeactivateUpLinkTunnel key c n) (\<lambda>_. DeactivateDownLinkTunnel key c n))
        (FirstDPNode (datapaths s ! d)) s of
        Some (Inr _, s') \<Rightarrow> Some (Inr (), s'\<lparr>datapaths := (datapaths s')[d := (datapaths s' ! d)\<lparr>Activated := False\<rparr>]\<rparr>)
      | r \<Rightarrow> r)"

section \<open>Lists of nodes\<close>

text \<open>Pure readings of the pointers of a node.\<close>

abbreviation up :: "'a dp_heap_scheme \<Rightarrow> nat \<Rightarrow> nat" where "up s n \<equiv> the (UpLinkTunnel (dpnodes s ! n))"
abbreviation down :: "'a dp_heap_scheme \<Rightarrow> nat \<Rightarrow> nat" where "down s n \<equiv> the (DownLinkTunnel (dpnodes s ! n))"

definition node_ok :: "'a dp_heap_scheme \<Rightarrow> nat \<Rightarrow> bool" where
  "node_ok s n \<longleftrightarrow> n < length (dpnodes s) \<and> UpLinkTunnel (dpnodes s ! n) \<noteq> None \<and> DownLinkTunnel (dpnodes s ! n) \<noteq> None \<and>
     up s n < length (tunnels s) \<and> down s n < length (tunnels s)"

text \<open>\<open>ns\<close> are the nodes of a path: valid, with tunnels of their own, and linked in both directions.\<close>

definition dp_list :: "'a dp_heap_scheme \<Rightarrow> nat list \<Rightarrow> bool" where
  "dp_list s ns \<longleftrightarrow> (\<forall>n \<in> set ns. node_ok s n) \<and> distinct (concat (map (\<lambda>n. [up s n, down s n]) ns)) \<and>
     (\<forall>i < length ns. SrcEndPoint (tunnels s ! up s (ns ! i)) = (if i = 0 then None else Some (ns ! (i - 1))) \<and>
        SrcEndPoint (tunnels s ! down s (ns ! i)) = (if Suc i < length ns then Some (ns ! Suc i) else None))"

lemma the_node_eval [simp]: "n < length (dpnodes s) \<Longrightarrow> the_node (Some n) s = (Inr (dpnodes s ! n), s)"
  by (simp add: the_node_def)

lemma the_tunnel_eval [simp]: "t < length (tunnels s) \<Longrightarrow> the_tunnel (Some t) s = (Inr (tunnels s ! t), s)"
  by (simp add: the_tunnel_def)

lemma upd_tunnel_eval [simp]:
  "t < length (tunnels s) \<Longrightarrow> upd_tunnel (Some t) f s = (Inr (), s\<lparr>tunnels := (tunnels s)[t := f (tunnels s ! t)]\<rparr>)"
  by (simp add: upd_tunnel_def)

lemma upd_pdr_eval [simp]:
  "p < length (pdrs s) \<Longrightarrow> upd_pdr (Some p) f s = (Inr (), s\<lparr>pdrs := (pdrs s)[p := f (pdrs s ! p)]\<rparr>)"
  by (simp add: upd_pdr_def)

lemma upd_far_eval [simp]:
  "p < length (fars s) \<Longrightarrow> upd_far (Some p) f s = (Inr (), s\<lparr>fars := (fars s)[p := f (fars s ! p)]\<rparr>)"
  by (simp add: upd_far_def)

lemma Next_eval [simp]: "node_ok s n \<Longrightarrow> Next n s = (Inr (SrcEndPoint (tunnels s ! down s n)), s)"
  by (auto simp: node_ok_def Next_def)

lemma Prev_eval [simp]: "node_ok s n \<Longrightarrow> Prev n s = (Inr (SrcEndPoint (tunnels s ! up s n)), s)"
  by (auto simp: node_ok_def Prev_def)

lemma dp_list_ok: "dp_list s ns \<Longrightarrow> n \<in> set ns \<Longrightarrow> node_ok s n"
  by (simp add: dp_list_def)

lemma dp_list_Next:
  "dp_list s ns \<Longrightarrow> i < length ns \<Longrightarrow> Next (ns ! i) s = (Inr (if Suc i < length ns then Some (ns ! Suc i) else None), s)"
  by (simp add: dp_list_def)

lemma dp_list_Prev:
  "dp_list s ns \<Longrightarrow> i < length ns \<Longrightarrow> Prev (ns ! i) s = (Inr (if i = 0 then None else Some (ns ! (i - 1))), s)"
  by (simp add: dp_list_def)

text \<open>
  The rule of the loops: a body that succeeds on each node in turn, keeps a property \<open>P\<close> indexed by the
  number of nodes done, and under which the list is intact, makes the loop run over the whole list.
\<close>

lemma for_nodes_rule:
  assumes step: "\<And>i s. i < length ns \<Longrightarrow> P i s \<Longrightarrow> \<exists>s'. body (ns ! i) s = (Inr (), s') \<and> P (Suc i) s'"
    and list: "\<And>i s. P i s \<Longrightarrow> dp_list s ns"
    and "i \<le> length ns" "P i s" "length ns - i \<le> k"
  shows "\<exists>s'. for_nodes k body (if i < length ns then Some (ns ! i) else None) s = Some (Inr (), s') \<and> P (length ns) s'"
  using assms(3-5)
proof (induction "length ns - i" arbitrary: i s k)
  case 0
  then show ?case by simp
next
  case (Suc m)
  then have i: "i < length ns" by simp
  obtain s' where s': "body (ns ! i) s = (Inr (), s')" "P (Suc i) s'" using step [OF i Suc.prems(2)] by blast
  obtain k' where k: "k = Suc k'" using Suc.prems(3) i by (cases k) auto
  have nx: "Next (ns ! i) s' = (Inr (if Suc i < length ns then Some (ns ! Suc i) else None), s')"
    using dp_list_Next [OF list [OF s'(2)] i] .
  have "\<exists>t. for_nodes k' body (if Suc i < length ns then Some (ns ! Suc i) else None) s' = Some (Inr (), t) \<and> P (length ns) t"
    using Suc i k s' by (intro Suc.hyps(1)) auto
  then show ?case using i k s'(1) nx by simp
qed

section \<open>Construction\<close>

text \<open>The nodes and tunnels that \<^verbatim>\<open>GenerateDataPath\<close> appends.\<close>

fun chain_nodes :: "UPNode list \<Rightarrow> nat \<Rightarrow> nat list \<Rightarrow> DataPathNode list" where
  "chain_nodes us t [] = []"
| "chain_nodes us t (p # ps) =
     \<lparr>Node_UPF = UPNode_UPF (us ! p), UpLinkTunnel = Some t, DownLinkTunnel = Some (Suc t), IsBranchingPoint = False\<rparr>
     # chain_nodes us (Suc (Suc t)) ps"

fun chain_tunnels :: "nat option \<Rightarrow> nat \<Rightarrow> nat list \<Rightarrow> GTPTunnel list" where
  "chain_tunnels q n [] = []"
| "chain_tunnels q n (p # ps) =
     GTPTunnel_new\<lparr>SrcEndPoint := q\<rparr> # GTPTunnel_new\<lparr>SrcEndPoint := (if ps = [] then None else Some (Suc n))\<rparr>
     # chain_tunnels (Some n) (Suc n) ps"

lemma length_chain_nodes [simp]: "length (chain_nodes us t ps) = length ps"
  by (induction us t ps rule: chain_nodes.induct) simp_all

lemma length_chain_tunnels [simp]: "length (chain_tunnels q n ps) = 2 * length ps"
  by (induction q n ps rule: chain_tunnels.induct) simp_all

lemma chain_nodes_nth:
  "i < length ps \<Longrightarrow> chain_nodes us t ps ! i =
     \<lparr>Node_UPF = UPNode_UPF (us ! (ps ! i)), UpLinkTunnel = Some (t + 2 * i), DownLinkTunnel = Some (Suc (t + 2 * i)),
      IsBranchingPoint = False\<rparr>"
  by (induction us t ps arbitrary: i rule: chain_nodes.induct) (auto simp: nth_Cons split: nat.splits)

lemma chain_tunnels_nth:
  "i < length ps \<Longrightarrow> chain_tunnels q n ps ! (2 * i) = GTPTunnel_new\<lparr>SrcEndPoint := (if i = 0 then q else Some (n + i - 1))\<rparr> \<and>
     chain_tunnels q n ps ! Suc (2 * i) =
       GTPTunnel_new\<lparr>SrcEndPoint := (if Suc i < length ps then Some (Suc (n + i)) else None)\<rparr>"
proof (induction q n ps arbitrary: i rule: chain_tunnels.induct)
  case (2 q n p ps)
  then show ?case by (cases i) (auto simp: Suc_diff_Suc)
qed simp

lemma GTPTunnel_new_None [simp]: "GTPTunnel_new\<lparr>SrcEndPoint := None\<rparr> = GTPTunnel_new"
  by (simp add: GTPTunnel_new_def)

lemma gen_nodes_Some:
  assumes "q < length (dpnodes s)" "DownLinkTunnel (dpnodes s ! q) = Some td" "td < length (tunnels s)"
    "set ps \<subseteq> {..<length (upnodes s)}"
  shows "gen_nodes ps root (Some q) s = (Inr root, s\<lparr>
    dpnodes := dpnodes s @ chain_nodes (upnodes s) (length (tunnels s)) ps,
    tunnels := (if ps = [] then tunnels s
       else (tunnels s)[td := (tunnels s ! td)\<lparr>SrcEndPoint := Some (length (dpnodes s))\<rparr>])
       @ chain_tunnels (Some q) (length (dpnodes s)) ps\<rparr>)"
  using assms
proof (induction ps arbitrary: q s td)
  case Nil
  then show ?case by simp
next
  case (Cons p ps)
  let ?N = "length (dpnodes s)" and ?T = "length (tunnels s)"
  let ?x = "\<lparr>Node_UPF = UPNode_UPF (upnodes s ! p), UpLinkTunnel = Some ?T, DownLinkTunnel = Some (Suc ?T),
     IsBranchingPoint = False\<rparr>"
  let ?s = "s\<lparr>dpnodes := dpnodes s @ [?x],
     tunnels := (tunnels s)[td := (tunnels s ! td)\<lparr>SrcEndPoint := Some ?N\<rparr>] @ [GTPTunnel_new\<lparr>SrcEndPoint := Some q\<rparr>, GTPTunnel_new]\<rparr>"
  have step: "gen_nodes (p # ps) root (Some q) s = gen_nodes ps root (Some ?N) ?s"
    using Cons.prems
    by (simp add: NewDataPathNode_def AddNext_def AddPrev_def bind_def nth_append list_update_append)
  have "gen_nodes ps root (Some ?N) ?s = (Inr root, ?s\<lparr>
    dpnodes := dpnodes ?s @ chain_nodes (upnodes ?s) (length (tunnels ?s)) ps,
    tunnels := (if ps = [] then tunnels ?s
       else (tunnels ?s)[Suc ?T := (tunnels ?s ! Suc ?T)\<lparr>SrcEndPoint := Some (length (dpnodes ?s))\<rparr>])
       @ chain_tunnels (Some ?N) (length (dpnodes ?s)) ps\<rparr>)"
    using Cons.prems by (intro Cons.IH) simp_all
  then show ?case
    using Cons.prems unfolding step by (cases "ps = []") (simp_all add: nth_append list_update_append)
qed

lemma gen_nodes_None:
  assumes "p < length (upnodes s)" "set ps \<subseteq> {..<length (upnodes s)}"
  shows "gen_nodes (p # ps) None None s = (Inr (Some (length (dpnodes s))), s\<lparr>
    dpnodes := dpnodes s @ chain_nodes (upnodes s) (length (tunnels s)) (p # ps),
    tunnels := tunnels s @ chain_tunnels None (length (dpnodes s)) (p # ps)\<rparr>)"
proof -
  let ?N = "length (dpnodes s)" and ?T = "length (tunnels s)"
  let ?x = "\<lparr>Node_UPF = UPNode_UPF (upnodes s ! p), UpLinkTunnel = Some ?T, DownLinkTunnel = Some (Suc ?T),
     IsBranchingPoint = False\<rparr>"
  let ?s = "s\<lparr>dpnodes := dpnodes s @ [?x], tunnels := tunnels s @ [GTPTunnel_new, GTPTunnel_new]\<rparr>"
  have step: "gen_nodes (p # ps) None None s = gen_nodes ps (Some ?N) (Some ?N) ?s"
    using assms by (simp add: NewDataPathNode_def AddNext_def AddPrev_def bind_def nth_append list_update_append)
  have "gen_nodes ps (Some ?N) (Some ?N) ?s = (Inr (Some ?N), ?s\<lparr>
    dpnodes := dpnodes ?s @ chain_nodes (upnodes ?s) (length (tunnels ?s)) ps,
    tunnels := (if ps = [] then tunnels ?s
       else (tunnels ?s)[Suc ?T := (tunnels ?s ! Suc ?T)\<lparr>SrcEndPoint := Some (length (dpnodes ?s))\<rparr>])
       @ chain_tunnels (Some ?N) (length (dpnodes ?s)) ps\<rparr>)"
    using assms by (intro gen_nodes_Some) simp_all
  then show ?thesis unfolding step by (cases "ps = []") (simp_all add: nth_append list_update_append)
qed

lemma distinct_pairs: "distinct (concat (map (\<lambda>i. [t + 2 * i, Suc (t + 2 * i)]) [0..<n]))" for t :: nat
proof (induction n)
  case (Suc n)
  have "x < t + 2 * n" if "x \<in> set (concat (map (\<lambda>i. [t + 2 * i, Suc (t + 2 * i)]) [0..<n]))" for x
    using that by auto
  then show ?case using Suc by fastforce
qed simp

text \<open>
  C15. \<^verbatim>\<open>GenerateDataPath\<close> on a non-empty path of the topology builds, from new objects only, a list of
  nodes that is linked in both directions, with one node per element of the path in the same order and
  with its UPF; the new path starts at the first node and is not activated.
\<close>

theorem GenerateDataPath_builds:
  assumes "path \<noteq> []" "set path \<subseteq> {..<length (upnodes s)}"
  shows "\<exists>s' ns. GenerateDataPath path s = (Inr (Some (length (datapaths s))), s') \<and>
    dp_list s' ns \<and> ns = map (\<lambda>i. length (dpnodes s) + i) [0..<length path] \<and>
    map (\<lambda>n. Node_UPF (dpnodes s' ! n)) ns = map (\<lambda>p. UPNode_UPF (upnodes s ! p)) path \<and>
    datapaths s' = datapaths s @ [NewDataPath\<lparr>FirstDPNode := Some (hd ns)\<rparr>] \<and>
    take (length (dpnodes s)) (dpnodes s') = dpnodes s \<and> take (length (tunnels s)) (tunnels s') = tunnels s"
proof -
  obtain p ps where path: "path = p # ps" using assms(1) by (cases path) auto
  let ?N = "length (dpnodes s)" and ?T = "length (tunnels s)"
  let ?ns = "map (\<lambda>i. ?N + i) [0..<length path]"
  let ?s = "s\<lparr>dpnodes := dpnodes s @ chain_nodes (upnodes s) ?T path, tunnels := tunnels s @ chain_tunnels None ?N path,
     datapaths := datapaths s @ [NewDataPath\<lparr>FirstDPNode := Some ?N\<rparr>]\<rparr>"
  have run: "GenerateDataPath path s = (Inr (Some (length (datapaths s))), ?s)"
    using gen_nodes_None [of p s ps] assms by (simp add: GenerateDataPath_def path)
  have x: "dpnodes ?s ! (?N + i) = \<lparr>Node_UPF = UPNode_UPF (upnodes s ! (path ! i)), UpLinkTunnel = Some (?T + 2 * i),
      DownLinkTunnel = Some (Suc (?T + 2 * i)), IsBranchingPoint = False\<rparr>" if "i < length path" for i
    using that by (simp add: nth_append chain_nodes_nth)
  have t: "tunnels ?s ! (?T + 2 * i) = GTPTunnel_new\<lparr>SrcEndPoint := (if i = 0 then None else Some (?N + i - 1))\<rparr>"
    "tunnels ?s ! Suc (?T + 2 * i) = GTPTunnel_new\<lparr>SrcEndPoint := (if Suc i < length path then Some (Suc (?N + i)) else None)\<rparr>"
    if "i < length path" for i
    using that chain_tunnels_nth [of i path None ?N] by (simp_all add: nth_append)
  have "map (\<lambda>n. [up ?s n, down ?s n]) ?ns = map (\<lambda>i. [?T + 2 * i, Suc (?T + 2 * i)]) [0..<length path]"
    using x by simp
  then have "distinct (concat (map (\<lambda>n. [up ?s n, down ?s n]) ?ns))" by (simp only: distinct_pairs)
  moreover have "node_ok ?s n" if "n \<in> set ?ns" for n
  proof -
    define i where "i = n - ?N"
    have i: "i < length path" "n = ?N + i" using that by (auto simp: i_def)
    show ?thesis unfolding node_ok_def i(2) x [OF i(1)] using i(1) by simp
  qed
  ultimately have "dp_list ?s ?ns"
    unfolding dp_list_def using x t by auto
  moreover have "map (\<lambda>n. Node_UPF (dpnodes ?s ! n)) ?ns = map (\<lambda>p. UPNode_UPF (upnodes s ! p)) path"
    using x by (intro nth_equalityI) simp_all
  moreover have "hd ?ns = ?N" using assms(1) by (simp add: hd_map)
  ultimately show ?thesis using run by (intro exI [of _ ?s] exI [of _ ?ns]) simp
qed

definition demo_dp :: "nat \<Rightarrow> dp_heap" where
  "demo_dp n = \<lparr>pdrs = [], fars = [], bars = [], upfs = [], upfPool = Map.empty,
     upnodes = replicate n \<lparr>UPNode_Type = UPNODE_UPF, UPNode_NodeID = NodeID_new, UPNode_ANIP = [], UPNode_Dnn = [],
       Links = [], UPNode_UPF = Some 0\<rparr>,
     upi = \<lparr>UPNodes = [], UPFs = [], AccessNetwork = [], UPFIPToName = Map.empty, UPFsID = Map.empty,
       UPFsIPtoID = Map.empty, DefaultUserPlanePath = Map.empty\<rparr>,
     tunnels = [], dpnodes = [], datapaths = [], smcontexts = [], ip_arrays = [], UEAddressTemp = IP_nil,
     LocalSEIDCount = 0, seidSMContextMap = Map.empty\<rparr>"

theorem GenerateDataPath_builds_witness:
  "\<exists>s' ns. GenerateDataPath [0, 2, 1] (demo_dp 3) = (Inr (Some 0), s') \<and> dp_list s' ns \<and> length ns = 3"
proof -
  have "set [0, 2, 1] \<subseteq> {..<length (upnodes (demo_dp 3))}" "length (datapaths (demo_dp 3)) = 0"
    by (simp_all add: demo_dp_def)
  then obtain s' ns where "GenerateDataPath [0, 2, 1] (demo_dp 3) = (Inr (Some 0), s')" "dp_list s' ns"
    "ns = map (\<lambda>i. length (dpnodes (demo_dp 3)) + i) [0..<length [0, 2, 1]]"
    using GenerateDataPath_builds [of "[0, 2, 1]" "demo_dp 3"] by auto
  moreover from this(3) have "length ns = 3" by simp
  ultimately show ?thesis by blast
qed

end
