(* ===== verification/SMF_Rules.thy ===== *)
theory SMF_Rules
  imports SMF_DataPath
begin

text \<open>
  The rules that \<^verbatim>\<open>ActivateTunnelAndPDR\<close> installs along a data path, and what deactivation leaves
  behind. The expected rules of a node are stated once, as functions of the tunnels of its neighbours;
  the second loop of the activation is shown to install exactly these on every node of the path.
\<close>

section \<open>Rules of an activated path\<close>

abbreviation ulp :: "'a dp_heap_scheme \<Rightarrow> nat \<Rightarrow> nat" where "ulp s n \<equiv> the (Tunnel_PDR (tunnels s ! up s n))"
abbreviation dlp :: "'a dp_heap_scheme \<Rightarrow> nat \<Rightarrow> nat" where "dlp s n \<equiv> the (Tunnel_PDR (tunnels s ! down s n))"
abbreviation ulf :: "'a dp_heap_scheme \<Rightarrow> nat \<Rightarrow> nat" where "ulf s n \<equiv> the (PDR_FAR (pdrs s ! ulp s n))"
abbreviation dlf :: "'a dp_heap_scheme \<Rightarrow> nat \<Rightarrow> nat" where "dlf s n \<equiv> the (PDR_FAR (pdrs s ! dlp s n))"

definition rules_ok :: "'a dp_heap_scheme \<Rightarrow> nat \<Rightarrow> bool" where
  "rules_ok s n \<longleftrightarrow> (\<exists>u. Node_UPF (dpnodes s ! n) = Some u \<and> u < length (upfs s)) \<and>
     DestEndPoint (tunnels s ! up s n) = Some n \<and> DestEndPoint (tunnels s ! down s n) = Some n \<and>
     Tunnel_PDR (tunnels s ! up s n) \<noteq> None \<and> ulp s n < length (pdrs s) \<and>
     Tunnel_PDR (tunnels s ! down s n) \<noteq> None \<and> dlp s n < length (pdrs s) \<and>
     PDR_FAR (pdrs s ! ulp s n) \<noteq> None \<and> ulf s n < length (fars s) \<and>
     PDR_FAR (pdrs s ! dlp s n) \<noteq> None \<and> dlf s n < length (fars s)"

text \<open>
  A path whose tunnels are activated: every tunnel ends at its node and has a PDR with a FAR, and no
  two tunnels share a PDR or a FAR.
\<close>

definition tunnels_ready :: "'a dp_heap_scheme \<Rightarrow> nat list \<Rightarrow> bool" where
  "tunnels_ready s ns \<longleftrightarrow> dp_list s ns \<and> (\<forall>n \<in> set ns. rules_ok s n) \<and>
     distinct (concat (map (\<lambda>n. [ulp s n, dlp s n]) ns)) \<and> distinct (concat (map (\<lambda>n. [ulf s n, dlf s n]) ns))"

abbreviation upf_of :: "'a dp_heap_scheme \<Rightarrow> nat \<Rightarrow> UPF" where
  "upf_of s n \<equiv> upfs s ! the (Node_UPF (dpnodes s ! n))"

text \<open>What the rules of node \<open>i\<close> should be.\<close>

definition uplink_pdr :: "'a dp_heap_scheme \<Rightarrow> nat \<Rightarrow> nat \<Rightarrow> PDR \<Rightarrow> PDR" where
  "uplink_pdr s c n p = p\<lparr>Precedence := 32,
     PDR_PDI := (source_if iface_access)\<lparr>PDI_LocalFTeid := Some (local_fteid (upf_of s n) (TEID (tunnels s ! up s n))),
       PDI_UEIPAddress := Some (ue_ip s c)\<rparr>, PDR_OuterHeaderRemoval := Some gtpu_removal\<rparr>"

definition uplink_far :: "'a dp_heap_scheme \<Rightarrow> nat \<Rightarrow> nat option \<Rightarrow> FAR \<Rightarrow> FAR" where
  "uplink_far s c nx f = f\<lparr>FAR_ApplyAction := forward_action,
     FAR_ForwardingParameters := Some (case nx of
       None \<Rightarrow> (dest_if iface_n6)\<lparr>FP_NetworkInstance := SM_Dnn (smcontexts s ! c)\<rparr>
     | Some m \<Rightarrow> (dest_if iface_core)\<lparr>FP_NetworkInstance := SM_Dnn (smcontexts s ! c),
         FP_OuterHeaderCreation := Some (gtp_header (UPIP_Ipv4Address (UPIPInfo (upf_of s m))) (TEID (tunnels s ! up s m)))\<rparr>)\<rparr>"

definition downlink_pdr :: "'a dp_heap_scheme \<Rightarrow> nat \<Rightarrow> nat \<Rightarrow> nat option \<Rightarrow> PDR \<Rightarrow> PDR" where
  "downlink_pdr s c n nx p = (case nx of
     None \<Rightarrow> p\<lparr>Precedence := 32,
       PDR_PDI := (source_if iface_core)\<lparr>PDI_NetworkInstance := SM_Dnn (smcontexts s ! c), PDI_UEIPAddress := Some (ue_ip s c)\<rparr>\<rparr>
   | Some m \<Rightarrow> p\<lparr>Precedence := 32,
       PDR_PDI := (source_if iface_core)\<lparr>PDI_LocalFTeid := Some (local_fteid (upf_of s n) (TEID (tunnels s ! down s n))),
         PDI_UEIPAddress := None\<rparr>,
       PDR_OuterHeaderRemoval := Some gtpu_removal\<rparr>)"

definition downlink_far :: "'a dp_heap_scheme \<Rightarrow> nat \<Rightarrow> nat option \<Rightarrow> FAR \<Rightarrow> FAR" where
  "downlink_far s c pv f = (case pv of
     Some m \<Rightarrow> f\<lparr>FAR_ApplyAction := forward_action,
       FAR_ForwardingParameters := Some ((dest_if iface_access)\<lparr>FP_OuterHeaderCreation :=
         Some (gtp_header (UPIP_Ipv4Address (UPIPInfo (upf_of s m))) (TEID (tunnels s ! down s m)))\<rparr>)\<rparr>
   | None \<Rightarrow> (case AN_IPAddress (smcontexts s ! c) of
       None \<Rightarrow> f
     | Some anIP \<Rightarrow> f\<lparr>FAR_ForwardingParameters := Some ((dest_if iface_access)\<lparr>FP_NetworkInstance := SM_Dnn (smcontexts s ! c),
         FP_OuterHeaderCreation := Some (gtp_header (To4 anIP) (AN_TEID (smcontexts s ! c)))\<rparr>)\<rparr>))"

lemma rules_okE:
  assumes "node_ok s n" "rules_ok s n"
  obtains u a b p q f g where "n < length (dpnodes s)" "UpLinkTunnel (dpnodes s ! n) = Some a" "DownLinkTunnel (dpnodes s ! n) = Some b"
    "a < length (tunnels s)" "b < length (tunnels s)" "Node_UPF (dpnodes s ! n) = Some u" "u < length (upfs s)"
    "DestEndPoint (tunnels s ! a) = Some n" "DestEndPoint (tunnels s ! b) = Some n"
    "Tunnel_PDR (tunnels s ! a) = Some p" "p < length (pdrs s)" "Tunnel_PDR (tunnels s ! b) = Some q" "q < length (pdrs s)"
    "PDR_FAR (pdrs s ! p) = Some f" "f < length (fars s)" "PDR_FAR (pdrs s ! q) = Some g" "g < length (fars s)"
  using assms unfolding node_ok_def rules_ok_def by auto

lemma end_upf_eval:
  assumes "node_ok s n" "rules_ok s n"
  shows "end_upf (Some n) s = (Inr (upf_of s n), s)"
  using assms by (auto simp: end_upf_def node_upf_def node_ok_def rules_ok_def)

lemma node_facts:
  assumes l: "dp_list s ns" and r: "\<forall>n \<in> set ns. rules_ok s n" and i: "i < length ns"
  obtains u a b p q f g where "ns ! i < length (dpnodes s)" "UpLinkTunnel (dpnodes s ! (ns ! i)) = Some a"
    "DownLinkTunnel (dpnodes s ! (ns ! i)) = Some b" "a < length (tunnels s)" "b < length (tunnels s)"
    "Node_UPF (dpnodes s ! (ns ! i)) = Some u" "u < length (upfs s)"
    "DestEndPoint (tunnels s ! a) = Some (ns ! i)" "DestEndPoint (tunnels s ! b) = Some (ns ! i)"
    "Tunnel_PDR (tunnels s ! a) = Some p" "p < length (pdrs s)" "Tunnel_PDR (tunnels s ! b) = Some q" "q < length (pdrs s)"
    "PDR_FAR (pdrs s ! p) = Some f" "f < length (fars s)" "PDR_FAR (pdrs s ! q) = Some g" "g < length (fars s)"
    "SrcEndPoint (tunnels s ! a) = (if i = 0 then None else Some (ns ! (i - 1)))"
    "SrcEndPoint (tunnels s ! b) = (if Suc i < length ns then Some (ns ! Suc i) else None)"
proof -
  have ok: "node_ok s (ns ! i)" "rules_ok s (ns ! i)" using l r i by (auto simp: dp_list_def)
  have src: "SrcEndPoint (tunnels s ! up s (ns ! i)) = (if i = 0 then None else Some (ns ! (i - 1)))"
    "SrcEndPoint (tunnels s ! down s (ns ! i)) = (if Suc i < length ns then Some (ns ! Suc i) else None)"
    using l i unfolding dp_list_def by blast+
  show ?thesis
    by (rule rules_okE [OF ok], rule that, assumption+) (use src in \<open>simp_all\<close>)
qed

text \<open>
  The evaluation rule of \<open>bind\<close> without a premise, for code that computes a truth value.
\<close>

lemma bind_run: "bind m f s = (case m s of (Inl e, s') \<Rightarrow> (Inl e, s') | (Inr x, s') \<Rightarrow> f x s')"
  by (simp add: bind_def)

lemmas setup_defs = bind_run end_upf_def node_upf_def IsAnchorUPF_def Next_def Prev_def

lemma setup_uplink_eval:
  assumes l: "dp_list s ns" and r: "\<forall>n \<in> set ns. rules_ok s n" and i: "i < length ns"
  shows "setup_uplink c (ns ! i) s = (Inr (), s\<lparr>
    pdrs := (pdrs s)[ulp s (ns ! i) := uplink_pdr s c (ns ! i) (pdrs s ! ulp s (ns ! i))],
    fars := (fars s)[ulf s (ns ! i) := uplink_far s c (if Suc i < length ns then Some (ns ! Suc i) else None) (fars s ! ulf s (ns ! i))]\<rparr>)"
proof (rule node_facts [OF assms])
  fix u a b p q f g
  assume x: "ns ! i < length (dpnodes s)" "UpLinkTunnel (dpnodes s ! (ns ! i)) = Some a"
    "DownLinkTunnel (dpnodes s ! (ns ! i)) = Some b" "a < length (tunnels s)" "b < length (tunnels s)"
    "Node_UPF (dpnodes s ! (ns ! i)) = Some u" "u < length (upfs s)" "DestEndPoint (tunnels s ! a) = Some (ns ! i)"
    "Tunnel_PDR (tunnels s ! a) = Some p" "p < length (pdrs s)" "PDR_FAR (pdrs s ! p) = Some f" "f < length (fars s)"
    "SrcEndPoint (tunnels s ! b) = (if Suc i < length ns then Some (ns ! Suc i) else None)"
  show ?thesis
  proof (cases "Suc i < length ns")
    case False
    then show ?thesis using x by (simp add: setup_uplink_def setup_defs uplink_pdr_def uplink_far_def del: bind_eval)
  next
    case True
    show ?thesis
    proof (rule node_facts [OF l r True])
      fix u' a'
      assume y: "ns ! Suc i < length (dpnodes s)" "UpLinkTunnel (dpnodes s ! (ns ! Suc i)) = Some a'"
        "a' < length (tunnels s)" "Node_UPF (dpnodes s ! (ns ! Suc i)) = Some u'" "u' < length (upfs s)"
        "DestEndPoint (tunnels s ! a') = Some (ns ! Suc i)"
      then show ?thesis using x True
        by (simp add: setup_uplink_def setup_defs uplink_pdr_def uplink_far_def del: bind_eval)
    qed
  qed
qed

lemma fars_same [simp]: "s\<lparr>fars := fars s\<rparr> = s"
  by simp

lemma fars_same_pdrs [simp]: "s\<lparr>pdrs := X, fars := fars s\<rparr> = s\<lparr>pdrs := X\<rparr>"
  by simp

lemma setup_downlink_eval:
  assumes l: "dp_list s ns" and r: "\<forall>n \<in> set ns. rules_ok s n" and i: "i < length ns"
  shows "setup_downlink c (Some (ns ! 0)) (ns ! i) s = (Inr (), s\<lparr>
    pdrs := (pdrs s)[dlp s (ns ! i) := downlink_pdr s c (ns ! i) (if Suc i < length ns then Some (ns ! Suc i) else None) (pdrs s ! dlp s (ns ! i))],
    fars := (fars s)[dlf s (ns ! i) := downlink_far s c (if i = 0 then None else Some (ns ! (i - 1))) (fars s ! dlf s (ns ! i))]\<rparr>)"
proof (rule node_facts [OF assms])
  fix u a b p q f g
  assume x: "ns ! i < length (dpnodes s)" "UpLinkTunnel (dpnodes s ! (ns ! i)) = Some a"
    "DownLinkTunnel (dpnodes s ! (ns ! i)) = Some b" "a < length (tunnels s)" "b < length (tunnels s)"
    "Node_UPF (dpnodes s ! (ns ! i)) = Some u" "u < length (upfs s)" "DestEndPoint (tunnels s ! b) = Some (ns ! i)"
    "Tunnel_PDR (tunnels s ! b) = Some q" "q < length (pdrs s)" "PDR_FAR (pdrs s ! q) = Some g" "g < length (fars s)"
    "SrcEndPoint (tunnels s ! a) = (if i = 0 then None else Some (ns ! (i - 1)))"
    "SrcEndPoint (tunnels s ! b) = (if Suc i < length ns then Some (ns ! Suc i) else None)"
  note defs = setup_downlink_def setup_defs downlink_pdr_def downlink_far_def
  show ?thesis
  proof (cases "i = 0")
    case True
    show ?thesis
    proof (cases "AN_IPAddress (smcontexts s ! c)")
      case None
      then show ?thesis using x True
        by (cases "Suc 0 < length ns") (simp_all add: defs setup_access_def del: bind_eval)
    next
      case (Some anIP)
      then show ?thesis using x True
        by (cases "Suc 0 < length ns") (simp_all add: defs setup_access_def del: bind_eval)
    qed
  next
    case False
    then have i': "i - 1 < length ns" using i by simp
    show ?thesis
    proof (rule node_facts [OF l r i'])
      fix u' a' b'
      assume y: "ns ! (i - 1) < length (dpnodes s)" "DownLinkTunnel (dpnodes s ! (ns ! (i - 1))) = Some b'"
        "b' < length (tunnels s)" "Node_UPF (dpnodes s ! (ns ! (i - 1))) = Some u'" "u' < length (upfs s)"
      then show ?thesis using x False
        by (cases "Suc i < length ns") (simp_all add: defs del: bind_eval)
    qed
  qed
qed

text \<open>Pointers of different tunnels are different.\<close>

lemma concat_pairs_nth:
  "i < length ns \<Longrightarrow> concat (map (\<lambda>n. [a n, b n]) ns) ! (2 * i) = a (ns ! i) \<and>
     concat (map (\<lambda>n. [a n, b n]) ns) ! Suc (2 * i) = b (ns ! i)"
proof (induction ns arbitrary: i)
  case (Cons n ns)
  then show ?case by (cases i) auto
qed simp

lemma length_concat_pairs: "length (concat (map (\<lambda>n. [a n, b n]) ns)) = 2 * length ns"
  by (induction ns) simp_all

lemma distinct_pairs_nth:
  assumes "distinct (concat (map (\<lambda>n. [a n, b n]) ns))" "i < length ns" "j < length ns"
  shows "a (ns ! i) \<noteq> b (ns ! j)" "a (ns ! i) = a (ns ! j) \<longleftrightarrow> i = j" "b (ns ! i) = b (ns ! j) \<longleftrightarrow> i = j"
proof -
  let ?L = "concat (map (\<lambda>n. [a n, b n]) ns)"
  have eq: "?L ! k = ?L ! l \<longleftrightarrow> k = l" if "k < 2 * length ns" "l < 2 * length ns" for k l
    using assms(1) that by (simp add: nth_eq_iff_index_eq length_concat_pairs)
  note ij = concat_pairs_nth [OF assms(2), of a b] concat_pairs_nth [OF assms(3), of a b]
  have "2 * i \<noteq> Suc (2 * j)" by presburger
  then show "a (ns ! i) \<noteq> b (ns ! j)" using eq [of "2 * i" "Suc (2 * j)"] ij assms by simp
  show "a (ns ! i) = a (ns ! j) \<longleftrightarrow> i = j" using eq [of "2 * i" "2 * j"] ij assms by simp
  show "b (ns ! i) = b (ns ! j) \<longleftrightarrow> i = j" using eq [of "Suc (2 * i)" "Suc (2 * j)"] ij assms by simp
qed

text \<open>The state of the second loop: only PDRs and FARs change, and every PDR keeps its FAR.\<close>

definition same_but_rules :: "'a dp_heap_scheme \<Rightarrow> 'a dp_heap_scheme \<Rightarrow> bool" where
  "same_but_rules s t \<longleftrightarrow> t = s\<lparr>pdrs := pdrs t, fars := fars t\<rparr> \<and> length (pdrs t) = length (pdrs s) \<and>
     length (fars t) = length (fars s) \<and> (\<forall>p < length (pdrs s). PDR_FAR (pdrs t ! p) = PDR_FAR (pdrs s ! p))"

lemma same_but_rulesD:
  assumes "same_but_rules s t"
  shows "tunnels t = tunnels s" "dpnodes t = dpnodes s" "upfs t = upfs s" "smcontexts t = smcontexts s"
    "ip_arrays t = ip_arrays s" "datapaths t = datapaths s"
proof -
  obtain P F where t: "t = s\<lparr>pdrs := P, fars := F\<rparr>" using assms unfolding same_but_rules_def by blast
  show "tunnels t = tunnels s" "dpnodes t = dpnodes s" "upfs t = upfs s" "smcontexts t = smcontexts s"
    "ip_arrays t = ip_arrays s" "datapaths t = datapaths s"
    by (simp_all add: t)
qed

lemma same_but_rules_ok:
  assumes "same_but_rules s t" "rules_ok s n"
  shows "rules_ok t n" "ulf t n = ulf s n" "dlf t n = dlf s n"
  using assms(2) assms(1) [unfolded same_but_rules_def] same_but_rulesD [OF assms(1)]
  unfolding rules_ok_def by auto

lemma expected_cong:
  assumes "same_but_rules s t"
  shows "uplink_pdr t = uplink_pdr s" "uplink_far t = uplink_far s" "downlink_pdr t = downlink_pdr s" "downlink_far t = downlink_far s"
proof -
  note eqs = same_but_rulesD [OF assms]
  have "ip_bytes t = ip_bytes s" using eqs by (simp add: fun_eq_iff ip_bytes_def split: ip_ref.splits)
  then have "To4_ref t = To4_ref s" by (intro ext) (simp add: To4_ref_def split: ip_ref.splits)
  then have "ue_ip t = ue_ip s" using eqs by (intro ext) (simp add: ue_ip_def)
  then show "uplink_pdr t = uplink_pdr s" "uplink_far t = uplink_far s"
    "downlink_pdr t = downlink_pdr s" "downlink_far t = downlink_far s"
    using eqs by (intro ext, simp add: uplink_pdr_def uplink_far_def downlink_pdr_def downlink_far_def split: option.splits)+
qed

lemma same_but_rules_upd:
  assumes "same_but_rules s t" "\<And>x. PDR_FAR (f x) = PDR_FAR x"
  shows "same_but_rules s (t\<lparr>pdrs := (pdrs t)[p := f (pdrs t ! p)], fars := (fars t)[q := y]\<rparr>)"
proof -
  obtain P F where t: "t = s\<lparr>pdrs := P, fars := F\<rparr>" using assms unfolding same_but_rules_def by blast
  have "PDR_FAR (P[p := f (P ! p)] ! k) = PDR_FAR (P ! k)" if "k < length P" for k
    by (cases "k = p") (use that assms(2) in simp_all)
  then show ?thesis using assms(1) unfolding same_but_rules_def by (simp add: t)
qed

text \<open>The rules after \<open>k\<close> rounds of the loop: those of the first \<open>k\<close> nodes are as expected, the others as before.\<close>

definition rounds_done :: "'a dp_heap_scheme \<Rightarrow> nat \<Rightarrow> nat list \<Rightarrow> nat \<Rightarrow> 'a dp_heap_scheme \<Rightarrow> bool" where
  "rounds_done s c ns k t \<longleftrightarrow> same_but_rules s t \<and> (\<forall>i < length ns.
     let n = ns ! i; nx = (if Suc i < length ns then Some (ns ! Suc i) else None); pv = (if i = 0 then None else Some (ns ! (i - 1))) in
     pdrs t ! ulp s n = (if i < k then uplink_pdr s c n else id) (pdrs s ! ulp s n) \<and>
     fars t ! ulf s n = (if i < k then uplink_far s c nx else id) (fars s ! ulf s n) \<and>
     pdrs t ! dlp s n = (if i < k then downlink_pdr s c n nx else id) (pdrs s ! dlp s n) \<and>
     fars t ! dlf s n = (if i < k then downlink_far s c pv else id) (fars s ! dlf s n))"

lemma PDR_FAR_expected [simp]:
  "PDR_FAR (uplink_pdr s c n p) = PDR_FAR p" "PDR_FAR (downlink_pdr s c n nx p) = PDR_FAR p"
  by (simp_all add: uplink_pdr_def downlink_pdr_def split: option.splits)

lemma round_step:
  assumes ready: "tunnels_ready s ns" and k: "k < length ns" and inv: "rounds_done s c ns k t"
  shows "\<exists>t'. bind (setup_uplink c (ns ! k)) (\<lambda>_. setup_downlink c (Some (ns ! 0)) (ns ! k)) t = (Inr (), t') \<and>
    rounds_done s c ns (Suc k) t'"
proof -
  let ?n = "ns ! k" and ?nx = "if Suc k < length ns then Some (ns ! Suc k) else None"
  let ?pv = "if k = 0 then None else Some (ns ! (k - 1))"
  have l: "dp_list s ns" and r: "\<forall>n \<in> set ns. rules_ok s n" and dp: "distinct (concat (map (\<lambda>n. [ulp s n, dlp s n]) ns))"
    and df: "distinct (concat (map (\<lambda>n. [ulf s n, dlf s n]) ns))"
    using ready by (simp_all add: tunnels_ready_def)
  have st: "same_but_rules s t" using inv by (simp add: rounds_done_def)
  note eqs = same_but_rulesD [OF st]
  have lt: "dp_list t ns" using l eqs by (simp add: dp_list_def node_ok_def)
  have rt: "\<forall>n \<in> set ns. rules_ok t n" using r same_but_rules_ok(1) [OF st] by blast
  have ptr: "ulp t ?n = ulp s ?n" "dlp t ?n = dlp s ?n" using eqs by simp_all
  have fptr: "ulf t ?n = ulf s ?n" "dlf t ?n = dlf s ?n" using same_but_rules_ok(2,3) [OF st] r k by simp_all
  let ?t1 = "t\<lparr>pdrs := (pdrs t)[ulp s ?n := uplink_pdr s c ?n (pdrs t ! ulp s ?n)],
     fars := (fars t)[ulf s ?n := uplink_far s c ?nx (fars t ! ulf s ?n)]\<rparr>"
  have 1: "setup_uplink c ?n t = (Inr (), ?t1)"
    using setup_uplink_eval [OF lt rt k, of c] unfolding fptr unfolding ptr expected_cong [OF st] .
  have s1: "same_but_rules s ?t1" by (rule same_but_rules_upd [OF st]) simp
  note eqs1 = same_but_rulesD [OF s1]
  have l1: "dp_list ?t1 ns" using l eqs1 by (simp add: dp_list_def node_ok_def)
  have r1: "\<forall>n \<in> set ns. rules_ok ?t1 n" using r same_but_rules_ok(1) [OF s1] by blast
  have ptr1: "dlp ?t1 ?n = dlp s ?n" using eqs1 by simp
  have fptr1: "dlf ?t1 ?n = dlf s ?n" using same_but_rules_ok(3) [OF s1] r k by simp
  let ?t2 = "?t1\<lparr>pdrs := (pdrs ?t1)[dlp s ?n := downlink_pdr s c ?n ?nx (pdrs ?t1 ! dlp s ?n)],
     fars := (fars ?t1)[dlf s ?n := downlink_far s c ?pv (fars ?t1 ! dlf s ?n)]\<rparr>"
  have 2: "setup_downlink c (Some (ns ! 0)) ?n ?t1 = (Inr (), ?t2)"
    using setup_downlink_eval [OF l1 r1 k, of c] unfolding fptr1 unfolding ptr1 expected_cong [OF s1] .
  have s2: "same_but_rules s ?t2" by (rule same_but_rules_upd [OF s1]) simp
  have "rounds_done s c ns (Suc k) ?t2"
    unfolding rounds_done_def
  proof (intro conjI allI impI s2)
    fix i
    assume i: "i < length ns"
    have bnd: "ulp s (ns ! i) < length (pdrs t)" "dlp s (ns ! i) < length (pdrs t)"
      "ulf s (ns ! i) < length (fars t)" "dlf s (ns ! i) < length (fars t)"
      using r i st unfolding rules_ok_def same_but_rules_def by simp_all
    note d = distinct_pairs_nth [OF dp i k] distinct_pairs_nth [OF dp k i] distinct_pairs_nth [OF df i k] distinct_pairs_nth [OF df k i]
    show "let n = ns ! i; nx = (if Suc i < length ns then Some (ns ! Suc i) else None); pv = (if i = 0 then None else Some (ns ! (i - 1))) in
     pdrs ?t2 ! ulp s n = (if i < Suc k then uplink_pdr s c n else id) (pdrs s ! ulp s n) \<and>
     fars ?t2 ! ulf s n = (if i < Suc k then uplink_far s c nx else id) (fars s ! ulf s n) \<and>
     pdrs ?t2 ! dlp s n = (if i < Suc k then downlink_pdr s c n nx else id) (pdrs s ! dlp s n) \<and>
     fars ?t2 ! dlf s n = (if i < Suc k then downlink_far s c pv else id) (fars s ! dlf s n)"
    proof (cases "i = k")
      case True
      then show ?thesis using inv [unfolded rounds_done_def] i bnd d unfolding Let_def
        by (simp add: nth_list_update)
    next
      case False
      then have "i < Suc k \<longleftrightarrow> i < k" by auto
      then show ?thesis using inv [unfolded rounds_done_def] i bnd d False unfolding Let_def
        by (simp add: nth_list_update)
    qed
  qed
  then show ?thesis using 1 2 by (intro exI [of _ ?t2]) simp
qed

lemma setup_loop:
  assumes "tunnels_ready s ns" "ns \<noteq> []"
  shows "\<exists>t. for_nodes (length ns) (\<lambda>n. bind (setup_uplink c n) (\<lambda>_. setup_downlink c (Some (ns ! 0)) n)) (Some (ns ! 0)) s
    = Some (Inr (), t) \<and> rounds_done s c ns (length ns) t"
proof -
  have list: "dp_list t ns" if "rounds_done s c ns i t" for i t
    using that assms(1) same_but_rulesD [of s t]
    by (simp add: rounds_done_def tunnels_ready_def dp_list_def node_ok_def)
  have "rounds_done s c ns 0 s" by (simp add: rounds_done_def same_but_rules_def Let_def)
  then show ?thesis
    using for_nodes_rule [where P = "rounds_done s c ns" and i = 0 and s = s and k = "length ns" and ns = ns
        and body = "\<lambda>n. bind (setup_uplink c n) (\<lambda>_. setup_downlink c (Some (ns ! 0)) n)"]
      round_step [OF assms(1)] list assms(2) by simp
qed

end
