(* ===== verification/SMF_Activation.thy ===== *)
theory SMF_Activation
  imports SMF_Rules
begin

text \<open>
  The whole activation of a data path: under which resources its first loop gives every tunnel a PDR,
  a FAR and a TEID of its own, and that the rules it then installs forward each packet to the next
  hop. Also what deactivation misses, and the sharing of the UE address between sessions.
\<close>

section \<open>Resources\<close>

text \<open>The identifiers a generator over \<open>1..2\<^sup>32-1\<close> has left.\<close>

definition left :: "IDGenerator \<Rightarrow> nat" where
  "left g = card ({1..2 ^ 32 - 1} - allocated g)"

lemma left_insert:
  assumes "1 \<le> i" "i < 2 ^ 32" "i \<notin> allocated g" "allocated g' = insert i (allocated g)"
  shows "left g = Suc (left g')"
proof -
  have "{1..2 ^ 32 - 1} - allocated g = insert i ({1..2 ^ 32 - 1} - allocated g')"
    using assms by auto
  moreover have "i \<notin> {1..2 ^ 32 - 1} - allocated g'" using assms(4) by simp
  ultimately show ?thesis by (simp add: left_def)
qed

lemma left_full: "allocated g = {1..2 ^ 32 - 1} \<Longrightarrow> left g = 0"
  by (simp add: left_def)

lemma alloc_far_left:
  assumes "far_inv s u" "0 < left (far_gen s u)"
  obtains i g where "alloc_far u s = (Inr i, s\<lparr>upfs := (upfs s)[u := (upfs s ! u)\<lparr>farIDGenerator := g\<rparr>]\<rparr>)"
    "far_inv (s\<lparr>upfs := (upfs s)[u := (upfs s ! u)\<lparr>farIDGenerator := g\<rparr>]\<rparr>) u"
    "left (far_gen s u) = Suc (left g)" "1 \<le> i" "i < 2 ^ 32" "i \<notin> allocated (far_gen s u)"
    "allocated g = insert i (allocated (far_gen s u))"
proof -
  have "allocated (far_gen s u) \<noteq> {1..2 ^ 32 - 1}" using assms(2) left_full [of "far_gen s u"] by auto
  then obtain i g where g: "alloc_far u s = (Inr i, s\<lparr>upfs := (upfs s)[u := (upfs s ! u)\<lparr>farIDGenerator := g\<rparr>]\<rparr>)"
    "1 \<le> i" "i < 2 ^ 32" "i \<notin> allocated (far_gen s u)" "allocated g = insert i (allocated (far_gen s u))"
    "pool_wf g" "minValue g = 1" "maxValue g = 2 ^ 32 - 1"
    using alloc_far_cases [OF assms(1)] by blast
  show ?thesis
    using that [OF g(1) far_inv_alloc [OF assms(1) g(5-8)] left_insert [OF g(2-5)] g(2-5)] .
qed

text \<open>What an allocation leaves as it is.\<close>

definition upf_keep :: "UPF \<Rightarrow> UPF \<Rightarrow> bool" where
  "upf_keep x y \<longleftrightarrow> UPF_NodeID y = UPF_NodeID x \<and> UPIPInfo y = UPIPInfo x \<and> UPF_Status y = UPF_Status x"

lemma AddFAR_left:
  assumes inv: "far_inv s u" and st: "UPF_Status (upfs s ! u) = AssociatedSetUpSuccess" and lft: "0 < left (far_gen s u)"
  shows "\<exists>f y. AddFAR u s = (Inr (length (fars s)), s\<lparr>fars := fars s @ [f], upfs := (upfs s)[u := y]\<rparr>) \<and>
    far_inv (s\<lparr>fars := fars s @ [f], upfs := (upfs s)[u := y]\<rparr>) u \<and> left (far_gen s u) = Suc (left (farIDGenerator y)) \<and>
    upf_keep (upfs s ! u) y \<and> teidGenerator y = teidGenerator (upfs s ! u)"
proof -
  obtain i g where g: "alloc_far u s = (Inr i, s\<lparr>upfs := (upfs s)[u := (upfs s ! u)\<lparr>farIDGenerator := g\<rparr>]\<rparr>)"
    "left (far_gen s u) = Suc (left g)" using alloc_far_left [OF inv lft] by metis
  note u = far_inv_bound [OF inv]
  let ?y = "(upfs s ! u)\<lparr>farIDGenerator := g, farPool := (farPool (upfs s ! u))(word_of_int i \<mapsto> length (fars s))\<rparr>"
  let ?s = "s\<lparr>fars := fars s @ [FAR_new\<lparr>FARID := word_of_int i\<rparr>], upfs := (upfs s)[u := ?y]\<rparr>"
  have "AddFAR u s = (Inr (length (fars s)), ?s)" using g(1) u st by (simp add: AddFAR_def farID_def)
  moreover from this have "far_inv ?s u" using AddFAR_inv [OF inv] by simp
  ultimately show ?thesis using g(2) by (intro exI [of _ "FAR_new\<lparr>FARID := word_of_int i\<rparr>"] exI [of _ ?y]) (simp add: upf_keep_def)
qed

lemma AddPDR_left:
  assumes inv: "far_inv s u" and st: "UPF_Status (upfs s ! u) = AssociatedSetUpSuccess" and lft: "2 \<le> left (far_gen s u)"
  shows "\<exists>x f y. AddPDR u s = (Inr (length (pdrs s)),
      s\<lparr>pdrs := pdrs s @ [x], fars := fars s @ [f], upfs := (upfs s)[u := y]\<rparr>) \<and>
    PDR_FAR x = Some (length (fars s)) \<and>
    far_inv (s\<lparr>pdrs := pdrs s @ [x], fars := fars s @ [f], upfs := (upfs s)[u := y]\<rparr>) u \<and>
    left (far_gen s u) = Suc (Suc (left (farIDGenerator y))) \<and>
    upf_keep (upfs s ! u) y \<and> teidGenerator y = teidGenerator (upfs s ! u)"
proof -
  obtain i g where g: "alloc_far u s = (Inr i, s\<lparr>upfs := (upfs s)[u := (upfs s ! u)\<lparr>farIDGenerator := g\<rparr>]\<rparr>)"
    "far_inv (s\<lparr>upfs := (upfs s)[u := (upfs s ! u)\<lparr>farIDGenerator := g\<rparr>]\<rparr>) u"
    "left (far_gen s u) = Suc (left g)" using alloc_far_left [OF inv] lft by (metis Suc_le_eq numeral_2_eq_2 Suc_lessD)
  note u = far_inv_bound [OF inv]
  let ?i = "word_of_int i :: u16"
  let ?x = "PDR_new\<lparr>PDRID := ?i\<rparr>" and ?pp = "(pdrPool (upfs s ! u))(?i \<mapsto> length (pdrs s))"
  let ?s = "s\<lparr>pdrs := pdrs s @ [?x], upfs := (upfs s)[u := (upfs s ! u)\<lparr>farIDGenerator := g, pdrPool := ?pp\<rparr>]\<rparr>"
  have inv1: "far_inv ?s u" by (rule far_inv_cong [OF g(2)]) (use u in simp_all)
  have st1: "UPF_Status (upfs ?s ! u) = AssociatedSetUpSuccess" using u st by simp
  have gen: "far_gen ?s u = g" using u by simp
  obtain f y where fy: "AddFAR u ?s = (Inr (length (fars ?s)), ?s\<lparr>fars := fars ?s @ [f], upfs := (upfs ?s)[u := y]\<rparr>)"
    "far_inv (?s\<lparr>fars := fars ?s @ [f], upfs := (upfs ?s)[u := y]\<rparr>) u" "left g = Suc (left (farIDGenerator y))"
    "upf_keep (upfs ?s ! u) y" "teidGenerator y = teidGenerator (upfs ?s ! u)"
    using AddFAR_left [OF inv1 st1] lft g(3) unfolding gen by auto
  let ?x' = "?x\<lparr>PDR_FAR := Some (length (fars s))\<rparr>"
  let ?t = "s\<lparr>pdrs := pdrs s @ [?x'], fars := fars s @ [f], upfs := (upfs s)[u := y]\<rparr>"
  have run: "AddPDR u s = (Inr (length (pdrs s)), ?t)"
    using g(1) u st fy(1) by (simp add: AddPDR_def pdrID_def nth_append list_update_append)
  have "far_inv ?t u" by (rule far_inv_cong [OF fy(2)]) (use u in simp_all)
  then show ?thesis
    using run g(3) fy(3-5) u by (intro exI [of _ ?x'] exI [of _ f] exI [of _ y]) (simp add: upf_keep_def)
qed

text \<open>The generator of tunnel endpoint identifiers.\<close>

definition teid_wf :: "IDGenerator \<Rightarrow> bool" where
  "teid_wf g \<longleftrightarrow> pool_wf g \<and> minValue g = 1 \<and> maxValue g = 2 ^ 32 - 1"

lemma GenerateTEID_left:
  assumes "u < length (upfs s)" "UPF_Status (upfs s ! u) = AssociatedSetUpSuccess"
    "teid_wf (teidGenerator (upfs s ! u))" "0 < left (teidGenerator (upfs s ! u))"
  shows "\<exists>t g. GenerateTEID u s = (Inr t, s\<lparr>upfs := (upfs s)[u := (upfs s ! u)\<lparr>teidGenerator := g\<rparr>]\<rparr>) \<and>
    teid_wf g \<and> left (teidGenerator (upfs s ! u)) = Suc (left g) \<and>
    uint t \<notin> allocated (teidGenerator (upfs s ! u)) \<and> allocated g = insert (uint t) (allocated (teidGenerator (upfs s ! u)))"
proof -
  let ?g = "teidGenerator (upfs s ! u)"
  have w: "pool_wf ?g" "minValue ?g = 1" "maxValue ?g = 2 ^ 32 - 1" using assms(3) by (simp_all add: teid_wf_def)
  have "allocated ?g \<noteq> {minValue ?g..maxValue ?g}" using assms(4) left_full [of ?g] w by auto
  from Allocate_free [OF w(1) this] obtain i g where
    g: "Allocate ?g = Some (Inr (g, Some i))" "i \<in> {1..2 ^ 32 - 1} - allocated ?g"
    "allocated g = insert i (allocated ?g)" "minValue g = 1" "maxValue g = 2 ^ 32 - 1" "pool_wf g"
    unfolding w by blast
  have i: "1 \<le> i" "i < 2 ^ 32" "i \<notin> allocated ?g" using g(2) by auto
  have "uint (word_of_int i :: u32) = i" using i by (simp add: uint_of_range)
  moreover have "GenerateTEID u s = (Inr (word_of_int i), s\<lparr>upfs := (upfs s)[u := (upfs s ! u)\<lparr>teidGenerator := g\<rparr>]\<rparr>)"
    using assms(1,2) g(1) by (simp add: GenerateTEID_def alloc_from_def)
  ultimately show ?thesis
    using g i left_insert [OF i g(3)] by (intro exI [of _ "word_of_int i"] exI [of _ g]) (simp add: teid_wf_def)
qed

section \<open>One tunnel\<close>

definition upf_ready :: "'a dp_heap_scheme \<Rightarrow> nat \<Rightarrow> nat \<Rightarrow> bool" where
  "upf_ready s u k \<longleftrightarrow> far_inv s u \<and> UPF_Status (upfs s ! u) = AssociatedSetUpSuccess \<and>
     teid_wf (teidGenerator (upfs s ! u)) \<and> 2 * k \<le> left (far_gen s u) \<and> k \<le> left (teidGenerator (upfs s ! u))"

definition session_ok :: "(NodeID \<Rightarrow> string) \<Rightarrow> nat \<Rightarrow> 'a dp_heap_scheme \<Rightarrow> nat \<Rightarrow> bool" where
  "session_ok key c s u \<longleftrightarrow> c < length (smcontexts s) \<and> PFCPContext (smcontexts s ! c) (key (UPF_NodeID (upfs s ! u))) \<noteq> None"

definition sm_keep :: "SMContext \<Rightarrow> SMContext \<Rightarrow> bool" where
  "sm_keep x y \<longleftrightarrow> PDUAddress y = PDUAddress x \<and> SM_Dnn y = SM_Dnn x \<and> AN_IPAddress y = AN_IPAddress x \<and>
     AN_TEID y = AN_TEID x \<and> dom (PFCPContext y) = dom (PFCPContext x)"

text \<open>What the activation of a tunnel leaves as it is.\<close>

definition act_frame :: "'a dp_heap_scheme \<Rightarrow> 'a dp_heap_scheme \<Rightarrow> bool" where
  "act_frame s t \<longleftrightarrow> dpnodes t = dpnodes s \<and> datapaths t = datapaths s \<and> ip_arrays t = ip_arrays s \<and>
     length (tunnels t) = length (tunnels s) \<and> length (upfs t) = length (upfs s) \<and>
     (\<forall>u < length (upfs s). upf_keep (upfs s ! u) (upfs t ! u)) \<and> length (smcontexts t) = length (smcontexts s) \<and>
     (\<forall>c < length (smcontexts s). sm_keep (smcontexts s ! c) (smcontexts t ! c))"

lemma act_frame_refl: "act_frame s s"
  by (simp add: act_frame_def upf_keep_def sm_keep_def)

lemma act_frame_trans: "act_frame s t \<Longrightarrow> act_frame t w \<Longrightarrow> act_frame s w"
  by (simp add: act_frame_def upf_keep_def sm_keep_def)

lemma session_ok_frame:
  "act_frame s t \<Longrightarrow> u < length (upfs s) \<Longrightarrow> session_ok key c s u \<Longrightarrow> session_ok key c t u"
  unfolding act_frame_def session_ok_def sm_keep_def upf_keep_def by (metis domIff)

text \<open>One tunnel \<open>a\<close> of node \<open>n\<close>, on UPF \<open>u\<close>, has been activated; the UPF had resources for \<open>Suc k\<close> tunnels.\<close>

definition tunnel_activated :: "'a dp_heap_scheme \<Rightarrow> nat \<Rightarrow> nat \<Rightarrow> nat \<Rightarrow> nat \<Rightarrow> 'a dp_heap_scheme \<Rightarrow> bool" where
  "tunnel_activated s n u k a t \<longleftrightarrow> act_frame s t \<and>
     (\<exists>teid. tunnels t = (tunnels s)[a := \<lparr>SrcEndPoint = SrcEndPoint (tunnels s ! a), DestEndPoint = Some n, TEID = teid,
        Tunnel_PDR = Some (length (pdrs s))\<rparr>]) \<and>
     (\<exists>x f. pdrs t = pdrs s @ [x] \<and> fars t = fars s @ [f] \<and> PDR_FAR x = Some (length (fars s))) \<and>
     upf_ready t u k \<and> (\<forall>v. v \<noteq> u \<longrightarrow> upfs t ! v = upfs s ! v)"

lemma upf_ready_other:
  assumes "upf_ready s v j" "length (upfs t) = length (upfs s)" "upfs t ! v = upfs s ! v" "fars t = fars s @ [f]"
  shows "upf_ready t v j"
  using assms by (fastforce simp: upf_ready_def far_inv_def Let_def nth_append)

text \<open>
  The common part of the two functions, after the end points are set: add the PDR, put it into the
  session, and get a TEID.
\<close>

lemma activate_tail:
  assumes rdy: "upf_ready s u (Suc k)" and ses: "session_ok key c s u" and a: "a < length (tunnels s)"
  shows "\<exists>t teid. bind (AddPDR u) (\<lambda>pdr.
      bind (upd_tunnel (Some a) (Tunnel_PDR_update (\<lambda>_. Some pdr))) (\<lambda>_.
      bind (get_UPF u) (\<lambda>upf.
      bind (PutPDRtoPFCPSession key c (UPF_NodeID upf) (Some pdr)) (\<lambda>_.
      bind (GenerateTEID u) (\<lambda>teid.
      upd_tunnel (Some a) (TEID_update (\<lambda>_. teid))))))) s = (Inr (), t) \<and>
    act_frame s t \<and> tunnels t = (tunnels s)[a := (tunnels s ! a)\<lparr>Tunnel_PDR := Some (length (pdrs s)), TEID := teid\<rparr>] \<and>
    (\<exists>x f. pdrs t = pdrs s @ [x] \<and> fars t = fars s @ [f] \<and> PDR_FAR x = Some (length (fars s))) \<and>
    upf_ready t u k \<and> (\<forall>v. v \<noteq> u \<longrightarrow> upfs t ! v = upfs s ! v)"
proof -
  have inv: "far_inv s u" "UPF_Status (upfs s ! u) = AssociatedSetUpSuccess" "2 \<le> left (far_gen s u)"
    "teid_wf (teidGenerator (upfs s ! u))" "Suc k \<le> left (teidGenerator (upfs s ! u))" "2 * Suc k \<le> left (far_gen s u)"
    using rdy by (simp_all add: upf_ready_def)
  note u = far_inv_bound [OF inv(1)]
  obtain x f y where p: "AddPDR u s = (Inr (length (pdrs s)), s\<lparr>pdrs := pdrs s @ [x], fars := fars s @ [f], upfs := (upfs s)[u := y]\<rparr>)"
    "PDR_FAR x = Some (length (fars s))" "far_inv (s\<lparr>pdrs := pdrs s @ [x], fars := fars s @ [f], upfs := (upfs s)[u := y]\<rparr>) u"
    "left (far_gen s u) = Suc (Suc (left (farIDGenerator y)))" "upf_keep (upfs s ! u) y" "teidGenerator y = teidGenerator (upfs s ! u)"
    using AddPDR_left [OF inv(1-3)] by blast
  let ?key = "key (UPF_NodeID (upfs s ! u))"
  obtain sess where sess: "PFCPContext (smcontexts s ! c) ?key = Some sess" and c: "c < length (smcontexts s)"
    using ses by (auto simp: session_ok_def)
  let ?sm = "(smcontexts s ! c)\<lparr>PFCPContext := (PFCPContext (smcontexts s ! c))(?key \<mapsto>
     sess\<lparr>Session_PDRs := (Session_PDRs sess)(PDRID x \<mapsto> length (pdrs s))\<rparr>)\<rparr>"
  let ?s = "s\<lparr>pdrs := pdrs s @ [x], fars := fars s @ [f], upfs := (upfs s)[u := y],
     tunnels := (tunnels s)[a := (tunnels s ! a)\<lparr>Tunnel_PDR := Some (length (pdrs s))\<rparr>],
     smcontexts := (smcontexts s)[c := ?sm]\<rparr>"
  have y: "UPF_Status y = AssociatedSetUpSuccess" "UPF_NodeID y = UPF_NodeID (upfs s ! u)"
    using p(5) inv(2) by (simp_all add: upf_keep_def)
  obtain teid g where t: "GenerateTEID u ?s = (Inr teid, ?s\<lparr>upfs := (upfs ?s)[u := (upfs ?s ! u)\<lparr>teidGenerator := g\<rparr>]\<rparr>)"
    "teid_wf g" "left (teidGenerator y) = Suc (left g)"
    using GenerateTEID_left [of u ?s] u y p(6) inv(4,5) by auto
  let ?t = "?s\<lparr>upfs := (upfs s)[u := y\<lparr>teidGenerator := g\<rparr>],
     tunnels := (tunnels s)[a := (tunnels s ! a)\<lparr>Tunnel_PDR := Some (length (pdrs s)), TEID := teid\<rparr>]\<rparr>"
  have run: "bind (AddPDR u) (\<lambda>pdr.
      bind (upd_tunnel (Some a) (Tunnel_PDR_update (\<lambda>_. Some pdr))) (\<lambda>_.
      bind (get_UPF u) (\<lambda>upf.
      bind (PutPDRtoPFCPSession key c (UPF_NodeID upf) (Some pdr)) (\<lambda>_.
      bind (GenerateTEID u) (\<lambda>teid.
      upd_tunnel (Some a) (TEID_update (\<lambda>_. teid))))))) s = (Inr (), ?t)"
    using p(1) u a y(2) sess c t(1) by (simp add: PutPDRtoPFCPSession_def upd_sm_def nth_append)
  have fr: "act_frame s ?t"
    using p(5) u c sess by (auto simp: act_frame_def upf_keep_def sm_keep_def nth_list_update)
  have "far_inv ?t u" by (rule far_inv_cong [OF p(3)]) (use u in simp_all)
  then have "upf_ready ?t u k"
    using inv p(4-6) t(2,3) u y by (simp add: upf_ready_def)
  then show ?thesis using run fr p(2) by (intro exI [of _ ?t] exI [of _ teid]) simp
qed

lemma tunnel_upd:
  "x\<lparr>DestEndPoint := b, Tunnel_PDR := p, TEID := d\<rparr> =
   \<lparr>SrcEndPoint = SrcEndPoint x, DestEndPoint = b, TEID = d, Tunnel_PDR = p\<rparr>" for x :: GTPTunnel
  by (cases x) simp

lemma ActivateUpLinkTunnel_ok:
  assumes ok: "node_ok s n" and upf: "Node_UPF (dpnodes s ! n) = Some u" and rdy: "upf_ready s u (Suc k)"
    and ses: "session_ok key c s u"
  shows "\<exists>t. ActivateUpLinkTunnel key c n s = (Inr (), t) \<and> tunnel_activated s n u k (up s n) t"
proof -
  obtain a where a: "UpLinkTunnel (dpnodes s ! n) = Some a" "a < length (tunnels s)" "n < length (dpnodes s)"
    using ok by (auto simp: node_ok_def)
  let ?s = "s\<lparr>tunnels := (tunnels s)[a := (tunnels s ! a)\<lparr>SrcEndPoint := SrcEndPoint (tunnels s ! a), DestEndPoint := Some n\<rparr>]\<rparr>"
  have "upf_ready ?s u (Suc k)" using rdy by (simp add: upf_ready_def far_inv_def)
  moreover have "session_ok key c ?s u" using ses by (simp add: session_ok_def)
  ultimately obtain t teid where t: "bind (AddPDR u) (\<lambda>pdr.
      bind (upd_tunnel (Some a) (Tunnel_PDR_update (\<lambda>_. Some pdr))) (\<lambda>_.
      bind (get_UPF u) (\<lambda>upf.
      bind (PutPDRtoPFCPSession key c (UPF_NodeID upf) (Some pdr)) (\<lambda>_.
      bind (GenerateTEID u) (\<lambda>teid.
      upd_tunnel (Some a) (TEID_update (\<lambda>_. teid))))))) ?s = (Inr (), t)"
    "act_frame ?s t" "tunnels t = (tunnels ?s)[a := (tunnels ?s ! a)\<lparr>Tunnel_PDR := Some (length (pdrs ?s)), TEID := teid\<rparr>]"
    "\<exists>x f. pdrs t = pdrs ?s @ [x] \<and> fars t = fars ?s @ [f] \<and> PDR_FAR x = Some (length (fars ?s))"
    "upf_ready t u k" "\<forall>v. v \<noteq> u \<longrightarrow> upfs t ! v = upfs ?s ! v"
    using activate_tail [of ?s u k key c a] a(2) by auto
  obtain q t1 where q: "AddPDR u ?s = (Inr q, t1)"
    using t(1) by (auto simp: bind_inr_iff)
  have "ActivateUpLinkTunnel key c n s = (Inr (), t)"
    using t(1) a upf ok q by (simp add: ActivateUpLinkTunnel_def node_upf_def)
  moreover have "act_frame s t" using t(2) by (simp add: act_frame_def)
  moreover have "tunnels t = (tunnels s)[a := \<lparr>SrcEndPoint = SrcEndPoint (tunnels s ! a), DestEndPoint = Some n, TEID = teid,
      Tunnel_PDR = Some (length (pdrs s))\<rparr>]"
    using t(3) a by (simp add: tunnel_upd)
  ultimately show ?thesis using t(4-6) a unfolding tunnel_activated_def by auto
qed

lemma ActivateDownLinkTunnel_ok:
  assumes ok: "node_ok s n" and upf: "Node_UPF (dpnodes s ! n) = Some u" and rdy: "upf_ready s u (Suc k)"
    and ses: "session_ok key c s u"
  shows "\<exists>t. ActivateDownLinkTunnel key c n s = (Inr (), t) \<and> tunnel_activated s n u k (down s n) t"
proof -
  obtain a where a: "DownLinkTunnel (dpnodes s ! n) = Some a" "a < length (tunnels s)" "n < length (dpnodes s)"
    using ok by (auto simp: node_ok_def)
  let ?s = "s\<lparr>tunnels := (tunnels s)[a := (tunnels s ! a)\<lparr>SrcEndPoint := SrcEndPoint (tunnels s ! a), DestEndPoint := Some n\<rparr>]\<rparr>"
  have "upf_ready ?s u (Suc k)" using rdy by (simp add: upf_ready_def far_inv_def)
  moreover have "session_ok key c ?s u" using ses by (simp add: session_ok_def)
  ultimately obtain t teid where t: "bind (AddPDR u) (\<lambda>pdr.
      bind (upd_tunnel (Some a) (Tunnel_PDR_update (\<lambda>_. Some pdr))) (\<lambda>_.
      bind (get_UPF u) (\<lambda>upf.
      bind (PutPDRtoPFCPSession key c (UPF_NodeID upf) (Some pdr)) (\<lambda>_.
      bind (GenerateTEID u) (\<lambda>teid.
      upd_tunnel (Some a) (TEID_update (\<lambda>_. teid))))))) ?s = (Inr (), t)"
    "act_frame ?s t" "tunnels t = (tunnels ?s)[a := (tunnels ?s ! a)\<lparr>Tunnel_PDR := Some (length (pdrs ?s)), TEID := teid\<rparr>]"
    "\<exists>x f. pdrs t = pdrs ?s @ [x] \<and> fars t = fars ?s @ [f] \<and> PDR_FAR x = Some (length (fars ?s))"
    "upf_ready t u k" "\<forall>v. v \<noteq> u \<longrightarrow> upfs t ! v = upfs ?s ! v"
    using activate_tail [of ?s u k key c a] a(2) by auto
  obtain q t1 where q: "AddPDR u ?s = (Inr q, t1)"
    using t(1) by (auto simp: bind_inr_iff)
  have "ActivateDownLinkTunnel key c n s = (Inr (), t)"
    using t(1) a upf ok q by (simp add: ActivateDownLinkTunnel_def node_upf_def)
  moreover have "act_frame s t" using t(2) by (simp add: act_frame_def)
  moreover have "tunnels t = (tunnels s)[a := \<lparr>SrcEndPoint = SrcEndPoint (tunnels s ! a), DestEndPoint = Some n, TEID = teid,
      Tunnel_PDR = Some (length (pdrs s))\<rparr>]"
    using t(3) a by (simp add: tunnel_upd)
  ultimately show ?thesis using t(4-6) a unfolding tunnel_activated_def by auto
qed

section \<open>All tunnels\<close>

lemma tunnel_activatedE:
  assumes "tunnel_activated s n u k a t"
  obtains teid x f where "act_frame s t" "tunnels t = (tunnels s)[a := \<lparr>SrcEndPoint = SrcEndPoint (tunnels s ! a),
      DestEndPoint = Some n, TEID = teid, Tunnel_PDR = Some (length (pdrs s))\<rparr>]"
    "pdrs t = pdrs s @ [x]" "fars t = fars s @ [f]" "PDR_FAR x = Some (length (fars s))"
    "upf_ready t u k" "\<And>v. v \<noteq> u \<Longrightarrow> upfs t ! v = upfs s ! v" "dpnodes t = dpnodes s" "length (upfs t) = length (upfs s)"
  using assms unfolding tunnel_activated_def act_frame_def by blast

lemma dp_list_activated:
  assumes "tunnel_activated s n u k a t" "dp_list s ns" "a < length (tunnels s)"
  shows "dp_list t ns"
  using assms(1)
proof (rule tunnel_activatedE)
  fix teid
  assume t: "tunnels t = (tunnels s)[a := \<lparr>SrcEndPoint = SrcEndPoint (tunnels s ! a), DestEndPoint = Some n, TEID = teid,
      Tunnel_PDR = Some (length (pdrs s))\<rparr>]" "dpnodes t = dpnodes s"
  have "SrcEndPoint (tunnels t ! j) = SrcEndPoint (tunnels s ! j)" for j
    using assms(3) by (cases "j = a") (simp_all add: t)
  then show ?thesis using assms(2) t by (simp add: dp_list_def node_ok_def)
qed

lemma rules_ok_activated:
  assumes "tunnel_activated s n u k a t" "rules_ok s m" "a \<noteq> up s m" "a \<noteq> down s m"
  shows "rules_ok t m \<and> ulp t m = ulp s m \<and> dlp t m = dlp s m \<and> ulf t m = ulf s m \<and> dlf t m = dlf s m"
  using assms(1)
proof (rule tunnel_activatedE)
  fix teid x f
  assume "tunnels t = (tunnels s)[a := \<lparr>SrcEndPoint = SrcEndPoint (tunnels s ! a), DestEndPoint = Some n, TEID = teid,
      Tunnel_PDR = Some (length (pdrs s))\<rparr>]" "pdrs t = pdrs s @ [x]" "fars t = fars s @ [f]" "dpnodes t = dpnodes s"
    "length (upfs t) = length (upfs s)"
  then show ?thesis using assms(2-4) by (auto simp: rules_ok_def nth_append)
qed

definition act_done :: "'a dp_heap_scheme \<Rightarrow> nat list \<Rightarrow> nat \<Rightarrow> 'a dp_heap_scheme \<Rightarrow> bool" where
  "act_done s ns k t \<longleftrightarrow> act_frame s t \<and> dp_list t ns \<and> (\<forall>i < k. rules_ok t (ns ! i)) \<and>
     distinct (concat (map (\<lambda>n. [ulp t n, dlp t n]) (take k ns))) \<and>
     distinct (concat (map (\<lambda>n. [ulf t n, dlf t n]) (take k ns))) \<and>
     (\<forall>n \<in> set ns. upf_ready t (the (Node_UPF (dpnodes t ! n))) (2 * (length ns - k)))"

text \<open>Both tunnels of one node.\<close>

lemma node_activated:
  assumes ok: "node_ok s n" "up s n \<noteq> down s n" and upf: "Node_UPF (dpnodes s ! n) = Some u"
    and rdy: "upf_ready s u (Suc (Suc k))" and ses: "session_ok key c s u"
  obtains t w where "activate_node key c n s = (Inr (), w)" "tunnel_activated s n u (Suc k) (up s n) t"
    "tunnel_activated t n u k (down s n) w" "rules_ok w n"
    "ulp w n = length (pdrs s)" "dlp w n = Suc (length (pdrs s))" "ulf w n = length (fars s)" "dlf w n = Suc (length (fars s))"
proof -
  obtain t where t: "ActivateUpLinkTunnel key c n s = (Inr (), t)" "tunnel_activated s n u (Suc k) (up s n) t"
    using ActivateUpLinkTunnel_ok [OF ok(1) upf rdy ses] by blast
  from t(2) obtain teid x f where ft: "act_frame s t" "tunnels t = (tunnels s)[up s n := \<lparr>SrcEndPoint = SrcEndPoint (tunnels s ! up s n),
      DestEndPoint = Some n, TEID = teid, Tunnel_PDR = Some (length (pdrs s))\<rparr>]"
    "pdrs t = pdrs s @ [x]" "fars t = fars s @ [f]" "PDR_FAR x = Some (length (fars s))"
    "upf_ready t u (Suc k)" "dpnodes t = dpnodes s" "length (upfs t) = length (upfs s)"
    by (rule tunnel_activatedE) blast
  have u: "u < length (upfs s)" using rdy far_inv_bound by (auto simp: upf_ready_def)
  have okt: "node_ok t n" using ok(1) ft by (simp add: node_ok_def)
  have upft: "Node_UPF (dpnodes t ! n) = Some u" using upf ft by simp
  have dn: "down t n = down s n" using ft by simp
  obtain w where w: "ActivateDownLinkTunnel key c n t = (Inr (), w)" "tunnel_activated t n u k (down s n) w"
    using ActivateDownLinkTunnel_ok [OF okt upft ft(6) session_ok_frame [OF ft(1) u ses]] unfolding dn by blast
  from w(2) obtain teid' x' f' where fw: "tunnels w = (tunnels t)[down s n := \<lparr>SrcEndPoint = SrcEndPoint (tunnels t ! down s n),
      DestEndPoint = Some n, TEID = teid', Tunnel_PDR = Some (length (pdrs t))\<rparr>]"
    "pdrs w = pdrs t @ [x']" "fars w = fars t @ [f']" "PDR_FAR x' = Some (length (fars t))" "dpnodes w = dpnodes t"
    "length (upfs w) = length (upfs t)"
    by (rule tunnel_activatedE) blast
  have run: "activate_node key c n s = (Inr (), w)"
    using t(1) w(1) by (simp add: activate_node_def)
  have ptr: "ulp w n = length (pdrs s)" "dlp w n = Suc (length (pdrs s))" "ulf w n = length (fars s)" "dlf w n = Suc (length (fars s))"
    using ok ft fw by (auto simp: node_ok_def nth_append)
  have "rules_ok w n"
    using ok ft fw upf u by (auto simp: rules_ok_def node_ok_def nth_append)
  then show ?thesis using that [OF run t(2) w(2) _ ptr] by blast
qed

lemma upf_ready_mono: "upf_ready s u k \<Longrightarrow> j \<le> k \<Longrightarrow> upf_ready s u j"
  by (auto simp: upf_ready_def)

lemma upf_ready_activated:
  assumes "tunnel_activated s n u j a t" "upf_ready s v (Suc j)"
  shows "upf_ready t v j"
proof (cases "v = u")
  case True
  then show ?thesis using assms(1) by (simp add: tunnel_activated_def)
next
  case False
  from assms(1) show ?thesis
  proof (rule tunnel_activatedE)
    fix f
    assume "fars t = fars s @ [f]" "\<And>v. v \<noteq> u \<Longrightarrow> upfs t ! v = upfs s ! v" "length (upfs t) = length (upfs s)"
    then have "upf_ready t v (Suc j)" using upf_ready_other [OF assms(2)] False by blast
    then show ?thesis by (rule upf_ready_mono) simp
  qed
qed

lemma distinct_concat_snoc:
  assumes "distinct (concat (map (\<lambda>n. [a n, b n]) ns))" "\<forall>n \<in> set ns. a n < N \<and> b n < (N :: nat)"
  shows "distinct (concat (map (\<lambda>n. [a n, b n]) ns) @ [N, Suc N])"
  using assms by fastforce

lemma act_step:
  assumes inv: "act_done s ns k t" and k: "k < length ns"
    and upf: "\<forall>n \<in> set ns. Node_UPF (dpnodes s ! n) \<noteq> None"
    and ses: "\<forall>n \<in> set ns. session_ok key c s (the (Node_UPF (dpnodes s ! n)))"
  shows "\<exists>w. activate_node key c (ns ! k) t = (Inr (), w) \<and> act_done s ns (Suc k) w"
proof -
  let ?n = "ns ! k"
  have fr: "act_frame s t" and l: "dp_list t ns" and r: "\<forall>i < k. rules_ok t (ns ! i)"
    and dp: "distinct (concat (map (\<lambda>n. [ulp t n, dlp t n]) (take k ns)))"
    and df: "distinct (concat (map (\<lambda>n. [ulf t n, dlf t n]) (take k ns)))"
    and rdy: "\<forall>n \<in> set ns. upf_ready t (the (Node_UPF (dpnodes t ! n))) (2 * (length ns - k))"
    using inv by (simp_all add: act_done_def)
  have j: "2 * (length ns - k) = Suc (Suc (2 * (length ns - Suc k)))" using k by simp
  have nodes: "dpnodes t = dpnodes s" "length (upfs t) = length (upfs s)" using fr by (simp_all add: act_frame_def)
  obtain u where u: "Node_UPF (dpnodes s ! ?n) = Some u" using upf k by force
  have n: "?n \<in> set ns" using k by simp
  have ru: "upf_ready t u (Suc (Suc (2 * (length ns - Suc k))))" using rdy [rule_format, OF n] u nodes unfolding j by simp
  then have "u < length (upfs s)" using far_inv_bound [of t u] nodes(2) by (simp add: upf_ready_def)
  then have st: "session_ok key c t u" using session_ok_frame [OF fr] ses [rule_format, OF n] u by simp
  have tun: "distinct (concat (map (\<lambda>n. [up t n, down t n]) ns))" using l by (simp add: dp_list_def)
  have ok: "node_ok t ?n" "up t ?n \<noteq> down t ?n" using l n distinct_pairs_nth(1) [OF tun k k] by (simp_all add: dp_list_def)
  have ut: "Node_UPF (dpnodes t ! ?n) = Some u" using u nodes by simp
  obtain v w where vw: "activate_node key c ?n t = (Inr (), w)"
    "tunnel_activated t ?n u (Suc (2 * (length ns - Suc k))) (up t ?n) v"
    "tunnel_activated v ?n u (2 * (length ns - Suc k)) (down t ?n) w" "rules_ok w ?n"
    "ulp w ?n = length (pdrs t)" "dlp w ?n = Suc (length (pdrs t))" "ulf w ?n = length (fars t)" "dlf w ?n = Suc (length (fars t))"
    by (rule node_activated [OF ok ut ru st])
  have f1: "act_frame t v" and f2: "act_frame v w" using vw(2,3) by (simp_all add: tunnel_activated_def)
  have len: "length (tunnels v) = length (tunnels t)" "dpnodes v = dpnodes t" "dpnodes w = dpnodes t"
    using f1 f2 by (simp_all add: act_frame_def)
  have frw: "act_frame s w" using act_frame_trans [OF act_frame_trans [OF fr f1] f2] .
  have lw: "dp_list w ns"
    using dp_list_activated [OF vw(3) dp_list_activated [OF vw(2) l]] ok(1) len by (simp add: node_ok_def)
  have old: "rules_ok w (ns ! i) \<and> ulp w (ns ! i) = ulp t (ns ! i) \<and> dlp w (ns ! i) = dlp t (ns ! i) \<and>
      ulf w (ns ! i) = ulf t (ns ! i) \<and> dlf w (ns ! i) = dlf t (ns ! i)" if i: "i < k" for i
  proof -
    have i': "i < length ns" using i k by simp
    note d = distinct_pairs_nth [OF tun i' k] distinct_pairs_nth [OF tun k i']
    have 1: "rules_ok v (ns ! i) \<and> ulp v (ns ! i) = ulp t (ns ! i) \<and> dlp v (ns ! i) = dlp t (ns ! i) \<and>
      ulf v (ns ! i) = ulf t (ns ! i) \<and> dlf v (ns ! i) = dlf t (ns ! i)"
      by (rule rules_ok_activated [OF vw(2)]) (use r i d in auto)
    have "rules_ok w (ns ! i) \<and> ulp w (ns ! i) = ulp v (ns ! i) \<and> dlp w (ns ! i) = dlp v (ns ! i) \<and>
      ulf w (ns ! i) = ulf v (ns ! i) \<and> dlf w (ns ! i) = dlf v (ns ! i)"
      by (rule rules_ok_activated [OF vw(3)]) (use 1 i d len in auto)
    with 1 show ?thesis by metis
  qed
  have same: "ulp w n = ulp t n" "dlp w n = dlp t n" "ulf w n = ulf t n" "dlf w n = dlf t n" if n: "n \<in> set (take k ns)" for n
  proof -
    obtain i where "i < k" "n = ns ! i" using n k by (auto simp: in_set_conv_nth)
    then show "ulp w n = ulp t n" "dlp w n = dlp t n" "ulf w n = ulf t n" "dlf w n = dlf t n" using old by blast+
  qed
  have mapold: "map (\<lambda>n. [ulp w n, dlp w n]) (take k ns) = map (\<lambda>n. [ulp t n, dlp t n]) (take k ns)"
    "map (\<lambda>n. [ulf w n, dlf w n]) (take k ns) = map (\<lambda>n. [ulf t n, dlf t n]) (take k ns)"
    using map_cong [OF refl, of "take k ns" "\<lambda>n. [ulp w n, dlp w n]" "\<lambda>n. [ulp t n, dlp t n]"]
      map_cong [OF refl, of "take k ns" "\<lambda>n. [ulf w n, dlf w n]" "\<lambda>n. [ulf t n, dlf t n]"]
      same(1,2) same(3,4) by presburger+
  have bnd: "\<forall>n \<in> set (take k ns). ulp t n < length (pdrs t) \<and> dlp t n < length (pdrs t)"
    "\<forall>n \<in> set (take k ns). ulf t n < length (fars t) \<and> dlf t n < length (fars t)"
    using r k by (auto simp: in_set_conv_nth rules_ok_def)
  have "distinct (concat (map (\<lambda>n. [ulp w n, dlp w n]) (take (Suc k) ns)))"
    "distinct (concat (map (\<lambda>n. [ulf w n, dlf w n]) (take (Suc k) ns)))"
    using distinct_concat_snoc [OF dp bnd(1)] distinct_concat_snoc [OF df bnd(2)]
    unfolding take_Suc_conv_app_nth [OF k] map_append concat_append mapold list.map concat.simps append_Nil2
    unfolding vw(7,8) unfolding vw(5,6) .
  moreover have "\<forall>i < Suc k. rules_ok w (ns ! i)" using old vw(4) by (auto simp: less_Suc_eq)
  moreover have "\<forall>n \<in> set ns. upf_ready w (the (Node_UPF (dpnodes w ! n))) (2 * (length ns - Suc k))"
    using rdy upf_ready_activated [OF vw(2)] upf_ready_activated [OF vw(3)] len unfolding j by auto
  ultimately show ?thesis using vw(1) frw lw by (intro exI [of _ w]) (simp add: act_done_def)
qed

lemma activation_loop:
  assumes l: "dp_list s ns" "ns \<noteq> []"
    and res: "\<forall>n \<in> set ns. \<exists>u. Node_UPF (dpnodes s ! n) = Some u \<and> upf_ready s u (2 * length ns) \<and> session_ok key c s u"
  shows "\<exists>t. for_nodes (length ns) (activate_node key c) (Some (ns ! 0)) s = Some (Inr (), t) \<and>
    act_frame s t \<and> tunnels_ready t ns"
proof -
  have upf: "\<forall>n \<in> set ns. Node_UPF (dpnodes s ! n) \<noteq> None"
    and ses: "\<forall>n \<in> set ns. session_ok key c s (the (Node_UPF (dpnodes s ! n)))"
    using res by fastforce+
  have 0: "act_done s ns 0 s"
    using l(1) res by (fastforce simp: act_done_def act_frame_refl)
  have "\<exists>t. for_nodes (length ns) (activate_node key c) (if 0 < length ns then Some (ns ! 0) else None) s = Some (Inr (), t) \<and>
      act_done s ns (length ns) t"
    by (rule for_nodes_rule [where P = "act_done s ns"]) (use act_step [OF _ _ upf ses] 0 in \<open>auto simp: act_done_def\<close>)
  then obtain t where t: "for_nodes (length ns) (activate_node key c) (Some (ns ! 0)) s = Some (Inr (), t)"
    "act_done s ns (length ns) t" using l(2) by auto
  moreover from this have "tunnels_ready t ns"
    by (auto simp: act_done_def tunnels_ready_def in_set_conv_nth)
  ultimately show ?thesis by (auto simp: act_done_def)
qed

section \<open>The activated path\<close>

text \<open>FAR \<open>f\<close> sends packets, in a new GTP-U header, to the tunnel end point that PDR \<open>p\<close> listens on.\<close>

definition forwards_to :: "'a dp_heap_scheme \<Rightarrow> nat \<Rightarrow> nat \<Rightarrow> bool" where
  "forwards_to t f p \<longleftrightarrow> FAR_ApplyAction (fars t ! f) = forward_action \<and>
     (\<exists>fp h e. FAR_ForwardingParameters (fars t ! f) = Some fp \<and> FP_OuterHeaderCreation fp = Some h \<and>
        PDI_LocalFTeid (PDR_PDI (pdrs t ! p)) = Some e \<and> OHC_Teid h = FTEID_Teid e \<and>
        OHC_Ipv4Address h = FTEID_Ipv4Address e \<and> OHC_OuterHeaderCreationDescription h = 1 \<and> FTEID_V4 e)"

lemma rounds_done_forwards:
  assumes ready: "tunnels_ready s ns" and rd: "rounds_done s c ns (length ns) t" and i: "Suc i < length ns"
  shows "forwards_to t (ulf t (ns ! i)) (ulp t (ns ! Suc i))" "forwards_to t (dlf t (ns ! Suc i)) (dlp t (ns ! i))"
proof -
  have st: "same_but_rules s t" using rd by (simp add: rounds_done_def)
  note eqs = same_but_rulesD [OF st]
  have r: "rules_ok s (ns ! i)" "rules_ok s (ns ! Suc i)" using ready i by (simp_all add: tunnels_ready_def)
  note ptr = same_but_rules_ok(2,3) [OF st r(1)] same_but_rules_ok(2,3) [OF st r(2)]
  have d: "pdrs t ! ulp s (ns ! Suc i) = uplink_pdr s c (ns ! Suc i) (pdrs s ! ulp s (ns ! Suc i))"
    "fars t ! ulf s (ns ! i) = uplink_far s c (Some (ns ! Suc i)) (fars s ! ulf s (ns ! i))"
    "pdrs t ! dlp s (ns ! i) = downlink_pdr s c (ns ! i) (Some (ns ! Suc i)) (pdrs s ! dlp s (ns ! i))"
    "fars t ! dlf s (ns ! Suc i) = downlink_far s c (Some (ns ! i)) (fars s ! dlf s (ns ! Suc i))"
    using rd i unfolding rounds_done_def Let_def by (simp_all add: Suc_lessD)
  show "forwards_to t (ulf t (ns ! i)) (ulp t (ns ! Suc i))" unfolding forwards_to_def ptr
    using d by (simp add: eqs uplink_pdr_def uplink_far_def gtp_header_def local_fteid_def)
  show "forwards_to t (dlf t (ns ! Suc i)) (dlp t (ns ! i))" unfolding forwards_to_def ptr
    using d by (simp add: eqs downlink_pdr_def downlink_far_def gtp_header_def local_fteid_def)
qed

text \<open>
  C5. \<^verbatim>\<open>ActivateTunnelAndPDR\<close> on a path whose UPFs are associated, have enough identifiers left and
  have a PFCP session: it returns and marks the path as activated. Every tunnel has a PDR and a FAR of
  its own. Between neighbours, the uplink FAR of a node sends to the tunnel end point that the uplink
  PDR of the next node listens on, and the downlink FAR of the next node sends to the end point that
  the downlink PDR of the node listens on; the uplink FAR of the anchor sends to the data network.
\<close>

theorem activation_stitches_tunnels:
  assumes "dp_list s ns" "ns \<noteq> []" "d < length (datapaths s)" "FirstDPNode (datapaths s ! d) = Some (ns ! 0)"
    and "\<forall>n \<in> set ns. \<exists>u. Node_UPF (dpnodes s ! n) = Some u \<and> upf_ready s u (2 * length ns) \<and> session_ok key c s u"
  shows "\<exists>t. ActivateTunnelAndPDR (length ns) key c d s = Some (Inr (), t) \<and> Activated (datapaths t ! d) \<and>
    tunnels_ready t ns \<and>
    (\<forall>i. Suc i < length ns \<longrightarrow> forwards_to t (ulf t (ns ! i)) (ulp t (ns ! Suc i)) \<and>
       forwards_to t (dlf t (ns ! Suc i)) (dlp t (ns ! i))) \<and>
    FAR_ForwardingParameters (fars t ! ulf t (last ns)) =
      Some ((dest_if iface_n6)\<lparr>FP_NetworkInstance := SM_Dnn (smcontexts t ! c)\<rparr>)"
proof -
  obtain t where t: "for_nodes (length ns) (activate_node key c) (Some (ns ! 0)) s = Some (Inr (), t)"
    "act_frame s t" "tunnels_ready t ns" using activation_loop [OF assms(1,2,5)] by blast
  obtain w where w: "for_nodes (length ns) (\<lambda>n. bind (setup_uplink c n) (\<lambda>_. setup_downlink c (Some (ns ! 0)) n)) (Some (ns ! 0)) t
    = Some (Inr (), w)" "rounds_done t c ns (length ns) w" using setup_loop [OF t(3) assms(2)] by blast
  have st: "same_but_rules t w" using w(2) by (simp add: rounds_done_def)
  note eqs = same_but_rulesD [OF st]
  let ?w = "w\<lparr>datapaths := (datapaths w)[d := (datapaths w ! d)\<lparr>Activated := True\<rparr>]\<rparr>"
  have "ActivateTunnelAndPDR (length ns) key c d s = Some (Inr (), ?w)"
    using t(1) w(1) assms(4) by (simp add: ActivateTunnelAndPDR_def Let_def)
  moreover have "d < length (datapaths w)" using eqs t(2) assms(3) by (simp add: act_frame_def)
  moreover have rw: "\<forall>n \<in> set ns. rules_ok w n \<and> ulf w n = ulf t n \<and> dlf w n = dlf t n"
    using t(3) same_but_rules_ok [OF st] by (simp add: tunnels_ready_def)
  moreover have "tunnels_ready ?w ns"
  proof -
    have "map (\<lambda>n. [ulf w n, dlf w n]) ns = map (\<lambda>n. [ulf t n, dlf t n]) ns" using rw by auto
    then have 1: "distinct (concat (map (\<lambda>n. [ulf w n, dlf w n]) ns))" using t(3) by (simp only: tunnels_ready_def)
    have 2: "distinct (concat (map (\<lambda>n. [ulp w n, dlp w n]) ns))" "dp_list w ns"
      using t(3) eqs by (simp_all add: tunnels_ready_def dp_list_def node_ok_def)
    have "\<forall>n \<in> set ns. rules_ok w n" using rw by blast
    then show ?thesis using 1 2 by (simp add: tunnels_ready_def dp_list_def node_ok_def rules_ok_def)
  qed
  moreover have "forwards_to ?w (ulf ?w (ns ! i)) (ulp ?w (ns ! Suc i)) \<and> forwards_to ?w (dlf ?w (ns ! Suc i)) (dlp ?w (ns ! i))"
    if "Suc i < length ns" for i
    using rounds_done_forwards [OF t(3) w(2) that] by (simp add: forwards_to_def)
  moreover have "FAR_ForwardingParameters (fars ?w ! ulf ?w (last ns)) =
      Some ((dest_if iface_n6)\<lparr>FP_NetworkInstance := SM_Dnn (smcontexts ?w ! c)\<rparr>)"
  proof -
    have l: "last ns = ns ! (length ns - 1)" "length ns - 1 < length ns" "Suc (length ns - 1) = length ns"
      using assms(2) by (simp_all add: last_conv_nth)
    then have "fars w ! ulf t (last ns) = uplink_far t c None (fars t ! ulf t (last ns))"
      using w(2) unfolding rounds_done_def Let_def by simp
    moreover have "ulf w (last ns) = ulf t (last ns)" using rw assms(2) by simp
    ultimately show ?thesis using eqs by (simp add: uplink_far_def)
  qed
  ultimately show ?thesis by (intro exI [of _ ?w]) simp
qed

section \<open>An example path\<close>

text \<open>
  A heap with two associated UPFs, one node of a path on each, and a session context that has a PFCP
  session with both.
\<close>

definition demo_key :: "NodeID \<Rightarrow> string" where
  "demo_key n = map (\<lambda>b. char_of (unat b)) (NodeID_NodeIdValue n)"

definition demo_node :: "u8 \<Rightarrow> NodeID" where
  "demo_node b = \<lparr>NodeID_NodeIdType = 0, NodeID_NodeIdValue = [10, 0, 0, b]\<rparr>"

definition demo_upf :: "u8 \<Rightarrow> UPF" where
  "demo_upf b = (UPF_init [char_of (unat b)] (demo_node b))\<lparr>UPF_Status := AssociatedSetUpSuccess\<rparr>"

definition demo_session :: "u8 \<Rightarrow> PFCPSessionContext" where
  "demo_session b = new_session (demo_node b) (ucast b)"

definition demo_path :: dp_heap where
  "demo_path = (demo_dp 2)\<lparr>upfs := [demo_upf 1, demo_upf 2],
     tunnels := [GTPTunnel_new, GTPTunnel_new\<lparr>SrcEndPoint := Some 1\<rparr>, GTPTunnel_new\<lparr>SrcEndPoint := Some 0\<rparr>, GTPTunnel_new],
     dpnodes := [\<lparr>Node_UPF = Some 0, UpLinkTunnel = Some 0, DownLinkTunnel = Some 1, IsBranchingPoint = False\<rparr>,
       \<lparr>Node_UPF = Some 1, UpLinkTunnel = Some 2, DownLinkTunnel = Some 3, IsBranchingPoint = False\<rparr>],
     datapaths := [NewDataPath\<lparr>FirstDPNode := Some 0\<rparr>],
     smcontexts := [\<lparr>PDUAddress = IP_nil, SM_Dnn = [105], AN_IPAddress = None, AN_TEID = 0,
       PFCPContext = [demo_key (demo_node 1) \<mapsto> demo_session 1, demo_key (demo_node 2) \<mapsto> demo_session 2]\<rparr>]\<rparr>"

lemma demo_sel [simp]:
  "upfs demo_path = [demo_upf 1, demo_upf 2]" "length (dpnodes demo_path) = 2" "length (smcontexts demo_path) = 1"
  "length (datapaths demo_path) = 1" "FirstDPNode (datapaths demo_path ! 0) = Some 0"
  "Node_UPF (dpnodes demo_path ! 0) = Some 0" "Node_UPF (dpnodes demo_path ! Suc 0) = Some 1"
  "UPF_NodeID (demo_upf b) = demo_node b" "UPF_Status (demo_upf b) = AssociatedSetUpSuccess" 
  "farIDGenerator (demo_upf b) = NewGenerator 1 (2 ^ 32 - 1)" "teidGenerator (demo_upf b) = NewGenerator 1 (2 ^ 32 - 1)"
  "farPool (demo_upf b) = Map.empty"
  by (simp_all add: demo_path_def demo_upf_def UPF_init_def)

lemma left_new: "left (NewGenerator 1 (2 ^ 32 - 1)) = 2 ^ 32 - 1"
  by (simp add: left_def)

lemma demo_ready: "u < 2 \<Longrightarrow> upf_ready demo_path u 4"
  using NewGenerator_32 left_new
  by (auto simp: upf_ready_def far_inv_def teid_wf_def Let_def less_2_cases_iff)

lemma demo_dp_list: "dp_list demo_path [0, 1]"
  by (simp add: dp_list_def node_ok_def demo_path_def less_2_cases_iff All_less_Suc nth_Cons' numeral_2_eq_2 GTPTunnel_new_def)

lemma demo_sessions: "u < 2 \<Longrightarrow> session_ok demo_key 0 demo_path u"
  by (auto simp: session_ok_def less_2_cases_iff) (simp_all add: demo_path_def)

theorem activation_stitches_tunnels_witness:
  "\<exists>t. ActivateTunnelAndPDR 2 demo_key 0 0 demo_path = Some (Inr (), t) \<and> Activated (datapaths t ! 0) \<and>
    tunnels_ready t [0, 1] \<and> forwards_to t (ulf t 0) (ulp t 1) \<and> forwards_to t (dlf t 1) (dlp t 0)"
proof -
  have "\<forall>n \<in> set [0, 1]. \<exists>u. Node_UPF (dpnodes demo_path ! n) = Some u \<and> upf_ready demo_path u (2 * length [0, 1 :: nat])
      \<and> session_ok demo_key 0 demo_path u"
    using demo_ready demo_sessions by simp
  then obtain t where "ActivateTunnelAndPDR (length [0, 1 :: nat]) demo_key 0 0 demo_path = Some (Inr (), t)"
    "Activated (datapaths t ! 0)" "tunnels_ready t [0, 1]"
    "\<forall>i. Suc i < length [0, 1 :: nat] \<longrightarrow> forwards_to t (ulf t ([0, 1] ! i)) (ulp t ([0, 1] ! Suc i)) \<and>
       forwards_to t (dlf t ([0, 1] ! Suc i)) (dlp t ([0, 1] ! i))"
    using activation_stitches_tunnels [OF demo_dp_list, of 0 demo_key 0] by auto
  then show ?thesis by (intro exI [of _ t]) (simp add: numeral_2_eq_2 All_less_Suc)
qed

end
