(* ===== verification/SMF_Deactivation.thy ===== *)
theory SMF_Deactivation
  imports SMF_Activation
begin

text \<open>
  Two behaviours of the data paths that leave stale state behind: \<^verbatim>\<open>DeactivateTunnelAndPDR\<close> replaces the
  downlink tunnel of a node, which holds the link to the next node, before the loop reads that link;
  and \<^verbatim>\<open>AllocUEIP\<close> hands out one slice over and over.
\<close>

section \<open>Deactivation of a path\<close>

text \<open>What the release of the rules of a tunnel changes: one UPF and one PFCP session.\<close>

definition released :: "(NodeID \<Rightarrow> string) \<Rightarrow> nat \<Rightarrow> nat \<Rightarrow> 'a dp_heap_scheme \<Rightarrow> 'a dp_heap_scheme \<Rightarrow> bool" where
  "released key c u s t \<longleftrightarrow> (\<exists>y x. t = s\<lparr>upfs := (upfs s)[u := y], smcontexts := (smcontexts s)[c := x]\<rparr> \<and>
     UPF_NodeID y = UPF_NodeID (upfs s ! u) \<and> dom (PFCPContext x) = dom (PFCPContext (smcontexts s ! c)) \<and>
     (\<forall>k. k \<noteq> key (UPF_NodeID (upfs s ! u)) \<longrightarrow> PFCPContext x k = PFCPContext (smcontexts s ! c) k))"

lemma logged_RemovePDR:
  assumes "u < length (upfs s)" "p < length (pdrs s)"
  shows "\<exists>y. logged (RemovePDR u (Some p)) s = (Inr (), s\<lparr>upfs := (upfs s)[u := y]\<rparr>) \<and> UPF_NodeID y = UPF_NodeID (upfs s ! u)"
  using assms by (cases "UPF_Status (upfs s ! u) = AssociatedSetUpSuccess")
    (auto simp: logged_def RemovePDR_def intro: exI [of _ "upfs s ! u"])

lemma logged_RemoveFAR:
  assumes "u < length (upfs s)" "p < length (fars s)"
  shows "\<exists>y. logged (RemoveFAR u (Some p)) s = (Inr (), s\<lparr>upfs := (upfs s)[u := y]\<rparr>) \<and> UPF_NodeID y = UPF_NodeID (upfs s ! u)"
  using assms by (cases "UPF_Status (upfs s ! u) = AssociatedSetUpSuccess")
    (auto simp: logged_def RemoveFAR_def intro: exI [of _ "upfs s ! u"])

lemma release_rules_released:
  assumes u: "u < length (upfs s)" and p: "p < length (pdrs s)"
    and f: "PDR_FAR (pdrs s ! p) = Some f" "f < length (fars s)" "FAR_BAR (fars s ! f) = None"
    and ses: "session_ok key c s u"
  shows "\<exists>t. release_rules key c (Some u) (Some p) s = (Inr (), t) \<and> released key c u s t"
proof -
  let ?k = "key (UPF_NodeID (upfs s ! u))" and ?c = "smcontexts s ! c"
  obtain x where x: "PFCPContext ?c ?k = Some x" using ses by (auto simp: session_ok_def)
  let ?x = "?c\<lparr>PFCPContext := (PFCPContext ?c)(?k \<mapsto> x\<lparr>Session_PDRs := (Session_PDRs x)(PDRID (pdrs s ! p) := None)\<rparr>)\<rparr>"
  let ?s = "s\<lparr>smcontexts := (smcontexts s)[c := ?x]\<rparr>"
  have 1: "RemovePDRfromPFCPSession key c (UPF_NodeID (upfs s ! u)) (Some p) s = (Inr (), ?s)"
    using x p by (simp add: RemovePDRfromPFCPSession_def upd_sm_def)
  obtain y where y: "logged (RemovePDR u (Some p)) ?s = (Inr (), ?s\<lparr>upfs := (upfs ?s)[u := y]\<rparr>)" "UPF_NodeID y = UPF_NodeID (upfs s ! u)"
    using logged_RemovePDR [of u ?s p] u p by auto
  let ?s1 = "?s\<lparr>upfs := (upfs ?s)[u := y]\<rparr>"
  obtain z where z: "logged (RemoveFAR u (Some f)) ?s1 = (Inr (), ?s1\<lparr>upfs := (upfs ?s1)[u := z]\<rparr>)" "UPF_NodeID z = UPF_NodeID y"
    using logged_RemoveFAR [of u ?s1 f] u f by auto
  have "release_rules key c (Some u) (Some p) s = (Inr (), s\<lparr>upfs := (upfs s)[u := z], smcontexts := (smcontexts s)[c := ?x]\<rparr>)"
    using 1 y z u p f by (simp add: release_rules_def)
  moreover have "dom (PFCPContext ?x) = dom (PFCPContext ?c)" using x by auto
  ultimately show ?thesis using y(2) z(2) unfolding released_def
    by (intro exI conjI) (assumption | rule refl | simp)+
qed

lemma released_facts:
  assumes "released key c u s t"
  shows "pdrs t = pdrs s" "fars t = fars s" "dpnodes t = dpnodes s" "tunnels t = tunnels s" "datapaths t = datapaths s"
    "length (upfs t) = length (upfs s)" "v \<noteq> u \<Longrightarrow> upfs t ! v = upfs s ! v"
    "session_ok key c s u \<Longrightarrow> session_ok key c t u"
    "u < length (upfs s) \<Longrightarrow> UPF_NodeID (upfs t ! u) = UPF_NodeID (upfs s ! u)"
    "c < length (smcontexts s) \<Longrightarrow> k \<noteq> key (UPF_NodeID (upfs s ! u)) \<Longrightarrow> PFCPContext (smcontexts t ! c) k = PFCPContext (smcontexts s ! c) k"
proof -
  obtain y x where t: "t = s\<lparr>upfs := (upfs s)[u := y], smcontexts := (smcontexts s)[c := x]\<rparr>"
    "UPF_NodeID y = UPF_NodeID (upfs s ! u)" "dom (PFCPContext x) = dom (PFCPContext (smcontexts s ! c))"
    "\<forall>k. k \<noteq> key (UPF_NodeID (upfs s ! u)) \<longrightarrow> PFCPContext x k = PFCPContext (smcontexts s ! c) k"
    using assms by (auto simp: released_def)
  show "pdrs t = pdrs s" "fars t = fars s" "dpnodes t = dpnodes s" "tunnels t = tunnels s" "datapaths t = datapaths s"
    "length (upfs t) = length (upfs s)" "v \<noteq> u \<Longrightarrow> upfs t ! v = upfs s ! v"
    using t(1) by simp_all
  show node: "UPF_NodeID (upfs t ! u) = UPF_NodeID (upfs s ! u)" if "u < length (upfs s)"
    using t(1,2) that by simp
  show "session_ok key c t u" if ok: "session_ok key c s u"
  proof -
    have "UPF_NodeID (upfs t ! u) = UPF_NodeID (upfs s ! u)"
      using t(1,2) by (cases "u < length (upfs s)") (simp_all add: list_update_beyond)
    then show ?thesis using ok t(1,3) by (fastforce simp: session_ok_def)
  qed
  show "PFCPContext (smcontexts t ! c) k = PFCPContext (smcontexts s ! c) k"
    if "c < length (smcontexts s)" "k \<noteq> key (UPF_NodeID (upfs s ! u))"
    using t(1,4) that by simp
qed

abbreviation replace_up :: "nat \<Rightarrow> 'a dp_heap_scheme \<Rightarrow> 'a dp_heap_scheme" where
  "replace_up n s \<equiv> s\<lparr>tunnels := tunnels s @ [GTPTunnel_new],
     dpnodes := (dpnodes s)[n := (dpnodes s ! n)\<lparr>UpLinkTunnel := Some (length (tunnels s))\<rparr>]\<rparr>"

abbreviation replace_down :: "nat \<Rightarrow> 'a dp_heap_scheme \<Rightarrow> 'a dp_heap_scheme" where
  "replace_down n s \<equiv> s\<lparr>tunnels := tunnels s @ [GTPTunnel_new],
     dpnodes := (dpnodes s)[n := (dpnodes s ! n)\<lparr>DownLinkTunnel := Some (length (tunnels s))\<rparr>]\<rparr>"

text \<open>One round of the loop.\<close>

lemma deactivate_node:
  assumes n: "node_ok s n" and r: "rules_ok s n" and u: "Node_UPF (dpnodes s ! n) = Some u"
    and bar: "FAR_BAR (fars s ! ulf s n) = None" "FAR_BAR (fars s ! dlf s n) = None"
    and ses: "session_ok key c s u"
  shows "\<exists>v w. bind (DeactivateUpLinkTunnel key c n) (\<lambda>_. DeactivateDownLinkTunnel key c n) s = (Inr (), replace_down n w) \<and>
    released key c u s v \<and> released key c u (replace_up n v) w"
proof -
  obtain a b where ab: "UpLinkTunnel (dpnodes s ! n) = Some a" "DownLinkTunnel (dpnodes s ! n) = Some b"
    "a < length (tunnels s)" "b < length (tunnels s)" "n < length (dpnodes s)" using n by (auto simp: node_ok_def)
  obtain p q f g where r': "Tunnel_PDR (tunnels s ! a) = Some p" "Tunnel_PDR (tunnels s ! b) = Some q"
    "PDR_FAR (pdrs s ! p) = Some f" "PDR_FAR (pdrs s ! q) = Some g"
    "p < length (pdrs s)" "q < length (pdrs s)" "f < length (fars s)" "g < length (fars s)" "u < length (upfs s)"
    using r u ab by (auto simp: rules_ok_def)
  have bar': "FAR_BAR (fars s ! f) = None" "FAR_BAR (fars s ! g) = None" using bar r' ab by simp_all
  obtain v where v: "release_rules key c (Some u) (Some p) s = (Inr (), v)" "released key c u s v"
    using release_rules_released [OF r'(9,5,3,7) bar'(1) ses] by blast
  note fv = released_facts [OF v(2)]
  let ?v = "replace_up n v"
  have up: "DeactivateUpLinkTunnel key c n s = (Inr (), ?v)"
    using ab r' u v(1) fv(3,4) by (simp add: DeactivateUpLinkTunnel_def new_tunnel_def)
  have sv: "session_ok key c ?v u" using fv(8) [OF ses] by (simp add: session_ok_def)
  have pv: "u < length (upfs ?v)" "q < length (pdrs ?v)" "PDR_FAR (pdrs ?v ! q) = Some g" "g < length (fars ?v)"
    "FAR_BAR (fars ?v ! g) = None" using r' bar' fv by simp_all
  obtain w where w: "release_rules key c (Some u) (Some q) ?v = (Inr (), w)" "released key c u ?v w"
    using release_rules_released [OF pv sv] by blast
  note fw = released_facts [OF w(2)]
  have "DeactivateDownLinkTunnel key c n ?v = (Inr (), replace_down n w)"
    using ab r' u w(1) fv(3,4) fw(3,4) by (simp add: DeactivateDownLinkTunnel_def new_tunnel_def nth_append)
  with up show ?thesis using v(2) w(2) by (intro exI [of _ v] exI [of _ w]) simp
qed


text \<open>The example path with rules in its four tunnels.\<close>

definition demo_active :: dp_heap where
  "demo_active = demo_path\<lparr>
     tunnels := [GTPTunnel_new\<lparr>DestEndPoint := Some 0, Tunnel_PDR := Some 0\<rparr>,
       GTPTunnel_new\<lparr>SrcEndPoint := Some 1, DestEndPoint := Some 0, Tunnel_PDR := Some 1\<rparr>,
       GTPTunnel_new\<lparr>SrcEndPoint := Some 0, DestEndPoint := Some 1, Tunnel_PDR := Some 2\<rparr>,
       GTPTunnel_new\<lparr>DestEndPoint := Some 1, Tunnel_PDR := Some 3\<rparr>],
     pdrs := map (\<lambda>i. PDR_new\<lparr>PDR_FAR := Some i\<rparr>) [0, 1, 2, 3], fars := replicate 4 FAR_new\<rparr>"

lemma demo_active_ready: "tunnels_ready demo_active [0, 1]"
  by (simp add: tunnels_ready_def rules_ok_def dp_list_def node_ok_def demo_active_def demo_path_def
      All_less_Suc numeral_2_eq_2 GTPTunnel_new_def PDR_new_def)


section \<open>Addresses of user equipment\<close>

text \<open>\<open>n\<close> sessions that are given an address one after the other.\<close>

primrec alloc_addresses :: "nat \<Rightarrow> ('a dp_heap_scheme, ip_ref list) go" where
  "alloc_addresses 0 = ret []"
| "alloc_addresses (Suc n) = bind AllocUEIP (\<lambda>r. bind (alloc_addresses n) (\<lambda>rs. ret (r # rs)))"

lemma AllocUEIP_run:
  assumes "UEAddressTemp s = IP_ref a off len" "3 < len"
  shows "AllocUEIP s = (Inr (IP_ref a off len),
    s\<lparr>ip_arrays := (ip_arrays s)[a := (ip_arrays s ! a)[off + 3 := ip_arrays s ! a ! (off + 3) + 1]]\<rparr>)"
  using assms by (simp add: AllocUEIP_def)

lemma alloc_addresses_run:
  assumes "UEAddressTemp s = IP_ref a off len" "3 < len" "a < length (ip_arrays s)" "off + 3 < length (ip_arrays s ! a)"
  shows "alloc_addresses n s = (Inr (replicate n (IP_ref a off len)),
    s\<lparr>ip_arrays := (ip_arrays s)[a := (ip_arrays s ! a)[off + 3 := ip_arrays s ! a ! (off + 3) + of_nat n]]\<rparr>)"
  using assms
proof (induction n arbitrary: s)
  case (Suc n)
  let ?s = "s\<lparr>ip_arrays := (ip_arrays s)[a := (ip_arrays s ! a)[off + 3 := ip_arrays s ! a ! (off + 3) + 1]]\<rparr>"
  have "alloc_addresses n ?s = (Inr (replicate n (IP_ref a off len)),
    ?s\<lparr>ip_arrays := (ip_arrays ?s)[a := (ip_arrays ?s ! a)[off + 3 := ip_arrays ?s ! a ! (off + 3) + of_nat n]]\<rparr>)"
    by (rule Suc.IH) (use Suc.prems in simp_all)
  then show ?case using AllocUEIP_run [OF Suc.prems(1,2)] Suc.prems(3,4) by (simp add: add.assoc)
qed simp

text \<open>
  C30. \<^verbatim>\<open>AllocUEIP\<close> gives every session the same slice: after \<open>n\<close> allocations all of them show one address,
  the configured one with \<open>n\<close> added to its fourth octet modulo 256, so that an allocation changes the
  address of every session before it.
\<close>

theorem AllocUEIP_aliases:
  assumes "UEAddressTemp s = IP_ref a off len" "3 < len" "a < length (ip_arrays s)" "off + len \<le> length (ip_arrays s ! a)"
  shows "\<exists>rs t. alloc_addresses n s = (Inr rs, t) \<and> length rs = n \<and>
    (\<forall>r \<in> set rs. r = UEAddressTemp s \<and>
       ip_bytes t r = (ip_bytes s (UEAddressTemp s))[3 := ip_bytes s (UEAddressTemp s) ! 3 + of_nat n])"
  using alloc_addresses_run [of s a off len n] assms
  by (auto simp: ip_bytes_def drop_update_swap take_update_swap)

theorem AllocUEIP_aliases_witness:
  "\<exists>r s t. alloc_addresses 2 (demo_path\<lparr>ip_arrays := [[60, 60, 0, 0]], UEAddressTemp := IP_ref 0 0 4\<rparr>) = (Inr [r, s], t) \<and>
    ip_bytes t r = [60, 60, 0, 2] \<and> ip_bytes t s = [60, 60, 0, 2]"
proof -
  let ?s = "demo_path\<lparr>ip_arrays := [[60, 60, 0, 0]], UEAddressTemp := IP_ref 0 0 4\<rparr>"
  have b: "ip_bytes ?s (UEAddressTemp ?s) = [60, 60, 0, 0]" by (simp add: ip_bytes_def)
  obtain rs t where "alloc_addresses 2 ?s = (Inr rs, t)" "length rs = 2"
    "\<forall>r \<in> set rs. ip_bytes t r = [60, 60, 0, 0][3 := [60, 60, 0, 0] ! 3 + of_nat 2]"
    using AllocUEIP_aliases [of ?s 0 0 4 2] unfolding b by auto
  then show ?thesis by (auto simp: numeral_2_eq_2 length_Suc_conv)
qed

end
