(* ===== verification/NAS_IE.thy ===== *)
theory NAS_IE
  imports Go_Prelude
begin

text \<open>
  Information elements of the NAS library (\<^verbatim>\<open>lib/nas/nasType\<close>). Every element type is a Go struct
  with some of the fields \<^verbatim>\<open>Iei\<close>, \<^verbatim>\<open>Len\<close>, \<^verbatim>\<open>Octet\<close> (an octet or an array of octets) and \<^verbatim>\<open>Buffer\<close>. A
  value is a \<open>nas_ie\<close>; a type is described by a \<open>nas_type\<close>, which says what fields the struct has and
  what its setters do. The accessors of the bit fields are described by the numbers that their code
  has; \<open>field_get\<close> and \<open>field_set\<close> are the code with these numbers. The tables are in the theories
  \<open>NAS_Type_Table\<close> and \<open>NAS_Field_Table\<close>.
\<close>

section \<open>Values and types\<close>

text \<open>A \<^verbatim>\<open>Len\<close> of type \<^verbatim>\<open>uint8\<close> is kept in the low octet. A single octet is a list of length one.\<close>

record nas_ie =
  Iei :: u8
  Len :: u16
  Octet :: bytes
  Buffer :: bytes

text \<open>\<^verbatim>\<open>SetIei\<close> assigns a field of its own, or the upper half of the octet, or does not exist.\<close>

datatype iei_place = Iei_none | Iei_field | Iei_nibble

text \<open>\<open>tid\<close> numbers the types; \<open>len_size\<close> and \<open>octets\<close> are 0 where the struct has no such field.\<close>

record nas_type =
  tid :: nat
  iei_in :: iei_place
  len_size :: nat
  octets :: nat
  has_buffer :: bool

definition zero_ie :: "nas_type \<Rightarrow> nas_ie" where
  "zero_ie T = \<lparr>Iei = 0, Len = 0, Octet = replicate (octets T) 0, Buffer = []\<rparr>"

definition SetIei :: "nas_type \<Rightarrow> u8 \<Rightarrow> nas_ie \<Rightarrow> nas_ie" where
  "SetIei T iei a =
     (case iei_in T of
        Iei_none \<Rightarrow> a
      | Iei_field \<Rightarrow> a\<lparr>Iei := iei\<rparr>
      | Iei_nibble \<Rightarrow> a\<lparr>Octet := map (\<lambda>x. (x AND 15) + push_bit 4 (iei AND 15)) (Octet a)\<rparr>)"

definition SetLen :: "nas_type \<Rightarrow> u16 \<Rightarrow> nas_ie \<Rightarrow> nas_ie" where
  "SetLen T len a =
     (if has_buffer T then a\<lparr>Len := len, Buffer := replicate (unat len) 0\<rparr> else a\<lparr>Len := len\<rparr>)"

text \<open>\<^verbatim>\<open>New\<^emph>\<open>Type\<close>(iei)\<close>.\<close>

definition new_ie :: "nas_type \<Rightarrow> u8 \<Rightarrow> nas_ie" where
  "new_ie T iei = SetIei T iei (zero_ie T)"

section \<open>Bit fields\<close>

definition GetBitMask :: "u8 \<Rightarrow> u8 \<Rightarrow> u8" where
  "GetBitMask ub lb = push_bit (unat lb) (push_bit (unat (ub - lb)) 1 - 1)"

datatype store = In_Octet | In_Buffer

fun load :: "store \<Rightarrow> nas_ie \<Rightarrow> bytes" where
  "load In_Octet a = Octet a"
| "load In_Buffer a = Buffer a"

fun save :: "store \<Rightarrow> bytes \<Rightarrow> nas_ie \<Rightarrow> nas_ie" where
  "save In_Octet bs a = a\<lparr>Octet := bs\<rparr>"
| "save In_Buffer bs a = a\<lparr>Buffer := bs\<rparr>"

text \<open>
  \<open>Bits st r (ub, lb) sh (keep, m, sl)\<close>: the getter \<^verbatim>\<open>a.Octet[r] & GetBitMask(ub, lb) >> (sh)\<close> and the
  setter \<^verbatim>\<open>a.Octet[r] = (a.Octet[r] & keep) + ((v & m) << sl)\<close>; a shift that the code does not have is
  0. \<open>Whole st r\<close>: a getter and a setter of the octet \<open>r\<close> itself. Both panic when \<open>r\<close> is out of range.
\<close>

datatype byte_field = Bits store nat "u8 \<times> u8" nat "u8 \<times> u8 \<times> nat" | Whole store nat

fun fstore :: "byte_field \<Rightarrow> store" where
  "fstore (Bits st r p sh q) = st"
| "fstore (Whole st r) = st"

fun frow :: "byte_field \<Rightarrow> nat" where
  "frow (Bits st r p sh q) = r"
| "frow (Whole st r) = r"

definition byte_at :: "store \<Rightarrow> nat \<Rightarrow> nas_ie \<Rightarrow> u8 res" where
  "byte_at st r a = (if r < length (load st a) then Inr (load st a ! r) else Inl Panic)"

fun field_get :: "byte_field \<Rightarrow> nas_ie \<Rightarrow> u8 res" where
  "field_get (Bits st r (ub, lb) sh q) a = bind_res (byte_at st r a) (\<lambda>x. Inr (drop_bit sh (x AND GetBitMask ub lb)))"
| "field_get (Whole st r) a = byte_at st r a"

fun field_set :: "byte_field \<Rightarrow> u8 \<Rightarrow> nas_ie \<Rightarrow> nas_ie res" where
  "field_set (Bits st r p sh (keep, m, sl)) v a =
     bind_res (byte_at st r a) (\<lambda>x. Inr (save st ((load st a)[r := (x AND keep) + push_bit sl (v AND m)]) a))"
| "field_set (Whole st r) v a =
     bind_res (byte_at st r a) (\<lambda>x. Inr (save st ((load st a)[r := v]) a))"

text \<open>The bits a field takes of its octet, and of a value.\<close>

fun place :: "byte_field \<Rightarrow> u8" where
  "place (Bits st r (ub, lb) sh q) = GetBitMask ub lb"
| "place (Whole st r) = 255"

fun capacity :: "byte_field \<Rightarrow> u8" where
  "capacity (Bits st r p sh (keep, m, sl)) = m"
| "capacity (Whole st r) = 255"

text \<open>The numbers of the getter fit the numbers of the setter.\<close>

fun consistent :: "byte_field \<Rightarrow> bool" where
  "consistent (Bits st r (ub, lb) sh (keep, m, sl)) \<longleftrightarrow>
     lb < ub \<and> ub \<le> 8 \<and> sh = unat lb \<and> sl = unat lb \<and> keep = NOT (GetBitMask ub lb) \<and> GetBitMask ub lb = push_bit sl m \<and> drop_bit sl (push_bit sl m) = m"
| "consistent (Whole st r) \<longleftrightarrow> True"

fun separate :: "byte_field \<Rightarrow> byte_field \<Rightarrow> bool" where
  "separate f g \<longleftrightarrow> fstore f \<noteq> fstore g \<or> frow f \<noteq> frow g \<or> place f AND place g = 0"

lemma load_save [simp]: "load st (save st' bs a) = (if st = st' then bs else load st a)"
  by (cases st; cases st') simp_all

lemma and_keep_plus:
  fixes x v :: u8
  shows "(x AND NOT p) + (w AND p) = (x AND NOT p) OR (w AND p)"
  by (rule disjunctive_add) (auto simp: bit_simps)

lemma push_and: "push_bit n (v AND m) = push_bit n v AND push_bit n m" for v :: u8
  by (rule bit_word_eqI) (auto simp: bit_simps)

text \<open>What a setter writes, and what a getter reads, in terms of the place.\<close>

lemma set_bits_value:
  assumes "consistent (Bits st r (ub, lb) sh (keep, m, sl))"
  shows "(x AND keep) + push_bit sl (v AND m) = (x AND NOT (GetBitMask ub lb)) OR (push_bit sl v AND GetBitMask ub lb)"
  using assms by (simp add: push_and and_keep_plus)

lemma field_set_byte:
  assumes "consistent f" "field_set f v a = Inr b"
  shows "frow f < length (load (fstore f) a) \<and>
    (\<exists>w. b = save (fstore f) ((load (fstore f) a)[frow f := (load (fstore f) a ! frow f AND NOT (place f)) OR (w AND place f)]) a)"
proof (cases f)
  case (Bits st r p sh q)
  obtain ub lb keep m sl where pq: "p = (ub, lb)" "q = (keep, m, sl)" by (metis prod_cases3 surj_pair)
  have "r < length (load st a)" using assms(2) Bits pq by (auto simp: byte_at_def split: if_splits)
  then show ?thesis
    using assms(2) set_bits_value [OF assms(1) [unfolded Bits pq]] Bits pq by (auto simp: byte_at_def)
next
  case (Whole st r)
  have m: "(255 :: u8) = - 1" by simp
  show ?thesis using assms(2) by (auto simp: Whole byte_at_def m split: if_splits)
qed

lemma field_get_set:
  assumes "consistent f" "field_set f v a = Inr b"
  shows "field_get f b = Inr (v AND capacity f)"
proof (cases f)
  case (Bits st r p sh q)
  obtain ub lb keep m sl where pq: "p = (ub, lb)" "q = (keep, m, sl)" by (metis prod_cases3 surj_pair)
  note c = assms(1) [unfolded Bits pq]
  let ?p = "GetBitMask ub lb"
  have b: "r < length (load st a)" "b = save st ((load st a)[r := (load st a ! r AND NOT ?p) OR (push_bit sl v AND ?p)]) a"
    using assms(2) set_bits_value [OF c] by (auto simp: Bits pq byte_at_def split: if_splits)
  have "((x AND NOT ?p) OR (w AND ?p)) AND ?p = w AND ?p" for x w :: u8
    by (rule bit_word_eqI) (auto simp: bit_simps)
  then have "field_get f b = Inr (drop_bit sh (push_bit sl v AND ?p))" using b by (simp add: Bits pq byte_at_def del: drop_bit_and drop_bit_or)
  also have "push_bit sl v AND ?p = push_bit sl (v AND m)" using c by (simp add: push_and)
  also have "drop_bit sh (push_bit sl (v AND m)) = v AND m"
  proof -
    have "drop_bit sl (push_bit sl (v AND m)) = (v AND drop_bit sl (push_bit sl m))"
      by (rule bit_word_eqI) (auto simp: bit_simps)
    moreover have "sh = sl" "drop_bit sl (push_bit sl m) = m" using c unfolding consistent.simps by blast+
    ultimately show ?thesis by simp
  qed
  finally show ?thesis by (simp add: Bits pq)
next
  case (Whole st r)
  have m: "(255 :: u8) = - 1" by simp
  show ?thesis using assms(2) by (auto simp: Whole byte_at_def m split: if_splits)
qed

lemma field_get_place:
  "field_get g a = bind_res (byte_at (fstore g) (frow g) a) (\<lambda>x. Inr (case g of Bits st r p sh q \<Rightarrow> drop_bit sh (x AND place g) | Whole st r \<Rightarrow> x AND place g))"
proof (cases g)
  case (Whole st r)
  have m: "(255 :: u8) = - 1" by simp
  show ?thesis by (simp add: Whole m bind_res_def split: sum.split)
qed (auto simp: split: prod.splits)

lemma field_set_separate:
  assumes "consistent f" "field_set f v a = Inr b" "separate f g"
  shows "field_get g b = field_get g a"
proof -
  obtain w where r: "frow f < length (load (fstore f) a)"
    and b: "b = save (fstore f) ((load (fstore f) a)[frow f := (load (fstore f) a ! frow f AND NOT (place f)) OR (w AND place f)]) a"
    using field_set_byte [OF assms(1,2)] by blast
  have "((x AND NOT p) OR (w AND p)) AND q = x AND q" if "p AND q = 0" for x p q :: u8
  proof (rule bit_word_eqI)
    fix n assume "n < LENGTH(8)"
    have "\<not> (bit p n \<and> bit q n)" using that by (metis bit_and_iff bit_0_eq bot_apply bot_bool_def)
    then show "bit (((x AND NOT p) OR (w AND p)) AND q) n = bit (x AND q) n"
      using \<open>n < LENGTH(8)\<close> by (auto simp: bit_simps)
  qed
  note pq = this
  show ?thesis
  proof (cases "fstore f = fstore g \<and> frow f = frow g")
    case True
    then have "place f AND place g = 0" using assms(3) by simp
    with True r show ?thesis
      unfolding field_get_place b by (cases g) (simp_all add: byte_at_def pq del: drop_bit_and drop_bit_or)
  next
    case False
    then have "byte_at (fstore g) (frow g) b = byte_at (fstore g) (frow g) a"
      unfolding b by (auto simp: byte_at_def)
    then show ?thesis unfolding field_get_place by simp
  qed
qed

section \<open>Ranges of octets\<close>

text \<open>
  \<open>Range st i j\<close>: a getter that copies \<^verbatim>\<open>a.Octet[i:j]\<close> into an array of \<open>j - i\<close> octets and a setter that
  copies such an array back. \<open>Tail i\<close>: a getter that copies \<^verbatim>\<open>a.Buffer[i:]\<close> and a setter that copies a slice
  into it; \<^verbatim>\<open>copy\<close> stops at the shorter of the two. \<open>Ten_bits i\<close>: a ten bit number in octet \<open>i\<close> and the
  upper two bits of the next one.
\<close>

datatype range_field = Range store nat nat | Tail nat

definition go_copy :: "bytes \<Rightarrow> bytes \<Rightarrow> bytes" where
  "go_copy dst src = take (length dst) src @ drop (length src) dst"

fun range_get :: "range_field \<Rightarrow> nas_ie \<Rightarrow> bytes res" where
  "range_get (Range st i j) a = (if j \<le> length (load st a) then Inr (take (j - i) (drop i (load st a))) else Inl Panic)"
| "range_get (Tail i) a = (if i \<le> length (Buffer a) then Inr (drop i (Buffer a)) else Inl Panic)"

fun range_set :: "range_field \<Rightarrow> bytes \<Rightarrow> nas_ie \<Rightarrow> nas_ie res" where
  "range_set (Range st i j) v a =
     (if j \<le> length (load st a)
      then Inr (save st (take i (load st a) @ go_copy (take (j - i) (drop i (load st a))) v @ drop j (load st a)) a)
      else Inl Panic)"
| "range_set (Tail i) v a =
     (if i \<le> length (Buffer a) then Inr (a\<lparr>Buffer := take i (Buffer a) @ go_copy (drop i (Buffer a)) v\<rparr>) else Inl Panic)"

datatype ten_field = Ten_bits nat

fun ten_get :: "ten_field \<Rightarrow> nas_ie \<Rightarrow> u16 res" where
  "ten_get (Ten_bits i) a =
     bind_res (byte_at In_Octet i a) (\<lambda>x.
     bind_res (byte_at In_Octet (Suc i) a) (\<lambda>y.
     Inr (push_bit 2 (ucast x) + drop_bit 6 (ucast (y AND GetBitMask 8 2)))))"

fun ten_set :: "ten_field \<Rightarrow> u16 \<Rightarrow> nas_ie \<Rightarrow> nas_ie res" where
  "ten_set (Ten_bits i) v a =
     bind_res (byte_at In_Octet i a) (\<lambda>x.
     bind_res (byte_at In_Octet (Suc i) a) (\<lambda>y.
     Inr (a\<lparr>Octet := (Octet a)[i := ucast (drop_bit 2 v) AND 255,
                               Suc i := (y AND GetBitMask 6 6) + push_bit 6 (ucast (v AND 3))]\<rparr>)))"

lemma length_go_copy [simp]: "length (go_copy dst src) = length dst"
  by (simp add: go_copy_def)

lemma go_copy_same: "length v = length dst \<Longrightarrow> go_copy dst v = v"
  by (simp add: go_copy_def)

text \<open>How long the value of a range is.\<close>

fun range_size :: "range_field \<Rightarrow> nas_ie \<Rightarrow> nat" where
  "range_size (Range st i j) a = j - i"
| "range_size (Tail i) a = length (Buffer a) - i"

fun range_ok :: "range_field \<Rightarrow> bool" where
  "range_ok (Range st i j) \<longleftrightarrow> i \<le> j"
| "range_ok (Tail i) \<longleftrightarrow> True"

lemma range_get_set:
  assumes "range_ok f" "range_set f v a = Inr b" "length v = range_size f a"
  shows "range_get f b = Inr v"
  using assms by (cases f) (auto simp: go_copy_same min_def split: if_splits)

lemma ten_bits_value: "push_bit 2 (ucast (ucast (drop_bit 2 v) :: u8)) + drop_bit 6 (ucast (push_bit 6 (ucast (v AND 3)) AND 252 :: u8)) = (v AND 1023 :: u16)"
proof -
  have a: "push_bit 2 (ucast (ucast (drop_bit 2 v) :: u8)) = (v AND 1020 :: u16)"
  proof -
    have m: "(1020 :: u16) = push_bit 2 (mask 8)" by (simp add: mask_eq_exp_minus_1)
    have e: "Suc (Suc (n - 2)) = n" if "2 \<le> n" for n using that by simp
    show ?thesis unfolding m by (rule bit_word_eqI) (auto simp: bit_simps e)
  qed
  have b: "drop_bit 6 (ucast (push_bit 6 (ucast (v AND 3)) AND 252 :: u8)) = (v AND 3 :: u16)"
  proof -
    have m: "(252 :: u8) = push_bit 2 (mask 6)" "(3 :: u16) = mask 2" by (simp_all add: mask_eq_exp_minus_1)
    show ?thesis unfolding m by (rule bit_word_eqI) (auto simp: bit_simps)
  qed
  have m: "(1020 :: u16) = push_bit 2 (mask 8)" "(3 :: u16) = mask 2" by (simp_all add: mask_eq_exp_minus_1)
  have "(v AND 1020) + (v AND 3) = (v AND 1020 :: u16) OR (v AND 3)"
    unfolding m by (rule disjunctive_add) (auto simp: bit_simps)
  also have "\<dots> = v AND (1020 OR 3)" by (rule bit.conj_disj_distrib [symmetric])
  finally show ?thesis using a b by simp
qed

lemma ten_get_set:
  assumes "ten_set f v a = Inr b"
  shows "ten_get f b = Inr (v AND 1023)"
proof (cases f)
  case (Ten_bits i)
  have m: "GetBitMask 6 6 = 0" "GetBitMask 8 2 = 252" "(255 :: u8) = - 1" by (simp_all add: GetBitMask_def)
  show ?thesis
    using assms ten_bits_value [of v]
    by (auto simp: Ten_bits byte_at_def m split: if_splits simp del: push_bit_and)
qed

end
