(* ===== verification/NAS_Type_Table.thy ===== *)
theory NAS_Type_Table
  imports NAS_IE
begin

text \<open>
  The struct types of \<^verbatim>\<open>lib/nas/nasType\<close>, one definition per type: whether \<^verbatim>\<open>SetIei\<close> assigns a field or the
  upper half of the octet, the octets that \<^verbatim>\<open>Len\<close> takes on the wire, the number of octets of \<^verbatim>\<open>Octet\<close>, and
  whether there is a \<^verbatim>\<open>Buffer\<close>, which \<^verbatim>\<open>SetLen\<close> then allocates.
\<close>

definition ABBA :: nas_type where
  "ABBA = \<lparr>tid = 0, iei_in = Iei_field, len_size = 1, octets = 0, has_buffer = True\<rparr>"

definition Additional5GSecurityInformation :: nas_type where
  "Additional5GSecurityInformation = \<lparr>tid = 1, iei_in = Iei_field, len_size = 1, octets = 1, has_buffer = False\<rparr>"

definition AdditionalGUTI :: nas_type where
  "AdditionalGUTI = \<lparr>tid = 2, iei_in = Iei_field, len_size = 2, octets = 11, has_buffer = False\<rparr>"

definition AdditionalInformation :: nas_type where
  "AdditionalInformation = \<lparr>tid = 3, iei_in = Iei_field, len_size = 1, octets = 0, has_buffer = True\<rparr>"

definition AllowedNSSAI :: nas_type where
  "AllowedNSSAI = \<lparr>tid = 4, iei_in = Iei_field, len_size = 1, octets = 0, has_buffer = True\<rparr>"

definition AllowedPDUSessionStatus :: nas_type where
  "AllowedPDUSessionStatus = \<lparr>tid = 5, iei_in = Iei_field, len_size = 1, octets = 0, has_buffer = True\<rparr>"

definition AllowedSSCMode :: nas_type where
  "AllowedSSCMode = \<lparr>tid = 6, iei_in = Iei_nibble, len_size = 0, octets = 1, has_buffer = False\<rparr>"

definition AlwaysonPDUSessionIndication :: nas_type where
  "AlwaysonPDUSessionIndication = \<lparr>tid = 7, iei_in = Iei_nibble, len_size = 0, octets = 1, has_buffer = False\<rparr>"

definition AlwaysonPDUSessionRequested :: nas_type where
  "AlwaysonPDUSessionRequested = \<lparr>tid = 8, iei_in = Iei_nibble, len_size = 0, octets = 1, has_buffer = False\<rparr>"

definition AuthenticationFailureMessageIdentity :: nas_type where
  "AuthenticationFailureMessageIdentity = \<lparr>tid = 9, iei_in = Iei_none, len_size = 0, octets = 1, has_buffer = False\<rparr>"

definition AuthenticationFailureParameter :: nas_type where
  "AuthenticationFailureParameter = \<lparr>tid = 10, iei_in = Iei_field, len_size = 1, octets = 14, has_buffer = False\<rparr>"

definition AuthenticationParameterAUTN :: nas_type where
  "AuthenticationParameterAUTN = \<lparr>tid = 11, iei_in = Iei_field, len_size = 1, octets = 16, has_buffer = False\<rparr>"

definition AuthenticationParameterRAND :: nas_type where
  "AuthenticationParameterRAND = \<lparr>tid = 12, iei_in = Iei_field, len_size = 0, octets = 16, has_buffer = False\<rparr>"

definition AuthenticationRejectMessageIdentity :: nas_type where
  "AuthenticationRejectMessageIdentity = \<lparr>tid = 13, iei_in = Iei_none, len_size = 0, octets = 1, has_buffer = False\<rparr>"

definition AuthenticationRequestMessageIdentity :: nas_type where
  "AuthenticationRequestMessageIdentity = \<lparr>tid = 14, iei_in = Iei_none, len_size = 0, octets = 1, has_buffer = False\<rparr>"

definition AuthenticationResponseMessageIdentity :: nas_type where
  "AuthenticationResponseMessageIdentity = \<lparr>tid = 15, iei_in = Iei_none, len_size = 0, octets = 1, has_buffer = False\<rparr>"

definition AuthenticationResponseParameter :: nas_type where
  "AuthenticationResponseParameter = \<lparr>tid = 16, iei_in = Iei_field, len_size = 1, octets = 16, has_buffer = False\<rparr>"

definition AuthenticationResultMessageIdentity :: nas_type where
  "AuthenticationResultMessageIdentity = \<lparr>tid = 17, iei_in = Iei_none, len_size = 0, octets = 1, has_buffer = False\<rparr>"

definition AuthorizedQosFlowDescriptions :: nas_type where
  "AuthorizedQosFlowDescriptions = \<lparr>tid = 18, iei_in = Iei_field, len_size = 2, octets = 0, has_buffer = True\<rparr>"

definition AuthorizedQosRules :: nas_type where
  "AuthorizedQosRules = \<lparr>tid = 19, iei_in = Iei_field, len_size = 2, octets = 0, has_buffer = True\<rparr>"

definition BackoffTimerValue :: nas_type where
  "BackoffTimerValue = \<lparr>tid = 20, iei_in = Iei_field, len_size = 1, octets = 1, has_buffer = False\<rparr>"

definition Capability5GMM :: nas_type where
  "Capability5GMM = \<lparr>tid = 21, iei_in = Iei_field, len_size = 1, octets = 13, has_buffer = False\<rparr>"

definition Capability5GSM :: nas_type where
  "Capability5GSM = \<lparr>tid = 22, iei_in = Iei_field, len_size = 1, octets = 13, has_buffer = False\<rparr>"

definition Cause5GMM :: nas_type where
  "Cause5GMM = \<lparr>tid = 23, iei_in = Iei_field, len_size = 0, octets = 1, has_buffer = False\<rparr>"

definition Cause5GSM :: nas_type where
  "Cause5GSM = \<lparr>tid = 24, iei_in = Iei_field, len_size = 0, octets = 1, has_buffer = False\<rparr>"

definition ConfigurationUpdateCommandMessageIdentity :: nas_type where
  "ConfigurationUpdateCommandMessageIdentity = \<lparr>tid = 25, iei_in = Iei_none, len_size = 0, octets = 1, has_buffer = False\<rparr>"

definition ConfigurationUpdateCompleteMessageIdentity :: nas_type where
  "ConfigurationUpdateCompleteMessageIdentity = \<lparr>tid = 26, iei_in = Iei_none, len_size = 0, octets = 1, has_buffer = False\<rparr>"

definition ConfigurationUpdateIndication :: nas_type where
  "ConfigurationUpdateIndication = \<lparr>tid = 27, iei_in = Iei_nibble, len_size = 0, octets = 1, has_buffer = False\<rparr>"

definition ConfiguredNSSAI :: nas_type where
  "ConfiguredNSSAI = \<lparr>tid = 28, iei_in = Iei_field, len_size = 1, octets = 0, has_buffer = True\<rparr>"

definition DLNASTRANSPORTMessageIdentity :: nas_type where
  "DLNASTRANSPORTMessageIdentity = \<lparr>tid = 29, iei_in = Iei_none, len_size = 0, octets = 1, has_buffer = False\<rparr>"

definition DNN :: nas_type where
  "DNN = \<lparr>tid = 30, iei_in = Iei_field, len_size = 1, octets = 0, has_buffer = True\<rparr>"

definition DeregistrationAcceptMessageIdentity :: nas_type where
  "DeregistrationAcceptMessageIdentity = \<lparr>tid = 31, iei_in = Iei_none, len_size = 0, octets = 1, has_buffer = False\<rparr>"

definition DeregistrationRequestMessageIdentity :: nas_type where
  "DeregistrationRequestMessageIdentity = \<lparr>tid = 32, iei_in = Iei_none, len_size = 0, octets = 1, has_buffer = False\<rparr>"

definition EAPMessage :: nas_type where
  "EAPMessage = \<lparr>tid = 33, iei_in = Iei_field, len_size = 2, octets = 0, has_buffer = True\<rparr>"

definition EPSNASMessageContainer :: nas_type where
  "EPSNASMessageContainer = \<lparr>tid = 34, iei_in = Iei_field, len_size = 2, octets = 0, has_buffer = True\<rparr>"

definition EmergencyNumberList :: nas_type where
  "EmergencyNumberList = \<lparr>tid = 35, iei_in = Iei_field, len_size = 1, octets = 0, has_buffer = True\<rparr>"

definition EquivalentPlmns :: nas_type where
  "EquivalentPlmns = \<lparr>tid = 36, iei_in = Iei_field, len_size = 1, octets = 45, has_buffer = False\<rparr>"

definition ExtendedEmergencyNumberList :: nas_type where
  "ExtendedEmergencyNumberList = \<lparr>tid = 37, iei_in = Iei_field, len_size = 2, octets = 0, has_buffer = True\<rparr>"

definition ExtendedProtocolConfigurationOptions :: nas_type where
  "ExtendedProtocolConfigurationOptions = \<lparr>tid = 38, iei_in = Iei_field, len_size = 2, octets = 0, has_buffer = True\<rparr>"

definition ExtendedProtocolDiscriminator :: nas_type where
  "ExtendedProtocolDiscriminator = \<lparr>tid = 39, iei_in = Iei_none, len_size = 0, octets = 1, has_buffer = False\<rparr>"

definition FullNameForNetwork :: nas_type where
  "FullNameForNetwork = \<lparr>tid = 40, iei_in = Iei_field, len_size = 1, octets = 0, has_buffer = True\<rparr>"

definition GUTI5G :: nas_type where
  "GUTI5G = \<lparr>tid = 41, iei_in = Iei_field, len_size = 2, octets = 11, has_buffer = False\<rparr>"

definition IMEISV :: nas_type where
  "IMEISV = \<lparr>tid = 42, iei_in = Iei_field, len_size = 2, octets = 9, has_buffer = False\<rparr>"

definition IMEISVRequest :: nas_type where
  "IMEISVRequest = \<lparr>tid = 43, iei_in = Iei_nibble, len_size = 0, octets = 1, has_buffer = False\<rparr>"

definition IdentityRequestMessageIdentity :: nas_type where
  "IdentityRequestMessageIdentity = \<lparr>tid = 44, iei_in = Iei_none, len_size = 0, octets = 1, has_buffer = False\<rparr>"

definition IdentityResponseMessageIdentity :: nas_type where
  "IdentityResponseMessageIdentity = \<lparr>tid = 45, iei_in = Iei_none, len_size = 0, octets = 1, has_buffer = False\<rparr>"

definition IntegrityProtectionMaximumDataRate :: nas_type where
  "IntegrityProtectionMaximumDataRate = \<lparr>tid = 46, iei_in = Iei_field, len_size = 0, octets = 2, has_buffer = False\<rparr>"

definition LADNIndication :: nas_type where
  "LADNIndication = \<lparr>tid = 47, iei_in = Iei_field, len_size = 2, octets = 0, has_buffer = True\<rparr>"

definition LADNInformation :: nas_type where
  "LADNInformation = \<lparr>tid = 48, iei_in = Iei_field, len_size = 2, octets = 0, has_buffer = True\<rparr>"

definition LastVisitedRegisteredTAI :: nas_type where
  "LastVisitedRegisteredTAI = \<lparr>tid = 49, iei_in = Iei_field, len_size = 0, octets = 7, has_buffer = False\<rparr>"

definition LocalTimeZone :: nas_type where
  "LocalTimeZone = \<lparr>tid = 50, iei_in = Iei_field, len_size = 0, octets = 1, has_buffer = False\<rparr>"

definition MICOIndication :: nas_type where
  "MICOIndication = \<lparr>tid = 51, iei_in = Iei_nibble, len_size = 0, octets = 1, has_buffer = False\<rparr>"

definition MappedEPSBearerContexts :: nas_type where
  "MappedEPSBearerContexts = \<lparr>tid = 52, iei_in = Iei_field, len_size = 2, octets = 0, has_buffer = True\<rparr>"

definition MaximumNumberOfSupportedPacketFilters :: nas_type where
  "MaximumNumberOfSupportedPacketFilters = \<lparr>tid = 53, iei_in = Iei_field, len_size = 0, octets = 2, has_buffer = False\<rparr>"

definition MessageAuthenticationCode :: nas_type where
  "MessageAuthenticationCode = \<lparr>tid = 54, iei_in = Iei_none, len_size = 0, octets = 4, has_buffer = False\<rparr>"

definition MobileIdentity :: nas_type where
  "MobileIdentity = \<lparr>tid = 55, iei_in = Iei_field, len_size = 2, octets = 0, has_buffer = True\<rparr>"

definition MobileIdentity5GS :: nas_type where
  "MobileIdentity5GS = \<lparr>tid = 56, iei_in = Iei_field, len_size = 2, octets = 0, has_buffer = True\<rparr>"

definition NASMessageContainer :: nas_type where
  "NASMessageContainer = \<lparr>tid = 57, iei_in = Iei_field, len_size = 2, octets = 0, has_buffer = True\<rparr>"

definition NSSAIInclusionMode :: nas_type where
  "NSSAIInclusionMode = \<lparr>tid = 58, iei_in = Iei_nibble, len_size = 0, octets = 1, has_buffer = False\<rparr>"

definition NegotiatedDRXParameters :: nas_type where
  "NegotiatedDRXParameters = \<lparr>tid = 59, iei_in = Iei_field, len_size = 1, octets = 1, has_buffer = False\<rparr>"

definition NetworkDaylightSavingTime :: nas_type where
  "NetworkDaylightSavingTime = \<lparr>tid = 60, iei_in = Iei_field, len_size = 1, octets = 1, has_buffer = False\<rparr>"

definition NetworkFeatureSupport5GS :: nas_type where
  "NetworkFeatureSupport5GS = \<lparr>tid = 61, iei_in = Iei_field, len_size = 1, octets = 3, has_buffer = False\<rparr>"

definition NetworkSlicingIndication :: nas_type where
  "NetworkSlicingIndication = \<lparr>tid = 62, iei_in = Iei_nibble, len_size = 0, octets = 1, has_buffer = False\<rparr>"

definition NgksiAndDeregistrationType :: nas_type where
  "NgksiAndDeregistrationType = \<lparr>tid = 63, iei_in = Iei_none, len_size = 0, octets = 1, has_buffer = False\<rparr>"

definition NgksiAndRegistrationType5GS :: nas_type where
  "NgksiAndRegistrationType5GS = \<lparr>tid = 64, iei_in = Iei_none, len_size = 0, octets = 1, has_buffer = False\<rparr>"

definition Non3GppDeregistrationTimerValue :: nas_type where
  "Non3GppDeregistrationTimerValue = \<lparr>tid = 65, iei_in = Iei_field, len_size = 1, octets = 1, has_buffer = False\<rparr>"

definition NoncurrentNativeNASKeySetIdentifier :: nas_type where
  "NoncurrentNativeNASKeySetIdentifier = \<lparr>tid = 66, iei_in = Iei_nibble, len_size = 0, octets = 1, has_buffer = False\<rparr>"

definition NotificationMessageIdentity :: nas_type where
  "NotificationMessageIdentity = \<lparr>tid = 67, iei_in = Iei_none, len_size = 0, octets = 1, has_buffer = False\<rparr>"

definition NotificationResponseMessageIdentity :: nas_type where
  "NotificationResponseMessageIdentity = \<lparr>tid = 68, iei_in = Iei_none, len_size = 0, octets = 1, has_buffer = False\<rparr>"

definition OldPDUSessionID :: nas_type where
  "OldPDUSessionID = \<lparr>tid = 69, iei_in = Iei_field, len_size = 0, octets = 1, has_buffer = False\<rparr>"

definition OperatordefinedAccessCategoryDefinitions :: nas_type where
  "OperatordefinedAccessCategoryDefinitions = \<lparr>tid = 70, iei_in = Iei_field, len_size = 2, octets = 0, has_buffer = True\<rparr>"

definition PDUAddress :: nas_type where
  "PDUAddress = \<lparr>tid = 71, iei_in = Iei_field, len_size = 1, octets = 13, has_buffer = False\<rparr>"

definition PDUSESSIONAUTHENTICATIONCOMMANDMessageIdentity :: nas_type where
  "PDUSESSIONAUTHENTICATIONCOMMANDMessageIdentity = \<lparr>tid = 72, iei_in = Iei_none, len_size = 0, octets = 1, has_buffer = False\<rparr>"

definition PDUSESSIONAUTHENTICATIONCOMPLETEMessageIdentity :: nas_type where
  "PDUSESSIONAUTHENTICATIONCOMPLETEMessageIdentity = \<lparr>tid = 73, iei_in = Iei_none, len_size = 0, octets = 1, has_buffer = False\<rparr>"

definition PDUSESSIONAUTHENTICATIONRESULTMessageIdentity :: nas_type where
  "PDUSESSIONAUTHENTICATIONRESULTMessageIdentity = \<lparr>tid = 74, iei_in = Iei_none, len_size = 0, octets = 1, has_buffer = False\<rparr>"

definition PDUSESSIONESTABLISHMENTACCEPTMessageIdentity :: nas_type where
  "PDUSESSIONESTABLISHMENTACCEPTMessageIdentity = \<lparr>tid = 75, iei_in = Iei_none, len_size = 0, octets = 1, has_buffer = False\<rparr>"

definition PDUSESSIONESTABLISHMENTREJECTMessageIdentity :: nas_type where
  "PDUSESSIONESTABLISHMENTREJECTMessageIdentity = \<lparr>tid = 76, iei_in = Iei_none, len_size = 0, octets = 1, has_buffer = False\<rparr>"

definition PDUSESSIONESTABLISHMENTREQUESTMessageIdentity :: nas_type where
  "PDUSESSIONESTABLISHMENTREQUESTMessageIdentity = \<lparr>tid = 77, iei_in = Iei_none, len_size = 0, octets = 1, has_buffer = False\<rparr>"

definition PDUSESSIONMODIFICATIONCOMMANDMessageIdentity :: nas_type where
  "PDUSESSIONMODIFICATIONCOMMANDMessageIdentity = \<lparr>tid = 78, iei_in = Iei_none, len_size = 0, octets = 1, has_buffer = False\<rparr>"

definition PDUSESSIONMODIFICATIONCOMMANDREJECTMessageIdentity :: nas_type where
  "PDUSESSIONMODIFICATIONCOMMANDREJECTMessageIdentity = \<lparr>tid = 79, iei_in = Iei_none, len_size = 0, octets = 1, has_buffer = False\<rparr>"

definition PDUSESSIONMODIFICATIONCOMPLETEMessageIdentity :: nas_type where
  "PDUSESSIONMODIFICATIONCOMPLETEMessageIdentity = \<lparr>tid = 80, iei_in = Iei_none, len_size = 0, octets = 1, has_buffer = False\<rparr>"

definition PDUSESSIONMODIFICATIONREJECTMessageIdentity :: nas_type where
  "PDUSESSIONMODIFICATIONREJECTMessageIdentity = \<lparr>tid = 81, iei_in = Iei_none, len_size = 0, octets = 1, has_buffer = False\<rparr>"

definition PDUSESSIONMODIFICATIONREQUESTMessageIdentity :: nas_type where
  "PDUSESSIONMODIFICATIONREQUESTMessageIdentity = \<lparr>tid = 82, iei_in = Iei_none, len_size = 0, octets = 1, has_buffer = False\<rparr>"

definition PDUSESSIONRELEASECOMMANDMessageIdentity :: nas_type where
  "PDUSESSIONRELEASECOMMANDMessageIdentity = \<lparr>tid = 83, iei_in = Iei_none, len_size = 0, octets = 1, has_buffer = False\<rparr>"

definition PDUSESSIONRELEASECOMPLETEMessageIdentity :: nas_type where
  "PDUSESSIONRELEASECOMPLETEMessageIdentity = \<lparr>tid = 84, iei_in = Iei_none, len_size = 0, octets = 1, has_buffer = False\<rparr>"

definition PDUSESSIONRELEASEREJECTMessageIdentity :: nas_type where
  "PDUSESSIONRELEASEREJECTMessageIdentity = \<lparr>tid = 85, iei_in = Iei_none, len_size = 0, octets = 1, has_buffer = False\<rparr>"

definition PDUSESSIONRELEASEREQUESTMessageIdentity :: nas_type where
  "PDUSESSIONRELEASEREQUESTMessageIdentity = \<lparr>tid = 86, iei_in = Iei_none, len_size = 0, octets = 1, has_buffer = False\<rparr>"

definition PDUSessionID :: nas_type where
  "PDUSessionID = \<lparr>tid = 87, iei_in = Iei_none, len_size = 0, octets = 1, has_buffer = False\<rparr>"

definition PDUSessionReactivationResult :: nas_type where
  "PDUSessionReactivationResult = \<lparr>tid = 88, iei_in = Iei_field, len_size = 1, octets = 0, has_buffer = True\<rparr>"

definition PDUSessionReactivationResultErrorCause :: nas_type where
  "PDUSessionReactivationResultErrorCause = \<lparr>tid = 89, iei_in = Iei_field, len_size = 2, octets = 0, has_buffer = True\<rparr>"

definition PDUSessionStatus :: nas_type where
  "PDUSessionStatus = \<lparr>tid = 90, iei_in = Iei_field, len_size = 1, octets = 0, has_buffer = True\<rparr>"

definition PDUSessionType :: nas_type where
  "PDUSessionType = \<lparr>tid = 91, iei_in = Iei_nibble, len_size = 0, octets = 1, has_buffer = False\<rparr>"

definition PTI :: nas_type where
  "PTI = \<lparr>tid = 92, iei_in = Iei_none, len_size = 0, octets = 1, has_buffer = False\<rparr>"

definition PayloadContainer :: nas_type where
  "PayloadContainer = \<lparr>tid = 93, iei_in = Iei_field, len_size = 2, octets = 0, has_buffer = True\<rparr>"

definition PduSessionID2Value :: nas_type where
  "PduSessionID2Value = \<lparr>tid = 94, iei_in = Iei_field, len_size = 0, octets = 1, has_buffer = False\<rparr>"

definition Plain5GSNASMessage :: nas_type where
  "Plain5GSNASMessage = \<lparr>tid = 95, iei_in = Iei_none, len_size = 0, octets = 0, has_buffer = False\<rparr>"

definition RQTimerValue :: nas_type where
  "RQTimerValue = \<lparr>tid = 96, iei_in = Iei_field, len_size = 0, octets = 1, has_buffer = False\<rparr>"

definition RegistrationAcceptMessageIdentity :: nas_type where
  "RegistrationAcceptMessageIdentity = \<lparr>tid = 97, iei_in = Iei_none, len_size = 0, octets = 1, has_buffer = False\<rparr>"

definition RegistrationCompleteMessageIdentity :: nas_type where
  "RegistrationCompleteMessageIdentity = \<lparr>tid = 98, iei_in = Iei_none, len_size = 0, octets = 1, has_buffer = False\<rparr>"

definition RegistrationRejectMessageIdentity :: nas_type where
  "RegistrationRejectMessageIdentity = \<lparr>tid = 99, iei_in = Iei_none, len_size = 0, octets = 1, has_buffer = False\<rparr>"

definition RegistrationRequestMessageIdentity :: nas_type where
  "RegistrationRequestMessageIdentity = \<lparr>tid = 100, iei_in = Iei_none, len_size = 0, octets = 1, has_buffer = False\<rparr>"

definition RegistrationResult5GS :: nas_type where
  "RegistrationResult5GS = \<lparr>tid = 101, iei_in = Iei_field, len_size = 1, octets = 1, has_buffer = False\<rparr>"

definition RejectedNSSAI :: nas_type where
  "RejectedNSSAI = \<lparr>tid = 102, iei_in = Iei_field, len_size = 1, octets = 0, has_buffer = True\<rparr>"

definition ReplayedS1UESecurityCapabilities :: nas_type where
  "ReplayedS1UESecurityCapabilities = \<lparr>tid = 103, iei_in = Iei_field, len_size = 1, octets = 0, has_buffer = True\<rparr>"

definition ReplayedUESecurityCapabilities :: nas_type where
  "ReplayedUESecurityCapabilities = \<lparr>tid = 104, iei_in = Iei_field, len_size = 1, octets = 0, has_buffer = True\<rparr>"

definition RequestType :: nas_type where
  "RequestType = \<lparr>tid = 105, iei_in = Iei_nibble, len_size = 0, octets = 1, has_buffer = False\<rparr>"

definition RequestedDRXParameters :: nas_type where
  "RequestedDRXParameters = \<lparr>tid = 106, iei_in = Iei_field, len_size = 1, octets = 1, has_buffer = False\<rparr>"

definition RequestedNSSAI :: nas_type where
  "RequestedNSSAI = \<lparr>tid = 107, iei_in = Iei_field, len_size = 1, octets = 0, has_buffer = True\<rparr>"

definition RequestedQosFlowDescriptions :: nas_type where
  "RequestedQosFlowDescriptions = \<lparr>tid = 108, iei_in = Iei_field, len_size = 2, octets = 0, has_buffer = True\<rparr>"

definition RequestedQosRules :: nas_type where
  "RequestedQosRules = \<lparr>tid = 109, iei_in = Iei_field, len_size = 1, octets = 0, has_buffer = True\<rparr>"

definition S1UENetworkCapability :: nas_type where
  "S1UENetworkCapability = \<lparr>tid = 110, iei_in = Iei_field, len_size = 1, octets = 0, has_buffer = True\<rparr>"

definition SMPDUDNRequestContainer :: nas_type where
  "SMPDUDNRequestContainer = \<lparr>tid = 111, iei_in = Iei_field, len_size = 1, octets = 0, has_buffer = True\<rparr>"

definition SMSIndication :: nas_type where
  "SMSIndication = \<lparr>tid = 112, iei_in = Iei_nibble, len_size = 0, octets = 1, has_buffer = False\<rparr>"

definition SNSSAI :: nas_type where
  "SNSSAI = \<lparr>tid = 113, iei_in = Iei_field, len_size = 1, octets = 8, has_buffer = False\<rparr>"

definition SORTransparentContainer :: nas_type where
  "SORTransparentContainer = \<lparr>tid = 114, iei_in = Iei_field, len_size = 2, octets = 0, has_buffer = True\<rparr>"

definition SSCMode :: nas_type where
  "SSCMode = \<lparr>tid = 115, iei_in = Iei_nibble, len_size = 0, octets = 1, has_buffer = False\<rparr>"

definition STATUSMessageIdentity5GMM :: nas_type where
  "STATUSMessageIdentity5GMM = \<lparr>tid = 116, iei_in = Iei_none, len_size = 0, octets = 1, has_buffer = False\<rparr>"

definition STATUSMessageIdentity5GSM :: nas_type where
  "STATUSMessageIdentity5GSM = \<lparr>tid = 117, iei_in = Iei_none, len_size = 0, octets = 1, has_buffer = False\<rparr>"

definition SecurityModeCommandMessageIdentity :: nas_type where
  "SecurityModeCommandMessageIdentity = \<lparr>tid = 118, iei_in = Iei_none, len_size = 0, octets = 1, has_buffer = False\<rparr>"

definition SecurityModeCompleteMessageIdentity :: nas_type where
  "SecurityModeCompleteMessageIdentity = \<lparr>tid = 119, iei_in = Iei_none, len_size = 0, octets = 1, has_buffer = False\<rparr>"

definition SecurityModeRejectMessageIdentity :: nas_type where
  "SecurityModeRejectMessageIdentity = \<lparr>tid = 120, iei_in = Iei_none, len_size = 0, octets = 1, has_buffer = False\<rparr>"

definition SelectedEPSNASSecurityAlgorithms :: nas_type where
  "SelectedEPSNASSecurityAlgorithms = \<lparr>tid = 121, iei_in = Iei_field, len_size = 0, octets = 1, has_buffer = False\<rparr>"

definition SelectedNASSecurityAlgorithms :: nas_type where
  "SelectedNASSecurityAlgorithms = \<lparr>tid = 122, iei_in = Iei_field, len_size = 0, octets = 1, has_buffer = False\<rparr>"

definition SelectedSSCModeAndSelectedPDUSessionType :: nas_type where
  "SelectedSSCModeAndSelectedPDUSessionType = \<lparr>tid = 123, iei_in = Iei_none, len_size = 0, octets = 1, has_buffer = False\<rparr>"

definition SequenceNumber :: nas_type where
  "SequenceNumber = \<lparr>tid = 124, iei_in = Iei_none, len_size = 0, octets = 1, has_buffer = False\<rparr>"

definition ServiceAcceptMessageIdentity :: nas_type where
  "ServiceAcceptMessageIdentity = \<lparr>tid = 125, iei_in = Iei_none, len_size = 0, octets = 1, has_buffer = False\<rparr>"

definition ServiceAreaList :: nas_type where
  "ServiceAreaList = \<lparr>tid = 126, iei_in = Iei_field, len_size = 1, octets = 0, has_buffer = True\<rparr>"

definition ServiceRejectMessageIdentity :: nas_type where
  "ServiceRejectMessageIdentity = \<lparr>tid = 127, iei_in = Iei_none, len_size = 0, octets = 1, has_buffer = False\<rparr>"

definition ServiceRequestMessageIdentity :: nas_type where
  "ServiceRequestMessageIdentity = \<lparr>tid = 128, iei_in = Iei_none, len_size = 0, octets = 1, has_buffer = False\<rparr>"

definition ServiceTypeAndNgksi :: nas_type where
  "ServiceTypeAndNgksi = \<lparr>tid = 129, iei_in = Iei_none, len_size = 0, octets = 1, has_buffer = False\<rparr>"

definition SessionAMBR :: nas_type where
  "SessionAMBR = \<lparr>tid = 130, iei_in = Iei_field, len_size = 1, octets = 6, has_buffer = False\<rparr>"

definition ShortNameForNetwork :: nas_type where
  "ShortNameForNetwork = \<lparr>tid = 131, iei_in = Iei_field, len_size = 1, octets = 0, has_buffer = True\<rparr>"

definition SpareHalfOctetAndAccessType :: nas_type where
  "SpareHalfOctetAndAccessType = \<lparr>tid = 132, iei_in = Iei_none, len_size = 0, octets = 1, has_buffer = False\<rparr>"

definition SpareHalfOctetAndDeregistrationType :: nas_type where
  "SpareHalfOctetAndDeregistrationType = \<lparr>tid = 133, iei_in = Iei_none, len_size = 0, octets = 1, has_buffer = False\<rparr>"

definition SpareHalfOctetAndIdentityType :: nas_type where
  "SpareHalfOctetAndIdentityType = \<lparr>tid = 134, iei_in = Iei_none, len_size = 0, octets = 1, has_buffer = False\<rparr>"

definition SpareHalfOctetAndNgksi :: nas_type where
  "SpareHalfOctetAndNgksi = \<lparr>tid = 135, iei_in = Iei_none, len_size = 0, octets = 1, has_buffer = False\<rparr>"

definition SpareHalfOctetAndPayloadContainerType :: nas_type where
  "SpareHalfOctetAndPayloadContainerType = \<lparr>tid = 136, iei_in = Iei_none, len_size = 0, octets = 1, has_buffer = False\<rparr>"

definition SpareHalfOctetAndSecurityHeaderType :: nas_type where
  "SpareHalfOctetAndSecurityHeaderType = \<lparr>tid = 137, iei_in = Iei_none, len_size = 0, octets = 1, has_buffer = False\<rparr>"

definition T3346Value :: nas_type where
  "T3346Value = \<lparr>tid = 138, iei_in = Iei_field, len_size = 1, octets = 1, has_buffer = False\<rparr>"

definition T3502Value :: nas_type where
  "T3502Value = \<lparr>tid = 139, iei_in = Iei_field, len_size = 1, octets = 1, has_buffer = False\<rparr>"

definition T3512Value :: nas_type where
  "T3512Value = \<lparr>tid = 140, iei_in = Iei_field, len_size = 1, octets = 1, has_buffer = False\<rparr>"

definition TAIList :: nas_type where
  "TAIList = \<lparr>tid = 141, iei_in = Iei_field, len_size = 1, octets = 0, has_buffer = True\<rparr>"

definition TMSI5GS :: nas_type where
  "TMSI5GS = \<lparr>tid = 142, iei_in = Iei_field, len_size = 2, octets = 7, has_buffer = False\<rparr>"

definition UESecurityCapability :: nas_type where
  "UESecurityCapability = \<lparr>tid = 143, iei_in = Iei_field, len_size = 1, octets = 0, has_buffer = True\<rparr>"

definition UEStatus :: nas_type where
  "UEStatus = \<lparr>tid = 144, iei_in = Iei_field, len_size = 1, octets = 1, has_buffer = False\<rparr>"

definition ULNASTRANSPORTMessageIdentity :: nas_type where
  "ULNASTRANSPORTMessageIdentity = \<lparr>tid = 145, iei_in = Iei_none, len_size = 0, octets = 1, has_buffer = False\<rparr>"

definition UesUsageSetting :: nas_type where
  "UesUsageSetting = \<lparr>tid = 146, iei_in = Iei_field, len_size = 1, octets = 1, has_buffer = False\<rparr>"

definition UniversalTimeAndLocalTimeZone :: nas_type where
  "UniversalTimeAndLocalTimeZone = \<lparr>tid = 147, iei_in = Iei_field, len_size = 0, octets = 7, has_buffer = False\<rparr>"

definition UpdateType5GS :: nas_type where
  "UpdateType5GS = \<lparr>tid = 148, iei_in = Iei_field, len_size = 1, octets = 1, has_buffer = False\<rparr>"

definition UplinkDataStatus :: nas_type where
  "UplinkDataStatus = \<lparr>tid = 149, iei_in = Iei_field, len_size = 1, octets = 0, has_buffer = True\<rparr>"

definition nas_types :: "nas_type list" where
  "nas_types =
    [ABBA, Additional5GSecurityInformation, AdditionalGUTI, AdditionalInformation, AllowedNSSAI,
     AllowedPDUSessionStatus, AllowedSSCMode, AlwaysonPDUSessionIndication, AlwaysonPDUSessionRequested,
     AuthenticationFailureMessageIdentity, AuthenticationFailureParameter, AuthenticationParameterAUTN,
     AuthenticationParameterRAND, AuthenticationRejectMessageIdentity, AuthenticationRequestMessageIdentity,
     AuthenticationResponseMessageIdentity, AuthenticationResponseParameter, AuthenticationResultMessageIdentity,
     AuthorizedQosFlowDescriptions, AuthorizedQosRules, BackoffTimerValue, Capability5GMM, Capability5GSM,
     Cause5GMM, Cause5GSM, ConfigurationUpdateCommandMessageIdentity, ConfigurationUpdateCompleteMessageIdentity,
     ConfigurationUpdateIndication, ConfiguredNSSAI, DLNASTRANSPORTMessageIdentity, DNN,
     DeregistrationAcceptMessageIdentity, DeregistrationRequestMessageIdentity, EAPMessage,
     EPSNASMessageContainer, EmergencyNumberList, EquivalentPlmns, ExtendedEmergencyNumberList,
     ExtendedProtocolConfigurationOptions, ExtendedProtocolDiscriminator, FullNameForNetwork, GUTI5G, IMEISV,
     IMEISVRequest, IdentityRequestMessageIdentity, IdentityResponseMessageIdentity,
     IntegrityProtectionMaximumDataRate, LADNIndication, LADNInformation, LastVisitedRegisteredTAI, LocalTimeZone,
     MICOIndication, MappedEPSBearerContexts, MaximumNumberOfSupportedPacketFilters, MessageAuthenticationCode,
     MobileIdentity, MobileIdentity5GS, NASMessageContainer, NSSAIInclusionMode, NegotiatedDRXParameters,
     NetworkDaylightSavingTime, NetworkFeatureSupport5GS, NetworkSlicingIndication, NgksiAndDeregistrationType,
     NgksiAndRegistrationType5GS, Non3GppDeregistrationTimerValue, NoncurrentNativeNASKeySetIdentifier,
     NotificationMessageIdentity, NotificationResponseMessageIdentity, OldPDUSessionID,
     OperatordefinedAccessCategoryDefinitions, PDUAddress, PDUSESSIONAUTHENTICATIONCOMMANDMessageIdentity,
     PDUSESSIONAUTHENTICATIONCOMPLETEMessageIdentity, PDUSESSIONAUTHENTICATIONRESULTMessageIdentity,
     PDUSESSIONESTABLISHMENTACCEPTMessageIdentity, PDUSESSIONESTABLISHMENTREJECTMessageIdentity,
     PDUSESSIONESTABLISHMENTREQUESTMessageIdentity, PDUSESSIONMODIFICATIONCOMMANDMessageIdentity,
     PDUSESSIONMODIFICATIONCOMMANDREJECTMessageIdentity, PDUSESSIONMODIFICATIONCOMPLETEMessageIdentity,
     PDUSESSIONMODIFICATIONREJECTMessageIdentity, PDUSESSIONMODIFICATIONREQUESTMessageIdentity,
     PDUSESSIONRELEASECOMMANDMessageIdentity, PDUSESSIONRELEASECOMPLETEMessageIdentity,
     PDUSESSIONRELEASEREJECTMessageIdentity, PDUSESSIONRELEASEREQUESTMessageIdentity, PDUSessionID,
     PDUSessionReactivationResult, PDUSessionReactivationResultErrorCause, PDUSessionStatus, PDUSessionType, PTI,
     PayloadContainer, PduSessionID2Value, Plain5GSNASMessage, RQTimerValue, RegistrationAcceptMessageIdentity,
     RegistrationCompleteMessageIdentity, RegistrationRejectMessageIdentity, RegistrationRequestMessageIdentity,
     RegistrationResult5GS, RejectedNSSAI, ReplayedS1UESecurityCapabilities, ReplayedUESecurityCapabilities,
     RequestType, RequestedDRXParameters, RequestedNSSAI, RequestedQosFlowDescriptions, RequestedQosRules,
     S1UENetworkCapability, SMPDUDNRequestContainer, SMSIndication, SNSSAI, SORTransparentContainer, SSCMode,
     STATUSMessageIdentity5GMM, STATUSMessageIdentity5GSM, SecurityModeCommandMessageIdentity,
     SecurityModeCompleteMessageIdentity, SecurityModeRejectMessageIdentity, SelectedEPSNASSecurityAlgorithms,
     SelectedNASSecurityAlgorithms, SelectedSSCModeAndSelectedPDUSessionType, SequenceNumber,
     ServiceAcceptMessageIdentity, ServiceAreaList, ServiceRejectMessageIdentity, ServiceRequestMessageIdentity,
     ServiceTypeAndNgksi, SessionAMBR, ShortNameForNetwork, SpareHalfOctetAndAccessType,
     SpareHalfOctetAndDeregistrationType, SpareHalfOctetAndIdentityType, SpareHalfOctetAndNgksi,
     SpareHalfOctetAndPayloadContainerType, SpareHalfOctetAndSecurityHeaderType, T3346Value, T3502Value,
     T3512Value, TAIList, TMSI5GS, UESecurityCapability, UEStatus, ULNASTRANSPORTMessageIdentity, UesUsageSetting,
     UniversalTimeAndLocalTimeZone, UpdateType5GS, UplinkDataStatus]"

lemmas nas_type_defs =
  ABBA_def Additional5GSecurityInformation_def AdditionalGUTI_def AdditionalInformation_def
  AllowedNSSAI_def AllowedPDUSessionStatus_def AllowedSSCMode_def AlwaysonPDUSessionIndication_def
  AlwaysonPDUSessionRequested_def AuthenticationFailureMessageIdentity_def
  AuthenticationFailureParameter_def AuthenticationParameterAUTN_def AuthenticationParameterRAND_def
  AuthenticationRejectMessageIdentity_def AuthenticationRequestMessageIdentity_def
  AuthenticationResponseMessageIdentity_def AuthenticationResponseParameter_def
  AuthenticationResultMessageIdentity_def AuthorizedQosFlowDescriptions_def AuthorizedQosRules_def
  BackoffTimerValue_def Capability5GMM_def Capability5GSM_def Cause5GMM_def Cause5GSM_def
  ConfigurationUpdateCommandMessageIdentity_def ConfigurationUpdateCompleteMessageIdentity_def
  ConfigurationUpdateIndication_def ConfiguredNSSAI_def DLNASTRANSPORTMessageIdentity_def DNN_def
  DeregistrationAcceptMessageIdentity_def DeregistrationRequestMessageIdentity_def EAPMessage_def
  EPSNASMessageContainer_def EmergencyNumberList_def EquivalentPlmns_def ExtendedEmergencyNumberList_def
  ExtendedProtocolConfigurationOptions_def ExtendedProtocolDiscriminator_def FullNameForNetwork_def
  GUTI5G_def IMEISV_def IMEISVRequest_def IdentityRequestMessageIdentity_def
  IdentityResponseMessageIdentity_def IntegrityProtectionMaximumDataRate_def LADNIndication_def
  LADNInformation_def LastVisitedRegisteredTAI_def LocalTimeZone_def MICOIndication_def
  MappedEPSBearerContexts_def MaximumNumberOfSupportedPacketFilters_def MessageAuthenticationCode_def
  MobileIdentity_def MobileIdentity5GS_def NASMessageContainer_def NSSAIInclusionMode_def
  NegotiatedDRXParameters_def NetworkDaylightSavingTime_def NetworkFeatureSupport5GS_def
  NetworkSlicingIndication_def NgksiAndDeregistrationType_def NgksiAndRegistrationType5GS_def
  Non3GppDeregistrationTimerValue_def NoncurrentNativeNASKeySetIdentifier_def
  NotificationMessageIdentity_def NotificationResponseMessageIdentity_def OldPDUSessionID_def
  OperatordefinedAccessCategoryDefinitions_def PDUAddress_def
  PDUSESSIONAUTHENTICATIONCOMMANDMessageIdentity_def PDUSESSIONAUTHENTICATIONCOMPLETEMessageIdentity_def
  PDUSESSIONAUTHENTICATIONRESULTMessageIdentity_def PDUSESSIONESTABLISHMENTACCEPTMessageIdentity_def
  PDUSESSIONESTABLISHMENTREJECTMessageIdentity_def PDUSESSIONESTABLISHMENTREQUESTMessageIdentity_def
  PDUSESSIONMODIFICATIONCOMMANDMessageIdentity_def PDUSESSIONMODIFICATIONCOMMANDREJECTMessageIdentity_def
  PDUSESSIONMODIFICATIONCOMPLETEMessageIdentity_def PDUSESSIONMODIFICATIONREJECTMessageIdentity_def
  PDUSESSIONMODIFICATIONREQUESTMessageIdentity_def PDUSESSIONRELEASECOMMANDMessageIdentity_def
  PDUSESSIONRELEASECOMPLETEMessageIdentity_def PDUSESSIONRELEASEREJECTMessageIdentity_def
  PDUSESSIONRELEASEREQUESTMessageIdentity_def PDUSessionID_def PDUSessionReactivationResult_def
  PDUSessionReactivationResultErrorCause_def PDUSessionStatus_def PDUSessionType_def PTI_def
  PayloadContainer_def PduSessionID2Value_def Plain5GSNASMessage_def RQTimerValue_def
  RegistrationAcceptMessageIdentity_def RegistrationCompleteMessageIdentity_def
  RegistrationRejectMessageIdentity_def RegistrationRequestMessageIdentity_def RegistrationResult5GS_def
  RejectedNSSAI_def ReplayedS1UESecurityCapabilities_def ReplayedUESecurityCapabilities_def RequestType_def
  RequestedDRXParameters_def RequestedNSSAI_def RequestedQosFlowDescriptions_def RequestedQosRules_def
  S1UENetworkCapability_def SMPDUDNRequestContainer_def SMSIndication_def SNSSAI_def
  SORTransparentContainer_def SSCMode_def STATUSMessageIdentity5GMM_def STATUSMessageIdentity5GSM_def
  SecurityModeCommandMessageIdentity_def SecurityModeCompleteMessageIdentity_def
  SecurityModeRejectMessageIdentity_def SelectedEPSNASSecurityAlgorithms_def
  SelectedNASSecurityAlgorithms_def SelectedSSCModeAndSelectedPDUSessionType_def SequenceNumber_def
  ServiceAcceptMessageIdentity_def ServiceAreaList_def ServiceRejectMessageIdentity_def
  ServiceRequestMessageIdentity_def ServiceTypeAndNgksi_def SessionAMBR_def ShortNameForNetwork_def
  SpareHalfOctetAndAccessType_def SpareHalfOctetAndDeregistrationType_def SpareHalfOctetAndIdentityType_def
  SpareHalfOctetAndNgksi_def SpareHalfOctetAndPayloadContainerType_def
  SpareHalfOctetAndSecurityHeaderType_def T3346Value_def T3502Value_def T3512Value_def TAIList_def
  TMSI5GS_def UESecurityCapability_def UEStatus_def ULNASTRANSPORTMessageIdentity_def UesUsageSetting_def
  UniversalTimeAndLocalTimeZone_def UpdateType5GS_def UplinkDataStatus_def

text \<open>The numbers of the types are distinct.\<close>

lemma nas_types_tid: "map tid nas_types = [0..<150]"
  by code_simp

end
