(* ===== verification/NAS_Codec.thy ===== *)
theory NAS_Codec
  imports NAS_IE
begin

text \<open>
  Encoding and decoding of NAS messages (\<^verbatim>\<open>lib/nas/nasMessage\<close>). The 45 pairs of functions \<^verbatim>\<open>Encode\<^emph>\<open>M\<close>\<close>
  and \<^verbatim>\<open>Decode\<^emph>\<open>M\<close>\<close> are straight-line sequences of \<^verbatim>\<open>binary.Write\<close> and \<^verbatim>\<open>binary.Read\<close> calls on the fields
  of the message, followed, in a decoder, by a loop over the optional elements. Here a statement is a
  command and a message type a \<open>nas_schema\<close>: the commands of its encoder, of its decoder, and of the
  cases of the loop. The tables are in the theory \<open>NAS_Message_Table\<close>.

  The results of \<^verbatim>\<open>binary.Read\<close> are ignored by the code: a read that finds too few octets consumes what
  is left and leaves its target as it was.
\<close>

section \<open>Commands\<close>

text \<open>A message maps the number of an element type to the element; an element that is a nil pointer is \<open>None\<close>.\<close>

type_synonym nas_msg = "nat \<Rightarrow> nas_ie option"

datatype wcmd = W_Iei nas_type | W_Len nas_type | W_Octet nas_type | W_Buffer nas_type
  | W_OctetTo nas_type | W_Empty nas_type

datatype wstmt = Write wcmd | If_set nas_type "wcmd list"

datatype rcmd = R_Len nas_type | R_SetLen nas_type | R_Octet nas_type | R_Buffer nas_type
  | R_OctetTo nas_type | R_BufferTo nas_type | R_OctetIei nas_type | R_Empty nas_type

record nas_schema =
  embedded :: "nas_type list"
  enc :: "wstmt list"
  dec :: "rcmd list"
  opt_cases :: "(u8 \<times> nas_type \<times> rcmd list) list"

definition get_ie :: "nas_type \<Rightarrow> nas_msg \<Rightarrow> nas_ie res" where
  "get_ie T m = (case m (tid T) of None \<Rightarrow> Inl Panic | Some a \<Rightarrow> Inr a)"

definition GetIei :: "nas_type \<Rightarrow> nas_ie \<Rightarrow> u8" where
  "GetIei T a = (case iei_in T of Iei_nibble \<Rightarrow> drop_bit 4 (hd (Octet a) AND GetBitMask 8 4) | _ \<Rightarrow> Iei a)"

section \<open>Encoding\<close>

fun write_cmd :: "nas_msg \<Rightarrow> wcmd \<Rightarrow> bytes res" where
  "write_cmd m (W_Iei T) = bind_res (get_ie T m) (\<lambda>a. Inr [GetIei T a])"
| "write_cmd m (W_Len T) = bind_res (get_ie T m) (\<lambda>a. Inr (be_bytes (len_size T) (Len a)))"
| "write_cmd m (W_Octet T) = bind_res (get_ie T m) (\<lambda>a. Inr (Octet a))"
| "write_cmd m (W_Buffer T) = bind_res (get_ie T m) (\<lambda>a. Inr (Buffer a))"
| "write_cmd m (W_OctetTo T) = bind_res (get_ie T m) (\<lambda>a.
     if unat (Len a) \<le> length (Octet a) then Inr (take (unat (Len a)) (Octet a)) else Inl Panic)"
| "write_cmd m (W_Empty T) = bind_res (get_ie T m) (\<lambda>a. Inr [])"

fun write_cmds :: "nas_msg \<Rightarrow> wcmd list \<Rightarrow> bytes res" where
  "write_cmds m [] = Inr []"
| "write_cmds m (c # cs) = bind_res (write_cmd m c) (\<lambda>xs. bind_res (write_cmds m cs) (\<lambda>ys. Inr (xs @ ys)))"

fun encode_stmts :: "nas_msg \<Rightarrow> wstmt list \<Rightarrow> bytes res" where
  "encode_stmts m [] = Inr []"
| "encode_stmts m (Write c # ss) = bind_res (write_cmd m c) (\<lambda>xs. bind_res (encode_stmts m ss) (\<lambda>ys. Inr (xs @ ys)))"
| "encode_stmts m (If_set T cs # ss) =
     bind_res (if m (tid T) \<noteq> None then write_cmds m cs else Inr []) (\<lambda>xs.
     bind_res (encode_stmts m ss) (\<lambda>ys. Inr (xs @ ys)))"

definition Encode_msg :: "nas_schema \<Rightarrow> nas_msg \<Rightarrow> bytes res" where
  "Encode_msg S m = encode_stmts m (enc S)"

section \<open>Decoding\<close>

definition read_full :: "nat \<Rightarrow> bytes \<Rightarrow> bytes option \<times> bytes" where
  "read_full n buf = (if n \<le> length buf then (Some (take n buf), drop n buf) else (None, []))"

definition upd_ie :: "nas_type \<Rightarrow> nas_msg \<Rightarrow> (nas_ie \<Rightarrow> nas_ie) \<Rightarrow> nas_msg" where
  "upd_ie T m f = m(tid T := map_option f (m (tid T)))"

text \<open>\<open>read_into n put\<close> reads \<open>n\<close> octets into the part of the element that \<open>put\<close> assigns.\<close>

definition read_into :: "nas_type \<Rightarrow> nat \<Rightarrow> (bytes \<Rightarrow> nas_ie \<Rightarrow> nas_ie) \<Rightarrow> bytes \<times> nas_msg \<Rightarrow> bytes \<times> nas_msg" where
  "read_into T n put = (\<lambda>(buf, m).
     case read_full n buf of
       (None, buf') \<Rightarrow> (buf', m)
     | (Some bs, buf') \<Rightarrow> (buf', upd_ie T m (put bs)))"

fun read_cmd :: "u8 \<Rightarrow> rcmd \<Rightarrow> bytes \<times> nas_msg \<Rightarrow> (bytes \<times> nas_msg) res" where
  "read_cmd ieiN (R_Len T) s = bind_res (get_ie T (snd s)) (\<lambda>a.
     Inr (read_into T (len_size T) (\<lambda>bs. Len_update (\<lambda>_. of_be bs)) s))"
| "read_cmd ieiN (R_SetLen T) s = bind_res (get_ie T (snd s)) (\<lambda>a.
     Inr (fst s, upd_ie T (snd s) (SetLen T (Len a))))"
| "read_cmd ieiN (R_Octet T) s = bind_res (get_ie T (snd s)) (\<lambda>a.
     Inr (read_into T (length (Octet a)) (\<lambda>bs. Octet_update (\<lambda>_. bs)) s))"
| "read_cmd ieiN (R_Buffer T) s = bind_res (get_ie T (snd s)) (\<lambda>a.
     Inr (read_into T (length (Buffer a)) (\<lambda>bs. Buffer_update (\<lambda>_. bs)) s))"
| "read_cmd ieiN (R_OctetTo T) s = bind_res (get_ie T (snd s)) (\<lambda>a.
     if unat (Len a) \<le> length (Octet a)
     then Inr (read_into T (unat (Len a)) (\<lambda>bs. Octet_update (\<lambda>old. bs @ drop (unat (Len a)) old)) s)
     else Inl Panic)"
| "read_cmd ieiN (R_BufferTo T) s = bind_res (get_ie T (snd s)) (\<lambda>a.
     if unat (Len a) \<le> length (Buffer a)
     then Inr (read_into T (unat (Len a)) (\<lambda>bs. Buffer_update (\<lambda>old. bs @ drop (unat (Len a)) old)) s)
     else Inl Panic)"
| "read_cmd ieiN (R_OctetIei T) s = bind_res (get_ie T (snd s)) (\<lambda>a.
     Inr (fst s, upd_ie T (snd s) (Octet_update (\<lambda>_. [ieiN]))))"
| "read_cmd ieiN (R_Empty T) s = bind_res (get_ie T (snd s)) (\<lambda>a. Inr s)"

fun read_cmds :: "u8 \<Rightarrow> rcmd list \<Rightarrow> bytes \<times> nas_msg \<Rightarrow> (bytes \<times> nas_msg) res" where
  "read_cmds ieiN [] s = Inr s"
| "read_cmds ieiN (c # cs) s = bind_res (read_cmd ieiN c s) (read_cmds ieiN cs)"

definition tmpIei :: "u8 \<Rightarrow> u8" where
  "tmpIei ieiN = (if ieiN \<ge> 0x80 then drop_bit 4 (ieiN AND 0xf0) else ieiN)"

fun find_case :: "(u8 \<times> nas_type \<times> rcmd list) list \<Rightarrow> u8 \<Rightarrow> (nas_type \<times> rcmd list) option" where
  "find_case [] t = None"
| "find_case ((c, T, rs) # cs) t = (if t = c then Some (T, rs) else find_case cs t)"

lemma read_into_length: "length (fst (read_into T n put s)) \<le> length (fst s)"
  by (cases s) (simp add: read_into_def read_full_def)

lemma read_cmd_length: "read_cmd i c s = Inr s' \<Longrightarrow> length (fst s') \<le> length (fst s)"
  by (cases c) (auto simp: bind_res_eq_Inr_iff read_into_length split: if_splits)

lemma read_cmds_length: "read_cmds i cs s = Inr s' \<Longrightarrow> length (fst s') \<le> length (fst s)"
proof (induction cs arbitrary: s)
  case (Cons c cs)
  then obtain t where "read_cmd i c s = Inr t" "read_cmds i cs t = Inr s'" by (auto simp: bind_res_eq_Inr_iff)
  then show ?case using Cons.IH read_cmd_length by (meson le_trans)
qed simp

text \<open>The loop over the optional elements: it ends since every round takes an octet.\<close>

function decode_loop :: "(u8 \<times> nas_type \<times> rcmd list) list \<Rightarrow> bytes \<Rightarrow> nas_msg \<Rightarrow> nas_msg res" where
  "decode_loop cs [] m = Inr m"
| "decode_loop cs (ieiN # buf) m =
     (case find_case cs (tmpIei ieiN) of
        None \<Rightarrow> decode_loop cs buf m
      | Some (T, rs) \<Rightarrow>
          bind_res (read_cmds ieiN rs (buf, m(tid T \<mapsto> new_ie T ieiN))) (\<lambda>s. decode_loop cs (fst s) (snd s)))"
  by pat_completeness auto
termination
  by (relation "measure (\<lambda>(cs, buf, m). length buf)") (auto dest!: read_cmds_length simp: le_imp_less_Suc)

definition zero_msg :: "nas_type list \<Rightarrow> nas_msg" where
  "zero_msg Ts = map_of (map (\<lambda>T. (tid T, zero_ie T)) Ts)"

definition Decode_msg :: "nas_schema \<Rightarrow> bytes \<Rightarrow> nas_msg res" where
  "Decode_msg S byteArray =
     bind_res (read_cmds 0 (dec S) (byteArray, zero_msg (embedded S))) (\<lambda>s. decode_loop (opt_cases S) (fst s) (snd s))"

section \<open>Layouts\<close>

text \<open>
  An abstract description of a message, in the terms of TS 24.501: mandatory elements (a value; a length
  and a buffer; a length and octets; nothing) and optional elements with their identifier (a half octet
  tag with a value; tag and value; tag, length and buffer; tag, length and octets; tag, length and the
  first octets of an array).
\<close>

datatype mand_kind = M_V | M_LV | M_LO | M_none
datatype opt_kind = O_T1 | O_TV | O_TLV | O_TLO | O_TLP

record layout =
  mand :: "(mand_kind \<times> nas_type) list"
  opts :: "(opt_kind \<times> u8 \<times> nas_type) list"

fun mand_w :: "mand_kind \<times> nas_type \<Rightarrow> wcmd list" where
  "mand_w (M_V, T) = [W_Octet T]"
| "mand_w (M_LV, T) = [W_Len T, W_Buffer T]"
| "mand_w (M_LO, T) = [W_Len T, W_Octet T]"
| "mand_w (M_none, T) = [W_Empty T]"

fun mand_r :: "mand_kind \<times> nas_type \<Rightarrow> rcmd list" where
  "mand_r (M_V, T) = [R_Octet T]"
| "mand_r (M_LV, T) = [R_Len T, R_SetLen T, R_Buffer T]"
| "mand_r (M_LO, T) = [R_Len T, R_SetLen T, R_Octet T]"
| "mand_r (M_none, T) = [R_Empty T]"

fun opt_w :: "opt_kind \<Rightarrow> nas_type \<Rightarrow> wcmd list" where
  "opt_w O_T1 T = [W_Octet T]"
| "opt_w O_TV T = [W_Iei T, W_Octet T]"
| "opt_w O_TLV T = [W_Iei T, W_Len T, W_Buffer T]"
| "opt_w O_TLO T = [W_Iei T, W_Len T, W_Octet T]"
| "opt_w O_TLP T = [W_Iei T, W_Len T, W_OctetTo T]"

fun opt_r :: "opt_kind \<Rightarrow> nas_type \<Rightarrow> rcmd list" where
  "opt_r O_T1 T = [R_OctetIei T]"
| "opt_r O_TV T = [R_Octet T]"
| "opt_r O_TLV T = [R_Len T, R_SetLen T, R_BufferTo T]"
| "opt_r O_TLO T = [R_Len T, R_SetLen T, R_Octet T]"
| "opt_r O_TLP T = [R_Len T, R_SetLen T, R_OctetTo T]"

text \<open>The code that a layout stands for.\<close>

definition compile :: "layout \<Rightarrow> nas_schema" where
  "compile L = \<lparr>embedded = map snd (mand L),
     enc = map Write (concat (map mand_w (mand L))) @ map (\<lambda>(k, c, T). If_set T (opt_w k T)) (opts L),
     dec = concat (map mand_r (mand L)),
     opt_cases = map (\<lambda>(k, c, T). (c, T, opt_r k T)) (opts L)\<rparr>"

text \<open>The kinds fit the types, identifiers can be told apart, and no type occurs twice.\<close>

fun mand_type_ok :: "mand_kind \<times> nas_type \<Rightarrow> bool" where
  "mand_type_ok (M_V, T) \<longleftrightarrow> \<not> has_buffer T"
| "mand_type_ok (M_LV, T) \<longleftrightarrow> has_buffer T \<and> octets T = 0 \<and> len_size T \<in> {1, 2}"
| "mand_type_ok (M_LO, T) \<longleftrightarrow> \<not> has_buffer T \<and> len_size T \<in> {1, 2}"
| "mand_type_ok (M_none, T) \<longleftrightarrow> True"

fun opt_type_ok :: "opt_kind \<times> u8 \<times> nas_type \<Rightarrow> bool" where
  "opt_type_ok (O_T1, c, T) \<longleftrightarrow> iei_in T \<noteq> Iei_field \<and> octets T = 1 \<and> 8 \<le> c \<and> c \<le> 15"
| "opt_type_ok (O_TV, c, T) \<longleftrightarrow> iei_in T = Iei_field \<and> 15 < c \<and> c < 0x80"
| "opt_type_ok (O_TLV, c, T) \<longleftrightarrow> iei_in T = Iei_field \<and> 15 < c \<and> c < 0x80 \<and> has_buffer T \<and> octets T = 0 \<and> len_size T \<in> {1, 2}"
| "opt_type_ok (O_TLO, c, T) \<longleftrightarrow> iei_in T = Iei_field \<and> 15 < c \<and> c < 0x80 \<and> \<not> has_buffer T \<and> len_size T \<in> {1, 2}"
| "opt_type_ok (O_TLP, c, T) \<longleftrightarrow> iei_in T = Iei_field \<and> 15 < c \<and> c < 0x80 \<and> \<not> has_buffer T \<and> len_size T \<in> {1, 2}
     \<and> octets T < 255"

definition layout_ok :: "layout \<Rightarrow> bool" where
  "layout_ok L \<longleftrightarrow> list_all mand_type_ok (mand L) \<and> list_all opt_type_ok (opts L) \<and>
     distinct (map (tid \<circ> snd) (mand L) @ map (tid \<circ> snd \<circ> snd) (opts L)) \<and> distinct (map (fst \<circ> snd) (opts L))"

text \<open>An element whose fields agree with one another, as the encoder expects it.\<close>

definition len_fits :: "nas_type \<Rightarrow> u16 \<Rightarrow> bool" where
  "len_fits T n \<longleftrightarrow> (len_size T = 1 \<longrightarrow> unat n < 256)"

fun mand_ok :: "mand_kind \<times> nas_type \<Rightarrow> nas_ie \<Rightarrow> bool" where
  "mand_ok (M_V, T) a \<longleftrightarrow> a = (zero_ie T)\<lparr>Octet := Octet a\<rparr> \<and> length (Octet a) = octets T"
| "mand_ok (M_LV, T) a \<longleftrightarrow> a = (zero_ie T)\<lparr>Len := Len a, Buffer := Buffer a\<rparr> \<and> length (Buffer a) = unat (Len a) \<and> len_fits T (Len a)"
| "mand_ok (M_LO, T) a \<longleftrightarrow> a = (zero_ie T)\<lparr>Len := Len a, Octet := Octet a\<rparr> \<and> length (Octet a) = octets T \<and> len_fits T (Len a)"
| "mand_ok (M_none, T) a \<longleftrightarrow> a = zero_ie T"

fun opt_ok :: "opt_kind \<times> u8 \<times> nas_type \<Rightarrow> nas_ie \<Rightarrow> bool" where
  "opt_ok (O_T1, c, T) a \<longleftrightarrow> a = (zero_ie T)\<lparr>Octet := Octet a\<rparr> \<and> length (Octet a) = 1 \<and> 0x80 \<le> hd (Octet a) \<and>
     drop_bit 4 (hd (Octet a) AND 0xf0) = c"
| "opt_ok (O_TV, c, T) a \<longleftrightarrow> a = (zero_ie T)\<lparr>Iei := c, Octet := Octet a\<rparr> \<and> length (Octet a) = octets T"
| "opt_ok (O_TLV, c, T) a \<longleftrightarrow> a = (zero_ie T)\<lparr>Iei := c, Len := Len a, Buffer := Buffer a\<rparr> \<and> length (Buffer a) = unat (Len a) \<and> len_fits T (Len a)"
| "opt_ok (O_TLO, c, T) a \<longleftrightarrow> a = (zero_ie T)\<lparr>Iei := c, Len := Len a, Octet := Octet a\<rparr> \<and> length (Octet a) = octets T \<and> len_fits T (Len a)"
| "opt_ok (O_TLP, c, T) a \<longleftrightarrow> a = (zero_ie T)\<lparr>Iei := c, Len := Len a, Octet := Octet a\<rparr> \<and> length (Octet a) = octets T \<and> len_fits T (Len a) \<and>
     unat (Len a) \<le> octets T \<and> drop (unat (Len a)) (Octet a) = replicate (octets T - unat (Len a)) 0"

definition msg_ok :: "layout \<Rightarrow> nas_msg \<Rightarrow> bool" where
  "msg_ok L m \<longleftrightarrow> (\<forall>(k, T) \<in> set (mand L). \<exists>a. m (tid T) = Some a \<and> mand_ok (k, T) a) \<and>
     (\<forall>(k, c, T) \<in> set (opts L). \<forall>a. m (tid T) = Some a \<longrightarrow> opt_ok (k, c, T) a) \<and>
     dom m \<subseteq> set (map (tid \<circ> snd) (mand L)) \<union> set (map (tid \<circ> snd \<circ> snd) (opts L))"

section \<open>Round trip\<close>

lemma read_full_append [simp]: "length xs = n \<Longrightarrow> read_full n (xs @ ys) = (Some xs, ys)"
  by (auto simp: read_full_def)

lemma read_into_append [simp]:
  "length xs = n \<Longrightarrow> read_into T n put (xs @ ys, m) = (ys, upd_ie T m (put xs))"
  by (simp add: read_into_def)

lemma upd_ie_Some [simp]: "m (tid T) = Some a \<Longrightarrow> upd_ie T m f = m(tid T \<mapsto> f a)"
  by (simp add: upd_ie_def)

lemma get_ie_Some [simp]: "m (tid T) = Some a \<Longrightarrow> get_ie T m = Inr a"
  by (simp add: get_ie_def)

lemma of_be_len:
  assumes "len_size T \<in> {1, 2}" "len_fits T n"
  shows "of_be (be_bytes (len_size T) n) = n"
proof (cases "len_size T = 1")
  case True
  then have "unat n < 2 ^ 8" using assms(2) by (simp add: len_fits_def)
  then have "take_bit 8 n = n" by (simp add: take_bit_eq_mod unat_mod_distrib word_unat_eq_iff)
  then show ?thesis using True of_be_be_bytes [of 1 n] by simp
qed (use assms(1) in simp)

text \<open>One mandatory element, written and read back.\<close>

lemma zero_ie_sel [simp]:
  "Iei (zero_ie T) = 0" "Len (zero_ie T) = 0" "Octet (zero_ie T) = replicate (octets T) 0" "Buffer (zero_ie T) = []"
  by (simp_all add: zero_ie_def)

lemma mand_roundtrip:
  assumes t: "mand_type_ok (k, T)" and a: "m (tid T) = Some a" "mand_ok (k, T) a"
  shows "\<exists>bs. write_cmds m (mand_w (k, T)) = Inr bs \<and>
    (\<forall>rest m0. m0 (tid T) = Some (zero_ie T) \<longrightarrow> read_cmds i (mand_r (k, T)) (bs @ rest, m0) = Inr (rest, m0(tid T \<mapsto> a)))"
proof (cases k)
  case M_V
  then have "(zero_ie T)\<lparr>Octet := Octet a\<rparr> = a" "length (Octet a) = octets T" using a(2) by simp_all
  then show ?thesis using a(1) M_V by (intro exI [of _ "Octet a"]) simp
next
  case M_LV
  then have e: "(zero_ie T)\<lparr>Len := Len a, Buffer := Buffer a\<rparr> = a" "length (Buffer a) = unat (Len a)" "len_fits T (Len a)"
    "has_buffer T" "len_size T \<in> {1, 2}" using a(2) t by simp_all
  note l = of_be_len [OF e(5,3)]
  show ?thesis using a(1) M_LV e(1,2,4) l by (intro exI [of _ "be_bytes (len_size T) (Len a) @ Buffer a"]) (simp add: SetLen_def)
next
  case M_LO
  then have e: "(zero_ie T)\<lparr>Len := Len a, Octet := Octet a\<rparr> = a" "length (Octet a) = octets T" "len_fits T (Len a)"
    "\<not> has_buffer T" "len_size T \<in> {1, 2}" using a(2) t by simp_all
  note l = of_be_len [OF e(5,3)]
  show ?thesis using a(1) M_LO e(1,2,4) l by (intro exI [of _ "be_bytes (len_size T) (Len a) @ Octet a"]) (simp add: SetLen_def)
next
  case M_none
  then show ?thesis using a by (intro exI [of _ "[]"]) (simp add: fun_upd_idem)
qed

lemma new_ie_field: "iei_in T = Iei_field \<Longrightarrow> new_ie T c = (zero_ie T)\<lparr>Iei := c\<rparr>"
  by (simp add: new_ie_def SetIei_def)

lemma GetIei_field: "iei_in T = Iei_field \<Longrightarrow> GetIei T a = Iei a"
  by (simp add: GetIei_def)

lemma tmpIei_small: "c < 0x80 \<Longrightarrow> tmpIei c = c"
  by (simp add: tmpIei_def flip: not_less)

text \<open>One optional element: the encoder starts it with an octet that the loop maps to its identifier.\<close>

lemma opt_roundtrip:
  assumes t: "opt_type_ok (k, c, T)" and a: "m (tid T) = Some a" "opt_ok (k, c, T) a"
  shows "\<exists>x bs. write_cmds m (opt_w k T) = Inr (x # bs) \<and> tmpIei x = c \<and>
    (\<forall>rest m0. m0 (tid T) = Some (new_ie T x) \<longrightarrow> read_cmds x (opt_r k T) (bs @ rest, m0) = Inr (rest, m0(tid T \<mapsto> a)))"
proof (cases k)
  case O_T1
  then obtain x where x: "Octet a = [x]" "0x80 \<le> x" "drop_bit 4 (x AND 0xf0) = c" "(zero_ie T)\<lparr>Octet := [x]\<rparr> = a"
    using a(2) by (cases "Octet a") (auto simp: length_Suc_conv)
  have n: "(new_ie T x)\<lparr>Octet := [x]\<rparr> = a"
    using x(4) t O_T1 by (cases "iei_in T") (simp_all add: new_ie_def SetIei_def)
  show ?thesis using O_T1 a(1) x n by (intro exI [of _ x] exI [of _ "[]"]) (simp add: tmpIei_def)
next
  case O_TV
  then have e: "(zero_ie T)\<lparr>Iei := c, Octet := Octet a\<rparr> = a" "length (Octet a) = octets T" "iei_in T = Iei_field" "c < 0x80"
    using a(2) t by simp_all
  have i: "Iei a = c" by (subst e(1) [symmetric]) simp
  show ?thesis using O_TV a(1) e i by (intro exI [of _ c] exI [of _ "Octet a"]) (simp add: new_ie_field GetIei_field tmpIei_small)
next
  case O_TLV
  then have e: "(zero_ie T)\<lparr>Iei := c, Len := Len a, Buffer := Buffer a\<rparr> = a" "length (Buffer a) = unat (Len a)" "len_fits T (Len a)"
    "iei_in T = Iei_field" "c < 0x80" "has_buffer T" "len_size T \<in> {1, 2}" using a(2) t by simp_all
  note l = of_be_len [OF e(7,3)]
  have i: "Iei a = c" by (subst e(1) [symmetric]) simp
  show ?thesis using O_TLV a(1) e(1,2,4-6) i l
    by (intro exI [of _ c] exI [of _ "be_bytes (len_size T) (Len a) @ Buffer a"])
      (simp add: new_ie_field GetIei_field tmpIei_small SetLen_def comp_def)
next
  case O_TLO
  then have e: "(zero_ie T)\<lparr>Iei := c, Len := Len a, Octet := Octet a\<rparr> = a" "length (Octet a) = octets T" "len_fits T (Len a)"
    "iei_in T = Iei_field" "c < 0x80" "\<not> has_buffer T" "len_size T \<in> {1, 2}" using a(2) t by simp_all
  note l = of_be_len [OF e(7,3)]
  have i: "Iei a = c" by (subst e(1) [symmetric]) simp
  show ?thesis using O_TLO a(1) e(1,2,4-6) i l
    by (intro exI [of _ c] exI [of _ "be_bytes (len_size T) (Len a) @ Octet a"]) (simp add: new_ie_field GetIei_field tmpIei_small SetLen_def)
next
  case O_TLP
  then have e: "(zero_ie T)\<lparr>Iei := c, Len := Len a, Octet := Octet a\<rparr> = a" "length (Octet a) = octets T" "len_fits T (Len a)"
    "iei_in T = Iei_field" "c < 0x80" "\<not> has_buffer T" "len_size T \<in> {1, 2}" "unat (Len a) \<le> octets T"
    "drop (unat (Len a)) (Octet a) = replicate (octets T - unat (Len a)) 0" using a(2) t by simp_all
  note l = of_be_len [OF e(7,3)]
  have i: "Iei a = c" by (subst e(1) [symmetric]) simp
  have o: "take (unat (Len a)) (Octet a) @ replicate (octets T - unat (Len a)) 0 = Octet a"
    unfolding e(9) [symmetric] by (rule append_take_drop_id)
  have u: "Octet_update (\<lambda>old. take (unat (Len a)) (Octet a) @ drop (unat (Len a)) old) ((zero_ie T)\<lparr>Iei := c, Len := Len a\<rparr>) = a"
    by (rule trans [OF _ e(1)]) (simp add: zero_ie_def o)
  show ?thesis using O_TLP a(1) e(2,4-6,8) i l u
    by (intro exI [of _ c] exI [of _ "be_bytes (len_size T) (Len a) @ take (unat (Len a)) (Octet a)"])
      (simp add: new_ie_field GetIei_field tmpIei_small SetLen_def)
qed

text \<open>\<open>overlay m I m0\<close> is \<open>m0\<close> with the elements of \<open>m\<close> whose numbers are in \<open>I\<close>.\<close>

definition overlay :: "nas_msg \<Rightarrow> nat set \<Rightarrow> nas_msg \<Rightarrow> nas_msg" where
  "overlay m I m0 = (\<lambda>i. if i \<in> I \<and> m i \<noteq> None then m i else m0 i)"

lemma overlay_insert: "m i = Some a \<Longrightarrow> overlay m I (m0(i \<mapsto> a)) = overlay m (insert i I) m0"
  by (auto simp: overlay_def)

lemma overlay_absent: "m i = None \<Longrightarrow> overlay m I m0 = overlay m (insert i I) m0"
  by (auto simp: overlay_def fun_eq_iff)

lemma overlay_empty [simp]: "overlay m {} m0 = m0"
  by (simp add: overlay_def)

lemma encode_stmts_append:
  "encode_stmts m (ss @ ts) = bind_res (encode_stmts m ss) (\<lambda>xs. bind_res (encode_stmts m ts) (\<lambda>ys. Inr (xs @ ys)))"
proof (induction ss)
  case (Cons s ss)
  then show ?case by (cases s) (simp_all add: bind_res_assoc cong: bind_res_cong)
next
  case Nil
  then show ?case by (cases "encode_stmts m ts") simp_all
qed

lemma encode_Write: "encode_stmts m (map Write cs) = write_cmds m cs"
  by (induction cs) simp_all

lemma write_cmds_append:
  "write_cmds m (cs @ ds) = bind_res (write_cmds m cs) (\<lambda>xs. bind_res (write_cmds m ds) (\<lambda>ys. Inr (xs @ ys)))"
  using encode_stmts_append [of m "map Write cs" "map Write ds"] by (simp add: encode_Write flip: map_append)

lemma read_cmds_append: "read_cmds i (cs @ ds) s = bind_res (read_cmds i cs s) (read_cmds i ds)"
  by (induction cs arbitrary: s) (simp_all add: bind_res_assoc cong: bind_res_cong)

lemma mands_roundtrip:
  assumes "\<forall>p \<in> set ps. mand_type_ok p \<and> (\<exists>a. m (tid (snd p)) = Some a \<and> mand_ok p a)" "distinct (map (tid \<circ> snd) ps)"
  shows "\<exists>bs. write_cmds m (concat (map mand_w ps)) = Inr bs \<and>
    (\<forall>rest m0. (\<forall>p \<in> set ps. m0 (tid (snd p)) = Some (zero_ie (snd p))) \<longrightarrow>
       read_cmds i (concat (map mand_r ps)) (bs @ rest, m0) = Inr (rest, overlay m (set (map (tid \<circ> snd) ps)) m0))"
  using assms
proof (induction ps)
  case (Cons p ps)
  obtain k T where p: "p = (k, T)" by (cases p)
  obtain a where a: "mand_type_ok (k, T)" "m (tid T) = Some a" "mand_ok (k, T) a" using Cons.prems(1) p by auto
  obtain xs where xs: "write_cmds m (mand_w p) = Inr xs"
    "\<And>rest m0. m0 (tid T) = Some (zero_ie T) \<Longrightarrow> read_cmds i (mand_r p) (xs @ rest, m0) = Inr (rest, m0(tid T \<mapsto> a))"
    using mand_roundtrip [of k T m a i] a unfolding p by blast
  obtain ys where ys: "write_cmds m (concat (map mand_w ps)) = Inr ys"
    "\<And>rest m0. (\<forall>p \<in> set ps. m0 (tid (snd p)) = Some (zero_ie (snd p))) \<Longrightarrow>
       read_cmds i (concat (map mand_r ps)) (ys @ rest, m0) = Inr (rest, overlay m (set (map (tid \<circ> snd) ps)) m0)"
    using Cons.IH Cons.prems by auto
  have "read_cmds i (concat (map mand_r (p # ps))) ((xs @ ys) @ rest, m0) = Inr (rest, overlay m (set (map (tid \<circ> snd) (p # ps))) m0)"
    if z: "\<forall>q \<in> set (p # ps). m0 (tid (snd q)) = Some (zero_ie (snd q))" for rest m0
  proof -
    have "m0 (tid T) = Some (zero_ie T)" using z p by simp
    moreover have "\<forall>q \<in> set ps. (m0(tid T \<mapsto> a)) (tid (snd q)) = Some (zero_ie (snd q))"
      using z Cons.prems(2) p by (force simp: image_iff)
    ultimately have "read_cmds i (concat (map mand_r (p # ps))) (xs @ ys @ rest, m0) =
        Inr (rest, overlay m (set (map (tid \<circ> snd) ps)) (m0(tid T \<mapsto> a)))"
      using xs(2) ys(2) by (simp add: read_cmds_append)
    then show ?thesis using overlay_insert [of m "tid T" a] a(2) p by simp
  qed
  then show ?case using xs(1) ys(1) by (intro exI [of _ "xs @ ys"]) (simp add: write_cmds_append)
qed simp

lemma find_case_opts:
  "distinct (map (fst \<circ> snd) os) \<Longrightarrow> (k, c, T) \<in> set os \<Longrightarrow> find_case (map (\<lambda>(k, c, T). (c, T, opt_r k T)) os) c = Some (T, opt_r k T)"
proof (induction os)
  case (Cons q os)
  obtain k' c' T' where q: "q = (k', c', T')" by (cases q)
  show ?case
  proof (cases "(k, c, T) = q")
    case False
    then have i: "(k, c, T) \<in> set os" using Cons.prems(2) by simp
    then have "c \<in> set (map (fst \<circ> snd) os)" by force
    then have "c \<noteq> c'" using Cons.prems(1) q by auto
    then show ?thesis using Cons.IH Cons.prems(1) i q by simp
  qed (simp add: q)
qed simp

text \<open>The loop on what the encoder writes for the optional elements, followed by anything.\<close>

lemma opts_roundtrip:
  assumes "\<forall>q \<in> set os. opt_type_ok q \<and> (\<forall>a. m (tid (snd (snd q))) = Some a \<longrightarrow> opt_ok q a) \<and>
      find_case cs (fst (snd q)) = Some (snd (snd q), opt_r (fst q) (snd (snd q)))"
  shows "\<exists>bs. encode_stmts m (map (\<lambda>(k, c, T). If_set T (opt_w k T)) os) = Inr bs \<and>
    (\<forall>rest m0. decode_loop cs (bs @ rest) m0 = decode_loop cs rest (overlay m (set (map (tid \<circ> snd \<circ> snd) os)) m0))"
  using assms
proof (induction os)
  case (Cons q os)
  obtain k c T where q: "q = (k, c, T)" by (cases q)
  obtain ys where ys: "encode_stmts m (map (\<lambda>(k, c, T). If_set T (opt_w k T)) os) = Inr ys"
    "\<And>rest m0. decode_loop cs (ys @ rest) m0 = decode_loop cs rest (overlay m (set (map (tid \<circ> snd \<circ> snd) os)) m0)"
    using Cons.IH Cons.prems by auto
  have f: "find_case cs c = Some (T, opt_r k T)" and t: "opt_type_ok (k, c, T)" using Cons.prems q by auto
  show ?case
  proof (cases "m (tid T)")
    case None
    then show ?thesis using ys q overlay_absent [of m "tid T", symmetric] by (intro exI [of _ ys]) simp
  next
    case (Some a)
    then have "opt_ok (k, c, T) a" using Cons.prems q by auto
    then obtain x xs where x: "write_cmds m (opt_w k T) = Inr (x # xs)" "tmpIei x = c"
      "\<And>rest m0. m0 (tid T) = Some (new_ie T x) \<Longrightarrow> read_cmds x (opt_r k T) (xs @ rest, m0) = Inr (rest, m0(tid T \<mapsto> a))"
      using opt_roundtrip [of k c T m a] t Some by blast
    have "decode_loop cs ((x # xs @ ys) @ rest) m0 = decode_loop cs rest (overlay m (set (map (tid \<circ> snd \<circ> snd) (q # os))) m0)" for rest m0
      using x(2,3) f ys(2) q overlay_insert [of m "tid T" a] Some by simp
    then show ?thesis using x(1) ys(1) q Some by (intro exI [of _ "x # xs @ ys"]) simp
  qed
qed simp

lemma zero_msg_embedded:
  assumes "distinct (map (tid \<circ> snd) ps)" "p \<in> set ps"
  shows "zero_msg (map snd ps) (tid (snd p)) = Some (zero_ie (snd p))"
proof -
  have "distinct (map fst (map (\<lambda>T. (tid T, zero_ie T)) (map snd ps)))" using assms(1) by (simp add: comp_def)
  then show ?thesis unfolding zero_msg_def by (rule map_of_is_SomeI) (use assms(2) in auto)
qed

lemma dom_zero_msg: "dom (zero_msg Ts) = set (map tid Ts)"
  by (simp add: zero_msg_def dom_map_of_conv_image_fst image_image)

lemma compile_roundtrip:
  assumes L: "layout_ok L" and m: "msg_ok L m"
  shows "\<exists>bs. Encode_msg (compile L) m = Inr bs \<and>
    (\<forall>rest. Decode_msg (compile L) (bs @ rest) = decode_loop (opt_cases (compile L)) rest m)"
proof -
  let ?cs = "opt_cases (compile L)"
  have M: "\<forall>p \<in> set (mand L). mand_type_ok p \<and> (\<exists>a. m (tid (snd p)) = Some a \<and> mand_ok p a)"
    using L m by (fastforce simp: layout_ok_def msg_ok_def list_all_iff)
  have d: "distinct (map (tid \<circ> snd) (mand L))" "distinct (map (fst \<circ> snd) (opts L))" using L by (simp_all add: layout_ok_def)
  have O: "\<forall>q \<in> set (opts L). opt_type_ok q \<and> (\<forall>a. m (tid (snd (snd q))) = Some a \<longrightarrow> opt_ok q a) \<and>
      find_case ?cs (fst (snd q)) = Some (snd (snd q), opt_r (fst q) (snd (snd q)))"
    using L m find_case_opts [OF d(2)] by (fastforce simp: layout_ok_def msg_ok_def list_all_iff compile_def)
  obtain xs where xs: "write_cmds m (concat (map mand_w (mand L))) = Inr xs"
    "\<And>rest m0. (\<forall>p \<in> set (mand L). m0 (tid (snd p)) = Some (zero_ie (snd p))) \<Longrightarrow>
       read_cmds 0 (concat (map mand_r (mand L))) (xs @ rest, m0) = Inr (rest, overlay m (set (map (tid \<circ> snd) (mand L))) m0)"
    using mands_roundtrip [OF M d(1), of 0] by blast
  obtain ys where ys: "encode_stmts m (map (\<lambda>(k, c, T). If_set T (opt_w k T)) (opts L)) = Inr ys"
    "\<And>rest m0. decode_loop ?cs (ys @ rest) m0 = decode_loop ?cs rest (overlay m (set (map (tid \<circ> snd \<circ> snd) (opts L))) m0)"
    using opts_roundtrip [OF O] by blast
  have "overlay m (set (map (tid \<circ> snd \<circ> snd) (opts L))) (overlay m (set (map (tid \<circ> snd) (mand L))) (zero_msg (map snd (mand L)))) = m"
  proof
    fix i
    have "dom m \<subseteq> set (map (tid \<circ> snd) (mand L)) \<union> set (map (tid \<circ> snd \<circ> snd) (opts L))" using m by (simp add: msg_ok_def)
    moreover have "m i \<noteq> None" if "i \<in> set (map (tid \<circ> snd) (mand L))" using M that by auto
    moreover have "zero_msg (map snd (mand L)) i = None" if "i \<notin> set (map (tid \<circ> snd) (mand L))"
      using dom_zero_msg [of "map snd (mand L)"] that by (auto simp: dom_def)
    ultimately show "overlay m (set (map (tid \<circ> snd \<circ> snd) (opts L))) (overlay m (set (map (tid \<circ> snd) (mand L))) (zero_msg (map snd (mand L)))) i = m i"
      unfolding overlay_def by (cases "m i") (auto simp: dom_def subset_iff)
  qed
  moreover have "\<forall>p \<in> set (mand L). zero_msg (map snd (mand L)) (tid (snd p)) = Some (zero_ie (snd p))"
    using zero_msg_embedded [OF d(1)] by blast
  ultimately have "Decode_msg (compile L) ((xs @ ys) @ rest) = decode_loop ?cs rest m" for rest
    using xs(2) ys(2) unfolding Decode_msg_def by (simp add: compile_def)
  moreover have "Encode_msg (compile L) m = Inr (xs @ ys)"
    using xs(1) ys(1) by (simp add: Encode_msg_def compile_def encode_stmts_append encode_Write)
  ultimately show ?thesis by blast
qed

end
