(* ===== verification/NAS_Codec_Safety.thy ===== *)
theory NAS_Codec_Safety
  imports NAS_Codec
begin

text \<open>
  What the generic NAS decoder does with octets that no encoder wrote: it never returns an error, and it
  panics exactly through an element whose octets are an array that the announced length exceeds.
\<close>

section \<open>Layouts without arrays of a variable length\<close>

lemma get_ie_eq: "m (tid T) \<noteq> None \<Longrightarrow> get_ie T m = Inr (the (m (tid T)))"
  by (auto simp: get_ie_def)

lemma dom_upd_ie [simp]: "dom (upd_ie T m f) = dom m"
  by (auto simp: upd_ie_def dom_def)

lemma dom_read_into [simp]: "dom (snd (read_into T n put s)) = dom (snd s)"
  by (cases s) (simp add: read_into_def read_full_def)

text \<open>Commands other than the two that slice an array or a buffer do not panic on an element that is there.\<close>

fun rtype :: "rcmd \<Rightarrow> nas_type" where
  "rtype (R_Len T) = T" | "rtype (R_SetLen T) = T" | "rtype (R_Octet T) = T" | "rtype (R_Buffer T) = T"
| "rtype (R_OctetTo T) = T" | "rtype (R_BufferTo T) = T" | "rtype (R_OctetIei T) = T" | "rtype (R_Empty T) = T"

fun slices :: "rcmd \<Rightarrow> bool" where
  "slices (R_OctetTo T) \<longleftrightarrow> True"
| "slices (R_BufferTo T) \<longleftrightarrow> True"
| "slices c \<longleftrightarrow> False"

lemma read_cmd_total:
  assumes "snd s (tid (rtype c)) \<noteq> None" "\<not> slices c"
  shows "\<exists>s'. read_cmd i c s = Inr s' \<and> dom (snd s') = dom (snd s)"
  using assms by (cases c) (auto simp: get_ie_eq)

lemma read_cmds_total:
  assumes "\<forall>c \<in> set cs. snd s (tid (rtype c)) \<noteq> None \<and> \<not> slices c"
  shows "\<exists>s'. read_cmds i cs s = Inr s' \<and> dom (snd s') = dom (snd s)"
  using assms
proof (induction cs arbitrary: s)
  case (Cons c cs)
  then obtain t where t: "read_cmd i c s = Inr t" "dom (snd t) = dom (snd s)" using read_cmd_total by (metis list.set_intros(1))
  have "\<forall>c \<in> set cs. snd t (tid (rtype c)) \<noteq> None \<and> \<not> slices c"
    using Cons.prems t(2) by (metis domIff list.set_intros(2))
  then obtain s' where "read_cmds i cs t = Inr s'" "dom (snd s') = dom (snd t)" using Cons.IH by blast
  with t show ?case by simp
qed simp

text \<open>After \<^verbatim>\<open>SetLen\<close> the buffer is as long as the length field says.\<close>

lemma opt_read_total:
  assumes t: "opt_type_ok (k, c, T)" "k \<noteq> O_TLP" and m: "m (tid T) \<noteq> None"
  shows "\<exists>s'. read_cmds i (opt_r k T) (buf, m) = Inr s'"
proof (cases "k = O_TLV")
  case True
  obtain b where b: "read_cmd i (R_Len T) (buf, m) = Inr b" "dom (snd b) = dom m"
    using read_cmd_total [of "(buf, m)" "R_Len T" i] m by auto
  then obtain a where a: "snd b (tid T) = Some a" using m by (metis domD domIff)
  have "has_buffer T" using t True by simp
  then have "SetLen T (Len a) a = a\<lparr>Len := Len a, Buffer := replicate (unat (Len a)) 0\<rparr>" by (simp add: SetLen_def)
  then show ?thesis using True b(1) a by (simp del: read_cmd.simps(1))
next
  case False
  then have "\<not> (\<exists>c \<in> set (opt_r k T). slices c)" "\<forall>c \<in> set (opt_r k T). rtype c = T" using t by (cases k; simp)+
  then show ?thesis using read_cmds_total [of "opt_r k T" "(buf, m)" i] m by auto
qed

lemma find_caseD: "find_case cs t = Some (T, rs) \<Longrightarrow> \<exists>c. (c, T, rs) \<in> set cs"
  by (induction cs) (auto split: if_splits)

lemma decode_loop_total:
  assumes "\<forall>(c, T, rs) \<in> set cs. \<exists>k. opt_type_ok (k, c, T) \<and> k \<noteq> O_TLP \<and> rs = opt_r k T"
  shows "\<exists>m'. decode_loop cs buf m = Inr m'"
  using assms
proof (induction cs buf m rule: decode_loop.induct)
  case (2 cs ieiN buf m)
  show ?case
  proof (cases "find_case cs (tmpIei ieiN)")
    case None
    then show ?thesis using 2 by simp
  next
    case (Some p)
    obtain T rs where p: "p = (T, rs)" by (cases p)
    with Some obtain c where "(c, T, rs) \<in> set cs" using find_caseD by fast
    then obtain k where k: "opt_type_ok (k, c, T)" "k \<noteq> O_TLP" "rs = opt_r k T" using "2.prems" by fast
    obtain s where s: "read_cmds ieiN rs (buf, m(tid T \<mapsto> new_ie T ieiN)) = Inr s"
      using opt_read_total [OF k(1,2), of "m(tid T \<mapsto> new_ie T ieiN)" ieiN buf] k(3) by auto
    then have "\<exists>m'. decode_loop cs (fst s) (snd s) = Inr m'" 
      using "2.IH"(2) [OF Some _ _ "2.prems"] p by blast
    then show ?thesis using Some p s by simp
  qed
qed simp

lemma mand_reads_total:
  assumes "distinct (map (tid \<circ> snd) ps)"
  shows "\<exists>s. read_cmds i (concat (map mand_r ps)) (bs, zero_msg (map snd ps)) = Inr s"
proof -
  have "snd (bs, zero_msg (map snd ps)) (tid (rtype c)) \<noteq> None \<and> \<not> slices c" if c: "c \<in> set (concat (map mand_r ps))" for c
  proof -
    obtain k T where p: "(k, T) \<in> set ps" "c \<in> set (mand_r (k, T))" using c by auto
    then have "rtype c = T" "\<not> slices c" by (cases k; auto)+
    then show ?thesis using zero_msg_embedded [OF assms p(1)] by simp
  qed
  then show ?thesis using read_cmds_total [of "concat (map mand_r ps)" "(bs, zero_msg (map snd ps))" i] by auto
qed

definition has_prefix :: "layout \<Rightarrow> bool" where
  "has_prefix L \<longleftrightarrow> list_ex (\<lambda>(k, c, T). k = O_TLP) (opts L)"

lemma compile_total:
  assumes L: "layout_ok L" "\<not> has_prefix L"
  shows "\<exists>m. Decode_msg (compile L) bs = Inr m"
proof -
  have d: "distinct (map (tid \<circ> snd) (mand L))" using L(1) by (simp add: layout_ok_def)
  obtain s where s: "read_cmds 0 (concat (map mand_r (mand L))) (bs, zero_msg (map snd (mand L))) = Inr s"
    using mand_reads_total [OF d] by blast
  have "\<forall>(c, T, rs) \<in> set (opt_cases (compile L)). \<exists>k. opt_type_ok (k, c, T) \<and> k \<noteq> O_TLP \<and> rs = opt_r k T"
    using L by (fastforce simp: compile_def layout_ok_def has_prefix_def list_all_iff list_ex_iff)
  from decode_loop_total [OF this] show ?thesis using s by (simp add: Decode_msg_def compile_def)
qed

section \<open>Lengths that exceed an array\<close>

lemma zero_msg_ok:
  assumes "layout_ok L"
  shows "msg_ok L (zero_msg (map snd (mand L)))"
proof -
  have d: "distinct (map (tid \<circ> snd) (mand L) @ map (tid \<circ> snd \<circ> snd) (opts L))" using assms by (simp add: layout_ok_def)
  have M: "mand_ok (k, T) (zero_ie T)" for k T
    by (cases k) (simp_all add: zero_ie_def len_fits_def)
  have O: "zero_msg (map snd (mand L)) (tid T) = None" if "(k, c, T) \<in> set (opts L)" for k c T
  proof -
    have "tid T \<in> set (map (tid \<circ> snd \<circ> snd) (opts L))" using that by force
    then have "tid T \<notin> set (map (tid \<circ> snd) (mand L))" using d by auto
    then have "tid T \<notin> dom (zero_msg (map snd (mand L)))" by (simp add: dom_zero_msg)
    then show ?thesis by (simp add: domIff)
  qed
  have Z: "zero_msg (map snd (mand L)) (tid T) = Some (zero_ie T)" if "(k, T) \<in> set (mand L)" for k T
    using zero_msg_embedded [OF _ that] d by simp
  show ?thesis unfolding msg_ok_def
  proof (intro conjI ballI)
    show "case p of (k, T) \<Rightarrow> \<exists>a. zero_msg (map snd (mand L)) (tid T) = Some a \<and> mand_ok (k, T) a" if "p \<in> set (mand L)" for p
      using Z M that by (cases p) simp
    show "case q of (k, c, T) \<Rightarrow> \<forall>a. zero_msg (map snd (mand L)) (tid T) = Some a \<longrightarrow> opt_ok (k, c, T) a" if "q \<in> set (opts L)" for q
      using O that by (cases q) simp
  qed (simp add: dom_zero_msg)
qed

text \<open>The identifier of such an element and a length one above its array.\<close>

definition overlong :: "u8 \<Rightarrow> nas_type \<Rightarrow> bytes" where
  "overlong c T = c # be_bytes (len_size T) (of_nat (Suc (octets T)) :: u16)"

lemma overlong_panics:
  assumes "opt_type_ok (O_TLP, c, T)" "find_case cs c = Some (T, opt_r O_TLP T)"
  shows "decode_loop cs (overlong c T @ rest) m = Inl Panic"
proof -
  let ?n = "of_nat (Suc (octets T)) :: u16"
  have t: "iei_in T = Iei_field" "c < 0x80" "\<not> has_buffer T" "len_size T \<in> {1, 2}"
    "octets T < 255" using assms(1) by simp_all
  have u: "unat ?n = Suc (octets T)" using t(5) by (auto simp: unat_of_nat_16 simp del: of_nat_Suc split: if_splits)
  then have l: "of_be (be_bytes (len_size T) ?n) = ?n"
    using t(4,5) by (intro of_be_len) (auto simp: len_fits_def simp del: of_nat_Suc split: if_splits)
  have "read_cmds c (opt_r O_TLP T) (be_bytes (len_size T) ?n @ rest, m(tid T \<mapsto> new_ie T c)) = Inl Panic"
    using t(1,3) l u by (simp add: new_ie_field SetLen_def del: of_nat_Suc)
  then show ?thesis using assms(2) t(2) by (simp add: overlong_def tmpIei_small del: opt_r.simps of_nat_Suc)
qed

lemma compile_panics:
  assumes L: "layout_ok L" and q: "(O_TLP, c, T) \<in> set (opts L)" and m: "msg_ok L m"
  shows "\<exists>bs. Encode_msg (compile L) m = Inr bs \<and> Decode_msg (compile L) (bs @ overlong c T @ rest) = Inl Panic"
proof -
  obtain bs where bs: "Encode_msg (compile L) m = Inr bs"
    "\<And>rest. Decode_msg (compile L) (bs @ rest) = decode_loop (opt_cases (compile L)) rest m"
    using compile_roundtrip [OF L m] by blast
  have "opt_type_ok (O_TLP, c, T)" "distinct (map (fst \<circ> snd) (opts L))"
    using L q by (auto simp: layout_ok_def list_all_iff)
  then have "decode_loop (opt_cases (compile L)) (overlong c T @ rest) m = Inl Panic"
    using find_case_opts [OF _ q] by (intro overlong_panics) (simp_all add: compile_def del: opt_r.simps)
  then show ?thesis using bs(1) bs(2) [of "overlong c T @ rest"] by simp
qed

lemma read_cmd_no_error: "read_cmd i c s \<noteq> Inl (Err e)"
  by (cases c) (auto simp: bind_res_eq_Inl_iff get_ie_def split: option.splits if_splits)

lemma read_cmds_no_error: "read_cmds i cs s \<noteq> Inl (Err e)"
  by (induction cs arbitrary: s) (auto simp: bind_res_eq_Inl_iff read_cmd_no_error)

lemma decode_loop_no_error: "decode_loop cs buf m \<noteq> Inl (Err e)"
  by (induction cs buf m rule: decode_loop.induct)
    (auto simp: bind_res_eq_Inl_iff read_cmds_no_error split: option.split)

lemma Decode_msg_no_error: "Decode_msg S bs \<noteq> Inl (Err e)"
  by (auto simp: Decode_msg_def bind_res_eq_Inl_iff read_cmds_no_error decode_loop_no_error)

end
