(* ===== verification/NAS_Message_Table.thy ===== *)
theory NAS_Message_Table
  imports NAS_Type_Table NAS_Codec_Safety
begin

text \<open>
  The messages of \<^verbatim>\<open>lib/nas/nasMessage\<close>: for each message the statements of \<^verbatim>\<open>Encode\<^emph>\<open>M\<close>\<close>, the statements of
  \<^verbatim>\<open>Decode\<^emph>\<open>M\<close>\<close> before its loop, the cases of the loop, and the layout that they should implement. The last
  section compares the code with the layouts.
\<close>

subsection \<open>AuthenticationFailure\<close>

definition EncodeAuthenticationFailure :: "wstmt list" where
  "EncodeAuthenticationFailure =
    [Write (W_Octet ExtendedProtocolDiscriminator),
     Write (W_Octet SpareHalfOctetAndSecurityHeaderType),
     Write (W_Octet AuthenticationFailureMessageIdentity),
     Write (W_Octet Cause5GMM),
     If_set AuthenticationFailureParameter [W_Iei AuthenticationFailureParameter, W_Len AuthenticationFailureParameter, W_OctetTo AuthenticationFailureParameter]]"

definition DecodeAuthenticationFailure :: "rcmd list" where
  "DecodeAuthenticationFailure =
    [R_Octet ExtendedProtocolDiscriminator, R_Octet SpareHalfOctetAndSecurityHeaderType,
     R_Octet AuthenticationFailureMessageIdentity, R_Octet Cause5GMM]"

definition AuthenticationFailure_cases :: "(u8 \<times> nas_type \<times> rcmd list) list" where
  "AuthenticationFailure_cases =
    [(0x30, AuthenticationFailureParameter, [R_Len AuthenticationFailureParameter, R_SetLen AuthenticationFailureParameter, R_OctetTo AuthenticationFailureParameter])]"

definition AuthenticationFailure :: nas_schema where
  "AuthenticationFailure = \<lparr>embedded = [ExtendedProtocolDiscriminator, SpareHalfOctetAndSecurityHeaderType, AuthenticationFailureMessageIdentity,
       Cause5GMM],
     enc = EncodeAuthenticationFailure, dec = DecodeAuthenticationFailure, opt_cases = AuthenticationFailure_cases\<rparr>"

definition AuthenticationFailure_layout :: layout where
  "AuthenticationFailure_layout = \<lparr>mand = [(M_V, ExtendedProtocolDiscriminator), (M_V, SpareHalfOctetAndSecurityHeaderType),
       (M_V, AuthenticationFailureMessageIdentity), (M_V, Cause5GMM)],
     opts = [(O_TLP, 0x30, AuthenticationFailureParameter)]\<rparr>"

subsection \<open>AuthenticationReject\<close>

definition EncodeAuthenticationReject :: "wstmt list" where
  "EncodeAuthenticationReject =
    [Write (W_Octet ExtendedProtocolDiscriminator),
     Write (W_Octet SpareHalfOctetAndSecurityHeaderType),
     Write (W_Octet AuthenticationRejectMessageIdentity),
     If_set EAPMessage [W_Iei EAPMessage, W_Len EAPMessage, W_Buffer EAPMessage]]"

definition DecodeAuthenticationReject :: "rcmd list" where
  "DecodeAuthenticationReject =
    [R_Octet ExtendedProtocolDiscriminator, R_Octet SpareHalfOctetAndSecurityHeaderType,
     R_Octet AuthenticationRejectMessageIdentity]"

definition AuthenticationReject_cases :: "(u8 \<times> nas_type \<times> rcmd list) list" where
  "AuthenticationReject_cases =
    [(0x78, EAPMessage, [R_Len EAPMessage, R_SetLen EAPMessage, R_BufferTo EAPMessage])]"

definition AuthenticationReject :: nas_schema where
  "AuthenticationReject = \<lparr>embedded = [ExtendedProtocolDiscriminator, SpareHalfOctetAndSecurityHeaderType, AuthenticationRejectMessageIdentity],
     enc = EncodeAuthenticationReject, dec = DecodeAuthenticationReject, opt_cases = AuthenticationReject_cases\<rparr>"

definition AuthenticationReject_layout :: layout where
  "AuthenticationReject_layout = \<lparr>mand = [(M_V, ExtendedProtocolDiscriminator), (M_V, SpareHalfOctetAndSecurityHeaderType),
       (M_V, AuthenticationRejectMessageIdentity)],
     opts = [(O_TLV, 0x78, EAPMessage)]\<rparr>"

subsection \<open>AuthenticationRequest\<close>

definition EncodeAuthenticationRequest :: "wstmt list" where
  "EncodeAuthenticationRequest =
    [Write (W_Octet ExtendedProtocolDiscriminator),
     Write (W_Octet SpareHalfOctetAndSecurityHeaderType),
     Write (W_Octet AuthenticationRequestMessageIdentity),
     Write (W_Octet SpareHalfOctetAndNgksi),
     Write (W_Len ABBA),
     Write (W_Buffer ABBA),
     If_set AuthenticationParameterRAND [W_Iei AuthenticationParameterRAND, W_Octet AuthenticationParameterRAND],
     If_set AuthenticationParameterAUTN [W_Iei AuthenticationParameterAUTN, W_Len AuthenticationParameterAUTN, W_OctetTo AuthenticationParameterAUTN],
     If_set EAPMessage [W_Iei EAPMessage, W_Len EAPMessage, W_Buffer EAPMessage]]"

definition DecodeAuthenticationRequest :: "rcmd list" where
  "DecodeAuthenticationRequest =
    [R_Octet ExtendedProtocolDiscriminator, R_Octet SpareHalfOctetAndSecurityHeaderType,
     R_Octet AuthenticationRequestMessageIdentity, R_Octet SpareHalfOctetAndNgksi, R_Len ABBA, R_SetLen ABBA,
     R_Buffer ABBA]"

definition AuthenticationRequest_cases :: "(u8 \<times> nas_type \<times> rcmd list) list" where
  "AuthenticationRequest_cases =
    [(0x21, AuthenticationParameterRAND, [R_Octet AuthenticationParameterRAND]),
     (0x20, AuthenticationParameterAUTN, [R_Len AuthenticationParameterAUTN, R_SetLen AuthenticationParameterAUTN, R_OctetTo AuthenticationParameterAUTN]),
     (0x78, EAPMessage, [R_Len EAPMessage, R_SetLen EAPMessage, R_BufferTo EAPMessage])]"

definition AuthenticationRequest :: nas_schema where
  "AuthenticationRequest = \<lparr>embedded = [ExtendedProtocolDiscriminator, SpareHalfOctetAndSecurityHeaderType, AuthenticationRequestMessageIdentity,
       SpareHalfOctetAndNgksi, ABBA],
     enc = EncodeAuthenticationRequest, dec = DecodeAuthenticationRequest, opt_cases = AuthenticationRequest_cases\<rparr>"

definition AuthenticationRequest_layout :: layout where
  "AuthenticationRequest_layout = \<lparr>mand = [(M_V, ExtendedProtocolDiscriminator), (M_V, SpareHalfOctetAndSecurityHeaderType),
       (M_V, AuthenticationRequestMessageIdentity), (M_V, SpareHalfOctetAndNgksi), (M_LV, ABBA)],
     opts = [(O_TV, 0x21, AuthenticationParameterRAND), (O_TLP, 0x20, AuthenticationParameterAUTN),
       (O_TLV, 0x78, EAPMessage)]\<rparr>"

subsection \<open>AuthenticationResponse\<close>

definition EncodeAuthenticationResponse :: "wstmt list" where
  "EncodeAuthenticationResponse =
    [Write (W_Octet ExtendedProtocolDiscriminator),
     Write (W_Octet SpareHalfOctetAndSecurityHeaderType),
     Write (W_Octet AuthenticationResponseMessageIdentity),
     If_set AuthenticationResponseParameter [W_Iei AuthenticationResponseParameter, W_Len AuthenticationResponseParameter, W_OctetTo AuthenticationResponseParameter],
     If_set EAPMessage [W_Iei EAPMessage, W_Len EAPMessage, W_Buffer EAPMessage]]"

definition DecodeAuthenticationResponse :: "rcmd list" where
  "DecodeAuthenticationResponse =
    [R_Octet ExtendedProtocolDiscriminator, R_Octet SpareHalfOctetAndSecurityHeaderType,
     R_Octet AuthenticationResponseMessageIdentity]"

definition AuthenticationResponse_cases :: "(u8 \<times> nas_type \<times> rcmd list) list" where
  "AuthenticationResponse_cases =
    [(0x2D, AuthenticationResponseParameter, [R_Len AuthenticationResponseParameter, R_SetLen AuthenticationResponseParameter, R_OctetTo AuthenticationResponseParameter]),
     (0x78, EAPMessage, [R_Len EAPMessage, R_SetLen EAPMessage, R_BufferTo EAPMessage])]"

definition AuthenticationResponse :: nas_schema where
  "AuthenticationResponse = \<lparr>embedded = [ExtendedProtocolDiscriminator, SpareHalfOctetAndSecurityHeaderType, AuthenticationResponseMessageIdentity],
     enc = EncodeAuthenticationResponse, dec = DecodeAuthenticationResponse, opt_cases = AuthenticationResponse_cases\<rparr>"

definition AuthenticationResponse_layout :: layout where
  "AuthenticationResponse_layout = \<lparr>mand = [(M_V, ExtendedProtocolDiscriminator), (M_V, SpareHalfOctetAndSecurityHeaderType),
       (M_V, AuthenticationResponseMessageIdentity)],
     opts = [(O_TLP, 0x2D, AuthenticationResponseParameter), (O_TLV, 0x78, EAPMessage)]\<rparr>"

subsection \<open>AuthenticationResult\<close>

definition EncodeAuthenticationResult :: "wstmt list" where
  "EncodeAuthenticationResult =
    [Write (W_Octet ExtendedProtocolDiscriminator),
     Write (W_Octet SpareHalfOctetAndSecurityHeaderType),
     Write (W_Octet AuthenticationResultMessageIdentity),
     Write (W_Octet SpareHalfOctetAndNgksi),
     Write (W_Len EAPMessage),
     Write (W_Buffer EAPMessage),
     If_set ABBA [W_Iei ABBA, W_Len ABBA, W_Buffer ABBA]]"

definition DecodeAuthenticationResult :: "rcmd list" where
  "DecodeAuthenticationResult =
    [R_Octet ExtendedProtocolDiscriminator, R_Octet SpareHalfOctetAndSecurityHeaderType,
     R_Octet AuthenticationResultMessageIdentity, R_Octet SpareHalfOctetAndNgksi, R_Len EAPMessage,
     R_SetLen EAPMessage, R_Buffer EAPMessage]"

definition AuthenticationResult_cases :: "(u8 \<times> nas_type \<times> rcmd list) list" where
  "AuthenticationResult_cases =
    [(0x38, ABBA, [R_Len ABBA, R_SetLen ABBA, R_BufferTo ABBA])]"

definition AuthenticationResult :: nas_schema where
  "AuthenticationResult = \<lparr>embedded = [ExtendedProtocolDiscriminator, SpareHalfOctetAndSecurityHeaderType, AuthenticationResultMessageIdentity,
       SpareHalfOctetAndNgksi, EAPMessage],
     enc = EncodeAuthenticationResult, dec = DecodeAuthenticationResult, opt_cases = AuthenticationResult_cases\<rparr>"

definition AuthenticationResult_layout :: layout where
  "AuthenticationResult_layout = \<lparr>mand = [(M_V, ExtendedProtocolDiscriminator), (M_V, SpareHalfOctetAndSecurityHeaderType),
       (M_V, AuthenticationResultMessageIdentity), (M_V, SpareHalfOctetAndNgksi), (M_LV, EAPMessage)],
     opts = [(O_TLV, 0x38, ABBA)]\<rparr>"

subsection \<open>ConfigurationUpdateCommand\<close>

definition EncodeConfigurationUpdateCommand :: "wstmt list" where
  "EncodeConfigurationUpdateCommand =
    [Write (W_Octet ExtendedProtocolDiscriminator),
     Write (W_Octet SpareHalfOctetAndSecurityHeaderType),
     Write (W_Octet ConfigurationUpdateCommandMessageIdentity),
     If_set ConfigurationUpdateIndication [W_Octet ConfigurationUpdateIndication],
     If_set GUTI5G [W_Iei GUTI5G, W_Len GUTI5G, W_OctetTo GUTI5G],
     If_set TAIList [W_Iei TAIList, W_Len TAIList, W_Buffer TAIList],
     If_set AllowedNSSAI [W_Iei AllowedNSSAI, W_Len AllowedNSSAI, W_Buffer AllowedNSSAI],
     If_set ServiceAreaList [W_Iei ServiceAreaList, W_Len ServiceAreaList, W_Buffer ServiceAreaList],
     If_set FullNameForNetwork [W_Iei FullNameForNetwork, W_Len FullNameForNetwork, W_Buffer FullNameForNetwork],
     If_set ShortNameForNetwork [W_Iei ShortNameForNetwork, W_Len ShortNameForNetwork, W_Buffer ShortNameForNetwork],
     If_set LocalTimeZone [W_Iei LocalTimeZone, W_Octet LocalTimeZone],
     If_set UniversalTimeAndLocalTimeZone [W_Iei UniversalTimeAndLocalTimeZone, W_Octet UniversalTimeAndLocalTimeZone],
     If_set NetworkDaylightSavingTime [W_Iei NetworkDaylightSavingTime, W_Len NetworkDaylightSavingTime, W_Octet NetworkDaylightSavingTime],
     If_set LADNInformation [W_Iei LADNInformation, W_Len LADNInformation, W_Buffer LADNInformation],
     If_set MICOIndication [W_Octet MICOIndication],
     If_set NetworkSlicingIndication [W_Octet NetworkSlicingIndication],
     If_set ConfiguredNSSAI [W_Iei ConfiguredNSSAI, W_Len ConfiguredNSSAI, W_Buffer ConfiguredNSSAI],
     If_set RejectedNSSAI [W_Iei RejectedNSSAI, W_Len RejectedNSSAI, W_Buffer RejectedNSSAI],
     If_set OperatordefinedAccessCategoryDefinitions [W_Iei OperatordefinedAccessCategoryDefinitions, W_Len OperatordefinedAccessCategoryDefinitions, W_Buffer OperatordefinedAccessCategoryDefinitions],
     If_set SMSIndication [W_Octet SMSIndication]]"

definition DecodeConfigurationUpdateCommand :: "rcmd list" where
  "DecodeConfigurationUpdateCommand =
    [R_Octet ExtendedProtocolDiscriminator, R_Octet SpareHalfOctetAndSecurityHeaderType,
     R_Octet ConfigurationUpdateCommandMessageIdentity]"

definition ConfigurationUpdateCommand_cases :: "(u8 \<times> nas_type \<times> rcmd list) list" where
  "ConfigurationUpdateCommand_cases =
    [(0x0D, ConfigurationUpdateIndication, [R_OctetIei ConfigurationUpdateIndication]),
     (0x77, GUTI5G, [R_Len GUTI5G, R_SetLen GUTI5G, R_OctetTo GUTI5G]),
     (0x54, TAIList, [R_Len TAIList, R_SetLen TAIList, R_BufferTo TAIList]),
     (0x15, AllowedNSSAI, [R_Len AllowedNSSAI, R_SetLen AllowedNSSAI, R_BufferTo AllowedNSSAI]),
     (0x27, ServiceAreaList, [R_Len ServiceAreaList, R_SetLen ServiceAreaList, R_BufferTo ServiceAreaList]),
     (0x43, FullNameForNetwork, [R_Len FullNameForNetwork, R_SetLen FullNameForNetwork, R_BufferTo FullNameForNetwork]),
     (0x45, ShortNameForNetwork, [R_Len ShortNameForNetwork, R_SetLen ShortNameForNetwork, R_BufferTo ShortNameForNetwork]),
     (0x46, LocalTimeZone, [R_Octet LocalTimeZone]),
     (0x47, UniversalTimeAndLocalTimeZone, [R_Octet UniversalTimeAndLocalTimeZone]),
     (0x49, NetworkDaylightSavingTime, [R_Len NetworkDaylightSavingTime, R_SetLen NetworkDaylightSavingTime, R_Octet NetworkDaylightSavingTime]),
     (0x79, LADNInformation, [R_Len LADNInformation, R_SetLen LADNInformation, R_BufferTo LADNInformation]),
     (0x0B, MICOIndication, [R_OctetIei MICOIndication]),
     (0x09, NetworkSlicingIndication, [R_OctetIei NetworkSlicingIndication]),
     (0x31, ConfiguredNSSAI, [R_Len ConfiguredNSSAI, R_SetLen ConfiguredNSSAI, R_BufferTo ConfiguredNSSAI]),
     (0x11, RejectedNSSAI, [R_Len RejectedNSSAI, R_SetLen RejectedNSSAI, R_BufferTo RejectedNSSAI]),
     (0x76, OperatordefinedAccessCategoryDefinitions, [R_Len OperatordefinedAccessCategoryDefinitions, R_SetLen OperatordefinedAccessCategoryDefinitions, R_BufferTo OperatordefinedAccessCategoryDefinitions]),
     (0x0F, SMSIndication, [R_OctetIei SMSIndication])]"

definition ConfigurationUpdateCommand :: nas_schema where
  "ConfigurationUpdateCommand = \<lparr>embedded = [ExtendedProtocolDiscriminator, SpareHalfOctetAndSecurityHeaderType, ConfigurationUpdateCommandMessageIdentity],
     enc = EncodeConfigurationUpdateCommand, dec = DecodeConfigurationUpdateCommand, opt_cases = ConfigurationUpdateCommand_cases\<rparr>"

definition ConfigurationUpdateCommand_layout :: layout where
  "ConfigurationUpdateCommand_layout = \<lparr>mand = [(M_V, ExtendedProtocolDiscriminator), (M_V, SpareHalfOctetAndSecurityHeaderType),
       (M_V, ConfigurationUpdateCommandMessageIdentity)],
     opts = [(O_T1, 0x0D, ConfigurationUpdateIndication), (O_TLP, 0x77, GUTI5G), (O_TLV, 0x54, TAIList),
       (O_TLV, 0x15, AllowedNSSAI), (O_TLV, 0x27, ServiceAreaList), (O_TLV, 0x43, FullNameForNetwork),
       (O_TLV, 0x45, ShortNameForNetwork), (O_TV, 0x46, LocalTimeZone), (O_TV, 0x47, UniversalTimeAndLocalTimeZone),
       (O_TLO, 0x49, NetworkDaylightSavingTime), (O_TLV, 0x79, LADNInformation), (O_T1, 0x0B, MICOIndication),
       (O_T1, 0x09, NetworkSlicingIndication), (O_TLV, 0x31, ConfiguredNSSAI), (O_TLV, 0x11, RejectedNSSAI),
       (O_TLV, 0x76, OperatordefinedAccessCategoryDefinitions), (O_T1, 0x0F, SMSIndication)]\<rparr>"

subsection \<open>ConfigurationUpdateComplete\<close>

definition EncodeConfigurationUpdateComplete :: "wstmt list" where
  "EncodeConfigurationUpdateComplete =
    [Write (W_Octet ExtendedProtocolDiscriminator),
     Write (W_Octet SpareHalfOctetAndSecurityHeaderType),
     Write (W_Octet ConfigurationUpdateCompleteMessageIdentity)]"

definition DecodeConfigurationUpdateComplete :: "rcmd list" where
  "DecodeConfigurationUpdateComplete =
    [R_Octet ExtendedProtocolDiscriminator, R_Octet SpareHalfOctetAndSecurityHeaderType,
     R_Octet ConfigurationUpdateCompleteMessageIdentity]"

definition ConfigurationUpdateComplete_cases :: "(u8 \<times> nas_type \<times> rcmd list) list" where
  "ConfigurationUpdateComplete_cases =
    []"

definition ConfigurationUpdateComplete :: nas_schema where
  "ConfigurationUpdateComplete = \<lparr>embedded = [ExtendedProtocolDiscriminator, SpareHalfOctetAndSecurityHeaderType, ConfigurationUpdateCompleteMessageIdentity],
     enc = EncodeConfigurationUpdateComplete, dec = DecodeConfigurationUpdateComplete, opt_cases = ConfigurationUpdateComplete_cases\<rparr>"

definition ConfigurationUpdateComplete_layout :: layout where
  "ConfigurationUpdateComplete_layout = \<lparr>mand = [(M_V, ExtendedProtocolDiscriminator), (M_V, SpareHalfOctetAndSecurityHeaderType),
       (M_V, ConfigurationUpdateCompleteMessageIdentity)],
     opts = []\<rparr>"

subsection \<open>DLNASTransport\<close>

definition EncodeDLNASTransport :: "wstmt list" where
  "EncodeDLNASTransport =
    [Write (W_Octet ExtendedProtocolDiscriminator),
     Write (W_Octet SpareHalfOctetAndSecurityHeaderType),
     Write (W_Octet DLNASTRANSPORTMessageIdentity),
     Write (W_Octet SpareHalfOctetAndPayloadContainerType),
     Write (W_Len PayloadContainer),
     Write (W_Buffer PayloadContainer),
     If_set PduSessionID2Value [W_Iei PduSessionID2Value, W_Octet PduSessionID2Value],
     If_set AdditionalInformation [W_Iei AdditionalInformation, W_Len AdditionalInformation, W_Buffer AdditionalInformation],
     If_set Cause5GMM [W_Iei Cause5GMM, W_Octet Cause5GMM],
     If_set BackoffTimerValue [W_Iei BackoffTimerValue, W_Len BackoffTimerValue, W_Octet BackoffTimerValue]]"

definition DecodeDLNASTransport :: "rcmd list" where
  "DecodeDLNASTransport =
    [R_Octet ExtendedProtocolDiscriminator, R_Octet SpareHalfOctetAndSecurityHeaderType,
     R_Octet DLNASTRANSPORTMessageIdentity, R_Octet SpareHalfOctetAndPayloadContainerType, R_Len PayloadContainer,
     R_SetLen PayloadContainer, R_Buffer PayloadContainer]"

definition DLNASTransport_cases :: "(u8 \<times> nas_type \<times> rcmd list) list" where
  "DLNASTransport_cases =
    [(0x12, PduSessionID2Value, [R_Octet PduSessionID2Value]),
     (0x24, AdditionalInformation, [R_Len AdditionalInformation, R_SetLen AdditionalInformation, R_BufferTo AdditionalInformation]),
     (0x58, Cause5GMM, [R_Octet Cause5GMM]),
     (0x37, BackoffTimerValue, [R_Len BackoffTimerValue, R_SetLen BackoffTimerValue, R_Octet BackoffTimerValue])]"

definition DLNASTransport :: nas_schema where
  "DLNASTransport = \<lparr>embedded = [ExtendedProtocolDiscriminator, SpareHalfOctetAndSecurityHeaderType, DLNASTRANSPORTMessageIdentity,
       SpareHalfOctetAndPayloadContainerType, PayloadContainer],
     enc = EncodeDLNASTransport, dec = DecodeDLNASTransport, opt_cases = DLNASTransport_cases\<rparr>"

definition DLNASTransport_layout :: layout where
  "DLNASTransport_layout = \<lparr>mand = [(M_V, ExtendedProtocolDiscriminator), (M_V, SpareHalfOctetAndSecurityHeaderType),
       (M_V, DLNASTRANSPORTMessageIdentity), (M_V, SpareHalfOctetAndPayloadContainerType), (M_LV, PayloadContainer)],
     opts = [(O_TV, 0x12, PduSessionID2Value), (O_TLV, 0x24, AdditionalInformation), (O_TV, 0x58, Cause5GMM),
       (O_TLO, 0x37, BackoffTimerValue)]\<rparr>"

subsection \<open>DeregistrationAcceptUEOriginatingDeregistration\<close>

definition EncodeDeregistrationAcceptUEOriginatingDeregistration :: "wstmt list" where
  "EncodeDeregistrationAcceptUEOriginatingDeregistration =
    [Write (W_Octet ExtendedProtocolDiscriminator),
     Write (W_Octet SpareHalfOctetAndSecurityHeaderType),
     Write (W_Octet DeregistrationAcceptMessageIdentity)]"

definition DecodeDeregistrationAcceptUEOriginatingDeregistration :: "rcmd list" where
  "DecodeDeregistrationAcceptUEOriginatingDeregistration =
    [R_Octet ExtendedProtocolDiscriminator, R_Octet SpareHalfOctetAndSecurityHeaderType,
     R_Octet DeregistrationAcceptMessageIdentity]"

definition DeregistrationAcceptUEOriginatingDeregistration_cases :: "(u8 \<times> nas_type \<times> rcmd list) list" where
  "DeregistrationAcceptUEOriginatingDeregistration_cases =
    []"

definition DeregistrationAcceptUEOriginatingDeregistration :: nas_schema where
  "DeregistrationAcceptUEOriginatingDeregistration = \<lparr>embedded = [ExtendedProtocolDiscriminator, SpareHalfOctetAndSecurityHeaderType, DeregistrationAcceptMessageIdentity],
     enc = EncodeDeregistrationAcceptUEOriginatingDeregistration, dec = DecodeDeregistrationAcceptUEOriginatingDeregistration, opt_cases = DeregistrationAcceptUEOriginatingDeregistration_cases\<rparr>"

definition DeregistrationAcceptUEOriginatingDeregistration_layout :: layout where
  "DeregistrationAcceptUEOriginatingDeregistration_layout = \<lparr>mand = [(M_V, ExtendedProtocolDiscriminator), (M_V, SpareHalfOctetAndSecurityHeaderType),
       (M_V, DeregistrationAcceptMessageIdentity)],
     opts = []\<rparr>"

subsection \<open>DeregistrationAcceptUETerminatedDeregistration\<close>

definition EncodeDeregistrationAcceptUETerminatedDeregistration :: "wstmt list" where
  "EncodeDeregistrationAcceptUETerminatedDeregistration =
    [Write (W_Octet ExtendedProtocolDiscriminator),
     Write (W_Octet SpareHalfOctetAndSecurityHeaderType),
     Write (W_Octet DeregistrationAcceptMessageIdentity)]"

definition DecodeDeregistrationAcceptUETerminatedDeregistration :: "rcmd list" where
  "DecodeDeregistrationAcceptUETerminatedDeregistration =
    [R_Octet ExtendedProtocolDiscriminator, R_Octet SpareHalfOctetAndSecurityHeaderType,
     R_Octet DeregistrationAcceptMessageIdentity]"

definition DeregistrationAcceptUETerminatedDeregistration_cases :: "(u8 \<times> nas_type \<times> rcmd list) list" where
  "DeregistrationAcceptUETerminatedDeregistration_cases =
    []"

definition DeregistrationAcceptUETerminatedDeregistration :: nas_schema where
  "DeregistrationAcceptUETerminatedDeregistration = \<lparr>embedded = [ExtendedProtocolDiscriminator, SpareHalfOctetAndSecurityHeaderType, DeregistrationAcceptMessageIdentity],
     enc = EncodeDeregistrationAcceptUETerminatedDeregistration, dec = DecodeDeregistrationAcceptUETerminatedDeregistration, opt_cases = DeregistrationAcceptUETerminatedDeregistration_cases\<rparr>"

definition DeregistrationAcceptUETerminatedDeregistration_layout :: layout where
  "DeregistrationAcceptUETerminatedDeregistration_layout = \<lparr>mand = [(M_V, ExtendedProtocolDiscriminator), (M_V, SpareHalfOctetAndSecurityHeaderType),
       (M_V, DeregistrationAcceptMessageIdentity)],
     opts = []\<rparr>"

subsection \<open>DeregistrationRequestUEOriginatingDeregistration\<close>

definition EncodeDeregistrationRequestUEOriginatingDeregistration :: "wstmt list" where
  "EncodeDeregistrationRequestUEOriginatingDeregistration =
    [Write (W_Octet ExtendedProtocolDiscriminator),
     Write (W_Octet SpareHalfOctetAndSecurityHeaderType),
     Write (W_Octet DeregistrationRequestMessageIdentity),
     Write (W_Octet NgksiAndDeregistrationType),
     Write (W_Len MobileIdentity5GS),
     Write (W_Buffer MobileIdentity5GS)]"

definition DecodeDeregistrationRequestUEOriginatingDeregistration :: "rcmd list" where
  "DecodeDeregistrationRequestUEOriginatingDeregistration =
    [R_Octet ExtendedProtocolDiscriminator, R_Octet SpareHalfOctetAndSecurityHeaderType,
     R_Octet DeregistrationRequestMessageIdentity, R_Octet NgksiAndDeregistrationType, R_Len MobileIdentity5GS,
     R_SetLen MobileIdentity5GS, R_Buffer MobileIdentity5GS]"

definition DeregistrationRequestUEOriginatingDeregistration_cases :: "(u8 \<times> nas_type \<times> rcmd list) list" where
  "DeregistrationRequestUEOriginatingDeregistration_cases =
    []"

definition DeregistrationRequestUEOriginatingDeregistration :: nas_schema where
  "DeregistrationRequestUEOriginatingDeregistration = \<lparr>embedded = [ExtendedProtocolDiscriminator, SpareHalfOctetAndSecurityHeaderType, DeregistrationRequestMessageIdentity,
       NgksiAndDeregistrationType, MobileIdentity5GS],
     enc = EncodeDeregistrationRequestUEOriginatingDeregistration, dec = DecodeDeregistrationRequestUEOriginatingDeregistration, opt_cases = DeregistrationRequestUEOriginatingDeregistration_cases\<rparr>"

definition DeregistrationRequestUEOriginatingDeregistration_layout :: layout where
  "DeregistrationRequestUEOriginatingDeregistration_layout = \<lparr>mand = [(M_V, ExtendedProtocolDiscriminator), (M_V, SpareHalfOctetAndSecurityHeaderType),
       (M_V, DeregistrationRequestMessageIdentity), (M_V, NgksiAndDeregistrationType), (M_LV, MobileIdentity5GS)],
     opts = []\<rparr>"

subsection \<open>DeregistrationRequestUETerminatedDeregistration\<close>

definition EncodeDeregistrationRequestUETerminatedDeregistration :: "wstmt list" where
  "EncodeDeregistrationRequestUETerminatedDeregistration =
    [Write (W_Octet ExtendedProtocolDiscriminator),
     Write (W_Octet SpareHalfOctetAndSecurityHeaderType),
     Write (W_Octet DeregistrationRequestMessageIdentity),
     Write (W_Octet SpareHalfOctetAndDeregistrationType),
     If_set Cause5GMM [W_Iei Cause5GMM, W_Octet Cause5GMM],
     If_set T3346Value [W_Iei T3346Value, W_Len T3346Value, W_Octet T3346Value]]"

definition DecodeDeregistrationRequestUETerminatedDeregistration :: "rcmd list" where
  "DecodeDeregistrationRequestUETerminatedDeregistration =
    [R_Octet ExtendedProtocolDiscriminator, R_Octet SpareHalfOctetAndSecurityHeaderType,
     R_Octet DeregistrationRequestMessageIdentity, R_Octet SpareHalfOctetAndDeregistrationType]"

definition DeregistrationRequestUETerminatedDeregistration_cases :: "(u8 \<times> nas_type \<times> rcmd list) list" where
  "DeregistrationRequestUETerminatedDeregistration_cases =
    [(0x58, Cause5GMM, [R_Octet Cause5GMM]),
     (0x5F, T3346Value, [R_Len T3346Value, R_SetLen T3346Value, R_Octet T3346Value])]"

definition DeregistrationRequestUETerminatedDeregistration :: nas_schema where
  "DeregistrationRequestUETerminatedDeregistration = \<lparr>embedded = [ExtendedProtocolDiscriminator, SpareHalfOctetAndSecurityHeaderType, DeregistrationRequestMessageIdentity,
       SpareHalfOctetAndDeregistrationType],
     enc = EncodeDeregistrationRequestUETerminatedDeregistration, dec = DecodeDeregistrationRequestUETerminatedDeregistration, opt_cases = DeregistrationRequestUETerminatedDeregistration_cases\<rparr>"

definition DeregistrationRequestUETerminatedDeregistration_layout :: layout where
  "DeregistrationRequestUETerminatedDeregistration_layout = \<lparr>mand = [(M_V, ExtendedProtocolDiscriminator), (M_V, SpareHalfOctetAndSecurityHeaderType),
       (M_V, DeregistrationRequestMessageIdentity), (M_V, SpareHalfOctetAndDeregistrationType)],
     opts = [(O_TV, 0x58, Cause5GMM), (O_TLO, 0x5F, T3346Value)]\<rparr>"

subsection \<open>IdentityRequest\<close>

definition EncodeIdentityRequest :: "wstmt list" where
  "EncodeIdentityRequest =
    [Write (W_Octet ExtendedProtocolDiscriminator),
     Write (W_Octet SpareHalfOctetAndSecurityHeaderType),
     Write (W_Octet IdentityRequestMessageIdentity),
     Write (W_Octet SpareHalfOctetAndIdentityType)]"

definition DecodeIdentityRequest :: "rcmd list" where
  "DecodeIdentityRequest =
    [R_Octet ExtendedProtocolDiscriminator, R_Octet SpareHalfOctetAndSecurityHeaderType,
     R_Octet IdentityRequestMessageIdentity, R_Octet SpareHalfOctetAndIdentityType]"

definition IdentityRequest_cases :: "(u8 \<times> nas_type \<times> rcmd list) list" where
  "IdentityRequest_cases =
    []"

definition IdentityRequest :: nas_schema where
  "IdentityRequest = \<lparr>embedded = [ExtendedProtocolDiscriminator, SpareHalfOctetAndSecurityHeaderType, IdentityRequestMessageIdentity,
       SpareHalfOctetAndIdentityType],
     enc = EncodeIdentityRequest, dec = DecodeIdentityRequest, opt_cases = IdentityRequest_cases\<rparr>"

definition IdentityRequest_layout :: layout where
  "IdentityRequest_layout = \<lparr>mand = [(M_V, ExtendedProtocolDiscriminator), (M_V, SpareHalfOctetAndSecurityHeaderType),
       (M_V, IdentityRequestMessageIdentity), (M_V, SpareHalfOctetAndIdentityType)],
     opts = []\<rparr>"

subsection \<open>IdentityResponse\<close>

definition EncodeIdentityResponse :: "wstmt list" where
  "EncodeIdentityResponse =
    [Write (W_Octet ExtendedProtocolDiscriminator),
     Write (W_Octet SpareHalfOctetAndSecurityHeaderType),
     Write (W_Octet IdentityResponseMessageIdentity),
     Write (W_Len MobileIdentity),
     Write (W_Buffer MobileIdentity)]"

definition DecodeIdentityResponse :: "rcmd list" where
  "DecodeIdentityResponse =
    [R_Octet ExtendedProtocolDiscriminator, R_Octet SpareHalfOctetAndSecurityHeaderType,
     R_Octet IdentityResponseMessageIdentity, R_Len MobileIdentity, R_SetLen MobileIdentity,
     R_Buffer MobileIdentity]"

definition IdentityResponse_cases :: "(u8 \<times> nas_type \<times> rcmd list) list" where
  "IdentityResponse_cases =
    []"

definition IdentityResponse :: nas_schema where
  "IdentityResponse = \<lparr>embedded = [ExtendedProtocolDiscriminator, SpareHalfOctetAndSecurityHeaderType, IdentityResponseMessageIdentity,
       MobileIdentity],
     enc = EncodeIdentityResponse, dec = DecodeIdentityResponse, opt_cases = IdentityResponse_cases\<rparr>"

definition IdentityResponse_layout :: layout where
  "IdentityResponse_layout = \<lparr>mand = [(M_V, ExtendedProtocolDiscriminator), (M_V, SpareHalfOctetAndSecurityHeaderType),
       (M_V, IdentityResponseMessageIdentity), (M_LV, MobileIdentity)],
     opts = []\<rparr>"

subsection \<open>Notification\<close>

definition EncodeNotification :: "wstmt list" where
  "EncodeNotification =
    [Write (W_Octet ExtendedProtocolDiscriminator),
     Write (W_Octet SpareHalfOctetAndSecurityHeaderType),
     Write (W_Octet NotificationMessageIdentity),
     Write (W_Octet SpareHalfOctetAndAccessType)]"

definition DecodeNotification :: "rcmd list" where
  "DecodeNotification =
    [R_Octet ExtendedProtocolDiscriminator, R_Octet SpareHalfOctetAndSecurityHeaderType,
     R_Octet NotificationMessageIdentity, R_Octet SpareHalfOctetAndAccessType]"

definition Notification_cases :: "(u8 \<times> nas_type \<times> rcmd list) list" where
  "Notification_cases =
    []"

definition Notification :: nas_schema where
  "Notification = \<lparr>embedded = [ExtendedProtocolDiscriminator, SpareHalfOctetAndSecurityHeaderType, NotificationMessageIdentity,
       SpareHalfOctetAndAccessType],
     enc = EncodeNotification, dec = DecodeNotification, opt_cases = Notification_cases\<rparr>"

definition Notification_layout :: layout where
  "Notification_layout = \<lparr>mand = [(M_V, ExtendedProtocolDiscriminator), (M_V, SpareHalfOctetAndSecurityHeaderType),
       (M_V, NotificationMessageIdentity), (M_V, SpareHalfOctetAndAccessType)],
     opts = []\<rparr>"

subsection \<open>NotificationResponse\<close>

definition EncodeNotificationResponse :: "wstmt list" where
  "EncodeNotificationResponse =
    [Write (W_Octet ExtendedProtocolDiscriminator),
     Write (W_Octet SpareHalfOctetAndSecurityHeaderType),
     Write (W_Octet NotificationResponseMessageIdentity),
     If_set PDUSessionStatus [W_Iei PDUSessionStatus, W_Len PDUSessionStatus, W_Buffer PDUSessionStatus]]"

definition DecodeNotificationResponse :: "rcmd list" where
  "DecodeNotificationResponse =
    [R_Octet ExtendedProtocolDiscriminator, R_Octet SpareHalfOctetAndSecurityHeaderType,
     R_Octet NotificationResponseMessageIdentity]"

definition NotificationResponse_cases :: "(u8 \<times> nas_type \<times> rcmd list) list" where
  "NotificationResponse_cases =
    [(0x50, PDUSessionStatus, [R_Len PDUSessionStatus, R_SetLen PDUSessionStatus, R_BufferTo PDUSessionStatus])]"

definition NotificationResponse :: nas_schema where
  "NotificationResponse = \<lparr>embedded = [ExtendedProtocolDiscriminator, SpareHalfOctetAndSecurityHeaderType, NotificationResponseMessageIdentity],
     enc = EncodeNotificationResponse, dec = DecodeNotificationResponse, opt_cases = NotificationResponse_cases\<rparr>"

definition NotificationResponse_layout :: layout where
  "NotificationResponse_layout = \<lparr>mand = [(M_V, ExtendedProtocolDiscriminator), (M_V, SpareHalfOctetAndSecurityHeaderType),
       (M_V, NotificationResponseMessageIdentity)],
     opts = [(O_TLV, 0x50, PDUSessionStatus)]\<rparr>"

subsection \<open>PDUSessionAuthenticationCommand\<close>

definition EncodePDUSessionAuthenticationCommand :: "wstmt list" where
  "EncodePDUSessionAuthenticationCommand =
    [Write (W_Octet ExtendedProtocolDiscriminator),
     Write (W_Octet PDUSessionID),
     Write (W_Octet PTI),
     Write (W_Octet PDUSESSIONAUTHENTICATIONCOMMANDMessageIdentity),
     Write (W_Len EAPMessage),
     Write (W_Buffer EAPMessage),
     If_set ExtendedProtocolConfigurationOptions [W_Iei ExtendedProtocolConfigurationOptions, W_Len ExtendedProtocolConfigurationOptions, W_Buffer ExtendedProtocolConfigurationOptions]]"

definition DecodePDUSessionAuthenticationCommand :: "rcmd list" where
  "DecodePDUSessionAuthenticationCommand =
    [R_Octet ExtendedProtocolDiscriminator, R_Octet PDUSessionID, R_Octet PTI,
     R_Octet PDUSESSIONAUTHENTICATIONCOMMANDMessageIdentity, R_Len EAPMessage, R_SetLen EAPMessage,
     R_Buffer EAPMessage]"

definition PDUSessionAuthenticationCommand_cases :: "(u8 \<times> nas_type \<times> rcmd list) list" where
  "PDUSessionAuthenticationCommand_cases =
    [(0x7B, ExtendedProtocolConfigurationOptions, [R_Len ExtendedProtocolConfigurationOptions, R_SetLen ExtendedProtocolConfigurationOptions, R_BufferTo ExtendedProtocolConfigurationOptions])]"

definition PDUSessionAuthenticationCommand :: nas_schema where
  "PDUSessionAuthenticationCommand = \<lparr>embedded = [ExtendedProtocolDiscriminator, PDUSessionID, PTI, PDUSESSIONAUTHENTICATIONCOMMANDMessageIdentity, EAPMessage],
     enc = EncodePDUSessionAuthenticationCommand, dec = DecodePDUSessionAuthenticationCommand, opt_cases = PDUSessionAuthenticationCommand_cases\<rparr>"

definition PDUSessionAuthenticationCommand_layout :: layout where
  "PDUSessionAuthenticationCommand_layout = \<lparr>mand = [(M_V, ExtendedProtocolDiscriminator), (M_V, PDUSessionID), (M_V, PTI),
       (M_V, PDUSESSIONAUTHENTICATIONCOMMANDMessageIdentity), (M_LV, EAPMessage)],
     opts = [(O_TLV, 0x7B, ExtendedProtocolConfigurationOptions)]\<rparr>"

subsection \<open>PDUSessionAuthenticationComplete\<close>

definition EncodePDUSessionAuthenticationComplete :: "wstmt list" where
  "EncodePDUSessionAuthenticationComplete =
    [Write (W_Octet ExtendedProtocolDiscriminator),
     Write (W_Octet PDUSessionID),
     Write (W_Octet PTI),
     Write (W_Octet PDUSESSIONAUTHENTICATIONCOMPLETEMessageIdentity),
     Write (W_Len EAPMessage),
     Write (W_Buffer EAPMessage),
     If_set ExtendedProtocolConfigurationOptions [W_Iei ExtendedProtocolConfigurationOptions, W_Len ExtendedProtocolConfigurationOptions, W_Buffer ExtendedProtocolConfigurationOptions]]"

definition DecodePDUSessionAuthenticationComplete :: "rcmd list" where
  "DecodePDUSessionAuthenticationComplete =
    [R_Octet ExtendedProtocolDiscriminator, R_Octet PDUSessionID, R_Octet PTI,
     R_Octet PDUSESSIONAUTHENTICATIONCOMPLETEMessageIdentity, R_Len EAPMessage, R_SetLen EAPMessage,
     R_Buffer EAPMessage]"

definition PDUSessionAuthenticationComplete_cases :: "(u8 \<times> nas_type \<times> rcmd list) list" where
  "PDUSessionAuthenticationComplete_cases =
    [(0x7B, ExtendedProtocolConfigurationOptions, [R_Len ExtendedProtocolConfigurationOptions, R_SetLen ExtendedProtocolConfigurationOptions, R_BufferTo ExtendedProtocolConfigurationOptions])]"

definition PDUSessionAuthenticationComplete :: nas_schema where
  "PDUSessionAuthenticationComplete = \<lparr>embedded = [ExtendedProtocolDiscriminator, PDUSessionID, PTI, PDUSESSIONAUTHENTICATIONCOMPLETEMessageIdentity, EAPMessage],
     enc = EncodePDUSessionAuthenticationComplete, dec = DecodePDUSessionAuthenticationComplete, opt_cases = PDUSessionAuthenticationComplete_cases\<rparr>"

definition PDUSessionAuthenticationComplete_layout :: layout where
  "PDUSessionAuthenticationComplete_layout = \<lparr>mand = [(M_V, ExtendedProtocolDiscriminator), (M_V, PDUSessionID), (M_V, PTI),
       (M_V, PDUSESSIONAUTHENTICATIONCOMPLETEMessageIdentity), (M_LV, EAPMessage)],
     opts = [(O_TLV, 0x7B, ExtendedProtocolConfigurationOptions)]\<rparr>"

subsection \<open>PDUSessionAuthenticationResult\<close>

definition EncodePDUSessionAuthenticationResult :: "wstmt list" where
  "EncodePDUSessionAuthenticationResult =
    [Write (W_Octet ExtendedProtocolDiscriminator),
     Write (W_Octet PDUSessionID),
     Write (W_Octet PTI),
     Write (W_Octet PDUSESSIONAUTHENTICATIONRESULTMessageIdentity),
     If_set EAPMessage [W_Iei EAPMessage, W_Len EAPMessage, W_Buffer EAPMessage],
     If_set ExtendedProtocolConfigurationOptions [W_Iei ExtendedProtocolConfigurationOptions, W_Len ExtendedProtocolConfigurationOptions, W_Buffer ExtendedProtocolConfigurationOptions]]"

definition DecodePDUSessionAuthenticationResult :: "rcmd list" where
  "DecodePDUSessionAuthenticationResult =
    [R_Octet ExtendedProtocolDiscriminator, R_Octet PDUSessionID, R_Octet PTI,
     R_Octet PDUSESSIONAUTHENTICATIONRESULTMessageIdentity]"

definition PDUSessionAuthenticationResult_cases :: "(u8 \<times> nas_type \<times> rcmd list) list" where
  "PDUSessionAuthenticationResult_cases =
    [(0x78, EAPMessage, [R_Len EAPMessage, R_SetLen EAPMessage, R_BufferTo EAPMessage]),
     (0x7B, ExtendedProtocolConfigurationOptions, [R_Len ExtendedProtocolConfigurationOptions, R_SetLen ExtendedProtocolConfigurationOptions, R_BufferTo ExtendedProtocolConfigurationOptions])]"

definition PDUSessionAuthenticationResult :: nas_schema where
  "PDUSessionAuthenticationResult = \<lparr>embedded = [ExtendedProtocolDiscriminator, PDUSessionID, PTI, PDUSESSIONAUTHENTICATIONRESULTMessageIdentity],
     enc = EncodePDUSessionAuthenticationResult, dec = DecodePDUSessionAuthenticationResult, opt_cases = PDUSessionAuthenticationResult_cases\<rparr>"

definition PDUSessionAuthenticationResult_layout :: layout where
  "PDUSessionAuthenticationResult_layout = \<lparr>mand = [(M_V, ExtendedProtocolDiscriminator), (M_V, PDUSessionID), (M_V, PTI),
       (M_V, PDUSESSIONAUTHENTICATIONRESULTMessageIdentity)],
     opts = [(O_TLV, 0x78, EAPMessage), (O_TLV, 0x7B, ExtendedProtocolConfigurationOptions)]\<rparr>"

subsection \<open>PDUSessionEstablishmentAccept\<close>

definition EncodePDUSessionEstablishmentAccept :: "wstmt list" where
  "EncodePDUSessionEstablishmentAccept =
    [Write (W_Octet ExtendedProtocolDiscriminator),
     Write (W_Octet PDUSessionID),
     Write (W_Octet PTI),
     Write (W_Octet PDUSESSIONESTABLISHMENTACCEPTMessageIdentity),
     Write (W_Octet SelectedSSCModeAndSelectedPDUSessionType),
     Write (W_Len AuthorizedQosRules),
     Write (W_Buffer AuthorizedQosRules),
     Write (W_Len SessionAMBR),
     Write (W_Octet SessionAMBR),
     If_set Cause5GSM [W_Iei Cause5GSM, W_Octet Cause5GSM],
     If_set PDUAddress [W_Iei PDUAddress, W_Len PDUAddress, W_OctetTo PDUAddress],
     If_set RQTimerValue [W_Iei RQTimerValue, W_Octet RQTimerValue],
     If_set SNSSAI [W_Iei SNSSAI, W_Len SNSSAI, W_OctetTo SNSSAI],
     If_set AlwaysonPDUSessionIndication [W_Octet AlwaysonPDUSessionIndication],
     If_set MappedEPSBearerContexts [W_Iei MappedEPSBearerContexts, W_Len MappedEPSBearerContexts, W_Buffer MappedEPSBearerContexts],
     If_set EAPMessage [W_Iei EAPMessage, W_Len EAPMessage, W_Buffer EAPMessage],
     If_set AuthorizedQosFlowDescriptions [W_Iei AuthorizedQosFlowDescriptions, W_Len AuthorizedQosFlowDescriptions, W_Buffer AuthorizedQosFlowDescriptions],
     If_set ExtendedProtocolConfigurationOptions [W_Iei ExtendedProtocolConfigurationOptions, W_Len ExtendedProtocolConfigurationOptions, W_Buffer ExtendedProtocolConfigurationOptions],
     If_set DNN [W_Iei DNN, W_Len DNN, W_Buffer DNN]]"

definition DecodePDUSessionEstablishmentAccept :: "rcmd list" where
  "DecodePDUSessionEstablishmentAccept =
    [R_Octet ExtendedProtocolDiscriminator, R_Octet PDUSessionID, R_Octet PTI,
     R_Octet PDUSESSIONESTABLISHMENTACCEPTMessageIdentity, R_Octet SelectedSSCModeAndSelectedPDUSessionType,
     R_Len AuthorizedQosRules, R_SetLen AuthorizedQosRules, R_Buffer AuthorizedQosRules, R_Len SessionAMBR,
     R_SetLen SessionAMBR, R_Octet SessionAMBR]"

definition PDUSessionEstablishmentAccept_cases :: "(u8 \<times> nas_type \<times> rcmd list) list" where
  "PDUSessionEstablishmentAccept_cases =
    [(0x59, Cause5GSM, [R_Octet Cause5GSM]),
     (0x29, PDUAddress, [R_Len PDUAddress, R_SetLen PDUAddress, R_OctetTo PDUAddress]),
     (0x56, RQTimerValue, [R_Octet RQTimerValue]),
     (0x22, SNSSAI, [R_Len SNSSAI, R_SetLen SNSSAI, R_OctetTo SNSSAI]),
     (0x08, AlwaysonPDUSessionIndication, [R_OctetIei AlwaysonPDUSessionIndication]),
     (0x75, MappedEPSBearerContexts, [R_Len MappedEPSBearerContexts, R_SetLen MappedEPSBearerContexts, R_BufferTo MappedEPSBearerContexts]),
     (0x78, EAPMessage, [R_Len EAPMessage, R_SetLen EAPMessage, R_BufferTo EAPMessage]),
     (0x79, AuthorizedQosFlowDescriptions, [R_Len AuthorizedQosFlowDescriptions, R_SetLen AuthorizedQosFlowDescriptions, R_BufferTo AuthorizedQosFlowDescriptions]),
     (0x7B, ExtendedProtocolConfigurationOptions, [R_Len ExtendedProtocolConfigurationOptions, R_SetLen ExtendedProtocolConfigurationOptions, R_BufferTo ExtendedProtocolConfigurationOptions]),
     (0x25, DNN, [R_Len DNN, R_SetLen DNN, R_BufferTo DNN])]"

definition PDUSessionEstablishmentAccept :: nas_schema where
  "PDUSessionEstablishmentAccept = \<lparr>embedded = [ExtendedProtocolDiscriminator, PDUSessionID, PTI, PDUSESSIONESTABLISHMENTACCEPTMessageIdentity,
       SelectedSSCModeAndSelectedPDUSessionType, AuthorizedQosRules, SessionAMBR],
     enc = EncodePDUSessionEstablishmentAccept, dec = DecodePDUSessionEstablishmentAccept, opt_cases = PDUSessionEstablishmentAccept_cases\<rparr>"

definition PDUSessionEstablishmentAccept_layout :: layout where
  "PDUSessionEstablishmentAccept_layout = \<lparr>mand = [(M_V, ExtendedProtocolDiscriminator), (M_V, PDUSessionID), (M_V, PTI),
       (M_V, PDUSESSIONESTABLISHMENTACCEPTMessageIdentity), (M_V, SelectedSSCModeAndSelectedPDUSessionType),
       (M_LV, AuthorizedQosRules), (M_LO, SessionAMBR)],
     opts = [(O_TV, 0x59, Cause5GSM), (O_TLP, 0x29, PDUAddress), (O_TV, 0x56, RQTimerValue), (O_TLP, 0x22, SNSSAI),
       (O_T1, 0x08, AlwaysonPDUSessionIndication), (O_TLV, 0x75, MappedEPSBearerContexts),
       (O_TLV, 0x78, EAPMessage), (O_TLV, 0x79, AuthorizedQosFlowDescriptions),
       (O_TLV, 0x7B, ExtendedProtocolConfigurationOptions), (O_TLV, 0x25, DNN)]\<rparr>"

subsection \<open>PDUSessionEstablishmentReject\<close>

definition EncodePDUSessionEstablishmentReject :: "wstmt list" where
  "EncodePDUSessionEstablishmentReject =
    [Write (W_Octet ExtendedProtocolDiscriminator),
     Write (W_Octet PDUSessionID),
     Write (W_Octet PTI),
     Write (W_Octet PDUSESSIONESTABLISHMENTREJECTMessageIdentity),
     Write (W_Octet Cause5GSM),
     If_set BackoffTimerValue [W_Iei BackoffTimerValue, W_Len BackoffTimerValue, W_Octet BackoffTimerValue],
     If_set AllowedSSCMode [W_Octet AllowedSSCMode],
     If_set EAPMessage [W_Iei EAPMessage, W_Len EAPMessage, W_Buffer EAPMessage],
     If_set ExtendedProtocolConfigurationOptions [W_Iei ExtendedProtocolConfigurationOptions, W_Len ExtendedProtocolConfigurationOptions, W_Buffer ExtendedProtocolConfigurationOptions]]"

definition DecodePDUSessionEstablishmentReject :: "rcmd list" where
  "DecodePDUSessionEstablishmentReject =
    [R_Octet ExtendedProtocolDiscriminator, R_Octet PDUSessionID, R_Octet PTI,
     R_Octet PDUSESSIONESTABLISHMENTREJECTMessageIdentity, R_Octet Cause5GSM]"

definition PDUSessionEstablishmentReject_cases :: "(u8 \<times> nas_type \<times> rcmd list) list" where
  "PDUSessionEstablishmentReject_cases =
    [(0x37, BackoffTimerValue, [R_Len BackoffTimerValue, R_SetLen BackoffTimerValue, R_Octet BackoffTimerValue]),
     (0x0F, AllowedSSCMode, [R_OctetIei AllowedSSCMode]),
     (0x78, EAPMessage, [R_Len EAPMessage, R_SetLen EAPMessage, R_BufferTo EAPMessage]),
     (0x7B, ExtendedProtocolConfigurationOptions, [R_Len ExtendedProtocolConfigurationOptions, R_SetLen ExtendedProtocolConfigurationOptions, R_BufferTo ExtendedProtocolConfigurationOptions])]"

definition PDUSessionEstablishmentReject :: nas_schema where
  "PDUSessionEstablishmentReject = \<lparr>embedded = [ExtendedProtocolDiscriminator, PDUSessionID, PTI, PDUSESSIONESTABLISHMENTREJECTMessageIdentity, Cause5GSM],
     enc = EncodePDUSessionEstablishmentReject, dec = DecodePDUSessionEstablishmentReject, opt_cases = PDUSessionEstablishmentReject_cases\<rparr>"

definition PDUSessionEstablishmentReject_layout :: layout where
  "PDUSessionEstablishmentReject_layout = \<lparr>mand = [(M_V, ExtendedProtocolDiscriminator), (M_V, PDUSessionID), (M_V, PTI),
       (M_V, PDUSESSIONESTABLISHMENTREJECTMessageIdentity), (M_V, Cause5GSM)],
     opts = [(O_TLO, 0x37, BackoffTimerValue), (O_T1, 0x0F, AllowedSSCMode), (O_TLV, 0x78, EAPMessage),
       (O_TLV, 0x7B, ExtendedProtocolConfigurationOptions)]\<rparr>"

subsection \<open>PDUSessionEstablishmentRequest\<close>

definition EncodePDUSessionEstablishmentRequest :: "wstmt list" where
  "EncodePDUSessionEstablishmentRequest =
    [Write (W_Octet ExtendedProtocolDiscriminator),
     Write (W_Octet PDUSessionID),
     Write (W_Octet PTI),
     Write (W_Octet PDUSESSIONESTABLISHMENTREQUESTMessageIdentity),
     Write (W_Octet IntegrityProtectionMaximumDataRate),
     If_set PDUSessionType [W_Octet PDUSessionType],
     If_set SSCMode [W_Octet SSCMode],
     If_set Capability5GSM [W_Iei Capability5GSM, W_Len Capability5GSM, W_OctetTo Capability5GSM],
     If_set MaximumNumberOfSupportedPacketFilters [W_Iei MaximumNumberOfSupportedPacketFilters, W_Octet MaximumNumberOfSupportedPacketFilters],
     If_set AlwaysonPDUSessionRequested [W_Octet AlwaysonPDUSessionRequested],
     If_set SMPDUDNRequestContainer [W_Iei SMPDUDNRequestContainer, W_Len SMPDUDNRequestContainer, W_Buffer SMPDUDNRequestContainer],
     If_set ExtendedProtocolConfigurationOptions [W_Iei ExtendedProtocolConfigurationOptions, W_Len ExtendedProtocolConfigurationOptions, W_Buffer ExtendedProtocolConfigurationOptions]]"

definition DecodePDUSessionEstablishmentRequest :: "rcmd list" where
  "DecodePDUSessionEstablishmentRequest =
    [R_Octet ExtendedProtocolDiscriminator, R_Octet PDUSessionID, R_Octet PTI,
     R_Octet PDUSESSIONESTABLISHMENTREQUESTMessageIdentity, R_Octet IntegrityProtectionMaximumDataRate]"

definition PDUSessionEstablishmentRequest_cases :: "(u8 \<times> nas_type \<times> rcmd list) list" where
  "PDUSessionEstablishmentRequest_cases =
    [(0x09, PDUSessionType, [R_OctetIei PDUSessionType]),
     (0x0A, SSCMode, [R_OctetIei SSCMode]),
     (0x28, Capability5GSM, [R_Len Capability5GSM, R_SetLen Capability5GSM, R_OctetTo Capability5GSM]),
     (0x55, MaximumNumberOfSupportedPacketFilters, [R_Octet MaximumNumberOfSupportedPacketFilters]),
     (0x0B, AlwaysonPDUSessionRequested, [R_OctetIei AlwaysonPDUSessionRequested]),
     (0x39, SMPDUDNRequestContainer, [R_Len SMPDUDNRequestContainer, R_SetLen SMPDUDNRequestContainer, R_BufferTo SMPDUDNRequestContainer]),
     (0x7B, ExtendedProtocolConfigurationOptions, [R_Len ExtendedProtocolConfigurationOptions, R_SetLen ExtendedProtocolConfigurationOptions, R_BufferTo ExtendedProtocolConfigurationOptions])]"

definition PDUSessionEstablishmentRequest :: nas_schema where
  "PDUSessionEstablishmentRequest = \<lparr>embedded = [ExtendedProtocolDiscriminator, PDUSessionID, PTI, PDUSESSIONESTABLISHMENTREQUESTMessageIdentity,
       IntegrityProtectionMaximumDataRate],
     enc = EncodePDUSessionEstablishmentRequest, dec = DecodePDUSessionEstablishmentRequest, opt_cases = PDUSessionEstablishmentRequest_cases\<rparr>"

definition PDUSessionEstablishmentRequest_layout :: layout where
  "PDUSessionEstablishmentRequest_layout = \<lparr>mand = [(M_V, ExtendedProtocolDiscriminator), (M_V, PDUSessionID), (M_V, PTI),
       (M_V, PDUSESSIONESTABLISHMENTREQUESTMessageIdentity), (M_V, IntegrityProtectionMaximumDataRate)],
     opts = [(O_T1, 0x09, PDUSessionType), (O_T1, 0x0A, SSCMode), (O_TLP, 0x28, Capability5GSM),
       (O_TV, 0x55, MaximumNumberOfSupportedPacketFilters), (O_T1, 0x0B, AlwaysonPDUSessionRequested),
       (O_TLV, 0x39, SMPDUDNRequestContainer), (O_TLV, 0x7B, ExtendedProtocolConfigurationOptions)]\<rparr>"

subsection \<open>PDUSessionModificationCommand\<close>

definition EncodePDUSessionModificationCommand :: "wstmt list" where
  "EncodePDUSessionModificationCommand =
    [Write (W_Octet ExtendedProtocolDiscriminator),
     Write (W_Octet PDUSessionID),
     Write (W_Octet PTI),
     Write (W_Octet PDUSESSIONMODIFICATIONCOMMANDMessageIdentity),
     If_set Cause5GSM [W_Iei Cause5GSM, W_Octet Cause5GSM],
     If_set SessionAMBR [W_Iei SessionAMBR, W_Len SessionAMBR, W_OctetTo SessionAMBR],
     If_set RQTimerValue [W_Iei RQTimerValue, W_Octet RQTimerValue],
     If_set AlwaysonPDUSessionIndication [W_Octet AlwaysonPDUSessionIndication],
     If_set AuthorizedQosRules [W_Iei AuthorizedQosRules, W_Len AuthorizedQosRules, W_Buffer AuthorizedQosRules],
     If_set MappedEPSBearerContexts [W_Iei MappedEPSBearerContexts, W_Len MappedEPSBearerContexts, W_Buffer MappedEPSBearerContexts],
     If_set AuthorizedQosFlowDescriptions [W_Iei AuthorizedQosFlowDescriptions, W_Len AuthorizedQosFlowDescriptions, W_Buffer AuthorizedQosFlowDescriptions],
     If_set ExtendedProtocolConfigurationOptions [W_Iei ExtendedProtocolConfigurationOptions, W_Len ExtendedProtocolConfigurationOptions, W_Buffer ExtendedProtocolConfigurationOptions]]"

definition DecodePDUSessionModificationCommand :: "rcmd list" where
  "DecodePDUSessionModificationCommand =
    [R_Octet ExtendedProtocolDiscriminator, R_Octet PDUSessionID, R_Octet PTI,
     R_Octet PDUSESSIONMODIFICATIONCOMMANDMessageIdentity]"

definition PDUSessionModificationCommand_cases :: "(u8 \<times> nas_type \<times> rcmd list) list" where
  "PDUSessionModificationCommand_cases =
    [(0x59, Cause5GSM, [R_Octet Cause5GSM]),
     (0x2A, SessionAMBR, [R_Len SessionAMBR, R_SetLen SessionAMBR, R_OctetTo SessionAMBR]),
     (0x56, RQTimerValue, [R_Octet RQTimerValue]),
     (0x08, AlwaysonPDUSessionIndication, [R_OctetIei AlwaysonPDUSessionIndication]),
     (0x7A, AuthorizedQosRules, [R_Len AuthorizedQosRules, R_SetLen AuthorizedQosRules, R_BufferTo AuthorizedQosRules]),
     (0x7F, MappedEPSBearerContexts, [R_Len MappedEPSBearerContexts, R_SetLen MappedEPSBearerContexts, R_BufferTo MappedEPSBearerContexts]),
     (0x79, AuthorizedQosFlowDescriptions, [R_Len AuthorizedQosFlowDescriptions, R_SetLen AuthorizedQosFlowDescriptions, R_BufferTo AuthorizedQosFlowDescriptions]),
     (0x7B, ExtendedProtocolConfigurationOptions, [R_Len ExtendedProtocolConfigurationOptions, R_SetLen ExtendedProtocolConfigurationOptions, R_BufferTo ExtendedProtocolConfigurationOptions])]"

definition PDUSessionModificationCommand :: nas_schema where
  "PDUSessionModificationCommand = \<lparr>embedded = [ExtendedProtocolDiscriminator, PDUSessionID, PTI, PDUSESSIONMODIFICATIONCOMMANDMessageIdentity],
     enc = EncodePDUSessionModificationCommand, dec = DecodePDUSessionModificationCommand, opt_cases = PDUSessionModificationCommand_cases\<rparr>"

definition PDUSessionModificationCommand_layout :: layout where
  "PDUSessionModificationCommand_layout = \<lparr>mand = [(M_V, ExtendedProtocolDiscriminator), (M_V, PDUSessionID), (M_V, PTI),
       (M_V, PDUSESSIONMODIFICATIONCOMMANDMessageIdentity)],
     opts = [(O_TV, 0x59, Cause5GSM), (O_TLP, 0x2A, SessionAMBR), (O_TV, 0x56, RQTimerValue),
       (O_T1, 0x08, AlwaysonPDUSessionIndication), (O_TLV, 0x7A, AuthorizedQosRules),
       (O_TLV, 0x7F, MappedEPSBearerContexts), (O_TLV, 0x79, AuthorizedQosFlowDescriptions),
       (O_TLV, 0x7B, ExtendedProtocolConfigurationOptions)]\<rparr>"

subsection \<open>PDUSessionModificationCommandReject\<close>

definition EncodePDUSessionModificationCommandReject :: "wstmt list" where
  "EncodePDUSessionModificationCommandReject =
    [Write (W_Octet ExtendedProtocolDiscriminator),
     Write (W_Octet PDUSessionID),
     Write (W_Octet PTI),
     Write (W_Octet PDUSESSIONMODIFICATIONCOMMANDREJECTMessageIdentity),
     Write (W_Octet Cause5GSM),
     If_set ExtendedProtocolConfigurationOptions [W_Iei ExtendedProtocolConfigurationOptions, W_Len ExtendedProtocolConfigurationOptions, W_Buffer ExtendedProtocolConfigurationOptions]]"

definition DecodePDUSessionModificationCommandReject :: "rcmd list" where
  "DecodePDUSessionModificationCommandReject =
    [R_Octet ExtendedProtocolDiscriminator, R_Octet PDUSessionID, R_Octet PTI,
     R_Octet PDUSESSIONMODIFICATIONCOMMANDREJECTMessageIdentity, R_Octet Cause5GSM]"

definition PDUSessionModificationCommandReject_cases :: "(u8 \<times> nas_type \<times> rcmd list) list" where
  "PDUSessionModificationCommandReject_cases =
    [(0x7B, ExtendedProtocolConfigurationOptions, [R_Len ExtendedProtocolConfigurationOptions, R_SetLen ExtendedProtocolConfigurationOptions, R_BufferTo ExtendedProtocolConfigurationOptions])]"

definition PDUSessionModificationCommandReject :: nas_schema where
  "PDUSessionModificationCommandReject = \<lparr>embedded = [ExtendedProtocolDiscriminator, PDUSessionID, PTI, PDUSESSIONMODIFICATIONCOMMANDREJECTMessageIdentity,
       Cause5GSM],
     enc = EncodePDUSessionModificationCommandReject, dec = DecodePDUSessionModificationCommandReject, opt_cases = PDUSessionModificationCommandReject_cases\<rparr>"

definition PDUSessionModificationCommandReject_layout :: layout where
  "PDUSessionModificationCommandReject_layout = \<lparr>mand = [(M_V, ExtendedProtocolDiscriminator), (M_V, PDUSessionID), (M_V, PTI),
       (M_V, PDUSESSIONMODIFICATIONCOMMANDREJECTMessageIdentity), (M_V, Cause5GSM)],
     opts = [(O_TLV, 0x7B, ExtendedProtocolConfigurationOptions)]\<rparr>"

subsection \<open>PDUSessionModificationComplete\<close>

definition EncodePDUSessionModificationComplete :: "wstmt list" where
  "EncodePDUSessionModificationComplete =
    [Write (W_Octet ExtendedProtocolDiscriminator),
     Write (W_Octet PDUSessionID),
     Write (W_Octet PTI),
     Write (W_Octet PDUSESSIONMODIFICATIONCOMPLETEMessageIdentity),
     If_set ExtendedProtocolConfigurationOptions [W_Iei ExtendedProtocolConfigurationOptions, W_Len ExtendedProtocolConfigurationOptions, W_Buffer ExtendedProtocolConfigurationOptions]]"

definition DecodePDUSessionModificationComplete :: "rcmd list" where
  "DecodePDUSessionModificationComplete =
    [R_Octet ExtendedProtocolDiscriminator, R_Octet PDUSessionID, R_Octet PTI,
     R_Octet PDUSESSIONMODIFICATIONCOMPLETEMessageIdentity]"

definition PDUSessionModificationComplete_cases :: "(u8 \<times> nas_type \<times> rcmd list) list" where
  "PDUSessionModificationComplete_cases =
    [(0x7B, ExtendedProtocolConfigurationOptions, [R_Len ExtendedProtocolConfigurationOptions, R_SetLen ExtendedProtocolConfigurationOptions, R_BufferTo ExtendedProtocolConfigurationOptions])]"

definition PDUSessionModificationComplete :: nas_schema where
  "PDUSessionModificationComplete = \<lparr>embedded = [ExtendedProtocolDiscriminator, PDUSessionID, PTI, PDUSESSIONMODIFICATIONCOMPLETEMessageIdentity],
     enc = EncodePDUSessionModificationComplete, dec = DecodePDUSessionModificationComplete, opt_cases = PDUSessionModificationComplete_cases\<rparr>"

definition PDUSessionModificationComplete_layout :: layout where
  "PDUSessionModificationComplete_layout = \<lparr>mand = [(M_V, ExtendedProtocolDiscriminator), (M_V, PDUSessionID), (M_V, PTI),
       (M_V, PDUSESSIONMODIFICATIONCOMPLETEMessageIdentity)],
     opts = [(O_TLV, 0x7B, ExtendedProtocolConfigurationOptions)]\<rparr>"

subsection \<open>PDUSessionModificationReject\<close>

definition EncodePDUSessionModificationReject :: "wstmt list" where
  "EncodePDUSessionModificationReject =
    [Write (W_Octet ExtendedProtocolDiscriminator),
     Write (W_Octet PDUSessionID),
     Write (W_Octet PTI),
     Write (W_Octet PDUSESSIONMODIFICATIONREJECTMessageIdentity),
     Write (W_Octet Cause5GSM),
     If_set BackoffTimerValue [W_Iei BackoffTimerValue, W_Len BackoffTimerValue, W_Octet BackoffTimerValue],
     If_set ExtendedProtocolConfigurationOptions [W_Iei ExtendedProtocolConfigurationOptions, W_Len ExtendedProtocolConfigurationOptions, W_Buffer ExtendedProtocolConfigurationOptions]]"

definition DecodePDUSessionModificationReject :: "rcmd list" where
  "DecodePDUSessionModificationReject =
    [R_Octet ExtendedProtocolDiscriminator, R_Octet PDUSessionID, R_Octet PTI,
     R_Octet PDUSESSIONMODIFICATIONREJECTMessageIdentity, R_Octet Cause5GSM]"

definition PDUSessionModificationReject_cases :: "(u8 \<times> nas_type \<times> rcmd list) list" where
  "PDUSessionModificationReject_cases =
    [(0x37, BackoffTimerValue, [R_Len BackoffTimerValue, R_SetLen BackoffTimerValue, R_Octet BackoffTimerValue]),
     (0x7B, ExtendedProtocolConfigurationOptions, [R_Len ExtendedProtocolConfigurationOptions, R_SetLen ExtendedProtocolConfigurationOptions, R_BufferTo ExtendedProtocolConfigurationOptions])]"

definition PDUSessionModificationReject :: nas_schema where
  "PDUSessionModificationReject = \<lparr>embedded = [ExtendedProtocolDiscriminator, PDUSessionID, PTI, PDUSESSIONMODIFICATIONREJECTMessageIdentity, Cause5GSM],
     enc = EncodePDUSessionModificationReject, dec = DecodePDUSessionModificationReject, opt_cases = PDUSessionModificationReject_cases\<rparr>"

definition PDUSessionModificationReject_layout :: layout where
  "PDUSessionModificationReject_layout = \<lparr>mand = [(M_V, ExtendedProtocolDiscriminator), (M_V, PDUSessionID), (M_V, PTI),
       (M_V, PDUSESSIONMODIFICATIONREJECTMessageIdentity), (M_V, Cause5GSM)],
     opts = [(O_TLO, 0x37, BackoffTimerValue), (O_TLV, 0x7B, ExtendedProtocolConfigurationOptions)]\<rparr>"

subsection \<open>PDUSessionModificationRequest\<close>

definition EncodePDUSessionModificationRequest :: "wstmt list" where
  "EncodePDUSessionModificationRequest =
    [Write (W_Octet ExtendedProtocolDiscriminator),
     Write (W_Octet PDUSessionID),
     Write (W_Octet PTI),
     Write (W_Octet PDUSESSIONMODIFICATIONREQUESTMessageIdentity),
     If_set Capability5GSM [W_Iei Capability5GSM, W_Len Capability5GSM, W_OctetTo Capability5GSM],
     If_set Cause5GSM [W_Iei Cause5GSM, W_Octet Cause5GSM],
     If_set MaximumNumberOfSupportedPacketFilters [W_Iei MaximumNumberOfSupportedPacketFilters, W_Octet MaximumNumberOfSupportedPacketFilters],
     If_set AlwaysonPDUSessionRequested [W_Octet AlwaysonPDUSessionRequested],
     If_set IntegrityProtectionMaximumDataRate [W_Iei IntegrityProtectionMaximumDataRate, W_Octet IntegrityProtectionMaximumDataRate],
     If_set RequestedQosRules [W_Iei RequestedQosRules, W_Len RequestedQosRules, W_Buffer RequestedQosRules],
     If_set RequestedQosFlowDescriptions [W_Iei RequestedQosFlowDescriptions, W_Len RequestedQosFlowDescriptions, W_Buffer RequestedQosFlowDescriptions],
     If_set MappedEPSBearerContexts [W_Iei MappedEPSBearerContexts, W_Len MappedEPSBearerContexts, W_Buffer MappedEPSBearerContexts],
     If_set ExtendedProtocolConfigurationOptions [W_Iei ExtendedProtocolConfigurationOptions, W_Len ExtendedProtocolConfigurationOptions, W_Buffer ExtendedProtocolConfigurationOptions]]"

definition DecodePDUSessionModificationRequest :: "rcmd list" where
  "DecodePDUSessionModificationRequest =
    [R_Octet ExtendedProtocolDiscriminator, R_Octet PDUSessionID, R_Octet PTI,
     R_Octet PDUSESSIONMODIFICATIONREQUESTMessageIdentity]"

definition PDUSessionModificationRequest_cases :: "(u8 \<times> nas_type \<times> rcmd list) list" where
  "PDUSessionModificationRequest_cases =
    [(0x28, Capability5GSM, [R_Len Capability5GSM, R_SetLen Capability5GSM, R_OctetTo Capability5GSM]),
     (0x59, Cause5GSM, [R_Octet Cause5GSM]),
     (0x55, MaximumNumberOfSupportedPacketFilters, [R_Octet MaximumNumberOfSupportedPacketFilters]),
     (0x0B, AlwaysonPDUSessionRequested, [R_OctetIei AlwaysonPDUSessionRequested]),
     (0x13, IntegrityProtectionMaximumDataRate, [R_Octet IntegrityProtectionMaximumDataRate]),
     (0x7A, RequestedQosRules, [R_Len RequestedQosRules, R_SetLen RequestedQosRules, R_BufferTo RequestedQosRules]),
     (0x79, RequestedQosFlowDescriptions, [R_Len RequestedQosFlowDescriptions, R_SetLen RequestedQosFlowDescriptions, R_BufferTo RequestedQosFlowDescriptions]),
     (0x7F, MappedEPSBearerContexts, [R_Len MappedEPSBearerContexts, R_SetLen MappedEPSBearerContexts, R_BufferTo MappedEPSBearerContexts]),
     (0x7B, ExtendedProtocolConfigurationOptions, [R_Len ExtendedProtocolConfigurationOptions, R_SetLen ExtendedProtocolConfigurationOptions, R_BufferTo ExtendedProtocolConfigurationOptions])]"

definition PDUSessionModificationRequest :: nas_schema where
  "PDUSessionModificationRequest = \<lparr>embedded = [ExtendedProtocolDiscriminator, PDUSessionID, PTI, PDUSESSIONMODIFICATIONREQUESTMessageIdentity],
     enc = EncodePDUSessionModificationRequest, dec = DecodePDUSessionModificationRequest, opt_cases = PDUSessionModificationRequest_cases\<rparr>"

definition PDUSessionModificationRequest_layout :: layout where
  "PDUSessionModificationRequest_layout = \<lparr>mand = [(M_V, ExtendedProtocolDiscriminator), (M_V, PDUSessionID), (M_V, PTI),
       (M_V, PDUSESSIONMODIFICATIONREQUESTMessageIdentity)],
     opts = [(O_TLP, 0x28, Capability5GSM), (O_TV, 0x59, Cause5GSM), (O_TV, 0x55, MaximumNumberOfSupportedPacketFilters),
       (O_T1, 0x0B, AlwaysonPDUSessionRequested), (O_TV, 0x13, IntegrityProtectionMaximumDataRate),
       (O_TLV, 0x7A, RequestedQosRules), (O_TLV, 0x79, RequestedQosFlowDescriptions),
       (O_TLV, 0x7F, MappedEPSBearerContexts), (O_TLV, 0x7B, ExtendedProtocolConfigurationOptions)]\<rparr>"

subsection \<open>PDUSessionReleaseCommand\<close>

definition EncodePDUSessionReleaseCommand :: "wstmt list" where
  "EncodePDUSessionReleaseCommand =
    [Write (W_Octet ExtendedProtocolDiscriminator),
     Write (W_Octet PDUSessionID),
     Write (W_Octet PTI),
     Write (W_Octet PDUSESSIONRELEASECOMMANDMessageIdentity),
     Write (W_Octet Cause5GSM),
     If_set BackoffTimerValue [W_Iei BackoffTimerValue, W_Len BackoffTimerValue, W_Octet BackoffTimerValue],
     If_set EAPMessage [W_Iei EAPMessage, W_Len EAPMessage, W_Buffer EAPMessage],
     If_set ExtendedProtocolConfigurationOptions [W_Iei ExtendedProtocolConfigurationOptions, W_Len ExtendedProtocolConfigurationOptions, W_Buffer ExtendedProtocolConfigurationOptions]]"

definition DecodePDUSessionReleaseCommand :: "rcmd list" where
  "DecodePDUSessionReleaseCommand =
    [R_Octet ExtendedProtocolDiscriminator, R_Octet PDUSessionID, R_Octet PTI,
     R_Octet PDUSESSIONRELEASECOMMANDMessageIdentity, R_Octet Cause5GSM]"

definition PDUSessionReleaseCommand_cases :: "(u8 \<times> nas_type \<times> rcmd list) list" where
  "PDUSessionReleaseCommand_cases =
    [(0x37, BackoffTimerValue, [R_Len BackoffTimerValue, R_SetLen BackoffTimerValue, R_Octet BackoffTimerValue]),
     (0x78, EAPMessage, [R_Len EAPMessage, R_SetLen EAPMessage, R_BufferTo EAPMessage]),
     (0x7B, ExtendedProtocolConfigurationOptions, [R_Len ExtendedProtocolConfigurationOptions, R_SetLen ExtendedProtocolConfigurationOptions, R_BufferTo ExtendedProtocolConfigurationOptions])]"

definition PDUSessionReleaseCommand :: nas_schema where
  "PDUSessionReleaseCommand = \<lparr>embedded = [ExtendedProtocolDiscriminator, PDUSessionID, PTI, PDUSESSIONRELEASECOMMANDMessageIdentity, Cause5GSM],
     enc = EncodePDUSessionReleaseCommand, dec = DecodePDUSessionReleaseCommand, opt_cases = PDUSessionReleaseCommand_cases\<rparr>"

definition PDUSessionReleaseCommand_layout :: layout where
  "PDUSessionReleaseCommand_layout = \<lparr>mand = [(M_V, ExtendedProtocolDiscriminator), (M_V, PDUSessionID), (M_V, PTI),
       (M_V, PDUSESSIONRELEASECOMMANDMessageIdentity), (M_V, Cause5GSM)],
     opts = [(O_TLO, 0x37, BackoffTimerValue), (O_TLV, 0x78, EAPMessage),
       (O_TLV, 0x7B, ExtendedProtocolConfigurationOptions)]\<rparr>"

subsection \<open>PDUSessionReleaseComplete\<close>

definition EncodePDUSessionReleaseComplete :: "wstmt list" where
  "EncodePDUSessionReleaseComplete =
    [Write (W_Octet ExtendedProtocolDiscriminator),
     Write (W_Octet PDUSessionID),
     Write (W_Octet PTI),
     Write (W_Octet PDUSESSIONRELEASECOMPLETEMessageIdentity),
     If_set Cause5GSM [W_Iei Cause5GSM, W_Octet Cause5GSM],
     If_set ExtendedProtocolConfigurationOptions [W_Iei ExtendedProtocolConfigurationOptions, W_Len ExtendedProtocolConfigurationOptions, W_Buffer ExtendedProtocolConfigurationOptions]]"

definition DecodePDUSessionReleaseComplete :: "rcmd list" where
  "DecodePDUSessionReleaseComplete =
    [R_Octet ExtendedProtocolDiscriminator, R_Octet PDUSessionID, R_Octet PTI,
     R_Octet PDUSESSIONRELEASECOMPLETEMessageIdentity]"

definition PDUSessionReleaseComplete_cases :: "(u8 \<times> nas_type \<times> rcmd list) list" where
  "PDUSessionReleaseComplete_cases =
    [(0x59, Cause5GSM, [R_Octet Cause5GSM]),
     (0x7B, ExtendedProtocolConfigurationOptions, [R_Len ExtendedProtocolConfigurationOptions, R_SetLen ExtendedProtocolConfigurationOptions, R_BufferTo ExtendedProtocolConfigurationOptions])]"

definition PDUSessionReleaseComplete :: nas_schema where
  "PDUSessionReleaseComplete = \<lparr>embedded = [ExtendedProtocolDiscriminator, PDUSessionID, PTI, PDUSESSIONRELEASECOMPLETEMessageIdentity],
     enc = EncodePDUSessionReleaseComplete, dec = DecodePDUSessionReleaseComplete, opt_cases = PDUSessionReleaseComplete_cases\<rparr>"

definition PDUSessionReleaseComplete_layout :: layout where
  "PDUSessionReleaseComplete_layout = \<lparr>mand = [(M_V, ExtendedProtocolDiscriminator), (M_V, PDUSessionID), (M_V, PTI),
       (M_V, PDUSESSIONRELEASECOMPLETEMessageIdentity)],
     opts = [(O_TV, 0x59, Cause5GSM), (O_TLV, 0x7B, ExtendedProtocolConfigurationOptions)]\<rparr>"

subsection \<open>PDUSessionReleaseReject\<close>

definition EncodePDUSessionReleaseReject :: "wstmt list" where
  "EncodePDUSessionReleaseReject =
    [Write (W_Octet ExtendedProtocolDiscriminator),
     Write (W_Octet PDUSessionID),
     Write (W_Octet PTI),
     Write (W_Octet PDUSESSIONRELEASEREJECTMessageIdentity),
     Write (W_Octet Cause5GSM),
     If_set ExtendedProtocolConfigurationOptions [W_Iei ExtendedProtocolConfigurationOptions, W_Len ExtendedProtocolConfigurationOptions, W_Buffer ExtendedProtocolConfigurationOptions]]"

definition DecodePDUSessionReleaseReject :: "rcmd list" where
  "DecodePDUSessionReleaseReject =
    [R_Octet ExtendedProtocolDiscriminator, R_Octet PDUSessionID, R_Octet PTI,
     R_Octet PDUSESSIONRELEASEREJECTMessageIdentity, R_Octet Cause5GSM]"

definition PDUSessionReleaseReject_cases :: "(u8 \<times> nas_type \<times> rcmd list) list" where
  "PDUSessionReleaseReject_cases =
    [(0x7B, ExtendedProtocolConfigurationOptions, [R_Len ExtendedProtocolConfigurationOptions, R_SetLen ExtendedProtocolConfigurationOptions, R_BufferTo ExtendedProtocolConfigurationOptions])]"

definition PDUSessionReleaseReject :: nas_schema where
  "PDUSessionReleaseReject = \<lparr>embedded = [ExtendedProtocolDiscriminator, PDUSessionID, PTI, PDUSESSIONRELEASEREJECTMessageIdentity, Cause5GSM],
     enc = EncodePDUSessionReleaseReject, dec = DecodePDUSessionReleaseReject, opt_cases = PDUSessionReleaseReject_cases\<rparr>"

definition PDUSessionReleaseReject_layout :: layout where
  "PDUSessionReleaseReject_layout = \<lparr>mand = [(M_V, ExtendedProtocolDiscriminator), (M_V, PDUSessionID), (M_V, PTI),
       (M_V, PDUSESSIONRELEASEREJECTMessageIdentity), (M_V, Cause5GSM)],
     opts = [(O_TLV, 0x7B, ExtendedProtocolConfigurationOptions)]\<rparr>"

subsection \<open>PDUSessionReleaseRequest\<close>

definition EncodePDUSessionReleaseRequest :: "wstmt list" where
  "EncodePDUSessionReleaseRequest =
    [Write (W_Octet ExtendedProtocolDiscriminator),
     Write (W_Octet PDUSessionID),
     Write (W_Octet PTI),
     Write (W_Octet PDUSESSIONRELEASEREQUESTMessageIdentity),
     If_set Cause5GSM [W_Iei Cause5GSM, W_Octet Cause5GSM],
     If_set ExtendedProtocolConfigurationOptions [W_Iei ExtendedProtocolConfigurationOptions, W_Len ExtendedProtocolConfigurationOptions, W_Buffer ExtendedProtocolConfigurationOptions]]"

definition DecodePDUSessionReleaseRequest :: "rcmd list" where
  "DecodePDUSessionReleaseRequest =
    [R_Octet ExtendedProtocolDiscriminator, R_Octet PDUSessionID, R_Octet PTI,
     R_Octet PDUSESSIONRELEASEREQUESTMessageIdentity]"

definition PDUSessionReleaseRequest_cases :: "(u8 \<times> nas_type \<times> rcmd list) list" where
  "PDUSessionReleaseRequest_cases =
    [(0x59, Cause5GSM, [R_Octet Cause5GSM]),
     (0x7B, ExtendedProtocolConfigurationOptions, [R_Len ExtendedProtocolConfigurationOptions, R_SetLen ExtendedProtocolConfigurationOptions, R_BufferTo ExtendedProtocolConfigurationOptions])]"

definition PDUSessionReleaseRequest :: nas_schema where
  "PDUSessionReleaseRequest = \<lparr>embedded = [ExtendedProtocolDiscriminator, PDUSessionID, PTI, PDUSESSIONRELEASEREQUESTMessageIdentity],
     enc = EncodePDUSessionReleaseRequest, dec = DecodePDUSessionReleaseRequest, opt_cases = PDUSessionReleaseRequest_cases\<rparr>"

definition PDUSessionReleaseRequest_layout :: layout where
  "PDUSessionReleaseRequest_layout = \<lparr>mand = [(M_V, ExtendedProtocolDiscriminator), (M_V, PDUSessionID), (M_V, PTI),
       (M_V, PDUSESSIONRELEASEREQUESTMessageIdentity)],
     opts = [(O_TV, 0x59, Cause5GSM), (O_TLV, 0x7B, ExtendedProtocolConfigurationOptions)]\<rparr>"

subsection \<open>RegistrationAccept\<close>

definition EncodeRegistrationAccept :: "wstmt list" where
  "EncodeRegistrationAccept =
    [Write (W_Octet ExtendedProtocolDiscriminator),
     Write (W_Octet SpareHalfOctetAndSecurityHeaderType),
     Write (W_Octet RegistrationAcceptMessageIdentity),
     Write (W_Len RegistrationResult5GS),
     Write (W_Octet RegistrationResult5GS),
     If_set GUTI5G [W_Iei GUTI5G, W_Len GUTI5G, W_OctetTo GUTI5G],
     If_set EquivalentPlmns [W_Iei EquivalentPlmns, W_Len EquivalentPlmns, W_OctetTo EquivalentPlmns],
     If_set TAIList [W_Iei TAIList, W_Len TAIList, W_Buffer TAIList],
     If_set AllowedNSSAI [W_Iei AllowedNSSAI, W_Len AllowedNSSAI, W_Buffer AllowedNSSAI],
     If_set RejectedNSSAI [W_Iei RejectedNSSAI, W_Len RejectedNSSAI, W_Buffer RejectedNSSAI],
     If_set ConfiguredNSSAI [W_Iei ConfiguredNSSAI, W_Len ConfiguredNSSAI, W_Buffer ConfiguredNSSAI],
     If_set NetworkFeatureSupport5GS [W_Iei NetworkFeatureSupport5GS, W_Len NetworkFeatureSupport5GS, W_OctetTo NetworkFeatureSupport5GS],
     If_set PDUSessionStatus [W_Iei PDUSessionStatus, W_Len PDUSessionStatus, W_Buffer PDUSessionStatus],
     If_set PDUSessionReactivationResult [W_Iei PDUSessionReactivationResult, W_Len PDUSessionReactivationResult, W_Buffer PDUSessionReactivationResult],
     If_set PDUSessionReactivationResultErrorCause [W_Iei PDUSessionReactivationResultErrorCause, W_Len PDUSessionReactivationResultErrorCause, W_Buffer PDUSessionReactivationResultErrorCause],
     If_set LADNInformation [W_Iei LADNInformation, W_Len LADNInformation, W_Buffer LADNInformation],
     If_set MICOIndication [W_Octet MICOIndication],
     If_set NetworkSlicingIndication [W_Octet NetworkSlicingIndication],
     If_set ServiceAreaList [W_Iei ServiceAreaList, W_Len ServiceAreaList, W_Buffer ServiceAreaList],
     If_set T3512Value [W_Iei T3512Value, W_Len T3512Value, W_Octet T3512Value],
     If_set Non3GppDeregistrationTimerValue [W_Iei Non3GppDeregistrationTimerValue, W_Len Non3GppDeregistrationTimerValue, W_Octet Non3GppDeregistrationTimerValue],
     If_set T3502Value [W_Iei T3502Value, W_Len T3502Value, W_Octet T3502Value],
     If_set EmergencyNumberList [W_Iei EmergencyNumberList, W_Len EmergencyNumberList, W_Buffer EmergencyNumberList],
     If_set ExtendedEmergencyNumberList [W_Iei ExtendedEmergencyNumberList, W_Len ExtendedEmergencyNumberList, W_Buffer ExtendedEmergencyNumberList],
     If_set SORTransparentContainer [W_Iei SORTransparentContainer, W_Len SORTransparentContainer, W_Buffer SORTransparentContainer],
     If_set EAPMessage [W_Iei EAPMessage, W_Len EAPMessage, W_Buffer EAPMessage],
     If_set NSSAIInclusionMode [W_Octet NSSAIInclusionMode],
     If_set OperatordefinedAccessCategoryDefinitions [W_Iei OperatordefinedAccessCategoryDefinitions, W_Len OperatordefinedAccessCategoryDefinitions, W_Buffer OperatordefinedAccessCategoryDefinitions],
     If_set NegotiatedDRXParameters [W_Iei NegotiatedDRXParameters, W_Len NegotiatedDRXParameters, W_Octet NegotiatedDRXParameters]]"

definition DecodeRegistrationAccept :: "rcmd list" where
  "DecodeRegistrationAccept =
    [R_Octet ExtendedProtocolDiscriminator, R_Octet SpareHalfOctetAndSecurityHeaderType,
     R_Octet RegistrationAcceptMessageIdentity, R_Len RegistrationResult5GS, R_SetLen RegistrationResult5GS,
     R_Octet RegistrationResult5GS]"

definition RegistrationAccept_cases :: "(u8 \<times> nas_type \<times> rcmd list) list" where
  "RegistrationAccept_cases =
    [(0x77, GUTI5G, [R_Len GUTI5G, R_SetLen GUTI5G, R_OctetTo GUTI5G]),
     (0x4A, EquivalentPlmns, [R_Len EquivalentPlmns, R_SetLen EquivalentPlmns, R_OctetTo EquivalentPlmns]),
     (0x54, TAIList, [R_Len TAIList, R_SetLen TAIList, R_BufferTo TAIList]),
     (0x15, AllowedNSSAI, [R_Len AllowedNSSAI, R_SetLen AllowedNSSAI, R_BufferTo AllowedNSSAI]),
     (0x11, RejectedNSSAI, [R_Len RejectedNSSAI, R_SetLen RejectedNSSAI, R_BufferTo RejectedNSSAI]),
     (0x31, ConfiguredNSSAI, [R_Len ConfiguredNSSAI, R_SetLen ConfiguredNSSAI, R_BufferTo ConfiguredNSSAI]),
     (0x21, NetworkFeatureSupport5GS, [R_Len NetworkFeatureSupport5GS, R_SetLen NetworkFeatureSupport5GS, R_OctetTo NetworkFeatureSupport5GS]),
     (0x50, PDUSessionStatus, [R_Len PDUSessionStatus, R_SetLen PDUSessionStatus, R_BufferTo PDUSessionStatus]),
     (0x26, PDUSessionReactivationResult, [R_Len PDUSessionReactivationResult, R_SetLen PDUSessionReactivationResult, R_BufferTo PDUSessionReactivationResult]),
     (0x72, PDUSessionReactivationResultErrorCause, [R_Len PDUSessionReactivationResultErrorCause, R_SetLen PDUSessionReactivationResultErrorCause, R_BufferTo PDUSessionReactivationResultErrorCause]),
     (0x79, LADNInformation, [R_Len LADNInformation, R_SetLen LADNInformation, R_BufferTo LADNInformation]),
     (0x0B, MICOIndication, [R_OctetIei MICOIndication]),
     (0x09, NetworkSlicingIndication, [R_OctetIei NetworkSlicingIndication]),
     (0x27, ServiceAreaList, [R_Len ServiceAreaList, R_SetLen ServiceAreaList, R_BufferTo ServiceAreaList]),
     (0x5E, T3512Value, [R_Len T3512Value, R_SetLen T3512Value, R_Octet T3512Value]),
     (0x5D, Non3GppDeregistrationTimerValue, [R_Len Non3GppDeregistrationTimerValue, R_SetLen Non3GppDeregistrationTimerValue, R_Octet Non3GppDeregistrationTimerValue]),
     (0x16, T3502Value, [R_Len T3502Value, R_SetLen T3502Value, R_Octet T3502Value]),
     (0x34, EmergencyNumberList, [R_Len EmergencyNumberList, R_SetLen EmergencyNumberList, R_BufferTo EmergencyNumberList]),
     (0x7A, ExtendedEmergencyNumberList, [R_Len ExtendedEmergencyNumberList, R_SetLen ExtendedEmergencyNumberList, R_BufferTo ExtendedEmergencyNumberList]),
     (0x73, SORTransparentContainer, [R_Len SORTransparentContainer, R_SetLen SORTransparentContainer, R_BufferTo SORTransparentContainer]),
     (0x78, EAPMessage, [R_Len EAPMessage, R_SetLen EAPMessage, R_BufferTo EAPMessage]),
     (0x0A, NSSAIInclusionMode, [R_OctetIei NSSAIInclusionMode]),
     (0x76, OperatordefinedAccessCategoryDefinitions, [R_Len OperatordefinedAccessCategoryDefinitions, R_SetLen OperatordefinedAccessCategoryDefinitions, R_BufferTo OperatordefinedAccessCategoryDefinitions]),
     (0x51, NegotiatedDRXParameters, [R_Len NegotiatedDRXParameters, R_SetLen NegotiatedDRXParameters, R_Octet NegotiatedDRXParameters])]"

definition RegistrationAccept :: nas_schema where
  "RegistrationAccept = \<lparr>embedded = [ExtendedProtocolDiscriminator, SpareHalfOctetAndSecurityHeaderType, RegistrationAcceptMessageIdentity,
       RegistrationResult5GS],
     enc = EncodeRegistrationAccept, dec = DecodeRegistrationAccept, opt_cases = RegistrationAccept_cases\<rparr>"

definition RegistrationAccept_layout :: layout where
  "RegistrationAccept_layout = \<lparr>mand = [(M_V, ExtendedProtocolDiscriminator), (M_V, SpareHalfOctetAndSecurityHeaderType),
       (M_V, RegistrationAcceptMessageIdentity), (M_LO, RegistrationResult5GS)],
     opts = [(O_TLP, 0x77, GUTI5G), (O_TLP, 0x4A, EquivalentPlmns), (O_TLV, 0x54, TAIList), (O_TLV, 0x15, AllowedNSSAI),
       (O_TLV, 0x11, RejectedNSSAI), (O_TLV, 0x31, ConfiguredNSSAI), (O_TLP, 0x21, NetworkFeatureSupport5GS),
       (O_TLV, 0x50, PDUSessionStatus), (O_TLV, 0x26, PDUSessionReactivationResult),
       (O_TLV, 0x72, PDUSessionReactivationResultErrorCause), (O_TLV, 0x79, LADNInformation),
       (O_T1, 0x0B, MICOIndication), (O_T1, 0x09, NetworkSlicingIndication), (O_TLV, 0x27, ServiceAreaList),
       (O_TLO, 0x5E, T3512Value), (O_TLO, 0x5D, Non3GppDeregistrationTimerValue), (O_TLO, 0x16, T3502Value),
       (O_TLV, 0x34, EmergencyNumberList), (O_TLV, 0x7A, ExtendedEmergencyNumberList),
       (O_TLV, 0x73, SORTransparentContainer), (O_TLV, 0x78, EAPMessage), (O_T1, 0x0A, NSSAIInclusionMode),
       (O_TLV, 0x76, OperatordefinedAccessCategoryDefinitions), (O_TLO, 0x51, NegotiatedDRXParameters)]\<rparr>"

subsection \<open>RegistrationComplete\<close>

definition EncodeRegistrationComplete :: "wstmt list" where
  "EncodeRegistrationComplete =
    [Write (W_Octet ExtendedProtocolDiscriminator),
     Write (W_Octet SpareHalfOctetAndSecurityHeaderType),
     Write (W_Octet RegistrationCompleteMessageIdentity),
     If_set SORTransparentContainer [W_Iei SORTransparentContainer, W_Len SORTransparentContainer, W_Buffer SORTransparentContainer]]"

definition DecodeRegistrationComplete :: "rcmd list" where
  "DecodeRegistrationComplete =
    [R_Octet ExtendedProtocolDiscriminator, R_Octet SpareHalfOctetAndSecurityHeaderType,
     R_Octet RegistrationCompleteMessageIdentity]"

definition RegistrationComplete_cases :: "(u8 \<times> nas_type \<times> rcmd list) list" where
  "RegistrationComplete_cases =
    [(0x73, SORTransparentContainer, [R_Len SORTransparentContainer, R_SetLen SORTransparentContainer, R_BufferTo SORTransparentContainer])]"

definition RegistrationComplete :: nas_schema where
  "RegistrationComplete = \<lparr>embedded = [ExtendedProtocolDiscriminator, SpareHalfOctetAndSecurityHeaderType, RegistrationCompleteMessageIdentity],
     enc = EncodeRegistrationComplete, dec = DecodeRegistrationComplete, opt_cases = RegistrationComplete_cases\<rparr>"

definition RegistrationComplete_layout :: layout where
  "RegistrationComplete_layout = \<lparr>mand = [(M_V, ExtendedProtocolDiscriminator), (M_V, SpareHalfOctetAndSecurityHeaderType),
       (M_V, RegistrationCompleteMessageIdentity)],
     opts = [(O_TLV, 0x73, SORTransparentContainer)]\<rparr>"

subsection \<open>RegistrationReject\<close>

definition EncodeRegistrationReject :: "wstmt list" where
  "EncodeRegistrationReject =
    [Write (W_Octet ExtendedProtocolDiscriminator),
     Write (W_Octet SpareHalfOctetAndSecurityHeaderType),
     Write (W_Octet RegistrationRejectMessageIdentity),
     Write (W_Octet Cause5GMM),
     If_set T3346Value [W_Iei T3346Value, W_Len T3346Value, W_Octet T3346Value],
     If_set T3502Value [W_Iei T3502Value, W_Len T3502Value, W_Octet T3502Value],
     If_set EAPMessage [W_Iei EAPMessage, W_Len EAPMessage, W_Buffer EAPMessage]]"

definition DecodeRegistrationReject :: "rcmd list" where
  "DecodeRegistrationReject =
    [R_Octet ExtendedProtocolDiscriminator, R_Octet SpareHalfOctetAndSecurityHeaderType,
     R_Octet RegistrationRejectMessageIdentity, R_Octet Cause5GMM]"

definition RegistrationReject_cases :: "(u8 \<times> nas_type \<times> rcmd list) list" where
  "RegistrationReject_cases =
    [(0x5F, T3346Value, [R_Len T3346Value, R_SetLen T3346Value, R_Octet T3346Value]),
     (0x16, T3502Value, [R_Len T3502Value, R_SetLen T3502Value, R_Octet T3502Value]),
     (0x78, EAPMessage, [R_Len EAPMessage, R_SetLen EAPMessage, R_BufferTo EAPMessage])]"

definition RegistrationReject :: nas_schema where
  "RegistrationReject = \<lparr>embedded = [ExtendedProtocolDiscriminator, SpareHalfOctetAndSecurityHeaderType, RegistrationRejectMessageIdentity,
       Cause5GMM],
     enc = EncodeRegistrationReject, dec = DecodeRegistrationReject, opt_cases = RegistrationReject_cases\<rparr>"

definition RegistrationReject_layout :: layout where
  "RegistrationReject_layout = \<lparr>mand = [(M_V, ExtendedProtocolDiscriminator), (M_V, SpareHalfOctetAndSecurityHeaderType),
       (M_V, RegistrationRejectMessageIdentity), (M_V, Cause5GMM)],
     opts = [(O_TLO, 0x5F, T3346Value), (O_TLO, 0x16, T3502Value), (O_TLV, 0x78, EAPMessage)]\<rparr>"

subsection \<open>RegistrationRequest\<close>

definition EncodeRegistrationRequest :: "wstmt list" where
  "EncodeRegistrationRequest =
    [Write (W_Octet ExtendedProtocolDiscriminator),
     Write (W_Octet SpareHalfOctetAndSecurityHeaderType),
     Write (W_Octet RegistrationRequestMessageIdentity),
     Write (W_Octet NgksiAndRegistrationType5GS),
     Write (W_Len MobileIdentity5GS),
     Write (W_Buffer MobileIdentity5GS),
     If_set NoncurrentNativeNASKeySetIdentifier [W_Octet NoncurrentNativeNASKeySetIdentifier],
     If_set Capability5GMM [W_Iei Capability5GMM, W_Len Capability5GMM, W_OctetTo Capability5GMM],
     If_set UESecurityCapability [W_Iei UESecurityCapability, W_Len UESecurityCapability, W_Buffer UESecurityCapability],
     If_set RequestedNSSAI [W_Iei RequestedNSSAI, W_Len RequestedNSSAI, W_Buffer RequestedNSSAI],
     If_set LastVisitedRegisteredTAI [W_Iei LastVisitedRegisteredTAI, W_Octet LastVisitedRegisteredTAI],
     If_set S1UENetworkCapability [W_Iei S1UENetworkCapability, W_Len S1UENetworkCapability, W_Buffer S1UENetworkCapability],
     If_set UplinkDataStatus [W_Iei UplinkDataStatus, W_Len UplinkDataStatus, W_Buffer UplinkDataStatus],
     If_set PDUSessionStatus [W_Iei PDUSessionStatus, W_Len PDUSessionStatus, W_Buffer PDUSessionStatus],
     If_set MICOIndication [W_Octet MICOIndication],
     If_set UEStatus [W_Iei UEStatus, W_Len UEStatus, W_Octet UEStatus],
     If_set AdditionalGUTI [W_Iei AdditionalGUTI, W_Len AdditionalGUTI, W_OctetTo AdditionalGUTI],
     If_set AllowedPDUSessionStatus [W_Iei AllowedPDUSessionStatus, W_Len AllowedPDUSessionStatus, W_Buffer AllowedPDUSessionStatus],
     If_set UesUsageSetting [W_Iei UesUsageSetting, W_Len UesUsageSetting, W_Octet UesUsageSetting],
     If_set RequestedDRXParameters [W_Iei RequestedDRXParameters, W_Len RequestedDRXParameters, W_Octet RequestedDRXParameters],
     If_set EPSNASMessageContainer [W_Iei EPSNASMessageContainer, W_Len EPSNASMessageContainer, W_Buffer EPSNASMessageContainer],
     If_set LADNIndication [W_Iei LADNIndication, W_Len LADNIndication, W_Buffer LADNIndication],
     If_set PayloadContainer [W_Iei PayloadContainer, W_Len PayloadContainer, W_Buffer PayloadContainer],
     If_set NetworkSlicingIndication [W_Octet NetworkSlicingIndication],
     If_set UpdateType5GS [W_Iei UpdateType5GS, W_Len UpdateType5GS, W_Octet UpdateType5GS],
     If_set NASMessageContainer [W_Iei NASMessageContainer, W_Len NASMessageContainer, W_Buffer NASMessageContainer]]"

definition DecodeRegistrationRequest :: "rcmd list" where
  "DecodeRegistrationRequest =
    [R_Octet ExtendedProtocolDiscriminator, R_Octet SpareHalfOctetAndSecurityHeaderType,
     R_Octet RegistrationRequestMessageIdentity, R_Octet NgksiAndRegistrationType5GS, R_Len MobileIdentity5GS,
     R_SetLen MobileIdentity5GS, R_Buffer MobileIdentity5GS]"

definition RegistrationRequest_cases :: "(u8 \<times> nas_type \<times> rcmd list) list" where
  "RegistrationRequest_cases =
    [(0x0C, NoncurrentNativeNASKeySetIdentifier, [R_OctetIei NoncurrentNativeNASKeySetIdentifier]),
     (0x10, Capability5GMM, [R_Len Capability5GMM, R_SetLen Capability5GMM, R_OctetTo Capability5GMM]),
     (0x2E, UESecurityCapability, [R_Len UESecurityCapability, R_SetLen UESecurityCapability, R_BufferTo UESecurityCapability]),
     (0x2F, RequestedNSSAI, [R_Len RequestedNSSAI, R_SetLen RequestedNSSAI, R_BufferTo RequestedNSSAI]),
     (0x52, LastVisitedRegisteredTAI, [R_Octet LastVisitedRegisteredTAI]),
     (0x17, S1UENetworkCapability, [R_Len S1UENetworkCapability, R_SetLen S1UENetworkCapability, R_BufferTo S1UENetworkCapability]),
     (0x40, UplinkDataStatus, [R_Len UplinkDataStatus, R_SetLen UplinkDataStatus, R_BufferTo UplinkDataStatus]),
     (0x50, PDUSessionStatus, [R_Len PDUSessionStatus, R_SetLen PDUSessionStatus, R_BufferTo PDUSessionStatus]),
     (0x0B, MICOIndication, [R_OctetIei MICOIndication]),
     (0x2B, UEStatus, [R_Len UEStatus, R_SetLen UEStatus, R_Octet UEStatus]),
     (0x77, AdditionalGUTI, [R_Len AdditionalGUTI, R_SetLen AdditionalGUTI, R_OctetTo AdditionalGUTI]),
     (0x25, AllowedPDUSessionStatus, [R_Len AllowedPDUSessionStatus, R_SetLen AllowedPDUSessionStatus, R_BufferTo AllowedPDUSessionStatus]),
     (0x18, UesUsageSetting, [R_Len UesUsageSetting, R_SetLen UesUsageSetting, R_Octet UesUsageSetting]),
     (0x51, RequestedDRXParameters, [R_Len RequestedDRXParameters, R_SetLen RequestedDRXParameters, R_Octet RequestedDRXParameters]),
     (0x70, EPSNASMessageContainer, [R_Len EPSNASMessageContainer, R_SetLen EPSNASMessageContainer, R_BufferTo EPSNASMessageContainer]),
     (0x74, LADNIndication, [R_Len LADNIndication, R_SetLen LADNIndication, R_BufferTo LADNIndication]),
     (0x7B, PayloadContainer, [R_Len PayloadContainer, R_SetLen PayloadContainer, R_BufferTo PayloadContainer]),
     (0x09, NetworkSlicingIndication, [R_OctetIei NetworkSlicingIndication]),
     (0x53, UpdateType5GS, [R_Len UpdateType5GS, R_SetLen UpdateType5GS, R_Octet UpdateType5GS]),
     (0x71, NASMessageContainer, [R_Len NASMessageContainer, R_SetLen NASMessageContainer, R_BufferTo NASMessageContainer])]"

definition RegistrationRequest :: nas_schema where
  "RegistrationRequest = \<lparr>embedded = [ExtendedProtocolDiscriminator, SpareHalfOctetAndSecurityHeaderType, RegistrationRequestMessageIdentity,
       NgksiAndRegistrationType5GS, MobileIdentity5GS],
     enc = EncodeRegistrationRequest, dec = DecodeRegistrationRequest, opt_cases = RegistrationRequest_cases\<rparr>"

definition RegistrationRequest_layout :: layout where
  "RegistrationRequest_layout = \<lparr>mand = [(M_V, ExtendedProtocolDiscriminator), (M_V, SpareHalfOctetAndSecurityHeaderType),
       (M_V, RegistrationRequestMessageIdentity), (M_V, NgksiAndRegistrationType5GS), (M_LV, MobileIdentity5GS)],
     opts = [(O_T1, 0x0C, NoncurrentNativeNASKeySetIdentifier), (O_TLP, 0x10, Capability5GMM),
       (O_TLV, 0x2E, UESecurityCapability), (O_TLV, 0x2F, RequestedNSSAI), (O_TV, 0x52, LastVisitedRegisteredTAI),
       (O_TLV, 0x17, S1UENetworkCapability), (O_TLV, 0x40, UplinkDataStatus), (O_TLV, 0x50, PDUSessionStatus),
       (O_T1, 0x0B, MICOIndication), (O_TLO, 0x2B, UEStatus), (O_TLP, 0x77, AdditionalGUTI),
       (O_TLV, 0x25, AllowedPDUSessionStatus), (O_TLO, 0x18, UesUsageSetting),
       (O_TLO, 0x51, RequestedDRXParameters), (O_TLV, 0x70, EPSNASMessageContainer), (O_TLV, 0x74, LADNIndication),
       (O_TLV, 0x7B, PayloadContainer), (O_T1, 0x09, NetworkSlicingIndication), (O_TLO, 0x53, UpdateType5GS),
       (O_TLV, 0x71, NASMessageContainer)]\<rparr>"

subsection \<open>SecurityModeCommand\<close>

definition EncodeSecurityModeCommand :: "wstmt list" where
  "EncodeSecurityModeCommand =
    [Write (W_Octet ExtendedProtocolDiscriminator),
     Write (W_Octet SpareHalfOctetAndSecurityHeaderType),
     Write (W_Octet SecurityModeCommandMessageIdentity),
     Write (W_Octet SelectedNASSecurityAlgorithms),
     Write (W_Octet SpareHalfOctetAndNgksi),
     Write (W_Len ReplayedUESecurityCapabilities),
     Write (W_Buffer ReplayedUESecurityCapabilities),
     If_set IMEISVRequest [W_Octet IMEISVRequest],
     If_set SelectedEPSNASSecurityAlgorithms [W_Iei SelectedEPSNASSecurityAlgorithms, W_Octet SelectedEPSNASSecurityAlgorithms],
     If_set Additional5GSecurityInformation [W_Iei Additional5GSecurityInformation, W_Len Additional5GSecurityInformation, W_Octet Additional5GSecurityInformation],
     If_set EAPMessage [W_Iei EAPMessage, W_Len EAPMessage, W_Buffer EAPMessage],
     If_set ABBA [W_Iei ABBA, W_Len ABBA, W_Buffer ABBA],
     If_set ReplayedS1UESecurityCapabilities [W_Iei ReplayedS1UESecurityCapabilities, W_Len ReplayedS1UESecurityCapabilities, W_Buffer ReplayedS1UESecurityCapabilities]]"

definition DecodeSecurityModeCommand :: "rcmd list" where
  "DecodeSecurityModeCommand =
    [R_Octet ExtendedProtocolDiscriminator, R_Octet SpareHalfOctetAndSecurityHeaderType,
     R_Octet SecurityModeCommandMessageIdentity, R_Octet SelectedNASSecurityAlgorithms,
     R_Octet SpareHalfOctetAndNgksi, R_Len ReplayedUESecurityCapabilities,
     R_SetLen ReplayedUESecurityCapabilities, R_Buffer ReplayedUESecurityCapabilities]"

definition SecurityModeCommand_cases :: "(u8 \<times> nas_type \<times> rcmd list) list" where
  "SecurityModeCommand_cases =
    [(0x0E, IMEISVRequest, [R_OctetIei IMEISVRequest]),
     (0x57, SelectedEPSNASSecurityAlgorithms, [R_Octet SelectedEPSNASSecurityAlgorithms]),
     (0x36, Additional5GSecurityInformation, [R_Len Additional5GSecurityInformation, R_SetLen Additional5GSecurityInformation, R_Octet Additional5GSecurityInformation]),
     (0x78, EAPMessage, [R_Len EAPMessage, R_SetLen EAPMessage, R_BufferTo EAPMessage]),
     (0x38, ABBA, [R_Len ABBA, R_SetLen ABBA, R_BufferTo ABBA]),
     (0x19, ReplayedS1UESecurityCapabilities, [R_Len ReplayedS1UESecurityCapabilities, R_SetLen ReplayedS1UESecurityCapabilities, R_BufferTo ReplayedS1UESecurityCapabilities])]"

definition SecurityModeCommand :: nas_schema where
  "SecurityModeCommand = \<lparr>embedded = [ExtendedProtocolDiscriminator, SpareHalfOctetAndSecurityHeaderType, SecurityModeCommandMessageIdentity,
       SelectedNASSecurityAlgorithms, SpareHalfOctetAndNgksi, ReplayedUESecurityCapabilities],
     enc = EncodeSecurityModeCommand, dec = DecodeSecurityModeCommand, opt_cases = SecurityModeCommand_cases\<rparr>"

definition SecurityModeCommand_layout :: layout where
  "SecurityModeCommand_layout = \<lparr>mand = [(M_V, ExtendedProtocolDiscriminator), (M_V, SpareHalfOctetAndSecurityHeaderType),
       (M_V, SecurityModeCommandMessageIdentity), (M_V, SelectedNASSecurityAlgorithms),
       (M_V, SpareHalfOctetAndNgksi), (M_LV, ReplayedUESecurityCapabilities)],
     opts = [(O_T1, 0x0E, IMEISVRequest), (O_TV, 0x57, SelectedEPSNASSecurityAlgorithms),
       (O_TLO, 0x36, Additional5GSecurityInformation), (O_TLV, 0x78, EAPMessage), (O_TLV, 0x38, ABBA),
       (O_TLV, 0x19, ReplayedS1UESecurityCapabilities)]\<rparr>"

subsection \<open>SecurityModeComplete\<close>

definition EncodeSecurityModeComplete :: "wstmt list" where
  "EncodeSecurityModeComplete =
    [Write (W_Octet ExtendedProtocolDiscriminator),
     Write (W_Octet SpareHalfOctetAndSecurityHeaderType),
     Write (W_Octet SecurityModeCompleteMessageIdentity),
     If_set IMEISV [W_Iei IMEISV, W_Len IMEISV, W_OctetTo IMEISV],
     If_set NASMessageContainer [W_Iei NASMessageContainer, W_Len NASMessageContainer, W_Buffer NASMessageContainer]]"

definition DecodeSecurityModeComplete :: "rcmd list" where
  "DecodeSecurityModeComplete =
    [R_Octet ExtendedProtocolDiscriminator, R_Octet SpareHalfOctetAndSecurityHeaderType,
     R_Octet SecurityModeCompleteMessageIdentity]"

definition SecurityModeComplete_cases :: "(u8 \<times> nas_type \<times> rcmd list) list" where
  "SecurityModeComplete_cases =
    [(0x77, IMEISV, [R_Len IMEISV, R_SetLen IMEISV, R_OctetTo IMEISV]),
     (0x71, NASMessageContainer, [R_Len NASMessageContainer, R_SetLen NASMessageContainer, R_BufferTo NASMessageContainer])]"

definition SecurityModeComplete :: nas_schema where
  "SecurityModeComplete = \<lparr>embedded = [ExtendedProtocolDiscriminator, SpareHalfOctetAndSecurityHeaderType, SecurityModeCompleteMessageIdentity],
     enc = EncodeSecurityModeComplete, dec = DecodeSecurityModeComplete, opt_cases = SecurityModeComplete_cases\<rparr>"

definition SecurityModeComplete_layout :: layout where
  "SecurityModeComplete_layout = \<lparr>mand = [(M_V, ExtendedProtocolDiscriminator), (M_V, SpareHalfOctetAndSecurityHeaderType),
       (M_V, SecurityModeCompleteMessageIdentity)],
     opts = [(O_TLP, 0x77, IMEISV), (O_TLV, 0x71, NASMessageContainer)]\<rparr>"

subsection \<open>SecurityModeReject\<close>

definition EncodeSecurityModeReject :: "wstmt list" where
  "EncodeSecurityModeReject =
    [Write (W_Octet ExtendedProtocolDiscriminator),
     Write (W_Octet SpareHalfOctetAndSecurityHeaderType),
     Write (W_Octet SecurityModeRejectMessageIdentity),
     Write (W_Octet Cause5GMM)]"

definition DecodeSecurityModeReject :: "rcmd list" where
  "DecodeSecurityModeReject =
    [R_Octet ExtendedProtocolDiscriminator, R_Octet SpareHalfOctetAndSecurityHeaderType,
     R_Octet SecurityModeRejectMessageIdentity, R_Octet Cause5GMM]"

definition SecurityModeReject_cases :: "(u8 \<times> nas_type \<times> rcmd list) list" where
  "SecurityModeReject_cases =
    []"

definition SecurityModeReject :: nas_schema where
  "SecurityModeReject = \<lparr>embedded = [ExtendedProtocolDiscriminator, SpareHalfOctetAndSecurityHeaderType, SecurityModeRejectMessageIdentity,
       Cause5GMM],
     enc = EncodeSecurityModeReject, dec = DecodeSecurityModeReject, opt_cases = SecurityModeReject_cases\<rparr>"

definition SecurityModeReject_layout :: layout where
  "SecurityModeReject_layout = \<lparr>mand = [(M_V, ExtendedProtocolDiscriminator), (M_V, SpareHalfOctetAndSecurityHeaderType),
       (M_V, SecurityModeRejectMessageIdentity), (M_V, Cause5GMM)],
     opts = []\<rparr>"

subsection \<open>SecurityProtected5GSNASMessage\<close>

definition EncodeSecurityProtected5GSNASMessage :: "wstmt list" where
  "EncodeSecurityProtected5GSNASMessage =
    [Write (W_Octet ExtendedProtocolDiscriminator),
     Write (W_Octet SpareHalfOctetAndSecurityHeaderType),
     Write (W_Octet MessageAuthenticationCode),
     Write (W_Octet SequenceNumber),
     Write (W_Empty Plain5GSNASMessage)]"

definition DecodeSecurityProtected5GSNASMessage :: "rcmd list" where
  "DecodeSecurityProtected5GSNASMessage =
    [R_Octet ExtendedProtocolDiscriminator, R_Octet SpareHalfOctetAndSecurityHeaderType,
     R_Octet MessageAuthenticationCode, R_Octet SequenceNumber, R_Empty Plain5GSNASMessage]"

definition SecurityProtected5GSNASMessage_cases :: "(u8 \<times> nas_type \<times> rcmd list) list" where
  "SecurityProtected5GSNASMessage_cases =
    []"

definition SecurityProtected5GSNASMessage :: nas_schema where
  "SecurityProtected5GSNASMessage = \<lparr>embedded = [ExtendedProtocolDiscriminator, SpareHalfOctetAndSecurityHeaderType, MessageAuthenticationCode,
       SequenceNumber, Plain5GSNASMessage],
     enc = EncodeSecurityProtected5GSNASMessage, dec = DecodeSecurityProtected5GSNASMessage, opt_cases = SecurityProtected5GSNASMessage_cases\<rparr>"

definition SecurityProtected5GSNASMessage_layout :: layout where
  "SecurityProtected5GSNASMessage_layout = \<lparr>mand = [(M_V, ExtendedProtocolDiscriminator), (M_V, SpareHalfOctetAndSecurityHeaderType),
       (M_V, MessageAuthenticationCode), (M_V, SequenceNumber), (M_none, Plain5GSNASMessage)],
     opts = []\<rparr>"

subsection \<open>ServiceAccept\<close>

definition EncodeServiceAccept :: "wstmt list" where
  "EncodeServiceAccept =
    [Write (W_Octet ExtendedProtocolDiscriminator),
     Write (W_Octet SpareHalfOctetAndSecurityHeaderType),
     Write (W_Octet ServiceAcceptMessageIdentity),
     If_set PDUSessionStatus [W_Iei PDUSessionStatus, W_Len PDUSessionStatus, W_Buffer PDUSessionStatus],
     If_set PDUSessionReactivationResult [W_Iei PDUSessionReactivationResult, W_Len PDUSessionReactivationResult, W_Buffer PDUSessionReactivationResult],
     If_set PDUSessionReactivationResultErrorCause [W_Iei PDUSessionReactivationResultErrorCause, W_Len PDUSessionReactivationResultErrorCause, W_Buffer PDUSessionReactivationResultErrorCause],
     If_set EAPMessage [W_Iei EAPMessage, W_Len EAPMessage, W_Buffer EAPMessage]]"

definition DecodeServiceAccept :: "rcmd list" where
  "DecodeServiceAccept =
    [R_Octet ExtendedProtocolDiscriminator, R_Octet SpareHalfOctetAndSecurityHeaderType,
     R_Octet ServiceAcceptMessageIdentity]"

definition ServiceAccept_cases :: "(u8 \<times> nas_type \<times> rcmd list) list" where
  "ServiceAccept_cases =
    [(0x50, PDUSessionStatus, [R_Len PDUSessionStatus, R_SetLen PDUSessionStatus, R_BufferTo PDUSessionStatus]),
     (0x26, PDUSessionReactivationResult, [R_Len PDUSessionReactivationResult, R_SetLen PDUSessionReactivationResult, R_BufferTo PDUSessionReactivationResult]),
     (0x72, PDUSessionReactivationResultErrorCause, [R_Len PDUSessionReactivationResultErrorCause, R_SetLen PDUSessionReactivationResultErrorCause, R_BufferTo PDUSessionReactivationResultErrorCause]),
     (0x78, EAPMessage, [R_Len EAPMessage, R_SetLen EAPMessage, R_BufferTo EAPMessage])]"

definition ServiceAccept :: nas_schema where
  "ServiceAccept = \<lparr>embedded = [ExtendedProtocolDiscriminator, SpareHalfOctetAndSecurityHeaderType, ServiceAcceptMessageIdentity],
     enc = EncodeServiceAccept, dec = DecodeServiceAccept, opt_cases = ServiceAccept_cases\<rparr>"

definition ServiceAccept_layout :: layout where
  "ServiceAccept_layout = \<lparr>mand = [(M_V, ExtendedProtocolDiscriminator), (M_V, SpareHalfOctetAndSecurityHeaderType),
       (M_V, ServiceAcceptMessageIdentity)],
     opts = [(O_TLV, 0x50, PDUSessionStatus), (O_TLV, 0x26, PDUSessionReactivationResult),
       (O_TLV, 0x72, PDUSessionReactivationResultErrorCause), (O_TLV, 0x78, EAPMessage)]\<rparr>"

subsection \<open>ServiceReject\<close>

definition EncodeServiceReject :: "wstmt list" where
  "EncodeServiceReject =
    [Write (W_Octet ExtendedProtocolDiscriminator),
     Write (W_Octet SpareHalfOctetAndSecurityHeaderType),
     Write (W_Octet ServiceRejectMessageIdentity),
     Write (W_Octet Cause5GMM),
     If_set PDUSessionStatus [W_Iei PDUSessionStatus, W_Len PDUSessionStatus, W_Buffer PDUSessionStatus],
     If_set T3346Value [W_Iei T3346Value, W_Len T3346Value, W_Octet T3346Value],
     If_set EAPMessage [W_Iei EAPMessage, W_Len EAPMessage, W_Buffer EAPMessage]]"

definition DecodeServiceReject :: "rcmd list" where
  "DecodeServiceReject =
    [R_Octet ExtendedProtocolDiscriminator, R_Octet SpareHalfOctetAndSecurityHeaderType,
     R_Octet ServiceRejectMessageIdentity, R_Octet Cause5GMM]"

definition ServiceReject_cases :: "(u8 \<times> nas_type \<times> rcmd list) list" where
  "ServiceReject_cases =
    [(0x50, PDUSessionStatus, [R_Len PDUSessionStatus, R_SetLen PDUSessionStatus, R_BufferTo PDUSessionStatus]),
     (0x5F, T3346Value, [R_Len T3346Value, R_SetLen T3346Value, R_Octet T3346Value]),
     (0x78, EAPMessage, [R_Len EAPMessage, R_SetLen EAPMessage, R_BufferTo EAPMessage])]"

definition ServiceReject :: nas_schema where
  "ServiceReject = \<lparr>embedded = [ExtendedProtocolDiscriminator, SpareHalfOctetAndSecurityHeaderType, ServiceRejectMessageIdentity, Cause5GMM],
     enc = EncodeServiceReject, dec = DecodeServiceReject, opt_cases = ServiceReject_cases\<rparr>"

definition ServiceReject_layout :: layout where
  "ServiceReject_layout = \<lparr>mand = [(M_V, ExtendedProtocolDiscriminator), (M_V, SpareHalfOctetAndSecurityHeaderType),
       (M_V, ServiceRejectMessageIdentity), (M_V, Cause5GMM)],
     opts = [(O_TLV, 0x50, PDUSessionStatus), (O_TLO, 0x5F, T3346Value), (O_TLV, 0x78, EAPMessage)]\<rparr>"

subsection \<open>ServiceRequest\<close>

definition EncodeServiceRequest :: "wstmt list" where
  "EncodeServiceRequest =
    [Write (W_Octet ExtendedProtocolDiscriminator),
     Write (W_Octet SpareHalfOctetAndSecurityHeaderType),
     Write (W_Octet ServiceRequestMessageIdentity),
     Write (W_Octet ServiceTypeAndNgksi),
     Write (W_Len TMSI5GS),
     Write (W_Octet TMSI5GS),
     If_set UplinkDataStatus [W_Iei UplinkDataStatus, W_Len UplinkDataStatus, W_Buffer UplinkDataStatus],
     If_set PDUSessionStatus [W_Iei PDUSessionStatus, W_Len PDUSessionStatus, W_Buffer PDUSessionStatus],
     If_set AllowedPDUSessionStatus [W_Iei AllowedPDUSessionStatus, W_Len AllowedPDUSessionStatus, W_Buffer AllowedPDUSessionStatus],
     If_set NASMessageContainer [W_Iei NASMessageContainer, W_Len NASMessageContainer, W_Buffer NASMessageContainer]]"

definition DecodeServiceRequest :: "rcmd list" where
  "DecodeServiceRequest =
    [R_Octet ExtendedProtocolDiscriminator, R_Octet SpareHalfOctetAndSecurityHeaderType,
     R_Octet ServiceRequestMessageIdentity, R_Octet ServiceTypeAndNgksi, R_Len TMSI5GS, R_SetLen TMSI5GS,
     R_Octet TMSI5GS]"

definition ServiceRequest_cases :: "(u8 \<times> nas_type \<times> rcmd list) list" where
  "ServiceRequest_cases =
    [(0x40, UplinkDataStatus, [R_Len UplinkDataStatus, R_SetLen UplinkDataStatus, R_BufferTo UplinkDataStatus]),
     (0x50, PDUSessionStatus, [R_Len PDUSessionStatus, R_SetLen PDUSessionStatus, R_BufferTo PDUSessionStatus]),
     (0x25, AllowedPDUSessionStatus, [R_Len AllowedPDUSessionStatus, R_SetLen AllowedPDUSessionStatus, R_BufferTo AllowedPDUSessionStatus]),
     (0x71, NASMessageContainer, [R_Len NASMessageContainer, R_SetLen NASMessageContainer, R_BufferTo NASMessageContainer])]"

definition ServiceRequest :: nas_schema where
  "ServiceRequest = \<lparr>embedded = [ExtendedProtocolDiscriminator, SpareHalfOctetAndSecurityHeaderType, ServiceRequestMessageIdentity,
       ServiceTypeAndNgksi, TMSI5GS],
     enc = EncodeServiceRequest, dec = DecodeServiceRequest, opt_cases = ServiceRequest_cases\<rparr>"

definition ServiceRequest_layout :: layout where
  "ServiceRequest_layout = \<lparr>mand = [(M_V, ExtendedProtocolDiscriminator), (M_V, SpareHalfOctetAndSecurityHeaderType),
       (M_V, ServiceRequestMessageIdentity), (M_V, ServiceTypeAndNgksi), (M_LO, TMSI5GS)],
     opts = [(O_TLV, 0x40, UplinkDataStatus), (O_TLV, 0x50, PDUSessionStatus), (O_TLV, 0x25, AllowedPDUSessionStatus),
       (O_TLV, 0x71, NASMessageContainer)]\<rparr>"

subsection \<open>Status5GMM\<close>

definition EncodeStatus5GMM :: "wstmt list" where
  "EncodeStatus5GMM =
    [Write (W_Octet ExtendedProtocolDiscriminator),
     Write (W_Octet SpareHalfOctetAndSecurityHeaderType),
     Write (W_Octet STATUSMessageIdentity5GMM),
     Write (W_Octet Cause5GMM)]"

definition DecodeStatus5GMM :: "rcmd list" where
  "DecodeStatus5GMM =
    [R_Octet ExtendedProtocolDiscriminator, R_Octet SpareHalfOctetAndSecurityHeaderType,
     R_Octet STATUSMessageIdentity5GMM, R_Octet Cause5GMM]"

definition Status5GMM_cases :: "(u8 \<times> nas_type \<times> rcmd list) list" where
  "Status5GMM_cases =
    []"

definition Status5GMM :: nas_schema where
  "Status5GMM = \<lparr>embedded = [ExtendedProtocolDiscriminator, SpareHalfOctetAndSecurityHeaderType, STATUSMessageIdentity5GMM, Cause5GMM],
     enc = EncodeStatus5GMM, dec = DecodeStatus5GMM, opt_cases = Status5GMM_cases\<rparr>"

definition Status5GMM_layout :: layout where
  "Status5GMM_layout = \<lparr>mand = [(M_V, ExtendedProtocolDiscriminator), (M_V, SpareHalfOctetAndSecurityHeaderType),
       (M_V, STATUSMessageIdentity5GMM), (M_V, Cause5GMM)],
     opts = []\<rparr>"

subsection \<open>Status5GSM\<close>

definition EncodeStatus5GSM :: "wstmt list" where
  "EncodeStatus5GSM =
    [Write (W_Octet ExtendedProtocolDiscriminator),
     Write (W_Octet PDUSessionID),
     Write (W_Octet PTI),
     Write (W_Octet STATUSMessageIdentity5GSM),
     Write (W_Octet Cause5GSM)]"

definition DecodeStatus5GSM :: "rcmd list" where
  "DecodeStatus5GSM =
    [R_Octet ExtendedProtocolDiscriminator, R_Octet PDUSessionID, R_Octet PTI, R_Octet STATUSMessageIdentity5GSM,
     R_Octet Cause5GSM]"

definition Status5GSM_cases :: "(u8 \<times> nas_type \<times> rcmd list) list" where
  "Status5GSM_cases =
    []"

definition Status5GSM :: nas_schema where
  "Status5GSM = \<lparr>embedded = [ExtendedProtocolDiscriminator, PDUSessionID, PTI, STATUSMessageIdentity5GSM, Cause5GSM],
     enc = EncodeStatus5GSM, dec = DecodeStatus5GSM, opt_cases = Status5GSM_cases\<rparr>"

definition Status5GSM_layout :: layout where
  "Status5GSM_layout = \<lparr>mand = [(M_V, ExtendedProtocolDiscriminator), (M_V, PDUSessionID), (M_V, PTI), (M_V, STATUSMessageIdentity5GSM),
       (M_V, Cause5GSM)],
     opts = []\<rparr>"

subsection \<open>ULNASTransport\<close>

definition EncodeULNASTransport :: "wstmt list" where
  "EncodeULNASTransport =
    [Write (W_Octet ExtendedProtocolDiscriminator),
     Write (W_Octet SpareHalfOctetAndSecurityHeaderType),
     Write (W_Octet ULNASTRANSPORTMessageIdentity),
     Write (W_Octet SpareHalfOctetAndPayloadContainerType),
     Write (W_Len PayloadContainer),
     Write (W_Buffer PayloadContainer),
     If_set PduSessionID2Value [W_Iei PduSessionID2Value, W_Octet PduSessionID2Value],
     If_set OldPDUSessionID [W_Iei OldPDUSessionID, W_Octet OldPDUSessionID],
     If_set RequestType [W_Octet RequestType],
     If_set SNSSAI [W_Iei SNSSAI, W_Len SNSSAI, W_OctetTo SNSSAI],
     If_set DNN [W_Iei DNN, W_Len DNN, W_Buffer DNN],
     If_set AdditionalInformation [W_Iei AdditionalInformation, W_Len AdditionalInformation, W_Buffer AdditionalInformation]]"

definition DecodeULNASTransport :: "rcmd list" where
  "DecodeULNASTransport =
    [R_Octet ExtendedProtocolDiscriminator, R_Octet SpareHalfOctetAndSecurityHeaderType,
     R_Octet ULNASTRANSPORTMessageIdentity, R_Octet SpareHalfOctetAndPayloadContainerType, R_Len PayloadContainer,
     R_SetLen PayloadContainer, R_Buffer PayloadContainer]"

definition ULNASTransport_cases :: "(u8 \<times> nas_type \<times> rcmd list) list" where
  "ULNASTransport_cases =
    [(0x12, PduSessionID2Value, [R_Octet PduSessionID2Value]),
     (0x59, OldPDUSessionID, [R_Octet OldPDUSessionID]),
     (0x08, RequestType, [R_OctetIei RequestType]),
     (0x22, SNSSAI, [R_Len SNSSAI, R_SetLen SNSSAI, R_OctetTo SNSSAI]),
     (0x25, DNN, [R_Len DNN, R_SetLen DNN, R_BufferTo DNN]),
     (0x24, AdditionalInformation, [R_Len AdditionalInformation, R_SetLen AdditionalInformation, R_BufferTo AdditionalInformation])]"

definition ULNASTransport :: nas_schema where
  "ULNASTransport = \<lparr>embedded = [ExtendedProtocolDiscriminator, SpareHalfOctetAndSecurityHeaderType, ULNASTRANSPORTMessageIdentity,
       SpareHalfOctetAndPayloadContainerType, PayloadContainer],
     enc = EncodeULNASTransport, dec = DecodeULNASTransport, opt_cases = ULNASTransport_cases\<rparr>"

definition ULNASTransport_layout :: layout where
  "ULNASTransport_layout = \<lparr>mand = [(M_V, ExtendedProtocolDiscriminator), (M_V, SpareHalfOctetAndSecurityHeaderType),
       (M_V, ULNASTRANSPORTMessageIdentity), (M_V, SpareHalfOctetAndPayloadContainerType), (M_LV, PayloadContainer)],
     opts = [(O_TV, 0x12, PduSessionID2Value), (O_TV, 0x59, OldPDUSessionID), (O_T1, 0x08, RequestType),
       (O_TLP, 0x22, SNSSAI), (O_TLV, 0x25, DNN), (O_TLV, 0x24, AdditionalInformation)]\<rparr>"

section \<open>The code and the layouts\<close>

text \<open>The messages that \<^verbatim>\<open>nas.go\<close> dispatches, in its order, and the message that it does not.\<close>

definition gmm_messages :: "(nas_schema \<times> layout) list" where
  "gmm_messages =
    [(RegistrationRequest, RegistrationRequest_layout), (RegistrationAccept, RegistrationAccept_layout),
     (RegistrationComplete, RegistrationComplete_layout), (RegistrationReject, RegistrationReject_layout),
     (DeregistrationRequestUEOriginatingDeregistration, DeregistrationRequestUEOriginatingDeregistration_layout),
     (DeregistrationAcceptUEOriginatingDeregistration, DeregistrationAcceptUEOriginatingDeregistration_layout),
     (DeregistrationRequestUETerminatedDeregistration, DeregistrationRequestUETerminatedDeregistration_layout),
     (DeregistrationAcceptUETerminatedDeregistration, DeregistrationAcceptUETerminatedDeregistration_layout),
     (ServiceRequest, ServiceRequest_layout), (ServiceReject, ServiceReject_layout),
     (ServiceAccept, ServiceAccept_layout), (ConfigurationUpdateCommand, ConfigurationUpdateCommand_layout),
     (ConfigurationUpdateComplete, ConfigurationUpdateComplete_layout),
     (AuthenticationRequest, AuthenticationRequest_layout),
     (AuthenticationResponse, AuthenticationResponse_layout), (AuthenticationReject, AuthenticationReject_layout),
     (AuthenticationFailure, AuthenticationFailure_layout), (AuthenticationResult, AuthenticationResult_layout),
     (IdentityRequest, IdentityRequest_layout), (IdentityResponse, IdentityResponse_layout),
     (SecurityModeCommand, SecurityModeCommand_layout), (SecurityModeComplete, SecurityModeComplete_layout),
     (SecurityModeReject, SecurityModeReject_layout), (Status5GMM, Status5GMM_layout),
     (Notification, Notification_layout), (NotificationResponse, NotificationResponse_layout),
     (ULNASTransport, ULNASTransport_layout), (DLNASTransport, DLNASTransport_layout)]"

definition gsm_messages :: "(nas_schema \<times> layout) list" where
  "gsm_messages =
    [(PDUSessionEstablishmentRequest, PDUSessionEstablishmentRequest_layout),
     (PDUSessionEstablishmentAccept, PDUSessionEstablishmentAccept_layout),
     (PDUSessionEstablishmentReject, PDUSessionEstablishmentReject_layout),
     (PDUSessionAuthenticationCommand, PDUSessionAuthenticationCommand_layout),
     (PDUSessionAuthenticationComplete, PDUSessionAuthenticationComplete_layout),
     (PDUSessionAuthenticationResult, PDUSessionAuthenticationResult_layout),
     (PDUSessionModificationRequest, PDUSessionModificationRequest_layout),
     (PDUSessionModificationReject, PDUSessionModificationReject_layout),
     (PDUSessionModificationCommand, PDUSessionModificationCommand_layout),
     (PDUSessionModificationComplete, PDUSessionModificationComplete_layout),
     (PDUSessionModificationCommandReject, PDUSessionModificationCommandReject_layout),
     (PDUSessionReleaseRequest, PDUSessionReleaseRequest_layout),
     (PDUSessionReleaseReject, PDUSessionReleaseReject_layout),
     (PDUSessionReleaseCommand, PDUSessionReleaseCommand_layout),
     (PDUSessionReleaseComplete, PDUSessionReleaseComplete_layout), (Status5GSM, Status5GSM_layout)]"

definition nas_messages :: "(nas_schema \<times> layout) list" where
  "nas_messages = gmm_messages @ gsm_messages @ [(SecurityProtected5GSNASMessage, SecurityProtected5GSNASMessage_layout)]"

lemma nas_messages_compiled: "list_all (\<lambda>(S, L). S = compile L) nas_messages"
  by code_simp

lemma nas_layouts_ok: "list_all (\<lambda>(S, L). layout_ok L) nas_messages"
  by code_simp

end
