(* ===== verification/NAS.thy ===== *)
theory NAS
  imports NAS_Message_Table
begin

text \<open>
  The entry points of the NAS library (\<^verbatim>\<open>lib/nas/nas.go\<close>): a plain message is dispatched on its protocol
  discriminator and on its message type. \<^verbatim>\<open>GmmMessage\<close> and \<^verbatim>\<open>GsmMessage\<close> have one pointer per message; the
  pointers are numbered by their position in the struct. Formatted numbers in error messages are left
  out.
\<close>

section \<open>Messages\<close>

definition MsgTypeRegistrationRequest :: u8 where "MsgTypeRegistrationRequest = 65"
definition MsgTypeRegistrationAccept :: u8 where "MsgTypeRegistrationAccept = 66"
definition MsgTypeRegistrationComplete :: u8 where "MsgTypeRegistrationComplete = 67"
definition MsgTypeRegistrationReject :: u8 where "MsgTypeRegistrationReject = 68"
definition MsgTypeDeregistrationRequestUEOriginatingDeregistration :: u8 where "MsgTypeDeregistrationRequestUEOriginatingDeregistration = 69"
definition MsgTypeDeregistrationAcceptUEOriginatingDeregistration :: u8 where "MsgTypeDeregistrationAcceptUEOriginatingDeregistration = 70"
definition MsgTypeDeregistrationRequestUETerminatedDeregistration :: u8 where "MsgTypeDeregistrationRequestUETerminatedDeregistration = 71"
definition MsgTypeDeregistrationAcceptUETerminatedDeregistration :: u8 where "MsgTypeDeregistrationAcceptUETerminatedDeregistration = 72"
definition MsgTypeServiceRequest :: u8 where "MsgTypeServiceRequest = 76"
definition MsgTypeServiceReject :: u8 where "MsgTypeServiceReject = 77"
definition MsgTypeServiceAccept :: u8 where "MsgTypeServiceAccept = 78"
definition MsgTypeConfigurationUpdateCommand :: u8 where "MsgTypeConfigurationUpdateCommand = 84"
definition MsgTypeConfigurationUpdateComplete :: u8 where "MsgTypeConfigurationUpdateComplete = 85"
definition MsgTypeAuthenticationRequest :: u8 where "MsgTypeAuthenticationRequest = 86"
definition MsgTypeAuthenticationResponse :: u8 where "MsgTypeAuthenticationResponse = 87"
definition MsgTypeAuthenticationReject :: u8 where "MsgTypeAuthenticationReject = 88"
definition MsgTypeAuthenticationFailure :: u8 where "MsgTypeAuthenticationFailure = 89"
definition MsgTypeAuthenticationResult :: u8 where "MsgTypeAuthenticationResult = 90"
definition MsgTypeIdentityRequest :: u8 where "MsgTypeIdentityRequest = 91"
definition MsgTypeIdentityResponse :: u8 where "MsgTypeIdentityResponse = 92"
definition MsgTypeSecurityModeCommand :: u8 where "MsgTypeSecurityModeCommand = 93"
definition MsgTypeSecurityModeComplete :: u8 where "MsgTypeSecurityModeComplete = 94"
definition MsgTypeSecurityModeReject :: u8 where "MsgTypeSecurityModeReject = 95"
definition MsgTypeStatus5GMM :: u8 where "MsgTypeStatus5GMM = 100"
definition MsgTypeNotification :: u8 where "MsgTypeNotification = 101"
definition MsgTypeNotificationResponse :: u8 where "MsgTypeNotificationResponse = 102"
definition MsgTypeULNASTransport :: u8 where "MsgTypeULNASTransport = 103"
definition MsgTypeDLNASTransport :: u8 where "MsgTypeDLNASTransport = 104"
definition MsgTypePDUSessionEstablishmentRequest :: u8 where "MsgTypePDUSessionEstablishmentRequest = 193"
definition MsgTypePDUSessionEstablishmentAccept :: u8 where "MsgTypePDUSessionEstablishmentAccept = 194"
definition MsgTypePDUSessionEstablishmentReject :: u8 where "MsgTypePDUSessionEstablishmentReject = 195"
definition MsgTypePDUSessionAuthenticationCommand :: u8 where "MsgTypePDUSessionAuthenticationCommand = 197"
definition MsgTypePDUSessionAuthenticationComplete :: u8 where "MsgTypePDUSessionAuthenticationComplete = 198"
definition MsgTypePDUSessionAuthenticationResult :: u8 where "MsgTypePDUSessionAuthenticationResult = 199"
definition MsgTypePDUSessionModificationRequest :: u8 where "MsgTypePDUSessionModificationRequest = 201"
definition MsgTypePDUSessionModificationReject :: u8 where "MsgTypePDUSessionModificationReject = 202"
definition MsgTypePDUSessionModificationCommand :: u8 where "MsgTypePDUSessionModificationCommand = 203"
definition MsgTypePDUSessionModificationComplete :: u8 where "MsgTypePDUSessionModificationComplete = 204"
definition MsgTypePDUSessionModificationCommandReject :: u8 where "MsgTypePDUSessionModificationCommandReject = 205"
definition MsgTypePDUSessionReleaseRequest :: u8 where "MsgTypePDUSessionReleaseRequest = 209"
definition MsgTypePDUSessionReleaseReject :: u8 where "MsgTypePDUSessionReleaseReject = 210"
definition MsgTypePDUSessionReleaseCommand :: u8 where "MsgTypePDUSessionReleaseCommand = 211"
definition MsgTypePDUSessionReleaseComplete :: u8 where "MsgTypePDUSessionReleaseComplete = 212"
definition MsgTypeStatus5GSM :: u8 where "MsgTypeStatus5GSM = 214"

definition Epd5GSSessionManagementMessage :: u8 where "Epd5GSSessionManagementMessage = 0x2E"
definition Epd5GSMobilityManagementMessage :: u8 where "Epd5GSMobilityManagementMessage = 0x7E"

record SecurityHeader =
  SH_ProtocolDiscriminator :: u8
  SH_SecurityHeaderType :: u8
  SH_MessageAuthenticationCode :: u32
  SH_SequenceNumber :: u8

record GmmMessage =
  GmmHeader :: bytes
  GmmBody :: "nat \<Rightarrow> nas_msg option"

record GsmMessage =
  GsmHeader :: bytes
  GsmBody :: "nat \<Rightarrow> nas_msg option"

record Message =
  Message_SecurityHeader :: SecurityHeader
  Message_Gmm :: "GmmMessage option"
  Message_Gsm :: "GsmMessage option"

definition NewMessage :: Message where
  "NewMessage = \<lparr>Message_SecurityHeader = \<lparr>SH_ProtocolDiscriminator = 0, SH_SecurityHeaderType = 0,
     SH_MessageAuthenticationCode = 0, SH_SequenceNumber = 0\<rparr>, Message_Gmm = None, Message_Gsm = None\<rparr>"

definition NewGmmMessage :: GmmMessage where
  "NewGmmMessage = \<lparr>GmmHeader = [0, 0, 0], GmmBody = Map.empty\<rparr>"

definition NewGsmMessage :: GsmMessage where
  "NewGsmMessage = \<lparr>GsmHeader = [0, 0, 0, 0], GsmBody = Map.empty\<rparr>"

definition GetEPD :: "bytes \<Rightarrow> u8 res" where
  "GetEPD byteArray = (case byteArray of [] \<Rightarrow> Inl Panic | b # _ \<Rightarrow> Inr b)"

text \<open>The switches of the four functions: message type, pointer, message.\<close>

definition gmm_decode_cases :: "(u8 \<times> nat \<times> nas_schema) list" where
  "gmm_decode_cases =
    [(MsgTypeRegistrationRequest, 5, RegistrationRequest),
     (MsgTypeRegistrationAccept, 6, RegistrationAccept),
     (MsgTypeRegistrationComplete, 7, RegistrationComplete),
     (MsgTypeRegistrationReject, 8, RegistrationReject),
     (MsgTypeDeregistrationRequestUEOriginatingDeregistration, 11, DeregistrationRequestUEOriginatingDeregistration),
     (MsgTypeDeregistrationAcceptUEOriginatingDeregistration, 12, DeregistrationAcceptUEOriginatingDeregistration),
     (MsgTypeDeregistrationRequestUETerminatedDeregistration, 13, DeregistrationRequestUETerminatedDeregistration),
     (MsgTypeDeregistrationAcceptUETerminatedDeregistration, 14, DeregistrationAcceptUETerminatedDeregistration),
     (MsgTypeServiceRequest, 15, ServiceRequest),
     (MsgTypeServiceReject, 17, ServiceReject),
     (MsgTypeServiceAccept, 16, ServiceAccept),
     (MsgTypeConfigurationUpdateCommand, 18, ConfigurationUpdateCommand),
     (MsgTypeConfigurationUpdateComplete, 19, ConfigurationUpdateComplete),
     (MsgTypeAuthenticationRequest, 0, AuthenticationRequest),
     (MsgTypeAuthenticationResponse, 1, AuthenticationResponse),
     (MsgTypeAuthenticationReject, 4, AuthenticationReject),
     (MsgTypeAuthenticationFailure, 3, AuthenticationFailure),
     (MsgTypeAuthenticationResult, 2, AuthenticationResult),
     (MsgTypeIdentityRequest, 20, IdentityRequest),
     (MsgTypeIdentityResponse, 21, IdentityResponse),
     (MsgTypeSecurityModeCommand, 24, SecurityModeCommand),
     (MsgTypeSecurityModeComplete, 25, SecurityModeComplete),
     (MsgTypeSecurityModeReject, 26, SecurityModeReject),
     (MsgTypeStatus5GMM, 28, Status5GMM),
     (MsgTypeNotification, 22, Notification),
     (MsgTypeNotificationResponse, 23, NotificationResponse),
     (MsgTypeULNASTransport, 9, ULNASTransport),
     (MsgTypeDLNASTransport, 10, DLNASTransport)]"

definition gmm_encode_cases :: "(u8 \<times> nat \<times> nas_schema) list" where
  "gmm_encode_cases =
    [(MsgTypeRegistrationRequest, 5, RegistrationRequest),
     (MsgTypeRegistrationAccept, 6, RegistrationAccept),
     (MsgTypeRegistrationComplete, 7, RegistrationComplete),
     (MsgTypeRegistrationReject, 8, RegistrationReject),
     (MsgTypeDeregistrationRequestUEOriginatingDeregistration, 11, DeregistrationRequestUEOriginatingDeregistration),
     (MsgTypeDeregistrationAcceptUEOriginatingDeregistration, 12, DeregistrationAcceptUEOriginatingDeregistration),
     (MsgTypeDeregistrationRequestUETerminatedDeregistration, 13, DeregistrationRequestUETerminatedDeregistration),
     (MsgTypeDeregistrationAcceptUETerminatedDeregistration, 14, DeregistrationAcceptUETerminatedDeregistration),
     (MsgTypeServiceRequest, 15, ServiceRequest),
     (MsgTypeServiceReject, 17, ServiceReject),
     (MsgTypeServiceAccept, 16, ServiceAccept),
     (MsgTypeConfigurationUpdateCommand, 18, ConfigurationUpdateCommand),
     (MsgTypeConfigurationUpdateComplete, 19, ConfigurationUpdateComplete),
     (MsgTypeAuthenticationRequest, 0, AuthenticationRequest),
     (MsgTypeAuthenticationResponse, 1, AuthenticationResponse),
     (MsgTypeAuthenticationReject, 4, AuthenticationReject),
     (MsgTypeAuthenticationFailure, 3, AuthenticationFailure),
     (MsgTypeAuthenticationResult, 2, AuthenticationResult),
     (MsgTypeIdentityRequest, 20, IdentityRequest),
     (MsgTypeIdentityResponse, 21, IdentityResponse),
     (MsgTypeSecurityModeCommand, 24, SecurityModeCommand),
     (MsgTypeSecurityModeComplete, 25, SecurityModeComplete),
     (MsgTypeSecurityModeReject, 26, SecurityModeReject),
     (MsgTypeStatus5GMM, 28, Status5GMM),
     (MsgTypeNotification, 22, Notification),
     (MsgTypeNotificationResponse, 23, NotificationResponse),
     (MsgTypeULNASTransport, 9, ULNASTransport),
     (MsgTypeDLNASTransport, 10, DLNASTransport)]"

definition gsm_decode_cases :: "(u8 \<times> nat \<times> nas_schema) list" where
  "gsm_decode_cases =
    [(MsgTypePDUSessionEstablishmentRequest, 0, PDUSessionEstablishmentRequest),
     (MsgTypePDUSessionEstablishmentAccept, 1, PDUSessionEstablishmentAccept),
     (MsgTypePDUSessionEstablishmentReject, 2, PDUSessionEstablishmentReject),
     (MsgTypePDUSessionAuthenticationCommand, 3, PDUSessionAuthenticationCommand),
     (MsgTypePDUSessionAuthenticationComplete, 4, PDUSessionAuthenticationComplete),
     (MsgTypePDUSessionAuthenticationResult, 5, PDUSessionAuthenticationResult),
     (MsgTypePDUSessionModificationRequest, 6, PDUSessionModificationRequest),
     (MsgTypePDUSessionModificationReject, 7, PDUSessionModificationReject),
     (MsgTypePDUSessionModificationCommand, 8, PDUSessionModificationCommand),
     (MsgTypePDUSessionModificationComplete, 9, PDUSessionModificationComplete),
     (MsgTypePDUSessionModificationCommandReject, 10, PDUSessionModificationCommandReject),
     (MsgTypePDUSessionReleaseRequest, 11, PDUSessionReleaseRequest),
     (MsgTypePDUSessionReleaseReject, 12, PDUSessionReleaseReject),
     (MsgTypePDUSessionReleaseCommand, 13, PDUSessionReleaseCommand),
     (MsgTypePDUSessionReleaseComplete, 14, PDUSessionReleaseComplete),
     (MsgTypeStatus5GSM, 15, Status5GSM)]"

definition gsm_encode_cases :: "(u8 \<times> nat \<times> nas_schema) list" where
  "gsm_encode_cases =
    [(MsgTypePDUSessionEstablishmentRequest, 0, PDUSessionEstablishmentRequest),
     (MsgTypePDUSessionEstablishmentAccept, 1, PDUSessionEstablishmentAccept),
     (MsgTypePDUSessionEstablishmentReject, 2, PDUSessionEstablishmentReject),
     (MsgTypePDUSessionAuthenticationCommand, 3, PDUSessionAuthenticationCommand),
     (MsgTypePDUSessionAuthenticationComplete, 4, PDUSessionAuthenticationComplete),
     (MsgTypePDUSessionAuthenticationResult, 5, PDUSessionAuthenticationResult),
     (MsgTypePDUSessionModificationRequest, 6, PDUSessionModificationRequest),
     (MsgTypePDUSessionModificationReject, 7, PDUSessionModificationReject),
     (MsgTypePDUSessionModificationCommand, 8, PDUSessionModificationCommand),
     (MsgTypePDUSessionModificationComplete, 9, PDUSessionModificationComplete),
     (MsgTypePDUSessionModificationCommandReject, 10, PDUSessionModificationCommandReject),
     (MsgTypePDUSessionReleaseRequest, 11, PDUSessionReleaseRequest),
     (MsgTypePDUSessionReleaseReject, 12, PDUSessionReleaseReject),
     (MsgTypePDUSessionReleaseCommand, 13, PDUSessionReleaseCommand),
     (MsgTypePDUSessionReleaseComplete, 14, PDUSessionReleaseComplete),
     (MsgTypeStatus5GSM, 15, Status5GSM)]"

section \<open>Decoding and encoding\<close>

text \<open>\<^verbatim>\<open>binary.Read(buffer, binary.BigEndian, &header)\<close>: a short array leaves the header as it was.\<close>

definition read_header :: "nat \<Rightarrow> bytes \<Rightarrow> bytes" where
  "read_header n byteArray = (case read_full n byteArray of (Some h, _) \<Rightarrow> h | (None, _) \<Rightarrow> replicate n 0)"

definition GmmMessageDecode :: "bytes \<Rightarrow> Message \<Rightarrow> unit res \<times> Message" where
  "GmmMessageDecode byteArray a =
     (let h = read_header 3 byteArray; g = NewGmmMessage\<lparr>GmmHeader := h\<rparr> in
      case map_of gmm_decode_cases (h ! 2) of
        None \<Rightarrow> (Inl (Err ''NAS decode Fail: MsgType doesn't exist in GMM Message''), a\<lparr>Message_Gmm := Some g\<rparr>)
      | Some (i, S) \<Rightarrow>
          (case Decode_msg S byteArray of
             Inl e \<Rightarrow> (Inl e, a\<lparr>Message_Gmm := Some g\<rparr>)
           | Inr m \<Rightarrow> (Inr (), a\<lparr>Message_Gmm := Some (g\<lparr>GmmBody := [i \<mapsto> m]\<rparr>)\<rparr>)))"

definition GsmMessageDecode :: "bytes \<Rightarrow> Message \<Rightarrow> unit res \<times> Message" where
  "GsmMessageDecode byteArray a =
     (let h = read_header 4 byteArray; g = NewGsmMessage\<lparr>GsmHeader := h\<rparr> in
      case map_of gsm_decode_cases (h ! 3) of
        None \<Rightarrow> (Inl (Err ''NAS Decode Fail: MsgType doesn't exist in GSM Message''), a\<lparr>Message_Gsm := Some g\<rparr>)
      | Some (i, S) \<Rightarrow>
          (case Decode_msg S byteArray of
             Inl e \<Rightarrow> (Inl e, a\<lparr>Message_Gsm := Some g\<rparr>)
           | Inr m \<Rightarrow> (Inr (), a\<lparr>Message_Gsm := Some (g\<lparr>GsmBody := [i \<mapsto> m]\<rparr>)\<rparr>)))"

definition PlainNasDecode :: "bytes \<Rightarrow> Message \<Rightarrow> unit res \<times> Message" where
  "PlainNasDecode byteArray a =
     (case GetEPD byteArray of
        Inl e \<Rightarrow> (Inl e, a)
      | Inr epd \<Rightarrow>
          if epd = Epd5GSMobilityManagementMessage then GmmMessageDecode byteArray a
          else if epd = Epd5GSSessionManagementMessage then GsmMessageDecode byteArray a
          else (Inl (Err ''Extended Protocol Discriminator is not allowed in Nas Message Deocde''), a))"

text \<open>A pointer that is nil makes the encoder of its message panic at the first field.\<close>

definition encode_body :: "(nat \<Rightarrow> nas_msg option) \<Rightarrow> nat \<times> nas_schema \<Rightarrow> bytes res" where
  "encode_body body = (\<lambda>(i, S). case body i of None \<Rightarrow> Inl Panic | Some m \<Rightarrow> Encode_msg S m)"

definition GmmMessageEncode :: "GmmMessage \<Rightarrow> bytes res" where
  "GmmMessageEncode g =
     (case map_of gmm_encode_cases (GmmHeader g ! 2) of
        None \<Rightarrow> Inl (Err ''NAS Encode Fail: MsgType doesn't exist in GMM Message'')
      | Some p \<Rightarrow> encode_body (GmmBody g) p)"

definition GsmMessageEncode :: "GsmMessage \<Rightarrow> bytes res" where
  "GsmMessageEncode g =
     (case map_of gsm_encode_cases (GsmHeader g ! 3) of
        None \<Rightarrow> Inl (Err ''NAS Encode Fail: MsgType doesn't exist in GSM Message'')
      | Some p \<Rightarrow> encode_body (GsmBody g) p)"

definition PlainNasEncode :: "Message \<Rightarrow> bytes res" where
  "PlainNasEncode a =
     (case Message_Gmm a of
        Some g \<Rightarrow> GmmMessageEncode g
      | None \<Rightarrow>
          (case Message_Gsm a of
             Some g \<Rightarrow> GsmMessageEncode g
           | None \<Rightarrow> Inl (Err ''Gmm/Gsm Message are both empty in Nas Message Encode'')))"

section \<open>Tables\<close>

lemma switches_agree: "gmm_encode_cases = gmm_decode_cases" "gsm_encode_cases = gsm_decode_cases"
  by (simp_all only: gmm_encode_cases_def gmm_decode_cases_def gsm_encode_cases_def gsm_decode_cases_def)

lemma dispatched_messages:
  "map (snd \<circ> snd) gmm_decode_cases = map fst gmm_messages" "map (snd \<circ> snd) gsm_decode_cases = map fst gsm_messages"
  by (simp_all only: gmm_decode_cases_def gsm_decode_cases_def gmm_messages_def gsm_messages_def list.map comp_apply fst_conv snd_conv)

lemma dispatch_distinct: "distinct (map fst gmm_decode_cases)" "distinct (map fst gsm_decode_cases)"
  by code_simp+

text \<open>Every dispatched message starts with the header: \<open>n\<close> single octets.\<close>

fun starts_with :: "nat \<Rightarrow> (mand_kind \<times> nas_type) list \<Rightarrow> bool" where
  "starts_with 0 ps \<longleftrightarrow> True"
| "starts_with (Suc n) [] \<longleftrightarrow> False"
| "starts_with (Suc n) ((k, T) # ps) \<longleftrightarrow> k = M_V \<and> octets T = 1 \<and> starts_with n ps"

lemma gmm_headers: "list_all (\<lambda>(S, L). starts_with 3 (mand L)) gmm_messages"
  by code_simp

lemma gsm_headers: "list_all (\<lambda>(S, L). starts_with 4 (mand L)) gsm_messages"
  by code_simp

lemma dispatched_gmm:
  assumes "(t, i, S) \<in> set gmm_decode_cases"
  obtains L where "(S, L) \<in> set gmm_messages"
proof -
  have "S \<in> set (map (snd \<circ> snd) gmm_decode_cases)" using assms by force
  then show ?thesis unfolding dispatched_messages using that by force
qed

lemma dispatched_gsm:
  assumes "(t, i, S) \<in> set gsm_decode_cases"
  obtains L where "(S, L) \<in> set gsm_messages"
proof -
  have "S \<in> set (map (snd \<circ> snd) gsm_decode_cases)" using assms by force
  then show ?thesis unfolding dispatched_messages using that by force
qed

lemma nas_messagesD:
  assumes "(S, L) \<in> set nas_messages"
  shows "S = compile L" "layout_ok L"
  using assms nas_messages_compiled nas_layouts_ok by (auto simp: list_all_iff)

section \<open>Round trips\<close>

text \<open>
  C9. Every NAS message whose elements agree with their types is encoded, and decoding gives the message
  back: for each of the 45 message types of the library.
\<close>

theorem nas_message_roundtrip:
  assumes "(S, L) \<in> set nas_messages" "msg_ok L m"
  shows "\<exists>bs. Encode_msg S m = Inr bs \<and> Decode_msg S bs = Inr m"
proof -
  note S = nas_messagesD [OF assms(1)]
  obtain bs where "Encode_msg (compile L) m = Inr bs"
    "\<forall>rest. Decode_msg (compile L) (bs @ rest) = decode_loop (opt_cases (compile L)) rest m"
    using compile_roundtrip [OF S(2) assms(2)] by blast
  then have "Encode_msg S m = Inr bs" "Decode_msg S bs = Inr m"
    using S(1) by (metis append_Nil2, metis append_Nil2 decode_loop.simps(1))
  then show ?thesis by blast
qed

definition sample_dnn :: nas_ie where
  "sample_dnn = \<lparr>Iei = 0x25, Len = 3, Octet = [], Buffer = [2, 110, 54]\<rparr>"

text \<open>A request of a service type and a status message, with an optional element.\<close>

definition sample_transport :: nas_msg where
  "sample_transport = (zero_msg (map snd (mand ULNASTransport_layout)))
     (tid DNN \<mapsto> sample_dnn, tid PayloadContainer \<mapsto> \<lparr>Iei = 0, Len = 2, Octet = [], Buffer = [46, 1]\<rparr>,
      tid ExtendedProtocolDiscriminator \<mapsto> \<lparr>Iei = 0, Len = 0, Octet = [0x7E], Buffer = []\<rparr>,
      tid ULNASTRANSPORTMessageIdentity \<mapsto> \<lparr>Iei = 0, Len = 0, Octet = [103], Buffer = []\<rparr>)"

lemma sample_transport_ok: "msg_ok ULNASTransport_layout sample_transport"
  unfolding msg_ok_def
  by (simp add: sample_transport_def sample_dnn_def ULNASTransport_layout_def zero_msg_def nas_type_defs zero_ie_def len_fits_def
      dom_map_of_conv_image_fst)

lemma ULNASTransport_mem: "(ULNASTransport, ULNASTransport_layout) \<in> set gmm_messages"
  by (simp add: gmm_messages_def)

theorem nas_message_roundtrip_witness:
  "\<exists>bs. Encode_msg ULNASTransport sample_transport = Inr bs \<and> Decode_msg ULNASTransport bs = Inr sample_transport"
proof -
  have "(ULNASTransport, ULNASTransport_layout) \<in> set nas_messages" using ULNASTransport_mem by (simp add: nas_messages_def)
  from nas_message_roundtrip [OF this sample_transport_ok] show ?thesis .
qed

text \<open>The octets of the first \<open>n\<close> mandatory elements, which the dispatcher reads as the header.\<close>

definition header_of :: "nat \<Rightarrow> layout \<Rightarrow> nas_msg \<Rightarrow> bytes" where
  "header_of n L m = concat (map (\<lambda>p. Octet (the (m (tid (snd p))))) (take n (mand L)))"

lemma write_header:
  assumes "starts_with n ps" "\<forall>p \<in> set ps. \<exists>a. m (tid (snd p)) = Some a \<and> mand_ok p a"
    "write_cmds m (concat (map mand_w ps)) = Inr bs"
  shows "length (concat (map (\<lambda>p. Octet (the (m (tid (snd p))))) (take n ps))) = n \<and>
    (\<exists>xs. bs = concat (map (\<lambda>p. Octet (the (m (tid (snd p))))) (take n ps)) @ xs)"
  using assms
proof (induction n ps arbitrary: bs rule: starts_with.induct)
  case (3 n k T ps)
  obtain a where a: "m (tid T) = Some a" "mand_ok (k, T) a" using "3.prems"(2) by auto
  have k: "k = M_V" "octets T = 1" "starts_with n ps" using "3.prems"(1) by simp_all
  obtain ys where ys: "write_cmds m (concat (map mand_w ps)) = Inr ys" "bs = Octet a @ ys"
    using "3.prems"(3) a(1) k(1) by (auto simp: bind_res_eq_Inr_iff)
  have "length (Octet a) = 1" using a(2) k by simp
  then show ?case using "3.IH" [OF k(3) _ ys(1)] "3.prems"(2) a(1) ys(2) by auto
qed simp_all

lemma encode_header:
  assumes L: "layout_ok L" "starts_with n (mand L)" and m: "msg_ok L m" and bs: "Encode_msg (compile L) m = Inr bs"
  shows "read_header n bs = header_of n L m"
proof -
  have M: "\<forall>p \<in> set (mand L). \<exists>a. m (tid (snd p)) = Some a \<and> mand_ok p a" using m by (fastforce simp: msg_ok_def)
  obtain xs ys where "write_cmds m (concat (map mand_w (mand L))) = Inr xs" "bs = xs @ ys"
    using bs by (auto simp: Encode_msg_def compile_def encode_stmts_append encode_Write bind_res_eq_Inr_iff)
  moreover from write_header [OF L(2) M this(1)] obtain zs where
    "length (header_of n L m) = n" "xs = header_of n L m @ zs" unfolding header_of_def by blast
  ultimately show ?thesis by (simp add: read_header_def)
qed

text \<open>
  A message as the network functions build it: one pointer is set, the header agrees with the message.
\<close>

definition plain_message :: "Message \<Rightarrow> bool" where
  "plain_message a \<longleftrightarrow>
     (\<exists>s t i S L m. (t, i, S) \<in> set gmm_encode_cases \<and> (S, L) \<in> set gmm_messages \<and> msg_ok L m \<and>
        header_of 3 L m = [Epd5GSMobilityManagementMessage, s, t] \<and>
        a = NewMessage\<lparr>Message_Gmm := Some \<lparr>GmmHeader = [Epd5GSMobilityManagementMessage, s, t], GmmBody = [i \<mapsto> m]\<rparr>\<rparr>) \<or>
     (\<exists>p q t i S L m. (t, i, S) \<in> set gsm_encode_cases \<and> (S, L) \<in> set gsm_messages \<and> msg_ok L m \<and>
        header_of 4 L m = [Epd5GSSessionManagementMessage, p, q, t] \<and>
        a = NewMessage\<lparr>Message_Gsm := Some \<lparr>GsmHeader = [Epd5GSSessionManagementMessage, p, q, t], GsmBody = [i \<mapsto> m]\<rparr>\<rparr>)"

lemma header_hd: "read_header n bs = e # h \<Longrightarrow> e \<noteq> 0 \<Longrightarrow> GetEPD bs = Inr e"
  by (cases bs; cases n) (auto simp: read_header_def read_full_def GetEPD_def split: if_splits)

lemma message_bytes:
  assumes "(S, L) \<in> set nas_messages" "starts_with n (mand L)" "msg_ok L m"
  obtains bs where "Encode_msg S m = Inr bs" "Decode_msg S bs = Inr m" "read_header n bs = header_of n L m"
proof -
  note S = nas_messagesD [OF assms(1)]
  obtain bs where bs: "Encode_msg S m = Inr bs" "Decode_msg S bs = Inr m"
  proof -
    obtain bs where "Encode_msg (compile L) m = Inr bs"
      "\<And>rest. Decode_msg (compile L) (bs @ rest) = decode_loop (opt_cases (compile L)) rest m"
      using compile_roundtrip [OF S(2) assms(3)] by blast
    with S(1) show ?thesis using that [of bs] by (metis append_Nil2 decode_loop.simps(1))
  qed
  with encode_header [OF S(2) assms(2,3)] S(1) show ?thesis using that by blast
qed

lemma gmm_roundtrip:
  assumes "(t, i, S) \<in> set gmm_encode_cases" "(S, L) \<in> set gmm_messages" "msg_ok L m"
    "header_of 3 L m = [Epd5GSMobilityManagementMessage, s, t]"
  shows "\<exists>bs. PlainNasEncode (NewMessage\<lparr>Message_Gmm := Some \<lparr>GmmHeader = [Epd5GSMobilityManagementMessage, s, t], GmmBody = [i \<mapsto> m]\<rparr>\<rparr>) = Inr bs \<and>
    PlainNasDecode bs NewMessage =
      (Inr (), NewMessage\<lparr>Message_Gmm := Some \<lparr>GmmHeader = [Epd5GSMobilityManagementMessage, s, t], GmmBody = [i \<mapsto> m]\<rparr>\<rparr>)"
proof -
  have sw: "map_of gmm_decode_cases t = Some (i, S)"
    using assms(1) dispatch_distinct(1) unfolding switches_agree by (simp add: map_of_is_SomeI)
  have mem: "(S, L) \<in> set nas_messages" "starts_with 3 (mand L)"
    using assms(2) gmm_headers by (auto simp: nas_messages_def list_all_iff)
  obtain bs where bs: "Encode_msg S m = Inr bs" "Decode_msg S bs = Inr m" "read_header 3 bs = header_of 3 L m"
    by (rule message_bytes [OF mem assms(3)])
  have "GetEPD bs = Inr Epd5GSMobilityManagementMessage"
    by (rule header_hd [OF bs(3) [unfolded assms(4)]]) (simp add: Epd5GSMobilityManagementMessage_def)
  then show ?thesis using bs sw assms(4)
    by (intro exI [of _ bs]) (simp add: PlainNasEncode_def GmmMessageEncode_def encode_body_def switches_agree
      PlainNasDecode_def GmmMessageDecode_def NewGmmMessage_def)
qed

lemma gsm_roundtrip:
  assumes "(t, i, S) \<in> set gsm_encode_cases" "(S, L) \<in> set gsm_messages" "msg_ok L m"
    "header_of 4 L m = [Epd5GSSessionManagementMessage, p, q, t]"
  shows "\<exists>bs. PlainNasEncode (NewMessage\<lparr>Message_Gsm := Some \<lparr>GsmHeader = [Epd5GSSessionManagementMessage, p, q, t], GsmBody = [i \<mapsto> m]\<rparr>\<rparr>) = Inr bs \<and>
    PlainNasDecode bs NewMessage =
      (Inr (), NewMessage\<lparr>Message_Gsm := Some \<lparr>GsmHeader = [Epd5GSSessionManagementMessage, p, q, t], GsmBody = [i \<mapsto> m]\<rparr>\<rparr>)"
proof -
  have sw: "map_of gsm_decode_cases t = Some (i, S)"
    using assms(1) dispatch_distinct(2) unfolding switches_agree by (simp add: map_of_is_SomeI)
  have mem: "(S, L) \<in> set nas_messages" "starts_with 4 (mand L)"
    using assms(2) gsm_headers by (auto simp: nas_messages_def list_all_iff)
  obtain bs where bs: "Encode_msg S m = Inr bs" "Decode_msg S bs = Inr m" "read_header 4 bs = header_of 4 L m"
    by (rule message_bytes [OF mem assms(3)])
  have "GetEPD bs = Inr Epd5GSSessionManagementMessage"
    by (rule header_hd [OF bs(3) [unfolded assms(4)]]) (simp add: Epd5GSSessionManagementMessage_def)
  then show ?thesis using bs sw assms(4)
    by (intro exI [of _ bs]) (simp add: PlainNasEncode_def GsmMessageEncode_def encode_body_def switches_agree
      PlainNasDecode_def GsmMessageDecode_def NewGsmMessage_def NewMessage_def
      Epd5GSSessionManagementMessage_def Epd5GSMobilityManagementMessage_def)
qed

text \<open>
  C3. A plain NAS message, of mobility management or of session management, survives
  \<^verbatim>\<open>PlainNasEncode\<close> and \<^verbatim>\<open>PlainNasDecode\<close>: header, message and optional elements.
\<close>

theorem plain_nas_roundtrip:
  assumes "plain_message a"
  shows "\<exists>bs. PlainNasEncode a = Inr bs \<and> PlainNasDecode bs NewMessage = (Inr (), a)"
  using assms unfolding plain_message_def by (elim disjE exE conjE) (use gmm_roundtrip gsm_roundtrip in blast)+

definition sample_plain :: Message where
  "sample_plain = NewMessage\<lparr>Message_Gmm :=
     Some \<lparr>GmmHeader = [Epd5GSMobilityManagementMessage, 0, 103], GmmBody = [9 \<mapsto> sample_transport]\<rparr>\<rparr>"

lemma sample_plain_ok: "plain_message sample_plain"
proof -
  have "(103, 9, ULNASTransport) \<in> set gmm_encode_cases"
    by (simp add: gmm_encode_cases_def MsgTypeULNASTransport_def)
  moreover have "header_of 3 ULNASTransport_layout sample_transport = [Epd5GSMobilityManagementMessage, 0, 103]"
    by (simp add: header_of_def ULNASTransport_layout_def sample_transport_def zero_msg_def nas_type_defs zero_ie_def
        Epd5GSMobilityManagementMessage_def)
  ultimately show ?thesis
    using ULNASTransport_mem sample_transport_ok unfolding plain_message_def sample_plain_def by blast
qed

theorem plain_nas_roundtrip_witness:
  "\<exists>bs. PlainNasEncode sample_plain = Inr bs \<and> PlainNasDecode bs NewMessage = (Inr (), sample_plain)"
  by (rule plain_nas_roundtrip [OF sample_plain_ok])

end
