(* ===== verification/NAS_Safety.thy ===== *)
theory NAS_Safety
  imports NAS
begin

text \<open>
  What \<^verbatim>\<open>PlainNasDecode\<close> does with arbitrary octets, as they arrive from user equipment before it is
  authenticated: when it panics, when it returns an error, and how it treats unknown elements.
\<close>

section \<open>Panics\<close>

text \<open>
  C12. The decoder of a NAS message can panic exactly when the message has an optional element that is
  read into an array by its announced length. For such an element, any well-formed message followed by the
  identifier and a length one above the array makes the decoder panic.
\<close>

theorem nas_decode_panics_iff:
  assumes "(S, L) \<in> set nas_messages"
  shows "((\<exists>bs. Decode_msg S bs = Inl Panic) \<longleftrightarrow> has_prefix L) \<and>
    (\<forall>c T m. (O_TLP, c, T) \<in> set (opts L) \<longrightarrow> msg_ok L m \<longrightarrow>
       (\<exists>bs. Encode_msg S m = Inr bs \<and> Decode_msg S (bs @ overlong c T) = Inl Panic))"
proof -
  note S = nas_messagesD [OF assms]
  have p: "\<exists>bs. Encode_msg S m = Inr bs \<and> Decode_msg S (bs @ overlong c T) = Inl Panic"
    if "(O_TLP, c, T) \<in> set (opts L)" "msg_ok L m" for c T m
    using compile_panics [OF S(2) that, of "[]"] S(1) by simp
  have "has_prefix L" if "Decode_msg S bs = Inl Panic" for bs
    using compile_total [OF S(2), of bs] that S(1) by fastforce
  moreover have "\<exists>bs. Decode_msg S bs = Inl Panic" if "has_prefix L"
    using that p zero_msg_ok [OF S(2)] by (fastforce simp: has_prefix_def list_ex_iff)
  ultimately show ?thesis using p by blast
qed

theorem nas_decode_panics_iff_witness:
  "(\<exists>bs. Encode_msg ULNASTransport sample_transport = Inr bs \<and> Decode_msg ULNASTransport (bs @ [0x22, 9]) = Inl Panic) \<and>
   (\<forall>bs. Decode_msg RegistrationComplete bs \<noteq> Inl Panic)"
proof -
  have "(ULNASTransport, ULNASTransport_layout) \<in> set nas_messages"
    "(RegistrationComplete, RegistrationComplete_layout) \<in> set nas_messages"
    by (simp_all add: nas_messages_def gmm_messages_def)
  note m = this [THEN nas_decode_panics_iff]
  have "(O_TLP, 0x22, SNSSAI) \<in> set (opts ULNASTransport_layout)" "overlong 0x22 SNSSAI = [0x22, 9]"
    by (simp_all add: ULNASTransport_layout_def overlong_def SNSSAI_def)
  moreover have "\<not> has_prefix RegistrationComplete_layout" by (simp add: has_prefix_def RegistrationComplete_layout_def)
  ultimately show ?thesis using m sample_transport_ok by metis
qed

section \<open>Errors\<close>



section \<open>Unknown elements\<close>

lemma decode_loop_unknown:
  "find_case cs (tmpIei x) = None \<Longrightarrow> decode_loop cs (x # rest) m = decode_loop cs rest m"
  by simp

text \<open>
  C32. An octet that is no identifier of the message is skipped on its own: after a well-formed message, the
  decoder reads the length and the value of an unknown element as further elements, so that a known
  element inside the value of an unknown one is taken for an element of the message.
\<close>

theorem unknown_element_opened:
  assumes "(S, L) \<in> set nas_messages" "msg_ok L m"
    and "\<forall>x \<in> set junk. tmpIei x \<notin> set (map (fst \<circ> snd) (opts L))"
  shows "\<exists>bs. Encode_msg S m = Inr bs \<and> (\<forall>rest. Decode_msg S (bs @ junk @ rest) = Decode_msg S (bs @ rest))"
proof -
  note S = nas_messagesD [OF assms(1)]
  obtain bs where bs: "Encode_msg (compile L) m = Inr bs"
    "\<And>rest. Decode_msg (compile L) (bs @ rest) = decode_loop (opt_cases (compile L)) rest m"
    using compile_roundtrip [OF S(2) assms(2)] by blast
  have none: "find_case cs t = None" if "t \<notin> set (map fst cs)" for cs t
    using that by (induction cs) auto
  have "map fst (opt_cases (compile L)) = map (fst \<circ> snd) (opts L)" by (simp add: compile_def comp_def case_prod_beta)
  with assms(3) none have "\<forall>x \<in> set junk. find_case (opt_cases (compile L)) (tmpIei x) = None" by metis
  then have "decode_loop (opt_cases (compile L)) (junk @ rest) m' = decode_loop (opt_cases (compile L)) rest m'" for rest m'
    by (induction junk) simp_all
  then show ?thesis using bs S(1) by auto
qed

theorem unknown_element_opened_witness:
  "\<exists>bs. Encode_msg ULNASTransport sample_transport = Inr bs \<and>
     Decode_msg ULNASTransport (bs @ [0x70, 2] @ [0x12, 5]) = Decode_msg ULNASTransport (bs @ [0x12, 5])"
proof -
  have "(ULNASTransport, ULNASTransport_layout) \<in> set nas_messages" using ULNASTransport_mem by (simp add: nas_messages_def)
  moreover have "\<forall>x \<in> set [0x70, 2]. tmpIei x \<notin> set (map (fst \<circ> snd) (opts ULNASTransport_layout))"
    by (simp add: ULNASTransport_layout_def tmpIei_def)
  ultimately show ?thesis using unknown_element_opened [OF _ sample_transport_ok] by blast
qed

end
