(* ===== verification/NAS_Field_Table.thy ===== *)
theory NAS_Field_Table
  imports NAS_IE
begin

text \<open>
  The accessors of \<^verbatim>\<open>lib/nas/nasType\<close>: one definition per pair of a getter and a setter, with the numbers that
  the two functions have, and one list of the fields per type.
\<close>

subsection \<open>ABBA\<close>

definition ABBA_ABBAContents :: range_field where "ABBA_ABBAContents = Tail 0"

subsection \<open>Additional5GSecurityInformation\<close>

definition Additional5GSecurityInformation_RINMR :: byte_field where "Additional5GSecurityInformation_RINMR = Bits In_Octet 0 (2, 1) 1 (253, 1, 1)"
definition Additional5GSecurityInformation_HDP :: byte_field where "Additional5GSecurityInformation_HDP = Bits In_Octet 0 (1, 0) 0 (254, 1, 0)"

definition Additional5GSecurityInformation_fields :: "byte_field list" where
  "Additional5GSecurityInformation_fields =
    [Additional5GSecurityInformation_RINMR, Additional5GSecurityInformation_HDP]"

subsection \<open>AdditionalGUTI\<close>

definition AdditionalGUTI_Spare :: byte_field where "AdditionalGUTI_Spare = Bits In_Octet 0 (4, 3) 3 (247, 1, 3)"
definition AdditionalGUTI_TypeOfIdentity :: byte_field where "AdditionalGUTI_TypeOfIdentity = Bits In_Octet 0 (3, 0) 0 (248, 7, 0)"
definition AdditionalGUTI_MCCDigit2 :: byte_field where "AdditionalGUTI_MCCDigit2 = Bits In_Octet 1 (8, 4) 4 (15, 15, 4)"
definition AdditionalGUTI_MCCDigit1 :: byte_field where "AdditionalGUTI_MCCDigit1 = Bits In_Octet 1 (4, 0) 0 (240, 15, 0)"
definition AdditionalGUTI_MNCDigit3 :: byte_field where "AdditionalGUTI_MNCDigit3 = Bits In_Octet 2 (8, 4) 4 (15, 15, 4)"
definition AdditionalGUTI_MCCDigit3 :: byte_field where "AdditionalGUTI_MCCDigit3 = Bits In_Octet 2 (4, 0) 0 (240, 15, 0)"
definition AdditionalGUTI_MNCDigit2 :: byte_field where "AdditionalGUTI_MNCDigit2 = Bits In_Octet 3 (8, 4) 4 (15, 15, 4)"
definition AdditionalGUTI_MNCDigit1 :: byte_field where "AdditionalGUTI_MNCDigit1 = Bits In_Octet 3 (4, 0) 0 (240, 15, 0)"
definition AdditionalGUTI_AMFRegionID :: byte_field where "AdditionalGUTI_AMFRegionID = Whole In_Octet 4"
definition AdditionalGUTI_AMFPointer :: byte_field where "AdditionalGUTI_AMFPointer = Bits In_Octet 6 (6, 0) 0 (192, 63, 0)"
definition AdditionalGUTI_TMSI5G :: range_field where "AdditionalGUTI_TMSI5G = Range In_Octet 7 11"
definition AdditionalGUTI_AMFSetID :: ten_field where "AdditionalGUTI_AMFSetID = Ten_bits 5"

definition AdditionalGUTI_fields :: "byte_field list" where
  "AdditionalGUTI_fields =
    [AdditionalGUTI_Spare, AdditionalGUTI_TypeOfIdentity, AdditionalGUTI_MCCDigit2, AdditionalGUTI_MCCDigit1,
     AdditionalGUTI_MNCDigit3, AdditionalGUTI_MCCDigit3, AdditionalGUTI_MNCDigit2, AdditionalGUTI_MNCDigit1,
     AdditionalGUTI_AMFRegionID, AdditionalGUTI_AMFPointer]"

subsection \<open>AdditionalInformation\<close>

definition AdditionalInformation_AdditionalInformationValue :: range_field where "AdditionalInformation_AdditionalInformationValue = Tail 0"

subsection \<open>AllowedNSSAI\<close>

definition AllowedNSSAI_SNSSAIValue :: range_field where "AllowedNSSAI_SNSSAIValue = Tail 0"

subsection \<open>AllowedPDUSessionStatus\<close>

definition AllowedPDUSessionStatus_PSI7 :: byte_field where "AllowedPDUSessionStatus_PSI7 = Bits In_Buffer 0 (8, 7) 7 (127, 1, 7)"
definition AllowedPDUSessionStatus_PSI6 :: byte_field where "AllowedPDUSessionStatus_PSI6 = Bits In_Buffer 0 (7, 6) 6 (191, 1, 6)"
definition AllowedPDUSessionStatus_PSI5 :: byte_field where "AllowedPDUSessionStatus_PSI5 = Bits In_Buffer 0 (6, 5) 5 (223, 1, 5)"
definition AllowedPDUSessionStatus_PSI4 :: byte_field where "AllowedPDUSessionStatus_PSI4 = Bits In_Buffer 0 (5, 4) 4 (239, 1, 4)"
definition AllowedPDUSessionStatus_PSI3 :: byte_field where "AllowedPDUSessionStatus_PSI3 = Bits In_Buffer 0 (4, 3) 3 (247, 1, 3)"
definition AllowedPDUSessionStatus_PSI2 :: byte_field where "AllowedPDUSessionStatus_PSI2 = Bits In_Buffer 0 (3, 2) 2 (251, 1, 2)"
definition AllowedPDUSessionStatus_PSI1 :: byte_field where "AllowedPDUSessionStatus_PSI1 = Bits In_Buffer 0 (2, 1) 1 (253, 1, 1)"
definition AllowedPDUSessionStatus_PSI0 :: byte_field where "AllowedPDUSessionStatus_PSI0 = Bits In_Buffer 0 (1, 0) 0 (254, 1, 0)"
definition AllowedPDUSessionStatus_PSI15 :: byte_field where "AllowedPDUSessionStatus_PSI15 = Bits In_Buffer 1 (8, 7) 7 (127, 1, 7)"
definition AllowedPDUSessionStatus_PSI14 :: byte_field where "AllowedPDUSessionStatus_PSI14 = Bits In_Buffer 1 (7, 6) 6 (191, 1, 6)"
definition AllowedPDUSessionStatus_PSI13 :: byte_field where "AllowedPDUSessionStatus_PSI13 = Bits In_Buffer 1 (6, 5) 5 (223, 1, 5)"
definition AllowedPDUSessionStatus_PSI12 :: byte_field where "AllowedPDUSessionStatus_PSI12 = Bits In_Buffer 1 (5, 4) 4 (239, 1, 4)"
definition AllowedPDUSessionStatus_PSI11 :: byte_field where "AllowedPDUSessionStatus_PSI11 = Bits In_Buffer 1 (4, 3) 3 (247, 1, 3)"
definition AllowedPDUSessionStatus_PSI10 :: byte_field where "AllowedPDUSessionStatus_PSI10 = Bits In_Buffer 1 (3, 2) 2 (251, 1, 2)"
definition AllowedPDUSessionStatus_PSI9 :: byte_field where "AllowedPDUSessionStatus_PSI9 = Bits In_Buffer 1 (2, 1) 1 (253, 1, 1)"
definition AllowedPDUSessionStatus_PSI8 :: byte_field where "AllowedPDUSessionStatus_PSI8 = Bits In_Buffer 1 (1, 0) 0 (254, 1, 0)"
definition AllowedPDUSessionStatus_Spare :: range_field where "AllowedPDUSessionStatus_Spare = Tail 2"

definition AllowedPDUSessionStatus_fields :: "byte_field list" where
  "AllowedPDUSessionStatus_fields =
    [AllowedPDUSessionStatus_PSI7, AllowedPDUSessionStatus_PSI6, AllowedPDUSessionStatus_PSI5,
     AllowedPDUSessionStatus_PSI4, AllowedPDUSessionStatus_PSI3, AllowedPDUSessionStatus_PSI2,
     AllowedPDUSessionStatus_PSI1, AllowedPDUSessionStatus_PSI0, AllowedPDUSessionStatus_PSI15,
     AllowedPDUSessionStatus_PSI14, AllowedPDUSessionStatus_PSI13, AllowedPDUSessionStatus_PSI12,
     AllowedPDUSessionStatus_PSI11, AllowedPDUSessionStatus_PSI10, AllowedPDUSessionStatus_PSI9,
     AllowedPDUSessionStatus_PSI8]"

subsection \<open>AllowedSSCMode\<close>

definition AllowedSSCMode_Iei :: byte_field where "AllowedSSCMode_Iei = Bits In_Octet 0 (8, 4) 4 (15, 15, 4)"
definition AllowedSSCMode_SSC3 :: byte_field where "AllowedSSCMode_SSC3 = Bits In_Octet 0 (3, 2) 2 (251, 1, 2)"
definition AllowedSSCMode_SSC2 :: byte_field where "AllowedSSCMode_SSC2 = Bits In_Octet 0 (2, 1) 1 (253, 1, 1)"
definition AllowedSSCMode_SSC1 :: byte_field where "AllowedSSCMode_SSC1 = Bits In_Octet 0 (1, 0) 0 (254, 1, 0)"

definition AllowedSSCMode_fields :: "byte_field list" where
  "AllowedSSCMode_fields =
    [AllowedSSCMode_Iei, AllowedSSCMode_SSC3, AllowedSSCMode_SSC2, AllowedSSCMode_SSC1]"

subsection \<open>AlwaysonPDUSessionIndication\<close>

definition AlwaysonPDUSessionIndication_Iei :: byte_field where "AlwaysonPDUSessionIndication_Iei = Bits In_Octet 0 (8, 4) 4 (15, 15, 4)"
definition AlwaysonPDUSessionIndication_APSI :: byte_field where "AlwaysonPDUSessionIndication_APSI = Bits In_Octet 0 (1, 0) 0 (254, 1, 0)"

definition AlwaysonPDUSessionIndication_fields :: "byte_field list" where
  "AlwaysonPDUSessionIndication_fields =
    [AlwaysonPDUSessionIndication_Iei, AlwaysonPDUSessionIndication_APSI]"

subsection \<open>AlwaysonPDUSessionRequested\<close>

definition AlwaysonPDUSessionRequested_Iei :: byte_field where "AlwaysonPDUSessionRequested_Iei = Bits In_Octet 0 (8, 4) 4 (15, 15, 4)"
definition AlwaysonPDUSessionRequested_APSR :: byte_field where "AlwaysonPDUSessionRequested_APSR = Bits In_Octet 0 (1, 0) 0 (254, 1, 0)"

definition AlwaysonPDUSessionRequested_fields :: "byte_field list" where
  "AlwaysonPDUSessionRequested_fields =
    [AlwaysonPDUSessionRequested_Iei, AlwaysonPDUSessionRequested_APSR]"

subsection \<open>AuthenticationFailureMessageIdentity\<close>

definition AuthenticationFailureMessageIdentity_MessageType :: byte_field where "AuthenticationFailureMessageIdentity_MessageType = Whole In_Octet 0"

definition AuthenticationFailureMessageIdentity_fields :: "byte_field list" where
  "AuthenticationFailureMessageIdentity_fields =
    [AuthenticationFailureMessageIdentity_MessageType]"

subsection \<open>AuthenticationFailureParameter\<close>

definition AuthenticationFailureParameter_AuthenticationFailureParameter :: range_field where "AuthenticationFailureParameter_AuthenticationFailureParameter = Range In_Octet 0 14"

subsection \<open>AuthenticationParameterAUTN\<close>

definition AuthenticationParameterAUTN_AUTN :: range_field where "AuthenticationParameterAUTN_AUTN = Range In_Octet 0 16"

subsection \<open>AuthenticationParameterRAND\<close>

definition AuthenticationParameterRAND_RANDValue :: range_field where "AuthenticationParameterRAND_RANDValue = Range In_Octet 0 16"

subsection \<open>AuthenticationRejectMessageIdentity\<close>

definition AuthenticationRejectMessageIdentity_MessageType :: byte_field where "AuthenticationRejectMessageIdentity_MessageType = Whole In_Octet 0"

definition AuthenticationRejectMessageIdentity_fields :: "byte_field list" where
  "AuthenticationRejectMessageIdentity_fields =
    [AuthenticationRejectMessageIdentity_MessageType]"

subsection \<open>AuthenticationRequestMessageIdentity\<close>

definition AuthenticationRequestMessageIdentity_MessageType :: byte_field where "AuthenticationRequestMessageIdentity_MessageType = Whole In_Octet 0"

definition AuthenticationRequestMessageIdentity_fields :: "byte_field list" where
  "AuthenticationRequestMessageIdentity_fields =
    [AuthenticationRequestMessageIdentity_MessageType]"

subsection \<open>AuthenticationResponseMessageIdentity\<close>

definition AuthenticationResponseMessageIdentity_MessageType :: byte_field where "AuthenticationResponseMessageIdentity_MessageType = Whole In_Octet 0"

definition AuthenticationResponseMessageIdentity_fields :: "byte_field list" where
  "AuthenticationResponseMessageIdentity_fields =
    [AuthenticationResponseMessageIdentity_MessageType]"

subsection \<open>AuthenticationResponseParameter\<close>

definition AuthenticationResponseParameter_RES :: range_field where "AuthenticationResponseParameter_RES = Range In_Octet 0 16"

subsection \<open>AuthenticationResultMessageIdentity\<close>

definition AuthenticationResultMessageIdentity_MessageType :: byte_field where "AuthenticationResultMessageIdentity_MessageType = Whole In_Octet 0"

definition AuthenticationResultMessageIdentity_fields :: "byte_field list" where
  "AuthenticationResultMessageIdentity_fields =
    [AuthenticationResultMessageIdentity_MessageType]"

subsection \<open>AuthorizedQosFlowDescriptions\<close>

definition AuthorizedQosFlowDescriptions_QoSFlowDescriptions :: range_field where "AuthorizedQosFlowDescriptions_QoSFlowDescriptions = Tail 0"

subsection \<open>AuthorizedQosRules\<close>

definition AuthorizedQosRules_QosRule :: range_field where "AuthorizedQosRules_QosRule = Tail 0"

subsection \<open>BackoffTimerValue\<close>

definition BackoffTimerValue_UnitTimerValue :: byte_field where "BackoffTimerValue_UnitTimerValue = Bits In_Octet 0 (8, 5) 5 (31, 7, 5)"
definition BackoffTimerValue_TimerValue :: byte_field where "BackoffTimerValue_TimerValue = Bits In_Octet 0 (5, 0) 0 (224, 31, 0)"

definition BackoffTimerValue_fields :: "byte_field list" where
  "BackoffTimerValue_fields =
    [BackoffTimerValue_UnitTimerValue, BackoffTimerValue_TimerValue]"

subsection \<open>Capability5GMM\<close>

definition Capability5GMM_LPP :: byte_field where "Capability5GMM_LPP = Bits In_Octet 0 (3, 2) 2 (251, 1, 2)"
definition Capability5GMM_HOAttach :: byte_field where "Capability5GMM_HOAttach = Bits In_Octet 0 (2, 1) 1 (253, 1, 1)"
definition Capability5GMM_S1Mode :: byte_field where "Capability5GMM_S1Mode = Bits In_Octet 0 (1, 0) 0 (254, 1, 0)"
definition Capability5GMM_Spare :: range_field where "Capability5GMM_Spare = Range In_Octet 1 13"

definition Capability5GMM_fields :: "byte_field list" where
  "Capability5GMM_fields =
    [Capability5GMM_LPP, Capability5GMM_HOAttach, Capability5GMM_S1Mode]"

subsection \<open>Capability5GSM\<close>

definition Capability5GSM_MH6PDU :: byte_field where "Capability5GSM_MH6PDU = Bits In_Octet 0 (2, 1) 1 (253, 1, 1)"
definition Capability5GSM_RqoS :: byte_field where "Capability5GSM_RqoS = Bits In_Octet 0 (1, 0) 0 (254, 1, 0)"
definition Capability5GSM_Spare :: range_field where "Capability5GSM_Spare = Range In_Octet 1 13"

definition Capability5GSM_fields :: "byte_field list" where
  "Capability5GSM_fields =
    [Capability5GSM_MH6PDU, Capability5GSM_RqoS]"

subsection \<open>Cause5GMM\<close>

definition Cause5GMM_CauseValue :: byte_field where "Cause5GMM_CauseValue = Whole In_Octet 0"

definition Cause5GMM_fields :: "byte_field list" where
  "Cause5GMM_fields =
    [Cause5GMM_CauseValue]"

subsection \<open>Cause5GSM\<close>

definition Cause5GSM_CauseValue :: byte_field where "Cause5GSM_CauseValue = Whole In_Octet 0"

definition Cause5GSM_fields :: "byte_field list" where
  "Cause5GSM_fields =
    [Cause5GSM_CauseValue]"

subsection \<open>ConfigurationUpdateCommandMessageIdentity\<close>

definition ConfigurationUpdateCommandMessageIdentity_MessageType :: byte_field where "ConfigurationUpdateCommandMessageIdentity_MessageType = Whole In_Octet 0"

definition ConfigurationUpdateCommandMessageIdentity_fields :: "byte_field list" where
  "ConfigurationUpdateCommandMessageIdentity_fields =
    [ConfigurationUpdateCommandMessageIdentity_MessageType]"

subsection \<open>ConfigurationUpdateCompleteMessageIdentity\<close>

definition ConfigurationUpdateCompleteMessageIdentity_MessageType :: byte_field where "ConfigurationUpdateCompleteMessageIdentity_MessageType = Whole In_Octet 0"

definition ConfigurationUpdateCompleteMessageIdentity_fields :: "byte_field list" where
  "ConfigurationUpdateCompleteMessageIdentity_fields =
    [ConfigurationUpdateCompleteMessageIdentity_MessageType]"

subsection \<open>ConfigurationUpdateIndication\<close>

definition ConfigurationUpdateIndication_Iei :: byte_field where "ConfigurationUpdateIndication_Iei = Bits In_Octet 0 (8, 4) 4 (15, 15, 4)"
definition ConfigurationUpdateIndication_RED :: byte_field where "ConfigurationUpdateIndication_RED = Bits In_Octet 0 (2, 1) 1 (253, 1, 1)"
definition ConfigurationUpdateIndication_ACK :: byte_field where "ConfigurationUpdateIndication_ACK = Bits In_Octet 0 (1, 0) 0 (254, 1, 0)"

definition ConfigurationUpdateIndication_fields :: "byte_field list" where
  "ConfigurationUpdateIndication_fields =
    [ConfigurationUpdateIndication_Iei, ConfigurationUpdateIndication_RED, ConfigurationUpdateIndication_ACK]"

subsection \<open>ConfiguredNSSAI\<close>

definition ConfiguredNSSAI_SNSSAIValue :: range_field where "ConfiguredNSSAI_SNSSAIValue = Tail 0"

subsection \<open>DLNASTRANSPORTMessageIdentity\<close>

definition DLNASTRANSPORTMessageIdentity_MessageType :: byte_field where "DLNASTRANSPORTMessageIdentity_MessageType = Whole In_Octet 0"

definition DLNASTRANSPORTMessageIdentity_fields :: "byte_field list" where
  "DLNASTRANSPORTMessageIdentity_fields =
    [DLNASTRANSPORTMessageIdentity_MessageType]"

subsection \<open>DeregistrationAcceptMessageIdentity\<close>

definition DeregistrationAcceptMessageIdentity_MessageType :: byte_field where "DeregistrationAcceptMessageIdentity_MessageType = Whole In_Octet 0"

definition DeregistrationAcceptMessageIdentity_fields :: "byte_field list" where
  "DeregistrationAcceptMessageIdentity_fields =
    [DeregistrationAcceptMessageIdentity_MessageType]"

subsection \<open>DeregistrationRequestMessageIdentity\<close>

definition DeregistrationRequestMessageIdentity_MessageType :: byte_field where "DeregistrationRequestMessageIdentity_MessageType = Whole In_Octet 0"

definition DeregistrationRequestMessageIdentity_fields :: "byte_field list" where
  "DeregistrationRequestMessageIdentity_fields =
    [DeregistrationRequestMessageIdentity_MessageType]"

subsection \<open>EAPMessage\<close>

definition EAPMessage_EAPMessage :: range_field where "EAPMessage_EAPMessage = Tail 0"

subsection \<open>EPSNASMessageContainer\<close>

definition EPSNASMessageContainer_EPANASMessageContainer :: range_field where "EPSNASMessageContainer_EPANASMessageContainer = Tail 0"

subsection \<open>EmergencyNumberList\<close>

definition EmergencyNumberList_Lengthof1EmergencyNumberInformation :: byte_field where "EmergencyNumberList_Lengthof1EmergencyNumberInformation = Whole In_Buffer 0"
definition EmergencyNumberList_EmergencyServiceCategoryValue :: byte_field where "EmergencyNumberList_EmergencyServiceCategoryValue = Bits In_Buffer 1 (5, 0) 0 (224, 31, 0)"
definition EmergencyNumberList_EmergencyInformation :: range_field where "EmergencyNumberList_EmergencyInformation = Tail 0"

definition EmergencyNumberList_fields :: "byte_field list" where
  "EmergencyNumberList_fields =
    [EmergencyNumberList_Lengthof1EmergencyNumberInformation, EmergencyNumberList_EmergencyServiceCategoryValue]"

subsection \<open>EquivalentPlmns\<close>

definition EquivalentPlmns_MCCDigit2PLMN1 :: byte_field where "EquivalentPlmns_MCCDigit2PLMN1 = Bits In_Octet 0 (8, 4) 4 (15, 15, 4)"
definition EquivalentPlmns_MCCDigit1PLMN1 :: byte_field where "EquivalentPlmns_MCCDigit1PLMN1 = Bits In_Octet 0 (4, 0) 0 (240, 15, 0)"
definition EquivalentPlmns_MNCDigit3PLMN1 :: byte_field where "EquivalentPlmns_MNCDigit3PLMN1 = Bits In_Octet 1 (8, 4) 4 (15, 15, 4)"
definition EquivalentPlmns_MCCDigit3PLMN1 :: byte_field where "EquivalentPlmns_MCCDigit3PLMN1 = Bits In_Octet 1 (4, 0) 0 (240, 15, 0)"
definition EquivalentPlmns_MNCDigit2PLMN1 :: byte_field where "EquivalentPlmns_MNCDigit2PLMN1 = Bits In_Octet 2 (8, 4) 4 (15, 15, 4)"
definition EquivalentPlmns_MNCDigit1PLMN1 :: byte_field where "EquivalentPlmns_MNCDigit1PLMN1 = Bits In_Octet 2 (4, 0) 0 (240, 15, 0)"
definition EquivalentPlmns_MCCDigit2PLMN2 :: byte_field where "EquivalentPlmns_MCCDigit2PLMN2 = Bits In_Octet 3 (8, 4) 4 (15, 15, 4)"
definition EquivalentPlmns_MCCDigit1PLMN2 :: byte_field where "EquivalentPlmns_MCCDigit1PLMN2 = Bits In_Octet 3 (4, 0) 0 (240, 15, 0)"
definition EquivalentPlmns_MNCDigit3PLMN2 :: byte_field where "EquivalentPlmns_MNCDigit3PLMN2 = Bits In_Octet 4 (8, 4) 4 (15, 15, 4)"
definition EquivalentPlmns_MCCDigit3PLMN2 :: byte_field where "EquivalentPlmns_MCCDigit3PLMN2 = Bits In_Octet 4 (4, 0) 0 (240, 15, 0)"
definition EquivalentPlmns_MNCDigit2PLMN2 :: byte_field where "EquivalentPlmns_MNCDigit2PLMN2 = Bits In_Octet 5 (8, 4) 4 (15, 15, 4)"
definition EquivalentPlmns_MNCDigit1PLMN2 :: byte_field where "EquivalentPlmns_MNCDigit1PLMN2 = Bits In_Octet 5 (4, 0) 0 (240, 15, 0)"
definition EquivalentPlmns_MCCDigit2PLMN3 :: byte_field where "EquivalentPlmns_MCCDigit2PLMN3 = Bits In_Octet 6 (8, 4) 4 (15, 15, 4)"
definition EquivalentPlmns_MCCDigit1PLMN3 :: byte_field where "EquivalentPlmns_MCCDigit1PLMN3 = Bits In_Octet 6 (4, 0) 0 (240, 15, 0)"
definition EquivalentPlmns_MNCDigit3PLMN3 :: byte_field where "EquivalentPlmns_MNCDigit3PLMN3 = Bits In_Octet 7 (8, 4) 4 (15, 15, 4)"
definition EquivalentPlmns_MCCDigit3PLMN3 :: byte_field where "EquivalentPlmns_MCCDigit3PLMN3 = Bits In_Octet 7 (4, 0) 0 (240, 15, 0)"
definition EquivalentPlmns_MNCDigit2PLMN3 :: byte_field where "EquivalentPlmns_MNCDigit2PLMN3 = Bits In_Octet 8 (8, 4) 4 (15, 15, 4)"
definition EquivalentPlmns_MNCDigit1PLMN3 :: byte_field where "EquivalentPlmns_MNCDigit1PLMN3 = Bits In_Octet 8 (4, 0) 0 (240, 15, 0)"
definition EquivalentPlmns_MCCDigit2PLMN4 :: byte_field where "EquivalentPlmns_MCCDigit2PLMN4 = Bits In_Octet 9 (8, 4) 4 (15, 15, 4)"
definition EquivalentPlmns_MCCDigit1PLMN4 :: byte_field where "EquivalentPlmns_MCCDigit1PLMN4 = Bits In_Octet 9 (4, 0) 0 (240, 15, 0)"
definition EquivalentPlmns_MNCDigit3PLMN4 :: byte_field where "EquivalentPlmns_MNCDigit3PLMN4 = Bits In_Octet 10 (8, 4) 4 (15, 15, 4)"
definition EquivalentPlmns_MCCDigit3PLMN4 :: byte_field where "EquivalentPlmns_MCCDigit3PLMN4 = Bits In_Octet 10 (4, 0) 0 (240, 15, 0)"
definition EquivalentPlmns_MNCDigit2PLMN4 :: byte_field where "EquivalentPlmns_MNCDigit2PLMN4 = Bits In_Octet 11 (8, 4) 4 (15, 15, 4)"
definition EquivalentPlmns_MNCDigit1PLMN4 :: byte_field where "EquivalentPlmns_MNCDigit1PLMN4 = Bits In_Octet 11 (4, 0) 0 (240, 15, 0)"
definition EquivalentPlmns_MCCDigit2PLMN5 :: byte_field where "EquivalentPlmns_MCCDigit2PLMN5 = Bits In_Octet 12 (8, 4) 4 (15, 15, 4)"
definition EquivalentPlmns_MCCDigit1PLMN5 :: byte_field where "EquivalentPlmns_MCCDigit1PLMN5 = Bits In_Octet 12 (4, 0) 0 (240, 15, 0)"
definition EquivalentPlmns_MNCDigit3PLMN5 :: byte_field where "EquivalentPlmns_MNCDigit3PLMN5 = Bits In_Octet 13 (8, 4) 4 (15, 15, 4)"
definition EquivalentPlmns_MCCDigit3PLMN5 :: byte_field where "EquivalentPlmns_MCCDigit3PLMN5 = Bits In_Octet 13 (4, 0) 0 (240, 15, 0)"
definition EquivalentPlmns_MNCDigit2PLMN5 :: byte_field where "EquivalentPlmns_MNCDigit2PLMN5 = Bits In_Octet 14 (8, 4) 4 (15, 15, 4)"
definition EquivalentPlmns_MNCDigit1PLMN5 :: byte_field where "EquivalentPlmns_MNCDigit1PLMN5 = Bits In_Octet 14 (4, 0) 0 (240, 15, 0)"
definition EquivalentPlmns_MCCDigit2PLMN6 :: byte_field where "EquivalentPlmns_MCCDigit2PLMN6 = Bits In_Octet 15 (8, 4) 4 (15, 15, 4)"
definition EquivalentPlmns_MCCDigit1PLMN6 :: byte_field where "EquivalentPlmns_MCCDigit1PLMN6 = Bits In_Octet 15 (4, 0) 0 (240, 15, 0)"
definition EquivalentPlmns_MNCDigit3PLMN6 :: byte_field where "EquivalentPlmns_MNCDigit3PLMN6 = Bits In_Octet 16 (8, 4) 4 (15, 15, 4)"
definition EquivalentPlmns_MCCDigit3PLMN6 :: byte_field where "EquivalentPlmns_MCCDigit3PLMN6 = Bits In_Octet 16 (4, 0) 0 (240, 15, 0)"
definition EquivalentPlmns_MNCDigit2PLMN6 :: byte_field where "EquivalentPlmns_MNCDigit2PLMN6 = Bits In_Octet 17 (8, 4) 4 (15, 15, 4)"
definition EquivalentPlmns_MNCDigit1PLMN6 :: byte_field where "EquivalentPlmns_MNCDigit1PLMN6 = Bits In_Octet 17 (4, 0) 0 (240, 15, 0)"
definition EquivalentPlmns_MCCDigit2PLMN7 :: byte_field where "EquivalentPlmns_MCCDigit2PLMN7 = Bits In_Octet 18 (8, 4) 4 (15, 15, 4)"
definition EquivalentPlmns_MCCDigit1PLMN7 :: byte_field where "EquivalentPlmns_MCCDigit1PLMN7 = Bits In_Octet 18 (4, 0) 0 (240, 15, 0)"
definition EquivalentPlmns_MNCDigit3PLMN7 :: byte_field where "EquivalentPlmns_MNCDigit3PLMN7 = Bits In_Octet 19 (8, 4) 4 (15, 15, 4)"
definition EquivalentPlmns_MCCDigit3PLMN7 :: byte_field where "EquivalentPlmns_MCCDigit3PLMN7 = Bits In_Octet 19 (4, 0) 0 (240, 15, 0)"
definition EquivalentPlmns_MNCDigit2PLMN7 :: byte_field where "EquivalentPlmns_MNCDigit2PLMN7 = Bits In_Octet 20 (8, 4) 4 (15, 15, 4)"
definition EquivalentPlmns_MNCDigit1PLMN7 :: byte_field where "EquivalentPlmns_MNCDigit1PLMN7 = Bits In_Octet 20 (4, 0) 0 (240, 15, 0)"
definition EquivalentPlmns_MCCDigit2PLMN8 :: byte_field where "EquivalentPlmns_MCCDigit2PLMN8 = Bits In_Octet 21 (8, 4) 4 (15, 15, 4)"
definition EquivalentPlmns_MCCDigit1PLMN8 :: byte_field where "EquivalentPlmns_MCCDigit1PLMN8 = Bits In_Octet 21 (4, 0) 0 (240, 15, 0)"
definition EquivalentPlmns_MNCDigit3PLMN8 :: byte_field where "EquivalentPlmns_MNCDigit3PLMN8 = Bits In_Octet 22 (8, 4) 4 (15, 15, 4)"
definition EquivalentPlmns_MCCDigit3PLMN8 :: byte_field where "EquivalentPlmns_MCCDigit3PLMN8 = Bits In_Octet 22 (4, 0) 0 (240, 15, 0)"
definition EquivalentPlmns_MNCDigit2PLMN8 :: byte_field where "EquivalentPlmns_MNCDigit2PLMN8 = Bits In_Octet 23 (8, 4) 4 (15, 15, 4)"
definition EquivalentPlmns_MNCDigit1PLMN8 :: byte_field where "EquivalentPlmns_MNCDigit1PLMN8 = Bits In_Octet 23 (4, 0) 0 (240, 15, 0)"
definition EquivalentPlmns_MCCDigit2PLMN9 :: byte_field where "EquivalentPlmns_MCCDigit2PLMN9 = Bits In_Octet 24 (8, 4) 4 (15, 15, 4)"
definition EquivalentPlmns_MCCDigit1PLMN9 :: byte_field where "EquivalentPlmns_MCCDigit1PLMN9 = Bits In_Octet 24 (4, 0) 0 (240, 15, 0)"
definition EquivalentPlmns_MNCDigit3PLMN9 :: byte_field where "EquivalentPlmns_MNCDigit3PLMN9 = Bits In_Octet 25 (8, 4) 4 (15, 15, 4)"
definition EquivalentPlmns_MCCDigit3PLMN9 :: byte_field where "EquivalentPlmns_MCCDigit3PLMN9 = Bits In_Octet 25 (4, 0) 0 (240, 15, 0)"
definition EquivalentPlmns_MNCDigit2PLMN9 :: byte_field where "EquivalentPlmns_MNCDigit2PLMN9 = Bits In_Octet 26 (8, 4) 4 (15, 15, 4)"
definition EquivalentPlmns_MNCDigit1PLMN9 :: byte_field where "EquivalentPlmns_MNCDigit1PLMN9 = Bits In_Octet 26 (4, 0) 0 (240, 15, 0)"
definition EquivalentPlmns_MCCDigit2PLMN10 :: byte_field where "EquivalentPlmns_MCCDigit2PLMN10 = Bits In_Octet 27 (8, 4) 4 (15, 15, 4)"
definition EquivalentPlmns_MCCDigit1PLMN10 :: byte_field where "EquivalentPlmns_MCCDigit1PLMN10 = Bits In_Octet 27 (4, 0) 0 (240, 15, 0)"
definition EquivalentPlmns_MNCDigit3PLMN10 :: byte_field where "EquivalentPlmns_MNCDigit3PLMN10 = Bits In_Octet 28 (8, 4) 4 (15, 15, 4)"
definition EquivalentPlmns_MCCDigit3PLMN10 :: byte_field where "EquivalentPlmns_MCCDigit3PLMN10 = Bits In_Octet 28 (4, 0) 0 (240, 15, 0)"
definition EquivalentPlmns_MNCDigit2PLMN10 :: byte_field where "EquivalentPlmns_MNCDigit2PLMN10 = Bits In_Octet 29 (8, 4) 4 (15, 15, 4)"
definition EquivalentPlmns_MNCDigit1PLMN10 :: byte_field where "EquivalentPlmns_MNCDigit1PLMN10 = Bits In_Octet 29 (4, 0) 0 (240, 15, 0)"
definition EquivalentPlmns_MCCDigit2PLMN11 :: byte_field where "EquivalentPlmns_MCCDigit2PLMN11 = Bits In_Octet 30 (8, 4) 4 (15, 15, 4)"
definition EquivalentPlmns_MCCDigit1PLMN11 :: byte_field where "EquivalentPlmns_MCCDigit1PLMN11 = Bits In_Octet 30 (4, 0) 0 (240, 15, 0)"
definition EquivalentPlmns_MNCDigit3PLMN11 :: byte_field where "EquivalentPlmns_MNCDigit3PLMN11 = Bits In_Octet 31 (8, 4) 4 (15, 15, 4)"
definition EquivalentPlmns_MCCDigit3PLMN11 :: byte_field where "EquivalentPlmns_MCCDigit3PLMN11 = Bits In_Octet 31 (4, 0) 0 (240, 15, 0)"
definition EquivalentPlmns_MNCDigit2PLMN11 :: byte_field where "EquivalentPlmns_MNCDigit2PLMN11 = Bits In_Octet 32 (8, 4) 4 (15, 15, 4)"
definition EquivalentPlmns_MNCDigit1PLMN11 :: byte_field where "EquivalentPlmns_MNCDigit1PLMN11 = Bits In_Octet 32 (4, 0) 0 (240, 15, 0)"
definition EquivalentPlmns_MCCDigit2PLMN12 :: byte_field where "EquivalentPlmns_MCCDigit2PLMN12 = Bits In_Octet 33 (8, 4) 4 (15, 15, 4)"
definition EquivalentPlmns_MCCDigit1PLMN12 :: byte_field where "EquivalentPlmns_MCCDigit1PLMN12 = Bits In_Octet 33 (4, 0) 0 (240, 15, 0)"
definition EquivalentPlmns_MNCDigit3PLMN12 :: byte_field where "EquivalentPlmns_MNCDigit3PLMN12 = Bits In_Octet 34 (8, 4) 4 (15, 15, 4)"
definition EquivalentPlmns_MCCDigit3PLMN12 :: byte_field where "EquivalentPlmns_MCCDigit3PLMN12 = Bits In_Octet 34 (4, 0) 0 (240, 15, 0)"
definition EquivalentPlmns_MNCDigit2PLMN12 :: byte_field where "EquivalentPlmns_MNCDigit2PLMN12 = Bits In_Octet 35 (8, 4) 4 (15, 15, 4)"
definition EquivalentPlmns_MNCDigit1PLMN12 :: byte_field where "EquivalentPlmns_MNCDigit1PLMN12 = Bits In_Octet 35 (4, 0) 0 (240, 15, 0)"
definition EquivalentPlmns_MCCDigit2PLMN13 :: byte_field where "EquivalentPlmns_MCCDigit2PLMN13 = Bits In_Octet 36 (8, 4) 4 (15, 15, 4)"
definition EquivalentPlmns_MCCDigit1PLMN13 :: byte_field where "EquivalentPlmns_MCCDigit1PLMN13 = Bits In_Octet 36 (4, 0) 0 (240, 15, 0)"
definition EquivalentPlmns_MNCDigit3PLMN13 :: byte_field where "EquivalentPlmns_MNCDigit3PLMN13 = Bits In_Octet 37 (8, 4) 4 (15, 15, 4)"
definition EquivalentPlmns_MCCDigit3PLMN13 :: byte_field where "EquivalentPlmns_MCCDigit3PLMN13 = Bits In_Octet 37 (4, 0) 0 (240, 15, 0)"
definition EquivalentPlmns_MNCDigit2PLMN13 :: byte_field where "EquivalentPlmns_MNCDigit2PLMN13 = Bits In_Octet 38 (8, 4) 4 (15, 15, 4)"
definition EquivalentPlmns_MNCDigit1PLMN13 :: byte_field where "EquivalentPlmns_MNCDigit1PLMN13 = Bits In_Octet 38 (4, 0) 0 (240, 15, 0)"
definition EquivalentPlmns_MCCDigit2PLMN14 :: byte_field where "EquivalentPlmns_MCCDigit2PLMN14 = Bits In_Octet 39 (8, 4) 4 (15, 15, 4)"
definition EquivalentPlmns_MCCDigit1PLMN14 :: byte_field where "EquivalentPlmns_MCCDigit1PLMN14 = Bits In_Octet 39 (4, 0) 0 (240, 15, 0)"
definition EquivalentPlmns_MNCDigit3PLMN14 :: byte_field where "EquivalentPlmns_MNCDigit3PLMN14 = Bits In_Octet 40 (8, 4) 4 (15, 15, 4)"
definition EquivalentPlmns_MCCDigit3PLMN14 :: byte_field where "EquivalentPlmns_MCCDigit3PLMN14 = Bits In_Octet 40 (4, 0) 0 (240, 15, 0)"
definition EquivalentPlmns_MNCDigit2PLMN14 :: byte_field where "EquivalentPlmns_MNCDigit2PLMN14 = Bits In_Octet 41 (8, 4) 4 (15, 15, 4)"
definition EquivalentPlmns_MNCDigit1PLMN14 :: byte_field where "EquivalentPlmns_MNCDigit1PLMN14 = Bits In_Octet 41 (4, 0) 0 (240, 15, 0)"
definition EquivalentPlmns_MCCDigit2PLMN15 :: byte_field where "EquivalentPlmns_MCCDigit2PLMN15 = Bits In_Octet 42 (8, 4) 4 (15, 15, 4)"
definition EquivalentPlmns_MCCDigit1PLMN15 :: byte_field where "EquivalentPlmns_MCCDigit1PLMN15 = Bits In_Octet 42 (4, 0) 0 (240, 15, 0)"
definition EquivalentPlmns_MNCDigit3PLMN15 :: byte_field where "EquivalentPlmns_MNCDigit3PLMN15 = Bits In_Octet 43 (8, 4) 4 (15, 15, 4)"
definition EquivalentPlmns_MCCDigit3PLMN15 :: byte_field where "EquivalentPlmns_MCCDigit3PLMN15 = Bits In_Octet 43 (4, 0) 0 (240, 15, 0)"
definition EquivalentPlmns_MNCDigit2PLMN15 :: byte_field where "EquivalentPlmns_MNCDigit2PLMN15 = Bits In_Octet 44 (8, 4) 4 (15, 15, 4)"
definition EquivalentPlmns_MNCDigit1PLMN15 :: byte_field where "EquivalentPlmns_MNCDigit1PLMN15 = Bits In_Octet 44 (4, 0) 0 (240, 15, 0)"

definition EquivalentPlmns_fields :: "byte_field list" where
  "EquivalentPlmns_fields =
    [EquivalentPlmns_MCCDigit2PLMN1, EquivalentPlmns_MCCDigit1PLMN1, EquivalentPlmns_MNCDigit3PLMN1,
     EquivalentPlmns_MCCDigit3PLMN1, EquivalentPlmns_MNCDigit2PLMN1, EquivalentPlmns_MNCDigit1PLMN1,
     EquivalentPlmns_MCCDigit2PLMN2, EquivalentPlmns_MCCDigit1PLMN2, EquivalentPlmns_MNCDigit3PLMN2,
     EquivalentPlmns_MCCDigit3PLMN2, EquivalentPlmns_MNCDigit2PLMN2, EquivalentPlmns_MNCDigit1PLMN2,
     EquivalentPlmns_MCCDigit2PLMN3, EquivalentPlmns_MCCDigit1PLMN3, EquivalentPlmns_MNCDigit3PLMN3,
     EquivalentPlmns_MCCDigit3PLMN3, EquivalentPlmns_MNCDigit2PLMN3, EquivalentPlmns_MNCDigit1PLMN3,
     EquivalentPlmns_MCCDigit2PLMN4, EquivalentPlmns_MCCDigit1PLMN4, EquivalentPlmns_MNCDigit3PLMN4,
     EquivalentPlmns_MCCDigit3PLMN4, EquivalentPlmns_MNCDigit2PLMN4, EquivalentPlmns_MNCDigit1PLMN4,
     EquivalentPlmns_MCCDigit2PLMN5, EquivalentPlmns_MCCDigit1PLMN5, EquivalentPlmns_MNCDigit3PLMN5,
     EquivalentPlmns_MCCDigit3PLMN5, EquivalentPlmns_MNCDigit2PLMN5, EquivalentPlmns_MNCDigit1PLMN5,
     EquivalentPlmns_MCCDigit2PLMN6, EquivalentPlmns_MCCDigit1PLMN6, EquivalentPlmns_MNCDigit3PLMN6,
     EquivalentPlmns_MCCDigit3PLMN6, EquivalentPlmns_MNCDigit2PLMN6, EquivalentPlmns_MNCDigit1PLMN6,
     EquivalentPlmns_MCCDigit2PLMN7, EquivalentPlmns_MCCDigit1PLMN7, EquivalentPlmns_MNCDigit3PLMN7,
     EquivalentPlmns_MCCDigit3PLMN7, EquivalentPlmns_MNCDigit2PLMN7, EquivalentPlmns_MNCDigit1PLMN7,
     EquivalentPlmns_MCCDigit2PLMN8, EquivalentPlmns_MCCDigit1PLMN8, EquivalentPlmns_MNCDigit3PLMN8,
     EquivalentPlmns_MCCDigit3PLMN8, EquivalentPlmns_MNCDigit2PLMN8, EquivalentPlmns_MNCDigit1PLMN8,
     EquivalentPlmns_MCCDigit2PLMN9, EquivalentPlmns_MCCDigit1PLMN9, EquivalentPlmns_MNCDigit3PLMN9,
     EquivalentPlmns_MCCDigit3PLMN9, EquivalentPlmns_MNCDigit2PLMN9, EquivalentPlmns_MNCDigit1PLMN9,
     EquivalentPlmns_MCCDigit2PLMN10, EquivalentPlmns_MCCDigit1PLMN10, EquivalentPlmns_MNCDigit3PLMN10,
     EquivalentPlmns_MCCDigit3PLMN10, EquivalentPlmns_MNCDigit2PLMN10, EquivalentPlmns_MNCDigit1PLMN10,
     EquivalentPlmns_MCCDigit2PLMN11, EquivalentPlmns_MCCDigit1PLMN11, EquivalentPlmns_MNCDigit3PLMN11,
     EquivalentPlmns_MCCDigit3PLMN11, EquivalentPlmns_MNCDigit2PLMN11, EquivalentPlmns_MNCDigit1PLMN11,
     EquivalentPlmns_MCCDigit2PLMN12, EquivalentPlmns_MCCDigit1PLMN12, EquivalentPlmns_MNCDigit3PLMN12,
     EquivalentPlmns_MCCDigit3PLMN12, EquivalentPlmns_MNCDigit2PLMN12, EquivalentPlmns_MNCDigit1PLMN12,
     EquivalentPlmns_MCCDigit2PLMN13, EquivalentPlmns_MCCDigit1PLMN13, EquivalentPlmns_MNCDigit3PLMN13,
     EquivalentPlmns_MCCDigit3PLMN13, EquivalentPlmns_MNCDigit2PLMN13, EquivalentPlmns_MNCDigit1PLMN13,
     EquivalentPlmns_MCCDigit2PLMN14, EquivalentPlmns_MCCDigit1PLMN14, EquivalentPlmns_MNCDigit3PLMN14,
     EquivalentPlmns_MCCDigit3PLMN14, EquivalentPlmns_MNCDigit2PLMN14, EquivalentPlmns_MNCDigit1PLMN14,
     EquivalentPlmns_MCCDigit2PLMN15, EquivalentPlmns_MCCDigit1PLMN15, EquivalentPlmns_MNCDigit3PLMN15,
     EquivalentPlmns_MCCDigit3PLMN15, EquivalentPlmns_MNCDigit2PLMN15, EquivalentPlmns_MNCDigit1PLMN15]"

subsection \<open>ExtendedEmergencyNumberList\<close>

definition ExtendedEmergencyNumberList_EENL :: byte_field where "ExtendedEmergencyNumberList_EENL = Bits In_Buffer 0 (1, 0) 0 (254, 1, 0)"
definition ExtendedEmergencyNumberList_EmergencyInformation :: range_field where "ExtendedEmergencyNumberList_EmergencyInformation = Tail 0"

definition ExtendedEmergencyNumberList_fields :: "byte_field list" where
  "ExtendedEmergencyNumberList_fields =
    [ExtendedEmergencyNumberList_EENL]"

subsection \<open>ExtendedProtocolConfigurationOptions\<close>

definition ExtendedProtocolConfigurationOptions_ExtendedProtocolConfigurationOptionsContents :: range_field where "ExtendedProtocolConfigurationOptions_ExtendedProtocolConfigurationOptionsContents = Tail 0"

subsection \<open>ExtendedProtocolDiscriminator\<close>

definition ExtendedProtocolDiscriminator_ExtendedProtocolDiscriminator :: byte_field where "ExtendedProtocolDiscriminator_ExtendedProtocolDiscriminator = Whole In_Octet 0"

definition ExtendedProtocolDiscriminator_fields :: "byte_field list" where
  "ExtendedProtocolDiscriminator_fields =
    [ExtendedProtocolDiscriminator_ExtendedProtocolDiscriminator]"

subsection \<open>FullNameForNetwork\<close>

definition FullNameForNetwork_Ext :: byte_field where "FullNameForNetwork_Ext = Bits In_Buffer 0 (8, 7) 7 (127, 1, 7)"
definition FullNameForNetwork_CodingScheme :: byte_field where "FullNameForNetwork_CodingScheme = Bits In_Buffer 0 (7, 4) 4 (143, 7, 4)"
definition FullNameForNetwork_AddCI :: byte_field where "FullNameForNetwork_AddCI = Bits In_Buffer 0 (4, 3) 3 (247, 1, 3)"
definition FullNameForNetwork_NumberOfSpareBitsInLastOctet :: byte_field where "FullNameForNetwork_NumberOfSpareBitsInLastOctet = Bits In_Buffer 0 (3, 0) 0 (248, 7, 0)"
definition FullNameForNetwork_TextString :: range_field where "FullNameForNetwork_TextString = Tail 1"

definition FullNameForNetwork_fields :: "byte_field list" where
  "FullNameForNetwork_fields =
    [FullNameForNetwork_Ext, FullNameForNetwork_CodingScheme, FullNameForNetwork_AddCI,
     FullNameForNetwork_NumberOfSpareBitsInLastOctet]"

subsection \<open>GUTI5G\<close>

definition GUTI5G_Spare :: byte_field where "GUTI5G_Spare = Bits In_Octet 0 (4, 3) 3 (247, 1, 3)"
definition GUTI5G_TypeOfIdentity :: byte_field where "GUTI5G_TypeOfIdentity = Bits In_Octet 0 (3, 0) 0 (248, 7, 0)"
definition GUTI5G_MCCDigit2 :: byte_field where "GUTI5G_MCCDigit2 = Bits In_Octet 1 (8, 4) 4 (15, 15, 4)"
definition GUTI5G_MCCDigit1 :: byte_field where "GUTI5G_MCCDigit1 = Bits In_Octet 1 (4, 0) 0 (240, 15, 0)"
definition GUTI5G_MNCDigit3 :: byte_field where "GUTI5G_MNCDigit3 = Bits In_Octet 2 (8, 4) 4 (15, 15, 4)"
definition GUTI5G_MCCDigit3 :: byte_field where "GUTI5G_MCCDigit3 = Bits In_Octet 2 (4, 0) 0 (240, 15, 0)"
definition GUTI5G_MNCDigit2 :: byte_field where "GUTI5G_MNCDigit2 = Bits In_Octet 3 (8, 4) 4 (15, 15, 4)"
definition GUTI5G_MNCDigit1 :: byte_field where "GUTI5G_MNCDigit1 = Bits In_Octet 3 (4, 0) 0 (240, 15, 0)"
definition GUTI5G_AMFRegionID :: byte_field where "GUTI5G_AMFRegionID = Whole In_Octet 4"
definition GUTI5G_AMFPointer :: byte_field where "GUTI5G_AMFPointer = Bits In_Octet 6 (6, 0) 0 (192, 63, 0)"
definition GUTI5G_TMSI5G :: range_field where "GUTI5G_TMSI5G = Range In_Octet 7 11"
definition GUTI5G_AMFSetID :: ten_field where "GUTI5G_AMFSetID = Ten_bits 5"

definition GUTI5G_fields :: "byte_field list" where
  "GUTI5G_fields =
    [GUTI5G_Spare, GUTI5G_TypeOfIdentity, GUTI5G_MCCDigit2, GUTI5G_MCCDigit1, GUTI5G_MNCDigit3, GUTI5G_MCCDigit3,
     GUTI5G_MNCDigit2, GUTI5G_MNCDigit1, GUTI5G_AMFRegionID, GUTI5G_AMFPointer]"

subsection \<open>IMEISV\<close>

definition IMEISV_IdentityDigit1 :: byte_field where "IMEISV_IdentityDigit1 = Bits In_Octet 0 (8, 4) 4 (15, 15, 4)"
definition IMEISV_OddEvenIdic :: byte_field where "IMEISV_OddEvenIdic = Bits In_Octet 0 (4, 3) 3 (247, 1, 3)"
definition IMEISV_TypeOfIdentity :: byte_field where "IMEISV_TypeOfIdentity = Bits In_Octet 0 (3, 0) 0 (248, 7, 0)"
definition IMEISV_IdentityDigitP_1 :: byte_field where "IMEISV_IdentityDigitP_1 = Bits In_Octet 1 (8, 4) 4 (15, 15, 4)"
definition IMEISV_IdentityDigitP :: byte_field where "IMEISV_IdentityDigitP = Bits In_Octet 1 (4, 0) 0 (240, 15, 0)"
definition IMEISV_IdentityDigitP_3 :: byte_field where "IMEISV_IdentityDigitP_3 = Bits In_Octet 2 (8, 4) 4 (15, 15, 4)"
definition IMEISV_IdentityDigitP_2 :: byte_field where "IMEISV_IdentityDigitP_2 = Bits In_Octet 2 (4, 0) 0 (240, 15, 0)"
definition IMEISV_IdentityDigitP_5 :: byte_field where "IMEISV_IdentityDigitP_5 = Bits In_Octet 3 (8, 4) 4 (15, 15, 4)"
definition IMEISV_IdentityDigitP_4 :: byte_field where "IMEISV_IdentityDigitP_4 = Bits In_Octet 3 (4, 0) 0 (240, 15, 0)"
definition IMEISV_IdentityDigitP_7 :: byte_field where "IMEISV_IdentityDigitP_7 = Bits In_Octet 4 (8, 4) 4 (15, 15, 4)"
definition IMEISV_IdentityDigitP_6 :: byte_field where "IMEISV_IdentityDigitP_6 = Bits In_Octet 4 (4, 0) 0 (240, 15, 0)"
definition IMEISV_IdentityDigitP_9 :: byte_field where "IMEISV_IdentityDigitP_9 = Bits In_Octet 5 (8, 4) 4 (15, 15, 4)"
definition IMEISV_IdentityDigitP_8 :: byte_field where "IMEISV_IdentityDigitP_8 = Bits In_Octet 5 (4, 0) 0 (240, 15, 0)"
definition IMEISV_IdentityDigitP_11 :: byte_field where "IMEISV_IdentityDigitP_11 = Bits In_Octet 6 (8, 4) 4 (15, 15, 4)"
definition IMEISV_IdentityDigitP_10 :: byte_field where "IMEISV_IdentityDigitP_10 = Bits In_Octet 6 (4, 0) 0 (240, 15, 0)"
definition IMEISV_IdentityDigitP_13 :: byte_field where "IMEISV_IdentityDigitP_13 = Bits In_Octet 7 (8, 4) 4 (15, 15, 4)"
definition IMEISV_IdentityDigitP_12 :: byte_field where "IMEISV_IdentityDigitP_12 = Bits In_Octet 7 (4, 0) 0 (240, 15, 0)"
definition IMEISV_IdentityDigitP_15 :: byte_field where "IMEISV_IdentityDigitP_15 = Bits In_Octet 8 (8, 4) 4 (15, 15, 4)"
definition IMEISV_IdentityDigitP_14 :: byte_field where "IMEISV_IdentityDigitP_14 = Bits In_Octet 8 (4, 0) 0 (240, 15, 0)"

definition IMEISV_fields :: "byte_field list" where
  "IMEISV_fields =
    [IMEISV_IdentityDigit1, IMEISV_OddEvenIdic, IMEISV_TypeOfIdentity, IMEISV_IdentityDigitP_1,
     IMEISV_IdentityDigitP, IMEISV_IdentityDigitP_3, IMEISV_IdentityDigitP_2, IMEISV_IdentityDigitP_5,
     IMEISV_IdentityDigitP_4, IMEISV_IdentityDigitP_7, IMEISV_IdentityDigitP_6, IMEISV_IdentityDigitP_9,
     IMEISV_IdentityDigitP_8, IMEISV_IdentityDigitP_11, IMEISV_IdentityDigitP_10, IMEISV_IdentityDigitP_13,
     IMEISV_IdentityDigitP_12, IMEISV_IdentityDigitP_15, IMEISV_IdentityDigitP_14]"

subsection \<open>IMEISVRequest\<close>

definition IMEISVRequest_Iei :: byte_field where "IMEISVRequest_Iei = Bits In_Octet 0 (8, 4) 4 (15, 15, 4)"
definition IMEISVRequest_IMEISVRequestValue :: byte_field where "IMEISVRequest_IMEISVRequestValue = Bits In_Octet 0 (3, 0) 0 (248, 7, 0)"

definition IMEISVRequest_fields :: "byte_field list" where
  "IMEISVRequest_fields =
    [IMEISVRequest_Iei, IMEISVRequest_IMEISVRequestValue]"

subsection \<open>IdentityRequestMessageIdentity\<close>

definition IdentityRequestMessageIdentity_MessageType :: byte_field where "IdentityRequestMessageIdentity_MessageType = Whole In_Octet 0"

definition IdentityRequestMessageIdentity_fields :: "byte_field list" where
  "IdentityRequestMessageIdentity_fields =
    [IdentityRequestMessageIdentity_MessageType]"

subsection \<open>IdentityResponseMessageIdentity\<close>

definition IdentityResponseMessageIdentity_MessageType :: byte_field where "IdentityResponseMessageIdentity_MessageType = Whole In_Octet 0"

definition IdentityResponseMessageIdentity_fields :: "byte_field list" where
  "IdentityResponseMessageIdentity_fields =
    [IdentityResponseMessageIdentity_MessageType]"

subsection \<open>IntegrityProtectionMaximumDataRate\<close>

definition IntegrityProtectionMaximumDataRate_MaximumDataRatePerUEForUserPlaneIntegrityProtectionForUpLink :: byte_field where "IntegrityProtectionMaximumDataRate_MaximumDataRatePerUEForUserPlaneIntegrityProtectionForUpLink = Whole In_Octet 0"
definition IntegrityProtectionMaximumDataRate_MaximumDataRatePerUEForUserPlaneIntegrityProtectionForDownLink :: byte_field where "IntegrityProtectionMaximumDataRate_MaximumDataRatePerUEForUserPlaneIntegrityProtectionForDownLink = Whole In_Octet 1"

definition IntegrityProtectionMaximumDataRate_fields :: "byte_field list" where
  "IntegrityProtectionMaximumDataRate_fields =
    [IntegrityProtectionMaximumDataRate_MaximumDataRatePerUEForUserPlaneIntegrityProtectionForUpLink,
     IntegrityProtectionMaximumDataRate_MaximumDataRatePerUEForUserPlaneIntegrityProtectionForDownLink]"

subsection \<open>LADNIndication\<close>

definition LADNIndication_LADNDNNValue :: range_field where "LADNIndication_LADNDNNValue = Tail 0"

subsection \<open>LADNInformation\<close>

definition LADNInformation_LADND :: range_field where "LADNInformation_LADND = Tail 0"

subsection \<open>LastVisitedRegisteredTAI\<close>

definition LastVisitedRegisteredTAI_MCCDigit2 :: byte_field where "LastVisitedRegisteredTAI_MCCDigit2 = Bits In_Octet 0 (8, 4) 4 (15, 15, 4)"
definition LastVisitedRegisteredTAI_MCCDigit1 :: byte_field where "LastVisitedRegisteredTAI_MCCDigit1 = Bits In_Octet 0 (4, 0) 0 (240, 15, 0)"
definition LastVisitedRegisteredTAI_MNCDigit3 :: byte_field where "LastVisitedRegisteredTAI_MNCDigit3 = Bits In_Octet 1 (8, 4) 4 (15, 15, 4)"
definition LastVisitedRegisteredTAI_MCCDigit3 :: byte_field where "LastVisitedRegisteredTAI_MCCDigit3 = Bits In_Octet 1 (4, 0) 0 (240, 15, 0)"
definition LastVisitedRegisteredTAI_MNCDigit2 :: byte_field where "LastVisitedRegisteredTAI_MNCDigit2 = Bits In_Octet 2 (8, 4) 4 (15, 15, 4)"
definition LastVisitedRegisteredTAI_MNCDigit1 :: byte_field where "LastVisitedRegisteredTAI_MNCDigit1 = Bits In_Octet 2 (4, 0) 0 (240, 15, 0)"
definition LastVisitedRegisteredTAI_TAC :: range_field where "LastVisitedRegisteredTAI_TAC = Range In_Octet 3 6"

definition LastVisitedRegisteredTAI_fields :: "byte_field list" where
  "LastVisitedRegisteredTAI_fields =
    [LastVisitedRegisteredTAI_MCCDigit2, LastVisitedRegisteredTAI_MCCDigit1, LastVisitedRegisteredTAI_MNCDigit3,
     LastVisitedRegisteredTAI_MCCDigit3, LastVisitedRegisteredTAI_MNCDigit2, LastVisitedRegisteredTAI_MNCDigit1]"

subsection \<open>LocalTimeZone\<close>

definition LocalTimeZone_TimeZone :: byte_field where "LocalTimeZone_TimeZone = Whole In_Octet 0"

definition LocalTimeZone_fields :: "byte_field list" where
  "LocalTimeZone_fields =
    [LocalTimeZone_TimeZone]"

subsection \<open>MICOIndication\<close>

definition MICOIndication_Iei :: byte_field where "MICOIndication_Iei = Bits In_Octet 0 (8, 4) 4 (15, 15, 4)"
definition MICOIndication_RAAI :: byte_field where "MICOIndication_RAAI = Bits In_Octet 0 (1, 0) 0 (254, 1, 0)"

definition MICOIndication_fields :: "byte_field list" where
  "MICOIndication_fields =
    [MICOIndication_Iei, MICOIndication_RAAI]"

subsection \<open>MappedEPSBearerContexts\<close>

definition MappedEPSBearerContexts_MappedEPSBearerContext :: range_field where "MappedEPSBearerContexts_MappedEPSBearerContext = Tail 0"

subsection \<open>MaximumNumberOfSupportedPacketFilters\<close>

definition MaximumNumberOfSupportedPacketFilters_MaximumNumberOfSupportedPacketFilters :: ten_field where "MaximumNumberOfSupportedPacketFilters_MaximumNumberOfSupportedPacketFilters = Ten_bits 0"

subsection \<open>MessageAuthenticationCode\<close>

definition MessageAuthenticationCode_MAC :: range_field where "MessageAuthenticationCode_MAC = Range In_Octet 0 4"

subsection \<open>MobileIdentity\<close>

definition MobileIdentity_MobileIdentityContents :: range_field where "MobileIdentity_MobileIdentityContents = Tail 0"

subsection \<open>MobileIdentity5GS\<close>

definition MobileIdentity5GS_MobileIdentity5GSContents :: range_field where "MobileIdentity5GS_MobileIdentity5GSContents = Tail 0"

subsection \<open>NASMessageContainer\<close>

definition NASMessageContainer_NASMessageContainerContents :: range_field where "NASMessageContainer_NASMessageContainerContents = Tail 0"

subsection \<open>NSSAIInclusionMode\<close>

definition NSSAIInclusionMode_Iei :: byte_field where "NSSAIInclusionMode_Iei = Bits In_Octet 0 (8, 4) 4 (15, 15, 4)"
definition NSSAIInclusionMode_NSSAIInclusionMode :: byte_field where "NSSAIInclusionMode_NSSAIInclusionMode = Bits In_Octet 0 (2, 0) 0 (252, 3, 0)"

definition NSSAIInclusionMode_fields :: "byte_field list" where
  "NSSAIInclusionMode_fields =
    [NSSAIInclusionMode_Iei, NSSAIInclusionMode_NSSAIInclusionMode]"

subsection \<open>NegotiatedDRXParameters\<close>

definition NegotiatedDRXParameters_DRXValue :: byte_field where "NegotiatedDRXParameters_DRXValue = Bits In_Octet 0 (4, 0) 0 (240, 15, 0)"

definition NegotiatedDRXParameters_fields :: "byte_field list" where
  "NegotiatedDRXParameters_fields =
    [NegotiatedDRXParameters_DRXValue]"

subsection \<open>NetworkDaylightSavingTime\<close>

definition NetworkDaylightSavingTime_value :: byte_field where "NetworkDaylightSavingTime_value = Bits In_Octet 0 (2, 0) 0 (252, 3, 0)"

definition NetworkDaylightSavingTime_fields :: "byte_field list" where
  "NetworkDaylightSavingTime_fields =
    [NetworkDaylightSavingTime_value]"

subsection \<open>NetworkFeatureSupport5GS\<close>

definition NetworkFeatureSupport5GS_MPSI :: byte_field where "NetworkFeatureSupport5GS_MPSI = Bits In_Octet 0 (8, 7) 7 (127, 1, 7)"
definition NetworkFeatureSupport5GS_IWKN26 :: byte_field where "NetworkFeatureSupport5GS_IWKN26 = Bits In_Octet 0 (7, 6) 6 (191, 1, 6)"
definition NetworkFeatureSupport5GS_EMF :: byte_field where "NetworkFeatureSupport5GS_EMF = Bits In_Octet 0 (6, 4) 4 (207, 3, 4)"
definition NetworkFeatureSupport5GS_EMC :: byte_field where "NetworkFeatureSupport5GS_EMC = Bits In_Octet 0 (4, 2) 2 (243, 3, 2)"
definition NetworkFeatureSupport5GS_IMSVoPSN3GPP :: byte_field where "NetworkFeatureSupport5GS_IMSVoPSN3GPP = Bits In_Octet 0 (2, 1) 1 (253, 1, 1)"
definition NetworkFeatureSupport5GS_IMSVoPS3GPP :: byte_field where "NetworkFeatureSupport5GS_IMSVoPS3GPP = Bits In_Octet 0 (1, 0) 0 (254, 1, 0)"
definition NetworkFeatureSupport5GS_MCSI :: byte_field where "NetworkFeatureSupport5GS_MCSI = Bits In_Octet 1 (2, 1) 1 (253, 1, 1)"
definition NetworkFeatureSupport5GS_EMCN :: byte_field where "NetworkFeatureSupport5GS_EMCN = Bits In_Octet 1 (1, 0) 0 (254, 1, 0)"
definition NetworkFeatureSupport5GS_Spare :: byte_field where "NetworkFeatureSupport5GS_Spare = Whole In_Octet 2"

definition NetworkFeatureSupport5GS_fields :: "byte_field list" where
  "NetworkFeatureSupport5GS_fields =
    [NetworkFeatureSupport5GS_MPSI, NetworkFeatureSupport5GS_IWKN26, NetworkFeatureSupport5GS_EMF,
     NetworkFeatureSupport5GS_EMC, NetworkFeatureSupport5GS_IMSVoPSN3GPP, NetworkFeatureSupport5GS_IMSVoPS3GPP,
     NetworkFeatureSupport5GS_MCSI, NetworkFeatureSupport5GS_EMCN, NetworkFeatureSupport5GS_Spare]"

subsection \<open>NetworkSlicingIndication\<close>

definition NetworkSlicingIndication_Iei :: byte_field where "NetworkSlicingIndication_Iei = Bits In_Octet 0 (8, 4) 4 (15, 15, 4)"
definition NetworkSlicingIndication_DCNI :: byte_field where "NetworkSlicingIndication_DCNI = Bits In_Octet 0 (2, 1) 1 (253, 1, 1)"
definition NetworkSlicingIndication_NSSCI :: byte_field where "NetworkSlicingIndication_NSSCI = Bits In_Octet 0 (1, 0) 0 (254, 1, 0)"

definition NetworkSlicingIndication_fields :: "byte_field list" where
  "NetworkSlicingIndication_fields =
    [NetworkSlicingIndication_Iei, NetworkSlicingIndication_DCNI, NetworkSlicingIndication_NSSCI]"

subsection \<open>NgksiAndDeregistrationType\<close>

definition NgksiAndDeregistrationType_TSC :: byte_field where "NgksiAndDeregistrationType_TSC = Bits In_Octet 0 (8, 7) 7 (127, 1, 7)"
definition NgksiAndDeregistrationType_NasKeySetIdentifiler :: byte_field where "NgksiAndDeregistrationType_NasKeySetIdentifiler = Bits In_Octet 0 (7, 4) 4 (143, 7, 4)"
definition NgksiAndDeregistrationType_SwitchOff :: byte_field where "NgksiAndDeregistrationType_SwitchOff = Bits In_Octet 0 (4, 3) 3 (247, 1, 3)"
definition NgksiAndDeregistrationType_ReRegistrationRequired :: byte_field where "NgksiAndDeregistrationType_ReRegistrationRequired = Bits In_Octet 0 (3, 2) 2 (251, 1, 2)"
definition NgksiAndDeregistrationType_AccessType :: byte_field where "NgksiAndDeregistrationType_AccessType = Bits In_Octet 0 (2, 0) 0 (252, 3, 0)"

definition NgksiAndDeregistrationType_fields :: "byte_field list" where
  "NgksiAndDeregistrationType_fields =
    [NgksiAndDeregistrationType_TSC, NgksiAndDeregistrationType_NasKeySetIdentifiler,
     NgksiAndDeregistrationType_SwitchOff, NgksiAndDeregistrationType_ReRegistrationRequired,
     NgksiAndDeregistrationType_AccessType]"

subsection \<open>NgksiAndRegistrationType5GS\<close>

definition NgksiAndRegistrationType5GS_TSC :: byte_field where "NgksiAndRegistrationType5GS_TSC = Bits In_Octet 0 (8, 7) 7 (127, 1, 7)"
definition NgksiAndRegistrationType5GS_NasKeySetIdentifiler :: byte_field where "NgksiAndRegistrationType5GS_NasKeySetIdentifiler = Bits In_Octet 0 (7, 4) 4 (143, 7, 4)"
definition NgksiAndRegistrationType5GS_FOR :: byte_field where "NgksiAndRegistrationType5GS_FOR = Bits In_Octet 0 (4, 3) 3 (247, 1, 3)"
definition NgksiAndRegistrationType5GS_RegistrationType5GS :: byte_field where "NgksiAndRegistrationType5GS_RegistrationType5GS = Bits In_Octet 0 (3, 0) 0 (248, 7, 0)"

definition NgksiAndRegistrationType5GS_fields :: "byte_field list" where
  "NgksiAndRegistrationType5GS_fields =
    [NgksiAndRegistrationType5GS_TSC, NgksiAndRegistrationType5GS_NasKeySetIdentifiler,
     NgksiAndRegistrationType5GS_FOR, NgksiAndRegistrationType5GS_RegistrationType5GS]"

subsection \<open>Non3GppDeregistrationTimerValue\<close>

definition Non3GppDeregistrationTimerValue_GPRSTimer2Value :: byte_field where "Non3GppDeregistrationTimerValue_GPRSTimer2Value = Whole In_Octet 0"

definition Non3GppDeregistrationTimerValue_fields :: "byte_field list" where
  "Non3GppDeregistrationTimerValue_fields =
    [Non3GppDeregistrationTimerValue_GPRSTimer2Value]"

subsection \<open>NoncurrentNativeNASKeySetIdentifier\<close>

definition NoncurrentNativeNASKeySetIdentifier_Iei :: byte_field where "NoncurrentNativeNASKeySetIdentifier_Iei = Bits In_Octet 0 (8, 4) 4 (15, 15, 4)"
definition NoncurrentNativeNASKeySetIdentifier_Tsc :: byte_field where "NoncurrentNativeNASKeySetIdentifier_Tsc = Bits In_Octet 0 (4, 3) 3 (247, 1, 3)"
definition NoncurrentNativeNASKeySetIdentifier_NasKeySetIdentifiler :: byte_field where "NoncurrentNativeNASKeySetIdentifier_NasKeySetIdentifiler = Bits In_Octet 0 (3, 0) 0 (248, 7, 0)"

definition NoncurrentNativeNASKeySetIdentifier_fields :: "byte_field list" where
  "NoncurrentNativeNASKeySetIdentifier_fields =
    [NoncurrentNativeNASKeySetIdentifier_Iei, NoncurrentNativeNASKeySetIdentifier_Tsc,
     NoncurrentNativeNASKeySetIdentifier_NasKeySetIdentifiler]"

subsection \<open>NotificationMessageIdentity\<close>

definition NotificationMessageIdentity_MessageType :: byte_field where "NotificationMessageIdentity_MessageType = Whole In_Octet 0"

definition NotificationMessageIdentity_fields :: "byte_field list" where
  "NotificationMessageIdentity_fields =
    [NotificationMessageIdentity_MessageType]"

subsection \<open>NotificationResponseMessageIdentity\<close>

definition NotificationResponseMessageIdentity_MessageType :: byte_field where "NotificationResponseMessageIdentity_MessageType = Whole In_Octet 0"

definition NotificationResponseMessageIdentity_fields :: "byte_field list" where
  "NotificationResponseMessageIdentity_fields =
    [NotificationResponseMessageIdentity_MessageType]"

subsection \<open>OldPDUSessionID\<close>

definition OldPDUSessionID_OldPDUSessionID :: byte_field where "OldPDUSessionID_OldPDUSessionID = Whole In_Octet 0"

definition OldPDUSessionID_fields :: "byte_field list" where
  "OldPDUSessionID_fields =
    [OldPDUSessionID_OldPDUSessionID]"

subsection \<open>OperatordefinedAccessCategoryDefinitions\<close>

definition OperatordefinedAccessCategoryDefinitions_OperatorDefinedAccessCategoryDefintiion :: range_field where "OperatordefinedAccessCategoryDefinitions_OperatorDefinedAccessCategoryDefintiion = Tail 0"

subsection \<open>PDUAddress\<close>

definition PDUAddress_PDUSessionTypeValue :: byte_field where "PDUAddress_PDUSessionTypeValue = Bits In_Octet 0 (3, 0) 0 (248, 7, 0)"
definition PDUAddress_PDUAddressInformation :: range_field where "PDUAddress_PDUAddressInformation = Range In_Octet 1 13"

definition PDUAddress_fields :: "byte_field list" where
  "PDUAddress_fields =
    [PDUAddress_PDUSessionTypeValue]"

subsection \<open>PDUSESSIONAUTHENTICATIONCOMMANDMessageIdentity\<close>

definition PDUSESSIONAUTHENTICATIONCOMMANDMessageIdentity_MessageType :: byte_field where "PDUSESSIONAUTHENTICATIONCOMMANDMessageIdentity_MessageType = Whole In_Octet 0"

definition PDUSESSIONAUTHENTICATIONCOMMANDMessageIdentity_fields :: "byte_field list" where
  "PDUSESSIONAUTHENTICATIONCOMMANDMessageIdentity_fields =
    [PDUSESSIONAUTHENTICATIONCOMMANDMessageIdentity_MessageType]"

subsection \<open>PDUSESSIONAUTHENTICATIONCOMPLETEMessageIdentity\<close>

definition PDUSESSIONAUTHENTICATIONCOMPLETEMessageIdentity_MessageType :: byte_field where "PDUSESSIONAUTHENTICATIONCOMPLETEMessageIdentity_MessageType = Whole In_Octet 0"

definition PDUSESSIONAUTHENTICATIONCOMPLETEMessageIdentity_fields :: "byte_field list" where
  "PDUSESSIONAUTHENTICATIONCOMPLETEMessageIdentity_fields =
    [PDUSESSIONAUTHENTICATIONCOMPLETEMessageIdentity_MessageType]"

subsection \<open>PDUSESSIONAUTHENTICATIONRESULTMessageIdentity\<close>

definition PDUSESSIONAUTHENTICATIONRESULTMessageIdentity_MessageType :: byte_field where "PDUSESSIONAUTHENTICATIONRESULTMessageIdentity_MessageType = Whole In_Octet 0"

definition PDUSESSIONAUTHENTICATIONRESULTMessageIdentity_fields :: "byte_field list" where
  "PDUSESSIONAUTHENTICATIONRESULTMessageIdentity_fields =
    [PDUSESSIONAUTHENTICATIONRESULTMessageIdentity_MessageType]"

subsection \<open>PDUSESSIONESTABLISHMENTACCEPTMessageIdentity\<close>

definition PDUSESSIONESTABLISHMENTACCEPTMessageIdentity_MessageType :: byte_field where "PDUSESSIONESTABLISHMENTACCEPTMessageIdentity_MessageType = Whole In_Octet 0"

definition PDUSESSIONESTABLISHMENTACCEPTMessageIdentity_fields :: "byte_field list" where
  "PDUSESSIONESTABLISHMENTACCEPTMessageIdentity_fields =
    [PDUSESSIONESTABLISHMENTACCEPTMessageIdentity_MessageType]"

subsection \<open>PDUSESSIONESTABLISHMENTREJECTMessageIdentity\<close>

definition PDUSESSIONESTABLISHMENTREJECTMessageIdentity_MessageType :: byte_field where "PDUSESSIONESTABLISHMENTREJECTMessageIdentity_MessageType = Whole In_Octet 0"

definition PDUSESSIONESTABLISHMENTREJECTMessageIdentity_fields :: "byte_field list" where
  "PDUSESSIONESTABLISHMENTREJECTMessageIdentity_fields =
    [PDUSESSIONESTABLISHMENTREJECTMessageIdentity_MessageType]"

subsection \<open>PDUSESSIONESTABLISHMENTREQUESTMessageIdentity\<close>

definition PDUSESSIONESTABLISHMENTREQUESTMessageIdentity_MessageType :: byte_field where "PDUSESSIONESTABLISHMENTREQUESTMessageIdentity_MessageType = Whole In_Octet 0"

definition PDUSESSIONESTABLISHMENTREQUESTMessageIdentity_fields :: "byte_field list" where
  "PDUSESSIONESTABLISHMENTREQUESTMessageIdentity_fields =
    [PDUSESSIONESTABLISHMENTREQUESTMessageIdentity_MessageType]"

subsection \<open>PDUSESSIONMODIFICATIONCOMMANDMessageIdentity\<close>

definition PDUSESSIONMODIFICATIONCOMMANDMessageIdentity_MessageType :: byte_field where "PDUSESSIONMODIFICATIONCOMMANDMessageIdentity_MessageType = Whole In_Octet 0"

definition PDUSESSIONMODIFICATIONCOMMANDMessageIdentity_fields :: "byte_field list" where
  "PDUSESSIONMODIFICATIONCOMMANDMessageIdentity_fields =
    [PDUSESSIONMODIFICATIONCOMMANDMessageIdentity_MessageType]"

subsection \<open>PDUSESSIONMODIFICATIONCOMMANDREJECTMessageIdentity\<close>

definition PDUSESSIONMODIFICATIONCOMMANDREJECTMessageIdentity_MessageType :: byte_field where "PDUSESSIONMODIFICATIONCOMMANDREJECTMessageIdentity_MessageType = Whole In_Octet 0"

definition PDUSESSIONMODIFICATIONCOMMANDREJECTMessageIdentity_fields :: "byte_field list" where
  "PDUSESSIONMODIFICATIONCOMMANDREJECTMessageIdentity_fields =
    [PDUSESSIONMODIFICATIONCOMMANDREJECTMessageIdentity_MessageType]"

subsection \<open>PDUSESSIONMODIFICATIONCOMPLETEMessageIdentity\<close>

definition PDUSESSIONMODIFICATIONCOMPLETEMessageIdentity_MessageType :: byte_field where "PDUSESSIONMODIFICATIONCOMPLETEMessageIdentity_MessageType = Whole In_Octet 0"

definition PDUSESSIONMODIFICATIONCOMPLETEMessageIdentity_fields :: "byte_field list" where
  "PDUSESSIONMODIFICATIONCOMPLETEMessageIdentity_fields =
    [PDUSESSIONMODIFICATIONCOMPLETEMessageIdentity_MessageType]"

subsection \<open>PDUSESSIONMODIFICATIONREJECTMessageIdentity\<close>

definition PDUSESSIONMODIFICATIONREJECTMessageIdentity_MessageType :: byte_field where "PDUSESSIONMODIFICATIONREJECTMessageIdentity_MessageType = Whole In_Octet 0"

definition PDUSESSIONMODIFICATIONREJECTMessageIdentity_fields :: "byte_field list" where
  "PDUSESSIONMODIFICATIONREJECTMessageIdentity_fields =
    [PDUSESSIONMODIFICATIONREJECTMessageIdentity_MessageType]"

subsection \<open>PDUSESSIONMODIFICATIONREQUESTMessageIdentity\<close>

definition PDUSESSIONMODIFICATIONREQUESTMessageIdentity_MessageType :: byte_field where "PDUSESSIONMODIFICATIONREQUESTMessageIdentity_MessageType = Whole In_Octet 0"

definition PDUSESSIONMODIFICATIONREQUESTMessageIdentity_fields :: "byte_field list" where
  "PDUSESSIONMODIFICATIONREQUESTMessageIdentity_fields =
    [PDUSESSIONMODIFICATIONREQUESTMessageIdentity_MessageType]"

subsection \<open>PDUSESSIONRELEASECOMMANDMessageIdentity\<close>

definition PDUSESSIONRELEASECOMMANDMessageIdentity_MessageType :: byte_field where "PDUSESSIONRELEASECOMMANDMessageIdentity_MessageType = Whole In_Octet 0"

definition PDUSESSIONRELEASECOMMANDMessageIdentity_fields :: "byte_field list" where
  "PDUSESSIONRELEASECOMMANDMessageIdentity_fields =
    [PDUSESSIONRELEASECOMMANDMessageIdentity_MessageType]"

subsection \<open>PDUSESSIONRELEASECOMPLETEMessageIdentity\<close>

definition PDUSESSIONRELEASECOMPLETEMessageIdentity_MessageType :: byte_field where "PDUSESSIONRELEASECOMPLETEMessageIdentity_MessageType = Whole In_Octet 0"

definition PDUSESSIONRELEASECOMPLETEMessageIdentity_fields :: "byte_field list" where
  "PDUSESSIONRELEASECOMPLETEMessageIdentity_fields =
    [PDUSESSIONRELEASECOMPLETEMessageIdentity_MessageType]"

subsection \<open>PDUSESSIONRELEASEREJECTMessageIdentity\<close>

definition PDUSESSIONRELEASEREJECTMessageIdentity_MessageType :: byte_field where "PDUSESSIONRELEASEREJECTMessageIdentity_MessageType = Whole In_Octet 0"

definition PDUSESSIONRELEASEREJECTMessageIdentity_fields :: "byte_field list" where
  "PDUSESSIONRELEASEREJECTMessageIdentity_fields =
    [PDUSESSIONRELEASEREJECTMessageIdentity_MessageType]"

subsection \<open>PDUSESSIONRELEASEREQUESTMessageIdentity\<close>

definition PDUSESSIONRELEASEREQUESTMessageIdentity_MessageType :: byte_field where "PDUSESSIONRELEASEREQUESTMessageIdentity_MessageType = Whole In_Octet 0"

definition PDUSESSIONRELEASEREQUESTMessageIdentity_fields :: "byte_field list" where
  "PDUSESSIONRELEASEREQUESTMessageIdentity_fields =
    [PDUSESSIONRELEASEREQUESTMessageIdentity_MessageType]"

subsection \<open>PDUSessionID\<close>

definition PDUSessionID_PDUSessionID :: byte_field where "PDUSessionID_PDUSessionID = Whole In_Octet 0"

definition PDUSessionID_fields :: "byte_field list" where
  "PDUSessionID_fields =
    [PDUSessionID_PDUSessionID]"

subsection \<open>PDUSessionReactivationResult\<close>

definition PDUSessionReactivationResult_PSI7 :: byte_field where "PDUSessionReactivationResult_PSI7 = Bits In_Buffer 0 (8, 7) 7 (127, 1, 7)"
definition PDUSessionReactivationResult_PSI6 :: byte_field where "PDUSessionReactivationResult_PSI6 = Bits In_Buffer 0 (7, 6) 6 (191, 1, 6)"
definition PDUSessionReactivationResult_PSI5 :: byte_field where "PDUSessionReactivationResult_PSI5 = Bits In_Buffer 0 (6, 5) 5 (223, 1, 5)"
definition PDUSessionReactivationResult_PSI4 :: byte_field where "PDUSessionReactivationResult_PSI4 = Bits In_Buffer 0 (5, 4) 4 (239, 1, 4)"
definition PDUSessionReactivationResult_PSI3 :: byte_field where "PDUSessionReactivationResult_PSI3 = Bits In_Buffer 0 (4, 3) 3 (247, 1, 3)"
definition PDUSessionReactivationResult_PSI2 :: byte_field where "PDUSessionReactivationResult_PSI2 = Bits In_Buffer 0 (3, 2) 2 (251, 1, 2)"
definition PDUSessionReactivationResult_PSI1 :: byte_field where "PDUSessionReactivationResult_PSI1 = Bits In_Buffer 0 (2, 1) 1 (253, 1, 1)"
definition PDUSessionReactivationResult_PSI0 :: byte_field where "PDUSessionReactivationResult_PSI0 = Bits In_Buffer 0 (1, 0) 0 (254, 1, 0)"
definition PDUSessionReactivationResult_PSI15 :: byte_field where "PDUSessionReactivationResult_PSI15 = Bits In_Buffer 1 (8, 7) 7 (127, 1, 7)"
definition PDUSessionReactivationResult_PSI14 :: byte_field where "PDUSessionReactivationResult_PSI14 = Bits In_Buffer 1 (7, 6) 6 (191, 1, 6)"
definition PDUSessionReactivationResult_PSI13 :: byte_field where "PDUSessionReactivationResult_PSI13 = Bits In_Buffer 1 (6, 5) 5 (223, 1, 5)"
definition PDUSessionReactivationResult_PSI12 :: byte_field where "PDUSessionReactivationResult_PSI12 = Bits In_Buffer 1 (5, 4) 4 (239, 1, 4)"
definition PDUSessionReactivationResult_PSI11 :: byte_field where "PDUSessionReactivationResult_PSI11 = Bits In_Buffer 1 (4, 3) 3 (247, 1, 3)"
definition PDUSessionReactivationResult_PSI10 :: byte_field where "PDUSessionReactivationResult_PSI10 = Bits In_Buffer 1 (3, 2) 2 (251, 1, 2)"
definition PDUSessionReactivationResult_PSI9 :: byte_field where "PDUSessionReactivationResult_PSI9 = Bits In_Buffer 1 (2, 1) 1 (253, 1, 1)"
definition PDUSessionReactivationResult_PSI8 :: byte_field where "PDUSessionReactivationResult_PSI8 = Bits In_Buffer 1 (1, 0) 0 (254, 1, 0)"
definition PDUSessionReactivationResult_Spare :: range_field where "PDUSessionReactivationResult_Spare = Tail 2"

definition PDUSessionReactivationResult_fields :: "byte_field list" where
  "PDUSessionReactivationResult_fields =
    [PDUSessionReactivationResult_PSI7, PDUSessionReactivationResult_PSI6, PDUSessionReactivationResult_PSI5,
     PDUSessionReactivationResult_PSI4, PDUSessionReactivationResult_PSI3, PDUSessionReactivationResult_PSI2,
     PDUSessionReactivationResult_PSI1, PDUSessionReactivationResult_PSI0, PDUSessionReactivationResult_PSI15,
     PDUSessionReactivationResult_PSI14, PDUSessionReactivationResult_PSI13, PDUSessionReactivationResult_PSI12,
     PDUSessionReactivationResult_PSI11, PDUSessionReactivationResult_PSI10, PDUSessionReactivationResult_PSI9,
     PDUSessionReactivationResult_PSI8]"

subsection \<open>PDUSessionReactivationResultErrorCause\<close>

definition PDUSessionReactivationResultErrorCause_PDUSessionIDAndCauseValue :: range_field where "PDUSessionReactivationResultErrorCause_PDUSessionIDAndCauseValue = Tail 0"

subsection \<open>PDUSessionStatus\<close>

definition PDUSessionStatus_PSI7 :: byte_field where "PDUSessionStatus_PSI7 = Bits In_Buffer 0 (8, 7) 7 (127, 1, 7)"
definition PDUSessionStatus_PSI6 :: byte_field where "PDUSessionStatus_PSI6 = Bits In_Buffer 0 (7, 6) 6 (191, 1, 6)"
definition PDUSessionStatus_PSI5 :: byte_field where "PDUSessionStatus_PSI5 = Bits In_Buffer 0 (6, 5) 5 (223, 1, 5)"
definition PDUSessionStatus_PSI4 :: byte_field where "PDUSessionStatus_PSI4 = Bits In_Buffer 0 (5, 4) 4 (239, 1, 4)"
definition PDUSessionStatus_PSI3 :: byte_field where "PDUSessionStatus_PSI3 = Bits In_Buffer 0 (4, 3) 3 (247, 1, 3)"
definition PDUSessionStatus_PSI2 :: byte_field where "PDUSessionStatus_PSI2 = Bits In_Buffer 0 (3, 2) 2 (251, 1, 2)"
definition PDUSessionStatus_PSI1 :: byte_field where "PDUSessionStatus_PSI1 = Bits In_Buffer 0 (2, 1) 1 (253, 1, 1)"
definition PDUSessionStatus_PSI0 :: byte_field where "PDUSessionStatus_PSI0 = Bits In_Buffer 0 (1, 0) 0 (254, 1, 0)"
definition PDUSessionStatus_PSI15 :: byte_field where "PDUSessionStatus_PSI15 = Bits In_Buffer 1 (8, 7) 7 (127, 1, 7)"
definition PDUSessionStatus_PSI14 :: byte_field where "PDUSessionStatus_PSI14 = Bits In_Buffer 1 (7, 6) 6 (191, 1, 6)"
definition PDUSessionStatus_PSI13 :: byte_field where "PDUSessionStatus_PSI13 = Bits In_Buffer 1 (6, 5) 5 (223, 1, 5)"
definition PDUSessionStatus_PSI12 :: byte_field where "PDUSessionStatus_PSI12 = Bits In_Buffer 1 (5, 4) 4 (239, 1, 4)"
definition PDUSessionStatus_PSI11 :: byte_field where "PDUSessionStatus_PSI11 = Bits In_Buffer 1 (4, 3) 3 (247, 1, 3)"
definition PDUSessionStatus_PSI10 :: byte_field where "PDUSessionStatus_PSI10 = Bits In_Buffer 1 (3, 2) 2 (251, 1, 2)"
definition PDUSessionStatus_PSI9 :: byte_field where "PDUSessionStatus_PSI9 = Bits In_Buffer 1 (2, 1) 1 (253, 1, 1)"
definition PDUSessionStatus_PSI8 :: byte_field where "PDUSessionStatus_PSI8 = Bits In_Buffer 1 (1, 0) 0 (254, 1, 0)"
definition PDUSessionStatus_Spare :: range_field where "PDUSessionStatus_Spare = Tail 2"

definition PDUSessionStatus_fields :: "byte_field list" where
  "PDUSessionStatus_fields =
    [PDUSessionStatus_PSI7, PDUSessionStatus_PSI6, PDUSessionStatus_PSI5, PDUSessionStatus_PSI4,
     PDUSessionStatus_PSI3, PDUSessionStatus_PSI2, PDUSessionStatus_PSI1, PDUSessionStatus_PSI0,
     PDUSessionStatus_PSI15, PDUSessionStatus_PSI14, PDUSessionStatus_PSI13, PDUSessionStatus_PSI12,
     PDUSessionStatus_PSI11, PDUSessionStatus_PSI10, PDUSessionStatus_PSI9, PDUSessionStatus_PSI8]"

subsection \<open>PDUSessionType\<close>

definition PDUSessionType_Iei :: byte_field where "PDUSessionType_Iei = Bits In_Octet 0 (8, 4) 4 (15, 15, 4)"
definition PDUSessionType_Spare :: byte_field where "PDUSessionType_Spare = Bits In_Octet 0 (4, 3) 3 (247, 1, 3)"
definition PDUSessionType_PDUSessionTypeValue :: byte_field where "PDUSessionType_PDUSessionTypeValue = Bits In_Octet 0 (3, 0) 0 (248, 7, 0)"

definition PDUSessionType_fields :: "byte_field list" where
  "PDUSessionType_fields =
    [PDUSessionType_Iei, PDUSessionType_Spare, PDUSessionType_PDUSessionTypeValue]"

subsection \<open>PTI\<close>

definition PTI_PTI :: byte_field where "PTI_PTI = Whole In_Octet 0"

definition PTI_fields :: "byte_field list" where
  "PTI_fields =
    [PTI_PTI]"

subsection \<open>PayloadContainer\<close>

definition PayloadContainer_PayloadContainerContents :: range_field where "PayloadContainer_PayloadContainerContents = Tail 0"

subsection \<open>PduSessionID2Value\<close>

definition PduSessionID2Value_PduSessionID2Value :: byte_field where "PduSessionID2Value_PduSessionID2Value = Whole In_Octet 0"

definition PduSessionID2Value_fields :: "byte_field list" where
  "PduSessionID2Value_fields =
    [PduSessionID2Value_PduSessionID2Value]"

subsection \<open>RQTimerValue\<close>

definition RQTimerValue_Unit :: byte_field where "RQTimerValue_Unit = Bits In_Octet 0 (8, 5) 5 (31, 7, 5)"
definition RQTimerValue_TimerValue :: byte_field where "RQTimerValue_TimerValue = Bits In_Octet 0 (5, 0) 0 (224, 31, 0)"

definition RQTimerValue_fields :: "byte_field list" where
  "RQTimerValue_fields =
    [RQTimerValue_Unit, RQTimerValue_TimerValue]"

subsection \<open>RegistrationAcceptMessageIdentity\<close>

definition RegistrationAcceptMessageIdentity_MessageType :: byte_field where "RegistrationAcceptMessageIdentity_MessageType = Whole In_Octet 0"

definition RegistrationAcceptMessageIdentity_fields :: "byte_field list" where
  "RegistrationAcceptMessageIdentity_fields =
    [RegistrationAcceptMessageIdentity_MessageType]"

subsection \<open>RegistrationCompleteMessageIdentity\<close>

definition RegistrationCompleteMessageIdentity_MessageType :: byte_field where "RegistrationCompleteMessageIdentity_MessageType = Whole In_Octet 0"

definition RegistrationCompleteMessageIdentity_fields :: "byte_field list" where
  "RegistrationCompleteMessageIdentity_fields =
    [RegistrationCompleteMessageIdentity_MessageType]"

subsection \<open>RegistrationRejectMessageIdentity\<close>

definition RegistrationRejectMessageIdentity_MessageType :: byte_field where "RegistrationRejectMessageIdentity_MessageType = Whole In_Octet 0"

definition RegistrationRejectMessageIdentity_fields :: "byte_field list" where
  "RegistrationRejectMessageIdentity_fields =
    [RegistrationRejectMessageIdentity_MessageType]"

subsection \<open>RegistrationRequestMessageIdentity\<close>

definition RegistrationRequestMessageIdentity_MessageType :: byte_field where "RegistrationRequestMessageIdentity_MessageType = Whole In_Octet 0"

definition RegistrationRequestMessageIdentity_fields :: "byte_field list" where
  "RegistrationRequestMessageIdentity_fields =
    [RegistrationRequestMessageIdentity_MessageType]"

subsection \<open>RegistrationResult5GS\<close>

definition RegistrationResult5GS_SMSAllowed :: byte_field where "RegistrationResult5GS_SMSAllowed = Bits In_Octet 0 (4, 3) 3 (247, 1, 3)"
definition RegistrationResult5GS_RegistrationResultValue5GS :: byte_field where "RegistrationResult5GS_RegistrationResultValue5GS = Bits In_Octet 0 (3, 0) 0 (248, 7, 0)"

definition RegistrationResult5GS_fields :: "byte_field list" where
  "RegistrationResult5GS_fields =
    [RegistrationResult5GS_SMSAllowed, RegistrationResult5GS_RegistrationResultValue5GS]"

subsection \<open>RejectedNSSAI\<close>

definition RejectedNSSAI_RejectedNSSAIContents :: range_field where "RejectedNSSAI_RejectedNSSAIContents = Tail 0"

subsection \<open>ReplayedS1UESecurityCapabilities\<close>

definition ReplayedS1UESecurityCapabilities_EEA0 :: byte_field where "ReplayedS1UESecurityCapabilities_EEA0 = Bits In_Buffer 0 (8, 7) 7 (127, 1, 7)"
definition ReplayedS1UESecurityCapabilities_EEA1_128 :: byte_field where "ReplayedS1UESecurityCapabilities_EEA1_128 = Bits In_Buffer 0 (7, 6) 6 (191, 1, 6)"
definition ReplayedS1UESecurityCapabilities_EEA2_128 :: byte_field where "ReplayedS1UESecurityCapabilities_EEA2_128 = Bits In_Buffer 0 (6, 5) 5 (223, 1, 5)"
definition ReplayedS1UESecurityCapabilities_EEA3_128 :: byte_field where "ReplayedS1UESecurityCapabilities_EEA3_128 = Bits In_Buffer 0 (5, 4) 4 (239, 1, 4)"
definition ReplayedS1UESecurityCapabilities_EEA4 :: byte_field where "ReplayedS1UESecurityCapabilities_EEA4 = Bits In_Buffer 0 (4, 3) 3 (247, 1, 3)"
definition ReplayedS1UESecurityCapabilities_EEA5 :: byte_field where "ReplayedS1UESecurityCapabilities_EEA5 = Bits In_Buffer 0 (3, 2) 2 (251, 1, 2)"
definition ReplayedS1UESecurityCapabilities_EEA6 :: byte_field where "ReplayedS1UESecurityCapabilities_EEA6 = Bits In_Buffer 0 (2, 1) 1 (253, 1, 1)"
definition ReplayedS1UESecurityCapabilities_EEA7 :: byte_field where "ReplayedS1UESecurityCapabilities_EEA7 = Bits In_Buffer 0 (1, 0) 0 (254, 1, 0)"
definition ReplayedS1UESecurityCapabilities_EIA0 :: byte_field where "ReplayedS1UESecurityCapabilities_EIA0 = Bits In_Buffer 1 (8, 7) 7 (127, 1, 7)"
definition ReplayedS1UESecurityCapabilities_EIA1_128 :: byte_field where "ReplayedS1UESecurityCapabilities_EIA1_128 = Bits In_Buffer 1 (7, 6) 6 (191, 1, 6)"
definition ReplayedS1UESecurityCapabilities_EIA2_128 :: byte_field where "ReplayedS1UESecurityCapabilities_EIA2_128 = Bits In_Buffer 1 (6, 5) 5 (223, 1, 5)"
definition ReplayedS1UESecurityCapabilities_EIA3_128 :: byte_field where "ReplayedS1UESecurityCapabilities_EIA3_128 = Bits In_Buffer 1 (5, 4) 4 (239, 1, 4)"
definition ReplayedS1UESecurityCapabilities_EIA4 :: byte_field where "ReplayedS1UESecurityCapabilities_EIA4 = Bits In_Buffer 1 (4, 3) 3 (247, 1, 3)"
definition ReplayedS1UESecurityCapabilities_EIA5 :: byte_field where "ReplayedS1UESecurityCapabilities_EIA5 = Bits In_Buffer 1 (3, 2) 2 (251, 1, 2)"
definition ReplayedS1UESecurityCapabilities_EIA6 :: byte_field where "ReplayedS1UESecurityCapabilities_EIA6 = Bits In_Buffer 1 (2, 1) 1 (253, 1, 1)"
definition ReplayedS1UESecurityCapabilities_EIA7 :: byte_field where "ReplayedS1UESecurityCapabilities_EIA7 = Bits In_Buffer 1 (1, 0) 0 (254, 1, 0)"
definition ReplayedS1UESecurityCapabilities_UEA0 :: byte_field where "ReplayedS1UESecurityCapabilities_UEA0 = Bits In_Buffer 2 (8, 7) 7 (127, 1, 7)"
definition ReplayedS1UESecurityCapabilities_UEA1 :: byte_field where "ReplayedS1UESecurityCapabilities_UEA1 = Bits In_Buffer 2 (7, 6) 6 (191, 1, 6)"
definition ReplayedS1UESecurityCapabilities_UEA2 :: byte_field where "ReplayedS1UESecurityCapabilities_UEA2 = Bits In_Buffer 2 (6, 5) 5 (223, 1, 5)"
definition ReplayedS1UESecurityCapabilities_UEA3 :: byte_field where "ReplayedS1UESecurityCapabilities_UEA3 = Bits In_Buffer 2 (5, 4) 4 (239, 1, 4)"
definition ReplayedS1UESecurityCapabilities_UEA4 :: byte_field where "ReplayedS1UESecurityCapabilities_UEA4 = Bits In_Buffer 2 (4, 3) 3 (247, 1, 3)"
definition ReplayedS1UESecurityCapabilities_UEA5 :: byte_field where "ReplayedS1UESecurityCapabilities_UEA5 = Bits In_Buffer 2 (3, 2) 2 (251, 1, 2)"
definition ReplayedS1UESecurityCapabilities_UEA6 :: byte_field where "ReplayedS1UESecurityCapabilities_UEA6 = Bits In_Buffer 2 (2, 1) 1 (253, 1, 1)"
definition ReplayedS1UESecurityCapabilities_UEA7 :: byte_field where "ReplayedS1UESecurityCapabilities_UEA7 = Bits In_Buffer 2 (1, 0) 0 (254, 1, 0)"
definition ReplayedS1UESecurityCapabilities_UIA1 :: byte_field where "ReplayedS1UESecurityCapabilities_UIA1 = Bits In_Buffer 3 (7, 6) 6 (191, 1, 6)"
definition ReplayedS1UESecurityCapabilities_UIA2 :: byte_field where "ReplayedS1UESecurityCapabilities_UIA2 = Bits In_Buffer 3 (6, 5) 5 (223, 1, 5)"
definition ReplayedS1UESecurityCapabilities_UIA3 :: byte_field where "ReplayedS1UESecurityCapabilities_UIA3 = Bits In_Buffer 3 (5, 4) 4 (239, 1, 4)"
definition ReplayedS1UESecurityCapabilities_UIA4 :: byte_field where "ReplayedS1UESecurityCapabilities_UIA4 = Bits In_Buffer 3 (4, 3) 3 (247, 1, 3)"
definition ReplayedS1UESecurityCapabilities_UIA5 :: byte_field where "ReplayedS1UESecurityCapabilities_UIA5 = Bits In_Buffer 3 (3, 2) 2 (251, 1, 2)"
definition ReplayedS1UESecurityCapabilities_UIA6 :: byte_field where "ReplayedS1UESecurityCapabilities_UIA6 = Bits In_Buffer 3 (2, 1) 1 (253, 1, 1)"
definition ReplayedS1UESecurityCapabilities_UIA7 :: byte_field where "ReplayedS1UESecurityCapabilities_UIA7 = Bits In_Buffer 3 (1, 0) 0 (254, 1, 0)"
definition ReplayedS1UESecurityCapabilities_GEA1 :: byte_field where "ReplayedS1UESecurityCapabilities_GEA1 = Bits In_Buffer 4 (7, 6) 6 (191, 1, 6)"
definition ReplayedS1UESecurityCapabilities_GEA2 :: byte_field where "ReplayedS1UESecurityCapabilities_GEA2 = Bits In_Buffer 4 (6, 5) 5 (223, 1, 5)"
definition ReplayedS1UESecurityCapabilities_GEA3 :: byte_field where "ReplayedS1UESecurityCapabilities_GEA3 = Bits In_Buffer 4 (5, 4) 4 (239, 1, 4)"
definition ReplayedS1UESecurityCapabilities_GEA4 :: byte_field where "ReplayedS1UESecurityCapabilities_GEA4 = Bits In_Buffer 4 (4, 3) 3 (247, 1, 3)"
definition ReplayedS1UESecurityCapabilities_GEA5 :: byte_field where "ReplayedS1UESecurityCapabilities_GEA5 = Bits In_Buffer 4 (3, 2) 2 (251, 1, 2)"
definition ReplayedS1UESecurityCapabilities_GEA6 :: byte_field where "ReplayedS1UESecurityCapabilities_GEA6 = Bits In_Buffer 4 (2, 1) 1 (253, 1, 1)"
definition ReplayedS1UESecurityCapabilities_GEA7 :: byte_field where "ReplayedS1UESecurityCapabilities_GEA7 = Bits In_Buffer 4 (1, 0) 0 (254, 1, 0)"

definition ReplayedS1UESecurityCapabilities_fields :: "byte_field list" where
  "ReplayedS1UESecurityCapabilities_fields =
    [ReplayedS1UESecurityCapabilities_EEA0, ReplayedS1UESecurityCapabilities_EEA1_128,
     ReplayedS1UESecurityCapabilities_EEA2_128, ReplayedS1UESecurityCapabilities_EEA3_128,
     ReplayedS1UESecurityCapabilities_EEA4, ReplayedS1UESecurityCapabilities_EEA5,
     ReplayedS1UESecurityCapabilities_EEA6, ReplayedS1UESecurityCapabilities_EEA7,
     ReplayedS1UESecurityCapabilities_EIA0, ReplayedS1UESecurityCapabilities_EIA1_128,
     ReplayedS1UESecurityCapabilities_EIA2_128, ReplayedS1UESecurityCapabilities_EIA3_128,
     ReplayedS1UESecurityCapabilities_EIA4, ReplayedS1UESecurityCapabilities_EIA5,
     ReplayedS1UESecurityCapabilities_EIA6, ReplayedS1UESecurityCapabilities_EIA7,
     ReplayedS1UESecurityCapabilities_UEA0, ReplayedS1UESecurityCapabilities_UEA1,
     ReplayedS1UESecurityCapabilities_UEA2, ReplayedS1UESecurityCapabilities_UEA3,
     ReplayedS1UESecurityCapabilities_UEA4, ReplayedS1UESecurityCapabilities_UEA5,
     ReplayedS1UESecurityCapabilities_UEA6, ReplayedS1UESecurityCapabilities_UEA7,
     ReplayedS1UESecurityCapabilities_UIA1, ReplayedS1UESecurityCapabilities_UIA2,
     ReplayedS1UESecurityCapabilities_UIA3, ReplayedS1UESecurityCapabilities_UIA4,
     ReplayedS1UESecurityCapabilities_UIA5, ReplayedS1UESecurityCapabilities_UIA6,
     ReplayedS1UESecurityCapabilities_UIA7, ReplayedS1UESecurityCapabilities_GEA1,
     ReplayedS1UESecurityCapabilities_GEA2, ReplayedS1UESecurityCapabilities_GEA3,
     ReplayedS1UESecurityCapabilities_GEA4, ReplayedS1UESecurityCapabilities_GEA5,
     ReplayedS1UESecurityCapabilities_GEA6, ReplayedS1UESecurityCapabilities_GEA7]"

subsection \<open>ReplayedUESecurityCapabilities\<close>

definition ReplayedUESecurityCapabilities_EA0_5G :: byte_field where "ReplayedUESecurityCapabilities_EA0_5G = Bits In_Buffer 0 (8, 7) 7 (127, 1, 7)"
definition ReplayedUESecurityCapabilities_EA1_128_5G :: byte_field where "ReplayedUESecurityCapabilities_EA1_128_5G = Bits In_Buffer 0 (7, 6) 6 (191, 1, 6)"
definition ReplayedUESecurityCapabilities_EA2_128_5G :: byte_field where "ReplayedUESecurityCapabilities_EA2_128_5G = Bits In_Buffer 0 (6, 5) 5 (223, 1, 5)"
definition ReplayedUESecurityCapabilities_EA3_128_5G :: byte_field where "ReplayedUESecurityCapabilities_EA3_128_5G = Bits In_Buffer 0 (5, 4) 4 (239, 1, 4)"
definition ReplayedUESecurityCapabilities_EA4_5G :: byte_field where "ReplayedUESecurityCapabilities_EA4_5G = Bits In_Buffer 0 (4, 3) 3 (247, 1, 3)"
definition ReplayedUESecurityCapabilities_EA5_5G :: byte_field where "ReplayedUESecurityCapabilities_EA5_5G = Bits In_Buffer 0 (3, 2) 2 (251, 1, 2)"
definition ReplayedUESecurityCapabilities_EA6_5G :: byte_field where "ReplayedUESecurityCapabilities_EA6_5G = Bits In_Buffer 0 (2, 1) 1 (253, 1, 1)"
definition ReplayedUESecurityCapabilities_EA7_5G :: byte_field where "ReplayedUESecurityCapabilities_EA7_5G = Bits In_Buffer 0 (1, 0) 0 (254, 1, 0)"
definition ReplayedUESecurityCapabilities_IA0_5G :: byte_field where "ReplayedUESecurityCapabilities_IA0_5G = Bits In_Buffer 1 (8, 7) 7 (127, 1, 7)"
definition ReplayedUESecurityCapabilities_IA1_128_5G :: byte_field where "ReplayedUESecurityCapabilities_IA1_128_5G = Bits In_Buffer 1 (7, 6) 6 (191, 1, 6)"
definition ReplayedUESecurityCapabilities_IA2_128_5G :: byte_field where "ReplayedUESecurityCapabilities_IA2_128_5G = Bits In_Buffer 1 (6, 5) 5 (223, 1, 5)"
definition ReplayedUESecurityCapabilities_IA3_128_5G :: byte_field where "ReplayedUESecurityCapabilities_IA3_128_5G = Bits In_Buffer 1 (5, 4) 4 (239, 1, 4)"
definition ReplayedUESecurityCapabilities_IA4_5G :: byte_field where "ReplayedUESecurityCapabilities_IA4_5G = Bits In_Buffer 1 (4, 3) 3 (247, 1, 3)"
definition ReplayedUESecurityCapabilities_IA5_5G :: byte_field where "ReplayedUESecurityCapabilities_IA5_5G = Bits In_Buffer 1 (3, 2) 2 (251, 1, 2)"
definition ReplayedUESecurityCapabilities_IA6_5G :: byte_field where "ReplayedUESecurityCapabilities_IA6_5G = Bits In_Buffer 1 (2, 1) 1 (253, 1, 1)"
definition ReplayedUESecurityCapabilities_IA7_5G :: byte_field where "ReplayedUESecurityCapabilities_IA7_5G = Bits In_Buffer 1 (1, 0) 0 (254, 1, 0)"
definition ReplayedUESecurityCapabilities_EEA0 :: byte_field where "ReplayedUESecurityCapabilities_EEA0 = Bits In_Buffer 2 (8, 7) 7 (127, 1, 7)"
definition ReplayedUESecurityCapabilities_EEA1_128 :: byte_field where "ReplayedUESecurityCapabilities_EEA1_128 = Bits In_Buffer 2 (7, 6) 6 (191, 1, 6)"
definition ReplayedUESecurityCapabilities_EEA2_128 :: byte_field where "ReplayedUESecurityCapabilities_EEA2_128 = Bits In_Buffer 2 (6, 5) 5 (223, 1, 5)"
definition ReplayedUESecurityCapabilities_EEA3_128 :: byte_field where "ReplayedUESecurityCapabilities_EEA3_128 = Bits In_Buffer 2 (5, 4) 4 (239, 1, 4)"
definition ReplayedUESecurityCapabilities_EEA4 :: byte_field where "ReplayedUESecurityCapabilities_EEA4 = Bits In_Buffer 2 (4, 3) 3 (247, 1, 3)"
definition ReplayedUESecurityCapabilities_EEA5 :: byte_field where "ReplayedUESecurityCapabilities_EEA5 = Bits In_Buffer 2 (3, 2) 2 (251, 1, 2)"
definition ReplayedUESecurityCapabilities_EEA6 :: byte_field where "ReplayedUESecurityCapabilities_EEA6 = Bits In_Buffer 2 (2, 1) 1 (253, 1, 1)"
definition ReplayedUESecurityCapabilities_EEA7 :: byte_field where "ReplayedUESecurityCapabilities_EEA7 = Bits In_Buffer 2 (1, 0) 0 (254, 1, 0)"
definition ReplayedUESecurityCapabilities_EIA0 :: byte_field where "ReplayedUESecurityCapabilities_EIA0 = Bits In_Buffer 3 (8, 7) 7 (127, 1, 7)"
definition ReplayedUESecurityCapabilities_EIA1_128 :: byte_field where "ReplayedUESecurityCapabilities_EIA1_128 = Bits In_Buffer 3 (7, 6) 6 (191, 1, 6)"
definition ReplayedUESecurityCapabilities_EIA2_128 :: byte_field where "ReplayedUESecurityCapabilities_EIA2_128 = Bits In_Buffer 3 (6, 5) 5 (223, 1, 5)"
definition ReplayedUESecurityCapabilities_EIA3_128 :: byte_field where "ReplayedUESecurityCapabilities_EIA3_128 = Bits In_Buffer 3 (5, 4) 4 (239, 1, 4)"
definition ReplayedUESecurityCapabilities_EIA4 :: byte_field where "ReplayedUESecurityCapabilities_EIA4 = Bits In_Buffer 3 (4, 3) 3 (247, 1, 3)"
definition ReplayedUESecurityCapabilities_EIA5 :: byte_field where "ReplayedUESecurityCapabilities_EIA5 = Bits In_Buffer 3 (3, 2) 2 (251, 1, 2)"
definition ReplayedUESecurityCapabilities_EIA6 :: byte_field where "ReplayedUESecurityCapabilities_EIA6 = Bits In_Buffer 3 (2, 1) 1 (253, 1, 1)"
definition ReplayedUESecurityCapabilities_EIA7 :: byte_field where "ReplayedUESecurityCapabilities_EIA7 = Bits In_Buffer 3 (1, 0) 0 (254, 1, 0)"
definition ReplayedUESecurityCapabilities_Spare :: range_field where "ReplayedUESecurityCapabilities_Spare = Range In_Buffer 4 8"

definition ReplayedUESecurityCapabilities_fields :: "byte_field list" where
  "ReplayedUESecurityCapabilities_fields =
    [ReplayedUESecurityCapabilities_EA0_5G, ReplayedUESecurityCapabilities_EA1_128_5G,
     ReplayedUESecurityCapabilities_EA2_128_5G, ReplayedUESecurityCapabilities_EA3_128_5G,
     ReplayedUESecurityCapabilities_EA4_5G, ReplayedUESecurityCapabilities_EA5_5G,
     ReplayedUESecurityCapabilities_EA6_5G, ReplayedUESecurityCapabilities_EA7_5G,
     ReplayedUESecurityCapabilities_IA0_5G, ReplayedUESecurityCapabilities_IA1_128_5G,
     ReplayedUESecurityCapabilities_IA2_128_5G, ReplayedUESecurityCapabilities_IA3_128_5G,
     ReplayedUESecurityCapabilities_IA4_5G, ReplayedUESecurityCapabilities_IA5_5G,
     ReplayedUESecurityCapabilities_IA6_5G, ReplayedUESecurityCapabilities_IA7_5G,
     ReplayedUESecurityCapabilities_EEA0, ReplayedUESecurityCapabilities_EEA1_128,
     ReplayedUESecurityCapabilities_EEA2_128, ReplayedUESecurityCapabilities_EEA3_128,
     ReplayedUESecurityCapabilities_EEA4, ReplayedUESecurityCapabilities_EEA5,
     ReplayedUESecurityCapabilities_EEA6, ReplayedUESecurityCapabilities_EEA7,
     ReplayedUESecurityCapabilities_EIA0, ReplayedUESecurityCapabilities_EIA1_128,
     ReplayedUESecurityCapabilities_EIA2_128, ReplayedUESecurityCapabilities_EIA3_128,
     ReplayedUESecurityCapabilities_EIA4, ReplayedUESecurityCapabilities_EIA5,
     ReplayedUESecurityCapabilities_EIA6, ReplayedUESecurityCapabilities_EIA7]"

subsection \<open>RequestType\<close>

definition RequestType_Iei :: byte_field where "RequestType_Iei = Bits In_Octet 0 (8, 4) 4 (15, 15, 4)"
definition RequestType_RequestTypeValue :: byte_field where "RequestType_RequestTypeValue = Bits In_Octet 0 (3, 0) 0 (248, 7, 0)"

definition RequestType_fields :: "byte_field list" where
  "RequestType_fields =
    [RequestType_Iei, RequestType_RequestTypeValue]"

subsection \<open>RequestedDRXParameters\<close>

definition RequestedDRXParameters_DRXValue :: byte_field where "RequestedDRXParameters_DRXValue = Bits In_Octet 0 (4, 0) 0 (240, 15, 0)"

definition RequestedDRXParameters_fields :: "byte_field list" where
  "RequestedDRXParameters_fields =
    [RequestedDRXParameters_DRXValue]"

subsection \<open>RequestedNSSAI\<close>

definition RequestedNSSAI_SNSSAIValue :: range_field where "RequestedNSSAI_SNSSAIValue = Tail 0"

subsection \<open>RequestedQosFlowDescriptions\<close>

definition RequestedQosFlowDescriptions_QoSFlowDescriptions :: range_field where "RequestedQosFlowDescriptions_QoSFlowDescriptions = Tail 0"

subsection \<open>RequestedQosRules\<close>

definition RequestedQosRules_QoSRules :: range_field where "RequestedQosRules_QoSRules = Tail 0"

subsection \<open>S1UENetworkCapability\<close>

definition S1UENetworkCapability_EEA0 :: byte_field where "S1UENetworkCapability_EEA0 = Bits In_Buffer 0 (8, 7) 7 (127, 1, 7)"
definition S1UENetworkCapability_EEA1_128 :: byte_field where "S1UENetworkCapability_EEA1_128 = Bits In_Buffer 0 (7, 6) 6 (191, 1, 6)"
definition S1UENetworkCapability_EEA2_128 :: byte_field where "S1UENetworkCapability_EEA2_128 = Bits In_Buffer 0 (6, 5) 5 (223, 1, 5)"
definition S1UENetworkCapability_EEA3_128 :: byte_field where "S1UENetworkCapability_EEA3_128 = Bits In_Buffer 0 (5, 4) 4 (239, 1, 4)"
definition S1UENetworkCapability_EEA4 :: byte_field where "S1UENetworkCapability_EEA4 = Bits In_Buffer 0 (4, 3) 3 (247, 1, 3)"
definition S1UENetworkCapability_EEA5 :: byte_field where "S1UENetworkCapability_EEA5 = Bits In_Buffer 0 (3, 2) 2 (251, 1, 2)"
definition S1UENetworkCapability_EEA6 :: byte_field where "S1UENetworkCapability_EEA6 = Bits In_Buffer 0 (2, 1) 1 (253, 1, 1)"
definition S1UENetworkCapability_EEA7 :: byte_field where "S1UENetworkCapability_EEA7 = Bits In_Buffer 0 (1, 0) 0 (254, 1, 0)"
definition S1UENetworkCapability_EIA0 :: byte_field where "S1UENetworkCapability_EIA0 = Bits In_Buffer 1 (8, 7) 7 (127, 1, 7)"
definition S1UENetworkCapability_EIA1_128 :: byte_field where "S1UENetworkCapability_EIA1_128 = Bits In_Buffer 1 (7, 6) 6 (191, 1, 6)"
definition S1UENetworkCapability_EIA2_128 :: byte_field where "S1UENetworkCapability_EIA2_128 = Bits In_Buffer 1 (6, 5) 5 (223, 1, 5)"
definition S1UENetworkCapability_EIA3_128 :: byte_field where "S1UENetworkCapability_EIA3_128 = Bits In_Buffer 1 (5, 4) 4 (239, 1, 4)"
definition S1UENetworkCapability_EIA4 :: byte_field where "S1UENetworkCapability_EIA4 = Bits In_Buffer 1 (4, 3) 3 (247, 1, 3)"
definition S1UENetworkCapability_EIA5 :: byte_field where "S1UENetworkCapability_EIA5 = Bits In_Buffer 1 (3, 2) 2 (251, 1, 2)"
definition S1UENetworkCapability_EIA6 :: byte_field where "S1UENetworkCapability_EIA6 = Bits In_Buffer 1 (2, 1) 1 (253, 1, 1)"
definition S1UENetworkCapability_EIA7 :: byte_field where "S1UENetworkCapability_EIA7 = Bits In_Buffer 1 (1, 0) 0 (254, 1, 0)"
definition S1UENetworkCapability_UEA0 :: byte_field where "S1UENetworkCapability_UEA0 = Bits In_Buffer 2 (8, 7) 7 (127, 1, 7)"
definition S1UENetworkCapability_UEA1 :: byte_field where "S1UENetworkCapability_UEA1 = Bits In_Buffer 2 (7, 6) 6 (191, 1, 6)"
definition S1UENetworkCapability_UEA2 :: byte_field where "S1UENetworkCapability_UEA2 = Bits In_Buffer 2 (6, 5) 5 (223, 1, 5)"
definition S1UENetworkCapability_UEA3 :: byte_field where "S1UENetworkCapability_UEA3 = Bits In_Buffer 2 (5, 4) 4 (239, 1, 4)"
definition S1UENetworkCapability_UEA4 :: byte_field where "S1UENetworkCapability_UEA4 = Bits In_Buffer 2 (4, 3) 3 (247, 1, 3)"
definition S1UENetworkCapability_UEA5 :: byte_field where "S1UENetworkCapability_UEA5 = Bits In_Buffer 2 (3, 2) 2 (251, 1, 2)"
definition S1UENetworkCapability_UEA6 :: byte_field where "S1UENetworkCapability_UEA6 = Bits In_Buffer 2 (2, 1) 1 (253, 1, 1)"
definition S1UENetworkCapability_UEA7 :: byte_field where "S1UENetworkCapability_UEA7 = Bits In_Buffer 2 (1, 0) 0 (254, 1, 0)"
definition S1UENetworkCapability_UCS2 :: byte_field where "S1UENetworkCapability_UCS2 = Bits In_Buffer 3 (8, 7) 7 (127, 1, 7)"
definition S1UENetworkCapability_UIA1 :: byte_field where "S1UENetworkCapability_UIA1 = Bits In_Buffer 3 (7, 6) 6 (191, 1, 6)"
definition S1UENetworkCapability_UIA2 :: byte_field where "S1UENetworkCapability_UIA2 = Bits In_Buffer 3 (6, 5) 5 (223, 1, 5)"
definition S1UENetworkCapability_UIA3 :: byte_field where "S1UENetworkCapability_UIA3 = Bits In_Buffer 3 (5, 4) 4 (239, 1, 4)"
definition S1UENetworkCapability_UIA4 :: byte_field where "S1UENetworkCapability_UIA4 = Bits In_Buffer 3 (4, 3) 3 (247, 1, 3)"
definition S1UENetworkCapability_UIA5 :: byte_field where "S1UENetworkCapability_UIA5 = Bits In_Buffer 3 (3, 2) 2 (251, 1, 2)"
definition S1UENetworkCapability_UIA6 :: byte_field where "S1UENetworkCapability_UIA6 = Bits In_Buffer 3 (2, 1) 1 (253, 1, 1)"
definition S1UENetworkCapability_UIA7 :: byte_field where "S1UENetworkCapability_UIA7 = Bits In_Buffer 3 (1, 0) 0 (254, 1, 0)"
definition S1UENetworkCapability_ProSedd :: byte_field where "S1UENetworkCapability_ProSedd = Bits In_Buffer 4 (8, 7) 7 (127, 1, 7)"
definition S1UENetworkCapability_ProSe :: byte_field where "S1UENetworkCapability_ProSe = Bits In_Buffer 4 (7, 6) 6 (191, 1, 6)"
definition S1UENetworkCapability_H245ASH :: byte_field where "S1UENetworkCapability_H245ASH = Bits In_Buffer 4 (6, 5) 5 (223, 1, 5)"
definition S1UENetworkCapability_ACCCSFB :: byte_field where "S1UENetworkCapability_ACCCSFB = Bits In_Buffer 4 (5, 4) 4 (239, 1, 4)"
definition S1UENetworkCapability_LPP :: byte_field where "S1UENetworkCapability_LPP = Bits In_Buffer 4 (4, 3) 3 (247, 1, 3)"
definition S1UENetworkCapability_LCS :: byte_field where "S1UENetworkCapability_LCS = Bits In_Buffer 4 (3, 2) 2 (251, 1, 2)"
definition S1UENetworkCapability_xSRVCC :: byte_field where "S1UENetworkCapability_xSRVCC = Bits In_Buffer 4 (2, 1) 1 (253, 1, 1)"
definition S1UENetworkCapability_NF :: byte_field where "S1UENetworkCapability_NF = Bits In_Buffer 4 (1, 0) 0 (254, 1, 0)"
definition S1UENetworkCapability_EPCO :: byte_field where "S1UENetworkCapability_EPCO = Bits In_Buffer 5 (8, 7) 7 (127, 1, 7)"
definition S1UENetworkCapability_HCCPCIOT :: byte_field where "S1UENetworkCapability_HCCPCIOT = Bits In_Buffer 5 (7, 6) 6 (191, 1, 6)"
definition S1UENetworkCapability_ERwoPDN :: byte_field where "S1UENetworkCapability_ERwoPDN = Bits In_Buffer 5 (6, 5) 5 (223, 1, 5)"
definition S1UENetworkCapability_S1UData :: byte_field where "S1UENetworkCapability_S1UData = Bits In_Buffer 5 (5, 4) 4 (239, 1, 4)"
definition S1UENetworkCapability_UPCIot :: byte_field where "S1UENetworkCapability_UPCIot = Bits In_Buffer 5 (4, 3) 3 (247, 1, 3)"
definition S1UENetworkCapability_CPCIot :: byte_field where "S1UENetworkCapability_CPCIot = Bits In_Buffer 5 (3, 2) 2 (251, 1, 2)"
definition S1UENetworkCapability_Proserelay :: byte_field where "S1UENetworkCapability_Proserelay = Bits In_Buffer 5 (2, 1) 1 (253, 1, 1)"
definition S1UENetworkCapability_ProSedc :: byte_field where "S1UENetworkCapability_ProSedc = Bits In_Buffer 5 (1, 0) 0 (254, 1, 0)"
definition S1UENetworkCapability_Bearer15 :: byte_field where "S1UENetworkCapability_Bearer15 = Bits In_Buffer 6 (8, 7) 7 (127, 1, 7)"
definition S1UENetworkCapability_SGC :: byte_field where "S1UENetworkCapability_SGC = Bits In_Buffer 6 (7, 6) 6 (191, 1, 6)"
definition S1UENetworkCapability_N1mode :: byte_field where "S1UENetworkCapability_N1mode = Bits In_Buffer 6 (6, 5) 5 (223, 1, 5)"
definition S1UENetworkCapability_DCNR :: byte_field where "S1UENetworkCapability_DCNR = Bits In_Buffer 6 (5, 4) 4 (239, 1, 4)"
definition S1UENetworkCapability_CPbackoff :: byte_field where "S1UENetworkCapability_CPbackoff = Bits In_Buffer 6 (4, 3) 3 (247, 1, 3)"
definition S1UENetworkCapability_RestrictEC :: byte_field where "S1UENetworkCapability_RestrictEC = Bits In_Buffer 6 (3, 2) 2 (251, 1, 2)"
definition S1UENetworkCapability_V2XPC5 :: byte_field where "S1UENetworkCapability_V2XPC5 = Bits In_Buffer 6 (2, 1) 1 (253, 1, 1)"
definition S1UENetworkCapability_MulitpeDRB :: byte_field where "S1UENetworkCapability_MulitpeDRB = Bits In_Buffer 6 (1, 0) 0 (254, 1, 0)"
definition S1UENetworkCapability_Spare :: range_field where "S1UENetworkCapability_Spare = Tail 7"

definition S1UENetworkCapability_fields :: "byte_field list" where
  "S1UENetworkCapability_fields =
    [S1UENetworkCapability_EEA0, S1UENetworkCapability_EEA1_128, S1UENetworkCapability_EEA2_128,
     S1UENetworkCapability_EEA3_128, S1UENetworkCapability_EEA4, S1UENetworkCapability_EEA5,
     S1UENetworkCapability_EEA6, S1UENetworkCapability_EEA7, S1UENetworkCapability_EIA0,
     S1UENetworkCapability_EIA1_128, S1UENetworkCapability_EIA2_128, S1UENetworkCapability_EIA3_128,
     S1UENetworkCapability_EIA4, S1UENetworkCapability_EIA5, S1UENetworkCapability_EIA6,
     S1UENetworkCapability_EIA7, S1UENetworkCapability_UEA0, S1UENetworkCapability_UEA1,
     S1UENetworkCapability_UEA2, S1UENetworkCapability_UEA3, S1UENetworkCapability_UEA4,
     S1UENetworkCapability_UEA5, S1UENetworkCapability_UEA6, S1UENetworkCapability_UEA7,
     S1UENetworkCapability_UCS2, S1UENetworkCapability_UIA1, S1UENetworkCapability_UIA2,
     S1UENetworkCapability_UIA3, S1UENetworkCapability_UIA4, S1UENetworkCapability_UIA5,
     S1UENetworkCapability_UIA6, S1UENetworkCapability_UIA7, S1UENetworkCapability_ProSedd,
     S1UENetworkCapability_ProSe, S1UENetworkCapability_H245ASH, S1UENetworkCapability_ACCCSFB,
     S1UENetworkCapability_LPP, S1UENetworkCapability_LCS, S1UENetworkCapability_xSRVCC, S1UENetworkCapability_NF,
     S1UENetworkCapability_EPCO, S1UENetworkCapability_HCCPCIOT, S1UENetworkCapability_ERwoPDN,
     S1UENetworkCapability_S1UData, S1UENetworkCapability_UPCIot, S1UENetworkCapability_CPCIot,
     S1UENetworkCapability_Proserelay, S1UENetworkCapability_ProSedc, S1UENetworkCapability_Bearer15,
     S1UENetworkCapability_SGC, S1UENetworkCapability_N1mode, S1UENetworkCapability_DCNR,
     S1UENetworkCapability_CPbackoff, S1UENetworkCapability_RestrictEC, S1UENetworkCapability_V2XPC5,
     S1UENetworkCapability_MulitpeDRB]"

subsection \<open>SMPDUDNRequestContainer\<close>

definition SMPDUDNRequestContainer_DNSpecificIdentity :: range_field where "SMPDUDNRequestContainer_DNSpecificIdentity = Tail 0"

subsection \<open>SMSIndication\<close>

definition SMSIndication_Iei :: byte_field where "SMSIndication_Iei = Bits In_Octet 0 (8, 4) 4 (15, 15, 4)"
definition SMSIndication_SAI :: byte_field where "SMSIndication_SAI = Bits In_Octet 0 (1, 0) 0 (254, 1, 0)"

definition SMSIndication_fields :: "byte_field list" where
  "SMSIndication_fields =
    [SMSIndication_Iei, SMSIndication_SAI]"

subsection \<open>SNSSAI\<close>

definition SNSSAI_SST :: byte_field where "SNSSAI_SST = Whole In_Octet 0"
definition SNSSAI_MappedHPLMNSST :: byte_field where "SNSSAI_MappedHPLMNSST = Whole In_Octet 4"
definition SNSSAI_SD :: range_field where "SNSSAI_SD = Range In_Octet 1 4"
definition SNSSAI_MappedHPLMNSD :: range_field where "SNSSAI_MappedHPLMNSD = Range In_Octet 5 8"

definition SNSSAI_fields :: "byte_field list" where
  "SNSSAI_fields =
    [SNSSAI_SST, SNSSAI_MappedHPLMNSST]"

subsection \<open>SORTransparentContainer\<close>

definition SORTransparentContainer_SORContent :: range_field where "SORTransparentContainer_SORContent = Tail 0"

subsection \<open>SSCMode\<close>

definition SSCMode_Iei :: byte_field where "SSCMode_Iei = Bits In_Octet 0 (8, 4) 4 (15, 15, 4)"
definition SSCMode_Spare :: byte_field where "SSCMode_Spare = Bits In_Octet 0 (4, 3) 3 (247, 1, 3)"
definition SSCMode_SSCMode :: byte_field where "SSCMode_SSCMode = Bits In_Octet 0 (3, 0) 0 (248, 7, 0)"

definition SSCMode_fields :: "byte_field list" where
  "SSCMode_fields =
    [SSCMode_Iei, SSCMode_Spare, SSCMode_SSCMode]"

subsection \<open>STATUSMessageIdentity5GMM\<close>

definition STATUSMessageIdentity5GMM_MessageType :: byte_field where "STATUSMessageIdentity5GMM_MessageType = Whole In_Octet 0"

definition STATUSMessageIdentity5GMM_fields :: "byte_field list" where
  "STATUSMessageIdentity5GMM_fields =
    [STATUSMessageIdentity5GMM_MessageType]"

subsection \<open>STATUSMessageIdentity5GSM\<close>

definition STATUSMessageIdentity5GSM_MessageType :: byte_field where "STATUSMessageIdentity5GSM_MessageType = Whole In_Octet 0"

definition STATUSMessageIdentity5GSM_fields :: "byte_field list" where
  "STATUSMessageIdentity5GSM_fields =
    [STATUSMessageIdentity5GSM_MessageType]"

subsection \<open>SecurityModeCommandMessageIdentity\<close>

definition SecurityModeCommandMessageIdentity_MessageType :: byte_field where "SecurityModeCommandMessageIdentity_MessageType = Whole In_Octet 0"

definition SecurityModeCommandMessageIdentity_fields :: "byte_field list" where
  "SecurityModeCommandMessageIdentity_fields =
    [SecurityModeCommandMessageIdentity_MessageType]"

subsection \<open>SecurityModeCompleteMessageIdentity\<close>

definition SecurityModeCompleteMessageIdentity_MessageType :: byte_field where "SecurityModeCompleteMessageIdentity_MessageType = Whole In_Octet 0"

definition SecurityModeCompleteMessageIdentity_fields :: "byte_field list" where
  "SecurityModeCompleteMessageIdentity_fields =
    [SecurityModeCompleteMessageIdentity_MessageType]"

subsection \<open>SecurityModeRejectMessageIdentity\<close>

definition SecurityModeRejectMessageIdentity_MessageType :: byte_field where "SecurityModeRejectMessageIdentity_MessageType = Whole In_Octet 0"

definition SecurityModeRejectMessageIdentity_fields :: "byte_field list" where
  "SecurityModeRejectMessageIdentity_fields =
    [SecurityModeRejectMessageIdentity_MessageType]"

subsection \<open>SelectedEPSNASSecurityAlgorithms\<close>

definition SelectedEPSNASSecurityAlgorithms_TypeOfCipheringAlgorithm :: byte_field where "SelectedEPSNASSecurityAlgorithms_TypeOfCipheringAlgorithm = Bits In_Octet 0 (7, 4) 4 (143, 7, 4)"
definition SelectedEPSNASSecurityAlgorithms_TypeOfIntegrityProtectionAlgorithm :: byte_field where "SelectedEPSNASSecurityAlgorithms_TypeOfIntegrityProtectionAlgorithm = Bits In_Octet 0 (3, 0) 0 (248, 7, 0)"

definition SelectedEPSNASSecurityAlgorithms_fields :: "byte_field list" where
  "SelectedEPSNASSecurityAlgorithms_fields =
    [SelectedEPSNASSecurityAlgorithms_TypeOfCipheringAlgorithm,
     SelectedEPSNASSecurityAlgorithms_TypeOfIntegrityProtectionAlgorithm]"

subsection \<open>SelectedNASSecurityAlgorithms\<close>

definition SelectedNASSecurityAlgorithms_TypeOfCipheringAlgorithm :: byte_field where "SelectedNASSecurityAlgorithms_TypeOfCipheringAlgorithm = Bits In_Octet 0 (8, 4) 4 (15, 15, 4)"
definition SelectedNASSecurityAlgorithms_TypeOfIntegrityProtectionAlgorithm :: byte_field where "SelectedNASSecurityAlgorithms_TypeOfIntegrityProtectionAlgorithm = Bits In_Octet 0 (4, 0) 0 (240, 15, 0)"

definition SelectedNASSecurityAlgorithms_fields :: "byte_field list" where
  "SelectedNASSecurityAlgorithms_fields =
    [SelectedNASSecurityAlgorithms_TypeOfCipheringAlgorithm,
     SelectedNASSecurityAlgorithms_TypeOfIntegrityProtectionAlgorithm]"

subsection \<open>SelectedSSCModeAndSelectedPDUSessionType\<close>

definition SelectedSSCModeAndSelectedPDUSessionType_SSCMode :: byte_field where "SelectedSSCModeAndSelectedPDUSessionType_SSCMode = Bits In_Octet 0 (7, 4) 4 (143, 7, 4)"
definition SelectedSSCModeAndSelectedPDUSessionType_PDUSessionType :: byte_field where "SelectedSSCModeAndSelectedPDUSessionType_PDUSessionType = Bits In_Octet 0 (3, 0) 0 (248, 7, 0)"

definition SelectedSSCModeAndSelectedPDUSessionType_fields :: "byte_field list" where
  "SelectedSSCModeAndSelectedPDUSessionType_fields =
    [SelectedSSCModeAndSelectedPDUSessionType_SSCMode, SelectedSSCModeAndSelectedPDUSessionType_PDUSessionType]"

subsection \<open>SequenceNumber\<close>

definition SequenceNumber_SQN :: byte_field where "SequenceNumber_SQN = Whole In_Octet 0"

definition SequenceNumber_fields :: "byte_field list" where
  "SequenceNumber_fields =
    [SequenceNumber_SQN]"

subsection \<open>ServiceAcceptMessageIdentity\<close>

definition ServiceAcceptMessageIdentity_MessageType :: byte_field where "ServiceAcceptMessageIdentity_MessageType = Whole In_Octet 0"

definition ServiceAcceptMessageIdentity_fields :: "byte_field list" where
  "ServiceAcceptMessageIdentity_fields =
    [ServiceAcceptMessageIdentity_MessageType]"

subsection \<open>ServiceAreaList\<close>

definition ServiceAreaList_PartialServiceAreaList :: range_field where "ServiceAreaList_PartialServiceAreaList = Tail 0"

subsection \<open>ServiceRejectMessageIdentity\<close>

definition ServiceRejectMessageIdentity_MessageType :: byte_field where "ServiceRejectMessageIdentity_MessageType = Whole In_Octet 0"

definition ServiceRejectMessageIdentity_fields :: "byte_field list" where
  "ServiceRejectMessageIdentity_fields =
    [ServiceRejectMessageIdentity_MessageType]"

subsection \<open>ServiceRequestMessageIdentity\<close>

definition ServiceRequestMessageIdentity_MessageType :: byte_field where "ServiceRequestMessageIdentity_MessageType = Whole In_Octet 0"

definition ServiceRequestMessageIdentity_fields :: "byte_field list" where
  "ServiceRequestMessageIdentity_fields =
    [ServiceRequestMessageIdentity_MessageType]"

subsection \<open>ServiceTypeAndNgksi\<close>

definition ServiceTypeAndNgksi_ServiceTypeValue :: byte_field where "ServiceTypeAndNgksi_ServiceTypeValue = Bits In_Octet 0 (8, 4) 4 (15, 15, 4)"
definition ServiceTypeAndNgksi_TSC :: byte_field where "ServiceTypeAndNgksi_TSC = Bits In_Octet 0 (4, 3) 3 (247, 1, 3)"
definition ServiceTypeAndNgksi_NasKeySetIdentifiler :: byte_field where "ServiceTypeAndNgksi_NasKeySetIdentifiler = Bits In_Octet 0 (3, 0) 0 (248, 7, 0)"

definition ServiceTypeAndNgksi_fields :: "byte_field list" where
  "ServiceTypeAndNgksi_fields =
    [ServiceTypeAndNgksi_ServiceTypeValue, ServiceTypeAndNgksi_TSC, ServiceTypeAndNgksi_NasKeySetIdentifiler]"

subsection \<open>SessionAMBR\<close>

definition SessionAMBR_UnitForSessionAMBRForDownlink :: byte_field where "SessionAMBR_UnitForSessionAMBRForDownlink = Whole In_Octet 0"
definition SessionAMBR_UnitForSessionAMBRForUplink :: byte_field where "SessionAMBR_UnitForSessionAMBRForUplink = Whole In_Octet 3"
definition SessionAMBR_SessionAMBRForDownlink :: range_field where "SessionAMBR_SessionAMBRForDownlink = Range In_Octet 1 3"
definition SessionAMBR_SessionAMBRForUplink :: range_field where "SessionAMBR_SessionAMBRForUplink = Range In_Octet 4 6"

definition SessionAMBR_fields :: "byte_field list" where
  "SessionAMBR_fields =
    [SessionAMBR_UnitForSessionAMBRForDownlink, SessionAMBR_UnitForSessionAMBRForUplink]"

subsection \<open>ShortNameForNetwork\<close>

definition ShortNameForNetwork_Ext :: byte_field where "ShortNameForNetwork_Ext = Bits In_Buffer 0 (8, 7) 7 (127, 1, 7)"
definition ShortNameForNetwork_CodingScheme :: byte_field where "ShortNameForNetwork_CodingScheme = Bits In_Buffer 0 (7, 4) 4 (143, 7, 4)"
definition ShortNameForNetwork_AddCI :: byte_field where "ShortNameForNetwork_AddCI = Bits In_Buffer 0 (4, 3) 3 (247, 1, 3)"
definition ShortNameForNetwork_NumberOfSpareBitsInLastOctet :: byte_field where "ShortNameForNetwork_NumberOfSpareBitsInLastOctet = Bits In_Buffer 0 (3, 0) 0 (248, 7, 0)"
definition ShortNameForNetwork_TextString :: range_field where "ShortNameForNetwork_TextString = Tail 1"

definition ShortNameForNetwork_fields :: "byte_field list" where
  "ShortNameForNetwork_fields =
    [ShortNameForNetwork_Ext, ShortNameForNetwork_CodingScheme, ShortNameForNetwork_AddCI,
     ShortNameForNetwork_NumberOfSpareBitsInLastOctet]"

subsection \<open>SpareHalfOctetAndAccessType\<close>

definition SpareHalfOctetAndAccessType_AccessType :: byte_field where "SpareHalfOctetAndAccessType_AccessType = Bits In_Octet 0 (2, 0) 0 (252, 3, 0)"

definition SpareHalfOctetAndAccessType_fields :: "byte_field list" where
  "SpareHalfOctetAndAccessType_fields =
    [SpareHalfOctetAndAccessType_AccessType]"

subsection \<open>SpareHalfOctetAndDeregistrationType\<close>

definition SpareHalfOctetAndDeregistrationType_SwitchOff :: byte_field where "SpareHalfOctetAndDeregistrationType_SwitchOff = Bits In_Octet 0 (4, 3) 3 (247, 1, 3)"
definition SpareHalfOctetAndDeregistrationType_ReRegistrationRequired :: byte_field where "SpareHalfOctetAndDeregistrationType_ReRegistrationRequired = Bits In_Octet 0 (3, 2) 2 (251, 1, 2)"
definition SpareHalfOctetAndDeregistrationType_AccessType :: byte_field where "SpareHalfOctetAndDeregistrationType_AccessType = Bits In_Octet 0 (2, 0) 0 (252, 3, 0)"

definition SpareHalfOctetAndDeregistrationType_fields :: "byte_field list" where
  "SpareHalfOctetAndDeregistrationType_fields =
    [SpareHalfOctetAndDeregistrationType_SwitchOff, SpareHalfOctetAndDeregistrationType_ReRegistrationRequired,
     SpareHalfOctetAndDeregistrationType_AccessType]"

subsection \<open>SpareHalfOctetAndIdentityType\<close>

definition SpareHalfOctetAndIdentityType_TypeOfIdentity :: byte_field where "SpareHalfOctetAndIdentityType_TypeOfIdentity = Bits In_Octet 0 (3, 0) 0 (248, 7, 0)"

definition SpareHalfOctetAndIdentityType_fields :: "byte_field list" where
  "SpareHalfOctetAndIdentityType_fields =
    [SpareHalfOctetAndIdentityType_TypeOfIdentity]"

subsection \<open>SpareHalfOctetAndNgksi\<close>

definition SpareHalfOctetAndNgksi_SpareHalfOctet :: byte_field where "SpareHalfOctetAndNgksi_SpareHalfOctet = Bits In_Octet 0 (8, 4) 4 (15, 15, 4)"
definition SpareHalfOctetAndNgksi_TSC :: byte_field where "SpareHalfOctetAndNgksi_TSC = Bits In_Octet 0 (4, 3) 3 (247, 1, 3)"
definition SpareHalfOctetAndNgksi_NasKeySetIdentifiler :: byte_field where "SpareHalfOctetAndNgksi_NasKeySetIdentifiler = Bits In_Octet 0 (3, 0) 0 (248, 7, 0)"

definition SpareHalfOctetAndNgksi_fields :: "byte_field list" where
  "SpareHalfOctetAndNgksi_fields =
    [SpareHalfOctetAndNgksi_SpareHalfOctet, SpareHalfOctetAndNgksi_TSC, SpareHalfOctetAndNgksi_NasKeySetIdentifiler]"

subsection \<open>SpareHalfOctetAndPayloadContainerType\<close>

definition SpareHalfOctetAndPayloadContainerType_PayloadContainerType :: byte_field where "SpareHalfOctetAndPayloadContainerType_PayloadContainerType = Bits In_Octet 0 (4, 0) 0 (240, 15, 0)"

definition SpareHalfOctetAndPayloadContainerType_fields :: "byte_field list" where
  "SpareHalfOctetAndPayloadContainerType_fields =
    [SpareHalfOctetAndPayloadContainerType_PayloadContainerType]"

subsection \<open>SpareHalfOctetAndSecurityHeaderType\<close>

definition SpareHalfOctetAndSecurityHeaderType_SpareHalfOctet :: byte_field where "SpareHalfOctetAndSecurityHeaderType_SpareHalfOctet = Bits In_Octet 0 (8, 4) 4 (15, 15, 4)"
definition SpareHalfOctetAndSecurityHeaderType_SecurityHeaderType :: byte_field where "SpareHalfOctetAndSecurityHeaderType_SecurityHeaderType = Bits In_Octet 0 (4, 0) 0 (240, 15, 0)"

definition SpareHalfOctetAndSecurityHeaderType_fields :: "byte_field list" where
  "SpareHalfOctetAndSecurityHeaderType_fields =
    [SpareHalfOctetAndSecurityHeaderType_SpareHalfOctet, SpareHalfOctetAndSecurityHeaderType_SecurityHeaderType]"

subsection \<open>T3346Value\<close>

definition T3346Value_GPRSTimer2Value :: byte_field where "T3346Value_GPRSTimer2Value = Whole In_Octet 0"

definition T3346Value_fields :: "byte_field list" where
  "T3346Value_fields =
    [T3346Value_GPRSTimer2Value]"

subsection \<open>T3502Value\<close>

definition T3502Value_GPRSTimer2Value :: byte_field where "T3502Value_GPRSTimer2Value = Whole In_Octet 0"

definition T3502Value_fields :: "byte_field list" where
  "T3502Value_fields =
    [T3502Value_GPRSTimer2Value]"

subsection \<open>T3512Value\<close>

definition T3512Value_Unit :: byte_field where "T3512Value_Unit = Bits In_Octet 0 (8, 5) 5 (31, 7, 5)"
definition T3512Value_TimerValue :: byte_field where "T3512Value_TimerValue = Bits In_Octet 0 (5, 0) 0 (224, 31, 0)"

definition T3512Value_fields :: "byte_field list" where
  "T3512Value_fields =
    [T3512Value_Unit, T3512Value_TimerValue]"

subsection \<open>TAIList\<close>

definition TAIList_PartialTrackingAreaIdentityList :: range_field where "TAIList_PartialTrackingAreaIdentityList = Tail 0"

subsection \<open>TMSI5GS\<close>

definition TMSI5GS_Spare :: byte_field where "TMSI5GS_Spare = Bits In_Octet 0 (4, 3) 3 (247, 1, 3)"
definition TMSI5GS_TypeOfIdentity :: byte_field where "TMSI5GS_TypeOfIdentity = Bits In_Octet 0 (3, 0) 0 (248, 7, 0)"
definition TMSI5GS_AMFPointer :: byte_field where "TMSI5GS_AMFPointer = Bits In_Octet 2 (6, 0) 0 (192, 63, 0)"
definition TMSI5GS_TMSI5G :: range_field where "TMSI5GS_TMSI5G = Range In_Octet 3 7"
definition TMSI5GS_AMFSetID :: ten_field where "TMSI5GS_AMFSetID = Ten_bits 1"

definition TMSI5GS_fields :: "byte_field list" where
  "TMSI5GS_fields =
    [TMSI5GS_Spare, TMSI5GS_TypeOfIdentity, TMSI5GS_AMFPointer]"

subsection \<open>UESecurityCapability\<close>

definition UESecurityCapability_EA0_5G :: byte_field where "UESecurityCapability_EA0_5G = Bits In_Buffer 0 (8, 7) 7 (127, 1, 7)"
definition UESecurityCapability_EA1_128_5G :: byte_field where "UESecurityCapability_EA1_128_5G = Bits In_Buffer 0 (7, 6) 6 (191, 1, 6)"
definition UESecurityCapability_EA2_128_5G :: byte_field where "UESecurityCapability_EA2_128_5G = Bits In_Buffer 0 (6, 5) 5 (223, 1, 5)"
definition UESecurityCapability_EA3_128_5G :: byte_field where "UESecurityCapability_EA3_128_5G = Bits In_Buffer 0 (5, 4) 4 (239, 1, 4)"
definition UESecurityCapability_EA4_5G :: byte_field where "UESecurityCapability_EA4_5G = Bits In_Buffer 0 (4, 3) 3 (247, 1, 3)"
definition UESecurityCapability_EA5_5G :: byte_field where "UESecurityCapability_EA5_5G = Bits In_Buffer 0 (3, 2) 2 (251, 1, 2)"
definition UESecurityCapability_EA6_5G :: byte_field where "UESecurityCapability_EA6_5G = Bits In_Buffer 0 (2, 1) 1 (253, 1, 1)"
definition UESecurityCapability_EA7_5G :: byte_field where "UESecurityCapability_EA7_5G = Bits In_Buffer 0 (1, 0) 0 (254, 1, 0)"
definition UESecurityCapability_IA0_5G :: byte_field where "UESecurityCapability_IA0_5G = Bits In_Buffer 1 (8, 7) 7 (127, 1, 7)"
definition UESecurityCapability_IA1_128_5G :: byte_field where "UESecurityCapability_IA1_128_5G = Bits In_Buffer 1 (7, 6) 6 (191, 1, 6)"
definition UESecurityCapability_IA2_128_5G :: byte_field where "UESecurityCapability_IA2_128_5G = Bits In_Buffer 1 (6, 5) 5 (223, 1, 5)"
definition UESecurityCapability_IA3_128_5G :: byte_field where "UESecurityCapability_IA3_128_5G = Bits In_Buffer 1 (5, 4) 4 (239, 1, 4)"
definition UESecurityCapability_IA4_5G :: byte_field where "UESecurityCapability_IA4_5G = Bits In_Buffer 1 (4, 3) 3 (247, 1, 3)"
definition UESecurityCapability_IA5_5G :: byte_field where "UESecurityCapability_IA5_5G = Bits In_Buffer 1 (3, 2) 2 (251, 1, 2)"
definition UESecurityCapability_IA6_5G :: byte_field where "UESecurityCapability_IA6_5G = Bits In_Buffer 1 (2, 1) 1 (253, 1, 1)"
definition UESecurityCapability_IA7_5G :: byte_field where "UESecurityCapability_IA7_5G = Bits In_Buffer 1 (1, 0) 0 (254, 1, 0)"
definition UESecurityCapability_EEA0 :: byte_field where "UESecurityCapability_EEA0 = Bits In_Buffer 2 (8, 7) 7 (127, 1, 7)"
definition UESecurityCapability_EEA1_128 :: byte_field where "UESecurityCapability_EEA1_128 = Bits In_Buffer 2 (7, 6) 6 (191, 1, 6)"
definition UESecurityCapability_EEA2_128 :: byte_field where "UESecurityCapability_EEA2_128 = Bits In_Buffer 2 (6, 5) 5 (223, 1, 5)"
definition UESecurityCapability_EEA3_128 :: byte_field where "UESecurityCapability_EEA3_128 = Bits In_Buffer 2 (5, 4) 4 (239, 1, 4)"
definition UESecurityCapability_EEA4 :: byte_field where "UESecurityCapability_EEA4 = Bits In_Buffer 2 (4, 3) 3 (247, 1, 3)"
definition UESecurityCapability_EEA5 :: byte_field where "UESecurityCapability_EEA5 = Bits In_Buffer 2 (3, 2) 2 (251, 1, 2)"
definition UESecurityCapability_EEA6 :: byte_field where "UESecurityCapability_EEA6 = Bits In_Buffer 2 (2, 1) 1 (253, 1, 1)"
definition UESecurityCapability_EEA7 :: byte_field where "UESecurityCapability_EEA7 = Bits In_Buffer 2 (1, 0) 0 (254, 1, 0)"
definition UESecurityCapability_EIA0 :: byte_field where "UESecurityCapability_EIA0 = Bits In_Buffer 3 (8, 7) 7 (127, 1, 7)"
definition UESecurityCapability_EIA1_128 :: byte_field where "UESecurityCapability_EIA1_128 = Bits In_Buffer 3 (7, 6) 6 (191, 1, 6)"
definition UESecurityCapability_EIA2_128 :: byte_field where "UESecurityCapability_EIA2_128 = Bits In_Buffer 3 (6, 5) 5 (223, 1, 5)"
definition UESecurityCapability_EIA3_128 :: byte_field where "UESecurityCapability_EIA3_128 = Bits In_Buffer 3 (5, 4) 4 (239, 1, 4)"
definition UESecurityCapability_EIA4 :: byte_field where "UESecurityCapability_EIA4 = Bits In_Buffer 3 (4, 3) 3 (247, 1, 3)"
definition UESecurityCapability_EIA5 :: byte_field where "UESecurityCapability_EIA5 = Bits In_Buffer 3 (3, 2) 2 (251, 1, 2)"
definition UESecurityCapability_EIA6 :: byte_field where "UESecurityCapability_EIA6 = Bits In_Buffer 3 (2, 1) 1 (253, 1, 1)"
definition UESecurityCapability_EIA7 :: byte_field where "UESecurityCapability_EIA7 = Bits In_Buffer 3 (1, 0) 0 (254, 1, 0)"
definition UESecurityCapability_Spare :: range_field where "UESecurityCapability_Spare = Range In_Buffer 4 8"

definition UESecurityCapability_fields :: "byte_field list" where
  "UESecurityCapability_fields =
    [UESecurityCapability_EA0_5G, UESecurityCapability_EA1_128_5G, UESecurityCapability_EA2_128_5G,
     UESecurityCapability_EA3_128_5G, UESecurityCapability_EA4_5G, UESecurityCapability_EA5_5G,
     UESecurityCapability_EA6_5G, UESecurityCapability_EA7_5G, UESecurityCapability_IA0_5G,
     UESecurityCapability_IA1_128_5G, UESecurityCapability_IA2_128_5G, UESecurityCapability_IA3_128_5G,
     UESecurityCapability_IA4_5G, UESecurityCapability_IA5_5G, UESecurityCapability_IA6_5G,
     UESecurityCapability_IA7_5G, UESecurityCapability_EEA0, UESecurityCapability_EEA1_128,
     UESecurityCapability_EEA2_128, UESecurityCapability_EEA3_128, UESecurityCapability_EEA4,
     UESecurityCapability_EEA5, UESecurityCapability_EEA6, UESecurityCapability_EEA7, UESecurityCapability_EIA0,
     UESecurityCapability_EIA1_128, UESecurityCapability_EIA2_128, UESecurityCapability_EIA3_128,
     UESecurityCapability_EIA4, UESecurityCapability_EIA5, UESecurityCapability_EIA6, UESecurityCapability_EIA7]"

subsection \<open>UEStatus\<close>

definition UEStatus_N1ModeReg :: byte_field where "UEStatus_N1ModeReg = Bits In_Octet 0 (2, 1) 1 (253, 1, 1)"
definition UEStatus_S1ModeReg :: byte_field where "UEStatus_S1ModeReg = Bits In_Octet 0 (1, 0) 0 (254, 1, 0)"

definition UEStatus_fields :: "byte_field list" where
  "UEStatus_fields =
    [UEStatus_N1ModeReg, UEStatus_S1ModeReg]"

subsection \<open>ULNASTRANSPORTMessageIdentity\<close>

definition ULNASTRANSPORTMessageIdentity_MessageType :: byte_field where "ULNASTRANSPORTMessageIdentity_MessageType = Whole In_Octet 0"

definition ULNASTRANSPORTMessageIdentity_fields :: "byte_field list" where
  "ULNASTRANSPORTMessageIdentity_fields =
    [ULNASTRANSPORTMessageIdentity_MessageType]"

subsection \<open>UesUsageSetting\<close>

definition UesUsageSetting_UesUsageSetting :: byte_field where "UesUsageSetting_UesUsageSetting = Bits In_Octet 0 (1, 0) 0 (254, 1, 0)"

definition UesUsageSetting_fields :: "byte_field list" where
  "UesUsageSetting_fields =
    [UesUsageSetting_UesUsageSetting]"

subsection \<open>UniversalTimeAndLocalTimeZone\<close>

definition UniversalTimeAndLocalTimeZone_Year :: byte_field where "UniversalTimeAndLocalTimeZone_Year = Whole In_Octet 0"
definition UniversalTimeAndLocalTimeZone_Month :: byte_field where "UniversalTimeAndLocalTimeZone_Month = Whole In_Octet 1"
definition UniversalTimeAndLocalTimeZone_Day :: byte_field where "UniversalTimeAndLocalTimeZone_Day = Whole In_Octet 2"
definition UniversalTimeAndLocalTimeZone_Hour :: byte_field where "UniversalTimeAndLocalTimeZone_Hour = Whole In_Octet 3"
definition UniversalTimeAndLocalTimeZone_Minute :: byte_field where "UniversalTimeAndLocalTimeZone_Minute = Whole In_Octet 4"
definition UniversalTimeAndLocalTimeZone_Second :: byte_field where "UniversalTimeAndLocalTimeZone_Second = Whole In_Octet 5"
definition UniversalTimeAndLocalTimeZone_TimeZone :: byte_field where "UniversalTimeAndLocalTimeZone_TimeZone = Whole In_Octet 6"

definition UniversalTimeAndLocalTimeZone_fields :: "byte_field list" where
  "UniversalTimeAndLocalTimeZone_fields =
    [UniversalTimeAndLocalTimeZone_Year, UniversalTimeAndLocalTimeZone_Month, UniversalTimeAndLocalTimeZone_Day,
     UniversalTimeAndLocalTimeZone_Hour, UniversalTimeAndLocalTimeZone_Minute,
     UniversalTimeAndLocalTimeZone_Second, UniversalTimeAndLocalTimeZone_TimeZone]"

subsection \<open>UpdateType5GS\<close>

definition UpdateType5GS_NGRanRcu :: byte_field where "UpdateType5GS_NGRanRcu = Bits In_Octet 0 (2, 1) 1 (253, 1, 1)"
definition UpdateType5GS_SMSRequested :: byte_field where "UpdateType5GS_SMSRequested = Bits In_Octet 0 (1, 0) 0 (254, 1, 0)"

definition UpdateType5GS_fields :: "byte_field list" where
  "UpdateType5GS_fields =
    [UpdateType5GS_NGRanRcu, UpdateType5GS_SMSRequested]"

subsection \<open>UplinkDataStatus\<close>

definition UplinkDataStatus_PSI7 :: byte_field where "UplinkDataStatus_PSI7 = Bits In_Buffer 0 (8, 7) 7 (127, 1, 7)"
definition UplinkDataStatus_PSI6 :: byte_field where "UplinkDataStatus_PSI6 = Bits In_Buffer 0 (7, 6) 6 (191, 1, 6)"
definition UplinkDataStatus_PSI5 :: byte_field where "UplinkDataStatus_PSI5 = Bits In_Buffer 0 (6, 5) 5 (223, 1, 5)"
definition UplinkDataStatus_PSI4 :: byte_field where "UplinkDataStatus_PSI4 = Bits In_Buffer 0 (5, 4) 4 (239, 1, 4)"
definition UplinkDataStatus_PSI3 :: byte_field where "UplinkDataStatus_PSI3 = Bits In_Buffer 0 (4, 3) 3 (247, 1, 3)"
definition UplinkDataStatus_PSI2 :: byte_field where "UplinkDataStatus_PSI2 = Bits In_Buffer 0 (3, 2) 2 (251, 1, 2)"
definition UplinkDataStatus_PSI1 :: byte_field where "UplinkDataStatus_PSI1 = Bits In_Buffer 0 (2, 1) 1 (253, 1, 1)"
definition UplinkDataStatus_PSI0 :: byte_field where "UplinkDataStatus_PSI0 = Bits In_Buffer 0 (1, 0) 0 (254, 1, 0)"
definition UplinkDataStatus_PSI15 :: byte_field where "UplinkDataStatus_PSI15 = Bits In_Buffer 1 (8, 7) 7 (127, 1, 7)"
definition UplinkDataStatus_PSI14 :: byte_field where "UplinkDataStatus_PSI14 = Bits In_Buffer 1 (7, 6) 6 (191, 1, 6)"
definition UplinkDataStatus_PSI13 :: byte_field where "UplinkDataStatus_PSI13 = Bits In_Buffer 1 (6, 5) 5 (223, 1, 5)"
definition UplinkDataStatus_PSI12 :: byte_field where "UplinkDataStatus_PSI12 = Bits In_Buffer 1 (5, 4) 4 (239, 1, 4)"
definition UplinkDataStatus_PSI11 :: byte_field where "UplinkDataStatus_PSI11 = Bits In_Buffer 1 (4, 3) 3 (247, 1, 3)"
definition UplinkDataStatus_PSI10 :: byte_field where "UplinkDataStatus_PSI10 = Bits In_Buffer 1 (3, 2) 2 (251, 1, 2)"
definition UplinkDataStatus_PSI9 :: byte_field where "UplinkDataStatus_PSI9 = Bits In_Buffer 1 (2, 1) 1 (253, 1, 1)"
definition UplinkDataStatus_PSI8 :: byte_field where "UplinkDataStatus_PSI8 = Bits In_Buffer 1 (1, 0) 0 (254, 1, 0)"
definition UplinkDataStatus_Spare :: range_field where "UplinkDataStatus_Spare = Tail 2"

definition UplinkDataStatus_fields :: "byte_field list" where
  "UplinkDataStatus_fields =
    [UplinkDataStatus_PSI7, UplinkDataStatus_PSI6, UplinkDataStatus_PSI5, UplinkDataStatus_PSI4,
     UplinkDataStatus_PSI3, UplinkDataStatus_PSI2, UplinkDataStatus_PSI1, UplinkDataStatus_PSI0,
     UplinkDataStatus_PSI15, UplinkDataStatus_PSI14, UplinkDataStatus_PSI13, UplinkDataStatus_PSI12,
     UplinkDataStatus_PSI11, UplinkDataStatus_PSI10, UplinkDataStatus_PSI9, UplinkDataStatus_PSI8]"

definition nas_byte_fields :: "byte_field list list" where
  "nas_byte_fields =
    [Additional5GSecurityInformation_fields, AdditionalGUTI_fields, AllowedPDUSessionStatus_fields,
     AllowedSSCMode_fields, AlwaysonPDUSessionIndication_fields, AlwaysonPDUSessionRequested_fields,
     AuthenticationFailureMessageIdentity_fields, AuthenticationRejectMessageIdentity_fields,
     AuthenticationRequestMessageIdentity_fields, AuthenticationResponseMessageIdentity_fields,
     AuthenticationResultMessageIdentity_fields, BackoffTimerValue_fields, Capability5GMM_fields,
     Capability5GSM_fields, Cause5GMM_fields, Cause5GSM_fields, ConfigurationUpdateCommandMessageIdentity_fields,
     ConfigurationUpdateCompleteMessageIdentity_fields, ConfigurationUpdateIndication_fields,
     DLNASTRANSPORTMessageIdentity_fields, DeregistrationAcceptMessageIdentity_fields,
     DeregistrationRequestMessageIdentity_fields, EmergencyNumberList_fields, EquivalentPlmns_fields,
     ExtendedEmergencyNumberList_fields, ExtendedProtocolDiscriminator_fields, FullNameForNetwork_fields,
     GUTI5G_fields, IMEISV_fields, IMEISVRequest_fields, IdentityRequestMessageIdentity_fields,
     IdentityResponseMessageIdentity_fields, IntegrityProtectionMaximumDataRate_fields,
     LastVisitedRegisteredTAI_fields, LocalTimeZone_fields, MICOIndication_fields, NSSAIInclusionMode_fields,
     NegotiatedDRXParameters_fields, NetworkDaylightSavingTime_fields, NetworkFeatureSupport5GS_fields,
     NetworkSlicingIndication_fields, NgksiAndDeregistrationType_fields, NgksiAndRegistrationType5GS_fields,
     Non3GppDeregistrationTimerValue_fields, NoncurrentNativeNASKeySetIdentifier_fields,
     NotificationMessageIdentity_fields, NotificationResponseMessageIdentity_fields, OldPDUSessionID_fields,
     PDUAddress_fields, PDUSESSIONAUTHENTICATIONCOMMANDMessageIdentity_fields,
     PDUSESSIONAUTHENTICATIONCOMPLETEMessageIdentity_fields, PDUSESSIONAUTHENTICATIONRESULTMessageIdentity_fields,
     PDUSESSIONESTABLISHMENTACCEPTMessageIdentity_fields, PDUSESSIONESTABLISHMENTREJECTMessageIdentity_fields,
     PDUSESSIONESTABLISHMENTREQUESTMessageIdentity_fields, PDUSESSIONMODIFICATIONCOMMANDMessageIdentity_fields,
     PDUSESSIONMODIFICATIONCOMMANDREJECTMessageIdentity_fields,
     PDUSESSIONMODIFICATIONCOMPLETEMessageIdentity_fields, PDUSESSIONMODIFICATIONREJECTMessageIdentity_fields,
     PDUSESSIONMODIFICATIONREQUESTMessageIdentity_fields, PDUSESSIONRELEASECOMMANDMessageIdentity_fields,
     PDUSESSIONRELEASECOMPLETEMessageIdentity_fields, PDUSESSIONRELEASEREJECTMessageIdentity_fields,
     PDUSESSIONRELEASEREQUESTMessageIdentity_fields, PDUSessionID_fields, PDUSessionReactivationResult_fields,
     PDUSessionStatus_fields, PDUSessionType_fields, PTI_fields, PduSessionID2Value_fields, RQTimerValue_fields,
     RegistrationAcceptMessageIdentity_fields, RegistrationCompleteMessageIdentity_fields,
     RegistrationRejectMessageIdentity_fields, RegistrationRequestMessageIdentity_fields,
     RegistrationResult5GS_fields, ReplayedS1UESecurityCapabilities_fields, ReplayedUESecurityCapabilities_fields,
     RequestType_fields, RequestedDRXParameters_fields, S1UENetworkCapability_fields, SMSIndication_fields,
     SNSSAI_fields, SSCMode_fields, STATUSMessageIdentity5GMM_fields, STATUSMessageIdentity5GSM_fields,
     SecurityModeCommandMessageIdentity_fields, SecurityModeCompleteMessageIdentity_fields,
     SecurityModeRejectMessageIdentity_fields, SelectedEPSNASSecurityAlgorithms_fields,
     SelectedNASSecurityAlgorithms_fields, SelectedSSCModeAndSelectedPDUSessionType_fields, SequenceNumber_fields,
     ServiceAcceptMessageIdentity_fields, ServiceRejectMessageIdentity_fields,
     ServiceRequestMessageIdentity_fields, ServiceTypeAndNgksi_fields, SessionAMBR_fields,
     ShortNameForNetwork_fields, SpareHalfOctetAndAccessType_fields, SpareHalfOctetAndDeregistrationType_fields,
     SpareHalfOctetAndIdentityType_fields, SpareHalfOctetAndNgksi_fields,
     SpareHalfOctetAndPayloadContainerType_fields, SpareHalfOctetAndSecurityHeaderType_fields, T3346Value_fields,
     T3502Value_fields, T3512Value_fields, TMSI5GS_fields, UESecurityCapability_fields, UEStatus_fields,
     ULNASTRANSPORTMessageIdentity_fields, UesUsageSetting_fields, UniversalTimeAndLocalTimeZone_fields,
     UpdateType5GS_fields, UplinkDataStatus_fields]"

definition nas_range_fields :: "range_field list" where
  "nas_range_fields =
    [ABBA_ABBAContents, AdditionalGUTI_TMSI5G, AdditionalInformation_AdditionalInformationValue,
     AllowedNSSAI_SNSSAIValue, AllowedPDUSessionStatus_Spare,
     AuthenticationFailureParameter_AuthenticationFailureParameter, AuthenticationParameterAUTN_AUTN,
     AuthenticationParameterRAND_RANDValue, AuthenticationResponseParameter_RES,
     AuthorizedQosFlowDescriptions_QoSFlowDescriptions, AuthorizedQosRules_QosRule, Capability5GMM_Spare,
     Capability5GSM_Spare, ConfiguredNSSAI_SNSSAIValue, EAPMessage_EAPMessage,
     EPSNASMessageContainer_EPANASMessageContainer, EmergencyNumberList_EmergencyInformation,
     ExtendedEmergencyNumberList_EmergencyInformation,
     ExtendedProtocolConfigurationOptions_ExtendedProtocolConfigurationOptionsContents,
     FullNameForNetwork_TextString, GUTI5G_TMSI5G, LADNIndication_LADNDNNValue, LADNInformation_LADND,
     LastVisitedRegisteredTAI_TAC, MappedEPSBearerContexts_MappedEPSBearerContext, MessageAuthenticationCode_MAC,
     MobileIdentity_MobileIdentityContents, MobileIdentity5GS_MobileIdentity5GSContents,
     NASMessageContainer_NASMessageContainerContents,
     OperatordefinedAccessCategoryDefinitions_OperatorDefinedAccessCategoryDefintiion,
     PDUAddress_PDUAddressInformation, PDUSessionReactivationResult_Spare,
     PDUSessionReactivationResultErrorCause_PDUSessionIDAndCauseValue, PDUSessionStatus_Spare,
     PayloadContainer_PayloadContainerContents, RejectedNSSAI_RejectedNSSAIContents,
     ReplayedUESecurityCapabilities_Spare, RequestedNSSAI_SNSSAIValue,
     RequestedQosFlowDescriptions_QoSFlowDescriptions, RequestedQosRules_QoSRules, S1UENetworkCapability_Spare,
     SMPDUDNRequestContainer_DNSpecificIdentity, SNSSAI_SD, SNSSAI_MappedHPLMNSD,
     SORTransparentContainer_SORContent, ServiceAreaList_PartialServiceAreaList,
     SessionAMBR_SessionAMBRForDownlink, SessionAMBR_SessionAMBRForUplink, ShortNameForNetwork_TextString,
     TAIList_PartialTrackingAreaIdentityList, TMSI5GS_TMSI5G, UESecurityCapability_Spare, UplinkDataStatus_Spare]"

definition nas_ten_fields :: "ten_field list" where
  "nas_ten_fields =
    [AdditionalGUTI_AMFSetID, GUTI5G_AMFSetID,
     MaximumNumberOfSupportedPacketFilters_MaximumNumberOfSupportedPacketFilters, TMSI5GS_AMFSetID]"

section \<open>What a setter writes is what the getter reads\<close>

fun pairwise_separate :: "byte_field list \<Rightarrow> bool" where
  "pairwise_separate [] \<longleftrightarrow> True"
| "pairwise_separate (f # fs) \<longleftrightarrow> list_all (separate f) fs \<and> pairwise_separate fs"

lemma byte_fields_consistent: "list_all (list_all consistent) nas_byte_fields"
  by code_simp

lemma byte_fields_separate: "list_all pairwise_separate nas_byte_fields"
  by code_simp

lemma range_fields_ok: "list_all range_ok nas_range_fields"
  by code_simp

lemma separate_sym: "separate f g \<longleftrightarrow> separate g f"
  by (auto simp: and.commute)

lemma pairwise_separateD:
  "pairwise_separate fs \<Longrightarrow> f \<in> set fs \<Longrightarrow> g \<in> set fs \<Longrightarrow> g \<noteq> f \<Longrightarrow> separate f g"
  by (induction fs) (auto simp: list_all_iff simp del: separate.simps dest: separate_sym [THEN iffD1])



text \<open>
  The ten bit setter \<^verbatim>\<open>SetAMFSetID\<close> of a GUTI, an additional GUTI and an S-TMSI writes what its getter
  returns, but clears the lower six bits of its second octet: setting the AMF set identifier erases
  the AMF pointer, which is stored there.
\<close>

theorem AMFSetID_erases_pointer:
  assumes "(f, g) \<in> {(GUTI5G_AMFSetID, GUTI5G_AMFPointer), (AdditionalGUTI_AMFSetID, AdditionalGUTI_AMFPointer),
      (TMSI5GS_AMFSetID, TMSI5GS_AMFPointer)}" "ten_set f v a = Inr b"
  shows "ten_get f b = Inr (v AND 1023) \<and> field_get g b = Inr 0"
proof -
  have m: "GetBitMask 6 6 = 0" "GetBitMask 6 0 = 63" by (simp_all add: GetBitMask_def)
  have z: "push_bit 6 (ucast (v AND 3)) AND 63 = (0 :: u8)"
  proof -
    have m: "(63 :: u8) = mask 6" by (simp add: mask_eq_exp_minus_1)
    show ?thesis unfolding m by (rule bit_word_eqI) (auto simp: bit_simps)
  qed
  have "field_get g b = Inr 0"
    using assms z by (auto simp: GUTI5G_AMFSetID_def GUTI5G_AMFPointer_def AdditionalGUTI_AMFSetID_def AdditionalGUTI_AMFPointer_def
      TMSI5GS_AMFSetID_def TMSI5GS_AMFPointer_def byte_at_def m numeral_2_eq_2 split: if_splits simp del: push_bit_and)
  with ten_get_set [OF assms(2)] show ?thesis by simp
qed

theorem AMFSetID_erases_pointer_witness:
  "\<exists>b. ten_set GUTI5G_AMFSetID 513 (\<lparr>Iei = 119, Len = 11, Octet = replicate 11 1, Buffer = []\<rparr>) = Inr b \<and>
     ten_get GUTI5G_AMFSetID b = Inr 513 \<and> field_get GUTI5G_AMFPointer b = Inr 0"
proof -
  let ?a = "\<lparr>Iei = 119, Len = 11, Octet = replicate 11 1, Buffer = []\<rparr>"
  obtain b where b: "ten_set GUTI5G_AMFSetID 513 ?a = Inr b"
    by (simp add: GUTI5G_AMFSetID_def byte_at_def)
  show ?thesis using AMFSetID_erases_pointer [of GUTI5G_AMFSetID GUTI5G_AMFPointer, OF _ b] b by simp
qed

end
