(* ===== verification/NAS_Snow3g.thy ===== *)
theory NAS_Snow3g
  imports Go_Prelude
begin

text \<open>
  The stream cipher SNOW 3G (\<^verbatim>\<open>lib/nas/security/snow3g/snow3g.go\<close>). The package keeps the shift register and
  the finite state machine in two variables; here they are one state that is passed along.
\<close>

definition sr :: "u8 list" where
  "sr = 
    [0x63, 0x7c, 0x77, 0x7b, 0xf2, 0x6b, 0x6f, 0xc5, 0x30, 0x01, 0x67, 0x2b, 0xfe, 0xd7, 0xab, 0x76,
    0xca, 0x82, 0xc9, 0x7d, 0xfa, 0x59, 0x47, 0xf0, 0xad, 0xd4, 0xa2, 0xaf, 0x9c, 0xa4, 0x72, 0xc0,
    0xb7, 0xfd, 0x93, 0x26, 0x36, 0x3f, 0xf7, 0xcc, 0x34, 0xa5, 0xe5, 0xf1, 0x71, 0xd8, 0x31, 0x15,
    0x04, 0xc7, 0x23, 0xc3, 0x18, 0x96, 0x05, 0x9a, 0x07, 0x12, 0x80, 0xe2, 0xeb, 0x27, 0xb2, 0x75,
    0x09, 0x83, 0x2c, 0x1a, 0x1b, 0x6e, 0x5a, 0xa0, 0x52, 0x3b, 0xd6, 0xb3, 0x29, 0xe3, 0x2f, 0x84,
    0x53, 0xd1, 0x00, 0xed, 0x20, 0xfc, 0xb1, 0x5b, 0x6a, 0xcb, 0xbe, 0x39, 0x4a, 0x4c, 0x58, 0xcf,
    0xd0, 0xef, 0xaa, 0xfb, 0x43, 0x4d, 0x33, 0x85, 0x45, 0xf9, 0x02, 0x7f, 0x50, 0x3c, 0x9f, 0xa8,
    0x51, 0xa3, 0x40, 0x8f, 0x92, 0x9d, 0x38, 0xf5, 0xbc, 0xb6, 0xda, 0x21, 0x10, 0xff, 0xf3, 0xd2,
    0xcd, 0x0c, 0x13, 0xec, 0x5f, 0x97, 0x44, 0x17, 0xc4, 0xa7, 0x7e, 0x3d, 0x64, 0x5d, 0x19, 0x73,
    0x60, 0x81, 0x4f, 0xdc, 0x22, 0x2a, 0x90, 0x88, 0x46, 0xee, 0xb8, 0x14, 0xde, 0x5e, 0x0b, 0xdb,
    0xe0, 0x32, 0x3a, 0x0a, 0x49, 0x06, 0x24, 0x5c, 0xc2, 0xd3, 0xac, 0x62, 0x91, 0x95, 0xe4, 0x79,
    0xe7, 0xc8, 0x37, 0x6d, 0x8d, 0xd5, 0x4e, 0xa9, 0x6c, 0x56, 0xf4, 0xea, 0x65, 0x7a, 0xae, 0x08,
    0xba, 0x78, 0x25, 0x2e, 0x1c, 0xa6, 0xb4, 0xc6, 0xe8, 0xdd, 0x74, 0x1f, 0x4b, 0xbd, 0x8b, 0x8a,
    0x70, 0x3e, 0xb5, 0x66, 0x48, 0x03, 0xf6, 0x0e, 0x61, 0x35, 0x57, 0xb9, 0x86, 0xc1, 0x1d, 0x9e,
    0xe1, 0xf8, 0x98, 0x11, 0x69, 0xd9, 0x8e, 0x94, 0x9b, 0x1e, 0x87, 0xe9, 0xce, 0x55, 0x28, 0xdf,
    0x8c, 0xa1, 0x89, 0x0d, 0xbf, 0xe6, 0x42, 0x68, 0x41, 0x99, 0x2d, 0x0f, 0xb0, 0x54, 0xbb, 0x16]"

definition sq :: "u8 list" where
  "sq = 
    [0x25, 0x24, 0x73, 0x67, 0xd7, 0xae, 0x5c, 0x30, 0xa4, 0xee, 0x6e, 0xcb, 0x7d, 0xb5, 0x82, 0xdb,
    0xe4, 0x8e, 0x48, 0x49, 0x4f, 0x5d, 0x6a, 0x78, 0x70, 0x88, 0xe8, 0x5f, 0x5e, 0x84, 0x65, 0xe2,
    0xd8, 0xe9, 0xcc, 0xed, 0x40, 0x2f, 0x11, 0x28, 0x57, 0xd2, 0xac, 0xe3, 0x4a, 0x15, 0x1b, 0xb9,
    0xb2, 0x80, 0x85, 0xa6, 0x2e, 0x02, 0x47, 0x29, 0x07, 0x4b, 0x0e, 0xc1, 0x51, 0xaa, 0x89, 0xd4,
    0xca, 0x01, 0x46, 0xb3, 0xef, 0xdd, 0x44, 0x7b, 0xc2, 0x7f, 0xbe, 0xc3, 0x9f, 0x20, 0x4c, 0x64,
    0x83, 0xa2, 0x68, 0x42, 0x13, 0xb4, 0x41, 0xcd, 0xba, 0xc6, 0xbb, 0x6d, 0x4d, 0x71, 0x21, 0xf4,
    0x8d, 0xb0, 0xe5, 0x93, 0xfe, 0x8f, 0xe6, 0xcf, 0x43, 0x45, 0x31, 0x22, 0x37, 0x36, 0x96, 0xfa,
    0xbc, 0x0f, 0x08, 0x52, 0x1d, 0x55, 0x1a, 0xc5, 0x4e, 0x23, 0x69, 0x7a, 0x92, 0xff, 0x5b, 0x5a,
    0xeb, 0x9a, 0x1c, 0xa9, 0xd1, 0x7e, 0x0d, 0xfc, 0x50, 0x8a, 0xb6, 0x62, 0xf5, 0x0a, 0xf8, 0xdc,
    0x03, 0x3c, 0x0c, 0x39, 0xf1, 0xb8, 0xf3, 0x3d, 0xf2, 0xd5, 0x97, 0x66, 0x81, 0x32, 0xa0, 0x00,
    0x06, 0xce, 0xf6, 0xea, 0xb7, 0x17, 0xf7, 0x8c, 0x79, 0xd6, 0xa7, 0xbf, 0x8b, 0x3f, 0x1f, 0x53,
    0x63, 0x75, 0x35, 0x2c, 0x60, 0xfd, 0x27, 0xd3, 0x94, 0xa5, 0x7c, 0xa1, 0x05, 0x58, 0x2d, 0xbd,
    0xd9, 0xc7, 0xaf, 0x6b, 0x54, 0x0b, 0xe0, 0x38, 0x04, 0xc8, 0x9d, 0xe7, 0x14, 0xb1, 0x87, 0x9c,
    0xdf, 0x6f, 0xf9, 0xda, 0x2a, 0xc4, 0x59, 0x16, 0x74, 0x91, 0xab, 0x26, 0x61, 0x76, 0x34, 0x2b,
    0xad, 0x99, 0xfb, 0x72, 0xec, 0x33, 0x12, 0xde, 0x98, 0x3b, 0xc0, 0x9b, 0x3e, 0x18, 0x10, 0x3a,
    0x56, 0xe1, 0x77, 0xc9, 0x1e, 0x9e, 0x95, 0xa3, 0x90, 0x19, 0xa8, 0x6c, 0x09, 0xd0, 0xf0, 0x86]"

record Lfsr =
  lfsr_s :: "u32 list"

record Fsm =
  fsm_r :: "u32 list"

type_synonym snow3g = "Lfsr \<times> Fsm"

definition mulx :: "u8 \<Rightarrow> u8 \<Rightarrow> u8" where
  "mulx V c = (if V AND 0x80 \<noteq> 0 then push_bit 1 V XOR c else push_bit 1 V)"

function mulxPow :: "u8 \<Rightarrow> u8 \<Rightarrow> u8 \<Rightarrow> u8" where
  "mulxPow V i c = (if i = 0 then V else mulx (mulxPow V (i - 1) c) c)"
  by pat_completeness auto
termination
  by (relation "measure (\<lambda>(V, i, c). unat i)") (auto simp: unat_minus_one unat_gt_0)

definition join :: "u8 \<Rightarrow> u8 \<Rightarrow> u8 \<Rightarrow> u8 \<Rightarrow> u32" where
  "join r0 r1 r2 r3 = push_bit 24 (ucast r0) OR push_bit 16 (ucast r1) OR push_bit 8 (ucast r2) OR ucast r3"

definition s1 :: "u32 \<Rightarrow> u32" where
  "s1 w =
     (let w0 = sr ! unat (drop_bit 24 w AND 0xff); w1 = sr ! unat (drop_bit 16 w AND 0xff);
          w2 = sr ! unat (drop_bit 8 w AND 0xff); w3 = sr ! unat (w AND 0xff)
      in join (mulx w0 0x1b XOR w1 XOR w2 XOR mulx w3 0x1b XOR w3)
           (mulx w0 0x1b XOR w0 XOR mulx w1 0x1b XOR w2 XOR w3)
           (w0 XOR mulx w1 0x1b XOR w1 XOR mulx w2 0x1b XOR w3)
           (w0 XOR w1 XOR mulx w2 0x1b XOR w2 XOR mulx w3 0x1b))"

definition s2 :: "u32 \<Rightarrow> u32" where
  "s2 w =
     (let w0 = sq ! unat (drop_bit 24 w AND 0xff); w1 = sq ! unat (drop_bit 16 w AND 0xff);
          w2 = sq ! unat (drop_bit 8 w AND 0xff); w3 = sq ! unat (w AND 0xff)
      in join (mulx w0 0x69 XOR w1 XOR w2 XOR mulx w3 0x69 XOR w3)
           (mulx w0 0x69 XOR w0 XOR mulx w1 0x69 XOR w2 XOR w3)
           (w0 XOR mulx w1 0x69 XOR w1 XOR mulx w2 0x69 XOR w3)
           (w0 XOR w1 XOR mulx w2 0x69 XOR w2 XOR mulx w3 0x69))"

definition mulAlpha :: "u8 \<Rightarrow> u32" where
  "mulAlpha c = join (mulxPow c 23 0xa9) (mulxPow c 245 0xa9) (mulxPow c 48 0xa9) (mulxPow c 239 0xa9)"

definition divAlpha :: "u8 \<Rightarrow> u32" where
  "divAlpha c = join (mulxPow c 16 0xa9) (mulxPow c 39 0xa9) (mulxPow c 6 0xa9) (mulxPow c 64 0xa9)"

text \<open>The registers move down by one, with \<open>v\<close> in the last.\<close>

definition lfsr_shift :: "u32 \<Rightarrow> Lfsr \<Rightarrow> Lfsr" where
  "lfsr_shift v l = l\<lparr>lfsr_s := take 15 (drop 1 (lfsr_s l)) @ [v]\<rparr>"

definition lfsrInitialisationMode :: "u32 \<Rightarrow> Lfsr \<Rightarrow> Lfsr" where
  "lfsrInitialisationMode F l =
     lfsr_shift (push_bit 8 (lfsr_s l ! 0) XOR mulAlpha (ucast (drop_bit 24 (lfsr_s l ! 0)) AND 0xff) XOR lfsr_s l ! 2 XOR
       drop_bit 8 (lfsr_s l ! 11) XOR divAlpha (ucast (lfsr_s l ! 11 AND 0xff)) XOR F) l"

definition lfsrKeystreamMode :: "Lfsr \<Rightarrow> Lfsr" where
  "lfsrKeystreamMode l =
     lfsr_shift (push_bit 8 (lfsr_s l ! 0) XOR mulAlpha (ucast (drop_bit 24 (lfsr_s l ! 0)) AND 0xff) XOR lfsr_s l ! 2 XOR
       drop_bit 8 (lfsr_s l ! 11) XOR divAlpha (ucast (lfsr_s l ! 11 AND 0xff))) l"

definition clockFsm :: "u32 \<Rightarrow> u32 \<Rightarrow> Fsm \<Rightarrow> u32 \<times> Fsm" where
  "clockFsm s15 s5 f =
     ((s15 + fsm_r f ! 0) XOR fsm_r f ! 1, f\<lparr>fsm_r := [fsm_r f ! 1 + (fsm_r f ! 2 XOR s5), s1 (fsm_r f ! 0), s2 (fsm_r f ! 1)]\<rparr>)"

primrec init_rounds :: "nat \<Rightarrow> snow3g \<Rightarrow> snow3g" where
  "init_rounds 0 g = g"
| "init_rounds (Suc n) g =
     (let (F, f) = clockFsm (lfsr_s (fst g) ! 15) (lfsr_s (fst g) ! 5) (snd g) in init_rounds n (lfsrInitialisationMode F (fst g), f))"

definition InitSnow3g :: "u32 list \<Rightarrow> u32 list \<Rightarrow> snow3g" where
  "InitSnow3g k iv = init_rounds 32
     (\<lparr>lfsr_s = [k ! 0 XOR 0xffffffff, k ! 1 XOR 0xffffffff, k ! 2 XOR 0xffffffff, k ! 3 XOR 0xffffffff,
        k ! 0, k ! 1, k ! 2, k ! 3,
        k ! 0 XOR 0xffffffff, k ! 1 XOR 0xffffffff XOR iv ! 3, k ! 2 XOR 0xffffffff XOR iv ! 2, k ! 3 XOR 0xffffffff,
        k ! 0 XOR iv ! 1, k ! 1, k ! 2, k ! 3 XOR iv ! 0]\<rparr>,
      \<lparr>fsm_r = [0, 0, 0]\<rparr>)"

text \<open>The loop of \<^verbatim>\<open>GenerateKeystream\<close>; its result is what it assigns to \<^verbatim>\<open>ks[0]\<close> to \<^verbatim>\<open>ks[n-1]\<close>.\<close>

primrec keystream_loop :: "nat \<Rightarrow> snow3g \<Rightarrow> u32 list \<times> snow3g" where
  "keystream_loop 0 g = ([], g)"
| "keystream_loop (Suc n) g =
     (let (F, f) = clockFsm (lfsr_s (fst g) ! 15) (lfsr_s (fst g) ! 5) (snd g);
          (ks, g') = keystream_loop n (lfsrKeystreamMode (fst g), f)
      in ((F XOR lfsr_s (fst g) ! 0) # ks, g'))"

definition GenerateKeystream :: "nat \<Rightarrow> snow3g \<Rightarrow> u32 list \<times> snow3g" where
  "GenerateKeystream n g =
     (let (F, f) = clockFsm (lfsr_s (fst g) ! 15) (lfsr_s (fst g) ! 5) (snd g) in keystream_loop n (lfsrKeystreamMode (fst g), f))"

section \<open>Evaluation\<close>

text \<open>
  \<^verbatim>\<open>mulx\<close> is linear over exclusive or, and with it the multiplications by the field element and by its inverse; their values
  on single bits give them all.
\<close>

lemma bit7: "V AND 0x80 \<noteq> 0 \<longleftrightarrow> bit V 7" for V :: u8
proof -
  have "(0x80 :: u8) = push_bit 7 1" by simp
  then show ?thesis by (metis and_exp_eq_0_iff_not_bit push_bit_of_1)
qed

lemma mulx_xor: "mulx (a XOR b) c = mulx a c XOR mulx b c"
proof (rule bit_word_eqI)
  fix n
  show "bit (mulx (a XOR b) c) n = bit (mulx a c XOR mulx b c) n"
    by (auto simp: mulx_def bit7 bit_xor_iff push_bit_xor)
qed

lemma mulxPow_funpow: "mulxPow V i c = ((\<lambda>v. mulx v c) ^^ unat i) V"
proof (induction V i c rule: mulxPow.induct)
  case (1 V i c)
  show ?case
  proof (cases "i = 0")
    case False
    then have "unat i = Suc (unat (i - 1))" by (simp add: unat_minus_one unat_gt_0)
    then show ?thesis using 1 False by (subst mulxPow.simps) simp
  qed simp
qed

declare mulxPow.simps [simp del]

lemma mulxPow_xor: "mulxPow (a XOR b) i c = mulxPow a i c XOR mulxPow b i c"
proof -
  have "((\<lambda>v. mulx v c) ^^ n) (a XOR b) = ((\<lambda>v. mulx v c) ^^ n) a XOR ((\<lambda>v. mulx v c) ^^ n) b" for n
    by (induction n) (simp_all add: mulx_xor)
  then show ?thesis by (simp add: mulxPow_funpow)
qed

lemma ucast_xor_u8: "ucast (a XOR b :: u8) = (ucast a XOR ucast b :: u32)"
  by (rule bit_word_eqI) (simp add: bit_simps)

lemma join_xor: "join (a XOR a') (b XOR b') (c XOR c') (d XOR d') = join a b c d XOR join a' b' c' d'"
proof (rule bit_word_eqI)
  fix n
  show "bit (join (a XOR a') (b XOR b') (c XOR c') (d XOR d')) n = bit (join a b c d XOR join a' b' c' d') n"
    by (auto simp: join_def bit_simps dest: bit_u8_less)
qed

lemma mulAlpha_xor: "mulAlpha (a XOR b) = mulAlpha a XOR mulAlpha b"
  by (simp add: mulAlpha_def mulxPow_xor join_xor)

lemma divAlpha_xor: "divAlpha (a XOR b) = divAlpha a XOR divAlpha b"
  by (simp add: divAlpha_def mulxPow_xor join_xor)

lemma u8_bits: "c = (if bit c 0 then 1 else 0) XOR (if bit c 1 then 2 else 0) XOR (if bit c 2 then 4 else 0) XOR (if bit c 3 then 8 else 0) XOR
  (if bit c 4 then 16 else 0) XOR (if bit c 5 then 32 else 0) XOR (if bit c 6 then 64 else 0) XOR (if bit c 7 then 128 else 0)"
  for c :: u8
proof (rule bit_word_eqI)
  fix n assume "n < LENGTH(8)"
  then have "n \<in> {0, 1, 2, 3, 4, 5, 6, 7}" by auto
  then show "bit c n = bit ((if bit c 0 then 1 else 0) XOR (if bit c 1 then 2 else 0) XOR (if bit c 2 then 4 else 0) XOR
    (if bit c 3 then 8 else 0) XOR (if bit c 4 then 16 else 0) XOR (if bit c 5 then 32 else 0) XOR (if bit c 6 then 64 else 0) XOR
    (if bit c 7 then 128 else 0) :: u8) n"
    by (elim insertE emptyE) (simp_all add: bit_xor_iff)
qed

lemma funpow_numeral: "(f ^^ numeral k) x = (f ^^ pred_numeral k) (f x)"
  by (simp add: numeral_eq_Suc funpow_swap1)

lemma mulAlpha_unit:
  "mulAlpha 0 = 0"
  "mulAlpha 1 = 0xe19fcf13"
  "mulAlpha 2 = 0x6b973726"
  "mulAlpha 4 = 0xd6876e4c"
  "mulAlpha 8 = 0x5a7dc98"
  "mulAlpha 16 = 0xae71199"
  "mulAlpha 32 = 0x1467229b"
  "mulAlpha 64 = 0x28ce449f"
  "mulAlpha 128 = 0x50358897"
  by (simp_all add: mulAlpha_def mulxPow_funpow funpow_numeral mulx_def join_def)

lemma divAlpha_unit:
  "divAlpha 0 = 0"
  "divAlpha 1 = 0x180f40cd"
  "divAlpha 2 = 0x301e8033"
  "divAlpha 4 = 0x603ca966"
  "divAlpha 8 = 0xc078fbcc"
  "divAlpha 16 = 0x29f05f31"
  "divAlpha 32 = 0x5249be62"
  "divAlpha 64 = 0xa492d5c4"
  "divAlpha 128 = 0xe18d0321"
  by (simp_all add: divAlpha_def mulxPow_funpow funpow_numeral mulx_def join_def)

lemma mulAlpha_bits: "mulAlpha c =
  (if bit c 0 then 0xe19fcf13 else 0) XOR
  (if bit c 1 then 0x6b973726 else 0) XOR
  (if bit c 2 then 0xd6876e4c else 0) XOR
  (if bit c 3 then 0x5a7dc98 else 0) XOR
  (if bit c 4 then 0xae71199 else 0) XOR
  (if bit c 5 then 0x1467229b else 0) XOR
  (if bit c 6 then 0x28ce449f else 0) XOR
  (if bit c 7 then 0x50358897 else 0)"
  by (subst u8_bits [of c]) (simp only: mulAlpha_xor if_distrib [where f = mulAlpha] mulAlpha_unit)

lemma divAlpha_bits: "divAlpha c =
  (if bit c 0 then 0x180f40cd else 0) XOR
  (if bit c 1 then 0x301e8033 else 0) XOR
  (if bit c 2 then 0x603ca966 else 0) XOR
  (if bit c 3 then 0xc078fbcc else 0) XOR
  (if bit c 4 then 0x29f05f31 else 0) XOR
  (if bit c 5 then 0x5249be62 else 0) XOR
  (if bit c 6 then 0xa492d5c4 else 0) XOR
  (if bit c 7 then 0xe18d0321 else 0)"
  by (subst u8_bits [of c]) (simp only: divAlpha_xor if_distrib [where f = divAlpha] divAlpha_unit)


text \<open>
  The entries of the two tables, and equations for the evaluation of the cipher on numbers. The conjunctions
  with \<open>0xffffffff\<close> reduce the numerals to 32 bits.
\<close>

lemma nth_skip: "16 \<le> n \<Longrightarrow> (x0 # x1 # x2 # x3 # x4 # x5 # x6 # x7 # x8 # x9 # x10 # x11 # x12 # x13 # x14 # x15 # xs) ! n = xs ! (n - 16)"
proof -
  assume "16 \<le> n"
  then obtain k where "n = 16 + k" using le_Suc_ex by blast
  then show ?thesis by (simp add: numeral_eq_Suc)
qed

lemma sr_nth:
  "sr ! 0 = 99" "sr ! Suc 0 = 124" "sr ! 2 = 119" "sr ! 3 = 123" "sr ! 4 = 242" "sr ! 5 = 107"
  "sr ! 6 = 111" "sr ! 7 = 197" "sr ! 8 = 48" "sr ! 9 = 1" "sr ! 10 = 103" "sr ! 11 = 43"
  "sr ! 12 = 254" "sr ! 13 = 215" "sr ! 14 = 171" "sr ! 15 = 118" "sr ! 16 = 202" "sr ! 17 = 130"
  "sr ! 18 = 201" "sr ! 19 = 125" "sr ! 20 = 250" "sr ! 21 = 89" "sr ! 22 = 71" "sr ! 23 = 240"
  "sr ! 24 = 173" "sr ! 25 = 212" "sr ! 26 = 162" "sr ! 27 = 175" "sr ! 28 = 156" "sr ! 29 = 164"
  "sr ! 30 = 114" "sr ! 31 = 192" "sr ! 32 = 183" "sr ! 33 = 253" "sr ! 34 = 147" "sr ! 35 = 38"
  "sr ! 36 = 54" "sr ! 37 = 63" "sr ! 38 = 247" "sr ! 39 = 204" "sr ! 40 = 52" "sr ! 41 = 165"
  "sr ! 42 = 229" "sr ! 43 = 241" "sr ! 44 = 113" "sr ! 45 = 216" "sr ! 46 = 49" "sr ! 47 = 21"
  "sr ! 48 = 4" "sr ! 49 = 199" "sr ! 50 = 35" "sr ! 51 = 195" "sr ! 52 = 24" "sr ! 53 = 150"
  "sr ! 54 = 5" "sr ! 55 = 154" "sr ! 56 = 7" "sr ! 57 = 18" "sr ! 58 = 128" "sr ! 59 = 226"
  "sr ! 60 = 235" "sr ! 61 = 39" "sr ! 62 = 178" "sr ! 63 = 117" "sr ! 64 = 9" "sr ! 65 = 131"
  "sr ! 66 = 44" "sr ! 67 = 26" "sr ! 68 = 27" "sr ! 69 = 110" "sr ! 70 = 90" "sr ! 71 = 160"
  "sr ! 72 = 82" "sr ! 73 = 59" "sr ! 74 = 214" "sr ! 75 = 179" "sr ! 76 = 41" "sr ! 77 = 227"
  "sr ! 78 = 47" "sr ! 79 = 132" "sr ! 80 = 83" "sr ! 81 = 209" "sr ! 82 = 0" "sr ! 83 = 237"
  "sr ! 84 = 32" "sr ! 85 = 252" "sr ! 86 = 177" "sr ! 87 = 91" "sr ! 88 = 106" "sr ! 89 = 203"
  "sr ! 90 = 190" "sr ! 91 = 57" "sr ! 92 = 74" "sr ! 93 = 76" "sr ! 94 = 88" "sr ! 95 = 207"
  "sr ! 96 = 208" "sr ! 97 = 239" "sr ! 98 = 170" "sr ! 99 = 251" "sr ! 100 = 67" "sr ! 101 = 77"
  "sr ! 102 = 51" "sr ! 103 = 133" "sr ! 104 = 69" "sr ! 105 = 249" "sr ! 106 = 2" "sr ! 107 = 127"
  "sr ! 108 = 80" "sr ! 109 = 60" "sr ! 110 = 159" "sr ! 111 = 168" "sr ! 112 = 81" "sr ! 113 = 163"
  "sr ! 114 = 64" "sr ! 115 = 143" "sr ! 116 = 146" "sr ! 117 = 157" "sr ! 118 = 56" "sr ! 119 = 245"
  "sr ! 120 = 188" "sr ! 121 = 182" "sr ! 122 = 218" "sr ! 123 = 33" "sr ! 124 = 16" "sr ! 125 = 255"
  "sr ! 126 = 243" "sr ! 127 = 210" "sr ! 128 = 205" "sr ! 129 = 12" "sr ! 130 = 19" "sr ! 131 = 236"
  "sr ! 132 = 95" "sr ! 133 = 151" "sr ! 134 = 68" "sr ! 135 = 23" "sr ! 136 = 196" "sr ! 137 = 167"
  "sr ! 138 = 126" "sr ! 139 = 61" "sr ! 140 = 100" "sr ! 141 = 93" "sr ! 142 = 25" "sr ! 143 = 115"
  "sr ! 144 = 96" "sr ! 145 = 129" "sr ! 146 = 79" "sr ! 147 = 220" "sr ! 148 = 34" "sr ! 149 = 42"
  "sr ! 150 = 144" "sr ! 151 = 136" "sr ! 152 = 70" "sr ! 153 = 238" "sr ! 154 = 184" "sr ! 155 = 20"
  "sr ! 156 = 222" "sr ! 157 = 94" "sr ! 158 = 11" "sr ! 159 = 219" "sr ! 160 = 224" "sr ! 161 = 50"
  "sr ! 162 = 58" "sr ! 163 = 10" "sr ! 164 = 73" "sr ! 165 = 6" "sr ! 166 = 36" "sr ! 167 = 92"
  "sr ! 168 = 194" "sr ! 169 = 211" "sr ! 170 = 172" "sr ! 171 = 98" "sr ! 172 = 145" "sr ! 173 = 149"
  "sr ! 174 = 228" "sr ! 175 = 121" "sr ! 176 = 231" "sr ! 177 = 200" "sr ! 178 = 55" "sr ! 179 = 109"
  "sr ! 180 = 141" "sr ! 181 = 213" "sr ! 182 = 78" "sr ! 183 = 169" "sr ! 184 = 108" "sr ! 185 = 86"
  "sr ! 186 = 244" "sr ! 187 = 234" "sr ! 188 = 101" "sr ! 189 = 122" "sr ! 190 = 174" "sr ! 191 = 8"
  "sr ! 192 = 186" "sr ! 193 = 120" "sr ! 194 = 37" "sr ! 195 = 46" "sr ! 196 = 28" "sr ! 197 = 166"
  "sr ! 198 = 180" "sr ! 199 = 198" "sr ! 200 = 232" "sr ! 201 = 221" "sr ! 202 = 116" "sr ! 203 = 31"
  "sr ! 204 = 75" "sr ! 205 = 189" "sr ! 206 = 139" "sr ! 207 = 138" "sr ! 208 = 112" "sr ! 209 = 62"
  "sr ! 210 = 181" "sr ! 211 = 102" "sr ! 212 = 72" "sr ! 213 = 3" "sr ! 214 = 246" "sr ! 215 = 14"
  "sr ! 216 = 97" "sr ! 217 = 53" "sr ! 218 = 87" "sr ! 219 = 185" "sr ! 220 = 134" "sr ! 221 = 193"
  "sr ! 222 = 29" "sr ! 223 = 158" "sr ! 224 = 225" "sr ! 225 = 248" "sr ! 226 = 152" "sr ! 227 = 17"
  "sr ! 228 = 105" "sr ! 229 = 217" "sr ! 230 = 142" "sr ! 231 = 148" "sr ! 232 = 155" "sr ! 233 = 30"
  "sr ! 234 = 135" "sr ! 235 = 233" "sr ! 236 = 206" "sr ! 237 = 85" "sr ! 238 = 40" "sr ! 239 = 223"
  "sr ! 240 = 140" "sr ! 241 = 161" "sr ! 242 = 137" "sr ! 243 = 13" "sr ! 244 = 191" "sr ! 245 = 230"
  "sr ! 246 = 66" "sr ! 247 = 104" "sr ! 248 = 65" "sr ! 249 = 153" "sr ! 250 = 45" "sr ! 251 = 15"
  "sr ! 252 = 176" "sr ! 253 = 84" "sr ! 254 = 187" "sr ! 255 = 22"
  unfolding sr_def by (simp_all add: nth_skip del: nth_Cons_numeral nth_Cons_Suc)

lemma sq_nth:
  "sq ! 0 = 37" "sq ! Suc 0 = 36" "sq ! 2 = 115" "sq ! 3 = 103" "sq ! 4 = 215" "sq ! 5 = 174"
  "sq ! 6 = 92" "sq ! 7 = 48" "sq ! 8 = 164" "sq ! 9 = 238" "sq ! 10 = 110" "sq ! 11 = 203"
  "sq ! 12 = 125" "sq ! 13 = 181" "sq ! 14 = 130" "sq ! 15 = 219" "sq ! 16 = 228" "sq ! 17 = 142"
  "sq ! 18 = 72" "sq ! 19 = 73" "sq ! 20 = 79" "sq ! 21 = 93" "sq ! 22 = 106" "sq ! 23 = 120"
  "sq ! 24 = 112" "sq ! 25 = 136" "sq ! 26 = 232" "sq ! 27 = 95" "sq ! 28 = 94" "sq ! 29 = 132"
  "sq ! 30 = 101" "sq ! 31 = 226" "sq ! 32 = 216" "sq ! 33 = 233" "sq ! 34 = 204" "sq ! 35 = 237"
  "sq ! 36 = 64" "sq ! 37 = 47" "sq ! 38 = 17" "sq ! 39 = 40" "sq ! 40 = 87" "sq ! 41 = 210"
  "sq ! 42 = 172" "sq ! 43 = 227" "sq ! 44 = 74" "sq ! 45 = 21" "sq ! 46 = 27" "sq ! 47 = 185"
  "sq ! 48 = 178" "sq ! 49 = 128" "sq ! 50 = 133" "sq ! 51 = 166" "sq ! 52 = 46" "sq ! 53 = 2"
  "sq ! 54 = 71" "sq ! 55 = 41" "sq ! 56 = 7" "sq ! 57 = 75" "sq ! 58 = 14" "sq ! 59 = 193"
  "sq ! 60 = 81" "sq ! 61 = 170" "sq ! 62 = 137" "sq ! 63 = 212" "sq ! 64 = 202" "sq ! 65 = 1"
  "sq ! 66 = 70" "sq ! 67 = 179" "sq ! 68 = 239" "sq ! 69 = 221" "sq ! 70 = 68" "sq ! 71 = 123"
  "sq ! 72 = 194" "sq ! 73 = 127" "sq ! 74 = 190" "sq ! 75 = 195" "sq ! 76 = 159" "sq ! 77 = 32"
  "sq ! 78 = 76" "sq ! 79 = 100" "sq ! 80 = 131" "sq ! 81 = 162" "sq ! 82 = 104" "sq ! 83 = 66"
  "sq ! 84 = 19" "sq ! 85 = 180" "sq ! 86 = 65" "sq ! 87 = 205" "sq ! 88 = 186" "sq ! 89 = 198"
  "sq ! 90 = 187" "sq ! 91 = 109" "sq ! 92 = 77" "sq ! 93 = 113" "sq ! 94 = 33" "sq ! 95 = 244"
  "sq ! 96 = 141" "sq ! 97 = 176" "sq ! 98 = 229" "sq ! 99 = 147" "sq ! 100 = 254" "sq ! 101 = 143"
  "sq ! 102 = 230" "sq ! 103 = 207" "sq ! 104 = 67" "sq ! 105 = 69" "sq ! 106 = 49" "sq ! 107 = 34"
  "sq ! 108 = 55" "sq ! 109 = 54" "sq ! 110 = 150" "sq ! 111 = 250" "sq ! 112 = 188" "sq ! 113 = 15"
  "sq ! 114 = 8" "sq ! 115 = 82" "sq ! 116 = 29" "sq ! 117 = 85" "sq ! 118 = 26" "sq ! 119 = 197"
  "sq ! 120 = 78" "sq ! 121 = 35" "sq ! 122 = 105" "sq ! 123 = 122" "sq ! 124 = 146" "sq ! 125 = 255"
  "sq ! 126 = 91" "sq ! 127 = 90" "sq ! 128 = 235" "sq ! 129 = 154" "sq ! 130 = 28" "sq ! 131 = 169"
  "sq ! 132 = 209" "sq ! 133 = 126" "sq ! 134 = 13" "sq ! 135 = 252" "sq ! 136 = 80" "sq ! 137 = 138"
  "sq ! 138 = 182" "sq ! 139 = 98" "sq ! 140 = 245" "sq ! 141 = 10" "sq ! 142 = 248" "sq ! 143 = 220"
  "sq ! 144 = 3" "sq ! 145 = 60" "sq ! 146 = 12" "sq ! 147 = 57" "sq ! 148 = 241" "sq ! 149 = 184"
  "sq ! 150 = 243" "sq ! 151 = 61" "sq ! 152 = 242" "sq ! 153 = 213" "sq ! 154 = 151" "sq ! 155 = 102"
  "sq ! 156 = 129" "sq ! 157 = 50" "sq ! 158 = 160" "sq ! 159 = 0" "sq ! 160 = 6" "sq ! 161 = 206"
  "sq ! 162 = 246" "sq ! 163 = 234" "sq ! 164 = 183" "sq ! 165 = 23" "sq ! 166 = 247" "sq ! 167 = 140"
  "sq ! 168 = 121" "sq ! 169 = 214" "sq ! 170 = 167" "sq ! 171 = 191" "sq ! 172 = 139" "sq ! 173 = 63"
  "sq ! 174 = 31" "sq ! 175 = 83" "sq ! 176 = 99" "sq ! 177 = 117" "sq ! 178 = 53" "sq ! 179 = 44"
  "sq ! 180 = 96" "sq ! 181 = 253" "sq ! 182 = 39" "sq ! 183 = 211" "sq ! 184 = 148" "sq ! 185 = 165"
  "sq ! 186 = 124" "sq ! 187 = 161" "sq ! 188 = 5" "sq ! 189 = 88" "sq ! 190 = 45" "sq ! 191 = 189"
  "sq ! 192 = 217" "sq ! 193 = 199" "sq ! 194 = 175" "sq ! 195 = 107" "sq ! 196 = 84" "sq ! 197 = 11"
  "sq ! 198 = 224" "sq ! 199 = 56" "sq ! 200 = 4" "sq ! 201 = 200" "sq ! 202 = 157" "sq ! 203 = 231"
  "sq ! 204 = 20" "sq ! 205 = 177" "sq ! 206 = 135" "sq ! 207 = 156" "sq ! 208 = 223" "sq ! 209 = 111"
  "sq ! 210 = 249" "sq ! 211 = 218" "sq ! 212 = 42" "sq ! 213 = 196" "sq ! 214 = 89" "sq ! 215 = 22"
  "sq ! 216 = 116" "sq ! 217 = 145" "sq ! 218 = 171" "sq ! 219 = 38" "sq ! 220 = 97" "sq ! 221 = 118"
  "sq ! 222 = 52" "sq ! 223 = 43" "sq ! 224 = 173" "sq ! 225 = 153" "sq ! 226 = 251" "sq ! 227 = 114"
  "sq ! 228 = 236" "sq ! 229 = 51" "sq ! 230 = 18" "sq ! 231 = 222" "sq ! 232 = 152" "sq ! 233 = 59"
  "sq ! 234 = 192" "sq ! 235 = 155" "sq ! 236 = 62" "sq ! 237 = 24" "sq ! 238 = 16" "sq ! 239 = 58"
  "sq ! 240 = 86" "sq ! 241 = 225" "sq ! 242 = 119" "sq ! 243 = 201" "sq ! 244 = 30" "sq ! 245 = 158"
  "sq ! 246 = 149" "sq ! 247 = 163" "sq ! 248 = 144" "sq ! 249 = 25" "sq ! 250 = 168" "sq ! 251 = 108"
  "sq ! 252 = 9" "sq ! 253 = 208" "sq ! 254 = 240" "sq ! 255 = 134"
  unfolding sq_def by (simp_all add: nth_skip del: nth_Cons_numeral nth_Cons_Suc)

lemma and_all: "x AND 0xffffffff = (x :: u32)"
proof -
  have "(0xffffffff :: u32) = -1" by simp
  then show ?thesis by (simp only: and.right_neutral)
qed

definition mix :: "u8 \<Rightarrow> u8 \<Rightarrow> u8 \<Rightarrow> u8 \<Rightarrow> u8 \<Rightarrow> u32" where
  "mix c w0 w1 w2 w3 =
     join (mulx w0 c XOR w1 XOR w2 XOR mulx w3 c XOR w3) (mulx w0 c XOR w0 XOR mulx w1 c XOR w2 XOR w3)
       (w0 XOR mulx w1 c XOR w1 XOR mulx w2 c XOR w3) (w0 XOR w1 XOR mulx w2 c XOR w2 XOR mulx w3 c)"

lemma s_eval:
  "s1 w = mix 0x1b (sr ! unat (drop_bit 24 w AND 0xff)) (sr ! unat (drop_bit 16 w AND 0xff))
     (sr ! unat (drop_bit 8 w AND 0xff)) (sr ! unat (w AND 0xff))"
  "s2 w = mix 0x69 (sq ! unat (drop_bit 24 w AND 0xff)) (sq ! unat (drop_bit 16 w AND 0xff))
     (sq ! unat (drop_bit 8 w AND 0xff)) (sq ! unat (w AND 0xff))"
  by (simp_all only: s1_def s2_def mix_def Let_def)

lemma clock_eval: "clockFsm s15 s5 f =
  (((s15 + fsm_r f ! 0) AND 0xffffffff) XOR fsm_r f ! 1,
   \<lparr>fsm_r = [(fsm_r f ! 1 + (fsm_r f ! 2 XOR s5)) AND 0xffffffff, s1 (fsm_r f ! 0), s2 (fsm_r f ! 1)]\<rparr>)"
  by (simp only: clockFsm_def and_all) simp

lemma lfsr_eval:
  "lfsrInitialisationMode F l =
     lfsr_shift ((push_bit 8 (lfsr_s l ! 0) AND 0xffffffff) XOR mulAlpha (ucast (drop_bit 24 (lfsr_s l ! 0)) AND 0xff) XOR
       lfsr_s l ! 2 XOR drop_bit 8 (lfsr_s l ! 11) XOR divAlpha (ucast (lfsr_s l ! 11 AND 0xff)) XOR F) l"
  "lfsrKeystreamMode l =
     lfsr_shift ((push_bit 8 (lfsr_s l ! 0) AND 0xffffffff) XOR mulAlpha (ucast (drop_bit 24 (lfsr_s l ! 0)) AND 0xff) XOR
       lfsr_s l ! 2 XOR drop_bit 8 (lfsr_s l ! 11) XOR divAlpha (ucast (lfsr_s l ! 11 AND 0xff))) l"
  by (simp_all only: lfsrInitialisationMode_def lfsrKeystreamMode_def and_all)

lemma init_rounds_Suc: "init_rounds (Suc n) (l, f) =
  init_rounds n (lfsrInitialisationMode (fst (clockFsm (lfsr_s l ! 15) (lfsr_s l ! 5) f)) l, snd (clockFsm (lfsr_s l ! 15) (lfsr_s l ! 5) f))"
  by (simp add: Let_def case_prod_unfold)

lemma keystream_Suc: "fst (keystream_loop (Suc n) (l, f)) =
  (fst (clockFsm (lfsr_s l ! 15) (lfsr_s l ! 5) f) XOR lfsr_s l ! 0) #
  fst (keystream_loop n (lfsrKeystreamMode l, snd (clockFsm (lfsr_s l ! 15) (lfsr_s l ! 5) f)))"
  by (simp add: Let_def case_prod_unfold)

lemma GenerateKeystream_eval: "GenerateKeystream n (l, f) =
  keystream_loop n (lfsrKeystreamMode l, snd (clockFsm (lfsr_s l ! 15) (lfsr_s l ! 5) f))"
  by (simp add: GenerateKeystream_def case_prod_unfold)

declare init_rounds.simps(2) [simp del] keystream_loop.simps(2) [simp del]

lemma init_rounds_numeral: "init_rounds (numeral n) (l, f) = init_rounds (pred_numeral n)
    (lfsrInitialisationMode (fst (clockFsm (lfsr_s l ! 15) (lfsr_s l ! 5) f)) l, snd (clockFsm (lfsr_s l ! 15) (lfsr_s l ! 5) f))"
  by (simp only: numeral_eq_Suc init_rounds_Suc)

lemma keystream_numeral: "fst (keystream_loop (numeral n) (l, f)) =
  (fst (clockFsm (lfsr_s l ! 15) (lfsr_s l ! 5) f) XOR lfsr_s l ! 0) #
  fst (keystream_loop (pred_numeral n) (lfsrKeystreamMode l, snd (clockFsm (lfsr_s l ! 15) (lfsr_s l ! 5) f)))"
  by (simp only: numeral_eq_Suc keystream_Suc)

lemmas snow3g_eval = InitSnow3g_def GenerateKeystream_eval init_rounds_numeral keystream_numeral init_rounds_Suc keystream_Suc clock_eval lfsr_eval
  lfsr_shift_def s_eval mix_def join_def mulx_def mulAlpha_bits divAlpha_bits sr_nth sq_nth

section \<open>Properties\<close>

lemma length_keystream [simp]: "length (fst (keystream_loop n g)) = n"
  by (induction n arbitrary: g) (simp_all add: keystream_loop.simps(2) Let_def case_prod_unfold)

lemma length_GenerateKeystream [simp]: "length (fst (GenerateKeystream n g)) = n"
  by (simp add: GenerateKeystream_def case_prod_unfold)

lemma first_vector:
  "fst (GenerateKeystream 2 (InitSnow3g [0x2bd6459f, 0x82c5b300, 0x952c4910, 0x4881ff48] [0xea024714, 0xad5c4d84, 0xdf1f9b25, 0x1c0bf45f])) =
     [0xabee9704, 0x7ac31373]"
  by (simp add: snow3g_eval)

lemma third_vector:
  "fst (GenerateKeystream 2 (InitSnow3g [0x4035c668, 0x0af8c6d1, 0xa8ff8667, 0xb1714013] [0x62a54098, 0x1ba6f9b7, 0x4592b0e7, 0x8690f71b])) =
     [0xa8c874a9, 0x7ae7c4f8]"
  by (simp add: snow3g_eval)


end
