(* ===== verification/NAS_Security.thy ===== *)
theory NAS_Security
  imports NAS_Snow3g
begin

text \<open>
  Ciphering and integrity protection of NAS messages (\<^verbatim>\<open>lib/nas/security\<close>): the NAS counters, the algorithms NEA1, NEA2,
  NIA1 and NIA2 and their selection. AES is \<^verbatim>\<open>crypto/aes\<close> and CMAC is \<^verbatim>\<open>github.com/aead/cmac\<close>; both are parameters, fields
  of a record \<open>crypto\<close>. Counter mode is written out.
\<close>

section \<open>Counters\<close>

type_synonym Count = u32

definition maskTo24Bits :: "Count \<Rightarrow> Count" where
  "maskTo24Bits counter = counter AND 0x00ffffff"

definition Count_SetSQN :: "u8 \<Rightarrow> Count \<Rightarrow> Count" where
  "Count_SetSQN sqn counter = (counter AND 0xffffff00) OR ucast sqn"

definition Count_SetOverflow :: "u16 \<Rightarrow> Count \<Rightarrow> Count" where
  "Count_SetOverflow overflow counter = (counter AND 0xff0000ff) OR push_bit 8 (ucast overflow)"

definition Count_Set :: "u16 \<Rightarrow> u8 \<Rightarrow> Count \<Rightarrow> Count" where
  "Count_Set overflow sqn counter = Count_SetSQN sqn (Count_SetOverflow overflow counter)"

text \<open>\<^verbatim>\<open>Get\<close> also masks the counter; callers below take the result and store it.\<close>

definition Count_Get :: "Count \<Rightarrow> Count" where
  "Count_Get counter = maskTo24Bits counter"

definition Count_AddOne :: "Count \<Rightarrow> Count" where
  "Count_AddOne counter = maskTo24Bits (counter + 1)"

definition Count_SQN :: "Count \<Rightarrow> u8" where
  "Count_SQN counter = ucast (counter AND 0x000000ff)"

definition Count_Overflow :: "Count \<Rightarrow> u16" where
  "Count_Overflow counter = ucast (drop_bit 8 (counter AND 0x00ffff00))"

section \<open>Algorithms\<close>

definition AlgIntegrity128NIA0 :: u8 where "AlgIntegrity128NIA0 = 0"
definition AlgIntegrity128NIA1 :: u8 where "AlgIntegrity128NIA1 = 1"
definition AlgIntegrity128NIA2 :: u8 where "AlgIntegrity128NIA2 = 2"
definition AlgIntegrity128NIA3 :: u8 where "AlgIntegrity128NIA3 = 3"
definition AlgCiphering128NEA0 :: u8 where "AlgCiphering128NEA0 = 0"
definition AlgCiphering128NEA1 :: u8 where "AlgCiphering128NEA1 = 1"
definition AlgCiphering128NEA2 :: u8 where "AlgCiphering128NEA2 = 2"
definition AlgCiphering128NEA3 :: u8 where "AlgCiphering128NEA3 = 3"
definition DirectionUplink :: u8 where "DirectionUplink = 0"
definition DirectionDownlink :: u8 where "DirectionDownlink = 1"
definition Bearer3GPP :: u8 where "Bearer3GPP = 1"

lemmas security_constants = AlgIntegrity128NIA0_def AlgIntegrity128NIA1_def AlgIntegrity128NIA2_def AlgIntegrity128NIA3_def
  AlgCiphering128NEA0_def AlgCiphering128NEA1_def AlgCiphering128NEA2_def AlgCiphering128NEA3_def
  DirectionUplink_def DirectionDownlink_def Bearer3GPP_def

text \<open>\<open>AES key\<close> encrypts a block; \<open>cmac_Sum\<close> takes the block cipher and the message.\<close>

record crypto =
  AES :: "bytes \<Rightarrow> bytes \<Rightarrow> bytes"
  cmac_Sum :: "(bytes \<Rightarrow> bytes) \<Rightarrow> bytes \<Rightarrow> bytes"

text \<open>The four words of a key, the last in front.\<close>

definition key_words :: "bytes \<Rightarrow> u32 list" where
  "key_words ck = map (\<lambda>i. of_be (take 4 (drop (4 * (3 - i)) ck))) [0..<4]"

text \<open>The loops of \<^verbatim>\<open>NEA1\<close> over the octets \<open>k = 4 * i + j\<close>.\<close>

primrec xor_loop :: "u32 list \<Rightarrow> bytes \<Rightarrow> nat list \<Rightarrow> bytes \<Rightarrow> bytes res" where
  "xor_loop ks ibs [] obs = Inr obs"
| "xor_loop ks ibs (k # kk) obs =
     (if k < length ibs \<and> k div 4 < length ks \<and> k < length obs
      then xor_loop ks ibs kk (obs[k := ibs ! k XOR ucast (drop_bit (8 * (3 - k mod 4)) (ks ! (k div 4)) AND 0xff)])
      else Inl Panic)"

text \<open>
  \<^verbatim>\<open>NEA1\<close>. The constant 1 in \<^verbatim>\<open>^((1 << (32 - r)) - 1)\<close> has the type \<^verbatim>\<open>uint32\<close> of the word that is masked, so that the mask is
  zero for \<open>r = 0\<close>. Without input the index \<^verbatim>\<open>l-1\<close> is out of range.
\<close>

definition NEA1 :: "bytes \<Rightarrow> u32 \<Rightarrow> u32 \<Rightarrow> u32 \<Rightarrow> bytes \<Rightarrow> u32 \<Rightarrow> bytes res" where
  "NEA1 ck countC bearer direction ibs len =
     (let iv = [push_bit 27 bearer OR push_bit 26 direction, countC, push_bit 27 bearer OR push_bit 26 direction, countC];
          l = unat ((len + 31) div 32); r = unat (len mod 32);
          ks = fst (GenerateKeystream l (InitSnow3g (key_words ck) iv)) in
      if l = 0 then Inl Panic
      else
        let ks = ks[l - 1 := ks ! (l - 1) AND NOT (push_bit (32 - r) 1 - 1)]; n = unat (len div 32) in
        xor_loop ks ibs ([0..<4 * n] @ (if r \<noteq> 0 then [4 * n..<4 * n + (r + 7) div 8] else [])) (replicate (length ibs) 0))"

text \<open>The key stream of counter mode: the counter block is a number of 128 bits.\<close>

definition ctr_stream :: "(bytes \<Rightarrow> bytes) \<Rightarrow> bytes \<Rightarrow> nat \<Rightarrow> bytes" where
  "ctr_stream E iv n = concat (map (\<lambda>i. E (be_bytes 16 (of_be iv + of_nat i :: 128 word))) [0..<(n + 15) div 16])"

definition NEA2 :: "crypto \<Rightarrow> bytes \<Rightarrow> u32 \<Rightarrow> u8 \<Rightarrow> u8 \<Rightarrow> bytes \<Rightarrow> bytes res" where
  "NEA2 c key count bearer direction ibs =
     (let couterBlk = be_bytes 4 count @ [push_bit 3 bearer OR push_bit 2 direction] @ replicate 11 0
      in Inr (map2 (XOR) ibs (ctr_stream (AES c key) couterBlk (length ibs))))"

text \<open>\<^verbatim>\<open>copy(dst, src)\<close>\<close>

definition copy_bytes :: "bytes \<Rightarrow> bytes \<Rightarrow> bytes" where
  "copy_bytes dst src = take (length dst) src @ drop (length src) dst"

text \<open>\<^verbatim>\<open>NASEncrypt\<close> overwrites the payload; the result is the new payload. \<open>None\<close> is a nil slice.\<close>

definition NASEncrypt :: "crypto \<Rightarrow> u8 \<Rightarrow> bytes \<Rightarrow> u32 \<Rightarrow> u8 \<Rightarrow> u8 \<Rightarrow> bytes option \<Rightarrow> bytes res" where
  "NASEncrypt c AlgoID KnasEnc count bearer direction payload =
     (if bearer > 0x1f then Inl (Err ''Bearer is beyond 5 bits'')
      else if direction > 1 then Inl (Err ''Direction is beyond 1 bits'')
      else case payload of
        None \<Rightarrow> Inl (Err ''Nas Payload is nil'')
      | Some p \<Rightarrow>
          if AlgoID = AlgCiphering128NEA0 then Inr p
          else if AlgoID = AlgCiphering128NEA1 then
            bind_res (NEA1 KnasEnc count (ucast bearer) (ucast direction) p (of_nat (length p) * 8)) (\<lambda>output. Inr (copy_bytes p output))
          else if AlgoID = AlgCiphering128NEA2 then
            bind_res (NEA2 c KnasEnc count bearer direction p) (\<lambda>output. Inr (copy_bytes p output))
          else if AlgoID = AlgCiphering128NEA3 then Inl (Err ''NEA3 not implement yet.'')
          else Inl (Err ''Unknown Algorithm Identity''))"

text \<open>Multiplication in the field of \<open>2 ^ 64\<close> elements for NIA1.\<close>

definition mulx :: "u64 \<Rightarrow> u64 \<Rightarrow> u64" where
  "mulx V c = (if V AND 0x8000000000000000 \<noteq> 0 then push_bit 1 V XOR c else push_bit 1 V)"

function mulxPow :: "u64 \<Rightarrow> u64 \<Rightarrow> u64 \<Rightarrow> u64" where
  "mulxPow V i c = (if i = 0 then V else mulx (mulxPow V (i - 1) c) c)"
  by pat_completeness auto
termination
  by (relation "measure (\<lambda>(V, i, c). unat i)") (auto simp: unat_minus_one unat_gt_0)

definition mul :: "u64 \<Rightarrow> u64 \<Rightarrow> u64 \<Rightarrow> u64" where
  "mul V P c = fold (\<lambda>i rst. if drop_bit i P AND 1 = 1 then rst XOR mulxPow V (of_nat i) c else rst) [0..<64] 0"

text \<open>
  The loop of \<^verbatim>\<open>NIA1\<close> over the first blocks of eight octets; it returns the rest of the message. The number of blocks
  wraps around for an empty message, and the loop then runs behind the end.
\<close>

function nia1_loop :: "u64 \<Rightarrow> bytes \<Rightarrow> u64 \<Rightarrow> u64 \<Rightarrow> (u64 \<times> bytes) res" where
  "nia1_loop n msg P Eval =
     (if n = 0 then Inr (Eval, msg)
      else if length msg < 8 then Inl Panic
      else nia1_loop (n - 1) (drop 8 msg) P (mul (Eval XOR of_be (take 8 msg)) P 0x1b))"
  by pat_completeness auto
termination
  by (relation "measure (\<lambda>(n, msg, P, Eval). length msg)") auto

declare nia1_loop.simps [simp del]

definition NIA1 :: "bytes \<Rightarrow> u32 \<Rightarrow> u8 \<Rightarrow> u32 \<Rightarrow> bytes \<Rightarrow> u64 \<Rightarrow> bytes res" where
  "NIA1 ik countI bearer direction msg len =
     (let fresh = push_bit 27 (ucast bearer);
          iv = [fresh XOR push_bit 15 direction, countI XOR push_bit 31 direction, fresh, countI];
          D = (len + 63) div 64 + 1;
          z = fst (GenerateKeystream 5 (InitSnow3g (key_words ik) iv));
          P = push_bit 32 (ucast (z ! 0)) OR ucast (z ! 1);
          Q = push_bit 32 (ucast (z ! 2)) OR ucast (z ! 3) in
      bind_res (nia1_loop (D - 2) msg P 0) (\<lambda>(Eval, msg).
      let M = of_be (take 8 (msg @ replicate 8 0));
          Eval = mul (Eval XOR M) P 0x1b;
          Eval = mul (Eval XOR len) Q 0x1b;
          MacI = ucast (drop_bit 32 Eval) XOR z ! 4
      in Inr (be_bytes 4 (MacI :: u32))))"

definition NIA2 :: "crypto \<Rightarrow> bytes \<Rightarrow> u32 \<Rightarrow> u8 \<Rightarrow> u8 \<Rightarrow> bytes \<Rightarrow> bytes res" where
  "NIA2 c key count bearer direction msg =
     (let m = be_bytes 4 count @ [push_bit 3 bearer OR push_bit 2 direction] @ replicate 3 0 @ msg;
          mac = cmac_Sum c (AES c key) m
      in if length mac < 4 then Inl Panic else Inr (take 4 mac))"

text \<open>\<^verbatim>\<open>NASMacCalculate\<close>; the null algorithm returns a nil slice.\<close>

definition NASMacCalculate :: "crypto \<Rightarrow> u8 \<Rightarrow> bytes \<Rightarrow> u32 \<Rightarrow> u8 \<Rightarrow> u8 \<Rightarrow> bytes option \<Rightarrow> bytes option res" where
  "NASMacCalculate c AlgoID KnasInt count bearer direction msg =
     (if bearer > 0x1f then Inl (Err ''Bearer is beyond 5 bits'')
      else if direction > 1 then Inl (Err ''Direction is beyond 1 bits'')
      else case msg of
        None \<Rightarrow> Inl (Err ''Nas Payload is nil'')
      | Some m \<Rightarrow>
          if AlgoID = AlgIntegrity128NIA0 then Inr None
          else if AlgoID = AlgIntegrity128NIA1 then
            bind_res (NIA1 KnasInt count bearer (ucast direction) m (of_nat (length m) * 8)) (\<lambda>mac. Inr (Some mac))
          else if AlgoID = AlgIntegrity128NIA2 then bind_res (NIA2 c KnasInt count bearer direction m) (\<lambda>mac. Inr (Some mac))
          else if AlgoID = AlgIntegrity128NIA3 then Inl (Err ''NIA3 not implement yet.'')
          else Inl (Err ''Unknown Algorithm Identity''))"

section \<open>Counters\<close>

lemma count_bits:
  "maskTo24Bits c = take_bit 24 c"
  "Count_SQN c = ucast c"
  "Count_Overflow c = ucast (drop_bit 8 c)"
proof -
  show "maskTo24Bits c = take_bit 24 c" by (simp add: maskTo24Bits_def take_bit_eq_mask mask_numeral)
  have "Count_SQN c = ucast (c AND mask 8)" by (simp add: Count_SQN_def mask_numeral)
  then show "Count_SQN c = ucast c" by (simp only:) (auto intro!: bit_word_eqI simp: bit_simps)
  have "Count_Overflow c = ucast (drop_bit 8 (c AND push_bit 8 (mask 16)))" by (simp add: Count_Overflow_def mask_numeral)
  then show "Count_Overflow c = ucast (drop_bit 8 c)" by (simp only:) (auto intro!: bit_word_eqI simp: bit_simps)
qed

text \<open>A counter of 24 bits is its overflow count and its sequence number.\<close>

lemma unat_count: "unat (c :: Count) < 2 ^ 24 \<Longrightarrow> unat c = 256 * unat (Count_Overflow c) + unat (Count_SQN c)"
proof -
  assume c: "unat c < 2 ^ 24"
  then have "unat c div 256 < 65536" by (simp add: less_mult_imp_div_less)
  then have "unat (Count_Overflow c) = unat c div 256"
    by (simp add: count_bits(3) unsigned_ucast_eq take_bit_eq_mod unat_drop_bit_eq drop_bit_eq_div unat_div)
  moreover have "unat (Count_SQN c) = unat c mod 256" by (simp add: count_bits(2) unsigned_ucast_eq take_bit_eq_mod)
  ultimately show ?thesis by simp
qed

lemma count_parts [simp]:
  "Count_SQN (Count_SetSQN sqn c) = sqn" "Count_Overflow (Count_SetSQN sqn c) = Count_Overflow c"
  "Count_SQN (Count_SetOverflow v c) = Count_SQN c" "Count_Overflow (Count_SetOverflow v c) = v"
  "Count_SQN (Count_Get c) = Count_SQN c" "Count_Overflow (Count_Get c) = Count_Overflow c"
proof -
  have masks: "(0xffffff00 :: u32) = NOT (mask 8)" "(0xff0000ff :: u32) = NOT (push_bit 8 (mask 16))"
    by (simp_all only: word_uint_eq_iff) (simp_all add: mask_numeral)
  have "Count_SetSQN sqn c = (c AND NOT (mask 8)) OR ucast sqn" by (simp only: Count_SetSQN_def masks)
  then show "Count_SQN (Count_SetSQN sqn c) = sqn" "Count_Overflow (Count_SetSQN sqn c) = Count_Overflow c"
    unfolding count_bits by (simp_all only:) (auto intro!: bit_word_eqI simp: bit_simps dest: bit_imp_le_length bit_u8_less)
  have "Count_SetOverflow v c = (c AND NOT (push_bit 8 (mask 16))) OR push_bit 8 (ucast v)"
    by (simp only: Count_SetOverflow_def masks)
  then show "Count_SQN (Count_SetOverflow v c) = Count_SQN c" "Count_Overflow (Count_SetOverflow v c) = v"
    unfolding count_bits by (simp_all only:) (auto intro!: bit_word_eqI simp: bit_simps dest: bit_imp_le_length bit_u8_less)
  show "Count_SQN (Count_Get c) = Count_SQN c" "Count_Overflow (Count_Get c) = Count_Overflow c"
    unfolding Count_Get_def count_bits by (auto intro!: bit_word_eqI simp: bit_simps)
qed

lemma Count_Get_bound [simp]: "unat (Count_Get c) < 2 ^ 24"
  using take_bit_nat_less_exp [of 24 "unat c"] by (simp add: Count_Get_def count_bits unsigned_take_bit_eq)

lemma Count_Get_id: "unat c < 2 ^ 24 \<Longrightarrow> Count_Get c = c"
  by (simp add: Count_Get_def count_bits take_bit_id)

lemma count_eqI:
  "unat c < 2 ^ 24 \<Longrightarrow> unat d < 2 ^ 24 \<Longrightarrow> Count_SQN c = Count_SQN d \<Longrightarrow> Count_Overflow c = Count_Overflow d \<Longrightarrow> c = d"
  using unat_count [of c] unat_count [of d] by (simp add: word_unat_eq_iff)

lemma unat_AddOne: "unat (Count_AddOne c) = (unat c + 1) mod 2 ^ 24"
proof -
  have "unat (Count_AddOne c) = unat (c + 1) mod 2 ^ 24"
    by (simp add: Count_AddOne_def count_bits unsigned_take_bit_eq) (simp add: take_bit_eq_mod)
  also have "\<dots> = (unat c + 1) mod 2 ^ 24" by (simp add: unat_word_ariths mod_mod_cancel)
  finally show ?thesis .
qed

section \<open>Stream ciphers\<close>

lemma xor_loop_upt:
  "i \<le> m \<Longrightarrow> m \<le> length ibs \<Longrightarrow> length obs = length ibs \<Longrightarrow> m \<le> 4 * length ks \<Longrightarrow>
   xor_loop ks ibs [i..<m] obs =
     Inr (take i obs @ map (\<lambda>k. ibs ! k XOR ucast (drop_bit (8 * (3 - k mod 4)) (ks ! (k div 4)) AND 0xff)) [i..<m] @ drop m obs)"
proof (induction "m - i" arbitrary: i obs)
  case (Suc n)
  let ?x = "ibs ! i XOR ucast (drop_bit (8 * (3 - i mod 4)) (ks ! (i div 4)) AND 0xff)"
  have i: "i < m" "i div 4 < length ks" using Suc.hyps(2) Suc.prems(4) by linarith+
  have "xor_loop ks ibs [Suc i..<m] (obs[i := ?x]) =
    Inr (take (Suc i) (obs[i := ?x]) @
      map (\<lambda>k. ibs ! k XOR ucast (drop_bit (8 * (3 - k mod 4)) (ks ! (k div 4)) AND 0xff)) [Suc i..<m] @ drop m (obs[i := ?x]))"
    using i Suc.prems by (intro Suc.hyps(1)) (use Suc.hyps(2) in auto)
  moreover have "take (Suc i) (obs[i := ?x]) = take i obs @ [?x]" using i Suc.prems by (simp add: take_Suc_conv_app_nth)
  moreover have "drop m (obs[i := ?x]) = drop m obs" using i by simp
  ultimately show ?case using i Suc.prems by (simp add: upt_conv_Cons)
qed simp

text \<open>The octets of the SNOW 3G key stream for a message of \<open>n\<close> octets.\<close>

definition nea1_stream :: "bytes \<Rightarrow> u32 \<Rightarrow> u32 \<Rightarrow> u32 \<Rightarrow> nat \<Rightarrow> nat \<Rightarrow> u8" where
  "nea1_stream ck countC bearer direction n k =
     (let b = push_bit 27 bearer OR push_bit 26 direction;
          ks = fst (GenerateKeystream ((n + 3) div 4) (InitSnow3g (key_words ck) [b, countC, b, countC]))
      in ucast (drop_bit (8 * (3 - k mod 4)) (ks ! (k div 4)) AND 0xff))"

lemma masked_octet:
  fixes w :: u32
  assumes "j < q" "q < 4"
  shows "drop_bit (8 * (3 - j)) (w AND NOT (push_bit (32 - 8 * q) 1 - 1)) AND 0xff = drop_bit (8 * (3 - j)) w AND 0xff"
proof -
  have "(push_bit (32 - 8 * q) 1 - 1 :: u32) = mask (32 - 8 * q)" by (simp add: mask_eq_exp_minus_1 push_bit_of_1)
  moreover have "(0xff :: u32) = mask 8" by (simp add: mask_numeral)
  ultimately show ?thesis
    by (simp only:) (rule bit_word_eqI, use assms in \<open>auto simp: bit_simps dest: bit_imp_le_length\<close>)
qed

text \<open>The last of the words that \<open>n\<close> octets take.\<close>

lemma ceil4: "(n + 3) div 4 = (if n mod 4 = 0 then n div 4 else Suc (n div 4))" for n :: nat
proof -
  have d: "x = s + 4 * y \<Longrightarrow> s < 4 \<Longrightarrow> x div 4 = y" for x s y :: nat by simp
  have n: "n = n mod 4 + 4 * (n div 4)" "n mod 4 < 4" by simp_all
  show ?thesis
  proof (cases "n mod 4 = 0")
    case True
    then have "n + 3 = 3 + 4 * (n div 4)" using n(1) by linarith
    then show ?thesis using d [of "n + 3" 3 "n div 4"] True by simp
  next
    case False
    then have "n + 3 = (n mod 4 - 1) + 4 * Suc (n div 4)" "n mod 4 - 1 < 4" using mult_div_mod_eq [of 4 n] by simp_all
    then show ?thesis using d [of "n + 3" "n mod 4 - 1" "Suc (n div 4)"] False by simp
  qed
qed

lemma last_word:
  fixes k n :: nat
  assumes "k < n"
  shows "n mod 4 \<noteq> 0 \<Longrightarrow> k div 4 = (n + 3) div 4 - 1 \<Longrightarrow> k mod 4 < n mod 4"
    "n mod 4 = 0 \<Longrightarrow> k div 4 = (n + 3) div 4 - 1 \<longleftrightarrow> n \<le> k + 4"
proof -
  have k: "k = 4 * (k div 4) + k mod 4" "k mod 4 < 4" "n = 4 * (n div 4) + n mod 4" by simp_all
  show "k mod 4 < n mod 4" if "n mod 4 \<noteq> 0" "k div 4 = (n + 3) div 4 - 1"
  proof -
    have "k div 4 = n div 4" using that ceil4 [of n] by simp
    then show ?thesis using k assms by linarith
  qed
  show "k div 4 = (n + 3) div 4 - 1 \<longleftrightarrow> n \<le> k + 4" if "n mod 4 = 0"
  proof -
    have c: "(n + 3) div 4 = n div 4" using that ceil4 [of n] by simp
    have "k div 4 < n div 4" using k assms that by linarith
    then have "k div 4 = n div 4 - 1 \<longleftrightarrow> n div 4 \<le> k div 4 + 1" by linarith
    also have "\<dots> \<longleftrightarrow> n \<le> k + 4" using k that by linarith
    finally show ?thesis by (simp only: c)
  qed
qed

text \<open>
  \<^verbatim>\<open>NEA1\<close> adds the key stream to a message, except that the last word of the key stream is cleared when the
  message is a multiple of four octets.
\<close>

lemma NEA1_spec:
  assumes "ibs \<noteq> []" "length ibs < 2 ^ 28"
  shows "NEA1 ck countC bearer direction ibs (of_nat (length ibs) * 8) =
    Inr (map (\<lambda>k. if length ibs mod 4 = 0 \<and> length ibs \<le> k + 4 then ibs ! k
      else ibs ! k XOR nea1_stream ck countC bearer direction (length ibs) k) [0..<length ibs])"
proof -
  let ?n = "length ibs" and ?len = "of_nat (length ibs) * 8 :: u32"
  let ?q = "?n mod 4" and ?l = "(?n + 3) div 4" and ?b = "push_bit 27 bearer OR push_bit 26 direction"
  let ?K = "fst (GenerateKeystream ?l (InitSnow3g (key_words ck) [?b, countC, ?b, countC]))"
  let ?M = "NOT (push_bit (32 - 8 * ?q) 1 - 1) :: u32"
  let ?k = "?K[?l - 1 := ?K ! (?l - 1) AND ?M]"
  have n: "0 < ?n" "unat (of_nat ?n :: u32) = ?n" using assms by (simp_all add: unat_of_nat take_bit_nat_eq_self)
  then have len: "unat ?len = 8 * ?n" "unat (?len + 31) = 8 * ?n + 31" using assms(2) by (simp_all add: unat_word_ariths)
  then have w: "unat ((?len + 31) div 32) = ?l" "unat (?len mod 32) = 8 * ?q" "unat (?len div 32) = ?n div 4"
    using mult_mod_right [of 8 ?n 4] by (simp_all add: unat_div unat_mod)
  have l: "?l \<noteq> 0" "?n \<le> 4 * ?l" using n(1) by linarith+
  have idx: "[0..<4 * (?n div 4)] @ (if 8 * ?q \<noteq> 0 then [4 * (?n div 4)..<4 * (?n div 4) + (8 * ?q + 7) div 8] else []) = [0..<?n]"
  proof -
    have "4 * (?n div 4) + (8 * ?q + 7) div 8 = ?n" by simp
    then show ?thesis using upt_add_eq_append [of 0 "4 * (?n div 4)" ?q] by auto
  qed
  have "NEA1 ck countC bearer direction ibs ?len = xor_loop ?k ibs [0..<?n] (replicate ?n 0)"
    using l idx by (simp add: NEA1_def w Let_def)
  also have "\<dots> = Inr (map (\<lambda>k. ibs ! k XOR ucast (drop_bit (8 * (3 - k mod 4)) (?k ! (k div 4)) AND 0xff)) [0..<?n])"
    using l xor_loop_upt [of 0 ?n ibs "replicate ?n 0" ?k] by simp
  also have "map (\<lambda>k. ibs ! k XOR ucast (drop_bit (8 * (3 - k mod 4)) (?k ! (k div 4)) AND 0xff)) [0..<?n] =
    map (\<lambda>k. if ?q = 0 \<and> ?n \<le> k + 4 then ibs ! k else ibs ! k XOR nea1_stream ck countC bearer direction ?n k) [0..<?n]"
  proof (rule map_cong [OF refl])
    fix k assume "k \<in> set [0..<?n]"
    then have k: "k < ?n" by simp
    show "ibs ! k XOR ucast (drop_bit (8 * (3 - k mod 4)) (?k ! (k div 4)) AND 0xff) =
      (if ?q = 0 \<and> ?n \<le> k + 4 then ibs ! k else ibs ! k XOR nea1_stream ck countC bearer direction ?n k)"
    proof (cases "k div 4 = ?l - 1")
      case True
      then have v: "?k ! (k div 4) = ?K ! (k div 4) AND ?M" using l by simp
      show ?thesis
      proof (cases "?q = 0")
        case True
        then have "?M = 0" by simp
        then have "?k ! (k div 4) = 0" using v by (metis and_zero_eq)
        moreover have "?n \<le> k + 4" using \<open>k div 4 = ?l - 1\<close> True last_word(2) [OF k] by simp
        ultimately show ?thesis using True by simp
      next
        case False
        then have "k mod 4 < ?q" using last_word(1) [OF k] \<open>k div 4 = ?l - 1\<close> by simp
        then show ?thesis using v False masked_octet [of "k mod 4" ?q "?K ! (k div 4)"] by (simp add: nea1_stream_def Let_def)
      qed
    next
      case False
      then have "\<not> (?q = 0 \<and> ?n \<le> k + 4)" using last_word(2) [OF k] by metis
      moreover have "?k ! (k div 4) = ?K ! (k div 4)" using False by simp
      ultimately show ?thesis by (simp only: nea1_stream_def Let_def if_False)
    qed
  qed
  finally show ?thesis .
qed

text \<open>A key stream that does not depend on the message is removed by adding it again.\<close>

lemma xor_twice: "(x XOR y) XOR y = x" for x :: "'a::len word"
  by (simp add: xor.assoc)

lemma NEA1_involution:
  assumes "length ibs < 2 ^ 28" "NEA1 ck countC bearer direction ibs (of_nat (length ibs) * 8) = Inr obs"
  shows "length obs = length ibs \<and> NEA1 ck countC bearer direction obs (of_nat (length obs) * 8) = Inr ibs"
proof -
  have "ibs \<noteq> []" using assms(2) by (auto simp: NEA1_def)
  note spec = NEA1_spec [OF this assms(1), of ck countC bearer direction]
  from spec assms(2) have obs: "obs = map (\<lambda>k. if length ibs mod 4 = 0 \<and> length ibs \<le> k + 4 then ibs ! k
      else ibs ! k XOR nea1_stream ck countC bearer direction (length ibs) k) [0..<length ibs]" by simp
  then have len: "length obs = length ibs" by simp
  then have "obs \<noteq> []" "length obs < 2 ^ 28" using \<open>ibs \<noteq> []\<close> assms(1) by auto
  note spec' = NEA1_spec [OF this, of ck countC bearer direction]
  have "map (\<lambda>k. if length obs mod 4 = 0 \<and> length obs \<le> k + 4 then obs ! k
      else obs ! k XOR nea1_stream ck countC bearer direction (length obs) k) [0..<length obs] = ibs"
    by (rule nth_equalityI) (auto simp: obs xor_twice)
  with spec' len show ?thesis by simp
qed

definition block_cipher :: "crypto \<Rightarrow> bool" where
  "block_cipher c \<longleftrightarrow> (\<forall>key b. length (AES c key b) = 16) \<and> (\<forall>E m. length (cmac_Sum c E m) = 16)"

lemma length_ctr_stream: "(\<And>b. length (E b) = 16) \<Longrightarrow> n \<le> length (ctr_stream E iv n)"
proof -
  assume "\<And>b. length (E b) = 16"
  then have "length (ctr_stream E iv n) = 16 * ((n + 15) div 16)"
    by (simp add: ctr_stream_def length_concat comp_def sum_list_triv)
  then show ?thesis by linarith
qed

lemma NEA2_involution:
  assumes "block_cipher c" "NEA2 c key count bearer direction ibs = Inr obs"
  shows "length obs = length ibs \<and> NEA2 c key count bearer direction obs = Inr ibs"
proof -
  define ks where "ks = ctr_stream (AES c key) (be_bytes 4 count @ [push_bit 3 bearer OR push_bit 2 direction] @ replicate 11 0) (length ibs)"
  have ks: "length ibs \<le> length ks" unfolding ks_def using assms(1) by (intro length_ctr_stream) (simp add: block_cipher_def)
  have obs: "obs = map2 (XOR) ibs ks" using assms(2) by (simp add: NEA2_def ks_def)
  then have len: "length obs = length ibs" using ks by simp
  have "map2 (XOR) obs ks = ibs"
    by (rule nth_equalityI) (use ks len in \<open>auto simp: obs xor_twice\<close>)
  then show ?thesis using len by (simp add: NEA2_def ks_def)
qed

lemma copy_bytes_all: "length src = length dst \<Longrightarrow> copy_bytes dst src = src"
  by (simp add: copy_bytes_def)

lemma NASEncrypt_inverse:
  assumes "block_cipher c" "length p < 2 ^ 28" "NASEncrypt c alg key count bearer direction (Some p) = Inr q"
  shows "length q = length p" "NASEncrypt c alg key count bearer direction (Some q) = Inr p"
proof -
  have range: "\<not> bearer > 0x1f" "\<not> direction > 1" using assms(3) by (auto simp: NASEncrypt_def split: if_splits)
  consider (nea0) "alg = AlgCiphering128NEA0" "q = p"
    | (nea1) out where "alg = AlgCiphering128NEA1" "q = copy_bytes p out"
        "NEA1 key count (ucast bearer) (ucast direction) p (of_nat (length p) * 8) = Inr out"
    | (nea2) out where "alg = AlgCiphering128NEA2" "q = copy_bytes p out" "NEA2 c key count bearer direction p = Inr out"
    using assms(3) by (auto simp: NASEncrypt_def bind_res_eq_Inr_iff split: if_splits)
  then have "length q = length p \<and> NASEncrypt c alg key count bearer direction (Some q) = Inr p"
  proof cases
    case nea0
    then show ?thesis using range by (simp add: NASEncrypt_def)
  next
    case nea1
    from NEA1_involution [OF assms(2) nea1(3)] have out: "length out = length p"
      "NEA1 key count (ucast bearer) (ucast direction) out (of_nat (length p) * 8) = Inr p" by metis+
    then show ?thesis using range nea1(1,2)
      by (simp add: NASEncrypt_def copy_bytes_all security_constants)
  next
    case nea2
    then show ?thesis using range NEA2_involution [OF assms(1) nea2(3)] nea2(1,2)
      by (simp add: NASEncrypt_def copy_bytes_all security_constants)
  qed
  then show "length q = length p" "NASEncrypt c alg key count bearer direction (Some q) = Inr p" by simp_all
qed

section \<open>Integrity\<close>

lemma nia1_loop_ok: "8 * unat n \<le> length msg \<Longrightarrow> \<exists>Eval. nia1_loop n msg P V = Inr (Eval, drop (8 * unat n) msg)"
proof (induction n msg P V rule: nia1_loop.induct)
  case (1 n msg P V)
  show ?case
  proof (cases "n = 0")
    case False
    then have n: "unat n = Suc (unat (n - 1))" by (simp add: unat_minus_one unat_gt_0)
    then have l: "\<not> length msg < 8" "8 * unat (n - 1) \<le> length (drop 8 msg)" using "1.prems" by simp_all
    from "1.IH" [OF False l] obtain E where
      "nia1_loop (n - 1) (drop 8 msg) P (mul (V XOR of_be (take 8 msg)) P 0x1b) = Inr (E, drop (8 * unat (n - 1)) (drop 8 msg))" by blast
    then show ?thesis using False l(1) n by (subst nia1_loop.simps) (simp add: add.commute)
  qed (simp add: nia1_loop.simps)
qed

lemma NIA1_ok:
  assumes "msg \<noteq> []" "length msg < 2 ^ 60"
  shows "\<exists>mac. NIA1 ik countI bearer direction msg (of_nat (length msg) * 8) = Inr mac \<and> length mac = 4"
proof -
  let ?n = "length msg" and ?len = "of_nat (length msg) * 8 :: u64"
  have "unat (of_nat ?n :: u64) = ?n" using assms(2) by (simp add: unat_of_nat take_bit_nat_eq_self)
  then have "unat ?len = 8 * ?n" using assms(2) by (simp add: unat_word_ariths)
  then have "unat (?len + 63) = 8 * ?n + 63" using assms(2) by (simp add: unat_word_ariths)
  then have d: "unat ((?len + 63) div 64) = (8 * ?n + 63) div 64" by (simp add: unat_div)
  have D: "(?len + 63) div 64 + 1 - 2 = (?len + 63) div 64 - 1" by simp
  have pos: "0 < ?n" using assms(1) by simp
  then have "0 < (8 * ?n + 63) div 64" by linarith
  then have "(?len + 63) div 64 \<noteq> 0" using d by (metis less_irrefl unat_0)
  then have "unat ((?len + 63) div 64 + 1 - 2) = (8 * ?n + 63) div 64 - 1" unfolding D using d by (simp add: unat_minus_one)
  moreover have "8 * ((8 * ?n + 63) div 64 - 1) \<le> ?n" using pos by linarith
  ultimately have "8 * unat ((?len + 63) div 64 + 1 - 2) \<le> ?n" by simp
  then obtain E where "\<And>P V. nia1_loop ((?len + 63) div 64 + 1 - 2) msg P V =
      Inr (E P V, drop (8 * unat ((?len + 63) div 64 + 1 - 2)) msg)" using nia1_loop_ok by metis
  then show ?thesis by (simp add: NIA1_def Let_def del: of_nat_mult)
qed

lemma mac_ok:
  assumes "block_cipher c" "msg \<noteq> []" "length msg < 2 ^ 60" "alg \<in> {AlgIntegrity128NIA1, AlgIntegrity128NIA2}" "bearer \<le> 0x1f" "direction \<le> 1"
  shows "\<exists>mac. NASMacCalculate c alg key count bearer direction (Some msg) = Inr (Some mac) \<and> length mac = 4"
proof -
  have range: "\<not> bearer > 0x1f" "\<not> direction > 1" using assms(5,6) by auto
  show ?thesis
    using assms(4) range NIA1_ok [OF assms(2,3), of key count bearer "ucast direction"] assms(1)
    by (auto simp: NASMacCalculate_def NIA2_def block_cipher_def security_constants)
qed

lemma NASEncrypt_ok:
  assumes "p \<noteq> []" "length p < 2 ^ 28" "alg \<in> {AlgCiphering128NEA0, AlgCiphering128NEA1, AlgCiphering128NEA2}" "bearer \<le> 0x1f" "direction \<le> 1"
  shows "\<exists>q. NASEncrypt c alg key count bearer direction (Some p) = Inr q"
proof -
  have range: "\<not> bearer > 0x1f" "\<not> direction > 1" using assms(4,5) by auto
  then show ?thesis using assms(3) NEA1_spec [OF assms(1,2)] by (auto simp: NASEncrypt_def NEA2_def security_constants)
qed

section \<open>Properties\<close>

text \<open>
  C17. Applying \<^verbatim>\<open>NASEncrypt\<close> twice with the same parameters gives the payload back, for every algorithm that is
  implemented: the receiver deciphers by the function that the sender ciphers with.
\<close>

theorem NASEncrypt_involution:
  assumes "block_cipher c" "length p < 2 ^ 28" "NASEncrypt c alg key count bearer direction (Some p) = Inr q"
  shows "length q = length p \<and> NASEncrypt c alg key count bearer direction (Some q) = Inr p"
  using NASEncrypt_inverse [OF assms] by blast

definition block_crypto :: crypto where
  "block_crypto = \<lparr>AES = (\<lambda>key b. take 16 (key @ b @ replicate 16 0)), cmac_Sum = (\<lambda>E m. take 16 (E m @ replicate 16 0))\<rparr>"

lemma block_crypto_ok: "block_cipher block_crypto"
  by (auto simp: block_cipher_def block_crypto_def min_def)

theorem NASEncrypt_involution_witness:
  "\<exists>q. NASEncrypt block_crypto AlgCiphering128NEA1 [1, 2, 3] 5 1 0 (Some [0x7E, 0, 103]) = Inr q \<and>
    NASEncrypt block_crypto AlgCiphering128NEA1 [1, 2, 3] 5 1 0 (Some q) = Inr [0x7E, 0, 103]"
proof -
  have "\<exists>q. NASEncrypt block_crypto AlgCiphering128NEA1 [1, 2, 3] 5 1 0 (Some [0x7E, 0, 103]) = Inr q"
    by (rule NASEncrypt_ok) simp_all
  then obtain q where q: "NASEncrypt block_crypto AlgCiphering128NEA1 [1, 2, 3] 5 1 0 (Some [0x7E, 0, 103]) = Inr q"
    by blast
  show ?thesis using NASEncrypt_involution [OF block_crypto_ok _ q] q by auto
qed

text \<open>
  C21. When the length of a payload is a multiple of four octets, NEA1 leaves its last four octets in clear: the
  mask for the unused bits of the last word is computed for 32 unused bits instead of none.
\<close>

theorem nea1_last_word_clear:
  assumes "length p mod 4 = 0" "p \<noteq> []" "length p < 2 ^ 28" "bearer \<le> 0x1f" "direction \<le> 1"
  shows "\<exists>q. NASEncrypt c AlgCiphering128NEA1 key count bearer direction (Some p) = Inr q \<and> length q = length p \<and>
    drop (length p - 4) q = drop (length p - 4) p"
proof -
  let ?q = "map (\<lambda>k. if length p mod 4 = 0 \<and> length p \<le> k + 4 then p ! k
    else p ! k XOR nea1_stream key count (ucast bearer) (ucast direction) (length p) k) [0..<length p]"
  have range: "\<not> bearer > 0x1f" "\<not> direction > 1" using assms(4,5) by auto
  have "NASEncrypt c AlgCiphering128NEA1 key count bearer direction (Some p) = Inr ?q"
    using range NEA1_spec [OF assms(2,3)] by (simp add: NASEncrypt_def copy_bytes_all security_constants)
  moreover have "drop (length p - 4) ?q = drop (length p - 4) p"
    by (rule nth_equalityI) (use assms(1) in auto)
  ultimately show ?thesis by (intro exI [of _ ?q]) simp
qed

theorem nea1_last_word_clear_witness:
  "NASEncrypt block_crypto AlgCiphering128NEA1 [1, 2, 3] 5 1 0 (Some [0x7E, 0, 0x5D, 2]) = Inr [0x7E, 0, 0x5D, 2]"
  using nea1_last_word_clear [of "[0x7E, 0, 0x5D, 2]" 1 0 block_crypto "[1, 2, 3]" 5] by auto

end
