(* ===== verification/AMF_Security.thy ===== *)
theory AMF_Security
  imports NAS NAS_Security Go_State
begin

text \<open>
  Security protected NAS messages in the AMF (\<^verbatim>\<open>src/amf/nas/nas_security/security.go\<close>): the fields of \<^verbatim>\<open>AmfUe\<close> that
  it uses, \<^verbatim>\<open>Encode\<close> and \<^verbatim>\<open>Decode\<close>. The peer is the user equipment of the system tests (\<^verbatim>\<open>src/test/security.go\<close>).
\<close>

section \<open>The state\<close>

record AmfUe =
  SecurityContextAvailable :: bool
  MacFailed :: bool
  NgKsi_Ksi :: int
  KnasInt :: bytes
  KnasEnc :: bytes
  ULCount :: Count
  DLCount :: Count
  CipheringAlg :: u8
  IntegrityAlg :: u8
  RRCEstablishmentCause :: "string \<Rightarrow> string option"

text \<open>\<^verbatim>\<open>RRCEstablishmentCause\<close> is the field of that name in \<^verbatim>\<open>RanUe[accessType]\<close>; \<open>None\<close> stands for a nil pointer there.\<close>

definition NasKeySetIdentifierNoKeyIsAvailable :: int where
  "NasKeySetIdentifierNoKeyIsAvailable = 7"

definition SecurityContextIsValid :: "AmfUe \<Rightarrow> bool" where
  "SecurityContextIsValid ue \<longleftrightarrow>
     SecurityContextAvailable ue \<and> NgKsi_Ksi ue \<noteq> NasKeySetIdentifierNoKeyIsAvailable \<and> \<not> MacFailed ue"

definition SecurityHeaderTypePlainNas :: u8 where "SecurityHeaderTypePlainNas = 0"
definition SecurityHeaderTypeIntegrityProtected :: u8 where "SecurityHeaderTypeIntegrityProtected = 1"
definition SecurityHeaderTypeIntegrityProtectedAndCiphered :: u8 where "SecurityHeaderTypeIntegrityProtectedAndCiphered = 2"
definition SecurityHeaderTypeIntegrityProtectedWithNew5gNasSecurityContext :: u8 where
  "SecurityHeaderTypeIntegrityProtectedWithNew5gNasSecurityContext = 3"
definition SecurityHeaderTypeIntegrityProtectedAndCipheredWithNew5gNasSecurityContext :: u8 where
  "SecurityHeaderTypeIntegrityProtectedAndCipheredWithNew5gNasSecurityContext = 4"

lemmas header_types = SecurityHeaderTypePlainNas_def SecurityHeaderTypeIntegrityProtected_def
  SecurityHeaderTypeIntegrityProtectedAndCiphered_def SecurityHeaderTypeIntegrityProtectedWithNew5gNasSecurityContext_def
  SecurityHeaderTypeIntegrityProtectedAndCipheredWithNew5gNasSecurityContext_def

text \<open>\<^verbatim>\<open>fmt.Errorf\<close> around an error of a callee; a panic passes.\<close>

definition wrap_err :: "string \<Rightarrow> 'a res \<Rightarrow> 'a res" where
  "wrap_err msg m = (case m of Inl (Err _) \<Rightarrow> Inl (Err msg) | Inl Panic \<Rightarrow> Inl Panic | Inr x \<Rightarrow> Inr x)"

definition bytes_of_slice :: "bytes option \<Rightarrow> bytes" where
  "bytes_of_slice b = (case b of None \<Rightarrow> [] | Some x \<Rightarrow> x)"

section \<open>Encoding\<close>

text \<open>The switch of \<^verbatim>\<open>Encode\<close> on the security header type; it returns whether the message is ciphered.\<close>

definition encode_type :: "u8 \<Rightarrow> (AmfUe, bool) go" where
  "encode_type t =
     (if t = SecurityHeaderTypeIntegrityProtected then ret False
      else if t = SecurityHeaderTypeIntegrityProtectedAndCiphered then ret True
      else if t = SecurityHeaderTypeIntegrityProtectedWithNew5gNasSecurityContext then
        bind (modify (\<lambda>ue. ue\<lparr>ULCount := Count_Set 0 0 (ULCount ue), DLCount := Count_Set 0 0 (DLCount ue)\<rparr>)) (\<lambda>_. ret False)
      else fail (Err ''Wrong security header type''))"

text \<open>\<^verbatim>\<open>Encode\<close> for a UE and a message that are not nil. The trace output calls \<^verbatim>\<open>DLCount.Get\<close>, which masks the counter.\<close>

definition encode_for :: "crypto \<Rightarrow> Message \<Rightarrow> (AmfUe, bytes) go" where
  "encode_for c msg =
     bind (gets SecurityContextAvailable) (\<lambda>available.
     if \<not> available then lift_res (\<lambda>_. PlainNasEncode msg)
     else
       bind (encode_type (SH_SecurityHeaderType (Message_SecurityHeader msg))) (\<lambda>needCiphering.
       bind (lift_res (\<lambda>_. wrap_err ''Plain NAS encode error'' (PlainNasEncode msg))) (\<lambda>payload.
       bind (modify (DLCount_update Count_Get)) (\<lambda>_.
       bind (if needCiphering
             then lift_res (\<lambda>ue. wrap_err ''Encrypt error'' (NASEncrypt c (CipheringAlg ue) (KnasEnc ue) (Count_Get (DLCount ue))
               Bearer3GPP DirectionDownlink (Some payload)))
             else ret payload) (\<lambda>payload.
       bind (gets (\<lambda>ue. Count_SQN (DLCount ue) # payload)) (\<lambda>payload.
       bind (lift_res (\<lambda>ue. wrap_err ''MAC calcuate error'' (NASMacCalculate c (IntegrityAlg ue) (KnasInt ue) (Count_Get (DLCount ue))
         Bearer3GPP DirectionDownlink (Some payload)))) (\<lambda>mac32.
       bind (modify (DLCount_update Count_AddOne)) (\<lambda>_.
       ret ([SH_ProtocolDiscriminator (Message_SecurityHeader msg), SH_SecurityHeaderType (Message_SecurityHeader msg)] @
         bytes_of_slice mac32 @ payload)))))))))"

definition Encode :: "crypto \<Rightarrow> Message option \<Rightarrow> AmfUe option \<Rightarrow> bytes res \<times> AmfUe option" where
  "Encode c msg ue =
     (case ue of
        None \<Rightarrow> (Inl (Err ''amfUe is nil''), None)
      | Some ue \<Rightarrow>
          (case msg of
             None \<Rightarrow> (Inl (Err ''Nas Message is empty''), Some ue)
           | Some msg \<Rightarrow> map_prod id Some (encode_for c msg ue)))"

section \<open>Decoding\<close>

definition GetSecurityHeaderType :: "bytes \<Rightarrow> u8 res" where
  "GetSecurityHeaderType byteArray = (if length byteArray < 2 then Inl Panic else Inr (byteArray ! 1))"

definition decode_plain :: "bytes \<Rightarrow> Message \<Rightarrow> (AmfUe, Message) go" where
  "decode_plain payload msg = lift_res (\<lambda>_. case PlainNasDecode payload msg of (Inl e, _) \<Rightarrow> Inl e | (Inr _, m) \<Rightarrow> Inr m)"

text \<open>The messages that user equipment with a security context may send without protection.\<close>

definition plain_types :: "u8 list" where
  "plain_types = [MsgTypeRegistrationRequest, MsgTypeIdentityResponse, MsgTypeAuthenticationResponse, MsgTypeAuthenticationFailure,
     MsgTypeSecurityModeReject, MsgTypeDeregistrationRequestUEOriginatingDeregistration,
     MsgTypeDeregistrationAcceptUETerminatedDeregistration]"

definition decode_unprotected :: "string \<Rightarrow> bytes \<Rightarrow> Message \<Rightarrow> (AmfUe, Message) go" where
  "decode_unprotected accessType payload msg =
     bind (lift_res (\<lambda>ue. if SecurityContextAvailable ue
       then case RRCEstablishmentCause ue accessType of None \<Rightarrow> Inl Panic | Some cause \<Rightarrow> Inr (cause \<noteq> ''0'')
       else Inr False)) (\<lambda>restricted.
     bind (modify (MacFailed_update (\<lambda>_. False))) (\<lambda>_.
     bind (decode_plain payload msg) (\<lambda>msg.
     if \<not> restricted then ret msg
     else case Message_Gmm msg of
       None \<Rightarrow> fail (Err ''Gmm Message is nil'')
     | Some g \<Rightarrow>
         if GmmHeader g ! 2 \<in> set plain_types then ret msg
         else fail (Err ''UE can not send plain nas for non-emergency service when there is a valid security context''))))"

definition decode_type :: "u8 \<Rightarrow> (AmfUe, bool) go" where
  "decode_type t =
     (if t = SecurityHeaderTypeIntegrityProtected then ret False
      else if t = SecurityHeaderTypeIntegrityProtectedAndCiphered then ret True
      else if t = SecurityHeaderTypeIntegrityProtectedAndCipheredWithNew5gNasSecurityContext then
        bind (modify (ULCount_update (Count_Set 0 0))) (\<lambda>_. ret True)
      else fail (Err ''Wrong security header type''))"

text \<open>The estimate of the uplink counter from a received sequence number.\<close>

definition advance_count :: "u8 \<Rightarrow> Count \<Rightarrow> Count" where
  "advance_count sequenceNumber count =
     Count_Get (Count_SetSQN sequenceNumber
       (if Count_SQN count > sequenceNumber then Count_SetOverflow (Count_Overflow count + 1) count else count))"

definition decode_protected :: "crypto \<Rightarrow> bytes \<Rightarrow> Message \<Rightarrow> (AmfUe, Message) go" where
  "decode_protected c payload msg =
     bind (lift_res (\<lambda>_. if length payload \<le> 6 then Inl Panic else Inr ())) (\<lambda>_.
     let sequenceNumber = payload ! 6; receivedMac32 = take 4 (drop 2 payload); payload = drop 6 payload in
     bind (decode_type (SH_SecurityHeaderType (Message_SecurityHeader msg))) (\<lambda>ciphered.
     bind (modify (ULCount_update (advance_count sequenceNumber))) (\<lambda>_.
     bind (lift_res (\<lambda>ue. wrap_err ''MAC calcuate error'' (NASMacCalculate c (IntegrityAlg ue) (KnasInt ue) (ULCount ue)
       Bearer3GPP DirectionUplink (Some payload)))) (\<lambda>mac32.
     bind (modify (MacFailed_update (\<lambda>_. mac32 \<noteq> Some receivedMac32))) (\<lambda>_.
     bind (if ciphered
           then lift_res (\<lambda>ue. wrap_err ''Encrypt error'' (NASEncrypt c (CipheringAlg ue) (KnasEnc ue) (Count_Get (ULCount ue))
             Bearer3GPP DirectionUplink (Some (drop 1 payload))))
           else ret (drop 1 payload)) (\<lambda>payload.
     decode_plain payload msg))))))"

definition decode_for :: "crypto \<Rightarrow> string \<Rightarrow> bytes \<Rightarrow> (AmfUe, Message) go" where
  "decode_for c accessType payload =
     bind (lift_res (\<lambda>_. GetSecurityHeaderType payload)) (\<lambda>t.
     let msg = NewMessage\<lparr>Message_SecurityHeader := (Message_SecurityHeader NewMessage)\<lparr>SH_SecurityHeaderType := t AND 0x0f\<rparr>\<rparr> in
     if t AND 0x0f = SecurityHeaderTypePlainNas then decode_unprotected accessType payload msg
     else decode_protected c payload msg)"

definition Decode :: "crypto \<Rightarrow> string \<Rightarrow> bytes option \<Rightarrow> AmfUe option \<Rightarrow> Message res \<times> AmfUe option" where
  "Decode c accessType payload ue =
     (case ue of
        None \<Rightarrow> (Inl (Err ''amfUe is nil''), None)
      | Some ue \<Rightarrow>
          (case payload of
             None \<Rightarrow> (Inl (Err ''Nas payload is empty''), Some ue)
           | Some p \<Rightarrow> map_prod id Some (decode_for c accessType p ue)))"

section \<open>User equipment\<close>

record RanUeContext =
  UE_ULCount :: Count
  UE_DLCount :: Count
  UE_CipheringAlg :: u8
  UE_IntegrityAlg :: u8
  UE_KnasEnc :: bytes
  UE_KnasInt :: bytes

text \<open>\<^verbatim>\<open>NASEncode\<close> for a UE and a message that are not nil.\<close>

definition nas_encode_for :: "crypto \<Rightarrow> Message \<Rightarrow> bool \<Rightarrow> bool \<Rightarrow> (RanUeContext, bytes) go" where
  "nas_encode_for c msg securityContextAvailable newSecurityContext =
     (if \<not> securityContextAvailable then lift_res (\<lambda>_. PlainNasEncode msg)
      else
        bind (if newSecurityContext
              then modify (\<lambda>ue. ue\<lparr>UE_ULCount := Count_Set 0 0 (UE_ULCount ue), UE_DLCount := Count_Set 0 0 (UE_DLCount ue)\<rparr>)
              else ret ()) (\<lambda>_.
        bind (gets (\<lambda>ue. Count_SQN (UE_ULCount ue))) (\<lambda>sequenceNumber.
        bind (lift_res (\<lambda>_. PlainNasEncode msg)) (\<lambda>payload.
        bind (modify (UE_ULCount_update Count_Get)) (\<lambda>_.
        bind (lift_res (\<lambda>ue. NASEncrypt c (UE_CipheringAlg ue) (UE_KnasEnc ue) (Count_Get (UE_ULCount ue)) Bearer3GPP DirectionUplink
          (Some payload))) (\<lambda>payload.
        bind (lift_res (\<lambda>ue. NASMacCalculate c (UE_IntegrityAlg ue) (UE_KnasInt ue) (Count_Get (UE_ULCount ue)) Bearer3GPP DirectionUplink
          (Some (sequenceNumber # payload)))) (\<lambda>mac32.
        bind (modify (UE_ULCount_update Count_AddOne)) (\<lambda>_.
        ret ([SH_ProtocolDiscriminator (Message_SecurityHeader msg), SH_SecurityHeaderType (Message_SecurityHeader msg)] @
          bytes_of_slice mac32 @ sequenceNumber # payload)))))))))"

definition NASEncode :: "crypto \<Rightarrow> RanUeContext option \<Rightarrow> Message option \<Rightarrow> bool \<Rightarrow> bool \<Rightarrow> bytes res \<times> RanUeContext option" where
  "NASEncode c ue msg securityContextAvailable newSecurityContext =
     (case ue of
        None \<Rightarrow> (Inl (Err ''amfUe is nil''), None)
      | Some ue \<Rightarrow>
          (case msg of
             None \<Rightarrow> (Inl (Err ''Nas Message is empty''), Some ue)
           | Some msg \<Rightarrow> map_prod id Some (nas_encode_for c msg securityContextAvailable newSecurityContext ue)))"

section \<open>Counters in step\<close>

lemma advance_parts [simp]:
  "Count_SQN (advance_count sqn c) = sqn"
  "Count_Overflow (advance_count sqn c) = (if Count_SQN c > sqn then Count_Overflow c + 1 else Count_Overflow c)"
  "unat (advance_count sqn c) < 2 ^ 24"
  using Count_Get_bound by (simp_all add: advance_count_def)

lemma wrapped_overflow:
  fixes a b u v d :: nat
  assumes "b < 256" "v < 256" "a < 65536" "u < 65536" "d \<le> 255" "256 * u + v = (256 * a + b + d) mod 16777216"
  shows "u = (if b > v then (a + 1) mod 65536 else a)"
proof -
  have "256 * a + b + d < 2 * 16777216" using assms by linarith
  then consider "256 * u + v = 256 * a + b + d" | "256 * u + v + 16777216 = 256 * a + b + d"
    using assms(6) mod_wrap_once [of 16777216 "256 * a + b + d"] by (cases "256 * a + b + d < 16777216") auto
  then show ?thesis
  proof cases
    case 1
    then have "b > v \<Longrightarrow> u = a + 1" "\<not> b > v \<Longrightarrow> u = a" using assms by linarith+
    then show ?thesis using assms(4) by auto
  next
    case 2
    then have "b > v \<and> u + 65536 = a + 1" using assms by linarith
    then show ?thesis using assms(3) by auto
  qed
qed

text \<open>The AMF finds the counter of the UE again when at most 254 messages in a row were lost.\<close>

lemma advance_in_step:
  assumes "unat A < 2 ^ 24" "d \<le> 255" "unat U = (unat A + d) mod 2 ^ 24"
  shows "advance_count (Count_SQN U) A = U"
proof (rule count_eqI)
  have u: "unat U < 2 ^ 24" using assms(3) by simp
  have "unat (Count_Overflow U) = (if unat (Count_SQN A) > unat (Count_SQN U) then (unat (Count_Overflow A) + 1) mod 65536 else unat (Count_Overflow A))"
    using assms(3) unat_count [OF assms(1)] unat_count [OF u] by (intro wrapped_overflow [OF _ _ _ _ assms(2)]) simp_all
  then show "Count_Overflow (advance_count (Count_SQN U) A) = Count_Overflow U"
    by (auto simp: word_unat_eq_iff word_less_nat_alt unat_word_ariths)
qed (use assms(3) advance_parts in auto)

lemma Count_Set_parts [simp]: "Count_SQN (Count_Set v sqn c) = sqn" "Count_Overflow (Count_Set v sqn c) = v"
  by (simp_all add: Count_Set_def)

lemma Count_parts_zero [simp]: "Count_SQN 0 = 0" "Count_Overflow 0 = 0"
  by (simp_all add: Count_SQN_def Count_Overflow_def)

lemma Count_Set_zero [simp]: "Count_Get (Count_Set 0 0 c) = 0"
  by (rule count_eqI) (simp_all only: Count_Get_bound count_parts Count_Set_parts Count_parts_zero, simp)

lemma advance_zero [simp]: "advance_count 0 (Count_Set 0 0 c) = 0"
  by (simp add: advance_count_def) (rule count_eqI, simp_all only: Count_Get_bound count_parts Count_Set_parts Count_parts_zero, simp)

section \<open>Round trips\<close>

lemma PlainNasDecode_header:
  "PlainNasDecode bs (a\<lparr>Message_SecurityHeader := h\<rparr>) = map_prod id (\<lambda>m. m\<lparr>Message_SecurityHeader := h\<rparr>) (PlainNasDecode bs a)"
  by (auto simp: PlainNasDecode_def GmmMessageDecode_def GsmMessageDecode_def Let_def split: sum.splits option.splits)

lemma PlainNasEncode_header: "PlainNasEncode (a\<lparr>Message_SecurityHeader := h\<rparr>) = PlainNasEncode a"
  by (simp add: PlainNasEncode_def split: option.split)

lemma plain_message_header:
  assumes "plain_message a"
  obtains p where "PlainNasEncode a = Inr p" "p \<noteq> []"
    "\<And>h. PlainNasDecode p (NewMessage\<lparr>Message_SecurityHeader := h\<rparr>) = (Inr (), a\<lparr>Message_SecurityHeader := h\<rparr>)"
proof -
  have "\<exists>p. PlainNasEncode a = Inr p \<and> PlainNasDecode p NewMessage = (Inr (), a)"
    using assms unfolding plain_message_def by (elim disjE exE conjE) (use gmm_roundtrip gsm_roundtrip in blast)+
  then obtain p where p: "PlainNasEncode a = Inr p" "PlainNasDecode p NewMessage = (Inr (), a)" by blast
  moreover have "p \<noteq> []" using p(2) by (auto simp: PlainNasDecode_def GetEPD_def)
  ultimately show ?thesis using that PlainNasDecode_header by simp
qed

definition shared :: "RanUeContext \<Rightarrow> AmfUe \<Rightarrow> bool" where
  "shared ue amf \<longleftrightarrow> UE_CipheringAlg ue = CipheringAlg amf \<and> UE_IntegrityAlg ue = IntegrityAlg amf \<and>
     UE_KnasEnc ue = KnasEnc amf \<and> UE_KnasInt ue = KnasInt amf"

definition implemented :: "AmfUe \<Rightarrow> bool" where
  "implemented amf \<longleftrightarrow> IntegrityAlg amf \<in> {AlgIntegrity128NIA1, AlgIntegrity128NIA2} \<and>
     CipheringAlg amf \<in> {AlgCiphering128NEA0, AlgCiphering128NEA1, AlgCiphering128NEA2}"

text \<open>
  C4. A message that the user equipment protects is decoded by the AMF to what was sent, verified, when both share the
  keys and algorithms and at most 254 messages in a row were lost before: the counters agree afterwards.
\<close>

theorem uplink_roundtrip:
  assumes c: "block_cipher c" and a: "plain_message a" "PlainNasEncode a = Inr p" "length p < 2 ^ 28"
    and h: "SH_SecurityHeaderType h = (if new then SecurityHeaderTypeIntegrityProtectedAndCipheredWithNew5gNasSecurityContext
      else SecurityHeaderTypeIntegrityProtectedAndCiphered)"
    and s: "shared ue amf" "implemented amf"
    and n: "unat (ULCount amf) < 2 ^ 24" "unat (UE_ULCount ue) = (unat (ULCount amf) + d) mod 2 ^ 24" "d \<le> 255"
  shows "\<exists>bs ue' amf'. NASEncode c (Some ue) (Some (a\<lparr>Message_SecurityHeader := h\<rparr>)) True new = (Inr bs, Some ue') \<and>
    Decode c accessType (Some bs) (Some amf) =
      (Inr (a\<lparr>Message_SecurityHeader := (Message_SecurityHeader NewMessage)\<lparr>SH_SecurityHeaderType := SH_SecurityHeaderType h\<rparr>\<rparr>), Some amf') \<and>
    \<not> MacFailed amf' \<and> shared ue' amf' \<and> unat (ULCount amf') < 2 ^ 24 \<and>
    ULCount amf' = (if new then 0 else UE_ULCount ue) \<and> unat (UE_ULCount ue') = (unat (ULCount amf') + 1) mod 2 ^ 24"
proof -
  let ?t = "SH_SecurityHeaderType h"
  define U where "U = (if new then 0 else UE_ULCount ue)"
  define A where "A = (if new then Count_Set 0 0 (ULCount amf) else ULCount amf)"
  obtain "PlainNasEncode (a\<lparr>Message_SecurityHeader := h\<rparr>) = Inr p" "p \<noteq> []"
    and dec: "\<And>h. PlainNasDecode p (NewMessage\<lparr>Message_SecurityHeader := h\<rparr>) = (Inr (), a\<lparr>Message_SecurityHeader := h\<rparr>)"
    using plain_message_header [OF a(1)] a(2) PlainNasEncode_header by (metis sum.inject(2))
  note enc = this
  have U: "unat U < 2 ^ 24" using n(2) by (simp add: U_def)
  have alg: "CipheringAlg amf \<in> {AlgCiphering128NEA0, AlgCiphering128NEA1, AlgCiphering128NEA2}"
    "IntegrityAlg amf \<in> {AlgIntegrity128NIA1, AlgIntegrity128NIA2}" using s(2) by (simp_all add: implemented_def)
  have B: "Bearer3GPP \<le> 0x1f" "DirectionUplink \<le> 1" by (simp_all add: security_constants)
  obtain q where q: "NASEncrypt c (CipheringAlg amf) (KnasEnc amf) U Bearer3GPP DirectionUplink (Some p) = Inr q"
    using NASEncrypt_ok [OF enc(2) a(3) alg(1) B] by blast
  note undo = NASEncrypt_inverse [OF c a(3) q]
  have len: "Count_SQN U # q \<noteq> []" "length (Count_SQN U # q) < 2 ^ 60" using undo(1) a(3) by simp_all
  obtain mac where mac: "NASMacCalculate c (IntegrityAlg amf) (KnasInt amf) U Bearer3GPP DirectionUplink (Some (Count_SQN U # q)) = Inr (Some mac)"
    "length mac = 4"
    using mac_ok [OF c len alg(2) B] by blast
  let ?bs = "[SH_ProtocolDiscriminator h, ?t] @ mac @ Count_SQN U # q"
  have sent: "NASEncode c (Some ue) (Some (a\<lparr>Message_SecurityHeader := h\<rparr>)) True new =
    (Inr ?bs, Some (ue\<lparr>UE_ULCount := Count_AddOne U, UE_DLCount := (if new then Count_Set 0 0 (UE_DLCount ue) else UE_DLCount ue)\<rparr>))"
    using s(1) enc(1) q mac(1) U by (auto simp: NASEncode_def nas_encode_for_def shared_def bytes_of_slice_def Count_Get_id bind_def U_def)
  have htype: "?t AND 0x0f = ?t" "?t \<noteq> SecurityHeaderTypePlainNas" by (simp_all add: h header_types)
  have step: "advance_count (Count_SQN U) A = U"
    using advance_in_step [OF n(1,3,2)] by (simp add: U_def A_def)
  have switch: "decode_type ?t amf = (Inr True, amf\<lparr>ULCount := A\<rparr>)"
    by (auto simp: decode_type_def h header_types A_def)
  let ?amf = "amf\<lparr>ULCount := U, MacFailed := False\<rparr>"
  let ?msg = "NewMessage\<lparr>Message_SecurityHeader := (Message_SecurityHeader NewMessage)\<lparr>SH_SecurityHeaderType := ?t\<rparr>\<rparr>"
  have "decode_protected c ?bs ?msg amf =
    (Inr (a\<lparr>Message_SecurityHeader := (Message_SecurityHeader NewMessage)\<lparr>SH_SecurityHeaderType := ?t\<rparr>\<rparr>), ?amf)"
    using switch step mac undo(2) U dec by (simp add: decode_protected_def Let_def decode_plain_def wrap_err_def Count_Get_id nth_append)
  then have got: "Decode c accessType (Some ?bs) (Some amf) =
    (Inr (a\<lparr>Message_SecurityHeader := (Message_SecurityHeader NewMessage)\<lparr>SH_SecurityHeaderType := ?t\<rparr>\<rparr>), Some ?amf)"
    using htype by (simp add: Decode_def decode_for_def GetSecurityHeaderType_def Let_def)
  have "unat (Count_AddOne U) = (unat U + 1) mod 2 ^ 24" by (rule unat_AddOne)
  then show ?thesis using sent got s(1) U by (intro exI conjI) (assumption | simp add: shared_def U_def)+
qed

definition sample_amf :: AmfUe where
  "sample_amf = \<lparr>SecurityContextAvailable = True, MacFailed = False, NgKsi_Ksi = 1, KnasInt = [1, 2], KnasEnc = [3], ULCount = 0x1FE,
     DLCount = 7, CipheringAlg = 1, IntegrityAlg = 2, RRCEstablishmentCause = Map.empty(''3GPP_ACCESS'' \<mapsto> ''3'')\<rparr>"

definition sample_ue :: RanUeContext where
  "sample_ue = \<lparr>UE_ULCount = 0x201, UE_DLCount = 7, UE_CipheringAlg = 1, UE_IntegrityAlg = 2, UE_KnasEnc = [3], UE_KnasInt = [1, 2]\<rparr>"

definition sample_header :: SecurityHeader where
  "sample_header = \<lparr>SH_ProtocolDiscriminator = 0x7E, SH_SecurityHeaderType = 2, SH_MessageAuthenticationCode = 0, SH_SequenceNumber = 0\<rparr>"

lemma sample_plain_bytes: "PlainNasEncode sample_plain = Inr [0x7E, 0, 103, 0, 0, 2, 46, 1, 0x25, 3, 2, 110, 54]"
proof -
  have "(103, 9, ULNASTransport) \<in> set gmm_encode_cases" by (simp add: gmm_encode_cases_def MsgTypeULNASTransport_def)
  then have "map_of gmm_encode_cases 103 = Some (9, ULNASTransport)"
    using dispatch_distinct(1) unfolding switches_agree by (simp add: map_of_is_SomeI)
  then have "PlainNasEncode sample_plain = Encode_msg ULNASTransport sample_transport"
    by (simp add: PlainNasEncode_def sample_plain_def NewMessage_def GmmMessageEncode_def encode_body_def)
  then show ?thesis
    by (simp add: Encode_msg_def ULNASTransport_def EncodeULNASTransport_def sample_transport_def sample_dnn_def zero_msg_def nas_type_defs
        zero_ie_def ULNASTransport_layout_def get_ie_def GetIei_def bind_res_def Epd5GSMobilityManagementMessage_def be_bytes_numeral)
qed

lemma reject_decoded: "\<exists>g. PlainNasDecode [0x7E, 0, 95, 24] a = (Inr (), a\<lparr>Message_Gmm := Some g\<rparr>) \<and> GmmHeader g = [0x7E, 0, 95]"
proof -
  have "(95, 26, SecurityModeReject) \<in> set gmm_decode_cases" by (simp add: gmm_decode_cases_def MsgTypeSecurityModeReject_def)
  then have m: "map_of gmm_decode_cases 95 = Some (26, SecurityModeReject)"
    using dispatch_distinct(1) by (simp add: map_of_is_SomeI)
  have "\<exists>m. Decode_msg SecurityModeReject [0x7E, 0, 95, 24] = Inr m"
    by (simp add: SecurityModeReject_def Decode_msg_def DecodeSecurityModeReject_def zero_msg_def nas_type_defs zero_ie_def
      read_into_def upd_ie_def get_ie_def SecurityModeReject_cases_def read_full_def)
  then obtain x where "Decode_msg SecurityModeReject [0x7E, 0, 95, 24] = Inr x" by blast
  then show ?thesis using m
    by (simp add: PlainNasDecode_def GetEPD_def GmmMessageDecode_def read_header_def read_full_def Let_def Epd5GSMobilityManagementMessage_def)
      (rule exI, rule conjI, rule refl, simp)
qed

theorem uplink_roundtrip_witness:
  "\<exists>bs ue' amf'. NASEncode block_crypto (Some sample_ue) (Some (sample_plain\<lparr>Message_SecurityHeader := sample_header\<rparr>)) True False =
      (Inr bs, Some ue') \<and>
    Decode block_crypto ''3GPP_ACCESS'' (Some bs) (Some sample_amf) =
      (Inr (sample_plain\<lparr>Message_SecurityHeader :=
         (Message_SecurityHeader NewMessage)\<lparr>SH_SecurityHeaderType := SH_SecurityHeaderType sample_header\<rparr>\<rparr>), Some amf') \<and>
    \<not> MacFailed amf' \<and> shared ue' amf' \<and> unat (ULCount amf') < 2 ^ 24 \<and>
    ULCount amf' = (if False then 0 else UE_ULCount sample_ue) \<and> unat (UE_ULCount ue') = (unat (ULCount amf') + 1) mod 2 ^ 24"
  by (rule uplink_roundtrip [OF block_crypto_ok sample_plain_ok sample_plain_bytes, where d = 3])
    (simp_all add: sample_header_def sample_ue_def sample_amf_def shared_def implemented_def header_types security_constants)

section \<open>Messages from anywhere\<close>

text \<open>
  C39. A datagram with a security header and at most six octets makes \<^verbatim>\<open>Decode\<close> panic, as does one of fewer than two
  octets; no key is needed to send it.
\<close>

theorem short_protected_panics:
  assumes "length p < 2 \<or> length p \<le> 6 \<and> p ! 1 AND 0x0f \<noteq> SecurityHeaderTypePlainNas"
  shows "fst (Decode c accessType (Some p) (Some ue)) = Inl Panic"
  using assms by (auto simp: Decode_def decode_for_def GetSecurityHeaderType_def decode_protected_def Let_def)

theorem short_protected_panics_witness: "fst (Decode block_crypto ''3GPP_ACCESS'' (Some [0x7E, 2, 0]) (Some sample_amf)) = Inl Panic"
  by (rule short_protected_panics) (simp add: header_types)

lemma decode_unprotected_spec:
  assumes "decode_unprotected accessType p msg ue = (Inr m, ue')"
  shows "ue' = ue\<lparr>MacFailed := False\<rparr>" "PlainNasDecode p msg = (Inr (), m)"
    "SecurityContextAvailable ue \<Longrightarrow> RRCEstablishmentCause ue accessType \<noteq> Some ''0'' \<Longrightarrow>
      \<exists>g. Message_Gmm m = Some g \<and> GmmHeader g ! 2 \<in> set plain_types"
  using assms by (auto simp: decode_unprotected_def decode_plain_def bind_def split: if_splits sum.splits option.splits prod.splits)

text \<open>
  C40. A message that is accepted without protection leaves a state in which the security context counts as valid,
  whether or not the last protected message was verified; with a security context, outside of emergencies, the
  message is of one of seven types.
\<close>

theorem plain_message_counts_as_verified:
  assumes "Decode c accessType (Some p) (Some ue) = (Inr m, Some ue')" "p ! 1 AND 0x0f = SecurityHeaderTypePlainNas"
  shows "SecurityContextIsValid ue' = (SecurityContextAvailable ue \<and> NgKsi_Ksi ue \<noteq> NasKeySetIdentifierNoKeyIsAvailable) \<and>
    (SecurityContextAvailable ue \<longrightarrow> RRCEstablishmentCause ue accessType \<noteq> Some ''0'' \<longrightarrow>
      (\<exists>g. Message_Gmm m = Some g \<and> GmmHeader g ! 2 \<in> set plain_types))"
proof -
  let ?msg = "NewMessage\<lparr>Message_SecurityHeader := (Message_SecurityHeader NewMessage)\<lparr>SH_SecurityHeaderType := p ! 1 AND 0x0f\<rparr>\<rparr>"
  have "decode_unprotected accessType p ?msg ue = (Inr m, ue')"
    using assms by (cases "decode_unprotected accessType p ?msg ue")
      (auto simp: Decode_def decode_for_def GetSecurityHeaderType_def Let_def split: if_splits)
  from decode_unprotected_spec [OF this] show ?thesis by (auto simp: SecurityContextIsValid_def)
qed

definition suspect :: AmfUe where
  "suspect = sample_amf\<lparr>MacFailed := True\<rparr>"

theorem plain_message_counts_as_verified_witness:
  "\<not> SecurityContextIsValid suspect \<and>
   (\<exists>m ue'. Decode block_crypto ''3GPP_ACCESS'' (Some [0x7E, 0, 95, 24]) (Some suspect) = (Inr m, Some ue') \<and> SecurityContextIsValid ue')"
proof -
  let ?msg = "NewMessage\<lparr>Message_SecurityHeader := (Message_SecurityHeader NewMessage)\<lparr>SH_SecurityHeaderType := 0\<rparr>\<rparr>"
  obtain g where g: "PlainNasDecode [0x7E, 0, 95, 24] ?msg = (Inr (), ?msg\<lparr>Message_Gmm := Some g\<rparr>)" "GmmHeader g = [0x7E, 0, 95]"
    using reject_decoded by blast
  then have "Decode block_crypto ''3GPP_ACCESS'' (Some [0x7E, 0, 95, 24]) (Some suspect) =
    (Inr (?msg\<lparr>Message_Gmm := Some g\<rparr>), Some (suspect\<lparr>MacFailed := False\<rparr>))"
    by (simp add: Decode_def decode_for_def GetSecurityHeaderType_def header_types Let_def decode_unprotected_def decode_plain_def
        suspect_def sample_amf_def plain_types_def MsgTypeSecurityModeReject_def)
  from plain_message_counts_as_verified [OF this] this show ?thesis
    by (simp add: header_types SecurityContextIsValid_def suspect_def sample_amf_def NasKeySetIdentifierNoKeyIsAvailable_def)
qed


lemma decode_protected_count:
  assumes "decode_protected c p msg ue = (r, ue')" "length p > 6"
    "SH_SecurityHeaderType (Message_SecurityHeader msg) \<in> {SecurityHeaderTypeIntegrityProtected, SecurityHeaderTypeIntegrityProtectedAndCiphered}"
  shows "ULCount ue' = advance_count (p ! 6) (ULCount ue)"
  using assms by (auto simp: decode_protected_def decode_type_def decode_plain_def bind_def Let_def header_types
      split: if_splits sum.splits prod.splits)

text \<open>
  C19. The uplink counter is moved before the message is verified: any datagram of seven octets with a sequence number
  below the one last received, with any keys, makes the AMF take every later genuine message of the same
  256 counts for one of the next 256, so that its verification uses a wrong counter.
\<close>

theorem forged_message_desynchronises:
  assumes "Decode c accessType (Some p) (Some ue) = (r, Some ue')" "length p > 6"
    "p ! 1 AND 0x0f \<in> {SecurityHeaderTypeIntegrityProtected, SecurityHeaderTypeIntegrityProtectedAndCiphered}"
    "p ! 6 < Count_SQN (ULCount ue)"
    "Count_Overflow u = Count_Overflow (ULCount ue)" "Count_SQN u > p ! 6"
  shows "advance_count (Count_SQN u) (ULCount ue') \<noteq> u"
proof -
  let ?msg = "NewMessage\<lparr>Message_SecurityHeader := (Message_SecurityHeader NewMessage)\<lparr>SH_SecurityHeaderType := p ! 1 AND 0x0f\<rparr>\<rparr>"
  have "decode_protected c p ?msg ue = (r, ue')"
    using assms(1-3) by (cases "decode_protected c p ?msg ue")
      (auto simp: Decode_def decode_for_def GetSecurityHeaderType_def Let_def header_types)
  from decode_protected_count [OF this] have "ULCount ue' = advance_count (p ! 6) (ULCount ue)" using assms(2,3) by simp
  then have "Count_Overflow (advance_count (Count_SQN u) (ULCount ue')) = Count_Overflow u + 1"
    using assms(4-6) by auto
  then show ?thesis by (metis add_cancel_right_right zero_neq_one)
qed

theorem forged_message_desynchronises_witness:
  "\<exists>r ue'. Decode block_crypto ''3GPP_ACCESS'' (Some [0x7E, 2, 0, 0, 0, 0, 3, 9]) (Some sample_amf) = (r, Some ue') \<and>
     advance_count (Count_SQN 0x1FF) (ULCount ue') \<noteq> 0x1FF"
proof -
  obtain r ue' where d: "Decode block_crypto ''3GPP_ACCESS'' (Some [0x7E, 2, 0, 0, 0, 0, 3, 9]) (Some sample_amf) = (r, Some ue')"
    by (cases "decode_for block_crypto ''3GPP_ACCESS'' [0x7E, 2, 0, 0, 0, 0, 3, 9] sample_amf") (simp add: Decode_def)
  have "advance_count (Count_SQN 0x1FF) (ULCount ue') \<noteq> 0x1FF"
    by (rule forged_message_desynchronises [OF d]) (simp_all add: header_types sample_amf_def Count_SQN_def Count_Overflow_def)
  with d show ?thesis by blast
qed

section \<open>The counters of what is sent\<close>

text \<open>The downlink counters that a sequence of calls of \<^verbatim>\<open>Encode\<close> uses for the messages that it protects.\<close>

fun sent_counts :: "crypto \<Rightarrow> Message list \<Rightarrow> AmfUe \<Rightarrow> Count list" where
  "sent_counts c [] ue = []"
| "sent_counts c (msg # msgs) ue =
     (case encode_for c msg ue of
        (Inl _, ue') \<Rightarrow> sent_counts c msgs ue'
      | (Inr _, ue') \<Rightarrow> Count_Get (DLCount ue) # sent_counts c msgs ue')"

lemma Count_Get_twice: "Count_Get (Count_Get n) = Count_Get n"
  by (rule Count_Get_id) (rule Count_Get_bound)

lemma Count_Get_AddOne: "Count_Get (Count_AddOne n) = Count_AddOne n"
  by (simp add: Count_Get_id unat_AddOne)

lemma encode_for_count:
  assumes "SecurityContextAvailable ue" "encode_for c msg ue = (r, ue')"
    "SH_SecurityHeaderType (Message_SecurityHeader msg) \<noteq> SecurityHeaderTypeIntegrityProtectedWithNew5gNasSecurityContext"
  shows "SecurityContextAvailable ue'"
    "unat (Count_Get (DLCount ue')) = (if isl r then unat (Count_Get (DLCount ue)) else (unat (Count_Get (DLCount ue)) + 1) mod 2 ^ 24)"
  using assms by (cases r; auto simp: encode_for_def encode_type_def bind_def Let_def Count_Get_twice Count_Get_AddOne unat_AddOne
      split: if_splits sum.splits prod.splits)+

lemma sent_counts_consecutive:
  assumes "SecurityContextAvailable ue"
    "\<forall>msg \<in> set msgs. SH_SecurityHeaderType (Message_SecurityHeader msg) \<noteq> SecurityHeaderTypeIntegrityProtectedWithNew5gNasSecurityContext"
  shows "map unat (sent_counts c msgs ue) =
    map (\<lambda>i. (unat (Count_Get (DLCount ue)) + i) mod 2 ^ 24) [0..<length (sent_counts c msgs ue)] \<and>
    length (sent_counts c msgs ue) \<le> length msgs"
  using assms
proof (induction msgs arbitrary: ue)
  case (Cons msg msgs)
  obtain r ue' where e: "encode_for c msg ue = (r, ue')" by fastforce
  note step = encode_for_count [OF Cons.prems(1) e]
  show ?case
  proof (cases r)
    case (Inl a)
    then show ?thesis using Cons.IH [of ue'] Cons.prems step e by simp
  next
    case (Inr a)
    then show ?thesis using Cons.IH [of ue'] Cons.prems step e Count_Get_bound [of "DLCount ue"]
      by (simp add: upt_conv_Cons map_Suc_upt [symmetric] mod_simps del: upt_Suc)
  qed
qed simp



end
