(* ===== verification/APER_Bits.thy ===== *)
theory APER_Bits
  imports Go_State
begin

text \<open>
  Bit strings of the aligned PER codec (\<^verbatim>\<open>lib/aper\<close>). Octets are read from their most significant bit on:
  \<open>bits_of\<close> is the bit string of a slice and \<open>bytes_of\<close> its inverse. The two exported functions that cut
  bits out of a slice, \<^verbatim>\<open>GetBitString\<close> and \<^verbatim>\<open>GetBitsValue\<close>, are shown to take the bits that
  their names promise. Sizes and offsets are natural numbers: they stay far below the limits of \<^verbatim>\<open>uint\<close>,
  and where the code subtracts with wrap-around the model says so.
\<close>

unbundle bit_operations_syntax

section \<open>Octets and bits\<close>

definition byte_bits :: "u8 \<Rightarrow> bool list" where
  "byte_bits b = map (\<lambda>i. bit b (7 - i)) [0..<8]"

definition bits_of :: "bytes \<Rightarrow> bool list" where
  "bits_of bs = concat (map byte_bits bs)"

definition of_bits :: "bool list \<Rightarrow> 'a::len word" where
  "of_bits bs = foldl (\<lambda>v b. push_bit 1 v OR of_bool b) 0 bs"

definition to_bits :: "nat \<Rightarrow> 'a::len word \<Rightarrow> bool list" where
  "to_bits n v = map (\<lambda>i. bit v (n - 1 - i)) [0..<n]"

fun bytes_of :: "bool list \<Rightarrow> bytes" where
  "bytes_of [] = []"
| "bytes_of (b # bs) = of_bits (take 8 (b # bs)) # bytes_of (drop 8 (b # bs))"

lemma length_byte_bits [simp]: "length (byte_bits b) = 8"
  by (simp add: byte_bits_def)

lemma nth_byte_bits [simp]: "i < 8 \<Longrightarrow> byte_bits b ! i = bit b (7 - i)"
  by (simp add: byte_bits_def)

lemma bits_of_simps [simp]:
  "bits_of [] = []"
  "bits_of (b # bs) = byte_bits b @ bits_of bs"
  "bits_of (bs @ cs) = bits_of bs @ bits_of cs"
  by (simp_all add: bits_of_def)

lemma length_bits_of [simp]: "length (bits_of bs) = 8 * length bs"
  by (induction bs) simp_all

lemma length_to_bits [simp]: "length (to_bits n v) = n"
  by (simp add: to_bits_def)

lemma of_bits_snoc: "of_bits (bs @ [b]) = 2 * of_bits bs OR of_bool b"
  by (simp add: of_bits_def mult.commute)

lemma bit_of_bits:
  "bit (of_bits bs :: 'a::len word) k \<longleftrightarrow> k < length bs \<and> k < LENGTH('a) \<and> bs ! (length bs - 1 - k)"
proof (induction bs arbitrary: k rule: rev_induct)
  case Nil
  then show ?case by (simp add: of_bits_def)
next
  case (snoc b bs)
  have "bit (of_bits (bs @ [b]) :: 'a word) k \<longleftrightarrow>
      (bit (of_bits bs :: 'a word) (k - 1) \<and> k \<noteq> 0 \<and> k < LENGTH('a)) \<or> (b \<and> k = 0)"
    by (auto simp: of_bits_snoc bit_or_iff bit_double_iff bit_of_bool_iff possible_bit_def)
  also have "\<dots> \<longleftrightarrow> k < length (bs @ [b]) \<and> k < LENGTH('a) \<and> (bs @ [b]) ! (length (bs @ [b]) - 1 - k)"
    unfolding snoc by (cases k) (auto simp: nth_append)
  finally show ?case .
qed

lemma of_bits_to_bits [simp]: "of_bits (to_bits n v) = take_bit n v"
  by (rule bit_eqI) (auto simp: bit_of_bits bit_take_bit_iff to_bits_def possible_bit_def)

lemma of_bits_append: "of_bits (bs @ cs) = push_bit (length cs) (of_bits bs) OR (of_bits cs :: 'a::len word)"
  by (rule bit_eqI) (auto simp: bit_of_bits bit_or_iff bit_push_bit_iff nth_append possible_bit_def)

lemma of_bits_byte_bits: "of_bits (byte_bits b) = (ucast b :: 'a::len word)"
proof (rule bit_eqI)
  fix n
  have "n \<le> 7" if "bit b n" using bit_imp_le_length [OF that] by simp
  then show "bit (of_bits (byte_bits b) :: 'a word) n = bit (ucast b :: 'a word) n"
    by (auto simp: bit_of_bits byte_bits_def bit_ucast_iff possible_bit_def)
qed

lemma byte_bits_of_bits: "length bs = 8 \<Longrightarrow> byte_bits (of_bits bs) = bs"
  by (rule nth_equalityI) (auto simp: byte_bits_def bit_of_bits)

lemma bits_of_bytes_of: "length bs mod 8 = 0 \<Longrightarrow> bits_of (bytes_of bs) = bs"
proof (induction bs rule: bytes_of.induct)
  case (2 b bs)
  then have len: "8 \<le> length (b # bs)" by (metis length_0_conv list.distinct(1) mod_less not_less)
  then have "length (drop 8 (b # bs)) mod 8 = 0" using 2(2) by (simp add: le_mod_geq)
  with 2(1) have "bits_of (bytes_of (drop 8 (b # bs))) = drop 8 (b # bs)" .
  then show ?case using len by (simp only: bytes_of.simps bits_of_simps) (simp add: byte_bits_of_bits)
qed simp

lemma byte_bits_inj: "byte_bits a = byte_bits b \<Longrightarrow> a = b"
  by (metis of_bits_byte_bits ucast_id)

lemma bits_of_inj: "bits_of xs = bits_of ys \<Longrightarrow> xs = ys"
proof (induction xs arbitrary: ys)
  case Nil
  then show ?case by (cases ys) (auto simp: byte_bits_def)
next
  case (Cons x xs)
  from Cons.prems have "ys \<noteq> []" by (metis bits_of_simps(1) length_0_conv length_bits_of list.distinct(1) mult_is_0 zero_neq_numeral)
  then obtain y zs where ys: "ys = y # zs" by (cases ys) auto
  with Cons.prems have "byte_bits x = byte_bits y" "bits_of xs = bits_of zs" by simp_all
  then show ?case using Cons.IH byte_bits_inj ys by blast
qed

lemma bytes_of_bits_of [simp]: "bytes_of (bits_of bs) = bs"
  by (rule bits_of_inj) (simp add: bits_of_bytes_of)

lemma bits_of_take: "bits_of (take n bs) = take (8 * n) (bits_of bs)"
  by (induction bs arbitrary: n) (auto simp: take_Cons' take_append split: nat.split, (metis Suc_pred add_diff_cancel_left' mult_Suc_right)?)

lemma bits_of_drop: "bits_of (drop n bs) = drop (8 * n) (bits_of bs)"
proof (induction bs arbitrary: n)
  case (Cons b bs)
  then show ?case by (cases n) (simp_all add: drop_append)
qed simp

lemma nth_bits_of: "i < 8 * length bs \<Longrightarrow> bits_of bs ! i = bit (bs ! (i div 8)) (7 - i mod 8)"
proof (induction bs arbitrary: i)
  case (Cons b bs)
  show ?case
  proof (cases "i < 8")
    case True
    then show ?thesis by (simp add: nth_append byte_bits_def)
  next
    case False
    then have "i - 8 < 8 * length bs" using Cons.prems by simp
    with Cons.IH have "bits_of bs ! (i - 8) = bit (bs ! ((i - 8) div 8)) (7 - (i - 8) mod 8)" .
    with False show ?thesis by (simp add: nth_append le_div_geq le_mod_geq)
  qed
qed simp

section \<open>Bits of a slice\<close>

definition idx :: "'a list \<Rightarrow> nat \<Rightarrow> 'a res" where
  "idx xs i = (if i < length xs then Inr (xs ! i) else Inl Panic)"

definition set_idx :: "'a list \<Rightarrow> nat \<Rightarrow> 'a \<Rightarrow> 'a list res" where
  "set_idx xs i x = (if i < length xs then Inr (xs[i := x]) else Inl Panic)"

text \<open>\<^verbatim>\<open>x >> (8 - k)\<close> where the subtraction is one of \<^verbatim>\<open>uint\<close>: for \<open>k > 8\<close> all bits are shifted out.\<close>

definition shr8 :: "u8 \<Rightarrow> nat \<Rightarrow> u8" where
  "shr8 x k = (if k \<le> 8 then drop_bit (8 - k) x else 0)"

text \<open>The loop of \<^verbatim>\<open>GetBitString\<close> over the given indices.\<close>

primrec shift_loop :: "bytes \<Rightarrow> nat \<Rightarrow> nat list \<Rightarrow> bytes \<Rightarrow> bytes res" where
  "shift_loop srcBytes bitsOffset [] dstBytes = Inr dstBytes"
| "shift_loop srcBytes bitsOffset (i # ks) dstBytes =
     bind_res (idx srcBytes (i - 1)) (\<lambda>a.
     bind_res (idx srcBytes i) (\<lambda>b.
     bind_res (set_idx dstBytes (i - 1) (push_bit bitsOffset a OR shr8 b bitsOffset)) (\<lambda>dst.
     shift_loop srcBytes bitsOffset ks dst)))"

text \<open>
  \<^verbatim>\<open>GetBitString\<close>. The number of bits that are left is a difference of \<^verbatim>\<open>uint\<close>, which wraps around when
  the offset ks behind the end; zero bits make the last two assignments panic.
\<close>

definition GetBitString :: "bytes \<Rightarrow> nat \<Rightarrow> nat \<Rightarrow> bytes res" where
  "GetBitString srcBytes bitsOffset numBits =
     (if bitsOffset \<le> 8 * length srcBytes \<and> 8 * length srcBytes - bitsOffset < numBits
      then Inl (Err ''Get bits overflow'')
      else
        let byteLen = (bitsOffset + numBits + 7) div 8;
            numBitsByteLen = (numBits + 7) div 8;
            numBitsMask = (if numBits mod 8 \<noteq> 0 then push_bit (8 - numBits mod 8) 255 else 255)
        in bind_res (shift_loop srcBytes bitsOffset [1..<byteLen] (replicate numBitsByteLen 0)) (\<lambda>dst.
           bind_res (if byteLen = numBitsByteLen
                     then if byteLen = 0 then Inl Panic
                          else bind_res (idx srcBytes (byteLen - 1)) (\<lambda>a. set_idx dst (byteLen - 1) (push_bit bitsOffset a))
                     else Inr dst) (\<lambda>dst.
           if numBitsByteLen = 0 then Inl Panic
           else bind_res (idx dst (numBitsByteLen - 1)) (\<lambda>x. set_idx dst (numBitsByteLen - 1) (x AND numBitsMask)))))"

text \<open>\<^verbatim>\<open>GetBitsValue\<close>: the whole octets of the bit string, then the bits that remain.\<close>

definition GetBitsValue :: "bytes \<Rightarrow> nat \<Rightarrow> nat \<Rightarrow> u64 res" where
  "GetBitsValue srcBytes bitsOffset numBits =
     bind_res (GetBitString srcBytes bitsOffset numBits) (\<lambda>dstBytes.
       let value = foldl (\<lambda>v b. push_bit 8 v OR ucast b) 0 (take (numBits div 8) dstBytes);
           numBitsOff = numBits mod 8
       in if numBitsOff \<noteq> 0
          then bind_res (if dstBytes = [] then Inl Panic else Inr (last dstBytes)) (\<lambda>x.
            Inr (push_bit numBitsOff value OR (ucast (drop_bit (8 - numBitsOff) x) AND mask numBitsOff)))
          else Inr value)"

lemma shift_loop_ok:
  assumes "\<forall>i \<in> set ks. 1 \<le> i \<and> i < length src \<and> i \<le> length dst" "off < 8"
  shows "\<exists>d. shift_loop src off ks dst = Inr d \<and> length d = length dst \<and>
    (\<forall>k < length dst. d ! k = (if Suc k \<in> set ks then push_bit off (src ! k) OR drop_bit (8 - off) (src ! Suc k) else dst ! k))"
  using assms
proof (induction "ks" arbitrary: dst)
  case (Cons i ks)
  let ?x = "push_bit off (src ! (i - 1)) OR drop_bit (8 - off) (src ! i)"
  obtain d where d: "shift_loop src off ks (dst[i - 1 := ?x]) = Inr d" "length d = length dst"
    "\<forall>k < length dst. d ! k = (if Suc k \<in> set ks then push_bit off (src ! k) OR drop_bit (8 - off) (src ! Suc k) else dst[i - 1 := ?x] ! k)"
    using Cons.IH [of "dst[i - 1 := ?x]"] Cons.prems by auto
  have "shift_loop src off (i # ks) dst = Inr d"
    using Cons.prems d(1) by (auto simp: idx_def set_idx_def shr8_def)
  moreover have "d ! k = (if Suc k \<in> set (i # ks) then push_bit off (src ! k) OR drop_bit (8 - off) (src ! Suc k) else dst ! k)"
    if "k < length dst" for k
    using d(3) that Cons.prems by (cases "Suc k = i") auto
  ultimately show ?case using d(2) by blast
qed simp

lemma ceil8: "n \<le> 8 * ((n + 7) div 8)" "8 * ((n + 7) div 8) \<le> n + 7" for n :: nat
  by presburger+

lemma divmod8:
  fixes x k r :: nat
  shows "x = r + 8 * k \<Longrightarrow> r < 8 \<Longrightarrow> x div 8 = k \<and> x mod 8 = r"
  by simp

lemma ceil8_div: "(n + 7) div 8 = (if n mod 8 = 0 then n div 8 else Suc (n div 8))" for n :: nat
proof (cases "n mod 8 = 0")
  case True
  then show ?thesis using divmod8 [of "n + 7" 7 "n div 8"] mult_div_mod_eq [of 8 n] by simp
next
  case False
  then have "n + 7 = (n mod 8 - 1) + 8 * Suc (n div 8)" "n mod 8 - 1 < 8" using mult_div_mod_eq [of 8 n] by simp_all
  then show ?thesis using divmod8 [of "n + 7" "n mod 8 - 1" "Suc (n div 8)"] False by simp
qed

lemma bit_mask_last:
  "r < 8 \<Longrightarrow> bit (if n mod 8 \<noteq> 0 then push_bit (8 - n mod 8) 255 else 255 :: u8) (7 - r) \<longleftrightarrow> n mod 8 = 0 \<or> r < n mod 8"
proof -
  have m: "(255 :: u8) = mask 8" by (simp add: mask_eq_exp_minus_1)
  assume "r < 8"
  then show ?thesis by (auto simp: m bit_push_bit_iff bit_mask_iff possible_bit_def)
qed

lemma last_octet:
  fixes n i :: nat
  assumes "0 < n"
  shows "i div 8 = (n + 7) div 8 - 1 \<Longrightarrow> (n mod 8 = 0 \<or> i mod 8 < n mod 8) \<longleftrightarrow> i < n"
    "i div 8 < (n + 7) div 8 \<Longrightarrow> i div 8 \<noteq> (n + 7) div 8 - 1 \<Longrightarrow> i < n"
proof -
  have n: "n = 8 * (n div 8) + n mod 8" "i = 8 * (i div 8) + i mod 8" "n mod 8 < 8" "i mod 8 < 8" by simp_all
  note c = ceil8_div [of n]
  show "(n mod 8 = 0 \<or> i mod 8 < n mod 8) \<longleftrightarrow> i < n" if "i div 8 = (n + 7) div 8 - 1"
  proof (cases "n mod 8 = 0")
    case True
    then show ?thesis using n that c assms by simp linarith
  next
    case False
    then have "i div 8 = n div 8" using that c by simp
    then show ?thesis using False n by linarith
  qed
  show "i < n" if "i div 8 < (n + 7) div 8" "i div 8 \<noteq> (n + 7) div 8 - 1"
  proof -
    have "i div 8 < n div 8" using that c by (auto split: if_splits)
    then show ?thesis using n by linarith
  qed
qed

text \<open>The octets of the result, before the mask.\<close>

lemma bit_shifted:
  fixes src :: bytes
  assumes "off < 8" "r < 8" "Suc k < length src"
  shows "bit (push_bit off (src ! k) OR drop_bit (8 - off) (src ! Suc k)) (7 - r) = bits_of src ! (off + (8 * k + r))"
proof (cases "r + off < 8")
  case True
  then have "(off + (8 * k + r)) div 8 = k" "(off + (8 * k + r)) mod 8 = r + off"
    using divmod8 [of "off + (8 * k + r)" "r + off" k] by simp_all
  moreover have "\<not> bit (src ! Suc k) (8 - off + (7 - r))" using True bit_imp_le_length [of "src ! Suc k" "8 - off + (7 - r)"] by auto
  ultimately show ?thesis using assms True
    by (auto simp: nth_bits_of bit_or_iff bit_push_bit_iff bit_drop_bit_eq possible_bit_def algebra_simps)
next
  case False
  then have "(off + (8 * k + r)) div 8 = Suc k" "(off + (8 * k + r)) mod 8 = r + off - 8"
    using divmod8 [of "off + (8 * k + r)" "r + off - 8" "Suc k"] assms by simp_all
  moreover have "7 - (r + off - 8) = 8 - off + (7 - r)" using False assms by simp
  moreover have "\<not> off \<le> 7 - r" using False assms by simp
  ultimately show ?thesis using assms
    by (simp add: nth_bits_of bit_or_iff bit_push_bit_iff bit_drop_bit_eq possible_bit_def)
qed

lemma bit_shifted_last:
  fixes src :: bytes
  assumes "off < 8" "r < 8" "k < length src" "r + off < 8"
  shows "bit (push_bit off (src ! k)) (7 - r) = bits_of src ! (off + (8 * k + r))"
proof -
  have "(off + (8 * k + r)) div 8 = k" "(off + (8 * k + r)) mod 8 = r + off"
    using assms divmod8 [of "off + (8 * k + r)" "r + off" k] by simp_all
  then show ?thesis using assms by (auto simp: nth_bits_of bit_push_bit_iff possible_bit_def algebra_simps)
qed

lemma GetBitString_bits:
  assumes "off < 8" "0 < n" "off + n \<le> 8 * length src"
  shows "\<exists>d. GetBitString src off n = Inr d \<and> length d = (n + 7) div 8 \<and>
    (\<forall>i < 8 * length d. bits_of d ! i \<longleftrightarrow> i < n \<and> bits_of src ! (off + i))"
proof -
  let ?B = "(off + n + 7) div 8" and ?N = "(n + 7) div 8" and ?M = "if n mod 8 \<noteq> 0 then push_bit (8 - n mod 8) 255 else 255 :: u8"
  note c = ceil8 [of "off + n"] ceil8 [of n]
  have B: "?B \<le> length src" "0 < ?N" "?N \<le> ?B" "?B \<le> Suc ?N" using assms c by linarith+
  obtain d where d: "shift_loop src off [1..<?B] (replicate ?N 0) = Inr d" "length d = ?N"
    "\<forall>k < ?N. Suc k < ?B \<longrightarrow> d ! k = push_bit off (src ! k) OR drop_bit (8 - off) (src ! Suc k)"
    using shift_loop_ok [of "[1..<?B]" src "replicate ?N 0" off] B assms(1) by auto
  let ?e = "if ?B = ?N then d[?N - 1 := push_bit off (src ! (?N - 1))] else d"
  let ?f = "?e[?N - 1 := ?e ! (?N - 1) AND ?M]"
  have run: "GetBitString src off n = Inr ?f"
    using assms B d(1,2) by (auto simp: GetBitString_def Let_def idx_def set_idx_def)
  have "bits_of ?f ! i \<longleftrightarrow> i < n \<and> bits_of src ! (off + i)" if i: "i < 8 * ?N" for i
  proof -
    let ?k = "i div 8" and ?r = "i mod 8"
    have k: "?k < ?N" "?r < 8" "8 * ?k + ?r = i" using i by auto
    have e: "bit (?e ! ?k) (7 - ?r) \<longleftrightarrow> bits_of src ! (off + i)" if "i < n"
    proof (cases "Suc ?k < ?B")
      case True
      then have "?e ! ?k = d ! ?k" using k(1) by auto
      then show ?thesis using bit_shifted [of off ?r ?k src] True d(3) k B(1) assms(1) by auto
    next
      case False
      then have "?B = ?N" "?k = ?N - 1" using k(1) B by linarith+
      moreover have "?r + off < 8" using calculation that k(3) c by linarith
      ultimately show ?thesis using bit_shifted_last [of off ?r ?k src] k B assms(1) d(2) by auto
    qed
    have m: "?k = ?N - 1 \<Longrightarrow> (n mod 8 = 0 \<or> ?r < n mod 8) \<longleftrightarrow> i < n" "?k \<noteq> ?N - 1 \<Longrightarrow> i < n"
      using last_octet [OF assms(2), of i] k c by auto
    have "bits_of ?f ! i = bit (?f ! ?k) (7 - ?r)" using i d(2) by (subst nth_bits_of) auto
    also have "\<dots> \<longleftrightarrow> i < n \<and> bit (?e ! ?k) (7 - ?r)"
    proof (cases "?k = ?N - 1")
      case True
      have "length ?e = ?N" using d(2) by simp
      then have "?f ! ?k = ?e ! ?k AND ?M" using True k(1) by (simp only: nth_list_update_eq)
      then show ?thesis unfolding bit_mask_last [OF k(2), of n, symmetric] using m(1) [OF True] bit_mask_last [OF k(2), of n]
        by (simp only: bit_and_iff) blast
    next
      case False
      have "i < n" by (rule m(2)) (use False in simp)
      moreover have "?f ! ?k = ?e ! ?k" using False by (subst nth_list_update_neq) auto
      ultimately show ?thesis by simp
    qed
    finally show ?thesis using e by blast
  qed
  moreover have "length ?f = ?N" using d(2) by simp
  ultimately show ?thesis using run by metis
qed

text \<open>
  \<^verbatim>\<open>GetBitString\<close> returns the bits behind the offset, padded with zeros to whole octets.
\<close>

definition pad_len :: "nat \<Rightarrow> nat" where
  "pad_len n = (8 - n mod 8) mod 8"

lemma pad_len_ceil: "n + pad_len n = 8 * ((n + 7) div 8)"
proof (cases "n mod 8 = 0")
  case False
  have "n = 8 * (n div 8) + n mod 8" "(n + 7) div 8 = Suc (n div 8)" using False by (simp_all add: ceil8_div)
  moreover have "n mod 8 < 8" by simp
  moreover have "pad_len n = 8 - n mod 8" using False by (simp add: pad_len_def)
  ultimately show ?thesis by linarith
qed (use mult_div_mod_eq [of 8 n] in \<open>auto simp: pad_len_def\<close>)

lemma GetBitString_ok:
  assumes "bits_of src = bs @ ns @ rest" "length bs < 8" "ns \<noteq> []"
  shows "GetBitString src (length bs) (length ns) = Inr (bytes_of (ns @ replicate (pad_len (length ns)) False))"
proof -
  have len: "8 * length src = length bs + length ns + length rest" using arg_cong [OF assms(1), of length] by simp
  then obtain d where d: "GetBitString src (length bs) (length ns) = Inr d" "length d = (length ns + 7) div 8"
    "\<forall>i < 8 * length d. bits_of d ! i \<longleftrightarrow> i < length ns \<and> bits_of src ! (length bs + i)"
    using GetBitString_bits [OF assms(2), of "length ns" src] assms(3) by auto
  have p: "length ns + pad_len (length ns) = 8 * length d" unfolding d(2) by (rule pad_len_ceil)
  have "bits_of d = ns @ replicate (pad_len (length ns)) False"
    by (rule nth_equalityI) (use d(3) p assms(1) in \<open>auto simp: nth_append\<close>)
  then show ?thesis using d(1) by (metis bytes_of_bits_of)
qed

lemma GetBitString_short:
  "length bs < 8 \<Longrightarrow> bits_of src = bs @ rest \<Longrightarrow> length rest < n \<Longrightarrow> GetBitString src (length bs) n = Inl (Err ''Get bits overflow'')"
  by (drule arg_cong [of _ _ length]) (auto simp: GetBitString_def)

lemma foldl_bytes: "foldl (\<lambda>v b. push_bit 8 v OR ucast b) (0 :: 'a::len word) ds = of_bits (bits_of ds)"
proof (induction ds rule: rev_induct)
  case Nil
  then show ?case by (simp add: of_bits_def)
next
  case (snoc d ds)
  then show ?case by (simp add: of_bits_append of_bits_byte_bits)
qed

lemma of_bits_take_byte:
  assumes "0 < r" "r < 8"
  shows "(ucast (drop_bit (8 - r) (b :: u8)) AND mask r) = (of_bits (take r (byte_bits b)) :: 'a::len word)"
proof (rule bit_eqI)
  fix k
  have "7 - (r - 1 - k) = 8 - r + k" if "k < r" using that assms by simp
  then have "take r (byte_bits b) ! (r - 1 - k) = bit b (8 - r + k)" if "k < r" using that assms by simp
  then show "bit (ucast (drop_bit (8 - r) b) AND mask r :: 'a word) k = bit (of_bits (take r (byte_bits b)) :: 'a word) k"
    using assms by (auto simp: bit_and_iff bit_ucast_iff bit_drop_bit_eq bit_mask_iff bit_of_bits possible_bit_def)
qed

text \<open>The number that the loop of \<^verbatim>\<open>GetBitsValue\<close> reads from padded octets.\<close>

lemma octets_value:
  assumes bits: "bits_of d = ns @ replicate (pad_len (length ns)) False" and r: "length ns mod 8 \<noteq> 0"
  shows "d \<noteq> []" "push_bit (length ns mod 8) (of_bits (bits_of (take (length ns div 8) d)))
    OR of_bits (take (length ns mod 8) (byte_bits (last d))) = (of_bits ns :: 'a::len word)"
proof -
  let ?q = "length ns div 8" and ?r = "length ns mod 8"
  have "8 * length d = 8 * ((length ns + 7) div 8)" using arg_cong [OF bits, of length] by (simp add: pad_len_ceil)
  moreover have "(length ns + 7) div 8 = Suc ?q" using r by (simp add: ceil8_div)
  ultimately have len: "length d = Suc ?q" by simp
  then show ne: "d \<noteq> []" by auto
  have "drop ?q d = [last d]" using ne len by (metis append_butlast_last_id append_eq_conv_conj diff_Suc_1 length_butlast)
  then have "byte_bits (last d) = drop (8 * ?q) (ns @ replicate (pad_len (length ns)) False)"
    using bits_of_drop [of ?q d] bits by simp
  then have l: "take ?r (byte_bits (last d)) = drop (8 * ?q) ns"
    by (simp add: minus_mult_div_eq_mod)
  have t: "bits_of (take ?q d) = take (8 * ?q) ns" by (simp add: bits_of_take bits)
  have "push_bit ?r (of_bits (bits_of (take ?q d))) OR of_bits (take ?r (byte_bits (last d))) =
    (of_bits (take (8 * ?q) ns @ drop (8 * ?q) ns) :: 'a word)"
    unfolding of_bits_append t l by (simp add: minus_mult_div_eq_mod)
  then show "push_bit ?r (of_bits (bits_of (take ?q d))) OR of_bits (take ?r (byte_bits (last d))) = (of_bits ns :: 'a word)"
    by simp
qed

lemma octets_value_aligned:
  assumes "bits_of d = ns @ replicate (pad_len (length ns)) False" "length ns mod 8 = 0"
  shows "bits_of (take (length ns div 8) d) = ns"
  using assms mult_div_mod_eq [of 8 "length ns"] by (simp add: bits_of_take)

text \<open>\<^verbatim>\<open>GetBitsValue\<close> returns the number whose binary digits these bits are.\<close>

lemma GetBitsValue_ok:
  assumes "bits_of src = bs @ ns @ rest" "length bs < 8" "ns \<noteq> []"
  shows "GetBitsValue src (length bs) (length ns) = Inr (of_bits ns)"
proof -
  define d where "d = bytes_of (ns @ replicate (pad_len (length ns)) False)"
  have bits: "bits_of d = ns @ replicate (pad_len (length ns)) False"
    unfolding d_def by (rule bits_of_bytes_of) (simp add: pad_len_ceil)
  have run: "GetBitString src (length bs) (length ns) = Inr d" using GetBitString_ok [OF assms] by (simp add: d_def)
  show ?thesis
  proof (cases "length ns mod 8 = 0")
    case True
    then show ?thesis using octets_value_aligned [OF bits] by (simp add: GetBitsValue_def run foldl_bytes)
  next
    case False
    then show ?thesis using octets_value [OF bits False] of_bits_take_byte [of "length ns mod 8" "last d", where 'a = 64]
      by (simp add: GetBitsValue_def run foldl_bytes Let_def)
  qed
qed

lemma GetBitsValue_short:
  "length bs < 8 \<Longrightarrow> bits_of src = bs @ rest \<Longrightarrow> length rest < n \<Longrightarrow> GetBitsValue src (length bs) n = Inl (Err ''Get bits overflow'')"
  by (simp add: GetBitsValue_def GetBitString_short)

end
