(* ===== verification/APER_Writer.thy ===== *)
theory APER_Writer
  imports APER_Bits
begin

text \<open>
  The encoder of \<^verbatim>\<open>lib/aper/marshal.go\<close> up to the encoding of single values: the buffer \<^verbatim>\<open>perRawBitData\<close>, to
  which bits are appended, and the encodings of lengths, constrained numbers, bit and octet strings,
  integers, enumerations and choice indices. \<open>wr bs\<close> is the buffer in which exactly the bits \<open>bs\<close> have been
  written; the lemmas say which bits an operation appends. Trace and log messages are left out.
\<close>

section \<open>The buffer\<close>

record perRawBitData =
  raw_bytes :: bytes
  raw_off :: nat

type_synonym 'a writer = "(perRawBitData, 'a) go"

text \<open>\<^verbatim>\<open>int64\<close> arithmetic wraps around.\<close>

definition int64 :: "int \<Rightarrow> int" where
  "int64 x = (x + 2 ^ 63) mod 2 ^ 64 - 2 ^ 63"

definition appendAlignBits :: "unit writer" where
  "appendAlignBits = modify (\<lambda>pd. pd\<lparr>raw_off := 0\<rparr>)"

definition append_bytes :: "bytes \<Rightarrow> unit writer" where
  "append_bytes bs = modify (\<lambda>pd. pd\<lparr>raw_bytes := raw_bytes pd @ bs\<rparr>)"

text \<open>\<^verbatim>\<open>pd.bytes[i] |= b\<close> for the last octet.\<close>

definition or_last :: "u8 \<Rightarrow> unit writer" where
  "or_last b = (\<lambda>pd. if raw_bytes pd = [] then (Inl Panic, pd)
     else (Inr (), pd\<lparr>raw_bytes := butlast (raw_bytes pd) @ [last (raw_bytes pd) OR b]\<rparr>))"

definition putBitString :: "bytes \<Rightarrow> nat \<Rightarrow> unit writer" where
  "putBitString bytes numBits =
     bind (if length bytes < (numBits + 7) div 8 then fail Panic else ret (take ((numBits + 7) div 8) bytes)) (\<lambda>bytes.
     bind (gets raw_off) (\<lambda>off.
     if off = 0 then
       bind (append_bytes bytes) (\<lambda>_. modify (\<lambda>pd. pd\<lparr>raw_off := numBits mod 8\<rparr>))
     else
       bind (if numBits \<le> 8 - off then
               bind (lift_res (\<lambda>_. idx bytes 0)) (\<lambda>b. or_last (drop_bit off b))
             else
               bind (lift_res (\<lambda>_. GetBitString (0 # bytes) (8 - off) (off + numBits))) (\<lambda>shiftBytes.
               bind (lift_res (\<lambda>_. idx shiftBytes 0)) (\<lambda>b.
               bind (or_last b) (\<lambda>_.
               append_bytes (drop 1 shiftBytes))))) (\<lambda>_.
       modify (\<lambda>pd. pd\<lparr>raw_off := (numBits mod 8 + raw_off pd) mod 8\<rparr>))))"

text \<open>The loop of \<^verbatim>\<open>putBitsValue\<close> over the octets before the last one, from the right.\<close>

primrec fill_bytes :: "nat \<Rightarrow> u64 \<Rightarrow> bytes \<Rightarrow> bytes res" where
  "fill_bytes 0 value tempBytes = (if value = 0 then Inr tempBytes else Inl (Err ''Bits Value is over capacity''))"
| "fill_bytes (Suc i) value tempBytes =
     (if value = 0 then Inr tempBytes else fill_bytes i (drop_bit 8 value) (tempBytes[i := ucast value]))"

definition putBitsValue :: "u64 \<Rightarrow> nat \<Rightarrow> unit writer" where
  "putBitsValue value numBits =
     (if numBits = 0 then ret ()
      else
        let Byteslen = (numBits + 7) div 8;
            bitOff = (if numBits mod 8 = 0 then 8 else numBits mod 8);
            tempBytes = (replicate Byteslen 0)[Byteslen - 1 := ucast (push_bit (8 - bitOff) value)]
        in bind (lift_res (\<lambda>_. fill_bytes (Byteslen - 1) (drop_bit bitOff value) tempBytes)) (\<lambda>tempBytes.
           putBitString tempBytes numBits))"

text \<open>The loop that finds the number of bits for a range: the first of 1 to 8 whose power of two is enough.\<close>

definition range_bits :: "int \<Rightarrow> nat" where
  "range_bits valueRange = (case filter (\<lambda>i. valueRange \<le> 2 ^ i) [1..<9] of [] \<Rightarrow> 9 | i # _ \<Rightarrow> i)"

definition appendConstraintValue :: "int \<Rightarrow> u64 \<Rightarrow> unit writer" where
  "appendConstraintValue valueRange value =
     (if valueRange \<le> 255 then
        if valueRange < 0 then fail (Err ''Value range is negative'')
        else putBitsValue value (range_bits valueRange)
      else if valueRange = 256 then bind appendAlignBits (\<lambda>_. putBitsValue value 8)
      else if valueRange \<le> 65536 then bind appendAlignBits (\<lambda>_. putBitsValue value 16)
      else fail (Err ''Constraint Value is large than 65536''))"

definition appendLength :: "int \<Rightarrow> nat \<Rightarrow> unit writer" where
  "appendLength sizeRange value =
     (if sizeRange \<le> 65536 \<and> sizeRange > 0 then appendConstraintValue sizeRange (of_nat value)
      else bind appendAlignBits (\<lambda>_.
        if value \<le> 127 then putBitsValue (of_nat value) 8
        else if value \<le> 16383 then putBitsValue (of_nat value OR 0x8000) 16
        else putBitsValue (drop_bit 14 (of_nat value) OR 0xc0) 8))"

section \<open>Strings\<close>

text \<open>
  The bounds of a size constraint. When the length is above the upper bound of an extensible type, the
  extension bit is 1 and the bounds are dropped. The errors of the two one-bit writes are ignored.
  The result is the lower bound, the upper bound and the range that the rest of the code uses; \<open>-1\<close> stands
  for no bound.
\<close>

definition ignore_err :: "unit writer \<Rightarrow> unit writer" where
  "ignore_err m = handle m (\<lambda>_. ret ()) ret"

definition size_bounds :: "string \<Rightarrow> nat \<Rightarrow> bool \<Rightarrow> int option \<Rightarrow> int option \<Rightarrow> (int \<times> int \<times> int) writer" where
  "size_bounds msg len extensive lowerBoundPtr upperBoundPtr =
     (case lowerBoundPtr of
        None \<Rightarrow> ret (0, -1, -1)
      | Some lb \<Rightarrow>
          (case upperBoundPtr of
             None \<Rightarrow> ret (lb, -1, -1)
           | Some ub \<Rightarrow>
               let fits = int len \<le> ub mod 2 ^ 64; sizeRange = (if fits then int64 (ub - lb + 1) else -1) in
               if \<not> fits \<and> \<not> extensive then fail (Err msg)
               else if extensive then
                 if sizeRange = -1 then bind (ignore_err (putBitsValue 1 1)) (\<lambda>_. ret (0, ub, sizeRange))
                 else bind (ignore_err (putBitsValue 0 1)) (\<lambda>_. ret (lb, ub, sizeRange))
               else ret (lb, ub, sizeRange)))"

text \<open>The size of the next fragment.\<close>

definition fragment :: "nat \<Rightarrow> nat" where
  "fragment rawLength =
     (if rawLength > 65536 then 65536 else if rawLength \<ge> 16384 then rawLength AND 0xc000 else rawLength)"

text \<open>
  The loops over the fragments. Bounds are lower bounds of sizes, which are not negative; a slice beyond
  the end panics.
\<close>

function octets_loop :: "bytes \<Rightarrow> int \<Rightarrow> nat \<Rightarrow> nat \<Rightarrow> nat \<Rightarrow> unit writer" where
  "octets_loop bytes sizeRange lb rawLength byteOffset pd =
     (case appendLength sizeRange (fragment rawLength) pd of
        (Inl e, pd) \<Rightarrow> (Inl e, pd)
      | (Inr _, pd) \<Rightarrow>
          if fragment rawLength + lb = 0 then (Inr (), pd)
          else if length bytes < byteOffset + (fragment rawLength + lb) then (Inl Panic, pd\<lparr>raw_off := 0\<rparr>)
          else
            let pd = pd\<lparr>raw_off := 0, raw_bytes := raw_bytes pd @ take (fragment rawLength + lb) (drop byteOffset bytes)\<rparr> in
            if rawLength - fragment rawLength > 0
            then octets_loop bytes sizeRange lb (rawLength - fragment rawLength) (byteOffset + (fragment rawLength + lb)) pd
            else (Inr (), pd))"
  by pat_completeness auto
termination
  by (relation "measure (\<lambda>(bytes, _, _, _, off, _). length bytes - off)") auto

definition appendOctetString :: "bytes \<Rightarrow> bool \<Rightarrow> int option \<Rightarrow> int option \<Rightarrow> unit writer" where
  "appendOctetString bytes extensive lowerBoundPtr upperBoundPtr =
     bind (size_bounds ''OctetString Length is over upperbound'' (length bytes) extensive lowerBoundPtr upperBoundPtr) (\<lambda>(lb, ub, sizeRange).
     let sizeRange = (if ub > 65535 then -1 else sizeRange) in
     if sizeRange = 1 then
       if int (length bytes) \<noteq> ub mod 2 ^ 64 then fail (Err ''OctetString Length is not match fix-sized'')
       else if length bytes > 2 then bind appendAlignBits (\<lambda>_. append_bytes bytes)
       else putBitString bytes (8 * length bytes)
     else octets_loop bytes sizeRange (nat lb) (nat ((int (length bytes) - lb) mod 2 ^ 64)) 0)"

function bits_loop :: "bytes \<Rightarrow> int \<Rightarrow> nat \<Rightarrow> nat \<Rightarrow> nat \<Rightarrow> unit writer" where
  "bits_loop bytes sizeRange lb rawLength byteOffset pd =
     (case appendLength sizeRange (fragment rawLength) pd of
        (Inl e, pd) \<Rightarrow> (Inl e, pd)
      | (Inr _, pd) \<Rightarrow>
          if fragment rawLength + lb = 0 then (Inr (), pd)
          else
            let sizes = (fragment rawLength + lb + 7) div 8 in
            if length bytes < byteOffset + sizes then (Inl Panic, pd\<lparr>raw_off := 0\<rparr>)
            else
              let pd = pd\<lparr>raw_off := 0, raw_bytes := raw_bytes pd @ take sizes (drop byteOffset bytes)\<rparr> in
              if rawLength - fragment rawLength > 0
              then bits_loop bytes sizeRange lb (rawLength - fragment rawLength) (byteOffset + sizes) pd
              else (Inr (), pd\<lparr>raw_off := (fragment rawLength + lb) mod 8\<rparr>))"
  by pat_completeness auto
termination
  by (relation "measure (\<lambda>(bytes, _, _, _, off, _). length bytes - off)") auto

text \<open>
  \<^verbatim>\<open>appendBitString\<close>. The bits behind the length are cleared in the octets of the argument itself. A
  length that is not the fixed size sets the error, but the string is written nevertheless; the error is
  returned unless \<^verbatim>\<open>putBitString\<close> overwrites it.
\<close>

definition appendBitString :: "bytes \<Rightarrow> nat \<Rightarrow> bool \<Rightarrow> int option \<Rightarrow> int option \<Rightarrow> unit writer" where
  "appendBitString bytes bitsLength extensive lowerBoundPtr upperBoundPtr =
     bind (size_bounds ''bitString Length is over upperbound'' bitsLength extensive lowerBoundPtr upperBoundPtr) (\<lambda>(lb, ub, sizeRange).
     let sizeRange = (if ub > 65535 then -1 else sizeRange); sizes = (bitsLength + 7) div 8 in
     bind (if bitsLength mod 8 = 0 then ret bytes
           else bind (lift_res (\<lambda>_. idx bytes (sizes - 1))) (\<lambda>b.
             ret (bytes[sizes - 1 := b AND push_bit (8 - bitsLength mod 8) 0xff]))) (\<lambda>bytes.
     if sizeRange = 1 then
       if sizes > 2 then
         bind appendAlignBits (\<lambda>_.
         bind (append_bytes bytes) (\<lambda>_.
         bind (modify (\<lambda>pd. pd\<lparr>raw_off := nat (ub mod 8)\<rparr>)) (\<lambda>_.
         if int bitsLength \<noteq> ub mod 2 ^ 64 then fail (Err ''bitString Length is not match fix-sized'') else ret ())))
       else putBitString bytes bitsLength
     else bits_loop bytes sizeRange (nat lb) (nat ((int bitsLength - lb) mod 2 ^ 64)) 0))"

section \<open>Numbers\<close>

definition appendBool :: "bool \<Rightarrow> unit writer" where
  "appendBool value = (if value then putBitsValue 1 1 else putBitsValue 0 1)"

text \<open>The number of octets after the first shift: the loop runs at most 127 times.\<close>

primrec count_octets :: "nat \<Rightarrow> nat \<Rightarrow> u64 \<Rightarrow> nat" where
  "count_octets 0 rawLength u = rawLength"
| "count_octets (Suc k) rawLength u = (if u = 0 then rawLength else count_octets k (Suc rawLength) (drop_bit 8 u))"

text \<open>
  The number of octets of a range; the loop of the encoder ends at \<open>stop = 1\<close>, that of the decoder at
  \<open>stop = 0\<close>.
\<close>

primrec range_octets :: "u64 \<Rightarrow> nat \<Rightarrow> nat \<Rightarrow> u64 \<Rightarrow> nat" where
  "range_octets stop 0 byteLen u = byteLen"
| "range_octets stop (Suc k) byteLen u =
     (let u = drop_bit 8 u in if u \<le> stop then byteLen else range_octets stop k (Suc byteLen) u)"

definition appendInteger :: "int \<Rightarrow> bool \<Rightarrow> int option \<Rightarrow> int option \<Rightarrow> unit writer" where
  "appendInteger value extensive lowerBoundPtr upperBoundPtr =
     bind (case lowerBoundPtr of
             None \<Rightarrow> ret (0, -1)
           | Some lb \<Rightarrow>
               if value < lb then fail (Err ''INTEGER value is smaller than lowerbound'')
               else (case upperBoundPtr of
                 None \<Rightarrow> ret (lb, 0)
               | Some ub \<Rightarrow>
                   let valueRange = (if value \<le> ub then int64 (ub - lb + 1) else 0) in
                   if \<not> value \<le> ub \<and> \<not> extensive then fail (Err ''INTEGER value is larger than upperbound'')
                   else if extensive then
                     if valueRange = 0 then bind (ignore_err (putBitsValue 1 1)) (\<lambda>_. ret (lb, -1))
                     else bind (ignore_err (putBitsValue 0 1)) (\<lambda>_. ret (lb, valueRange))
                   else ret (lb, valueRange))) (\<lambda>(lb, valueRange).
     let unsignedValue = (if value < 0 then word_of_int (- value) - 1 else word_of_int value) :: u64 in
     if valueRange = 1 then ret ()
     else if 0 < valueRange \<and> valueRange \<le> 65536 then appendConstraintValue valueRange (word_of_int (value - lb))
     else
       let rawLength = count_octets 127 1 (drop_bit (if valueRange \<le> 0 then 7 else 8) unsignedValue) in
       bind (if valueRange \<le> 0 then bind appendAlignBits (\<lambda>_. append_bytes [of_nat rawLength])
             else putBitsValue (of_nat (rawLength - 1)) (range_bits (int (range_octets 1 127 1 (word_of_int (valueRange - 1)))))) (\<lambda>_.
       bind appendAlignBits (\<lambda>_.
       if valueRange < 0 then putBitsValue (word_of_int value AND mask (8 * rawLength)) (8 * rawLength)
       else putBitsValue (word_of_int (value - lb)) (8 * rawLength))))"

definition appendEnumerated :: "u64 \<Rightarrow> bool \<Rightarrow> int option \<Rightarrow> int option \<Rightarrow> unit writer" where
  "appendEnumerated value extensive lowerBoundPtr upperBoundPtr =
     (case (lowerBoundPtr, upperBoundPtr) of
        (Some lb, Some ub) \<Rightarrow>
          if sint value > ub then
            if extensive then fail (Err ''Unsupport the extensive value of ENUMERATED'')
            else fail (Err ''ENUMERATED value is larger than upperbound'')
          else if sint value < lb then fail (Err ''ENUMERATED value is smaller than lowerbound'')
          else bind (if extensive then putBitsValue 0 1 else ret ()) (\<lambda>_.
            let valueRange = int64 (ub - lb + 1) in
            if valueRange > 1 then appendConstraintValue valueRange value else ret ())
      | _ \<Rightarrow> fail (Err ''ENUMERATED value constraint is error''))"

definition appendChoiceIndex :: "int \<Rightarrow> bool \<Rightarrow> int option \<Rightarrow> unit writer" where
  "appendChoiceIndex present extensive upperBoundPtr =
     (case upperBoundPtr of
        None \<Rightarrow> fail (Err ''The upper bound of CHIOCE is missing'')
      | Some ub \<Rightarrow>
          if ub < 0 then fail (Err ''The upper bound of CHIOCE is negative'')
          else if extensive \<and> int64 (present - 1) > ub then fail (Err ''Unsupport value of CHOICE type is in Extensed'')
          else appendConstraintValue (int64 (ub + 1)) (word_of_int (present - 1)))"

section \<open>Bits written\<close>

definition pad :: "bool list \<Rightarrow> bool list" where
  "pad bs = bs @ replicate (pad_len (length bs)) False"

definition wr :: "bool list \<Rightarrow> perRawBitData" where
  "wr bs = \<lparr>raw_bytes = bytes_of (pad bs), raw_off = length bs mod 8\<rparr>"

lemma raw_off_wr [simp]: "raw_off (wr bs) = length bs mod 8"
  by (simp add: wr_def)

lemma raw_bytes_wr: "raw_bytes (wr bs) = bytes_of (pad bs)"
  by (simp add: wr_def)

lemma length_pad [simp]: "length (pad bs) mod 8 = 0"
  by (simp add: pad_def pad_len_ceil)

lemma pad_len_le: "pad_len n < 8"
  by (simp add: pad_len_def)

lemma pad_aligned [simp]: "length bs mod 8 = 0 \<Longrightarrow> pad bs = bs"
  by (simp add: pad_def pad_len_def)

lemma pad_len_mod: "pad_len (8 * k + r) = pad_len r"
  by (simp add: pad_len_def)

lemma pad_len_add: "m mod 8 = 0 \<Longrightarrow> pad_len (m + r) = pad_len r"
  by (metis mod_add_left_eq add_0 pad_len_def)

lemma pad_append: "length xs mod 8 = 0 \<Longrightarrow> pad (xs @ ys) = xs @ pad ys"
  by (simp add: pad_def pad_len_add)

lemma bits_of_bytes_of_pad [simp]: "bits_of (bytes_of (pad bs)) = pad bs"
  by (simp add: bits_of_bytes_of)

lemma bytes_of_append: "length xs mod 8 = 0 \<Longrightarrow> length ys mod 8 = 0 \<Longrightarrow> bytes_of (xs @ ys) = bytes_of xs @ bytes_of ys"
proof (rule bits_of_inj)
  assume "length xs mod 8 = 0" "length ys mod 8 = 0"
  moreover from this have "length (xs @ ys) mod 8 = 0" by (auto simp: mod_eq_0_iff_dvd intro: dvd_add)
  ultimately show "bits_of (bytes_of (xs @ ys)) = bits_of (bytes_of xs @ bytes_of ys)" by (simp add: bits_of_bytes_of)
qed

lemma bytes_of_one: "length xs = 8 \<Longrightarrow> bytes_of xs = [of_bits xs]"
  by (rule bits_of_inj) (simp add: bits_of_bytes_of byte_bits_of_bits)

lemma appendAlignBits_wr [simp]: "appendAlignBits (wr bs) = (Inr (), wr (pad bs))"
  by (simp add: appendAlignBits_def wr_def)

lemma append_bytes_wr:
  assumes "length bs mod 8 = 0"
  shows "append_bytes x (wr bs) = (Inr (), wr (bs @ bits_of x))"
proof -
  have "length (bs @ bits_of x) mod 8 = 0" using assms by (auto simp: mod_eq_0_iff_dvd intro: dvd_add)
  then show ?thesis using assms bytes_of_append [OF assms, of "bits_of x"] by (simp add: append_bytes_def wr_def)
qed

lemma of_bits_zero [simp]: "of_bits (replicate n False) = 0"
  by (rule bit_eqI) (simp add: bit_of_bits)

lemma or_join:
  "of_bits (ys @ replicate (length zs) False) OR of_bits (replicate (length ys) False @ zs) = (of_bits (ys @ zs) :: 'a::len word)"
  by (simp add: of_bits_append)

lemma drop_bit_of_bits:
  assumes "length us + length vs \<le> 8"
  shows "drop_bit (length vs) (of_bits (us @ vs) :: u8) = of_bits us"
proof (rule bit_eqI)
  fix k
  have "(us @ vs) ! (length us + length vs - 1 - (length vs + k)) = us ! (length us - 1 - k)" if "k < length us"
    using that by (auto simp: nth_append)
  then show "bit (drop_bit (length vs) (of_bits (us @ vs) :: u8)) k = bit (of_bits us :: u8) k"
    using assms by (auto simp: bit_drop_bit_eq bit_of_bits)
qed

lemma of_bits_leading [simp]: "of_bits (replicate n False @ bs) = of_bits bs"
  by (simp add: of_bits_append)

text \<open>The last octet that is not full: \<open>ys\<close> are its bits.\<close>

lemma wr_split:
  assumes "length bs mod 8 \<noteq> 0"
  obtains xs ys where "bs = xs @ ys" "length xs mod 8 = 0" "length ys = length bs mod 8"
    "raw_bytes (wr bs) = bytes_of xs @ [of_bits (ys @ replicate (8 - length ys) False)]"
proof -
  define xs ys where "xs = take (8 * (length bs div 8)) bs" and "ys = drop (8 * (length bs div 8)) bs"
  have bs: "bs = xs @ ys" by (simp add: xs_def ys_def)
  have "8 * (length bs div 8) \<le> length bs" by simp
  then have "length xs = 8 * (length bs div 8)" unfolding xs_def by (simp only: length_take min_absorb2)
  then have len: "length xs mod 8 = 0" "length ys = length bs mod 8" by (simp_all add: ys_def minus_mult_div_eq_mod)
  have y: "pad ys = ys @ replicate (8 - length ys) False" using len(2) assms by (simp add: pad_def pad_len_def)
  have "length (pad ys) = 8" using y len(2) by simp
  then have "bytes_of (pad bs) = bytes_of xs @ [of_bits (pad ys)]"
    using bs pad_append [OF len(1), of ys] bytes_of_append [OF len(1), of "pad ys"] bytes_of_one [of "pad ys"] by simp
  then show ?thesis using that [OF bs len] by (simp only: raw_bytes_wr y)
qed

lemma or_last_wr:
  assumes "length bs mod 8 \<noteq> 0" "length bs mod 8 + length zs = 8"
  shows "or_last (of_bits zs) (wr bs) = (Inr (), \<lparr>raw_bytes = bytes_of (bs @ zs), raw_off = length bs mod 8\<rparr>)"
proof -
  obtain xs ys where s: "bs = xs @ ys" "length xs mod 8 = 0" "length ys = length bs mod 8"
    "raw_bytes (wr bs) = bytes_of xs @ [of_bits (ys @ replicate (8 - length ys) False)]"
    by (rule wr_split [OF assms(1)])
  have z: "8 - length ys = length zs" "length (ys @ zs) = 8" using s(3) assms(2) by simp_all
  have "of_bits (ys @ replicate (8 - length ys) False) OR of_bits zs = (of_bits (ys @ zs) :: u8)"
    using or_join [of ys zs] z(1) by simp
  moreover have "bytes_of (bs @ zs) = bytes_of xs @ [of_bits (ys @ zs)]"
    using bytes_of_append [OF s(2), of "ys @ zs"] z(2) bytes_of_one [of "ys @ zs"] s(1) by simp
  ultimately show ?thesis using s(4) by (simp add: or_last_def wr_def)
qed

text \<open>\<^verbatim>\<open>putBitString\<close> appends the bits that it is given: at an octet boundary, within the last octet, and beyond it.\<close>

lemma put_aligned:
  assumes "bits_of bytes = pad ns" "length bytes = (length ns + 7) div 8" "length bs mod 8 = 0"
  shows "putBitString bytes (length ns) (wr bs) = (Inr (), wr (bs @ ns))"
proof -
  have "append_bytes bytes (wr bs) = (Inr (), wr (bs @ pad ns))" using append_bytes_wr [OF assms(3)] assms(1) by simp
  moreover have "(wr (bs @ pad ns))\<lparr>raw_off := length ns mod 8\<rparr> = wr (bs @ ns)"
    using assms(3) mod_add_eq [of "length bs" 8 "length ns"] pad_append [OF assms(3), of ns] pad_append [OF assms(3), of "pad ns"]
    by (simp add: wr_def)
  ultimately show ?thesis using assms(2,3) by (simp add: putBitString_def)
qed

lemma mod8_add: "(m + n) mod 8 = (n mod 8 + m mod 8) mod 8" for m n :: nat
  by (simp add: mod_add_eq add.commute)

lemma put_within:
  assumes bits: "bits_of bytes = pad ns" and len: "length bytes = (length ns + 7) div 8"
    and off: "length bs mod 8 \<noteq> 0" "length ns \<le> 8 - length bs mod 8" "ns \<noteq> []"
  shows "putBitString bytes (length ns) (wr bs) = (Inr (), wr (bs @ ns))"
proof -
  let ?off = "length bs mod 8" and ?n = "length ns"
  let ?zs = "ns @ replicate (8 - ?off - ?n) False"
  have n: "0 < ?n" "?n < 8" using off by (cases ns; simp)+
  have "pad_len ?n = (8 - ?off - ?n) + ?off" using n off by (simp add: pad_len_def)
  then have p: "pad ns = ?zs @ replicate ?off False" by (simp add: pad_def replicate_add)
  have w: "(?n + 7) div 8 = 1" using n by (simp add: ceil8_div)
  then obtain b where b: "bytes = [b]" using len by (cases bytes) auto
  then have "byte_bits b = pad ns" using bits by simp
  then have "b = of_bits (?zs @ replicate ?off False)" using p by (metis of_bits_byte_bits ucast_id)
  then have d: "drop_bit ?off b = of_bits ?zs" using drop_bit_of_bits [of ?zs "replicate ?off False"] off by simp
  have z: "?off + length ?zs = 8" using off by simp
  have "pad_len (length bs + ?n) = 8 - ?off - ?n"
  proof (cases "?off + ?n = 8")
    case True
    then show ?thesis using mod8_add [of "length bs" ?n] n by (simp add: pad_len_def add.commute)
  next
    case False
    then have "(length bs + ?n) mod 8 = ?off + ?n" using mod8_add [of "length bs" ?n] n off by simp
    then show ?thesis using n False off by (simp add: pad_len_def)
  qed
  then have "bs @ ?zs = pad (bs @ ns)" by (simp add: pad_def)
  then have "or_last (drop_bit ?off b) (wr bs) = (Inr (), (wr (bs @ ns))\<lparr>raw_off := ?off\<rparr>)"
    using or_last_wr [OF off(1) z] d by (simp add: wr_def)
  moreover have "(length bytes < (?n + 7) div 8) = False" "take ((?n + 7) div 8) bytes = [b]" "(?off = 0) = False" "(?n \<le> 8 - ?off) = True"
    unfolding w b using off(1,2) by simp_all
  ultimately have "putBitString bytes ?n (wr bs) = (Inr (), (wr (bs @ ns))\<lparr>raw_off := (?n mod 8 + ?off) mod 8\<rparr>)"
    by (simp only: putBitString_def if_False if_True st_eval bind_eval raw_off_wr) (simp add: idx_def)
  then show ?thesis using mod8_add [of "length bs" ?n] by (simp add: wr_def)
qed

lemma put_beyond:
  assumes bits: "bits_of bytes = pad ns" and len: "length bytes = (length ns + 7) div 8"
    and off: "length bs mod 8 \<noteq> 0" "\<not> length ns \<le> 8 - length bs mod 8"
  shows "putBitString bytes (length ns) (wr bs) = (Inr (), wr (bs @ ns))"
proof -
  let ?off = "length bs mod 8" and ?n = "length ns"
  define ms rs where "ms = take (8 - ?off) ns" and "rs = drop (8 - ?off) ns"
  have ns: "ns = ms @ rs" "length ms = 8 - ?off" using off by (simp_all add: ms_def rs_def)
  have "byte_bits 0 = replicate 8 False" by (simp add: byte_bits_def map_replicate_const)
  also have "\<dots> = replicate (8 - ?off) False @ replicate ?off False" by (simp flip: replicate_add)
  finally have "bits_of (0 # bytes) = replicate (8 - ?off) False @ (replicate ?off False @ ns) @ replicate (pad_len ?n) False"
    using bits by (simp add: pad_def)
  then have g: "GetBitString (0 # bytes) (8 - ?off) (?off + ?n) = Inr (bytes_of (pad (replicate ?off False @ ns)))"
    using GetBitString_ok [of "0 # bytes" "replicate (8 - ?off) False" "replicate ?off False @ ns"] off
    by (auto simp: pad_def)
  have o: "length (replicate ?off False @ ms) = 8" using ns(2) by simp
  then have "pad (replicate ?off False @ ns) = (replicate ?off False @ ms) @ pad rs"
    using pad_append [of "replicate ?off False @ ms" rs] ns(1) by simp
  then have g': "bytes_of (pad (replicate ?off False @ ns)) = of_bits ms # bytes_of (pad rs)"
    using bytes_of_append [of "replicate ?off False @ ms" "pad rs"] bytes_of_one [OF o] o by simp
  have al: "length (bs @ ms) mod 8 = 0" using ns(2) mod8_add [of "length bs" "8 - ?off"] off(1) by simp
  have w: "bytes_of (pad (bs @ ns)) = bytes_of (bs @ ms) @ bytes_of (pad rs)"
    using pad_append [OF al, of rs] bytes_of_append [OF al, of "pad rs"] ns(1) by simp
  have "?off + length ms = 8" using ns(2) by simp
  note o' = or_last_wr [OF off(1) this]
  have f: "raw_off (wr bs) = ?off" "length bytes \<ge> (?n + 7) div 8" "take ((?n + 7) div 8) bytes = bytes" using len by simp_all
  have "putBitString bytes ?n (wr bs) =
      (Inr (), \<lparr>raw_bytes = bytes_of (bs @ ms) @ bytes_of (pad rs), raw_off = (?n mod 8 + ?off) mod 8\<rparr>)"
    using off f o' g unfolding putBitString_def g' by (simp add: idx_def append_bytes_def)
  also have "\<dots> = (Inr (), wr (bs @ ns))" using w mod8_add [of "length bs" ?n] by (simp only: wr_def length_append)
  finally show ?thesis .
qed

lemma putBitString_wr:
  assumes "bits_of bytes = pad ns" "ns \<noteq> []"
  shows "putBitString bytes (length ns) (wr bs) = (Inr (), wr (bs @ ns))"
proof -
  have "length bytes = (length ns + 7) div 8"
    using arg_cong [OF assms(1), of length] by (simp add: pad_def pad_len_ceil)
  then show ?thesis using assms put_aligned put_within put_beyond by metis
qed

section \<open>Numbers written\<close>

lemma to_bits_append: "to_bits (m + n) v = to_bits m (drop_bit n v) @ to_bits n v"
  by (rule nth_equalityI) (auto simp: to_bits_def nth_append bit_drop_bit_eq algebra_simps)

lemma to_bits_octet: "to_bits 8 (v :: u64) = byte_bits (ucast v)"
  by (rule nth_equalityI) (auto simp: to_bits_def bit_ucast_iff possible_bit_def)

lemma to_bits_zero: "to_bits n 0 = replicate n False"
  by (rule nth_equalityI) (auto simp: to_bits_def)

lemma byte_bits_pushed:
  assumes "k \<le> 8"
  shows "byte_bits (ucast (push_bit (8 - k) (v :: u64))) = to_bits k v @ replicate (8 - k) False"
proof (rule nth_equalityI)
  fix i assume "i < length (byte_bits (ucast (push_bit (8 - k) v)))"
  then have i: "i < 8" by simp
  show "byte_bits (ucast (push_bit (8 - k) v)) ! i = (to_bits k v @ replicate (8 - k) False) ! i"
  proof (cases "i < k")
    case True
    then have "7 - i - (8 - k) = k - 1 - i" using assms by simp
    then show ?thesis using i True assms by (auto simp: to_bits_def nth_append bit_ucast_iff bit_push_bit_iff possible_bit_def)
  next
    case False
    then show ?thesis using i assms by (auto simp: to_bits_def nth_append bit_ucast_iff bit_push_bit_iff possible_bit_def)
  qed
qed (use assms in simp)

lemma bytes_of_zeros: "bytes_of (replicate (8 * k) False) = replicate k 0"
proof (induction k)
  case (Suc k)
  have "bytes_of (replicate 8 False) = [0]" by (simp add: bytes_of_one)
  then show ?case using Suc bytes_of_append [of "replicate 8 False" "replicate (8 * k) False"] by (simp add: replicate_add)
qed simp

lemma fill_bytes_ok:
  "drop_bit (8 * k) v = 0 \<Longrightarrow> fill_bytes k v (replicate k 0 @ ts) = Inr (bytes_of (to_bits (8 * k) v) @ ts)"
proof (induction k arbitrary: v ts)
  case (Suc k)
  note z = bytes_of_zeros [of "Suc k"]
  have "to_bits (8 * Suc k) v = to_bits (8 * k) (drop_bit 8 v) @ to_bits 8 v" by (metis to_bits_append mult_Suc_right add.commute)
  then have "bytes_of (to_bits (8 * Suc k) v) = bytes_of (to_bits (8 * k) (drop_bit 8 v)) @ [ucast v]"
    by (simp add: bytes_of_append to_bits_octet bytes_of_one) (metis of_bits_byte_bits ucast_id)
  moreover have "(replicate (Suc k) 0 @ ts)[k := ucast v] = replicate k 0 @ (ucast v :: u8) # ts"
  proof -
    have "replicate (Suc k) 0 @ ts = replicate k 0 @ 0 # ts" by (simp add: replicate_app_Cons_same)
    then show ?thesis using list_update_length [of "replicate k 0" 0 ts "ucast v"] by simp
  qed
  moreover have "drop_bit (8 * k) (drop_bit 8 v) = 0" using Suc.prems by (simp add: drop_bit_drop_bit add.commute)
  ultimately show ?case using Suc.IH [of "drop_bit 8 v" "ucast v # ts"] z bytes_of_zeros [of k] by (simp add: to_bits_zero replicate_append_same)
qed (simp add: to_bits_def)

lemma fill_bytes_over: "drop_bit (8 * k) v \<noteq> 0 \<Longrightarrow> fill_bytes k v ts = Inl (Err ''Bits Value is over capacity'')"
proof (induction k arbitrary: v ts)
  case (Suc k)
  then have "drop_bit (8 * k) (drop_bit 8 v) \<noteq> 0" by (simp add: drop_bit_drop_bit add.commute)
  then show ?case using Suc by auto
qed simp

lemma octet_split:
  fixes n :: nat
  assumes "0 < n"
  shows "n = 8 * ((n + 7) div 8 - 1) + (if n mod 8 = 0 then 8 else n mod 8)"
  using assms mult_div_mod_eq [of 8 n] by (auto simp: ceil8_div)

text \<open>\<^verbatim>\<open>putBitsValue\<close> appends the binary digits of a number that fits, and otherwise returns an error.\<close>

lemma putBitsValue_wr:
  assumes fits: "drop_bit n value = 0"
  shows "putBitsValue value n (wr bs) = (Inr (), wr (bs @ to_bits n value))"
proof (cases "n = 0")
  case False
  define k b where "k = (n + 7) div 8 - 1" and "b = (if n mod 8 = 0 then 8 else n mod 8)"
  have n: "n = 8 * k + b" using False octet_split [of n] by (simp add: k_def b_def)
  have "n \<le> 8 * ((n + 7) div 8)" by (rule ceil8)
  then have n2: "(n + 7) div 8 = Suc k" using False by (simp add: k_def)
  have b: "b \<le> 8" "0 < b" by (auto simp: b_def less_imp_le)
  let ?last = "ucast (push_bit (8 - b) value) :: u8"
  have "drop_bit (8 * k) (drop_bit b value) = 0" using fits n by (simp add: drop_bit_drop_bit add.commute)
  from fill_bytes_ok [OF this] have f: "fill_bytes k (drop_bit b value) ((replicate (Suc k) 0)[k := ?last]) =
      Inr (bytes_of (to_bits (8 * k) (drop_bit b value)) @ [?last])"
    by (simp add: replicate_append_same [symmetric] list_update_append)
  have "bits_of (bytes_of (to_bits (8 * k) (drop_bit b value)) @ [?last]) = to_bits n value @ replicate (8 - b) False"
    using n byte_bits_pushed [OF b(1), of "value"] by (simp add: bits_of_bytes_of to_bits_append)
  also have "\<dots> = pad (to_bits n value)"
  proof -
    have "pad_len n = 8 - b" unfolding n pad_len_mod using b by (cases "b = 8") (auto simp: pad_len_def)
    then show ?thesis by (simp add: pad_def)
  qed
  finally have "putBitString (bytes_of (to_bits (8 * k) (drop_bit b value)) @ [?last]) n (wr bs) = (Inr (), wr (bs @ to_bits n value))"
    using putBitString_wr [of _ "to_bits n value" bs] False by (auto simp: to_bits_def)
  then show ?thesis using False f n2 by (simp add: putBitsValue_def Let_def b_def [symmetric])
qed (simp add: putBitsValue_def to_bits_def)

lemma putBitsValue_over:
  assumes "0 < n" "drop_bit n value \<noteq> 0"
  shows "putBitsValue value n pd = (Inl (Err ''Bits Value is over capacity''), pd)"
proof -
  let ?k = "(n + 7) div 8 - 1" and ?b = "if n mod 8 = 0 then 8 else n mod 8"
  have "drop_bit (8 * ?k) (drop_bit ?b value) \<noteq> 0"
    using assms octet_split [of n] by (metis drop_bit_drop_bit add.commute)
  then show ?thesis using assms fill_bytes_over by (simp add: putBitsValue_def Let_def)
qed

end
