(* ===== verification/APER_Reader.thy ===== *)
theory APER_Reader
  imports APER_Writer
begin

text \<open>
  The decoder of \<^verbatim>\<open>lib/aper/aper.go\<close> up to the decoding of single values. \<open>rd b n\<close> is the state in which the
  decoder stands at bit \<open>n\<close> of the octets \<open>b\<close>. An error leaves the state where it was reached, since one caller
  goes on after an error.
\<close>

section \<open>The state\<close>

record perBitData =
  pd_bytes :: bytes
  byteOffset :: nat
  bitsOffset :: nat

type_synonym 'a reader = "(perBitData, 'a) go"

definition bitCarry :: "perBitData \<Rightarrow> perBitData" where
  "bitCarry pd = pd\<lparr>byteOffset := byteOffset pd + bitsOffset pd div 8, bitsOffset := bitsOffset pd mod 8\<rparr>"

text \<open>\<^verbatim>\<open>pd.bytes[pd.byteOffset:]\<close>\<close>

definition bytes_left :: "bytes reader" where
  "bytes_left = lift_res (\<lambda>pd. if byteOffset pd \<le> length (pd_bytes pd) then Inr (drop (byteOffset pd) (pd_bytes pd)) else Inl Panic)"

definition getBitString :: "nat \<Rightarrow> bytes reader" where
  "getBitString numBits =
     bind bytes_left (\<lambda>src.
     bind (lift_res (\<lambda>pd. GetBitString src (bitsOffset pd) numBits)) (\<lambda>dstBytes.
     bind (modify (\<lambda>pd. bitCarry (pd\<lparr>bitsOffset := bitsOffset pd + numBits\<rparr>))) (\<lambda>_.
     ret dstBytes)))"

definition getBitsValue :: "nat \<Rightarrow> u64 reader" where
  "getBitsValue numBits =
     bind bytes_left (\<lambda>src.
     bind (lift_res (\<lambda>pd. GetBitsValue src (bitsOffset pd) numBits)) (\<lambda>value.
     bind (modify (\<lambda>pd. bitCarry (pd\<lparr>bitsOffset := bitsOffset pd + numBits\<rparr>))) (\<lambda>_.
     ret value)))"

definition parseAlignBits :: "unit reader" where
  "parseAlignBits =
     bind (gets bitsOffset) (\<lambda>off.
     if off mod 8 > 0 then
       bind (getBitsValue (8 - off mod 8)) (\<lambda>val. if val \<noteq> 0 then fail (Err ''Align Bit is not zero'') else ret ())
     else if off \<noteq> 0 then modify bitCarry
     else ret ())"

definition parseConstraintValue :: "int \<Rightarrow> u64 reader" where
  "parseConstraintValue valueRange =
     (if valueRange \<le> 255 then
        if valueRange < 0 then fail (Err ''Value range is negative'')
        else getBitsValue (range_bits valueRange)
      else if valueRange = 256 then bind parseAlignBits (\<lambda>_. getBitsValue 8)
      else if valueRange \<le> 65536 then bind parseAlignBits (\<lambda>_. getBitsValue 16)
      else fail (Err ''Constraint Value is large than 65536''))"

text \<open>\<^verbatim>\<open>parseLength\<close> returns the length and whether another fragment follows.\<close>

definition parseLength :: "int \<Rightarrow> (u64 \<times> bool) reader" where
  "parseLength sizeRange =
     (if sizeRange \<le> 65536 \<and> sizeRange > 0 then bind (parseConstraintValue sizeRange) (\<lambda>v. ret (v, False))
      else
        bind parseAlignBits (\<lambda>_.
        bind (getBitsValue 8) (\<lambda>firstByte.
        if firstByte AND 128 = 0 then ret (firstByte AND 0x7F, False)
        else if firstByte AND 64 = 0 then
          bind (getBitsValue 8) (\<lambda>secondByte. ret (push_bit 8 (firstByte AND 63) OR secondByte, False))
        else
          let firstByte = firstByte AND 63 in
          if firstByte < 1 \<or> firstByte > 4 then fail (Err ''Parse Length Out of Constraint'')
          else ret (16384 * firstByte, True))))"

section \<open>Positions\<close>

definition rd :: "bytes \<Rightarrow> nat \<Rightarrow> perBitData" where
  "rd b n = \<lparr>pd_bytes = b, byteOffset = n div 8, bitsOffset = n mod 8\<rparr>"

lemma rd_sel [simp]: "pd_bytes (rd b n) = b" "byteOffset (rd b n) = n div 8" "bitsOffset (rd b n) = n mod 8"
  by (simp_all add: rd_def)

lemma bitCarry_rd: "bitCarry ((rd b n)\<lparr>bitsOffset := n mod 8 + k\<rparr>) = rd b (n + k)"
proof -
  have "n div 8 + (n mod 8 + k) div 8 = (n + k) div 8" using div_mult_self4 [of 8 "n div 8" "n mod 8 + k"] by simp
  then show ?thesis by (simp add: bitCarry_def rd_def mod_add_left_eq)
qed

lemma left_bits:
  assumes "bits_of b = bs @ ns"
  shows "length bs div 8 \<le> length b" "bits_of (drop (length bs div 8) b) = drop (8 * (length bs div 8)) bs @ ns"
    "length (drop (8 * (length bs div 8)) bs) = length bs mod 8"
proof -
  have "8 * length b = length bs + length ns" using arg_cong [OF assms, of length] by simp
  then show "length bs div 8 \<le> length b" by linarith
  show "bits_of (drop (length bs div 8) b) = drop (8 * (length bs div 8)) bs @ ns" using assms by (simp add: bits_of_drop)
  show "length (drop (8 * (length bs div 8)) bs) = length bs mod 8" by (simp add: minus_mult_div_eq_mod)
qed

lemma getBitString_rd:
  assumes "bits_of b = bs @ ns @ rest" "ns \<noteq> []"
  shows "getBitString (length ns) (rd b (length bs)) = (Inr (bytes_of (pad ns)), rd b (length bs + length ns))"
proof -
  note l = left_bits [OF assms(1)]
  have "GetBitString (drop (length bs div 8) b) (length bs mod 8) (length ns) = Inr (bytes_of (pad ns))"
    using GetBitString_ok [OF l(2) _ assms(2)] l(3) by (simp add: pad_def)
  then show ?thesis using l(1) by (simp add: getBitString_def bytes_left_def bitCarry_rd)
qed

lemma getBitsValue_rd:
  assumes "bits_of b = bs @ ns @ rest" "ns \<noteq> []"
  shows "getBitsValue (length ns) (rd b (length bs)) = (Inr (of_bits ns), rd b (length bs + length ns))"
proof -
  note l = left_bits [OF assms(1)]
  have "GetBitsValue (drop (length bs div 8) b) (length bs mod 8) (length ns) = Inr (of_bits ns)"
    using GetBitsValue_ok [OF l(2) _ assms(2)] l(3) by simp
  then show ?thesis using l(1) by (simp add: getBitsValue_def bytes_left_def bitCarry_rd)
qed

lemma parseAlignBits_rd:
  assumes "bits_of b = pad bs @ rest"
  shows "parseAlignBits (rd b (length bs)) = (Inr (), rd b (length (pad bs)))"
proof (cases "length bs mod 8 = 0")
  case True
  then show ?thesis by (simp add: parseAlignBits_def)
next
  case False
  then have "pad_len (length bs) = 8 - length bs mod 8" by (simp add: pad_len_def)
  then have "pad bs = bs @ replicate (8 - length bs mod 8) False" by (simp add: pad_def)
  with assms False show ?thesis
    using getBitsValue_rd [of b bs "replicate (8 - length bs mod 8) False" rest] by (simp add: parseAlignBits_def)
qed

section \<open>Progress\<close>

text \<open>No operation moves backwards or changes the octets; this bounds the loops below.\<close>

definition onward :: "perBitData \<Rightarrow> perBitData \<Rightarrow> bool" where
  "onward pd pd' \<longleftrightarrow> pd_bytes pd' = pd_bytes pd \<and> byteOffset pd \<le> byteOffset pd'"

lemma onward_refl [simp]: "onward pd pd"
  by (simp add: onward_def)

lemma onward_trans: "onward pd pd1 \<Longrightarrow> onward pd1 pd2 \<Longrightarrow> onward pd pd2"
  by (auto simp: onward_def)

lemma onward_bind:
  assumes "\<And>r pd1. m pd = (r, pd1) \<Longrightarrow> onward pd pd1" "\<And>x pd1 r pd2. f x pd1 = (r, pd2) \<Longrightarrow> onward pd1 pd2"
    "bind m f pd = (r, pd')"
  shows "onward pd pd'"
proof (cases "m pd")
  case (Pair q pd1)
  then show ?thesis using assms onward_trans by (cases q) (fastforce simp: bind_def)+
qed

lemma onward_carry [simp]: "onward pd (bitCarry (bitsOffset_update f pd))"
  by (simp add: onward_def bitCarry_def)

lemma getBitsValue_onward: "getBitsValue n pd = (r, pd') \<Longrightarrow> onward pd pd'"
  by (auto simp: getBitsValue_def bytes_left_def bind_def split: if_splits sum.splits)

lemma parseAlignBits_onward: "parseAlignBits pd = (r, pd') \<Longrightarrow> onward pd pd'"
  by (auto simp: parseAlignBits_def bind_def split: if_splits sum.splits prod.splits dest: getBitsValue_onward)
    (simp add: onward_def bitCarry_def)

lemma parseConstraintValue_onward: "parseConstraintValue n pd = (r, pd') \<Longrightarrow> onward pd pd'"
  by (auto simp: parseConstraintValue_def split: if_splits dest: getBitsValue_onward
      elim!: onward_bind [rotated 2] intro: parseAlignBits_onward getBitsValue_onward)

lemma parseLength_onward: "parseLength n pd = (r, pd') \<Longrightarrow> onward pd pd'"
  unfolding parseLength_def Let_def
  by (auto split: if_splits dest: getBitsValue_onward
      elim!: onward_bind [rotated 2] intro: parseAlignBits_onward getBitsValue_onward parseConstraintValue_onward)

lemma parseLength_repeat:
  assumes "parseLength n pd = (Inr (v, True), pd')"
  shows "16384 \<le> unat v"
proof -
  obtain f :: u64 where f: "v = 16384 * f" "f \<noteq> 0" "f \<le> 4"
    using assms by (auto simp: not_less parseLength_def Let_def bind_def split: if_splits sum.splits prod.splits)
  have "unat f \<le> 4" "1 \<le> unat f" using f(2,3) unat_gt_0 [of f] by (simp_all add: word_le_nat_alt)
  then have "unat v = 16384 * unat f" unfolding f(1) by (simp add: unat_word_ariths)
  then show ?thesis using \<open>1 \<le> unat f\<close> by simp
qed

section \<open>Strings\<close>

text \<open>
  The bounds of a size constraint: lower bound, upper bound and range, with \<open>-1\<close> for no bound.
\<close>

definition parse_bounds :: "bool \<Rightarrow> int option \<Rightarrow> int option \<Rightarrow> int \<times> int \<times> int" where
  "parse_bounds extensed lowerBoundPtr upperBoundPtr =
     (let lb = (if extensed then 0 else case lowerBoundPtr of None \<Rightarrow> 0 | Some l \<Rightarrow> l);
          ub = (if extensed then -1 else case upperBoundPtr of None \<Rightarrow> -1 | Some u \<Rightarrow> u);
          sizeRange = (if extensed \<or> upperBoundPtr = None then -1 else int64 (ub - lb + 1))
      in (lb, ub, if ub > 65535 then -1 else sizeRange))"

text \<open>\<^verbatim>\<open>pd.bytes[pd.byteOffset : pd.byteOffset+n]\<close> after the check that it is in range.\<close>

definition take_bytes :: "string \<Rightarrow> nat \<Rightarrow> bytes reader" where
  "take_bytes msg n = lift_res (\<lambda>pd.
     if length (pd_bytes pd) < byteOffset pd + n then Inl (Err msg) else Inr (take n (drop (byteOffset pd) (pd_bytes pd))))"

text \<open>The position behind \<open>n\<close> bits that start at an octet boundary.\<close>

definition skip_bits :: "nat \<Rightarrow> perBitData \<Rightarrow> perBitData" where
  "skip_bits n pd = pd\<lparr>byteOffset := byteOffset pd + (n + 7) div 8 - (if n mod 8 \<noteq> 0 then 1 else 0), bitsOffset := n mod 8\<rparr>"

function octets_read :: "string \<Rightarrow> int \<Rightarrow> nat \<Rightarrow> bytes \<Rightarrow> bytes reader" where
  "octets_read msg sizeRange lb octetString pd =
     (case parseLength sizeRange pd of
        (Inl e, pd) \<Rightarrow> (Inl e, pd)
      | (Inr (len, again), pd1) \<Rightarrow>
          if unat len + lb = 0 then (Inr octetString, pd1)
          else
            (case parseAlignBits pd1 of
               (Inl e, pd) \<Rightarrow> (Inl e, pd)
             | (Inr _, pd2) \<Rightarrow>
                 if length (pd_bytes pd2) < byteOffset pd2 + (unat len + lb) then (Inl (Err msg), pd2)
                 else
                   let octetString' = octetString @ take (unat len + lb) (drop (byteOffset pd2) (pd_bytes pd2));
                       pd3 = pd2\<lparr>byteOffset := byteOffset pd2 + (unat len + lb)\<rparr>
                   in if again then octets_read msg sizeRange lb octetString' pd3 else (Inr octetString', pd3)))"
  by pat_completeness auto
termination
  by (relation "measure (\<lambda>(_, _, _, _, pd). length (pd_bytes pd) - byteOffset pd)")
    (auto simp: onward_def dest!: parseLength_onward [OF sym] parseAlignBits_onward [OF sym])

definition parseOctetString :: "bool \<Rightarrow> int option \<Rightarrow> int option \<Rightarrow> bytes reader" where
  "parseOctetString extensed lowerBoundPtr upperBoundPtr =
     (let (lb, ub, sizeRange) = parse_bounds extensed lowerBoundPtr upperBoundPtr in
      if sizeRange = 1 then
        if ub > 2 then
          bind parseAlignBits (\<lambda>_.
          bind (take_bytes ''per data out of range'' (nat ub)) (\<lambda>octetString.
          bind (modify (\<lambda>pd. pd\<lparr>byteOffset := byteOffset pd + nat ub\<rparr>)) (\<lambda>_.
          ret octetString)))
        else getBitString (8 * nat ub)
      else octets_read ''per data out of range '' sizeRange (nat lb) [])"

function bits_read :: "int \<Rightarrow> nat \<Rightarrow> bytes \<times> nat \<Rightarrow> (bytes \<times> nat) reader" where
  "bits_read sizeRange lb bitString pd =
     (case parseLength sizeRange pd of
        (Inl e, pd) \<Rightarrow> (Inl e, pd)
      | (Inr (len, again), pd1) \<Rightarrow>
          if unat len + lb = 0 then (Inr bitString, pd1)
          else
            (case parseAlignBits pd1 of
               (Inl e, pd) \<Rightarrow> (Inl e, pd)
             | (Inr _, pd2) \<Rightarrow>
                 if length (pd_bytes pd2) < byteOffset pd2 + (unat len + lb + 7) div 8 then (Inl (Err ''PER data out of range''), pd2)
                 else
                   let bitString' = (fst bitString @ take ((unat len + lb + 7) div 8) (drop (byteOffset pd2) (pd_bytes pd2)),
                         snd bitString + (unat len + lb));
                       pd3 = skip_bits (unat len + lb) pd2
                   in if again then bits_read sizeRange lb bitString' pd3 else (Inr bitString', pd3)))"
  by pat_completeness auto
termination
proof (relation "measure (\<lambda>(_, _, _, pd). length (pd_bytes pd) - byteOffset pd)", goal_cases)
  case (2 sizeRange lb bitString pd q pd1 y len again q2 pd2 u bitString' pd3)
  have "onward pd pd1" "onward pd1 pd2" using 2 parseLength_onward parseAlignBits_onward by (metis, metis)
  moreover have "16384 \<le> unat len" using 2 parseLength_repeat [OF sym] by auto
  moreover have "8 * ((unat len + lb + 7) div 8) \<ge> unat len + lb" by (rule ceil8)
  ultimately show ?case using 2 by (auto simp: onward_def skip_bits_def)
qed simp

definition parseBitString :: "bool \<Rightarrow> int option \<Rightarrow> int option \<Rightarrow> (bytes \<times> nat) reader" where
  "parseBitString extensed lowerBoundPtr upperBoundPtr =
     (let (lb, ub, sizeRange) = parse_bounds extensed lowerBoundPtr upperBoundPtr in
      if sizeRange = 1 then
        if nat ((ub + 7) div 8) > 2 then
          bind parseAlignBits (\<lambda>_.
          bind (take_bytes ''PER data out of range'' (nat ((ub + 7) div 8))) (\<lambda>bytes.
          bind (modify (skip_bits (nat ub))) (\<lambda>_.
          ret (bytes, nat ub))))
        else bind (getBitString (nat ub)) (\<lambda>bytes. ret (bytes, nat ub))
      else bits_read sizeRange (nat lb) ([], 0))"

section \<open>Numbers\<close>

definition parseBool :: "bool reader" where
  "parseBool = bind (getBitsValue 1) (\<lambda>bit. ret (bit = 1))"

text \<open>
  \<^verbatim>\<open>parseInteger\<close>. For an unconstrained number the length is an octet of the input; a length of zero makes
  \<^verbatim>\<open>getBitsValue\<close> panic.
\<close>

definition parseInteger :: "bool \<Rightarrow> int option \<Rightarrow> int option \<Rightarrow> int reader" where
  "parseInteger extensed lowerBoundPtr upperBoundPtr =
     (let (lb, ub, valueRange) =
        (if extensed then (0, -1, -1)
         else case lowerBoundPtr of
                None \<Rightarrow> (0, -1, -1)
              | Some lb \<Rightarrow> (case upperBoundPtr of None \<Rightarrow> (lb, -1, 0) | Some ub \<Rightarrow> (lb, ub, int64 (ub - lb + 1)))) in
      if valueRange = 1 then ret ub
      else if 0 < valueRange \<and> valueRange \<le> 65536 then
        bind (parseConstraintValue valueRange) (\<lambda>rawValue. ret (int64 (sint rawValue + lb)))
      else
        bind (if valueRange \<le> 0 then
                bind parseAlignBits (\<lambda>_.
                bind (lift_res (\<lambda>pd. if byteOffset pd \<ge> length (pd_bytes pd) then Inl (Err ''per data out of range'')
                  else Inr (unat (pd_bytes pd ! byteOffset pd)))) (\<lambda>rawLength.
                bind (modify (\<lambda>pd. pd\<lparr>byteOffset := byteOffset pd + 1\<rparr>)) (\<lambda>_.
                ret rawLength)))
              else
                bind (getBitsValue (range_bits (int (range_octets 0 127 1 (word_of_int (valueRange - 1)))))) (\<lambda>tempLength.
                bind parseAlignBits (\<lambda>_.
                ret (unat tempLength + 1)))) (\<lambda>rawLength.
        bind (getBitsValue (8 * rawLength)) (\<lambda>rawValue.
        let signedBitMask = push_bit (8 * rawLength - 1) 1; valueMask = signedBitMask - 1 in
        ret (if valueRange < 0 \<and> rawValue AND signedBitMask > 0
             then int64 (sint ((NOT rawValue AND valueMask) + 1) * -1)
             else int64 (sint rawValue + lb)))))"

definition parseEnumerated :: "bool \<Rightarrow> int option \<Rightarrow> int option \<Rightarrow> u64 reader" where
  "parseEnumerated extensed lowerBoundPtr upperBoundPtr =
     (if extensed then fail (Err ''Unsupport the extensive value of ENUMERATED '')
      else case (lowerBoundPtr, upperBoundPtr) of
        (Some lb, Some ub) \<Rightarrow> if int64 (ub - lb + 1) > 1 then parseConstraintValue (int64 (ub - lb + 1)) else ret 0
      | _ \<Rightarrow> fail (Err ''ENUMERATED value constraint is error ''))"

definition getChoiceIndex :: "bool \<Rightarrow> int option \<Rightarrow> int reader" where
  "getChoiceIndex extensed upperBoundPtr =
     (if extensed then fail (Err ''Unsupport value of CHOICE type is in Extensed'')
      else case upperBoundPtr of
        None \<Rightarrow> fail (Err ''The upper bound of CHIOCE is missing'')
      | Some ub \<Rightarrow>
          if ub < 0 then fail (Err ''The upper bound of CHIOCE is negative'')
          else bind (parseConstraintValue (int64 (ub + 1))) (\<lambda>rawChoice. ret (int64 (sint rawChoice + 1))))"

end
