(* ===== verification/APER_Primitive.thy ===== *)
theory APER_Primitive
  imports APER_Reader
begin

text \<open>
  Encoder and decoder of single values agree: what a writer of \<^verbatim>\<open>marshal.go\<close> appends, the reader of the same
  kind in \<^verbatim>\<open>aper.go\<close> takes from any input that continues with these bits. \<open>codes k E D P\<close> says that the writer
  \<open>E\<close> always succeeds and appends at least \<open>k\<close> bits, and that the reader \<open>D\<close> consumes exactly these bits and
  returns a value with \<open>P\<close>.
\<close>

section \<open>Agreement of a writer and a reader\<close>

definition reads :: "'a reader \<Rightarrow> bool list \<Rightarrow> bool list \<Rightarrow> ('a \<Rightarrow> bool) \<Rightarrow> bool" where
  "reads D bs ns P \<longleftrightarrow> (\<forall>b rest. bits_of b = bs @ ns @ rest \<longrightarrow> (\<exists>v. D (rd b (length bs)) = (Inr v, rd b (length (bs @ ns))) \<and> P v))"

definition codes :: "nat \<Rightarrow> unit writer \<Rightarrow> 'a reader \<Rightarrow> ('a \<Rightarrow> bool) \<Rightarrow> bool" where
  "codes k E D P \<longleftrightarrow> (\<forall>bs. \<exists>ns. E (wr bs) = (Inr (), wr (bs @ ns)) \<and> k \<le> length ns \<and> reads D bs ns P)"

lemma readsI:
  "(\<And>b rest. bits_of b = bs @ ns @ rest \<Longrightarrow> \<exists>v. D (rd b (length bs)) = (Inr v, rd b (length (bs @ ns))) \<and> P v) \<Longrightarrow> reads D bs ns P"
  by (simp add: reads_def)

lemma readsD:
  "reads D bs ns P \<Longrightarrow> bits_of b = bs @ ns @ rest \<Longrightarrow> \<exists>v. D (rd b (length bs)) = (Inr v, rd b (length (bs @ ns))) \<and> P v"
  by (simp add: reads_def)

lemma codesI:
  "(\<And>bs. E (wr bs) = (Inr (), wr (bs @ f bs)) \<and> k \<le> length (f bs) \<and> reads D bs (f bs) P) \<Longrightarrow> codes k E D P"
  unfolding codes_def by blast

lemma codesD: "codes k E D P \<Longrightarrow> \<exists>ns. E (wr bs) = (Inr (), wr (bs @ ns)) \<and> k \<le> length ns \<and> reads D bs ns P"
  by (simp add: codes_def)

lemma codes_ret [intro]: "P v \<Longrightarrow> codes 0 (ret ()) (ret v) P"
  by (rule codesI [where f = "\<lambda>_. []"]) (auto intro: readsI)

lemma wr_inj:
  assumes "wr xs = wr ys"
  shows "xs = ys"
proof -
  have "bytes_of (pad xs) = bytes_of (pad ys)" using assms by (simp add: wr_def)
  then have "pad xs = pad ys" by (metis bits_of_bytes_of_pad)
  moreover have "pad_len (length xs) = pad_len (length ys)" using assms by (simp add: wr_def pad_len_def)
  ultimately show ?thesis by (simp add: pad_def)
qed

lemma codes_exists:
  assumes "codes k E D P"
  shows "\<exists>v. P v"
proof -
  obtain ns where r: "reads D [] ns P" using codesD [OF assms, of "[]"] by blast
  have "bits_of (bytes_of (pad ns)) = [] @ ns @ replicate (pad_len (length ns)) False"
    unfolding bits_of_bytes_of_pad by (simp add: pad_def)
  from readsD [OF r this] show ?thesis by blast
qed

lemma codes_bind:
  assumes 1: "codes k1 E1 D1 P" and 2: "\<And>v. P v \<Longrightarrow> codes k2 E2 (F v) Q" and k: "k \<le> k1 + k2"
  shows "codes k (bind E1 (\<lambda>_. E2)) (bind D1 F) Q"
  unfolding codes_def
proof
  fix bs
  obtain v0 where v0: "P v0" using codes_exists [OF 1] by blast
  obtain ns where n: "E1 (wr bs) = (Inr (), wr (bs @ ns))" "k1 \<le> length ns" "reads D1 bs ns P"
    using codesD [OF 1, of bs] by blast
  obtain ms where m: "E2 (wr (bs @ ns)) = (Inr (), wr ((bs @ ns) @ ms))" "k2 \<le> length ms"
    using codesD [OF 2 [OF v0], of "bs @ ns"] by blast
  have f: "reads (F v) (bs @ ns) ms Q" if pv: "P v" for v
  proof -
    obtain ms' where m': "E2 (wr (bs @ ns)) = (Inr (), wr ((bs @ ns) @ ms'))" "reads (F v) (bs @ ns) ms' Q"
      using codesD [OF 2 [OF pv], of "bs @ ns"] by blast
    have "(bs @ ns) @ ms' = (bs @ ns) @ ms" by (rule wr_inj) (use m(1) m'(1) in simp)
    then show ?thesis using m'(2) by simp
  qed
  have "reads (bind D1 F) bs (ns @ ms) Q"
  proof (rule readsI)
    fix b rest assume b: "bits_of b = bs @ (ns @ ms) @ rest"
    then have b': "bits_of b = bs @ ns @ (ms @ rest)" "bits_of b = (bs @ ns) @ ms @ rest" by simp_all
    obtain v where v: "D1 (rd b (length bs)) = (Inr v, rd b (length (bs @ ns)))" "P v"
      using readsD [OF n(3) b'(1)] by blast
    obtain w where w: "F v (rd b (length (bs @ ns))) = (Inr w, rd b (length ((bs @ ns) @ ms)))" "Q w"
      using readsD [OF f [OF v(2)] b'(2)] by blast
    show "\<exists>w. bind D1 F (rd b (length bs)) = (Inr w, rd b (length (bs @ ns @ ms))) \<and> Q w"
      by (rule exI [of _ w]) (use v(1) w in \<open>simp add: bind_def\<close>)
  qed
  moreover have "bind E1 (\<lambda>_. E2) (wr bs) = (Inr (), wr (bs @ ns @ ms))" using m(1) n(1) by (simp add: bind_def)
  ultimately show "\<exists>ns. bind E1 (\<lambda>_. E2) (wr bs) = (Inr (), wr (bs @ ns)) \<and> k \<le> length ns \<and> reads (bind D1 F) bs ns Q"
    using n(2) m(2) k by (intro exI [of _ "ns @ ms"]) simp
qed

lemma codes_weaken: "codes k E D P \<Longrightarrow> j \<le> k \<Longrightarrow> (\<And>v. P v \<Longrightarrow> Q v) \<Longrightarrow> codes j E D Q"
  unfolding codes_def reads_def by (meson le_trans)

lemma codes_eq: "codes k E D P \<Longrightarrow> E = E' \<Longrightarrow> D = D' \<Longrightarrow> codes k E' D' P"
  by simp

lemma bind_ret_unit [simp]: "bind E (\<lambda>_. ret ()) = (E :: unit writer)"
  by (rule ext) (auto simp: bind_def split: prod.split sum.split)

lemma bind_ret [simp]: "bind D ret = D"
  by (rule ext) (auto simp: bind_def split: prod.split sum.split)

lemma ret_bind [simp]: "bind (ret x) F = F x"
  by (rule ext) simp

lemma bind_bind [simp]: "bind (bind m f) g = bind m (\<lambda>x. bind (f x) g)"
  by (rule ext) (auto simp: bind_def split: prod.split sum.split)

lemma fail_bind [simp]: "bind (fail e) F = fail e"
  by (rule ext) (simp add: bind_def)

text \<open>The result of the reader is converted.\<close>

lemma codes_map:
  assumes "codes k E D P" "\<And>v. P v \<Longrightarrow> Q (f v)"
  shows "codes k E (bind D (\<lambda>v. ret (f v))) Q"
proof -
  have "codes k (bind E (\<lambda>_. ret ())) (bind D (\<lambda>v. ret (f v))) Q"
    by (rule codes_bind [OF assms(1), of 0]) (auto intro: codes_ret assms(2))
  then show ?thesis by simp
qed

section \<open>Bits\<close>

lemma take_bit_fits: "drop_bit n (v :: 'a::len word) = 0 \<Longrightarrow> take_bit n v = v"
  using bits_ident [of n v] by simp

lemma codes_bits:
  assumes "drop_bit n v = 0" "0 < n"
  shows "codes n (putBitsValue v n) (getBitsValue n) ((=) v)"
proof (rule codesI [where f = "\<lambda>_. to_bits n v"], intro conjI readsI)
  fix bs b rest
  show "putBitsValue v n (wr bs) = (Inr (), wr (bs @ to_bits n v))" by (rule putBitsValue_wr [OF assms(1)])
  assume b: "bits_of b = bs @ to_bits n v @ rest"
  have "to_bits n v \<noteq> []" using assms(2) by (metis length_to_bits length_greater_0_conv)
  from getBitsValue_rd [OF b this] show "\<exists>w. getBitsValue n (rd b (length bs)) = (Inr w, rd b (length (bs @ to_bits n v))) \<and> v = w"
    using assms(1) by (simp add: take_bit_fits)
qed simp

lemma codes_align: "codes 0 appendAlignBits parseAlignBits (\<lambda>_. True)"
proof (rule codesI [where f = "\<lambda>bs. replicate (pad_len (length bs)) False"], intro conjI readsI)
  fix bs b rest
  have p: "pad bs = bs @ replicate (pad_len (length bs)) False" by (simp add: pad_def)
  then show "appendAlignBits (wr bs) = (Inr (), wr (bs @ replicate (pad_len (length bs)) False))" by simp
  assume "bits_of b = bs @ replicate (pad_len (length bs)) False @ rest"
  then have "bits_of b = pad bs @ rest" using p by simp
  from parseAlignBits_rd [OF this] show "\<exists>v. parseAlignBits (rd b (length bs)) =
      (Inr v, rd b (length (bs @ replicate (pad_len (length bs)) False))) \<and> True" using p by simp
qed simp

lemma range_bits_enough:
  assumes "r \<le> 255"
  shows "0 < range_bits r" "r \<le> 2 ^ range_bits r" "range_bits r \<le> 8"
proof -
  have "8 \<in> set (filter (\<lambda>i. r \<le> 2 ^ i) [1..<9])" using assms by simp
  then obtain i ks where f: "filter (\<lambda>i. r \<le> 2 ^ i) [1..<9] = i # ks" by (metis list.exhaust list.set(1) empty_iff)
  then have "i \<in> set (filter (\<lambda>i. r \<le> 2 ^ i) [1..<9])" by simp
  then have "1 \<le> i \<and> i < 9 \<and> r \<le> 2 ^ i" by simp
  then show "0 < range_bits r" "r \<le> 2 ^ range_bits r" "range_bits r \<le> 8" unfolding range_bits_def f by simp_all
qed

lemma drop_bit_fits: "uint v < 2 ^ n \<Longrightarrow> drop_bit n v = 0" for v :: u64
proof -
  assume "uint v < 2 ^ n"
  then have "int (unat v) < int (2 ^ n)" by simp
  then have "unat v < 2 ^ n" by (simp only: of_nat_less_iff)
  then show ?thesis by (rule drop_bit_eq_zero)
qed

lemma codes_constraint:
  assumes "uint v < r" "r \<le> 65536"
  shows "codes 1 (appendConstraintValue r v) (parseConstraintValue r) ((=) v)"
proof -
  consider (bits) "r \<le> 255" | (octet) "r = 256" | (two) "r > 256" using assms by linarith
  then show ?thesis
  proof cases
    case bits
    note r = range_bits_enough [OF bits]
    have "uint v < 2 ^ range_bits r" using assms r(2) by linarith
    then have "drop_bit (range_bits r) v = 0" by (rule drop_bit_fits)
    moreover have "\<not> r < 0" using assms uint_ge_0 [of v] by linarith
    ultimately show ?thesis using bits r(1) codes_bits [of "range_bits r" v]
      by (auto simp: appendConstraintValue_def parseConstraintValue_def intro: codes_weaken)
  next
    case octet
    then have "drop_bit 8 v = 0" using assms by (intro drop_bit_fits) simp
    from codes_bind [OF codes_align codes_bits [OF this], of 1] show ?thesis using octet
      by (simp add: appendConstraintValue_def parseConstraintValue_def)
  next
    case two
    then have "drop_bit 16 v = 0" using assms by (intro drop_bit_fits) simp
    from codes_bind [OF codes_align codes_bits [OF this], of 1] show ?thesis using two assms
      by (simp add: appendConstraintValue_def parseConstraintValue_def)
  qed
qed

section \<open>Lengths\<close>

lemma codes_cong: "codes k E' D P \<Longrightarrow> (\<And>bs. E (wr bs) = E' (wr bs)) \<Longrightarrow> codes k E D P"
  by (simp add: codes_def)

lemma codes_ignore_err: "codes k E D P \<Longrightarrow> codes k (ignore_err E) D P"
proof (rule codes_cong)
  fix bs
  assume "codes k E D P"
  from codesD [OF this, of bs] show "ignore_err E (wr bs) = E (wr bs)" by (auto simp: ignore_err_def)
qed

lemma drop_take [simp]: "drop_bit n (take_bit n v) = 0" for v :: "'a::len word"
  by (rule bit_eqI) (simp add: bit_drop_bit_eq bit_take_bit_iff)

lemma put_split:
  assumes "drop_bit (m + n) v = 0"
  shows "putBitsValue v (m + n) (wr bs) = bind (putBitsValue (drop_bit n v) m) (\<lambda>_. putBitsValue (take_bit n v) n) (wr bs)"
proof -
  have "drop_bit m (drop_bit n v) = 0" "drop_bit n (take_bit n v) = 0" using assms by (simp_all add: drop_bit_drop_bit)
  moreover have "to_bits n (take_bit n v) = to_bits n v"
    by (rule nth_equalityI) (auto simp: to_bits_def bit_take_bit_iff)
  ultimately show ?thesis using assms by (simp add: putBitsValue_wr to_bits_append bind_def)
qed

lemma and_exp: "x AND 2 ^ n = 0 \<longleftrightarrow> \<not> bit x n" for x :: "'a::len word"
  by (rule and_exp_eq_0_iff_not_bit)

lemma long_length:
  fixes x :: u64
  assumes "uint x < 2 ^ 14"
  defines "w \<equiv> x OR 0x8000"
  shows "drop_bit (8 + 8) w = 0" "drop_bit 8 w AND 128 \<noteq> 0" "drop_bit 8 w AND 64 = 0"
    "push_bit 8 (drop_bit 8 w AND 63) OR take_bit 8 w = x"
proof -
  have x: "bit x k \<Longrightarrow> k < 14" for k
  proof -
    have "drop_bit 14 x = 0" using assms(1) by (rule drop_bit_fits)
    then have "\<not> bit x (14 + j)" for j by (metis bit_0_eq bit_drop_bit_eq bot_apply bot_bool_def comp_apply)
    then show "bit x k \<Longrightarrow> k < 14" by (metis le_add_diff_inverse not_less)
  qed
  have n: "(0x8000 :: u64) = 2 ^ 15" "(128 :: u64) = 2 ^ 7" "(64 :: u64) = 2 ^ 6" "(63 :: u64) = mask 6"
    by (simp_all add: mask_eq_exp_minus_1)
  have b: "bit w k \<longleftrightarrow> bit x k \<or> k = 15" for k
  proof -
    have "bit (2 ^ 15 :: u64) k \<longleftrightarrow> k = 15" by (subst bit_exp_iff) auto
    then show ?thesis unfolding w_def n bit_or_iff by blast
  qed
  show "drop_bit (8 + 8) w = 0" by (rule bit_eqI) (auto simp: bit_drop_bit_eq b dest: x)
  show "drop_bit 8 w AND 128 \<noteq> 0" unfolding n and_exp by (simp add: bit_drop_bit_eq b)
  show "drop_bit 8 w AND 64 = 0" unfolding n and_exp using x [of 14] by (auto simp: bit_drop_bit_eq b)
  show "push_bit 8 (drop_bit 8 w AND 63) OR take_bit 8 w = x" unfolding n
    by (rule bit_eqI) (auto simp: bit_or_iff bit_push_bit_iff bit_and_iff bit_drop_bit_eq bit_take_bit_iff bit_mask_iff b dest: x)
qed

lemma codes_length:
  assumes "0 < sizeRange \<and> sizeRange \<le> 65536 \<longrightarrow> int n < sizeRange" "n < 16384"
  shows "codes 1 (appendLength sizeRange n) (parseLength sizeRange) ((=) (of_nat n, False))"
proof (cases "0 < sizeRange \<and> sizeRange \<le> 65536")
  case True
  have "uint (of_nat n :: u64) = int n" using assms(2) by (simp add: uint_nat unat_of_nat)
  then have "codes 1 (appendConstraintValue sizeRange (of_nat n)) (parseConstraintValue sizeRange) ((=) (of_nat n))"
    using True assms by (intro codes_constraint) simp_all
  from codes_map [OF this, of "(=) (of_nat n, False)" "\<lambda>v. (v, False)"] show ?thesis using True
    by (simp add: appendLength_def parseLength_def)
next
  case False
  let ?x = "of_nat n :: u64"
  have u: "uint ?x = int n" using assms(2) by (simp add: uint_nat unat_of_nat)
  have parse: "parseLength sizeRange = bind parseAlignBits (\<lambda>_. bind (getBitsValue 8) (\<lambda>firstByte.
        if firstByte AND 128 = 0 then ret (firstByte AND 0x7F, False)
        else if firstByte AND 64 = 0 then
          bind (getBitsValue 8) (\<lambda>secondByte. ret (push_bit 8 (firstByte AND 63) OR secondByte, False))
        else
          let firstByte = firstByte AND 63 in
          if firstByte < 1 \<or> firstByte > 4 then fail (Err ''Parse Length Out of Constraint'')
          else ret (16384 * firstByte, True)))" (is "_ = bind parseAlignBits (\<lambda>_. ?D)")
    using False by (auto simp: parseLength_def)
  have "codes 1 (if n \<le> 127 then putBitsValue ?x 8 else putBitsValue (?x OR 0x8000) 16) ?D ((=) (?x, False))"
  proof (cases "n \<le> 127")
    case True
    have m: "(127 :: u64) = mask 7" by (simp add: mask_eq_exp_minus_1)
    have "drop_bit 7 ?x = 0" using u True by (intro drop_bit_fits) simp
    then have "take_bit 7 ?x = ?x" by (rule take_bit_fits)
    then have s: "?x AND 127 = ?x" unfolding m by (simp add: take_bit_eq_mask)
    then have "?x AND 128 = (?x AND 127) AND 128" by simp
    then have h: "?x AND 128 = 0" by (simp add: and.assoc)
    have d: "drop_bit 8 ?x = 0" using u True by (intro drop_bit_fits) simp
    have "codes 1 (bind (putBitsValue ?x 8) (\<lambda>_. ret ())) ?D ((=) (?x, False))"
      by (rule codes_bind [OF codes_bits [OF d], of 0]) (auto simp: h s intro: codes_ret)
    then show ?thesis using True by simp
  next
    case False
    have "uint ?x < 2 ^ 14" using u assms(2) by simp
    note w = long_length [OF this]
    let ?w = "?x OR 0x8000"
    have d: "drop_bit 8 (drop_bit 8 ?w) = 0" "drop_bit 8 (take_bit 8 ?w) = 0" using w(1) by (simp_all add: drop_bit_drop_bit)
    have "codes 1 (bind (putBitsValue (drop_bit 8 ?w) 8) (\<lambda>_. putBitsValue (take_bit 8 ?w) 8)) ?D ((=) (?x, False))"
    proof (rule codes_bind [OF codes_bits [OF d(1)], of 8])
      fix f assume "drop_bit 8 ?w = f"
      moreover have "codes 8 (putBitsValue (take_bit 8 ?w) 8)
          (bind (getBitsValue 8) (\<lambda>secondByte. ret (push_bit 8 (drop_bit 8 ?w AND 63) OR secondByte, False))) ((=) (?x, False))"
        by (rule codes_map [OF codes_bits [OF d(2)]]) (use w(4) in auto)
      ultimately show "codes 8 (putBitsValue (take_bit 8 ?w) 8) (if f AND 128 = 0 then ret (f AND 0x7F, False)
        else if f AND 64 = 0 then
          bind (getBitsValue 8) (\<lambda>secondByte. ret (push_bit 8 (f AND 63) OR secondByte, False))
        else
          let f = f AND 63 in
          if f < 1 \<or> f > 4 then fail (Err ''Parse Length Out of Constraint'')
          else ret (16384 * f, True)) ((=) (?x, False))"
        using w(2,3) by auto
    qed simp_all
    then show ?thesis using False put_split [OF w(1)] by (auto intro: codes_cong)
  qed
  from codes_bind [OF codes_align this, of 1] show ?thesis using False assms(2) unfolding parse
    by (auto simp: appendLength_def)
qed

section \<open>Octet strings and bit strings\<close>

lemma length_pad_eq: "length (pad bs) = length bs + pad_len (length bs)"
  by (simp add: pad_def)

text \<open>Octets at an octet boundary, and the bits of which the last octet is not full.\<close>

lemma taken_bytes:
  assumes "bits_of b = pad bs @ ns @ rest" "k = (length ns + 7) div 8"
  shows "length (pad bs) div 8 + k \<le> length b" "length (take k (drop (length (pad bs) div 8) b)) = k"
    "take (length ns) (bits_of (take k (drop (length (pad bs) div 8) b))) = ns"
proof -
  have p: "8 * (length (pad bs) div 8) = length (pad bs)" using length_pad [of bs] by (metis mult_div_mod_eq add_0_right)
  have c: "length ns \<le> 8 * k" "8 * k \<le> length ns + 7" unfolding assms(2) by (rule ceil8)+
  have "8 * length b = length (pad bs) + length ns + length rest" using arg_cong [OF assms(1), of length] by simp
  then show l: "length (pad bs) div 8 + k \<le> length b" using p c by linarith
  then show "length (take k (drop (length (pad bs) div 8) b)) = k" by simp
  have "bits_of (take k (drop (length (pad bs) div 8) b)) = take (8 * k) (ns @ rest)"
    using assms(1) p by (simp add: bits_of_take bits_of_drop)
  then show "take (length ns) (bits_of (take k (drop (length (pad bs) div 8) b))) = ns" using c(1) by simp
qed

definition same_bits :: "nat \<Rightarrow> bytes \<Rightarrow> bytes \<Rightarrow> bool" where
  "same_bits n x y \<longleftrightarrow> length x = length y \<and> take n (bits_of x) = take n (bits_of y)"

lemma skip_bits_rd: "skip_bits n (rd b (length (pad bs))) = rd b (length (pad bs) + n)"
proof -
  have p: "8 * (length (pad bs) div 8) = length (pad bs)" using length_pad [of bs] by (metis mult_div_mod_eq add_0_right)
  then have "(length (pad bs) + n) div 8 = length (pad bs) div 8 + n div 8" "(length (pad bs) + n) mod 8 = n mod 8"
    using div_mult_self4 [of 8 "length (pad bs) div 8" n] mod_mult_self4 [of 8 "length (pad bs) div 8" n] by simp_all
  then show ?thesis by (simp add: skip_bits_def rd_def ceil8_div)
qed

text \<open>
  Octets written at an octet boundary and read again; \<open>F\<close> sets the offset of the writer and \<open>S\<close> the position of
  the reader behind them.
\<close>

lemma codes_run:
  assumes x: "bits_of x = pad ns" and ns: "ns \<noteq> []" and k: "k = length x"
    and F: "\<And>bs. F (wr (pad bs @ pad ns)) = (Inr (), wr (pad bs @ ns))"
    and S: "\<And>b bs. S (rd b (length (pad bs))) = rd b (length (pad bs) + length ns)"
  shows "codes 1 (bind appendAlignBits (\<lambda>_. bind (append_bytes x) (\<lambda>_. F)))
    (bind parseAlignBits (\<lambda>_. bind (take_bytes msg k) (\<lambda>y. bind (modify S) (\<lambda>_. ret y)))) (same_bits (length ns) x)"
proof (rule codesI [where f = "\<lambda>bs. replicate (pad_len (length bs)) False @ ns"], intro conjI readsI)
  fix bs b rest
  have k': "k = (length ns + 7) div 8" using k arg_cong [OF x, of length] by (simp add: length_pad_eq pad_len_ceil)
  have p: "bs @ replicate (pad_len (length bs)) False @ zs = pad bs @ zs" for zs by (simp add: pad_def)
  have "append_bytes x (wr (pad bs)) = (Inr (), wr (pad bs @ pad ns))" using append_bytes_wr [OF length_pad] x by simp
  then show "bind appendAlignBits (\<lambda>_. bind (append_bytes x) (\<lambda>_. F)) (wr bs) =
      (Inr (), wr (bs @ replicate (pad_len (length bs)) False @ ns))"
    unfolding p using F by (simp add: bind_def)
  show "1 \<le> length (replicate (pad_len (length bs)) False @ ns)" using ns by (cases ns) auto
  assume b: "bits_of b = bs @ (replicate (pad_len (length bs)) False @ ns) @ rest"
  then have b': "bits_of b = pad bs @ ns @ rest" by (simp add: p)
  let ?y = "take k (drop (length (pad bs) div 8) b)"
  note t = taken_bytes [OF b' k']
  have "same_bits (length ns) x ?y" using t(2,3) x k by (simp add: same_bits_def) (simp add: pad_def)
  moreover have "parseAlignBits (rd b (length bs)) = (Inr (), rd b (length (pad bs)))" by (rule parseAlignBits_rd [OF b'])
  ultimately show "\<exists>y. bind parseAlignBits (\<lambda>_. bind (take_bytes msg k) (\<lambda>y. bind (modify S) (\<lambda>_. ret y)))
      (rd b (length bs)) = (Inr y, rd b (length (bs @ replicate (pad_len (length bs)) False @ ns))) \<and> same_bits (length ns) x y"
    using t(1) S unfolding p by (intro exI [of _ ?y]) (simp add: bind_def take_bytes_def)
qed

lemma same_bits_all: "same_bits (8 * length x) x y \<Longrightarrow> x = y"
  by (auto simp: same_bits_def intro: bits_of_inj)

lemma codes_octets:
  assumes "x \<noteq> []"
  shows "codes 1 (bind appendAlignBits (\<lambda>_. append_bytes x))
    (bind parseAlignBits (\<lambda>_. bind (take_bytes msg (length x)) (\<lambda>y.
      bind (modify (\<lambda>pd. pd\<lparr>byteOffset := byteOffset pd + length x\<rparr>)) (\<lambda>_. ret y)))) ((=) x)"
proof -
  have a: "8 * (length (pad bs) div 8) = length (pad bs)" for bs using length_pad [of bs] by (metis mult_div_mod_eq add_0_right)
  have S: "(rd b (length (pad bs)))\<lparr>byteOffset := byteOffset (rd b (length (pad bs))) + length x\<rparr> = rd b (length (pad bs) + length (bits_of x))"
    for b bs using div_mult_self4 [of 8 "length x" "length (pad bs)"] by (simp add: rd_def add.commute)
  have "codes 1 (bind appendAlignBits (\<lambda>_. bind (append_bytes x) (\<lambda>_. ret ())))
    (bind parseAlignBits (\<lambda>_. bind (take_bytes msg (length x)) (\<lambda>y.
      bind (modify (\<lambda>pd. pd\<lparr>byteOffset := byteOffset pd + length x\<rparr>)) (\<lambda>_. ret y)))) (same_bits (length (bits_of x)) x)"
  proof (rule codes_run)
    show "bits_of x \<noteq> []" using assms by (metis length_bits_of length_0_conv mult_is_0 zero_neq_numeral)
  qed (use S in simp_all)
  then show ?thesis unfolding bind_ret_unit by (rule codes_weaken) (simp_all add: same_bits_all)
qed

lemma codes_bit_run:
  assumes "bits_of x = pad ns" "ns \<noteq> []" "k = length x"
  shows "codes 1 (bind appendAlignBits (\<lambda>_. bind (append_bytes x) (\<lambda>_. modify (\<lambda>pd. pd\<lparr>raw_off := length ns mod 8\<rparr>))))
    (bind parseAlignBits (\<lambda>_. bind (take_bytes msg k) (\<lambda>y. bind (modify (skip_bits (length ns))) (\<lambda>_. ret y)))) (same_bits (length ns) x)"
proof (rule codes_run [OF assms])
  fix bs
  have lp: "length (pad bs) mod 8 = 0" by (rule length_pad)
  show "modify (\<lambda>pd. pd\<lparr>raw_off := length ns mod 8\<rparr>) (wr (pad bs @ pad ns)) = (Inr (), wr (pad bs @ ns))"
    using lp pad_append [OF lp, of ns] pad_append [OF lp, of "pad ns"] mod_add_left_eq [of "length (pad bs)" 8 "length ns"]
    by (simp add: wr_def)
qed (rule skip_bits_rd)

lemma codes_bit_string:
  assumes "bits_of x = pad ns" "ns \<noteq> []"
  shows "codes 1 (putBitString x (length ns)) (getBitString (length ns)) ((=) x)"
proof (rule codesI [where f = "\<lambda>_. ns"], intro conjI readsI)
  fix bs b rest
  show "putBitString x (length ns) (wr bs) = (Inr (), wr (bs @ ns))" by (rule putBitString_wr [OF assms])
  show "1 \<le> length ns" using assms(2) by (cases ns) auto
  assume "bits_of b = bs @ ns @ rest"
  from getBitString_rd [OF this assms(2)] show "\<exists>v. getBitString (length ns) (rd b (length bs)) = (Inr v, rd b (length (bs @ ns))) \<and> x = v"
    using assms(1) by (metis bytes_of_bits_of length_append)
qed

text \<open>What the loops do with one fragment.\<close>

lemma octets_loop_single:
  assumes "n < 16384" "n + lb = length bytes"
  shows "octets_loop bytes sizeRange lb n 0 = bind (appendLength sizeRange n) (\<lambda>_.
    if bytes = [] then ret () else bind appendAlignBits (\<lambda>_. append_bytes bytes))"
proof
  fix pd
  have f: "fragment n = n" using assms(1) by (simp add: fragment_def)
  show "octets_loop bytes sizeRange lb n 0 pd = bind (appendLength sizeRange n) (\<lambda>_.
    if bytes = [] then ret () else bind appendAlignBits (\<lambda>_. append_bytes bytes)) pd"
    by (subst octets_loop.simps) (simp add: f assms(2) bind_def appendAlignBits_def append_bytes_def split: prod.split sum.split)
qed

lemma octets_read_unfold:
  "octets_read msg sizeRange lb [] = bind (parseLength sizeRange) (\<lambda>(len, again).
     if unat len + lb = 0 then ret []
     else bind parseAlignBits (\<lambda>_. bind (take_bytes msg (unat len + lb)) (\<lambda>y.
       bind (modify (\<lambda>pd. pd\<lparr>byteOffset := byteOffset pd + (unat len + lb)\<rparr>)) (\<lambda>_.
       if again then octets_read msg sizeRange lb y else ret y))))"
  by (rule ext, subst octets_read.simps) (auto simp: bind_def take_bytes_def split: prod.split sum.split)

lemma bits_loop_single:
  assumes "n < 16384" "length bytes = (n + lb + 7) div 8"
  shows "bits_loop bytes sizeRange lb n 0 = bind (appendLength sizeRange n) (\<lambda>_.
    if n + lb = 0 then ret () else bind appendAlignBits (\<lambda>_. bind (append_bytes bytes) (\<lambda>_. modify (\<lambda>pd. pd\<lparr>raw_off := (n + lb) mod 8\<rparr>))))"
proof
  fix pd
  have f: "fragment n = n" using assms(1) by (simp add: fragment_def)
  show "bits_loop bytes sizeRange lb n 0 pd = bind (appendLength sizeRange n) (\<lambda>_.
    if n + lb = 0 then ret () else bind appendAlignBits (\<lambda>_. bind (append_bytes bytes) (\<lambda>_. modify (\<lambda>pd. pd\<lparr>raw_off := (n + lb) mod 8\<rparr>)))) pd"
    by (subst bits_loop.simps)
      (simp add: f assms(2) [symmetric] bind_def appendAlignBits_def append_bytes_def Let_def del: bits_loop.simps split: prod.split sum.split)
qed

lemma bits_read_unfold:
  "bits_read sizeRange lb ([], 0) = bind (parseLength sizeRange) (\<lambda>(len, again).
     if unat len + lb = 0 then ret ([], 0)
     else bind parseAlignBits (\<lambda>_. bind (take_bytes ''PER data out of range'' ((unat len + lb + 7) div 8)) (\<lambda>y.
       bind (modify (skip_bits (unat len + lb))) (\<lambda>_.
       if again then bits_read sizeRange lb (y, unat len + lb) else ret (y, unat len + lb)))))"
  by (rule ext, subst bits_read.simps) (auto simp: bind_def take_bytes_def Let_def split: prod.split sum.split)

section \<open>Size constraints\<close>

text \<open>
  The size constraints under which the decoder can find the length: an extensible size has both bounds, an
  upper bound comes with a lower bound, the length is within the bounds (or above an extensible upper bound),
  and one fragment is enough.
\<close>

fun size_ok :: "bool \<Rightarrow> int option \<Rightarrow> int option \<Rightarrow> nat \<Rightarrow> bool" where
  "size_ok ext None None n \<longleftrightarrow> \<not> ext \<and> n < 16384"
| "size_ok ext (Some lb) None n \<longleftrightarrow> \<not> ext \<and> 0 \<le> lb \<and> lb \<le> int n \<and> int n - lb < 16384"
| "size_ok ext (Some lb) (Some ub) n \<longleftrightarrow> 0 \<le> lb \<and> lb \<le> ub \<and> 0 < ub \<and> ub < 2 ^ 62 \<and>
     (if int n \<le> ub then lb \<le> int n \<and> int n - lb < 16384 else ext \<and> n < 16384)"
| "size_ok ext None (Some ub) n \<longleftrightarrow> False"

definition ext_bit :: "bool \<Rightarrow> bool reader" where
  "ext_bit ext = (if ext then bind (getBitsValue 1) (\<lambda>v. ret (v \<noteq> 0)) else ret False)"

lemma int64_id [simp]: "- (2 ^ 63) \<le> x \<Longrightarrow> x < 2 ^ 63 \<Longrightarrow> int64 x = x"
  by (simp add: int64_def)

lemma codes_ext: "codes 1 (ignore_err (putBitsValue (of_bool e) 1)) (ext_bit True) ((=) e)"
proof -
  have "uint (of_bool e :: u64) < 2 ^ 1" by simp
  then have "drop_bit 1 (of_bool e :: u64) = 0" by (rule drop_bit_fits)
  from codes_ignore_err [OF codes_bits [OF this]] show ?thesis
    unfolding ext_bit_def by (auto intro!: codes_map)
qed

text \<open>Both sides find the same lower bound and range.\<close>

lemma size_agree:
  assumes "size_ok ext lb ub n"
  shows "\<exists>l u r e. size_bounds msg n ext lb ub =
      (if ext then bind (ignore_err (putBitsValue (of_bool e) 1)) (\<lambda>_. ret (l, u, r)) else ret (l, u, r)) \<and>
    (ext \<or> \<not> e) \<and> 0 \<le> l \<and> l \<le> int n \<and> u < 2 ^ 62 \<and>
    (let r' = (if u > 65535 then -1 else r) in
      (\<exists>u'. parse_bounds e lb ub = (l, u', r') \<and> (r' = 1 \<longrightarrow> u' = u)) \<and>
      (r' = 1 \<longrightarrow> u = int n \<and> 0 < n) \<and>
      (r' \<noteq> 1 \<longrightarrow> int n - l < 16384 \<and> (0 < r' \<and> r' \<le> 65536 \<longrightarrow> int n - l < r')))"
proof (cases lb)
  case None
  with assms have "ub = None" "\<not> ext" "n < 16384" by (cases ub; simp)+
  then show ?thesis using None
    by (intro exI [of _ 0] exI [of _ "-1"] exI [of _ "-1"] exI [of _ False]) (simp add: size_bounds_def parse_bounds_def)
next
  case (Some l)
  show ?thesis
  proof (cases ub)
    case None
    with assms Some show ?thesis
      by (intro exI [of _ l] exI [of _ "-1"] exI [of _ "-1"] exI [of _ False]) (simp add: size_bounds_def parse_bounds_def)
  next
    case (Some u)
    note ub = Some
    have u: "0 \<le> l" "l \<le> u" "0 < u" "u < 2 ^ 62" using assms ub \<open>lb = Some l\<close> by simp_all
    then have m: "u mod 2 ^ 64 = u" "int64 (u - l + 1) = u - l + 1" by simp_all
    show ?thesis
    proof (cases "int n \<le> u")
      case True
      then have n: "l \<le> int n" "int n - l < 16384" using assms ub \<open>lb = Some l\<close> by simp_all
      have "size_bounds msg n ext lb ub = (if ext then bind (ignore_err (putBitsValue (of_bool False) 1)) (\<lambda>_. ret (l, u, u - l + 1))
          else ret (l, u, u - l + 1))"
        using True u m by (simp add: size_bounds_def ub \<open>lb = Some l\<close>)
      moreover have "parse_bounds False lb ub = (l, u, if u > 65535 then -1 else u - l + 1)"
        using m by (simp add: parse_bounds_def ub \<open>lb = Some l\<close>)
      ultimately show ?thesis using u n True
        by (intro exI [of _ l] exI [of _ u] exI [of _ "u - l + 1"] exI [of _ False]) (auto simp: Let_def)
    next
      case False
      then have n: "ext" "n < 16384" using assms ub \<open>lb = Some l\<close> by simp_all
      have "size_bounds msg n ext lb ub = (if ext then bind (ignore_err (putBitsValue (of_bool True) 1)) (\<lambda>_. ret (0, u, -1)) else ret (0, u, -1))"
        using False n u m by (simp add: size_bounds_def ub \<open>lb = Some l\<close>)
      moreover have "parse_bounds True lb ub = (0, -1, -1)" by (simp add: parse_bounds_def)
      ultimately show ?thesis using u n
        by (intro exI [of _ 0] exI [of _ u] exI [of _ "-1"] exI [of _ True]) auto
    qed
  qed
qed

text \<open>The octet string after the size constraint has been looked at: fixed size, or with its length.\<close>

lemma octets_fixed:
  assumes "x \<noteq> []"
  shows "codes 1 (if length x > 2 then bind appendAlignBits (\<lambda>_. append_bytes x) else putBitString x (8 * length x))
    (if length x > 2 then bind parseAlignBits (\<lambda>_. bind (take_bytes msg (length x)) (\<lambda>y.
        bind (modify (\<lambda>pd. pd\<lparr>byteOffset := byteOffset pd + length x\<rparr>)) (\<lambda>_. ret y)))
     else getBitString (8 * length x)) ((=) x)"
proof (cases "length x > 2")
  case True
  then show ?thesis using codes_octets [OF assms] by simp
next
  case False
  have "bits_of x \<noteq> []" using assms by (metis length_bits_of length_0_conv mult_is_0 zero_neq_numeral)
  then show ?thesis using False codes_bit_string [of x "bits_of x"] by simp
qed

lemma octets_sized:
  assumes "n + lb = length x" "n < 16384" "0 < r \<and> r \<le> 65536 \<longrightarrow> int n < r"
  shows "codes 1 (octets_loop x r lb n 0) (octets_read msg r lb []) ((=) x)"
  unfolding octets_loop_single [OF assms(2,1)] octets_read_unfold
proof (rule codes_bind [OF codes_length [OF assms(3,2)]])
  fix v :: "u64 \<times> bool"
  assume v: "(of_nat n, False) = v"
  have n: "unat (of_nat n :: u64) = n" using assms(2) by (simp add: unat_of_nat)
  show "codes 0 (if x = [] then ret () else bind appendAlignBits (\<lambda>_. append_bytes x))
    (case v of (len, again) \<Rightarrow> if unat len + lb = 0 then ret []
     else bind parseAlignBits (\<lambda>_. bind (take_bytes msg (unat len + lb)) (\<lambda>y.
       bind (modify (\<lambda>pd. pd\<lparr>byteOffset := byteOffset pd + (unat len + lb)\<rparr>)) (\<lambda>_.
       if again then octets_read msg r lb y else ret y)))) ((=) x)"
  proof (cases "x = []")
    case True
    then show ?thesis using assms(1) by (auto simp: v [symmetric] n intro: codes_ret)
  next
    case False
    then show ?thesis using codes_octets [OF False, of "msg"] assms(1)
      by (auto simp: v [symmetric] n intro: codes_weaken)
  qed
qed simp

text \<open>An octet string that satisfies its size constraint.\<close>

lemma codes_prefix_bits:
  assumes "ext \<or> \<not> e" "codes j E (D e) P"
  shows "codes (of_bool ext + j) (bind (if ext then bind (ignore_err (putBitsValue (of_bool e) 1)) (\<lambda>_. ret t) else ret t) (\<lambda>_. E))
    (bind (ext_bit ext) D) P"
proof (cases ext)
  case True
  have "codes (1 + j) (bind (ignore_err (putBitsValue (of_bool e) 1)) (\<lambda>_. E)) (bind (ext_bit True) D) P"
    by (rule codes_bind [OF codes_ext]) (use assms(2) in auto)
  then show ?thesis using True by simp
qed (use assms in \<open>simp add: ext_bit_def\<close>)

lemma codes_prefix:
  assumes "ext \<or> \<not> e" "codes 1 E (D e) P"
  shows "codes 1 (bind (if ext then bind (ignore_err (putBitsValue (of_bool e) 1)) (\<lambda>_. ret t) else ret t) (\<lambda>_. E)) (bind (ext_bit ext) D) P"
  by (rule codes_weaken, rule codes_prefix_bits [where j = 1 and D = D, OF assms(1)]) (use assms(2) in simp_all)

lemma octets_codes:
  assumes "size_ok ext lb ub (length x)"
  shows "codes 1 (appendOctetString x ext lb ub) (bind (ext_bit ext) (\<lambda>e. parseOctetString e lb ub)) ((=) x)"
proof -
  let ?msg = "''OctetString Length is over upperbound''"
  obtain l u r e where sb: "size_bounds ?msg (length x) ext lb ub =
      (if ext then bind (ignore_err (putBitsValue (of_bool e) 1)) (\<lambda>_. ret (l, u, r)) else ret (l, u, r))"
    and e: "ext \<or> \<not> e" and l: "0 \<le> l" "l \<le> int (length x)" and u: "u < 2 ^ 62"
    and rest: "let r' = (if u > 65535 then -1 else r) in
      (\<exists>u'. parse_bounds e lb ub = (l, u', r') \<and> (r' = 1 \<longrightarrow> u' = u)) \<and>
      (r' = 1 \<longrightarrow> u = int (length x) \<and> 0 < length x) \<and>
      (r' \<noteq> 1 \<longrightarrow> int (length x) - l < 16384 \<and> (0 < r' \<and> r' \<le> 65536 \<longrightarrow> int (length x) - l < r'))"
    using size_agree [OF assms, of ?msg] by blast
  define r' where "r' = (if u > 65535 then -1 else r)"
  obtain u' where p: "parse_bounds e lb ub = (l, u', r')" "r' = 1 \<longrightarrow> u' = u"
    and r1: "r' = 1 \<longrightarrow> u = int (length x) \<and> 0 < length x"
    and r2: "r' \<noteq> 1 \<longrightarrow> int (length x) - l < 16384 \<and> (0 < r' \<and> r' \<le> 65536 \<longrightarrow> int (length x) - l < r')"
    using rest unfolding Let_def r'_def by blast
  let ?E = "if r' = 1 then
       if int (length x) \<noteq> u mod 2 ^ 64 then fail (Err ''OctetString Length is not match fix-sized'')
       else if length x > 2 then bind appendAlignBits (\<lambda>_. append_bytes x)
       else putBitString x (8 * length x)
     else octets_loop x r' (nat l) (nat ((int (length x) - l) mod 2 ^ 64)) 0"
  have "codes 1 ?E (parseOctetString e lb ub) ((=) x)"
  proof (cases "r' = 1")
    case True
    then have n: "u = int (length x)" "x \<noteq> []" using r1 by auto
    then show ?thesis using octets_fixed [OF n(2), of "''per data out of range''"] True p u
      by (cases "length x > 2") (simp_all add: parseOctetString_def Let_def)
  next
    case False
    have n: "nat ((int (length x) - l) mod 2 ^ 64) = nat (int (length x) - l)" using l r2 False by simp
    have "codes 1 (octets_loop x r' (nat l) (nat (int (length x) - l)) 0) (octets_read ''per data out of range '' r' (nat l) []) ((=) x)"
      by (rule octets_sized) (use False l r2 in auto)
    then show ?thesis using False p(1) unfolding n by (simp add: parseOctetString_def)
  qed
  from codes_prefix [where D = "\<lambda>e. parseOctetString e lb ub" and t = "(l, u, r)", OF e this]
  show ?thesis unfolding appendOctetString_def sb Let_def
    by (cases ext) (simp_all only: if_True if_False bind_bind ret_bind prod.case r'_def [symmetric])
qed

text \<open>The octets of a bit string with the unused bits cleared, as \<^verbatim>\<open>appendBitString\<close> leaves them.\<close>

definition masked :: "nat \<Rightarrow> bytes \<Rightarrow> bytes" where
  "masked n x = (if n mod 8 = 0 then x
     else x[(n + 7) div 8 - 1 := x ! ((n + 7) div 8 - 1) AND push_bit (8 - n mod 8) 0xff])"

lemma bits_of_masked:
  assumes "length x = (n + 7) div 8"
  shows "bits_of (masked n x) = pad (take n (bits_of x))"
proof -
  have c: "n \<le> 8 * length x" unfolding assms by (rule ceil8)
  then have len: "length (take n (bits_of x)) = n" by simp
  have p: "n + pad_len n = 8 * length x" unfolding assms by (rule pad_len_ceil)
  show ?thesis
  proof (rule nth_equalityI)
    show "length (bits_of (masked n x)) = length (pad (take n (bits_of x)))"
      using p len by (simp add: length_pad_eq masked_def del: length_take)
    fix i assume "i < length (bits_of (masked n x))"
    then have i: "i < 8 * length x" by (simp add: masked_def split: if_splits)
    then have k: "i div 8 < (n + 7) div 8" "i mod 8 < 8" "0 < n" using assms by (auto intro: Nat.gr0I)
    have "bits_of (masked n x) ! i \<longleftrightarrow> i < n \<and> bits_of x ! i"
    proof (cases "i div 8 = (n + 7) div 8 - 1 \<and> n mod 8 \<noteq> 0")
      case True
      then have "bits_of (masked n x) ! i = bit (x ! (i div 8) AND push_bit (8 - n mod 8) 255) (7 - i mod 8)"
        using i k(1) assms by (simp add: nth_bits_of masked_def)
      also have "\<dots> \<longleftrightarrow> bit (x ! (i div 8)) (7 - i mod 8) \<and> i mod 8 < n mod 8"
        using bit_mask_last [OF k(2), of n] True by (simp add: bit_and_iff)
      finally show ?thesis using last_octet(1) [OF k(3), of i] True i by (auto simp: nth_bits_of)
    next
      case False
      then have "bits_of (masked n x) ! i = bits_of x ! i" using i by (auto simp: nth_bits_of masked_def)
      moreover have "i < n"
      proof (cases "i div 8 = (n + 7) div 8 - 1")
        case True
        then show ?thesis using False last_octet(1) [OF k(3), of i] by simp
      next
        case False
        then show ?thesis using last_octet(2) [OF k(3) k(1)] by simp
      qed
      ultimately show ?thesis by simp
    qed
    then show "bits_of (masked n x) ! i = pad (take n (bits_of x)) ! i"
      using i p c len by (auto simp: pad_def nth_append)
  qed
qed

lemma length_masked [simp]: "length (masked n x) = length x"
  by (simp add: masked_def)

definition bit_string_eq :: "nat \<Rightarrow> bytes \<Rightarrow> bytes \<times> nat \<Rightarrow> bool" where
  "bit_string_eq n x w \<longleftrightarrow> snd w = n \<and> same_bits n x (fst w)"

lemma same_bits_masked:
  assumes "length x = (n + 7) div 8" "same_bits n (masked n x) y"
  shows "same_bits n x y"
proof -
  have "n \<le> 8 * length x" unfolding assms(1) by (rule ceil8)
  then have "take n (pad (take n (bits_of x))) = take n (bits_of x)" by (simp add: pad_def)
  then show ?thesis using assms(2) by (simp add: same_bits_def bits_of_masked [OF assms(1)])
qed

lemma bits_fixed:
  assumes len: "length x = (n + 7) div 8" and n: "0 < n"
  shows "codes 1 (if (n + 7) div 8 > 2 then
       bind appendAlignBits (\<lambda>_. bind (append_bytes (masked n x)) (\<lambda>_. modify (\<lambda>pd. pd\<lparr>raw_off := n mod 8\<rparr>)))
     else putBitString (masked n x) n)
    (if (n + 7) div 8 > 2 then
       bind parseAlignBits (\<lambda>_. bind (take_bytes msg ((n + 7) div 8)) (\<lambda>y. bind (modify (skip_bits n)) (\<lambda>_. ret (y, n))))
     else bind (getBitString n) (\<lambda>y. ret (y, n))) (bit_string_eq n x)"
proof -
  let ?ns = "take n (bits_of x)"
  have "n \<le> 8 * length x" unfolding len by (rule ceil8)
  then have ns1: "length ?ns = n" by simp
  then have "?ns \<noteq> []" using n by (metis list.size(3) less_irrefl)
  note ns = ns1 this
  note m = bits_of_masked [OF len]
  have s: "bit_string_eq n x (y, n)" if "same_bits n (masked n x) y" for y
    using same_bits_masked [OF len that] by (simp add: bit_string_eq_def)
  show ?thesis
  proof (cases "(n + 7) div 8 > 2")
    case True
    have "codes 1 (bind appendAlignBits (\<lambda>_. bind (append_bytes (masked n x)) (\<lambda>_. modify (\<lambda>pd. pd\<lparr>raw_off := n mod 8\<rparr>))))
      (bind parseAlignBits (\<lambda>_. bind (take_bytes msg ((n + 7) div 8)) (\<lambda>y. bind (modify (skip_bits n)) (\<lambda>_. ret y))))
      (same_bits n (masked n x))"
      using codes_bit_run [OF m ns(2), of "(n + 7) div 8" msg] unfolding ns(1) by (simp add: len)
    from codes_map [where f = "\<lambda>y. (y, n)" and Q = "bit_string_eq n x", OF this s] show ?thesis using True by (simp only: bind_bind ret_bind if_True)
  next
    case False
    have "codes 1 (putBitString (masked n x) n) (getBitString n) ((=) (masked n x))"
      using codes_bit_string [OF m ns(2)] unfolding ns(1) .
    then have "codes 1 (putBitString (masked n x) n) (getBitString n) (same_bits n (masked n x))"
      by (rule codes_weaken) (auto simp: same_bits_def)
    from codes_map [where f = "\<lambda>y. (y, n)" and Q = "bit_string_eq n x", OF this s] show ?thesis using False by simp
  qed
qed

lemma bits_sized:
  assumes len: "length x = (n + lb + 7) div 8" and n: "n < 16384" "0 < r \<and> r \<le> 65536 \<longrightarrow> int n < r"
  shows "codes 1 (bits_loop (masked (n + lb) x) r lb n 0) (bits_read r lb ([], 0)) (bit_string_eq (n + lb) x)"
proof -
  have len': "length (masked (n + lb) x) = (n + lb + 7) div 8" using len by simp
  let ?E = "if n + lb = 0 then ret () else bind appendAlignBits (\<lambda>_. bind (append_bytes (masked (n + lb) x)) (\<lambda>_. modify (\<lambda>pd. pd\<lparr>raw_off := (n + lb) mod 8\<rparr>)))"
  show ?thesis
    unfolding bits_loop_single [OF n(1) len'] bits_read_unfold
  proof (rule codes_bind [OF codes_length [OF n(2,1)]])
    fix v :: "u64 \<times> bool"
    assume v: "(of_nat n, False) = v"
    have u: "unat (of_nat n :: u64) = n" using n(1) by (simp add: unat_of_nat)
    show "codes 0 ?E (case v of (len, again) \<Rightarrow> if unat len + lb = 0 then ret ([], 0)
       else bind parseAlignBits (\<lambda>_. bind (take_bytes ''PER data out of range'' ((unat len + lb + 7) div 8)) (\<lambda>y.
         bind (modify (skip_bits (unat len + lb))) (\<lambda>_.
         if again then bits_read r lb (y, unat len + lb) else ret (y, unat len + lb))))) (bit_string_eq (n + lb) x)"
    proof (cases "n + lb = 0")
      case True
      then show ?thesis using len by (auto simp: v [symmetric] u bit_string_eq_def same_bits_def intro!: codes_ret)
    next
      case False
      let ?ns = "take (n + lb) (bits_of x)"
      have "n + lb \<le> 8 * length x" unfolding len by (rule ceil8)
      then have ns1: "length ?ns = n + lb" by simp
      then have "?ns \<noteq> []" using False by (metis list.size(3))
      note ns = ns1 this
      have "codes 1 (bind appendAlignBits (\<lambda>_. bind (append_bytes (masked (n + lb) x)) (\<lambda>_. modify (\<lambda>pd. pd\<lparr>raw_off := (n + lb) mod 8\<rparr>))))
        (bind parseAlignBits (\<lambda>_. bind (take_bytes ''PER data out of range'' ((n + lb + 7) div 8)) (\<lambda>y. bind (modify (skip_bits (n + lb))) (\<lambda>_. ret y))))
        (same_bits (n + lb) (masked (n + lb) x))"
        using codes_bit_run [OF bits_of_masked [OF len] ns(2), of "(n + lb + 7) div 8" "''PER data out of range''"] unfolding ns(1) by (simp add: len)
      moreover have "bit_string_eq (n + lb) x (y, n + lb)" if "same_bits (n + lb) (masked (n + lb) x) y" for y
        using same_bits_masked [OF len that] by (simp add: bit_string_eq_def)
      ultimately have "codes 1 (bind appendAlignBits (\<lambda>_. bind (append_bytes (masked (n + lb) x)) (\<lambda>_. modify (\<lambda>pd. pd\<lparr>raw_off := (n + lb) mod 8\<rparr>))))
        (bind (bind parseAlignBits (\<lambda>_. bind (take_bytes ''PER data out of range'' ((n + lb + 7) div 8)) (\<lambda>y. bind (modify (skip_bits (n + lb))) (\<lambda>_. ret y))))
          (\<lambda>y. ret (y, n + lb))) (bit_string_eq (n + lb) x)"
        by (rule codes_map [where f = "\<lambda>y. (y, n + lb)"])
      then have "codes 0 (bind appendAlignBits (\<lambda>_. bind (append_bytes (masked (n + lb) x)) (\<lambda>_. modify (\<lambda>pd. pd\<lparr>raw_off := (n + lb) mod 8\<rparr>))))
        (bind (bind parseAlignBits (\<lambda>_. bind (take_bytes ''PER data out of range'' ((n + lb + 7) div 8)) (\<lambda>y. bind (modify (skip_bits (n + lb))) (\<lambda>_. ret y))))
          (\<lambda>y. ret (y, n + lb))) (bit_string_eq (n + lb) x)" by (rule codes_weaken) simp_all
      then show ?thesis unfolding v [symmetric] prod.case u bind_bind ret_bind if_not_P [OF False] if_False .
    qed
  qed simp
qed

text \<open>A bit string that satisfies its size constraint comes back, but for its unused bits.\<close>

lemma bit_string_codes:
  assumes ok: "size_ok ext lb ub n" and len: "length x = (n + 7) div 8"
  shows "codes 1 (appendBitString x n ext lb ub) (bind (ext_bit ext) (\<lambda>e. parseBitString e lb ub)) (bit_string_eq n x)"
proof -
  let ?msg = "''bitString Length is over upperbound''"
  obtain l u r e where sb: "size_bounds ?msg n ext lb ub =
      (if ext then bind (ignore_err (putBitsValue (of_bool e) 1)) (\<lambda>_. ret (l, u, r)) else ret (l, u, r))"
    and e: "ext \<or> \<not> e" and l: "0 \<le> l" "l \<le> int n" and u: "u < 2 ^ 62"
    and rest: "let r' = (if u > 65535 then -1 else r) in
      (\<exists>u'. parse_bounds e lb ub = (l, u', r') \<and> (r' = 1 \<longrightarrow> u' = u)) \<and>
      (r' = 1 \<longrightarrow> u = int n \<and> 0 < n) \<and>
      (r' \<noteq> 1 \<longrightarrow> int n - l < 16384 \<and> (0 < r' \<and> r' \<le> 65536 \<longrightarrow> int n - l < r'))"
    using size_agree [OF ok, of ?msg] by blast
  define r' where "r' = (if u > 65535 then -1 else r)"
  obtain u' where p: "parse_bounds e lb ub = (l, u', r')" "r' = 1 \<longrightarrow> u' = u"
    and r1: "r' = 1 \<longrightarrow> u = int n \<and> 0 < n"
    and r2: "r' \<noteq> 1 \<longrightarrow> int n - l < 16384 \<and> (0 < r' \<and> r' \<le> 65536 \<longrightarrow> int n - l < r')"
    using rest unfolding Let_def r'_def by blast
  have m: "(if n mod 8 = 0 then ret x
      else bind (lift_res (\<lambda>_. idx x ((n + 7) div 8 - 1))) (\<lambda>b. ret (x[(n + 7) div 8 - 1 := b AND push_bit (8 - n mod 8) 0xff]))) =
      (ret (masked n x) :: bytes writer)"
  proof (cases "n mod 8 = 0")
    case False
    then have "(n + 7) div 8 - 1 < length x" using len by (simp add: ceil8_div)
    then show ?thesis using False by (intro ext) (simp add: idx_def masked_def bind_def)
  qed (simp add: masked_def)
  let ?E = "if r' = 1 then
       if (n + 7) div 8 > 2 then
         bind appendAlignBits (\<lambda>_. bind (append_bytes (masked n x)) (\<lambda>_. bind (modify (\<lambda>pd. pd\<lparr>raw_off := nat (u mod 8)\<rparr>)) (\<lambda>_.
         if int n \<noteq> u mod 2 ^ 64 then fail (Err ''bitString Length is not match fix-sized'') else ret ())))
       else putBitString (masked n x) n
     else bits_loop (masked n x) r' (nat l) (nat ((int n - l) mod 2 ^ 64)) 0"
  have "codes 1 ?E (parseBitString e lb ub) (bit_string_eq n x)"
  proof (cases "r' = 1")
    case True
    then have n: "u = int n" "0 < n" using r1 by auto
    have "nat ((int n + 7) div 8) = (n + 7) div 8" "nat (int n mod 8) = n mod 8"
      by (simp_all add: nat_div_distrib nat_mod_distrib nat_add_distrib)
    then show ?thesis using bits_fixed [OF len n(2), of "''PER data out of range''"] True p n u
      by (cases "(n + 7) div 8 > 2") (simp_all add: parseBitString_def Let_def)
  next
    case False
    then have n: "nat ((int n - l) mod 2 ^ 64) = nat (int n - l)" "nat (int n - l) + nat l = n" using l r2 by simp_all
    have "codes 1 (bits_loop (masked (nat (int n - l) + nat l) x) r' (nat l) (nat (int n - l)) 0) (bits_read r' (nat l) ([], 0))
      (bit_string_eq (nat (int n - l) + nat l) x)"
      by (rule bits_sized) (use False l r2 n(2) len in auto)
    then show ?thesis using False p(1) unfolding n by (simp add: parseBitString_def)
  qed
  from codes_prefix [where D = "\<lambda>e. parseBitString e lb ub" and t = "(l, u, r)", OF e this]
  show ?thesis unfolding appendBitString_def sb Let_def
    by (cases ext) (simp_all only: m if_True if_False bind_bind ret_bind prod.case r'_def [symmetric])
qed

end
