(* ===== verification/APER_Number.thy ===== *)
theory APER_Number
  imports APER_Primitive
begin

text \<open>
  Booleans, integers, enumerations and choice indices of the PER codec: what \<^verbatim>\<open>appendInteger\<close> and its siblings
  write, \<^verbatim>\<open>parseInteger\<close> and its siblings read back.
\<close>

section \<open>Octets of a number\<close>

lemma fits_iff: "drop_bit n v = 0 \<longleftrightarrow> uint v < 2 ^ n" for v :: u64
proof
  assume "drop_bit n v = 0"
  then have "take_bit n v = v" by (rule take_bit_fits)
  then have "uint v = take_bit n (uint v)" by (metis unsigned_take_bit_eq)
  also have "\<dots> < 2 ^ n" by simp
  finally show "uint v < 2 ^ n" .
qed (rule drop_bit_fits)

lemma count_octets_least:
  "drop_bit (8 * j) u = 0 \<Longrightarrow> j \<le> f \<Longrightarrow> \<exists>m \<le> j. count_octets f n u = n + m \<and> drop_bit (8 * m) u = 0"
proof (induction f arbitrary: j n u)
  case (Suc f)
  show ?case
  proof (cases "u = 0")
    case False
    then obtain i where j: "j = Suc i" using Suc.prems by (cases j) auto
    have "drop_bit (8 * i) (drop_bit 8 u) = 0" using Suc.prems(1) by (simp add: j drop_bit_drop_bit add.commute)
    then obtain m where "m \<le> i" "count_octets f (Suc n) (drop_bit 8 u) = Suc n + m" "drop_bit (8 * m) (drop_bit 8 u) = 0"
      using Suc.IH [of i "drop_bit 8 u" "Suc n"] Suc.prems(2) j by auto
    then show ?thesis using False j by (intro exI [of _ "Suc m"]) (simp add: drop_bit_drop_bit add.commute)
  qed auto
qed simp

lemma range_octets_least:
  "drop_bit (8 * Suc j) u = 0 \<Longrightarrow> j < f \<Longrightarrow> \<exists>m \<le> j. range_octets 0 f n u = n + m \<and> drop_bit (8 * Suc m) u = 0"
proof (induction f arbitrary: j n u)
  case (Suc f)
  show ?case
  proof (cases "drop_bit 8 u = 0")
    case True
    then show ?thesis by (intro exI [of _ 0]) simp
  next
    case False
    then obtain i where j: "j = Suc i" using Suc.prems(1) by (cases j) auto
    have "drop_bit (8 * Suc i) (drop_bit 8 u) = 0" using Suc.prems(1) by (simp add: j drop_bit_drop_bit add.commute)
    then obtain m where m: "m \<le> i" "range_octets 0 f (Suc n) (drop_bit 8 u) = Suc n + m" "drop_bit (8 * Suc m) (drop_bit 8 u) = 0"
      using Suc.IH [of i "drop_bit 8 u" "Suc n"] Suc.prems(2) j by auto
    have "drop_bit (8 * Suc (Suc m)) u = drop_bit (8 * Suc m) (drop_bit 8 u)" by (simp add: drop_bit_drop_bit add.commute)
    then show ?thesis using m False j by (intro exI [of _ "Suc m"]) (simp add: Let_def del: drop_bit_drop_bit)
  qed
qed simp

text \<open>The length that \<^verbatim>\<open>appendInteger\<close> computes is enough for the number, and at most eight.\<close>

lemma octets_enough:
  fixes u :: u64
  assumes "uint u < 2 ^ 63" "s = 7 \<or> s = 8"
  shows "\<exists>k. count_octets 127 1 (drop_bit s u) = Suc k \<and> k \<le> 7 \<and> uint u < 2 ^ (8 * k + s) \<and>
    (\<forall>j \<le> 7. uint u < 2 ^ (8 * j + s) \<longrightarrow> k \<le> j)"
proof -
  have all: "drop_bit (8 * j) (drop_bit s u) = 0 \<longleftrightarrow> uint u < 2 ^ (8 * j + s)" for j
    by (simp add: drop_bit_drop_bit fits_iff)
  have "(2 :: int) ^ 63 \<le> 2 ^ (8 * 7 + s)" using assms(2) by auto
  then have "uint u < 2 ^ (8 * 7 + s)" using assms(1) by linarith
  then have "drop_bit (8 * 7) (drop_bit s u) = 0" by (simp only: all)
  then obtain k where k: "k \<le> 7" "count_octets 127 1 (drop_bit s u) = 1 + k" "drop_bit (8 * k) (drop_bit s u) = 0"
    using count_octets_least [of 7 "drop_bit s u" 127 1] by auto
  moreover have "k \<le> j" if j: "j \<le> 7" "uint u < 2 ^ (8 * j + s)" for j
  proof -
    have "drop_bit (8 * j) (drop_bit s u) = 0" using j(2) by (simp only: all)
    then obtain m where "m \<le> j" "count_octets 127 1 (drop_bit s u) = 1 + m" using count_octets_least [of j "drop_bit s u" 127 1] j(1) by auto
    then show ?thesis using k(2) by simp
  qed
  ultimately have "count_octets 127 1 (drop_bit s u) = Suc k \<and> k \<le> 7 \<and> uint u < 2 ^ (8 * k + s) \<and>
    (\<forall>j \<le> 7. uint u < 2 ^ (8 * j + s) \<longrightarrow> k \<le> j)"
    unfolding all by simp
  then show ?thesis by (rule exI)
qed

lemma unat_octet: "k \<le> 8 \<Longrightarrow> unat (of_nat k :: 'a::len word) = k" if "8 \<le> LENGTH('a)"
proof -
  assume "k \<le> 8"
  moreover have "(2 :: nat) ^ 8 \<le> 2 ^ LENGTH('a)" using that by (intro power_increasing) auto
  ultimately have "k < 2 ^ LENGTH('a)" by simp
  then show ?thesis by (simp only: unat_of_nat take_bit_nat_eq_self mod_less)
qed

section \<open>Single octets\<close>

lemma codes_octet_end:
  "codes 1 (bind appendAlignBits (\<lambda>_. append_bytes [b]))
    (bind parseAlignBits (\<lambda>_. bind (lift_res (\<lambda>pd. if byteOffset pd \<ge> length (pd_bytes pd) then Inl (Err msg)
        else Inr (unat (pd_bytes pd ! byteOffset pd)))) (\<lambda>n.
      bind (modify (\<lambda>pd. pd\<lparr>byteOffset := byteOffset pd + 1\<rparr>)) (\<lambda>_. ret n)))) ((=) (unat b))"
proof -
  have D: "bind (lift_res (\<lambda>pd. if byteOffset pd \<ge> length (pd_bytes pd) then Inl (Err msg) else Inr (unat (pd_bytes pd ! byteOffset pd)))) (\<lambda>n.
      bind (modify (\<lambda>pd. pd\<lparr>byteOffset := byteOffset pd + 1\<rparr>)) (\<lambda>_. ret n)) =
    bind (bind (take_bytes msg (length [b])) (\<lambda>y. bind (modify (\<lambda>pd. pd\<lparr>byteOffset := byteOffset pd + length [b]\<rparr>)) (\<lambda>_. ret y))) (\<lambda>y. ret (unat (hd y)))"
    by (rule ext) (auto simp: bind_def take_bytes_def take_Suc hd_drop_conv_nth not_le split: prod.split sum.split)
  have "codes 1 (bind appendAlignBits (\<lambda>_. append_bytes [b]))
    (bind (bind parseAlignBits (\<lambda>_. bind (take_bytes msg (length [b])) (\<lambda>y. bind (modify (\<lambda>pd. pd\<lparr>byteOffset := byteOffset pd + length [b]\<rparr>)) (\<lambda>_. ret y))))
      (\<lambda>y. ret (unat (hd y)))) ((=) (unat b))"
    by (rule codes_map [OF codes_octets [of "[b]" msg]]) auto
  then show ?thesis unfolding D bind_bind .
qed

text \<open>An integer has its length octet aligned on both sides.\<close>

lemma codes_octet:
  "codes 1 (bind appendAlignBits (\<lambda>_. bind (append_bytes [b]) (\<lambda>_. appendAlignBits)))
    (bind parseAlignBits (\<lambda>_. bind (lift_res (\<lambda>pd. if byteOffset pd \<ge> length (pd_bytes pd) then Inl (Err msg)
        else Inr (unat (pd_bytes pd ! byteOffset pd)))) (\<lambda>n.
      bind (modify (\<lambda>pd. pd\<lparr>byteOffset := byteOffset pd + 1\<rparr>)) (\<lambda>_. ret n)))) ((=) (unat b))"
proof (rule codes_cong [OF codes_octet_end])
  fix bs
  show "bind appendAlignBits (\<lambda>_. bind (append_bytes [b]) (\<lambda>_. appendAlignBits)) (wr bs) = bind appendAlignBits (\<lambda>_. append_bytes [b]) (wr bs)"
    using append_bytes_wr [OF length_pad, of "[b]" bs] mod_add_self2 [of "length (pad bs)" 8] by (simp add: bind_def)
qed

section \<open>Integers\<close>

lemma sint_word_of_int: "- (2 ^ 63) \<le> v \<Longrightarrow> v < 2 ^ 63 \<Longrightarrow> sint (word_of_int v :: u64) = v"
  by (simp add: sint_sbintrunc' signed_take_bit_int_eq_self)

lemma uint_word_of_int_small: "0 \<le> v \<Longrightarrow> v < 2 ^ 64 \<Longrightarrow> uint (word_of_int v :: u64) = v"
  by (simp add: uint_word_of_int)

lemma signed_value:
  fixes v :: int
  assumes k: "k \<le> 7" and v: "- (2 ^ (8 * k + 7)) \<le> v" "v < 2 ^ (8 * k + 7)"
  defines "w \<equiv> word_of_int v AND mask (8 * Suc k) :: u64"
  defines "m \<equiv> push_bit (8 * Suc k - 1) 1 :: u64"
  shows "drop_bit (8 * Suc k) w = 0"
    "(if w AND m > 0 then int64 (sint ((NOT w AND (m - 1)) + 1) * -1) else int64 (sint w + 0)) = v"
proof -
  have w: "w = take_bit (8 * k + 8) (word_of_int v)" by (simp add: w_def take_bit_eq_mask add.commute)
  have "drop_bit (8 * k + 8) w = 0" unfolding w by (rule drop_take)
  then show "drop_bit (8 * Suc k) w = 0" by (simp add: add.commute)
  have b: "(2 :: int) ^ (8 * k + 7) \<le> 2 ^ 63" using k by (intro power_increasing) auto
  have m: "m = 2 ^ (8 * k + 7)" "m - 1 = mask (8 * k + 7)" by (simp_all add: m_def push_bit_eq_mult mask_eq_exp_minus_1 add.commute)
  have bw: "w AND m > 0 \<longleftrightarrow> bit (word_of_int v :: u64) (8 * k + 7)"
    using k by (simp add: m word_gt_0 and_exp w bit_take_bit_iff)
  show "(if w AND m > 0 then int64 (sint ((NOT w AND (m - 1)) + 1) * -1) else int64 (sint w + 0)) = v"
  proof (cases "0 \<le> v")
    case True
    have "drop_bit (8 * k + 7) (word_of_int v :: u64) = 0"
      using v(2) b True by (intro drop_bit_fits) (simp add: uint_word_of_int_small)
    then have "take_bit (8 * k + 7) (word_of_int v :: u64) = word_of_int v" by (rule take_bit_fits)
    then have nb: "\<not> bit (word_of_int v :: u64) (8 * k + 7)" by (metis bit_take_bit_iff less_irrefl)
    have "take_bit (8 * k + 8) (word_of_int v :: u64) = word_of_int v"
    proof (intro take_bit_fits drop_bit_fits)
      have "(2 :: int) ^ (8 * k + 7) \<le> 2 ^ (8 * k + 8)" by (intro power_increasing) auto
      moreover have "uint (word_of_int v :: u64) = v" using v(2) b True by (intro uint_word_of_int_small) simp_all
      ultimately show "uint (word_of_int v :: u64) < 2 ^ (8 * k + 8)" using v(2) by linarith
    qed
    then have "w = word_of_int v" by (simp add: w)
    then show ?thesis using nb bw v b True by (simp add: sint_word_of_int)
  next
    case False
    define u where "u = - v - 1"
    have u: "0 \<le> u" "u < 2 ^ (8 * k + 7)" using v(1) False by (simp_all add: u_def)
    have n: "word_of_int v = NOT (word_of_int u :: u64)" by (simp add: u_def not_eq_complement)
    have tu: "take_bit (8 * k + 7) (word_of_int u :: u64) = word_of_int u"
      using u b by (intro take_bit_fits drop_bit_fits) (simp add: uint_word_of_int_small)
    then have "\<not> bit (word_of_int u :: u64) (8 * k + 7)" by (metis bit_take_bit_iff less_irrefl)
    then have nb: "bit (word_of_int v :: u64) (8 * k + 7)" using k by (simp add: n bit_not_iff)
    have "NOT w AND (m - 1) = take_bit (8 * k + 7) (NOT w)" by (simp only: m(2) take_bit_eq_mask)
    also have "\<dots> = take_bit (8 * k + 7) (word_of_int u)"
      by (rule bit_eqI) (auto simp: w n bit_take_bit_iff bit_not_iff)
    finally have "(NOT w AND (m - 1)) + 1 = word_of_int (- v)" using tu by (simp add: u_def)
    moreover have "int64 (sint (word_of_int (- v) :: u64) * -1) = v"
    proof (cases "v = - (2 ^ 63)")
      case True
      then show ?thesis by (simp add: int64_def)
    next
      case False
      then have "sint (word_of_int (- v) :: u64) = - v" using v b \<open>\<not> 0 \<le> v\<close> by (intro sint_word_of_int) linarith+
      then show ?thesis using v b \<open>\<not> 0 \<le> v\<close> by simp
    qed
    ultimately show ?thesis using bw nb by simp
  qed
qed

text \<open>
  The constraints under which an integer comes back: it fits into 64 bits, an extensible constraint has both
  bounds, a number with a lower bound only is not negative, and for more than 65536 values the constraint
  starts at 0 and both sides compute the same number of length bits.
\<close>

definition length_bits :: "u64 \<Rightarrow> int \<Rightarrow> nat" where
  "length_bits stop ub = range_bits (int (range_octets stop 127 1 (word_of_int ub)))"

fun int_ok :: "bool \<Rightarrow> int option \<Rightarrow> int option \<Rightarrow> int \<Rightarrow> bool" where
  "int_ok ext None ub v \<longleftrightarrow> \<not> ext \<and> - (2 ^ 63) \<le> v \<and> v < 2 ^ 63"
| "int_ok ext (Some lb) None v \<longleftrightarrow> \<not> ext \<and> 0 \<le> lb \<and> lb \<le> v \<and> v < 2 ^ 63"
| "int_ok ext (Some lb) (Some ub) v \<longleftrightarrow> - (2 ^ 61) \<le> lb \<and> lb \<le> ub \<and> ub < 2 ^ 61 \<and> lb \<le> v \<and> v < 2 ^ 63 \<and>
     (v \<le> ub \<or> ext) \<and> (v \<le> ub \<and> ub - lb \<ge> 65536 \<longrightarrow> lb = 0 \<and> length_bits 1 ub = length_bits 0 ub)"

text \<open>The three forms of the encoding, with the extension bit taken off.\<close>

lemma signed_codes:
  assumes "- (2 ^ 63) \<le> v" "v < 2 ^ 63"
  defines "u \<equiv> (if v < 0 then word_of_int (- v) - 1 else word_of_int v) :: u64"
  defines "k \<equiv> count_octets 127 1 (drop_bit 7 u)"
  shows "codes 1 (bind appendAlignBits (\<lambda>_. bind (append_bytes [of_nat k]) (\<lambda>_. bind appendAlignBits (\<lambda>_.
      putBitsValue (word_of_int v AND mask (8 * k)) (8 * k)))))
    (bind parseAlignBits (\<lambda>_. bind (lift_res (\<lambda>pd. if byteOffset pd \<ge> length (pd_bytes pd) then Inl (Err ''per data out of range'')
        else Inr (unat (pd_bytes pd ! byteOffset pd)))) (\<lambda>n.
      bind (modify (\<lambda>pd. pd\<lparr>byteOffset := byteOffset pd + 1\<rparr>)) (\<lambda>_.
      bind (getBitsValue (8 * n)) (\<lambda>raw. let m = push_bit (8 * n - 1) 1; vm = m - 1 in
        ret (if raw AND m > 0 then int64 (sint ((NOT raw AND vm) + 1) * -1) else int64 (sint raw + 0))))))) ((=) v)"
proof -
  define a where "a = (if v < 0 then - v - 1 else v)"
  have a: "0 \<le> a" "a < 2 ^ 63" using assms(1,2) by (auto simp: a_def)
  have "u = word_of_int a" by (simp add: u_def a_def)
  then have ua: "uint u = a" using a by (simp add: uint_word_of_int_small)
  then obtain j where j: "k = Suc j" "j \<le> 7" "a < 2 ^ (8 * j + 7)"
    using octets_enough [of u 7] a unfolding k_def by auto
  have v: "- (2 ^ (8 * j + 7)) \<le> v" "v < 2 ^ (8 * j + 7)" using j(3) a(1) by (auto simp: a_def split: if_splits)
  note sv = signed_value [OF j(2) v]
  have b: "unat (of_nat k :: u8) = k" by (rule unat_octet) (use j in auto)
  have D: "codes 0 (putBitsValue (word_of_int v AND mask (8 * k)) (8 * k))
    (bind (getBitsValue (8 * k)) (\<lambda>raw. let m = push_bit (8 * k - 1) 1; vm = m - 1 in
        ret (if raw AND m > 0 then int64 (sint ((NOT raw AND vm) + 1) * -1) else int64 (sint raw + 0)))) ((=) v)"
    unfolding Let_def j(1)
    by (rule codes_weaken [OF codes_map [OF codes_bits [OF sv(1)]]]) (use sv(2) in auto)
  have "codes 1 (bind (bind appendAlignBits (\<lambda>_. bind (append_bytes [of_nat k]) (\<lambda>_. appendAlignBits))) (\<lambda>_.
      putBitsValue (word_of_int v AND mask (8 * k)) (8 * k)))
    (bind (bind parseAlignBits (\<lambda>_. bind (lift_res (\<lambda>pd. if byteOffset pd \<ge> length (pd_bytes pd) then Inl (Err ''per data out of range'')
        else Inr (unat (pd_bytes pd ! byteOffset pd)))) (\<lambda>n.
      bind (modify (\<lambda>pd. pd\<lparr>byteOffset := byteOffset pd + 1\<rparr>)) (\<lambda>_. ret n)))) (\<lambda>n.
      bind (getBitsValue (8 * n)) (\<lambda>raw. let m = push_bit (8 * n - 1) 1; vm = m - 1 in
        ret (if raw AND m > 0 then int64 (sint ((NOT raw AND vm) + 1) * -1) else int64 (sint raw + 0))))) ((=) v)"
    by (rule codes_bind [where ?k2.0 = 0, OF codes_octet]) (use D b in auto)
  then show ?thesis by (simp only: bind_bind ret_bind)
qed

lemma semi_codes:
  assumes "0 \<le> lb" "lb \<le> v" "v < 2 ^ 63"
  defines "k \<equiv> count_octets 127 1 (drop_bit 7 (word_of_int v :: u64))"
  shows "codes 1 (bind appendAlignBits (\<lambda>_. bind (append_bytes [of_nat k]) (\<lambda>_. bind appendAlignBits (\<lambda>_.
      putBitsValue (word_of_int (v - lb)) (8 * k)))))
    (bind parseAlignBits (\<lambda>_. bind (lift_res (\<lambda>pd. if byteOffset pd \<ge> length (pd_bytes pd) then Inl (Err ''per data out of range'')
        else Inr (unat (pd_bytes pd ! byteOffset pd)))) (\<lambda>n.
      bind (modify (\<lambda>pd. pd\<lparr>byteOffset := byteOffset pd + 1\<rparr>)) (\<lambda>_.
      bind (getBitsValue (8 * n)) (\<lambda>raw. ret (int64 (sint raw + lb))))))) ((=) v)"
proof -
  have ua: "uint (word_of_int v :: u64) = v" "uint (word_of_int (v - lb) :: u64) = v - lb"
    using assms(1-3) by (auto intro!: uint_word_of_int_small simp del: of_int_diff)
  then obtain j where j: "k = Suc j" "j \<le> 7" "v < 2 ^ (8 * j + 7)"
    using octets_enough [of "word_of_int v" 7] assms unfolding k_def by auto
  have "(2 :: int) ^ (8 * j + 7) \<le> 2 ^ (8 * Suc j)" by (intro power_increasing) auto
  then have "uint (word_of_int (v - lb) :: u64) < 2 ^ (8 * k)" unfolding ua j(1) using j(3) assms(1) by linarith
  then have d: "drop_bit (8 * k) (word_of_int (v - lb) :: u64) = 0" by (rule drop_bit_fits)
  have b: "unat (of_nat k :: u8) = k" by (rule unat_octet) (use j in auto)
  have s: "sint (word_of_int (v - lb) :: u64) = v - lb" using assms by (intro sint_word_of_int) simp_all
  have D: "codes 0 (putBitsValue (word_of_int (v - lb)) (8 * k)) (bind (getBitsValue (8 * k)) (\<lambda>raw. ret (int64 (sint raw + lb)))) ((=) v)"
    by (rule codes_weaken [OF codes_map [OF codes_bits [OF d]]]) (use s assms(1-3) in \<open>auto simp: j(1) simp del: of_int_diff\<close>)
  have "codes 1 (bind (bind appendAlignBits (\<lambda>_. bind (append_bytes [of_nat k]) (\<lambda>_. appendAlignBits))) (\<lambda>_.
      putBitsValue (word_of_int (v - lb)) (8 * k)))
    (bind (bind parseAlignBits (\<lambda>_. bind (lift_res (\<lambda>pd. if byteOffset pd \<ge> length (pd_bytes pd) then Inl (Err ''per data out of range'')
        else Inr (unat (pd_bytes pd ! byteOffset pd)))) (\<lambda>n.
      bind (modify (\<lambda>pd. pd\<lparr>byteOffset := byteOffset pd + 1\<rparr>)) (\<lambda>_. ret n)))) (\<lambda>n.
      bind (getBitsValue (8 * n)) (\<lambda>raw. ret (int64 (sint raw + lb))))) ((=) v)"
    by (rule codes_bind [where ?k2.0 = 0, OF codes_octet]) (use D b in auto)
  then show ?thesis by (simp only: bind_bind ret_bind)
qed

text \<open>More than 65536 values: the length is a number of at most eight bits.\<close>

lemma wide_codes:
  assumes "0 \<le> v" "v \<le> ub" "ub < 2 ^ 61" and same: "length_bits 1 ub = length_bits 0 ub"
  defines "k \<equiv> count_octets 127 1 (drop_bit 8 (word_of_int v :: u64))"
  shows "codes 1 (bind (putBitsValue (of_nat (k - 1)) (length_bits 1 ub)) (\<lambda>_. bind appendAlignBits (\<lambda>_. putBitsValue (word_of_int v) (8 * k))))
    (bind (getBitsValue (length_bits 0 ub)) (\<lambda>n. bind parseAlignBits (\<lambda>_. bind (getBitsValue (8 * (unat n + 1))) (\<lambda>raw. ret (int64 (sint raw))))))
    ((=) v)"
proof -
  have uv: "uint (word_of_int v :: u64) = v" and uu: "uint (word_of_int ub :: u64) = ub" using assms by (simp_all add: uint_word_of_int_small)
  then obtain j where j: "k = Suc j" "j \<le> 7" "v < 2 ^ (8 * j + 8)" "\<forall>i \<le> 7. v < 2 ^ (8 * i + 8) \<longrightarrow> j \<le> i"
    using octets_enough [of "word_of_int v" 8] assms unfolding k_def by auto
  have "drop_bit (8 * Suc 7) (word_of_int ub :: u64) = 0" using uu assms by (intro drop_bit_fits) simp
  then obtain m where m: "m \<le> 7" "range_octets 0 127 1 (word_of_int ub) = 1 + m" "drop_bit (8 * Suc m) (word_of_int ub :: u64) = 0"
    using range_octets_least [of 7 "word_of_int ub" 127 1] by auto
  have "ub < 2 ^ (8 * m + 8)" using m(3) uu unfolding fits_iff by (simp add: add.commute)
  then have "j \<le> m" using j(4) m(1) assms(2) by auto
  let ?b = "length_bits 0 ub"
  have lb: "?b = range_bits (int (1 + m))" by (simp only: length_bits_def m(2))
  have "int (1 + m) \<le> 255" using m(1) by simp
  from range_bits_enough [OF this] have r: "0 < ?b" "int (1 + m) \<le> 2 ^ ?b" unfolding lb by simp_all
  have uj: "uint (of_nat j :: u64) = int j" using j(2) by (simp add: uint_nat unat_of_nat)
  have "int j < 2 ^ ?b" using r(2) \<open>j \<le> m\<close> by linarith
  then have "uint (of_nat j :: u64) < 2 ^ ?b" by (simp only: uj)
  then have dj: "drop_bit ?b (of_nat j :: u64) = 0" by (rule drop_bit_fits)
  have nj: "unat (of_nat j :: u64) = j" using j(2) by (simp add: unat_of_nat)
  have d: "drop_bit (8 * k) (word_of_int v :: u64) = 0" using j uv by (intro drop_bit_fits) (simp add: add.commute)
  have s: "sint (word_of_int v :: u64) = v" using assms by (intro sint_word_of_int) simp_all
  have D: "codes 0 (bind appendAlignBits (\<lambda>_. putBitsValue (word_of_int v) (8 * k)))
    (bind parseAlignBits (\<lambda>_. bind (getBitsValue (8 * k)) (\<lambda>raw. ret (int64 (sint raw))))) ((=) v)"
  proof (rule codes_bind [OF codes_align, of 0])
    show "codes 0 (putBitsValue (word_of_int v) (8 * k)) (bind (getBitsValue (8 * k)) (\<lambda>raw. ret (int64 (sint raw)))) ((=) v)"
      by (rule codes_weaken [OF codes_map [OF codes_bits [OF d]]]) (use s assms(1-3) in \<open>auto simp: j(1)\<close>)
  qed simp
  have "codes 1 (putBitsValue (of_nat j) ?b) (getBitsValue ?b) ((=) (of_nat j))"
    using codes_bits [OF dj r(1)] by (rule codes_weaken) (use r(1) in auto)
  then have "codes 1 (bind (putBitsValue (of_nat j) ?b) (\<lambda>_. bind appendAlignBits (\<lambda>_. putBitsValue (word_of_int v) (8 * k))))
    (bind (getBitsValue ?b) (\<lambda>n. bind parseAlignBits (\<lambda>_. bind (getBitsValue (8 * (unat n + 1))) (\<lambda>raw. ret (int64 (sint raw)))))) ((=) v)"
    by (rule codes_bind [of _ _ _ _ 0]) (use D nj j(1) in auto)
  then show ?thesis using same j(1) by simp
qed

text \<open>The two sides after the bounds are known.\<close>

definition int_body :: "int \<Rightarrow> int \<Rightarrow> int \<Rightarrow> unit writer" where
  "int_body v lb r =
     (let unsignedValue = (if v < 0 then word_of_int (- v) - 1 else word_of_int v) :: u64 in
     if r = 1 then ret ()
     else if 0 < r \<and> r \<le> 65536 then appendConstraintValue r (word_of_int (v - lb))
     else
       let rawLength = count_octets 127 1 (drop_bit (if r \<le> 0 then 7 else 8) unsignedValue) in
       bind (if r \<le> 0 then bind appendAlignBits (\<lambda>_. append_bytes [of_nat rawLength])
             else putBitsValue (of_nat (rawLength - 1)) (range_bits (int (range_octets 1 127 1 (word_of_int (r - 1)))))) (\<lambda>_.
       bind appendAlignBits (\<lambda>_.
       if r < 0 then putBitsValue (word_of_int v AND mask (8 * rawLength)) (8 * rawLength)
       else putBitsValue (word_of_int (v - lb)) (8 * rawLength))))"

definition int_read :: "int \<Rightarrow> int \<Rightarrow> int \<Rightarrow> int reader" where
  "int_read lb ub r =
     (if r = 1 then ret ub
      else if 0 < r \<and> r \<le> 65536 then
        bind (parseConstraintValue r) (\<lambda>rawValue. ret (int64 (sint rawValue + lb)))
      else
        bind (if r \<le> 0 then
                bind parseAlignBits (\<lambda>_.
                bind (lift_res (\<lambda>pd. if byteOffset pd \<ge> length (pd_bytes pd) then Inl (Err ''per data out of range'')
                  else Inr (unat (pd_bytes pd ! byteOffset pd)))) (\<lambda>rawLength.
                bind (modify (\<lambda>pd. pd\<lparr>byteOffset := byteOffset pd + 1\<rparr>)) (\<lambda>_.
                ret rawLength)))
              else
                bind (getBitsValue (range_bits (int (range_octets 0 127 1 (word_of_int (r - 1)))))) (\<lambda>tempLength.
                bind parseAlignBits (\<lambda>_.
                ret (unat tempLength + 1)))) (\<lambda>rawLength.
        bind (getBitsValue (8 * rawLength)) (\<lambda>rawValue.
        let signedBitMask = push_bit (8 * rawLength - 1) 1; valueMask = signedBitMask - 1 in
        ret (if r < 0 \<and> rawValue AND signedBitMask > 0
             then int64 (sint ((NOT rawValue AND valueMask) + 1) * -1)
             else int64 (sint rawValue + lb)))))"

lemma parseInteger_read:
  "parseInteger e lbp ubp = (let (lb, ub, r) =
     (if e then (0, -1, -1)
      else case lbp of None \<Rightarrow> (0, -1, -1)
           | Some lb \<Rightarrow> (case ubp of None \<Rightarrow> (lb, -1, 0) | Some ub \<Rightarrow> (lb, ub, int64 (ub - lb + 1)))) in int_read lb ub r)"
  unfolding parseInteger_def int_read_def ..

lemma body_signed:
  assumes "- (2 ^ 63) \<le> v" "v < 2 ^ 63"
  shows "codes 1 (int_body v lb (-1)) (int_read 0 (-1) (-1)) ((=) v)"
proof -
  have "int_body v lb (-1) = (let k = count_octets 127 1 (drop_bit 7 (if v < 0 then word_of_int (- v) - 1 else word_of_int v :: u64)) in
      bind appendAlignBits (\<lambda>_. bind (append_bytes [of_nat k]) (\<lambda>_. bind appendAlignBits (\<lambda>_.
      putBitsValue (word_of_int v AND mask (8 * k)) (8 * k)))))"
    by (simp add: int_body_def Let_def)
  moreover have "int_read 0 (-1) (-1) = bind parseAlignBits (\<lambda>_. bind (lift_res (\<lambda>pd. if byteOffset pd \<ge> length (pd_bytes pd) then Inl (Err ''per data out of range'')
        else Inr (unat (pd_bytes pd ! byteOffset pd)))) (\<lambda>n.
      bind (modify (\<lambda>pd. pd\<lparr>byteOffset := byteOffset pd + 1\<rparr>)) (\<lambda>_.
      bind (getBitsValue (8 * n)) (\<lambda>raw. let m = push_bit (8 * n - 1) 1; vm = m - 1 in
        ret (if raw AND m > 0 then int64 (sint ((NOT raw AND vm) + 1) * -1) else int64 (sint raw + 0))))))"
    by (simp add: int_read_def Let_def)
  ultimately show ?thesis using signed_codes [OF assms] by (simp only: Let_def)
qed

lemma body_semi:
  assumes "0 \<le> lb" "lb \<le> v" "v < 2 ^ 63"
  shows "codes 1 (int_body v lb 0) (int_read lb (-1) 0) ((=) v)"
proof -
  have "\<not> v < 0" using assms by simp
  then have "int_body v lb 0 = (let k = count_octets 127 1 (drop_bit 7 (word_of_int v :: u64)) in
      bind appendAlignBits (\<lambda>_. bind (append_bytes [of_nat k]) (\<lambda>_. bind appendAlignBits (\<lambda>_.
      putBitsValue (word_of_int (v - lb)) (8 * k)))))"
    by (simp add: int_body_def Let_def)
  moreover have "int_read lb (-1) 0 = bind parseAlignBits (\<lambda>_. bind (lift_res (\<lambda>pd. if byteOffset pd \<ge> length (pd_bytes pd) then Inl (Err ''per data out of range'')
        else Inr (unat (pd_bytes pd ! byteOffset pd)))) (\<lambda>n.
      bind (modify (\<lambda>pd. pd\<lparr>byteOffset := byteOffset pd + 1\<rparr>)) (\<lambda>_.
      bind (getBitsValue (8 * n)) (\<lambda>raw. ret (int64 (sint raw + lb))))))"
    by (simp add: int_read_def Let_def)
  ultimately show ?thesis using semi_codes [OF assms] by (simp only: Let_def)
qed

lemma body_small:
  assumes "lb \<le> v" "v - lb < r" "1 < r" "r \<le> 65536" "- (2 ^ 63) \<le> v" "v < 2 ^ 63"
  shows "codes 1 (int_body v lb r) (int_read lb ub r) ((=) v)"
proof -
  have u: "uint (word_of_int (v - lb) :: u64) = v - lb" by (rule uint_word_of_int_small) (use assms in simp_all)
  have s: "sint (word_of_int (v - lb) :: u64) = v - lb" by (rule sint_word_of_int) (use assms in simp_all)
  have "codes 1 (appendConstraintValue r (word_of_int (v - lb))) (parseConstraintValue r) ((=) (word_of_int (v - lb)))"
    by (rule codes_constraint) (use u assms in simp_all)
  from codes_map [OF this, of "(=) v" "\<lambda>w. int64 (sint w + lb)"] show ?thesis using assms s
    by (simp add: int_body_def int_read_def del: of_int_diff)
qed

lemma body_wide:
  assumes "0 \<le> v" "v \<le> ub" "ub < 2 ^ 61" "65536 \<le> ub" "length_bits 1 ub = length_bits 0 ub"
  shows "codes 1 (int_body v 0 (ub + 1)) (int_read 0 ub (ub + 1)) ((=) v)"
proof -
  have "int_body v 0 (ub + 1) = (let k = count_octets 127 1 (drop_bit 8 (word_of_int v :: u64)) in
      bind (putBitsValue (of_nat (k - 1)) (length_bits 1 ub)) (\<lambda>_. bind appendAlignBits (\<lambda>_. putBitsValue (word_of_int v) (8 * k))))"
    using assms(1,4) by (simp add: int_body_def Let_def length_bits_def)
  moreover have "int_read 0 ub (ub + 1) = bind (getBitsValue (length_bits 0 ub)) (\<lambda>n. bind parseAlignBits (\<lambda>_. bind (getBitsValue (8 * (unat n + 1))) (\<lambda>raw. ret (int64 (sint raw)))))"
    using assms(4) by (simp add: int_read_def Let_def length_bits_def)
  ultimately show ?thesis using wide_codes [OF assms(1-3,5)] by (simp only: Let_def)
qed

text \<open>The range of a constraint; \<open>-1\<close> and 0 stand for no bounds and no upper bound, as in the code.\<close>

fun int_range :: "int option \<Rightarrow> int option \<Rightarrow> int" where
  "int_range None ub = -1"
| "int_range (Some lb) None = 0"
| "int_range (Some lb) (Some ub) = ub - lb + 1"

lemma bool_codes: "codes 1 (appendBool v) parseBool ((=) v)"
proof -
  have "drop_bit 1 (of_bool v :: u64) = 0" by (intro drop_bit_fits) simp
  from codes_bits [OF this] have "codes 1 (putBitsValue (of_bool v) 1) (getBitsValue 1) ((=) (of_bool v))" by simp
  from codes_map [OF this, of "(=) v" "\<lambda>b. b = 1"] show ?thesis
    by (cases v) (simp_all add: appendBool_def parseBool_def)
qed

text \<open>An integer that satisfies its constraint comes back; a single value takes no bits.\<close>

lemma integer_codes:
  assumes "int_ok ext lbp ubp v"
  shows "codes (if \<not> ext \<and> int_range lbp ubp = 1 then 0 else 1) (appendInteger v ext lbp ubp) (bind (ext_bit ext) (\<lambda>e. parseInteger e lbp ubp)) ((=) v)"
proof -
  have app: "appendInteger v ext lbp ubp = bind (if ext then bind (ignore_err (putBitsValue (of_bool e) 1)) (\<lambda>_. ret (l, r)) else ret (l, r))
      (\<lambda>_. int_body v l r)"
    if "(case lbp of
             None \<Rightarrow> ret (0, -1)
           | Some lb \<Rightarrow>
               if v < lb then fail (Err ''INTEGER value is smaller than lowerbound'')
               else (case ubp of
                 None \<Rightarrow> ret (lb, 0)
               | Some ub \<Rightarrow>
                   let valueRange = (if v \<le> ub then int64 (ub - lb + 1) else 0) in
                   if \<not> v \<le> ub \<and> \<not> ext then fail (Err ''INTEGER value is larger than upperbound'')
                   else if ext then
                     if valueRange = 0 then bind (ignore_err (putBitsValue 1 1)) (\<lambda>_. ret (lb, -1))
                     else bind (ignore_err (putBitsValue 0 1)) (\<lambda>_. ret (lb, valueRange))
                   else ret (lb, valueRange))) =
      (if ext then bind (ignore_err (putBitsValue (of_bool e) 1)) (\<lambda>_. ret (l, r)) else ret (l, r) :: (int \<times> int) writer)" for e l r
    using that unfolding appendInteger_def by (cases ext) (simp_all add: int_body_def)
  show ?thesis
  proof (cases lbp)
    case None
    then have "appendInteger v ext lbp ubp = int_body v 0 (-1)" "\<not> ext" using assms app [of False 0 "-1"] by simp_all
    then show ?thesis using None assms body_signed [of v 0] by (simp add: ext_bit_def parseInteger_read)
  next
    case (Some lb)
    show ?thesis
    proof (cases ubp)
      case None
      then have "appendInteger v ext lbp ubp = int_body v lb 0" "\<not> ext" using assms Some app [of False lb 0] by simp_all
      then show ?thesis using Some None assms body_semi [of lb v] by (simp add: ext_bit_def parseInteger_read)
    next
      case ub: (Some ub)
      note ok = assms [unfolded Some ub, simplified]
      have r: "int64 (ub - lb + 1) = ub - lb + 1" by (intro int64_id) (use ok in auto)
      let ?e = "\<not> v \<le> ub" and ?r = "if v \<le> ub then ub - lb + 1 else -1"
      have "ub - lb + 1 \<noteq> 0" using ok by linarith
      then have a: "appendInteger v ext lbp ubp = bind (if ext then bind (ignore_err (putBitsValue (of_bool ?e) 1)) (\<lambda>_. ret (lb, ?r)) else ret (lb, ?r))
        (\<lambda>_. int_body v lb ?r)"
        by (intro app) (use ok r Some ub in \<open>auto simp: Let_def\<close>)
      have "codes (of_bool (\<not> (v \<le> ub \<and> ub = lb))) (int_body v lb ?r) (parseInteger ?e lbp ubp) ((=) v)"
      proof (cases "v \<le> ub")
        case True
        then have d: "parseInteger ?e lbp ubp = int_read lb ub (ub - lb + 1)" by (simp add: parseInteger_read Some ub r)
        consider "ub = lb" | "ub \<noteq> lb" "ub - lb + 1 \<le> 65536" | "65536 \<le> ub - lb" by linarith
        then show ?thesis
        proof cases
          case 1
          then show ?thesis using True ok unfolding d by (auto simp: int_body_def int_read_def intro!: codes_ret)
        next
          case 2
          then have "codes 1 (int_body v lb (ub - lb + 1)) (int_read lb ub (ub - lb + 1)) ((=) v)"
            by (intro body_small) (use True ok in auto)
          then show ?thesis using True 2(1) unfolding d by simp
        next
          case 3
          then have "lb = 0" "length_bits 1 ub = length_bits 0 ub" using True ok by simp_all
          then have "codes 1 (int_body v 0 (ub + 1)) (int_read 0 ub (ub + 1)) ((=) v)"
            by (intro body_wide) (use 3 True ok in auto)
          then show ?thesis using True 3 \<open>lb = 0\<close> unfolding d by simp
        qed
      next
        case False
        then have "codes 1 (int_body v lb (-1)) (int_read 0 (-1) (-1)) ((=) v)" by (intro body_signed) (use ok in auto)
        then show ?thesis using False by (simp add: parseInteger_read)
      qed
      then have "codes (of_bool ext + of_bool (\<not> (v \<le> ub \<and> ub = lb))) (appendInteger v ext lbp ubp) (bind (ext_bit ext) (\<lambda>e. parseInteger e lbp ubp)) ((=) v)"
        unfolding a by (intro codes_prefix_bits) (use ok in auto)
      then show ?thesis by (rule codes_weaken) (use ok Some ub in \<open>auto simp: of_bool_def split: if_splits\<close>)
    qed
  qed
qed

text \<open>Enumerations and the index of a choice; the constraints of an enumeration start at 0.\<close>

fun enum_ok :: "int option \<Rightarrow> int option \<Rightarrow> u64 \<Rightarrow> bool" where
  "enum_ok (Some lb) (Some ub) v \<longleftrightarrow> lb = 0 \<and> 0 \<le> ub \<and> ub < 65536 \<and> uint v \<le> ub"
| "enum_ok _ _ v \<longleftrightarrow> False"

lemma enum_codes:
  assumes "enum_ok lbp ubp v"
  shows "codes (if \<not> ext \<and> ubp = Some 0 then 0 else 1) (appendEnumerated v ext lbp ubp) (bind (ext_bit ext) (\<lambda>e. parseEnumerated e lbp ubp)) ((=) v)"
proof -
  obtain ub where b: "lbp = Some 0" "ubp = Some ub" "0 \<le> ub" "ub < 65536" "uint v \<le> ub"
    using assms by (cases lbp; cases ubp) auto
  have "- (2 ^ 63) \<le> uint v" by (rule order_trans [of _ 0]) simp_all
  then have s: "sint v = uint v" using b(4,5) signed_take_bit_int_eq_self [of 63 "uint v"] by (simp add: sint_uint)
  have i: "int64 (ub + 1) = ub + 1" using b(3,4) by simp
  have z: "v = 0" if "ub = 0" using that b(5) uint_ge_0 [of v] by (simp add: uint_0_iff)
  let ?E = "if ub + 1 > 1 then appendConstraintValue (ub + 1) v else ret ()"
  have "codes (of_bool (ub \<noteq> 0)) ?E (parseEnumerated False lbp ubp) ((=) v)"
  proof (cases "ub = 0")
    case True
    then show ?thesis using b z by (auto simp: parseEnumerated_def intro!: codes_ret)
  next
    case False
    then show ?thesis using b codes_constraint [of v "ub + 1"] by (simp add: parseEnumerated_def)
  qed
  from codes_prefix_bits [of ext False, where t = "()" and D = "\<lambda>e. parseEnumerated e lbp ubp", OF _ this]
  have "codes (of_bool ext + of_bool (ub \<noteq> 0)) (bind (if ext then bind (ignore_err (putBitsValue 0 1)) (\<lambda>_. ret ()) else ret ()) (\<lambda>_. ?E))
    (bind (ext_bit ext) (\<lambda>e. parseEnumerated e lbp ubp)) ((=) v)" by (simp only: of_bool_eq) simp
  then have "codes (of_bool ext + of_bool (ub \<noteq> 0)) (appendEnumerated v ext lbp ubp) (bind (ext_bit ext) (\<lambda>e. parseEnumerated e lbp ubp)) ((=) v)"
  proof (rule codes_cong)
    fix bs
    have "drop_bit 1 (0 :: u64) = 0" by simp
    from codesD [OF codes_bits [OF this], of bs] show "appendEnumerated v ext lbp ubp (wr bs) =
        bind (if ext then bind (ignore_err (putBitsValue 0 1)) (\<lambda>_. ret ()) else ret ()) (\<lambda>_. ?E) (wr bs)"
      using b s uint_ge_0 [of v] by (auto simp: appendEnumerated_def ignore_err_def bind_def i)
  qed
  then show ?thesis by (rule codes_weaken) (use b in \<open>auto simp: of_bool_def split: if_splits\<close>)
qed

lemma choice_codes:
  assumes "0 \<le> ub" "ub < 65536" "1 \<le> present" "present \<le> ub + 1"
  shows "codes 1 (appendChoiceIndex present ext (Some ub)) (getChoiceIndex False (Some ub)) ((=) present)"
proof -
  let ?w = "word_of_int (present - 1) :: u64"
  have u: "uint ?w = present - 1" by (rule uint_word_of_int_small) (use assms in simp_all)
  have s: "sint ?w = present - 1" by (rule sint_word_of_int) (use assms in simp_all)
  have "codes 1 (appendConstraintValue (ub + 1) ?w) (parseConstraintValue (ub + 1)) ((=) ?w)"
    by (rule codes_constraint) (use u assms in simp_all)
  from codes_map [OF this, of "(=) present" "\<lambda>w. int64 (sint w + 1)"] show ?thesis using assms s
    by (simp add: appendChoiceIndex_def getChoiceIndex_def del: of_int_diff)
qed

end
