(* ===== verification/APER_Type.thy ===== *)
theory APER_Type
  imports APER_Number
begin

text \<open>
  The Go types that the PER codec walks by reflection, their values, and the parameters in the \<^verbatim>\<open>aper\<close> tags of
  struct fields (\<^verbatim>\<open>lib/aper/common.go\<close>, \<^verbatim>\<open>lib/aper/asn_type.go\<close>). A type is a tree, so recursive Go types are
  outside the model; the types of \<^verbatim>\<open>lib/ngap/ngapType\<close> are not recursive.
\<close>

section \<open>Tags\<close>

record fieldParameters =
  optional :: bool
  sizeExtensible :: bool
  valueExtensible :: bool
  sizeLowerBound :: "int option"
  sizeUpperBound :: "int option"
  valueLowerBound :: "int option"
  valueUpperBound :: "int option"
  defaultValue :: "int option"
  openType :: bool
  referenceFieldName :: string
  referenceFieldValue :: "int option"

definition no_parameters :: fieldParameters where
  "no_parameters = \<lparr>optional = False, sizeExtensible = False, valueExtensible = False, sizeLowerBound = None, sizeUpperBound = None,
     valueLowerBound = None, valueUpperBound = None, defaultValue = None, openType = False, referenceFieldName = [],
     referenceFieldValue = None\<rparr>"

text \<open>\<^verbatim>\<open>strings.Split\<close> at commas and \<^verbatim>\<open>strconv.ParseInt(s, 10, 64)\<close>, \<open>None\<close> for an error.\<close>

fun split_commas :: "string \<Rightarrow> string list" where
  "split_commas [] = [[]]"
| "split_commas (c # cs) =
     (if c = CHR '','' then [] # split_commas cs
      else case split_commas cs of [] \<Rightarrow> [[c]] | p # ps \<Rightarrow> (c # p) # ps)"

fun decimal :: "nat \<Rightarrow> string \<Rightarrow> nat option" where
  "decimal n [] = Some n"
| "decimal n (c # cs) = (let d = of_char c :: nat in if 48 \<le> d \<and> d \<le> 57 then decimal (10 * n + (d - 48)) cs else None)"

definition ParseInt :: "string \<Rightarrow> int option" where
  "ParseInt s =
     (let neg = (take 1 s = ''-''); ds = (if neg \<or> take 1 s = ''+'' then drop 1 s else s) in
      if ds = [] then None
      else case decimal 0 ds of
        None \<Rightarrow> None
      | Some n \<Rightarrow> let v = (if neg then - int n else int n) in if - (2 ^ 63) \<le> v \<and> v < 2 ^ 63 then Some v else None)"

definition has_prefix :: "string \<Rightarrow> string \<Rightarrow> bool" where
  "has_prefix s p \<longleftrightarrow> take (length p) s = p"

text \<open>A number that does not parse leaves the parameter unset.\<close>

definition set_number :: "((int option \<Rightarrow> int option) \<Rightarrow> fieldParameters \<Rightarrow> fieldParameters) \<Rightarrow> string \<Rightarrow> fieldParameters \<Rightarrow> fieldParameters" where
  "set_number upd s params = (case ParseInt s of None \<Rightarrow> params | Some i \<Rightarrow> upd (\<lambda>_. Some i) params)"

definition parse_part :: "string \<Rightarrow> fieldParameters \<Rightarrow> fieldParameters" where
  "parse_part part params =
     (if part = ''optional'' then params\<lparr>optional := True\<rparr>
      else if part = ''sizeExt'' then params\<lparr>sizeExtensible := True\<rparr>
      else if part = ''valueExt'' then params\<lparr>valueExtensible := True\<rparr>
      else if has_prefix part ''sizeLB:'' then set_number sizeLowerBound_update (drop 7 part) params
      else if has_prefix part ''sizeUB:'' then set_number sizeUpperBound_update (drop 7 part) params
      else if has_prefix part ''valueLB:'' then set_number valueLowerBound_update (drop 8 part) params
      else if has_prefix part ''valueUB:'' then set_number valueUpperBound_update (drop 8 part) params
      else if has_prefix part ''default:'' then set_number defaultValue_update (drop 8 part) params
      else if part = ''openType'' then params\<lparr>openType := True\<rparr>
      else if has_prefix part ''referenceFieldName:'' then params\<lparr>referenceFieldName := drop 19 part\<rparr>
      else if has_prefix part ''referenceFieldValue:'' then set_number referenceFieldValue_update (drop 20 part) params
      else params)"

definition parseFieldParameters :: "string \<Rightarrow> fieldParameters" where
  "parseFieldParameters str = fold parse_part (split_commas str) no_parameters"

section \<open>Types and values\<close>

text \<open>
  A struct has its fields with name, \<^verbatim>\<open>aper\<close> tag and type. \<open>IntKind w\<close> is a signed integer of \<open>w\<close> bits
  (\<^verbatim>\<open>int\<close>, \<^verbatim>\<open>int64\<close>: 64, \<^verbatim>\<open>int32\<close>: 32). A nil slice is \<open>None\<close>.
\<close>

datatype gtype =
  BitStringType
| ObjectIdentifierType
| OctetStringType
| EnumeratedType
| BoolKind
| IntKind nat
| StringKind
| PtrKind gtype
| SliceKind gtype
| StructKind "(string \<times> string \<times> gtype) list"

datatype gval =
  BitStringV bytes nat
| ObjectIdentifierV "bytes option"
| OctetStringV "bytes option"
| EnumeratedV u64
| BoolV bool
| IntV int
| StringV bytes
| PtrV "gval option"
| SliceV "gval list option"
| StructV "gval list"

type_synonym field = "string \<times> string \<times> gtype"

definition elems :: "'a list option \<Rightarrow> 'a list" where
  "elems x = (case x of None \<Rightarrow> [] | Some xs \<Rightarrow> xs)"

fun zero_val :: "gtype \<Rightarrow> gval" where
  "zero_val BitStringType = BitStringV [] 0"
| "zero_val ObjectIdentifierType = ObjectIdentifierV None"
| "zero_val OctetStringType = OctetStringV None"
| "zero_val EnumeratedType = EnumeratedV 0"
| "zero_val BoolKind = BoolV False"
| "zero_val (IntKind w) = IntV 0"
| "zero_val StringKind = StringV []"
| "zero_val (PtrKind t) = PtrV None"
| "zero_val (SliceKind t) = SliceV None"
| "zero_val (StructKind fs) = StructV (map (\<lambda>(_, _, t). zero_val t) fs)"

text \<open>\<^verbatim>\<open>Value.IsNil\<close> panics for a kind that cannot be nil.\<close>

fun is_nil :: "gval \<Rightarrow> bool res" where
  "is_nil (PtrV p) = Inr (p = None)"
| "is_nil (SliceV p) = Inr (p = None)"
| "is_nil (OctetStringV p) = Inr (p = None)"
| "is_nil (ObjectIdentifierV p) = Inr (p = None)"
| "is_nil _ = Inl Panic"

text \<open>
  \<^verbatim>\<open>getReferenceFieldValue\<close>: the integer in the first field of a struct, or in the present field of a
  choice. \<open>ref_at\<close> goes to the field with an index.
\<close>

fun ref_value :: "gtype \<Rightarrow> gval \<Rightarrow> int res"
  and ref_at :: "field list \<Rightarrow> gval list \<Rightarrow> nat \<Rightarrow> int res" where
  "ref_value (IntKind w) v = (case v of IntV i \<Rightarrow> Inr i | _ \<Rightarrow> Inl Panic)"
| "ref_value (StructKind fs) v =
     (case v of
        StructV vs \<Rightarrow>
          if fs = [] then Inl Panic
          else if fst (hd fs) = ''Present'' then
            (case vs of
               IntV present # _ \<Rightarrow>
                 if present = 0 then Inl (Err ''ReferenceField Value present is 0(present's field number)'')
                 else if present \<ge> int (length fs) then Inl (Err ''Present is bigger than number of struct field'')
                 else if present < 0 then Inl Panic
                 else ref_at fs vs (nat present)
             | _ \<Rightarrow> Inl Panic)
          else ref_at fs vs 0
      | _ \<Rightarrow> Inl Panic)"
| "ref_value t v = Inl (Err ''OpenType reference only support INTEGER'')"
| "ref_at ((_, _, t) # fs) (v # vs) 0 = ref_value t v"
| "ref_at (f # fs) (v # vs) (Suc k) = ref_at fs vs k"
| "ref_at _ _ _ = Inl Panic"

text \<open>
  The field that an open type refers to: the first of the fields before it with the name in the tag. The
  value found there is set as the reference value of the open type.
\<close>

definition open_reference :: "fieldParameters \<Rightarrow> (string \<times> gtype \<times> gval) list \<Rightarrow> fieldParameters res" where
  "open_reference params prev =
     (if openType params then
        case filter (\<lambda>(name, _). name = referenceFieldName params) prev of
          [] \<Rightarrow> Inl (Err ''Open type is not reference to the other field in the struct'')
        | (_, t, v) # _ \<Rightarrow> bind_res (ref_value t v) (\<lambda>i. Inr (params\<lparr>referenceFieldValue := Some i\<rparr>))
      else Inr params)"

text \<open>A struct whose first field is \<^verbatim>\<open>Present\<close> is a CHOICE or an open type.\<close>

definition sequence_type :: "field list \<Rightarrow> bool" where
  "sequence_type fs \<longleftrightarrow> (case fs of [] \<Rightarrow> True | (name, _) # _ \<Rightarrow> name \<noteq> ''Present'')"

text \<open>\<^verbatim>\<open>StructField.PkgPath\<close> is empty for a name that starts with an upper case letter; names are in ASCII.\<close>

definition exported :: "string \<Rightarrow> bool" where
  "exported name \<longleftrightarrow> (case name of [] \<Rightarrow> False | c # _ \<Rightarrow> 65 \<le> (of_char c :: nat) \<and> of_char c \<le> (90 :: nat))"

definition unexported_msg :: string where
  "unexported_msg = ''struct contains unexported fields : ''"

definition tag_params :: "field \<Rightarrow> fieldParameters" where
  "tag_params f = parseFieldParameters (fst (snd f))"

end
