(* ===== verification/APER.thy ===== *)
theory APER
  imports APER_Type
begin

text \<open>
  \<^verbatim>\<open>makeField\<close> and \<^verbatim>\<open>parseField\<close> of \<^verbatim>\<open>lib/aper/marshal.go\<close> and \<^verbatim>\<open>lib/aper/aper.go\<close>: SEQUENCE, CHOICE, SEQUENCE OF and
  open types over the encodings of single values, and the entry points \<^verbatim>\<open>Marshal\<close> and \<^verbatim>\<open>Unmarshal\<close>. A value of a
  shape that its type excludes makes the encoder panic; a Go program cannot build one.
\<close>

section \<open>Encoder\<close>

text \<open>
  \<^verbatim>\<open>parseSequenceOf\<close> of \<^verbatim>\<open>marshal.go\<close> up to the elements: the number of elements, of which a size without upper
  bound keeps the low octet only.
\<close>

definition low_bound :: "fieldParameters \<Rightarrow> int" where
  "low_bound params = (case sizeLowerBound params of Some lb \<Rightarrow> if lb < 65536 then lb else 0 | None \<Rightarrow> 0)"

definition put_count :: "fieldParameters \<Rightarrow> int \<Rightarrow> unit writer" where
  "put_count params numElements =
     (let lb = low_bound params in
      bind (case sizeUpperBound params of
              None \<Rightarrow> ret (-1, -1)
            | Some ub \<Rightarrow>
                if ub < 65536 then
                  if sizeExtensible params then
                    if numElements > ub then bind (putBitsValue 1 1) (\<lambda>_. ret (ub, -1))
                    else bind (putBitsValue 0 1) (\<lambda>_. ret (ub, int64 (ub - lb + 1)))
                  else if numElements > ub then fail (Err ''SEQUENCE OF Size is larger than upperbound'')
                  else ret (ub, int64 (ub - lb + 1))
                else ret (-1, -1)) (\<lambda>(ub, sizeRange).
      if numElements < lb then fail (Err ''SEQUENCE OF Size is lower than lowerbound'')
      else if sizeRange = 1 then
        if numElements \<noteq> ub then fail (Err ''Encoding Length %d != fix-size %d'') else ret ()
      else if sizeRange > 0 then appendConstraintValue sizeRange (word_of_int (numElements - lb))
      else bind appendAlignBits (\<lambda>_. append_bytes [word_of_int numElements])))"

definition without_size :: "fieldParameters \<Rightarrow> fieldParameters" where
  "without_size params = params\<lparr>sizeExtensible := False, sizeUpperBound := None, sizeLowerBound := None\<rparr>"

primrec for_each :: "('a \<Rightarrow> unit writer) \<Rightarrow> 'a list \<Rightarrow> unit writer" where
  "for_each f [] = ret ()"
| "for_each f (x # xs) = bind (f x) (\<lambda>_. for_each f xs)"

text \<open>
  \<^verbatim>\<open>appendOpenType\<close>: the field is encoded into a buffer of its own. The loop over the fragments is the one of an
  octet string without size constraint; it ends at an octet boundary, so that its last alignment does nothing.
\<close>

definition appendOpenType :: "unit writer \<Rightarrow> unit writer" where
  "appendOpenType field pd =
     (case field \<lparr>raw_bytes = [], raw_off = 0\<rparr> of
        (Inl e, _) \<Rightarrow> (Inl e, pd)
      | (Inr _, pdOpenType) \<Rightarrow> octets_loop (raw_bytes pdOpenType) (-1) 0 (length (raw_bytes pdOpenType)) 0 pd)"

text \<open>The loop that collects the bits of the optional fields; it works on a SEQUENCE only.\<close>

fun optional_bits :: "bool \<Rightarrow> field list \<Rightarrow> gval list \<Rightarrow> nat \<Rightarrow> u64 \<Rightarrow> (nat \<times> u64) res" where
  "optional_bits sequence [] vs n w = Inr (n, w)"
| "optional_bits sequence (f # fs) [] n w = Inl Panic"
| "optional_bits sequence (f # fs) (v # vs) n w =
     (if \<not> exported (fst f) then Inl (Err unexported_msg)
      else if \<not> sequence then optional_bits sequence fs vs n w
      else if optional (tag_params f) then
        bind_res (is_nil v) (\<lambda>nil. optional_bits sequence fs vs (Suc n) (push_bit 1 w + (if nil then 0 else 1)))
      else if v = PtrV None then Inl (Err ''nil element in SEQUENCE type'')
      else optional_bits sequence fs vs n w)"

text \<open>
  \<^verbatim>\<open>makeField\<close>. \<open>make_fields\<close> is its loop over the fields of a SEQUENCE, with the fields before the current one;
  \<open>make_at\<close> encodes the present field of a CHOICE or of an open type.
\<close>

abbreviation (input) "unsupported \<equiv> Err ''unsupported: ''"

fun makeField :: "fieldParameters \<Rightarrow> gtype \<Rightarrow> gval \<Rightarrow> unit writer"
  and make_fields :: "(string \<times> gtype \<times> gval) list \<Rightarrow> nat \<Rightarrow> u64 \<Rightarrow> field list \<Rightarrow> gval list \<Rightarrow> unit writer"
  and make_at :: "bool \<Rightarrow> field list \<Rightarrow> gval list \<Rightarrow> nat \<Rightarrow> unit writer" where
  "makeField params (PtrKind t) v =
     (case v of
        PtrV None \<Rightarrow> fail (Err ''aper: cannot marshal nil value'')
      | PtrV (Some x) \<Rightarrow> makeField params t x
      | _ \<Rightarrow> fail Panic)"
| "makeField params BitStringType v =
     (case v of BitStringV b n \<Rightarrow> appendBitString b n (sizeExtensible params) (sizeLowerBound params) (sizeUpperBound params) | _ \<Rightarrow> fail Panic)"
| "makeField params ObjectIdentifierType v = fail (Err ''Unsupport ObjectIdenfier type'')"
| "makeField params OctetStringType v =
     (case v of OctetStringV b \<Rightarrow> appendOctetString (elems b) (sizeExtensible params) (sizeLowerBound params) (sizeUpperBound params) | _ \<Rightarrow> fail Panic)"
| "makeField params EnumeratedType v =
     (case v of EnumeratedV u \<Rightarrow> appendEnumerated u (valueExtensible params) (valueLowerBound params) (valueUpperBound params) | _ \<Rightarrow> fail Panic)"
| "makeField params BoolKind v = (case v of BoolV b \<Rightarrow> appendBool b | _ \<Rightarrow> fail Panic)"
| "makeField params (IntKind w) v =
     (case v of IntV i \<Rightarrow> appendInteger i (valueExtensible params) (valueLowerBound params) (valueUpperBound params) | _ \<Rightarrow> fail Panic)"
| "makeField params (StructKind fs) v =
     (case v of
        StructV vs \<Rightarrow>
          bind (if valueExtensible params then putBitsValue 0 1 else ret ()) (\<lambda>_.
          bind (lift_res (\<lambda>_. optional_bits (sequence_type fs) fs vs 0 0)) (\<lambda>(optionalCount, optionalPresents).
          bind (if optionalCount > 0 then putBitsValue optionalPresents optionalCount else ret ()) (\<lambda>_.
          if \<not> sequence_type fs then
            (case vs of
               IntV present # _ \<Rightarrow>
                 if present = 0 then fail (Err ''CHOICE or OpenType present is 0(present's field number)'')
                 else if present \<ge> int (length fs) then fail (Err ''Present is bigger than number of struct field'')
                 else if openType params then
                   (case referenceFieldValue params of
                      None \<Rightarrow> fail (Err ''OpenType reference value is empty'')
                    | Some refValue \<Rightarrow>
                        if present < 0 then fail Panic
                        else if referenceFieldValue (tag_params (fs ! nat present)) \<noteq> Some refValue
                        then fail (Err ''reference value and present reference value is not match'')
                        else make_at True fs vs (nat present))
                 else
                   bind (appendChoiceIndex present (valueExtensible params) (valueUpperBound params)) (\<lambda>_.
                   if present < 0 then fail Panic else make_at False fs vs (nat present))
             | _ \<Rightarrow> fail Panic)
          else make_fields [] optionalCount optionalPresents fs vs)))
      | _ \<Rightarrow> fail Panic)"
| "makeField params (SliceKind t) v =
     (case v of
        SliceV vs \<Rightarrow>
          bind (put_count params (int (length (elems vs)))) (\<lambda>_. for_each (\<lambda>x. makeField (without_size params) t x) (elems vs))
      | _ \<Rightarrow> fail Panic)"
| "makeField params StringKind v =
     (case v of StringV s \<Rightarrow> appendOctetString s (sizeExtensible params) (sizeLowerBound params) (sizeUpperBound params) | _ \<Rightarrow> fail Panic)"
| "make_fields prev n w [] vs = ret ()"
| "make_fields prev n w (f # fs) [] = fail Panic"
| "make_fields prev n w ((name, tag, t) # fs) (v # vs) =
     (let params = parseFieldParameters tag; opt = (optional params \<and> n > 0); n' = (if opt then n - 1 else n) in
      if opt \<and> w AND push_bit n' 1 = 0 then make_fields (prev @ [(name, t, v)]) n' w fs vs
      else
        bind (lift_res (\<lambda>_. open_reference params prev)) (\<lambda>params.
        bind (makeField params t v) (\<lambda>_.
        make_fields (prev @ [(name, t, v)]) n' w fs vs)))"
| "make_at is_open ((name, tag, t) # fs) (v # vs) 0 =
     (if is_open then appendOpenType (makeField (parseFieldParameters tag) t v) else makeField (parseFieldParameters tag) t v)"
| "make_at is_open (f # fs) (v # vs) (Suc k) = make_at is_open fs vs k"
| "make_at is_open _ _ _ = fail Panic"

definition MarshalWithParams :: "gtype \<Rightarrow> gval \<Rightarrow> string \<Rightarrow> bytes res" where
  "MarshalWithParams t val params =
     (case makeField (parseFieldParameters params) t val \<lparr>raw_bytes = [], raw_off = 0\<rparr> of
        (Inl e, _) \<Rightarrow> Inl e
      | (Inr _, pd) \<Rightarrow> Inr (if raw_bytes pd = [] then [0] else raw_bytes pd))"

definition Marshal :: "gtype \<Rightarrow> gval \<Rightarrow> bytes res" where
  "Marshal t val = MarshalWithParams t val []"

section \<open>Decoder\<close>

text \<open>\<^verbatim>\<open>parseSequenceOf\<close> of \<^verbatim>\<open>aper.go\<close> up to the elements. An error of \<^verbatim>\<open>parseConstraintValue\<close> is only logged.\<close>

definition get_count :: "bool \<Rightarrow> fieldParameters \<Rightarrow> int reader" where
  "get_count sizeExtensed params =
     (let lb = low_bound params;
          sizeRange = (case sizeUpperBound params of
             Some ub \<Rightarrow> if \<not> sizeExtensed \<and> ub < 65536 then int64 (ub - lb + 1) else -1
           | None \<Rightarrow> -1) in
      bind (if sizeRange > 1 then
              handle (parseConstraintValue sizeRange) (\<lambda>_. ret (word_of_int lb)) (\<lambda>n. ret (n + word_of_int lb))
            else if sizeRange = 1 then ret (word_of_int lb)
            else
              bind parseAlignBits (\<lambda>_.
              bind (lift_res (\<lambda>pd. if byteOffset pd \<ge> length (pd_bytes pd) then Inl (Err ''per data out of range'')
                else Inr (unat (pd_bytes pd ! byteOffset pd)))) (\<lambda>n.
              bind (modify (\<lambda>pd. pd\<lparr>byteOffset := byteOffset pd + 1\<rparr>)) (\<lambda>_.
              ret (of_nat n :: u64))))) (\<lambda>numElements.
      ret (sint numElements)))"

primrec repeat_read :: "nat \<Rightarrow> 'a reader \<Rightarrow> 'a list reader" where
  "repeat_read 0 m = ret []"
| "repeat_read (Suc n) m = bind m (\<lambda>x. bind (repeat_read n m) (\<lambda>xs. ret (x # xs)))"

text \<open>
  \<^verbatim>\<open>parseOpenType\<close>: the octets of the fragments are collected and the field is decoded from them alone; octets
  that it leaves are dropped.
\<close>

definition parseOpenType :: "gval reader \<Rightarrow> gval reader" where
  "parseOpenType field =
     bind (octets_read ''per data out of range '' (-1) 0 []) (\<lambda>b.
     bind parseAlignBits (\<lambda>_.
     lift_res (\<lambda>_. fst (field \<lparr>pd_bytes = b, byteOffset = 0, bitsOffset = 0\<rparr>))))"

text \<open>The check at the start of \<^verbatim>\<open>parseField\<close> and, for all but pointers, the two extension bits.\<close>

definition not_truncated :: "unit reader" where
  "not_truncated = lift_res (\<lambda>pd. check (byteOffset pd \<noteq> length (pd_bytes pd)) ''sequence truncated'')"

definition field_start :: "bool \<Rightarrow> fieldParameters \<Rightarrow> (bool \<times> bool) reader" where
  "field_start is_slice params =
     bind not_truncated (\<lambda>_.
     bind (ext_bit (sizeExtensible params)) (\<lambda>sizeExt.
     bind (ext_bit (valueExtensible params \<and> \<not> is_slice)) (\<lambda>valueExt.
     ret (sizeExt, valueExt))))"

fun count_optional :: "field list \<Rightarrow> nat \<Rightarrow> nat res" where
  "count_optional [] n = Inr n"
| "count_optional (f # fs) n =
     (if \<not> exported (fst f) then Inl (Err unexported_msg)
      else count_optional fs (if optional (tag_params f) then Suc n else n))"

text \<open>The first field of an open type, from index \<open>k\<close> on, with the reference value.\<close>

fun find_reference :: "int \<Rightarrow> nat \<Rightarrow> field list \<Rightarrow> nat option" where
  "find_reference r k [] = None"
| "find_reference r k (f # fs) = (if referenceFieldValue (tag_params f) = Some r then Some k else find_reference r (Suc k) fs)"

text \<open>The struct of a CHOICE or of an open type: only \<^verbatim>\<open>Present\<close> and the present field are set.\<close>

definition choice_value :: "field list \<Rightarrow> nat \<Rightarrow> gval \<Rightarrow> gval" where
  "choice_value fs present v = StructV ((map (\<lambda>(_, _, t). zero_val t) fs)[0 := IntV (int present), present := v])"

fun parseField :: "fieldParameters \<Rightarrow> gtype \<Rightarrow> gval reader"
  and parse_fields :: "(string \<times> gtype \<times> gval) list \<Rightarrow> nat \<Rightarrow> u64 \<Rightarrow> field list \<Rightarrow> gval list reader"
  and parse_at :: "bool \<Rightarrow> field list \<Rightarrow> nat \<Rightarrow> gval reader" where
  "parseField params (PtrKind t) = bind not_truncated (\<lambda>_. bind (parseField params t) (\<lambda>v. ret (PtrV (Some v))))"
| "parseField params BitStringType =
     bind (field_start False params) (\<lambda>(sizeExt, valueExt).
     bind (parseBitString sizeExt (sizeLowerBound params) (sizeUpperBound params)) (\<lambda>(b, n). ret (BitStringV b n)))"
| "parseField params ObjectIdentifierType =
     bind (field_start True params) (\<lambda>_. fail (Err ''Unsupport ObjectIdenfier type''))"
| "parseField params OctetStringType =
     bind (field_start True params) (\<lambda>(sizeExt, valueExt).
     bind (parseOctetString sizeExt (sizeLowerBound params) (sizeUpperBound params)) (\<lambda>b. ret (OctetStringV (Some b))))"
| "parseField params EnumeratedType =
     bind (field_start False params) (\<lambda>(sizeExt, valueExt).
     bind (parseEnumerated valueExt (valueLowerBound params) (valueUpperBound params)) (\<lambda>u. ret (EnumeratedV u)))"
| "parseField params BoolKind = bind (field_start False params) (\<lambda>_. bind parseBool (\<lambda>b. ret (BoolV b)))"
| "parseField params (IntKind w) =
     bind (field_start False params) (\<lambda>(sizeExt, valueExt).
     bind (parseInteger valueExt (valueLowerBound params) (valueUpperBound params)) (\<lambda>i. ret (IntV (signed_take_bit (w - 1) i))))"
| "parseField params (StructKind fs) =
     bind (field_start False params) (\<lambda>(sizeExt, valueExt).
     bind (lift_res (\<lambda>_. count_optional fs 0)) (\<lambda>optionalCount.
     bind (if optionalCount > 0 then getBitsValue optionalCount else ret 0) (\<lambda>optionalPresents.
     if \<not> sequence_type fs then
       if openType params then
         (case referenceFieldValue params of
            None \<Rightarrow> fail (Err ''OpenType reference value is empty'')
          | Some refValue \<Rightarrow>
              (case find_reference refValue 1 (tl fs) of
                 None \<Rightarrow> fail (Err ''OpenType reference value does not match any field'')
               | Some present \<Rightarrow> bind (parse_at True fs present) (\<lambda>v. ret (choice_value fs present v))))
       else
         bind (handle (getChoiceIndex valueExt (valueUpperBound params)) (\<lambda>_. ret 0) ret) (\<lambda>present.
         if present = 0 then fail (Err ''CHOICE present is 0(present's field number)'')
         else if present \<ge> int (length fs) then fail (Err ''CHOICE Present is bigger than number of struct field'')
         else if present < 0 then fail Panic
         else bind (parse_at False fs (nat present)) (\<lambda>v. ret (choice_value fs (nat present) v)))
     else bind (parse_fields [] optionalCount optionalPresents fs) (\<lambda>vs. ret (StructV vs)))))"
| "parseField params (SliceKind t) =
     bind (field_start True params) (\<lambda>(sizeExt, valueExt).
     bind (get_count sizeExt params) (\<lambda>numElements.
     if numElements < 0 then fail Panic
     else bind (repeat_read (nat numElements) (parseField (without_size params) t)) (\<lambda>vs. ret (SliceV (Some vs)))))"
| "parseField params StringKind =
     bind (field_start False params) (\<lambda>(sizeExt, valueExt).
     bind (parseOctetString sizeExt (sizeLowerBound params) (sizeUpperBound params)) (\<lambda>b. ret (StringV b)))"
| "parse_fields prev n w [] = ret []"
| "parse_fields prev n w ((name, tag, t) # fs) =
     (let params = parseFieldParameters tag; opt = (optional params \<and> n > 0); n' = (if opt then n - 1 else n) in
      if opt \<and> w AND push_bit n' 1 = 0
      then bind (parse_fields (prev @ [(name, t, zero_val t)]) n' w fs) (\<lambda>vs. ret (zero_val t # vs))
      else
        bind (lift_res (\<lambda>_. open_reference params prev)) (\<lambda>params.
        bind (parseField params t) (\<lambda>v.
        bind (parse_fields (prev @ [(name, t, v)]) n' w fs) (\<lambda>vs. ret (v # vs)))))"
| "parse_at is_open ((name, tag, t) # fs) 0 =
     (if is_open then parseOpenType (parseField (parseFieldParameters tag) t) else parseField (parseFieldParameters tag) t)"
| "parse_at is_open (f # fs) (Suc k) = parse_at is_open fs k"
| "parse_at is_open [] k = fail Panic"

definition UnmarshalWithParams :: "bytes \<Rightarrow> gtype \<Rightarrow> string \<Rightarrow> gval res" where
  "UnmarshalWithParams b t params = fst (parseField (parseFieldParameters params) t \<lparr>pd_bytes = b, byteOffset = 0, bitsOffset = 0\<rparr>)"

definition Unmarshal :: "bytes \<Rightarrow> gtype \<Rightarrow> gval res" where
  "Unmarshal b t = UnmarshalWithParams b t []"

end
