(* ===== verification/APER_Roundtrip.thy ===== *)
theory APER_Roundtrip
  imports APER
begin

text \<open>
  The values of a Go type that \<^verbatim>\<open>Unmarshal\<close> gives back from the output of \<^verbatim>\<open>Marshal\<close>. \<open>normal\<close> identifies values that
  differ in the unused bits of a BIT STRING or in nil and empty slices only. \<open>codable\<close> is the check that the
  constraints in the tags hold, that each field takes at least one bit and that no length needs a second
  fragment.
\<close>

section \<open>Values up to unused bits\<close>

fun normal :: "gval \<Rightarrow> gval" where
  "normal (BitStringV b n) = BitStringV (bytes_of (pad (take n (bits_of b)))) n"
| "normal (OctetStringV b) = OctetStringV (Some (elems b))"
| "normal (PtrV p) = PtrV (map_option normal p)"
| "normal (SliceV None) = SliceV (Some [])"
| "normal (SliceV (Some vs)) = SliceV (Some (map normal vs))"
| "normal (StructV vs) = StructV (map normal vs)"
| "normal v = v"

lemma normal_SliceV [simp]: "normal (SliceV vs) = SliceV (Some (map normal (elems vs)))"
  by (cases vs) (simp_all add: elems_def)

declare normal.simps(4,5) [simp del]

lemma elems_simps [simp]: "elems None = []" "elems (Some xs) = xs"
  by (simp_all add: elems_def)

abbreviation alike :: "gval \<Rightarrow> gval \<Rightarrow> bool" where
  "alike v w \<equiv> normal w = normal v"

lemma normal_IntV [simp]: "normal w = IntV i \<longleftrightarrow> w = IntV i"
  by (cases w) (auto simp: elems_def)

lemma normal_StructV: "normal w = normal (StructV vs) \<longleftrightarrow> (\<exists>ws. w = StructV ws \<and> map normal ws = map normal vs)"
  by (cases w) (auto simp: elems_def)

lemma alike_IntV: "alike v w \<Longrightarrow> (case v of IntV i \<Rightarrow> f i | _ \<Rightarrow> z) = (case w of IntV i \<Rightarrow> f i | _ \<Rightarrow> z)"
  by (cases v; cases w) auto

lemma case_not_IntV: "\<nexists>i. v = IntV i \<Longrightarrow> (case v of IntV i \<Rightarrow> F i | _ \<Rightarrow> z) = z"
  by (cases v) simp_all

lemma case_not_StructV: "\<nexists>vs. v = StructV vs \<Longrightarrow> (case v of StructV vs \<Rightarrow> F vs | _ \<Rightarrow> z) = z"
  by (cases v) simp_all

lemma alike_not_IntV: "alike v w \<Longrightarrow> \<nexists>i. v = IntV i \<Longrightarrow> \<nexists>i. w = IntV i"
  by (metis normal_IntV)

lemma alike_not_StructV: "alike v w \<Longrightarrow> \<nexists>vs. v = StructV vs \<Longrightarrow> \<nexists>vs. w = StructV vs"
  by (metis normal_StructV)

text \<open>An open type finds the same reference value in alike fields.\<close>

lemma ref_alike:
  "alike v w \<Longrightarrow> ref_value t w = ref_value t v"
  "map normal ws = map normal vs \<Longrightarrow> ref_at fs ws k = ref_at fs vs k"
proof (induction t v and fs vs k arbitrary: w and ws rule: ref_value_ref_at.induct)
  case (1 i v)
  then show ?case using alike_IntV [where v = v and w = w and f = Inr and z = "Inl Panic"] by simp
next
  case (2 fs v)
  show ?case
  proof (cases "\<exists>vs. v = StructV vs")
    case True
    then obtain vs where StructV: "v = StructV vs" by blast
    obtain ws where w: "w = StructV ws" "map normal ws = map normal vs" using 2(3) unfolding StructV normal_StructV by blast
    show "ref_value (StructKind fs) w = ref_value (StructKind fs) v"
    proof (cases "fs = [] \<or> fst (hd fs) \<noteq> ''Present''")
      case True
      then show ?thesis using 2(2) [OF StructV, of ws] w StructV by auto
    next
      case False
      then have f: "fs \<noteq> []" "fst (hd fs) = ''Present''" by auto
      show ?thesis
      proof (cases vs)
        case Nil
        then show ?thesis using w StructV by simp
      next
        case (Cons x xs)
        then obtain y ys where ws: "ws = y # ys" "alike x y" using w(2) by auto
        show ?thesis
        proof (cases "\<exists>p. x = IntV p")
          case True
          then obtain p where x: "x = IntV p" by blast
          then have y: "y = IntV p" using ws(2) by simp
          have "ref_at fs ws (nat p) = ref_at fs vs (nat p)" if "p \<noteq> 0" "\<not> int (length fs) \<le> p" "\<not> p < 0"
            using 2(1) [OF StructV f Cons x that, of ws] w(2) by blast
          then show ?thesis using f by (simp add: w(1) StructV Cons x ws(1) y)
        next
          case False
          then show ?thesis using f alike_not_IntV [OF ws(2)] by (simp add: w(1) StructV Cons ws(1) case_not_IntV)
        qed
      qed
    qed
  next
    case False
    then show ?thesis using alike_not_StructV [OF 2(3)] by (simp add: case_not_StructV)
  qed
next
  case (4 name tag t fs v vs)
  from 4(2) obtain y ys where "ws = y # ys" "alike v y" by auto
  then show ?case using 4(1) [of y] by simp
next
  case (5 f fs v vs k)
  from 5(2) obtain y ys where "ws = y # ys" "map normal ys = map normal vs" by auto
  then show ?case using 5(1) [of ys] by simp
qed (simp_all only: ref_value.simps ref_at.simps list.map map_is_Nil_conv)

section \<open>Values that can be encoded\<close>

definition count_ok :: "fieldParameters \<Rightarrow> nat \<Rightarrow> bool" where
  "count_ok params n \<longleftrightarrow> (let lb = low_bound params; unbounded = (\<not> sizeExtensible params \<and> n < 256) in
     0 \<le> lb \<and> lb \<le> int n \<and>
     (case sizeUpperBound params of
        None \<Rightarrow> unbounded
      | Some ub \<Rightarrow> if ub < 65536 then lb \<le> ub \<and> (int n \<le> ub \<or> sizeExtensible params \<and> n < 256) else unbounded))"

definition encoded_length :: "unit writer \<Rightarrow> nat" where
  "encoded_length m = length (raw_bytes (snd (m \<lparr>raw_bytes = [], raw_off = 0\<rparr>)))"

fun codable :: "fieldParameters \<Rightarrow> gtype \<Rightarrow> gval \<Rightarrow> bool"
  and codable_fields :: "(string \<times> gtype \<times> gval) list \<Rightarrow> field list \<Rightarrow> gval list \<Rightarrow> bool"
  and codable_at :: "bool \<Rightarrow> field list \<Rightarrow> gval list \<Rightarrow> nat \<Rightarrow> bool" where
  "codable params (PtrKind t) v = (case v of PtrV (Some x) \<Rightarrow> codable params t x | _ \<Rightarrow> False)"
| "codable params BitStringType v =
     (case v of BitStringV b n \<Rightarrow> \<not> valueExtensible params \<and>
        size_ok (sizeExtensible params) (sizeLowerBound params) (sizeUpperBound params) n \<and> length b = (n + 7) div 8 | _ \<Rightarrow> False)"
| "codable params ObjectIdentifierType v = False"
| "codable params OctetStringType v =
     (case v of OctetStringV b \<Rightarrow> size_ok (sizeExtensible params) (sizeLowerBound params) (sizeUpperBound params) (length (elems b)) | _ \<Rightarrow> False)"
| "codable params EnumeratedType v =
     (case v of EnumeratedV u \<Rightarrow> \<not> sizeExtensible params \<and> enum_ok (valueLowerBound params) (valueUpperBound params) u \<and>
        (valueExtensible params \<or> valueUpperBound params \<noteq> Some 0) | _ \<Rightarrow> False)"
| "codable params BoolKind v = (case v of BoolV b \<Rightarrow> \<not> sizeExtensible params \<and> \<not> valueExtensible params | _ \<Rightarrow> False)"
| "codable params (IntKind w) v =
     (case v of IntV i \<Rightarrow> \<not> sizeExtensible params \<and> int_ok (valueExtensible params) (valueLowerBound params) (valueUpperBound params) i \<and>
        (valueExtensible params \<or> int_range (valueLowerBound params) (valueUpperBound params) \<noteq> 1) \<and> signed_take_bit (w - 1) i = i | _ \<Rightarrow> False)"
| "codable params (StructKind fs) v =
     (case v of
        StructV vs \<Rightarrow>
          \<not> sizeExtensible params \<and> list_all (\<lambda>f. exported (fst f)) fs \<and>
          (if sequence_type fs then
             (fs \<noteq> [] \<or> valueExtensible params) \<and> length (filter (\<lambda>f. optional (tag_params f)) fs) \<le> 64 \<and> codable_fields [] fs vs
           else
             list_all (\<lambda>f. \<not> optional (tag_params f)) fs \<and>
             (case vs of
                IntV present # _ \<Rightarrow>
                  0 < present \<and> present < int (length fs) \<and> choice_value fs (nat present) (vs ! nat present) = v \<and>
                  (if openType params then
                     (case referenceFieldValue params of None \<Rightarrow> False | Some r \<Rightarrow> find_reference r 1 (tl fs) = Some (nat present)) \<and>
                     codable_at True fs vs (nat present)
                   else
                     (case valueUpperBound params of None \<Rightarrow> False | Some ub \<Rightarrow> ub < 65536 \<and> present \<le> ub + 1) \<and>
                     codable_at False fs vs (nat present))
              | _ \<Rightarrow> False))
      | _ \<Rightarrow> False)"
| "codable params (SliceKind t) v =
     (case v of
        SliceV vs \<Rightarrow>
          count_ok params (length (elems vs)) \<and> (elems vs \<noteq> [] \<or> sizeExtensible params \<or> sizeUpperBound params = None) \<and>
          (\<forall>x \<in> set (elems vs). codable (without_size params) t x)
      | _ \<Rightarrow> False)"
| "codable params StringKind v =
     (case v of StringV s \<Rightarrow> \<not> valueExtensible params \<and>
        size_ok (sizeExtensible params) (sizeLowerBound params) (sizeUpperBound params) (length s) | _ \<Rightarrow> False)"
| "codable_fields prev [] vs = (vs = [])"
| "codable_fields prev (f # fs) [] = False"
| "codable_fields prev ((name, tag, t) # fs) (v # vs) =
     (let params = parseFieldParameters tag in
      (if optional params \<and> is_nil v = Inr True then v = zero_val t
       else (optional params \<longrightarrow> is_nil v = Inr False) \<and>
         (case open_reference params prev of Inl _ \<Rightarrow> False | Inr params \<Rightarrow> codable params t v)) \<and>
      codable_fields (prev @ [(name, t, v)]) fs vs)"
| "codable_at is_open ((name, tag, t) # fs) (v # vs) 0 =
     (codable (parseFieldParameters tag) t v \<and> (is_open \<longrightarrow> encoded_length (makeField (parseFieldParameters tag) t v) < 16384))"
| "codable_at is_open (f # fs) (v # vs) (Suc k) = codable_at is_open fs vs k"
| "codable_at is_open _ _ _ = False"

section \<open>Optional fields\<close>

fun presents :: "field list \<Rightarrow> gval list \<Rightarrow> bool list" where
  "presents (f # fs) (v # vs) = (if optional (tag_params f) then (is_nil v = Inr False) # presents fs vs else presents fs vs)"
| "presents _ _ = []"

text \<open>\<open>w\<close> holds the bits \<open>ps\<close>, the first in front.\<close>

definition holds :: "u64 \<Rightarrow> bool list \<Rightarrow> bool" where
  "holds w ps \<longleftrightarrow> (\<forall>k < length ps. bit w k = ps ! (length ps - 1 - k))"

lemma holds_Cons: "holds w (p # ps) \<longleftrightarrow> bit w (length ps) = p \<and> holds w ps"
proof -
  have "(p # ps) ! (length ps - k) = ps ! (length ps - 1 - k)" if "k < length ps" for k
    using that by (simp add: nth_Cons')
  then show ?thesis by (auto simp: holds_def less_Suc_eq)
qed

lemma codable_nil: "\<not> codable params t (PtrV None)"
  by (cases t) simp_all

lemma bit_shift_in: "bit (push_bit 1 w + (if b then 0 else 1)) k \<longleftrightarrow> (case k of 0 \<Rightarrow> \<not> b | Suc j \<Rightarrow> bit w j \<and> k < 64)" for w :: u64
proof -
  have "push_bit 1 w + (if b then 0 else 1) = push_bit 1 w OR (if b then 0 else 1)"
  proof (rule disjunctive_add)
    fix j
    show "\<not> bit (push_bit 1 w) j \<or> \<not> bit (if b then 0 else 1 :: u64) j"
      by (cases "j = 0") (simp_all only: bit_push_bit_iff, auto simp: bit_1_iff)
  qed
  then show ?thesis by (simp only: bit_or_iff bit_push_bit_iff) (auto simp: bit_1_iff split: nat.split)
qed

lemma optional_bits_presents:
  "codable_fields prev fs vs \<Longrightarrow> list_all (\<lambda>f. exported (fst f)) fs \<Longrightarrow> length (presents fs vs) \<le> 64 \<Longrightarrow>
   \<exists>w'. optional_bits True fs vs n w = Inr (n + length (presents fs vs), w') \<and> holds w' (presents fs vs) \<and>
     (\<forall>k. bit w' (length (presents fs vs) + k) \<longleftrightarrow> bit w k \<and> length (presents fs vs) + k < 64)"
proof (induction fs arbitrary: prev vs n w)
  case Nil
  then show ?case by (auto simp: holds_def dest: bit_imp_le_length)
next
  case (Cons f fs)
  obtain name tag t where f: "f = (name, tag, t)" by (cases f)
  obtain v us where vs: "vs = v # us" using Cons.prems(1) by (cases vs) auto
  have c: "codable_fields (prev @ [(name, t, v)]) fs us" "list_all (\<lambda>f. exported (fst f)) fs" "exported name"
    using Cons.prems(1,2) by (simp_all add: f vs Let_def)
  show ?case
  proof (cases "optional (tag_params f)")
    case True
    then obtain b where b: "is_nil v = Inr b" using Cons.prems(1) by (auto simp: f vs Let_def tag_params_def split: if_splits)
    have l: "length (presents fs us) < 64" using Cons.prems(3) True by (simp add: vs)
    let ?w = "push_bit 1 w + (if b then 0 else 1)"
    obtain w' where w': "optional_bits True fs us (Suc n) ?w = Inr (Suc n + length (presents fs us), w')" "holds w' (presents fs us)"
      "\<forall>k. bit w' (length (presents fs us) + k) \<longleftrightarrow> bit ?w k \<and> length (presents fs us) + k < 64"
      using Cons.IH [OF c(1,2), of "Suc n" ?w] l by auto
    have "bit w' (length (presents fs us)) \<longleftrightarrow> \<not> b" using spec [OF w'(3), of 0] l by (simp only: bit_shift_in) simp
    then have "holds w' (presents (f # fs) (v # us))" using w'(2) True b by (simp add: holds_Cons)
    moreover have "bit w' (length (presents (f # fs) (v # us)) + k) \<longleftrightarrow> bit w k \<and> length (presents (f # fs) (v # us)) + k < 64" for k
    proof -
      have "bit ?w (Suc k) \<longleftrightarrow> bit w k \<and> Suc k < 64" by (simp only: bit_shift_in nat.case)
      then show ?thesis using spec [OF w'(3), of "Suc k"] True by auto
    qed
    ultimately show ?thesis using True b w'(1) c(3) f by (auto simp: vs)
  next
    case False
    then have "v \<noteq> PtrV None" using Cons.prems(1) codable_nil by (auto simp: f vs Let_def tag_params_def split: sum.splits)
    then show ?thesis using False Cons.IH [OF c(1,2), of n w] Cons.prems(3) c(3) f by (simp add: vs)
  qed
qed

lemma count_optional_presents:
  "codable_fields prev fs vs \<Longrightarrow> list_all (\<lambda>f. exported (fst f)) fs \<Longrightarrow> count_optional fs n = Inr (n + length (presents fs vs))"
proof (induction fs arbitrary: prev vs n)
  case (Cons f fs)
  then show ?case by (cases vs; cases f) (auto simp: Let_def)
qed simp

lemma length_presents: "codable_fields prev fs vs \<Longrightarrow> length (presents fs vs) = length (filter (\<lambda>f. optional (tag_params f)) fs)"
proof (induction fs arbitrary: prev vs)
  case (Cons f fs)
  then show ?case by (cases vs; cases f) (auto simp: Let_def)
qed simp

end
