(* ===== verification/APER_Correct.thy ===== *)
theory APER_Correct
  imports APER_Roundtrip
begin

text \<open>
  \<^verbatim>\<open>Unmarshal\<close> undoes \<^verbatim>\<open>Marshal\<close> on every codable value, by the agreement of writer and reader for the kinds of
  fields: extension bits, SEQUENCE OF, open types, optional fields, CHOICE.
\<close>

declare octets_loop.simps [simp del] bits_loop.simps [simp del] octets_read.simps [simp del] bits_read.simps [simp del]

section \<open>Parts of a field\<close>

lemma codes_checked:
  assumes "codes 1 E D P"
  shows "codes 1 E (bind not_truncated (\<lambda>_. D)) P"
  unfolding codes_def
proof
  fix bs
  obtain ns where n: "E (wr bs) = (Inr (), wr (bs @ ns))" "1 \<le> length ns" "reads D bs ns P" using codesD [OF assms, of bs] by blast
  have "reads (bind not_truncated (\<lambda>_. D)) bs ns P"
  proof (rule readsI)
    fix b rest assume b: "bits_of b = bs @ ns @ rest"
    then have "8 * length b = length bs + (length ns + length rest)" by (metis length_append length_bits_of)
    then have "length bs div 8 \<noteq> length b" using n(2) by linarith
    then have "not_truncated (rd b (length bs)) = (Inr (), rd b (length bs))" by (simp add: not_truncated_def check_def)
    then show "\<exists>v. bind not_truncated (\<lambda>_. D) (rd b (length bs)) = (Inr v, rd b (length (bs @ ns))) \<and> P v"
      using readsD [OF n(3) b] by simp
  qed
  then show "\<exists>ns. E (wr bs) = (Inr (), wr (bs @ ns)) \<and> 1 \<le> length ns \<and> reads (bind not_truncated (\<lambda>_. D)) bs ns P"
    using n by blast
qed

text \<open>The extension bits: one of them, or none, is in the constraints of a type.\<close>

lemma codes_size_start:
  assumes "codes 1 E (bind (ext_bit (sizeExtensible p)) D) P" "s \<or> \<not> valueExtensible p"
  shows "codes 1 E (bind (field_start s p) (\<lambda>(sx, vx). D sx)) P"
proof -
  have "bind (field_start s p) (\<lambda>(sx, vx). D sx) = bind not_truncated (\<lambda>_. bind (ext_bit (sizeExtensible p)) D)"
  proof -
    have "(valueExtensible p \<and> \<not> s) = False" using assms(2) by blast
    then show ?thesis by (simp only: field_start_def ext_bit_def bind_bind ret_bind prod.case if_False)
  qed
  then show ?thesis using codes_checked [OF assms(1)] by simp
qed

lemma codes_value_start:
  assumes "codes 1 E (bind (ext_bit (valueExtensible p)) D) P" "\<not> sizeExtensible p"
  shows "codes 1 E (bind (field_start False p) (\<lambda>(sx, vx). D vx)) P"
proof -
  have "bind (field_start False p) (\<lambda>(sx, vx). D vx) = bind not_truncated (\<lambda>_. bind (ext_bit (valueExtensible p)) D)"
    using assms(2) by (simp add: field_start_def ext_bit_def)
  then show ?thesis using codes_checked [OF assms(1)] by simp
qed

lemma codes_bit: "codes 1 (putBitsValue (of_bool x) 1) (ext_bit True) ((=) x)"
proof -
  have "uint (of_bool x :: u64) < 2 ^ 1" by simp
  then have "drop_bit 1 (of_bool x :: u64) = 0" by (rule drop_bit_fits)
  from codes_bits [OF this] show ?thesis unfolding ext_bit_def by (auto intro!: codes_map)
qed

lemma codes_ext_zero: "codes (of_bool e) (if e then putBitsValue 0 1 else ret ()) (ext_bit e) ((=) False)"
  using codes_bit [of False] by (cases e) (auto simp: ext_bit_def intro: codes_ret)

lemma codes_flag:
  assumes "e \<or> \<not> x" "codes j E (D x) P"
  shows "codes (of_bool e + j) (bind (if e then bind (putBitsValue (of_bool x) 1) (\<lambda>_. ret t) else ret t) (\<lambda>_. E)) (bind (ext_bit e) D) P"
proof (cases e)
  case True
  have "codes (1 + j) (bind (putBitsValue (of_bool x) 1) (\<lambda>_. E)) (bind (ext_bit True) D) P"
    by (rule codes_bind [OF codes_bit]) (use assms(2) in auto)
  then show ?thesis using True by simp
qed (use assms in \<open>simp add: ext_bit_def\<close>)

lemma codes_handle:
  assumes "codes k E (bind D f) P"
  shows "codes k E (handle D h f) P"
proof -
  have "handle D h f s = (Inr v, s')" if "bind D f s = (Inr v, s')" for s v s'
    using that by (auto simp: bind_def handle_def split: prod.splits sum.splits)
  then show ?thesis using assms unfolding codes_def reads_def by meson
qed

lemma lift_res_const [simp]: "lift_res (\<lambda>_. Inr x) = ret x" "lift_res (\<lambda>_. Inl e) = fail e"
  by (rule ext, simp)+

section \<open>SEQUENCE OF\<close>

lemma codes_for_each:
  assumes "\<forall>x \<in> set xs. codes 1 (f x) D (Q x)"
  shows "codes (length xs) (for_each f xs) (repeat_read (length xs) D) (list_all2 Q xs)"
  using assms
proof (induction xs)
  case Nil
  show ?case unfolding list.size for_each.simps repeat_read.simps by (rule codes_ret) simp
next
  case (Cons x xs)
  have "codes (Suc (length xs)) (bind (f x) (\<lambda>_. bind (for_each f xs) (\<lambda>_. ret ())))
    (bind D (\<lambda>y. bind (repeat_read (length xs) D) (\<lambda>ys. ret (y # ys)))) (list_all2 Q (x # xs))"
  proof (rule codes_bind)
    show "codes 1 (f x) D (Q x)" using Cons.prems by simp
    fix y assume y: "Q x y"
    show "codes (length xs) (bind (for_each f xs) (\<lambda>_. ret ())) (bind (repeat_read (length xs) D) (\<lambda>ys. ret (y # ys))) (list_all2 Q (x # xs))"
      unfolding bind_ret_unit by (rule codes_map [OF Cons.IH]) (use Cons.prems y in auto)
  qed simp
  then show ?case by simp
qed

text \<open>The number of elements.\<close>

lemma count_octet_codes:
  assumes "n < 256"
  shows "codes 1 (bind appendAlignBits (\<lambda>_. append_bytes [of_nat n]))
    (bind parseAlignBits (\<lambda>_. bind (lift_res (\<lambda>pd. if byteOffset pd \<ge> length (pd_bytes pd) then Inl (Err msg)
        else Inr (unat (pd_bytes pd ! byteOffset pd)))) (\<lambda>n.
      bind (modify (\<lambda>pd. pd\<lparr>byteOffset := byteOffset pd + 1\<rparr>)) (\<lambda>_. ret (sint (of_nat n :: u64)))))) ((=) (int n))"
proof -
  have b: "unat (of_nat n :: u8) = n" using assms by (simp add: unat_of_nat)
  have "sint (word_of_int (int n) :: u64) = int n" by (rule sint_word_of_int) (use assms in simp_all)
  then have s: "sint (of_nat n :: u64) = int n" by simp
  have "codes 1 (bind appendAlignBits (\<lambda>_. append_bytes [of_nat n]))
    (bind (bind parseAlignBits (\<lambda>_. bind (lift_res (\<lambda>pd. if byteOffset pd \<ge> length (pd_bytes pd) then Inl (Err msg)
        else Inr (unat (pd_bytes pd ! byteOffset pd)))) (\<lambda>n.
      bind (modify (\<lambda>pd. pd\<lparr>byteOffset := byteOffset pd + 1\<rparr>)) (\<lambda>_. ret n)))) (\<lambda>n. ret (sint (of_nat n :: u64)))) ((=) (int n))"
    by (rule codes_map [OF codes_octet_end]) (use b s in auto)
  then show ?thesis by (simp only: bind_bind ret_bind)
qed

lemma get_count_free:
  assumes "(case sizeUpperBound p of Some ub \<Rightarrow> if \<not> e \<and> ub < 65536 then int64 (ub - low_bound p + 1) else -1 | None \<Rightarrow> -1) = -1"
  shows "get_count e p = bind parseAlignBits (\<lambda>_. bind (lift_res (\<lambda>pd. if byteOffset pd \<ge> length (pd_bytes pd) then Inl (Err ''per data out of range'')
        else Inr (unat (pd_bytes pd ! byteOffset pd)))) (\<lambda>n.
      bind (modify (\<lambda>pd. pd\<lparr>byteOffset := byteOffset pd + 1\<rparr>)) (\<lambda>_. ret (sint (of_nat n :: u64)))))"
proof -
  have "((-1 :: int) > 1) = False" "((-1 :: int) = 1) = False" by simp_all
  then show ?thesis by (simp only: get_count_def Let_def assms if_False bind_bind ret_bind)
qed

lemma count_codes:
  assumes "count_ok p n"
  shows "codes (if sizeExtensible p \<or> sizeUpperBound p = None then 1 else 0) (put_count p (int n))
    (bind (ext_bit (sizeExtensible p)) (\<lambda>e. get_count e p)) ((=) (int n))"
proof -
  let ?lb = "low_bound p" and ?E = "bind appendAlignBits (\<lambda>_. append_bytes [of_nat n])"
  have lb: "0 \<le> ?lb" "?lb \<le> int n" using assms by (simp_all add: count_ok_def Let_def)
  consider (free) "sizeUpperBound p = None \<or> (\<exists>ub. sizeUpperBound p = Some ub \<and> \<not> ub < 65536)" "\<not> sizeExtensible p" "n < 256"
    | (fits) ub where "sizeUpperBound p = Some ub" "ub < 65536" "?lb \<le> ub" "int n \<le> ub"
    | (over) ub where "sizeUpperBound p = Some ub" "ub < 65536" "?lb \<le> ub" "int n > ub" "sizeExtensible p" "n < 256"
    using assms by (fastforce simp: count_ok_def Let_def split: option.splits if_splits)
  then show ?thesis
  proof cases
    case free
    have "put_count p (int n) = ?E" using free lb by (auto simp: put_count_def Let_def)
    moreover have "get_count False p = bind parseAlignBits (\<lambda>_. bind (lift_res (\<lambda>pd. if byteOffset pd \<ge> length (pd_bytes pd) then Inl (Err ''per data out of range'')
        else Inr (unat (pd_bytes pd ! byteOffset pd)))) (\<lambda>n.
      bind (modify (\<lambda>pd. pd\<lparr>byteOffset := byteOffset pd + 1\<rparr>)) (\<lambda>_. ret (sint (of_nat n :: u64)))))"
      by (rule get_count_free) (use free in auto)
    ultimately show ?thesis using count_octet_codes [OF free(3), of "''per data out of range''"] free
      by (auto simp: ext_bit_def intro: codes_weaken)
  next
    case (over ub)
    have "put_count p (int n) = bind (if sizeExtensible p then bind (putBitsValue (of_bool True) 1) (\<lambda>_. ret ()) else ret ()) (\<lambda>_. ?E)"
      using over lb by (simp add: put_count_def Let_def)
    moreover have "get_count True p = bind parseAlignBits (\<lambda>_. bind (lift_res (\<lambda>pd. if byteOffset pd \<ge> length (pd_bytes pd) then Inl (Err ''per data out of range'')
        else Inr (unat (pd_bytes pd ! byteOffset pd)))) (\<lambda>n.
      bind (modify (\<lambda>pd. pd\<lparr>byteOffset := byteOffset pd + 1\<rparr>)) (\<lambda>_. ret (sint (of_nat n :: u64)))))"
      by (rule get_count_free) (use over in auto)
    ultimately show ?thesis
      using codes_flag [of "sizeExtensible p" True, where D = "\<lambda>e. get_count e p" and t = "()", OF _ codes_eq [OF count_octet_codes [OF over(6), of "''per data out of range''"]]] over
      by (auto intro: codes_weaken)
  next
    case (fits ub)
    let ?r = "ub - ?lb + 1" and ?w = "word_of_int (int n - ?lb) :: u64"
    have r: "int64 ?r = ?r" by (rule int64_id) (use fits lb in auto)
    have p: "put_count p (int n) = bind (if sizeExtensible p then bind (putBitsValue (of_bool False) 1) (\<lambda>_. ret ()) else ret ())
        (\<lambda>_. if ?r = 1 then ret () else appendConstraintValue ?r ?w)"
      by (intro ext) (use fits lb r in \<open>auto simp: put_count_def Let_def bind_def split: prod.split sum.split\<close>)
    have uw: "uint ?w = int n - ?lb" by (rule uint_word_of_int_small) (use fits lb in auto)
    have "?w + word_of_int ?lb = word_of_int (int n)" by simp
    moreover have "sint (word_of_int (int n) :: u64) = int n" by (rule sint_word_of_int) (use fits in auto)
    ultimately have sw: "sint (?w + word_of_int ?lb) = int n" by (simp only:)
    have g: "get_count False p = (if ?r = 1 then ret (sint (word_of_int ?lb :: u64))
        else handle (parseConstraintValue ?r) (\<lambda>_. ret (sint (word_of_int ?lb :: u64))) (\<lambda>n. ret (sint (n + word_of_int ?lb))))"
      using fits lb r by (auto simp: get_count_def Let_def handle_def bind_def fun_eq_iff split: prod.split sum.split fault.split)
    have "codes 0 (if ?r = 1 then ret () else appendConstraintValue ?r ?w) (get_count False p) ((=) (int n))"
    proof (cases "?r = 1")
      case True
      then have "int n = ?lb" using fits lb by simp
      moreover have "sint (word_of_int ?lb :: u64) = ?lb" by (rule sint_word_of_int) (use fits lb in auto)
      ultimately show ?thesis unfolding g if_P [OF True] by (intro codes_ret) simp
    next
      case False
      have "codes 1 (appendConstraintValue ?r ?w) (parseConstraintValue ?r) ((=) ?w)"
        by (rule codes_constraint) (use uw fits lb in auto)
      from codes_map [OF this, of "(=) (int n)" "\<lambda>n. sint (n + word_of_int ?lb)"] sw
      have "codes 1 (appendConstraintValue ?r ?w) (bind (parseConstraintValue ?r) (\<lambda>n. ret (sint (n + word_of_int ?lb)))) ((=) (int n))" by auto
      from codes_weaken [OF codes_handle [OF this], of 0] show ?thesis unfolding g if_not_P [OF False] by simp
    qed
    from codes_flag [of "sizeExtensible p" False, where D = "\<lambda>e. get_count e p" and t = "()", OF _ this]
    show ?thesis unfolding p using fits(1) by (auto intro: codes_weaken)
  qed
qed

section \<open>Open types\<close>

lemma octets_loop_aligned:
  assumes "n < 16384" "n = length x" "x \<noteq> []" "octets_loop x r 0 n 0 (wr bs) = (Inr (), wr cs)"
  shows "length cs mod 8 = 0"
proof -
  have "octets_loop x r 0 n 0 = bind (appendLength r n) (\<lambda>_. bind appendAlignBits (\<lambda>_. append_bytes x))"
    using octets_loop_single [of n 0 x r] assms(1-3) by simp
  then obtain q where q: "q\<lparr>raw_off := 0, raw_bytes := raw_bytes q @ x\<rparr> = wr cs"
    using assms(4) by (auto simp: bind_def appendAlignBits_def append_bytes_def split: prod.splits sum.splits)
  have "raw_off (wr cs) = 0" unfolding q [symmetric] by simp
  then show ?thesis by simp
qed

lemma codes_open:
  assumes "codes 1 E D P" "encoded_length E < 16384"
  shows "codes 1 (appendOpenType E) (parseOpenType D) P"
proof -
  have w: "wr [] = \<lparr>raw_bytes = [], raw_off = 0\<rparr>" by (simp add: wr_def pad_def pad_len_def bytes_of.simps)
  obtain ns where n: "E (wr []) = (Inr (), wr ns)" "1 \<le> length ns" "reads D [] ns P" using codesD [OF assms(1), of "[]"] by auto
  define x where "x = bytes_of (pad ns)"
  have x: "raw_bytes (wr ns) = x" by (simp add: x_def raw_bytes_wr)
  have l: "length x < 16384" using assms(2) n(1) x by (simp add: encoded_length_def w [symmetric])
  have b: "bits_of x = [] @ ns @ replicate (pad_len (length ns)) False" unfolding x_def bits_of_bytes_of_pad by (simp add: pad_def)
  then have "x \<noteq> []" using n(2) by auto
  have E: "appendOpenType E = octets_loop x (-1) 0 (length x) 0"
    using n(1) x by (intro ext) (simp add: appendOpenType_def w [symmetric])
  obtain v where v: "D (rd x 0) = (Inr v, rd x (length ns))" "P v" using readsD [OF n(3) b] by auto
  have r: "rd x 0 = \<lparr>pd_bytes = x, byteOffset = 0, bitsOffset = 0\<rparr>" by (simp add: rd_def)
  have "codes 1 (octets_loop x (-1) 0 (length x) 0) (octets_read ''per data out of range '' (-1) 0 []) ((=) x)"
    by (rule octets_sized) (use l in auto)
  then have "codes 1 (bind (octets_loop x (-1) 0 (length x) 0) (\<lambda>_. bind appendAlignBits (\<lambda>_. ret ()))) (parseOpenType D) P"
    unfolding parseOpenType_def
  proof (rule codes_bind [where ?k2.0 = 0])
    fix y assume "x = y"
    show "codes 0 (bind appendAlignBits (\<lambda>_. ret ()))
        (bind parseAlignBits (\<lambda>_. lift_res (\<lambda>_. fst (D \<lparr>pd_bytes = y, byteOffset = 0, bitsOffset = 0\<rparr>)))) P"
      unfolding \<open>x = y\<close> [symmetric] r [symmetric] v(1) fst_conv lift_res_const
      by (rule codes_bind [OF codes_align, where ?k2.0 = 0]) (auto intro: codes_ret v(2))
  qed simp
  moreover have "octets_loop x (-1) 0 (length x) 0 (wr bs) = bind (octets_loop x (-1) 0 (length x) 0) (\<lambda>_. bind appendAlignBits (\<lambda>_. ret ())) (wr bs)" for bs
  proof -
    have "codes 1 (octets_loop x (-1) 0 (length x) 0) (octets_read ''per data out of range '' (-1) 0 []) ((=) x)"
      by (rule octets_sized) (use l in auto)
    then obtain ms where m: "octets_loop x (-1) 0 (length x) 0 (wr bs) = (Inr (), wr (bs @ ms))" using codesD by blast
    then have "length (bs @ ms) mod 8 = 0" using octets_loop_aligned [OF l refl \<open>x \<noteq> []\<close>] by blast
    then have "pad (bs @ ms) = bs @ ms" by (rule pad_aligned)
    then show ?thesis using m by (simp del: octets_loop.simps)
  qed
  ultimately show ?thesis unfolding E by (rule codes_cong)
qed

section \<open>Choices\<close>

lemma normal_choice:
  assumes "alike v w"
  shows "alike (choice_value fs k v) (choice_value fs k w)"
  using assms by (simp add: choice_value_def map_update)

lemma open_reference_alike:
  assumes "list_all2 (\<lambda>(name, t, v) (name', t', w). name' = name \<and> t' = t \<and> alike v w) prev prev'"
  shows "open_reference p prev' = open_reference p prev"
proof -
  let ?R = "\<lambda>(name, t, v) (name', t', w). name' = name \<and> t' = t \<and> alike v w"
  let ?f = "filter (\<lambda>(name, _). name = referenceFieldName p)"
  have "list_all2 ?R (?f prev) (?f prev')"
    using assms by (induction rule: list_all2_induct) auto
  then show ?thesis
  proof (cases "?f prev")
    case Nil
    then show ?thesis using \<open>list_all2 ?R (?f prev) (?f prev')\<close> by (simp add: open_reference_def)
  next
    case (Cons x xs)
    obtain name t v where x: "x = (name, t, v)" by (cases x)
    obtain w ys where y: "?f prev' = (name, t, w) # ys" "alike v w"
      using \<open>list_all2 ?R (?f prev) (?f prev')\<close> unfolding Cons x by (auto simp: list_all2_Cons1)
    show ?thesis unfolding open_reference_def Cons x y(1) by (simp only: list.case prod.case ref_alike(1) [OF y(2)])
  qed
qed

section \<open>Fields\<close>

text \<open>What the encoder writes for a value, the decoder reads as an alike value: one field, the fields of a SEQUENCE, the present field of a CHOICE.\<close>

definition field_codes :: "fieldParameters \<Rightarrow> gtype \<Rightarrow> gval \<Rightarrow> bool" where
  "field_codes p t v \<longleftrightarrow> codes 1 (makeField p t v) (parseField p t) (alike v)"

definition prev_alike :: "(string \<times> gtype \<times> gval) list \<Rightarrow> (string \<times> gtype \<times> gval) list \<Rightarrow> bool" where
  "prev_alike = list_all2 (\<lambda>(name, t, v) (name', t', w). name' = name \<and> t' = t \<and> alike v w)"

definition fields_code :: "(string \<times> gtype \<times> gval) list \<Rightarrow> field list \<Rightarrow> gval list \<Rightarrow> bool" where
  "fields_code prev fs vs \<longleftrightarrow> (\<forall>prev' w w'. prev_alike prev prev' \<longrightarrow> holds w (presents fs vs) \<longrightarrow> holds w' (presents fs vs) \<longrightarrow>
     codes (if presents fs vs = [] \<and> fs \<noteq> [] then 1 else 0) (make_fields prev (length (presents fs vs)) w fs vs)
       (parse_fields prev' (length (presents fs vs)) w' fs) (\<lambda>ws. map normal ws = map normal vs))"

definition at_codes :: "bool \<Rightarrow> field list \<Rightarrow> gval list \<Rightarrow> nat \<Rightarrow> bool" where
  "at_codes is_open fs vs k \<longleftrightarrow> codes 1 (make_at is_open fs vs k) (parse_at is_open fs k) (alike (vs ! k))"

lemma prev_alike_snoc: "prev_alike prev prev' \<Longrightarrow> alike v w \<Longrightarrow> prev_alike (prev @ [(name, t, v)]) (prev' @ [(name, t, w)])"
  by (simp add: prev_alike_def list_all2_appendI)

lemma bit_mask_zero: "w AND push_bit n 1 = 0 \<longleftrightarrow> \<not> bit w n" for w :: u64
proof -
  have "push_bit n 1 = (2 :: u64) ^ n" by (simp add: push_bit_eq_mult)
  then show ?thesis by (simp only: and_exp)
qed

lemma primitive_codes:
  "codable p BitStringType v \<Longrightarrow> field_codes p BitStringType v"
  "codable p OctetStringType v \<Longrightarrow> field_codes p OctetStringType v"
  "codable p StringKind v \<Longrightarrow> field_codes p StringKind v"
  "codable p EnumeratedType v \<Longrightarrow> field_codes p EnumeratedType v"
  "codable p BoolKind v \<Longrightarrow> field_codes p BoolKind v"
  "codable p (IntKind w) v \<Longrightarrow> field_codes p (IntKind w) v"
proof -
  assume "codable p BitStringType v"
  then obtain b n where v: "v = BitStringV b n" "\<not> valueExtensible p" "size_ok (sizeExtensible p) (sizeLowerBound p) (sizeUpperBound p) n"
    "length b = (n + 7) div 8" by (auto split: gval.splits)
  have "alike v (BitStringV c m)" if "bit_string_eq n b (c, m)" for c m
    using that by (simp add: v(1) bit_string_eq_def same_bits_def)
  then have "codes 1 (appendBitString b n (sizeExtensible p) (sizeLowerBound p) (sizeUpperBound p))
    (bind (bind (ext_bit (sizeExtensible p)) (\<lambda>e. parseBitString e (sizeLowerBound p) (sizeUpperBound p))) (\<lambda>x. ret (case x of (c, m) \<Rightarrow> BitStringV c m))) (alike v)"
    by (intro codes_map [OF bit_string_codes [OF v(3,4)]]) auto
  then show "field_codes p BitStringType v" unfolding field_codes_def v(1) makeField.simps parseField.simps gval.case
    by (intro codes_size_start) (use v(2) in \<open>simp_all add: case_prod_unfold\<close>)
next
  assume "codable p OctetStringType v"
  then obtain b where v: "v = OctetStringV b" "size_ok (sizeExtensible p) (sizeLowerBound p) (sizeUpperBound p) (length (elems b))"
    by (auto split: gval.splits)
  have "codes 1 (appendOctetString (elems b) (sizeExtensible p) (sizeLowerBound p) (sizeUpperBound p))
    (bind (bind (ext_bit (sizeExtensible p)) (\<lambda>e. parseOctetString e (sizeLowerBound p) (sizeUpperBound p))) (\<lambda>c. ret (OctetStringV (Some c)))) (alike v)"
    by (rule codes_map [OF octets_codes [OF v(2)]]) (simp add: v(1))
  then show "field_codes p OctetStringType v" unfolding field_codes_def v(1) makeField.simps parseField.simps gval.case
    by (intro codes_size_start) simp_all
next
  assume "codable p StringKind v"
  then obtain b where v: "v = StringV b" "\<not> valueExtensible p" "size_ok (sizeExtensible p) (sizeLowerBound p) (sizeUpperBound p) (length b)"
    by (auto split: gval.splits)
  have "codes 1 (appendOctetString b (sizeExtensible p) (sizeLowerBound p) (sizeUpperBound p))
    (bind (bind (ext_bit (sizeExtensible p)) (\<lambda>e. parseOctetString e (sizeLowerBound p) (sizeUpperBound p))) (\<lambda>c. ret (StringV c))) (alike v)"
    by (rule codes_map [OF octets_codes [OF v(3)]]) (simp add: v(1))
  then show "field_codes p StringKind v" unfolding field_codes_def v(1) makeField.simps parseField.simps gval.case
    by (intro codes_size_start) (use v(2) in simp_all)
next
  assume "codable p EnumeratedType v"
  then obtain u where v: "v = EnumeratedV u" "\<not> sizeExtensible p" "enum_ok (valueLowerBound p) (valueUpperBound p) u"
    "valueExtensible p \<or> valueUpperBound p \<noteq> Some 0" by (auto split: gval.splits)
  have "codes 1 (appendEnumerated u (valueExtensible p) (valueLowerBound p) (valueUpperBound p))
    (bind (bind (ext_bit (valueExtensible p)) (\<lambda>e. parseEnumerated e (valueLowerBound p) (valueUpperBound p))) (\<lambda>c. ret (EnumeratedV c))) (alike v)"
    by (rule codes_map [OF codes_weaken [OF enum_codes [OF v(3)]]]) (use v(1,4) in auto)
  then show "field_codes p EnumeratedType v" unfolding field_codes_def v(1) makeField.simps parseField.simps gval.case
    by (intro codes_value_start) (use v(2) in simp_all)
next
  assume "codable p BoolKind v"
  then obtain b where v: "v = BoolV b" "\<not> sizeExtensible p" "\<not> valueExtensible p" by (auto split: gval.splits)
  have "codes 1 (appendBool b) (bind (ext_bit (valueExtensible p)) (\<lambda>_. bind parseBool (\<lambda>c. ret (BoolV c)))) (alike v)"
    using codes_map [OF bool_codes, of b "alike v" BoolV] v by (simp add: ext_bit_def)
  then have "codes 1 (appendBool b) (bind (field_start False p) (\<lambda>(sx, vx). bind parseBool (\<lambda>c. ret (BoolV c)))) (alike v)"
    by (rule codes_value_start) (rule v(2))
  then show "field_codes p BoolKind v" unfolding field_codes_def v(1) makeField.simps parseField.simps gval.case
    by (simp only: case_prod_unfold)
next
  assume "codable p (IntKind w) v"
  then obtain i where v: "v = IntV i" "\<not> sizeExtensible p" "int_ok (valueExtensible p) (valueLowerBound p) (valueUpperBound p) i"
    "valueExtensible p \<or> int_range (valueLowerBound p) (valueUpperBound p) \<noteq> 1" "signed_take_bit (w - 1) i = i" by (auto split: gval.splits)
  have "codes 1 (appendInteger i (valueExtensible p) (valueLowerBound p) (valueUpperBound p))
    (bind (bind (ext_bit (valueExtensible p)) (\<lambda>e. parseInteger e (valueLowerBound p) (valueUpperBound p))) (\<lambda>c. ret (IntV (signed_take_bit (w - 1) c)))) (alike v)"
    by (rule codes_map [OF codes_weaken [OF integer_codes [OF v(3)]]]) (use v(1,4,5) in auto)
  then show "field_codes p (IntKind w) v" unfolding field_codes_def v(1) makeField.simps parseField.simps gval.case
    by (intro codes_value_start) (use v(2) in simp_all)
qed

text \<open>One field of a SEQUENCE: absent, or written after the open type reference is resolved.\<close>

lemma fields_code_Nil: "fields_code prev [] []"
  by (auto simp: fields_code_def intro!: codes_ret)

lemma fields_code_Cons:
  assumes c: "codable_fields prev ((name, tag, t) # fs) (v # vs)"
    and field: "\<And>p. \<not> (optional (parseFieldParameters tag) \<and> is_nil v = Inr True) \<Longrightarrow> open_reference (parseFieldParameters tag) prev = Inr p \<Longrightarrow> codable p t v \<Longrightarrow> field_codes p t v"
    and rest: "fields_code (prev @ [(name, t, v)]) fs vs"
  shows "fields_code prev ((name, tag, t) # fs) (v # vs)"
  unfolding fields_code_def
proof (intro allI impI)
  fix prev' w w'
  let ?p = "parseFieldParameters tag" and ?ps = "presents fs vs"
  let ?all = "presents ((name, tag, t) # fs) (v # vs)"
  assume b: "prev_alike prev prev'" and w: "holds w ?all" "holds w' ?all"
  have tp: "tag_params (name, tag, t) = ?p" by (simp add: tag_params_def)
  have hs: "holds w ?ps" "holds w' ?ps" using w by (auto simp: holds_Cons split: if_splits)
  have step: "codes 0 (make_fields (prev @ [(name, t, v)]) (length ?ps) w fs vs)
      (bind (parse_fields (prev' @ [(name, t, x)]) (length ?ps) w' fs) (\<lambda>xs. ret (x # xs))) (\<lambda>ws. map normal ws = map normal (v # vs))"
    if x: "alike v x" for x
  proof (rule codes_map)
    show "codes 0 (make_fields (prev @ [(name, t, v)]) (length ?ps) w fs vs) (parse_fields (prev' @ [(name, t, x)]) (length ?ps) w' fs)
        (\<lambda>ws. map normal ws = map normal vs)"
      by (rule codes_weaken, rule rest [unfolded fields_code_def, rule_format, OF prev_alike_snoc [OF b x] hs]) simp_all
    show "map normal (x # ws) = map normal (v # vs)" if "map normal ws = map normal vs" for ws using that x by simp
  qed
  show "codes (if ?all = [] \<and> (name, tag, t) # fs \<noteq> [] then 1 else 0) (make_fields prev (length ?all) w ((name, tag, t) # fs) (v # vs))
     (parse_fields prev' (length ?all) w' ((name, tag, t) # fs)) (\<lambda>ws. map normal ws = map normal (v # vs))"
  proof (cases "optional ?p \<and> is_nil v = Inr True")
    case True
    then have p: "?all = False # ?ps" and z: "v = zero_val t" using c by (simp_all add: tp Let_def)
    have "\<not> bit w (length ?ps)" "\<not> bit w' (length ?ps)" using w unfolding p by (simp_all add: holds_Cons)
    then have m: "w AND push_bit (length ?ps) 1 = 0" "w' AND push_bit (length ?ps) 1 = 0" by (simp_all only: bit_mask_zero not_False_eq_True)
    have E: "make_fields prev (length ?all) w ((name, tag, t) # fs) (v # vs) = make_fields (prev @ [(name, t, v)]) (length ?ps) w fs vs"
      unfolding p make_fields.simps Let_def using True m by simp
    have D: "parse_fields prev' (length ?all) w' ((name, tag, t) # fs) =
        bind (parse_fields (prev' @ [(name, t, v)]) (length ?ps) w' fs) (\<lambda>xs. ret (v # xs))"
      unfolding p parse_fields.simps Let_def using True m z by simp
    have "\<not> (?all = [] \<and> (name, tag, t) # fs \<noteq> [])" unfolding p by simp
    then show ?thesis using step [OF refl] unfolding E D by (simp only: if_not_P if_False)
  next
    case False
    then obtain p where p: "open_reference ?p prev = Inr p" "codable p t v" and o: "optional ?p \<longrightarrow> is_nil v = Inr False"
      using c by (auto simp: Let_def split: sum.splits)
    have p': "open_reference ?p prev' = Inr p" using open_reference_alike [OF b [unfolded prev_alike_def], of ?p] p(1) by simp
    have go: "\<not> ((optional ?p \<and> length ?all > 0) \<and> w AND push_bit (length ?ps) 1 = 0)"
      "\<not> ((optional ?p \<and> length ?all > 0) \<and> w' AND push_bit (length ?ps) 1 = 0)"
      "(if optional ?p \<and> length ?all > 0 then length ?all - 1 else length ?all) = length ?ps"
      using w o by (auto simp: tp holds_Cons bit_mask_zero and_exp)
    have E: "make_fields prev (length ?all) w ((name, tag, t) # fs) (v # vs) =
        bind (makeField p t v) (\<lambda>_. make_fields (prev @ [(name, t, v)]) (length ?ps) w fs vs)"
      unfolding make_fields.simps Let_def go(3) if_not_P [OF go(1)] p(1) lift_res_const ret_bind ..
    have D: "parse_fields prev' (length ?all) w' ((name, tag, t) # fs) =
        bind (parseField p t) (\<lambda>x. bind (parse_fields (prev' @ [(name, t, x)]) (length ?ps) w' fs) (\<lambda>xs. ret (x # xs)))"
      unfolding parse_fields.simps Let_def go(3) if_not_P [OF go(2)] p' lift_res_const ret_bind ..
    have "codes 1 (makeField p t v) (parseField p t) (alike v)" using field [OF False p] by (simp add: field_codes_def)
    from codes_bind [OF this step, where ?k = 1] have "codes 1 (make_fields prev (length ?all) w ((name, tag, t) # fs) (v # vs))
      (parse_fields prev' (length ?all) w' ((name, tag, t) # fs)) (\<lambda>ws. map normal ws = map normal (v # vs))"
      unfolding E D by simp
    then show ?thesis by (rule codes_weaken) simp_all
  qed
qed

text \<open>The present field of a CHOICE or an open type.\<close>

lemma at_codes_zero:
  assumes "codable_at is_open ((name, tag, t) # fs) (v # vs) 0"
    "codable (parseFieldParameters tag) t v \<Longrightarrow> field_codes (parseFieldParameters tag) t v"
  shows "at_codes is_open ((name, tag, t) # fs) (v # vs) 0"
proof -
  have c: "codes 1 (makeField (parseFieldParameters tag) t v) (parseField (parseFieldParameters tag) t) (alike v)"
    using assms by (simp add: field_codes_def)
  then show ?thesis
    using codes_open [OF c] assms(1) by (cases is_open) (simp_all add: at_codes_def)
qed

text \<open>SEQUENCE OF: the count and the elements.\<close>

lemma slice_codes:
  assumes c: "codable p (SliceKind t) (SliceV vs)"
    and el: "\<And>x. x \<in> set (elems vs) \<Longrightarrow> codable (without_size p) t x \<Longrightarrow> field_codes (without_size p) t x"
  shows "field_codes p (SliceKind t) (SliceV vs)"
proof -
  let ?n = "length (elems vs)" and ?D = "parseField (without_size p) t"
  let ?k = "if sizeExtensible p \<or> sizeUpperBound p = None then 1 else 0"
  have k: "1 \<le> ?k + ?n" and cnt: "count_ok p ?n" using c by (auto simp: Suc_le_eq)
  have all: "\<forall>x \<in> set (elems vs). codes 1 (makeField (without_size p) t x) ?D (alike x)"
    using c el by (simp add: field_codes_def)
  have "codes 1 (bind (put_count p (int ?n)) (\<lambda>_. for_each (\<lambda>x. makeField (without_size p) t x) (elems vs)))
    (bind (bind (ext_bit (sizeExtensible p)) (\<lambda>e. get_count e p)) (\<lambda>m. if m < 0 then fail Panic
       else bind (repeat_read (nat m) ?D) (\<lambda>ws. ret (SliceV (Some ws))))) (alike (SliceV vs))"
  proof (rule codes_bind [OF count_codes [OF cnt] _ k])
    fix m assume m: "int ?n = m"
    have "list_all2 alike (elems vs) ws \<Longrightarrow> alike (SliceV vs) (SliceV (Some ws))" for ws
    proof -
      assume "list_all2 alike (elems vs) ws"
      then have "map normal ws = map normal (elems vs)" by (induction rule: list_all2_induct) simp_all
      then show ?thesis by simp
    qed
    from codes_map [where f = "\<lambda>ws. SliceV (Some ws)" and Q = "alike (SliceV vs)", OF codes_for_each [OF all] this]
    have "codes ?n (for_each (\<lambda>x. makeField (without_size p) t x) (elems vs))
      (bind (repeat_read ?n ?D) (\<lambda>ws. ret (SliceV (Some ws)))) (alike (SliceV vs))" by simp
    then show "codes ?n (for_each (\<lambda>x. makeField (without_size p) t x) (elems vs))
      (if m < 0 then fail Panic else bind (repeat_read (nat m) ?D) (\<lambda>ws. ret (SliceV (Some ws)))) (alike (SliceV vs))"
      unfolding m [symmetric] by simp
  qed
  then have "codes 1 (makeField p (SliceKind t) (SliceV vs)) (bind (field_start True p) (\<lambda>(sx, vx). bind (get_count sx p)
      (\<lambda>m. if m < 0 then fail Panic else bind (repeat_read (nat m) ?D) (\<lambda>ws. ret (SliceV (Some ws)))))) (alike (SliceV vs))"
    unfolding makeField.simps gval.case by (intro codes_size_start) (simp_all only: bind_bind simp_thms)
  then show ?thesis by (simp add: field_codes_def)
qed

section \<open>Structs\<close>

lemma sequence_codes:
  assumes c: "codable p (StructKind fs) (StructV vs)" and s: "sequence_type fs" and rest: "fields_code [] fs vs"
  shows "field_codes p (StructKind fs) (StructV vs)"
proof -
  let ?ps = "presents fs vs" and ?e = "valueExtensible p"
  have c': "\<not> sizeExtensible p" "list_all (\<lambda>f. exported (fst f)) fs" "fs \<noteq> [] \<or> ?e" "codable_fields [] fs vs"
    "length (filter (\<lambda>f. optional (tag_params f)) fs) \<le> 64"
    using c s by simp_all
  have l: "length ?ps \<le> 64" using c'(5) length_presents [OF c'(4)] by simp
  obtain w where w: "optional_bits True fs vs 0 0 = Inr (length ?ps, w)" "holds w ?ps"
    "\<forall>k. bit w (length ?ps + k) \<longleftrightarrow> bit (0 :: u64) k \<and> length ?ps + k < 64"
    using optional_bits_presents [OF c'(4,2) l, of 0 0] by auto
  have d: "drop_bit (length ?ps) w = 0" by (rule bit_eqI) (use w(3) in \<open>simp add: bit_drop_bit_eq\<close>)
  have n: "count_optional fs 0 = Inr (length ?ps)" using count_optional_presents [OF c'(4,2), of 0] by simp
  let ?E = "bind (if length ?ps > 0 then putBitsValue w (length ?ps) else ret ()) (\<lambda>_. make_fields [] (length ?ps) w fs vs)"
  let ?D = "bind (if length ?ps > 0 then getBitsValue (length ?ps) else ret 0) (\<lambda>w'. bind (parse_fields [] (length ?ps) w' fs) (\<lambda>ws. ret (StructV ws)))"
  let ?k = "if ?ps = [] \<and> fs \<noteq> [] then 1 else 0"
  have bits: "codes (length ?ps) (if length ?ps > 0 then putBitsValue w (length ?ps) else ret ())
      (if length ?ps > 0 then getBitsValue (length ?ps) else ret 0) (\<lambda>w'. holds w' ?ps)"
  proof (cases "?ps = []")
    case True
    then show ?thesis by (auto simp: holds_def intro: codes_ret)
  next
    case False
    then show ?thesis using codes_bits [OF d] w(2) by (auto intro: codes_weaken)
  qed
  have "codes (length ?ps + ?k) ?E ?D (alike (StructV vs))"
  proof (rule codes_bind [OF bits])
    fix w' assume w': "holds w' ?ps"
    have "codes ?k (make_fields [] (length ?ps) w fs vs) (parse_fields [] (length ?ps) w' fs) (\<lambda>ws. map normal ws = map normal vs)"
      using rest w(2) w' unfolding fields_code_def by (simp add: prev_alike_def)
    then show "codes ?k (make_fields [] (length ?ps) w fs vs) (bind (parse_fields [] (length ?ps) w' fs) (\<lambda>ws. ret (StructV ws))) (alike (StructV vs))"
      by (rule codes_map) simp
  qed simp
  from codes_bind [OF codes_ext_zero this le_refl, of ?e]
  have "codes (of_bool ?e + (length ?ps + ?k)) (bind (if ?e then putBitsValue 0 1 else ret ()) (\<lambda>_. ?E)) (bind (ext_bit ?e) (\<lambda>_. ?D)) (alike (StructV vs))"
    by (simp only:)
  then have "codes 1 (bind (if ?e then putBitsValue 0 1 else ret ()) (\<lambda>_. ?E)) (bind (ext_bit ?e) (\<lambda>_. ?D)) (alike (StructV vs))"
    by (rule codes_weaken) (use c'(3) in \<open>auto simp: Suc_le_eq\<close>)
  then have "codes 1 (bind (if ?e then putBitsValue 0 1 else ret ()) (\<lambda>_. ?E)) (bind (field_start False p) (\<lambda>(sx, vx). ?D)) (alike (StructV vs))"
    by (rule codes_value_start) (rule c'(1))
  moreover have "makeField p (StructKind fs) (StructV vs) = bind (if ?e then putBitsValue 0 1 else ret ()) (\<lambda>_. ?E)"
    using s w(1) by simp
  moreover have "parseField p (StructKind fs) = bind (field_start False p) (\<lambda>(sx, vx). ?D)"
    using s by (simp add: n)
  ultimately show ?thesis unfolding field_codes_def by simp
qed

lemma find_reference_bound: "find_reference r k fs = Some j \<Longrightarrow> referenceFieldValue (tag_params (fs ! (j - k))) = Some r \<and> k \<le> j \<and> j < k + length fs"
proof (induction fs arbitrary: k)
  case (Cons f fs)
  show ?case
  proof (cases "referenceFieldValue (tag_params f) = Some r")
    case False
    then have "referenceFieldValue (tag_params (fs ! (j - Suc k))) = Some r \<and> Suc k \<le> j \<and> j < Suc k + length fs"
      using Cons.IH [of "Suc k"] Cons.prems by simp
    moreover from this have "(f # fs) ! (j - k) = fs ! (j - Suc k)" by (simp add: nth_Cons')
    ultimately show ?thesis by simp
  qed (use Cons.prems in simp)
qed simp

lemma optional_bits_choice:
  "list_all (\<lambda>f. exported (fst f)) fs \<Longrightarrow> length fs \<le> length vs \<Longrightarrow> optional_bits False fs vs n w = Inr (n, w)"
proof (induction fs arbitrary: vs)
  case (Cons f fs)
  then show ?case by (cases vs) auto
qed simp

lemma count_optional_none:
  "list_all (\<lambda>f. exported (fst f)) fs \<Longrightarrow> list_all (\<lambda>f. \<not> optional (tag_params f)) fs \<Longrightarrow> count_optional fs n = Inr n"
  by (induction fs) simp_all

lemma choice_shape: "choice_value fs k v = StructV vs \<Longrightarrow> length vs = length fs"
  by (auto simp: choice_value_def)

lemma struct_choice_codes:
  assumes c: "codable p (StructKind fs) (StructV vs)" and s: "\<not> sequence_type fs" and i: "vs = IntV i # us"
    and at: "openType p \<Longrightarrow> codable_at True fs vs (nat i) \<Longrightarrow> at_codes True fs vs (nat i)"
      "\<not> openType p \<Longrightarrow> codable_at False fs vs (nat i) \<Longrightarrow> at_codes False fs vs (nat i)"
  shows "field_codes p (StructKind fs) (StructV vs)"
proof -
  let ?e = "valueExtensible p"
  have c': "\<not> sizeExtensible p" "list_all (\<lambda>f. exported (fst f)) fs" "list_all (\<lambda>f. \<not> optional (tag_params f)) fs"
    "0 < i" "i < int (length fs)" "choice_value fs (nat i) (vs ! nat i) = StructV vs"
    using c s unfolding i codable.simps gval.case list.case by (simp_all only: if_False simp_thms)
  have ob: "optional_bits False fs vs 0 0 = Inr (0, 0)"
    by (rule optional_bits_choice [OF c'(2)]) (simp add: choice_shape [OF c'(6)])
  note co = count_optional_none [OF c'(2,3), of 0]
  have present: "(i = 0) = False" "(int (length fs) \<le> i) = False" "(i < 0) = False" using c'(4,5) by auto
  let ?val = "\<lambda>v. choice_value fs (nat i) v"
  have val: "alike (StructV vs) (?val x)" if "alike (vs ! nat i) x" for x
    using normal_choice [OF that, of fs "nat i"] c'(6) by simp
  have mk: "makeField p (StructKind fs) (StructV vs) = bind (if ?e then putBitsValue 0 1 else ret ()) (\<lambda>_. E)"
    if "E = (if openType p then (case referenceFieldValue p of None \<Rightarrow> fail (Err ''OpenType reference value is empty'')
                    | Some refValue \<Rightarrow> if referenceFieldValue (tag_params (fs ! nat i)) \<noteq> Some refValue
                        then fail (Err ''reference value and present reference value is not match'') else make_at True fs vs (nat i))
             else bind (appendChoiceIndex i ?e (valueUpperBound p)) (\<lambda>_. make_at False fs vs (nat i)))" for E
    unfolding that makeField.simps gval.case
    by (simp only: s ob [unfolded i] lift_res_const ret_bind prod.case i list.case gval.case present if_False if_True not_False_eq_True less_irrefl)
  have pf: "parseField p (StructKind fs) = bind (field_start False p) (\<lambda>(sx, vx). D vx)"
    if "\<And>vx. D vx = (if openType p then (case referenceFieldValue p of None \<Rightarrow> fail (Err ''OpenType reference value is empty'')
            | Some refValue \<Rightarrow> (case find_reference refValue 1 (tl fs) of
                 None \<Rightarrow> fail (Err ''OpenType reference value does not match any field'')
               | Some present \<Rightarrow> bind (parse_at True fs present) (\<lambda>v. ret (choice_value fs present v))))
       else bind (handle (getChoiceIndex vx (valueUpperBound p)) (\<lambda>_. ret 0) ret) (\<lambda>present.
         if present = 0 then fail (Err ''CHOICE present is 0(present's field number)'')
         else if present \<ge> int (length fs) then fail (Err ''CHOICE Present is bigger than number of struct field'')
         else if present < 0 then fail Panic
         else bind (parse_at False fs (nat present)) (\<lambda>v. ret (choice_value fs (nat present) v))))" for D
    using s that by (simp add: co)
  have build: "field_codes p (StructKind fs) (StructV vs)"
    if E: "makeField p (StructKind fs) (StructV vs) = bind (if ?e then putBitsValue 0 1 else ret ()) (\<lambda>_. E)"
      and D: "parseField p (StructKind fs) = bind (field_start False p) (\<lambda>(sx, vx). D vx)"
      and ED: "codes 1 E (D False) (alike (StructV vs))" for E D
  proof -
    have "codes (of_bool ?e + 1) (bind (if ?e then putBitsValue 0 1 else ret ()) (\<lambda>_. E)) (bind (ext_bit ?e) D) (alike (StructV vs))"
      by (rule codes_bind [OF codes_ext_zero]) (use ED in auto)
    then have "codes 1 (bind (if ?e then putBitsValue 0 1 else ret ()) (\<lambda>_. E)) (bind (ext_bit ?e) D) (alike (StructV vs))"
      by (rule codes_weaken) simp_all
    then have "codes 1 (bind (if ?e then putBitsValue 0 1 else ret ()) (\<lambda>_. E)) (bind (field_start False p) (\<lambda>(sx, vx). D vx)) (alike (StructV vs))"
      by (rule codes_value_start) (rule c'(1))
    then show ?thesis unfolding field_codes_def E D .
  qed
  show ?thesis
  proof (cases "openType p")
    case True
    then obtain r where r: "referenceFieldValue p = Some r" "find_reference r 1 (tl fs) = Some (nat i)"
      and ca: "codable_at True fs vs (nat i)" using c s i by (auto split: option.splits)
    have "referenceFieldValue (tag_params (tl fs ! (nat i - 1))) = Some r" using find_reference_bound [OF r(2)] by simp
    moreover have "tl fs ! (nat i - 1) = fs ! nat i" using c'(4,5) by (cases fs) (auto simp: nth_Cons')
    ultimately have rf: "referenceFieldValue (tag_params (fs ! nat i)) = Some r" by simp
    have "codes 1 (make_at True fs vs (nat i)) (parse_at True fs (nat i)) (alike (vs ! nat i))"
      using at(1) [OF True ca] by (simp add: at_codes_def)
    from codes_map [where f = ?val and Q = "alike (StructV vs)", OF this val]
    have "codes 1 (make_at True fs vs (nat i)) (bind (parse_at True fs (nat i)) (\<lambda>v. ret (?val v))) (alike (StructV vs))" by simp
    then show ?thesis
      by (intro build [OF mk pf, OF refl refl]) (simp only: True r rf if_True option.case simp_thms if_False)
  next
    case False
    then obtain ub where ub: "valueUpperBound p = Some ub" "ub < 65536" "i \<le> ub + 1" and ca: "codable_at False fs vs (nat i)"
      using c s i by (auto split: option.splits)
    have "codes 1 (make_at False fs vs (nat i)) (parse_at False fs (nat i)) (alike (vs ! nat i))"
      using at(2) [OF False ca] by (simp add: at_codes_def)
    from codes_map [where f = ?val and Q = "alike (StructV vs)", OF this val]
    have a: "codes 1 (make_at False fs vs (nat i)) (bind (parse_at False fs (nat i)) (\<lambda>v. ret (?val v))) (alike (StructV vs))" by simp
    have "codes 1 (appendChoiceIndex i ?e (Some ub)) (bind (getChoiceIndex False (Some ub)) ret) ((=) i)"
      using choice_codes [of ub i ?e] ub c'(4) by simp
    then have "codes 1 (appendChoiceIndex i ?e (Some ub)) (handle (getChoiceIndex False (Some ub)) (\<lambda>_. ret 0) ret) ((=) i)"
      by (rule codes_handle)
    then have "codes 1 (bind (appendChoiceIndex i ?e (Some ub)) (\<lambda>_. make_at False fs vs (nat i)))
      (bind (handle (getChoiceIndex False (Some ub)) (\<lambda>_. ret 0) ret) (\<lambda>present.
         if present = 0 then fail (Err ''CHOICE present is 0(present's field number)'')
         else if present \<ge> int (length fs) then fail (Err ''CHOICE Present is bigger than number of struct field'')
         else if present < 0 then fail Panic
         else bind (parse_at False fs (nat present)) (\<lambda>v. ret (choice_value fs (nat present) v)))) (alike (StructV vs))"
    proof (rule codes_bind [where ?k2.0 = 1])
      fix j assume j: "i = j"
      show "codes 1 (make_at False fs vs (nat i)) (if j = 0 then fail (Err ''CHOICE present is 0(present's field number)'')
         else if j \<ge> int (length fs) then fail (Err ''CHOICE Present is bigger than number of struct field'')
         else if j < 0 then fail Panic
         else bind (parse_at False fs (nat j)) (\<lambda>v. ret (choice_value fs (nat j) v))) (alike (StructV vs))"
        unfolding j [symmetric] present if_False by (rule a)
    qed simp
    then show ?thesis
      by (intro build [OF mk pf, OF refl refl]) (simp only: False ub if_False)
  qed
qed

section \<open>Round trip\<close>

lemma codable_codes:
  "codable p t v \<longrightarrow> field_codes p t v"
  "codable_fields prev fs vs \<longrightarrow> fields_code prev fs vs"
  "codable_at is_open fs vs k \<longrightarrow> at_codes is_open fs vs k"
proof (induction p t v and prev fs vs and is_open fs vs k rule: codable_codable_fields_codable_at.induct)
  case (1 params t v)
  show ?case
  proof
    assume c: "codable params (PtrKind t) v"
    then obtain x where v: "v = PtrV (Some x)" "codable params t x" by (auto split: gval.splits option.splits)
    then have "codes 1 (makeField params t x) (parseField params t) (alike x)" using 1 by (simp add: field_codes_def)
    from codes_map [where f = "\<lambda>y. PtrV (Some y)" and Q = "alike v", OF this]
    have "codes 1 (makeField params t x) (bind (parseField params t) (\<lambda>y. ret (PtrV (Some y)))) (alike v)" by (simp add: v(1))
    from codes_checked [OF this] show "field_codes params (PtrKind t) v" by (simp add: field_codes_def v(1))
  qed
next
  case (8 params fs v)
  show ?case
  proof
    assume c: "codable params (StructKind fs) v"
    then obtain vs where v: "v = StructV vs" by (auto split: gval.splits)
    show "field_codes params (StructKind fs) v"
    proof (cases "sequence_type fs")
      case True
      then show ?thesis using sequence_codes [of params fs vs] 8(1) [OF v True] c v by simp
    next
      case False
      then obtain i us where i: "vs = IntV i # us" using c v by (auto split: list.splits gval.splits)
      show ?thesis unfolding v
        by (rule struct_choice_codes [OF c [unfolded v] False i])
          (use 8(2) [OF v False i refl] 8(3) [OF v False i refl] in blast)+
    qed
  qed
next
  case (9 params t v)
  show ?case
  proof
    assume c: "codable params (SliceKind t) v"
    then obtain vs where v: "v = SliceV vs" by (auto split: gval.splits)
    show "field_codes params (SliceKind t) v" unfolding v
      by (rule slice_codes [OF c [unfolded v]]) (use 9 [OF v] in blast)
  qed
next
  case (13 prev name tag t fs v vs)
  show ?case
  proof
    assume c: "codable_fields prev ((name, tag, t) # fs) (v # vs)"
    then have r: "fields_code (prev @ [(name, t, v)]) fs vs" using 13(2) [OF refl] by (simp add: Let_def)
    show "fields_code prev ((name, tag, t) # fs) (v # vs)"
    proof (rule fields_code_Cons [OF c _ r])
      fix p assume p: "\<not> (optional (parseFieldParameters tag) \<and> is_nil v = Inr True)"
        "open_reference (parseFieldParameters tag) prev = Inr p" "codable p t v"
      show "field_codes p t v" using 13(1) [OF refl p(1,2)] p(3) by blast
    qed
  qed
next
  case (14 op name tag t fs v vs)
  then show ?case using at_codes_zero [of op name tag t fs v vs] by auto
next
  case (15 op f fs v vs k)
  then show ?case by (auto simp: at_codes_def)
qed (simp_all add: primitive_codes fields_code_Nil)

text \<open>\<^verbatim>\<open>Unmarshal\<close> gives back a codable value, up to the unused bits of bit strings and to nil slices.\<close>

lemma unmarshal_marshal:
  assumes "codable (parseFieldParameters params) t v"
  shows "\<exists>b w. MarshalWithParams t v params = Inr b \<and> UnmarshalWithParams b t params = Inr w \<and> normal w = normal v"
proof -
  have "codes 1 (makeField (parseFieldParameters params) t v) (parseField (parseFieldParameters params) t) (alike v)"
    using codable_codes(1) assms by (simp add: field_codes_def)
  from codesD [OF this, of "[]"] obtain ns where n: "makeField (parseFieldParameters params) t v (wr []) = (Inr (), wr ns)" "1 \<le> length ns"
    "reads (parseField (parseFieldParameters params) t) [] ns (alike v)" by auto
  have w: "wr [] = \<lparr>raw_bytes = [], raw_off = 0\<rparr>" by (simp add: wr_def pad_def pad_len_def bytes_of.simps)
  let ?b = "bytes_of (pad ns)"
  have b: "bits_of ?b = [] @ ns @ replicate (pad_len (length ns)) False" unfolding bits_of_bytes_of_pad by (simp add: pad_def)
  have "?b \<noteq> []"
  proof
    assume "?b = []"
    then have "bits_of ?b = []" by (simp add: bits_of_def)
    then show False using n(2) unfolding b by simp
  qed
  then have "MarshalWithParams t v params = Inr ?b" using n(1) by (simp add: MarshalWithParams_def w [symmetric] raw_bytes_wr)
  moreover obtain x where "parseField (parseFieldParameters params) t (rd ?b 0) = (Inr x, rd ?b (length ns))" "alike v x"
    using readsD [OF n(3) b] by auto
  moreover have "rd ?b 0 = \<lparr>pd_bytes = ?b, byteOffset = 0, bitsOffset = 0\<rparr>" by (simp add: rd_def)
  ultimately show ?thesis by (auto simp: UnmarshalWithParams_def)
qed

end
