(* ===== verification/NGAP_Elements.thy ===== *)
theory NGAP_Elements
  imports APER_Type
begin

text \<open>
  The NGAP types of \<^verbatim>\<open>lib/ngap/ngapType\<close> as the PER codec sees them by reflection: for each struct the names, the
  \<^verbatim>\<open>aper\<close> tags and the types of its fields, in the order of the declarations they depend on. This theory holds the
  plain values and the empty extension containers.
\<close>

definition AMFName :: gtype where
  "AMFName = StructKind
    [(''Value'', ''sizeExt,sizeLB:1,sizeUB:150'', StringKind)]"

definition AMFPagingTargetExtIEsValue :: gtype where
  "AMFPagingTargetExtIEsValue = StructKind
    [(''Present'', '''', IntKind 64)]"

definition AMFPointer :: gtype where
  "AMFPointer = StructKind
    [(''Value'', ''sizeLB:6,sizeUB:6'', BitStringType)]"

definition AMFRegionID :: gtype where
  "AMFRegionID = StructKind
    [(''Value'', ''sizeLB:8,sizeUB:8'', BitStringType)]"

definition AMFSetID :: gtype where
  "AMFSetID = StructKind
    [(''Value'', ''sizeLB:10,sizeUB:10'', BitStringType)]"

definition AMFTNLAssociationSetupItemExtIEsExtensionValue :: gtype where
  "AMFTNLAssociationSetupItemExtIEsExtensionValue = StructKind
    [(''Present'', '''', IntKind 64)]"

definition AMFTNLAssociationToAddItemExtIEsExtensionValue :: gtype where
  "AMFTNLAssociationToAddItemExtIEsExtensionValue = StructKind
    [(''Present'', '''', IntKind 64)]"

definition AMFTNLAssociationToRemoveItemExtIEsExtensionValue :: gtype where
  "AMFTNLAssociationToRemoveItemExtIEsExtensionValue = StructKind
    [(''Present'', '''', IntKind 64)]"

definition AMFTNLAssociationToUpdateItemExtIEsExtensionValue :: gtype where
  "AMFTNLAssociationToUpdateItemExtIEsExtensionValue = StructKind
    [(''Present'', '''', IntKind 64)]"

definition AMFUENGAPID :: gtype where
  "AMFUENGAPID = StructKind
    [(''Value'', ''valueLB:0,valueUB:1099511627775'', IntKind 64)]"

definition AdditionalQosFlowInformation :: gtype where
  "AdditionalQosFlowInformation = StructKind
    [(''Value'', ''valueExt,valueLB:0,valueUB:0'', EnumeratedType)]"

definition AllocationAndRetentionPriorityExtIEsExtensionValue :: gtype where
  "AllocationAndRetentionPriorityExtIEsExtensionValue = StructKind
    [(''Present'', '''', IntKind 64)]"

definition AllowedNSSAIItemExtIEsExtensionValue :: gtype where
  "AllowedNSSAIItemExtIEsExtensionValue = StructKind
    [(''Present'', '''', IntKind 64)]"

definition AreaOfInterestCellItemExtIEsExtensionValue :: gtype where
  "AreaOfInterestCellItemExtIEsExtensionValue = StructKind
    [(''Present'', '''', IntKind 64)]"

definition AreaOfInterestExtIEsExtensionValue :: gtype where
  "AreaOfInterestExtIEsExtensionValue = StructKind
    [(''Present'', '''', IntKind 64)]"

definition AreaOfInterestItemExtIEsExtensionValue :: gtype where
  "AreaOfInterestItemExtIEsExtensionValue = StructKind
    [(''Present'', '''', IntKind 64)]"

definition AreaOfInterestRANNodeItemExtIEsExtensionValue :: gtype where
  "AreaOfInterestRANNodeItemExtIEsExtensionValue = StructKind
    [(''Present'', '''', IntKind 64)]"

definition AreaOfInterestTAIItemExtIEsExtensionValue :: gtype where
  "AreaOfInterestTAIItemExtIEsExtensionValue = StructKind
    [(''Present'', '''', IntKind 64)]"

definition AssistanceDataForPagingExtIEsExtensionValue :: gtype where
  "AssistanceDataForPagingExtIEsExtensionValue = StructKind
    [(''Present'', '''', IntKind 64)]"

definition AssistanceDataForRecommendedCellsExtIEsExtensionValue :: gtype where
  "AssistanceDataForRecommendedCellsExtIEsExtensionValue = StructKind
    [(''Present'', '''', IntKind 64)]"

definition AssociatedQosFlowItemExtIEsExtensionValue :: gtype where
  "AssociatedQosFlowItemExtIEsExtensionValue = StructKind
    [(''Present'', '''', IntKind 64)]"

definition AveragingWindow :: gtype where
  "AveragingWindow = StructKind
    [(''Value'', ''valueExt,valueLB:0,valueUB:4095'', IntKind 64)]"

definition BitRate :: gtype where
  "BitRate = StructKind
    [(''Value'', ''valueExt,valueLB:0,valueUB:4000000000000'', IntKind 64)]"

definition BroadcastCancelledAreaListExtIEsValue :: gtype where
  "BroadcastCancelledAreaListExtIEsValue = StructKind
    [(''Present'', '''', IntKind 64)]"

definition BroadcastCompletedAreaListExtIEsValue :: gtype where
  "BroadcastCompletedAreaListExtIEsValue = StructKind
    [(''Present'', '''', IntKind 64)]"

definition BroadcastPLMNItemExtIEsExtensionValue :: gtype where
  "BroadcastPLMNItemExtIEsExtensionValue = StructKind
    [(''Present'', '''', IntKind 64)]"

definition COUNTValueForPDCPSN12ExtIEsExtensionValue :: gtype where
  "COUNTValueForPDCPSN12ExtIEsExtensionValue = StructKind
    [(''Present'', '''', IntKind 64)]"

definition COUNTValueForPDCPSN18ExtIEsExtensionValue :: gtype where
  "COUNTValueForPDCPSN18ExtIEsExtensionValue = StructKind
    [(''Present'', '''', IntKind 64)]"

definition CPTransportLayerInformationExtIEsValue :: gtype where
  "CPTransportLayerInformationExtIEsValue = StructKind
    [(''Present'', '''', IntKind 64)]"

definition CancelAllWarningMessages :: gtype where
  "CancelAllWarningMessages = StructKind
    [(''Value'', ''valueExt,valueLB:0,valueUB:0'', EnumeratedType)]"

definition CancelledCellsInEAIEUTRAItemExtIEsExtensionValue :: gtype where
  "CancelledCellsInEAIEUTRAItemExtIEsExtensionValue = StructKind
    [(''Present'', '''', IntKind 64)]"

definition CancelledCellsInEAINRItemExtIEsExtensionValue :: gtype where
  "CancelledCellsInEAINRItemExtIEsExtensionValue = StructKind
    [(''Present'', '''', IntKind 64)]"

definition CancelledCellsInTAIEUTRAItemExtIEsExtensionValue :: gtype where
  "CancelledCellsInTAIEUTRAItemExtIEsExtensionValue = StructKind
    [(''Present'', '''', IntKind 64)]"

definition CancelledCellsInTAINRItemExtIEsExtensionValue :: gtype where
  "CancelledCellsInTAINRItemExtIEsExtensionValue = StructKind
    [(''Present'', '''', IntKind 64)]"

definition CauseExtIEsValue :: gtype where
  "CauseExtIEsValue = StructKind
    [(''Present'', '''', IntKind 64)]"

definition CauseMisc :: gtype where
  "CauseMisc = StructKind
    [(''Value'', ''valueExt,valueLB:0,valueUB:5'', EnumeratedType)]"

definition CauseNas :: gtype where
  "CauseNas = StructKind
    [(''Value'', ''valueExt,valueLB:0,valueUB:3'', EnumeratedType)]"

definition CauseProtocol :: gtype where
  "CauseProtocol = StructKind
    [(''Value'', ''valueExt,valueLB:0,valueUB:6'', EnumeratedType)]"

definition CauseRadioNetwork :: gtype where
  "CauseRadioNetwork = StructKind
    [(''Value'', ''valueExt,valueLB:0,valueUB:44'', EnumeratedType)]"

definition CauseTransport :: gtype where
  "CauseTransport = StructKind
    [(''Value'', ''valueExt,valueLB:0,valueUB:1'', EnumeratedType)]"

definition CellIDBroadcastEUTRAItemExtIEsExtensionValue :: gtype where
  "CellIDBroadcastEUTRAItemExtIEsExtensionValue = StructKind
    [(''Present'', '''', IntKind 64)]"

definition CellIDBroadcastNRItemExtIEsExtensionValue :: gtype where
  "CellIDBroadcastNRItemExtIEsExtensionValue = StructKind
    [(''Present'', '''', IntKind 64)]"

definition CellIDCancelledEUTRAItemExtIEsExtensionValue :: gtype where
  "CellIDCancelledEUTRAItemExtIEsExtensionValue = StructKind
    [(''Present'', '''', IntKind 64)]"

definition CellIDCancelledNRItemExtIEsExtensionValue :: gtype where
  "CellIDCancelledNRItemExtIEsExtensionValue = StructKind
    [(''Present'', '''', IntKind 64)]"

definition CellIDListForRestartExtIEsValue :: gtype where
  "CellIDListForRestartExtIEsValue = StructKind
    [(''Present'', '''', IntKind 64)]"

definition CellSize :: gtype where
  "CellSize = StructKind
    [(''Value'', ''valueExt,valueLB:0,valueUB:3'', EnumeratedType)]"

definition CellTypeExtIEsExtensionValue :: gtype where
  "CellTypeExtIEsExtensionValue = StructKind
    [(''Present'', '''', IntKind 64)]"

definition CompletedCellsInEAIEUTRAItemExtIEsExtensionValue :: gtype where
  "CompletedCellsInEAIEUTRAItemExtIEsExtensionValue = StructKind
    [(''Present'', '''', IntKind 64)]"

definition CompletedCellsInEAINRItemExtIEsExtensionValue :: gtype where
  "CompletedCellsInEAINRItemExtIEsExtensionValue = StructKind
    [(''Present'', '''', IntKind 64)]"

definition CompletedCellsInTAIEUTRAItemExtIEsExtensionValue :: gtype where
  "CompletedCellsInTAIEUTRAItemExtIEsExtensionValue = StructKind
    [(''Present'', '''', IntKind 64)]"

definition CompletedCellsInTAINRItemExtIEsExtensionValue :: gtype where
  "CompletedCellsInTAINRItemExtIEsExtensionValue = StructKind
    [(''Present'', '''', IntKind 64)]"

definition ConcurrentWarningMessageInd :: gtype where
  "ConcurrentWarningMessageInd = StructKind
    [(''Value'', ''valueExt,valueLB:0,valueUB:0'', EnumeratedType)]"

definition ConfidentialityProtectionIndication :: gtype where
  "ConfidentialityProtectionIndication = StructKind
    [(''Value'', ''valueExt,valueLB:0,valueUB:2'', EnumeratedType)]"

definition ConfidentialityProtectionResult :: gtype where
  "ConfidentialityProtectionResult = StructKind
    [(''Value'', ''valueExt,valueLB:0,valueUB:1'', EnumeratedType)]"

definition CoreNetworkAssistanceInformationExtIEsExtensionValue :: gtype where
  "CoreNetworkAssistanceInformationExtIEsExtensionValue = StructKind
    [(''Present'', '''', IntKind 64)]"

definition Criticality :: gtype where
  "Criticality = StructKind
    [(''Value'', ''valueLB:0,valueUB:2'', EnumeratedType)]"

definition CriticalityDiagnosticsExtIEsExtensionValue :: gtype where
  "CriticalityDiagnosticsExtIEsExtensionValue = StructKind
    [(''Present'', '''', IntKind 64)]"

definition CriticalityDiagnosticsIEItemExtIEsExtensionValue :: gtype where
  "CriticalityDiagnosticsIEItemExtIEsExtensionValue = StructKind
    [(''Present'', '''', IntKind 64)]"

definition DLForwarding :: gtype where
  "DLForwarding = StructKind
    [(''Value'', ''valueExt,valueLB:0,valueUB:0'', EnumeratedType)]"

definition DLNGUTNLInformationReused :: gtype where
  "DLNGUTNLInformationReused = StructKind
    [(''Value'', ''valueExt,valueLB:0,valueUB:0'', EnumeratedType)]"

definition DRBID :: gtype where
  "DRBID = StructKind
    [(''Value'', ''valueExt,valueLB:1,valueUB:32'', IntKind 64)]"

definition DRBStatusDL12ExtIEsExtensionValue :: gtype where
  "DRBStatusDL12ExtIEsExtensionValue = StructKind
    [(''Present'', '''', IntKind 64)]"

definition DRBStatusDL18ExtIEsExtensionValue :: gtype where
  "DRBStatusDL18ExtIEsExtensionValue = StructKind
    [(''Present'', '''', IntKind 64)]"

definition DRBStatusDLExtIEsValue :: gtype where
  "DRBStatusDLExtIEsValue = StructKind
    [(''Present'', '''', IntKind 64)]"

definition DRBStatusUL12ExtIEsExtensionValue :: gtype where
  "DRBStatusUL12ExtIEsExtensionValue = StructKind
    [(''Present'', '''', IntKind 64)]"

definition DRBStatusUL18ExtIEsExtensionValue :: gtype where
  "DRBStatusUL18ExtIEsExtensionValue = StructKind
    [(''Present'', '''', IntKind 64)]"

definition DRBStatusULExtIEsValue :: gtype where
  "DRBStatusULExtIEsValue = StructKind
    [(''Present'', '''', IntKind 64)]"

definition DRBsSubjectToStatusTransferItemExtIEsExtensionValue :: gtype where
  "DRBsSubjectToStatusTransferItemExtIEsExtensionValue = StructKind
    [(''Present'', '''', IntKind 64)]"

definition DRBsToQosFlowsMappingItemExtIEsExtensionValue :: gtype where
  "DRBsToQosFlowsMappingItemExtIEsExtensionValue = StructKind
    [(''Present'', '''', IntKind 64)]"

definition DataCodingScheme :: gtype where
  "DataCodingScheme = StructKind
    [(''Value'', ''sizeLB:8,sizeUB:8'', BitStringType)]"

definition DataForwardingAccepted :: gtype where
  "DataForwardingAccepted = StructKind
    [(''Value'', ''valueExt,valueLB:0,valueUB:0'', EnumeratedType)]"

definition DataForwardingNotPossible :: gtype where
  "DataForwardingNotPossible = StructKind
    [(''Value'', ''valueExt,valueLB:0,valueUB:0'', EnumeratedType)]"

definition DataForwardingResponseDRBItemExtIEsExtensionValue :: gtype where
  "DataForwardingResponseDRBItemExtIEsExtensionValue = StructKind
    [(''Present'', '''', IntKind 64)]"

definition DelayCritical :: gtype where
  "DelayCritical = StructKind
    [(''Value'', ''valueExt,valueLB:0,valueUB:1'', EnumeratedType)]"

definition DirectForwardingPathAvailability :: gtype where
  "DirectForwardingPathAvailability = StructKind
    [(''Value'', ''valueExt,valueLB:0,valueUB:0'', EnumeratedType)]"

definition Dynamic5QIDescriptorExtIEsExtensionValue :: gtype where
  "Dynamic5QIDescriptorExtIEsExtensionValue = StructKind
    [(''Present'', '''', IntKind 64)]"

definition EPSTAC :: gtype where
  "EPSTAC = StructKind
    [(''Value'', ''sizeLB:2,sizeUB:2'', OctetStringType)]"

definition EPSTAIExtIEsExtensionValue :: gtype where
  "EPSTAIExtIEsExtensionValue = StructKind
    [(''Present'', '''', IntKind 64)]"

definition ERABID :: gtype where
  "ERABID = StructKind
    [(''Value'', ''valueExt,valueLB:0,valueUB:15'', IntKind 64)]"

definition ERABInformationItemExtIEsExtensionValue :: gtype where
  "ERABInformationItemExtIEsExtensionValue = StructKind
    [(''Present'', '''', IntKind 64)]"

definition EUTRACGIExtIEsExtensionValue :: gtype where
  "EUTRACGIExtIEsExtensionValue = StructKind
    [(''Present'', '''', IntKind 64)]"

definition EUTRACellIdentity :: gtype where
  "EUTRACellIdentity = StructKind
    [(''Value'', ''sizeLB:28,sizeUB:28'', BitStringType)]"

definition EUTRAencryptionAlgorithms :: gtype where
  "EUTRAencryptionAlgorithms = StructKind
    [(''Value'', ''sizeExt,sizeLB:16,sizeUB:16'', BitStringType)]"

definition EUTRAintegrityProtectionAlgorithms :: gtype where
  "EUTRAintegrityProtectionAlgorithms = StructKind
    [(''Value'', ''sizeExt,sizeLB:16,sizeUB:16'', BitStringType)]"

definition EmergencyAreaID :: gtype where
  "EmergencyAreaID = StructKind
    [(''Value'', ''sizeLB:3,sizeUB:3'', OctetStringType)]"

definition EmergencyAreaIDBroadcastEUTRAItemExtIEsExtensionValue :: gtype where
  "EmergencyAreaIDBroadcastEUTRAItemExtIEsExtensionValue = StructKind
    [(''Present'', '''', IntKind 64)]"

definition EmergencyAreaIDBroadcastNRItemExtIEsExtensionValue :: gtype where
  "EmergencyAreaIDBroadcastNRItemExtIEsExtensionValue = StructKind
    [(''Present'', '''', IntKind 64)]"

definition EmergencyAreaIDCancelledEUTRAItemExtIEsExtensionValue :: gtype where
  "EmergencyAreaIDCancelledEUTRAItemExtIEsExtensionValue = StructKind
    [(''Present'', '''', IntKind 64)]"

definition EmergencyAreaIDCancelledNRItemExtIEsExtensionValue :: gtype where
  "EmergencyAreaIDCancelledNRItemExtIEsExtensionValue = StructKind
    [(''Present'', '''', IntKind 64)]"

definition EmergencyFallbackIndicatorExtIEsExtensionValue :: gtype where
  "EmergencyFallbackIndicatorExtIEsExtensionValue = StructKind
    [(''Present'', '''', IntKind 64)]"

definition EmergencyFallbackRequestIndicator :: gtype where
  "EmergencyFallbackRequestIndicator = StructKind
    [(''Value'', ''valueExt,valueLB:0,valueUB:0'', EnumeratedType)]"

definition EmergencyServiceTargetCN :: gtype where
  "EmergencyServiceTargetCN = StructKind
    [(''Value'', ''valueExt,valueLB:0,valueUB:1'', EnumeratedType)]"

definition EventType :: gtype where
  "EventType = StructKind
    [(''Value'', ''valueExt,valueLB:0,valueUB:5'', EnumeratedType)]"

definition ExpectedActivityPeriod :: gtype where
  "ExpectedActivityPeriod = StructKind
    [(''Value'', '''', IntKind 64)]"

definition ExpectedHOInterval :: gtype where
  "ExpectedHOInterval = StructKind
    [(''Value'', ''valueExt,valueLB:0,valueUB:6'', EnumeratedType)]"

definition ExpectedIdlePeriod :: gtype where
  "ExpectedIdlePeriod = StructKind
    [(''Value'', '''', IntKind 64)]"

definition ExpectedUEActivityBehaviourExtIEsExtensionValue :: gtype where
  "ExpectedUEActivityBehaviourExtIEsExtensionValue = StructKind
    [(''Present'', '''', IntKind 64)]"

definition ExpectedUEBehaviourExtIEsExtensionValue :: gtype where
  "ExpectedUEBehaviourExtIEsExtensionValue = StructKind
    [(''Present'', '''', IntKind 64)]"

definition ExpectedUEMobility :: gtype where
  "ExpectedUEMobility = StructKind
    [(''Value'', ''valueExt,valueLB:0,valueUB:1'', EnumeratedType)]"

definition ExpectedUEMovingTrajectoryItemExtIEsExtensionValue :: gtype where
  "ExpectedUEMovingTrajectoryItemExtIEsExtensionValue = StructKind
    [(''Present'', '''', IntKind 64)]"

definition FiveGSTMSIExtIEsExtensionValue :: gtype where
  "FiveGSTMSIExtIEsExtensionValue = StructKind
    [(''Present'', '''', IntKind 64)]"

definition FiveGTMSI :: gtype where
  "FiveGTMSI = StructKind
    [(''Value'', ''sizeLB:4,sizeUB:4'', OctetStringType)]"

definition FiveQI :: gtype where
  "FiveQI = StructKind
    [(''Value'', ''valueExt,valueLB:0,valueUB:255'', IntKind 64)]"

definition ForbiddenAreaInformationItemExtIEsExtensionValue :: gtype where
  "ForbiddenAreaInformationItemExtIEsExtensionValue = StructKind
    [(''Present'', '''', IntKind 64)]"

definition GBRQosInformationExtIEsExtensionValue :: gtype where
  "GBRQosInformationExtIEsExtensionValue = StructKind
    [(''Present'', '''', IntKind 64)]"

definition GNBIDExtIEsValue :: gtype where
  "GNBIDExtIEsValue = StructKind
    [(''Present'', '''', IntKind 64)]"

definition GTPTEID :: gtype where
  "GTPTEID = StructKind
    [(''Value'', ''sizeLB:4,sizeUB:4'', OctetStringType)]"

definition GTPTunnelExtIEsExtensionValue :: gtype where
  "GTPTunnelExtIEsExtensionValue = StructKind
    [(''Present'', '''', IntKind 64)]"

definition GUAMIExtIEsExtensionValue :: gtype where
  "GUAMIExtIEsExtensionValue = StructKind
    [(''Present'', '''', IntKind 64)]"

definition GlobalGNBIDExtIEsExtensionValue :: gtype where
  "GlobalGNBIDExtIEsExtensionValue = StructKind
    [(''Present'', '''', IntKind 64)]"

definition GlobalN3IWFIDExtIEsExtensionValue :: gtype where
  "GlobalN3IWFIDExtIEsExtensionValue = StructKind
    [(''Present'', '''', IntKind 64)]"

definition GlobalNgENBIDExtIEsExtensionValue :: gtype where
  "GlobalNgENBIDExtIEsExtensionValue = StructKind
    [(''Present'', '''', IntKind 64)]"

definition GlobalRANNodeIDExtIEsValue :: gtype where
  "GlobalRANNodeIDExtIEsValue = StructKind
    [(''Present'', '''', IntKind 64)]"

definition HandoverCommandTransferExtIEsExtensionValue :: gtype where
  "HandoverCommandTransferExtIEsExtensionValue = StructKind
    [(''Present'', '''', IntKind 64)]"

definition HandoverPreparationUnsuccessfulTransferExtIEsExtensionValue :: gtype where
  "HandoverPreparationUnsuccessfulTransferExtIEsExtensionValue = StructKind
    [(''Present'', '''', IntKind 64)]"

definition HandoverRequestAcknowledgeTransferExtIEsExtensionValue :: gtype where
  "HandoverRequestAcknowledgeTransferExtIEsExtensionValue = StructKind
    [(''Present'', '''', IntKind 64)]"

definition HandoverRequiredTransferExtIEsExtensionValue :: gtype where
  "HandoverRequiredTransferExtIEsExtensionValue = StructKind
    [(''Present'', '''', IntKind 64)]"

definition HandoverResourceAllocationUnsuccessfulTransferExtIEsExtensionValue :: gtype where
  "HandoverResourceAllocationUnsuccessfulTransferExtIEsExtensionValue = StructKind
    [(''Present'', '''', IntKind 64)]"

definition HandoverType :: gtype where
  "HandoverType = StructKind
    [(''Value'', ''valueExt,valueLB:0,valueUB:2'', EnumeratedType)]"

definition IMSVoiceSupportIndicator :: gtype where
  "IMSVoiceSupportIndicator = StructKind
    [(''Value'', ''valueExt,valueLB:0,valueUB:1'', EnumeratedType)]"

definition IndexToRFSP :: gtype where
  "IndexToRFSP = StructKind
    [(''Value'', ''valueExt,valueLB:1,valueUB:256'', IntKind 64)]"

definition InfoOnRecommendedCellsAndRANNodesForPagingExtIEsExtensionValue :: gtype where
  "InfoOnRecommendedCellsAndRANNodesForPagingExtIEsExtensionValue = StructKind
    [(''Present'', '''', IntKind 64)]"

definition IntegrityProtectionIndication :: gtype where
  "IntegrityProtectionIndication = StructKind
    [(''Value'', ''valueExt,valueLB:0,valueUB:2'', EnumeratedType)]"

definition IntegrityProtectionResult :: gtype where
  "IntegrityProtectionResult = StructKind
    [(''Value'', ''valueExt,valueLB:0,valueUB:1'', EnumeratedType)]"

definition IntendedNumberOfPagingAttempts :: gtype where
  "IntendedNumberOfPagingAttempts = StructKind
    [(''Value'', ''valueExt,valueLB:1,valueUB:16'', IntKind 64)]"

definition InterfacesToTrace :: gtype where
  "InterfacesToTrace = StructKind
    [(''Value'', ''sizeLB:8,sizeUB:8'', BitStringType)]"

definition LastVisitedCellInformationExtIEsValue :: gtype where
  "LastVisitedCellInformationExtIEsValue = StructKind
    [(''Present'', '''', IntKind 64)]"

definition LastVisitedCellItemExtIEsExtensionValue :: gtype where
  "LastVisitedCellItemExtIEsExtensionValue = StructKind
    [(''Present'', '''', IntKind 64)]"

definition LastVisitedEUTRANCellInformation :: gtype where
  "LastVisitedEUTRANCellInformation = StructKind
    [(''Value'', '''', OctetStringType)]"

definition LastVisitedGERANCellInformation :: gtype where
  "LastVisitedGERANCellInformation = StructKind
    [(''Value'', '''', OctetStringType)]"

definition LastVisitedNGRANCellInformationExtIEsExtensionValue :: gtype where
  "LastVisitedNGRANCellInformationExtIEsExtensionValue = StructKind
    [(''Present'', '''', IntKind 64)]"

definition LastVisitedUTRANCellInformation :: gtype where
  "LastVisitedUTRANCellInformation = StructKind
    [(''Value'', '''', OctetStringType)]"

definition LocationReportingReferenceID :: gtype where
  "LocationReportingReferenceID = StructKind
    [(''Value'', ''valueExt,valueLB:1,valueUB:64'', IntKind 64)]"

definition LocationReportingRequestTypeExtIEsExtensionValue :: gtype where
  "LocationReportingRequestTypeExtIEsExtensionValue = StructKind
    [(''Present'', '''', IntKind 64)]"

definition MICOModeIndication :: gtype where
  "MICOModeIndication = StructKind
    [(''Value'', ''valueExt,valueLB:0,valueUB:0'', EnumeratedType)]"

definition MaskedIMEISV :: gtype where
  "MaskedIMEISV = StructKind
    [(''Value'', ''sizeLB:64,sizeUB:64'', BitStringType)]"

definition MaximumDataBurstVolume :: gtype where
  "MaximumDataBurstVolume = StructKind
    [(''Value'', ''valueExt,valueLB:0,valueUB:4095'', IntKind 64)]"

definition MaximumIntegrityProtectedDataRate :: gtype where
  "MaximumIntegrityProtectedDataRate = StructKind
    [(''Value'', ''valueExt,valueLB:0,valueUB:1'', EnumeratedType)]"

definition MessageIdentifier :: gtype where
  "MessageIdentifier = StructKind
    [(''Value'', ''sizeLB:16,sizeUB:16'', BitStringType)]"

definition MobilityRestrictionListExtIEsExtensionValue :: gtype where
  "MobilityRestrictionListExtIEsExtensionValue = StructKind
    [(''Present'', '''', IntKind 64)]"

definition MultipleTNLInformationExtIEsExtensionValue :: gtype where
  "MultipleTNLInformationExtIEsExtensionValue = StructKind
    [(''Present'', '''', IntKind 64)]"

definition N3IWFIDExtIEsValue :: gtype where
  "N3IWFIDExtIEsValue = StructKind
    [(''Present'', '''', IntKind 64)]"

definition NASPDU :: gtype where
  "NASPDU = StructKind
    [(''Value'', '''', OctetStringType)]"

definition NASSecurityParametersFromNGRAN :: gtype where
  "NASSecurityParametersFromNGRAN = StructKind
    [(''Value'', '''', OctetStringType)]"

definition NGRANCGIExtIEsValue :: gtype where
  "NGRANCGIExtIEsValue = StructKind
    [(''Present'', '''', IntKind 64)]"

definition NGRANTraceID :: gtype where
  "NGRANTraceID = StructKind
    [(''Value'', ''sizeLB:8,sizeUB:8'', OctetStringType)]"

definition NRCGIExtIEsExtensionValue :: gtype where
  "NRCGIExtIEsExtensionValue = StructKind
    [(''Present'', '''', IntKind 64)]"

definition NRCellIdentity :: gtype where
  "NRCellIdentity = StructKind
    [(''Value'', ''sizeLB:36,sizeUB:36'', BitStringType)]"

definition NRPPaPDU :: gtype where
  "NRPPaPDU = StructKind
    [(''Value'', '''', OctetStringType)]"

definition NRencryptionAlgorithms :: gtype where
  "NRencryptionAlgorithms = StructKind
    [(''Value'', ''sizeExt,sizeLB:16,sizeUB:16'', BitStringType)]"

definition NRintegrityProtectionAlgorithms :: gtype where
  "NRintegrityProtectionAlgorithms = StructKind
    [(''Value'', ''sizeExt,sizeLB:16,sizeUB:16'', BitStringType)]"

definition NetworkInstance :: gtype where
  "NetworkInstance = StructKind
    [(''Value'', ''valueExt,valueLB:1,valueUB:256'', IntKind 64)]"

definition NewSecurityContextInd :: gtype where
  "NewSecurityContextInd = StructKind
    [(''Value'', ''valueExt,valueLB:0,valueUB:0'', EnumeratedType)]"

definition NextHopChainingCount :: gtype where
  "NextHopChainingCount = StructKind
    [(''Value'', ''valueLB:0,valueUB:7'', IntKind 64)]"

definition NextPagingAreaScope :: gtype where
  "NextPagingAreaScope = StructKind
    [(''Value'', ''valueExt,valueLB:0,valueUB:1'', EnumeratedType)]"

definition NgENBIDExtIEsValue :: gtype where
  "NgENBIDExtIEsValue = StructKind
    [(''Present'', '''', IntKind 64)]"

definition NonDynamic5QIDescriptorExtIEsExtensionValue :: gtype where
  "NonDynamic5QIDescriptorExtIEsExtensionValue = StructKind
    [(''Present'', '''', IntKind 64)]"

definition NotificationCause :: gtype where
  "NotificationCause = StructKind
    [(''Value'', ''valueExt,valueLB:0,valueUB:1'', EnumeratedType)]"

definition NotificationControl :: gtype where
  "NotificationControl = StructKind
    [(''Value'', ''valueExt,valueLB:0,valueUB:0'', EnumeratedType)]"

definition NumberOfBroadcasts :: gtype where
  "NumberOfBroadcasts = StructKind
    [(''Value'', ''valueLB:0,valueUB:65535'', IntKind 64)]"

definition NumberOfBroadcastsRequested :: gtype where
  "NumberOfBroadcastsRequested = StructKind
    [(''Value'', ''valueLB:0,valueUB:65535'', IntKind 64)]"

definition OverloadAction :: gtype where
  "OverloadAction = StructKind
    [(''Value'', ''valueExt,valueLB:0,valueUB:3'', EnumeratedType)]"

definition OverloadResponseExtIEsValue :: gtype where
  "OverloadResponseExtIEsValue = StructKind
    [(''Present'', '''', IntKind 64)]"

definition OverloadStartNSSAIItemExtIEsExtensionValue :: gtype where
  "OverloadStartNSSAIItemExtIEsExtensionValue = StructKind
    [(''Present'', '''', IntKind 64)]"

definition OverloadStopIEsValue :: gtype where
  "OverloadStopIEsValue = StructKind
    [(''Present'', '''', IntKind 64)]"

definition PDUSessionAggregateMaximumBitRateExtIEsExtensionValue :: gtype where
  "PDUSessionAggregateMaximumBitRateExtIEsExtensionValue = StructKind
    [(''Present'', '''', IntKind 64)]"

definition PDUSessionID :: gtype where
  "PDUSessionID = StructKind
    [(''Value'', ''valueLB:0,valueUB:255'', IntKind 64)]"

definition PDUSessionResourceAdmittedItemExtIEsExtensionValue :: gtype where
  "PDUSessionResourceAdmittedItemExtIEsExtensionValue = StructKind
    [(''Present'', '''', IntKind 64)]"

definition PDUSessionResourceFailedToModifyItemModCfmExtIEsExtensionValue :: gtype where
  "PDUSessionResourceFailedToModifyItemModCfmExtIEsExtensionValue = StructKind
    [(''Present'', '''', IntKind 64)]"

definition PDUSessionResourceFailedToModifyItemModResExtIEsExtensionValue :: gtype where
  "PDUSessionResourceFailedToModifyItemModResExtIEsExtensionValue = StructKind
    [(''Present'', '''', IntKind 64)]"

definition PDUSessionResourceFailedToSetupItemCxtFailExtIEsExtensionValue :: gtype where
  "PDUSessionResourceFailedToSetupItemCxtFailExtIEsExtensionValue = StructKind
    [(''Present'', '''', IntKind 64)]"

definition PDUSessionResourceFailedToSetupItemCxtResExtIEsExtensionValue :: gtype where
  "PDUSessionResourceFailedToSetupItemCxtResExtIEsExtensionValue = StructKind
    [(''Present'', '''', IntKind 64)]"

definition PDUSessionResourceFailedToSetupItemHOAckExtIEsExtensionValue :: gtype where
  "PDUSessionResourceFailedToSetupItemHOAckExtIEsExtensionValue = StructKind
    [(''Present'', '''', IntKind 64)]"

definition PDUSessionResourceFailedToSetupItemPSReqExtIEsExtensionValue :: gtype where
  "PDUSessionResourceFailedToSetupItemPSReqExtIEsExtensionValue = StructKind
    [(''Present'', '''', IntKind 64)]"

definition PDUSessionResourceFailedToSetupItemSUResExtIEsExtensionValue :: gtype where
  "PDUSessionResourceFailedToSetupItemSUResExtIEsExtensionValue = StructKind
    [(''Present'', '''', IntKind 64)]"

definition PDUSessionResourceHandoverItemExtIEsExtensionValue :: gtype where
  "PDUSessionResourceHandoverItemExtIEsExtensionValue = StructKind
    [(''Present'', '''', IntKind 64)]"

definition PDUSessionResourceInformationItemExtIEsExtensionValue :: gtype where
  "PDUSessionResourceInformationItemExtIEsExtensionValue = StructKind
    [(''Present'', '''', IntKind 64)]"

definition PDUSessionResourceItemCxtRelCplExtIEsExtensionValue :: gtype where
  "PDUSessionResourceItemCxtRelCplExtIEsExtensionValue = StructKind
    [(''Present'', '''', IntKind 64)]"

definition PDUSessionResourceItemCxtRelReqExtIEsExtensionValue :: gtype where
  "PDUSessionResourceItemCxtRelReqExtIEsExtensionValue = StructKind
    [(''Present'', '''', IntKind 64)]"

definition PDUSessionResourceItemHORqdExtIEsExtensionValue :: gtype where
  "PDUSessionResourceItemHORqdExtIEsExtensionValue = StructKind
    [(''Present'', '''', IntKind 64)]"

definition PDUSessionResourceModifyConfirmTransferExtIEsExtensionValue :: gtype where
  "PDUSessionResourceModifyConfirmTransferExtIEsExtensionValue = StructKind
    [(''Present'', '''', IntKind 64)]"

definition PDUSessionResourceModifyIndicationTransferExtIEsExtensionValue :: gtype where
  "PDUSessionResourceModifyIndicationTransferExtIEsExtensionValue = StructKind
    [(''Present'', '''', IntKind 64)]"

definition PDUSessionResourceModifyIndicationUnsuccessfulTransferExtIEsExtensionValue :: gtype where
  "PDUSessionResourceModifyIndicationUnsuccessfulTransferExtIEsExtensionValue = StructKind
    [(''Present'', '''', IntKind 64)]"

definition PDUSessionResourceModifyItemModCfmExtIEsExtensionValue :: gtype where
  "PDUSessionResourceModifyItemModCfmExtIEsExtensionValue = StructKind
    [(''Present'', '''', IntKind 64)]"

definition PDUSessionResourceModifyItemModIndExtIEsExtensionValue :: gtype where
  "PDUSessionResourceModifyItemModIndExtIEsExtensionValue = StructKind
    [(''Present'', '''', IntKind 64)]"

definition PDUSessionResourceModifyItemModReqExtIEsExtensionValue :: gtype where
  "PDUSessionResourceModifyItemModReqExtIEsExtensionValue = StructKind
    [(''Present'', '''', IntKind 64)]"

definition PDUSessionResourceModifyItemModResExtIEsExtensionValue :: gtype where
  "PDUSessionResourceModifyItemModResExtIEsExtensionValue = StructKind
    [(''Present'', '''', IntKind 64)]"

definition PDUSessionResourceModifyResponseTransferExtIEsExtensionValue :: gtype where
  "PDUSessionResourceModifyResponseTransferExtIEsExtensionValue = StructKind
    [(''Present'', '''', IntKind 64)]"

definition PDUSessionResourceModifyUnsuccessfulTransferExtIEsExtensionValue :: gtype where
  "PDUSessionResourceModifyUnsuccessfulTransferExtIEsExtensionValue = StructKind
    [(''Present'', '''', IntKind 64)]"

definition PDUSessionResourceNotifyItemExtIEsExtensionValue :: gtype where
  "PDUSessionResourceNotifyItemExtIEsExtensionValue = StructKind
    [(''Present'', '''', IntKind 64)]"

definition PDUSessionResourceNotifyReleasedTransferExtIEsExtensionValue :: gtype where
  "PDUSessionResourceNotifyReleasedTransferExtIEsExtensionValue = StructKind
    [(''Present'', '''', IntKind 64)]"

definition PDUSessionResourceNotifyTransferExtIEsExtensionValue :: gtype where
  "PDUSessionResourceNotifyTransferExtIEsExtensionValue = StructKind
    [(''Present'', '''', IntKind 64)]"

definition PDUSessionResourceReleaseCommandTransferExtIEsExtensionValue :: gtype where
  "PDUSessionResourceReleaseCommandTransferExtIEsExtensionValue = StructKind
    [(''Present'', '''', IntKind 64)]"

definition PDUSessionResourceReleaseResponseTransferExtIEsExtensionValue :: gtype where
  "PDUSessionResourceReleaseResponseTransferExtIEsExtensionValue = StructKind
    [(''Present'', '''', IntKind 64)]"

definition PDUSessionResourceReleasedItemNotExtIEsExtensionValue :: gtype where
  "PDUSessionResourceReleasedItemNotExtIEsExtensionValue = StructKind
    [(''Present'', '''', IntKind 64)]"

definition PDUSessionResourceReleasedItemPSAckExtIEsExtensionValue :: gtype where
  "PDUSessionResourceReleasedItemPSAckExtIEsExtensionValue = StructKind
    [(''Present'', '''', IntKind 64)]"

definition PDUSessionResourceReleasedItemPSFailExtIEsExtensionValue :: gtype where
  "PDUSessionResourceReleasedItemPSFailExtIEsExtensionValue = StructKind
    [(''Present'', '''', IntKind 64)]"

definition PDUSessionResourceReleasedItemRelResExtIEsExtensionValue :: gtype where
  "PDUSessionResourceReleasedItemRelResExtIEsExtensionValue = StructKind
    [(''Present'', '''', IntKind 64)]"

definition PDUSessionResourceSetupItemCxtReqExtIEsExtensionValue :: gtype where
  "PDUSessionResourceSetupItemCxtReqExtIEsExtensionValue = StructKind
    [(''Present'', '''', IntKind 64)]"

definition PDUSessionResourceSetupItemCxtResExtIEsExtensionValue :: gtype where
  "PDUSessionResourceSetupItemCxtResExtIEsExtensionValue = StructKind
    [(''Present'', '''', IntKind 64)]"

definition PDUSessionResourceSetupItemHOReqExtIEsExtensionValue :: gtype where
  "PDUSessionResourceSetupItemHOReqExtIEsExtensionValue = StructKind
    [(''Present'', '''', IntKind 64)]"

definition PDUSessionResourceSetupItemSUReqExtIEsExtensionValue :: gtype where
  "PDUSessionResourceSetupItemSUReqExtIEsExtensionValue = StructKind
    [(''Present'', '''', IntKind 64)]"

definition PDUSessionResourceSetupItemSUResExtIEsExtensionValue :: gtype where
  "PDUSessionResourceSetupItemSUResExtIEsExtensionValue = StructKind
    [(''Present'', '''', IntKind 64)]"

definition PDUSessionResourceSetupResponseTransferExtIEsExtensionValue :: gtype where
  "PDUSessionResourceSetupResponseTransferExtIEsExtensionValue = StructKind
    [(''Present'', '''', IntKind 64)]"

definition PDUSessionResourceSetupUnsuccessfulTransferExtIEsExtensionValue :: gtype where
  "PDUSessionResourceSetupUnsuccessfulTransferExtIEsExtensionValue = StructKind
    [(''Present'', '''', IntKind 64)]"

definition PDUSessionResourceSwitchedItemExtIEsExtensionValue :: gtype where
  "PDUSessionResourceSwitchedItemExtIEsExtensionValue = StructKind
    [(''Present'', '''', IntKind 64)]"

definition PDUSessionResourceToBeSwitchedDLItemExtIEsExtensionValue :: gtype where
  "PDUSessionResourceToBeSwitchedDLItemExtIEsExtensionValue = StructKind
    [(''Present'', '''', IntKind 64)]"

definition PDUSessionResourceToReleaseItemHOCmdExtIEsExtensionValue :: gtype where
  "PDUSessionResourceToReleaseItemHOCmdExtIEsExtensionValue = StructKind
    [(''Present'', '''', IntKind 64)]"

definition PDUSessionResourceToReleaseItemRelCmdExtIEsExtensionValue :: gtype where
  "PDUSessionResourceToReleaseItemRelCmdExtIEsExtensionValue = StructKind
    [(''Present'', '''', IntKind 64)]"

definition PDUSessionType :: gtype where
  "PDUSessionType = StructKind
    [(''Value'', ''valueExt,valueLB:0,valueUB:4'', EnumeratedType)]"

definition PLMNIdentity :: gtype where
  "PLMNIdentity = StructKind
    [(''Value'', ''sizeLB:3,sizeUB:3'', OctetStringType)]"

definition PLMNSupportItemExtIEsExtensionValue :: gtype where
  "PLMNSupportItemExtIEsExtensionValue = StructKind
    [(''Present'', '''', IntKind 64)]"

definition PWSFailedCellIDListExtIEsValue :: gtype where
  "PWSFailedCellIDListExtIEsValue = StructKind
    [(''Present'', '''', IntKind 64)]"

definition PacketDelayBudget :: gtype where
  "PacketDelayBudget = StructKind
    [(''Value'', ''valueExt,valueLB:0,valueUB:1023'', IntKind 64)]"

definition PacketErrorRateExtIEsExtensionValue :: gtype where
  "PacketErrorRateExtIEsExtensionValue = StructKind
    [(''Present'', '''', IntKind 64)]"

definition PacketLossRate :: gtype where
  "PacketLossRate = StructKind
    [(''Value'', ''valueExt,valueLB:0,valueUB:1000'', IntKind 64)]"

definition PagingAttemptCount :: gtype where
  "PagingAttemptCount = StructKind
    [(''Value'', ''valueExt,valueLB:1,valueUB:16'', IntKind 64)]"

definition PagingAttemptInformationExtIEsExtensionValue :: gtype where
  "PagingAttemptInformationExtIEsExtensionValue = StructKind
    [(''Present'', '''', IntKind 64)]"

definition PagingDRX :: gtype where
  "PagingDRX = StructKind
    [(''Value'', ''valueExt,valueLB:0,valueUB:3'', EnumeratedType)]"

definition PagingOrigin :: gtype where
  "PagingOrigin = StructKind
    [(''Value'', ''valueExt,valueLB:0,valueUB:0'', EnumeratedType)]"

definition PagingPriority :: gtype where
  "PagingPriority = StructKind
    [(''Value'', ''valueExt,valueLB:0,valueUB:7'', EnumeratedType)]"

definition PathSwitchRequestAcknowledgeTransferExtIEsExtensionValue :: gtype where
  "PathSwitchRequestAcknowledgeTransferExtIEsExtensionValue = StructKind
    [(''Present'', '''', IntKind 64)]"

definition PathSwitchRequestSetupFailedTransferExtIEsExtensionValue :: gtype where
  "PathSwitchRequestSetupFailedTransferExtIEsExtensionValue = StructKind
    [(''Present'', '''', IntKind 64)]"

definition PathSwitchRequestTransferExtIEsExtensionValue :: gtype where
  "PathSwitchRequestTransferExtIEsExtensionValue = StructKind
    [(''Present'', '''', IntKind 64)]"

definition PathSwitchRequestUnsuccessfulTransferExtIEsExtensionValue :: gtype where
  "PathSwitchRequestUnsuccessfulTransferExtIEsExtensionValue = StructKind
    [(''Present'', '''', IntKind 64)]"

definition PeriodicRegistrationUpdateTimer :: gtype where
  "PeriodicRegistrationUpdateTimer = StructKind
    [(''Value'', ''sizeLB:8,sizeUB:8'', BitStringType)]"

definition PortNumber :: gtype where
  "PortNumber = StructKind
    [(''Value'', ''sizeLB:2,sizeUB:2'', OctetStringType)]"

definition PreEmptionCapability :: gtype where
  "PreEmptionCapability = StructKind
    [(''Value'', ''valueExt,valueLB:0,valueUB:1'', EnumeratedType)]"

definition PreEmptionVulnerability :: gtype where
  "PreEmptionVulnerability = StructKind
    [(''Value'', ''valueExt,valueLB:0,valueUB:1'', EnumeratedType)]"

definition Presence :: gtype where
  "Presence = StructKind
    [(''Value'', ''valueLB:0,valueUB:2'', EnumeratedType)]"

definition PriorityLevelARP :: gtype where
  "PriorityLevelARP = StructKind
    [(''Value'', ''valueLB:1,valueUB:15'', IntKind 64)]"

definition PriorityLevelQos :: gtype where
  "PriorityLevelQos = StructKind
    [(''Value'', ''valueExt,valueLB:1,valueUB:127'', IntKind 64)]"

definition PrivateIEID :: gtype where
  "PrivateIEID = StructKind
    [(''Present'', '''', IntKind 64),
     (''Local'', ''valueLB:0,valueUB:65535'', PtrKind (IntKind 64)),
     (''Global'', '''', PtrKind ObjectIdentifierType)]"

definition PrivateMessageIEsValue :: gtype where
  "PrivateMessageIEsValue = StructKind
    [(''Present'', '''', IntKind 64)]"

definition ProcedureCode :: gtype where
  "ProcedureCode = StructKind
    [(''Value'', ''valueLB:0,valueUB:255'', IntKind 64)]"

definition ProtocolExtensionID :: gtype where
  "ProtocolExtensionID = StructKind
    [(''Value'', ''valueLB:0,valueUB:65535'', IntKind 64)]"

definition ProtocolIEID :: gtype where
  "ProtocolIEID = StructKind
    [(''Value'', ''valueLB:0,valueUB:65535'', IntKind 64)]"

definition ProtocolIESingleContainerAMFPagingTargetExtIEs :: gtype where
  "ProtocolIESingleContainerAMFPagingTargetExtIEs = StructKind
    []"

definition ProtocolIESingleContainerBroadcastCancelledAreaListExtIEs :: gtype where
  "ProtocolIESingleContainerBroadcastCancelledAreaListExtIEs = StructKind
    []"

definition ProtocolIESingleContainerBroadcastCompletedAreaListExtIEs :: gtype where
  "ProtocolIESingleContainerBroadcastCompletedAreaListExtIEs = StructKind
    []"

definition ProtocolIESingleContainerCPTransportLayerInformationExtIEs :: gtype where
  "ProtocolIESingleContainerCPTransportLayerInformationExtIEs = StructKind
    []"

definition ProtocolIESingleContainerCauseExtIEs :: gtype where
  "ProtocolIESingleContainerCauseExtIEs = StructKind
    []"

definition ProtocolIESingleContainerCellIDListForRestartExtIEs :: gtype where
  "ProtocolIESingleContainerCellIDListForRestartExtIEs = StructKind
    []"

definition ProtocolIESingleContainerDRBStatusDLExtIEs :: gtype where
  "ProtocolIESingleContainerDRBStatusDLExtIEs = StructKind
    []"

definition ProtocolIESingleContainerDRBStatusULExtIEs :: gtype where
  "ProtocolIESingleContainerDRBStatusULExtIEs = StructKind
    []"

definition ProtocolIESingleContainerGNBIDExtIEs :: gtype where
  "ProtocolIESingleContainerGNBIDExtIEs = StructKind
    []"

definition ProtocolIESingleContainerGlobalRANNodeIDExtIEs :: gtype where
  "ProtocolIESingleContainerGlobalRANNodeIDExtIEs = StructKind
    []"

definition ProtocolIESingleContainerLastVisitedCellInformationExtIEs :: gtype where
  "ProtocolIESingleContainerLastVisitedCellInformationExtIEs = StructKind
    []"

definition ProtocolIESingleContainerN3IWFIDExtIEs :: gtype where
  "ProtocolIESingleContainerN3IWFIDExtIEs = StructKind
    []"

definition ProtocolIESingleContainerNGRANCGIExtIEs :: gtype where
  "ProtocolIESingleContainerNGRANCGIExtIEs = StructKind
    []"

definition ProtocolIESingleContainerNgENBIDExtIEs :: gtype where
  "ProtocolIESingleContainerNgENBIDExtIEs = StructKind
    []"

definition ProtocolIESingleContainerOverloadResponseExtIEs :: gtype where
  "ProtocolIESingleContainerOverloadResponseExtIEs = StructKind
    []"

definition ProtocolIESingleContainerPWSFailedCellIDListExtIEs :: gtype where
  "ProtocolIESingleContainerPWSFailedCellIDListExtIEs = StructKind
    []"

definition ProtocolIESingleContainerQosCharacteristicsExtIEs :: gtype where
  "ProtocolIESingleContainerQosCharacteristicsExtIEs = StructKind
    []"

definition ProtocolIESingleContainerResetTypeExtIEs :: gtype where
  "ProtocolIESingleContainerResetTypeExtIEs = StructKind
    []"

definition ProtocolIESingleContainerSONInformationExtIEs :: gtype where
  "ProtocolIESingleContainerSONInformationExtIEs = StructKind
    []"

definition ProtocolIESingleContainerTargetIDExtIEs :: gtype where
  "ProtocolIESingleContainerTargetIDExtIEs = StructKind
    []"

definition ProtocolIESingleContainerUEIdentityIndexValueExtIEs :: gtype where
  "ProtocolIESingleContainerUEIdentityIndexValueExtIEs = StructKind
    []"

definition ProtocolIESingleContainerUENGAPIDsExtIEs :: gtype where
  "ProtocolIESingleContainerUENGAPIDsExtIEs = StructKind
    []"

definition ProtocolIESingleContainerUEPagingIdentityExtIEs :: gtype where
  "ProtocolIESingleContainerUEPagingIdentityExtIEs = StructKind
    []"

definition ProtocolIESingleContainerUPTNLInformationExtIEs :: gtype where
  "ProtocolIESingleContainerUPTNLInformationExtIEs = StructKind
    []"

definition ProtocolIESingleContainerUPTransportLayerInformationExtIEs :: gtype where
  "ProtocolIESingleContainerUPTransportLayerInformationExtIEs = StructKind
    []"

definition ProtocolIESingleContainerUserLocationInformationExtIEs :: gtype where
  "ProtocolIESingleContainerUserLocationInformationExtIEs = StructKind
    []"

definition ProtocolIESingleContainerWarningAreaListExtIEs :: gtype where
  "ProtocolIESingleContainerWarningAreaListExtIEs = StructKind
    []"

definition QosCharacteristicsExtIEsValue :: gtype where
  "QosCharacteristicsExtIEsValue = StructKind
    [(''Present'', '''', IntKind 64)]"

definition QosFlowAcceptedItemExtIEsExtensionValue :: gtype where
  "QosFlowAcceptedItemExtIEsExtensionValue = StructKind
    [(''Present'', '''', IntKind 64)]"

definition QosFlowAddOrModifyRequestItemExtIEsExtensionValue :: gtype where
  "QosFlowAddOrModifyRequestItemExtIEsExtensionValue = StructKind
    [(''Present'', '''', IntKind 64)]"

definition QosFlowAddOrModifyResponseItemExtIEsExtensionValue :: gtype where
  "QosFlowAddOrModifyResponseItemExtIEsExtensionValue = StructKind
    [(''Present'', '''', IntKind 64)]"

definition QosFlowIdentifier :: gtype where
  "QosFlowIdentifier = StructKind
    [(''Value'', ''valueExt,valueLB:0,valueUB:63'', IntKind 64)]"

definition QosFlowInformationItemExtIEsExtensionValue :: gtype where
  "QosFlowInformationItemExtIEsExtensionValue = StructKind
    [(''Present'', '''', IntKind 64)]"

definition QosFlowItemExtIEsExtensionValue :: gtype where
  "QosFlowItemExtIEsExtensionValue = StructKind
    [(''Present'', '''', IntKind 64)]"

definition QosFlowLevelQosParametersExtIEsExtensionValue :: gtype where
  "QosFlowLevelQosParametersExtIEsExtensionValue = StructKind
    [(''Present'', '''', IntKind 64)]"

definition QosFlowModifyConfirmItemExtIEsExtensionValue :: gtype where
  "QosFlowModifyConfirmItemExtIEsExtensionValue = StructKind
    [(''Present'', '''', IntKind 64)]"

definition QosFlowNotifyItemExtIEsExtensionValue :: gtype where
  "QosFlowNotifyItemExtIEsExtensionValue = StructKind
    [(''Present'', '''', IntKind 64)]"

definition QosFlowPerTNLInformationExtIEsExtensionValue :: gtype where
  "QosFlowPerTNLInformationExtIEsExtensionValue = StructKind
    [(''Present'', '''', IntKind 64)]"

definition QosFlowSetupRequestItemExtIEsExtensionValue :: gtype where
  "QosFlowSetupRequestItemExtIEsExtensionValue = StructKind
    [(''Present'', '''', IntKind 64)]"

definition QosFlowSetupResponseItemHOReqAckExtIEsExtensionValue :: gtype where
  "QosFlowSetupResponseItemHOReqAckExtIEsExtensionValue = StructKind
    [(''Present'', '''', IntKind 64)]"

definition QosFlowSetupResponseItemSUResExtIEsExtensionValue :: gtype where
  "QosFlowSetupResponseItemSUResExtIEsExtensionValue = StructKind
    [(''Present'', '''', IntKind 64)]"

definition QosFlowToBeForwardedItemExtIEsExtensionValue :: gtype where
  "QosFlowToBeForwardedItemExtIEsExtensionValue = StructKind
    [(''Present'', '''', IntKind 64)]"

definition RANNodeName :: gtype where
  "RANNodeName = StructKind
    [(''Value'', ''sizeExt,sizeLB:1,sizeUB:150'', StringKind)]"

definition RANPagingPriority :: gtype where
  "RANPagingPriority = StructKind
    [(''Value'', ''valueLB:1,valueUB:256'', IntKind 64)]"

definition RANStatusTransferTransparentContainerExtIEsExtensionValue :: gtype where
  "RANStatusTransferTransparentContainerExtIEsExtensionValue = StructKind
    [(''Present'', '''', IntKind 64)]"

definition RANUENGAPID :: gtype where
  "RANUENGAPID = StructKind
    [(''Value'', ''valueLB:0,valueUB:4294967295'', IntKind 64)]"

definition RATRestrictionInformation :: gtype where
  "RATRestrictionInformation = StructKind
    [(''Value'', ''sizeExt,sizeLB:8,sizeUB:8'', BitStringType)]"

definition RATRestrictionsItemExtIEsExtensionValue :: gtype where
  "RATRestrictionsItemExtIEsExtensionValue = StructKind
    [(''Present'', '''', IntKind 64)]"

definition RRCContainer :: gtype where
  "RRCContainer = StructKind
    [(''Value'', '''', OctetStringType)]"

definition RRCEstablishmentCause :: gtype where
  "RRCEstablishmentCause = StructKind
    [(''Value'', ''valueExt,valueLB:0,valueUB:9'', EnumeratedType)]"

definition RRCInactiveTransitionReportRequest :: gtype where
  "RRCInactiveTransitionReportRequest = StructKind
    [(''Value'', ''valueExt,valueLB:0,valueUB:2'', EnumeratedType)]"

definition RRCState :: gtype where
  "RRCState = StructKind
    [(''Value'', ''valueExt,valueLB:0,valueUB:1'', EnumeratedType)]"

definition RecommendedCellItemExtIEsExtensionValue :: gtype where
  "RecommendedCellItemExtIEsExtensionValue = StructKind
    [(''Present'', '''', IntKind 64)]"

definition RecommendedCellsForPagingExtIEsExtensionValue :: gtype where
  "RecommendedCellsForPagingExtIEsExtensionValue = StructKind
    [(''Present'', '''', IntKind 64)]"

definition RecommendedRANNodeItemExtIEsExtensionValue :: gtype where
  "RecommendedRANNodeItemExtIEsExtensionValue = StructKind
    [(''Present'', '''', IntKind 64)]"

definition RecommendedRANNodesForPagingExtIEsExtensionValue :: gtype where
  "RecommendedRANNodesForPagingExtIEsExtensionValue = StructKind
    [(''Present'', '''', IntKind 64)]"

definition ReferenceID :: gtype where
  "ReferenceID = StructKind
    [(''Value'', ''valueExt,valueLB:1,valueUB:64'', IntKind 64)]"

definition ReflectiveQosAttribute :: gtype where
  "ReflectiveQosAttribute = StructKind
    [(''Value'', ''valueExt,valueLB:0,valueUB:0'', EnumeratedType)]"

definition RelativeAMFCapacity :: gtype where
  "RelativeAMFCapacity = StructKind
    [(''Value'', ''valueLB:0,valueUB:255'', IntKind 64)]"

definition RepetitionPeriod :: gtype where
  "RepetitionPeriod = StructKind
    [(''Value'', ''valueLB:0,valueUB:131071'', IntKind 64)]"

definition ReportArea :: gtype where
  "ReportArea = StructKind
    [(''Value'', ''valueExt,valueLB:0,valueUB:0'', EnumeratedType)]"

definition ResetAll :: gtype where
  "ResetAll = StructKind
    [(''Value'', ''valueExt,valueLB:0,valueUB:0'', EnumeratedType)]"

definition ResetTypeExtIEsValue :: gtype where
  "ResetTypeExtIEsValue = StructKind
    [(''Present'', '''', IntKind 64)]"

definition RoutingID :: gtype where
  "RoutingID = StructKind
    [(''Value'', '''', OctetStringType)]"

definition SD :: gtype where
  "SD = StructKind
    [(''Value'', ''sizeLB:3,sizeUB:3'', OctetStringType)]"

definition SNSSAIExtIEsExtensionValue :: gtype where
  "SNSSAIExtIEsExtensionValue = StructKind
    [(''Present'', '''', IntKind 64)]"

definition SONConfigurationTransferExtIEsExtensionValue :: gtype where
  "SONConfigurationTransferExtIEsExtensionValue = StructKind
    [(''Present'', '''', IntKind 64)]"

definition SONInformationExtIEsValue :: gtype where
  "SONInformationExtIEsValue = StructKind
    [(''Present'', '''', IntKind 64)]"

definition SONInformationReplyExtIEsExtensionValue :: gtype where
  "SONInformationReplyExtIEsExtensionValue = StructKind
    [(''Present'', '''', IntKind 64)]"

definition SONInformationRequest :: gtype where
  "SONInformationRequest = StructKind
    [(''Value'', ''valueExt,valueLB:0,valueUB:0'', EnumeratedType)]"

definition SST :: gtype where
  "SST = StructKind
    [(''Value'', ''sizeLB:1,sizeUB:1'', OctetStringType)]"

definition SecurityContextExtIEsExtensionValue :: gtype where
  "SecurityContextExtIEsExtensionValue = StructKind
    [(''Present'', '''', IntKind 64)]"

definition SecurityIndicationExtIEsExtensionValue :: gtype where
  "SecurityIndicationExtIEsExtensionValue = StructKind
    [(''Present'', '''', IntKind 64)]"

definition SecurityKey :: gtype where
  "SecurityKey = StructKind
    [(''Value'', ''sizeLB:256,sizeUB:256'', BitStringType)]"

definition SecurityResultExtIEsExtensionValue :: gtype where
  "SecurityResultExtIEsExtensionValue = StructKind
    [(''Present'', '''', IntKind 64)]"

definition SerialNumber :: gtype where
  "SerialNumber = StructKind
    [(''Value'', ''sizeLB:16,sizeUB:16'', BitStringType)]"

definition ServedGUAMIItemExtIEsExtensionValue :: gtype where
  "ServedGUAMIItemExtIEsExtensionValue = StructKind
    [(''Present'', '''', IntKind 64)]"

definition ServiceAreaInformationItemExtIEsExtensionValue :: gtype where
  "ServiceAreaInformationItemExtIEsExtensionValue = StructKind
    [(''Present'', '''', IntKind 64)]"

definition SingleTNLInformationExtIEsExtensionValue :: gtype where
  "SingleTNLInformationExtIEsExtensionValue = StructKind
    [(''Present'', '''', IntKind 64)]"

definition SliceOverloadItemExtIEsExtensionValue :: gtype where
  "SliceOverloadItemExtIEsExtensionValue = StructKind
    [(''Present'', '''', IntKind 64)]"

definition SliceSupportItemExtIEsExtensionValue :: gtype where
  "SliceSupportItemExtIEsExtensionValue = StructKind
    [(''Present'', '''', IntKind 64)]"

definition SourceNGRANNodeToTargetNGRANNodeTransparentContainerExtIEsExtensionValue :: gtype where
  "SourceNGRANNodeToTargetNGRANNodeTransparentContainerExtIEsExtensionValue = StructKind
    [(''Present'', '''', IntKind 64)]"

definition SourceOfUEActivityBehaviourInformation :: gtype where
  "SourceOfUEActivityBehaviourInformation = StructKind
    [(''Value'', ''valueExt,valueLB:0,valueUB:1'', EnumeratedType)]"

definition SourceRANNodeIDExtIEsExtensionValue :: gtype where
  "SourceRANNodeIDExtIEsExtensionValue = StructKind
    [(''Present'', '''', IntKind 64)]"

definition SourceToTargetTransparentContainer :: gtype where
  "SourceToTargetTransparentContainer = StructKind
    [(''Value'', '''', OctetStringType)]"

definition SupportedTAItemExtIEsExtensionValue :: gtype where
  "SupportedTAItemExtIEsExtensionValue = StructKind
    [(''Present'', '''', IntKind 64)]"

definition TAC :: gtype where
  "TAC = StructKind
    [(''Value'', ''sizeLB:3,sizeUB:3'', OctetStringType)]"

definition TAIBroadcastEUTRAItemExtIEsExtensionValue :: gtype where
  "TAIBroadcastEUTRAItemExtIEsExtensionValue = StructKind
    [(''Present'', '''', IntKind 64)]"

definition TAIBroadcastNRItemExtIEsExtensionValue :: gtype where
  "TAIBroadcastNRItemExtIEsExtensionValue = StructKind
    [(''Present'', '''', IntKind 64)]"

definition TAICancelledEUTRAItemExtIEsExtensionValue :: gtype where
  "TAICancelledEUTRAItemExtIEsExtensionValue = StructKind
    [(''Present'', '''', IntKind 64)]"

definition TAICancelledNRItemExtIEsExtensionValue :: gtype where
  "TAICancelledNRItemExtIEsExtensionValue = StructKind
    [(''Present'', '''', IntKind 64)]"

definition TAIExtIEsExtensionValue :: gtype where
  "TAIExtIEsExtensionValue = StructKind
    [(''Present'', '''', IntKind 64)]"

definition TAIListForInactiveItemExtIEsExtensionValue :: gtype where
  "TAIListForInactiveItemExtIEsExtensionValue = StructKind
    [(''Present'', '''', IntKind 64)]"

definition TAIListForPagingItemExtIEsExtensionValue :: gtype where
  "TAIListForPagingItemExtIEsExtensionValue = StructKind
    [(''Present'', '''', IntKind 64)]"

definition TNLAddressWeightFactor :: gtype where
  "TNLAddressWeightFactor = StructKind
    [(''Value'', ''valueLB:0,valueUB:255'', IntKind 64)]"

definition TNLAssociationItemExtIEsExtensionValue :: gtype where
  "TNLAssociationItemExtIEsExtensionValue = StructKind
    [(''Present'', '''', IntKind 64)]"

definition TNLAssociationUsage :: gtype where
  "TNLAssociationUsage = StructKind
    [(''Value'', ''valueExt,valueLB:0,valueUB:2'', EnumeratedType)]"

definition TNLInformationItemExtIEsExtensionValue :: gtype where
  "TNLInformationItemExtIEsExtensionValue = StructKind
    [(''Present'', '''', IntKind 64)]"

definition TNLMappingItemExtIEsExtensionValue :: gtype where
  "TNLMappingItemExtIEsExtensionValue = StructKind
    [(''Present'', '''', IntKind 64)]"

definition TargetIDExtIEsValue :: gtype where
  "TargetIDExtIEsValue = StructKind
    [(''Present'', '''', IntKind 64)]"

definition TargetNGRANNodeToSourceNGRANNodeTransparentContainerExtIEsExtensionValue :: gtype where
  "TargetNGRANNodeToSourceNGRANNodeTransparentContainerExtIEsExtensionValue = StructKind
    [(''Present'', '''', IntKind 64)]"

definition TargetRANNodeIDExtIEsExtensionValue :: gtype where
  "TargetRANNodeIDExtIEsExtensionValue = StructKind
    [(''Present'', '''', IntKind 64)]"

definition TargetToSourceTransparentContainer :: gtype where
  "TargetToSourceTransparentContainer = StructKind
    [(''Value'', '''', OctetStringType)]"

definition TargeteNBIDExtIEsExtensionValue :: gtype where
  "TargeteNBIDExtIEsExtensionValue = StructKind
    [(''Present'', '''', IntKind 64)]"

definition TimeStamp :: gtype where
  "TimeStamp = StructKind
    [(''Value'', ''sizeLB:4,sizeUB:4'', OctetStringType)]"

definition TimeToWait :: gtype where
  "TimeToWait = StructKind
    [(''Value'', ''valueExt,valueLB:0,valueUB:5'', EnumeratedType)]"

definition TimeUEStayedInCell :: gtype where
  "TimeUEStayedInCell = StructKind
    [(''Value'', ''valueLB:0,valueUB:4095'', IntKind 64)]"

definition TimeUEStayedInCellEnhancedGranularity :: gtype where
  "TimeUEStayedInCellEnhancedGranularity = StructKind
    [(''Value'', ''valueLB:0,valueUB:40950'', IntKind 64)]"

definition TimerApproachForGUAMIRemoval :: gtype where
  "TimerApproachForGUAMIRemoval = StructKind
    [(''Value'', ''valueExt,valueLB:0,valueUB:0'', EnumeratedType)]"

definition TraceActivationExtIEsExtensionValue :: gtype where
  "TraceActivationExtIEsExtensionValue = StructKind
    [(''Present'', '''', IntKind 64)]"

definition TraceDepth :: gtype where
  "TraceDepth = StructKind
    [(''Value'', ''valueExt,valueLB:0,valueUB:5'', EnumeratedType)]"

definition TrafficLoadReductionIndication :: gtype where
  "TrafficLoadReductionIndication = StructKind
    [(''Value'', ''valueLB:1,valueUB:99'', IntKind 64)]"

definition TransportLayerAddress :: gtype where
  "TransportLayerAddress = StructKind
    [(''Value'', ''sizeExt,sizeLB:1,sizeUB:160'', BitStringType)]"

definition TriggeringMessage :: gtype where
  "TriggeringMessage = StructKind
    [(''Value'', ''valueLB:0,valueUB:2'', EnumeratedType)]"

definition TypeOfError :: gtype where
  "TypeOfError = StructKind
    [(''Value'', ''valueExt,valueLB:0,valueUB:1'', EnumeratedType)]"

definition UEAggregateMaximumBitRateExtIEsExtensionValue :: gtype where
  "UEAggregateMaximumBitRateExtIEsExtensionValue = StructKind
    [(''Present'', '''', IntKind 64)]"

definition UEAssociatedLogicalNGConnectionItemExtIEsExtensionValue :: gtype where
  "UEAssociatedLogicalNGConnectionItemExtIEsExtensionValue = StructKind
    [(''Present'', '''', IntKind 64)]"

definition UEContextRequest :: gtype where
  "UEContextRequest = StructKind
    [(''Value'', ''valueExt,valueLB:0,valueUB:0'', EnumeratedType)]"

definition UEIdentityIndexValueExtIEsValue :: gtype where
  "UEIdentityIndexValueExtIEsValue = StructKind
    [(''Present'', '''', IntKind 64)]"

definition UENGAPIDPairExtIEsExtensionValue :: gtype where
  "UENGAPIDPairExtIEsExtensionValue = StructKind
    [(''Present'', '''', IntKind 64)]"

definition UENGAPIDsExtIEsValue :: gtype where
  "UENGAPIDsExtIEsValue = StructKind
    [(''Present'', '''', IntKind 64)]"

definition UEPagingIdentityExtIEsValue :: gtype where
  "UEPagingIdentityExtIEsValue = StructKind
    [(''Present'', '''', IntKind 64)]"

definition UEPresence :: gtype where
  "UEPresence = StructKind
    [(''Value'', ''valueExt,valueLB:0,valueUB:2'', EnumeratedType)]"

definition UEPresenceInAreaOfInterestItemExtIEsExtensionValue :: gtype where
  "UEPresenceInAreaOfInterestItemExtIEsExtensionValue = StructKind
    [(''Present'', '''', IntKind 64)]"

definition UERadioCapability :: gtype where
  "UERadioCapability = StructKind
    [(''Value'', '''', OctetStringType)]"

definition UERadioCapabilityForPagingExtIEsExtensionValue :: gtype where
  "UERadioCapabilityForPagingExtIEsExtensionValue = StructKind
    [(''Present'', '''', IntKind 64)]"

definition UERadioCapabilityForPagingOfEUTRA :: gtype where
  "UERadioCapabilityForPagingOfEUTRA = StructKind
    [(''Value'', '''', OctetStringType)]"

definition UERadioCapabilityForPagingOfNR :: gtype where
  "UERadioCapabilityForPagingOfNR = StructKind
    [(''Value'', '''', OctetStringType)]"

definition UESecurityCapabilitiesExtIEsExtensionValue :: gtype where
  "UESecurityCapabilitiesExtIEsExtensionValue = StructKind
    [(''Present'', '''', IntKind 64)]"

definition ULNGUUPTNLModifyItemExtIEsExtensionValue :: gtype where
  "ULNGUUPTNLModifyItemExtIEsExtensionValue = StructKind
    [(''Present'', '''', IntKind 64)]"

definition UPTNLInformationExtIEsValue :: gtype where
  "UPTNLInformationExtIEsValue = StructKind
    [(''Present'', '''', IntKind 64)]"

definition UPTransportLayerInformationExtIEsValue :: gtype where
  "UPTransportLayerInformationExtIEsValue = StructKind
    [(''Present'', '''', IntKind 64)]"

definition UnavailableGUAMIItemExtIEsExtensionValue :: gtype where
  "UnavailableGUAMIItemExtIEsExtensionValue = StructKind
    [(''Present'', '''', IntKind 64)]"

definition UserLocationInformationEUTRAExtIEsExtensionValue :: gtype where
  "UserLocationInformationEUTRAExtIEsExtensionValue = StructKind
    [(''Present'', '''', IntKind 64)]"

definition UserLocationInformationExtIEsValue :: gtype where
  "UserLocationInformationExtIEsValue = StructKind
    [(''Present'', '''', IntKind 64)]"

definition UserLocationInformationN3IWFExtIEsExtensionValue :: gtype where
  "UserLocationInformationN3IWFExtIEsExtensionValue = StructKind
    [(''Present'', '''', IntKind 64)]"

definition UserLocationInformationNRExtIEsExtensionValue :: gtype where
  "UserLocationInformationNRExtIEsExtensionValue = StructKind
    [(''Present'', '''', IntKind 64)]"

definition UserPlaneSecurityInformationExtIEsExtensionValue :: gtype where
  "UserPlaneSecurityInformationExtIEsExtensionValue = StructKind
    [(''Present'', '''', IntKind 64)]"

definition WarningAreaCoordinates :: gtype where
  "WarningAreaCoordinates = StructKind
    [(''Value'', ''sizeLB:1,sizeUB:1024'', OctetStringType)]"

definition WarningAreaListExtIEsValue :: gtype where
  "WarningAreaListExtIEsValue = StructKind
    [(''Present'', '''', IntKind 64)]"

definition WarningMessageContents :: gtype where
  "WarningMessageContents = StructKind
    [(''Value'', ''sizeLB:1,sizeUB:9600'', OctetStringType)]"

definition WarningSecurityInfo :: gtype where
  "WarningSecurityInfo = StructKind
    [(''Value'', ''sizeLB:50,sizeUB:50'', OctetStringType)]"

definition WarningType :: gtype where
  "WarningType = StructKind
    [(''Value'', ''sizeLB:2,sizeUB:2'', OctetStringType)]"

definition XnExtTLAItemExtIEsExtensionValue :: gtype where
  "XnExtTLAItemExtIEsExtensionValue = StructKind
    [(''Present'', '''', IntKind 64)]"

definition XnTNLConfigurationInfoExtIEsExtensionValue :: gtype where
  "XnTNLConfigurationInfoExtIEsExtensionValue = StructKind
    [(''Present'', '''', IntKind 64)]"

definition AMFPagingTargetExtIEs :: gtype where
  "AMFPagingTargetExtIEs = StructKind
    [(''Id'', '''', ProtocolIEID),
     (''Criticality'', '''', Criticality),
     (''Value'', ''openType,referenceFieldName:Id'', AMFPagingTargetExtIEsValue)]"

definition AMFTNLAssociationSetupItemExtIEs :: gtype where
  "AMFTNLAssociationSetupItemExtIEs = StructKind
    [(''Id'', '''', ProtocolExtensionID),
     (''Criticality'', '''', Criticality),
     (''ExtensionValue'', ''openType,referenceFieldName:Id'', AMFTNLAssociationSetupItemExtIEsExtensionValue)]"

definition AMFTNLAssociationToAddItemExtIEs :: gtype where
  "AMFTNLAssociationToAddItemExtIEs = StructKind
    [(''Id'', '''', ProtocolExtensionID),
     (''Criticality'', '''', Criticality),
     (''ExtensionValue'', ''openType,referenceFieldName:Id'', AMFTNLAssociationToAddItemExtIEsExtensionValue)]"

definition AMFTNLAssociationToRemoveItemExtIEs :: gtype where
  "AMFTNLAssociationToRemoveItemExtIEs = StructKind
    [(''Id'', '''', ProtocolExtensionID),
     (''Criticality'', '''', Criticality),
     (''ExtensionValue'', ''openType,referenceFieldName:Id'', AMFTNLAssociationToRemoveItemExtIEsExtensionValue)]"

definition AMFTNLAssociationToUpdateItemExtIEs :: gtype where
  "AMFTNLAssociationToUpdateItemExtIEs = StructKind
    [(''Id'', '''', ProtocolExtensionID),
     (''Criticality'', '''', Criticality),
     (''ExtensionValue'', ''openType,referenceFieldName:Id'', AMFTNLAssociationToUpdateItemExtIEsExtensionValue)]"

definition AllocationAndRetentionPriorityExtIEs :: gtype where
  "AllocationAndRetentionPriorityExtIEs = StructKind
    [(''Id'', '''', ProtocolExtensionID),
     (''Criticality'', '''', Criticality),
     (''ExtensionValue'', ''openType,referenceFieldName:Id'', AllocationAndRetentionPriorityExtIEsExtensionValue)]"

definition AllowedNSSAIItemExtIEs :: gtype where
  "AllowedNSSAIItemExtIEs = StructKind
    [(''Id'', '''', ProtocolExtensionID),
     (''Criticality'', '''', Criticality),
     (''ExtensionValue'', ''openType,referenceFieldName:Id'', AllowedNSSAIItemExtIEsExtensionValue)]"

definition AllowedTACs :: gtype where
  "AllowedTACs = StructKind
    [(''List'', ''sizeLB:1,sizeUB:16'', SliceKind TAC)]"

definition AreaOfInterestCellItemExtIEs :: gtype where
  "AreaOfInterestCellItemExtIEs = StructKind
    [(''Id'', '''', ProtocolExtensionID),
     (''Criticality'', '''', Criticality),
     (''ExtensionValue'', ''openType,referenceFieldName:Id'', AreaOfInterestCellItemExtIEsExtensionValue)]"

definition AreaOfInterestExtIEs :: gtype where
  "AreaOfInterestExtIEs = StructKind
    [(''Id'', '''', ProtocolExtensionID),
     (''Criticality'', '''', Criticality),
     (''ExtensionValue'', ''openType,referenceFieldName:Id'', AreaOfInterestExtIEsExtensionValue)]"

definition AreaOfInterestItemExtIEs :: gtype where
  "AreaOfInterestItemExtIEs = StructKind
    [(''Id'', '''', ProtocolExtensionID),
     (''Criticality'', '''', Criticality),
     (''ExtensionValue'', ''openType,referenceFieldName:Id'', AreaOfInterestItemExtIEsExtensionValue)]"

definition AreaOfInterestRANNodeItemExtIEs :: gtype where
  "AreaOfInterestRANNodeItemExtIEs = StructKind
    [(''Id'', '''', ProtocolExtensionID),
     (''Criticality'', '''', Criticality),
     (''ExtensionValue'', ''openType,referenceFieldName:Id'', AreaOfInterestRANNodeItemExtIEsExtensionValue)]"

definition AreaOfInterestTAIItemExtIEs :: gtype where
  "AreaOfInterestTAIItemExtIEs = StructKind
    [(''Id'', '''', ProtocolExtensionID),
     (''Criticality'', '''', Criticality),
     (''ExtensionValue'', ''openType,referenceFieldName:Id'', AreaOfInterestTAIItemExtIEsExtensionValue)]"

definition AssistanceDataForPagingExtIEs :: gtype where
  "AssistanceDataForPagingExtIEs = StructKind
    [(''Id'', '''', ProtocolExtensionID),
     (''Criticality'', '''', Criticality),
     (''ExtensionValue'', ''openType,referenceFieldName:Id'', AssistanceDataForPagingExtIEsExtensionValue)]"

definition AssistanceDataForRecommendedCellsExtIEs :: gtype where
  "AssistanceDataForRecommendedCellsExtIEs = StructKind
    [(''Id'', '''', ProtocolExtensionID),
     (''Criticality'', '''', Criticality),
     (''ExtensionValue'', ''openType,referenceFieldName:Id'', AssistanceDataForRecommendedCellsExtIEsExtensionValue)]"

definition AssociatedQosFlowItemExtIEs :: gtype where
  "AssociatedQosFlowItemExtIEs = StructKind
    [(''Id'', '''', ProtocolExtensionID),
     (''Criticality'', '''', Criticality),
     (''ExtensionValue'', ''openType,referenceFieldName:Id'', AssociatedQosFlowItemExtIEsExtensionValue)]"

definition BroadcastCancelledAreaListExtIEs :: gtype where
  "BroadcastCancelledAreaListExtIEs = StructKind
    [(''Id'', '''', ProtocolIEID),
     (''Criticality'', '''', Criticality),
     (''Value'', ''openType,referenceFieldName:Id'', BroadcastCancelledAreaListExtIEsValue)]"

definition BroadcastCompletedAreaListExtIEs :: gtype where
  "BroadcastCompletedAreaListExtIEs = StructKind
    [(''Id'', '''', ProtocolIEID),
     (''Criticality'', '''', Criticality),
     (''Value'', ''openType,referenceFieldName:Id'', BroadcastCompletedAreaListExtIEsValue)]"

definition BroadcastPLMNItemExtIEs :: gtype where
  "BroadcastPLMNItemExtIEs = StructKind
    [(''Id'', '''', ProtocolExtensionID),
     (''Criticality'', '''', Criticality),
     (''ExtensionValue'', ''openType,referenceFieldName:Id'', BroadcastPLMNItemExtIEsExtensionValue)]"

definition COUNTValueForPDCPSN12ExtIEs :: gtype where
  "COUNTValueForPDCPSN12ExtIEs = StructKind
    [(''Id'', '''', ProtocolExtensionID),
     (''Criticality'', '''', Criticality),
     (''ExtensionValue'', ''openType,referenceFieldName:Id'', COUNTValueForPDCPSN12ExtIEsExtensionValue)]"

definition COUNTValueForPDCPSN18ExtIEs :: gtype where
  "COUNTValueForPDCPSN18ExtIEs = StructKind
    [(''Id'', '''', ProtocolExtensionID),
     (''Criticality'', '''', Criticality),
     (''ExtensionValue'', ''openType,referenceFieldName:Id'', COUNTValueForPDCPSN18ExtIEsExtensionValue)]"

definition CPTransportLayerInformation :: gtype where
  "CPTransportLayerInformation = StructKind
    [(''Present'', '''', IntKind 64),
     (''EndpointIPAddress'', '''', PtrKind TransportLayerAddress),
     (''ChoiceExtensions'', '''', PtrKind ProtocolIESingleContainerCPTransportLayerInformationExtIEs)]"

definition CPTransportLayerInformationExtIEs :: gtype where
  "CPTransportLayerInformationExtIEs = StructKind
    [(''Id'', '''', ProtocolIEID),
     (''Criticality'', '''', Criticality),
     (''Value'', ''openType,referenceFieldName:Id'', CPTransportLayerInformationExtIEsValue)]"

definition CancelledCellsInEAIEUTRAItemExtIEs :: gtype where
  "CancelledCellsInEAIEUTRAItemExtIEs = StructKind
    [(''Id'', '''', ProtocolExtensionID),
     (''Criticality'', '''', Criticality),
     (''ExtensionValue'', ''openType,referenceFieldName:Id'', CancelledCellsInEAIEUTRAItemExtIEsExtensionValue)]"

definition CancelledCellsInEAINRItemExtIEs :: gtype where
  "CancelledCellsInEAINRItemExtIEs = StructKind
    [(''Id'', '''', ProtocolExtensionID),
     (''Criticality'', '''', Criticality),
     (''ExtensionValue'', ''openType,referenceFieldName:Id'', CancelledCellsInEAINRItemExtIEsExtensionValue)]"

definition CancelledCellsInTAIEUTRAItemExtIEs :: gtype where
  "CancelledCellsInTAIEUTRAItemExtIEs = StructKind
    [(''Id'', '''', ProtocolExtensionID),
     (''Criticality'', '''', Criticality),
     (''ExtensionValue'', ''openType,referenceFieldName:Id'', CancelledCellsInTAIEUTRAItemExtIEsExtensionValue)]"

definition CancelledCellsInTAINRItemExtIEs :: gtype where
  "CancelledCellsInTAINRItemExtIEs = StructKind
    [(''Id'', '''', ProtocolExtensionID),
     (''Criticality'', '''', Criticality),
     (''ExtensionValue'', ''openType,referenceFieldName:Id'', CancelledCellsInTAINRItemExtIEsExtensionValue)]"

definition Cause :: gtype where
  "Cause = StructKind
    [(''Present'', '''', IntKind 64),
     (''RadioNetwork'', '''', PtrKind CauseRadioNetwork),
     (''Transport'', '''', PtrKind CauseTransport),
     (''Nas'', '''', PtrKind CauseNas),
     (''Protocol'', '''', PtrKind CauseProtocol),
     (''Misc'', '''', PtrKind CauseMisc),
     (''ChoiceExtensions'', '''', PtrKind ProtocolIESingleContainerCauseExtIEs)]"

definition CauseExtIEs :: gtype where
  "CauseExtIEs = StructKind
    [(''Id'', '''', ProtocolIEID),
     (''Criticality'', '''', Criticality),
     (''Value'', ''openType,referenceFieldName:Id'', CauseExtIEsValue)]"

definition CellIDBroadcastEUTRAItemExtIEs :: gtype where
  "CellIDBroadcastEUTRAItemExtIEs = StructKind
    [(''Id'', '''', ProtocolExtensionID),
     (''Criticality'', '''', Criticality),
     (''ExtensionValue'', ''openType,referenceFieldName:Id'', CellIDBroadcastEUTRAItemExtIEsExtensionValue)]"

definition CellIDBroadcastNRItemExtIEs :: gtype where
  "CellIDBroadcastNRItemExtIEs = StructKind
    [(''Id'', '''', ProtocolExtensionID),
     (''Criticality'', '''', Criticality),
     (''ExtensionValue'', ''openType,referenceFieldName:Id'', CellIDBroadcastNRItemExtIEsExtensionValue)]"

definition CellIDCancelledEUTRAItemExtIEs :: gtype where
  "CellIDCancelledEUTRAItemExtIEs = StructKind
    [(''Id'', '''', ProtocolExtensionID),
     (''Criticality'', '''', Criticality),
     (''ExtensionValue'', ''openType,referenceFieldName:Id'', CellIDCancelledEUTRAItemExtIEsExtensionValue)]"

definition CellIDCancelledNRItemExtIEs :: gtype where
  "CellIDCancelledNRItemExtIEs = StructKind
    [(''Id'', '''', ProtocolExtensionID),
     (''Criticality'', '''', Criticality),
     (''ExtensionValue'', ''openType,referenceFieldName:Id'', CellIDCancelledNRItemExtIEsExtensionValue)]"

definition CellIDListForRestartExtIEs :: gtype where
  "CellIDListForRestartExtIEs = StructKind
    [(''Id'', '''', ProtocolIEID),
     (''Criticality'', '''', Criticality),
     (''Value'', ''openType,referenceFieldName:Id'', CellIDListForRestartExtIEsValue)]"

definition CellTypeExtIEs :: gtype where
  "CellTypeExtIEs = StructKind
    [(''Id'', '''', ProtocolExtensionID),
     (''Criticality'', '''', Criticality),
     (''ExtensionValue'', ''openType,referenceFieldName:Id'', CellTypeExtIEsExtensionValue)]"

definition CompletedCellsInEAIEUTRAItemExtIEs :: gtype where
  "CompletedCellsInEAIEUTRAItemExtIEs = StructKind
    [(''Id'', '''', ProtocolExtensionID),
     (''Criticality'', '''', Criticality),
     (''ExtensionValue'', ''openType,referenceFieldName:Id'', CompletedCellsInEAIEUTRAItemExtIEsExtensionValue)]"

definition CompletedCellsInEAINRItemExtIEs :: gtype where
  "CompletedCellsInEAINRItemExtIEs = StructKind
    [(''Id'', '''', ProtocolExtensionID),
     (''Criticality'', '''', Criticality),
     (''ExtensionValue'', ''openType,referenceFieldName:Id'', CompletedCellsInEAINRItemExtIEsExtensionValue)]"

definition CompletedCellsInTAIEUTRAItemExtIEs :: gtype where
  "CompletedCellsInTAIEUTRAItemExtIEs = StructKind
    [(''Id'', '''', ProtocolExtensionID),
     (''Criticality'', '''', Criticality),
     (''ExtensionValue'', ''openType,referenceFieldName:Id'', CompletedCellsInTAIEUTRAItemExtIEsExtensionValue)]"

definition CompletedCellsInTAINRItemExtIEs :: gtype where
  "CompletedCellsInTAINRItemExtIEs = StructKind
    [(''Id'', '''', ProtocolExtensionID),
     (''Criticality'', '''', Criticality),
     (''ExtensionValue'', ''openType,referenceFieldName:Id'', CompletedCellsInTAINRItemExtIEsExtensionValue)]"

definition CoreNetworkAssistanceInformationExtIEs :: gtype where
  "CoreNetworkAssistanceInformationExtIEs = StructKind
    [(''Id'', '''', ProtocolExtensionID),
     (''Criticality'', '''', Criticality),
     (''ExtensionValue'', ''openType,referenceFieldName:Id'', CoreNetworkAssistanceInformationExtIEsExtensionValue)]"

definition CriticalityDiagnosticsExtIEs :: gtype where
  "CriticalityDiagnosticsExtIEs = StructKind
    [(''Id'', '''', ProtocolExtensionID),
     (''Criticality'', '''', Criticality),
     (''ExtensionValue'', ''openType,referenceFieldName:Id'', CriticalityDiagnosticsExtIEsExtensionValue)]"

definition CriticalityDiagnosticsIEItemExtIEs :: gtype where
  "CriticalityDiagnosticsIEItemExtIEs = StructKind
    [(''Id'', '''', ProtocolExtensionID),
     (''Criticality'', '''', Criticality),
     (''ExtensionValue'', ''openType,referenceFieldName:Id'', CriticalityDiagnosticsIEItemExtIEsExtensionValue)]"

definition DRBStatusDL12ExtIEs :: gtype where
  "DRBStatusDL12ExtIEs = StructKind
    [(''Id'', '''', ProtocolExtensionID),
     (''Criticality'', '''', Criticality),
     (''ExtensionValue'', ''openType,referenceFieldName:Id'', DRBStatusDL12ExtIEsExtensionValue)]"

definition DRBStatusDL18ExtIEs :: gtype where
  "DRBStatusDL18ExtIEs = StructKind
    [(''Id'', '''', ProtocolExtensionID),
     (''Criticality'', '''', Criticality),
     (''ExtensionValue'', ''openType,referenceFieldName:Id'', DRBStatusDL18ExtIEsExtensionValue)]"

definition DRBStatusDLExtIEs :: gtype where
  "DRBStatusDLExtIEs = StructKind
    [(''Id'', '''', ProtocolIEID),
     (''Criticality'', '''', Criticality),
     (''Value'', ''openType,referenceFieldName:Id'', DRBStatusDLExtIEsValue)]"

definition DRBStatusUL12ExtIEs :: gtype where
  "DRBStatusUL12ExtIEs = StructKind
    [(''Id'', '''', ProtocolExtensionID),
     (''Criticality'', '''', Criticality),
     (''ExtensionValue'', ''openType,referenceFieldName:Id'', DRBStatusUL12ExtIEsExtensionValue)]"

definition DRBStatusUL18ExtIEs :: gtype where
  "DRBStatusUL18ExtIEs = StructKind
    [(''Id'', '''', ProtocolExtensionID),
     (''Criticality'', '''', Criticality),
     (''ExtensionValue'', ''openType,referenceFieldName:Id'', DRBStatusUL18ExtIEsExtensionValue)]"

definition DRBStatusULExtIEs :: gtype where
  "DRBStatusULExtIEs = StructKind
    [(''Id'', '''', ProtocolIEID),
     (''Criticality'', '''', Criticality),
     (''Value'', ''openType,referenceFieldName:Id'', DRBStatusULExtIEsValue)]"

definition DRBsSubjectToStatusTransferItemExtIEs :: gtype where
  "DRBsSubjectToStatusTransferItemExtIEs = StructKind
    [(''Id'', '''', ProtocolExtensionID),
     (''Criticality'', '''', Criticality),
     (''ExtensionValue'', ''openType,referenceFieldName:Id'', DRBsSubjectToStatusTransferItemExtIEsExtensionValue)]"

definition DRBsToQosFlowsMappingItemExtIEs :: gtype where
  "DRBsToQosFlowsMappingItemExtIEs = StructKind
    [(''Id'', '''', ProtocolExtensionID),
     (''Criticality'', '''', Criticality),
     (''ExtensionValue'', ''openType,referenceFieldName:Id'', DRBsToQosFlowsMappingItemExtIEsExtensionValue)]"

definition DataForwardingResponseDRBItemExtIEs :: gtype where
  "DataForwardingResponseDRBItemExtIEs = StructKind
    [(''Id'', '''', ProtocolExtensionID),
     (''Criticality'', '''', Criticality),
     (''ExtensionValue'', ''openType,referenceFieldName:Id'', DataForwardingResponseDRBItemExtIEsExtensionValue)]"

definition DeactivateTraceIEsValue :: gtype where
  "DeactivateTraceIEsValue = StructKind
    [(''Present'', '''', IntKind 64),
     (''AMFUENGAPID'', ''referenceFieldValue:10'', PtrKind AMFUENGAPID),
     (''RANUENGAPID'', ''referenceFieldValue:85'', PtrKind RANUENGAPID),
     (''NGRANTraceID'', ''referenceFieldValue:44'', PtrKind NGRANTraceID)]"

definition DownlinkNonUEAssociatedNRPPaTransportIEsValue :: gtype where
  "DownlinkNonUEAssociatedNRPPaTransportIEsValue = StructKind
    [(''Present'', '''', IntKind 64),
     (''RoutingID'', ''referenceFieldValue:89'', PtrKind RoutingID),
     (''NRPPaPDU'', ''referenceFieldValue:46'', PtrKind NRPPaPDU)]"

definition DownlinkUEAssociatedNRPPaTransportIEsValue :: gtype where
  "DownlinkUEAssociatedNRPPaTransportIEsValue = StructKind
    [(''Present'', '''', IntKind 64),
     (''AMFUENGAPID'', ''referenceFieldValue:10'', PtrKind AMFUENGAPID),
     (''RANUENGAPID'', ''referenceFieldValue:85'', PtrKind RANUENGAPID),
     (''RoutingID'', ''referenceFieldValue:89'', PtrKind RoutingID),
     (''NRPPaPDU'', ''referenceFieldValue:46'', PtrKind NRPPaPDU)]"

definition Dynamic5QIDescriptorExtIEs :: gtype where
  "Dynamic5QIDescriptorExtIEs = StructKind
    [(''Id'', '''', ProtocolExtensionID),
     (''Criticality'', '''', Criticality),
     (''ExtensionValue'', ''openType,referenceFieldName:Id'', Dynamic5QIDescriptorExtIEsExtensionValue)]"

definition EPSTAIExtIEs :: gtype where
  "EPSTAIExtIEs = StructKind
    [(''Id'', '''', ProtocolExtensionID),
     (''Criticality'', '''', Criticality),
     (''ExtensionValue'', ''openType,referenceFieldName:Id'', EPSTAIExtIEsExtensionValue)]"

definition ERABInformationItemExtIEs :: gtype where
  "ERABInformationItemExtIEs = StructKind
    [(''Id'', '''', ProtocolExtensionID),
     (''Criticality'', '''', Criticality),
     (''ExtensionValue'', ''openType,referenceFieldName:Id'', ERABInformationItemExtIEsExtensionValue)]"

definition EUTRACGIExtIEs :: gtype where
  "EUTRACGIExtIEs = StructKind
    [(''Id'', '''', ProtocolExtensionID),
     (''Criticality'', '''', Criticality),
     (''ExtensionValue'', ''openType,referenceFieldName:Id'', EUTRACGIExtIEsExtensionValue)]"

definition EmergencyAreaIDBroadcastEUTRAItemExtIEs :: gtype where
  "EmergencyAreaIDBroadcastEUTRAItemExtIEs = StructKind
    [(''Id'', '''', ProtocolExtensionID),
     (''Criticality'', '''', Criticality),
     (''ExtensionValue'', ''openType,referenceFieldName:Id'', EmergencyAreaIDBroadcastEUTRAItemExtIEsExtensionValue)]"

definition EmergencyAreaIDBroadcastNRItemExtIEs :: gtype where
  "EmergencyAreaIDBroadcastNRItemExtIEs = StructKind
    [(''Id'', '''', ProtocolExtensionID),
     (''Criticality'', '''', Criticality),
     (''ExtensionValue'', ''openType,referenceFieldName:Id'', EmergencyAreaIDBroadcastNRItemExtIEsExtensionValue)]"

definition EmergencyAreaIDCancelledEUTRAItemExtIEs :: gtype where
  "EmergencyAreaIDCancelledEUTRAItemExtIEs = StructKind
    [(''Id'', '''', ProtocolExtensionID),
     (''Criticality'', '''', Criticality),
     (''ExtensionValue'', ''openType,referenceFieldName:Id'', EmergencyAreaIDCancelledEUTRAItemExtIEsExtensionValue)]"

definition EmergencyAreaIDCancelledNRItemExtIEs :: gtype where
  "EmergencyAreaIDCancelledNRItemExtIEs = StructKind
    [(''Id'', '''', ProtocolExtensionID),
     (''Criticality'', '''', Criticality),
     (''ExtensionValue'', ''openType,referenceFieldName:Id'', EmergencyAreaIDCancelledNRItemExtIEsExtensionValue)]"

definition EmergencyAreaIDList :: gtype where
  "EmergencyAreaIDList = StructKind
    [(''List'', ''sizeLB:1,sizeUB:65535'', SliceKind EmergencyAreaID)]"

definition EmergencyAreaIDListForRestart :: gtype where
  "EmergencyAreaIDListForRestart = StructKind
    [(''List'', ''sizeLB:1,sizeUB:256'', SliceKind EmergencyAreaID)]"

definition EmergencyFallbackIndicatorExtIEs :: gtype where
  "EmergencyFallbackIndicatorExtIEs = StructKind
    [(''Id'', '''', ProtocolExtensionID),
     (''Criticality'', '''', Criticality),
     (''ExtensionValue'', ''openType,referenceFieldName:Id'', EmergencyFallbackIndicatorExtIEsExtensionValue)]"

definition EquivalentPLMNs :: gtype where
  "EquivalentPLMNs = StructKind
    [(''List'', ''sizeLB:1,sizeUB:15'', SliceKind PLMNIdentity)]"

definition ExpectedUEActivityBehaviourExtIEs :: gtype where
  "ExpectedUEActivityBehaviourExtIEs = StructKind
    [(''Id'', '''', ProtocolExtensionID),
     (''Criticality'', '''', Criticality),
     (''ExtensionValue'', ''openType,referenceFieldName:Id'', ExpectedUEActivityBehaviourExtIEsExtensionValue)]"

definition ExpectedUEBehaviourExtIEs :: gtype where
  "ExpectedUEBehaviourExtIEs = StructKind
    [(''Id'', '''', ProtocolExtensionID),
     (''Criticality'', '''', Criticality),
     (''ExtensionValue'', ''openType,referenceFieldName:Id'', ExpectedUEBehaviourExtIEsExtensionValue)]"

definition ExpectedUEMovingTrajectoryItemExtIEs :: gtype where
  "ExpectedUEMovingTrajectoryItemExtIEs = StructKind
    [(''Id'', '''', ProtocolExtensionID),
     (''Criticality'', '''', Criticality),
     (''ExtensionValue'', ''openType,referenceFieldName:Id'', ExpectedUEMovingTrajectoryItemExtIEsExtensionValue)]"

definition FiveGSTMSIExtIEs :: gtype where
  "FiveGSTMSIExtIEs = StructKind
    [(''Id'', '''', ProtocolExtensionID),
     (''Criticality'', '''', Criticality),
     (''ExtensionValue'', ''openType,referenceFieldName:Id'', FiveGSTMSIExtIEsExtensionValue)]"

definition ForbiddenAreaInformationItemExtIEs :: gtype where
  "ForbiddenAreaInformationItemExtIEs = StructKind
    [(''Id'', '''', ProtocolExtensionID),
     (''Criticality'', '''', Criticality),
     (''ExtensionValue'', ''openType,referenceFieldName:Id'', ForbiddenAreaInformationItemExtIEsExtensionValue)]"

definition ForbiddenTACs :: gtype where
  "ForbiddenTACs = StructKind
    [(''List'', ''sizeLB:1,sizeUB:4096'', SliceKind TAC)]"

definition GBRQosInformationExtIEs :: gtype where
  "GBRQosInformationExtIEs = StructKind
    [(''Id'', '''', ProtocolExtensionID),
     (''Criticality'', '''', Criticality),
     (''ExtensionValue'', ''openType,referenceFieldName:Id'', GBRQosInformationExtIEsExtensionValue)]"

definition GNBID :: gtype where
  "GNBID = StructKind
    [(''Present'', '''', IntKind 64),
     (''GNBID'', ''sizeLB:22,sizeUB:32'', PtrKind BitStringType),
     (''ChoiceExtensions'', '''', PtrKind ProtocolIESingleContainerGNBIDExtIEs)]"

definition GNBIDExtIEs :: gtype where
  "GNBIDExtIEs = StructKind
    [(''Id'', '''', ProtocolIEID),
     (''Criticality'', '''', Criticality),
     (''Value'', ''openType,referenceFieldName:Id'', GNBIDExtIEsValue)]"

definition GTPTunnelExtIEs :: gtype where
  "GTPTunnelExtIEs = StructKind
    [(''Id'', '''', ProtocolExtensionID),
     (''Criticality'', '''', Criticality),
     (''ExtensionValue'', ''openType,referenceFieldName:Id'', GTPTunnelExtIEsExtensionValue)]"

definition GUAMIExtIEs :: gtype where
  "GUAMIExtIEs = StructKind
    [(''Id'', '''', ProtocolExtensionID),
     (''Criticality'', '''', Criticality),
     (''ExtensionValue'', ''openType,referenceFieldName:Id'', GUAMIExtIEsExtensionValue)]"

definition GlobalGNBIDExtIEs :: gtype where
  "GlobalGNBIDExtIEs = StructKind
    [(''Id'', '''', ProtocolExtensionID),
     (''Criticality'', '''', Criticality),
     (''ExtensionValue'', ''openType,referenceFieldName:Id'', GlobalGNBIDExtIEsExtensionValue)]"

definition GlobalN3IWFIDExtIEs :: gtype where
  "GlobalN3IWFIDExtIEs = StructKind
    [(''Id'', '''', ProtocolExtensionID),
     (''Criticality'', '''', Criticality),
     (''ExtensionValue'', ''openType,referenceFieldName:Id'', GlobalN3IWFIDExtIEsExtensionValue)]"

definition GlobalNgENBIDExtIEs :: gtype where
  "GlobalNgENBIDExtIEs = StructKind
    [(''Id'', '''', ProtocolExtensionID),
     (''Criticality'', '''', Criticality),
     (''ExtensionValue'', ''openType,referenceFieldName:Id'', GlobalNgENBIDExtIEsExtensionValue)]"

definition GlobalRANNodeIDExtIEs :: gtype where
  "GlobalRANNodeIDExtIEs = StructKind
    [(''Id'', '''', ProtocolIEID),
     (''Criticality'', '''', Criticality),
     (''Value'', ''openType,referenceFieldName:Id'', GlobalRANNodeIDExtIEsValue)]"

definition HandoverCommandTransferExtIEs :: gtype where
  "HandoverCommandTransferExtIEs = StructKind
    [(''Id'', '''', ProtocolExtensionID),
     (''Criticality'', '''', Criticality),
     (''ExtensionValue'', ''openType,referenceFieldName:Id'', HandoverCommandTransferExtIEsExtensionValue)]"

definition HandoverPreparationUnsuccessfulTransferExtIEs :: gtype where
  "HandoverPreparationUnsuccessfulTransferExtIEs = StructKind
    [(''Id'', '''', ProtocolExtensionID),
     (''Criticality'', '''', Criticality),
     (''ExtensionValue'', ''openType,referenceFieldName:Id'', HandoverPreparationUnsuccessfulTransferExtIEsExtensionValue)]"

definition HandoverRequestAcknowledgeTransferExtIEs :: gtype where
  "HandoverRequestAcknowledgeTransferExtIEs = StructKind
    [(''Id'', '''', ProtocolExtensionID),
     (''Criticality'', '''', Criticality),
     (''ExtensionValue'', ''openType,referenceFieldName:Id'', HandoverRequestAcknowledgeTransferExtIEsExtensionValue)]"

definition HandoverRequiredTransferExtIEs :: gtype where
  "HandoverRequiredTransferExtIEs = StructKind
    [(''Id'', '''', ProtocolExtensionID),
     (''Criticality'', '''', Criticality),
     (''ExtensionValue'', ''openType,referenceFieldName:Id'', HandoverRequiredTransferExtIEsExtensionValue)]"

definition HandoverResourceAllocationUnsuccessfulTransferExtIEs :: gtype where
  "HandoverResourceAllocationUnsuccessfulTransferExtIEs = StructKind
    [(''Id'', '''', ProtocolExtensionID),
     (''Criticality'', '''', Criticality),
     (''ExtensionValue'', ''openType,referenceFieldName:Id'', HandoverResourceAllocationUnsuccessfulTransferExtIEsExtensionValue)]"

definition InfoOnRecommendedCellsAndRANNodesForPagingExtIEs :: gtype where
  "InfoOnRecommendedCellsAndRANNodesForPagingExtIEs = StructKind
    [(''Id'', '''', ProtocolExtensionID),
     (''Criticality'', '''', Criticality),
     (''ExtensionValue'', ''openType,referenceFieldName:Id'', InfoOnRecommendedCellsAndRANNodesForPagingExtIEsExtensionValue)]"

definition LastVisitedCellInformationExtIEs :: gtype where
  "LastVisitedCellInformationExtIEs = StructKind
    [(''Id'', '''', ProtocolIEID),
     (''Criticality'', '''', Criticality),
     (''Value'', ''openType,referenceFieldName:Id'', LastVisitedCellInformationExtIEsValue)]"

definition LastVisitedCellItemExtIEs :: gtype where
  "LastVisitedCellItemExtIEs = StructKind
    [(''Id'', '''', ProtocolExtensionID),
     (''Criticality'', '''', Criticality),
     (''ExtensionValue'', ''openType,referenceFieldName:Id'', LastVisitedCellItemExtIEsExtensionValue)]"

definition LastVisitedNGRANCellInformationExtIEs :: gtype where
  "LastVisitedNGRANCellInformationExtIEs = StructKind
    [(''Id'', '''', ProtocolExtensionID),
     (''Criticality'', '''', Criticality),
     (''ExtensionValue'', ''openType,referenceFieldName:Id'', LastVisitedNGRANCellInformationExtIEsExtensionValue)]"

definition LocationReportingRequestTypeExtIEs :: gtype where
  "LocationReportingRequestTypeExtIEs = StructKind
    [(''Id'', '''', ProtocolExtensionID),
     (''Criticality'', '''', Criticality),
     (''ExtensionValue'', ''openType,referenceFieldName:Id'', LocationReportingRequestTypeExtIEsExtensionValue)]"

definition MobilityRestrictionListExtIEs :: gtype where
  "MobilityRestrictionListExtIEs = StructKind
    [(''Id'', '''', ProtocolExtensionID),
     (''Criticality'', '''', Criticality),
     (''ExtensionValue'', ''openType,referenceFieldName:Id'', MobilityRestrictionListExtIEsExtensionValue)]"

definition MultipleTNLInformationExtIEs :: gtype where
  "MultipleTNLInformationExtIEs = StructKind
    [(''Id'', '''', ProtocolExtensionID),
     (''Criticality'', '''', Criticality),
     (''ExtensionValue'', ''openType,referenceFieldName:Id'', MultipleTNLInformationExtIEsExtensionValue)]"

definition N3IWFID :: gtype where
  "N3IWFID = StructKind
    [(''Present'', '''', IntKind 64),
     (''N3IWFID'', ''sizeLB:16,sizeUB:16'', PtrKind BitStringType),
     (''ChoiceExtensions'', '''', PtrKind ProtocolIESingleContainerN3IWFIDExtIEs)]"

definition N3IWFIDExtIEs :: gtype where
  "N3IWFIDExtIEs = StructKind
    [(''Id'', '''', ProtocolIEID),
     (''Criticality'', '''', Criticality),
     (''Value'', ''openType,referenceFieldName:Id'', N3IWFIDExtIEsValue)]"

definition NGRANCGIExtIEs :: gtype where
  "NGRANCGIExtIEs = StructKind
    [(''Id'', '''', ProtocolIEID),
     (''Criticality'', '''', Criticality),
     (''Value'', ''openType,referenceFieldName:Id'', NGRANCGIExtIEsValue)]"

definition NRCGIExtIEs :: gtype where
  "NRCGIExtIEs = StructKind
    [(''Id'', '''', ProtocolExtensionID),
     (''Criticality'', '''', Criticality),
     (''ExtensionValue'', ''openType,referenceFieldName:Id'', NRCGIExtIEsExtensionValue)]"

definition NgENBID :: gtype where
  "NgENBID = StructKind
    [(''Present'', '''', IntKind 64),
     (''MacroNgENBID'', ''sizeLB:20,sizeUB:20'', PtrKind BitStringType),
     (''ShortMacroNgENBID'', ''sizeLB:18,sizeUB:18'', PtrKind BitStringType),
     (''LongMacroNgENBID'', ''sizeLB:21,sizeUB:21'', PtrKind BitStringType),
     (''ChoiceExtensions'', '''', PtrKind ProtocolIESingleContainerNgENBIDExtIEs)]"

definition NgENBIDExtIEs :: gtype where
  "NgENBIDExtIEs = StructKind
    [(''Id'', '''', ProtocolIEID),
     (''Criticality'', '''', Criticality),
     (''Value'', ''openType,referenceFieldName:Id'', NgENBIDExtIEsValue)]"

definition NonDynamic5QIDescriptorExtIEs :: gtype where
  "NonDynamic5QIDescriptorExtIEs = StructKind
    [(''Id'', '''', ProtocolExtensionID),
     (''Criticality'', '''', Criticality),
     (''ExtensionValue'', ''openType,referenceFieldName:Id'', NonDynamic5QIDescriptorExtIEsExtensionValue)]"

definition NotAllowedTACs :: gtype where
  "NotAllowedTACs = StructKind
    [(''List'', ''sizeLB:1,sizeUB:16'', SliceKind TAC)]"

definition OverloadResponse :: gtype where
  "OverloadResponse = StructKind
    [(''Present'', '''', IntKind 64),
     (''OverloadAction'', '''', PtrKind OverloadAction),
     (''ChoiceExtensions'', '''', PtrKind ProtocolIESingleContainerOverloadResponseExtIEs)]"

definition OverloadResponseExtIEs :: gtype where
  "OverloadResponseExtIEs = StructKind
    [(''Id'', '''', ProtocolIEID),
     (''Criticality'', '''', Criticality),
     (''Value'', ''openType,referenceFieldName:Id'', OverloadResponseExtIEsValue)]"

definition OverloadStartNSSAIItemExtIEs :: gtype where
  "OverloadStartNSSAIItemExtIEs = StructKind
    [(''Id'', '''', ProtocolExtensionID),
     (''Criticality'', '''', Criticality),
     (''ExtensionValue'', ''openType,referenceFieldName:Id'', OverloadStartNSSAIItemExtIEsExtensionValue)]"

definition OverloadStopIEs :: gtype where
  "OverloadStopIEs = StructKind
    [(''Id'', '''', ProtocolIEID),
     (''Criticality'', '''', Criticality),
     (''Value'', ''openType,referenceFieldName:Id'', OverloadStopIEsValue)]"

definition PDUSessionAggregateMaximumBitRateExtIEs :: gtype where
  "PDUSessionAggregateMaximumBitRateExtIEs = StructKind
    [(''Id'', '''', ProtocolExtensionID),
     (''Criticality'', '''', Criticality),
     (''ExtensionValue'', ''openType,referenceFieldName:Id'', PDUSessionAggregateMaximumBitRateExtIEsExtensionValue)]"

definition PDUSessionResourceAdmittedItemExtIEs :: gtype where
  "PDUSessionResourceAdmittedItemExtIEs = StructKind
    [(''Id'', '''', ProtocolExtensionID),
     (''Criticality'', '''', Criticality),
     (''ExtensionValue'', ''openType,referenceFieldName:Id'', PDUSessionResourceAdmittedItemExtIEsExtensionValue)]"

definition PDUSessionResourceFailedToModifyItemModCfmExtIEs :: gtype where
  "PDUSessionResourceFailedToModifyItemModCfmExtIEs = StructKind
    [(''Id'', '''', ProtocolExtensionID),
     (''Criticality'', '''', Criticality),
     (''ExtensionValue'', ''openType,referenceFieldName:Id'', PDUSessionResourceFailedToModifyItemModCfmExtIEsExtensionValue)]"

definition PDUSessionResourceFailedToModifyItemModResExtIEs :: gtype where
  "PDUSessionResourceFailedToModifyItemModResExtIEs = StructKind
    [(''Id'', '''', ProtocolExtensionID),
     (''Criticality'', '''', Criticality),
     (''ExtensionValue'', ''openType,referenceFieldName:Id'', PDUSessionResourceFailedToModifyItemModResExtIEsExtensionValue)]"

definition PDUSessionResourceFailedToSetupItemCxtFailExtIEs :: gtype where
  "PDUSessionResourceFailedToSetupItemCxtFailExtIEs = StructKind
    [(''Id'', '''', ProtocolExtensionID),
     (''Criticality'', '''', Criticality),
     (''ExtensionValue'', ''openType,referenceFieldName:Id'', PDUSessionResourceFailedToSetupItemCxtFailExtIEsExtensionValue)]"

definition PDUSessionResourceFailedToSetupItemCxtResExtIEs :: gtype where
  "PDUSessionResourceFailedToSetupItemCxtResExtIEs = StructKind
    [(''Id'', '''', ProtocolExtensionID),
     (''Criticality'', '''', Criticality),
     (''ExtensionValue'', ''openType,referenceFieldName:Id'', PDUSessionResourceFailedToSetupItemCxtResExtIEsExtensionValue)]"

definition PDUSessionResourceFailedToSetupItemHOAckExtIEs :: gtype where
  "PDUSessionResourceFailedToSetupItemHOAckExtIEs = StructKind
    [(''Id'', '''', ProtocolExtensionID),
     (''Criticality'', '''', Criticality),
     (''ExtensionValue'', ''openType,referenceFieldName:Id'', PDUSessionResourceFailedToSetupItemHOAckExtIEsExtensionValue)]"

definition PDUSessionResourceFailedToSetupItemPSReqExtIEs :: gtype where
  "PDUSessionResourceFailedToSetupItemPSReqExtIEs = StructKind
    [(''Id'', '''', ProtocolExtensionID),
     (''Criticality'', '''', Criticality),
     (''ExtensionValue'', ''openType,referenceFieldName:Id'', PDUSessionResourceFailedToSetupItemPSReqExtIEsExtensionValue)]"

definition PDUSessionResourceFailedToSetupItemSUResExtIEs :: gtype where
  "PDUSessionResourceFailedToSetupItemSUResExtIEs = StructKind
    [(''Id'', '''', ProtocolExtensionID),
     (''Criticality'', '''', Criticality),
     (''ExtensionValue'', ''openType,referenceFieldName:Id'', PDUSessionResourceFailedToSetupItemSUResExtIEsExtensionValue)]"

definition PDUSessionResourceHandoverItemExtIEs :: gtype where
  "PDUSessionResourceHandoverItemExtIEs = StructKind
    [(''Id'', '''', ProtocolExtensionID),
     (''Criticality'', '''', Criticality),
     (''ExtensionValue'', ''openType,referenceFieldName:Id'', PDUSessionResourceHandoverItemExtIEsExtensionValue)]"

definition PDUSessionResourceInformationItemExtIEs :: gtype where
  "PDUSessionResourceInformationItemExtIEs = StructKind
    [(''Id'', '''', ProtocolExtensionID),
     (''Criticality'', '''', Criticality),
     (''ExtensionValue'', ''openType,referenceFieldName:Id'', PDUSessionResourceInformationItemExtIEsExtensionValue)]"

definition PDUSessionResourceItemCxtRelCplExtIEs :: gtype where
  "PDUSessionResourceItemCxtRelCplExtIEs = StructKind
    [(''Id'', '''', ProtocolExtensionID),
     (''Criticality'', '''', Criticality),
     (''ExtensionValue'', ''openType,referenceFieldName:Id'', PDUSessionResourceItemCxtRelCplExtIEsExtensionValue)]"

definition PDUSessionResourceItemCxtRelReqExtIEs :: gtype where
  "PDUSessionResourceItemCxtRelReqExtIEs = StructKind
    [(''Id'', '''', ProtocolExtensionID),
     (''Criticality'', '''', Criticality),
     (''ExtensionValue'', ''openType,referenceFieldName:Id'', PDUSessionResourceItemCxtRelReqExtIEsExtensionValue)]"

definition PDUSessionResourceItemHORqdExtIEs :: gtype where
  "PDUSessionResourceItemHORqdExtIEs = StructKind
    [(''Id'', '''', ProtocolExtensionID),
     (''Criticality'', '''', Criticality),
     (''ExtensionValue'', ''openType,referenceFieldName:Id'', PDUSessionResourceItemHORqdExtIEsExtensionValue)]"

definition PDUSessionResourceModifyConfirmTransferExtIEs :: gtype where
  "PDUSessionResourceModifyConfirmTransferExtIEs = StructKind
    [(''Id'', '''', ProtocolExtensionID),
     (''Criticality'', '''', Criticality),
     (''ExtensionValue'', ''openType,referenceFieldName:Id'', PDUSessionResourceModifyConfirmTransferExtIEsExtensionValue)]"

definition PDUSessionResourceModifyIndicationTransferExtIEs :: gtype where
  "PDUSessionResourceModifyIndicationTransferExtIEs = StructKind
    [(''Id'', '''', ProtocolExtensionID),
     (''Criticality'', '''', Criticality),
     (''ExtensionValue'', ''openType,referenceFieldName:Id'', PDUSessionResourceModifyIndicationTransferExtIEsExtensionValue)]"

definition PDUSessionResourceModifyIndicationUnsuccessfulTransferExtIEs :: gtype where
  "PDUSessionResourceModifyIndicationUnsuccessfulTransferExtIEs = StructKind
    [(''Id'', '''', ProtocolExtensionID),
     (''Criticality'', '''', Criticality),
     (''ExtensionValue'', ''openType,referenceFieldName:Id'', PDUSessionResourceModifyIndicationUnsuccessfulTransferExtIEsExtensionValue)]"

definition PDUSessionResourceModifyItemModCfmExtIEs :: gtype where
  "PDUSessionResourceModifyItemModCfmExtIEs = StructKind
    [(''Id'', '''', ProtocolExtensionID),
     (''Criticality'', '''', Criticality),
     (''ExtensionValue'', ''openType,referenceFieldName:Id'', PDUSessionResourceModifyItemModCfmExtIEsExtensionValue)]"

definition PDUSessionResourceModifyItemModIndExtIEs :: gtype where
  "PDUSessionResourceModifyItemModIndExtIEs = StructKind
    [(''Id'', '''', ProtocolExtensionID),
     (''Criticality'', '''', Criticality),
     (''ExtensionValue'', ''openType,referenceFieldName:Id'', PDUSessionResourceModifyItemModIndExtIEsExtensionValue)]"

definition PDUSessionResourceModifyItemModReqExtIEs :: gtype where
  "PDUSessionResourceModifyItemModReqExtIEs = StructKind
    [(''Id'', '''', ProtocolExtensionID),
     (''Criticality'', '''', Criticality),
     (''ExtensionValue'', ''openType,referenceFieldName:Id'', PDUSessionResourceModifyItemModReqExtIEsExtensionValue)]"

definition PDUSessionResourceModifyItemModResExtIEs :: gtype where
  "PDUSessionResourceModifyItemModResExtIEs = StructKind
    [(''Id'', '''', ProtocolExtensionID),
     (''Criticality'', '''', Criticality),
     (''ExtensionValue'', ''openType,referenceFieldName:Id'', PDUSessionResourceModifyItemModResExtIEsExtensionValue)]"

definition PDUSessionResourceModifyResponseTransferExtIEs :: gtype where
  "PDUSessionResourceModifyResponseTransferExtIEs = StructKind
    [(''Id'', '''', ProtocolExtensionID),
     (''Criticality'', '''', Criticality),
     (''ExtensionValue'', ''openType,referenceFieldName:Id'', PDUSessionResourceModifyResponseTransferExtIEsExtensionValue)]"

definition PDUSessionResourceModifyUnsuccessfulTransferExtIEs :: gtype where
  "PDUSessionResourceModifyUnsuccessfulTransferExtIEs = StructKind
    [(''Id'', '''', ProtocolExtensionID),
     (''Criticality'', '''', Criticality),
     (''ExtensionValue'', ''openType,referenceFieldName:Id'', PDUSessionResourceModifyUnsuccessfulTransferExtIEsExtensionValue)]"

definition PDUSessionResourceNotifyItemExtIEs :: gtype where
  "PDUSessionResourceNotifyItemExtIEs = StructKind
    [(''Id'', '''', ProtocolExtensionID),
     (''Criticality'', '''', Criticality),
     (''ExtensionValue'', ''openType,referenceFieldName:Id'', PDUSessionResourceNotifyItemExtIEsExtensionValue)]"

definition PDUSessionResourceNotifyReleasedTransferExtIEs :: gtype where
  "PDUSessionResourceNotifyReleasedTransferExtIEs = StructKind
    [(''Id'', '''', ProtocolExtensionID),
     (''Criticality'', '''', Criticality),
     (''ExtensionValue'', ''openType,referenceFieldName:Id'', PDUSessionResourceNotifyReleasedTransferExtIEsExtensionValue)]"

definition PDUSessionResourceNotifyTransferExtIEs :: gtype where
  "PDUSessionResourceNotifyTransferExtIEs = StructKind
    [(''Id'', '''', ProtocolExtensionID),
     (''Criticality'', '''', Criticality),
     (''ExtensionValue'', ''openType,referenceFieldName:Id'', PDUSessionResourceNotifyTransferExtIEsExtensionValue)]"

definition PDUSessionResourceReleaseCommandTransferExtIEs :: gtype where
  "PDUSessionResourceReleaseCommandTransferExtIEs = StructKind
    [(''Id'', '''', ProtocolExtensionID),
     (''Criticality'', '''', Criticality),
     (''ExtensionValue'', ''openType,referenceFieldName:Id'', PDUSessionResourceReleaseCommandTransferExtIEsExtensionValue)]"

definition PDUSessionResourceReleaseResponseTransferExtIEs :: gtype where
  "PDUSessionResourceReleaseResponseTransferExtIEs = StructKind
    [(''Id'', '''', ProtocolExtensionID),
     (''Criticality'', '''', Criticality),
     (''ExtensionValue'', ''openType,referenceFieldName:Id'', PDUSessionResourceReleaseResponseTransferExtIEsExtensionValue)]"

definition PDUSessionResourceReleasedItemNotExtIEs :: gtype where
  "PDUSessionResourceReleasedItemNotExtIEs = StructKind
    [(''Id'', '''', ProtocolExtensionID),
     (''Criticality'', '''', Criticality),
     (''ExtensionValue'', ''openType,referenceFieldName:Id'', PDUSessionResourceReleasedItemNotExtIEsExtensionValue)]"

definition PDUSessionResourceReleasedItemPSAckExtIEs :: gtype where
  "PDUSessionResourceReleasedItemPSAckExtIEs = StructKind
    [(''Id'', '''', ProtocolExtensionID),
     (''Criticality'', '''', Criticality),
     (''ExtensionValue'', ''openType,referenceFieldName:Id'', PDUSessionResourceReleasedItemPSAckExtIEsExtensionValue)]"

definition PDUSessionResourceReleasedItemPSFailExtIEs :: gtype where
  "PDUSessionResourceReleasedItemPSFailExtIEs = StructKind
    [(''Id'', '''', ProtocolExtensionID),
     (''Criticality'', '''', Criticality),
     (''ExtensionValue'', ''openType,referenceFieldName:Id'', PDUSessionResourceReleasedItemPSFailExtIEsExtensionValue)]"

definition PDUSessionResourceReleasedItemRelResExtIEs :: gtype where
  "PDUSessionResourceReleasedItemRelResExtIEs = StructKind
    [(''Id'', '''', ProtocolExtensionID),
     (''Criticality'', '''', Criticality),
     (''ExtensionValue'', ''openType,referenceFieldName:Id'', PDUSessionResourceReleasedItemRelResExtIEsExtensionValue)]"

definition PDUSessionResourceSetupItemCxtReqExtIEs :: gtype where
  "PDUSessionResourceSetupItemCxtReqExtIEs = StructKind
    [(''Id'', '''', ProtocolExtensionID),
     (''Criticality'', '''', Criticality),
     (''ExtensionValue'', ''openType,referenceFieldName:Id'', PDUSessionResourceSetupItemCxtReqExtIEsExtensionValue)]"

definition PDUSessionResourceSetupItemCxtResExtIEs :: gtype where
  "PDUSessionResourceSetupItemCxtResExtIEs = StructKind
    [(''Id'', '''', ProtocolExtensionID),
     (''Criticality'', '''', Criticality),
     (''ExtensionValue'', ''openType,referenceFieldName:Id'', PDUSessionResourceSetupItemCxtResExtIEsExtensionValue)]"

definition PDUSessionResourceSetupItemHOReqExtIEs :: gtype where
  "PDUSessionResourceSetupItemHOReqExtIEs = StructKind
    [(''Id'', '''', ProtocolExtensionID),
     (''Criticality'', '''', Criticality),
     (''ExtensionValue'', ''openType,referenceFieldName:Id'', PDUSessionResourceSetupItemHOReqExtIEsExtensionValue)]"

definition PDUSessionResourceSetupItemSUReqExtIEs :: gtype where
  "PDUSessionResourceSetupItemSUReqExtIEs = StructKind
    [(''Id'', '''', ProtocolExtensionID),
     (''Criticality'', '''', Criticality),
     (''ExtensionValue'', ''openType,referenceFieldName:Id'', PDUSessionResourceSetupItemSUReqExtIEsExtensionValue)]"

definition PDUSessionResourceSetupItemSUResExtIEs :: gtype where
  "PDUSessionResourceSetupItemSUResExtIEs = StructKind
    [(''Id'', '''', ProtocolExtensionID),
     (''Criticality'', '''', Criticality),
     (''ExtensionValue'', ''openType,referenceFieldName:Id'', PDUSessionResourceSetupItemSUResExtIEsExtensionValue)]"

definition PDUSessionResourceSetupResponseTransferExtIEs :: gtype where
  "PDUSessionResourceSetupResponseTransferExtIEs = StructKind
    [(''Id'', '''', ProtocolExtensionID),
     (''Criticality'', '''', Criticality),
     (''ExtensionValue'', ''openType,referenceFieldName:Id'', PDUSessionResourceSetupResponseTransferExtIEsExtensionValue)]"

definition PDUSessionResourceSetupUnsuccessfulTransferExtIEs :: gtype where
  "PDUSessionResourceSetupUnsuccessfulTransferExtIEs = StructKind
    [(''Id'', '''', ProtocolExtensionID),
     (''Criticality'', '''', Criticality),
     (''ExtensionValue'', ''openType,referenceFieldName:Id'', PDUSessionResourceSetupUnsuccessfulTransferExtIEsExtensionValue)]"

definition PDUSessionResourceSwitchedItemExtIEs :: gtype where
  "PDUSessionResourceSwitchedItemExtIEs = StructKind
    [(''Id'', '''', ProtocolExtensionID),
     (''Criticality'', '''', Criticality),
     (''ExtensionValue'', ''openType,referenceFieldName:Id'', PDUSessionResourceSwitchedItemExtIEsExtensionValue)]"

definition PDUSessionResourceToBeSwitchedDLItemExtIEs :: gtype where
  "PDUSessionResourceToBeSwitchedDLItemExtIEs = StructKind
    [(''Id'', '''', ProtocolExtensionID),
     (''Criticality'', '''', Criticality),
     (''ExtensionValue'', ''openType,referenceFieldName:Id'', PDUSessionResourceToBeSwitchedDLItemExtIEsExtensionValue)]"

definition PDUSessionResourceToReleaseItemHOCmdExtIEs :: gtype where
  "PDUSessionResourceToReleaseItemHOCmdExtIEs = StructKind
    [(''Id'', '''', ProtocolExtensionID),
     (''Criticality'', '''', Criticality),
     (''ExtensionValue'', ''openType,referenceFieldName:Id'', PDUSessionResourceToReleaseItemHOCmdExtIEsExtensionValue)]"

definition PDUSessionResourceToReleaseItemRelCmdExtIEs :: gtype where
  "PDUSessionResourceToReleaseItemRelCmdExtIEs = StructKind
    [(''Id'', '''', ProtocolExtensionID),
     (''Criticality'', '''', Criticality),
     (''ExtensionValue'', ''openType,referenceFieldName:Id'', PDUSessionResourceToReleaseItemRelCmdExtIEsExtensionValue)]"

definition PLMNSupportItemExtIEs :: gtype where
  "PLMNSupportItemExtIEs = StructKind
    [(''Id'', '''', ProtocolExtensionID),
     (''Criticality'', '''', Criticality),
     (''ExtensionValue'', ''openType,referenceFieldName:Id'', PLMNSupportItemExtIEsExtensionValue)]"

definition PWSFailedCellIDListExtIEs :: gtype where
  "PWSFailedCellIDListExtIEs = StructKind
    [(''Id'', '''', ProtocolIEID),
     (''Criticality'', '''', Criticality),
     (''Value'', ''openType,referenceFieldName:Id'', PWSFailedCellIDListExtIEsValue)]"

definition PacketErrorRateExtIEs :: gtype where
  "PacketErrorRateExtIEs = StructKind
    [(''Id'', '''', ProtocolExtensionID),
     (''Criticality'', '''', Criticality),
     (''ExtensionValue'', ''openType,referenceFieldName:Id'', PacketErrorRateExtIEsExtensionValue)]"

definition PagingAttemptInformationExtIEs :: gtype where
  "PagingAttemptInformationExtIEs = StructKind
    [(''Id'', '''', ProtocolExtensionID),
     (''Criticality'', '''', Criticality),
     (''ExtensionValue'', ''openType,referenceFieldName:Id'', PagingAttemptInformationExtIEsExtensionValue)]"

definition PathSwitchRequestAcknowledgeTransferExtIEs :: gtype where
  "PathSwitchRequestAcknowledgeTransferExtIEs = StructKind
    [(''Id'', '''', ProtocolExtensionID),
     (''Criticality'', '''', Criticality),
     (''ExtensionValue'', ''openType,referenceFieldName:Id'', PathSwitchRequestAcknowledgeTransferExtIEsExtensionValue)]"

definition PathSwitchRequestSetupFailedTransferExtIEs :: gtype where
  "PathSwitchRequestSetupFailedTransferExtIEs = StructKind
    [(''Id'', '''', ProtocolExtensionID),
     (''Criticality'', '''', Criticality),
     (''ExtensionValue'', ''openType,referenceFieldName:Id'', PathSwitchRequestSetupFailedTransferExtIEsExtensionValue)]"

definition PathSwitchRequestTransferExtIEs :: gtype where
  "PathSwitchRequestTransferExtIEs = StructKind
    [(''Id'', '''', ProtocolExtensionID),
     (''Criticality'', '''', Criticality),
     (''ExtensionValue'', ''openType,referenceFieldName:Id'', PathSwitchRequestTransferExtIEsExtensionValue)]"

definition PathSwitchRequestUnsuccessfulTransferExtIEs :: gtype where
  "PathSwitchRequestUnsuccessfulTransferExtIEs = StructKind
    [(''Id'', '''', ProtocolExtensionID),
     (''Criticality'', '''', Criticality),
     (''ExtensionValue'', ''openType,referenceFieldName:Id'', PathSwitchRequestUnsuccessfulTransferExtIEsExtensionValue)]"

definition PrivateMessageIEs :: gtype where
  "PrivateMessageIEs = StructKind
    [(''Id'', '''', PrivateIEID),
     (''Criticality'', '''', Criticality),
     (''Value'', ''openType,referenceFieldName:Id'', PrivateMessageIEsValue)]"

definition QosCharacteristicsExtIEs :: gtype where
  "QosCharacteristicsExtIEs = StructKind
    [(''Id'', '''', ProtocolIEID),
     (''Criticality'', '''', Criticality),
     (''Value'', ''openType,referenceFieldName:Id'', QosCharacteristicsExtIEsValue)]"

definition QosFlowAcceptedItemExtIEs :: gtype where
  "QosFlowAcceptedItemExtIEs = StructKind
    [(''Id'', '''', ProtocolExtensionID),
     (''Criticality'', '''', Criticality),
     (''ExtensionValue'', ''openType,referenceFieldName:Id'', QosFlowAcceptedItemExtIEsExtensionValue)]"

definition QosFlowAddOrModifyRequestItemExtIEs :: gtype where
  "QosFlowAddOrModifyRequestItemExtIEs = StructKind
    [(''Id'', '''', ProtocolExtensionID),
     (''Criticality'', '''', Criticality),
     (''ExtensionValue'', ''openType,referenceFieldName:Id'', QosFlowAddOrModifyRequestItemExtIEsExtensionValue)]"

definition QosFlowAddOrModifyResponseItemExtIEs :: gtype where
  "QosFlowAddOrModifyResponseItemExtIEs = StructKind
    [(''Id'', '''', ProtocolExtensionID),
     (''Criticality'', '''', Criticality),
     (''ExtensionValue'', ''openType,referenceFieldName:Id'', QosFlowAddOrModifyResponseItemExtIEsExtensionValue)]"

definition QosFlowInformationItemExtIEs :: gtype where
  "QosFlowInformationItemExtIEs = StructKind
    [(''Id'', '''', ProtocolExtensionID),
     (''Criticality'', '''', Criticality),
     (''ExtensionValue'', ''openType,referenceFieldName:Id'', QosFlowInformationItemExtIEsExtensionValue)]"

definition QosFlowItemExtIEs :: gtype where
  "QosFlowItemExtIEs = StructKind
    [(''Id'', '''', ProtocolExtensionID),
     (''Criticality'', '''', Criticality),
     (''ExtensionValue'', ''openType,referenceFieldName:Id'', QosFlowItemExtIEsExtensionValue)]"

definition QosFlowLevelQosParametersExtIEs :: gtype where
  "QosFlowLevelQosParametersExtIEs = StructKind
    [(''Id'', '''', ProtocolExtensionID),
     (''Criticality'', '''', Criticality),
     (''ExtensionValue'', ''openType,referenceFieldName:Id'', QosFlowLevelQosParametersExtIEsExtensionValue)]"

definition QosFlowModifyConfirmItemExtIEs :: gtype where
  "QosFlowModifyConfirmItemExtIEs = StructKind
    [(''Id'', '''', ProtocolExtensionID),
     (''Criticality'', '''', Criticality),
     (''ExtensionValue'', ''openType,referenceFieldName:Id'', QosFlowModifyConfirmItemExtIEsExtensionValue)]"

definition QosFlowNotifyItemExtIEs :: gtype where
  "QosFlowNotifyItemExtIEs = StructKind
    [(''Id'', '''', ProtocolExtensionID),
     (''Criticality'', '''', Criticality),
     (''ExtensionValue'', ''openType,referenceFieldName:Id'', QosFlowNotifyItemExtIEsExtensionValue)]"

definition QosFlowPerTNLInformationExtIEs :: gtype where
  "QosFlowPerTNLInformationExtIEs = StructKind
    [(''Id'', '''', ProtocolExtensionID),
     (''Criticality'', '''', Criticality),
     (''ExtensionValue'', ''openType,referenceFieldName:Id'', QosFlowPerTNLInformationExtIEsExtensionValue)]"

definition QosFlowSetupRequestItemExtIEs :: gtype where
  "QosFlowSetupRequestItemExtIEs = StructKind
    [(''Id'', '''', ProtocolExtensionID),
     (''Criticality'', '''', Criticality),
     (''ExtensionValue'', ''openType,referenceFieldName:Id'', QosFlowSetupRequestItemExtIEsExtensionValue)]"

definition QosFlowSetupResponseItemHOReqAckExtIEs :: gtype where
  "QosFlowSetupResponseItemHOReqAckExtIEs = StructKind
    [(''Id'', '''', ProtocolExtensionID),
     (''Criticality'', '''', Criticality),
     (''ExtensionValue'', ''openType,referenceFieldName:Id'', QosFlowSetupResponseItemHOReqAckExtIEsExtensionValue)]"

definition QosFlowSetupResponseItemSUResExtIEs :: gtype where
  "QosFlowSetupResponseItemSUResExtIEs = StructKind
    [(''Id'', '''', ProtocolExtensionID),
     (''Criticality'', '''', Criticality),
     (''ExtensionValue'', ''openType,referenceFieldName:Id'', QosFlowSetupResponseItemSUResExtIEsExtensionValue)]"

definition QosFlowToBeForwardedItemExtIEs :: gtype where
  "QosFlowToBeForwardedItemExtIEs = StructKind
    [(''Id'', '''', ProtocolExtensionID),
     (''Criticality'', '''', Criticality),
     (''ExtensionValue'', ''openType,referenceFieldName:Id'', QosFlowToBeForwardedItemExtIEsExtensionValue)]"

definition RANStatusTransferTransparentContainerExtIEs :: gtype where
  "RANStatusTransferTransparentContainerExtIEs = StructKind
    [(''Id'', '''', ProtocolExtensionID),
     (''Criticality'', '''', Criticality),
     (''ExtensionValue'', ''openType,referenceFieldName:Id'', RANStatusTransferTransparentContainerExtIEsExtensionValue)]"

definition RATRestrictionsItemExtIEs :: gtype where
  "RATRestrictionsItemExtIEs = StructKind
    [(''Id'', '''', ProtocolExtensionID),
     (''Criticality'', '''', Criticality),
     (''ExtensionValue'', ''openType,referenceFieldName:Id'', RATRestrictionsItemExtIEsExtensionValue)]"

definition RecommendedCellItemExtIEs :: gtype where
  "RecommendedCellItemExtIEs = StructKind
    [(''Id'', '''', ProtocolExtensionID),
     (''Criticality'', '''', Criticality),
     (''ExtensionValue'', ''openType,referenceFieldName:Id'', RecommendedCellItemExtIEsExtensionValue)]"

definition RecommendedCellsForPagingExtIEs :: gtype where
  "RecommendedCellsForPagingExtIEs = StructKind
    [(''Id'', '''', ProtocolExtensionID),
     (''Criticality'', '''', Criticality),
     (''ExtensionValue'', ''openType,referenceFieldName:Id'', RecommendedCellsForPagingExtIEsExtensionValue)]"

definition RecommendedRANNodeItemExtIEs :: gtype where
  "RecommendedRANNodeItemExtIEs = StructKind
    [(''Id'', '''', ProtocolExtensionID),
     (''Criticality'', '''', Criticality),
     (''ExtensionValue'', ''openType,referenceFieldName:Id'', RecommendedRANNodeItemExtIEsExtensionValue)]"

definition RecommendedRANNodesForPagingExtIEs :: gtype where
  "RecommendedRANNodesForPagingExtIEs = StructKind
    [(''Id'', '''', ProtocolExtensionID),
     (''Criticality'', '''', Criticality),
     (''ExtensionValue'', ''openType,referenceFieldName:Id'', RecommendedRANNodesForPagingExtIEsExtensionValue)]"

definition ResetTypeExtIEs :: gtype where
  "ResetTypeExtIEs = StructKind
    [(''Id'', '''', ProtocolIEID),
     (''Criticality'', '''', Criticality),
     (''Value'', ''openType,referenceFieldName:Id'', ResetTypeExtIEsValue)]"

definition SNSSAIExtIEs :: gtype where
  "SNSSAIExtIEs = StructKind
    [(''Id'', '''', ProtocolExtensionID),
     (''Criticality'', '''', Criticality),
     (''ExtensionValue'', ''openType,referenceFieldName:Id'', SNSSAIExtIEsExtensionValue)]"

definition SONConfigurationTransferExtIEs :: gtype where
  "SONConfigurationTransferExtIEs = StructKind
    [(''Id'', '''', ProtocolExtensionID),
     (''Criticality'', '''', Criticality),
     (''ExtensionValue'', ''openType,referenceFieldName:Id'', SONConfigurationTransferExtIEsExtensionValue)]"

definition SONInformationExtIEs :: gtype where
  "SONInformationExtIEs = StructKind
    [(''Id'', '''', ProtocolIEID),
     (''Criticality'', '''', Criticality),
     (''Value'', ''openType,referenceFieldName:Id'', SONInformationExtIEsValue)]"

definition SONInformationReplyExtIEs :: gtype where
  "SONInformationReplyExtIEs = StructKind
    [(''Id'', '''', ProtocolExtensionID),
     (''Criticality'', '''', Criticality),
     (''ExtensionValue'', ''openType,referenceFieldName:Id'', SONInformationReplyExtIEsExtensionValue)]"

definition SecurityContextExtIEs :: gtype where
  "SecurityContextExtIEs = StructKind
    [(''Id'', '''', ProtocolExtensionID),
     (''Criticality'', '''', Criticality),
     (''ExtensionValue'', ''openType,referenceFieldName:Id'', SecurityContextExtIEsExtensionValue)]"

definition SecurityIndicationExtIEs :: gtype where
  "SecurityIndicationExtIEs = StructKind
    [(''Id'', '''', ProtocolExtensionID),
     (''Criticality'', '''', Criticality),
     (''ExtensionValue'', ''openType,referenceFieldName:Id'', SecurityIndicationExtIEsExtensionValue)]"

definition SecurityResultExtIEs :: gtype where
  "SecurityResultExtIEs = StructKind
    [(''Id'', '''', ProtocolExtensionID),
     (''Criticality'', '''', Criticality),
     (''ExtensionValue'', ''openType,referenceFieldName:Id'', SecurityResultExtIEsExtensionValue)]"

definition ServedGUAMIItemExtIEs :: gtype where
  "ServedGUAMIItemExtIEs = StructKind
    [(''Id'', '''', ProtocolExtensionID),
     (''Criticality'', '''', Criticality),
     (''ExtensionValue'', ''openType,referenceFieldName:Id'', ServedGUAMIItemExtIEsExtensionValue)]"

definition ServiceAreaInformationItemExtIEs :: gtype where
  "ServiceAreaInformationItemExtIEs = StructKind
    [(''Id'', '''', ProtocolExtensionID),
     (''Criticality'', '''', Criticality),
     (''ExtensionValue'', ''openType,referenceFieldName:Id'', ServiceAreaInformationItemExtIEsExtensionValue)]"

definition SingleTNLInformationExtIEs :: gtype where
  "SingleTNLInformationExtIEs = StructKind
    [(''Id'', '''', ProtocolExtensionID),
     (''Criticality'', '''', Criticality),
     (''ExtensionValue'', ''openType,referenceFieldName:Id'', SingleTNLInformationExtIEsExtensionValue)]"

definition SliceOverloadItemExtIEs :: gtype where
  "SliceOverloadItemExtIEs = StructKind
    [(''Id'', '''', ProtocolExtensionID),
     (''Criticality'', '''', Criticality),
     (''ExtensionValue'', ''openType,referenceFieldName:Id'', SliceOverloadItemExtIEsExtensionValue)]"

definition SliceSupportItemExtIEs :: gtype where
  "SliceSupportItemExtIEs = StructKind
    [(''Id'', '''', ProtocolExtensionID),
     (''Criticality'', '''', Criticality),
     (''ExtensionValue'', ''openType,referenceFieldName:Id'', SliceSupportItemExtIEsExtensionValue)]"

definition SourceNGRANNodeToTargetNGRANNodeTransparentContainerExtIEs :: gtype where
  "SourceNGRANNodeToTargetNGRANNodeTransparentContainerExtIEs = StructKind
    [(''Id'', '''', ProtocolExtensionID),
     (''Criticality'', '''', Criticality),
     (''ExtensionValue'', ''openType,referenceFieldName:Id'', SourceNGRANNodeToTargetNGRANNodeTransparentContainerExtIEsExtensionValue)]"

definition SourceRANNodeIDExtIEs :: gtype where
  "SourceRANNodeIDExtIEs = StructKind
    [(''Id'', '''', ProtocolExtensionID),
     (''Criticality'', '''', Criticality),
     (''ExtensionValue'', ''openType,referenceFieldName:Id'', SourceRANNodeIDExtIEsExtensionValue)]"

definition SupportedTAItemExtIEs :: gtype where
  "SupportedTAItemExtIEs = StructKind
    [(''Id'', '''', ProtocolExtensionID),
     (''Criticality'', '''', Criticality),
     (''ExtensionValue'', ''openType,referenceFieldName:Id'', SupportedTAItemExtIEsExtensionValue)]"

definition TAIBroadcastEUTRAItemExtIEs :: gtype where
  "TAIBroadcastEUTRAItemExtIEs = StructKind
    [(''Id'', '''', ProtocolExtensionID),
     (''Criticality'', '''', Criticality),
     (''ExtensionValue'', ''openType,referenceFieldName:Id'', TAIBroadcastEUTRAItemExtIEsExtensionValue)]"

definition TAIBroadcastNRItemExtIEs :: gtype where
  "TAIBroadcastNRItemExtIEs = StructKind
    [(''Id'', '''', ProtocolExtensionID),
     (''Criticality'', '''', Criticality),
     (''ExtensionValue'', ''openType,referenceFieldName:Id'', TAIBroadcastNRItemExtIEsExtensionValue)]"

definition TAICancelledEUTRAItemExtIEs :: gtype where
  "TAICancelledEUTRAItemExtIEs = StructKind
    [(''Id'', '''', ProtocolExtensionID),
     (''Criticality'', '''', Criticality),
     (''ExtensionValue'', ''openType,referenceFieldName:Id'', TAICancelledEUTRAItemExtIEsExtensionValue)]"

definition TAICancelledNRItemExtIEs :: gtype where
  "TAICancelledNRItemExtIEs = StructKind
    [(''Id'', '''', ProtocolExtensionID),
     (''Criticality'', '''', Criticality),
     (''ExtensionValue'', ''openType,referenceFieldName:Id'', TAICancelledNRItemExtIEsExtensionValue)]"

definition TAIExtIEs :: gtype where
  "TAIExtIEs = StructKind
    [(''Id'', '''', ProtocolExtensionID),
     (''Criticality'', '''', Criticality),
     (''ExtensionValue'', ''openType,referenceFieldName:Id'', TAIExtIEsExtensionValue)]"

definition TAIListForInactiveItemExtIEs :: gtype where
  "TAIListForInactiveItemExtIEs = StructKind
    [(''Id'', '''', ProtocolExtensionID),
     (''Criticality'', '''', Criticality),
     (''ExtensionValue'', ''openType,referenceFieldName:Id'', TAIListForInactiveItemExtIEsExtensionValue)]"

definition TAIListForPagingItemExtIEs :: gtype where
  "TAIListForPagingItemExtIEs = StructKind
    [(''Id'', '''', ProtocolExtensionID),
     (''Criticality'', '''', Criticality),
     (''ExtensionValue'', ''openType,referenceFieldName:Id'', TAIListForPagingItemExtIEsExtensionValue)]"

definition TNLAssociationItemExtIEs :: gtype where
  "TNLAssociationItemExtIEs = StructKind
    [(''Id'', '''', ProtocolExtensionID),
     (''Criticality'', '''', Criticality),
     (''ExtensionValue'', ''openType,referenceFieldName:Id'', TNLAssociationItemExtIEsExtensionValue)]"

definition TNLInformationItemExtIEs :: gtype where
  "TNLInformationItemExtIEs = StructKind
    [(''Id'', '''', ProtocolExtensionID),
     (''Criticality'', '''', Criticality),
     (''ExtensionValue'', ''openType,referenceFieldName:Id'', TNLInformationItemExtIEsExtensionValue)]"

definition TNLMappingItemExtIEs :: gtype where
  "TNLMappingItemExtIEs = StructKind
    [(''Id'', '''', ProtocolExtensionID),
     (''Criticality'', '''', Criticality),
     (''ExtensionValue'', ''openType,referenceFieldName:Id'', TNLMappingItemExtIEsExtensionValue)]"

definition TargetIDExtIEs :: gtype where
  "TargetIDExtIEs = StructKind
    [(''Id'', '''', ProtocolIEID),
     (''Criticality'', '''', Criticality),
     (''Value'', ''openType,referenceFieldName:Id'', TargetIDExtIEsValue)]"

definition TargetNGRANNodeToSourceNGRANNodeTransparentContainerExtIEs :: gtype where
  "TargetNGRANNodeToSourceNGRANNodeTransparentContainerExtIEs = StructKind
    [(''Id'', '''', ProtocolExtensionID),
     (''Criticality'', '''', Criticality),
     (''ExtensionValue'', ''openType,referenceFieldName:Id'', TargetNGRANNodeToSourceNGRANNodeTransparentContainerExtIEsExtensionValue)]"

definition TargetRANNodeIDExtIEs :: gtype where
  "TargetRANNodeIDExtIEs = StructKind
    [(''Id'', '''', ProtocolExtensionID),
     (''Criticality'', '''', Criticality),
     (''ExtensionValue'', ''openType,referenceFieldName:Id'', TargetRANNodeIDExtIEsExtensionValue)]"

definition TargeteNBIDExtIEs :: gtype where
  "TargeteNBIDExtIEs = StructKind
    [(''Id'', '''', ProtocolExtensionID),
     (''Criticality'', '''', Criticality),
     (''ExtensionValue'', ''openType,referenceFieldName:Id'', TargeteNBIDExtIEsExtensionValue)]"

definition TraceActivationExtIEs :: gtype where
  "TraceActivationExtIEs = StructKind
    [(''Id'', '''', ProtocolExtensionID),
     (''Criticality'', '''', Criticality),
     (''ExtensionValue'', ''openType,referenceFieldName:Id'', TraceActivationExtIEsExtensionValue)]"

definition UEAggregateMaximumBitRateExtIEs :: gtype where
  "UEAggregateMaximumBitRateExtIEs = StructKind
    [(''Id'', '''', ProtocolExtensionID),
     (''Criticality'', '''', Criticality),
     (''ExtensionValue'', ''openType,referenceFieldName:Id'', UEAggregateMaximumBitRateExtIEsExtensionValue)]"

definition UEAssociatedLogicalNGConnectionItemExtIEs :: gtype where
  "UEAssociatedLogicalNGConnectionItemExtIEs = StructKind
    [(''Id'', '''', ProtocolExtensionID),
     (''Criticality'', '''', Criticality),
     (''ExtensionValue'', ''openType,referenceFieldName:Id'', UEAssociatedLogicalNGConnectionItemExtIEsExtensionValue)]"

definition UEIdentityIndexValue :: gtype where
  "UEIdentityIndexValue = StructKind
    [(''Present'', '''', IntKind 64),
     (''IndexLength10'', ''sizeLB:10,sizeUB:10'', PtrKind BitStringType),
     (''ChoiceExtensions'', '''', PtrKind ProtocolIESingleContainerUEIdentityIndexValueExtIEs)]"

definition UEIdentityIndexValueExtIEs :: gtype where
  "UEIdentityIndexValueExtIEs = StructKind
    [(''Id'', '''', ProtocolIEID),
     (''Criticality'', '''', Criticality),
     (''Value'', ''openType,referenceFieldName:Id'', UEIdentityIndexValueExtIEsValue)]"

definition UENGAPIDPairExtIEs :: gtype where
  "UENGAPIDPairExtIEs = StructKind
    [(''Id'', '''', ProtocolExtensionID),
     (''Criticality'', '''', Criticality),
     (''ExtensionValue'', ''openType,referenceFieldName:Id'', UENGAPIDPairExtIEsExtensionValue)]"

definition UENGAPIDsExtIEs :: gtype where
  "UENGAPIDsExtIEs = StructKind
    [(''Id'', '''', ProtocolIEID),
     (''Criticality'', '''', Criticality),
     (''Value'', ''openType,referenceFieldName:Id'', UENGAPIDsExtIEsValue)]"

definition UEPagingIdentityExtIEs :: gtype where
  "UEPagingIdentityExtIEs = StructKind
    [(''Id'', '''', ProtocolIEID),
     (''Criticality'', '''', Criticality),
     (''Value'', ''openType,referenceFieldName:Id'', UEPagingIdentityExtIEsValue)]"

definition UEPresenceInAreaOfInterestItemExtIEs :: gtype where
  "UEPresenceInAreaOfInterestItemExtIEs = StructKind
    [(''Id'', '''', ProtocolExtensionID),
     (''Criticality'', '''', Criticality),
     (''ExtensionValue'', ''openType,referenceFieldName:Id'', UEPresenceInAreaOfInterestItemExtIEsExtensionValue)]"

definition UERadioCapabilityCheckRequestIEsValue :: gtype where
  "UERadioCapabilityCheckRequestIEsValue = StructKind
    [(''Present'', '''', IntKind 64),
     (''AMFUENGAPID'', ''referenceFieldValue:10'', PtrKind AMFUENGAPID),
     (''RANUENGAPID'', ''referenceFieldValue:85'', PtrKind RANUENGAPID),
     (''UERadioCapability'', ''referenceFieldValue:117'', PtrKind UERadioCapability)]"

definition UERadioCapabilityForPagingExtIEs :: gtype where
  "UERadioCapabilityForPagingExtIEs = StructKind
    [(''Id'', '''', ProtocolExtensionID),
     (''Criticality'', '''', Criticality),
     (''ExtensionValue'', ''openType,referenceFieldName:Id'', UERadioCapabilityForPagingExtIEsExtensionValue)]"

definition UESecurityCapabilitiesExtIEs :: gtype where
  "UESecurityCapabilitiesExtIEs = StructKind
    [(''Id'', '''', ProtocolExtensionID),
     (''Criticality'', '''', Criticality),
     (''ExtensionValue'', ''openType,referenceFieldName:Id'', UESecurityCapabilitiesExtIEsExtensionValue)]"

definition UETNLABindingReleaseRequestIEsValue :: gtype where
  "UETNLABindingReleaseRequestIEsValue = StructKind
    [(''Present'', '''', IntKind 64),
     (''AMFUENGAPID'', ''referenceFieldValue:10'', PtrKind AMFUENGAPID),
     (''RANUENGAPID'', ''referenceFieldValue:85'', PtrKind RANUENGAPID)]"

definition ULNGUUPTNLModifyItemExtIEs :: gtype where
  "ULNGUUPTNLModifyItemExtIEs = StructKind
    [(''Id'', '''', ProtocolExtensionID),
     (''Criticality'', '''', Criticality),
     (''ExtensionValue'', ''openType,referenceFieldName:Id'', ULNGUUPTNLModifyItemExtIEsExtensionValue)]"

definition UPTNLInformationExtIEs :: gtype where
  "UPTNLInformationExtIEs = StructKind
    [(''Id'', '''', ProtocolIEID),
     (''Criticality'', '''', Criticality),
     (''Value'', ''openType,referenceFieldName:Id'', UPTNLInformationExtIEsValue)]"

definition UPTransportLayerInformationExtIEs :: gtype where
  "UPTransportLayerInformationExtIEs = StructKind
    [(''Id'', '''', ProtocolIEID),
     (''Criticality'', '''', Criticality),
     (''Value'', ''openType,referenceFieldName:Id'', UPTransportLayerInformationExtIEsValue)]"

definition UnavailableGUAMIItemExtIEs :: gtype where
  "UnavailableGUAMIItemExtIEs = StructKind
    [(''Id'', '''', ProtocolExtensionID),
     (''Criticality'', '''', Criticality),
     (''ExtensionValue'', ''openType,referenceFieldName:Id'', UnavailableGUAMIItemExtIEsExtensionValue)]"

definition UplinkNonUEAssociatedNRPPaTransportIEsValue :: gtype where
  "UplinkNonUEAssociatedNRPPaTransportIEsValue = StructKind
    [(''Present'', '''', IntKind 64),
     (''RoutingID'', ''referenceFieldValue:89'', PtrKind RoutingID),
     (''NRPPaPDU'', ''referenceFieldValue:46'', PtrKind NRPPaPDU)]"

definition UplinkUEAssociatedNRPPaTransportIEsValue :: gtype where
  "UplinkUEAssociatedNRPPaTransportIEsValue = StructKind
    [(''Present'', '''', IntKind 64),
     (''AMFUENGAPID'', ''referenceFieldValue:10'', PtrKind AMFUENGAPID),
     (''RANUENGAPID'', ''referenceFieldValue:85'', PtrKind RANUENGAPID),
     (''RoutingID'', ''referenceFieldValue:89'', PtrKind RoutingID),
     (''NRPPaPDU'', ''referenceFieldValue:46'', PtrKind NRPPaPDU)]"

definition UserLocationInformationEUTRAExtIEs :: gtype where
  "UserLocationInformationEUTRAExtIEs = StructKind
    [(''Id'', '''', ProtocolExtensionID),
     (''Criticality'', '''', Criticality),
     (''ExtensionValue'', ''openType,referenceFieldName:Id'', UserLocationInformationEUTRAExtIEsExtensionValue)]"

definition UserLocationInformationExtIEs :: gtype where
  "UserLocationInformationExtIEs = StructKind
    [(''Id'', '''', ProtocolIEID),
     (''Criticality'', '''', Criticality),
     (''Value'', ''openType,referenceFieldName:Id'', UserLocationInformationExtIEsValue)]"

definition UserLocationInformationN3IWFExtIEs :: gtype where
  "UserLocationInformationN3IWFExtIEs = StructKind
    [(''Id'', '''', ProtocolExtensionID),
     (''Criticality'', '''', Criticality),
     (''ExtensionValue'', ''openType,referenceFieldName:Id'', UserLocationInformationN3IWFExtIEsExtensionValue)]"

definition UserLocationInformationNRExtIEs :: gtype where
  "UserLocationInformationNRExtIEs = StructKind
    [(''Id'', '''', ProtocolExtensionID),
     (''Criticality'', '''', Criticality),
     (''ExtensionValue'', ''openType,referenceFieldName:Id'', UserLocationInformationNRExtIEsExtensionValue)]"

definition UserPlaneSecurityInformationExtIEs :: gtype where
  "UserPlaneSecurityInformationExtIEs = StructKind
    [(''Id'', '''', ProtocolExtensionID),
     (''Criticality'', '''', Criticality),
     (''ExtensionValue'', ''openType,referenceFieldName:Id'', UserPlaneSecurityInformationExtIEsExtensionValue)]"

definition WarningAreaListExtIEs :: gtype where
  "WarningAreaListExtIEs = StructKind
    [(''Id'', '''', ProtocolIEID),
     (''Criticality'', '''', Criticality),
     (''Value'', ''openType,referenceFieldName:Id'', WarningAreaListExtIEsValue)]"

definition XnExtTLAItemExtIEs :: gtype where
  "XnExtTLAItemExtIEs = StructKind
    [(''Id'', '''', ProtocolExtensionID),
     (''Criticality'', '''', Criticality),
     (''ExtensionValue'', ''openType,referenceFieldName:Id'', XnExtTLAItemExtIEsExtensionValue)]"

definition XnGTPTLAs :: gtype where
  "XnGTPTLAs = StructKind
    [(''List'', ''sizeLB:1,sizeUB:16'', SliceKind TransportLayerAddress)]"

definition XnTLAs :: gtype where
  "XnTLAs = StructKind
    [(''List'', ''sizeLB:1,sizeUB:16'', SliceKind TransportLayerAddress)]"

definition XnTNLConfigurationInfoExtIEs :: gtype where
  "XnTNLConfigurationInfoExtIEs = StructKind
    [(''Id'', '''', ProtocolExtensionID),
     (''Criticality'', '''', Criticality),
     (''ExtensionValue'', ''openType,referenceFieldName:Id'', XnTNLConfigurationInfoExtIEsExtensionValue)]"

definition DeactivateTraceIEs :: gtype where
  "DeactivateTraceIEs = StructKind
    [(''Id'', '''', ProtocolIEID),
     (''Criticality'', '''', Criticality),
     (''Value'', ''openType,referenceFieldName:Id'', DeactivateTraceIEsValue)]"

definition DownlinkNonUEAssociatedNRPPaTransportIEs :: gtype where
  "DownlinkNonUEAssociatedNRPPaTransportIEs = StructKind
    [(''Id'', '''', ProtocolIEID),
     (''Criticality'', '''', Criticality),
     (''Value'', ''openType,referenceFieldName:Id'', DownlinkNonUEAssociatedNRPPaTransportIEsValue)]"

definition DownlinkUEAssociatedNRPPaTransportIEs :: gtype where
  "DownlinkUEAssociatedNRPPaTransportIEs = StructKind
    [(''Id'', '''', ProtocolIEID),
     (''Criticality'', '''', Criticality),
     (''Value'', ''openType,referenceFieldName:Id'', DownlinkUEAssociatedNRPPaTransportIEsValue)]"

definition HandoverCancelIEsValue :: gtype where
  "HandoverCancelIEsValue = StructKind
    [(''Present'', '''', IntKind 64),
     (''AMFUENGAPID'', ''referenceFieldValue:10'', PtrKind AMFUENGAPID),
     (''RANUENGAPID'', ''referenceFieldValue:85'', PtrKind RANUENGAPID),
     (''Cause'', ''referenceFieldValue:15,valueLB:0,valueUB:5'', PtrKind Cause)]"

definition LocationReportingFailureIndicationIEsValue :: gtype where
  "LocationReportingFailureIndicationIEsValue = StructKind
    [(''Present'', '''', IntKind 64),
     (''AMFUENGAPID'', ''referenceFieldValue:10'', PtrKind AMFUENGAPID),
     (''RANUENGAPID'', ''referenceFieldValue:85'', PtrKind RANUENGAPID),
     (''Cause'', ''referenceFieldValue:15,valueLB:0,valueUB:5'', PtrKind Cause)]"

definition NASNonDeliveryIndicationIEsValue :: gtype where
  "NASNonDeliveryIndicationIEsValue = StructKind
    [(''Present'', '''', IntKind 64),
     (''AMFUENGAPID'', ''referenceFieldValue:10'', PtrKind AMFUENGAPID),
     (''RANUENGAPID'', ''referenceFieldValue:85'', PtrKind RANUENGAPID),
     (''NASPDU'', ''referenceFieldValue:38'', PtrKind NASPDU),
     (''Cause'', ''referenceFieldValue:15,valueLB:0,valueUB:5'', PtrKind Cause)]"

definition PrivateIEContainerPrivateMessageIEs :: gtype where
  "PrivateIEContainerPrivateMessageIEs = StructKind
    [(''List'', ''sizeLB:1,sizeUB:65535'', SliceKind PrivateMessageIEs)]"

definition ProtocolExtensionContainerAMFTNLAssociationSetupItemExtIEs :: gtype where
  "ProtocolExtensionContainerAMFTNLAssociationSetupItemExtIEs = StructKind
    [(''List'', ''sizeLB:1,sizeUB:65535'', SliceKind AMFTNLAssociationSetupItemExtIEs)]"

definition ProtocolExtensionContainerAMFTNLAssociationToAddItemExtIEs :: gtype where
  "ProtocolExtensionContainerAMFTNLAssociationToAddItemExtIEs = StructKind
    [(''List'', ''sizeLB:1,sizeUB:65535'', SliceKind AMFTNLAssociationToAddItemExtIEs)]"

definition ProtocolExtensionContainerAMFTNLAssociationToRemoveItemExtIEs :: gtype where
  "ProtocolExtensionContainerAMFTNLAssociationToRemoveItemExtIEs = StructKind
    [(''List'', ''sizeLB:1,sizeUB:65535'', SliceKind AMFTNLAssociationToRemoveItemExtIEs)]"

definition ProtocolExtensionContainerAMFTNLAssociationToUpdateItemExtIEs :: gtype where
  "ProtocolExtensionContainerAMFTNLAssociationToUpdateItemExtIEs = StructKind
    [(''List'', ''sizeLB:1,sizeUB:65535'', SliceKind AMFTNLAssociationToUpdateItemExtIEs)]"

definition ProtocolExtensionContainerAllocationAndRetentionPriorityExtIEs :: gtype where
  "ProtocolExtensionContainerAllocationAndRetentionPriorityExtIEs = StructKind
    [(''List'', ''sizeLB:1,sizeUB:65535'', SliceKind AllocationAndRetentionPriorityExtIEs)]"

definition ProtocolExtensionContainerAllowedNSSAIItemExtIEs :: gtype where
  "ProtocolExtensionContainerAllowedNSSAIItemExtIEs = StructKind
    [(''List'', ''sizeLB:1,sizeUB:65535'', SliceKind AllowedNSSAIItemExtIEs)]"

definition ProtocolExtensionContainerAreaOfInterestCellItemExtIEs :: gtype where
  "ProtocolExtensionContainerAreaOfInterestCellItemExtIEs = StructKind
    [(''List'', ''sizeLB:1,sizeUB:65535'', SliceKind AreaOfInterestCellItemExtIEs)]"

definition ProtocolExtensionContainerAreaOfInterestExtIEs :: gtype where
  "ProtocolExtensionContainerAreaOfInterestExtIEs = StructKind
    [(''List'', ''sizeLB:1,sizeUB:65535'', SliceKind AreaOfInterestExtIEs)]"

definition ProtocolExtensionContainerAreaOfInterestItemExtIEs :: gtype where
  "ProtocolExtensionContainerAreaOfInterestItemExtIEs = StructKind
    [(''List'', ''sizeLB:1,sizeUB:65535'', SliceKind AreaOfInterestItemExtIEs)]"

definition ProtocolExtensionContainerAreaOfInterestRANNodeItemExtIEs :: gtype where
  "ProtocolExtensionContainerAreaOfInterestRANNodeItemExtIEs = StructKind
    [(''List'', ''sizeLB:1,sizeUB:65535'', SliceKind AreaOfInterestRANNodeItemExtIEs)]"

definition ProtocolExtensionContainerAreaOfInterestTAIItemExtIEs :: gtype where
  "ProtocolExtensionContainerAreaOfInterestTAIItemExtIEs = StructKind
    [(''List'', ''sizeLB:1,sizeUB:65535'', SliceKind AreaOfInterestTAIItemExtIEs)]"

definition ProtocolExtensionContainerAssistanceDataForPagingExtIEs :: gtype where
  "ProtocolExtensionContainerAssistanceDataForPagingExtIEs = StructKind
    [(''List'', ''sizeLB:1,sizeUB:65535'', SliceKind AssistanceDataForPagingExtIEs)]"

definition ProtocolExtensionContainerAssistanceDataForRecommendedCellsExtIEs :: gtype where
  "ProtocolExtensionContainerAssistanceDataForRecommendedCellsExtIEs = StructKind
    [(''List'', ''sizeLB:1,sizeUB:65535'', SliceKind AssistanceDataForRecommendedCellsExtIEs)]"

definition ProtocolExtensionContainerAssociatedQosFlowItemExtIEs :: gtype where
  "ProtocolExtensionContainerAssociatedQosFlowItemExtIEs = StructKind
    [(''List'', ''sizeLB:1,sizeUB:65535'', SliceKind AssociatedQosFlowItemExtIEs)]"

definition ProtocolExtensionContainerBroadcastPLMNItemExtIEs :: gtype where
  "ProtocolExtensionContainerBroadcastPLMNItemExtIEs = StructKind
    [(''List'', ''sizeLB:1,sizeUB:65535'', SliceKind BroadcastPLMNItemExtIEs)]"

definition ProtocolExtensionContainerCOUNTValueForPDCPSN12ExtIEs :: gtype where
  "ProtocolExtensionContainerCOUNTValueForPDCPSN12ExtIEs = StructKind
    [(''List'', ''sizeLB:1,sizeUB:65535'', SliceKind COUNTValueForPDCPSN12ExtIEs)]"

definition ProtocolExtensionContainerCOUNTValueForPDCPSN18ExtIEs :: gtype where
  "ProtocolExtensionContainerCOUNTValueForPDCPSN18ExtIEs = StructKind
    [(''List'', ''sizeLB:1,sizeUB:65535'', SliceKind COUNTValueForPDCPSN18ExtIEs)]"

definition ProtocolExtensionContainerCancelledCellsInEAIEUTRAItemExtIEs :: gtype where
  "ProtocolExtensionContainerCancelledCellsInEAIEUTRAItemExtIEs = StructKind
    [(''List'', ''sizeLB:1,sizeUB:65535'', SliceKind CancelledCellsInEAIEUTRAItemExtIEs)]"

definition ProtocolExtensionContainerCancelledCellsInEAINRItemExtIEs :: gtype where
  "ProtocolExtensionContainerCancelledCellsInEAINRItemExtIEs = StructKind
    [(''List'', ''sizeLB:1,sizeUB:65535'', SliceKind CancelledCellsInEAINRItemExtIEs)]"

definition ProtocolExtensionContainerCancelledCellsInTAIEUTRAItemExtIEs :: gtype where
  "ProtocolExtensionContainerCancelledCellsInTAIEUTRAItemExtIEs = StructKind
    [(''List'', ''sizeLB:1,sizeUB:65535'', SliceKind CancelledCellsInTAIEUTRAItemExtIEs)]"

definition ProtocolExtensionContainerCancelledCellsInTAINRItemExtIEs :: gtype where
  "ProtocolExtensionContainerCancelledCellsInTAINRItemExtIEs = StructKind
    [(''List'', ''sizeLB:1,sizeUB:65535'', SliceKind CancelledCellsInTAINRItemExtIEs)]"

definition ProtocolExtensionContainerCellIDBroadcastEUTRAItemExtIEs :: gtype where
  "ProtocolExtensionContainerCellIDBroadcastEUTRAItemExtIEs = StructKind
    [(''List'', ''sizeLB:1,sizeUB:65535'', SliceKind CellIDBroadcastEUTRAItemExtIEs)]"

definition ProtocolExtensionContainerCellIDBroadcastNRItemExtIEs :: gtype where
  "ProtocolExtensionContainerCellIDBroadcastNRItemExtIEs = StructKind
    [(''List'', ''sizeLB:1,sizeUB:65535'', SliceKind CellIDBroadcastNRItemExtIEs)]"

definition ProtocolExtensionContainerCellIDCancelledEUTRAItemExtIEs :: gtype where
  "ProtocolExtensionContainerCellIDCancelledEUTRAItemExtIEs = StructKind
    [(''List'', ''sizeLB:1,sizeUB:65535'', SliceKind CellIDCancelledEUTRAItemExtIEs)]"

definition ProtocolExtensionContainerCellIDCancelledNRItemExtIEs :: gtype where
  "ProtocolExtensionContainerCellIDCancelledNRItemExtIEs = StructKind
    [(''List'', ''sizeLB:1,sizeUB:65535'', SliceKind CellIDCancelledNRItemExtIEs)]"

definition ProtocolExtensionContainerCellTypeExtIEs :: gtype where
  "ProtocolExtensionContainerCellTypeExtIEs = StructKind
    [(''List'', ''sizeLB:1,sizeUB:65535'', SliceKind CellTypeExtIEs)]"

definition ProtocolExtensionContainerCompletedCellsInEAIEUTRAItemExtIEs :: gtype where
  "ProtocolExtensionContainerCompletedCellsInEAIEUTRAItemExtIEs = StructKind
    [(''List'', ''sizeLB:1,sizeUB:65535'', SliceKind CompletedCellsInEAIEUTRAItemExtIEs)]"

definition ProtocolExtensionContainerCompletedCellsInEAINRItemExtIEs :: gtype where
  "ProtocolExtensionContainerCompletedCellsInEAINRItemExtIEs = StructKind
    [(''List'', ''sizeLB:1,sizeUB:65535'', SliceKind CompletedCellsInEAINRItemExtIEs)]"

definition ProtocolExtensionContainerCompletedCellsInTAIEUTRAItemExtIEs :: gtype where
  "ProtocolExtensionContainerCompletedCellsInTAIEUTRAItemExtIEs = StructKind
    [(''List'', ''sizeLB:1,sizeUB:65535'', SliceKind CompletedCellsInTAIEUTRAItemExtIEs)]"

definition ProtocolExtensionContainerCompletedCellsInTAINRItemExtIEs :: gtype where
  "ProtocolExtensionContainerCompletedCellsInTAINRItemExtIEs = StructKind
    [(''List'', ''sizeLB:1,sizeUB:65535'', SliceKind CompletedCellsInTAINRItemExtIEs)]"

definition ProtocolExtensionContainerCoreNetworkAssistanceInformationExtIEs :: gtype where
  "ProtocolExtensionContainerCoreNetworkAssistanceInformationExtIEs = StructKind
    [(''List'', ''sizeLB:1,sizeUB:65535'', SliceKind CoreNetworkAssistanceInformationExtIEs)]"

definition ProtocolExtensionContainerCriticalityDiagnosticsExtIEs :: gtype where
  "ProtocolExtensionContainerCriticalityDiagnosticsExtIEs = StructKind
    [(''List'', ''sizeLB:1,sizeUB:65535'', SliceKind CriticalityDiagnosticsExtIEs)]"

definition ProtocolExtensionContainerCriticalityDiagnosticsIEItemExtIEs :: gtype where
  "ProtocolExtensionContainerCriticalityDiagnosticsIEItemExtIEs = StructKind
    [(''List'', ''sizeLB:1,sizeUB:65535'', SliceKind CriticalityDiagnosticsIEItemExtIEs)]"

definition ProtocolExtensionContainerDRBStatusDL12ExtIEs :: gtype where
  "ProtocolExtensionContainerDRBStatusDL12ExtIEs = StructKind
    [(''List'', ''sizeLB:1,sizeUB:65535'', SliceKind DRBStatusDL12ExtIEs)]"

definition ProtocolExtensionContainerDRBStatusDL18ExtIEs :: gtype where
  "ProtocolExtensionContainerDRBStatusDL18ExtIEs = StructKind
    [(''List'', ''sizeLB:1,sizeUB:65535'', SliceKind DRBStatusDL18ExtIEs)]"

definition ProtocolExtensionContainerDRBStatusUL12ExtIEs :: gtype where
  "ProtocolExtensionContainerDRBStatusUL12ExtIEs = StructKind
    [(''List'', ''sizeLB:1,sizeUB:65535'', SliceKind DRBStatusUL12ExtIEs)]"

definition ProtocolExtensionContainerDRBStatusUL18ExtIEs :: gtype where
  "ProtocolExtensionContainerDRBStatusUL18ExtIEs = StructKind
    [(''List'', ''sizeLB:1,sizeUB:65535'', SliceKind DRBStatusUL18ExtIEs)]"

definition ProtocolExtensionContainerDRBsSubjectToStatusTransferItemExtIEs :: gtype where
  "ProtocolExtensionContainerDRBsSubjectToStatusTransferItemExtIEs = StructKind
    [(''List'', ''sizeLB:1,sizeUB:65535'', SliceKind DRBsSubjectToStatusTransferItemExtIEs)]"

definition ProtocolExtensionContainerDRBsToQosFlowsMappingItemExtIEs :: gtype where
  "ProtocolExtensionContainerDRBsToQosFlowsMappingItemExtIEs = StructKind
    [(''List'', ''sizeLB:1,sizeUB:65535'', SliceKind DRBsToQosFlowsMappingItemExtIEs)]"

definition ProtocolExtensionContainerDataForwardingResponseDRBItemExtIEs :: gtype where
  "ProtocolExtensionContainerDataForwardingResponseDRBItemExtIEs = StructKind
    [(''List'', ''sizeLB:1,sizeUB:65535'', SliceKind DataForwardingResponseDRBItemExtIEs)]"

definition ProtocolExtensionContainerDynamic5QIDescriptorExtIEs :: gtype where
  "ProtocolExtensionContainerDynamic5QIDescriptorExtIEs = StructKind
    [(''List'', ''sizeLB:1,sizeUB:65535'', SliceKind Dynamic5QIDescriptorExtIEs)]"

definition ProtocolExtensionContainerEPSTAIExtIEs :: gtype where
  "ProtocolExtensionContainerEPSTAIExtIEs = StructKind
    [(''List'', ''sizeLB:1,sizeUB:65535'', SliceKind EPSTAIExtIEs)]"

definition ProtocolExtensionContainerERABInformationItemExtIEs :: gtype where
  "ProtocolExtensionContainerERABInformationItemExtIEs = StructKind
    [(''List'', ''sizeLB:1,sizeUB:65535'', SliceKind ERABInformationItemExtIEs)]"

definition ProtocolExtensionContainerEUTRACGIExtIEs :: gtype where
  "ProtocolExtensionContainerEUTRACGIExtIEs = StructKind
    [(''List'', ''sizeLB:1,sizeUB:65535'', SliceKind EUTRACGIExtIEs)]"

definition ProtocolExtensionContainerEmergencyAreaIDBroadcastEUTRAItemExtIEs :: gtype where
  "ProtocolExtensionContainerEmergencyAreaIDBroadcastEUTRAItemExtIEs = StructKind
    [(''List'', ''sizeLB:1,sizeUB:65535'', SliceKind EmergencyAreaIDBroadcastEUTRAItemExtIEs)]"

definition ProtocolExtensionContainerEmergencyAreaIDBroadcastNRItemExtIEs :: gtype where
  "ProtocolExtensionContainerEmergencyAreaIDBroadcastNRItemExtIEs = StructKind
    [(''List'', ''sizeLB:1,sizeUB:65535'', SliceKind EmergencyAreaIDBroadcastNRItemExtIEs)]"

definition ProtocolExtensionContainerEmergencyAreaIDCancelledEUTRAItemExtIEs :: gtype where
  "ProtocolExtensionContainerEmergencyAreaIDCancelledEUTRAItemExtIEs = StructKind
    [(''List'', ''sizeLB:1,sizeUB:65535'', SliceKind EmergencyAreaIDCancelledEUTRAItemExtIEs)]"

definition ProtocolExtensionContainerEmergencyAreaIDCancelledNRItemExtIEs :: gtype where
  "ProtocolExtensionContainerEmergencyAreaIDCancelledNRItemExtIEs = StructKind
    [(''List'', ''sizeLB:1,sizeUB:65535'', SliceKind EmergencyAreaIDCancelledNRItemExtIEs)]"

definition ProtocolExtensionContainerEmergencyFallbackIndicatorExtIEs :: gtype where
  "ProtocolExtensionContainerEmergencyFallbackIndicatorExtIEs = StructKind
    [(''List'', ''sizeLB:1,sizeUB:65535'', SliceKind EmergencyFallbackIndicatorExtIEs)]"

definition ProtocolExtensionContainerExpectedUEActivityBehaviourExtIEs :: gtype where
  "ProtocolExtensionContainerExpectedUEActivityBehaviourExtIEs = StructKind
    [(''List'', ''sizeLB:1,sizeUB:65535'', SliceKind ExpectedUEActivityBehaviourExtIEs)]"

definition ProtocolExtensionContainerExpectedUEBehaviourExtIEs :: gtype where
  "ProtocolExtensionContainerExpectedUEBehaviourExtIEs = StructKind
    [(''List'', ''sizeLB:1,sizeUB:65535'', SliceKind ExpectedUEBehaviourExtIEs)]"

definition ProtocolExtensionContainerExpectedUEMovingTrajectoryItemExtIEs :: gtype where
  "ProtocolExtensionContainerExpectedUEMovingTrajectoryItemExtIEs = StructKind
    [(''List'', ''sizeLB:1,sizeUB:65535'', SliceKind ExpectedUEMovingTrajectoryItemExtIEs)]"

definition ProtocolExtensionContainerFiveGSTMSIExtIEs :: gtype where
  "ProtocolExtensionContainerFiveGSTMSIExtIEs = StructKind
    [(''List'', ''sizeLB:1,sizeUB:65535'', SliceKind FiveGSTMSIExtIEs)]"

definition ProtocolExtensionContainerForbiddenAreaInformationItemExtIEs :: gtype where
  "ProtocolExtensionContainerForbiddenAreaInformationItemExtIEs = StructKind
    [(''List'', ''sizeLB:1,sizeUB:65535'', SliceKind ForbiddenAreaInformationItemExtIEs)]"

definition ProtocolExtensionContainerGBRQosInformationExtIEs :: gtype where
  "ProtocolExtensionContainerGBRQosInformationExtIEs = StructKind
    [(''List'', ''sizeLB:1,sizeUB:65535'', SliceKind GBRQosInformationExtIEs)]"

definition ProtocolExtensionContainerGTPTunnelExtIEs :: gtype where
  "ProtocolExtensionContainerGTPTunnelExtIEs = StructKind
    [(''List'', ''sizeLB:1,sizeUB:65535'', SliceKind GTPTunnelExtIEs)]"

definition ProtocolExtensionContainerGUAMIExtIEs :: gtype where
  "ProtocolExtensionContainerGUAMIExtIEs = StructKind
    [(''List'', ''sizeLB:1,sizeUB:65535'', SliceKind GUAMIExtIEs)]"

definition ProtocolExtensionContainerGlobalGNBIDExtIEs :: gtype where
  "ProtocolExtensionContainerGlobalGNBIDExtIEs = StructKind
    [(''List'', ''sizeLB:1,sizeUB:65535'', SliceKind GlobalGNBIDExtIEs)]"

definition ProtocolExtensionContainerGlobalN3IWFIDExtIEs :: gtype where
  "ProtocolExtensionContainerGlobalN3IWFIDExtIEs = StructKind
    [(''List'', ''sizeLB:1,sizeUB:65535'', SliceKind GlobalN3IWFIDExtIEs)]"

definition ProtocolExtensionContainerGlobalNgENBIDExtIEs :: gtype where
  "ProtocolExtensionContainerGlobalNgENBIDExtIEs = StructKind
    [(''List'', ''sizeLB:1,sizeUB:65535'', SliceKind GlobalNgENBIDExtIEs)]"

definition ProtocolExtensionContainerHandoverCommandTransferExtIEs :: gtype where
  "ProtocolExtensionContainerHandoverCommandTransferExtIEs = StructKind
    [(''List'', ''sizeLB:1,sizeUB:65535'', SliceKind HandoverCommandTransferExtIEs)]"

definition ProtocolExtensionContainerHandoverPreparationUnsuccessfulTransferExtIEs :: gtype where
  "ProtocolExtensionContainerHandoverPreparationUnsuccessfulTransferExtIEs = StructKind
    [(''List'', ''sizeLB:1,sizeUB:65535'', SliceKind HandoverPreparationUnsuccessfulTransferExtIEs)]"

definition ProtocolExtensionContainerHandoverRequestAcknowledgeTransferExtIEs :: gtype where
  "ProtocolExtensionContainerHandoverRequestAcknowledgeTransferExtIEs = StructKind
    [(''List'', ''sizeLB:1,sizeUB:65535'', SliceKind HandoverRequestAcknowledgeTransferExtIEs)]"

definition ProtocolExtensionContainerHandoverRequiredTransferExtIEs :: gtype where
  "ProtocolExtensionContainerHandoverRequiredTransferExtIEs = StructKind
    [(''List'', ''sizeLB:1,sizeUB:65535'', SliceKind HandoverRequiredTransferExtIEs)]"

definition ProtocolExtensionContainerHandoverResourceAllocationUnsuccessfulTransferExtIEs :: gtype where
  "ProtocolExtensionContainerHandoverResourceAllocationUnsuccessfulTransferExtIEs = StructKind
    [(''List'', ''sizeLB:1,sizeUB:65535'', SliceKind HandoverResourceAllocationUnsuccessfulTransferExtIEs)]"

definition ProtocolExtensionContainerInfoOnRecommendedCellsAndRANNodesForPagingExtIEs :: gtype where
  "ProtocolExtensionContainerInfoOnRecommendedCellsAndRANNodesForPagingExtIEs = StructKind
    [(''List'', ''sizeLB:1,sizeUB:65535'', SliceKind InfoOnRecommendedCellsAndRANNodesForPagingExtIEs)]"

definition ProtocolExtensionContainerLastVisitedCellItemExtIEs :: gtype where
  "ProtocolExtensionContainerLastVisitedCellItemExtIEs = StructKind
    [(''List'', ''sizeLB:1,sizeUB:65535'', SliceKind LastVisitedCellItemExtIEs)]"

definition ProtocolExtensionContainerLastVisitedNGRANCellInformationExtIEs :: gtype where
  "ProtocolExtensionContainerLastVisitedNGRANCellInformationExtIEs = StructKind
    [(''List'', ''sizeLB:1,sizeUB:65535'', SliceKind LastVisitedNGRANCellInformationExtIEs)]"

definition ProtocolExtensionContainerLocationReportingRequestTypeExtIEs :: gtype where
  "ProtocolExtensionContainerLocationReportingRequestTypeExtIEs = StructKind
    [(''List'', ''sizeLB:1,sizeUB:65535'', SliceKind LocationReportingRequestTypeExtIEs)]"

definition ProtocolExtensionContainerMobilityRestrictionListExtIEs :: gtype where
  "ProtocolExtensionContainerMobilityRestrictionListExtIEs = StructKind
    [(''List'', ''sizeLB:1,sizeUB:65535'', SliceKind MobilityRestrictionListExtIEs)]"

definition ProtocolExtensionContainerMultipleTNLInformationExtIEs :: gtype where
  "ProtocolExtensionContainerMultipleTNLInformationExtIEs = StructKind
    [(''List'', ''sizeLB:1,sizeUB:65535'', SliceKind MultipleTNLInformationExtIEs)]"

definition ProtocolExtensionContainerNRCGIExtIEs :: gtype where
  "ProtocolExtensionContainerNRCGIExtIEs = StructKind
    [(''List'', ''sizeLB:1,sizeUB:65535'', SliceKind NRCGIExtIEs)]"

definition ProtocolExtensionContainerNonDynamic5QIDescriptorExtIEs :: gtype where
  "ProtocolExtensionContainerNonDynamic5QIDescriptorExtIEs = StructKind
    [(''List'', ''sizeLB:1,sizeUB:65535'', SliceKind NonDynamic5QIDescriptorExtIEs)]"

definition ProtocolExtensionContainerOverloadStartNSSAIItemExtIEs :: gtype where
  "ProtocolExtensionContainerOverloadStartNSSAIItemExtIEs = StructKind
    [(''List'', ''sizeLB:1,sizeUB:65535'', SliceKind OverloadStartNSSAIItemExtIEs)]"

definition ProtocolExtensionContainerPDUSessionAggregateMaximumBitRateExtIEs :: gtype where
  "ProtocolExtensionContainerPDUSessionAggregateMaximumBitRateExtIEs = StructKind
    [(''List'', ''sizeLB:1,sizeUB:65535'', SliceKind PDUSessionAggregateMaximumBitRateExtIEs)]"

definition ProtocolExtensionContainerPDUSessionResourceAdmittedItemExtIEs :: gtype where
  "ProtocolExtensionContainerPDUSessionResourceAdmittedItemExtIEs = StructKind
    [(''List'', ''sizeLB:1,sizeUB:65535'', SliceKind PDUSessionResourceAdmittedItemExtIEs)]"

definition ProtocolExtensionContainerPDUSessionResourceFailedToModifyItemModCfmExtIEs :: gtype where
  "ProtocolExtensionContainerPDUSessionResourceFailedToModifyItemModCfmExtIEs = StructKind
    [(''List'', ''sizeLB:1,sizeUB:65535'', SliceKind PDUSessionResourceFailedToModifyItemModCfmExtIEs)]"

definition ProtocolExtensionContainerPDUSessionResourceFailedToModifyItemModResExtIEs :: gtype where
  "ProtocolExtensionContainerPDUSessionResourceFailedToModifyItemModResExtIEs = StructKind
    [(''List'', ''sizeLB:1,sizeUB:65535'', SliceKind PDUSessionResourceFailedToModifyItemModResExtIEs)]"

definition ProtocolExtensionContainerPDUSessionResourceFailedToSetupItemCxtFailExtIEs :: gtype where
  "ProtocolExtensionContainerPDUSessionResourceFailedToSetupItemCxtFailExtIEs = StructKind
    [(''List'', ''sizeLB:1,sizeUB:65535'', SliceKind PDUSessionResourceFailedToSetupItemCxtFailExtIEs)]"

definition ProtocolExtensionContainerPDUSessionResourceFailedToSetupItemCxtResExtIEs :: gtype where
  "ProtocolExtensionContainerPDUSessionResourceFailedToSetupItemCxtResExtIEs = StructKind
    [(''List'', ''sizeLB:1,sizeUB:65535'', SliceKind PDUSessionResourceFailedToSetupItemCxtResExtIEs)]"

definition ProtocolExtensionContainerPDUSessionResourceFailedToSetupItemHOAckExtIEs :: gtype where
  "ProtocolExtensionContainerPDUSessionResourceFailedToSetupItemHOAckExtIEs = StructKind
    [(''List'', ''sizeLB:1,sizeUB:65535'', SliceKind PDUSessionResourceFailedToSetupItemHOAckExtIEs)]"

definition ProtocolExtensionContainerPDUSessionResourceFailedToSetupItemPSReqExtIEs :: gtype where
  "ProtocolExtensionContainerPDUSessionResourceFailedToSetupItemPSReqExtIEs = StructKind
    [(''List'', ''sizeLB:1,sizeUB:65535'', SliceKind PDUSessionResourceFailedToSetupItemPSReqExtIEs)]"

definition ProtocolExtensionContainerPDUSessionResourceFailedToSetupItemSUResExtIEs :: gtype where
  "ProtocolExtensionContainerPDUSessionResourceFailedToSetupItemSUResExtIEs = StructKind
    [(''List'', ''sizeLB:1,sizeUB:65535'', SliceKind PDUSessionResourceFailedToSetupItemSUResExtIEs)]"

definition ProtocolExtensionContainerPDUSessionResourceHandoverItemExtIEs :: gtype where
  "ProtocolExtensionContainerPDUSessionResourceHandoverItemExtIEs = StructKind
    [(''List'', ''sizeLB:1,sizeUB:65535'', SliceKind PDUSessionResourceHandoverItemExtIEs)]"

definition ProtocolExtensionContainerPDUSessionResourceInformationItemExtIEs :: gtype where
  "ProtocolExtensionContainerPDUSessionResourceInformationItemExtIEs = StructKind
    [(''List'', ''sizeLB:1,sizeUB:65535'', SliceKind PDUSessionResourceInformationItemExtIEs)]"

definition ProtocolExtensionContainerPDUSessionResourceItemCxtRelCplExtIEs :: gtype where
  "ProtocolExtensionContainerPDUSessionResourceItemCxtRelCplExtIEs = StructKind
    [(''List'', ''sizeLB:1,sizeUB:65535'', SliceKind PDUSessionResourceItemCxtRelCplExtIEs)]"

definition ProtocolExtensionContainerPDUSessionResourceItemCxtRelReqExtIEs :: gtype where
  "ProtocolExtensionContainerPDUSessionResourceItemCxtRelReqExtIEs = StructKind
    [(''List'', ''sizeLB:1,sizeUB:65535'', SliceKind PDUSessionResourceItemCxtRelReqExtIEs)]"

definition ProtocolExtensionContainerPDUSessionResourceItemHORqdExtIEs :: gtype where
  "ProtocolExtensionContainerPDUSessionResourceItemHORqdExtIEs = StructKind
    [(''List'', ''sizeLB:1,sizeUB:65535'', SliceKind PDUSessionResourceItemHORqdExtIEs)]"

definition ProtocolExtensionContainerPDUSessionResourceModifyConfirmTransferExtIEs :: gtype where
  "ProtocolExtensionContainerPDUSessionResourceModifyConfirmTransferExtIEs = StructKind
    [(''List'', ''sizeLB:1,sizeUB:65535'', SliceKind PDUSessionResourceModifyConfirmTransferExtIEs)]"

definition ProtocolExtensionContainerPDUSessionResourceModifyIndicationTransferExtIEs :: gtype where
  "ProtocolExtensionContainerPDUSessionResourceModifyIndicationTransferExtIEs = StructKind
    [(''List'', ''sizeLB:1,sizeUB:65535'', SliceKind PDUSessionResourceModifyIndicationTransferExtIEs)]"

definition ProtocolExtensionContainerPDUSessionResourceModifyIndicationUnsuccessfulTransferExtIEs :: gtype where
  "ProtocolExtensionContainerPDUSessionResourceModifyIndicationUnsuccessfulTransferExtIEs = StructKind
    [(''List'', ''sizeLB:1,sizeUB:65535'', SliceKind PDUSessionResourceModifyIndicationUnsuccessfulTransferExtIEs)]"

definition ProtocolExtensionContainerPDUSessionResourceModifyItemModCfmExtIEs :: gtype where
  "ProtocolExtensionContainerPDUSessionResourceModifyItemModCfmExtIEs = StructKind
    [(''List'', ''sizeLB:1,sizeUB:65535'', SliceKind PDUSessionResourceModifyItemModCfmExtIEs)]"

definition ProtocolExtensionContainerPDUSessionResourceModifyItemModIndExtIEs :: gtype where
  "ProtocolExtensionContainerPDUSessionResourceModifyItemModIndExtIEs = StructKind
    [(''List'', ''sizeLB:1,sizeUB:65535'', SliceKind PDUSessionResourceModifyItemModIndExtIEs)]"

definition ProtocolExtensionContainerPDUSessionResourceModifyItemModReqExtIEs :: gtype where
  "ProtocolExtensionContainerPDUSessionResourceModifyItemModReqExtIEs = StructKind
    [(''List'', ''sizeLB:1,sizeUB:65535'', SliceKind PDUSessionResourceModifyItemModReqExtIEs)]"

definition ProtocolExtensionContainerPDUSessionResourceModifyItemModResExtIEs :: gtype where
  "ProtocolExtensionContainerPDUSessionResourceModifyItemModResExtIEs = StructKind
    [(''List'', ''sizeLB:1,sizeUB:65535'', SliceKind PDUSessionResourceModifyItemModResExtIEs)]"

definition ProtocolExtensionContainerPDUSessionResourceModifyResponseTransferExtIEs :: gtype where
  "ProtocolExtensionContainerPDUSessionResourceModifyResponseTransferExtIEs = StructKind
    [(''List'', ''sizeLB:1,sizeUB:65535'', SliceKind PDUSessionResourceModifyResponseTransferExtIEs)]"

definition ProtocolExtensionContainerPDUSessionResourceModifyUnsuccessfulTransferExtIEs :: gtype where
  "ProtocolExtensionContainerPDUSessionResourceModifyUnsuccessfulTransferExtIEs = StructKind
    [(''List'', ''sizeLB:1,sizeUB:65535'', SliceKind PDUSessionResourceModifyUnsuccessfulTransferExtIEs)]"

definition ProtocolExtensionContainerPDUSessionResourceNotifyItemExtIEs :: gtype where
  "ProtocolExtensionContainerPDUSessionResourceNotifyItemExtIEs = StructKind
    [(''List'', ''sizeLB:1,sizeUB:65535'', SliceKind PDUSessionResourceNotifyItemExtIEs)]"

definition ProtocolExtensionContainerPDUSessionResourceNotifyReleasedTransferExtIEs :: gtype where
  "ProtocolExtensionContainerPDUSessionResourceNotifyReleasedTransferExtIEs = StructKind
    [(''List'', ''sizeLB:1,sizeUB:65535'', SliceKind PDUSessionResourceNotifyReleasedTransferExtIEs)]"

definition ProtocolExtensionContainerPDUSessionResourceNotifyTransferExtIEs :: gtype where
  "ProtocolExtensionContainerPDUSessionResourceNotifyTransferExtIEs = StructKind
    [(''List'', ''sizeLB:1,sizeUB:65535'', SliceKind PDUSessionResourceNotifyTransferExtIEs)]"

definition ProtocolExtensionContainerPDUSessionResourceReleaseCommandTransferExtIEs :: gtype where
  "ProtocolExtensionContainerPDUSessionResourceReleaseCommandTransferExtIEs = StructKind
    [(''List'', ''sizeLB:1,sizeUB:65535'', SliceKind PDUSessionResourceReleaseCommandTransferExtIEs)]"

definition ProtocolExtensionContainerPDUSessionResourceReleaseResponseTransferExtIEs :: gtype where
  "ProtocolExtensionContainerPDUSessionResourceReleaseResponseTransferExtIEs = StructKind
    [(''List'', ''sizeLB:1,sizeUB:65535'', SliceKind PDUSessionResourceReleaseResponseTransferExtIEs)]"

definition ProtocolExtensionContainerPDUSessionResourceReleasedItemNotExtIEs :: gtype where
  "ProtocolExtensionContainerPDUSessionResourceReleasedItemNotExtIEs = StructKind
    [(''List'', ''sizeLB:1,sizeUB:65535'', SliceKind PDUSessionResourceReleasedItemNotExtIEs)]"

definition ProtocolExtensionContainerPDUSessionResourceReleasedItemPSAckExtIEs :: gtype where
  "ProtocolExtensionContainerPDUSessionResourceReleasedItemPSAckExtIEs = StructKind
    [(''List'', ''sizeLB:1,sizeUB:65535'', SliceKind PDUSessionResourceReleasedItemPSAckExtIEs)]"

definition ProtocolExtensionContainerPDUSessionResourceReleasedItemPSFailExtIEs :: gtype where
  "ProtocolExtensionContainerPDUSessionResourceReleasedItemPSFailExtIEs = StructKind
    [(''List'', ''sizeLB:1,sizeUB:65535'', SliceKind PDUSessionResourceReleasedItemPSFailExtIEs)]"

definition ProtocolExtensionContainerPDUSessionResourceReleasedItemRelResExtIEs :: gtype where
  "ProtocolExtensionContainerPDUSessionResourceReleasedItemRelResExtIEs = StructKind
    [(''List'', ''sizeLB:1,sizeUB:65535'', SliceKind PDUSessionResourceReleasedItemRelResExtIEs)]"

definition ProtocolExtensionContainerPDUSessionResourceSetupItemCxtReqExtIEs :: gtype where
  "ProtocolExtensionContainerPDUSessionResourceSetupItemCxtReqExtIEs = StructKind
    [(''List'', ''sizeLB:1,sizeUB:65535'', SliceKind PDUSessionResourceSetupItemCxtReqExtIEs)]"

definition ProtocolExtensionContainerPDUSessionResourceSetupItemCxtResExtIEs :: gtype where
  "ProtocolExtensionContainerPDUSessionResourceSetupItemCxtResExtIEs = StructKind
    [(''List'', ''sizeLB:1,sizeUB:65535'', SliceKind PDUSessionResourceSetupItemCxtResExtIEs)]"

definition ProtocolExtensionContainerPDUSessionResourceSetupItemHOReqExtIEs :: gtype where
  "ProtocolExtensionContainerPDUSessionResourceSetupItemHOReqExtIEs = StructKind
    [(''List'', ''sizeLB:1,sizeUB:65535'', SliceKind PDUSessionResourceSetupItemHOReqExtIEs)]"

definition ProtocolExtensionContainerPDUSessionResourceSetupItemSUReqExtIEs :: gtype where
  "ProtocolExtensionContainerPDUSessionResourceSetupItemSUReqExtIEs = StructKind
    [(''List'', ''sizeLB:1,sizeUB:65535'', SliceKind PDUSessionResourceSetupItemSUReqExtIEs)]"

definition ProtocolExtensionContainerPDUSessionResourceSetupItemSUResExtIEs :: gtype where
  "ProtocolExtensionContainerPDUSessionResourceSetupItemSUResExtIEs = StructKind
    [(''List'', ''sizeLB:1,sizeUB:65535'', SliceKind PDUSessionResourceSetupItemSUResExtIEs)]"

definition ProtocolExtensionContainerPDUSessionResourceSetupResponseTransferExtIEs :: gtype where
  "ProtocolExtensionContainerPDUSessionResourceSetupResponseTransferExtIEs = StructKind
    [(''List'', ''sizeLB:1,sizeUB:65535'', SliceKind PDUSessionResourceSetupResponseTransferExtIEs)]"

definition ProtocolExtensionContainerPDUSessionResourceSetupUnsuccessfulTransferExtIEs :: gtype where
  "ProtocolExtensionContainerPDUSessionResourceSetupUnsuccessfulTransferExtIEs = StructKind
    [(''List'', ''sizeLB:1,sizeUB:65535'', SliceKind PDUSessionResourceSetupUnsuccessfulTransferExtIEs)]"

definition ProtocolExtensionContainerPDUSessionResourceSwitchedItemExtIEs :: gtype where
  "ProtocolExtensionContainerPDUSessionResourceSwitchedItemExtIEs = StructKind
    [(''List'', ''sizeLB:1,sizeUB:65535'', SliceKind PDUSessionResourceSwitchedItemExtIEs)]"

definition ProtocolExtensionContainerPDUSessionResourceToBeSwitchedDLItemExtIEs :: gtype where
  "ProtocolExtensionContainerPDUSessionResourceToBeSwitchedDLItemExtIEs = StructKind
    [(''List'', ''sizeLB:1,sizeUB:65535'', SliceKind PDUSessionResourceToBeSwitchedDLItemExtIEs)]"

definition ProtocolExtensionContainerPDUSessionResourceToReleaseItemHOCmdExtIEs :: gtype where
  "ProtocolExtensionContainerPDUSessionResourceToReleaseItemHOCmdExtIEs = StructKind
    [(''List'', ''sizeLB:1,sizeUB:65535'', SliceKind PDUSessionResourceToReleaseItemHOCmdExtIEs)]"

definition ProtocolExtensionContainerPDUSessionResourceToReleaseItemRelCmdExtIEs :: gtype where
  "ProtocolExtensionContainerPDUSessionResourceToReleaseItemRelCmdExtIEs = StructKind
    [(''List'', ''sizeLB:1,sizeUB:65535'', SliceKind PDUSessionResourceToReleaseItemRelCmdExtIEs)]"

definition ProtocolExtensionContainerPLMNSupportItemExtIEs :: gtype where
  "ProtocolExtensionContainerPLMNSupportItemExtIEs = StructKind
    [(''List'', ''sizeLB:1,sizeUB:65535'', SliceKind PLMNSupportItemExtIEs)]"

definition ProtocolExtensionContainerPacketErrorRateExtIEs :: gtype where
  "ProtocolExtensionContainerPacketErrorRateExtIEs = StructKind
    [(''List'', ''sizeLB:1,sizeUB:65535'', SliceKind PacketErrorRateExtIEs)]"

definition ProtocolExtensionContainerPagingAttemptInformationExtIEs :: gtype where
  "ProtocolExtensionContainerPagingAttemptInformationExtIEs = StructKind
    [(''List'', ''sizeLB:1,sizeUB:65535'', SliceKind PagingAttemptInformationExtIEs)]"

definition ProtocolExtensionContainerPathSwitchRequestAcknowledgeTransferExtIEs :: gtype where
  "ProtocolExtensionContainerPathSwitchRequestAcknowledgeTransferExtIEs = StructKind
    [(''List'', ''sizeLB:1,sizeUB:65535'', SliceKind PathSwitchRequestAcknowledgeTransferExtIEs)]"

definition ProtocolExtensionContainerPathSwitchRequestSetupFailedTransferExtIEs :: gtype where
  "ProtocolExtensionContainerPathSwitchRequestSetupFailedTransferExtIEs = StructKind
    [(''List'', ''sizeLB:1,sizeUB:65535'', SliceKind PathSwitchRequestSetupFailedTransferExtIEs)]"

definition ProtocolExtensionContainerPathSwitchRequestTransferExtIEs :: gtype where
  "ProtocolExtensionContainerPathSwitchRequestTransferExtIEs = StructKind
    [(''List'', ''sizeLB:1,sizeUB:65535'', SliceKind PathSwitchRequestTransferExtIEs)]"

definition ProtocolExtensionContainerPathSwitchRequestUnsuccessfulTransferExtIEs :: gtype where
  "ProtocolExtensionContainerPathSwitchRequestUnsuccessfulTransferExtIEs = StructKind
    [(''List'', ''sizeLB:1,sizeUB:65535'', SliceKind PathSwitchRequestUnsuccessfulTransferExtIEs)]"

definition ProtocolExtensionContainerQosFlowAcceptedItemExtIEs :: gtype where
  "ProtocolExtensionContainerQosFlowAcceptedItemExtIEs = StructKind
    [(''List'', ''sizeLB:1,sizeUB:65535'', SliceKind QosFlowAcceptedItemExtIEs)]"

definition ProtocolExtensionContainerQosFlowAddOrModifyRequestItemExtIEs :: gtype where
  "ProtocolExtensionContainerQosFlowAddOrModifyRequestItemExtIEs = StructKind
    [(''List'', ''sizeLB:1,sizeUB:65535'', SliceKind QosFlowAddOrModifyRequestItemExtIEs)]"

definition ProtocolExtensionContainerQosFlowAddOrModifyResponseItemExtIEs :: gtype where
  "ProtocolExtensionContainerQosFlowAddOrModifyResponseItemExtIEs = StructKind
    [(''List'', ''sizeLB:1,sizeUB:65535'', SliceKind QosFlowAddOrModifyResponseItemExtIEs)]"

definition ProtocolExtensionContainerQosFlowInformationItemExtIEs :: gtype where
  "ProtocolExtensionContainerQosFlowInformationItemExtIEs = StructKind
    [(''List'', ''sizeLB:1,sizeUB:65535'', SliceKind QosFlowInformationItemExtIEs)]"

definition ProtocolExtensionContainerQosFlowItemExtIEs :: gtype where
  "ProtocolExtensionContainerQosFlowItemExtIEs = StructKind
    [(''List'', ''sizeLB:1,sizeUB:65535'', SliceKind QosFlowItemExtIEs)]"

definition ProtocolExtensionContainerQosFlowLevelQosParametersExtIEs :: gtype where
  "ProtocolExtensionContainerQosFlowLevelQosParametersExtIEs = StructKind
    [(''List'', ''sizeLB:1,sizeUB:65535'', SliceKind QosFlowLevelQosParametersExtIEs)]"

definition ProtocolExtensionContainerQosFlowModifyConfirmItemExtIEs :: gtype where
  "ProtocolExtensionContainerQosFlowModifyConfirmItemExtIEs = StructKind
    [(''List'', ''sizeLB:1,sizeUB:65535'', SliceKind QosFlowModifyConfirmItemExtIEs)]"

definition ProtocolExtensionContainerQosFlowNotifyItemExtIEs :: gtype where
  "ProtocolExtensionContainerQosFlowNotifyItemExtIEs = StructKind
    [(''List'', ''sizeLB:1,sizeUB:65535'', SliceKind QosFlowNotifyItemExtIEs)]"

definition ProtocolExtensionContainerQosFlowPerTNLInformationExtIEs :: gtype where
  "ProtocolExtensionContainerQosFlowPerTNLInformationExtIEs = StructKind
    [(''List'', ''sizeLB:1,sizeUB:65535'', SliceKind QosFlowPerTNLInformationExtIEs)]"

definition ProtocolExtensionContainerQosFlowSetupRequestItemExtIEs :: gtype where
  "ProtocolExtensionContainerQosFlowSetupRequestItemExtIEs = StructKind
    [(''List'', ''sizeLB:1,sizeUB:65535'', SliceKind QosFlowSetupRequestItemExtIEs)]"

definition ProtocolExtensionContainerQosFlowSetupResponseItemHOReqAckExtIEs :: gtype where
  "ProtocolExtensionContainerQosFlowSetupResponseItemHOReqAckExtIEs = StructKind
    [(''List'', ''sizeLB:1,sizeUB:65535'', SliceKind QosFlowSetupResponseItemHOReqAckExtIEs)]"

definition ProtocolExtensionContainerQosFlowSetupResponseItemSUResExtIEs :: gtype where
  "ProtocolExtensionContainerQosFlowSetupResponseItemSUResExtIEs = StructKind
    [(''List'', ''sizeLB:1,sizeUB:65535'', SliceKind QosFlowSetupResponseItemSUResExtIEs)]"

definition ProtocolExtensionContainerQosFlowToBeForwardedItemExtIEs :: gtype where
  "ProtocolExtensionContainerQosFlowToBeForwardedItemExtIEs = StructKind
    [(''List'', ''sizeLB:1,sizeUB:65535'', SliceKind QosFlowToBeForwardedItemExtIEs)]"

definition ProtocolExtensionContainerRANStatusTransferTransparentContainerExtIEs :: gtype where
  "ProtocolExtensionContainerRANStatusTransferTransparentContainerExtIEs = StructKind
    [(''List'', ''sizeLB:1,sizeUB:65535'', SliceKind RANStatusTransferTransparentContainerExtIEs)]"

definition ProtocolExtensionContainerRATRestrictionsItemExtIEs :: gtype where
  "ProtocolExtensionContainerRATRestrictionsItemExtIEs = StructKind
    [(''List'', ''sizeLB:1,sizeUB:65535'', SliceKind RATRestrictionsItemExtIEs)]"

definition ProtocolExtensionContainerRecommendedCellItemExtIEs :: gtype where
  "ProtocolExtensionContainerRecommendedCellItemExtIEs = StructKind
    [(''List'', ''sizeLB:1,sizeUB:65535'', SliceKind RecommendedCellItemExtIEs)]"

definition ProtocolExtensionContainerRecommendedCellsForPagingExtIEs :: gtype where
  "ProtocolExtensionContainerRecommendedCellsForPagingExtIEs = StructKind
    [(''List'', ''sizeLB:1,sizeUB:65535'', SliceKind RecommendedCellsForPagingExtIEs)]"

definition ProtocolExtensionContainerRecommendedRANNodeItemExtIEs :: gtype where
  "ProtocolExtensionContainerRecommendedRANNodeItemExtIEs = StructKind
    [(''List'', ''sizeLB:1,sizeUB:65535'', SliceKind RecommendedRANNodeItemExtIEs)]"

definition ProtocolExtensionContainerRecommendedRANNodesForPagingExtIEs :: gtype where
  "ProtocolExtensionContainerRecommendedRANNodesForPagingExtIEs = StructKind
    [(''List'', ''sizeLB:1,sizeUB:65535'', SliceKind RecommendedRANNodesForPagingExtIEs)]"

definition ProtocolExtensionContainerSNSSAIExtIEs :: gtype where
  "ProtocolExtensionContainerSNSSAIExtIEs = StructKind
    [(''List'', ''sizeLB:1,sizeUB:65535'', SliceKind SNSSAIExtIEs)]"

definition ProtocolExtensionContainerSONConfigurationTransferExtIEs :: gtype where
  "ProtocolExtensionContainerSONConfigurationTransferExtIEs = StructKind
    [(''List'', ''sizeLB:1,sizeUB:65535'', SliceKind SONConfigurationTransferExtIEs)]"

definition ProtocolExtensionContainerSONInformationReplyExtIEs :: gtype where
  "ProtocolExtensionContainerSONInformationReplyExtIEs = StructKind
    [(''List'', ''sizeLB:1,sizeUB:65535'', SliceKind SONInformationReplyExtIEs)]"

definition ProtocolExtensionContainerSecurityContextExtIEs :: gtype where
  "ProtocolExtensionContainerSecurityContextExtIEs = StructKind
    [(''List'', ''sizeLB:1,sizeUB:65535'', SliceKind SecurityContextExtIEs)]"

definition ProtocolExtensionContainerSecurityIndicationExtIEs :: gtype where
  "ProtocolExtensionContainerSecurityIndicationExtIEs = StructKind
    [(''List'', ''sizeLB:1,sizeUB:65535'', SliceKind SecurityIndicationExtIEs)]"

definition ProtocolExtensionContainerSecurityResultExtIEs :: gtype where
  "ProtocolExtensionContainerSecurityResultExtIEs = StructKind
    [(''List'', ''sizeLB:1,sizeUB:65535'', SliceKind SecurityResultExtIEs)]"

definition ProtocolExtensionContainerServedGUAMIItemExtIEs :: gtype where
  "ProtocolExtensionContainerServedGUAMIItemExtIEs = StructKind
    [(''List'', ''sizeLB:1,sizeUB:65535'', SliceKind ServedGUAMIItemExtIEs)]"

definition ProtocolExtensionContainerServiceAreaInformationItemExtIEs :: gtype where
  "ProtocolExtensionContainerServiceAreaInformationItemExtIEs = StructKind
    [(''List'', ''sizeLB:1,sizeUB:65535'', SliceKind ServiceAreaInformationItemExtIEs)]"

definition ProtocolExtensionContainerSingleTNLInformationExtIEs :: gtype where
  "ProtocolExtensionContainerSingleTNLInformationExtIEs = StructKind
    [(''List'', ''sizeLB:1,sizeUB:65535'', SliceKind SingleTNLInformationExtIEs)]"

definition ProtocolExtensionContainerSliceOverloadItemExtIEs :: gtype where
  "ProtocolExtensionContainerSliceOverloadItemExtIEs = StructKind
    [(''List'', ''sizeLB:1,sizeUB:65535'', SliceKind SliceOverloadItemExtIEs)]"

definition ProtocolExtensionContainerSliceSupportItemExtIEs :: gtype where
  "ProtocolExtensionContainerSliceSupportItemExtIEs = StructKind
    [(''List'', ''sizeLB:1,sizeUB:65535'', SliceKind SliceSupportItemExtIEs)]"

definition ProtocolExtensionContainerSourceNGRANNodeToTargetNGRANNodeTransparentContainerExtIEs :: gtype where
  "ProtocolExtensionContainerSourceNGRANNodeToTargetNGRANNodeTransparentContainerExtIEs = StructKind
    [(''List'', ''sizeLB:1,sizeUB:65535'', SliceKind SourceNGRANNodeToTargetNGRANNodeTransparentContainerExtIEs)]"

definition ProtocolExtensionContainerSourceRANNodeIDExtIEs :: gtype where
  "ProtocolExtensionContainerSourceRANNodeIDExtIEs = StructKind
    [(''List'', ''sizeLB:1,sizeUB:65535'', SliceKind SourceRANNodeIDExtIEs)]"

definition ProtocolExtensionContainerSupportedTAItemExtIEs :: gtype where
  "ProtocolExtensionContainerSupportedTAItemExtIEs = StructKind
    [(''List'', ''sizeLB:1,sizeUB:65535'', SliceKind SupportedTAItemExtIEs)]"

definition ProtocolExtensionContainerTAIBroadcastEUTRAItemExtIEs :: gtype where
  "ProtocolExtensionContainerTAIBroadcastEUTRAItemExtIEs = StructKind
    [(''List'', ''sizeLB:1,sizeUB:65535'', SliceKind TAIBroadcastEUTRAItemExtIEs)]"

definition ProtocolExtensionContainerTAIBroadcastNRItemExtIEs :: gtype where
  "ProtocolExtensionContainerTAIBroadcastNRItemExtIEs = StructKind
    [(''List'', ''sizeLB:1,sizeUB:65535'', SliceKind TAIBroadcastNRItemExtIEs)]"

definition ProtocolExtensionContainerTAICancelledEUTRAItemExtIEs :: gtype where
  "ProtocolExtensionContainerTAICancelledEUTRAItemExtIEs = StructKind
    [(''List'', ''sizeLB:1,sizeUB:65535'', SliceKind TAICancelledEUTRAItemExtIEs)]"

definition ProtocolExtensionContainerTAICancelledNRItemExtIEs :: gtype where
  "ProtocolExtensionContainerTAICancelledNRItemExtIEs = StructKind
    [(''List'', ''sizeLB:1,sizeUB:65535'', SliceKind TAICancelledNRItemExtIEs)]"

definition ProtocolExtensionContainerTAIExtIEs :: gtype where
  "ProtocolExtensionContainerTAIExtIEs = StructKind
    [(''List'', ''sizeLB:1,sizeUB:65535'', SliceKind TAIExtIEs)]"

definition ProtocolExtensionContainerTAIListForInactiveItemExtIEs :: gtype where
  "ProtocolExtensionContainerTAIListForInactiveItemExtIEs = StructKind
    [(''List'', ''sizeLB:1,sizeUB:65535'', SliceKind TAIListForInactiveItemExtIEs)]"

definition ProtocolExtensionContainerTAIListForPagingItemExtIEs :: gtype where
  "ProtocolExtensionContainerTAIListForPagingItemExtIEs = StructKind
    [(''List'', ''sizeLB:1,sizeUB:65535'', SliceKind TAIListForPagingItemExtIEs)]"

definition ProtocolExtensionContainerTNLAssociationItemExtIEs :: gtype where
  "ProtocolExtensionContainerTNLAssociationItemExtIEs = StructKind
    [(''List'', ''sizeLB:1,sizeUB:65535'', SliceKind TNLAssociationItemExtIEs)]"

definition ProtocolExtensionContainerTNLInformationItemExtIEs :: gtype where
  "ProtocolExtensionContainerTNLInformationItemExtIEs = StructKind
    [(''List'', ''sizeLB:1,sizeUB:65535'', SliceKind TNLInformationItemExtIEs)]"

definition ProtocolExtensionContainerTNLMappingItemExtIEs :: gtype where
  "ProtocolExtensionContainerTNLMappingItemExtIEs = StructKind
    [(''List'', ''sizeLB:1,sizeUB:65535'', SliceKind TNLMappingItemExtIEs)]"

definition ProtocolExtensionContainerTargetNGRANNodeToSourceNGRANNodeTransparentContainerExtIEs :: gtype where
  "ProtocolExtensionContainerTargetNGRANNodeToSourceNGRANNodeTransparentContainerExtIEs = StructKind
    [(''List'', ''sizeLB:1,sizeUB:65535'', SliceKind TargetNGRANNodeToSourceNGRANNodeTransparentContainerExtIEs)]"

definition ProtocolExtensionContainerTargetRANNodeIDExtIEs :: gtype where
  "ProtocolExtensionContainerTargetRANNodeIDExtIEs = StructKind
    [(''List'', ''sizeLB:1,sizeUB:65535'', SliceKind TargetRANNodeIDExtIEs)]"

definition ProtocolExtensionContainerTargeteNBIDExtIEs :: gtype where
  "ProtocolExtensionContainerTargeteNBIDExtIEs = StructKind
    [(''List'', ''sizeLB:1,sizeUB:65535'', SliceKind TargeteNBIDExtIEs)]"

definition ProtocolExtensionContainerTraceActivationExtIEs :: gtype where
  "ProtocolExtensionContainerTraceActivationExtIEs = StructKind
    [(''List'', ''sizeLB:1,sizeUB:65535'', SliceKind TraceActivationExtIEs)]"

definition ProtocolExtensionContainerUEAggregateMaximumBitRateExtIEs :: gtype where
  "ProtocolExtensionContainerUEAggregateMaximumBitRateExtIEs = StructKind
    [(''List'', ''sizeLB:1,sizeUB:65535'', SliceKind UEAggregateMaximumBitRateExtIEs)]"

definition ProtocolExtensionContainerUEAssociatedLogicalNGConnectionItemExtIEs :: gtype where
  "ProtocolExtensionContainerUEAssociatedLogicalNGConnectionItemExtIEs = StructKind
    [(''List'', ''sizeLB:1,sizeUB:65535'', SliceKind UEAssociatedLogicalNGConnectionItemExtIEs)]"

definition ProtocolExtensionContainerUENGAPIDPairExtIEs :: gtype where
  "ProtocolExtensionContainerUENGAPIDPairExtIEs = StructKind
    [(''List'', ''sizeLB:1,sizeUB:65535'', SliceKind UENGAPIDPairExtIEs)]"

definition ProtocolExtensionContainerUEPresenceInAreaOfInterestItemExtIEs :: gtype where
  "ProtocolExtensionContainerUEPresenceInAreaOfInterestItemExtIEs = StructKind
    [(''List'', ''sizeLB:1,sizeUB:65535'', SliceKind UEPresenceInAreaOfInterestItemExtIEs)]"

definition ProtocolExtensionContainerUERadioCapabilityForPagingExtIEs :: gtype where
  "ProtocolExtensionContainerUERadioCapabilityForPagingExtIEs = StructKind
    [(''List'', ''sizeLB:1,sizeUB:65535'', SliceKind UERadioCapabilityForPagingExtIEs)]"

definition ProtocolExtensionContainerUESecurityCapabilitiesExtIEs :: gtype where
  "ProtocolExtensionContainerUESecurityCapabilitiesExtIEs = StructKind
    [(''List'', ''sizeLB:1,sizeUB:65535'', SliceKind UESecurityCapabilitiesExtIEs)]"

definition ProtocolExtensionContainerULNGUUPTNLModifyItemExtIEs :: gtype where
  "ProtocolExtensionContainerULNGUUPTNLModifyItemExtIEs = StructKind
    [(''List'', ''sizeLB:1,sizeUB:65535'', SliceKind ULNGUUPTNLModifyItemExtIEs)]"

definition ProtocolExtensionContainerUnavailableGUAMIItemExtIEs :: gtype where
  "ProtocolExtensionContainerUnavailableGUAMIItemExtIEs = StructKind
    [(''List'', ''sizeLB:1,sizeUB:65535'', SliceKind UnavailableGUAMIItemExtIEs)]"

definition ProtocolExtensionContainerUserLocationInformationEUTRAExtIEs :: gtype where
  "ProtocolExtensionContainerUserLocationInformationEUTRAExtIEs = StructKind
    [(''List'', ''sizeLB:1,sizeUB:65535'', SliceKind UserLocationInformationEUTRAExtIEs)]"

definition ProtocolExtensionContainerUserLocationInformationN3IWFExtIEs :: gtype where
  "ProtocolExtensionContainerUserLocationInformationN3IWFExtIEs = StructKind
    [(''List'', ''sizeLB:1,sizeUB:65535'', SliceKind UserLocationInformationN3IWFExtIEs)]"

definition ProtocolExtensionContainerUserLocationInformationNRExtIEs :: gtype where
  "ProtocolExtensionContainerUserLocationInformationNRExtIEs = StructKind
    [(''List'', ''sizeLB:1,sizeUB:65535'', SliceKind UserLocationInformationNRExtIEs)]"

definition ProtocolExtensionContainerUserPlaneSecurityInformationExtIEs :: gtype where
  "ProtocolExtensionContainerUserPlaneSecurityInformationExtIEs = StructKind
    [(''List'', ''sizeLB:1,sizeUB:65535'', SliceKind UserPlaneSecurityInformationExtIEs)]"

definition ProtocolExtensionContainerXnExtTLAItemExtIEs :: gtype where
  "ProtocolExtensionContainerXnExtTLAItemExtIEs = StructKind
    [(''List'', ''sizeLB:1,sizeUB:65535'', SliceKind XnExtTLAItemExtIEs)]"

definition ProtocolExtensionContainerXnTNLConfigurationInfoExtIEs :: gtype where
  "ProtocolExtensionContainerXnTNLConfigurationInfoExtIEs = StructKind
    [(''List'', ''sizeLB:1,sizeUB:65535'', SliceKind XnTNLConfigurationInfoExtIEs)]"

definition ProtocolIEContainerOverloadStopIEs :: gtype where
  "ProtocolIEContainerOverloadStopIEs = StructKind
    [(''List'', ''sizeLB:0,sizeUB:65535'', SliceKind OverloadStopIEs)]"

definition TraceFailureIndicationIEsValue :: gtype where
  "TraceFailureIndicationIEsValue = StructKind
    [(''Present'', '''', IntKind 64),
     (''AMFUENGAPID'', ''referenceFieldValue:10'', PtrKind AMFUENGAPID),
     (''RANUENGAPID'', ''referenceFieldValue:85'', PtrKind RANUENGAPID),
     (''NGRANTraceID'', ''referenceFieldValue:44'', PtrKind NGRANTraceID),
     (''Cause'', ''referenceFieldValue:15,valueLB:0,valueUB:5'', PtrKind Cause)]"

definition UERadioCapabilityCheckRequestIEs :: gtype where
  "UERadioCapabilityCheckRequestIEs = StructKind
    [(''Id'', '''', ProtocolIEID),
     (''Criticality'', '''', Criticality),
     (''Value'', ''openType,referenceFieldName:Id'', UERadioCapabilityCheckRequestIEsValue)]"

definition UETNLABindingReleaseRequestIEs :: gtype where
  "UETNLABindingReleaseRequestIEs = StructKind
    [(''Id'', '''', ProtocolIEID),
     (''Criticality'', '''', Criticality),
     (''Value'', ''openType,referenceFieldName:Id'', UETNLABindingReleaseRequestIEsValue)]"

definition UplinkNonUEAssociatedNRPPaTransportIEs :: gtype where
  "UplinkNonUEAssociatedNRPPaTransportIEs = StructKind
    [(''Id'', '''', ProtocolIEID),
     (''Criticality'', '''', Criticality),
     (''Value'', ''openType,referenceFieldName:Id'', UplinkNonUEAssociatedNRPPaTransportIEsValue)]"

definition UplinkUEAssociatedNRPPaTransportIEs :: gtype where
  "UplinkUEAssociatedNRPPaTransportIEs = StructKind
    [(''Id'', '''', ProtocolIEID),
     (''Criticality'', '''', Criticality),
     (''Value'', ''openType,referenceFieldName:Id'', UplinkUEAssociatedNRPPaTransportIEsValue)]"

end
