(* ===== verification/NGAP_Structures.thy ===== *)
theory NGAP_Structures
  imports NGAP_Elements
begin

text \<open>
  The NGAP types of \<^verbatim>\<open>lib/ngap/ngapType\<close> built from other types: items, lists and their extension fields.
\<close>

definition AMFTNLAssociationSetupItem :: gtype where
  "AMFTNLAssociationSetupItem = StructKind
    [(''AMFTNLAssociationAddress'', ''valueLB:0,valueUB:1'', CPTransportLayerInformation),
     (''IEExtensions'', ''optional'', PtrKind ProtocolExtensionContainerAMFTNLAssociationSetupItemExtIEs)]"

definition AMFTNLAssociationToAddItem :: gtype where
  "AMFTNLAssociationToAddItem = StructKind
    [(''AMFTNLAssociationAddress'', ''valueLB:0,valueUB:1'', CPTransportLayerInformation),
     (''TNLAssociationUsage'', ''optional'', PtrKind TNLAssociationUsage),
     (''TNLAddressWeightFactor'', '''', TNLAddressWeightFactor),
     (''IEExtensions'', ''optional'', PtrKind ProtocolExtensionContainerAMFTNLAssociationToAddItemExtIEs)]"

definition AMFTNLAssociationToRemoveItem :: gtype where
  "AMFTNLAssociationToRemoveItem = StructKind
    [(''AMFTNLAssociationAddress'', ''valueLB:0,valueUB:1'', CPTransportLayerInformation),
     (''IEExtensions'', ''optional'', PtrKind ProtocolExtensionContainerAMFTNLAssociationToRemoveItemExtIEs)]"

definition AMFTNLAssociationToUpdateItem :: gtype where
  "AMFTNLAssociationToUpdateItem = StructKind
    [(''AMFTNLAssociationAddress'', ''valueLB:0,valueUB:1'', CPTransportLayerInformation),
     (''TNLAssociationUsage'', ''optional'', PtrKind TNLAssociationUsage),
     (''TNLAddressWeightFactor'', ''optional'', PtrKind TNLAddressWeightFactor),
     (''IEExtensions'', ''optional'', PtrKind ProtocolExtensionContainerAMFTNLAssociationToUpdateItemExtIEs)]"

definition AllocationAndRetentionPriority :: gtype where
  "AllocationAndRetentionPriority = StructKind
    [(''PriorityLevelARP'', '''', PriorityLevelARP),
     (''PreEmptionCapability'', '''', PreEmptionCapability),
     (''PreEmptionVulnerability'', '''', PreEmptionVulnerability),
     (''IEExtensions'', ''optional'', PtrKind ProtocolExtensionContainerAllocationAndRetentionPriorityExtIEs)]"

definition AssociatedQosFlowItem :: gtype where
  "AssociatedQosFlowItem = StructKind
    [(''QosFlowIdentifier'', '''', QosFlowIdentifier),
     (''QosFlowMappingIndication'', ''optional'', PtrKind EnumeratedType),
     (''IEExtensions'', ''optional'', PtrKind ProtocolExtensionContainerAssociatedQosFlowItemExtIEs)]"

definition COUNTValueForPDCPSN12 :: gtype where
  "COUNTValueForPDCPSN12 = StructKind
    [(''PDCPSN12'', ''valueLB:0,valueUB:4095'', IntKind 64),
     (''HFNPDCPSN12'', ''valueLB:0,valueUB:1048575'', IntKind 64),
     (''IEExtensions'', ''optional'', PtrKind ProtocolExtensionContainerCOUNTValueForPDCPSN12ExtIEs)]"

definition COUNTValueForPDCPSN18 :: gtype where
  "COUNTValueForPDCPSN18 = StructKind
    [(''PDCPSN18'', ''valueLB:0,valueUB:262143'', IntKind 64),
     (''HFNPDCPSN18'', ''valueLB:0,valueUB:16383'', IntKind 64),
     (''IEExtensions'', ''optional'', PtrKind ProtocolExtensionContainerCOUNTValueForPDCPSN18ExtIEs)]"

definition CellType :: gtype where
  "CellType = StructKind
    [(''CellSize'', '''', CellSize),
     (''IEExtensions'', ''optional'', PtrKind ProtocolExtensionContainerCellTypeExtIEs)]"

definition CriticalityDiagnosticsIEItem :: gtype where
  "CriticalityDiagnosticsIEItem = StructKind
    [(''IECriticality'', '''', Criticality),
     (''IEID'', '''', ProtocolIEID),
     (''TypeOfError'', '''', TypeOfError),
     (''IEExtensions'', ''optional'', PtrKind ProtocolExtensionContainerCriticalityDiagnosticsIEItemExtIEs)]"

definition EPSTAI :: gtype where
  "EPSTAI = StructKind
    [(''PLMNIdentity'', '''', PLMNIdentity),
     (''EPSTAC'', '''', EPSTAC),
     (''IEExtensions'', ''optional'', PtrKind ProtocolExtensionContainerEPSTAIExtIEs)]"

definition ERABInformationItem :: gtype where
  "ERABInformationItem = StructKind
    [(''ERABID'', '''', ERABID),
     (''DLForwarding'', ''optional'', PtrKind DLForwarding),
     (''IEExtensions'', ''optional'', PtrKind ProtocolExtensionContainerERABInformationItemExtIEs)]"

definition EUTRACGI :: gtype where
  "EUTRACGI = StructKind
    [(''PLMNIdentity'', '''', PLMNIdentity),
     (''EUTRACellIdentity'', '''', EUTRACellIdentity),
     (''IEExtensions'', ''optional'', PtrKind ProtocolExtensionContainerEUTRACGIExtIEs)]"

definition EmergencyFallbackIndicator :: gtype where
  "EmergencyFallbackIndicator = StructKind
    [(''EmergencyFallbackRequestIndicator'', '''', EmergencyFallbackRequestIndicator),
     (''EmergencyServiceTargetCN'', ''optional'', PtrKind EmergencyServiceTargetCN),
     (''IEExtensions'', ''optional'', PtrKind ProtocolExtensionContainerEmergencyFallbackIndicatorExtIEs)]"

definition ExpectedUEActivityBehaviour :: gtype where
  "ExpectedUEActivityBehaviour = StructKind
    [(''ExpectedActivityPeriod'', ''optional'', PtrKind ExpectedActivityPeriod),
     (''ExpectedIdlePeriod'', ''optional'', PtrKind ExpectedIdlePeriod),
     (''SourceOfUEActivityBehaviourInformation'', ''optional'', PtrKind SourceOfUEActivityBehaviourInformation),
     (''IEExtensions'', ''optional'', PtrKind ProtocolExtensionContainerExpectedUEActivityBehaviourExtIEs)]"

definition FiveGSTMSI :: gtype where
  "FiveGSTMSI = StructKind
    [(''AMFSetID'', '''', AMFSetID),
     (''AMFPointer'', '''', AMFPointer),
     (''FiveGTMSI'', '''', FiveGTMSI),
     (''IEExtensions'', ''optional'', PtrKind ProtocolExtensionContainerFiveGSTMSIExtIEs)]"

definition ForbiddenAreaInformationItem :: gtype where
  "ForbiddenAreaInformationItem = StructKind
    [(''PLMNIdentity'', '''', PLMNIdentity),
     (''ForbiddenTACs'', '''', ForbiddenTACs),
     (''IEExtensions'', ''optional'', PtrKind ProtocolExtensionContainerForbiddenAreaInformationItemExtIEs)]"

definition GBRQosInformation :: gtype where
  "GBRQosInformation = StructKind
    [(''MaximumFlowBitRateDL'', '''', BitRate),
     (''MaximumFlowBitRateUL'', '''', BitRate),
     (''GuaranteedFlowBitRateDL'', '''', BitRate),
     (''GuaranteedFlowBitRateUL'', '''', BitRate),
     (''NotificationControl'', ''optional'', PtrKind NotificationControl),
     (''MaximumPacketLossRateDL'', ''optional'', PtrKind PacketLossRate),
     (''MaximumPacketLossRateUL'', ''optional'', PtrKind PacketLossRate),
     (''IEExtensions'', ''optional'', PtrKind ProtocolExtensionContainerGBRQosInformationExtIEs)]"

definition GTPTunnel :: gtype where
  "GTPTunnel = StructKind
    [(''TransportLayerAddress'', '''', TransportLayerAddress),
     (''GTPTEID'', '''', GTPTEID),
     (''IEExtensions'', ''optional'', PtrKind ProtocolExtensionContainerGTPTunnelExtIEs)]"

definition GUAMI :: gtype where
  "GUAMI = StructKind
    [(''PLMNIdentity'', '''', PLMNIdentity),
     (''AMFRegionID'', '''', AMFRegionID),
     (''AMFSetID'', '''', AMFSetID),
     (''AMFPointer'', '''', AMFPointer),
     (''IEExtensions'', ''optional'', PtrKind ProtocolExtensionContainerGUAMIExtIEs)]"

definition GlobalGNBID :: gtype where
  "GlobalGNBID = StructKind
    [(''PLMNIdentity'', '''', PLMNIdentity),
     (''GNBID'', ''valueLB:0,valueUB:1'', GNBID),
     (''IEExtensions'', ''optional'', PtrKind ProtocolExtensionContainerGlobalGNBIDExtIEs)]"

definition GlobalN3IWFID :: gtype where
  "GlobalN3IWFID = StructKind
    [(''PLMNIdentity'', '''', PLMNIdentity),
     (''N3IWFID'', ''valueLB:0,valueUB:1'', N3IWFID),
     (''IEExtensions'', ''optional'', PtrKind ProtocolExtensionContainerGlobalN3IWFIDExtIEs)]"

definition GlobalNgENBID :: gtype where
  "GlobalNgENBID = StructKind
    [(''PLMNIdentity'', '''', PLMNIdentity),
     (''NgENBID'', ''valueLB:0,valueUB:3'', NgENBID),
     (''IEExtensions'', ''optional'', PtrKind ProtocolExtensionContainerGlobalNgENBIDExtIEs)]"

definition HandoverCancelIEs :: gtype where
  "HandoverCancelIEs = StructKind
    [(''Id'', '''', ProtocolIEID),
     (''Criticality'', '''', Criticality),
     (''Value'', ''openType,referenceFieldName:Id'', HandoverCancelIEsValue)]"

definition HandoverPreparationUnsuccessfulTransfer :: gtype where
  "HandoverPreparationUnsuccessfulTransfer = StructKind
    [(''Cause'', ''valueLB:0,valueUB:5'', Cause),
     (''IEExtensions'', ''optional'', PtrKind ProtocolExtensionContainerHandoverPreparationUnsuccessfulTransferExtIEs)]"

definition HandoverRequiredTransfer :: gtype where
  "HandoverRequiredTransfer = StructKind
    [(''DirectForwardingPathAvailability'', ''optional'', PtrKind DirectForwardingPathAvailability),
     (''IEExtensions'', ''optional'', PtrKind ProtocolExtensionContainerHandoverRequiredTransferExtIEs)]"

definition LocationReportingFailureIndicationIEs :: gtype where
  "LocationReportingFailureIndicationIEs = StructKind
    [(''Id'', '''', ProtocolIEID),
     (''Criticality'', '''', Criticality),
     (''Value'', ''openType,referenceFieldName:Id'', LocationReportingFailureIndicationIEsValue)]"

definition NASNonDeliveryIndicationIEs :: gtype where
  "NASNonDeliveryIndicationIEs = StructKind
    [(''Id'', '''', ProtocolIEID),
     (''Criticality'', '''', Criticality),
     (''Value'', ''openType,referenceFieldName:Id'', NASNonDeliveryIndicationIEsValue)]"

definition NRCGI :: gtype where
  "NRCGI = StructKind
    [(''PLMNIdentity'', '''', PLMNIdentity),
     (''NRCellIdentity'', '''', NRCellIdentity),
     (''IEExtensions'', ''optional'', PtrKind ProtocolExtensionContainerNRCGIExtIEs)]"

definition NonDynamic5QIDescriptor :: gtype where
  "NonDynamic5QIDescriptor = StructKind
    [(''FiveQI'', '''', FiveQI),
     (''PriorityLevelQos'', ''optional'', PtrKind PriorityLevelQos),
     (''AveragingWindow'', ''optional'', PtrKind AveragingWindow),
     (''MaximumDataBurstVolume'', ''optional'', PtrKind MaximumDataBurstVolume),
     (''IEExtensions'', ''optional'', PtrKind ProtocolExtensionContainerNonDynamic5QIDescriptorExtIEs)]"

definition OverloadStop :: gtype where
  "OverloadStop = StructKind
    [(''ProtocolIEs'', '''', ProtocolIEContainerOverloadStopIEs)]"

definition PDUSessionAggregateMaximumBitRate :: gtype where
  "PDUSessionAggregateMaximumBitRate = StructKind
    [(''PDUSessionAggregateMaximumBitRateDL'', '''', BitRate),
     (''PDUSessionAggregateMaximumBitRateUL'', '''', BitRate),
     (''IEExtensions'', ''optional'', PtrKind ProtocolExtensionContainerPDUSessionAggregateMaximumBitRateExtIEs)]"

definition PDUSessionResourceAdmittedItem :: gtype where
  "PDUSessionResourceAdmittedItem = StructKind
    [(''PDUSessionID'', '''', PDUSessionID),
     (''HandoverRequestAcknowledgeTransfer'', '''', OctetStringType),
     (''IEExtensions'', ''optional'', PtrKind ProtocolExtensionContainerPDUSessionResourceAdmittedItemExtIEs)]"

definition PDUSessionResourceFailedToModifyItemModCfm :: gtype where
  "PDUSessionResourceFailedToModifyItemModCfm = StructKind
    [(''PDUSessionID'', '''', PDUSessionID),
     (''PDUSessionResourceModifyIndicationUnsuccessfulTransfer'', '''', OctetStringType),
     (''IEExtensions'', ''optional'', PtrKind ProtocolExtensionContainerPDUSessionResourceFailedToModifyItemModCfmExtIEs)]"

definition PDUSessionResourceFailedToModifyItemModRes :: gtype where
  "PDUSessionResourceFailedToModifyItemModRes = StructKind
    [(''PDUSessionID'', '''', PDUSessionID),
     (''PDUSessionResourceModifyUnsuccessfulTransfer'', '''', OctetStringType),
     (''IEExtensions'', ''optional'', PtrKind ProtocolExtensionContainerPDUSessionResourceFailedToModifyItemModResExtIEs)]"

definition PDUSessionResourceFailedToSetupItemCxtFail :: gtype where
  "PDUSessionResourceFailedToSetupItemCxtFail = StructKind
    [(''PDUSessionID'', '''', PDUSessionID),
     (''PDUSessionResourceSetupUnsuccessfulTransfer'', '''', OctetStringType),
     (''IEExtensions'', ''optional'', PtrKind ProtocolExtensionContainerPDUSessionResourceFailedToSetupItemCxtFailExtIEs)]"

definition PDUSessionResourceFailedToSetupItemCxtRes :: gtype where
  "PDUSessionResourceFailedToSetupItemCxtRes = StructKind
    [(''PDUSessionID'', '''', PDUSessionID),
     (''PDUSessionResourceSetupUnsuccessfulTransfer'', '''', OctetStringType),
     (''IEExtensions'', ''optional'', PtrKind ProtocolExtensionContainerPDUSessionResourceFailedToSetupItemCxtResExtIEs)]"

definition PDUSessionResourceFailedToSetupItemHOAck :: gtype where
  "PDUSessionResourceFailedToSetupItemHOAck = StructKind
    [(''PDUSessionID'', '''', PDUSessionID),
     (''HandoverResourceAllocationUnsuccessfulTransfer'', '''', OctetStringType),
     (''IEExtensions'', ''optional'', PtrKind ProtocolExtensionContainerPDUSessionResourceFailedToSetupItemHOAckExtIEs)]"

definition PDUSessionResourceFailedToSetupItemPSReq :: gtype where
  "PDUSessionResourceFailedToSetupItemPSReq = StructKind
    [(''PDUSessionID'', '''', PDUSessionID),
     (''PathSwitchRequestSetupFailedTransfer'', '''', OctetStringType),
     (''IEExtensions'', ''optional'', PtrKind ProtocolExtensionContainerPDUSessionResourceFailedToSetupItemPSReqExtIEs)]"

definition PDUSessionResourceFailedToSetupItemSURes :: gtype where
  "PDUSessionResourceFailedToSetupItemSURes = StructKind
    [(''PDUSessionID'', '''', PDUSessionID),
     (''PDUSessionResourceSetupUnsuccessfulTransfer'', '''', OctetStringType),
     (''IEExtensions'', ''optional'', PtrKind ProtocolExtensionContainerPDUSessionResourceFailedToSetupItemSUResExtIEs)]"

definition PDUSessionResourceHandoverItem :: gtype where
  "PDUSessionResourceHandoverItem = StructKind
    [(''PDUSessionID'', '''', PDUSessionID),
     (''HandoverCommandTransfer'', '''', OctetStringType),
     (''IEExtensions'', ''optional'', PtrKind ProtocolExtensionContainerPDUSessionResourceHandoverItemExtIEs)]"

definition PDUSessionResourceItemCxtRelCpl :: gtype where
  "PDUSessionResourceItemCxtRelCpl = StructKind
    [(''PDUSessionID'', '''', PDUSessionID),
     (''IEExtensions'', ''optional'', PtrKind ProtocolExtensionContainerPDUSessionResourceItemCxtRelCplExtIEs)]"

definition PDUSessionResourceItemCxtRelReq :: gtype where
  "PDUSessionResourceItemCxtRelReq = StructKind
    [(''PDUSessionID'', '''', PDUSessionID),
     (''IEExtensions'', ''optional'', PtrKind ProtocolExtensionContainerPDUSessionResourceItemCxtRelReqExtIEs)]"

definition PDUSessionResourceItemHORqd :: gtype where
  "PDUSessionResourceItemHORqd = StructKind
    [(''PDUSessionID'', '''', PDUSessionID),
     (''HandoverRequiredTransfer'', '''', OctetStringType),
     (''IEExtensions'', ''optional'', PtrKind ProtocolExtensionContainerPDUSessionResourceItemHORqdExtIEs)]"

definition PDUSessionResourceModifyIndicationUnsuccessfulTransfer :: gtype where
  "PDUSessionResourceModifyIndicationUnsuccessfulTransfer = StructKind
    [(''Cause'', ''valueLB:0,valueUB:5'', Cause),
     (''IEExtensions'', ''optional'', PtrKind ProtocolExtensionContainerPDUSessionResourceModifyIndicationUnsuccessfulTransferExtIEs)]"

definition PDUSessionResourceModifyItemModCfm :: gtype where
  "PDUSessionResourceModifyItemModCfm = StructKind
    [(''PDUSessionID'', '''', PDUSessionID),
     (''PDUSessionResourceModifyConfirmTransfer'', '''', OctetStringType),
     (''IEExtensions'', ''optional'', PtrKind ProtocolExtensionContainerPDUSessionResourceModifyItemModCfmExtIEs)]"

definition PDUSessionResourceModifyItemModInd :: gtype where
  "PDUSessionResourceModifyItemModInd = StructKind
    [(''PDUSessionID'', '''', PDUSessionID),
     (''PDUSessionResourceModifyIndicationTransfer'', '''', OctetStringType),
     (''IEExtensions'', ''optional'', PtrKind ProtocolExtensionContainerPDUSessionResourceModifyItemModIndExtIEs)]"

definition PDUSessionResourceModifyItemModReq :: gtype where
  "PDUSessionResourceModifyItemModReq = StructKind
    [(''PDUSessionID'', '''', PDUSessionID),
     (''NASPDU'', ''optional'', PtrKind NASPDU),
     (''PDUSessionResourceModifyRequestTransfer'', '''', OctetStringType),
     (''IEExtensions'', ''optional'', PtrKind ProtocolExtensionContainerPDUSessionResourceModifyItemModReqExtIEs)]"

definition PDUSessionResourceModifyItemModRes :: gtype where
  "PDUSessionResourceModifyItemModRes = StructKind
    [(''PDUSessionID'', '''', PDUSessionID),
     (''PDUSessionResourceModifyResponseTransfer'', ''optional'', PtrKind OctetStringType),
     (''IEExtensions'', ''optional'', PtrKind ProtocolExtensionContainerPDUSessionResourceModifyItemModResExtIEs)]"

definition PDUSessionResourceNotifyItem :: gtype where
  "PDUSessionResourceNotifyItem = StructKind
    [(''PDUSessionID'', '''', PDUSessionID),
     (''PDUSessionResourceNotifyTransfer'', '''', OctetStringType),
     (''IEExtensions'', ''optional'', PtrKind ProtocolExtensionContainerPDUSessionResourceNotifyItemExtIEs)]"

definition PDUSessionResourceNotifyReleasedTransfer :: gtype where
  "PDUSessionResourceNotifyReleasedTransfer = StructKind
    [(''Cause'', ''valueLB:0,valueUB:5'', Cause),
     (''IEExtensions'', ''optional'', PtrKind ProtocolExtensionContainerPDUSessionResourceNotifyReleasedTransferExtIEs)]"

definition PDUSessionResourceReleaseCommandTransfer :: gtype where
  "PDUSessionResourceReleaseCommandTransfer = StructKind
    [(''Cause'', ''valueLB:0,valueUB:5'', Cause),
     (''IEExtensions'', ''optional'', PtrKind ProtocolExtensionContainerPDUSessionResourceReleaseCommandTransferExtIEs)]"

definition PDUSessionResourceReleaseResponseTransfer :: gtype where
  "PDUSessionResourceReleaseResponseTransfer = StructKind
    [(''IEExtensions'', ''optional'', PtrKind ProtocolExtensionContainerPDUSessionResourceReleaseResponseTransferExtIEs)]"

definition PDUSessionResourceReleasedItemNot :: gtype where
  "PDUSessionResourceReleasedItemNot = StructKind
    [(''PDUSessionID'', '''', PDUSessionID),
     (''PDUSessionResourceNotifyReleasedTransfer'', '''', OctetStringType),
     (''IEExtensions'', ''optional'', PtrKind ProtocolExtensionContainerPDUSessionResourceReleasedItemNotExtIEs)]"

definition PDUSessionResourceReleasedItemPSAck :: gtype where
  "PDUSessionResourceReleasedItemPSAck = StructKind
    [(''PDUSessionID'', '''', PDUSessionID),
     (''PathSwitchRequestUnsuccessfulTransfer'', '''', OctetStringType),
     (''IEExtensions'', ''optional'', PtrKind ProtocolExtensionContainerPDUSessionResourceReleasedItemPSAckExtIEs)]"

definition PDUSessionResourceReleasedItemPSFail :: gtype where
  "PDUSessionResourceReleasedItemPSFail = StructKind
    [(''PDUSessionID'', '''', PDUSessionID),
     (''PathSwitchRequestUnsuccessfulTransfer'', '''', OctetStringType),
     (''IEExtensions'', ''optional'', PtrKind ProtocolExtensionContainerPDUSessionResourceReleasedItemPSFailExtIEs)]"

definition PDUSessionResourceReleasedItemRelRes :: gtype where
  "PDUSessionResourceReleasedItemRelRes = StructKind
    [(''PDUSessionID'', '''', PDUSessionID),
     (''PDUSessionResourceReleaseResponseTransfer'', '''', OctetStringType),
     (''IEExtensions'', ''optional'', PtrKind ProtocolExtensionContainerPDUSessionResourceReleasedItemRelResExtIEs)]"

definition PDUSessionResourceSetupItemCxtRes :: gtype where
  "PDUSessionResourceSetupItemCxtRes = StructKind
    [(''PDUSessionID'', '''', PDUSessionID),
     (''PDUSessionResourceSetupResponseTransfer'', '''', OctetStringType),
     (''IEExtensions'', ''optional'', PtrKind ProtocolExtensionContainerPDUSessionResourceSetupItemCxtResExtIEs)]"

definition PDUSessionResourceSetupItemSURes :: gtype where
  "PDUSessionResourceSetupItemSURes = StructKind
    [(''PDUSessionID'', '''', PDUSessionID),
     (''PDUSessionResourceSetupResponseTransfer'', '''', OctetStringType),
     (''IEExtensions'', ''optional'', PtrKind ProtocolExtensionContainerPDUSessionResourceSetupItemSUResExtIEs)]"

definition PDUSessionResourceSwitchedItem :: gtype where
  "PDUSessionResourceSwitchedItem = StructKind
    [(''PDUSessionID'', '''', PDUSessionID),
     (''PathSwitchRequestAcknowledgeTransfer'', '''', OctetStringType),
     (''IEExtensions'', ''optional'', PtrKind ProtocolExtensionContainerPDUSessionResourceSwitchedItemExtIEs)]"

definition PDUSessionResourceToBeSwitchedDLItem :: gtype where
  "PDUSessionResourceToBeSwitchedDLItem = StructKind
    [(''PDUSessionID'', '''', PDUSessionID),
     (''PathSwitchRequestTransfer'', '''', OctetStringType),
     (''IEExtensions'', ''optional'', PtrKind ProtocolExtensionContainerPDUSessionResourceToBeSwitchedDLItemExtIEs)]"

definition PDUSessionResourceToReleaseItemHOCmd :: gtype where
  "PDUSessionResourceToReleaseItemHOCmd = StructKind
    [(''PDUSessionID'', '''', PDUSessionID),
     (''HandoverPreparationUnsuccessfulTransfer'', '''', OctetStringType),
     (''IEExtensions'', ''optional'', PtrKind ProtocolExtensionContainerPDUSessionResourceToReleaseItemHOCmdExtIEs)]"

definition PDUSessionResourceToReleaseItemRelCmd :: gtype where
  "PDUSessionResourceToReleaseItemRelCmd = StructKind
    [(''PDUSessionID'', '''', PDUSessionID),
     (''PDUSessionResourceReleaseCommandTransfer'', '''', OctetStringType),
     (''IEExtensions'', ''optional'', PtrKind ProtocolExtensionContainerPDUSessionResourceToReleaseItemRelCmdExtIEs)]"

definition PacketErrorRate :: gtype where
  "PacketErrorRate = StructKind
    [(''PERScalar'', ''valueExt,valueLB:0,valueUB:9'', IntKind 64),
     (''PERExponent'', ''valueExt,valueLB:0,valueUB:9'', IntKind 64),
     (''IEExtensions'', ''optional'', PtrKind ProtocolExtensionContainerPacketErrorRateExtIEs)]"

definition PagingAttemptInformation :: gtype where
  "PagingAttemptInformation = StructKind
    [(''PagingAttemptCount'', '''', PagingAttemptCount),
     (''IntendedNumberOfPagingAttempts'', '''', IntendedNumberOfPagingAttempts),
     (''NextPagingAreaScope'', ''optional'', PtrKind NextPagingAreaScope),
     (''IEExtensions'', ''optional'', PtrKind ProtocolExtensionContainerPagingAttemptInformationExtIEs)]"

definition PathSwitchRequestSetupFailedTransfer :: gtype where
  "PathSwitchRequestSetupFailedTransfer = StructKind
    [(''Cause'', ''valueLB:0,valueUB:5'', Cause),
     (''IEExtensions'', ''optional'', PtrKind ProtocolExtensionContainerPathSwitchRequestSetupFailedTransferExtIEs)]"

definition PathSwitchRequestUnsuccessfulTransfer :: gtype where
  "PathSwitchRequestUnsuccessfulTransfer = StructKind
    [(''Cause'', ''valueLB:0,valueUB:5'', Cause),
     (''IEExtensions'', ''optional'', PtrKind ProtocolExtensionContainerPathSwitchRequestUnsuccessfulTransferExtIEs)]"

definition PrivateMessage :: gtype where
  "PrivateMessage = StructKind
    [(''PrivateIEs'', '''', PrivateIEContainerPrivateMessageIEs)]"

definition ProtocolIEContainerDeactivateTraceIEs :: gtype where
  "ProtocolIEContainerDeactivateTraceIEs = StructKind
    [(''List'', ''sizeLB:0,sizeUB:65535'', SliceKind DeactivateTraceIEs)]"

definition ProtocolIEContainerDownlinkNonUEAssociatedNRPPaTransportIEs :: gtype where
  "ProtocolIEContainerDownlinkNonUEAssociatedNRPPaTransportIEs = StructKind
    [(''List'', ''sizeLB:0,sizeUB:65535'', SliceKind DownlinkNonUEAssociatedNRPPaTransportIEs)]"

definition ProtocolIEContainerDownlinkUEAssociatedNRPPaTransportIEs :: gtype where
  "ProtocolIEContainerDownlinkUEAssociatedNRPPaTransportIEs = StructKind
    [(''List'', ''sizeLB:0,sizeUB:65535'', SliceKind DownlinkUEAssociatedNRPPaTransportIEs)]"

definition ProtocolIEContainerUERadioCapabilityCheckRequestIEs :: gtype where
  "ProtocolIEContainerUERadioCapabilityCheckRequestIEs = StructKind
    [(''List'', ''sizeLB:0,sizeUB:65535'', SliceKind UERadioCapabilityCheckRequestIEs)]"

definition ProtocolIEContainerUETNLABindingReleaseRequestIEs :: gtype where
  "ProtocolIEContainerUETNLABindingReleaseRequestIEs = StructKind
    [(''List'', ''sizeLB:0,sizeUB:65535'', SliceKind UETNLABindingReleaseRequestIEs)]"

definition ProtocolIEContainerUplinkNonUEAssociatedNRPPaTransportIEs :: gtype where
  "ProtocolIEContainerUplinkNonUEAssociatedNRPPaTransportIEs = StructKind
    [(''List'', ''sizeLB:0,sizeUB:65535'', SliceKind UplinkNonUEAssociatedNRPPaTransportIEs)]"

definition ProtocolIEContainerUplinkUEAssociatedNRPPaTransportIEs :: gtype where
  "ProtocolIEContainerUplinkUEAssociatedNRPPaTransportIEs = StructKind
    [(''List'', ''sizeLB:0,sizeUB:65535'', SliceKind UplinkUEAssociatedNRPPaTransportIEs)]"

definition QosFlowAcceptedItem :: gtype where
  "QosFlowAcceptedItem = StructKind
    [(''QosFlowIdentifier'', '''', QosFlowIdentifier),
     (''IEExtensions'', ''optional'', PtrKind ProtocolExtensionContainerQosFlowAcceptedItemExtIEs)]"

definition QosFlowAddOrModifyResponseItem :: gtype where
  "QosFlowAddOrModifyResponseItem = StructKind
    [(''QosFlowIdentifier'', '''', QosFlowIdentifier),
     (''IEExtensions'', ''optional'', PtrKind ProtocolExtensionContainerQosFlowAddOrModifyResponseItemExtIEs)]"

definition QosFlowInformationItem :: gtype where
  "QosFlowInformationItem = StructKind
    [(''QosFlowIdentifier'', '''', QosFlowIdentifier),
     (''DLForwarding'', ''optional'', PtrKind DLForwarding),
     (''IEExtensions'', ''optional'', PtrKind ProtocolExtensionContainerQosFlowInformationItemExtIEs)]"

definition QosFlowItem :: gtype where
  "QosFlowItem = StructKind
    [(''QosFlowIdentifier'', '''', QosFlowIdentifier),
     (''Cause'', ''valueLB:0,valueUB:5'', Cause),
     (''IEExtensions'', ''optional'', PtrKind ProtocolExtensionContainerQosFlowItemExtIEs)]"

definition QosFlowModifyConfirmItem :: gtype where
  "QosFlowModifyConfirmItem = StructKind
    [(''QosFlowIdentifier'', '''', QosFlowIdentifier),
     (''IEExtensions'', ''optional'', PtrKind ProtocolExtensionContainerQosFlowModifyConfirmItemExtIEs)]"

definition QosFlowNotifyItem :: gtype where
  "QosFlowNotifyItem = StructKind
    [(''QosFlowIdentifier'', '''', QosFlowIdentifier),
     (''NotificationCause'', '''', NotificationCause),
     (''IEExtensions'', ''optional'', PtrKind ProtocolExtensionContainerQosFlowNotifyItemExtIEs)]"

definition QosFlowSetupResponseItemHOReqAck :: gtype where
  "QosFlowSetupResponseItemHOReqAck = StructKind
    [(''QosFlowIdentifier'', '''', QosFlowIdentifier),
     (''DataForwardingAccepted'', ''optional'', PtrKind DataForwardingAccepted),
     (''IEExtensions'', ''optional'', PtrKind ProtocolExtensionContainerQosFlowSetupResponseItemHOReqAckExtIEs)]"

definition QosFlowSetupResponseItemSURes :: gtype where
  "QosFlowSetupResponseItemSURes = StructKind
    [(''QosFlowIdentifier'', '''', QosFlowIdentifier),
     (''IEExtensions'', ''optional'', PtrKind ProtocolExtensionContainerQosFlowSetupResponseItemSUResExtIEs)]"

definition QosFlowToBeForwardedItem :: gtype where
  "QosFlowToBeForwardedItem = StructKind
    [(''QosFlowIdentifier'', '''', QosFlowIdentifier),
     (''IEExtensions'', ''optional'', PtrKind ProtocolExtensionContainerQosFlowToBeForwardedItemExtIEs)]"

definition RATRestrictionsItem :: gtype where
  "RATRestrictionsItem = StructKind
    [(''PLMNIdentity'', '''', PLMNIdentity),
     (''RATRestrictionInformation'', '''', RATRestrictionInformation),
     (''IEExtensions'', ''optional'', PtrKind ProtocolExtensionContainerRATRestrictionsItemExtIEs)]"

definition SNSSAI :: gtype where
  "SNSSAI = StructKind
    [(''SST'', '''', SST),
     (''SD'', ''optional'', PtrKind SD),
     (''IEExtensions'', ''optional'', PtrKind ProtocolExtensionContainerSNSSAIExtIEs)]"

definition SecurityContext :: gtype where
  "SecurityContext = StructKind
    [(''NextHopChainingCount'', '''', NextHopChainingCount),
     (''NextHopNH'', '''', SecurityKey),
     (''IEExtensions'', ''optional'', PtrKind ProtocolExtensionContainerSecurityContextExtIEs)]"

definition SecurityIndication :: gtype where
  "SecurityIndication = StructKind
    [(''IntegrityProtectionIndication'', '''', IntegrityProtectionIndication),
     (''ConfidentialityProtectionIndication'', '''', ConfidentialityProtectionIndication),
     (''MaximumIntegrityProtectedDataRate'', ''optional'', PtrKind MaximumIntegrityProtectedDataRate),
     (''IEExtensions'', ''optional'', PtrKind ProtocolExtensionContainerSecurityIndicationExtIEs)]"

definition SecurityResult :: gtype where
  "SecurityResult = StructKind
    [(''IntegrityProtectionResult'', '''', IntegrityProtectionResult),
     (''ConfidentialityProtectionResult'', '''', ConfidentialityProtectionResult),
     (''IEExtensions'', ''optional'', PtrKind ProtocolExtensionContainerSecurityResultExtIEs)]"

definition ServiceAreaInformationItem :: gtype where
  "ServiceAreaInformationItem = StructKind
    [(''PLMNIdentity'', '''', PLMNIdentity),
     (''AllowedTACs'', ''optional'', PtrKind AllowedTACs),
     (''NotAllowedTACs'', ''optional'', PtrKind NotAllowedTACs),
     (''IEExtensions'', ''optional'', PtrKind ProtocolExtensionContainerServiceAreaInformationItemExtIEs)]"

definition TAI :: gtype where
  "TAI = StructKind
    [(''PLMNIdentity'', '''', PLMNIdentity),
     (''TAC'', '''', TAC),
     (''IEExtensions'', ''optional'', PtrKind ProtocolExtensionContainerTAIExtIEs)]"

definition TNLAssociationItem :: gtype where
  "TNLAssociationItem = StructKind
    [(''TNLAssociationAddress'', ''valueLB:0,valueUB:1'', CPTransportLayerInformation),
     (''Cause'', ''valueLB:0,valueUB:5'', Cause),
     (''IEExtensions'', ''optional'', PtrKind ProtocolExtensionContainerTNLAssociationItemExtIEs)]"

definition TargetNGRANNodeToSourceNGRANNodeTransparentContainer :: gtype where
  "TargetNGRANNodeToSourceNGRANNodeTransparentContainer = StructKind
    [(''RRCContainer'', '''', RRCContainer),
     (''IEExtensions'', ''optional'', PtrKind ProtocolExtensionContainerTargetNGRANNodeToSourceNGRANNodeTransparentContainerExtIEs)]"

definition TraceActivation :: gtype where
  "TraceActivation = StructKind
    [(''NGRANTraceID'', '''', NGRANTraceID),
     (''InterfacesToTrace'', '''', InterfacesToTrace),
     (''TraceDepth'', '''', TraceDepth),
     (''TraceCollectionEntityIPAddress'', '''', TransportLayerAddress),
     (''IEExtensions'', ''optional'', PtrKind ProtocolExtensionContainerTraceActivationExtIEs)]"

definition TraceFailureIndicationIEs :: gtype where
  "TraceFailureIndicationIEs = StructKind
    [(''Id'', '''', ProtocolIEID),
     (''Criticality'', '''', Criticality),
     (''Value'', ''openType,referenceFieldName:Id'', TraceFailureIndicationIEsValue)]"

definition UEAggregateMaximumBitRate :: gtype where
  "UEAggregateMaximumBitRate = StructKind
    [(''UEAggregateMaximumBitRateDL'', '''', BitRate),
     (''UEAggregateMaximumBitRateUL'', '''', BitRate),
     (''IEExtensions'', ''optional'', PtrKind ProtocolExtensionContainerUEAggregateMaximumBitRateExtIEs)]"

definition UEAssociatedLogicalNGConnectionItem :: gtype where
  "UEAssociatedLogicalNGConnectionItem = StructKind
    [(''AMFUENGAPID'', ''optional'', PtrKind AMFUENGAPID),
     (''RANUENGAPID'', ''optional'', PtrKind RANUENGAPID),
     (''IEExtensions'', ''optional'', PtrKind ProtocolExtensionContainerUEAssociatedLogicalNGConnectionItemExtIEs)]"

definition UENGAPIDPair :: gtype where
  "UENGAPIDPair = StructKind
    [(''AMFUENGAPID'', '''', AMFUENGAPID),
     (''RANUENGAPID'', '''', RANUENGAPID),
     (''IEExtensions'', ''optional'', PtrKind ProtocolExtensionContainerUENGAPIDPairExtIEs)]"

definition UEPresenceInAreaOfInterestItem :: gtype where
  "UEPresenceInAreaOfInterestItem = StructKind
    [(''LocationReportingReferenceID'', '''', LocationReportingReferenceID),
     (''UEPresence'', '''', UEPresence),
     (''IEExtensions'', ''optional'', PtrKind ProtocolExtensionContainerUEPresenceInAreaOfInterestItemExtIEs)]"

definition UERadioCapabilityForPaging :: gtype where
  "UERadioCapabilityForPaging = StructKind
    [(''UERadioCapabilityForPagingOfNR'', ''optional'', PtrKind UERadioCapabilityForPagingOfNR),
     (''UERadioCapabilityForPagingOfEUTRA'', ''optional'', PtrKind UERadioCapabilityForPagingOfEUTRA),
     (''IEExtensions'', ''optional'', PtrKind ProtocolExtensionContainerUERadioCapabilityForPagingExtIEs)]"

definition UESecurityCapabilities :: gtype where
  "UESecurityCapabilities = StructKind
    [(''NRencryptionAlgorithms'', '''', NRencryptionAlgorithms),
     (''NRintegrityProtectionAlgorithms'', '''', NRintegrityProtectionAlgorithms),
     (''EUTRAencryptionAlgorithms'', '''', EUTRAencryptionAlgorithms),
     (''EUTRAintegrityProtectionAlgorithms'', '''', EUTRAintegrityProtectionAlgorithms),
     (''IEExtensions'', ''optional'', PtrKind ProtocolExtensionContainerUESecurityCapabilitiesExtIEs)]"

definition UserLocationInformationN3IWF :: gtype where
  "UserLocationInformationN3IWF = StructKind
    [(''IPAddress'', '''', TransportLayerAddress),
     (''PortNumber'', '''', PortNumber),
     (''IEExtensions'', ''optional'', PtrKind ProtocolExtensionContainerUserLocationInformationN3IWFExtIEs)]"

definition XnExtTLAItem :: gtype where
  "XnExtTLAItem = StructKind
    [(''IPsecTLA'', ''optional'', PtrKind TransportLayerAddress),
     (''GTPTLAs'', ''optional'', PtrKind XnGTPTLAs),
     (''IEExtensions'', ''optional'', PtrKind ProtocolExtensionContainerXnExtTLAItemExtIEs)]"

definition AMFTNLAssociationSetupList :: gtype where
  "AMFTNLAssociationSetupList = StructKind
    [(''List'', ''valueExt,sizeLB:1,sizeUB:32'', SliceKind AMFTNLAssociationSetupItem)]"

definition AMFTNLAssociationToAddList :: gtype where
  "AMFTNLAssociationToAddList = StructKind
    [(''List'', ''valueExt,sizeLB:1,sizeUB:32'', SliceKind AMFTNLAssociationToAddItem)]"

definition AMFTNLAssociationToRemoveList :: gtype where
  "AMFTNLAssociationToRemoveList = StructKind
    [(''List'', ''valueExt,sizeLB:1,sizeUB:32'', SliceKind AMFTNLAssociationToRemoveItem)]"

definition AMFTNLAssociationToUpdateList :: gtype where
  "AMFTNLAssociationToUpdateList = StructKind
    [(''List'', ''valueExt,sizeLB:1,sizeUB:32'', SliceKind AMFTNLAssociationToUpdateItem)]"

definition AllowedNSSAIItem :: gtype where
  "AllowedNSSAIItem = StructKind
    [(''SNSSAI'', ''valueExt'', SNSSAI),
     (''IEExtensions'', ''optional'', PtrKind ProtocolExtensionContainerAllowedNSSAIItemExtIEs)]"

definition AreaOfInterestTAIItem :: gtype where
  "AreaOfInterestTAIItem = StructKind
    [(''TAI'', ''valueExt'', TAI),
     (''IEExtensions'', ''optional'', PtrKind ProtocolExtensionContainerAreaOfInterestTAIItemExtIEs)]"

definition AssociatedQosFlowList :: gtype where
  "AssociatedQosFlowList = StructKind
    [(''List'', ''valueExt,sizeLB:1,sizeUB:64'', SliceKind AssociatedQosFlowItem)]"

definition CancelledCellsInEAIEUTRAItem :: gtype where
  "CancelledCellsInEAIEUTRAItem = StructKind
    [(''EUTRACGI'', ''valueExt'', EUTRACGI),
     (''NumberOfBroadcasts'', '''', NumberOfBroadcasts),
     (''IEExtensions'', ''optional'', PtrKind ProtocolExtensionContainerCancelledCellsInEAIEUTRAItemExtIEs)]"

definition CancelledCellsInEAINRItem :: gtype where
  "CancelledCellsInEAINRItem = StructKind
    [(''NRCGI'', ''valueExt'', NRCGI),
     (''NumberOfBroadcasts'', '''', NumberOfBroadcasts),
     (''IEExtensions'', ''optional'', PtrKind ProtocolExtensionContainerCancelledCellsInEAINRItemExtIEs)]"

definition CancelledCellsInTAIEUTRAItem :: gtype where
  "CancelledCellsInTAIEUTRAItem = StructKind
    [(''EUTRACGI'', ''valueExt'', EUTRACGI),
     (''NumberOfBroadcasts'', '''', NumberOfBroadcasts),
     (''IEExtensions'', ''optional'', PtrKind ProtocolExtensionContainerCancelledCellsInTAIEUTRAItemExtIEs)]"

definition CancelledCellsInTAINRItem :: gtype where
  "CancelledCellsInTAINRItem = StructKind
    [(''NRCGI'', ''valueExt'', NRCGI),
     (''NumberOfBroadcasts'', '''', NumberOfBroadcasts),
     (''IEExtensions'', ''optional'', PtrKind ProtocolExtensionContainerCancelledCellsInTAINRItemExtIEs)]"

definition CellIDBroadcastEUTRAItem :: gtype where
  "CellIDBroadcastEUTRAItem = StructKind
    [(''EUTRACGI'', ''valueExt'', EUTRACGI),
     (''IEExtensions'', ''optional'', PtrKind ProtocolExtensionContainerCellIDBroadcastEUTRAItemExtIEs)]"

definition CellIDBroadcastNRItem :: gtype where
  "CellIDBroadcastNRItem = StructKind
    [(''NRCGI'', ''valueExt'', NRCGI),
     (''IEExtensions'', ''optional'', PtrKind ProtocolExtensionContainerCellIDBroadcastNRItemExtIEs)]"

definition CellIDCancelledEUTRAItem :: gtype where
  "CellIDCancelledEUTRAItem = StructKind
    [(''EUTRACGI'', ''valueExt'', EUTRACGI),
     (''NumberOfBroadcasts'', '''', NumberOfBroadcasts),
     (''IEExtensions'', ''optional'', PtrKind ProtocolExtensionContainerCellIDCancelledEUTRAItemExtIEs)]"

definition CellIDCancelledNRItem :: gtype where
  "CellIDCancelledNRItem = StructKind
    [(''NRCGI'', ''valueExt'', NRCGI),
     (''NumberOfBroadcasts'', '''', NumberOfBroadcasts),
     (''IEExtensions'', ''optional'', PtrKind ProtocolExtensionContainerCellIDCancelledNRItemExtIEs)]"

definition CompletedCellsInEAIEUTRAItem :: gtype where
  "CompletedCellsInEAIEUTRAItem = StructKind
    [(''EUTRACGI'', ''valueExt'', EUTRACGI),
     (''IEExtensions'', ''optional'', PtrKind ProtocolExtensionContainerCompletedCellsInEAIEUTRAItemExtIEs)]"

definition CompletedCellsInEAINRItem :: gtype where
  "CompletedCellsInEAINRItem = StructKind
    [(''NRCGI'', ''valueExt'', NRCGI),
     (''IEExtensions'', ''optional'', PtrKind ProtocolExtensionContainerCompletedCellsInEAINRItemExtIEs)]"

definition CompletedCellsInTAIEUTRAItem :: gtype where
  "CompletedCellsInTAIEUTRAItem = StructKind
    [(''EUTRACGI'', ''valueExt'', EUTRACGI),
     (''IEExtensions'', ''optional'', PtrKind ProtocolExtensionContainerCompletedCellsInTAIEUTRAItemExtIEs)]"

definition CompletedCellsInTAINRItem :: gtype where
  "CompletedCellsInTAINRItem = StructKind
    [(''NRCGI'', ''valueExt'', NRCGI),
     (''IEExtensions'', ''optional'', PtrKind ProtocolExtensionContainerCompletedCellsInTAINRItemExtIEs)]"

definition CriticalityDiagnosticsIEList :: gtype where
  "CriticalityDiagnosticsIEList = StructKind
    [(''List'', ''valueExt,sizeLB:1,sizeUB:256'', SliceKind CriticalityDiagnosticsIEItem)]"

definition DRBStatusDL12 :: gtype where
  "DRBStatusDL12 = StructKind
    [(''DLCOUNTValue'', ''valueExt'', COUNTValueForPDCPSN12),
     (''IEExtension'', ''optional'', PtrKind ProtocolExtensionContainerDRBStatusDL12ExtIEs)]"

definition DRBStatusDL18 :: gtype where
  "DRBStatusDL18 = StructKind
    [(''DLCOUNTValue'', ''valueExt'', COUNTValueForPDCPSN18),
     (''IEExtension'', ''optional'', PtrKind ProtocolExtensionContainerDRBStatusDL18ExtIEs)]"

definition DRBStatusUL12 :: gtype where
  "DRBStatusUL12 = StructKind
    [(''ULCOUNTValue'', ''valueExt'', COUNTValueForPDCPSN12),
     (''ReceiveStatusOfULPDCPSDUs'', ''sizeLB:1,sizeUB:2048,optional'', PtrKind BitStringType),
     (''IEExtension'', ''optional'', PtrKind ProtocolExtensionContainerDRBStatusUL12ExtIEs)]"

definition DRBStatusUL18 :: gtype where
  "DRBStatusUL18 = StructKind
    [(''ULCOUNTValue'', ''valueExt'', COUNTValueForPDCPSN18),
     (''ReceiveStatusOfULPDCPSDUs'', ''sizeLB:1,sizeUB:131072,optional'', PtrKind BitStringType),
     (''IEExtension'', ''optional'', PtrKind ProtocolExtensionContainerDRBStatusUL18ExtIEs)]"

definition DeactivateTrace :: gtype where
  "DeactivateTrace = StructKind
    [(''ProtocolIEs'', '''', ProtocolIEContainerDeactivateTraceIEs)]"

definition DownlinkNonUEAssociatedNRPPaTransport :: gtype where
  "DownlinkNonUEAssociatedNRPPaTransport = StructKind
    [(''ProtocolIEs'', '''', ProtocolIEContainerDownlinkNonUEAssociatedNRPPaTransportIEs)]"

definition DownlinkUEAssociatedNRPPaTransport :: gtype where
  "DownlinkUEAssociatedNRPPaTransport = StructKind
    [(''ProtocolIEs'', '''', ProtocolIEContainerDownlinkUEAssociatedNRPPaTransportIEs)]"

definition Dynamic5QIDescriptor :: gtype where
  "Dynamic5QIDescriptor = StructKind
    [(''PriorityLevelQos'', '''', PriorityLevelQos),
     (''PacketDelayBudget'', '''', PacketDelayBudget),
     (''PacketErrorRate'', ''valueExt'', PacketErrorRate),
     (''FiveQI'', ''optional'', PtrKind FiveQI),
     (''DelayCritical'', ''optional'', PtrKind DelayCritical),
     (''AveragingWindow'', ''optional'', PtrKind AveragingWindow),
     (''MaximumDataBurstVolume'', ''optional'', PtrKind MaximumDataBurstVolume),
     (''IEExtensions'', ''optional'', PtrKind ProtocolExtensionContainerDynamic5QIDescriptorExtIEs)]"

definition ERABInformationList :: gtype where
  "ERABInformationList = StructKind
    [(''List'', ''valueExt,sizeLB:1,sizeUB:256'', SliceKind ERABInformationItem)]"

definition EUTRACGIList :: gtype where
  "EUTRACGIList = StructKind
    [(''List'', ''valueExt,sizeLB:1,sizeUB:256'', SliceKind EUTRACGI)]"

definition EUTRACGIListForWarning :: gtype where
  "EUTRACGIListForWarning = StructKind
    [(''List'', ''valueExt,sizeLB:1,sizeUB:65535'', SliceKind EUTRACGI)]"

definition ForbiddenAreaInformation :: gtype where
  "ForbiddenAreaInformation = StructKind
    [(''List'', ''valueExt,sizeLB:1,sizeUB:16'', SliceKind ForbiddenAreaInformationItem)]"

definition GlobalRANNodeID :: gtype where
  "GlobalRANNodeID = StructKind
    [(''Present'', '''', IntKind 64),
     (''GlobalGNBID'', ''valueExt'', PtrKind GlobalGNBID),
     (''GlobalNgENBID'', ''valueExt'', PtrKind GlobalNgENBID),
     (''GlobalN3IWFID'', ''valueExt'', PtrKind GlobalN3IWFID),
     (''ChoiceExtensions'', '''', PtrKind ProtocolIESingleContainerGlobalRANNodeIDExtIEs)]"

definition NGRANCGI :: gtype where
  "NGRANCGI = StructKind
    [(''Present'', '''', IntKind 64),
     (''NRCGI'', ''valueExt'', PtrKind NRCGI),
     (''EUTRACGI'', ''valueExt'', PtrKind EUTRACGI),
     (''ChoiceExtensions'', '''', PtrKind ProtocolIESingleContainerNGRANCGIExtIEs)]"

definition NRCGIList :: gtype where
  "NRCGIList = StructKind
    [(''List'', ''valueExt,sizeLB:1,sizeUB:16384'', SliceKind NRCGI)]"

definition NRCGIListForWarning :: gtype where
  "NRCGIListForWarning = StructKind
    [(''List'', ''valueExt,sizeLB:1,sizeUB:65535'', SliceKind NRCGI)]"

definition PDUSessionResourceAdmittedList :: gtype where
  "PDUSessionResourceAdmittedList = StructKind
    [(''List'', ''valueExt,sizeLB:1,sizeUB:256'', SliceKind PDUSessionResourceAdmittedItem)]"

definition PDUSessionResourceFailedToModifyListModCfm :: gtype where
  "PDUSessionResourceFailedToModifyListModCfm = StructKind
    [(''List'', ''valueExt,sizeLB:1,sizeUB:256'', SliceKind PDUSessionResourceFailedToModifyItemModCfm)]"

definition PDUSessionResourceFailedToModifyListModRes :: gtype where
  "PDUSessionResourceFailedToModifyListModRes = StructKind
    [(''List'', ''valueExt,sizeLB:1,sizeUB:256'', SliceKind PDUSessionResourceFailedToModifyItemModRes)]"

definition PDUSessionResourceFailedToSetupListCxtFail :: gtype where
  "PDUSessionResourceFailedToSetupListCxtFail = StructKind
    [(''List'', ''valueExt,sizeLB:1,sizeUB:256'', SliceKind PDUSessionResourceFailedToSetupItemCxtFail)]"

definition PDUSessionResourceFailedToSetupListCxtRes :: gtype where
  "PDUSessionResourceFailedToSetupListCxtRes = StructKind
    [(''List'', ''valueExt,sizeLB:1,sizeUB:256'', SliceKind PDUSessionResourceFailedToSetupItemCxtRes)]"

definition PDUSessionResourceFailedToSetupListHOAck :: gtype where
  "PDUSessionResourceFailedToSetupListHOAck = StructKind
    [(''List'', ''valueExt,sizeLB:1,sizeUB:256'', SliceKind PDUSessionResourceFailedToSetupItemHOAck)]"

definition PDUSessionResourceFailedToSetupListPSReq :: gtype where
  "PDUSessionResourceFailedToSetupListPSReq = StructKind
    [(''List'', ''valueExt,sizeLB:1,sizeUB:256'', SliceKind PDUSessionResourceFailedToSetupItemPSReq)]"

definition PDUSessionResourceFailedToSetupListSURes :: gtype where
  "PDUSessionResourceFailedToSetupListSURes = StructKind
    [(''List'', ''valueExt,sizeLB:1,sizeUB:256'', SliceKind PDUSessionResourceFailedToSetupItemSURes)]"

definition PDUSessionResourceHandoverList :: gtype where
  "PDUSessionResourceHandoverList = StructKind
    [(''List'', ''valueExt,sizeLB:1,sizeUB:256'', SliceKind PDUSessionResourceHandoverItem)]"

definition PDUSessionResourceListCxtRelCpl :: gtype where
  "PDUSessionResourceListCxtRelCpl = StructKind
    [(''List'', ''valueExt,sizeLB:1,sizeUB:256'', SliceKind PDUSessionResourceItemCxtRelCpl)]"

definition PDUSessionResourceListCxtRelReq :: gtype where
  "PDUSessionResourceListCxtRelReq = StructKind
    [(''List'', ''valueExt,sizeLB:1,sizeUB:256'', SliceKind PDUSessionResourceItemCxtRelReq)]"

definition PDUSessionResourceListHORqd :: gtype where
  "PDUSessionResourceListHORqd = StructKind
    [(''List'', ''valueExt,sizeLB:1,sizeUB:256'', SliceKind PDUSessionResourceItemHORqd)]"

definition PDUSessionResourceModifyListModCfm :: gtype where
  "PDUSessionResourceModifyListModCfm = StructKind
    [(''List'', ''valueExt,sizeLB:1,sizeUB:256'', SliceKind PDUSessionResourceModifyItemModCfm)]"

definition PDUSessionResourceModifyListModInd :: gtype where
  "PDUSessionResourceModifyListModInd = StructKind
    [(''List'', ''valueExt,sizeLB:1,sizeUB:256'', SliceKind PDUSessionResourceModifyItemModInd)]"

definition PDUSessionResourceModifyListModReq :: gtype where
  "PDUSessionResourceModifyListModReq = StructKind
    [(''List'', ''valueExt,sizeLB:1,sizeUB:256'', SliceKind PDUSessionResourceModifyItemModReq)]"

definition PDUSessionResourceModifyListModRes :: gtype where
  "PDUSessionResourceModifyListModRes = StructKind
    [(''List'', ''valueExt,sizeLB:1,sizeUB:256'', SliceKind PDUSessionResourceModifyItemModRes)]"

definition PDUSessionResourceNotifyList :: gtype where
  "PDUSessionResourceNotifyList = StructKind
    [(''List'', ''valueExt,sizeLB:1,sizeUB:256'', SliceKind PDUSessionResourceNotifyItem)]"

definition PDUSessionResourceReleasedListNot :: gtype where
  "PDUSessionResourceReleasedListNot = StructKind
    [(''List'', ''valueExt,sizeLB:1,sizeUB:256'', SliceKind PDUSessionResourceReleasedItemNot)]"

definition PDUSessionResourceReleasedListPSAck :: gtype where
  "PDUSessionResourceReleasedListPSAck = StructKind
    [(''List'', ''valueExt,sizeLB:1,sizeUB:256'', SliceKind PDUSessionResourceReleasedItemPSAck)]"

definition PDUSessionResourceReleasedListPSFail :: gtype where
  "PDUSessionResourceReleasedListPSFail = StructKind
    [(''List'', ''valueExt,sizeLB:1,sizeUB:256'', SliceKind PDUSessionResourceReleasedItemPSFail)]"

definition PDUSessionResourceReleasedListRelRes :: gtype where
  "PDUSessionResourceReleasedListRelRes = StructKind
    [(''List'', ''valueExt,sizeLB:1,sizeUB:256'', SliceKind PDUSessionResourceReleasedItemRelRes)]"

definition PDUSessionResourceSetupItemCxtReq :: gtype where
  "PDUSessionResourceSetupItemCxtReq = StructKind
    [(''PDUSessionID'', '''', PDUSessionID),
     (''NASPDU'', ''optional'', PtrKind NASPDU),
     (''SNSSAI'', ''valueExt'', SNSSAI),
     (''PDUSessionResourceSetupRequestTransfer'', '''', OctetStringType),
     (''IEExtensions'', ''optional'', PtrKind ProtocolExtensionContainerPDUSessionResourceSetupItemCxtReqExtIEs)]"

definition PDUSessionResourceSetupItemHOReq :: gtype where
  "PDUSessionResourceSetupItemHOReq = StructKind
    [(''PDUSessionID'', '''', PDUSessionID),
     (''SNSSAI'', ''valueExt'', SNSSAI),
     (''HandoverRequestTransfer'', '''', OctetStringType),
     (''IEExtensions'', ''optional'', PtrKind ProtocolExtensionContainerPDUSessionResourceSetupItemHOReqExtIEs)]"

definition PDUSessionResourceSetupItemSUReq :: gtype where
  "PDUSessionResourceSetupItemSUReq = StructKind
    [(''PDUSessionID'', '''', PDUSessionID),
     (''PDUSessionNASPDU'', ''optional'', PtrKind NASPDU),
     (''SNSSAI'', ''valueExt'', SNSSAI),
     (''PDUSessionResourceSetupRequestTransfer'', '''', OctetStringType),
     (''IEExtensions'', ''optional'', PtrKind ProtocolExtensionContainerPDUSessionResourceSetupItemSUReqExtIEs)]"

definition PDUSessionResourceSetupListCxtRes :: gtype where
  "PDUSessionResourceSetupListCxtRes = StructKind
    [(''List'', ''valueExt,sizeLB:1,sizeUB:256'', SliceKind PDUSessionResourceSetupItemCxtRes)]"

definition PDUSessionResourceSetupListSURes :: gtype where
  "PDUSessionResourceSetupListSURes = StructKind
    [(''List'', ''valueExt,sizeLB:1,sizeUB:256'', SliceKind PDUSessionResourceSetupItemSURes)]"

definition PDUSessionResourceSwitchedList :: gtype where
  "PDUSessionResourceSwitchedList = StructKind
    [(''List'', ''valueExt,sizeLB:1,sizeUB:256'', SliceKind PDUSessionResourceSwitchedItem)]"

definition PDUSessionResourceToBeSwitchedDLList :: gtype where
  "PDUSessionResourceToBeSwitchedDLList = StructKind
    [(''List'', ''valueExt,sizeLB:1,sizeUB:256'', SliceKind PDUSessionResourceToBeSwitchedDLItem)]"

definition PDUSessionResourceToReleaseListHOCmd :: gtype where
  "PDUSessionResourceToReleaseListHOCmd = StructKind
    [(''List'', ''valueExt,sizeLB:1,sizeUB:256'', SliceKind PDUSessionResourceToReleaseItemHOCmd)]"

definition PDUSessionResourceToReleaseListRelCmd :: gtype where
  "PDUSessionResourceToReleaseListRelCmd = StructKind
    [(''List'', ''valueExt,sizeLB:1,sizeUB:256'', SliceKind PDUSessionResourceToReleaseItemRelCmd)]"

definition ProtocolIEContainerHandoverCancelIEs :: gtype where
  "ProtocolIEContainerHandoverCancelIEs = StructKind
    [(''List'', ''sizeLB:0,sizeUB:65535'', SliceKind HandoverCancelIEs)]"

definition ProtocolIEContainerLocationReportingFailureIndicationIEs :: gtype where
  "ProtocolIEContainerLocationReportingFailureIndicationIEs = StructKind
    [(''List'', ''sizeLB:0,sizeUB:65535'', SliceKind LocationReportingFailureIndicationIEs)]"

definition ProtocolIEContainerNASNonDeliveryIndicationIEs :: gtype where
  "ProtocolIEContainerNASNonDeliveryIndicationIEs = StructKind
    [(''List'', ''sizeLB:0,sizeUB:65535'', SliceKind NASNonDeliveryIndicationIEs)]"

definition ProtocolIEContainerTraceFailureIndicationIEs :: gtype where
  "ProtocolIEContainerTraceFailureIndicationIEs = StructKind
    [(''List'', ''sizeLB:0,sizeUB:65535'', SliceKind TraceFailureIndicationIEs)]"

definition QosFlowAcceptedList :: gtype where
  "QosFlowAcceptedList = StructKind
    [(''List'', ''valueExt,sizeLB:1,sizeUB:64'', SliceKind QosFlowAcceptedItem)]"

definition QosFlowAddOrModifyResponseList :: gtype where
  "QosFlowAddOrModifyResponseList = StructKind
    [(''List'', ''valueExt,sizeLB:1,sizeUB:64'', SliceKind QosFlowAddOrModifyResponseItem)]"

definition QosFlowInformationList :: gtype where
  "QosFlowInformationList = StructKind
    [(''List'', ''valueExt,sizeLB:1,sizeUB:64'', SliceKind QosFlowInformationItem)]"

definition QosFlowList :: gtype where
  "QosFlowList = StructKind
    [(''List'', ''valueExt,sizeLB:1,sizeUB:64'', SliceKind QosFlowItem)]"

definition QosFlowModifyConfirmList :: gtype where
  "QosFlowModifyConfirmList = StructKind
    [(''List'', ''valueExt,sizeLB:1,sizeUB:64'', SliceKind QosFlowModifyConfirmItem)]"

definition QosFlowNotifyList :: gtype where
  "QosFlowNotifyList = StructKind
    [(''List'', ''valueExt,sizeLB:1,sizeUB:64'', SliceKind QosFlowNotifyItem)]"

definition QosFlowSetupResponseListHOReqAck :: gtype where
  "QosFlowSetupResponseListHOReqAck = StructKind
    [(''List'', ''valueExt,sizeLB:1,sizeUB:64'', SliceKind QosFlowSetupResponseItemHOReqAck)]"

definition QosFlowSetupResponseListSURes :: gtype where
  "QosFlowSetupResponseListSURes = StructKind
    [(''List'', ''valueExt,sizeLB:1,sizeUB:64'', SliceKind QosFlowSetupResponseItemSURes)]"

definition QosFlowToBeForwardedList :: gtype where
  "QosFlowToBeForwardedList = StructKind
    [(''List'', ''valueExt,sizeLB:1,sizeUB:64'', SliceKind QosFlowToBeForwardedItem)]"

definition RATRestrictions :: gtype where
  "RATRestrictions = StructKind
    [(''List'', ''valueExt,sizeLB:0,sizeUB:16'', SliceKind RATRestrictionsItem)]"

definition ServedGUAMIItem :: gtype where
  "ServedGUAMIItem = StructKind
    [(''GUAMI'', ''valueExt'', GUAMI),
     (''BackupAMFName'', ''sizeExt,sizeLB:1,sizeUB:150,optional'', PtrKind AMFName),
     (''IEExtensions'', ''optional'', PtrKind ProtocolExtensionContainerServedGUAMIItemExtIEs)]"

definition ServiceAreaInformation :: gtype where
  "ServiceAreaInformation = StructKind
    [(''List'', ''valueExt,sizeLB:1,sizeUB:16'', SliceKind ServiceAreaInformationItem)]"

definition SliceOverloadItem :: gtype where
  "SliceOverloadItem = StructKind
    [(''SNSSAI'', ''valueExt'', SNSSAI),
     (''IEExtensions'', ''optional'', PtrKind ProtocolExtensionContainerSliceOverloadItemExtIEs)]"

definition SliceSupportItem :: gtype where
  "SliceSupportItem = StructKind
    [(''SNSSAI'', ''valueExt'', SNSSAI),
     (''IEExtensions'', ''optional'', PtrKind ProtocolExtensionContainerSliceSupportItemExtIEs)]"

definition TAIListForInactiveItem :: gtype where
  "TAIListForInactiveItem = StructKind
    [(''TAI'', ''valueExt'', TAI),
     (''IEExtensions'', ''optional'', PtrKind ProtocolExtensionContainerTAIListForInactiveItemExtIEs)]"

definition TAIListForPagingItem :: gtype where
  "TAIListForPagingItem = StructKind
    [(''TAI'', ''valueExt'', TAI),
     (''IEExtensions'', ''optional'', PtrKind ProtocolExtensionContainerTAIListForPagingItemExtIEs)]"

definition TAIListForRestart :: gtype where
  "TAIListForRestart = StructKind
    [(''List'', ''valueExt,sizeLB:1,sizeUB:2048'', SliceKind TAI)]"

definition TAIListForWarning :: gtype where
  "TAIListForWarning = StructKind
    [(''List'', ''valueExt,sizeLB:1,sizeUB:65535'', SliceKind TAI)]"

definition TNLAssociationList :: gtype where
  "TNLAssociationList = StructKind
    [(''List'', ''valueExt,sizeLB:1,sizeUB:32'', SliceKind TNLAssociationItem)]"

definition TargeteNBID :: gtype where
  "TargeteNBID = StructKind
    [(''GlobalENBID'', ''valueExt'', GlobalNgENBID),
     (''SelectedEPSTAI'', ''valueExt'', EPSTAI),
     (''IEExtensions'', ''optional'', PtrKind ProtocolExtensionContainerTargeteNBIDExtIEs)]"

definition TraceStartIEsValue :: gtype where
  "TraceStartIEsValue = StructKind
    [(''Present'', '''', IntKind 64),
     (''AMFUENGAPID'', ''referenceFieldValue:10'', PtrKind AMFUENGAPID),
     (''RANUENGAPID'', ''referenceFieldValue:85'', PtrKind RANUENGAPID),
     (''TraceActivation'', ''valueExt,referenceFieldValue:108'', PtrKind TraceActivation)]"

definition UEAssociatedLogicalNGConnectionList :: gtype where
  "UEAssociatedLogicalNGConnectionList = StructKind
    [(''List'', ''valueExt,sizeLB:1,sizeUB:65536'', SliceKind UEAssociatedLogicalNGConnectionItem)]"

definition UENGAPIDs :: gtype where
  "UENGAPIDs = StructKind
    [(''Present'', '''', IntKind 64),
     (''UENGAPIDPair'', ''valueExt'', PtrKind UENGAPIDPair),
     (''AMFUENGAPID'', '''', PtrKind AMFUENGAPID),
     (''ChoiceExtensions'', '''', PtrKind ProtocolIESingleContainerUENGAPIDsExtIEs)]"

definition UEPagingIdentity :: gtype where
  "UEPagingIdentity = StructKind
    [(''Present'', '''', IntKind 64),
     (''FiveGSTMSI'', ''valueExt'', PtrKind FiveGSTMSI),
     (''ChoiceExtensions'', '''', PtrKind ProtocolIESingleContainerUEPagingIdentityExtIEs)]"

definition UEPresenceInAreaOfInterestList :: gtype where
  "UEPresenceInAreaOfInterestList = StructKind
    [(''List'', ''valueExt,sizeLB:1,sizeUB:64'', SliceKind UEPresenceInAreaOfInterestItem)]"

definition UERadioCapabilityCheckRequest :: gtype where
  "UERadioCapabilityCheckRequest = StructKind
    [(''ProtocolIEs'', '''', ProtocolIEContainerUERadioCapabilityCheckRequestIEs)]"

definition UERadioCapabilityInfoIndicationIEsValue :: gtype where
  "UERadioCapabilityInfoIndicationIEsValue = StructKind
    [(''Present'', '''', IntKind 64),
     (''AMFUENGAPID'', ''referenceFieldValue:10'', PtrKind AMFUENGAPID),
     (''RANUENGAPID'', ''referenceFieldValue:85'', PtrKind RANUENGAPID),
     (''UERadioCapability'', ''referenceFieldValue:117'', PtrKind UERadioCapability),
     (''UERadioCapabilityForPaging'', ''valueExt,referenceFieldValue:118'', PtrKind UERadioCapabilityForPaging)]"

definition UETNLABindingReleaseRequest :: gtype where
  "UETNLABindingReleaseRequest = StructKind
    [(''ProtocolIEs'', '''', ProtocolIEContainerUETNLABindingReleaseRequestIEs)]"

definition UPTransportLayerInformation :: gtype where
  "UPTransportLayerInformation = StructKind
    [(''Present'', '''', IntKind 64),
     (''GTPTunnel'', ''valueExt'', PtrKind GTPTunnel),
     (''ChoiceExtensions'', '''', PtrKind ProtocolIESingleContainerUPTransportLayerInformationExtIEs)]"

definition UnavailableGUAMIItem :: gtype where
  "UnavailableGUAMIItem = StructKind
    [(''GUAMI'', ''valueExt'', GUAMI),
     (''TimerApproachForGUAMIRemoval'', ''optional'', PtrKind TimerApproachForGUAMIRemoval),
     (''BackupAMFName'', ''sizeExt,sizeLB:1,sizeUB:150,optional'', PtrKind AMFName),
     (''IEExtensions'', ''optional'', PtrKind ProtocolExtensionContainerUnavailableGUAMIItemExtIEs)]"

definition UplinkNonUEAssociatedNRPPaTransport :: gtype where
  "UplinkNonUEAssociatedNRPPaTransport = StructKind
    [(''ProtocolIEs'', '''', ProtocolIEContainerUplinkNonUEAssociatedNRPPaTransportIEs)]"

definition UplinkUEAssociatedNRPPaTransport :: gtype where
  "UplinkUEAssociatedNRPPaTransport = StructKind
    [(''ProtocolIEs'', '''', ProtocolIEContainerUplinkUEAssociatedNRPPaTransportIEs)]"

definition UserLocationInformationEUTRA :: gtype where
  "UserLocationInformationEUTRA = StructKind
    [(''EUTRACGI'', ''valueExt'', EUTRACGI),
     (''TAI'', ''valueExt'', TAI),
     (''TimeStamp'', ''optional'', PtrKind TimeStamp),
     (''IEExtensions'', ''optional'', PtrKind ProtocolExtensionContainerUserLocationInformationEUTRAExtIEs)]"

definition UserLocationInformationNR :: gtype where
  "UserLocationInformationNR = StructKind
    [(''NRCGI'', ''valueExt'', NRCGI),
     (''TAI'', ''valueExt'', TAI),
     (''TimeStamp'', ''optional'', PtrKind TimeStamp),
     (''IEExtensions'', ''optional'', PtrKind ProtocolExtensionContainerUserLocationInformationNRExtIEs)]"

definition UserPlaneSecurityInformation :: gtype where
  "UserPlaneSecurityInformation = StructKind
    [(''SecurityResult'', ''valueExt'', SecurityResult),
     (''SecurityIndication'', ''valueExt'', SecurityIndication),
     (''IEExtensions'', ''optional'', PtrKind ProtocolExtensionContainerUserPlaneSecurityInformationExtIEs)]"

definition XnExtTLAs :: gtype where
  "XnExtTLAs = StructKind
    [(''List'', ''valueExt,sizeLB:1,sizeUB:2'', SliceKind XnExtTLAItem)]"

definition AMFPagingTarget :: gtype where
  "AMFPagingTarget = StructKind
    [(''Present'', '''', IntKind 64),
     (''GlobalRANNodeID'', ''valueLB:0,valueUB:3'', PtrKind GlobalRANNodeID),
     (''TAI'', ''valueExt'', PtrKind TAI),
     (''ChoiceExtensions'', '''', PtrKind ProtocolIESingleContainerAMFPagingTargetExtIEs)]"

definition AllowedNSSAI :: gtype where
  "AllowedNSSAI = StructKind
    [(''List'', ''valueExt,sizeLB:1,sizeUB:8'', SliceKind AllowedNSSAIItem)]"

definition AreaOfInterestCellItem :: gtype where
  "AreaOfInterestCellItem = StructKind
    [(''NGRANCGI'', ''valueLB:0,valueUB:2'', NGRANCGI),
     (''IEExtensions'', ''optional'', PtrKind ProtocolExtensionContainerAreaOfInterestCellItemExtIEs)]"

definition AreaOfInterestRANNodeItem :: gtype where
  "AreaOfInterestRANNodeItem = StructKind
    [(''GlobalRANNodeID'', ''valueLB:0,valueUB:3'', GlobalRANNodeID),
     (''IEExtensions'', ''optional'', PtrKind ProtocolExtensionContainerAreaOfInterestRANNodeItemExtIEs)]"

definition AreaOfInterestTAIList :: gtype where
  "AreaOfInterestTAIList = StructKind
    [(''List'', ''valueExt,sizeLB:1,sizeUB:16'', SliceKind AreaOfInterestTAIItem)]"

definition CancelledCellsInEAIEUTRA :: gtype where
  "CancelledCellsInEAIEUTRA = StructKind
    [(''List'', ''valueExt,sizeLB:1,sizeUB:65535'', SliceKind CancelledCellsInEAIEUTRAItem)]"

definition CancelledCellsInEAINR :: gtype where
  "CancelledCellsInEAINR = StructKind
    [(''List'', ''valueExt,sizeLB:1,sizeUB:65535'', SliceKind CancelledCellsInEAINRItem)]"

definition CancelledCellsInTAIEUTRA :: gtype where
  "CancelledCellsInTAIEUTRA = StructKind
    [(''List'', ''valueExt,sizeLB:1,sizeUB:65535'', SliceKind CancelledCellsInTAIEUTRAItem)]"

definition CancelledCellsInTAINR :: gtype where
  "CancelledCellsInTAINR = StructKind
    [(''List'', ''valueExt,sizeLB:1,sizeUB:65535'', SliceKind CancelledCellsInTAINRItem)]"

definition CellIDBroadcastEUTRA :: gtype where
  "CellIDBroadcastEUTRA = StructKind
    [(''List'', ''valueExt,sizeLB:1,sizeUB:65535'', SliceKind CellIDBroadcastEUTRAItem)]"

definition CellIDBroadcastNR :: gtype where
  "CellIDBroadcastNR = StructKind
    [(''List'', ''valueExt,sizeLB:1,sizeUB:65535'', SliceKind CellIDBroadcastNRItem)]"

definition CellIDCancelledEUTRA :: gtype where
  "CellIDCancelledEUTRA = StructKind
    [(''List'', ''valueExt,sizeLB:1,sizeUB:65535'', SliceKind CellIDCancelledEUTRAItem)]"

definition CellIDCancelledNR :: gtype where
  "CellIDCancelledNR = StructKind
    [(''List'', ''valueExt,sizeLB:1,sizeUB:65535'', SliceKind CellIDCancelledNRItem)]"

definition CellIDListForRestart :: gtype where
  "CellIDListForRestart = StructKind
    [(''Present'', '''', IntKind 64),
     (''EUTRACGIListforRestart'', '''', PtrKind EUTRACGIList),
     (''NRCGIListforRestart'', '''', PtrKind NRCGIList),
     (''ChoiceExtensions'', '''', PtrKind ProtocolIESingleContainerCellIDListForRestartExtIEs)]"

definition CellTrafficTraceIEsValue :: gtype where
  "CellTrafficTraceIEsValue = StructKind
    [(''Present'', '''', IntKind 64),
     (''AMFUENGAPID'', ''referenceFieldValue:10'', PtrKind AMFUENGAPID),
     (''RANUENGAPID'', ''referenceFieldValue:85'', PtrKind RANUENGAPID),
     (''NGRANTraceID'', ''referenceFieldValue:44'', PtrKind NGRANTraceID),
     (''NGRANCGI'', ''referenceFieldValue:43,valueLB:0,valueUB:2'', PtrKind NGRANCGI),
     (''TraceCollectionEntityIPAddress'', ''referenceFieldValue:109'', PtrKind TransportLayerAddress)]"

definition CompletedCellsInEAIEUTRA :: gtype where
  "CompletedCellsInEAIEUTRA = StructKind
    [(''List'', ''valueExt,sizeLB:1,sizeUB:65535'', SliceKind CompletedCellsInEAIEUTRAItem)]"

definition CompletedCellsInEAINR :: gtype where
  "CompletedCellsInEAINR = StructKind
    [(''List'', ''valueExt,sizeLB:1,sizeUB:65535'', SliceKind CompletedCellsInEAINRItem)]"

definition CompletedCellsInTAIEUTRA :: gtype where
  "CompletedCellsInTAIEUTRA = StructKind
    [(''List'', ''valueExt,sizeLB:1,sizeUB:65535'', SliceKind CompletedCellsInTAIEUTRAItem)]"

definition CompletedCellsInTAINR :: gtype where
  "CompletedCellsInTAINR = StructKind
    [(''List'', ''valueExt,sizeLB:1,sizeUB:65535'', SliceKind CompletedCellsInTAINRItem)]"

definition CriticalityDiagnostics :: gtype where
  "CriticalityDiagnostics = StructKind
    [(''ProcedureCode'', ''optional'', PtrKind ProcedureCode),
     (''TriggeringMessage'', ''optional'', PtrKind TriggeringMessage),
     (''ProcedureCriticality'', ''optional'', PtrKind Criticality),
     (''IEsCriticalityDiagnostics'', ''optional'', PtrKind CriticalityDiagnosticsIEList),
     (''IEExtensions'', ''optional'', PtrKind ProtocolExtensionContainerCriticalityDiagnosticsExtIEs)]"

definition DRBStatusDL :: gtype where
  "DRBStatusDL = StructKind
    [(''Present'', '''', IntKind 64),
     (''DRBStatusDL12'', ''valueExt'', PtrKind DRBStatusDL12),
     (''DRBStatusDL18'', ''valueExt'', PtrKind DRBStatusDL18),
     (''ChoiceExtensions'', '''', PtrKind ProtocolIESingleContainerDRBStatusDLExtIEs)]"

definition DRBStatusUL :: gtype where
  "DRBStatusUL = StructKind
    [(''Present'', '''', IntKind 64),
     (''DRBStatusUL12'', ''valueExt'', PtrKind DRBStatusUL12),
     (''DRBStatusUL18'', ''valueExt'', PtrKind DRBStatusUL18),
     (''ChoiceExtensions'', '''', PtrKind ProtocolIESingleContainerDRBStatusULExtIEs)]"

definition DRBsToQosFlowsMappingItem :: gtype where
  "DRBsToQosFlowsMappingItem = StructKind
    [(''DRBID'', '''', DRBID),
     (''AssociatedQosFlowList'', '''', AssociatedQosFlowList),
     (''IEExtensions'', ''optional'', PtrKind ProtocolExtensionContainerDRBsToQosFlowsMappingItemExtIEs)]"

definition DataForwardingResponseDRBItem :: gtype where
  "DataForwardingResponseDRBItem = StructKind
    [(''DRBID'', '''', DRBID),
     (''DLForwardingUPTNLInformation'', ''valueLB:0,valueUB:1,optional'', PtrKind UPTransportLayerInformation),
     (''ULForwardingUPTNLInformation'', ''valueLB:0,valueUB:1,optional'', PtrKind UPTransportLayerInformation),
     (''IEExtensions'', ''optional'', PtrKind ProtocolExtensionContainerDataForwardingResponseDRBItemExtIEs)]"

definition ExpectedUEMovingTrajectoryItem :: gtype where
  "ExpectedUEMovingTrajectoryItem = StructKind
    [(''NGRANCGI'', ''valueLB:0,valueUB:2'', NGRANCGI),
     (''TimeStayedInCell'', ''valueLB:0,valueUB:4095,optional'', PtrKind (IntKind 64)),
     (''IEExtensions'', ''optional'', PtrKind ProtocolExtensionContainerExpectedUEMovingTrajectoryItemExtIEs)]"

definition HandoverCancel :: gtype where
  "HandoverCancel = StructKind
    [(''ProtocolIEs'', '''', ProtocolIEContainerHandoverCancelIEs)]"

definition LastVisitedNGRANCellInformation :: gtype where
  "LastVisitedNGRANCellInformation = StructKind
    [(''GlobalCellID'', ''valueLB:0,valueUB:2'', NGRANCGI),
     (''CellType'', ''valueExt'', CellType),
     (''TimeUEStayedInCell'', '''', TimeUEStayedInCell),
     (''TimeUEStayedInCellEnhancedGranularity'', ''optional'', PtrKind TimeUEStayedInCellEnhancedGranularity),
     (''HOCauseValue'', ''valueLB:0,valueUB:5,optional'', PtrKind Cause),
     (''IEExtensions'', ''optional'', PtrKind ProtocolExtensionContainerLastVisitedNGRANCellInformationExtIEs)]"

definition LocationReportingFailureIndication :: gtype where
  "LocationReportingFailureIndication = StructKind
    [(''ProtocolIEs'', '''', ProtocolIEContainerLocationReportingFailureIndicationIEs)]"

definition MobilityRestrictionList :: gtype where
  "MobilityRestrictionList = StructKind
    [(''ServingPLMN'', '''', PLMNIdentity),
     (''EquivalentPLMNs'', ''optional'', PtrKind EquivalentPLMNs),
     (''RATRestrictions'', ''optional'', PtrKind RATRestrictions),
     (''ForbiddenAreaInformation'', ''optional'', PtrKind ForbiddenAreaInformation),
     (''ServiceAreaInformation'', ''optional'', PtrKind ServiceAreaInformation),
     (''IEExtensions'', ''optional'', PtrKind ProtocolExtensionContainerMobilityRestrictionListExtIEs)]"

definition NASNonDeliveryIndication :: gtype where
  "NASNonDeliveryIndication = StructKind
    [(''ProtocolIEs'', '''', ProtocolIEContainerNASNonDeliveryIndicationIEs)]"

definition PDUSessionResourceModifyIndicationIEsValue :: gtype where
  "PDUSessionResourceModifyIndicationIEsValue = StructKind
    [(''Present'', '''', IntKind 64),
     (''AMFUENGAPID'', ''referenceFieldValue:10'', PtrKind AMFUENGAPID),
     (''RANUENGAPID'', ''referenceFieldValue:85'', PtrKind RANUENGAPID),
     (''PDUSessionResourceModifyListModInd'', ''referenceFieldValue:63'', PtrKind PDUSessionResourceModifyListModInd)]"

definition PDUSessionResourceModifyRequestIEsValue :: gtype where
  "PDUSessionResourceModifyRequestIEsValue = StructKind
    [(''Present'', '''', IntKind 64),
     (''AMFUENGAPID'', ''referenceFieldValue:10'', PtrKind AMFUENGAPID),
     (''RANUENGAPID'', ''referenceFieldValue:85'', PtrKind RANUENGAPID),
     (''RANPagingPriority'', ''referenceFieldValue:83'', PtrKind RANPagingPriority),
     (''PDUSessionResourceModifyListModReq'', ''referenceFieldValue:64'', PtrKind PDUSessionResourceModifyListModReq)]"

definition PDUSessionResourceNotifyTransfer :: gtype where
  "PDUSessionResourceNotifyTransfer = StructKind
    [(''QosFlowNotifyList'', ''optional'', PtrKind QosFlowNotifyList),
     (''QosFlowReleasedList'', ''optional'', PtrKind QosFlowList),
     (''IEExtensions'', ''optional'', PtrKind ProtocolExtensionContainerPDUSessionResourceNotifyTransferExtIEs)]"

definition PDUSessionResourceReleaseCommandIEsValue :: gtype where
  "PDUSessionResourceReleaseCommandIEsValue = StructKind
    [(''Present'', '''', IntKind 64),
     (''AMFUENGAPID'', ''referenceFieldValue:10'', PtrKind AMFUENGAPID),
     (''RANUENGAPID'', ''referenceFieldValue:85'', PtrKind RANUENGAPID),
     (''RANPagingPriority'', ''referenceFieldValue:83'', PtrKind RANPagingPriority),
     (''NASPDU'', ''referenceFieldValue:38'', PtrKind NASPDU),
     (''PDUSessionResourceToReleaseListRelCmd'', ''referenceFieldValue:79'', PtrKind PDUSessionResourceToReleaseListRelCmd)]"

definition PDUSessionResourceSetupListCxtReq :: gtype where
  "PDUSessionResourceSetupListCxtReq = StructKind
    [(''List'', ''valueExt,sizeLB:1,sizeUB:256'', SliceKind PDUSessionResourceSetupItemCxtReq)]"

definition PDUSessionResourceSetupListHOReq :: gtype where
  "PDUSessionResourceSetupListHOReq = StructKind
    [(''List'', ''valueExt,sizeLB:1,sizeUB:256'', SliceKind PDUSessionResourceSetupItemHOReq)]"

definition PDUSessionResourceSetupListSUReq :: gtype where
  "PDUSessionResourceSetupListSUReq = StructKind
    [(''List'', ''valueExt,sizeLB:1,sizeUB:256'', SliceKind PDUSessionResourceSetupItemSUReq)]"

definition PWSFailedCellIDList :: gtype where
  "PWSFailedCellIDList = StructKind
    [(''Present'', '''', IntKind 64),
     (''EUTRACGIPWSFailedList'', '''', PtrKind EUTRACGIList),
     (''NRCGIPWSFailedList'', '''', PtrKind NRCGIList),
     (''ChoiceExtensions'', '''', PtrKind ProtocolIESingleContainerPWSFailedCellIDListExtIEs)]"

definition PathSwitchRequestAcknowledgeTransfer :: gtype where
  "PathSwitchRequestAcknowledgeTransfer = StructKind
    [(''ULNGUUPTNLInformation'', ''valueLB:0,valueUB:1,optional'', PtrKind UPTransportLayerInformation),
     (''SecurityIndication'', ''valueExt,optional'', PtrKind SecurityIndication),
     (''IEExtensions'', ''optional'', PtrKind ProtocolExtensionContainerPathSwitchRequestAcknowledgeTransferExtIEs)]"

definition PathSwitchRequestTransfer :: gtype where
  "PathSwitchRequestTransfer = StructKind
    [(''DLNGUUPTNLInformation'', ''valueLB:0,valueUB:1'', UPTransportLayerInformation),
     (''DLNGUTNLInformationReused'', ''optional'', PtrKind DLNGUTNLInformationReused),
     (''UserPlaneSecurityInformation'', ''valueExt,optional'', PtrKind UserPlaneSecurityInformation),
     (''QosFlowAcceptedList'', '''', QosFlowAcceptedList),
     (''IEExtensions'', ''optional'', PtrKind ProtocolExtensionContainerPathSwitchRequestTransferExtIEs)]"

definition QosCharacteristics :: gtype where
  "QosCharacteristics = StructKind
    [(''Present'', '''', IntKind 64),
     (''NonDynamic5QI'', ''valueExt'', PtrKind NonDynamic5QIDescriptor),
     (''Dynamic5QI'', ''valueExt'', PtrKind Dynamic5QIDescriptor),
     (''ChoiceExtensions'', '''', PtrKind ProtocolIESingleContainerQosCharacteristicsExtIEs)]"

definition QosFlowPerTNLInformation :: gtype where
  "QosFlowPerTNLInformation = StructKind
    [(''UPTransportLayerInformation'', ''valueLB:0,valueUB:1'', UPTransportLayerInformation),
     (''AssociatedQosFlowList'', '''', AssociatedQosFlowList),
     (''IEExtensions'', ''optional'', PtrKind ProtocolExtensionContainerQosFlowPerTNLInformationExtIEs)]"

definition RecommendedCellItem :: gtype where
  "RecommendedCellItem = StructKind
    [(''NGRANCGI'', ''valueLB:0,valueUB:2'', NGRANCGI),
     (''TimeStayedInCell'', ''valueLB:0,valueUB:4095,optional'', PtrKind (IntKind 64)),
     (''IEExtensions'', ''optional'', PtrKind ProtocolExtensionContainerRecommendedCellItemExtIEs)]"

definition ResetType :: gtype where
  "ResetType = StructKind
    [(''Present'', '''', IntKind 64),
     (''NGInterface'', '''', PtrKind ResetAll),
     (''PartOfNGInterface'', '''', PtrKind UEAssociatedLogicalNGConnectionList),
     (''ChoiceExtensions'', '''', PtrKind ProtocolIESingleContainerResetTypeExtIEs)]"

definition ServedGUAMIList :: gtype where
  "ServedGUAMIList = StructKind
    [(''List'', ''valueExt,sizeLB:1,sizeUB:256'', SliceKind ServedGUAMIItem)]"

definition SingleTNLInformation :: gtype where
  "SingleTNLInformation = StructKind
    [(''UPTransportLayerInformation'', ''valueLB:0,valueUB:1'', UPTransportLayerInformation),
     (''IEExtensions'', ''optional'', PtrKind ProtocolExtensionContainerSingleTNLInformationExtIEs)]"

definition SliceOverloadList :: gtype where
  "SliceOverloadList = StructKind
    [(''List'', ''valueExt,sizeLB:1,sizeUB:1024'', SliceKind SliceOverloadItem)]"

definition SliceSupportList :: gtype where
  "SliceSupportList = StructKind
    [(''List'', ''valueExt,sizeLB:1,sizeUB:1024'', SliceKind SliceSupportItem)]"

definition SourceRANNodeID :: gtype where
  "SourceRANNodeID = StructKind
    [(''GlobalRANNodeID'', ''valueLB:0,valueUB:3'', GlobalRANNodeID),
     (''SelectedTAI'', ''valueExt'', TAI),
     (''IEExtensions'', ''optional'', PtrKind ProtocolExtensionContainerSourceRANNodeIDExtIEs)]"

definition TAIListForInactive :: gtype where
  "TAIListForInactive = StructKind
    [(''List'', ''valueExt,sizeLB:1,sizeUB:16'', SliceKind TAIListForInactiveItem)]"

definition TAIListForPaging :: gtype where
  "TAIListForPaging = StructKind
    [(''List'', ''valueExt,sizeLB:1,sizeUB:16'', SliceKind TAIListForPagingItem)]"

definition TNLMappingItem :: gtype where
  "TNLMappingItem = StructKind
    [(''DLNGUUPTNLInformation'', ''valueLB:0,valueUB:1'', UPTransportLayerInformation),
     (''ULNGUUPTNLInformation'', ''valueLB:0,valueUB:1'', UPTransportLayerInformation),
     (''IEExtensions'', ''optional'', PtrKind ProtocolExtensionContainerTNLMappingItemExtIEs)]"

definition TargetRANNodeID :: gtype where
  "TargetRANNodeID = StructKind
    [(''GlobalRANNodeID'', ''valueLB:0,valueUB:3'', GlobalRANNodeID),
     (''SelectedTAI'', ''valueExt'', TAI),
     (''IEExtensions'', ''optional'', PtrKind ProtocolExtensionContainerTargetRANNodeIDExtIEs)]"

definition TraceFailureIndication :: gtype where
  "TraceFailureIndication = StructKind
    [(''ProtocolIEs'', '''', ProtocolIEContainerTraceFailureIndicationIEs)]"

definition TraceStartIEs :: gtype where
  "TraceStartIEs = StructKind
    [(''Id'', '''', ProtocolIEID),
     (''Criticality'', '''', Criticality),
     (''Value'', ''openType,referenceFieldName:Id'', TraceStartIEsValue)]"

definition UEContextReleaseCommandIEsValue :: gtype where
  "UEContextReleaseCommandIEsValue = StructKind
    [(''Present'', '''', IntKind 64),
     (''UENGAPIDs'', ''referenceFieldValue:114,valueLB:0,valueUB:2'', PtrKind UENGAPIDs),
     (''Cause'', ''referenceFieldValue:15,valueLB:0,valueUB:5'', PtrKind Cause)]"

definition UEContextReleaseRequestIEsValue :: gtype where
  "UEContextReleaseRequestIEsValue = StructKind
    [(''Present'', '''', IntKind 64),
     (''AMFUENGAPID'', ''referenceFieldValue:10'', PtrKind AMFUENGAPID),
     (''RANUENGAPID'', ''referenceFieldValue:85'', PtrKind RANUENGAPID),
     (''PDUSessionResourceListCxtRelReq'', ''referenceFieldValue:133'', PtrKind PDUSessionResourceListCxtRelReq),
     (''Cause'', ''referenceFieldValue:15,valueLB:0,valueUB:5'', PtrKind Cause)]"

definition UERadioCapabilityInfoIndicationIEs :: gtype where
  "UERadioCapabilityInfoIndicationIEs = StructKind
    [(''Id'', '''', ProtocolIEID),
     (''Criticality'', '''', Criticality),
     (''Value'', ''openType,referenceFieldName:Id'', UERadioCapabilityInfoIndicationIEsValue)]"

definition ULNGUUPTNLModifyItem :: gtype where
  "ULNGUUPTNLModifyItem = StructKind
    [(''ULNGUUPTNLInformation'', ''valueLB:0,valueUB:1'', UPTransportLayerInformation),
     (''DLNGUUPTNLInformation'', ''valueLB:0,valueUB:1'', UPTransportLayerInformation),
     (''IEExtensions'', ''optional'', PtrKind ProtocolExtensionContainerULNGUUPTNLModifyItemExtIEs)]"

definition UnavailableGUAMIList :: gtype where
  "UnavailableGUAMIList = StructKind
    [(''List'', ''valueExt,sizeLB:1,sizeUB:256'', SliceKind UnavailableGUAMIItem)]"

definition UserLocationInformation :: gtype where
  "UserLocationInformation = StructKind
    [(''Present'', '''', IntKind 64),
     (''UserLocationInformationEUTRA'', ''valueExt'', PtrKind UserLocationInformationEUTRA),
     (''UserLocationInformationNR'', ''valueExt'', PtrKind UserLocationInformationNR),
     (''UserLocationInformationN3IWF'', ''valueExt'', PtrKind UserLocationInformationN3IWF),
     (''ChoiceExtensions'', '''', PtrKind ProtocolIESingleContainerUserLocationInformationExtIEs)]"

definition WarningAreaList :: gtype where
  "WarningAreaList = StructKind
    [(''Present'', '''', IntKind 64),
     (''EUTRACGIListForWarning'', '''', PtrKind EUTRACGIListForWarning),
     (''NRCGIListForWarning'', '''', PtrKind NRCGIListForWarning),
     (''TAIListForWarning'', '''', PtrKind TAIListForWarning),
     (''EmergencyAreaIDList'', '''', PtrKind EmergencyAreaIDList),
     (''ChoiceExtensions'', '''', PtrKind ProtocolIESingleContainerWarningAreaListExtIEs)]"

definition XnTNLConfigurationInfo :: gtype where
  "XnTNLConfigurationInfo = StructKind
    [(''XnTransportLayerAddresses'', '''', XnTLAs),
     (''XnExtendedTransportLayerAddresses'', ''optional'', PtrKind XnExtTLAs),
     (''IEExtensions'', ''optional'', PtrKind ProtocolExtensionContainerXnTNLConfigurationInfoExtIEs)]"

definition AMFConfigurationUpdateAcknowledgeIEsValue :: gtype where
  "AMFConfigurationUpdateAcknowledgeIEsValue = StructKind
    [(''Present'', '''', IntKind 64),
     (''AMFTNLAssociationSetupList'', ''referenceFieldValue:5'', PtrKind AMFTNLAssociationSetupList),
     (''AMFTNLAssociationFailedToSetupList'', ''referenceFieldValue:4'', PtrKind TNLAssociationList),
     (''CriticalityDiagnostics'', ''valueExt,referenceFieldValue:19'', PtrKind CriticalityDiagnostics)]"

definition AMFConfigurationUpdateFailureIEsValue :: gtype where
  "AMFConfigurationUpdateFailureIEsValue = StructKind
    [(''Present'', '''', IntKind 64),
     (''Cause'', ''referenceFieldValue:15,valueLB:0,valueUB:5'', PtrKind Cause),
     (''TimeToWait'', ''referenceFieldValue:107'', PtrKind TimeToWait),
     (''CriticalityDiagnostics'', ''valueExt,referenceFieldValue:19'', PtrKind CriticalityDiagnostics)]"

definition AMFStatusIndicationIEsValue :: gtype where
  "AMFStatusIndicationIEsValue = StructKind
    [(''Present'', '''', IntKind 64),
     (''UnavailableGUAMIList'', ''referenceFieldValue:120'', PtrKind UnavailableGUAMIList)]"

definition AreaOfInterestCellList :: gtype where
  "AreaOfInterestCellList = StructKind
    [(''List'', ''valueExt,sizeLB:1,sizeUB:256'', SliceKind AreaOfInterestCellItem)]"

definition AreaOfInterestRANNodeList :: gtype where
  "AreaOfInterestRANNodeList = StructKind
    [(''List'', ''valueExt,sizeLB:1,sizeUB:64'', SliceKind AreaOfInterestRANNodeItem)]"

definition BroadcastPLMNItem :: gtype where
  "BroadcastPLMNItem = StructKind
    [(''PLMNIdentity'', '''', PLMNIdentity),
     (''TAISliceSupportList'', '''', SliceSupportList),
     (''IEExtensions'', ''optional'', PtrKind ProtocolExtensionContainerBroadcastPLMNItemExtIEs)]"

definition CellTrafficTraceIEs :: gtype where
  "CellTrafficTraceIEs = StructKind
    [(''Id'', '''', ProtocolIEID),
     (''Criticality'', '''', Criticality),
     (''Value'', ''openType,referenceFieldName:Id'', CellTrafficTraceIEsValue)]"

definition DRBsSubjectToStatusTransferItem :: gtype where
  "DRBsSubjectToStatusTransferItem = StructKind
    [(''DRBID'', '''', DRBID),
     (''DRBStatusUL'', ''valueLB:0,valueUB:2'', DRBStatusUL),
     (''DRBStatusDL'', ''valueLB:0,valueUB:2'', DRBStatusDL),
     (''IEExtension'', ''optional'', PtrKind ProtocolExtensionContainerDRBsSubjectToStatusTransferItemExtIEs)]"

definition DRBsToQosFlowsMappingList :: gtype where
  "DRBsToQosFlowsMappingList = StructKind
    [(''List'', ''valueExt,sizeLB:1,sizeUB:32'', SliceKind DRBsToQosFlowsMappingItem)]"

definition DataForwardingResponseDRBList :: gtype where
  "DataForwardingResponseDRBList = StructKind
    [(''List'', ''valueExt,sizeLB:1,sizeUB:32'', SliceKind DataForwardingResponseDRBItem)]"

definition DownlinkNASTransportIEsValue :: gtype where
  "DownlinkNASTransportIEsValue = StructKind
    [(''Present'', '''', IntKind 64),
     (''AMFUENGAPID'', ''referenceFieldValue:10'', PtrKind AMFUENGAPID),
     (''RANUENGAPID'', ''referenceFieldValue:85'', PtrKind RANUENGAPID),
     (''OldAMF'', ''referenceFieldValue:48'', PtrKind AMFName),
     (''RANPagingPriority'', ''referenceFieldValue:83'', PtrKind RANPagingPriority),
     (''NASPDU'', ''referenceFieldValue:38'', PtrKind NASPDU),
     (''MobilityRestrictionList'', ''valueExt,referenceFieldValue:36'', PtrKind MobilityRestrictionList),
     (''IndexToRFSP'', ''referenceFieldValue:31'', PtrKind IndexToRFSP),
     (''UEAggregateMaximumBitRate'', ''valueExt,referenceFieldValue:110'', PtrKind UEAggregateMaximumBitRate),
     (''AllowedNSSAI'', ''referenceFieldValue:0'', PtrKind AllowedNSSAI)]"

definition EmergencyAreaIDBroadcastEUTRAItem :: gtype where
  "EmergencyAreaIDBroadcastEUTRAItem = StructKind
    [(''EmergencyAreaID'', '''', EmergencyAreaID),
     (''CompletedCellsInEAIEUTRA'', '''', CompletedCellsInEAIEUTRA),
     (''IEExtensions'', ''optional'', PtrKind ProtocolExtensionContainerEmergencyAreaIDBroadcastEUTRAItemExtIEs)]"

definition EmergencyAreaIDBroadcastNRItem :: gtype where
  "EmergencyAreaIDBroadcastNRItem = StructKind
    [(''EmergencyAreaID'', '''', EmergencyAreaID),
     (''CompletedCellsInEAINR'', '''', CompletedCellsInEAINR),
     (''IEExtensions'', ''optional'', PtrKind ProtocolExtensionContainerEmergencyAreaIDBroadcastNRItemExtIEs)]"

definition EmergencyAreaIDCancelledEUTRAItem :: gtype where
  "EmergencyAreaIDCancelledEUTRAItem = StructKind
    [(''EmergencyAreaID'', '''', EmergencyAreaID),
     (''CancelledCellsInEAIEUTRA'', '''', CancelledCellsInEAIEUTRA),
     (''IEExtensions'', ''optional'', PtrKind ProtocolExtensionContainerEmergencyAreaIDCancelledEUTRAItemExtIEs)]"

definition EmergencyAreaIDCancelledNRItem :: gtype where
  "EmergencyAreaIDCancelledNRItem = StructKind
    [(''EmergencyAreaID'', '''', EmergencyAreaID),
     (''CancelledCellsInEAINR'', '''', CancelledCellsInEAINR),
     (''IEExtensions'', ''optional'', PtrKind ProtocolExtensionContainerEmergencyAreaIDCancelledNRItemExtIEs)]"

definition ErrorIndicationIEsValue :: gtype where
  "ErrorIndicationIEsValue = StructKind
    [(''Present'', '''', IntKind 64),
     (''AMFUENGAPID'', ''referenceFieldValue:10'', PtrKind AMFUENGAPID),
     (''RANUENGAPID'', ''referenceFieldValue:85'', PtrKind RANUENGAPID),
     (''Cause'', ''referenceFieldValue:15,valueLB:0,valueUB:5'', PtrKind Cause),
     (''CriticalityDiagnostics'', ''valueExt,referenceFieldValue:19'', PtrKind CriticalityDiagnostics)]"

definition ExpectedUEMovingTrajectory :: gtype where
  "ExpectedUEMovingTrajectory = StructKind
    [(''List'', ''valueExt,sizeLB:1,sizeUB:16'', SliceKind ExpectedUEMovingTrajectoryItem)]"

definition HandoverCancelAcknowledgeIEsValue :: gtype where
  "HandoverCancelAcknowledgeIEsValue = StructKind
    [(''Present'', '''', IntKind 64),
     (''AMFUENGAPID'', ''referenceFieldValue:10'', PtrKind AMFUENGAPID),
     (''RANUENGAPID'', ''referenceFieldValue:85'', PtrKind RANUENGAPID),
     (''CriticalityDiagnostics'', ''valueExt,referenceFieldValue:19'', PtrKind CriticalityDiagnostics)]"

definition HandoverCommandIEsValue :: gtype where
  "HandoverCommandIEsValue = StructKind
    [(''Present'', '''', IntKind 64),
     (''AMFUENGAPID'', ''referenceFieldValue:10'', PtrKind AMFUENGAPID),
     (''RANUENGAPID'', ''referenceFieldValue:85'', PtrKind RANUENGAPID),
     (''HandoverType'', ''referenceFieldValue:29'', PtrKind HandoverType),
     (''NASSecurityParametersFromNGRAN'', ''referenceFieldValue:39'', PtrKind NASSecurityParametersFromNGRAN),
     (''PDUSessionResourceHandoverList'', ''referenceFieldValue:59'', PtrKind PDUSessionResourceHandoverList),
     (''PDUSessionResourceToReleaseListHOCmd'', ''referenceFieldValue:78'', PtrKind PDUSessionResourceToReleaseListHOCmd),
     (''TargetToSourceTransparentContainer'', ''referenceFieldValue:106'', PtrKind TargetToSourceTransparentContainer),
     (''CriticalityDiagnostics'', ''valueExt,referenceFieldValue:19'', PtrKind CriticalityDiagnostics)]"

definition HandoverFailureIEsValue :: gtype where
  "HandoverFailureIEsValue = StructKind
    [(''Present'', '''', IntKind 64),
     (''AMFUENGAPID'', ''referenceFieldValue:10'', PtrKind AMFUENGAPID),
     (''Cause'', ''referenceFieldValue:15,valueLB:0,valueUB:5'', PtrKind Cause),
     (''CriticalityDiagnostics'', ''valueExt,referenceFieldValue:19'', PtrKind CriticalityDiagnostics)]"

definition HandoverNotifyIEsValue :: gtype where
  "HandoverNotifyIEsValue = StructKind
    [(''Present'', '''', IntKind 64),
     (''AMFUENGAPID'', ''referenceFieldValue:10'', PtrKind AMFUENGAPID),
     (''RANUENGAPID'', ''referenceFieldValue:85'', PtrKind RANUENGAPID),
     (''UserLocationInformation'', ''referenceFieldValue:121,valueLB:0,valueUB:3'', PtrKind UserLocationInformation)]"

definition HandoverPreparationFailureIEsValue :: gtype where
  "HandoverPreparationFailureIEsValue = StructKind
    [(''Present'', '''', IntKind 64),
     (''AMFUENGAPID'', ''referenceFieldValue:10'', PtrKind AMFUENGAPID),
     (''RANUENGAPID'', ''referenceFieldValue:85'', PtrKind RANUENGAPID),
     (''Cause'', ''referenceFieldValue:15,valueLB:0,valueUB:5'', PtrKind Cause),
     (''CriticalityDiagnostics'', ''valueExt,referenceFieldValue:19'', PtrKind CriticalityDiagnostics)]"

definition HandoverRequestAcknowledgeIEsValue :: gtype where
  "HandoverRequestAcknowledgeIEsValue = StructKind
    [(''Present'', '''', IntKind 64),
     (''AMFUENGAPID'', ''referenceFieldValue:10'', PtrKind AMFUENGAPID),
     (''RANUENGAPID'', ''referenceFieldValue:85'', PtrKind RANUENGAPID),
     (''PDUSessionResourceAdmittedList'', ''referenceFieldValue:53'', PtrKind PDUSessionResourceAdmittedList),
     (''PDUSessionResourceFailedToSetupListHOAck'', ''referenceFieldValue:56'', PtrKind PDUSessionResourceFailedToSetupListHOAck),
     (''TargetToSourceTransparentContainer'', ''referenceFieldValue:106'', PtrKind TargetToSourceTransparentContainer),
     (''CriticalityDiagnostics'', ''valueExt,referenceFieldValue:19'', PtrKind CriticalityDiagnostics)]"

definition HandoverResourceAllocationUnsuccessfulTransfer :: gtype where
  "HandoverResourceAllocationUnsuccessfulTransfer = StructKind
    [(''Cause'', ''valueLB:0,valueUB:5'', Cause),
     (''CriticalityDiagnostics'', ''valueExt,optional'', PtrKind CriticalityDiagnostics),
     (''IEExtensions'', ''optional'', PtrKind ProtocolExtensionContainerHandoverResourceAllocationUnsuccessfulTransferExtIEs)]"

definition InitialContextSetupFailureIEsValue :: gtype where
  "InitialContextSetupFailureIEsValue = StructKind
    [(''Present'', '''', IntKind 64),
     (''AMFUENGAPID'', ''referenceFieldValue:10'', PtrKind AMFUENGAPID),
     (''RANUENGAPID'', ''referenceFieldValue:85'', PtrKind RANUENGAPID),
     (''PDUSessionResourceFailedToSetupListCxtFail'', ''referenceFieldValue:132'', PtrKind PDUSessionResourceFailedToSetupListCxtFail),
     (''Cause'', ''referenceFieldValue:15,valueLB:0,valueUB:5'', PtrKind Cause),
     (''CriticalityDiagnostics'', ''valueExt,referenceFieldValue:19'', PtrKind CriticalityDiagnostics)]"

definition InitialContextSetupResponseIEsValue :: gtype where
  "InitialContextSetupResponseIEsValue = StructKind
    [(''Present'', '''', IntKind 64),
     (''AMFUENGAPID'', ''referenceFieldValue:10'', PtrKind AMFUENGAPID),
     (''RANUENGAPID'', ''referenceFieldValue:85'', PtrKind RANUENGAPID),
     (''PDUSessionResourceSetupListCxtRes'', ''referenceFieldValue:72'', PtrKind PDUSessionResourceSetupListCxtRes),
     (''PDUSessionResourceFailedToSetupListCxtRes'', ''referenceFieldValue:55'', PtrKind PDUSessionResourceFailedToSetupListCxtRes),
     (''CriticalityDiagnostics'', ''valueExt,referenceFieldValue:19'', PtrKind CriticalityDiagnostics)]"

definition InitialUEMessageIEsValue :: gtype where
  "InitialUEMessageIEsValue = StructKind
    [(''Present'', '''', IntKind 64),
     (''RANUENGAPID'', ''referenceFieldValue:85'', PtrKind RANUENGAPID),
     (''NASPDU'', ''referenceFieldValue:38'', PtrKind NASPDU),
     (''UserLocationInformation'', ''referenceFieldValue:121,valueLB:0,valueUB:3'', PtrKind UserLocationInformation),
     (''RRCEstablishmentCause'', ''referenceFieldValue:90'', PtrKind RRCEstablishmentCause),
     (''FiveGSTMSI'', ''valueExt,referenceFieldValue:26'', PtrKind FiveGSTMSI),
     (''AMFSetID'', ''referenceFieldValue:3'', PtrKind AMFSetID),
     (''UEContextRequest'', ''referenceFieldValue:112'', PtrKind UEContextRequest),
     (''AllowedNSSAI'', ''referenceFieldValue:0'', PtrKind AllowedNSSAI)]"

definition LastVisitedCellInformation :: gtype where
  "LastVisitedCellInformation = StructKind
    [(''Present'', '''', IntKind 64),
     (''NGRANCell'', ''valueExt'', PtrKind LastVisitedNGRANCellInformation),
     (''EUTRANCell'', '''', PtrKind LastVisitedEUTRANCellInformation),
     (''UTRANCell'', '''', PtrKind LastVisitedUTRANCellInformation),
     (''GERANCell'', '''', PtrKind LastVisitedGERANCellInformation),
     (''ChoiceExtensions'', '''', PtrKind ProtocolIESingleContainerLastVisitedCellInformationExtIEs)]"

definition NGResetAcknowledgeIEsValue :: gtype where
  "NGResetAcknowledgeIEsValue = StructKind
    [(''Present'', '''', IntKind 64),
     (''UEAssociatedLogicalNGConnectionList'', ''referenceFieldValue:111'', PtrKind UEAssociatedLogicalNGConnectionList),
     (''CriticalityDiagnostics'', ''valueExt,referenceFieldValue:19'', PtrKind CriticalityDiagnostics)]"

definition NGResetIEsValue :: gtype where
  "NGResetIEsValue = StructKind
    [(''Present'', '''', IntKind 64),
     (''Cause'', ''referenceFieldValue:15,valueLB:0,valueUB:5'', PtrKind Cause),
     (''ResetType'', ''referenceFieldValue:88,valueLB:0,valueUB:2'', PtrKind ResetType)]"

definition NGSetupFailureIEsValue :: gtype where
  "NGSetupFailureIEsValue = StructKind
    [(''Present'', '''', IntKind 64),
     (''Cause'', ''referenceFieldValue:15,valueLB:0,valueUB:5'', PtrKind Cause),
     (''TimeToWait'', ''referenceFieldValue:107'', PtrKind TimeToWait),
     (''CriticalityDiagnostics'', ''valueExt,referenceFieldValue:19'', PtrKind CriticalityDiagnostics)]"

definition OverloadStartNSSAIItem :: gtype where
  "OverloadStartNSSAIItem = StructKind
    [(''SliceOverloadList'', '''', SliceOverloadList),
     (''SliceOverloadResponse'', ''valueLB:0,valueUB:1,optional'', PtrKind OverloadResponse),
     (''SliceTrafficLoadReductionIndication'', ''optional'', PtrKind TrafficLoadReductionIndication),
     (''IEExtensions'', ''optional'', PtrKind ProtocolExtensionContainerOverloadStartNSSAIItemExtIEs)]"

definition PDUSessionResourceModifyConfirmIEsValue :: gtype where
  "PDUSessionResourceModifyConfirmIEsValue = StructKind
    [(''Present'', '''', IntKind 64),
     (''AMFUENGAPID'', ''referenceFieldValue:10'', PtrKind AMFUENGAPID),
     (''RANUENGAPID'', ''referenceFieldValue:85'', PtrKind RANUENGAPID),
     (''PDUSessionResourceModifyListModCfm'', ''referenceFieldValue:62'', PtrKind PDUSessionResourceModifyListModCfm),
     (''PDUSessionResourceFailedToModifyListModCfm'', ''referenceFieldValue:131'', PtrKind PDUSessionResourceFailedToModifyListModCfm),
     (''CriticalityDiagnostics'', ''valueExt,referenceFieldValue:19'', PtrKind CriticalityDiagnostics)]"

definition PDUSessionResourceModifyIndicationIEs :: gtype where
  "PDUSessionResourceModifyIndicationIEs = StructKind
    [(''Id'', '''', ProtocolIEID),
     (''Criticality'', '''', Criticality),
     (''Value'', ''openType,referenceFieldName:Id'', PDUSessionResourceModifyIndicationIEsValue)]"

definition PDUSessionResourceModifyRequestIEs :: gtype where
  "PDUSessionResourceModifyRequestIEs = StructKind
    [(''Id'', '''', ProtocolIEID),
     (''Criticality'', '''', Criticality),
     (''Value'', ''openType,referenceFieldName:Id'', PDUSessionResourceModifyRequestIEsValue)]"

definition PDUSessionResourceModifyResponseIEsValue :: gtype where
  "PDUSessionResourceModifyResponseIEsValue = StructKind
    [(''Present'', '''', IntKind 64),
     (''AMFUENGAPID'', ''referenceFieldValue:10'', PtrKind AMFUENGAPID),
     (''RANUENGAPID'', ''referenceFieldValue:85'', PtrKind RANUENGAPID),
     (''PDUSessionResourceModifyListModRes'', ''referenceFieldValue:65'', PtrKind PDUSessionResourceModifyListModRes),
     (''PDUSessionResourceFailedToModifyListModRes'', ''referenceFieldValue:54'', PtrKind PDUSessionResourceFailedToModifyListModRes),
     (''UserLocationInformation'', ''referenceFieldValue:121,valueLB:0,valueUB:3'', PtrKind UserLocationInformation),
     (''CriticalityDiagnostics'', ''valueExt,referenceFieldValue:19'', PtrKind CriticalityDiagnostics)]"

definition PDUSessionResourceModifyResponseTransfer :: gtype where
  "PDUSessionResourceModifyResponseTransfer = StructKind
    [(''DLNGUUPTNLInformation'', ''valueLB:0,valueUB:1,optional'', PtrKind UPTransportLayerInformation),
     (''ULNGUUPTNLInformation'', ''valueLB:0,valueUB:1,optional'', PtrKind UPTransportLayerInformation),
     (''QosFlowAddOrModifyResponseList'', ''optional'', PtrKind QosFlowAddOrModifyResponseList),
     (''AdditionalQosFlowPerTNLInformation'', ''valueExt,optional'', PtrKind QosFlowPerTNLInformation),
     (''QosFlowFailedToAddOrModifyList'', ''optional'', PtrKind QosFlowList),
     (''IEExtensions'', ''optional'', PtrKind ProtocolExtensionContainerPDUSessionResourceModifyResponseTransferExtIEs)]"

definition PDUSessionResourceModifyUnsuccessfulTransfer :: gtype where
  "PDUSessionResourceModifyUnsuccessfulTransfer = StructKind
    [(''Cause'', ''valueLB:0,valueUB:5'', Cause),
     (''CriticalityDiagnostics'', ''valueExt,optional'', PtrKind CriticalityDiagnostics),
     (''IEExtensions'', ''optional'', PtrKind ProtocolExtensionContainerPDUSessionResourceModifyUnsuccessfulTransferExtIEs)]"

definition PDUSessionResourceNotifyIEsValue :: gtype where
  "PDUSessionResourceNotifyIEsValue = StructKind
    [(''Present'', '''', IntKind 64),
     (''AMFUENGAPID'', ''referenceFieldValue:10'', PtrKind AMFUENGAPID),
     (''RANUENGAPID'', ''referenceFieldValue:85'', PtrKind RANUENGAPID),
     (''PDUSessionResourceNotifyList'', ''referenceFieldValue:66'', PtrKind PDUSessionResourceNotifyList),
     (''PDUSessionResourceReleasedListNot'', ''referenceFieldValue:67'', PtrKind PDUSessionResourceReleasedListNot),
     (''UserLocationInformation'', ''referenceFieldValue:121,valueLB:0,valueUB:3'', PtrKind UserLocationInformation)]"

definition PDUSessionResourceReleaseCommandIEs :: gtype where
  "PDUSessionResourceReleaseCommandIEs = StructKind
    [(''Id'', '''', ProtocolIEID),
     (''Criticality'', '''', Criticality),
     (''Value'', ''openType,referenceFieldName:Id'', PDUSessionResourceReleaseCommandIEsValue)]"

definition PDUSessionResourceReleaseResponseIEsValue :: gtype where
  "PDUSessionResourceReleaseResponseIEsValue = StructKind
    [(''Present'', '''', IntKind 64),
     (''AMFUENGAPID'', ''referenceFieldValue:10'', PtrKind AMFUENGAPID),
     (''RANUENGAPID'', ''referenceFieldValue:85'', PtrKind RANUENGAPID),
     (''PDUSessionResourceReleasedListRelRes'', ''referenceFieldValue:70'', PtrKind PDUSessionResourceReleasedListRelRes),
     (''UserLocationInformation'', ''referenceFieldValue:121,valueLB:0,valueUB:3'', PtrKind UserLocationInformation),
     (''CriticalityDiagnostics'', ''valueExt,referenceFieldValue:19'', PtrKind CriticalityDiagnostics)]"

definition PDUSessionResourceSetupRequestIEsValue :: gtype where
  "PDUSessionResourceSetupRequestIEsValue = StructKind
    [(''Present'', '''', IntKind 64),
     (''AMFUENGAPID'', ''referenceFieldValue:10'', PtrKind AMFUENGAPID),
     (''RANUENGAPID'', ''referenceFieldValue:85'', PtrKind RANUENGAPID),
     (''RANPagingPriority'', ''referenceFieldValue:83'', PtrKind RANPagingPriority),
     (''NASPDU'', ''referenceFieldValue:38'', PtrKind NASPDU),
     (''PDUSessionResourceSetupListSUReq'', ''referenceFieldValue:74'', PtrKind PDUSessionResourceSetupListSUReq)]"

definition PDUSessionResourceSetupResponseIEsValue :: gtype where
  "PDUSessionResourceSetupResponseIEsValue = StructKind
    [(''Present'', '''', IntKind 64),
     (''AMFUENGAPID'', ''referenceFieldValue:10'', PtrKind AMFUENGAPID),
     (''RANUENGAPID'', ''referenceFieldValue:85'', PtrKind RANUENGAPID),
     (''PDUSessionResourceSetupListSURes'', ''referenceFieldValue:75'', PtrKind PDUSessionResourceSetupListSURes),
     (''PDUSessionResourceFailedToSetupListSURes'', ''referenceFieldValue:58'', PtrKind PDUSessionResourceFailedToSetupListSURes),
     (''CriticalityDiagnostics'', ''valueExt,referenceFieldValue:19'', PtrKind CriticalityDiagnostics)]"

definition PDUSessionResourceSetupResponseTransfer :: gtype where
  "PDUSessionResourceSetupResponseTransfer = StructKind
    [(''QosFlowPerTNLInformation'', ''valueExt'', QosFlowPerTNLInformation),
     (''AdditionalQosFlowPerTNLInformation'', ''valueExt,optional'', PtrKind QosFlowPerTNLInformation),
     (''SecurityResult'', ''valueExt,optional'', PtrKind SecurityResult),
     (''QosFlowFailedToSetupList'', ''optional'', PtrKind QosFlowList),
     (''IEExtensions'', ''optional'', PtrKind ProtocolExtensionContainerPDUSessionResourceSetupResponseTransferExtIEs)]"

definition PDUSessionResourceSetupUnsuccessfulTransfer :: gtype where
  "PDUSessionResourceSetupUnsuccessfulTransfer = StructKind
    [(''Cause'', ''valueLB:0,valueUB:5'', Cause),
     (''CriticalityDiagnostics'', ''valueExt,optional'', PtrKind CriticalityDiagnostics),
     (''IEExtensions'', ''optional'', PtrKind ProtocolExtensionContainerPDUSessionResourceSetupUnsuccessfulTransferExtIEs)]"

definition PLMNSupportItem :: gtype where
  "PLMNSupportItem = StructKind
    [(''PLMNIdentity'', '''', PLMNIdentity),
     (''SliceSupportList'', '''', SliceSupportList),
     (''IEExtensions'', ''optional'', PtrKind ProtocolExtensionContainerPLMNSupportItemExtIEs)]"

definition PWSCancelRequestIEsValue :: gtype where
  "PWSCancelRequestIEsValue = StructKind
    [(''Present'', '''', IntKind 64),
     (''MessageIdentifier'', ''referenceFieldValue:35'', PtrKind MessageIdentifier),
     (''SerialNumber'', ''referenceFieldValue:95'', PtrKind SerialNumber),
     (''WarningAreaList'', ''referenceFieldValue:122,valueLB:0,valueUB:4'', PtrKind WarningAreaList),
     (''CancelAllWarningMessages'', ''referenceFieldValue:14'', PtrKind CancelAllWarningMessages)]"

definition PWSFailureIndicationIEsValue :: gtype where
  "PWSFailureIndicationIEsValue = StructKind
    [(''Present'', '''', IntKind 64),
     (''PWSFailedCellIDList'', ''referenceFieldValue:81,valueLB:0,valueUB:2'', PtrKind PWSFailedCellIDList),
     (''GlobalRANNodeID'', ''referenceFieldValue:27,valueLB:0,valueUB:3'', PtrKind GlobalRANNodeID)]"

definition PWSRestartIndicationIEsValue :: gtype where
  "PWSRestartIndicationIEsValue = StructKind
    [(''Present'', '''', IntKind 64),
     (''CellIDListForRestart'', ''referenceFieldValue:16,valueLB:0,valueUB:2'', PtrKind CellIDListForRestart),
     (''GlobalRANNodeID'', ''referenceFieldValue:27,valueLB:0,valueUB:3'', PtrKind GlobalRANNodeID),
     (''TAIListForRestart'', ''referenceFieldValue:104'', PtrKind TAIListForRestart),
     (''EmergencyAreaIDListForRestart'', ''referenceFieldValue:23'', PtrKind EmergencyAreaIDListForRestart)]"

definition PathSwitchRequestFailureIEsValue :: gtype where
  "PathSwitchRequestFailureIEsValue = StructKind
    [(''Present'', '''', IntKind 64),
     (''AMFUENGAPID'', ''referenceFieldValue:10'', PtrKind AMFUENGAPID),
     (''RANUENGAPID'', ''referenceFieldValue:85'', PtrKind RANUENGAPID),
     (''PDUSessionResourceReleasedListPSFail'', ''referenceFieldValue:69'', PtrKind PDUSessionResourceReleasedListPSFail),
     (''CriticalityDiagnostics'', ''valueExt,referenceFieldValue:19'', PtrKind CriticalityDiagnostics)]"

definition PathSwitchRequestIEsValue :: gtype where
  "PathSwitchRequestIEsValue = StructKind
    [(''Present'', '''', IntKind 64),
     (''RANUENGAPID'', ''referenceFieldValue:85'', PtrKind RANUENGAPID),
     (''SourceAMFUENGAPID'', ''referenceFieldValue:100'', PtrKind AMFUENGAPID),
     (''UserLocationInformation'', ''referenceFieldValue:121,valueLB:0,valueUB:3'', PtrKind UserLocationInformation),
     (''UESecurityCapabilities'', ''valueExt,referenceFieldValue:119'', PtrKind UESecurityCapabilities),
     (''PDUSessionResourceToBeSwitchedDLList'', ''referenceFieldValue:76'', PtrKind PDUSessionResourceToBeSwitchedDLList),
     (''PDUSessionResourceFailedToSetupListPSReq'', ''referenceFieldValue:57'', PtrKind PDUSessionResourceFailedToSetupListPSReq)]"

definition ProtocolIEContainerTraceStartIEs :: gtype where
  "ProtocolIEContainerTraceStartIEs = StructKind
    [(''List'', ''sizeLB:0,sizeUB:65535'', SliceKind TraceStartIEs)]"

definition ProtocolIEContainerUERadioCapabilityInfoIndicationIEs :: gtype where
  "ProtocolIEContainerUERadioCapabilityInfoIndicationIEs = StructKind
    [(''List'', ''sizeLB:0,sizeUB:65535'', SliceKind UERadioCapabilityInfoIndicationIEs)]"

definition QosFlowLevelQosParameters :: gtype where
  "QosFlowLevelQosParameters = StructKind
    [(''QosCharacteristics'', ''valueLB:0,valueUB:2'', QosCharacteristics),
     (''AllocationAndRetentionPriority'', ''valueExt'', AllocationAndRetentionPriority),
     (''GBRQosInformation'', ''valueExt,optional'', PtrKind GBRQosInformation),
     (''ReflectiveQosAttribute'', ''optional'', PtrKind ReflectiveQosAttribute),
     (''AdditionalQosFlowInformation'', ''optional'', PtrKind AdditionalQosFlowInformation),
     (''IEExtensions'', ''optional'', PtrKind ProtocolExtensionContainerQosFlowLevelQosParametersExtIEs)]"

definition RANConfigurationUpdateAcknowledgeIEsValue :: gtype where
  "RANConfigurationUpdateAcknowledgeIEsValue = StructKind
    [(''Present'', '''', IntKind 64),
     (''CriticalityDiagnostics'', ''valueExt,referenceFieldValue:19'', PtrKind CriticalityDiagnostics)]"

definition RANConfigurationUpdateFailureIEsValue :: gtype where
  "RANConfigurationUpdateFailureIEsValue = StructKind
    [(''Present'', '''', IntKind 64),
     (''Cause'', ''referenceFieldValue:15,valueLB:0,valueUB:5'', PtrKind Cause),
     (''TimeToWait'', ''referenceFieldValue:107'', PtrKind TimeToWait),
     (''CriticalityDiagnostics'', ''valueExt,referenceFieldValue:19'', PtrKind CriticalityDiagnostics)]"

definition RRCInactiveTransitionReportIEsValue :: gtype where
  "RRCInactiveTransitionReportIEsValue = StructKind
    [(''Present'', '''', IntKind 64),
     (''AMFUENGAPID'', ''referenceFieldValue:10'', PtrKind AMFUENGAPID),
     (''RANUENGAPID'', ''referenceFieldValue:85'', PtrKind RANUENGAPID),
     (''RRCState'', ''referenceFieldValue:92'', PtrKind RRCState),
     (''UserLocationInformation'', ''referenceFieldValue:121,valueLB:0,valueUB:3'', PtrKind UserLocationInformation)]"

definition RecommendedCellList :: gtype where
  "RecommendedCellList = StructKind
    [(''List'', ''valueExt,sizeLB:1,sizeUB:16'', SliceKind RecommendedCellItem)]"

definition RecommendedRANNodeItem :: gtype where
  "RecommendedRANNodeItem = StructKind
    [(''AMFPagingTarget'', ''valueLB:0,valueUB:2'', AMFPagingTarget),
     (''IEExtensions'', ''optional'', PtrKind ProtocolExtensionContainerRecommendedRANNodeItemExtIEs)]"

definition RerouteNASRequestIEsValue :: gtype where
  "RerouteNASRequestIEsValue = StructKind
    [(''Present'', '''', IntKind 64),
     (''RANUENGAPID'', ''referenceFieldValue:85'', PtrKind RANUENGAPID),
     (''AMFUENGAPID'', ''referenceFieldValue:10'', PtrKind AMFUENGAPID),
     (''NGAPMessage'', ''referenceFieldValue:42'', PtrKind OctetStringType),
     (''AMFSetID'', ''referenceFieldValue:3'', PtrKind AMFSetID),
     (''AllowedNSSAI'', ''referenceFieldValue:0'', PtrKind AllowedNSSAI)]"

definition SONInformationReply :: gtype where
  "SONInformationReply = StructKind
    [(''XnTNLConfigurationInfo'', ''valueExt,optional'', PtrKind XnTNLConfigurationInfo),
     (''IEExtensions'', ''optional'', PtrKind ProtocolExtensionContainerSONInformationReplyExtIEs)]"

definition TAIBroadcastEUTRAItem :: gtype where
  "TAIBroadcastEUTRAItem = StructKind
    [(''TAI'', ''valueExt'', TAI),
     (''CompletedCellsInTAIEUTRA'', '''', CompletedCellsInTAIEUTRA),
     (''IEExtensions'', ''optional'', PtrKind ProtocolExtensionContainerTAIBroadcastEUTRAItemExtIEs)]"

definition TAIBroadcastNRItem :: gtype where
  "TAIBroadcastNRItem = StructKind
    [(''TAI'', ''valueExt'', TAI),
     (''CompletedCellsInTAINR'', '''', CompletedCellsInTAINR),
     (''IEExtensions'', ''optional'', PtrKind ProtocolExtensionContainerTAIBroadcastNRItemExtIEs)]"

definition TAICancelledEUTRAItem :: gtype where
  "TAICancelledEUTRAItem = StructKind
    [(''TAI'', ''valueExt'', TAI),
     (''CancelledCellsInTAIEUTRA'', '''', CancelledCellsInTAIEUTRA),
     (''IEExtensions'', ''optional'', PtrKind ProtocolExtensionContainerTAICancelledEUTRAItemExtIEs)]"

definition TAICancelledNRItem :: gtype where
  "TAICancelledNRItem = StructKind
    [(''TAI'', ''valueExt'', TAI),
     (''CancelledCellsInTAINR'', '''', CancelledCellsInTAINR),
     (''IEExtensions'', ''optional'', PtrKind ProtocolExtensionContainerTAICancelledNRItemExtIEs)]"

definition TNLInformationItem :: gtype where
  "TNLInformationItem = StructKind
    [(''QosFlowPerTNLInformation'', ''valueExt'', QosFlowPerTNLInformation),
     (''IEExtensions'', ''optional'', PtrKind ProtocolExtensionContainerTNLInformationItemExtIEs)]"

definition TNLMappingList :: gtype where
  "TNLMappingList = StructKind
    [(''List'', ''valueExt,sizeLB:1,sizeUB:4'', SliceKind TNLMappingItem)]"

definition TargetID :: gtype where
  "TargetID = StructKind
    [(''Present'', '''', IntKind 64),
     (''TargetRANNodeID'', ''valueExt'', PtrKind TargetRANNodeID),
     (''TargeteNBID'', ''valueExt'', PtrKind TargeteNBID),
     (''ChoiceExtensions'', '''', PtrKind ProtocolIESingleContainerTargetIDExtIEs)]"

definition UEContextModificationFailureIEsValue :: gtype where
  "UEContextModificationFailureIEsValue = StructKind
    [(''Present'', '''', IntKind 64),
     (''AMFUENGAPID'', ''referenceFieldValue:10'', PtrKind AMFUENGAPID),
     (''RANUENGAPID'', ''referenceFieldValue:85'', PtrKind RANUENGAPID),
     (''Cause'', ''referenceFieldValue:15,valueLB:0,valueUB:5'', PtrKind Cause),
     (''CriticalityDiagnostics'', ''valueExt,referenceFieldValue:19'', PtrKind CriticalityDiagnostics)]"

definition UEContextModificationResponseIEsValue :: gtype where
  "UEContextModificationResponseIEsValue = StructKind
    [(''Present'', '''', IntKind 64),
     (''AMFUENGAPID'', ''referenceFieldValue:10'', PtrKind AMFUENGAPID),
     (''RANUENGAPID'', ''referenceFieldValue:85'', PtrKind RANUENGAPID),
     (''RRCState'', ''referenceFieldValue:92'', PtrKind RRCState),
     (''UserLocationInformation'', ''referenceFieldValue:121,valueLB:0,valueUB:3'', PtrKind UserLocationInformation),
     (''CriticalityDiagnostics'', ''valueExt,referenceFieldValue:19'', PtrKind CriticalityDiagnostics)]"

definition UEContextReleaseCommandIEs :: gtype where
  "UEContextReleaseCommandIEs = StructKind
    [(''Id'', '''', ProtocolIEID),
     (''Criticality'', '''', Criticality),
     (''Value'', ''openType,referenceFieldName:Id'', UEContextReleaseCommandIEsValue)]"

definition UEContextReleaseRequestIEs :: gtype where
  "UEContextReleaseRequestIEs = StructKind
    [(''Id'', '''', ProtocolIEID),
     (''Criticality'', '''', Criticality),
     (''Value'', ''openType,referenceFieldName:Id'', UEContextReleaseRequestIEsValue)]"

definition UERadioCapabilityCheckResponseIEsValue :: gtype where
  "UERadioCapabilityCheckResponseIEsValue = StructKind
    [(''Present'', '''', IntKind 64),
     (''AMFUENGAPID'', ''referenceFieldValue:10'', PtrKind AMFUENGAPID),
     (''RANUENGAPID'', ''referenceFieldValue:85'', PtrKind RANUENGAPID),
     (''IMSVoiceSupportIndicator'', ''referenceFieldValue:30'', PtrKind IMSVoiceSupportIndicator),
     (''CriticalityDiagnostics'', ''valueExt,referenceFieldValue:19'', PtrKind CriticalityDiagnostics)]"

definition ULNGUUPTNLModifyList :: gtype where
  "ULNGUUPTNLModifyList = StructKind
    [(''List'', ''valueExt,sizeLB:0,sizeUB:4'', SliceKind ULNGUUPTNLModifyItem)]"

definition UplinkNASTransportIEsValue :: gtype where
  "UplinkNASTransportIEsValue = StructKind
    [(''Present'', '''', IntKind 64),
     (''AMFUENGAPID'', ''referenceFieldValue:10'', PtrKind AMFUENGAPID),
     (''RANUENGAPID'', ''referenceFieldValue:85'', PtrKind RANUENGAPID),
     (''NASPDU'', ''referenceFieldValue:38'', PtrKind NASPDU),
     (''UserLocationInformation'', ''referenceFieldValue:121,valueLB:0,valueUB:3'', PtrKind UserLocationInformation)]"

definition WriteReplaceWarningRequestIEsValue :: gtype where
  "WriteReplaceWarningRequestIEsValue = StructKind
    [(''Present'', '''', IntKind 64),
     (''MessageIdentifier'', ''referenceFieldValue:35'', PtrKind MessageIdentifier),
     (''SerialNumber'', ''referenceFieldValue:95'', PtrKind SerialNumber),
     (''WarningAreaList'', ''referenceFieldValue:122,valueLB:0,valueUB:4'', PtrKind WarningAreaList),
     (''RepetitionPeriod'', ''referenceFieldValue:87'', PtrKind RepetitionPeriod),
     (''NumberOfBroadcastsRequested'', ''referenceFieldValue:47'', PtrKind NumberOfBroadcastsRequested),
     (''WarningType'', ''referenceFieldValue:125'', PtrKind WarningType),
     (''WarningSecurityInfo'', ''referenceFieldValue:124'', PtrKind WarningSecurityInfo),
     (''DataCodingScheme'', ''referenceFieldValue:20'', PtrKind DataCodingScheme),
     (''WarningMessageContents'', ''referenceFieldValue:123'', PtrKind WarningMessageContents),
     (''ConcurrentWarningMessageInd'', ''referenceFieldValue:17'', PtrKind ConcurrentWarningMessageInd),
     (''WarningAreaCoordinates'', ''referenceFieldValue:141'', PtrKind WarningAreaCoordinates)]"

definition AMFConfigurationUpdateAcknowledgeIEs :: gtype where
  "AMFConfigurationUpdateAcknowledgeIEs = StructKind
    [(''Id'', '''', ProtocolIEID),
     (''Criticality'', '''', Criticality),
     (''Value'', ''openType,referenceFieldName:Id'', AMFConfigurationUpdateAcknowledgeIEsValue)]"

definition AMFConfigurationUpdateFailureIEs :: gtype where
  "AMFConfigurationUpdateFailureIEs = StructKind
    [(''Id'', '''', ProtocolIEID),
     (''Criticality'', '''', Criticality),
     (''Value'', ''openType,referenceFieldName:Id'', AMFConfigurationUpdateFailureIEsValue)]"

definition AMFStatusIndicationIEs :: gtype where
  "AMFStatusIndicationIEs = StructKind
    [(''Id'', '''', ProtocolIEID),
     (''Criticality'', '''', Criticality),
     (''Value'', ''openType,referenceFieldName:Id'', AMFStatusIndicationIEsValue)]"

definition AreaOfInterest :: gtype where
  "AreaOfInterest = StructKind
    [(''AreaOfInterestTAIList'', ''optional'', PtrKind AreaOfInterestTAIList),
     (''AreaOfInterestCellList'', ''optional'', PtrKind AreaOfInterestCellList),
     (''AreaOfInterestRANNodeList'', ''optional'', PtrKind AreaOfInterestRANNodeList),
     (''IEExtensions'', ''optional'', PtrKind ProtocolExtensionContainerAreaOfInterestExtIEs)]"

definition BroadcastPLMNList :: gtype where
  "BroadcastPLMNList = StructKind
    [(''List'', ''valueExt,sizeLB:1,sizeUB:12'', SliceKind BroadcastPLMNItem)]"

definition DRBsSubjectToStatusTransferList :: gtype where
  "DRBsSubjectToStatusTransferList = StructKind
    [(''List'', ''valueExt,sizeLB:1,sizeUB:32'', SliceKind DRBsSubjectToStatusTransferItem)]"

definition DownlinkNASTransportIEs :: gtype where
  "DownlinkNASTransportIEs = StructKind
    [(''Id'', '''', ProtocolIEID),
     (''Criticality'', '''', Criticality),
     (''Value'', ''openType,referenceFieldName:Id'', DownlinkNASTransportIEsValue)]"

definition EmergencyAreaIDBroadcastEUTRA :: gtype where
  "EmergencyAreaIDBroadcastEUTRA = StructKind
    [(''List'', ''valueExt,sizeLB:1,sizeUB:65535'', SliceKind EmergencyAreaIDBroadcastEUTRAItem)]"

definition EmergencyAreaIDBroadcastNR :: gtype where
  "EmergencyAreaIDBroadcastNR = StructKind
    [(''List'', ''valueExt,sizeLB:1,sizeUB:65535'', SliceKind EmergencyAreaIDBroadcastNRItem)]"

definition EmergencyAreaIDCancelledEUTRA :: gtype where
  "EmergencyAreaIDCancelledEUTRA = StructKind
    [(''List'', ''valueExt,sizeLB:1,sizeUB:65535'', SliceKind EmergencyAreaIDCancelledEUTRAItem)]"

definition EmergencyAreaIDCancelledNR :: gtype where
  "EmergencyAreaIDCancelledNR = StructKind
    [(''List'', ''valueExt,sizeLB:1,sizeUB:65535'', SliceKind EmergencyAreaIDCancelledNRItem)]"

definition ErrorIndicationIEs :: gtype where
  "ErrorIndicationIEs = StructKind
    [(''Id'', '''', ProtocolIEID),
     (''Criticality'', '''', Criticality),
     (''Value'', ''openType,referenceFieldName:Id'', ErrorIndicationIEsValue)]"

definition ExpectedUEBehaviour :: gtype where
  "ExpectedUEBehaviour = StructKind
    [(''ExpectedUEActivityBehaviour'', ''valueExt,optional'', PtrKind ExpectedUEActivityBehaviour),
     (''ExpectedHOInterval'', ''optional'', PtrKind ExpectedHOInterval),
     (''ExpectedUEMobility'', ''optional'', PtrKind ExpectedUEMobility),
     (''ExpectedUEMovingTrajectory'', ''optional'', PtrKind ExpectedUEMovingTrajectory),
     (''IEExtensions'', ''optional'', PtrKind ProtocolExtensionContainerExpectedUEBehaviourExtIEs)]"

definition HandoverCancelAcknowledgeIEs :: gtype where
  "HandoverCancelAcknowledgeIEs = StructKind
    [(''Id'', '''', ProtocolIEID),
     (''Criticality'', '''', Criticality),
     (''Value'', ''openType,referenceFieldName:Id'', HandoverCancelAcknowledgeIEsValue)]"

definition HandoverCommandIEs :: gtype where
  "HandoverCommandIEs = StructKind
    [(''Id'', '''', ProtocolIEID),
     (''Criticality'', '''', Criticality),
     (''Value'', ''openType,referenceFieldName:Id'', HandoverCommandIEsValue)]"

definition HandoverCommandTransfer :: gtype where
  "HandoverCommandTransfer = StructKind
    [(''DLForwardingUPTNLInformation'', ''valueLB:0,valueUB:1,optional'', PtrKind UPTransportLayerInformation),
     (''QosFlowToBeForwardedList'', ''optional'', PtrKind QosFlowToBeForwardedList),
     (''DataForwardingResponseDRBList'', ''optional'', PtrKind DataForwardingResponseDRBList),
     (''IEExtensions'', ''optional'', PtrKind ProtocolExtensionContainerHandoverCommandTransferExtIEs)]"

definition HandoverFailureIEs :: gtype where
  "HandoverFailureIEs = StructKind
    [(''Id'', '''', ProtocolIEID),
     (''Criticality'', '''', Criticality),
     (''Value'', ''openType,referenceFieldName:Id'', HandoverFailureIEsValue)]"

definition HandoverNotifyIEs :: gtype where
  "HandoverNotifyIEs = StructKind
    [(''Id'', '''', ProtocolIEID),
     (''Criticality'', '''', Criticality),
     (''Value'', ''openType,referenceFieldName:Id'', HandoverNotifyIEsValue)]"

definition HandoverPreparationFailureIEs :: gtype where
  "HandoverPreparationFailureIEs = StructKind
    [(''Id'', '''', ProtocolIEID),
     (''Criticality'', '''', Criticality),
     (''Value'', ''openType,referenceFieldName:Id'', HandoverPreparationFailureIEsValue)]"

definition HandoverRequestAcknowledgeIEs :: gtype where
  "HandoverRequestAcknowledgeIEs = StructKind
    [(''Id'', '''', ProtocolIEID),
     (''Criticality'', '''', Criticality),
     (''Value'', ''openType,referenceFieldName:Id'', HandoverRequestAcknowledgeIEsValue)]"

definition HandoverRequestAcknowledgeTransfer :: gtype where
  "HandoverRequestAcknowledgeTransfer = StructKind
    [(''DLNGUUPTNLInformation'', ''valueLB:0,valueUB:1'', UPTransportLayerInformation),
     (''DLForwardingUPTNLInformation'', ''valueLB:0,valueUB:1,optional'', PtrKind UPTransportLayerInformation),
     (''SecurityResult'', ''valueExt,optional'', PtrKind SecurityResult),
     (''QosFlowSetupResponseList'', '''', QosFlowSetupResponseListHOReqAck),
     (''QosFlowFailedToSetupList'', ''optional'', PtrKind QosFlowList),
     (''DataForwardingResponseDRBList'', ''optional'', PtrKind DataForwardingResponseDRBList),
     (''IEExtensions'', ''optional'', PtrKind ProtocolExtensionContainerHandoverRequestAcknowledgeTransferExtIEs)]"

definition HandoverRequiredIEsValue :: gtype where
  "HandoverRequiredIEsValue = StructKind
    [(''Present'', '''', IntKind 64),
     (''AMFUENGAPID'', ''referenceFieldValue:10'', PtrKind AMFUENGAPID),
     (''RANUENGAPID'', ''referenceFieldValue:85'', PtrKind RANUENGAPID),
     (''HandoverType'', ''referenceFieldValue:29'', PtrKind HandoverType),
     (''Cause'', ''referenceFieldValue:15,valueLB:0,valueUB:5'', PtrKind Cause),
     (''TargetID'', ''referenceFieldValue:105,valueLB:0,valueUB:2'', PtrKind TargetID),
     (''DirectForwardingPathAvailability'', ''referenceFieldValue:22'', PtrKind DirectForwardingPathAvailability),
     (''PDUSessionResourceListHORqd'', ''referenceFieldValue:61'', PtrKind PDUSessionResourceListHORqd),
     (''SourceToTargetTransparentContainer'', ''referenceFieldValue:101'', PtrKind SourceToTargetTransparentContainer)]"

definition InitialContextSetupFailureIEs :: gtype where
  "InitialContextSetupFailureIEs = StructKind
    [(''Id'', '''', ProtocolIEID),
     (''Criticality'', '''', Criticality),
     (''Value'', ''openType,referenceFieldName:Id'', InitialContextSetupFailureIEsValue)]"

definition InitialContextSetupResponseIEs :: gtype where
  "InitialContextSetupResponseIEs = StructKind
    [(''Id'', '''', ProtocolIEID),
     (''Criticality'', '''', Criticality),
     (''Value'', ''openType,referenceFieldName:Id'', InitialContextSetupResponseIEsValue)]"

definition InitialUEMessageIEs :: gtype where
  "InitialUEMessageIEs = StructKind
    [(''Id'', '''', ProtocolIEID),
     (''Criticality'', '''', Criticality),
     (''Value'', ''openType,referenceFieldName:Id'', InitialUEMessageIEsValue)]"

definition LastVisitedCellItem :: gtype where
  "LastVisitedCellItem = StructKind
    [(''LastVisitedCellInformation'', ''valueLB:0,valueUB:4'', LastVisitedCellInformation),
     (''IEExtensions'', ''optional'', PtrKind ProtocolExtensionContainerLastVisitedCellItemExtIEs)]"

definition NGResetAcknowledgeIEs :: gtype where
  "NGResetAcknowledgeIEs = StructKind
    [(''Id'', '''', ProtocolIEID),
     (''Criticality'', '''', Criticality),
     (''Value'', ''openType,referenceFieldName:Id'', NGResetAcknowledgeIEsValue)]"

definition NGResetIEs :: gtype where
  "NGResetIEs = StructKind
    [(''Id'', '''', ProtocolIEID),
     (''Criticality'', '''', Criticality),
     (''Value'', ''openType,referenceFieldName:Id'', NGResetIEsValue)]"

definition NGSetupFailureIEs :: gtype where
  "NGSetupFailureIEs = StructKind
    [(''Id'', '''', ProtocolIEID),
     (''Criticality'', '''', Criticality),
     (''Value'', ''openType,referenceFieldName:Id'', NGSetupFailureIEsValue)]"

definition OverloadStartNSSAIList :: gtype where
  "OverloadStartNSSAIList = StructKind
    [(''List'', ''valueExt,sizeLB:1,sizeUB:1024'', SliceKind OverloadStartNSSAIItem)]"

definition PDUSessionResourceInformationItem :: gtype where
  "PDUSessionResourceInformationItem = StructKind
    [(''PDUSessionID'', '''', PDUSessionID),
     (''QosFlowInformationList'', '''', QosFlowInformationList),
     (''DRBsToQosFlowsMappingList'', ''optional'', PtrKind DRBsToQosFlowsMappingList),
     (''IEExtensions'', ''optional'', PtrKind ProtocolExtensionContainerPDUSessionResourceInformationItemExtIEs)]"

definition PDUSessionResourceModifyConfirmIEs :: gtype where
  "PDUSessionResourceModifyConfirmIEs = StructKind
    [(''Id'', '''', ProtocolIEID),
     (''Criticality'', '''', Criticality),
     (''Value'', ''openType,referenceFieldName:Id'', PDUSessionResourceModifyConfirmIEsValue)]"

definition PDUSessionResourceModifyConfirmTransfer :: gtype where
  "PDUSessionResourceModifyConfirmTransfer = StructKind
    [(''QosFlowModifyConfirmList'', '''', QosFlowModifyConfirmList),
     (''TNLMappingList'', ''optional'', PtrKind TNLMappingList),
     (''QosFlowFailedToModifyList'', ''optional'', PtrKind QosFlowList),
     (''IEExtensions'', ''optional'', PtrKind ProtocolExtensionContainerPDUSessionResourceModifyConfirmTransferExtIEs)]"

definition PDUSessionResourceModifyResponseIEs :: gtype where
  "PDUSessionResourceModifyResponseIEs = StructKind
    [(''Id'', '''', ProtocolIEID),
     (''Criticality'', '''', Criticality),
     (''Value'', ''openType,referenceFieldName:Id'', PDUSessionResourceModifyResponseIEsValue)]"

definition PDUSessionResourceNotifyIEs :: gtype where
  "PDUSessionResourceNotifyIEs = StructKind
    [(''Id'', '''', ProtocolIEID),
     (''Criticality'', '''', Criticality),
     (''Value'', ''openType,referenceFieldName:Id'', PDUSessionResourceNotifyIEsValue)]"

definition PDUSessionResourceReleaseResponseIEs :: gtype where
  "PDUSessionResourceReleaseResponseIEs = StructKind
    [(''Id'', '''', ProtocolIEID),
     (''Criticality'', '''', Criticality),
     (''Value'', ''openType,referenceFieldName:Id'', PDUSessionResourceReleaseResponseIEsValue)]"

definition PDUSessionResourceSetupRequestIEs :: gtype where
  "PDUSessionResourceSetupRequestIEs = StructKind
    [(''Id'', '''', ProtocolIEID),
     (''Criticality'', '''', Criticality),
     (''Value'', ''openType,referenceFieldName:Id'', PDUSessionResourceSetupRequestIEsValue)]"

definition PDUSessionResourceSetupResponseIEs :: gtype where
  "PDUSessionResourceSetupResponseIEs = StructKind
    [(''Id'', '''', ProtocolIEID),
     (''Criticality'', '''', Criticality),
     (''Value'', ''openType,referenceFieldName:Id'', PDUSessionResourceSetupResponseIEsValue)]"

definition PLMNSupportList :: gtype where
  "PLMNSupportList = StructKind
    [(''List'', ''valueExt,sizeLB:1,sizeUB:12'', SliceKind PLMNSupportItem)]"

definition PWSCancelRequestIEs :: gtype where
  "PWSCancelRequestIEs = StructKind
    [(''Id'', '''', ProtocolIEID),
     (''Criticality'', '''', Criticality),
     (''Value'', ''openType,referenceFieldName:Id'', PWSCancelRequestIEsValue)]"

definition PWSFailureIndicationIEs :: gtype where
  "PWSFailureIndicationIEs = StructKind
    [(''Id'', '''', ProtocolIEID),
     (''Criticality'', '''', Criticality),
     (''Value'', ''openType,referenceFieldName:Id'', PWSFailureIndicationIEsValue)]"

definition PWSRestartIndicationIEs :: gtype where
  "PWSRestartIndicationIEs = StructKind
    [(''Id'', '''', ProtocolIEID),
     (''Criticality'', '''', Criticality),
     (''Value'', ''openType,referenceFieldName:Id'', PWSRestartIndicationIEsValue)]"

definition PathSwitchRequestFailureIEs :: gtype where
  "PathSwitchRequestFailureIEs = StructKind
    [(''Id'', '''', ProtocolIEID),
     (''Criticality'', '''', Criticality),
     (''Value'', ''openType,referenceFieldName:Id'', PathSwitchRequestFailureIEsValue)]"

definition PathSwitchRequestIEs :: gtype where
  "PathSwitchRequestIEs = StructKind
    [(''Id'', '''', ProtocolIEID),
     (''Criticality'', '''', Criticality),
     (''Value'', ''openType,referenceFieldName:Id'', PathSwitchRequestIEsValue)]"

definition ProtocolIEContainerCellTrafficTraceIEs :: gtype where
  "ProtocolIEContainerCellTrafficTraceIEs = StructKind
    [(''List'', ''sizeLB:0,sizeUB:65535'', SliceKind CellTrafficTraceIEs)]"

definition ProtocolIEContainerPDUSessionResourceModifyIndicationIEs :: gtype where
  "ProtocolIEContainerPDUSessionResourceModifyIndicationIEs = StructKind
    [(''List'', ''sizeLB:0,sizeUB:65535'', SliceKind PDUSessionResourceModifyIndicationIEs)]"

definition ProtocolIEContainerPDUSessionResourceModifyRequestIEs :: gtype where
  "ProtocolIEContainerPDUSessionResourceModifyRequestIEs = StructKind
    [(''List'', ''sizeLB:0,sizeUB:65535'', SliceKind PDUSessionResourceModifyRequestIEs)]"

definition ProtocolIEContainerPDUSessionResourceReleaseCommandIEs :: gtype where
  "ProtocolIEContainerPDUSessionResourceReleaseCommandIEs = StructKind
    [(''List'', ''sizeLB:0,sizeUB:65535'', SliceKind PDUSessionResourceReleaseCommandIEs)]"

definition ProtocolIEContainerUEContextReleaseCommandIEs :: gtype where
  "ProtocolIEContainerUEContextReleaseCommandIEs = StructKind
    [(''List'', ''sizeLB:0,sizeUB:65535'', SliceKind UEContextReleaseCommandIEs)]"

definition ProtocolIEContainerUEContextReleaseRequestIEs :: gtype where
  "ProtocolIEContainerUEContextReleaseRequestIEs = StructKind
    [(''List'', ''sizeLB:0,sizeUB:65535'', SliceKind UEContextReleaseRequestIEs)]"

definition QosFlowAddOrModifyRequestItem :: gtype where
  "QosFlowAddOrModifyRequestItem = StructKind
    [(''QosFlowIdentifier'', '''', QosFlowIdentifier),
     (''QosFlowLevelQosParameters'', ''valueExt,optional'', PtrKind QosFlowLevelQosParameters),
     (''ERABID'', ''optional'', PtrKind ERABID),
     (''IEExtensions'', ''optional'', PtrKind ProtocolExtensionContainerQosFlowAddOrModifyRequestItemExtIEs)]"

definition QosFlowSetupRequestItem :: gtype where
  "QosFlowSetupRequestItem = StructKind
    [(''QosFlowIdentifier'', '''', QosFlowIdentifier),
     (''QosFlowLevelQosParameters'', ''valueExt'', QosFlowLevelQosParameters),
     (''ERABID'', ''optional'', PtrKind ERABID),
     (''IEExtensions'', ''optional'', PtrKind ProtocolExtensionContainerQosFlowSetupRequestItemExtIEs)]"

definition RANConfigurationUpdateAcknowledgeIEs :: gtype where
  "RANConfigurationUpdateAcknowledgeIEs = StructKind
    [(''Id'', '''', ProtocolIEID),
     (''Criticality'', '''', Criticality),
     (''Value'', ''openType,referenceFieldName:Id'', RANConfigurationUpdateAcknowledgeIEsValue)]"

definition RANConfigurationUpdateFailureIEs :: gtype where
  "RANConfigurationUpdateFailureIEs = StructKind
    [(''Id'', '''', ProtocolIEID),
     (''Criticality'', '''', Criticality),
     (''Value'', ''openType,referenceFieldName:Id'', RANConfigurationUpdateFailureIEsValue)]"

definition RRCInactiveTransitionReportIEs :: gtype where
  "RRCInactiveTransitionReportIEs = StructKind
    [(''Id'', '''', ProtocolIEID),
     (''Criticality'', '''', Criticality),
     (''Value'', ''openType,referenceFieldName:Id'', RRCInactiveTransitionReportIEsValue)]"

definition RecommendedCellsForPaging :: gtype where
  "RecommendedCellsForPaging = StructKind
    [(''RecommendedCellList'', '''', RecommendedCellList),
     (''IEExtensions'', ''optional'', PtrKind ProtocolExtensionContainerRecommendedCellsForPagingExtIEs)]"

definition RecommendedRANNodeList :: gtype where
  "RecommendedRANNodeList = StructKind
    [(''List'', ''valueExt,sizeLB:1,sizeUB:16'', SliceKind RecommendedRANNodeItem)]"

definition RerouteNASRequestIEs :: gtype where
  "RerouteNASRequestIEs = StructKind
    [(''Id'', '''', ProtocolIEID),
     (''Criticality'', '''', Criticality),
     (''Value'', ''openType,referenceFieldName:Id'', RerouteNASRequestIEsValue)]"

definition SONInformation :: gtype where
  "SONInformation = StructKind
    [(''Present'', '''', IntKind 64),
     (''SONInformationRequest'', '''', PtrKind SONInformationRequest),
     (''SONInformationReply'', ''valueExt'', PtrKind SONInformationReply),
     (''ChoiceExtensions'', '''', PtrKind ProtocolIESingleContainerSONInformationExtIEs)]"

definition TAIBroadcastEUTRA :: gtype where
  "TAIBroadcastEUTRA = StructKind
    [(''List'', ''valueExt,sizeLB:1,sizeUB:65535'', SliceKind TAIBroadcastEUTRAItem)]"

definition TAIBroadcastNR :: gtype where
  "TAIBroadcastNR = StructKind
    [(''List'', ''valueExt,sizeLB:1,sizeUB:65535'', SliceKind TAIBroadcastNRItem)]"

definition TAICancelledEUTRA :: gtype where
  "TAICancelledEUTRA = StructKind
    [(''List'', ''valueExt,sizeLB:1,sizeUB:65535'', SliceKind TAICancelledEUTRAItem)]"

definition TAICancelledNR :: gtype where
  "TAICancelledNR = StructKind
    [(''List'', ''valueExt,sizeLB:1,sizeUB:65535'', SliceKind TAICancelledNRItem)]"

definition TNLInformationList :: gtype where
  "TNLInformationList = StructKind
    [(''List'', ''valueExt,sizeLB:1,sizeUB:4'', SliceKind TNLInformationItem)]"

definition TraceStart :: gtype where
  "TraceStart = StructKind
    [(''ProtocolIEs'', '''', ProtocolIEContainerTraceStartIEs)]"

definition UEContextModificationFailureIEs :: gtype where
  "UEContextModificationFailureIEs = StructKind
    [(''Id'', '''', ProtocolIEID),
     (''Criticality'', '''', Criticality),
     (''Value'', ''openType,referenceFieldName:Id'', UEContextModificationFailureIEsValue)]"

definition UEContextModificationResponseIEs :: gtype where
  "UEContextModificationResponseIEs = StructKind
    [(''Id'', '''', ProtocolIEID),
     (''Criticality'', '''', Criticality),
     (''Value'', ''openType,referenceFieldName:Id'', UEContextModificationResponseIEsValue)]"

definition UERadioCapabilityCheckResponseIEs :: gtype where
  "UERadioCapabilityCheckResponseIEs = StructKind
    [(''Id'', '''', ProtocolIEID),
     (''Criticality'', '''', Criticality),
     (''Value'', ''openType,referenceFieldName:Id'', UERadioCapabilityCheckResponseIEsValue)]"

definition UERadioCapabilityInfoIndication :: gtype where
  "UERadioCapabilityInfoIndication = StructKind
    [(''ProtocolIEs'', '''', ProtocolIEContainerUERadioCapabilityInfoIndicationIEs)]"

definition UplinkNASTransportIEs :: gtype where
  "UplinkNASTransportIEs = StructKind
    [(''Id'', '''', ProtocolIEID),
     (''Criticality'', '''', Criticality),
     (''Value'', ''openType,referenceFieldName:Id'', UplinkNASTransportIEsValue)]"

definition WriteReplaceWarningRequestIEs :: gtype where
  "WriteReplaceWarningRequestIEs = StructKind
    [(''Id'', '''', ProtocolIEID),
     (''Criticality'', '''', Criticality),
     (''Value'', ''openType,referenceFieldName:Id'', WriteReplaceWarningRequestIEsValue)]"

definition AMFConfigurationUpdateIEsValue :: gtype where
  "AMFConfigurationUpdateIEsValue = StructKind
    [(''Present'', '''', IntKind 64),
     (''AMFName'', ''referenceFieldValue:1'', PtrKind AMFName),
     (''ServedGUAMIList'', ''referenceFieldValue:96'', PtrKind ServedGUAMIList),
     (''RelativeAMFCapacity'', ''referenceFieldValue:86'', PtrKind RelativeAMFCapacity),
     (''PLMNSupportList'', ''referenceFieldValue:80'', PtrKind PLMNSupportList),
     (''AMFTNLAssociationToAddList'', ''referenceFieldValue:6'', PtrKind AMFTNLAssociationToAddList),
     (''AMFTNLAssociationToRemoveList'', ''referenceFieldValue:7'', PtrKind AMFTNLAssociationToRemoveList),
     (''AMFTNLAssociationToUpdateList'', ''referenceFieldValue:8'', PtrKind AMFTNLAssociationToUpdateList)]"

definition AreaOfInterestItem :: gtype where
  "AreaOfInterestItem = StructKind
    [(''AreaOfInterest'', ''valueExt'', AreaOfInterest),
     (''LocationReportingReferenceID'', '''', LocationReportingReferenceID),
     (''IEExtensions'', ''optional'', PtrKind ProtocolExtensionContainerAreaOfInterestItemExtIEs)]"

definition AssistanceDataForRecommendedCells :: gtype where
  "AssistanceDataForRecommendedCells = StructKind
    [(''RecommendedCellsForPaging'', ''valueExt'', RecommendedCellsForPaging),
     (''IEExtensions'', ''optional'', PtrKind ProtocolExtensionContainerAssistanceDataForRecommendedCellsExtIEs)]"

definition BroadcastCancelledAreaList :: gtype where
  "BroadcastCancelledAreaList = StructKind
    [(''Present'', '''', IntKind 64),
     (''CellIDCancelledEUTRA'', '''', PtrKind CellIDCancelledEUTRA),
     (''TAICancelledEUTRA'', '''', PtrKind TAICancelledEUTRA),
     (''EmergencyAreaIDCancelledEUTRA'', '''', PtrKind EmergencyAreaIDCancelledEUTRA),
     (''CellIDCancelledNR'', '''', PtrKind CellIDCancelledNR),
     (''TAICancelledNR'', '''', PtrKind TAICancelledNR),
     (''EmergencyAreaIDCancelledNR'', '''', PtrKind EmergencyAreaIDCancelledNR),
     (''ChoiceExtensions'', '''', PtrKind ProtocolIESingleContainerBroadcastCancelledAreaListExtIEs)]"

definition BroadcastCompletedAreaList :: gtype where
  "BroadcastCompletedAreaList = StructKind
    [(''Present'', '''', IntKind 64),
     (''CellIDBroadcastEUTRA'', '''', PtrKind CellIDBroadcastEUTRA),
     (''TAIBroadcastEUTRA'', '''', PtrKind TAIBroadcastEUTRA),
     (''EmergencyAreaIDBroadcastEUTRA'', '''', PtrKind EmergencyAreaIDBroadcastEUTRA),
     (''CellIDBroadcastNR'', '''', PtrKind CellIDBroadcastNR),
     (''TAIBroadcastNR'', '''', PtrKind TAIBroadcastNR),
     (''EmergencyAreaIDBroadcastNR'', '''', PtrKind EmergencyAreaIDBroadcastNR),
     (''ChoiceExtensions'', '''', PtrKind ProtocolIESingleContainerBroadcastCompletedAreaListExtIEs)]"

definition CellTrafficTrace :: gtype where
  "CellTrafficTrace = StructKind
    [(''ProtocolIEs'', '''', ProtocolIEContainerCellTrafficTraceIEs)]"

definition CoreNetworkAssistanceInformation :: gtype where
  "CoreNetworkAssistanceInformation = StructKind
    [(''UEIdentityIndexValue'', ''valueLB:0,valueUB:1'', UEIdentityIndexValue),
     (''UESpecificDRX'', ''optional'', PtrKind PagingDRX),
     (''PeriodicRegistrationUpdateTimer'', '''', PeriodicRegistrationUpdateTimer),
     (''MICOModeIndication'', ''optional'', PtrKind MICOModeIndication),
     (''TAIListForInactive'', '''', TAIListForInactive),
     (''ExpectedUEBehaviour'', ''valueExt,optional'', PtrKind ExpectedUEBehaviour),
     (''IEExtensions'', ''optional'', PtrKind ProtocolExtensionContainerCoreNetworkAssistanceInformationExtIEs)]"

definition HandoverRequiredIEs :: gtype where
  "HandoverRequiredIEs = StructKind
    [(''Id'', '''', ProtocolIEID),
     (''Criticality'', '''', Criticality),
     (''Value'', ''openType,referenceFieldName:Id'', HandoverRequiredIEsValue)]"

definition MultipleTNLInformation :: gtype where
  "MultipleTNLInformation = StructKind
    [(''TNLInformationList'', '''', TNLInformationList),
     (''IEExtensions'', ''optional'', PtrKind ProtocolExtensionContainerMultipleTNLInformationExtIEs)]"

definition NGSetupResponseIEsValue :: gtype where
  "NGSetupResponseIEsValue = StructKind
    [(''Present'', '''', IntKind 64),
     (''AMFName'', ''referenceFieldValue:1'', PtrKind AMFName),
     (''ServedGUAMIList'', ''referenceFieldValue:96'', PtrKind ServedGUAMIList),
     (''RelativeAMFCapacity'', ''referenceFieldValue:86'', PtrKind RelativeAMFCapacity),
     (''PLMNSupportList'', ''referenceFieldValue:80'', PtrKind PLMNSupportList),
     (''CriticalityDiagnostics'', ''valueExt,referenceFieldValue:19'', PtrKind CriticalityDiagnostics)]"

definition OverloadStartIEsValue :: gtype where
  "OverloadStartIEsValue = StructKind
    [(''Present'', '''', IntKind 64),
     (''AMFOverloadResponse'', ''referenceFieldValue:2,valueLB:0,valueUB:1'', PtrKind OverloadResponse),
     (''AMFTrafficLoadReductionIndication'', ''referenceFieldValue:9'', PtrKind TrafficLoadReductionIndication),
     (''OverloadStartNSSAIList'', ''referenceFieldValue:49'', PtrKind OverloadStartNSSAIList)]"

definition PDUSessionResourceInformationList :: gtype where
  "PDUSessionResourceInformationList = StructKind
    [(''List'', ''valueExt,sizeLB:1,sizeUB:256'', SliceKind PDUSessionResourceInformationItem)]"

definition PDUSessionResourceModifyIndication :: gtype where
  "PDUSessionResourceModifyIndication = StructKind
    [(''ProtocolIEs'', '''', ProtocolIEContainerPDUSessionResourceModifyIndicationIEs)]"

definition PDUSessionResourceModifyRequest :: gtype where
  "PDUSessionResourceModifyRequest = StructKind
    [(''ProtocolIEs'', '''', ProtocolIEContainerPDUSessionResourceModifyRequestIEs)]"

definition PDUSessionResourceReleaseCommand :: gtype where
  "PDUSessionResourceReleaseCommand = StructKind
    [(''ProtocolIEs'', '''', ProtocolIEContainerPDUSessionResourceReleaseCommandIEs)]"

definition ProtocolIEContainerAMFConfigurationUpdateAcknowledgeIEs :: gtype where
  "ProtocolIEContainerAMFConfigurationUpdateAcknowledgeIEs = StructKind
    [(''List'', ''sizeLB:0,sizeUB:65535'', SliceKind AMFConfigurationUpdateAcknowledgeIEs)]"

definition ProtocolIEContainerAMFConfigurationUpdateFailureIEs :: gtype where
  "ProtocolIEContainerAMFConfigurationUpdateFailureIEs = StructKind
    [(''List'', ''sizeLB:0,sizeUB:65535'', SliceKind AMFConfigurationUpdateFailureIEs)]"

definition ProtocolIEContainerAMFStatusIndicationIEs :: gtype where
  "ProtocolIEContainerAMFStatusIndicationIEs = StructKind
    [(''List'', ''sizeLB:0,sizeUB:65535'', SliceKind AMFStatusIndicationIEs)]"

definition ProtocolIEContainerDownlinkNASTransportIEs :: gtype where
  "ProtocolIEContainerDownlinkNASTransportIEs = StructKind
    [(''List'', ''sizeLB:0,sizeUB:65535'', SliceKind DownlinkNASTransportIEs)]"

definition ProtocolIEContainerErrorIndicationIEs :: gtype where
  "ProtocolIEContainerErrorIndicationIEs = StructKind
    [(''List'', ''sizeLB:0,sizeUB:65535'', SliceKind ErrorIndicationIEs)]"

definition ProtocolIEContainerHandoverCancelAcknowledgeIEs :: gtype where
  "ProtocolIEContainerHandoverCancelAcknowledgeIEs = StructKind
    [(''List'', ''sizeLB:0,sizeUB:65535'', SliceKind HandoverCancelAcknowledgeIEs)]"

definition ProtocolIEContainerHandoverCommandIEs :: gtype where
  "ProtocolIEContainerHandoverCommandIEs = StructKind
    [(''List'', ''sizeLB:0,sizeUB:65535'', SliceKind HandoverCommandIEs)]"

definition ProtocolIEContainerHandoverFailureIEs :: gtype where
  "ProtocolIEContainerHandoverFailureIEs = StructKind
    [(''List'', ''sizeLB:0,sizeUB:65535'', SliceKind HandoverFailureIEs)]"

definition ProtocolIEContainerHandoverNotifyIEs :: gtype where
  "ProtocolIEContainerHandoverNotifyIEs = StructKind
    [(''List'', ''sizeLB:0,sizeUB:65535'', SliceKind HandoverNotifyIEs)]"

definition ProtocolIEContainerHandoverPreparationFailureIEs :: gtype where
  "ProtocolIEContainerHandoverPreparationFailureIEs = StructKind
    [(''List'', ''sizeLB:0,sizeUB:65535'', SliceKind HandoverPreparationFailureIEs)]"

definition ProtocolIEContainerHandoverRequestAcknowledgeIEs :: gtype where
  "ProtocolIEContainerHandoverRequestAcknowledgeIEs = StructKind
    [(''List'', ''sizeLB:0,sizeUB:65535'', SliceKind HandoverRequestAcknowledgeIEs)]"

definition ProtocolIEContainerInitialContextSetupFailureIEs :: gtype where
  "ProtocolIEContainerInitialContextSetupFailureIEs = StructKind
    [(''List'', ''sizeLB:0,sizeUB:65535'', SliceKind InitialContextSetupFailureIEs)]"

definition ProtocolIEContainerInitialContextSetupResponseIEs :: gtype where
  "ProtocolIEContainerInitialContextSetupResponseIEs = StructKind
    [(''List'', ''sizeLB:0,sizeUB:65535'', SliceKind InitialContextSetupResponseIEs)]"

definition ProtocolIEContainerInitialUEMessageIEs :: gtype where
  "ProtocolIEContainerInitialUEMessageIEs = StructKind
    [(''List'', ''sizeLB:0,sizeUB:65535'', SliceKind InitialUEMessageIEs)]"

definition ProtocolIEContainerNGResetAcknowledgeIEs :: gtype where
  "ProtocolIEContainerNGResetAcknowledgeIEs = StructKind
    [(''List'', ''sizeLB:0,sizeUB:65535'', SliceKind NGResetAcknowledgeIEs)]"

definition ProtocolIEContainerNGResetIEs :: gtype where
  "ProtocolIEContainerNGResetIEs = StructKind
    [(''List'', ''sizeLB:0,sizeUB:65535'', SliceKind NGResetIEs)]"

definition ProtocolIEContainerNGSetupFailureIEs :: gtype where
  "ProtocolIEContainerNGSetupFailureIEs = StructKind
    [(''List'', ''sizeLB:0,sizeUB:65535'', SliceKind NGSetupFailureIEs)]"

definition ProtocolIEContainerPDUSessionResourceModifyConfirmIEs :: gtype where
  "ProtocolIEContainerPDUSessionResourceModifyConfirmIEs = StructKind
    [(''List'', ''sizeLB:0,sizeUB:65535'', SliceKind PDUSessionResourceModifyConfirmIEs)]"

definition ProtocolIEContainerPDUSessionResourceModifyResponseIEs :: gtype where
  "ProtocolIEContainerPDUSessionResourceModifyResponseIEs = StructKind
    [(''List'', ''sizeLB:0,sizeUB:65535'', SliceKind PDUSessionResourceModifyResponseIEs)]"

definition ProtocolIEContainerPDUSessionResourceNotifyIEs :: gtype where
  "ProtocolIEContainerPDUSessionResourceNotifyIEs = StructKind
    [(''List'', ''sizeLB:0,sizeUB:65535'', SliceKind PDUSessionResourceNotifyIEs)]"

definition ProtocolIEContainerPDUSessionResourceReleaseResponseIEs :: gtype where
  "ProtocolIEContainerPDUSessionResourceReleaseResponseIEs = StructKind
    [(''List'', ''sizeLB:0,sizeUB:65535'', SliceKind PDUSessionResourceReleaseResponseIEs)]"

definition ProtocolIEContainerPDUSessionResourceSetupRequestIEs :: gtype where
  "ProtocolIEContainerPDUSessionResourceSetupRequestIEs = StructKind
    [(''List'', ''sizeLB:0,sizeUB:65535'', SliceKind PDUSessionResourceSetupRequestIEs)]"

definition ProtocolIEContainerPDUSessionResourceSetupResponseIEs :: gtype where
  "ProtocolIEContainerPDUSessionResourceSetupResponseIEs = StructKind
    [(''List'', ''sizeLB:0,sizeUB:65535'', SliceKind PDUSessionResourceSetupResponseIEs)]"

definition ProtocolIEContainerPWSCancelRequestIEs :: gtype where
  "ProtocolIEContainerPWSCancelRequestIEs = StructKind
    [(''List'', ''sizeLB:0,sizeUB:65535'', SliceKind PWSCancelRequestIEs)]"

definition ProtocolIEContainerPWSFailureIndicationIEs :: gtype where
  "ProtocolIEContainerPWSFailureIndicationIEs = StructKind
    [(''List'', ''sizeLB:0,sizeUB:65535'', SliceKind PWSFailureIndicationIEs)]"

definition ProtocolIEContainerPWSRestartIndicationIEs :: gtype where
  "ProtocolIEContainerPWSRestartIndicationIEs = StructKind
    [(''List'', ''sizeLB:0,sizeUB:65535'', SliceKind PWSRestartIndicationIEs)]"

definition ProtocolIEContainerPathSwitchRequestFailureIEs :: gtype where
  "ProtocolIEContainerPathSwitchRequestFailureIEs = StructKind
    [(''List'', ''sizeLB:0,sizeUB:65535'', SliceKind PathSwitchRequestFailureIEs)]"

definition ProtocolIEContainerPathSwitchRequestIEs :: gtype where
  "ProtocolIEContainerPathSwitchRequestIEs = StructKind
    [(''List'', ''sizeLB:0,sizeUB:65535'', SliceKind PathSwitchRequestIEs)]"

definition ProtocolIEContainerRANConfigurationUpdateAcknowledgeIEs :: gtype where
  "ProtocolIEContainerRANConfigurationUpdateAcknowledgeIEs = StructKind
    [(''List'', ''sizeLB:0,sizeUB:65535'', SliceKind RANConfigurationUpdateAcknowledgeIEs)]"

definition ProtocolIEContainerRANConfigurationUpdateFailureIEs :: gtype where
  "ProtocolIEContainerRANConfigurationUpdateFailureIEs = StructKind
    [(''List'', ''sizeLB:0,sizeUB:65535'', SliceKind RANConfigurationUpdateFailureIEs)]"

definition ProtocolIEContainerRRCInactiveTransitionReportIEs :: gtype where
  "ProtocolIEContainerRRCInactiveTransitionReportIEs = StructKind
    [(''List'', ''sizeLB:0,sizeUB:65535'', SliceKind RRCInactiveTransitionReportIEs)]"

definition ProtocolIEContainerRerouteNASRequestIEs :: gtype where
  "ProtocolIEContainerRerouteNASRequestIEs = StructKind
    [(''List'', ''sizeLB:0,sizeUB:65535'', SliceKind RerouteNASRequestIEs)]"

definition ProtocolIEContainerUEContextModificationFailureIEs :: gtype where
  "ProtocolIEContainerUEContextModificationFailureIEs = StructKind
    [(''List'', ''sizeLB:0,sizeUB:65535'', SliceKind UEContextModificationFailureIEs)]"

definition ProtocolIEContainerUEContextModificationResponseIEs :: gtype where
  "ProtocolIEContainerUEContextModificationResponseIEs = StructKind
    [(''List'', ''sizeLB:0,sizeUB:65535'', SliceKind UEContextModificationResponseIEs)]"

definition ProtocolIEContainerUERadioCapabilityCheckResponseIEs :: gtype where
  "ProtocolIEContainerUERadioCapabilityCheckResponseIEs = StructKind
    [(''List'', ''sizeLB:0,sizeUB:65535'', SliceKind UERadioCapabilityCheckResponseIEs)]"

definition ProtocolIEContainerUplinkNASTransportIEs :: gtype where
  "ProtocolIEContainerUplinkNASTransportIEs = StructKind
    [(''List'', ''sizeLB:0,sizeUB:65535'', SliceKind UplinkNASTransportIEs)]"

definition ProtocolIEContainerWriteReplaceWarningRequestIEs :: gtype where
  "ProtocolIEContainerWriteReplaceWarningRequestIEs = StructKind
    [(''List'', ''sizeLB:0,sizeUB:65535'', SliceKind WriteReplaceWarningRequestIEs)]"

definition QosFlowAddOrModifyRequestList :: gtype where
  "QosFlowAddOrModifyRequestList = StructKind
    [(''List'', ''valueExt,sizeLB:1,sizeUB:64'', SliceKind QosFlowAddOrModifyRequestItem)]"

definition QosFlowSetupRequestList :: gtype where
  "QosFlowSetupRequestList = StructKind
    [(''List'', ''valueExt,sizeLB:1,sizeUB:64'', SliceKind QosFlowSetupRequestItem)]"

definition RANStatusTransferTransparentContainer :: gtype where
  "RANStatusTransferTransparentContainer = StructKind
    [(''DRBsSubjectToStatusTransferList'', '''', DRBsSubjectToStatusTransferList),
     (''IEExtensions'', ''optional'', PtrKind ProtocolExtensionContainerRANStatusTransferTransparentContainerExtIEs)]"

definition RecommendedRANNodesForPaging :: gtype where
  "RecommendedRANNodesForPaging = StructKind
    [(''RecommendedRANNodeList'', '''', RecommendedRANNodeList),
     (''IEExtensions'', ''optional'', PtrKind ProtocolExtensionContainerRecommendedRANNodesForPagingExtIEs)]"

definition SONConfigurationTransfer :: gtype where
  "SONConfigurationTransfer = StructKind
    [(''TargetRANNodeID'', ''valueExt'', TargetRANNodeID),
     (''SourceRANNodeID'', ''valueExt'', SourceRANNodeID),
     (''SONInformation'', ''valueLB:0,valueUB:2'', SONInformation),
     (''XnTNLConfigurationInfo'', ''valueExt'', XnTNLConfigurationInfo),
     (''IEExtensions'', ''optional'', PtrKind ProtocolExtensionContainerSONConfigurationTransferExtIEs)]"

definition SupportedTAItem :: gtype where
  "SupportedTAItem = StructKind
    [(''TAC'', '''', TAC),
     (''BroadcastPLMNList'', '''', BroadcastPLMNList),
     (''IEExtensions'', ''optional'', PtrKind ProtocolExtensionContainerSupportedTAItemExtIEs)]"

definition UEContextReleaseCommand :: gtype where
  "UEContextReleaseCommand = StructKind
    [(''ProtocolIEs'', '''', ProtocolIEContainerUEContextReleaseCommandIEs)]"

definition UEContextReleaseRequest :: gtype where
  "UEContextReleaseRequest = StructKind
    [(''ProtocolIEs'', '''', ProtocolIEContainerUEContextReleaseRequestIEs)]"

definition UEHistoryInformation :: gtype where
  "UEHistoryInformation = StructKind
    [(''List'', ''valueExt,sizeLB:1,sizeUB:16'', SliceKind LastVisitedCellItem)]"

end
