(* ===== verification/NGAP_PDU.thy ===== *)
theory NGAP_PDU
  imports NGAP_Structures
begin

text \<open>
  The NGAP types of \<^verbatim>\<open>lib/ngap/ngapType\<close> that hold whole messages, up to the protocol data unit \<^verbatim>\<open>NGAPPDU\<close>.
\<close>

definition AMFConfigurationUpdateAcknowledge :: gtype where
  "AMFConfigurationUpdateAcknowledge = StructKind
    [(''ProtocolIEs'', '''', ProtocolIEContainerAMFConfigurationUpdateAcknowledgeIEs)]"

definition AMFConfigurationUpdateFailure :: gtype where
  "AMFConfigurationUpdateFailure = StructKind
    [(''ProtocolIEs'', '''', ProtocolIEContainerAMFConfigurationUpdateFailureIEs)]"

definition AMFConfigurationUpdateIEs :: gtype where
  "AMFConfigurationUpdateIEs = StructKind
    [(''Id'', '''', ProtocolIEID),
     (''Criticality'', '''', Criticality),
     (''Value'', ''openType,referenceFieldName:Id'', AMFConfigurationUpdateIEsValue)]"

definition AMFStatusIndication :: gtype where
  "AMFStatusIndication = StructKind
    [(''ProtocolIEs'', '''', ProtocolIEContainerAMFStatusIndicationIEs)]"

definition AreaOfInterestList :: gtype where
  "AreaOfInterestList = StructKind
    [(''List'', ''valueExt,sizeLB:1,sizeUB:64'', SliceKind AreaOfInterestItem)]"

definition AssistanceDataForPaging :: gtype where
  "AssistanceDataForPaging = StructKind
    [(''AssistanceDataForRecommendedCells'', ''valueExt,optional'', PtrKind AssistanceDataForRecommendedCells),
     (''PagingAttemptInformation'', ''valueExt,optional'', PtrKind PagingAttemptInformation),
     (''IEExtensions'', ''optional'', PtrKind ProtocolExtensionContainerAssistanceDataForPagingExtIEs)]"

definition DownlinkNASTransport :: gtype where
  "DownlinkNASTransport = StructKind
    [(''ProtocolIEs'', '''', ProtocolIEContainerDownlinkNASTransportIEs)]"

definition DownlinkRANConfigurationTransferIEsValue :: gtype where
  "DownlinkRANConfigurationTransferIEsValue = StructKind
    [(''Present'', '''', IntKind 64),
     (''SONConfigurationTransferDL'', ''valueExt,referenceFieldValue:98'', PtrKind SONConfigurationTransfer)]"

definition DownlinkRANStatusTransferIEsValue :: gtype where
  "DownlinkRANStatusTransferIEsValue = StructKind
    [(''Present'', '''', IntKind 64),
     (''AMFUENGAPID'', ''referenceFieldValue:10'', PtrKind AMFUENGAPID),
     (''RANUENGAPID'', ''referenceFieldValue:85'', PtrKind RANUENGAPID),
     (''RANStatusTransferTransparentContainer'', ''valueExt,referenceFieldValue:84'', PtrKind RANStatusTransferTransparentContainer)]"

definition ErrorIndication :: gtype where
  "ErrorIndication = StructKind
    [(''ProtocolIEs'', '''', ProtocolIEContainerErrorIndicationIEs)]"

definition HandoverCancelAcknowledge :: gtype where
  "HandoverCancelAcknowledge = StructKind
    [(''ProtocolIEs'', '''', ProtocolIEContainerHandoverCancelAcknowledgeIEs)]"

definition HandoverCommand :: gtype where
  "HandoverCommand = StructKind
    [(''ProtocolIEs'', '''', ProtocolIEContainerHandoverCommandIEs)]"

definition HandoverFailure :: gtype where
  "HandoverFailure = StructKind
    [(''ProtocolIEs'', '''', ProtocolIEContainerHandoverFailureIEs)]"

definition HandoverNotify :: gtype where
  "HandoverNotify = StructKind
    [(''ProtocolIEs'', '''', ProtocolIEContainerHandoverNotifyIEs)]"

definition HandoverPreparationFailure :: gtype where
  "HandoverPreparationFailure = StructKind
    [(''ProtocolIEs'', '''', ProtocolIEContainerHandoverPreparationFailureIEs)]"

definition HandoverRequestAcknowledge :: gtype where
  "HandoverRequestAcknowledge = StructKind
    [(''ProtocolIEs'', '''', ProtocolIEContainerHandoverRequestAcknowledgeIEs)]"

definition InfoOnRecommendedCellsAndRANNodesForPaging :: gtype where
  "InfoOnRecommendedCellsAndRANNodesForPaging = StructKind
    [(''RecommendedCellsForPaging'', ''valueExt'', RecommendedCellsForPaging),
     (''RecommendRANNodesForPaging'', ''valueExt'', RecommendedRANNodesForPaging),
     (''IEExtensions'', ''optional'', PtrKind ProtocolExtensionContainerInfoOnRecommendedCellsAndRANNodesForPagingExtIEs)]"

definition InitialContextSetupFailure :: gtype where
  "InitialContextSetupFailure = StructKind
    [(''ProtocolIEs'', '''', ProtocolIEContainerInitialContextSetupFailureIEs)]"

definition InitialContextSetupRequestIEsValue :: gtype where
  "InitialContextSetupRequestIEsValue = StructKind
    [(''Present'', '''', IntKind 64),
     (''AMFUENGAPID'', ''referenceFieldValue:10'', PtrKind AMFUENGAPID),
     (''RANUENGAPID'', ''referenceFieldValue:85'', PtrKind RANUENGAPID),
     (''OldAMF'', ''referenceFieldValue:48'', PtrKind AMFName),
     (''UEAggregateMaximumBitRate'', ''valueExt,referenceFieldValue:110'', PtrKind UEAggregateMaximumBitRate),
     (''CoreNetworkAssistanceInformation'', ''valueExt,referenceFieldValue:18'', PtrKind CoreNetworkAssistanceInformation),
     (''GUAMI'', ''valueExt,referenceFieldValue:28'', PtrKind GUAMI),
     (''PDUSessionResourceSetupListCxtReq'', ''referenceFieldValue:71'', PtrKind PDUSessionResourceSetupListCxtReq),
     (''AllowedNSSAI'', ''referenceFieldValue:0'', PtrKind AllowedNSSAI),
     (''UESecurityCapabilities'', ''valueExt,referenceFieldValue:119'', PtrKind UESecurityCapabilities),
     (''SecurityKey'', ''referenceFieldValue:94'', PtrKind SecurityKey),
     (''TraceActivation'', ''valueExt,referenceFieldValue:108'', PtrKind TraceActivation),
     (''MobilityRestrictionList'', ''valueExt,referenceFieldValue:36'', PtrKind MobilityRestrictionList),
     (''UERadioCapability'', ''referenceFieldValue:117'', PtrKind UERadioCapability),
     (''IndexToRFSP'', ''referenceFieldValue:31'', PtrKind IndexToRFSP),
     (''MaskedIMEISV'', ''referenceFieldValue:34'', PtrKind MaskedIMEISV),
     (''NASPDU'', ''referenceFieldValue:38'', PtrKind NASPDU),
     (''EmergencyFallbackIndicator'', ''valueExt,referenceFieldValue:24'', PtrKind EmergencyFallbackIndicator),
     (''RRCInactiveTransitionReportRequest'', ''referenceFieldValue:91'', PtrKind RRCInactiveTransitionReportRequest),
     (''UERadioCapabilityForPaging'', ''valueExt,referenceFieldValue:118'', PtrKind UERadioCapabilityForPaging)]"

definition InitialContextSetupResponse :: gtype where
  "InitialContextSetupResponse = StructKind
    [(''ProtocolIEs'', '''', ProtocolIEContainerInitialContextSetupResponseIEs)]"

definition InitialUEMessage :: gtype where
  "InitialUEMessage = StructKind
    [(''ProtocolIEs'', '''', ProtocolIEContainerInitialUEMessageIEs)]"

definition NGReset :: gtype where
  "NGReset = StructKind
    [(''ProtocolIEs'', '''', ProtocolIEContainerNGResetIEs)]"

definition NGResetAcknowledge :: gtype where
  "NGResetAcknowledge = StructKind
    [(''ProtocolIEs'', '''', ProtocolIEContainerNGResetAcknowledgeIEs)]"

definition NGSetupFailure :: gtype where
  "NGSetupFailure = StructKind
    [(''ProtocolIEs'', '''', ProtocolIEContainerNGSetupFailureIEs)]"

definition NGSetupResponseIEs :: gtype where
  "NGSetupResponseIEs = StructKind
    [(''Id'', '''', ProtocolIEID),
     (''Criticality'', '''', Criticality),
     (''Value'', ''openType,referenceFieldName:Id'', NGSetupResponseIEsValue)]"

definition OverloadStartIEs :: gtype where
  "OverloadStartIEs = StructKind
    [(''Id'', '''', ProtocolIEID),
     (''Criticality'', '''', Criticality),
     (''Value'', ''openType,referenceFieldName:Id'', OverloadStartIEsValue)]"

definition PDUSessionResourceModifyConfirm :: gtype where
  "PDUSessionResourceModifyConfirm = StructKind
    [(''ProtocolIEs'', '''', ProtocolIEContainerPDUSessionResourceModifyConfirmIEs)]"

definition PDUSessionResourceModifyRequestTransferIEsValue :: gtype where
  "PDUSessionResourceModifyRequestTransferIEsValue = StructKind
    [(''Present'', '''', IntKind 64),
     (''PDUSessionAggregateMaximumBitRate'', ''valueExt,referenceFieldValue:130'', PtrKind PDUSessionAggregateMaximumBitRate),
     (''ULNGUUPTNLModifyList'', ''referenceFieldValue:140'', PtrKind ULNGUUPTNLModifyList),
     (''NetworkInstance'', ''referenceFieldValue:129'', PtrKind NetworkInstance),
     (''QosFlowAddOrModifyRequestList'', ''referenceFieldValue:135'', PtrKind QosFlowAddOrModifyRequestList),
     (''QosFlowToReleaseList'', ''referenceFieldValue:137'', PtrKind QosFlowList),
     (''AdditionalULNGUUPTNLInformation'', ''referenceFieldValue:126,valueLB:0,valueUB:1'', PtrKind UPTransportLayerInformation)]"

definition PDUSessionResourceModifyResponse :: gtype where
  "PDUSessionResourceModifyResponse = StructKind
    [(''ProtocolIEs'', '''', ProtocolIEContainerPDUSessionResourceModifyResponseIEs)]"

definition PDUSessionResourceNotify :: gtype where
  "PDUSessionResourceNotify = StructKind
    [(''ProtocolIEs'', '''', ProtocolIEContainerPDUSessionResourceNotifyIEs)]"

definition PDUSessionResourceReleaseResponse :: gtype where
  "PDUSessionResourceReleaseResponse = StructKind
    [(''ProtocolIEs'', '''', ProtocolIEContainerPDUSessionResourceReleaseResponseIEs)]"

definition PDUSessionResourceSetupRequest :: gtype where
  "PDUSessionResourceSetupRequest = StructKind
    [(''ProtocolIEs'', '''', ProtocolIEContainerPDUSessionResourceSetupRequestIEs)]"

definition PDUSessionResourceSetupRequestTransferIEsValue :: gtype where
  "PDUSessionResourceSetupRequestTransferIEsValue = StructKind
    [(''Present'', '''', IntKind 64),
     (''PDUSessionAggregateMaximumBitRate'', ''valueExt,referenceFieldValue:130'', PtrKind PDUSessionAggregateMaximumBitRate),
     (''ULNGUUPTNLInformation'', ''referenceFieldValue:139,valueLB:0,valueUB:1'', PtrKind UPTransportLayerInformation),
     (''AdditionalULNGUUPTNLInformation'', ''referenceFieldValue:126,valueLB:0,valueUB:1'', PtrKind UPTransportLayerInformation),
     (''DataForwardingNotPossible'', ''referenceFieldValue:127'', PtrKind DataForwardingNotPossible),
     (''PDUSessionType'', ''referenceFieldValue:134'', PtrKind PDUSessionType),
     (''SecurityIndication'', ''valueExt,referenceFieldValue:138'', PtrKind SecurityIndication),
     (''NetworkInstance'', ''referenceFieldValue:129'', PtrKind NetworkInstance),
     (''QosFlowSetupRequestList'', ''referenceFieldValue:136'', PtrKind QosFlowSetupRequestList)]"

definition PDUSessionResourceSetupResponse :: gtype where
  "PDUSessionResourceSetupResponse = StructKind
    [(''ProtocolIEs'', '''', ProtocolIEContainerPDUSessionResourceSetupResponseIEs)]"

definition PWSCancelRequest :: gtype where
  "PWSCancelRequest = StructKind
    [(''ProtocolIEs'', '''', ProtocolIEContainerPWSCancelRequestIEs)]"

definition PWSCancelResponseIEsValue :: gtype where
  "PWSCancelResponseIEsValue = StructKind
    [(''Present'', '''', IntKind 64),
     (''MessageIdentifier'', ''referenceFieldValue:35'', PtrKind MessageIdentifier),
     (''SerialNumber'', ''referenceFieldValue:95'', PtrKind SerialNumber),
     (''BroadcastCancelledAreaList'', ''referenceFieldValue:12,valueLB:0,valueUB:6'', PtrKind BroadcastCancelledAreaList),
     (''CriticalityDiagnostics'', ''valueExt,referenceFieldValue:19'', PtrKind CriticalityDiagnostics)]"

definition PWSFailureIndication :: gtype where
  "PWSFailureIndication = StructKind
    [(''ProtocolIEs'', '''', ProtocolIEContainerPWSFailureIndicationIEs)]"

definition PWSRestartIndication :: gtype where
  "PWSRestartIndication = StructKind
    [(''ProtocolIEs'', '''', ProtocolIEContainerPWSRestartIndicationIEs)]"

definition PathSwitchRequest :: gtype where
  "PathSwitchRequest = StructKind
    [(''ProtocolIEs'', '''', ProtocolIEContainerPathSwitchRequestIEs)]"

definition PathSwitchRequestAcknowledgeIEsValue :: gtype where
  "PathSwitchRequestAcknowledgeIEsValue = StructKind
    [(''Present'', '''', IntKind 64),
     (''AMFUENGAPID'', ''referenceFieldValue:10'', PtrKind AMFUENGAPID),
     (''RANUENGAPID'', ''referenceFieldValue:85'', PtrKind RANUENGAPID),
     (''UESecurityCapabilities'', ''valueExt,referenceFieldValue:119'', PtrKind UESecurityCapabilities),
     (''SecurityContext'', ''valueExt,referenceFieldValue:93'', PtrKind SecurityContext),
     (''NewSecurityContextInd'', ''referenceFieldValue:41'', PtrKind NewSecurityContextInd),
     (''PDUSessionResourceSwitchedList'', ''referenceFieldValue:77'', PtrKind PDUSessionResourceSwitchedList),
     (''PDUSessionResourceReleasedListPSAck'', ''referenceFieldValue:68'', PtrKind PDUSessionResourceReleasedListPSAck),
     (''AllowedNSSAI'', ''referenceFieldValue:0'', PtrKind AllowedNSSAI),
     (''CoreNetworkAssistanceInformation'', ''valueExt,referenceFieldValue:18'', PtrKind CoreNetworkAssistanceInformation),
     (''RRCInactiveTransitionReportRequest'', ''referenceFieldValue:91'', PtrKind RRCInactiveTransitionReportRequest),
     (''CriticalityDiagnostics'', ''valueExt,referenceFieldValue:19'', PtrKind CriticalityDiagnostics)]"

definition PathSwitchRequestFailure :: gtype where
  "PathSwitchRequestFailure = StructKind
    [(''ProtocolIEs'', '''', ProtocolIEContainerPathSwitchRequestFailureIEs)]"

definition ProtocolIEContainerHandoverRequiredIEs :: gtype where
  "ProtocolIEContainerHandoverRequiredIEs = StructKind
    [(''List'', ''sizeLB:0,sizeUB:65535'', SliceKind HandoverRequiredIEs)]"

definition RANConfigurationUpdateAcknowledge :: gtype where
  "RANConfigurationUpdateAcknowledge = StructKind
    [(''ProtocolIEs'', '''', ProtocolIEContainerRANConfigurationUpdateAcknowledgeIEs)]"

definition RANConfigurationUpdateFailure :: gtype where
  "RANConfigurationUpdateFailure = StructKind
    [(''ProtocolIEs'', '''', ProtocolIEContainerRANConfigurationUpdateFailureIEs)]"

definition RRCInactiveTransitionReport :: gtype where
  "RRCInactiveTransitionReport = StructKind
    [(''ProtocolIEs'', '''', ProtocolIEContainerRRCInactiveTransitionReportIEs)]"

definition RerouteNASRequest :: gtype where
  "RerouteNASRequest = StructKind
    [(''ProtocolIEs'', '''', ProtocolIEContainerRerouteNASRequestIEs)]"

definition SourceNGRANNodeToTargetNGRANNodeTransparentContainer :: gtype where
  "SourceNGRANNodeToTargetNGRANNodeTransparentContainer = StructKind
    [(''RRCContainer'', '''', RRCContainer),
     (''PDUSessionResourceInformationList'', ''optional'', PtrKind PDUSessionResourceInformationList),
     (''ERABInformationList'', ''optional'', PtrKind ERABInformationList),
     (''TargetCellID'', ''valueLB:0,valueUB:2'', NGRANCGI),
     (''IndexToRFSP'', ''optional'', PtrKind IndexToRFSP),
     (''UEHistoryInformation'', '''', UEHistoryInformation),
     (''IEExtensions'', ''optional'', PtrKind ProtocolExtensionContainerSourceNGRANNodeToTargetNGRANNodeTransparentContainerExtIEs)]"

definition SupportedTAList :: gtype where
  "SupportedTAList = StructKind
    [(''List'', ''valueExt,sizeLB:1,sizeUB:256'', SliceKind SupportedTAItem)]"

definition UEContextModificationFailure :: gtype where
  "UEContextModificationFailure = StructKind
    [(''ProtocolIEs'', '''', ProtocolIEContainerUEContextModificationFailureIEs)]"

definition UEContextModificationRequestIEsValue :: gtype where
  "UEContextModificationRequestIEsValue = StructKind
    [(''Present'', '''', IntKind 64),
     (''AMFUENGAPID'', ''referenceFieldValue:10'', PtrKind AMFUENGAPID),
     (''RANUENGAPID'', ''referenceFieldValue:85'', PtrKind RANUENGAPID),
     (''RANPagingPriority'', ''referenceFieldValue:83'', PtrKind RANPagingPriority),
     (''SecurityKey'', ''referenceFieldValue:94'', PtrKind SecurityKey),
     (''IndexToRFSP'', ''referenceFieldValue:31'', PtrKind IndexToRFSP),
     (''UEAggregateMaximumBitRate'', ''valueExt,referenceFieldValue:110'', PtrKind UEAggregateMaximumBitRate),
     (''UESecurityCapabilities'', ''valueExt,referenceFieldValue:119'', PtrKind UESecurityCapabilities),
     (''CoreNetworkAssistanceInformation'', ''valueExt,referenceFieldValue:18'', PtrKind CoreNetworkAssistanceInformation),
     (''EmergencyFallbackIndicator'', ''valueExt,referenceFieldValue:24'', PtrKind EmergencyFallbackIndicator),
     (''NewAMFUENGAPID'', ''referenceFieldValue:40'', PtrKind AMFUENGAPID),
     (''RRCInactiveTransitionReportRequest'', ''referenceFieldValue:91'', PtrKind RRCInactiveTransitionReportRequest)]"

definition UEContextModificationResponse :: gtype where
  "UEContextModificationResponse = StructKind
    [(''ProtocolIEs'', '''', ProtocolIEContainerUEContextModificationResponseIEs)]"

definition UERadioCapabilityCheckResponse :: gtype where
  "UERadioCapabilityCheckResponse = StructKind
    [(''ProtocolIEs'', '''', ProtocolIEContainerUERadioCapabilityCheckResponseIEs)]"

definition UPTNLInformation :: gtype where
  "UPTNLInformation = StructKind
    [(''Present'', '''', IntKind 64),
     (''SingleTNLInformation'', ''valueExt'', PtrKind SingleTNLInformation),
     (''MultipleTNLInformation'', ''valueExt'', PtrKind MultipleTNLInformation),
     (''ChoiceExtensions'', '''', PtrKind ProtocolIESingleContainerUPTNLInformationExtIEs)]"

definition UplinkNASTransport :: gtype where
  "UplinkNASTransport = StructKind
    [(''ProtocolIEs'', '''', ProtocolIEContainerUplinkNASTransportIEs)]"

definition UplinkRANConfigurationTransferIEsValue :: gtype where
  "UplinkRANConfigurationTransferIEsValue = StructKind
    [(''Present'', '''', IntKind 64),
     (''SONConfigurationTransferUL'', ''valueExt,referenceFieldValue:99'', PtrKind SONConfigurationTransfer)]"

definition UplinkRANStatusTransferIEsValue :: gtype where
  "UplinkRANStatusTransferIEsValue = StructKind
    [(''Present'', '''', IntKind 64),
     (''AMFUENGAPID'', ''referenceFieldValue:10'', PtrKind AMFUENGAPID),
     (''RANUENGAPID'', ''referenceFieldValue:85'', PtrKind RANUENGAPID),
     (''RANStatusTransferTransparentContainer'', ''valueExt,referenceFieldValue:84'', PtrKind RANStatusTransferTransparentContainer)]"

definition WriteReplaceWarningRequest :: gtype where
  "WriteReplaceWarningRequest = StructKind
    [(''ProtocolIEs'', '''', ProtocolIEContainerWriteReplaceWarningRequestIEs)]"

definition WriteReplaceWarningResponseIEsValue :: gtype where
  "WriteReplaceWarningResponseIEsValue = StructKind
    [(''Present'', '''', IntKind 64),
     (''MessageIdentifier'', ''referenceFieldValue:35'', PtrKind MessageIdentifier),
     (''SerialNumber'', ''referenceFieldValue:95'', PtrKind SerialNumber),
     (''BroadcastCompletedAreaList'', ''referenceFieldValue:13,valueLB:0,valueUB:6'', PtrKind BroadcastCompletedAreaList),
     (''CriticalityDiagnostics'', ''valueExt,referenceFieldValue:19'', PtrKind CriticalityDiagnostics)]"

definition DownlinkRANConfigurationTransferIEs :: gtype where
  "DownlinkRANConfigurationTransferIEs = StructKind
    [(''Id'', '''', ProtocolIEID),
     (''Criticality'', '''', Criticality),
     (''Value'', ''openType,referenceFieldName:Id'', DownlinkRANConfigurationTransferIEsValue)]"

definition DownlinkRANStatusTransferIEs :: gtype where
  "DownlinkRANStatusTransferIEs = StructKind
    [(''Id'', '''', ProtocolIEID),
     (''Criticality'', '''', Criticality),
     (''Value'', ''openType,referenceFieldName:Id'', DownlinkRANStatusTransferIEsValue)]"

definition HandoverRequired :: gtype where
  "HandoverRequired = StructKind
    [(''ProtocolIEs'', '''', ProtocolIEContainerHandoverRequiredIEs)]"

definition InitialContextSetupRequestIEs :: gtype where
  "InitialContextSetupRequestIEs = StructKind
    [(''Id'', '''', ProtocolIEID),
     (''Criticality'', '''', Criticality),
     (''Value'', ''openType,referenceFieldName:Id'', InitialContextSetupRequestIEsValue)]"

definition LocationReportingRequestType :: gtype where
  "LocationReportingRequestType = StructKind
    [(''EventType'', '''', EventType),
     (''ReportArea'', '''', ReportArea),
     (''AreaOfInterestList'', ''optional'', PtrKind AreaOfInterestList),
     (''LocationReportingReferenceIDToBeCancelled'', ''optional'', PtrKind LocationReportingReferenceID),
     (''IEExtensions'', ''optional'', PtrKind ProtocolExtensionContainerLocationReportingRequestTypeExtIEs)]"

definition NGSetupRequestIEsValue :: gtype where
  "NGSetupRequestIEsValue = StructKind
    [(''Present'', '''', IntKind 64),
     (''GlobalRANNodeID'', ''referenceFieldValue:27,valueLB:0,valueUB:3'', PtrKind GlobalRANNodeID),
     (''RANNodeName'', ''referenceFieldValue:82'', PtrKind RANNodeName),
     (''SupportedTAList'', ''referenceFieldValue:102'', PtrKind SupportedTAList),
     (''DefaultPagingDRX'', ''referenceFieldValue:21'', PtrKind PagingDRX)]"

definition PDUSessionResourceModifyIndicationTransfer :: gtype where
  "PDUSessionResourceModifyIndicationTransfer = StructKind
    [(''DLUPTNLInformation'', ''valueLB:0,valueUB:2,optional'', PtrKind UPTNLInformation),
     (''IEExtensions'', ''optional'', PtrKind ProtocolExtensionContainerPDUSessionResourceModifyIndicationTransferExtIEs)]"

definition PDUSessionResourceModifyRequestTransferIEs :: gtype where
  "PDUSessionResourceModifyRequestTransferIEs = StructKind
    [(''Id'', '''', ProtocolIEID),
     (''Criticality'', '''', Criticality),
     (''Value'', ''openType,referenceFieldName:Id'', PDUSessionResourceModifyRequestTransferIEsValue)]"

definition PDUSessionResourceSetupRequestTransferIEs :: gtype where
  "PDUSessionResourceSetupRequestTransferIEs = StructKind
    [(''Id'', '''', ProtocolIEID),
     (''Criticality'', '''', Criticality),
     (''Value'', ''openType,referenceFieldName:Id'', PDUSessionResourceSetupRequestTransferIEsValue)]"

definition PWSCancelResponseIEs :: gtype where
  "PWSCancelResponseIEs = StructKind
    [(''Id'', '''', ProtocolIEID),
     (''Criticality'', '''', Criticality),
     (''Value'', ''openType,referenceFieldName:Id'', PWSCancelResponseIEsValue)]"

definition PagingIEsValue :: gtype where
  "PagingIEsValue = StructKind
    [(''Present'', '''', IntKind 64),
     (''UEPagingIdentity'', ''referenceFieldValue:115,valueLB:0,valueUB:1'', PtrKind UEPagingIdentity),
     (''PagingDRX'', ''referenceFieldValue:50'', PtrKind PagingDRX),
     (''TAIListForPaging'', ''referenceFieldValue:103'', PtrKind TAIListForPaging),
     (''PagingPriority'', ''referenceFieldValue:52'', PtrKind PagingPriority),
     (''UERadioCapabilityForPaging'', ''valueExt,referenceFieldValue:118'', PtrKind UERadioCapabilityForPaging),
     (''PagingOrigin'', ''referenceFieldValue:51'', PtrKind PagingOrigin),
     (''AssistanceDataForPaging'', ''valueExt,referenceFieldValue:11'', PtrKind AssistanceDataForPaging)]"

definition PathSwitchRequestAcknowledgeIEs :: gtype where
  "PathSwitchRequestAcknowledgeIEs = StructKind
    [(''Id'', '''', ProtocolIEID),
     (''Criticality'', '''', Criticality),
     (''Value'', ''openType,referenceFieldName:Id'', PathSwitchRequestAcknowledgeIEsValue)]"

definition ProtocolIEContainerAMFConfigurationUpdateIEs :: gtype where
  "ProtocolIEContainerAMFConfigurationUpdateIEs = StructKind
    [(''List'', ''sizeLB:0,sizeUB:65535'', SliceKind AMFConfigurationUpdateIEs)]"

definition ProtocolIEContainerNGSetupResponseIEs :: gtype where
  "ProtocolIEContainerNGSetupResponseIEs = StructKind
    [(''List'', ''sizeLB:0,sizeUB:65535'', SliceKind NGSetupResponseIEs)]"

definition ProtocolIEContainerOverloadStartIEs :: gtype where
  "ProtocolIEContainerOverloadStartIEs = StructKind
    [(''List'', ''sizeLB:0,sizeUB:65535'', SliceKind OverloadStartIEs)]"

definition RANConfigurationUpdateIEsValue :: gtype where
  "RANConfigurationUpdateIEsValue = StructKind
    [(''Present'', '''', IntKind 64),
     (''RANNodeName'', ''referenceFieldValue:82'', PtrKind RANNodeName),
     (''SupportedTAList'', ''referenceFieldValue:102'', PtrKind SupportedTAList),
     (''DefaultPagingDRX'', ''referenceFieldValue:21'', PtrKind PagingDRX)]"

definition UEContextModificationRequestIEs :: gtype where
  "UEContextModificationRequestIEs = StructKind
    [(''Id'', '''', ProtocolIEID),
     (''Criticality'', '''', Criticality),
     (''Value'', ''openType,referenceFieldName:Id'', UEContextModificationRequestIEsValue)]"

definition UEContextReleaseCompleteIEsValue :: gtype where
  "UEContextReleaseCompleteIEsValue = StructKind
    [(''Present'', '''', IntKind 64),
     (''AMFUENGAPID'', ''referenceFieldValue:10'', PtrKind AMFUENGAPID),
     (''RANUENGAPID'', ''referenceFieldValue:85'', PtrKind RANUENGAPID),
     (''UserLocationInformation'', ''referenceFieldValue:121,valueLB:0,valueUB:3'', PtrKind UserLocationInformation),
     (''InfoOnRecommendedCellsAndRANNodesForPaging'', ''valueExt,referenceFieldValue:32'', PtrKind InfoOnRecommendedCellsAndRANNodesForPaging),
     (''PDUSessionResourceListCxtRelCpl'', ''referenceFieldValue:60'', PtrKind PDUSessionResourceListCxtRelCpl),
     (''CriticalityDiagnostics'', ''valueExt,referenceFieldValue:19'', PtrKind CriticalityDiagnostics)]"

definition UnsuccessfulOutcomeValue :: gtype where
  "UnsuccessfulOutcomeValue = StructKind
    [(''Present'', '''', IntKind 64),
     (''AMFConfigurationUpdateFailure'', ''valueExt,referenceFieldValue:0'', PtrKind AMFConfigurationUpdateFailure),
     (''HandoverPreparationFailure'', ''valueExt,referenceFieldValue:12'', PtrKind HandoverPreparationFailure),
     (''HandoverFailure'', ''valueExt,referenceFieldValue:13'', PtrKind HandoverFailure),
     (''InitialContextSetupFailure'', ''valueExt,referenceFieldValue:14'', PtrKind InitialContextSetupFailure),
     (''NGSetupFailure'', ''valueExt,referenceFieldValue:21'', PtrKind NGSetupFailure),
     (''PathSwitchRequestFailure'', ''valueExt,referenceFieldValue:25'', PtrKind PathSwitchRequestFailure),
     (''RANConfigurationUpdateFailure'', ''valueExt,referenceFieldValue:35'', PtrKind RANConfigurationUpdateFailure),
     (''UEContextModificationFailure'', ''valueExt,referenceFieldValue:40'', PtrKind UEContextModificationFailure)]"

definition UplinkRANConfigurationTransferIEs :: gtype where
  "UplinkRANConfigurationTransferIEs = StructKind
    [(''Id'', '''', ProtocolIEID),
     (''Criticality'', '''', Criticality),
     (''Value'', ''openType,referenceFieldName:Id'', UplinkRANConfigurationTransferIEsValue)]"

definition UplinkRANStatusTransferIEs :: gtype where
  "UplinkRANStatusTransferIEs = StructKind
    [(''Id'', '''', ProtocolIEID),
     (''Criticality'', '''', Criticality),
     (''Value'', ''openType,referenceFieldName:Id'', UplinkRANStatusTransferIEsValue)]"

definition WriteReplaceWarningResponseIEs :: gtype where
  "WriteReplaceWarningResponseIEs = StructKind
    [(''Id'', '''', ProtocolIEID),
     (''Criticality'', '''', Criticality),
     (''Value'', ''openType,referenceFieldName:Id'', WriteReplaceWarningResponseIEsValue)]"

definition AMFConfigurationUpdate :: gtype where
  "AMFConfigurationUpdate = StructKind
    [(''ProtocolIEs'', '''', ProtocolIEContainerAMFConfigurationUpdateIEs)]"

definition HandoverRequestIEsValue :: gtype where
  "HandoverRequestIEsValue = StructKind
    [(''Present'', '''', IntKind 64),
     (''AMFUENGAPID'', ''referenceFieldValue:10'', PtrKind AMFUENGAPID),
     (''HandoverType'', ''referenceFieldValue:29'', PtrKind HandoverType),
     (''Cause'', ''referenceFieldValue:15,valueLB:0,valueUB:5'', PtrKind Cause),
     (''UEAggregateMaximumBitRate'', ''valueExt,referenceFieldValue:110'', PtrKind UEAggregateMaximumBitRate),
     (''CoreNetworkAssistanceInformation'', ''valueExt,referenceFieldValue:18'', PtrKind CoreNetworkAssistanceInformation),
     (''UESecurityCapabilities'', ''valueExt,referenceFieldValue:119'', PtrKind UESecurityCapabilities),
     (''SecurityContext'', ''valueExt,referenceFieldValue:93'', PtrKind SecurityContext),
     (''NewSecurityContextInd'', ''referenceFieldValue:41'', PtrKind NewSecurityContextInd),
     (''NASC'', ''referenceFieldValue:37'', PtrKind NASPDU),
     (''PDUSessionResourceSetupListHOReq'', ''referenceFieldValue:73'', PtrKind PDUSessionResourceSetupListHOReq),
     (''AllowedNSSAI'', ''referenceFieldValue:0'', PtrKind AllowedNSSAI),
     (''TraceActivation'', ''valueExt,referenceFieldValue:108'', PtrKind TraceActivation),
     (''MaskedIMEISV'', ''referenceFieldValue:34'', PtrKind MaskedIMEISV),
     (''SourceToTargetTransparentContainer'', ''referenceFieldValue:101'', PtrKind SourceToTargetTransparentContainer),
     (''MobilityRestrictionList'', ''valueExt,referenceFieldValue:36'', PtrKind MobilityRestrictionList),
     (''LocationReportingRequestType'', ''valueExt,referenceFieldValue:33'', PtrKind LocationReportingRequestType),
     (''RRCInactiveTransitionReportRequest'', ''referenceFieldValue:91'', PtrKind RRCInactiveTransitionReportRequest),
     (''GUAMI'', ''valueExt,referenceFieldValue:28'', PtrKind GUAMI)]"

definition LocationReportIEsValue :: gtype where
  "LocationReportIEsValue = StructKind
    [(''Present'', '''', IntKind 64),
     (''AMFUENGAPID'', ''referenceFieldValue:10'', PtrKind AMFUENGAPID),
     (''RANUENGAPID'', ''referenceFieldValue:85'', PtrKind RANUENGAPID),
     (''UserLocationInformation'', ''referenceFieldValue:121,valueLB:0,valueUB:3'', PtrKind UserLocationInformation),
     (''UEPresenceInAreaOfInterestList'', ''referenceFieldValue:116'', PtrKind UEPresenceInAreaOfInterestList),
     (''LocationReportingRequestType'', ''valueExt,referenceFieldValue:33'', PtrKind LocationReportingRequestType)]"

definition LocationReportingControlIEsValue :: gtype where
  "LocationReportingControlIEsValue = StructKind
    [(''Present'', '''', IntKind 64),
     (''AMFUENGAPID'', ''referenceFieldValue:10'', PtrKind AMFUENGAPID),
     (''RANUENGAPID'', ''referenceFieldValue:85'', PtrKind RANUENGAPID),
     (''LocationReportingRequestType'', ''valueExt,referenceFieldValue:33'', PtrKind LocationReportingRequestType)]"

definition NGSetupRequestIEs :: gtype where
  "NGSetupRequestIEs = StructKind
    [(''Id'', '''', ProtocolIEID),
     (''Criticality'', '''', Criticality),
     (''Value'', ''openType,referenceFieldName:Id'', NGSetupRequestIEsValue)]"

definition NGSetupResponse :: gtype where
  "NGSetupResponse = StructKind
    [(''ProtocolIEs'', '''', ProtocolIEContainerNGSetupResponseIEs)]"

definition OverloadStart :: gtype where
  "OverloadStart = StructKind
    [(''ProtocolIEs'', '''', ProtocolIEContainerOverloadStartIEs)]"

definition PagingIEs :: gtype where
  "PagingIEs = StructKind
    [(''Id'', '''', ProtocolIEID),
     (''Criticality'', '''', Criticality),
     (''Value'', ''openType,referenceFieldName:Id'', PagingIEsValue)]"

definition ProtocolIEContainerDownlinkRANConfigurationTransferIEs :: gtype where
  "ProtocolIEContainerDownlinkRANConfigurationTransferIEs = StructKind
    [(''List'', ''sizeLB:0,sizeUB:65535'', SliceKind DownlinkRANConfigurationTransferIEs)]"

definition ProtocolIEContainerDownlinkRANStatusTransferIEs :: gtype where
  "ProtocolIEContainerDownlinkRANStatusTransferIEs = StructKind
    [(''List'', ''sizeLB:0,sizeUB:65535'', SliceKind DownlinkRANStatusTransferIEs)]"

definition ProtocolIEContainerInitialContextSetupRequestIEs :: gtype where
  "ProtocolIEContainerInitialContextSetupRequestIEs = StructKind
    [(''List'', ''sizeLB:0,sizeUB:65535'', SliceKind InitialContextSetupRequestIEs)]"

definition ProtocolIEContainerPDUSessionResourceModifyRequestTransferIEs :: gtype where
  "ProtocolIEContainerPDUSessionResourceModifyRequestTransferIEs = StructKind
    [(''List'', ''sizeLB:0,sizeUB:65535'', SliceKind PDUSessionResourceModifyRequestTransferIEs)]"

definition ProtocolIEContainerPDUSessionResourceSetupRequestTransferIEs :: gtype where
  "ProtocolIEContainerPDUSessionResourceSetupRequestTransferIEs = StructKind
    [(''List'', ''sizeLB:0,sizeUB:65535'', SliceKind PDUSessionResourceSetupRequestTransferIEs)]"

definition ProtocolIEContainerPWSCancelResponseIEs :: gtype where
  "ProtocolIEContainerPWSCancelResponseIEs = StructKind
    [(''List'', ''sizeLB:0,sizeUB:65535'', SliceKind PWSCancelResponseIEs)]"

definition ProtocolIEContainerPathSwitchRequestAcknowledgeIEs :: gtype where
  "ProtocolIEContainerPathSwitchRequestAcknowledgeIEs = StructKind
    [(''List'', ''sizeLB:0,sizeUB:65535'', SliceKind PathSwitchRequestAcknowledgeIEs)]"

definition ProtocolIEContainerUEContextModificationRequestIEs :: gtype where
  "ProtocolIEContainerUEContextModificationRequestIEs = StructKind
    [(''List'', ''sizeLB:0,sizeUB:65535'', SliceKind UEContextModificationRequestIEs)]"

definition ProtocolIEContainerUplinkRANConfigurationTransferIEs :: gtype where
  "ProtocolIEContainerUplinkRANConfigurationTransferIEs = StructKind
    [(''List'', ''sizeLB:0,sizeUB:65535'', SliceKind UplinkRANConfigurationTransferIEs)]"

definition ProtocolIEContainerUplinkRANStatusTransferIEs :: gtype where
  "ProtocolIEContainerUplinkRANStatusTransferIEs = StructKind
    [(''List'', ''sizeLB:0,sizeUB:65535'', SliceKind UplinkRANStatusTransferIEs)]"

definition ProtocolIEContainerWriteReplaceWarningResponseIEs :: gtype where
  "ProtocolIEContainerWriteReplaceWarningResponseIEs = StructKind
    [(''List'', ''sizeLB:0,sizeUB:65535'', SliceKind WriteReplaceWarningResponseIEs)]"

definition RANConfigurationUpdateIEs :: gtype where
  "RANConfigurationUpdateIEs = StructKind
    [(''Id'', '''', ProtocolIEID),
     (''Criticality'', '''', Criticality),
     (''Value'', ''openType,referenceFieldName:Id'', RANConfigurationUpdateIEsValue)]"

definition UEContextReleaseCompleteIEs :: gtype where
  "UEContextReleaseCompleteIEs = StructKind
    [(''Id'', '''', ProtocolIEID),
     (''Criticality'', '''', Criticality),
     (''Value'', ''openType,referenceFieldName:Id'', UEContextReleaseCompleteIEsValue)]"

definition UnsuccessfulOutcome :: gtype where
  "UnsuccessfulOutcome = StructKind
    [(''ProcedureCode'', '''', ProcedureCode),
     (''Criticality'', '''', Criticality),
     (''Value'', ''openType,referenceFieldName:ProcedureCode'', UnsuccessfulOutcomeValue)]"

definition DownlinkRANConfigurationTransfer :: gtype where
  "DownlinkRANConfigurationTransfer = StructKind
    [(''ProtocolIEs'', '''', ProtocolIEContainerDownlinkRANConfigurationTransferIEs)]"

definition DownlinkRANStatusTransfer :: gtype where
  "DownlinkRANStatusTransfer = StructKind
    [(''ProtocolIEs'', '''', ProtocolIEContainerDownlinkRANStatusTransferIEs)]"

definition HandoverRequestIEs :: gtype where
  "HandoverRequestIEs = StructKind
    [(''Id'', '''', ProtocolIEID),
     (''Criticality'', '''', Criticality),
     (''Value'', ''openType,referenceFieldName:Id'', HandoverRequestIEsValue)]"

definition InitialContextSetupRequest :: gtype where
  "InitialContextSetupRequest = StructKind
    [(''ProtocolIEs'', '''', ProtocolIEContainerInitialContextSetupRequestIEs)]"

definition LocationReportIEs :: gtype where
  "LocationReportIEs = StructKind
    [(''Id'', '''', ProtocolIEID),
     (''Criticality'', '''', Criticality),
     (''Value'', ''openType,referenceFieldName:Id'', LocationReportIEsValue)]"

definition LocationReportingControlIEs :: gtype where
  "LocationReportingControlIEs = StructKind
    [(''Id'', '''', ProtocolIEID),
     (''Criticality'', '''', Criticality),
     (''Value'', ''openType,referenceFieldName:Id'', LocationReportingControlIEsValue)]"

definition PDUSessionResourceModifyRequestTransfer :: gtype where
  "PDUSessionResourceModifyRequestTransfer = StructKind
    [(''ProtocolIEs'', '''', ProtocolIEContainerPDUSessionResourceModifyRequestTransferIEs)]"

definition PDUSessionResourceSetupRequestTransfer :: gtype where
  "PDUSessionResourceSetupRequestTransfer = StructKind
    [(''ProtocolIEs'', '''', ProtocolIEContainerPDUSessionResourceSetupRequestTransferIEs)]"

definition PWSCancelResponse :: gtype where
  "PWSCancelResponse = StructKind
    [(''ProtocolIEs'', '''', ProtocolIEContainerPWSCancelResponseIEs)]"

definition PathSwitchRequestAcknowledge :: gtype where
  "PathSwitchRequestAcknowledge = StructKind
    [(''ProtocolIEs'', '''', ProtocolIEContainerPathSwitchRequestAcknowledgeIEs)]"

definition ProtocolIEContainerNGSetupRequestIEs :: gtype where
  "ProtocolIEContainerNGSetupRequestIEs = StructKind
    [(''List'', ''sizeLB:0,sizeUB:65535'', SliceKind NGSetupRequestIEs)]"

definition ProtocolIEContainerPagingIEs :: gtype where
  "ProtocolIEContainerPagingIEs = StructKind
    [(''List'', ''sizeLB:0,sizeUB:65535'', SliceKind PagingIEs)]"

definition ProtocolIEContainerRANConfigurationUpdateIEs :: gtype where
  "ProtocolIEContainerRANConfigurationUpdateIEs = StructKind
    [(''List'', ''sizeLB:0,sizeUB:65535'', SliceKind RANConfigurationUpdateIEs)]"

definition ProtocolIEContainerUEContextReleaseCompleteIEs :: gtype where
  "ProtocolIEContainerUEContextReleaseCompleteIEs = StructKind
    [(''List'', ''sizeLB:0,sizeUB:65535'', SliceKind UEContextReleaseCompleteIEs)]"

definition UEContextModificationRequest :: gtype where
  "UEContextModificationRequest = StructKind
    [(''ProtocolIEs'', '''', ProtocolIEContainerUEContextModificationRequestIEs)]"

definition UplinkRANConfigurationTransfer :: gtype where
  "UplinkRANConfigurationTransfer = StructKind
    [(''ProtocolIEs'', '''', ProtocolIEContainerUplinkRANConfigurationTransferIEs)]"

definition UplinkRANStatusTransfer :: gtype where
  "UplinkRANStatusTransfer = StructKind
    [(''ProtocolIEs'', '''', ProtocolIEContainerUplinkRANStatusTransferIEs)]"

definition WriteReplaceWarningResponse :: gtype where
  "WriteReplaceWarningResponse = StructKind
    [(''ProtocolIEs'', '''', ProtocolIEContainerWriteReplaceWarningResponseIEs)]"

definition NGSetupRequest :: gtype where
  "NGSetupRequest = StructKind
    [(''ProtocolIEs'', '''', ProtocolIEContainerNGSetupRequestIEs)]"

definition Paging :: gtype where
  "Paging = StructKind
    [(''ProtocolIEs'', '''', ProtocolIEContainerPagingIEs)]"

definition ProtocolIEContainerHandoverRequestIEs :: gtype where
  "ProtocolIEContainerHandoverRequestIEs = StructKind
    [(''List'', ''sizeLB:0,sizeUB:65535'', SliceKind HandoverRequestIEs)]"

definition ProtocolIEContainerLocationReportIEs :: gtype where
  "ProtocolIEContainerLocationReportIEs = StructKind
    [(''List'', ''sizeLB:0,sizeUB:65535'', SliceKind LocationReportIEs)]"

definition ProtocolIEContainerLocationReportingControlIEs :: gtype where
  "ProtocolIEContainerLocationReportingControlIEs = StructKind
    [(''List'', ''sizeLB:0,sizeUB:65535'', SliceKind LocationReportingControlIEs)]"

definition RANConfigurationUpdate :: gtype where
  "RANConfigurationUpdate = StructKind
    [(''ProtocolIEs'', '''', ProtocolIEContainerRANConfigurationUpdateIEs)]"

definition UEContextReleaseComplete :: gtype where
  "UEContextReleaseComplete = StructKind
    [(''ProtocolIEs'', '''', ProtocolIEContainerUEContextReleaseCompleteIEs)]"

definition HandoverRequest :: gtype where
  "HandoverRequest = StructKind
    [(''ProtocolIEs'', '''', ProtocolIEContainerHandoverRequestIEs)]"

definition LocationReport :: gtype where
  "LocationReport = StructKind
    [(''ProtocolIEs'', '''', ProtocolIEContainerLocationReportIEs)]"

definition LocationReportingControl :: gtype where
  "LocationReportingControl = StructKind
    [(''ProtocolIEs'', '''', ProtocolIEContainerLocationReportingControlIEs)]"

definition SuccessfulOutcomeValue :: gtype where
  "SuccessfulOutcomeValue = StructKind
    [(''Present'', '''', IntKind 64),
     (''AMFConfigurationUpdateAcknowledge'', ''valueExt,referenceFieldValue:0'', PtrKind AMFConfigurationUpdateAcknowledge),
     (''HandoverCancelAcknowledge'', ''valueExt,referenceFieldValue:10'', PtrKind HandoverCancelAcknowledge),
     (''HandoverCommand'', ''valueExt,referenceFieldValue:12'', PtrKind HandoverCommand),
     (''HandoverRequestAcknowledge'', ''valueExt,referenceFieldValue:13'', PtrKind HandoverRequestAcknowledge),
     (''InitialContextSetupResponse'', ''valueExt,referenceFieldValue:14'', PtrKind InitialContextSetupResponse),
     (''NGResetAcknowledge'', ''valueExt,referenceFieldValue:20'', PtrKind NGResetAcknowledge),
     (''NGSetupResponse'', ''valueExt,referenceFieldValue:21'', PtrKind NGSetupResponse),
     (''PathSwitchRequestAcknowledge'', ''valueExt,referenceFieldValue:25'', PtrKind PathSwitchRequestAcknowledge),
     (''PDUSessionResourceModifyResponse'', ''valueExt,referenceFieldValue:26'', PtrKind PDUSessionResourceModifyResponse),
     (''PDUSessionResourceModifyConfirm'', ''valueExt,referenceFieldValue:27'', PtrKind PDUSessionResourceModifyConfirm),
     (''PDUSessionResourceReleaseResponse'', ''valueExt,referenceFieldValue:28'', PtrKind PDUSessionResourceReleaseResponse),
     (''PDUSessionResourceSetupResponse'', ''valueExt,referenceFieldValue:29'', PtrKind PDUSessionResourceSetupResponse),
     (''PWSCancelResponse'', ''valueExt,referenceFieldValue:32'', PtrKind PWSCancelResponse),
     (''RANConfigurationUpdateAcknowledge'', ''valueExt,referenceFieldValue:35'', PtrKind RANConfigurationUpdateAcknowledge),
     (''UEContextModificationResponse'', ''valueExt,referenceFieldValue:40'', PtrKind UEContextModificationResponse),
     (''UEContextReleaseComplete'', ''valueExt,referenceFieldValue:41'', PtrKind UEContextReleaseComplete),
     (''UERadioCapabilityCheckResponse'', ''valueExt,referenceFieldValue:43'', PtrKind UERadioCapabilityCheckResponse),
     (''WriteReplaceWarningResponse'', ''valueExt,referenceFieldValue:51'', PtrKind WriteReplaceWarningResponse)]"

definition InitiatingMessageValue :: gtype where
  "InitiatingMessageValue = StructKind
    [(''Present'', '''', IntKind 64),
     (''AMFConfigurationUpdate'', ''valueExt,referenceFieldValue:0'', PtrKind AMFConfigurationUpdate),
     (''HandoverCancel'', ''valueExt,referenceFieldValue:10'', PtrKind HandoverCancel),
     (''HandoverRequired'', ''valueExt,referenceFieldValue:12'', PtrKind HandoverRequired),
     (''HandoverRequest'', ''valueExt,referenceFieldValue:13'', PtrKind HandoverRequest),
     (''InitialContextSetupRequest'', ''valueExt,referenceFieldValue:14'', PtrKind InitialContextSetupRequest),
     (''NGReset'', ''valueExt,referenceFieldValue:20'', PtrKind NGReset),
     (''NGSetupRequest'', ''valueExt,referenceFieldValue:21'', PtrKind NGSetupRequest),
     (''PathSwitchRequest'', ''valueExt,referenceFieldValue:25'', PtrKind PathSwitchRequest),
     (''PDUSessionResourceModifyRequest'', ''valueExt,referenceFieldValue:26'', PtrKind PDUSessionResourceModifyRequest),
     (''PDUSessionResourceModifyIndication'', ''valueExt,referenceFieldValue:27'', PtrKind PDUSessionResourceModifyIndication),
     (''PDUSessionResourceReleaseCommand'', ''valueExt,referenceFieldValue:28'', PtrKind PDUSessionResourceReleaseCommand),
     (''PDUSessionResourceSetupRequest'', ''valueExt,referenceFieldValue:29'', PtrKind PDUSessionResourceSetupRequest),
     (''PWSCancelRequest'', ''valueExt,referenceFieldValue:32'', PtrKind PWSCancelRequest),
     (''RANConfigurationUpdate'', ''valueExt,referenceFieldValue:35'', PtrKind RANConfigurationUpdate),
     (''UEContextModificationRequest'', ''valueExt,referenceFieldValue:40'', PtrKind UEContextModificationRequest),
     (''UEContextReleaseCommand'', ''valueExt,referenceFieldValue:41'', PtrKind UEContextReleaseCommand),
     (''UERadioCapabilityCheckRequest'', ''valueExt,referenceFieldValue:43'', PtrKind UERadioCapabilityCheckRequest),
     (''WriteReplaceWarningRequest'', ''valueExt,referenceFieldValue:51'', PtrKind WriteReplaceWarningRequest),
     (''AMFStatusIndication'', ''valueExt,referenceFieldValue:1'', PtrKind AMFStatusIndication),
     (''CellTrafficTrace'', ''valueExt,referenceFieldValue:2'', PtrKind CellTrafficTrace),
     (''DeactivateTrace'', ''valueExt,referenceFieldValue:3'', PtrKind DeactivateTrace),
     (''DownlinkNASTransport'', ''valueExt,referenceFieldValue:4'', PtrKind DownlinkNASTransport),
     (''DownlinkNonUEAssociatedNRPPaTransport'', ''valueExt,referenceFieldValue:5'', PtrKind DownlinkNonUEAssociatedNRPPaTransport),
     (''DownlinkRANConfigurationTransfer'', ''valueExt,referenceFieldValue:6'', PtrKind DownlinkRANConfigurationTransfer),
     (''DownlinkRANStatusTransfer'', ''valueExt,referenceFieldValue:7'', PtrKind DownlinkRANStatusTransfer),
     (''DownlinkUEAssociatedNRPPaTransport'', ''valueExt,referenceFieldValue:8'', PtrKind DownlinkUEAssociatedNRPPaTransport),
     (''ErrorIndication'', ''valueExt,referenceFieldValue:9'', PtrKind ErrorIndication),
     (''HandoverNotify'', ''valueExt,referenceFieldValue:11'', PtrKind HandoverNotify),
     (''InitialUEMessage'', ''valueExt,referenceFieldValue:15'', PtrKind InitialUEMessage),
     (''LocationReport'', ''valueExt,referenceFieldValue:18'', PtrKind LocationReport),
     (''LocationReportingControl'', ''valueExt,referenceFieldValue:16'', PtrKind LocationReportingControl),
     (''LocationReportingFailureIndication'', ''valueExt,referenceFieldValue:17'', PtrKind LocationReportingFailureIndication),
     (''NASNonDeliveryIndication'', ''valueExt,referenceFieldValue:19'', PtrKind NASNonDeliveryIndication),
     (''OverloadStart'', ''valueExt,referenceFieldValue:22'', PtrKind OverloadStart),
     (''OverloadStop'', ''valueExt,referenceFieldValue:23'', PtrKind OverloadStop),
     (''Paging'', ''valueExt,referenceFieldValue:24'', PtrKind Paging),
     (''PDUSessionResourceNotify'', ''valueExt,referenceFieldValue:30'', PtrKind PDUSessionResourceNotify),
     (''PrivateMessage'', ''valueExt,referenceFieldValue:31'', PtrKind PrivateMessage),
     (''PWSFailureIndication'', ''valueExt,referenceFieldValue:33'', PtrKind PWSFailureIndication),
     (''PWSRestartIndication'', ''valueExt,referenceFieldValue:34'', PtrKind PWSRestartIndication),
     (''RerouteNASRequest'', ''valueExt,referenceFieldValue:36'', PtrKind RerouteNASRequest),
     (''RRCInactiveTransitionReport'', ''valueExt,referenceFieldValue:37'', PtrKind RRCInactiveTransitionReport),
     (''TraceFailureIndication'', ''valueExt,referenceFieldValue:38'', PtrKind TraceFailureIndication),
     (''TraceStart'', ''valueExt,referenceFieldValue:39'', PtrKind TraceStart),
     (''UEContextReleaseRequest'', ''valueExt,referenceFieldValue:42'', PtrKind UEContextReleaseRequest),
     (''UERadioCapabilityInfoIndication'', ''valueExt,referenceFieldValue:44'', PtrKind UERadioCapabilityInfoIndication),
     (''UETNLABindingReleaseRequest'', ''valueExt,referenceFieldValue:45'', PtrKind UETNLABindingReleaseRequest),
     (''UplinkNASTransport'', ''valueExt,referenceFieldValue:46'', PtrKind UplinkNASTransport),
     (''UplinkNonUEAssociatedNRPPaTransport'', ''valueExt,referenceFieldValue:47'', PtrKind UplinkNonUEAssociatedNRPPaTransport),
     (''UplinkRANConfigurationTransfer'', ''valueExt,referenceFieldValue:48'', PtrKind UplinkRANConfigurationTransfer),
     (''UplinkRANStatusTransfer'', ''valueExt,referenceFieldValue:49'', PtrKind UplinkRANStatusTransfer),
     (''UplinkUEAssociatedNRPPaTransport'', ''valueExt,referenceFieldValue:50'', PtrKind UplinkUEAssociatedNRPPaTransport)]"

definition SuccessfulOutcome :: gtype where
  "SuccessfulOutcome = StructKind
    [(''ProcedureCode'', '''', ProcedureCode),
     (''Criticality'', '''', Criticality),
     (''Value'', ''openType,referenceFieldName:ProcedureCode'', SuccessfulOutcomeValue)]"

definition InitiatingMessage :: gtype where
  "InitiatingMessage = StructKind
    [(''ProcedureCode'', '''', ProcedureCode),
     (''Criticality'', '''', Criticality),
     (''Value'', ''openType,referenceFieldName:ProcedureCode'', InitiatingMessageValue)]"

definition NGAPPDU :: gtype where
  "NGAPPDU = StructKind
    [(''Present'', '''', IntKind 64),
     (''InitiatingMessage'', '''', PtrKind InitiatingMessage),
     (''SuccessfulOutcome'', '''', PtrKind SuccessfulOutcome),
     (''UnsuccessfulOutcome'', '''', PtrKind UnsuccessfulOutcome)]"

end
