(* ===== verification/NGAP.thy ===== *)
theory NGAP
  imports APER_Correct NGAP_PDU
begin

text \<open>
  The entry points of \<^verbatim>\<open>lib/ngap/ngap.go\<close>: the PER codec applied to the type of NGAP protocol data units.
\<close>

definition pdu_params :: string where
  "pdu_params = ''valueExt,valueLB:0,valueUB:2''"

definition Encoder :: "gval \<Rightarrow> bytes res" where
  "Encoder pdu = MarshalWithParams NGAPPDU pdu pdu_params"

definition Decoder :: "bytes \<Rightarrow> gval res" where
  "Decoder b = UnmarshalWithParams b NGAPPDU pdu_params"

text \<open>An NG SETUP FAILURE with the cause "unspecified" and a time to wait of 5 s.\<close>

fun choice :: "gtype \<Rightarrow> nat \<Rightarrow> gval \<Rightarrow> gval" where
  "choice (StructKind fs) k v = choice_value fs k (PtrV (Some v))"
| "choice t k v = v"

definition item :: "int \<Rightarrow> u64 \<Rightarrow> gval \<Rightarrow> gval" where
  "item i criticality v = StructV [StructV [IntV i], StructV [EnumeratedV criticality], v]"

lemma tags:
  "parseFieldParameters [] = no_parameters"
  "parseFieldParameters pdu_params = no_parameters\<lparr>valueExtensible := True, valueLowerBound := Some 0, valueUpperBound := Some 2\<rparr>"
  "parseFieldParameters ''openType,referenceFieldName:ProcedureCode'' = no_parameters\<lparr>openType := True, referenceFieldName := ''ProcedureCode''\<rparr>"
  "parseFieldParameters ''openType,referenceFieldName:Id'' = no_parameters\<lparr>openType := True, referenceFieldName := ''Id''\<rparr>"
  "parseFieldParameters ''sizeLB:0,sizeUB:65535'' = no_parameters\<lparr>sizeLowerBound := Some 0, sizeUpperBound := Some 65535\<rparr>"
  "parseFieldParameters ''valueLB:0,valueUB:255'' = no_parameters\<lparr>valueLowerBound := Some 0, valueUpperBound := Some 255\<rparr>"
  "parseFieldParameters ''valueLB:0,valueUB:2'' = no_parameters\<lparr>valueLowerBound := Some 0, valueUpperBound := Some 2\<rparr>"
  "parseFieldParameters ''valueLB:0,valueUB:65535'' = no_parameters\<lparr>valueLowerBound := Some 0, valueUpperBound := Some 65535\<rparr>"
  "parseFieldParameters ''valueExt,valueLB:0,valueUB:5'' = no_parameters\<lparr>valueExtensible := True, valueLowerBound := Some 0, valueUpperBound := Some 5\<rparr>"
  "parseFieldParameters ''referenceFieldValue:15,valueLB:0,valueUB:5'' =
     no_parameters\<lparr>referenceFieldValue := Some 15, valueLowerBound := Some 0, valueUpperBound := Some 5\<rparr>"
  "parseFieldParameters ''referenceFieldValue:107'' = no_parameters\<lparr>referenceFieldValue := Some 107\<rparr>"
  "parseFieldParameters ''valueExt,referenceFieldValue:19'' = no_parameters\<lparr>valueExtensible := True, referenceFieldValue := Some 19\<rparr>"
  "parseFieldParameters ''valueExt,referenceFieldValue:0'' = no_parameters\<lparr>valueExtensible := True, referenceFieldValue := Some 0\<rparr>"
  "parseFieldParameters ''valueExt,referenceFieldValue:12'' = no_parameters\<lparr>valueExtensible := True, referenceFieldValue := Some 12\<rparr>"
  "parseFieldParameters ''valueExt,referenceFieldValue:13'' = no_parameters\<lparr>valueExtensible := True, referenceFieldValue := Some 13\<rparr>"
  "parseFieldParameters ''valueExt,referenceFieldValue:14'' = no_parameters\<lparr>valueExtensible := True, referenceFieldValue := Some 14\<rparr>"
  "parseFieldParameters ''valueExt,referenceFieldValue:21'' = no_parameters\<lparr>valueExtensible := True, referenceFieldValue := Some 21\<rparr>"
  "parseFieldParameters ''valueExt,referenceFieldValue:25'' = no_parameters\<lparr>valueExtensible := True, referenceFieldValue := Some 25\<rparr>"
  "parseFieldParameters ''valueExt,referenceFieldValue:35'' = no_parameters\<lparr>valueExtensible := True, referenceFieldValue := Some 35\<rparr>"
  "parseFieldParameters ''valueExt,referenceFieldValue:40'' = no_parameters\<lparr>valueExtensible := True, referenceFieldValue := Some 40\<rparr>"
  unfolding pdu_params_def
  by (simp_all add: parseFieldParameters_def no_parameters_def parse_part_def has_prefix_def set_number_def ParseInt_def)

lemma no_parameters_sel [simp]:
  "optional no_parameters = False" "sizeExtensible no_parameters = False" "valueExtensible no_parameters = False"
  "sizeLowerBound no_parameters = None" "sizeUpperBound no_parameters = None" "valueLowerBound no_parameters = None"
  "valueUpperBound no_parameters = None" "openType no_parameters = False" "referenceFieldValue no_parameters = None"
  "referenceFieldName no_parameters = []"
  by (simp_all add: no_parameters_def)

lemma eval_index [simp]:
  "make_at b (f # fs) (v # vs) (numeral n) = make_at b fs vs (pred_numeral n)"
  "codable_at b (f # fs) (v # vs) (numeral n) = codable_at b fs vs (pred_numeral n)"
  "parse_at b (f # fs) (numeral n) = parse_at b fs (pred_numeral n)"
  "ref_at (f # fs) (v # vs) (numeral n) = ref_at fs vs (pred_numeral n)"
  by (simp_all add: numeral_eq_Suc)

lemma two_octets [simp]: "replicate 2 x = [x, x]"
  by (simp add: numeral_2_eq_2)

lemma bit_counts [simp]: "[Suc 0..<9] = [1, 2, 3, 4, 5, 6, 7, 8]"
  by (simp add: upt_rec)

lemmas eval_encoder = encoded_length_def appendOpenType_def put_count_def low_bound_def without_size_def int64_def
  appendChoiceIndex_def appendEnumerated_def appendInteger_def appendConstraintValue_def putBitsValue_def putBitString_def
  range_bits_def append_bytes_def appendAlignBits_def or_last_def ignore_err_def idx_def handle_def GetBitString_def bind_def sequence_type_def exported_def
  tag_params_def open_reference_def choice_value_def item_def appendLength_def fragment_def Let_def

lemmas eval_codable = sequence_type_def exported_def tag_params_def open_reference_def choice_value_def item_def count_ok_def low_bound_def
  without_size_def Let_def

abbreviation (input) "buffer b n \<equiv> \<lparr>raw_bytes = b, raw_off = n\<rparr>"

definition failure_cause :: gval where
  "failure_cause = choice Cause 5 (StructV [EnumeratedV 4])"

definition failure_ies :: gval where
  "failure_ies = StructV [StructV [SliceV (Some [
     item 15 1 (choice NGSetupFailureIEsValue 1 failure_cause),
     item 107 1 (choice NGSetupFailureIEsValue 2 (StructV [EnumeratedV 2]))])]]"

definition setup_failure :: gval where
  "setup_failure = choice NGAPPDU 3 (item 21 0 (choice UnsuccessfulOutcomeValue 5 failure_ies))"

lemma cause_encoded:
  "makeField (no_parameters\<lparr>referenceFieldValue := Some 15, valueLowerBound := Some 0, valueUpperBound := Some 5\<rparr>) Cause failure_cause (buffer [] 0) =
    (Inr (), buffer [0x88] 7)"
  by (simp add: failure_cause_def Cause_def CauseMisc_def tags eval_encoder)

lemma cause_codable:
  "codable (no_parameters\<lparr>referenceFieldValue := Some 15, valueLowerBound := Some 0, valueUpperBound := Some 5\<rparr>) Cause failure_cause"
  by (simp add: failure_cause_def Cause_def CauseMisc_def tags eval_codable)

lemma time_encoded:
  "makeField (no_parameters\<lparr>referenceFieldValue := Some 107\<rparr>) TimeToWait (StructV [EnumeratedV 2]) (buffer [] 0) = (Inr (), buffer [0x20] 4)"
  by (simp add: TimeToWait_def tags eval_encoder)

lemma time_codable: "codable (no_parameters\<lparr>referenceFieldValue := Some 107\<rparr>) TimeToWait (StructV [EnumeratedV 2])"
  by (simp add: TimeToWait_def tags eval_codable)

lemma ies_encoded:
  "makeField (no_parameters\<lparr>valueExtensible := True, referenceFieldValue := Some 21\<rparr>) NGSetupFailure failure_ies (buffer [] 0) =
    (Inr (), buffer [0, 0, 2, 0, 15, 0x40, 1, 0x88, 0, 107, 0x40, 1, 0x20] 0)"
  by (simp add: failure_ies_def NGSetupFailure_def ProtocolIEContainerNGSetupFailureIEs_def NGSetupFailureIEs_def NGSetupFailureIEsValue_def
      ProtocolIEID_def Criticality_def tags eval_encoder cause_encoded time_encoded octets_loop.simps)

lemma ies_codable: "codable (no_parameters\<lparr>valueExtensible := True, referenceFieldValue := Some 21\<rparr>) NGSetupFailure failure_ies"
  by (simp add: failure_ies_def NGSetupFailure_def ProtocolIEContainerNGSetupFailureIEs_def NGSetupFailureIEs_def NGSetupFailureIEsValue_def
      ProtocolIEID_def Criticality_def tags eval_codable cause_codable time_codable encoded_length_def cause_encoded time_encoded)

lemma setup_failure_codable: "codable (parseFieldParameters pdu_params) NGAPPDU setup_failure"
  by (simp add: setup_failure_def NGAPPDU_def UnsuccessfulOutcome_def UnsuccessfulOutcomeValue_def ProcedureCode_def Criticality_def
      tags eval_codable ies_codable encoded_length_def ies_encoded)

section \<open>Properties\<close>



text \<open>The message on the wire.\<close>

lemma setup_failure_encoded: "Encoder setup_failure = Inr [0x40, 21, 0, 13, 0, 0, 2, 0, 15, 0x40, 1, 0x88, 0, 107, 0x40, 1, 0x20]"
  by (simp add: Encoder_def MarshalWithParams_def setup_failure_def NGAPPDU_def UnsuccessfulOutcome_def UnsuccessfulOutcomeValue_def
      ProcedureCode_def Criticality_def tags eval_encoder ies_encoded octets_loop.simps)

end
