(* ===== verification/Spec2Isabelle.thy ===== *)
theory Spec2Isabelle
  imports IKE_Build IKE_Safety PFCP_Safety PFCP_Server SMF_Deactivation NAS_Safety NAS_Field_Table AMF_Security NGAP
begin

text \<open>
  Verification of the Go code of free5GC: the protocol codecs through which a core network talks to radio access,
  user equipment and user plane, and the part of the session management function (SMF) that plans data paths and
  installs their forwarding rules. File names below are relative to \<^verbatim>\<open>src/\<close> of the repository.

  \<^bold>\<open>The program.\<close> free5GC is a set of network functions. The N3IWF accepts user equipment over untrusted access by IKEv2
  (\<^verbatim>\<open>src/n3iwf/ike\<close>). The AMF receives NGAP messages from the radio network, encoded by the aligned PER codec
  (\<^verbatim>\<open>lib/ngap\<close>, \<^verbatim>\<open>lib/aper\<close>), and in them NAS messages from the user equipment (\<^verbatim>\<open>lib/nas\<close>). The SMF chooses a path of
  user plane functions (UPFs) for every session (\<^verbatim>\<open>src/smf/context\<close>), takes rule and tunnel identifiers from
  \<^verbatim>\<open>lib/idgenerator\<close> and tells each UPF its rules by PFCP (\<^verbatim>\<open>lib/pfcp\<close>), whose messages are encoded by a reflective
  type-length-value codec (\<^verbatim>\<open>lib/tlv\<close>). The other functions (AUSF, UDM, UDR, PCF, NRF, NSSF) are HTTP services around a
  document data base.

  \<^bold>\<open>Go in HOL.\<close> \<open>Go_Prelude\<close>: machine integers are words, and a function that can fail returns \<open>fault + 'a\<close>, where the
  fault is either a returned error with its message (\<open>Err\<close>) or a run-time panic (\<open>Panic\<close>); an index or a slice
  expression out of range is \<open>Panic\<close>. \<open>Go_State\<close>: a function that also changes a heap, a buffer or a reader maps the state
  to its outcome and the state it leaves; objects that pointers refer to are list entries, pointers are indices.
  \<open>Go_Codec\<close>: the interfaces between the layers of codecs. \<open>binary_codec\<close> is what an element codec promises (the
  decoder gives back an encoded well-formed value, whatever the capacity of the slice), \<open>safe_binary_codec\<close> adds that
  no input makes the decoder panic, and \<open>framed_loop\<close> is a loop over self-delimiting items. Every element and payload
  codec below is an instance; message codecs rest on the interface alone. \<open>tlv_leaves\<close> in \<open>TLV_Roundtrip\<close> is what the
  reflective codec expects of its leaves, and \<open>id_pool\<close> in \<open>ID_Generator\<close> what a client of an identifier pool expects.

  \<^bold>\<open>N3IWF IKE.\<close> \<open>IKE_Types\<close>, \<open>IKE_Payload\<close>, \<open>IKE_SA\<close>, \<open>IKE_Selector\<close>, \<open>IKE_EAP\<close> and \<open>IKE_Message\<close> are
  \<^verbatim>\<open>message/message.go\<close>: one group of definitions per payload type (\<open>X_marshal\<close>, \<open>X_unmarshal\<close>), the payload chain and the
  header. \<open>IKE_Build\<close> is \<^verbatim>\<open>message/build.go\<close> and \<open>IKE_Safety\<close> the behaviour on bytes that no encoder wrote, with the
  dispatcher. Shown: every well-formed message is decoded to itself; the built messages are well-typed; which payload
  types can panic and on which bytes; what is skipped or lost.

  \<^bold>\<open>PFCP.\<close> \<open>PFCP_Reader\<close>, \<open>PFCP_Scalar\<close>, \<open>PFCP_Flags\<close>, \<open>PFCP_Address\<close>, \<open>PFCP_Tunnel\<close>, \<open>PFCP_Text\<close>, \<open>PFCP_Volume\<close> and
  \<open>PFCP_Time\<close> are the element codecs of \<^verbatim>\<open>lib/pfcp/pfcpType\<close>, with their 16-bit offsets, and \<open>PFCP_IE\<close> collects them behind
  the interface of the reflective codec. \<open>TLV\<close> is \<^verbatim>\<open>lib/tlv\<close> over explicit Go types and values, \<open>TLV_Roundtrip\<close> its round
  trip. \<open>PFCP_Types\<close> has the message structs as data, \<open>PFCP_Header\<close> and \<open>PFCP_Message\<close> the message codec. \<open>PFCP_Safety\<close> holds
  the theorems: round trips of elements, structs and messages; which element decoders panic, and when. \<open>PFCP_Server\<close> is
  the delivery of requests and responses: the tables of transactions as stateful operations that implement a map, and
  the goroutines of the server and of the transactions as a step relation, with reachable states, termination, a bound
  on the number of sends and the deadlock of the reader. The number of retransmissions there is the constant of the code.

  \<^bold>\<open>Identifiers and SMF.\<close> \<open>ID_Generator\<close>: allocation finds the next free identifier or fails exactly when there is none;
  identifiers that are held stay distinct under every history. \<open>SMF_UPF\<close>: a UPF with its pools of rules, the rule
  invariant and the association handlers. \<open>SMF_Topology\<close>: the depth-first path search is exact with respect to
  reachability, and the default path serves the data network. \<open>SMF_DataPath\<close>, \<open>SMF_Rules\<close>, \<open>SMF_Activation\<close> and
  \<open>SMF_Deactivation\<close>: data paths as doubly linked lists of nodes on a heap, their construction from a path of the
  topology, the rules that activation installs (every tunnel end forwards to the TEID of its neighbour) and what
  deactivation leaves behind.

  \<^bold>\<open>NAS.\<close> \<open>NAS_IE\<close> and \<open>NAS_Type_Table\<close>: the element structs of \<^verbatim>\<open>lib/nas/nasType\<close> with constructors, identifier and length
  accessors. \<open>NAS_Field_Table\<close>: the getters and setters of bit fields, one definition per pair. \<open>NAS_Codec\<close>: the statements
  from which the encoders and decoders of \<^verbatim>\<open>lib/nas/nasMessage\<close> are built and their meaning; \<open>NAS_Message_Table\<close>: the
  statements of all 45 messages. \<open>NAS\<close>: the dispatch of \<^verbatim>\<open>lib/nas/nas.go\<close>. \<open>NAS_Codec_Safety\<close> and \<open>NAS_Safety\<close>: what arbitrary
  octets do. Shown: round trips of messages and of the entry points, independence of the bit fields, the exact
  conditions for errors and panics.

  \<^bold>\<open>NAS security.\<close> \<open>NAS_Snow3g\<close> and \<open>NAS_Security\<close> are \<^verbatim>\<open>lib/nas/security\<close>: the SNOW 3G generator, which reproduces test vectors of
  its specification, the counters of 24 bits, the algorithms NEA1, NEA2, NIA1 and NIA2 with AES and CMAC as parameters.
  \<open>AMF_Security\<close> is \<^verbatim>\<open>src/amf/nas/nas_security/security.go\<close> over the security fields of a UE context, against the simulated
  user equipment of \<^verbatim>\<open>src/test/security.go\<close>. Shown: ciphering twice is the identity; what the user equipment protects is decoded
  and verified by the AMF with both counters in step; no downlink counter is used twice in a security context; what a
  datagram can do that was made without a key. The hypotheses on the ciphers, \<open>block_cipher\<close>, are the lengths of their
  results.

  \<^bold>\<open>PER and NGAP.\<close> \<open>APER_Bits\<close>: bit strings of octets and their extraction (\<^verbatim>\<open>GetBitString\<close>, \<^verbatim>\<open>GetBitsValue\<close>). \<open>APER_Writer\<close> and
  \<open>APER_Reader\<close>: the buffer \<^verbatim>\<open>perRawBitData\<close>, the reader \<^verbatim>\<open>perBitData\<close> and the encodings of single values. \<open>APER_Primitive\<close>
  and \<open>APER_Number\<close>: writer and reader agree for bit strings, octet strings, lengths, integers, enumerations and choice
  indices. The relation \<open>codes\<close> there says which bits a writer appends at which alignment, and it composes. \<open>APER_Type\<close>: field
  tags, types and values; \<open>APER\<close>: \<^verbatim>\<open>makeField\<close> and \<^verbatim>\<open>parseField\<close> over them. \<open>APER_Roundtrip\<close> and \<open>APER_Correct\<close>: the values that
  the codec gives back, and the round trip for every type. \<open>NGAP_Elements\<close>, \<open>NGAP_Structures\<close> and \<open>NGAP_PDU\<close>: the structs
  of \<^verbatim>\<open>lib/ngap/ngapType\<close> with names and tags as in the code, one definition each. \<open>NGAP\<close>: the entry points of
  \<^verbatim>\<open>lib/ngap/ngap.go\<close> and their round trip, with a setup failure message whose octets are computed.

  \<^bold>\<open>Recursion.\<close> Loops over octets and over fields are structural or end by a measure. Fuel occurs in two places: the path
  search of \<open>SMF_Topology\<close>, where it bounds the depth of the recursion and the number of nodes is enough because every
  nested call visits a new node, and the walks along the \<^verbatim>\<open>Next\<close> pointers in \<open>SMF_DataPath\<close>, where the length of the list
  is enough. The theorems about them include that they return.

  \<^bold>\<open>Preconditions.\<close> The predicates \<open>..._wf\<close>, \<open>wf_val\<close> and \<open>codable\<close> of the round trips name the values that the wire format
  can carry: fields within their widths, strings within their length fields, the present field of a choice. Where the
  code accepts a value outside of them and loses data, a theorem or a recorded finding says how.

  \<^bold>\<open>Not modelled.\<close> Log and trace output; sockets, timers and the HTTP services (the network functions beside SMF and
  N3IWF, \<^verbatim>\<open>lib/openapi\<close>, \<^verbatim>\<open>lib/MongoDBLibrary\<close>, \<^verbatim>\<open>src/webconsole\<close>), which pass JSON documents between a router and a data base.
  The handlers of NGAP, NAS and IKE exchanges (\<^verbatim>\<open>src/amf\<close>, \<^verbatim>\<open>src/n3iwf/ngap\<close>, \<^verbatim>\<open>src/n3iwf/ike/handler\<close>), which read decoded
  messages into a context of some hundred fields and call these services. The key derivations (\<^verbatim>\<open>lib/milenage\<close>,
  \<^verbatim>\<open>lib/UeauCommon\<close>), which rest on AES and HMAC of the Go library; the state of SNOW 3G is passed explicitly, so that calls
  of several goroutines at once, which share it in the code, are outside of the model. \<^verbatim>\<open>src/smaf\<close>, which repeats the SMF
  code. Types behind \<^verbatim>\<open>interface{}\<close> and recursive types in the PER codec; no NGAP type has them.
\<close>

end
